(* ===== verification/Prelude.thy ===== *)
theory Prelude
  imports Complex_Main "HOL-Library.AList" "HOL-Library.Char_ord" "HOL-Library.Product_Lexorder"
begin

section \<open>Prelude\<close>

text \<open>
  Material every component shares: the collections of simplification rules, tables of
  rows keyed by a primary key (the database tables of the Django models), transactions
  with rollback, JSON values with Python's equality and truth value, binary floating
  point rounding, and a few facts on lists and strings.

  Timestamps are integers counting microseconds, the resolution of Python's
  \<open>datetime\<close>. An operation that reads the clock takes a function
  \<open>clk :: nat \<Rightarrow> int\<close>: \<open>clk 0\<close>, \<open>clk 1\<close>, \<dots> are the values returned by its
  successive calls of \<open>timezone.now()\<close>, so no two calls are assumed to agree.
\<close>

named_theorems row_simps \<open>reading a table after writing it\<close>
named_theorems svc_simps \<open>unfolding transactional services\<close>
named_theorems gate_defs \<open>definitions of the guarded row transitions\<close>

subsection \<open>Tables\<close>

type_synonym 'r rows = "(nat \<times> 'r) list"

abbreviation row_get :: "'r rows \<Rightarrow> nat \<Rightarrow> 'r option" where
  "row_get t k \<equiv> map_of t k"

abbreviation row_put :: "nat \<Rightarrow> 'r \<Rightarrow> 'r rows \<Rightarrow> 'r rows" where
  "row_put k r t \<equiv> AList.update k r t"

definition row_ids :: "'r rows \<Rightarrow> nat list" where
  "row_ids t = map fst t"

definition rows_where :: "(nat \<Rightarrow> 'r \<Rightarrow> bool) \<Rightarrow> 'r rows \<Rightarrow> 'r rows" where
  "rows_where P t = filter (\<lambda>(k, r). P k r) t"

definition update_where :: "(nat \<Rightarrow> 'r \<Rightarrow> bool) \<Rightarrow> ('r \<Rightarrow> 'r) \<Rightarrow> 'r rows \<Rightarrow> 'r rows" where
  "update_where P f t = map (\<lambda>(k, r). (k, if P k r then f r else r)) t"

definition fresh_id :: "'r rows \<Rightarrow> nat" where
  "fresh_id t = Suc (foldr max (map fst t) 0)"

lemma row_get_put [row_simps, simp]:
  "row_get (row_put k r t) k' = (if k' = k then Some r else row_get t k')"
  by (simp add: update_conv')

lemma row_ids_put:
  "row_ids (row_put k r t) = (if k \<in> set (row_ids t) then row_ids t else row_ids t @ [k])"
  by (simp add: row_ids_def update_keys)

lemma distinct_row_put [intro]:
  "distinct (row_ids t) \<Longrightarrow> distinct (row_ids (row_put k r t))"
  by (simp add: row_ids_def distinct_update)

lemma row_get_None_iff: "row_get t k = None \<longleftrightarrow> k \<notin> set (row_ids t)"
  by (simp add: row_ids_def map_of_eq_None_iff)

text \<open>\<open>order_by("-created_at", "-id")\<close>.\<close>

definition newest_first :: "('r \<Rightarrow> int) \<Rightarrow> 'r rows \<Rightarrow> 'r rows" where
  "newest_first created t = rev (sort_key (\<lambda>(k, r). (created r, k)) t)"

lemma row_get_Some_in_ids: "row_get t k = Some r \<Longrightarrow> k \<in> set (row_ids t)"
  by (metis option.distinct(1) row_get_None_iff)

lemma row_get_update_where [row_simps, simp]:
  "row_get (update_where P f t) k = map_option (\<lambda>r. if P k r then f r else r) (row_get t k)"
  by (induction t) (auto simp: update_where_def)

lemma row_ids_update_where [row_simps, simp]: "row_ids (update_where P f t) = row_ids t"
  by (simp add: row_ids_def update_where_def case_prod_unfold)

lemma rows_where_get:
  "distinct (row_ids t) \<Longrightarrow> (k, r) \<in> set (rows_where P t) \<longleftrightarrow> row_get t k = Some r \<and> P k r"
  by (auto simp: rows_where_def row_ids_def)

lemma le_fresh: "k \<in> set ks \<Longrightarrow> k \<le> foldr max ks (0 :: nat)"
  by (induction ks) (auto simp: le_max_iff_disj)

lemma fresh_id_not_in [simp]: "fresh_id t \<notin> set (row_ids t)"
  using le_fresh [of "fresh_id t" "map fst t"] by (auto simp: fresh_id_def row_ids_def)

lemma row_get_fresh [row_simps, simp]: "row_get t (fresh_id t) = None"
  by (simp add: row_get_None_iff)

lemma row_get_neq_fresh: "row_get t k = Some r \<Longrightarrow> k \<noteq> fresh_id t"
  using row_get_fresh by force

subsection \<open>The interface of a table, and guarded transitions over it\<close>

text \<open>
  What a service relies on when it re-reads a row under \<open>select_for_update\<close> and saves it:
  reading a saved row gives it back, and saving one row leaves the others alone.
\<close>

locale row_store =
  fixes look :: "'t \<Rightarrow> nat \<Rightarrow> 'r option"
    and store :: "nat \<Rightarrow> 'r \<Rightarrow> 't \<Rightarrow> 't"
  assumes look_store: "look (store k r t) k = Some r"
    and look_other: "k' \<noteq> k \<Longrightarrow> look (store k r t) k' = look t k'"
begin

lemma look_store_if: "look (store k r t) k' = (if k' = k then Some r else look t k')"
  by (simp add: look_store look_other)

lemma store_overwrites: "look (store k r (store k r' t)) k' = look (store k r t) k'"
  by (simp add: look_store_if)

end

text \<open>
  The pattern every lifecycle in the backend repeats: lock the row, compare its status,
  write a new row only when the guard holds. \<open>enabled\<close> is the guard, \<open>trans\<close> the new
  row. The contract is that the transition disables its own guard, and that a terminal
  row has no enabled transition.
\<close>

locale guarded_row = row_store look store
  for look :: "'t \<Rightarrow> nat \<Rightarrow> 'r option" and store :: "nat \<Rightarrow> 'r \<Rightarrow> 't \<Rightarrow> 't" +
  fixes enabled :: "'r \<Rightarrow> bool"
    and trans :: "'r \<Rightarrow> 'r"
    and terminal :: "'r \<Rightarrow> bool"
  assumes trans_disables: "enabled r \<Longrightarrow> \<not> enabled (trans r)"
    and terminal_disabled: "terminal r \<Longrightarrow> \<not> enabled r"
begin

definition fire :: "nat \<Rightarrow> 't \<Rightarrow> 't \<times> bool" where
  "fire k t = (case look t k of
      None \<Rightarrow> (t, False)
    | Some r \<Rightarrow> if enabled r then (store k (trans r) t, True) else (t, False))"

lemma fire_wins: "look t k = Some r \<Longrightarrow> enabled r \<Longrightarrow> fire k t = (store k (trans r) t, True)"
  by (simp add: fire_def)

lemma fire_False_unchanged: "snd (fire k t) = False \<Longrightarrow> fst (fire k t) = t"
  by (auto simp: fire_def split: option.splits if_splits)

lemma fire_twice_loses: "snd (fire k (fst (fire k t))) = False"
  by (cases "look t k") (auto simp: fire_def look_store trans_disables)

lemma fire_keeps_terminal:
  "look t k' = Some r \<Longrightarrow> terminal r \<Longrightarrow> look (fst (fire k t)) k' = Some r"
  by (auto simp: fire_def look_store_if terminal_disabled split: option.splits)

lemma fire_frame: "k' \<noteq> k \<Longrightarrow> look (fst (fire k t)) k' = look t k'"
  by (auto simp: fire_def look_other split: option.splits)

primrec fires :: "nat \<Rightarrow> nat \<Rightarrow> 't \<Rightarrow> 't \<times> nat" where
  "fires k 0 t = (t, 0)"
| "fires k (Suc n) t =
    (let (t', won) = fire k t; (t'', m) = fires k n t' in (t'', m + (if won then 1 else 0)))"

lemma fires_disabled: "(\<And>r. look t k = Some r \<Longrightarrow> \<not> enabled r) \<Longrightarrow> snd (fires k n t) = 0"
proof (induction n)
  case (Suc n)
  have "fire k t = (t, False)"
    using Suc.prems by (auto simp: fire_def split: option.splits)
  then show ?case using Suc by (simp add: split_beta)
qed simp

lemma fires_at_most_once: "snd (fires k n t) \<le> 1"
proof (induction n arbitrary: t)
  case (Suc n)
  obtain t' won where f: "fire k t = (t', won)" by fastforce
  show ?case
  proof (cases won)
    case True
    then have "snd (fires k n t') = 0"
      using fire_twice_loses [of k t] f
      by (intro fires_disabled) (auto simp: fire_def split: option.splits if_splits)
    with f True show ?thesis by (simp add: split_beta)
  next
    case False
    with f Suc [of t'] show ?thesis by (simp add: split_beta)
  qed
qed simp

end

interpretation rows: row_store row_get row_put
  by unfold_locales simp_all

subsection \<open>Services: state passing with errors and transactions\<close>

text \<open>
  A service takes the state and returns the new one together with an error or a value.
  The state is returned in both cases, because a Python service may commit and only then
  raise. \<open>atomic\<close> is \<open>transaction.atomic()\<close>: an error that leaves the block restores the
  state in which it was entered.
\<close>

type_synonym ('s, 'e, 'a) svc = "'s \<Rightarrow> 's \<times> ('e + 'a)"

definition svc_return :: "'a \<Rightarrow> ('s, 'e, 'a) svc" where
  "svc_return a = (\<lambda>s. (s, Inr a))"

definition svc_raise :: "'e \<Rightarrow> ('s, 'e, 'a) svc" where
  "svc_raise e = (\<lambda>s. (s, Inl e))"

definition svc_bind :: "('s, 'e, 'a) svc \<Rightarrow> ('a \<Rightarrow> ('s, 'e, 'b) svc) \<Rightarrow> ('s, 'e, 'b) svc" where
  "svc_bind f g = (\<lambda>s. case f s of (s', Inl e) \<Rightarrow> (s', Inl e) | (s', Inr a) \<Rightarrow> g a s')"

definition atomic :: "('s, 'e, 'a) svc \<Rightarrow> ('s, 'e, 'a) svc" where
  "atomic f = (\<lambda>s. case f s of (s', Inl e) \<Rightarrow> (s, Inl e) | (s', Inr a) \<Rightarrow> (s', Inr a))"

lemma svc_bind_return [simp]: "svc_bind (svc_return a) g = g a"
  by (simp add: svc_bind_def svc_return_def fun_eq_iff)

lemma svc_bind_raise [simp]: "svc_bind (svc_raise e) g = svc_raise e"
  by (simp add: svc_bind_def svc_raise_def fun_eq_iff)

lemma svc_bind_assoc: "svc_bind (svc_bind f g) h = svc_bind f (\<lambda>a. svc_bind (g a) h)"
  by (auto simp: svc_bind_def fun_eq_iff split: prod.splits sum.splits)

lemma atomic_error_rolls_back [svc_simps]: "atomic f s = (s', Inl e) \<Longrightarrow> s' = s"
  by (auto simp: atomic_def split: prod.splits sum.splits)

lemma atomic_ok_iff [svc_simps]: "atomic f s = (s', Inr a) \<longleftrightarrow> f s = (s', Inr a)"
  by (auto simp: atomic_def split: prod.splits sum.splits)

lemma atomic_idem: "atomic (atomic f) = atomic f"
  by (auto simp: atomic_def fun_eq_iff split: prod.splits sum.splits)

end
