(* ===== verification/PyValue.thy ===== *)
theory PyValue
  imports Prelude
begin

section \<open>Python values: JSON, equality, truth, floating point\<close>

text \<open>
  Tool arguments and rule conditions are JSON documents. A JSON value is a \<open>json\<close>; an
  object keeps its keys in insertion order. Floats are the finite binary64 values, given
  as the rationals they denote; \<open>pyfloat\<close> adds the infinities and NaN that the
  \<open>float()\<close> constructor can return. Strings are lists of characters; the case
  conversions below are the ASCII ones.
\<close>

datatype json =
    JNull
  | JBool bool
  | JInt int
  | JFloat rat
  | JStr string
  | JArr "json list"
  | JObj "(string \<times> json) list"

text \<open>\<open>d.get(k)\<close>: a missing key reads as \<open>None\<close>.\<close>

definition dict_get :: "(string \<times> json) list \<Rightarrow> string \<Rightarrow> json" where
  "dict_get d k = (case map_of d k of None \<Rightarrow> JNull | Some v \<Rightarrow> v)"

text \<open>The truth value of a JSON document, as \<open>if x\<close> and \<open>x or y\<close> use it.\<close>

fun py_truthy :: "json \<Rightarrow> bool" where
  "py_truthy JNull = False"
| "py_truthy (JBool b) = b"
| "py_truthy (JInt n) = (n \<noteq> 0)"
| "py_truthy (JFloat x) = (x \<noteq> 0)"
| "py_truthy (JStr s) = (s \<noteq> [])"
| "py_truthy (JArr xs) = (xs \<noteq> [])"
| "py_truthy (JObj kvs) = (kvs \<noteq> [])"

text \<open>
  The number a value is for \<open>==\<close> (a \<open>bool\<close> is an \<open>int\<close>), and for the checks
  \<open>isinstance(v, int | float) and not isinstance(v, bool)\<close>.
\<close>

fun num_value :: "json \<Rightarrow> rat option" where
  "num_value (JBool b) = Some (if b then 1 else 0)"
| "num_value (JInt n) = Some (of_int n)"
| "num_value (JFloat x) = Some x"
| "num_value _ = None"

fun amount_value :: "json \<Rightarrow> rat option" where
  "amount_value (JInt n) = Some (of_int n)"
| "amount_value (JFloat x) = Some x"
| "amount_value _ = None"

lemma zip_fst_size [termination_simp]:
  "(x, y) \<in> set (zip xs ys) \<Longrightarrow> size x < Suc (size_list size xs)"
  by (auto dest!: set_zip_leftD intro: le_imp_less_Suc size_list_estimation')

text \<open>
  \<open>==\<close> on JSON values: numbers compare by value across \<open>bool\<close>, \<open>int\<close> and \<open>float\<close>,
  lists element by element, objects as maps whatever the order of their keys.
\<close>

fun py_eq :: "json \<Rightarrow> json \<Rightarrow> bool" where
  "py_eq JNull w = (w = JNull)"
| "py_eq (JStr s) w = (w = JStr s)"
| "py_eq (JBool b) w = (num_value w = num_value (JBool b))"
| "py_eq (JInt n) w = (num_value w = num_value (JInt n))"
| "py_eq (JFloat x) w = (num_value w = num_value (JFloat x))"
| "py_eq (JArr xs) w =
    (case w of JArr ys \<Rightarrow> length xs = length ys \<and> list_all (\<lambda>(x, y). py_eq x y) (zip xs ys)
     | _ \<Rightarrow> False)"
| "py_eq (JObj kvs) w =
    (case w of
       JObj kws \<Rightarrow> set (map fst kvs) = set (map fst kws) \<and>
         list_all (\<lambda>(k, v). case map_of kws k of None \<Rightarrow> False | Some u \<Rightarrow> py_eq v u) kvs
     | _ \<Rightarrow> False)"

lemma py_eq_num:
  "num_value v = Some x \<Longrightarrow> py_eq v w \<longleftrightarrow> num_value w = Some x"
  by (cases v) auto

subsection \<open>Strings\<close>

definition lower_char :: "char \<Rightarrow> char" where
  "lower_char c = (if CHR ''A'' \<le> c \<and> c \<le> CHR ''Z'' then char_of (of_char c + 32 :: nat) else c)"

definition upper_char :: "char \<Rightarrow> char" where
  "upper_char c = (if CHR ''a'' \<le> c \<and> c \<le> CHR ''z'' then char_of (of_char c - 32 :: nat) else c)"

definition str_lower :: "string \<Rightarrow> string" where
  "str_lower = map lower_char"

definition str_upper :: "string \<Rightarrow> string" where
  "str_upper = map upper_char"

fun starts_with :: "string \<Rightarrow> string \<Rightarrow> bool" where
  "starts_with [] s = True"
| "starts_with (c # p) [] = False"
| "starts_with (c # p) (d # s) = (c = d \<and> starts_with p s)"

text \<open>\<open>sub in s\<close> for strings.\<close>

fun str_contains :: "string \<Rightarrow> string \<Rightarrow> bool" where
  "str_contains sub [] = (sub = [])"
| "str_contains sub (c # s) = (starts_with sub (c # s) \<or> str_contains sub s)"

lemma starts_with_iff: "starts_with p s \<longleftrightarrow> (\<exists>t. s = p @ t)"
  by (induction p s rule: starts_with.induct) auto

lemma str_contains_iff: "str_contains sub s \<longleftrightarrow> (\<exists>a b. s = a @ sub @ b)"
proof (induction s)
  case (Cons c s)
  show ?case
    by (simp add: starts_with_iff Cons) (metis append_Cons append_eq_Cons_conv)
qed simp

text \<open>\<open>str.isspace\<close> on a character below 256, \<open>str.strip\<close> and its halves.\<close>

definition is_space :: "char \<Rightarrow> bool" where
  "is_space c = (let n = of_char c :: nat in (9 \<le> n \<and> n \<le> 13) \<or> (28 \<le> n \<and> n \<le> 32) \<or> n = 133 \<or> n = 160)"

definition py_lstrip :: "string \<Rightarrow> string" where
  "py_lstrip = dropWhile is_space"

definition py_rstrip :: "string \<Rightarrow> string" where
  "py_rstrip s = rev (dropWhile is_space (rev s))"

definition py_strip :: "string \<Rightarrow> string" where
  "py_strip s = py_rstrip (py_lstrip s)"

text \<open>Iterating over a value: list elements, the characters of a string, the keys of an object.\<close>

fun json_iter :: "json \<Rightarrow> json list option" where
  "json_iter (JArr xs) = Some xs"
| "json_iter (JStr s) = Some (map (\<lambda>c. JStr [c]) s)"
| "json_iter (JObj kvs) = Some (map (\<lambda>(k, v). JStr k) kvs)"
| "json_iter _ = None"

subsection \<open>Rounding to binary64\<close>

text \<open>
  \<open>float(n)\<close> of an integer and the true divisions round to the nearest binary64 value,
  ties to even, and overflow above the largest finite one. The rounding is computed on
  rationals: the value is scaled to 53 bits, rounded to an integer and scaled back.
  Subnormal results do not occur in the code modelled.
\<close>

fun bit_length :: "nat \<Rightarrow> nat" where
  "bit_length n = (if n = 0 then 0 else Suc (bit_length (n div 2)))"

declare bit_length.simps [simp del]

definition pow2 :: "int \<Rightarrow> rat" where
  "pow2 e = (if e \<ge> 0 then 2 ^ nat e else 1 / 2 ^ nat (- e))"

definition round_half_even :: "rat \<Rightarrow> int" where
  "round_half_even y =
    (let f = \<lfloor>y\<rfloor>; d = y - of_int f in
     if d < 1 / 2 then f else if d > 1 / 2 then f + 1 else if even f then f else f + 1)"

definition double_of_rat :: "rat \<Rightarrow> rat" where
  "double_of_rat x =
    (if x = 0 then 0
     else let (p, q) = quotient_of \<bar>x\<bar>;
              e = int (bit_length (nat p)) - int (bit_length (nat q)) - 53;
              e' = (if \<bar>x\<bar> / pow2 e \<ge> 2 ^ 53 then e + 1 else e)
          in sgn x * of_int (round_half_even (\<bar>x\<bar> / pow2 e')) * pow2 e')"

definition float_of_int :: "int \<Rightarrow> rat option" where
  "float_of_int n = (let r = double_of_rat (of_int n) in if \<bar>r\<bar> < 2 ^ 1024 then Some r else None)"

lemma bit_length_bounds: "0 < n \<Longrightarrow> 2 ^ (bit_length n - 1) \<le> n \<and> n < 2 ^ bit_length n"
proof (induction n rule: bit_length.induct)
  case (1 n)
  show ?case
  proof (cases "n div 2 = 0")
    case True
    with \<open>0 < n\<close> have "n = 1" by auto
    then show ?thesis by (simp add: bit_length.simps)
  next
    case False
    with 1 have ih: "2 ^ (bit_length (n div 2) - 1) \<le> n div 2" "n div 2 < 2 ^ bit_length (n div 2)"
      by auto
    have b: "bit_length n = Suc (bit_length (n div 2))"
      using \<open>0 < n\<close> by (subst bit_length.simps) simp
    have pos: "0 < bit_length (n div 2)"
      using False by (subst bit_length.simps) simp
    have e: "(2::nat) ^ bit_length (n div 2) = 2 * 2 ^ (bit_length (n div 2) - 1)"
      using pos by (simp flip: power_Suc)
    show ?thesis
    proof
      show "2 ^ (bit_length n - 1) \<le> n" using ih(1) e b by simp
      show "n < 2 ^ bit_length n" using ih(2) b by simp
    qed
  qed
qed

lemma round_half_even_int [simp]: "round_half_even (of_int n) = n"
  by (simp add: round_half_even_def)

lemma pow2_neg_mult: "e \<le> 0 \<Longrightarrow> of_int n / pow2 e = of_int (n * 2 ^ nat (- e))"
  by (cases "e = 0") (simp_all add: pow2_def)

lemma pow2_pos [simp]: "0 < pow2 e"
  by (simp add: pow2_def)

lemma round_scaled_int:
  "e \<le> 0 \<Longrightarrow> of_int (round_half_even (of_int n / pow2 e)) * pow2 e = of_int n"
  by (simp only: pow2_neg_mult round_half_even_int) (simp add: pow2_def)

text \<open>Integers of at most 53 bits convert exactly.\<close>

lemma double_of_small_int:
  assumes "\<bar>n\<bar> < 2 ^ 53"
  shows "double_of_rat (of_int n) = of_int n"
proof (cases "n = 0")
  case False
  define b where "b = bit_length (nat \<bar>n\<bar>)"
  have nb: "2 ^ (b - 1) \<le> nat \<bar>n\<bar>" "nat \<bar>n\<bar> < 2 ^ b"
    using bit_length_bounds [of "nat \<bar>n\<bar>"] False by (auto simp: b_def)
  have b0: "0 < b"
    using False by (simp add: b_def) (subst bit_length.simps, simp)
  have "b \<le> 53"
  proof (rule ccontr)
    assume "\<not> b \<le> 53"
    then have "(2::nat) ^ 53 \<le> 2 ^ (b - 1)" by (intro power_increasing) auto
    with nb have "2 ^ 53 \<le> nat \<bar>n\<bar>" by linarith
    then have "(2::int) ^ 53 \<le> \<bar>n\<bar>" by (simp add: nat_le_iff le_nat_iff)
    with assms show False by simp
  qed
  define e where "e = int b - 54"
  define e' where "e' = (if \<bar>rat_of_int n\<bar> / pow2 e \<ge> 2 ^ 53 then e + 1 else e)"
  have "bit_length (Suc 0) = 1" by (simp add: bit_length.simps)
  then have "double_of_rat (of_int n) =
      sgn (of_int n) * (of_int (round_half_even (of_int \<bar>n\<bar> / pow2 e')) * pow2 e')"
    using False by (simp add: double_of_rat_def Let_def of_int_abs [symmetric] quotient_of_int
        b_def [symmetric] e_def [symmetric] e'_def mult.assoc del: of_int_abs)
  also have "\<dots> = sgn (of_int n) * of_int \<bar>n\<bar>"
    using \<open>b \<le> 53\<close> by (subst round_scaled_int) (auto simp: e'_def e_def)
  finally show ?thesis by (simp add: sgn_if)
qed (simp add: double_of_rat_def)

lemma float_of_small_int: "\<bar>n\<bar> < 2 ^ 53 \<Longrightarrow> float_of_int n = Some (of_int n)"
proof -
  assume a: "\<bar>n\<bar> < 2 ^ 53"
  then have "\<bar>rat_of_int n\<bar> < 2 ^ 53" by (metis of_int_abs of_int_less_numeral_power_cancel_iff)
  also have "(2::rat) ^ 53 \<le> 2 ^ 1024" by (rule power_increasing) simp_all
  finally show ?thesis using a by (simp add: float_of_int_def double_of_small_int)
qed

subsection \<open>Floats as the comparisons see them\<close>

datatype pyfloat = Finite rat | PosInf | NegInf | NaN

fun float_gt :: "pyfloat \<Rightarrow> pyfloat \<Rightarrow> bool" where
  "float_gt NaN y = False"
| "float_gt x NaN = False"
| "float_gt NegInf y = False"
| "float_gt x PosInf = False"
| "float_gt PosInf y = True"
| "float_gt x NegInf = True"
| "float_gt (Finite x) (Finite y) = (x > y)"

fun float_ge :: "pyfloat \<Rightarrow> pyfloat \<Rightarrow> bool" where
  "float_ge NaN y = False"
| "float_ge x NaN = False"
| "float_ge PosInf y = True"
| "float_ge x NegInf = True"
| "float_ge NegInf y = False"
| "float_ge x PosInf = False"
| "float_ge (Finite x) (Finite y) = (x \<ge> y)"

text \<open>
  The CPython routines written in C that the code reaches: \<open>float(s)\<close> on a string,
  \<open>repr\<close>, \<open>str\<close>, \<open>datetime.fromisoformat\<close>, SHA-256 in hexadecimal,
  \<open>json.dumps\<close> with sorted keys and compact separators, and \<open>json.dumps\<close> with its
  defaults (\<open>None\<close> for the RecursionError of a too deeply nested value). They are
  parameters.
\<close>

datatype py_datetime = Naive int | Aware int

record py_runtime =
  rt_parse_float :: "string \<Rightarrow> pyfloat option"
  rt_repr :: "json \<Rightarrow> string"
  rt_str :: "json \<Rightarrow> string"
  rt_fromisoformat :: "string \<Rightarrow> py_datetime option"
  rt_sha256 :: "string \<Rightarrow> string"
  rt_dumps :: "json \<Rightarrow> string"
  rt_dumps_plain :: "json \<Rightarrow> string option"

text \<open>\<open>str(v)\<close>\<close>

definition py_str :: "py_runtime \<Rightarrow> json \<Rightarrow> string" where
  "py_str rt v = (case v of JStr s \<Rightarrow> s | _ \<Rightarrow> rt_str rt v)"

text \<open>\<open>min(a, b)\<close>, \<open>int(x)\<close> and \<open>timedelta.total_seconds()\<close>.\<close>

definition py_min :: "pyfloat \<Rightarrow> pyfloat \<Rightarrow> pyfloat" where
  "py_min a b = (if float_gt a b then b else a)"

definition py_trunc :: "rat \<Rightarrow> int" where
  "py_trunc x = (if x \<ge> 0 then \<lfloor>x\<rfloor> else \<lceil>x\<rceil>)"

definition total_seconds :: "int \<Rightarrow> rat" where
  "total_seconds micros = double_of_rat (of_int micros / 1000000)"

text \<open>\<open>max(0, int((b - a).total_seconds() * 1000))\<close>\<close>

definition elapsed_ms :: "int \<Rightarrow> int \<Rightarrow> int" where
  "elapsed_ms a b = max 0 (py_trunc (double_of_rat (total_seconds (b - a) * 1000)))"

text \<open>\<open>float(v)\<close>: \<open>None\<close> stands for the ValueError, TypeError or OverflowError it raises.\<close>

fun py_float :: "py_runtime \<Rightarrow> json \<Rightarrow> pyfloat option" where
  "py_float rt (JBool b) = Some (Finite (if b then 1 else 0))"
| "py_float rt (JInt n) = map_option Finite (float_of_int n)"
| "py_float rt (JFloat x) = Some (Finite x)"
| "py_float rt (JStr s) = rt_parse_float rt s"
| "py_float rt _ = None"

text \<open>A runtime to evaluate examples on, with constant functions.\<close>

definition example_runtime :: py_runtime where
  "example_runtime =
    \<lparr>rt_parse_float = (\<lambda>s. None), rt_repr = (\<lambda>v. ''r''), rt_str = (\<lambda>v. ''s''),
     rt_fromisoformat = (\<lambda>s. None), rt_sha256 = (\<lambda>s. ''h''), rt_dumps = (\<lambda>v. ''d''),
     rt_dumps_plain = (\<lambda>v. Some ''p'')\<rparr>"

end
