(* ===== verification/Platform.thy ===== *)
theory Platform
  imports PyValue
begin

section \<open>The platform every service runs on\<close>

text \<open>
  Workspace roles (\<open>workspaces/models.py\<close>), the error classes of the database layer, and
  the log of the side effects a service performs through the shared modules: audit events
  (\<open>audit/services.py\<close>), webhook events (\<open>webhooks/services.py\<close>), metric
  observations and the Celery tasks published by \<open>transaction.on_commit\<close>. The log is part
  of the service's state, so a rollback also discards what the rolled back block had
  scheduled. Identifiers are natural numbers, also inside JSON metadata, and timestamps in
  JSON are their microsecond counts.
\<close>

datatype workspace_role = OWNER | ADMIN | SUPPORT_MANAGER | SUPPORT_AGENT | VIEWER

fun role_value :: "workspace_role \<Rightarrow> string" where
  "role_value OWNER = ''owner''"
| "role_value ADMIN = ''admin''"
| "role_value SUPPORT_MANAGER = ''support_manager''"
| "role_value SUPPORT_AGENT = ''support_agent''"
| "role_value VIEWER = ''viewer''"

lemma role_value_inj [simp]: "role_value a = role_value b \<longleftrightarrow> a = b"
  by (cases a; cases b) simp_all

text \<open>What the ORM raises: a violated constraint, a value too long for its column, a missing row.\<close>

datatype db_exc = IntegrityError | DataError | DoesNotExist

datatype effect =
    Audit_event string string nat "nat option" "nat option" json "string option"
  | Webhook_event nat string json
  | Metric string "string list"
  | Task string nat

definition record_event ::
  "string \<Rightarrow> string \<Rightarrow> nat \<Rightarrow> nat option \<Rightarrow> nat option \<Rightarrow> json \<Rightarrow> string option \<Rightarrow> effect" where
  "record_event action target_type target_id actor workspace metadata request_id =
    Audit_event action target_type target_id actor workspace
      (if py_truthy metadata then metadata else JObj []) request_id"

definition jid :: "nat \<Rightarrow> json" where
  "jid n = JInt (int n)"

text \<open>\<open>CharField(max_length=n)\<close> on PostgreSQL: a longer value is a DataError.\<close>

definition fits :: "nat \<Rightarrow> string \<Rightarrow> bool" where
  "fits n s \<longleftrightarrow> length s \<le> n"

text \<open>Counting the effects of one kind, for statements about how often one is performed.\<close>

fun is_task :: "string \<Rightarrow> nat \<Rightarrow> effect \<Rightarrow> bool" where
  "is_task name i (Task n j) = (n = name \<and> j = i)"
| "is_task name i _ = False"

fun is_audit :: "string \<Rightarrow> nat \<Rightarrow> effect \<Rightarrow> bool" where
  "is_audit action i (Audit_event a _ j _ _ _ _) = (a = action \<and> j = i)"
| "is_audit action i _ = False"

definition tasks_for :: "string \<Rightarrow> nat \<Rightarrow> effect list \<Rightarrow> nat" where
  "tasks_for name i effs = length (filter (is_task name i) effs)"

definition audits_for :: "string \<Rightarrow> nat \<Rightarrow> effect list \<Rightarrow> nat" where
  "audits_for action i effs = length (filter (is_audit action i) effs)"

lemma tasks_for_append [simp]: "tasks_for n i (xs @ ys) = tasks_for n i xs + tasks_for n i ys"
  by (simp add: tasks_for_def)

lemma tasks_for_Nil [simp]: "tasks_for n i [] = 0"
  by (simp add: tasks_for_def)

lemma tasks_for_Cons [simp]:
  "tasks_for n i (x # xs) = (if is_task n i x then 1 else 0) + tasks_for n i xs"
  by (simp add: tasks_for_def)

lemma audits_for_append [simp]: "audits_for n i (xs @ ys) = audits_for n i xs + audits_for n i ys"
  by (simp add: audits_for_def)

lemma audits_for_Nil [simp]: "audits_for n i [] = 0"
  by (simp add: audits_for_def)

lemma audits_for_Cons [simp]:
  "audits_for n i (x # xs) = (if is_audit n i x then 1 else 0) + audits_for n i xs"
  by (simp add: audits_for_def)

lemma is_task_record_event [simp]: "\<not> is_task n i (record_event a t j u w m r)"
  by (simp add: record_event_def)

lemma is_audit_record_event [simp]: "is_audit n i (record_event a t j u w m r) \<longleftrightarrow> a = n \<and> j = i"
  by (simp add: record_event_def)

end
