(* ===== verification/PolicyEngine.thy ===== *)
theory PolicyEngine
  imports Platform
begin

section \<open>Risk assessment and policy evaluation\<close>

text \<open>
  \<open>policies/risk.py\<close>, \<open>policies/defaults.py\<close>, \<open>policies/predicates.py\<close> and
  \<open>policies/evaluator.py\<close>: the pure functions that turn a tool action into one decision.
  A rule's condition is a JSON document naming predicates of a fixed registry. Failures
  are values: \<open>EvaluationFailed\<close> is the \<open>PolicyEvaluationFailedError\<close> the tool gate maps to
  a denial, the other constructors are exceptions the evaluator does not catch.
\<close>

subsection \<open>Risk levels and side effects\<close>

datatype risk_level = READ_ONLY | LOW | MEDIUM | HIGH | CRITICAL

fun risk_value :: "risk_level \<Rightarrow> string" where
  "risk_value READ_ONLY = ''read_only''"
| "risk_value LOW = ''low''"
| "risk_value MEDIUM = ''medium''"
| "risk_value HIGH = ''high''"
| "risk_value CRITICAL = ''critical''"

definition risk_levels_all :: "risk_level list" where
  "risk_levels_all = [READ_ONLY, LOW, MEDIUM, HIGH, CRITICAL]"

text \<open>\<open>_RISK_ORDER\<close>: the position in \<open>RiskLevel.values\<close>.\<close>

fun risk_order :: "risk_level \<Rightarrow> nat" where
  "risk_order READ_ONLY = 0"
| "risk_order LOW = 1"
| "risk_order MEDIUM = 2"
| "risk_order HIGH = 3"
| "risk_order CRITICAL = 4"

lemma risk_order_inj [simp]: "risk_order a = risk_order b \<longleftrightarrow> a = b"
  by (cases a; cases b) simp_all

instantiation risk_level :: linorder
begin

definition less_eq_risk_level :: "risk_level \<Rightarrow> risk_level \<Rightarrow> bool" where
  "a \<le> b \<longleftrightarrow> risk_order a \<le> risk_order b"

definition less_risk_level :: "risk_level \<Rightarrow> risk_level \<Rightarrow> bool" where
  "a < b \<longleftrightarrow> risk_order a < risk_order b"

instance
  by standard (auto simp: less_eq_risk_level_def less_risk_level_def)

end

datatype side_effect_type = SE_NONE | SE_READ | INTERNAL_WRITE | EXTERNAL_WRITE | FINANCIAL | DESTRUCTIVE

fun side_effect_value :: "side_effect_type \<Rightarrow> string" where
  "side_effect_value SE_NONE = ''none''"
| "side_effect_value SE_READ = ''read''"
| "side_effect_value INTERNAL_WRITE = ''internal_write''"
| "side_effect_value EXTERNAL_WRITE = ''external_write''"
| "side_effect_value FINANCIAL = ''financial''"
| "side_effect_value DESTRUCTIVE = ''destructive''"

datatype policy_effect = ALLOW | DENY | REQUIRE_APPROVAL

fun effect_value :: "policy_effect \<Rightarrow> string" where
  "effect_value ALLOW = ''allow''"
| "effect_value DENY = ''deny''"
| "effect_value REQUIRE_APPROVAL = ''require_approval''"

definition policy_effect_precedence :: "policy_effect list" where
  "policy_effect_precedence = [DENY, REQUIRE_APPROVAL, ALLOW]"

text \<open>The settings of \<open>config/settings.py\<close> the engine reads.\<close>

record policy_settings =
  ps_bump_threshold :: int
  ps_refund_auto_allow_max :: int
  ps_refund_approval_max :: int
  ps_default_ttl :: int

definition default_policy_settings :: policy_settings where
  "default_policy_settings =
    \<lparr>ps_bump_threshold = 100000, ps_refund_auto_allow_max = 5000,
     ps_refund_approval_max = 50000, ps_default_ttl = 60 * 60 * 24\<rparr>"

type_synonym arguments = "(string \<times> json) list"

subsection \<open>Risk assessment\<close>

record risk_outcome =
  ro_base_risk :: risk_level
  ro_effective_risk :: risk_level
  ro_side_effect :: side_effect_type
  ro_factors :: arguments

definition bump :: "risk_level \<Rightarrow> risk_level" where
  "bump level =
    (let order = risk_order level in
     if order + 1 \<ge> length risk_levels_all then level else risk_levels_all ! (order + 1))"

definition assess_risk ::
  "policy_settings \<Rightarrow> risk_level \<Rightarrow> side_effect_type \<Rightarrow> arguments \<Rightarrow> risk_outcome" where
  "assess_risk ps base se args =
    (let amount = dict_get args ''amount_minor'';
         currency = dict_get args ''currency'';
         bumped = se = FINANCIAL \<and>
           (case amount_value amount of None \<Rightarrow> False | Some a \<Rightarrow> a \<ge> of_int (ps_bump_threshold ps));
         factors =
           [(''base_risk'', JStr (risk_value base)),
            (''side_effect_type'', JStr (side_effect_value se)),
            (''financial'', JBool (se = FINANCIAL)),
            (''external_write'', JBool (se = EXTERNAL_WRITE \<or> se = FINANCIAL))]
           @ (if amount_value amount \<noteq> None then [(''amount_minor'', amount)] else [])
           @ (case currency of JStr c \<Rightarrow> [(''currency'', JStr (str_upper c))] | _ \<Rightarrow> [])
           @ (if bumped then [(''risk_bumped'', JBool True)] else [])
     in \<lparr>ro_base_risk = base, ro_effective_risk = (if bumped then bump base else base),
         ro_side_effect = se, ro_factors = factors\<rparr>)"

subsection \<open>The system default policy\<close>

record default_decision =
  dd_decision :: policy_effect
  dd_code :: string
  dd_reason :: string

definition mk_default :: "policy_effect \<Rightarrow> string \<Rightarrow> string \<Rightarrow> default_decision" where
  "mk_default d c r = \<lparr>dd_decision = d, dd_code = c, dd_reason = r\<rparr>"

text \<open>\<open>DEFAULT_REQUIRED_ROLE_BY_RISK.get(effective_risk, OWNER)\<close>\<close>

fun required_role_for_risk :: "risk_level \<Rightarrow> string" where
  "required_role_for_risk MEDIUM = role_value SUPPORT_MANAGER"
| "required_role_for_risk HIGH = role_value ADMIN"
| "required_role_for_risk CRITICAL = role_value OWNER"
| "required_role_for_risk _ = role_value OWNER"

definition refund_default :: "policy_settings \<Rightarrow> arguments \<Rightarrow> default_decision" where
  "refund_default ps args =
    (let unconfigured =
       mk_default REQUIRE_APPROVAL ''system_default_refund_unconfigured_currency''
         ''Refund currency has no configured automatic threshold; approval required.''
     in case (amount_value (dict_get args ''amount_minor''), dict_get args ''currency'') of
          (Some amount, JStr c) \<Rightarrow>
            if str_upper c \<noteq> ''USD'' then unconfigured
            else if amount \<le> of_int (ps_refund_auto_allow_max ps) then
              mk_default ALLOW ''system_default_refund_below_auto_threshold''
                ''Refund is within the automatic refund threshold.''
            else if amount \<le> of_int (ps_refund_approval_max ps) then
              mk_default REQUIRE_APPROVAL ''system_default_refund_requires_approval''
                ''Refund exceeds the automatic refund threshold and requires approval.''
            else
              mk_default DENY ''system_default_refund_exceeds_maximum''
                ''Refund exceeds the maximum amount workspace policy allows.''
        | _ \<Rightarrow> unconfigured)"

definition evaluate_system_default ::
  "policy_settings \<Rightarrow> string \<Rightarrow> risk_level \<Rightarrow> risk_level \<Rightarrow> side_effect_type \<Rightarrow> arguments
    \<Rightarrow> default_decision" where
  "evaluate_system_default ps tool_key base_risk effective_risk se args =
    (if se = SE_READ \<or> base_risk = READ_ONLY then
       mk_default ALLOW ''system_default_read_only_allow''
         ''Read-only lookup permitted by default workspace policy.''
     else if tool_key = ''payment.refund'' then refund_default ps args
     else if se = FINANCIAL then
       mk_default REQUIRE_APPROVAL ''system_default_financial_requires_approval''
         ''Financial action requires manager approval by default workspace policy.''
     else if se = EXTERNAL_WRITE then
       mk_default REQUIRE_APPROVAL ''system_default_external_write_requires_approval''
         ''This action affects an external system and requires approval by default.''
     else if se = DESTRUCTIVE then
       mk_default REQUIRE_APPROVAL ''system_default_destructive_requires_approval''
         ''Destructive actions require approval by default workspace policy.''
     else if se = INTERNAL_WRITE then
       mk_default ALLOW ''system_default_internal_write_allow''
         ''Internal-only write permitted by default workspace policy.''
     else if effective_risk = HIGH \<or> effective_risk = CRITICAL then
       mk_default REQUIRE_APPROVAL ''system_default_high_risk_requires_approval''
         ''High-risk action requires approval by default workspace policy.''
     else
       mk_default ALLOW ''system_default_low_risk_allow''
         ''Low-risk action permitted by default workspace policy.'')"

subsection \<open>The predicate registry\<close>

datatype policy_exc = EvaluationFailed string | AttributeError | TypeError

record predicate_context =
  pc_tool_key :: string
  pc_risk_level :: risk_level
  pc_side_effect :: side_effect_type
  pc_arguments :: arguments

text \<open>
  A predicate returns \<open>Some b\<close>, or \<open>None\<close> for any exception inside it other than
  \<open>PolicyEvaluationFailedError\<close> (a missing parameter, a value \<open>float()\<close> rejects, an
  unsupported operand); \<open>evaluate_predicate\<close> turns that into the same failure.
  \<open>risk_level_at_least\<close> raises \<open>PolicyEvaluationFailedError\<close> itself, with its own message.
\<close>

definition unhashable :: "json \<Rightarrow> bool" where
  "unhashable v \<longleftrightarrow> (case v of JArr _ \<Rightarrow> True | JObj _ \<Rightarrow> True | _ \<Rightarrow> False)"

text \<open>\<open>_numeric_argument\<close>: the outer \<open>None\<close> is an OverflowError of \<open>float(value)\<close>.\<close>

definition numeric_argument :: "predicate_context \<Rightarrow> string \<Rightarrow> pyfloat option option" where
  "numeric_argument c fld =
    (case dict_get (pc_arguments c) fld of
       JInt n \<Rightarrow> map_option (\<lambda>x. Some (Finite x)) (float_of_int n)
     | JFloat x \<Rightarrow> Some (Some (Finite x))
     | _ \<Rightarrow> Some None)"

definition amount_compare ::
  "py_runtime \<Rightarrow> (pyfloat \<Rightarrow> pyfloat \<Rightarrow> bool) \<Rightarrow> predicate_context \<Rightarrow> arguments \<Rightarrow> bool option" where
  "amount_compare rt cmp c params =
    (case numeric_argument c ''amount_minor'' of
       None \<Rightarrow> None
     | Some None \<Rightarrow> Some False
     | Some (Some v) \<Rightarrow>
         (case map_of params ''value'' of
            None \<Rightarrow> None
          | Some p \<Rightarrow> map_option (cmp v) (py_float rt p)))"

text \<open>\<open>x in values\<close> for the container types JSON has; \<open>None\<close> is a TypeError.\<close>

fun py_in :: "json \<Rightarrow> json \<Rightarrow> bool option" where
  "py_in x (JArr ys) = Some (list_ex (\<lambda>y. py_eq y x) ys)"
| "py_in x (JStr s) = (case x of JStr t \<Rightarrow> Some (str_contains t s) | _ \<Rightarrow> None)"
| "py_in x (JObj kvs) =
    (if unhashable x then None
     else Some (case x of JStr k \<Rightarrow> k \<in> set (map fst kvs) | _ \<Rightarrow> False))"
| "py_in x _ = None"

definition booking_duration_minutes_gt ::
  "py_runtime \<Rightarrow> predicate_context \<Rightarrow> arguments \<Rightarrow> bool option" where
  "booking_duration_minutes_gt rt c params =
    (case (dict_get (pc_arguments c) ''start'', dict_get (pc_arguments c) ''end'') of
       (JStr s, JStr e) \<Rightarrow>
         (case (rt_fromisoformat rt s, rt_fromisoformat rt e) of
            (Some ds, Some de) \<Rightarrow>
              (case (ds, de) of
                 (Naive a, Aware b) \<Rightarrow> None
               | (Aware a, Naive b) \<Rightarrow> None
               | _ \<Rightarrow>
                 (let micros = (case (ds, de) of (Naive a, Naive b) \<Rightarrow> b - a
                                  | (Aware a, Aware b) \<Rightarrow> b - a | _ \<Rightarrow> 0);
                      minutes = double_of_rat (total_seconds micros / 60)
                  in case map_of params ''value'' of
                       None \<Rightarrow> None
                     | Some p \<Rightarrow> map_option (float_gt (Finite minutes)) (py_float rt p)))
          | _ \<Rightarrow> Some False)
     | _ \<Rightarrow> Some False)"

definition params_value :: "arguments \<Rightarrow> (json \<Rightarrow> bool) \<Rightarrow> bool option" where
  "params_value params f = map_option f (map_of params ''value'')"

definition risk_level_at_least ::
  "py_runtime \<Rightarrow> predicate_context \<Rightarrow> arguments \<Rightarrow> policy_exc + bool option" where
  "risk_level_at_least rt c params =
    (case map_of params ''value'' of
       None \<Rightarrow> Inr None
     | Some threshold \<Rightarrow>
         if unhashable threshold then Inr None
         else (case find (\<lambda>l. threshold = JStr (risk_value l)) risk_levels_all of
                 None \<Rightarrow> Inl (EvaluationFailed
                   (''Unknown risk level in rule config: '' @ rt_repr rt threshold @ ''.''))
               | Some l \<Rightarrow> Inr (Some (risk_order (pc_risk_level c) \<ge> risk_order l))))"

text \<open>The registered functions, by name.\<close>

definition call_predicate ::
  "py_runtime \<Rightarrow> string \<Rightarrow> predicate_context \<Rightarrow> arguments \<Rightarrow> (policy_exc + bool option) option" where
  "call_predicate rt name c params =
    (if name = ''tool_is'' then
       Some (Inr (params_value params (\<lambda>v. py_eq (JStr (pc_tool_key c)) v)))
     else if name = ''risk_level_at_least'' then Some (risk_level_at_least rt c params)
     else if name = ''side_effect_type_is'' then
       Some (Inr (params_value params (\<lambda>v. py_eq (JStr (side_effect_value (pc_side_effect c))) v)))
     else if name = ''amount_minor_gt'' then Some (Inr (amount_compare rt float_gt c params))
     else if name = ''amount_minor_gte'' then Some (Inr (amount_compare rt float_ge c params))
     else if name = ''amount_minor_lt'' then
       Some (Inr (amount_compare rt (\<lambda>x y. float_gt y x) c params))
     else if name = ''amount_minor_lte'' then
       Some (Inr (amount_compare rt (\<lambda>x y. float_ge y x) c params))
     else if name = ''currency_is'' then
       Some (Inr (case dict_get (pc_arguments c) ''currency'' of
           JStr cur \<Rightarrow> params_value params (\<lambda>v. str_upper cur = str_upper (py_str rt v))
         | _ \<Rightarrow> Some False))
     else if name = ''argument_equals'' then
       Some (Inr (case (map_of params ''field'', map_of params ''value'') of
           (Some fld, Some v) \<Rightarrow>
             if unhashable fld then None
             else Some (py_eq (case fld of JStr k \<Rightarrow> dict_get (pc_arguments c) k | _ \<Rightarrow> JNull) v)
         | _ \<Rightarrow> None))
     else if name = ''argument_in_allowed_values'' then
       Some (Inr (case (map_of params ''field'', map_of params ''values'') of
           (Some fld, Some vs) \<Rightarrow>
             if unhashable fld then None
             else py_in (case fld of JStr k \<Rightarrow> dict_get (pc_arguments c) k | _ \<Rightarrow> JNull) vs
         | _ \<Rightarrow> None))
     else if name = ''booking_duration_minutes_gt'' then
       Some (Inr (booking_duration_minutes_gt rt c params))
     else None)"

definition evaluate_predicate ::
  "py_runtime \<Rightarrow> json \<Rightarrow> predicate_context \<Rightarrow> arguments \<Rightarrow> policy_exc + bool" where
  "evaluate_predicate rt name c params =
    (if unhashable name then Inl TypeError
     else case (case name of JStr n \<Rightarrow> call_predicate rt n c params | _ \<Rightarrow> None) of
        None \<Rightarrow> Inl (EvaluationFailed (''Unknown predicate: '' @ rt_repr rt name @ ''.''))
      | Some (Inl e) \<Rightarrow> Inl e
      | Some (Inr None) \<Rightarrow>
          Inl (EvaluationFailed (''Predicate '' @ rt_repr rt name @ '' received invalid parameters.''))
      | Some (Inr (Some b)) \<Rightarrow> Inr b)"

definition known_predicate_names :: "string list" where
  "known_predicate_names =
    [''tool_is'', ''risk_level_at_least'', ''side_effect_type_is'', ''amount_minor_gt'',
     ''amount_minor_gte'', ''amount_minor_lt'', ''amount_minor_lte'', ''currency_is'',
     ''argument_equals'', ''argument_in_allowed_values'', ''booking_duration_minutes_gt'']"

end
