(* ===== verification/PolicyEvaluator.thy ===== *)
theory PolicyEvaluator
  imports PolicyEngine "HOL-Library.Multiset"
begin

section \<open>Policies, versions, rules, and the evaluator\<close>

text \<open>
  The rows of \<open>policies/models.py\<close> and \<open>evaluate_policy\<close> of \<open>policies/evaluator.py\<close>: the
  enabled rules of the active version are tried in the order of their priority, every
  matching one is collected, and the strictest effect wins. Without an active version, or
  without a matching rule, the system default of \<open>PolicyEngine\<close> decides.
\<close>

datatype policy_status = POLICY_DRAFT | POLICY_ACTIVE | POLICY_INACTIVE | POLICY_ARCHIVED

datatype version_status = VERSION_DRAFT | VERSION_ACTIVE | VERSION_SUPERSEDED

record policy =
  pol_workspace :: nat
  pol_name :: string
  pol_description :: string
  pol_status :: policy_status
  pol_created_by :: "nat option"

record policy_version =
  pv_policy :: nat
  pv_version :: nat
  pv_status :: version_status
  pv_created_by :: "nat option"
  pv_published_at :: "int option"

record policy_rule =
  pr_version :: nat
  pr_name :: string
  pr_priority :: nat
  pr_enabled :: bool
  pr_tool_key :: string
  pr_risk_levels :: json
  pr_side_effect_types :: json
  pr_condition_config :: json
  pr_effect :: policy_effect
  pr_required_role :: string
  pr_ttl :: "nat option"

record policy_db =
  pdb_policies :: "policy rows"
  pdb_versions :: "policy_version rows"
  pdb_rules :: "policy_rule rows"

text \<open>\<open>.first()\<close> under the models' default ordering takes the newest row.\<close>

definition resolve_active_version :: "policy_db \<Rightarrow> nat \<Rightarrow> nat option" where
  "resolve_active_version db ws =
    (case find (\<lambda>(i, p). pol_workspace p = ws \<and> pol_status p = POLICY_ACTIVE) (rev (pdb_policies db)) of
       None \<Rightarrow> None
     | Some (i, p) \<Rightarrow>
         map_option fst
           (find (\<lambda>(j, v). pv_policy v = i \<and> pv_status v = VERSION_ACTIVE) (rev (pdb_versions db))))"

definition enabled_rules :: "policy_db \<Rightarrow> nat \<Rightarrow> policy_rule rows" where
  "enabled_rules db v =
    sort_key (\<lambda>(i, r). pr_priority r)
      (sort_key fst (rows_where (\<lambda>i r. pr_version r = v \<and> pr_enabled r) (pdb_rules db)))"

subsection \<open>Does a rule apply\<close>

definition malformed_condition :: policy_exc where
  "malformed_condition = EvaluationFailed ''Malformed rule condition configuration.''"

fun check_entries :: "py_runtime \<Rightarrow> predicate_context \<Rightarrow> json list \<Rightarrow> policy_exc + bool" where
  "check_entries rt c [] = Inr True"
| "check_entries rt c (entry # entries) =
    (case entry of
       JObj kvs \<Rightarrow>
         (case map_of kvs ''predicate'' of
            None \<Rightarrow> Inl malformed_condition
          | Some name \<Rightarrow>
              (case evaluate_predicate rt name c (filter (\<lambda>(k, v). k \<noteq> ''predicate'') kvs) of
                 Inl e \<Rightarrow> Inl e
               | Inr b \<Rightarrow> if b then check_entries rt c entries else Inr False))
     | _ \<Rightarrow> Inl malformed_condition)"

text \<open>\<open>if xs and v not in xs: return False\<close>; \<open>None\<close> is the TypeError of \<open>in\<close>.\<close>

definition restricts :: "json \<Rightarrow> string \<Rightarrow> bool option" where
  "restricts xs v = (if py_truthy xs then map_option Not (py_in (JStr v) xs) else Some False)"

definition rule_condition :: "policy_rule \<Rightarrow> policy_exc + json" where
  "rule_condition rule =
    (case (if py_truthy (pr_condition_config rule) then pr_condition_config rule else JObj []) of
       JObj kvs \<Rightarrow> Inr (case map_of kvs ''all'' of None \<Rightarrow> JArr [] | Some v \<Rightarrow> v)
     | _ \<Rightarrow> Inl AttributeError)"

definition rule_applies ::
  "py_runtime \<Rightarrow> policy_rule \<Rightarrow> predicate_context \<Rightarrow> policy_exc + bool" where
  "rule_applies rt rule c =
    (if pr_tool_key rule \<noteq> [] \<and> pr_tool_key rule \<noteq> pc_tool_key c then Inr False
     else case restricts (pr_risk_levels rule) (risk_value (pc_risk_level c)) of
       None \<Rightarrow> Inl TypeError
     | Some True \<Rightarrow> Inr False
     | Some False \<Rightarrow>
         (case restricts (pr_side_effect_types rule) (side_effect_value (pc_side_effect c)) of
            None \<Rightarrow> Inl TypeError
          | Some True \<Rightarrow> Inr False
          | Some False \<Rightarrow>
              (case rule_condition rule of
                 Inl e \<Rightarrow> Inl e
               | Inr (JArr entries) \<Rightarrow> check_entries rt c entries
               | Inr _ \<Rightarrow> Inl malformed_condition)))"

fun matching_rules ::
  "py_runtime \<Rightarrow> predicate_context \<Rightarrow> policy_rule rows \<Rightarrow> policy_exc + policy_rule rows" where
  "matching_rules rt c [] = Inr []"
| "matching_rules rt c ((i, rule) # rules) =
    (case rule_applies rt rule c of
       Inl e \<Rightarrow> Inl e
     | Inr applies \<Rightarrow>
         (case matching_rules rt c rules of
            Inl e \<Rightarrow> Inl e
          | Inr matched \<Rightarrow> Inr (if applies then (i, rule) # matched else matched)))"

subsection \<open>The decision\<close>

record policy_decision =
  pd_decision :: policy_effect
  pd_code :: string
  pd_reason :: string
  pd_matched :: "nat list"
  pd_version :: "nat option"
  pd_required_role :: string
  pd_ttl :: int

fun safe_reason_for :: "policy_effect \<Rightarrow> string" where
  "safe_reason_for DENY = ''Action explicitly denied by workspace policy.''"
| "safe_reason_for REQUIRE_APPROVAL = ''Action requires approval under workspace policy.''"
| "safe_reason_for ALLOW = ''Action explicitly permitted by workspace policy.''"

definition finalize ::
  "policy_settings \<Rightarrow> policy_effect \<Rightarrow> string \<Rightarrow> string \<Rightarrow> nat list \<Rightarrow> nat option
    \<Rightarrow> policy_rule list \<Rightarrow> risk_outcome \<Rightarrow> policy_decision" where
  "finalize ps decision code reason matched_ids version matched_rules risk =
    (let rule_role = (case find (\<lambda>r. pr_required_role r \<noteq> []) matched_rules of
                        None \<Rightarrow> [] | Some r \<Rightarrow> pr_required_role r);
         rule_ttl = (case find (\<lambda>r. pr_ttl r \<noteq> None \<and> pr_ttl r \<noteq> Some 0) matched_rules of
                       None \<Rightarrow> None | Some r \<Rightarrow> pr_ttl r);
         (role, ttl) =
           (if decision = REQUIRE_APPROVAL then
              (if rule_role \<noteq> [] then rule_role else required_role_for_risk (ro_effective_risk risk),
               case rule_ttl of Some t \<Rightarrow> int t | None \<Rightarrow> ps_default_ttl ps)
            else ([], ps_default_ttl ps))
     in \<lparr>pd_decision = decision, pd_code = code, pd_reason = reason, pd_matched = matched_ids,
         pd_version = version, pd_required_role = role, pd_ttl = ttl\<rparr>)"

definition winning_effect :: "policy_effect list \<Rightarrow> policy_effect" where
  "winning_effect present = hd (filter (\<lambda>e. e \<in> set present) policy_effect_precedence)"

text \<open>The facts the predicates see, built from the trusted risk outcome.\<close>

definition action_context :: "string \<Rightarrow> risk_outcome \<Rightarrow> arguments \<Rightarrow> predicate_context" where
  "action_context tool_key risk args =
    \<lparr>pc_tool_key = tool_key, pc_risk_level = ro_effective_risk risk,
     pc_side_effect = ro_side_effect risk, pc_arguments = args\<rparr>"

definition default_for :: "policy_settings \<Rightarrow> string \<Rightarrow> risk_outcome \<Rightarrow> arguments \<Rightarrow> default_decision" where
  "default_for ps tool_key risk args =
    evaluate_system_default ps tool_key (ro_base_risk risk) (ro_effective_risk risk)
      (ro_side_effect risk) args"

definition evaluate_policy ::
  "py_runtime \<Rightarrow> policy_settings \<Rightarrow> policy_db \<Rightarrow> string \<Rightarrow> risk_outcome \<Rightarrow> arguments \<Rightarrow> nat option
    \<Rightarrow> policy_exc + policy_decision" where
  "evaluate_policy rt ps db tool_key risk args active_version =
    (let c = action_context tool_key risk args;
         dflt = default_for ps tool_key risk args
     in case active_version of
          None \<Rightarrow> Inr (finalize ps (dd_decision dflt) (dd_code dflt) (dd_reason dflt) [] None [] risk)
        | Some v \<Rightarrow>
            (case matching_rules rt c (enabled_rules db v) of
               Inl e \<Rightarrow> Inl e
             | Inr [] \<Rightarrow>
                 Inr (finalize ps (dd_decision dflt) (''no_matching_rule_fallback:'' @ dd_code dflt)
                   (dd_reason dflt) [] (Some v) [] risk)
             | Inr matched \<Rightarrow>
                 (let w = winning_effect (map (pr_effect \<circ> snd) matched);
                      winners = filter (\<lambda>r. pr_effect r = w) (map snd matched)
                  in Inr (finalize ps w (''rule_matched:'' @ pr_name (hd winners))
                       (safe_reason_for w) (map fst matched) (Some v) winners risk))))"

subsection \<open>Facts about risk and the default policy\<close>

lemma bump_not_less: "level \<le> bump level"
  by (cases level) (auto simp: bump_def risk_levels_all_def less_eq_risk_level_def)

lemma bump_one_tier: "risk_order (bump level) = min 4 (risk_order level + 1)"
  by (cases level) (auto simp: bump_def risk_levels_all_def)

lemma assess_risk_fields [simp]:
  "ro_base_risk (assess_risk ps b se a) = b" "ro_side_effect (assess_risk ps b se a) = se"
  by (simp_all add: assess_risk_def Let_def)

lemma finalize_fields [simp]:
  "pd_decision (finalize ps d c r ids v rules risk) = d"
  "pd_code (finalize ps d c r ids v rules risk) = c"
  "pd_reason (finalize ps d c r ids v rules risk) = r"
  "pd_matched (finalize ps d c r ids v rules risk) = ids"
  "pd_version (finalize ps d c r ids v rules risk) = v"
  by (simp_all add: finalize_def Let_def split_beta)

subsection \<open>Facts about matching\<close>

text \<open>Strictness of an effect: the decision is the strictest effect present.\<close>

fun strictness :: "policy_effect \<Rightarrow> nat" where
  "strictness ALLOW = 0"
| "strictness REQUIRE_APPROVAL = 1"
| "strictness DENY = 2"

lemma winning_effect_cases:
  "winning_effect present =
    (if DENY \<in> set present then DENY
     else if REQUIRE_APPROVAL \<in> set present then REQUIRE_APPROVAL
     else if ALLOW \<in> set present then ALLOW else hd [])"
  by (simp add: winning_effect_def policy_effect_precedence_def)

lemma winning_effect_in: "present \<noteq> [] \<Longrightarrow> winning_effect present \<in> set present"
proof (cases present)
  case (Cons e es)
  then show ?thesis by (cases e) (auto simp: winning_effect_cases)
qed simp

lemma winning_effect_strictest: "e \<in> set present \<Longrightarrow> strictness e \<le> strictness (winning_effect present)"
  by (cases e) (auto simp: winning_effect_cases)

lemma winning_effect_set_cong: "set xs = set ys \<Longrightarrow> winning_effect xs = winning_effect ys"
  by (simp add: winning_effect_def)

lemma matching_rules_filter:
  "matching_rules rt c rules = Inr matched \<Longrightarrow>
    matched = filter (\<lambda>(i, r). rule_applies rt r c = Inr True) rules \<and>
    (\<forall>(i, r) \<in> set rules. \<exists>b. rule_applies rt r c = Inr b)"
proof (induction rules arbitrary: matched)
  case (Cons p rules)
  obtain i r where [simp]: "p = (i, r)" by (cases p)
  from Cons show ?case by (auto split: sum.splits if_splits)
qed simp

lemma matching_rules_error:
  "matching_rules rt c rules = Inl e \<Longrightarrow> \<exists>(i, r) \<in> set rules. \<exists>e'. rule_applies rt r c = Inl e'"
proof (induction rules)
  case (Cons p rules)
  obtain i r where [simp]: "p = (i, r)" by (cases p)
  from Cons show ?case by (auto split: sum.splits)
qed simp

lemma set_enabled_rules:
  "set (enabled_rules db v) = {(i, r) \<in> set (pdb_rules db). pr_version r = v \<and> pr_enabled r}"
  by (auto simp: enabled_rules_def rows_where_def)

lemma enabled_rules_sorted: "sorted (map (\<lambda>(i, r). pr_priority r) (enabled_rules db v))"
  unfolding enabled_rules_def by (rule sorted_sort_key)

text \<open>The outcome of the evaluator under an active version, unfolded once for all properties.\<close>

lemma evaluate_policy_active:
  assumes "evaluate_policy rt ps db tool_key risk args (Some v) = Inr d"
  obtains (fallback)
      "\<And>i r. (i, r) \<in> set (enabled_rules db v) \<Longrightarrow>
        rule_applies rt r (action_context tool_key risk args) = Inr False"
      "d = finalize ps (dd_decision (default_for ps tool_key risk args))
         (''no_matching_rule_fallback:'' @ dd_code (default_for ps tool_key risk args))
         (dd_reason (default_for ps tool_key risk args)) [] (Some v) [] risk"
  | (matched) matched where
      "matched = filter (\<lambda>(i, r). rule_applies rt r (action_context tool_key risk args) = Inr True)
         (enabled_rules db v)"
      "matched \<noteq> []"
      "pd_decision d = winning_effect (map (pr_effect \<circ> snd) matched)"
      "pd_matched d = map fst matched"
      "pd_code d = ''rule_matched:'' @
         pr_name (hd (filter (\<lambda>r. pr_effect r = pd_decision d) (map snd matched)))"
proof -
  let ?c = "action_context tool_key risk args"
  obtain ms where ms: "matching_rules rt ?c (enabled_rules db v) = Inr ms"
    using assms by (auto simp: evaluate_policy_def Let_def split: sum.splits)
  note flt = matching_rules_filter [OF ms]
  show thesis
  proof (cases ms)
    case Nil
    have "rule_applies rt r ?c = Inr False" if "(i, r) \<in> set (enabled_rules db v)" for i r
    proof -
      from flt that have "\<exists>b. rule_applies rt r ?c = Inr b" by fastforce
      moreover have "rule_applies rt r ?c \<noteq> Inr True"
        using flt Nil that by (auto simp: filter_empty_conv eq_commute [of "[]"])
      ultimately show ?thesis by auto
    qed
    then show thesis
      using assms ms Nil by (intro fallback) (auto simp: evaluate_policy_def Let_def)
  next
    case (Cons m ms')
    then show thesis
      using assms ms flt
      by (intro matched [of ms]) (auto simp: evaluate_policy_def Let_def o_def)
  qed
qed

end
