(* ===== verification/PolicyServices.thy ===== *)
theory PolicyServices
  imports PolicyEvaluator
begin

section \<open>Policy configuration services\<close>

text \<open>
  The administrative half of \<open>policies/services.py\<close>: policies, versions and rules are
  created, a draft version is published, a policy is activated. A service receives the
  model instance its caller read earlier, which may be stale; the database constraints of
  \<open>policies/models.py\<close> are checked when a row is written.
\<close>

record policy_admin =
  pa_db :: policy_db
  pa_effects :: "effect list"

datatype policy_admin_exc =
    InvalidRule string
  | VersionNotActivatable
  | LimitExceeded string
  | ValidationError
  | AdminTypeError
  | AdminDb db_exc

type_synonym 'a policy_svc = "(policy_admin, policy_admin_exc, 'a) svc"

subsection \<open>The switch to a single active row per group\<close>

text \<open>
  Publishing a version and activating a policy follow one contract: every other active
  row of the group is switched off, then the chosen row is switched on.
\<close>

locale exclusive_switch =
  fixes grp :: "'r \<Rightarrow> nat"
    and active :: "'r \<Rightarrow> bool"
    and act :: "'r \<Rightarrow> 'r"
    and deact :: "'r \<Rightarrow> 'r"
  assumes active_act: "active (act r)"
    and inactive_deact: "\<not> active (deact r)"
    and grp_act: "grp (act r) = grp r"
    and grp_deact: "grp (deact r) = grp r"
begin

definition switch :: "nat \<Rightarrow> 'r \<Rightarrow> 'r rows \<Rightarrow> 'r rows" where
  "switch k r t = row_put k (act r) (update_where (\<lambda>i q. i \<noteq> k \<and> grp q = grp r \<and> active q) deact t)"

definition one_active :: "'r rows \<Rightarrow> bool" where
  "one_active t \<longleftrightarrow> (\<forall>i j r q. row_get t i = Some r \<longrightarrow> row_get t j = Some q \<longrightarrow>
     active r \<longrightarrow> active q \<longrightarrow> grp r = grp q \<longrightarrow> i = j)"

lemma switch_get:
  "row_get (switch k r t) i =
    (if i = k then Some (act r)
     else map_option (\<lambda>q. if grp q = grp r \<and> active q then deact q else q) (row_get t i))"
  by (cases "row_get t i") (auto simp: switch_def)

lemma switch_active_iff:
  assumes "row_get (switch k r t) i = Some q" and "grp q = grp r"
  shows "active q \<longleftrightarrow> i = k"
proof (cases "i = k")
  case True
  with assms show ?thesis by (auto simp: switch_get active_act)
next
  case False
  with assms show ?thesis
    by (auto simp: switch_get split: if_splits dest: arg_cong [of _ _ active])
       (metis inactive_deact)+
qed

lemma switch_other_group:
  assumes "row_get t k = Some r" and "row_get t i = Some q" and "grp q \<noteq> grp r"
  shows "row_get (switch k r t) i = Some q"
  using assms by (auto simp: switch_get)

lemma switch_one_active:
  assumes "one_active t"
  shows "one_active (switch k r t)"
  unfolding one_active_def
proof (intro allI impI)
  fix i j p q
  assume a: "row_get (switch k r t) i = Some p" "row_get (switch k r t) j = Some q"
    "active p" "active q" "grp p = grp q"
  show "i = j"
  proof (cases "grp p = grp r")
    case True
    with a show ?thesis using switch_active_iff by (metis (no_types))
  next
    case False
    with a have "row_get t i = Some p" "row_get t j = Some q"
      by (auto simp: switch_get grp_act grp_deact split: if_splits)
    with a assms show ?thesis unfolding one_active_def by blast
  qed
qed

end

definition activate_row :: "policy \<Rightarrow> policy" where
  "activate_row p = p\<lparr>pol_status := POLICY_ACTIVE\<rparr>"

definition supersede_row :: "policy_version \<Rightarrow> policy_version" where
  "supersede_row v = v\<lparr>pv_status := VERSION_SUPERSEDED\<rparr>"

interpretation policies: exclusive_switch pol_workspace
    "\<lambda>p. pol_status p = POLICY_ACTIVE" activate_row "\<lambda>p. p\<lparr>pol_status := POLICY_INACTIVE\<rparr>"
  by unfold_locales (simp_all add: activate_row_def)

interpretation versions: exclusive_switch pv_policy
    "\<lambda>v. pv_status v = VERSION_ACTIVE" "\<lambda>v. v\<lparr>pv_status := VERSION_ACTIVE, pv_published_at := t\<rparr>"
    supersede_row for t
  by unfold_locales (simp_all add: supersede_row_def)

subsection \<open>Policies\<close>

text \<open>The constraints of the \<open>Policy\<close> table, checked when row \<open>k\<close> is written.\<close>

definition save_policy :: "nat \<Rightarrow> policy \<Rightarrow> policy rows \<Rightarrow> db_exc + policy rows" where
  "save_policy k p t =
    (if \<not> fits 200 (pol_name p) \<or> \<not> fits 2000 (pol_description p) then Inl DataError
     else if pol_name p = [] \<or>
       list_ex (\<lambda>(i, q). i \<noteq> k \<and> pol_workspace q = pol_workspace p \<and> pol_name q = pol_name p) t \<or>
       (pol_status p = POLICY_ACTIVE \<and>
        list_ex (\<lambda>(i, q). i \<noteq> k \<and> pol_workspace q = pol_workspace p \<and> pol_status q = POLICY_ACTIVE) t)
     then Inl IntegrityError
     else Inr (row_put k p t))"

definition admin_emit :: "effect \<Rightarrow> policy_admin \<Rightarrow> policy_admin" where
  "admin_emit e s = s\<lparr>pa_effects := pa_effects s @ [e]\<rparr>"

definition set_policies :: "policy rows \<Rightarrow> policy_admin \<Rightarrow> policy_admin" where
  "set_policies t s = s\<lparr>pa_db := (pa_db s)\<lparr>pdb_policies := t\<rparr>\<rparr>"

definition set_versions :: "policy_version rows \<Rightarrow> policy_admin \<Rightarrow> policy_admin" where
  "set_versions t s = s\<lparr>pa_db := (pa_db s)\<lparr>pdb_versions := t\<rparr>\<rparr>"

definition set_rules :: "policy_rule rows \<Rightarrow> policy_admin \<Rightarrow> policy_admin" where
  "set_rules t s = s\<lparr>pa_db := (pa_db s)\<lparr>pdb_rules := t\<rparr>\<rparr>"

definition create_policy ::
  "nat \<Rightarrow> nat \<Rightarrow> string \<Rightarrow> string \<Rightarrow> string option \<Rightarrow> nat policy_svc" where
  "create_policy ws actor name description req = atomic (\<lambda>s.
    let t = pdb_policies (pa_db s);
        k = fresh_id t;
        p = \<lparr>pol_workspace = ws, pol_name = py_strip name, pol_description = description,
             pol_status = POLICY_DRAFT, pol_created_by = Some actor\<rparr>
    in case save_policy k p t of
         Inl e \<Rightarrow> (s, Inl (AdminDb e))
       | Inr t' \<Rightarrow>
           (admin_emit (record_event ''policy.created'' ''policy'' k (Some actor) (Some ws)
              (JObj [(''policy_id'', jid k), (''name'', JStr (pol_name p))]) req) (set_policies t' s),
            Inr k))"

definition update_policy ::
  "nat \<Rightarrow> nat \<Rightarrow> policy \<Rightarrow> nat \<Rightarrow> string option \<Rightarrow> string option \<Rightarrow> string option \<Rightarrow> nat policy_svc" where
  "update_policy ws k inst actor name description req = atomic (\<lambda>s.
    let inst1 = (case name of None \<Rightarrow> inst | Some n \<Rightarrow> inst\<lparr>pol_name := py_strip n\<rparr>);
        inst2 = (case description of None \<Rightarrow> inst1 | Some d \<Rightarrow> inst1\<lparr>pol_description := d\<rparr>)
    in case save_policy k inst2 (pdb_policies (pa_db s)) of
         Inl e \<Rightarrow> (s, Inl (AdminDb e))
       | Inr t' \<Rightarrow>
           (admin_emit (record_event ''policy.updated'' ''policy'' k (Some actor) (Some ws)
              (JObj [(''policy_id'', jid k)]) req) (set_policies t' s), Inr k))"

definition activate_policy :: "nat \<Rightarrow> nat \<Rightarrow> nat \<Rightarrow> string option \<Rightarrow> nat policy_svc" where
  "activate_policy ws k actor req = atomic (\<lambda>s.
    let t = update_where (\<lambda>i p. pol_workspace p = ws \<and> pol_status p = POLICY_ACTIVE \<and> i \<noteq> k)
              (\<lambda>p. p\<lparr>pol_status := POLICY_INACTIVE\<rparr>) (pdb_policies (pa_db s))
    in case row_get t k of
         None \<Rightarrow> (s, Inl (AdminDb DoesNotExist))
       | Some locked \<Rightarrow>
           (case save_policy k (activate_row locked) t of
              Inl e \<Rightarrow> (s, Inl (AdminDb e))
            | Inr t' \<Rightarrow>
                (admin_emit (record_event ''policy.activated'' ''policy'' k (Some actor) (Some ws)
                   (JObj [(''policy_id'', jid k)]) req) (set_policies t' s), Inr k)))"

definition deactivate_policy :: "nat \<Rightarrow> nat \<Rightarrow> nat \<Rightarrow> string option \<Rightarrow> nat policy_svc" where
  "deactivate_policy ws k actor req = atomic (\<lambda>s.
    case row_get (pdb_policies (pa_db s)) k of
      None \<Rightarrow> (s, Inl (AdminDb DoesNotExist))
    | Some locked \<Rightarrow>
        (case save_policy k (locked\<lparr>pol_status := POLICY_INACTIVE\<rparr>) (pdb_policies (pa_db s)) of
           Inl e \<Rightarrow> (s, Inl (AdminDb e))
         | Inr t' \<Rightarrow>
             (admin_emit (record_event ''policy.deactivated'' ''policy'' k (Some actor) (Some ws)
                (JObj [(''policy_id'', jid k)]) req) (set_policies t' s), Inr k)))"

subsection \<open>Versions\<close>

definition version_numbers :: "nat \<Rightarrow> policy_version rows \<Rightarrow> nat list" where
  "version_numbers pol t = map (pv_version \<circ> snd) (rows_where (\<lambda>i v. pv_policy v = pol) t)"

definition create_policy_version :: "nat \<Rightarrow> nat \<Rightarrow> nat \<Rightarrow> string option \<Rightarrow> nat policy_svc" where
  "create_policy_version ws pol actor req = atomic (\<lambda>s.
    let t = pdb_versions (pa_db s);
        next_version = (case version_numbers pol t of [] \<Rightarrow> 1 | ns \<Rightarrow> foldr max ns 0 + 1);
        k = fresh_id t;
        v = \<lparr>pv_policy = pol, pv_version = next_version, pv_status = VERSION_DRAFT,
             pv_created_by = Some actor, pv_published_at = None\<rparr>
    in (admin_emit (record_event ''policy.version_created'' ''policy_version'' k (Some actor) (Some ws)
          (JObj [(''policy_id'', jid pol), (''version'', jid next_version)]) req)
          (set_versions (row_put k v t) s), Inr k))"

definition publish_policy_version ::
  "(nat \<Rightarrow> int) \<Rightarrow> nat \<Rightarrow> nat \<Rightarrow> nat \<Rightarrow> string option \<Rightarrow> nat policy_svc" where
  "publish_policy_version clk ws k actor req = atomic (\<lambda>s.
    let t = pdb_versions (pa_db s)
    in case row_get t k of
         None \<Rightarrow> (s, Inl (AdminDb DoesNotExist))
       | Some locked \<Rightarrow>
           if pv_status locked \<noteq> VERSION_DRAFT then (s, Inl VersionNotActivatable)
           else
             let t1 = update_where (\<lambda>i v. pv_policy v = pv_policy locked \<and> pv_status v = VERSION_ACTIVE)
                        supersede_row t;
                 t2 = row_put k (locked\<lparr>pv_status := VERSION_ACTIVE, pv_published_at := Some (clk 0)\<rparr>) t1
             in (admin_emit (record_event ''policy.version_published'' ''policy_version'' k
                    (Some actor) (Some ws)
                    (JObj [(''policy_id'', jid (pv_policy locked)), (''version'', jid (pv_version locked))])
                    req) (set_versions t2 s), Inr k))"

subsection \<open>Rules\<close>

record rule_data =
  rd_name :: string
  rd_priority :: nat
  rd_enabled :: bool
  rd_tool_key :: string
  rd_risk_levels :: json
  rd_side_effect_types :: json
  rd_condition_config :: json
  rd_effect :: policy_effect
  rd_required_role :: string
  rd_ttl :: "nat option"

definition max_rules_per_version :: nat where
  "max_rules_per_version = 50"

fun validate_entries :: "py_runtime \<Rightarrow> json list \<Rightarrow> policy_admin_exc option" where
  "validate_entries rt [] = None"
| "validate_entries rt (entry # entries) =
    (case entry of
       JObj kvs \<Rightarrow>
         (case map_of kvs ''predicate'' of
            None \<Rightarrow> Some (InvalidRule ''Each condition entry must include a 'predicate' name.'')
          | Some name \<Rightarrow>
              if unhashable name then Some AdminTypeError
              else if (case name of JStr n \<Rightarrow> n \<in> set known_predicate_names | _ \<Rightarrow> False)
              then validate_entries rt entries
              else Some (InvalidRule (''Unknown predicate: '' @ rt_repr rt name @ ''.'')))
     | _ \<Rightarrow> Some (InvalidRule ''Each condition entry must include a 'predicate' name.''))"

definition validate_condition_config :: "py_runtime \<Rightarrow> json \<Rightarrow> policy_admin_exc option" where
  "validate_condition_config rt config =
    (case config of
       JObj kvs \<Rightarrow>
         if \<not> set (map fst kvs) \<subseteq> {''all''}
         then Some (InvalidRule ''condition_config must be an object with only an 'all' key.'')
         else (case (case map_of kvs ''all'' of None \<Rightarrow> JArr [] | Some v \<Rightarrow> v) of
                 JArr entries \<Rightarrow> validate_entries rt entries
               | _ \<Rightarrow> Some (InvalidRule ''condition_config.all must be a list.''))
     | _ \<Rightarrow> Some (InvalidRule ''condition_config must be an object with only an 'all' key.''))"

text \<open>\<open>PolicyRule.clean\<close>: every listed level and side-effect kind is a known one.\<close>

definition clean_values :: "json \<Rightarrow> string list \<Rightarrow> policy_admin_exc option" where
  "clean_values xs known =
    (case json_iter (if py_truthy xs then xs else JArr []) of
       None \<Rightarrow> Some AdminTypeError
     | Some vs \<Rightarrow> if list_all (\<lambda>v. v \<in> JStr ` set known) vs then None else Some ValidationError)"

definition clean_rule :: "policy_rule \<Rightarrow> policy_admin_exc option" where
  "clean_rule r =
    (case clean_values (pr_risk_levels r) (map risk_value risk_levels_all) of
       Some e \<Rightarrow> Some e
     | None \<Rightarrow> clean_values (pr_side_effect_types r)
         (map side_effect_value [SE_NONE, SE_READ, INTERNAL_WRITE, EXTERNAL_WRITE, FINANCIAL, DESTRUCTIVE]))"

definition save_rule :: "nat \<Rightarrow> policy_rule \<Rightarrow> policy_rule rows \<Rightarrow> db_exc + policy_rule rows" where
  "save_rule k r t =
    (if \<not> fits 200 (pr_name r) \<or> \<not> fits 128 (pr_tool_key r) \<or> \<not> fits 32 (pr_required_role r)
     then Inl DataError
     else if pr_name r = [] \<or>
       list_ex (\<lambda>(i, q). i \<noteq> k \<and> pr_version q = pr_version r \<and> pr_priority q = pr_priority r) t \<or>
       list_ex (\<lambda>(i, q). i \<noteq> k \<and> pr_version q = pr_version r \<and> pr_name q = pr_name r) t
     then Inl IntegrityError
     else Inr (row_put k r t))"

definition rule_of_data :: "nat \<Rightarrow> rule_data \<Rightarrow> json \<Rightarrow> policy_rule" where
  "rule_of_data v d config =
    \<lparr>pr_version = v, pr_name = py_strip (rd_name d), pr_priority = rd_priority d,
     pr_enabled = rd_enabled d, pr_tool_key = rd_tool_key d, pr_risk_levels = rd_risk_levels d,
     pr_side_effect_types = rd_side_effect_types d, pr_condition_config = config,
     pr_effect = rd_effect d, pr_required_role = rd_required_role d, pr_ttl = rd_ttl d\<rparr>"

definition add_policy_rule ::
  "py_runtime \<Rightarrow> nat \<Rightarrow> policy_version \<Rightarrow> rule_data \<Rightarrow> nat policy_svc" where
  "add_policy_rule rt v inst d = (\<lambda>s.
    let t = pdb_rules (pa_db s);
        config = (if py_truthy (rd_condition_config d) then rd_condition_config d
                  else JObj [(''all'', JArr [])])
    in if pv_status inst \<noteq> VERSION_DRAFT
       then (s, Inl (InvalidRule ''Rules can only be added to a draft policy version.''))
       else if length (rows_where (\<lambda>i r. pr_version r = v) t) \<ge> max_rules_per_version
       then (s, Inl (LimitExceeded ''A policy version may not exceed 50 rules.''))
       else case validate_condition_config rt config of
         Some e \<Rightarrow> (s, Inl e)
       | None \<Rightarrow>
           atomic (\<lambda>s.
             let k = fresh_id t; r = rule_of_data v d config
             in case save_rule k r t of
                  Inl e \<Rightarrow> (s, Inl (AdminDb e))
                | Inr t' \<Rightarrow>
                    (case clean_rule r of
                       Some e \<Rightarrow> (set_rules t' s, Inl e)
                     | None \<Rightarrow> (set_rules t' s, Inr k))) s)"

end
