(* ===== verification/GateStore.thy ===== *)
theory GateStore
  imports PolicyServices
begin

section \<open>The rows of the tool gate\<close>

text \<open>
  The tables the tool execution gate, the approval services and the run lifecycle share:
  \<open>tools/models.py\<close>, \<open>approvals/models.py\<close>, \<open>agents/models.py\<close> and the two persisted
  snapshots of \<open>policies/models.py\<close>. The row type of a table has the columns of the model;
  \<open>created_at\<close> is kept where code reads it. \<open>g_calls\<close> records each invocation of a tool
  handler, the side effect on the outside world that the gate guards.
\<close>

subsection \<open>Status enumerations\<close>

datatype exec_status =
    EX_PENDING | EX_RUNNING | EX_SUCCEEDED | EX_FAILED | EX_TIMED_OUT | EX_CANCELLED
  | EX_WAITING_FOR_APPROVAL | EX_BLOCKED_BY_POLICY | EX_APPROVAL_TERMINATED

definition exec_terminal :: "exec_status list" where
  "exec_terminal =
    [EX_SUCCEEDED, EX_FAILED, EX_TIMED_OUT, EX_CANCELLED, EX_BLOCKED_BY_POLICY, EX_APPROVAL_TERMINATED]"

text \<open>\<open>TOOL_EXECUTION_ALLOWED_TRANSITIONS\<close>\<close>

fun exec_allowed :: "exec_status \<Rightarrow> exec_status list" where
  "exec_allowed EX_PENDING = [EX_RUNNING, EX_CANCELLED, EX_WAITING_FOR_APPROVAL, EX_BLOCKED_BY_POLICY]"
| "exec_allowed EX_RUNNING = [EX_SUCCEEDED, EX_FAILED, EX_TIMED_OUT, EX_CANCELLED]"
| "exec_allowed EX_WAITING_FOR_APPROVAL = [EX_RUNNING, EX_APPROVAL_TERMINATED, EX_CANCELLED]"
| "exec_allowed _ = []"

datatype approval_status = AP_PENDING | AP_APPROVED | AP_REJECTED | AP_EXPIRED | AP_CANCELLED

datatype decision_value = APPROVE | REJECT

datatype run_status =
    RUN_PENDING | RUN_RUNNING | RUN_SUCCEEDED | RUN_FAILED | RUN_CANCELLED | RUN_BUDGET_EXCEEDED
  | RUN_WAITING_FOR_APPROVAL | RUN_HANDED_OFF

definition run_terminal :: "run_status list" where
  "run_terminal = [RUN_SUCCEEDED, RUN_FAILED, RUN_CANCELLED, RUN_BUDGET_EXCEEDED, RUN_HANDED_OFF]"

datatype agent_version_status = AV_DRAFT | AV_PUBLISHED | AV_RETIRED

subsection \<open>Rows\<close>

record tool_definition =
  td_key :: string
  td_active :: bool
  td_risk :: risk_level
  td_side_effect :: side_effect_type

record tool_binding =
  tb_version :: nat
  tb_definition :: nat
  tb_enabled :: bool
  tb_configuration :: arguments

record agent_version =
  av_definition :: nat
  av_version :: nat
  av_status :: agent_version_status
  av_provider :: string
  av_max_model_calls :: int
  av_max_steps :: int
  av_wall_time :: int
  av_provider_timeout :: int
  av_max_total_tokens :: "int option"
  av_max_cost :: "rat option"
  av_max_retry_attempts :: int
  av_max_tool_calls :: int
  av_published_at :: "int option"

record agent_run =
  run_workspace :: nat
  run_version :: nat
  run_conversation :: "nat option"
  run_ticket :: "nat option"
  run_trigger_message :: "nat option"
  run_output_message :: "nat option"
  run_trigger :: string
  run_status_of :: run_status
  run_input_message :: string
  run_input_metadata :: json
  run_final_response :: string
  run_started_at :: "int option"
  run_completed_at :: "int option"
  run_cancelled_at :: "int option"
  run_failure_code :: string
  run_failure_message :: string
  run_model_calls :: int
  run_steps :: int
  run_tool_calls :: int
  run_input_tokens :: int
  run_output_tokens :: int
  run_total_tokens :: int
  run_cost :: "rat option"
  run_correlation :: string
  run_created_by :: "nat option"
  run_created_at :: int
  run_updated_at :: int

record agent_step =
  st_run :: nat
  st_sequence :: nat
  st_type :: string
  st_status :: string
  st_error_code :: string
  st_metadata :: json

record tool_execution =
  te_workspace :: nat
  te_run :: nat
  te_version :: nat
  te_definition :: nat
  te_binding :: nat
  te_status :: exec_status
  te_key :: string
  te_fingerprint :: string
  te_arguments :: json
  te_result :: json
  te_attempts :: nat
  te_timeout :: int
  te_started_at :: "int option"
  te_completed_at :: "int option"
  te_error_code :: string
  te_error_message :: string
  te_duration_ms :: "int option"

record risk_assessment =
  ra_workspace :: nat
  ra_execution :: nat
  ra_tool_key :: string
  ra_base :: risk_level
  ra_effective :: risk_level
  ra_side_effect :: side_effect_type
  ra_factors :: json

record policy_evaluation =
  pe_workspace :: nat
  pe_execution :: nat
  pe_risk :: nat
  pe_version :: "nat option"
  pe_decision :: policy_effect
  pe_code :: string
  pe_reason :: string
  pe_matched :: "nat list"

record approval_request =
  ar_workspace :: nat
  ar_execution :: nat
  ar_evaluation :: nat
  ar_risk :: nat
  ar_status :: approval_status
  ar_requested_by :: "nat option"
  ar_required_role :: string
  ar_summary :: string
  ar_context :: json
  ar_fingerprint :: string
  ar_created_at :: int
  ar_expires_at :: int
  ar_resolved_at :: "int option"

record approval_decision =
  ad_request :: nat
  ad_decision :: decision_value
  ad_decided_by :: "nat option"
  ad_comment :: string

record gate =
  g_definitions :: "tool_definition rows"
  g_bindings :: "tool_binding rows"
  g_versions :: "agent_version rows"
  g_runs :: "agent_run rows"
  g_steps :: "agent_step rows"
  g_execs :: "tool_execution rows"
  g_risks :: "risk_assessment rows"
  g_evals :: "policy_evaluation rows"
  g_approvals :: "approval_request rows"
  g_decisions :: "approval_decision rows"
  g_policy :: policy_db
  g_effects :: "effect list"
  g_calls :: "nat list"

definition empty_gate :: gate where
  "empty_gate =
    \<lparr>g_definitions = [], g_bindings = [], g_versions = [], g_runs = [], g_steps = [], g_execs = [],
     g_risks = [], g_evals = [], g_approvals = [], g_decisions = [],
     g_policy = \<lparr>pdb_policies = [], pdb_versions = [], pdb_rules = []\<rparr>, g_effects = [], g_calls = []\<rparr>"

subsection \<open>Writing the tables\<close>

definition emit :: "effect \<Rightarrow> gate \<Rightarrow> gate" where
  "emit e g = g\<lparr>g_effects := g_effects g @ [e]\<rparr>"

definition put_exec :: "nat \<Rightarrow> tool_execution \<Rightarrow> gate \<Rightarrow> gate" where
  "put_exec k r g = g\<lparr>g_execs := row_put k r (g_execs g)\<rparr>"

definition put_run :: "nat \<Rightarrow> agent_run \<Rightarrow> gate \<Rightarrow> gate" where
  "put_run k r g = g\<lparr>g_runs := row_put k r (g_runs g)\<rparr>"

definition put_approval :: "nat \<Rightarrow> approval_request \<Rightarrow> gate \<Rightarrow> gate" where
  "put_approval k r g = g\<lparr>g_approvals := row_put k r (g_approvals g)\<rparr>"

definition put_decision :: "nat \<Rightarrow> approval_decision \<Rightarrow> gate \<Rightarrow> gate" where
  "put_decision k r g = g\<lparr>g_decisions := row_put k r (g_decisions g)\<rparr>"

definition put_risk :: "nat \<Rightarrow> risk_assessment \<Rightarrow> gate \<Rightarrow> gate" where
  "put_risk k r g = g\<lparr>g_risks := row_put k r (g_risks g)\<rparr>"

definition put_eval :: "nat \<Rightarrow> policy_evaluation \<Rightarrow> gate \<Rightarrow> gate" where
  "put_eval k r g = g\<lparr>g_evals := row_put k r (g_evals g)\<rparr>"

named_theorems put_defs \<open>the setters of the gate's tables\<close>

lemmas gate_put_defs [put_defs] =
  emit_def put_exec_def put_run_def put_approval_def put_decision_def put_risk_def put_eval_def

text \<open>
  \<open>_next_sequence_and_create_step\<close>: the next sequence number of the run, read under the
  run's lock. \<open>record_step\<close> is the callback \<open>_record_step_factory\<close> builds; a caller that
  passes none records nothing.
\<close>

definition step_numbers :: "nat \<Rightarrow> agent_step rows \<Rightarrow> nat list" where
  "step_numbers run t = map (st_sequence \<circ> snd) (rows_where (\<lambda>i s. st_run s = run) t)"

definition create_step :: "nat \<Rightarrow> string \<Rightarrow> string \<Rightarrow> string \<Rightarrow> json \<Rightarrow> gate \<Rightarrow> gate" where
  "create_step run ty status code meta g =
    (let seq = (case step_numbers run (g_steps g) of [] \<Rightarrow> 1 | ns \<Rightarrow> foldr max ns 0 + 1)
     in g\<lparr>g_steps := row_put (fresh_id (g_steps g))
           \<lparr>st_run = run, st_sequence = seq, st_type = ty, st_status = status,
            st_error_code = code, st_metadata = meta\<rparr> (g_steps g)\<rparr>)"

definition record_step :: "nat option \<Rightarrow> string \<Rightarrow> string \<Rightarrow> string \<Rightarrow> json \<Rightarrow> gate \<Rightarrow> gate" where
  "record_step rec ty status code meta g =
    (case rec of None \<Rightarrow> g | Some run \<Rightarrow> create_step run ty status code meta g)"

lemma record_step_frame [simp]:
  "g_execs (record_step rec a b c m g) = g_execs g"
  "g_approvals (record_step rec a b c m g) = g_approvals g"
  "g_decisions (record_step rec a b c m g) = g_decisions g"
  "g_evals (record_step rec a b c m g) = g_evals g"
  "g_risks (record_step rec a b c m g) = g_risks g"
  "g_runs (record_step rec a b c m g) = g_runs g"
  "g_policy (record_step rec a b c m g) = g_policy g"
  "g_bindings (record_step rec a b c m g) = g_bindings g"
  "g_definitions (record_step rec a b c m g) = g_definitions g"
  "g_versions (record_step rec a b c m g) = g_versions g"
  "g_calls (record_step rec a b c m g) = g_calls g"
  "g_effects (record_step rec a b c m g) = g_effects g"
  by (simp_all add: record_step_def create_step_def Let_def split: option.splits)

lemma emit_frame [simp]:
  "g_execs (emit e g) = g_execs g" "g_approvals (emit e g) = g_approvals g"
  "g_decisions (emit e g) = g_decisions g" "g_evals (emit e g) = g_evals g"
  "g_risks (emit e g) = g_risks g" "g_runs (emit e g) = g_runs g"
  "g_policy (emit e g) = g_policy g" "g_bindings (emit e g) = g_bindings g"
  "g_definitions (emit e g) = g_definitions g" "g_versions (emit e g) = g_versions g"
  "g_calls (emit e g) = g_calls g" "g_steps (emit e g) = g_steps g"
  "g_effects (emit e g) = g_effects g @ [e]"
  by (simp_all add: emit_def)

lemma put_exec_frame [simp]:
  "g_execs (put_exec k r g) = row_put k r (g_execs g)" "g_approvals (put_exec k r g) = g_approvals g"
  "g_decisions (put_exec k r g) = g_decisions g" "g_evals (put_exec k r g) = g_evals g"
  "g_risks (put_exec k r g) = g_risks g" "g_runs (put_exec k r g) = g_runs g"
  "g_policy (put_exec k r g) = g_policy g" "g_bindings (put_exec k r g) = g_bindings g"
  "g_definitions (put_exec k r g) = g_definitions g" "g_versions (put_exec k r g) = g_versions g"
  "g_calls (put_exec k r g) = g_calls g" "g_steps (put_exec k r g) = g_steps g"
  "g_effects (put_exec k r g) = g_effects g"
  by (simp_all add: put_exec_def)

lemma put_approval_frame [simp]:
  "g_approvals (put_approval k r g) = row_put k r (g_approvals g)"
  "g_execs (put_approval k r g) = g_execs g"
  "g_decisions (put_approval k r g) = g_decisions g" "g_evals (put_approval k r g) = g_evals g"
  "g_risks (put_approval k r g) = g_risks g" "g_runs (put_approval k r g) = g_runs g"
  "g_policy (put_approval k r g) = g_policy g" "g_bindings (put_approval k r g) = g_bindings g"
  "g_definitions (put_approval k r g) = g_definitions g"
  "g_versions (put_approval k r g) = g_versions g"
  "g_calls (put_approval k r g) = g_calls g" "g_steps (put_approval k r g) = g_steps g"
  "g_effects (put_approval k r g) = g_effects g"
  by (simp_all add: put_approval_def)

lemma put_decision_frame [simp]:
  "g_decisions (put_decision k r g) = row_put k r (g_decisions g)"
  "g_approvals (put_decision k r g) = g_approvals g" "g_execs (put_decision k r g) = g_execs g"
  "g_evals (put_decision k r g) = g_evals g" "g_calls (put_decision k r g) = g_calls g"
  "g_runs (put_decision k r g) = g_runs g" "g_effects (put_decision k r g) = g_effects g"
  by (simp_all add: put_decision_def)

lemma put_run_frame [simp]:
  "g_runs (put_run k r g) = row_put k r (g_runs g)" "g_execs (put_run k r g) = g_execs g"
  "g_approvals (put_run k r g) = g_approvals g" "g_decisions (put_run k r g) = g_decisions g"
  "g_evals (put_run k r g) = g_evals g" "g_calls (put_run k r g) = g_calls g"
  "g_effects (put_run k r g) = g_effects g" "g_versions (put_run k r g) = g_versions g"
  "g_steps (put_run k r g) = g_steps g" "g_risks (put_run k r g) = g_risks g"
  by (simp_all add: put_run_def)

lemma put_risk_eval_frame [simp]:
  "g_risks (put_risk k r g) = row_put k r (g_risks g)" "g_execs (put_risk k r g) = g_execs g"
  "g_evals (put_risk k r g) = g_evals g" "g_approvals (put_risk k r g) = g_approvals g"
  "g_decisions (put_risk k r g) = g_decisions g" "g_runs (put_risk k r g) = g_runs g"
  "g_calls (put_risk k r g) = g_calls g" "g_effects (put_risk k r g) = g_effects g"
  "g_policy (put_risk k r g) = g_policy g" "g_definitions (put_risk k r g) = g_definitions g"
  "g_evals (put_eval k e g) = row_put k e (g_evals g)" "g_execs (put_eval k e g) = g_execs g"
  "g_risks (put_eval k e g) = g_risks g" "g_approvals (put_eval k e g) = g_approvals g"
  "g_decisions (put_eval k e g) = g_decisions g" "g_runs (put_eval k e g) = g_runs g"
  "g_calls (put_eval k e g) = g_calls g" "g_effects (put_eval k e g) = g_effects g"
  "g_policy (put_eval k e g) = g_policy g" "g_definitions (put_eval k e g) = g_definitions g"
  by (simp_all add: put_risk_def put_eval_def)

subsection \<open>The two snapshots the gate persists\<close>

text \<open>
  \<open>persist_risk_assessment\<close> and \<open>persist_policy_evaluation\<close>. Both rows are one-to-one with
  the execution, so a second one is an IntegrityError; the decision code must fit its
  64 characters.
\<close>

definition eval_of :: "nat \<Rightarrow> gate \<Rightarrow> (nat \<times> policy_evaluation) option" where
  "eval_of k g = find (\<lambda>(i, e). pe_execution e = k) (g_evals g)"

definition risk_of :: "nat \<Rightarrow> gate \<Rightarrow> (nat \<times> risk_assessment) option" where
  "risk_of k g = find (\<lambda>(i, r). ra_execution r = k) (g_risks g)"

definition approval_of :: "nat \<Rightarrow> gate \<Rightarrow> (nat \<times> approval_request) option" where
  "approval_of k g = find (\<lambda>(i, a). ar_execution a = k) (g_approvals g)"

definition tool_key_of :: "tool_execution \<Rightarrow> gate \<Rightarrow> string" where
  "tool_key_of ex g = (case row_get (g_definitions g) (te_definition ex) of None \<Rightarrow> [] | Some d \<Rightarrow> td_key d)"

definition persist_risk_assessment ::
  "nat \<Rightarrow> tool_execution \<Rightarrow> risk_outcome \<Rightarrow> gate \<Rightarrow> db_exc + (gate \<times> nat)" where
  "persist_risk_assessment k ex risk g =
    (if risk_of k g \<noteq> None then Inl IntegrityError
     else let i = fresh_id (g_risks g)
          in Inr (put_risk i \<lparr>ra_workspace = te_workspace ex, ra_execution = k,
                  ra_tool_key = tool_key_of ex g, ra_base = ro_base_risk risk,
                  ra_effective = ro_effective_risk risk, ra_side_effect = ro_side_effect risk,
                  ra_factors = JObj (ro_factors risk)\<rparr> g, i))"

definition persist_policy_evaluation ::
  "nat \<Rightarrow> tool_execution \<Rightarrow> nat \<Rightarrow> nat option \<Rightarrow> policy_effect \<Rightarrow> string \<Rightarrow> string \<Rightarrow> nat list
    \<Rightarrow> gate \<Rightarrow> db_exc + (gate \<times> nat)" where
  "persist_policy_evaluation k ex risk_row version decision code reason matched g =
    (if \<not> fits 64 code then Inl DataError
     else if eval_of k g \<noteq> None then Inl IntegrityError
     else let i = fresh_id (g_evals g)
          in Inr (put_eval i \<lparr>pe_workspace = te_workspace ex, pe_execution = k, pe_risk = risk_row,
                  pe_version = version, pe_decision = decision, pe_code = code,
                  pe_reason = take 500 reason, pe_matched = matched\<rparr> g, i))"

lemma find_key_None:
  "find (\<lambda>(i, r). P r) t = None \<longleftrightarrow> (\<forall>(i, r) \<in> set t. \<not> P r)"
  by (auto simp: find_None_iff)

lemma find_key_Some:
  "find (\<lambda>(i, r). P r) t = Some (i, r) \<Longrightarrow> (i, r) \<in> set t \<and> P r"
  by (auto simp: find_Some_iff) (metis nth_mem)

end
