(* ===== verification/Redaction.thy ===== *)
theory Redaction
  imports PyValue
begin

section \<open>Redaction of sensitive values\<close>

text \<open>
  \<open>common/redaction.py\<close>: the values stored under sensitive keys are replaced, at any depth
  of a JSON document. \<open>clean\<close> is the specification: under a sensitive key nothing but the
  placeholder remains.
\<close>

definition redacted_marker :: json where
  "redacted_marker = JStr ''***REDACTED***''"

definition sensitive_key_markers :: "string list" where
  "sensitive_key_markers =
    [''password'', ''secret'', ''token'', ''api_key'', ''apikey'', ''authorization'',
     ''access_key'', ''private_key'', ''signing_key'', ''card_number'', ''cvv'', ''ssn'',
     ''credential'', ''key'']"

definition is_sensitive_key :: "string \<Rightarrow> bool" where
  "is_sensitive_key k = list_ex (\<lambda>m. str_contains m (str_lower k)) sensitive_key_markers"

definition hides :: "string list \<Rightarrow> string \<Rightarrow> bool" where
  "hides extra k \<longleftrightarrow> is_sensitive_key k \<or> str_lower k \<in> set extra"

fun redact :: "string list \<Rightarrow> json \<Rightarrow> json" where
  "redact extra (JObj kvs) =
    JObj (map (\<lambda>(k, v). (k, if hides extra k then redacted_marker else redact extra v)) kvs)"
| "redact extra (JArr xs) = JArr (map (redact extra) xs)"
| "redact extra v = v"

fun clean :: "string list \<Rightarrow> json \<Rightarrow> bool" where
  "clean extra (JObj kvs) =
    list_all (\<lambda>(k, v). if hides extra k then v = redacted_marker else clean extra v) kvs"
| "clean extra (JArr xs) = list_all (clean extra) xs"
| "clean extra v = True"

lemma clean_redact: "clean extra (redact extra v)"
  by (induction extra v rule: redact.induct)
     (auto simp: list_all_iff redacted_marker_def split: if_splits)

lemma redact_clean: "clean extra v \<Longrightarrow> redact extra v = v"
proof (induction extra v rule: redact.induct)
  case (1 extra kvs)
  then have "map (\<lambda>(k, v). (k, if hides extra k then redacted_marker else redact extra v)) kvs = kvs"
    by (intro map_idI) (auto simp: list_all_iff split: if_splits)
  then show ?case by simp
next
  case (2 extra xs)
  then have "map (redact extra) xs = xs"
    by (intro map_idI) (auto simp: list_all_iff)
  then show ?case by simp
qed simp_all

text \<open>The keys of an object are kept, in their order.\<close>

lemma redact_keys: "redact extra (JObj kvs) = JObj kws \<Longrightarrow> map fst kws = map fst kvs"
  by auto

text \<open>More hidden names hide more: a wider policy leaves nothing the narrower one removes.\<close>

lemma hides_mono: "set extra \<subseteq> set extra' \<Longrightarrow> hides extra k \<Longrightarrow> hides extra' k"
  by (auto simp: hides_def)

lemma clean_mono:
  "set extra \<subseteq> set extra' \<Longrightarrow> clean extra' v \<Longrightarrow> clean extra v"
proof (induction extra' v rule: redact.induct)
  case (1 extra' kvs)
  show ?case
    using 1 by (fastforce simp: list_all_iff redacted_marker_def dest: hides_mono split: if_splits)
next
  case (2 extra' xs)
  then show ?case by (auto simp: list_all_iff)
qed simp_all

end
