(* ===== verification/Approvals.thy ===== *)
theory Approvals
  imports GateStore Redaction "HOL-Library.List_Lexorder"
begin

section \<open>The approval lifecycle\<close>

text \<open>
  \<open>approvals/services.py\<close>: a request is created by the tool gate, decided by a workspace
  member, expired by the clock or cancelled with its run. Each operation locks the row,
  compares its status and writes at most one resolution; \<open>guarded_row\<close> is that contract.
  An operation returns the state it commits next to the error it raises after the commit.
  The durations the metrics observe are left out.
\<close>

datatype approval_exc =
    ApprovalExpiredError
  | ApprovalCancelledError
  | ApprovalAlreadyResolvedError
  | ApprovalSelfApprovalForbiddenError
  | ApprovalPermissionDeniedError
  | ApprovalDb db_exc

subsection \<open>Approval authority\<close>

definition approval_role_rank :: "(string \<times> nat) list" where
  "approval_role_rank =
    [(role_value SUPPORT_MANAGER, 1), (role_value ADMIN, 2), (role_value OWNER, 3)]"

definition rank_or :: "nat \<Rightarrow> string \<Rightarrow> nat" where
  "rank_or d role = (case map_of approval_role_rank role of None \<Rightarrow> d | Some n \<Rightarrow> n)"

definition role_satisfies_requirement :: "string \<Rightarrow> string \<Rightarrow> bool" where
  "role_satisfies_requirement actor_role required_role \<longleftrightarrow>
    rank_or 0 actor_role \<ge> rank_or 99 required_role"

subsection \<open>Creation\<close>

text \<open>The tool contract as far as an approval request shows it.\<close>

record approval_tool =
  at_key :: string
  at_display_name :: string
  at_input_sensitive :: "string list"

definition join_comma :: "string list \<Rightarrow> string" where
  "join_comma parts = concat (case parts of [] \<Rightarrow> [] | p # ps \<Rightarrow> p # map (\<lambda>s. '', '' @ s) ps)"

definition max_summary_argument_chars :: nat where
  "max_summary_argument_chars = 300"

definition build_summary :: "py_runtime \<Rightarrow> string \<Rightarrow> arguments \<Rightarrow> string" where
  "build_summary rt tool_key args =
    (let parts = map (\<lambda>(k, v). k @ ''='' @ py_str rt v) (sort_key fst args);
         body = take max_summary_argument_chars (join_comma parts)
     in take 500 (tool_key @ '': '' @ body))"

definition redact_arguments :: "string list \<Rightarrow> arguments \<Rightarrow> arguments" where
  "redact_arguments extra args = (case redact extra (JObj args) of JObj kvs \<Rightarrow> kvs | _ \<Rightarrow> [])"

definition approval_context ::
  "approval_tool \<Rightarrow> risk_assessment \<Rightarrow> string \<Rightarrow> arguments \<Rightarrow> json" where
  "approval_context tool risk reason safe_args =
    JObj [(''tool_key'', JStr (at_key tool)), (''tool_display_name'', JStr (at_display_name tool)),
          (''risk_level'', JStr (risk_value (ra_effective risk))),
          (''side_effect_type'', JStr (side_effect_value (ra_side_effect risk))),
          (''policy_reason'', JStr reason), (''arguments'', JObj safe_args)]"

definition create_or_reuse_approval_request ::
  "py_runtime \<Rightarrow> (nat \<Rightarrow> int) \<Rightarrow> nat \<Rightarrow> tool_execution \<Rightarrow> agent_run \<Rightarrow> nat \<Rightarrow> policy_evaluation \<Rightarrow> nat
    \<Rightarrow> risk_assessment \<Rightarrow> string \<Rightarrow> int \<Rightarrow> arguments \<Rightarrow> approval_tool \<Rightarrow> gate
    \<Rightarrow> gate \<times> (db_exc + nat)" where
  "create_or_reuse_approval_request rt clk k ex run ev evaluation rk risk role ttl args tool g =
    (case approval_of k g of
       Some (i, a) \<Rightarrow> (g, Inr i)
     | None \<Rightarrow>
        (let safe_args = redact_arguments (at_input_sensitive tool) args;
             summary = build_summary rt (at_key tool) safe_args;
             i = fresh_id (g_approvals g);
             expires = clk 0 + ttl * 1000000;
             row = \<lparr>ar_workspace = te_workspace ex, ar_execution = k, ar_evaluation = ev, ar_risk = rk,
                    ar_status = AP_PENDING, ar_requested_by = run_created_by run,
                    ar_required_role = role, ar_summary = summary,
                    ar_context = approval_context tool risk (pe_reason evaluation) safe_args,
                    ar_fingerprint = te_fingerprint ex, ar_created_at = clk 1,
                    ar_expires_at = expires, ar_resolved_at = None\<rparr>
         in if \<not> fits 32 role then (g, Inl DataError)
            else if expires \<le> clk 1 then (g, Inl IntegrityError)
            else
              (emit (Metric ''approval_request_created'' [])
                (emit (Webhook_event (te_workspace ex) ''approval.requested''
                  (JObj [(''approval_id'', jid i), (''tool_key'', JStr (at_key tool)),
                         (''risk_level'', JStr (risk_value (ra_effective risk))),
                         (''required_role'', JStr role), (''summary'', JStr summary),
                         (''expires_at'', JInt expires)]))
                (emit (record_event ''approval.requested'' ''approval_request'' i (run_created_by run)
                   (Some (te_workspace ex))
                   (JObj [(''approval_request_id'', jid i), (''tool_execution_id'', jid k),
                          (''tool_key'', JStr (at_key tool)), (''required_role'', JStr role)])
                   (if run_correlation run = [] then None else Some (run_correlation run)))
                (put_approval i row g))), Inr i)))"

subsection \<open>Resolution\<close>

definition resolve_row :: "approval_status \<Rightarrow> int \<Rightarrow> approval_request \<Rightarrow> approval_request" where
  "resolve_row st t r = r\<lparr>ar_status := st, ar_resolved_at := Some t\<rparr>"

definition schedule_approval_decision_observation ::
  "approval_request \<Rightarrow> string \<Rightarrow> gate \<Rightarrow> gate" where
  "schedule_approval_decision_observation r outcome g =
    (case ar_resolved_at r of None \<Rightarrow> g | Some t \<Rightarrow> emit (Metric ''approval_decision'' [outcome]) g)"

definition schedule_tool_execution_metric :: "nat \<Rightarrow> gate \<Rightarrow> gate" where
  "schedule_tool_execution_metric k g =
    (case row_get (g_execs g) k of
       None \<Rightarrow> g
     | Some ex \<Rightarrow>
         (case row_get (g_definitions g) (te_definition ex) of
            None \<Rightarrow> g
          | Some d \<Rightarrow> emit (Metric ''tool_execution'' [td_key d, ''approval_terminated'']) g))"

definition terminate_execution :: "int \<Rightarrow> nat \<Rightarrow> string \<Rightarrow> string \<Rightarrow> gate \<Rightarrow> gate" where
  "terminate_execution now k code msg g =
    (case row_get (g_execs g) k of
       None \<Rightarrow> g
     | Some ex \<Rightarrow>
         if te_status ex = EX_WAITING_FOR_APPROVAL
         then schedule_tool_execution_metric k
           (put_exec k (ex\<lparr>te_status := EX_APPROVAL_TERMINATED, te_error_code := code,
              te_error_message := msg, te_completed_at := Some now\<rparr>) g)
         else g)"

definition emit_expired_event :: "approval_request \<Rightarrow> nat \<Rightarrow> gate \<Rightarrow> gate" where
  "emit_expired_event r i g =
    emit (Webhook_event (ar_workspace r) ''approval.expired''
      (JObj [(''approval_id'', jid i), (''required_role'', JStr (ar_required_role r)),
             (''expired_at'', case ar_resolved_at r of None \<Rightarrow> JNull | Some t \<Rightarrow> JInt t)])) g"

definition dispatch_resume :: "nat \<Rightarrow> gate \<Rightarrow> gate" where
  "dispatch_resume i g = emit (Task ''resume_approved_action_task'' i) g"

text \<open>The expiry transition, written twice in the source: when deciding and in the sweep.\<close>

definition expire_row :: "int \<Rightarrow> int \<Rightarrow> nat \<Rightarrow> approval_request \<Rightarrow> gate \<Rightarrow> gate" where
  "expire_row t1 t2 i r g =
    (let locked = resolve_row AP_EXPIRED t1 r in
     dispatch_resume i
       (schedule_approval_decision_observation locked ''expired''
       (emit_expired_event locked i
       (emit (record_event ''approval.expired'' ''approval_request'' i None (Some (ar_workspace r))
          (JObj [(''approval_request_id'', jid i)]) None)
       (terminate_execution t2 (ar_execution r) ''approval_expired'' ''The approval request expired.''
       (put_approval i locked g))))))"

definition expire_if_stale ::
  "(nat \<Rightarrow> int) \<Rightarrow> nat \<Rightarrow> approval_request \<Rightarrow> gate \<Rightarrow> gate \<times> bool" where
  "expire_if_stale clk i r g =
    (if ar_status r \<noteq> AP_PENDING then (g, False)
     else if clk 0 < ar_expires_at r then (g, False)
     else (expire_row (clk 1) (clk 2) i r g, True))"

subsection \<open>Decision\<close>

fun decided_status :: "decision_value \<Rightarrow> approval_status" where
  "decided_status APPROVE = AP_APPROVED"
| "decided_status REJECT = AP_REJECTED"

definition decision_of :: "nat \<Rightarrow> gate \<Rightarrow> (nat \<times> approval_decision) option" where
  "decision_of i g = find (\<lambda>(j, d). ad_request d = i) (g_decisions g)"

definition record_decision ::
  "(nat \<Rightarrow> int) \<Rightarrow> nat \<Rightarrow> nat \<Rightarrow> approval_request \<Rightarrow> nat \<Rightarrow> decision_value \<Rightarrow> string \<Rightarrow> string option
    \<Rightarrow> gate \<Rightarrow> gate \<times> approval_request" where
  "record_decision clk ws i r actor decision comment req g =
    (let locked = resolve_row (decided_status decision) (clk 1) r;
         g1 = put_decision (fresh_id (g_decisions g))
                \<lparr>ad_request = i, ad_decision = decision, ad_decided_by = Some actor,
                 ad_comment = take 1000 comment\<rparr> g;
         g2 = put_approval i locked g1;
         verb = (if decision = APPROVE then ''approval.approved'' else ''approval.rejected'');
         g3 = emit (Webhook_event ws verb
                (JObj [(''approval_id'', jid i), (''required_role'', JStr (ar_required_role r)),
                       (''decided_at'', JInt (clk 1))]))
              (emit (record_event verb ''approval_request'' i (Some actor) (Some ws)
                (JObj [(''approval_request_id'', jid i)]) req) g2);
         g4 = (if decision = REJECT
               then terminate_execution (clk 2) (ar_execution r) ''approval_rejected''
                 ''This action was rejected.'' g3
               else g3);
         g5 = schedule_approval_decision_observation locked
                (if decision = APPROVE then ''approved'' else ''rejected'') g4
     in (dispatch_resume i g5, locked))"

definition decide_approval ::
  "(nat \<Rightarrow> int) \<Rightarrow> nat \<Rightarrow> nat \<Rightarrow> nat \<Rightarrow> string \<Rightarrow> decision_value \<Rightarrow> string \<Rightarrow> string option
    \<Rightarrow> (gate, approval_exc, approval_request) svc" where
  "decide_approval clk ws i actor actor_role decision comment req = (\<lambda>g.
    case row_get (g_approvals g) i of
      None \<Rightarrow> (g, Inl (ApprovalDb DoesNotExist))
    | Some locked \<Rightarrow>
       (let (g', stale) = expire_if_stale clk i locked g in
        if stale then (g', Inl ApprovalExpiredError)
        else if ar_status locked = AP_EXPIRED then (g, Inl ApprovalExpiredError)
        else if ar_status locked = AP_CANCELLED then (g, Inl ApprovalCancelledError)
        else if ar_status locked = AP_APPROVED \<or> ar_status locked = AP_REJECTED then
          (let resolved_value = (if ar_status locked = AP_APPROVED then APPROVE else REJECT) in
           if resolved_value \<noteq> decision then (g, Inl ApprovalAlreadyResolvedError)
           else (g, Inr locked))
        else if ar_requested_by locked = Some actor then (g, Inl ApprovalSelfApprovalForbiddenError)
        else if \<not> role_satisfies_requirement actor_role (ar_required_role locked)
        then (g, Inl ApprovalPermissionDeniedError)
        else if decision_of i g \<noteq> None then (g, Inl ApprovalAlreadyResolvedError)
        else (let (g', locked') = record_decision clk ws i locked actor decision comment req g
              in (g', Inr locked'))))"

subsection \<open>The sweep and the cancellation\<close>

definition stale_ids :: "int \<Rightarrow> gate \<Rightarrow> nat list" where
  "stale_ids now g =
    row_ids (rows_where (\<lambda>i r. ar_status r = AP_PENDING \<and> ar_expires_at r \<le> now) (g_approvals g))"

text \<open>
  One turn of the loop is one transaction: it reads the clock to compare, to resolve and to
  terminate. \<open>None\<close> is the DoesNotExist of a row that is gone.
\<close>

definition sweep_one :: "(nat \<Rightarrow> int) \<Rightarrow> nat \<Rightarrow> gate \<Rightarrow> (gate \<times> bool) option" where
  "sweep_one clk i g =
    (case row_get (g_approvals g) i of
       None \<Rightarrow> None
     | Some locked \<Rightarrow>
         if ar_status locked \<noteq> AP_PENDING \<or> ar_expires_at locked > clk 0 then Some (g, False)
         else Some (expire_row (clk 1) (clk 2) i locked g, True))"

fun sweep_ids :: "(nat \<Rightarrow> nat \<Rightarrow> int) \<Rightarrow> nat list \<Rightarrow> nat \<Rightarrow> gate \<Rightarrow> gate \<times> (db_exc + nat)" where
  "sweep_ids clks [] n g = (g, Inr n)"
| "sweep_ids clks (i # ids) n g =
    (case sweep_one (clks i) i g of
       None \<Rightarrow> (g, Inl DoesNotExist)
     | Some (g', expired) \<Rightarrow> sweep_ids clks ids (if expired then n + 1 else n) g')"

definition expire_stale_approvals ::
  "int \<Rightarrow> (nat \<Rightarrow> nat \<Rightarrow> int) \<Rightarrow> gate \<Rightarrow> gate \<times> (db_exc + nat)" where
  "expire_stale_approvals now clks g = sweep_ids clks (stale_ids now g) 0 g"

definition cancel_approval_for_execution :: "int \<Rightarrow> nat \<Rightarrow> string \<Rightarrow> gate \<Rightarrow> gate" where
  "cancel_approval_for_execution now k reason g =
    (case approval_of k g of
       None \<Rightarrow> g
     | Some (i, approval) \<Rightarrow>
         if ar_status approval \<noteq> AP_PENDING then g
         else
           (let cancelled = resolve_row AP_CANCELLED now approval in
            schedule_approval_decision_observation cancelled ''cancelled''
              (emit (record_event ''approval.cancelled'' ''approval_request'' i None
                 (Some (ar_workspace approval))
                 (JObj [(''approval_request_id'', jid i), (''reason'', JStr reason)]) None)
              (put_approval i cancelled g))))"


subsection \<open>The contract: one resolution per request\<close>

datatype outcome = Decided decision_value | Lapsed | Withdrawn

fun outcome_status :: "outcome \<Rightarrow> approval_status" where
  "outcome_status (Decided d) = decided_status d"
| "outcome_status Lapsed = AP_EXPIRED"
| "outcome_status Withdrawn = AP_CANCELLED"

lemma decided_status_neq [simp]:
  "decided_status d \<noteq> AP_PENDING" "AP_PENDING \<noteq> decided_status d"
  "decided_status d \<noteq> AP_EXPIRED"
  "AP_EXPIRED \<noteq> decided_status d" "decided_status d \<noteq> AP_CANCELLED"
  "AP_CANCELLED \<noteq> decided_status d" "decided_status d = decided_status d' \<longleftrightarrow> d = d'"
  by (cases d; cases d'; simp)+

lemma outcome_status_neq [simp]:
  "outcome_status oc \<noteq> AP_PENDING" "AP_PENDING \<noteq> outcome_status oc"
  by (cases oc; simp)+

lemma outcome_status_inj [simp]: "outcome_status oc = outcome_status oc' \<longleftrightarrow> oc = oc'"
  by (cases oc; cases oc') simp_all

interpretation resolution: guarded_row row_get row_put
    "\<lambda>r. ar_status r = AP_PENDING" "resolve_row (outcome_status oc) t"
    "\<lambda>r. ar_status r \<noteq> AP_PENDING" for oc t
  by unfold_locales (simp_all add: resolve_row_def)

lemma terminate_execution_frame [simp]:
  "g_approvals (terminate_execution t k c m g) = g_approvals g"
  "g_decisions (terminate_execution t k c m g) = g_decisions g"
  "g_calls (terminate_execution t k c m g) = g_calls g"
  "g_runs (terminate_execution t k c m g) = g_runs g"
  "g_evals (terminate_execution t k c m g) = g_evals g"
  "tasks_for n i (g_effects (terminate_execution t k c m g)) = tasks_for n i (g_effects g)"
  by (simp_all add: terminate_execution_def schedule_tool_execution_metric_def split: option.splits)

lemma schedule_frame [simp]:
  "g_approvals (schedule_approval_decision_observation r o' g) = g_approvals g"
  "g_decisions (schedule_approval_decision_observation r o' g) = g_decisions g"
  "g_calls (schedule_approval_decision_observation r o' g) = g_calls g"
  "g_runs (schedule_approval_decision_observation r o' g) = g_runs g"
  "g_execs (schedule_approval_decision_observation r o' g) = g_execs g"
  "g_evals (schedule_approval_decision_observation r o' g) = g_evals g"
  "tasks_for n i (g_effects (schedule_approval_decision_observation r o' g)) = tasks_for n i (g_effects g)"
  by (simp_all add: schedule_approval_decision_observation_def split: option.splits)

lemma resolve_row_fields [simp]:
  "ar_status (resolve_row st t r) = st" "ar_resolved_at (resolve_row st t r) = Some t"
  "ar_requested_by (resolve_row st t r) = ar_requested_by r"
  "ar_required_role (resolve_row st t r) = ar_required_role r"
  "ar_execution (resolve_row st t r) = ar_execution r"
  "ar_fingerprint (resolve_row st t r) = ar_fingerprint r"
  "ar_expires_at (resolve_row st t r) = ar_expires_at r"
  by (simp_all add: resolve_row_def)

definition resume_task :: string where
  "resume_task = ''resume_approved_action_task''"

lemma expire_row_approvals [simp]:
  "g_approvals (expire_row t1 t2 i r g) = row_put i (resolve_row AP_EXPIRED t1 r) (g_approvals g)"
  "g_decisions (expire_row t1 t2 i r g) = g_decisions g"
  "g_calls (expire_row t1 t2 i r g) = g_calls g"
  "g_runs (expire_row t1 t2 i r g) = g_runs g"
  "g_evals (expire_row t1 t2 i r g) = g_evals g"
  by (simp_all add: expire_row_def Let_def emit_expired_event_def dispatch_resume_def)

lemma expire_row_tasks [simp]:
  "tasks_for resume_task j (g_effects (expire_row t1 t2 i r g)) =
    tasks_for resume_task j (g_effects g) + (if j = i then 1 else 0)"
  by (simp add: expire_row_def Let_def emit_expired_event_def dispatch_resume_def resume_task_def)

lemma record_decision_approvals [simp]:
  "g_approvals (fst (record_decision clk ws i r u d c q g)) =
    row_put i (resolve_row (decided_status d) (clk 1) r) (g_approvals g)"
  "g_calls (fst (record_decision clk ws i r u d c q g)) = g_calls g"
  "g_decisions (fst (record_decision clk ws i r u d c q g)) =
    row_put (fresh_id (g_decisions g)) \<lparr>ad_request = i, ad_decision = d, ad_decided_by = Some u,
      ad_comment = take 1000 c\<rparr> (g_decisions g)"
  "snd (record_decision clk ws i r u d c q g) = resolve_row (decided_status d) (clk 1) r"
  by (simp_all add: record_decision_def Let_def dispatch_resume_def)

lemma record_decision_tasks [simp]:
  "tasks_for resume_task j (g_effects (fst (record_decision clk ws i r u d c q g))) =
    tasks_for resume_task j (g_effects g) + (if j = i then 1 else 0)"
  by (simp add: record_decision_def Let_def dispatch_resume_def resume_task_def)

text \<open>
  What an operation may do to the table of requests: resolve one pending row, and dispatch
  its resume task unless the request is withdrawn.
\<close>

definition resolves :: "gate \<Rightarrow> gate \<Rightarrow> nat \<Rightarrow> outcome \<Rightarrow> bool" where
  "resolves g g' i oc \<longleftrightarrow>
     (\<exists>t. resolution.fire oc t i (g_approvals g) = (g_approvals g', True)) \<and>
     (\<forall>j. tasks_for resume_task j (g_effects g') = tasks_for resume_task j (g_effects g) +
        (if j = i \<and> oc \<noteq> Withdrawn then 1 else 0))"

lemma resolvesI:
  assumes "row_get (g_approvals g) i = Some r" "ar_status r = AP_PENDING"
    and "g_approvals g' = row_put i (resolve_row (outcome_status oc) t r) (g_approvals g)"
    and "\<And>j. tasks_for resume_task j (g_effects g') = tasks_for resume_task j (g_effects g) +
        (if j = i \<and> oc \<noteq> Withdrawn then 1 else 0)"
  shows "resolves g g' i oc"
  using assms resolution.fire_wins [of "g_approvals g" i r oc t] by (auto simp: resolves_def)

lemma resolvesE:
  assumes "resolves g g' i oc"
  obtains r t where "row_get (g_approvals g) i = Some r" "ar_status r = AP_PENDING"
    "g_approvals g' = row_put i (resolve_row (outcome_status oc) t r) (g_approvals g)"
proof -
  from assms obtain t where "resolution.fire oc t i (g_approvals g) = (g_approvals g', True)"
    by (auto simp: resolves_def)
  then have "\<exists>r. row_get (g_approvals g) i = Some r \<and> ar_status r = AP_PENDING \<and>
      g_approvals g' = row_put i (resolve_row (outcome_status oc) t r) (g_approvals g)"
    by (auto simp: resolution.fire_def split: option.splits if_splits)
  with that show thesis by blast
qed

lemma decide_approval_cases:
  assumes "decide_approval clk ws i u role d c q g = (g', res)"
  obtains (same) "g' = g" "\<And>r. res = Inr r \<Longrightarrow>
      row_get (g_approvals g) i = Some r \<and> ar_status r = decided_status d"
      "\<And>r. row_get (g_approvals g) i = Some r \<Longrightarrow> ar_status r = AP_PENDING \<Longrightarrow> clk 0 < ar_expires_at r"
  | (expired) r where "row_get (g_approvals g) i = Some r" "ar_status r = AP_PENDING"
      "ar_expires_at r \<le> clk 0" "g' = expire_row (clk 1) (clk 2) i r g" "res = Inl ApprovalExpiredError"
  | (decided) r where "row_get (g_approvals g) i = Some r" "ar_status r = AP_PENDING"
      "clk 0 < ar_expires_at r" "ar_requested_by r \<noteq> Some u"
      "role_satisfies_requirement role (ar_required_role r)" "decision_of i g = None"
      "g' = fst (record_decision clk ws i r u d c q g)"
      "res = Inr (resolve_row (decided_status d) (clk 1) r)"
proof (cases "row_get (g_approvals g) i")
  case None
  then show thesis using assms by (intro same) (auto simp: decide_approval_def)
next
  case (Some r)
  show thesis
  proof (cases "ar_status r = AP_PENDING")
    case False
    then have "g' = g \<and> (\<forall>r'. res = Inr r' \<longrightarrow> r' = r \<and> ar_status r = decided_status d)"
      using assms Some by (cases "ar_status r"; cases d)
        (auto simp: decide_approval_def expire_if_stale_def)
    with Some False show thesis by (intro same) auto
  next
    case True
    show thesis
    proof (cases "clk 0 < ar_expires_at r")
      case False
      with True Some assms show thesis
        by (intro expired [of r]) (auto simp: decide_approval_def expire_if_stale_def)
    next
      case fresh: True
      note unf = decide_approval_def expire_if_stale_def Some \<open>ar_status r = AP_PENDING\<close> fresh
      show thesis
      proof (cases "ar_requested_by r \<noteq> Some u \<and>
          role_satisfies_requirement role (ar_required_role r) \<and> decision_of i g = None")
        case True
        with assms show thesis
          by (intro decided [of r]) (auto simp: unf split_beta)
      next
        case False
        with assms show thesis
          by (intro same) (auto simp: unf split: if_splits)
      qed
    qed
  qed
qed

lemma approval_of_SomeD:
  "distinct (row_ids (g_approvals g)) \<Longrightarrow> approval_of k g = Some (i, a) \<Longrightarrow>
    row_get (g_approvals g) i = Some a \<and> ar_execution a = k"
  unfolding approval_of_def by (drule find_key_Some) (auto simp: row_ids_def)

subsection \<open>Runs of operations\<close>

datatype approval_op =
    Decide "nat \<Rightarrow> int" nat nat nat string decision_value string "string option"
  | Sweep int "nat \<Rightarrow> nat \<Rightarrow> int"
  | Cancel int nat string

fun approval_step :: "approval_op \<Rightarrow> gate \<Rightarrow> gate" where
  "approval_step (Decide clk ws i u role d c q) g = fst (decide_approval clk ws i u role d c q g)"
| "approval_step (Sweep now clks) g = fst (expire_stale_approvals now clks g)"
| "approval_step (Cancel now k reason) g = cancel_approval_for_execution now k reason g"

definition approval_run :: "approval_op list \<Rightarrow> gate \<Rightarrow> gate" where
  "approval_run ops g = fold approval_step ops g"

lemma approval_run_simps [simp]:
  "approval_run [] g = g"
  "approval_run (a # ops) g = approval_run ops (approval_step a g)"
  by (simp_all add: approval_run_def)

text \<open>
  Every operation is a path of resolutions with outcomes in a set; facts about paths are
  facts about all of them.
\<close>

inductive approval_path :: "outcome set \<Rightarrow> gate \<Rightarrow> gate \<Rightarrow> bool" for S where
  path_refl: "approval_path S g g"
| path_step: "approval_path S g g' \<Longrightarrow> resolves g' g'' i oc \<Longrightarrow> oc \<in> S \<Longrightarrow> approval_path S g g''"

lemma path_trans:
  assumes "approval_path S g' g''" and "approval_path S g g'"
  shows "approval_path S g g''"
  using assms by (induction rule: approval_path.induct) (auto intro: path_step)

lemma path_mono:
  assumes "approval_path S g g'" and "S \<subseteq> T"
  shows "approval_path T g g'"
  using assms by (induction rule: approval_path.induct) (auto intro: path_refl path_step)

lemma path_one: "resolves g g' i oc \<Longrightarrow> oc \<in> S \<Longrightarrow> approval_path S g g'"
  by (rule path_step [OF path_refl])

lemma path_ids:
  assumes "approval_path S g g'"
  shows "row_ids (g_approvals g') = row_ids (g_approvals g)"
  using assms
  by (induction rule: approval_path.induct)
     (auto elim!: resolvesE simp: row_ids_put dest: row_get_Some_in_ids)

lemma path_terminal:
  assumes "approval_path S g g'" and "row_get (g_approvals g) j = Some r" "ar_status r \<noteq> AP_PENDING"
  shows "row_get (g_approvals g') j = Some r"
  using assms
proof (induction rule: approval_path.induct)
  case (path_step g g' g'' i oc)
  then obtain t where "resolution.fire oc t i (g_approvals g') = (g_approvals g'', True)"
    by (auto simp: resolves_def)
  with resolution.fire_keeps_terminal [of "g_approvals g'" j r oc t i] path_step
  show ?case by simp
qed

lemma path_row:
  assumes "approval_path S g g'" and "row_get (g_approvals g) j = Some r"
  obtains (kept) "row_get (g_approvals g') j = Some r"
  | (resolved) oc t where "ar_status r = AP_PENDING" "oc \<in> S"
      "row_get (g_approvals g') j = Some (resolve_row (outcome_status oc) t r)"
proof -
  have "row_get (g_approvals g') j = Some r \<or>
    (\<exists>oc t. ar_status r = AP_PENDING \<and> oc \<in> S \<and>
       row_get (g_approvals g') j = Some (resolve_row (outcome_status oc) t r))"
    using assms
  proof (induction rule: approval_path.induct)
    case (path_step g g' g'' i oc)
    from path_step.hyps(2) show ?case
      by (rule resolvesE) (use path_step in fastforce)
  qed simp
  then show thesis using that by blast
qed

lemma expire_resolves:
  "row_get (g_approvals g) i = Some r \<Longrightarrow> ar_status r = AP_PENDING \<Longrightarrow>
    resolves g (expire_row t1 t2 i r g) i Lapsed"
  by (rule resolvesI) auto

lemma decide_path:
  assumes "decide_approval clk ws i u role d c q g = (g', res)"
  shows "approval_path {Lapsed, Decided d} g g'"
  using assms
proof (cases rule: decide_approval_cases)
  case (decided r)
  then have "resolves g g' i (Decided d)" by (intro resolvesI) auto
  then show ?thesis by (auto intro: path_one)
qed (auto intro: path_refl path_one [OF expire_resolves])

lemma sweep_one_cases:
  assumes "sweep_one clk i g = Some (g', b)"
  obtains (same) "g' = g" "\<not> b"
  | (expired) r where "b" "row_get (g_approvals g) i = Some r" "ar_status r = AP_PENDING"
      "ar_expires_at r \<le> clk 0" "g' = expire_row (clk 1) (clk 2) i r g"
  using assms by (auto simp: sweep_one_def split: option.splits if_splits)

lemma sweep_one_path:
  assumes "sweep_one clk i g = Some (g', b)"
  shows "approval_path {Lapsed} g g'"
  using assms
  by (cases rule: sweep_one_cases) (auto intro: path_refl path_one [OF expire_resolves])

lemma sweep_ids_path: "sweep_ids clks ids n g = (g', res) \<Longrightarrow> approval_path {Lapsed} g g'"
proof (induction ids arbitrary: n g)
  case (Cons i ids)
  show ?case
  proof (cases "sweep_one (clks i) i g")
    case (Some p)
    obtain g1 b where p: "p = (g1, b)" by fastforce
    have "approval_path {Lapsed} g1 g'"
      using Cons.IH [of _ g1] Cons.prems Some p by (auto split: if_splits)
    with sweep_one_path [of "clks i" i g g1 b] Some p show ?thesis by (auto intro: path_trans)
  qed (use Cons.prems in \<open>auto intro: path_refl\<close>)
qed (auto intro: path_refl)

lemma cancel_path:
  assumes "distinct (row_ids (g_approvals g))"
  shows "approval_path {Withdrawn} g (cancel_approval_for_execution now k reason g)"
proof (cases "approval_of k g")
  case (Some p)
  obtain i a where p: "p = (i, a)" by fastforce
  with Some assms have r: "row_get (g_approvals g) i = Some a"
    by (auto dest: approval_of_SomeD)
  show ?thesis
  proof (cases "ar_status a = AP_PENDING")
    case True
    with Some p r have "resolves g (cancel_approval_for_execution now k reason g) i Withdrawn"
      by (intro resolvesI) (auto simp: cancel_approval_for_execution_def Let_def)
    then show ?thesis by (auto intro: path_one)
  qed (use Some p in \<open>simp add: cancel_approval_for_execution_def path_refl\<close>)
qed (simp add: cancel_approval_for_execution_def path_refl)

fun outcomes_of :: "approval_op \<Rightarrow> outcome set" where
  "outcomes_of (Decide clk ws i u role d c q) = {Lapsed, Decided d}"
| "outcomes_of (Sweep now clks) = {Lapsed}"
| "outcomes_of (Cancel now k reason) = {Withdrawn}"

lemma step_path:
  "distinct (row_ids (g_approvals g)) \<Longrightarrow> approval_path (outcomes_of a) g (approval_step a g)"
proof (cases a)
  case (Decide clk ws i u role d c q)
  then show ?thesis
    by (cases "decide_approval clk ws i u role d c q g") (auto dest: decide_path)
next
  case (Sweep now clks)
  then show ?thesis
    by (cases "expire_stale_approvals now clks g")
       (auto simp: expire_stale_approvals_def dest: sweep_ids_path)
qed (simp add: cancel_path)

lemma run_path: "distinct (row_ids (g_approvals g)) \<Longrightarrow> approval_path UNIV g (approval_run ops g)"
proof (induction ops arbitrary: g)
  case (Cons a ops)
  have p: "approval_path UNIV g (approval_step a g)"
    using step_path [OF Cons.prems] by (rule path_mono) simp
  with Cons have "approval_path UNIV (approval_step a g) (approval_run ops (approval_step a g))"
    by (simp add: path_ids)
  with p show ?case by (auto intro: path_trans)
qed (simp add: path_refl)

text \<open>The resume task of a request has been dispatched exactly when it was decided or expired.\<close>

definition resume_due :: "approval_request option \<Rightarrow> nat" where
  "resume_due r = (case r of None \<Rightarrow> 0
     | Some a \<Rightarrow> if ar_status a = AP_PENDING \<or> ar_status a = AP_CANCELLED then 0 else 1)"

text \<open>The invariant of the tasks: one for every request that was decided or expired, and one for each time the
  sweep dispatched it again, which it does for such a request only.\<close>

definition tasks_accounted :: "(nat \<Rightarrow> nat) \<Rightarrow> gate \<Rightarrow> bool" where
  "tasks_accounted n g \<longleftrightarrow> distinct (row_ids (g_approvals g)) \<and>
    (\<forall>j. tasks_for resume_task j (g_effects g) = resume_due (row_get (g_approvals g) j) + n j \<and>
      (0 < n j \<longrightarrow> resume_due (row_get (g_approvals g) j) = 1))"

lemma resolves_accounted:
  assumes "resolves g g' i oc" and "tasks_accounted n g"
  shows "tasks_accounted n g'"
proof -
  from assms(1) obtain r t where r: "row_get (g_approvals g) i = Some r" "ar_status r = AP_PENDING"
    "g_approvals g' = row_put i (resolve_row (outcome_status oc) t r) (g_approvals g)"
    by (rule resolvesE)
  have "n i = 0" using assms(2) r(1,2) by (auto simp: tasks_accounted_def resume_due_def)
  moreover have "tasks_for resume_task j (g_effects g') = tasks_for resume_task j (g_effects g) +
      (if j = i \<and> oc \<noteq> Withdrawn then 1 else 0)" for j
    using assms(1) by (simp add: resolves_def)
  ultimately show ?thesis
    using assms(2) r unfolding tasks_accounted_def
    by (cases oc) (auto simp: resume_due_def distinct_row_put)
qed

lemma path_accounted: "approval_path S g g' \<Longrightarrow> tasks_accounted n g \<Longrightarrow> tasks_accounted n g'"
  by (induction rule: approval_path.induct) (auto dest: resolves_accounted)

text \<open>An operation that decides a pending request is a decision by an authorised member.\<close>

definition authorised_decision :: "approval_op \<Rightarrow> nat \<Rightarrow> approval_request \<Rightarrow> decision_value \<Rightarrow> bool" where
  "authorised_decision a i r d \<longleftrightarrow> (case a of
     Decide clk ws i' u role d' c q \<Rightarrow> i' = i \<and> d' = d \<and> ar_requested_by r \<noteq> Some u \<and>
       role_satisfies_requirement role (ar_required_role r) \<and> clk 0 < ar_expires_at r
   | _ \<Rightarrow> False)"

lemma authorised_decisionE:
  assumes "authorised_decision a i r d"
  obtains clk ws u role c q where "a = Decide clk ws i u role d c q" "ar_requested_by r \<noteq> Some u"
    "role_satisfies_requirement role (ar_required_role r)" "clk 0 < ar_expires_at r"
  using assms by (cases a) (auto simp: authorised_decision_def)

lemma step_decides:
  assumes dist: "distinct (row_ids (g_approvals g))"
    and r: "row_get (g_approvals g) i = Some r" "ar_status r = AP_PENDING"
    and r': "row_get (g_approvals (approval_step a g)) i = Some r'" "ar_status r' = decided_status d"
  shows "authorised_decision a i r d"
proof (cases a)
  case (Decide clk ws i' u role d' c q)
  obtain g' res where dec: "decide_approval clk ws i' u role d' c q g = (g', res)" by fastforce
  with r' Decide have g': "row_get (g_approvals g') i = Some r'" by simp
  from dec show ?thesis
    by (cases rule: decide_approval_cases)
       (use r r'(2) g' Decide in \<open>auto simp: authorised_decision_def split: if_splits\<close>)
next
  case (Sweep now clks)
  from step_path [OF dist, of a] r(1) show ?thesis
    by (cases rule: path_row) (use r r' Sweep in auto)
next
  case (Cancel now k reason)
  from step_path [OF dist, of a] r(1) show ?thesis
    by (cases rule: path_row) (use r r' Cancel in auto)
qed

lemma run_decides:
  assumes "distinct (row_ids (g_approvals g))"
    and "row_get (g_approvals g) i = Some r" "ar_status r = AP_PENDING"
    and "row_get (g_approvals (approval_run ops g)) i = Some r'" "ar_status r' = decided_status d"
  shows "\<exists>a \<in> set ops. authorised_decision a i r d"
  using assms
proof (induction ops arbitrary: g)
  case (Cons a ops)
  let ?g = "approval_step a g"
  note p = step_path [OF Cons.prems(1), of a]
  with Cons.prems(1) have dist: "distinct (row_ids (g_approvals ?g))" by (simp add: path_ids)
  from p Cons.prems(2) show ?case
  proof (cases rule: path_row)
    case kept
    with Cons dist show ?thesis by auto
  next
    case (resolved oc t)
    with path_terminal [OF run_path [OF dist, of ops] resolved(3)] Cons.prems
    have "resolve_row (outcome_status oc) t r = r'" by simp
    with resolved Cons.prems show ?thesis by (auto intro!: step_decides)
  qed
qed simp

subsection \<open>Effect on the gated execution\<close>

lemma schedule_tool_execution_metric_execs [simp]:
  "g_execs (schedule_tool_execution_metric k g) = g_execs g"
  by (simp add: schedule_tool_execution_metric_def split: option.splits)

definition terminated :: "string \<Rightarrow> tool_execution \<Rightarrow> bool" where
  "terminated code ex \<longleftrightarrow> te_status ex = EX_APPROVAL_TERMINATED \<and> te_error_code ex = code"

lemma terminate_execution_get:
  assumes "row_get (g_execs g) k = Some ex" and "te_status ex = EX_WAITING_FOR_APPROVAL"
  shows "\<exists>ex'. row_get (g_execs (terminate_execution t k c m g)) k = Some ex' \<and> terminated c ex'"
  using assms by (simp add: terminate_execution_def terminated_def)

lemma terminate_execution_other:
  "k' \<noteq> k \<Longrightarrow> row_get (g_execs (terminate_execution t k c m g)) k' = row_get (g_execs g) k'"
  by (auto simp: terminate_execution_def split: option.splits)

lemma record_decision_execs:
  "g_execs (fst (record_decision clk ws i r u d c q g)) =
    (if d = REJECT
     then g_execs (terminate_execution (clk 2) (ar_execution r) ''approval_rejected''
       ''This action was rejected.'' g)
     else g_execs g)"
  by (simp add: record_decision_def Let_def dispatch_resume_def terminate_execution_def
      split: option.splits)

lemma expire_row_execs:
  "g_execs (expire_row t1 t2 i r g) =
    g_execs (terminate_execution t2 (ar_execution r) ''approval_expired''
      ''The approval request expired.'' g)"
  by (simp add: expire_row_def Let_def emit_expired_event_def dispatch_resume_def
      terminate_execution_def split: option.splits)

subsection \<open>The sweep\<close>

lemma stale_ids_iff:
  assumes "distinct (row_ids (g_approvals g))"
  shows "i \<in> set (stale_ids now g) \<longleftrightarrow>
    (\<exists>r. row_get (g_approvals g) i = Some r \<and> ar_status r = AP_PENDING \<and> ar_expires_at r \<le> now)"
proof -
  have "i \<in> set (stale_ids now g) \<longleftrightarrow> (\<exists>r. (i, r) \<in>
      set (rows_where (\<lambda>i r. ar_status r = AP_PENDING \<and> ar_expires_at r \<le> now) (g_approvals g)))"
    unfolding stale_ids_def row_ids_def by force
  then show ?thesis by (simp only: rows_where_get [OF assms])
qed

lemma sweep_ids_expires:
  assumes "sweep_ids clks ids n g = (g', Inr m)"
    and "\<And>i. i \<in> set ids \<Longrightarrow> \<exists>r. row_get (g_approvals g) i = Some r \<and> ar_expires_at r \<le> clks i 0"
    and "i \<in> set ids"
  shows "\<exists>r. row_get (g_approvals g') i = Some r \<and> ar_status r \<noteq> AP_PENDING"
  using assms
proof (induction ids arbitrary: n g)
  case (Cons j ids)
  from Cons.prems(2) obtain r where r: "row_get (g_approvals g) j = Some r"
    "ar_expires_at r \<le> clks j 0"
    by auto
  then obtain g1 b where one: "sweep_one (clks j) j g = Some (g1, b)"
    by (cases "sweep_one (clks j) j g") (auto simp: sweep_one_def split: if_splits)
  then have path1: "approval_path {Lapsed} g g1" by (rule sweep_one_path)
  from Cons.prems(1) one obtain n' where rest: "sweep_ids clks ids n' g1 = (g', Inr m)"
    by (auto split: if_splits)
  have keep: "\<exists>r. row_get (g_approvals g1) k = Some r \<and> ar_expires_at r \<le> clks k 0"
    if "k \<in> set ids" for k
  proof -
    from Cons.prems(2) [of k] that obtain q where
      q: "row_get (g_approvals g) k = Some q" "ar_expires_at q \<le> clks k 0" by auto
    from path1 q(1) show ?thesis by (cases rule: path_row) (use q in auto)
  qed
  show ?case
  proof (cases "i = j")
    case True
    from one r have "\<exists>q. row_get (g_approvals g1) j = Some q \<and> ar_status q \<noteq> AP_PENDING"
      by (auto simp: sweep_one_def split: if_splits)
    with True path_terminal [OF sweep_ids_path [OF rest]] show ?thesis by blast
  next
    case False
    with Cons.IH [OF rest keep] Cons.prems(3) show ?thesis by auto
  qed
qed simp

lemma sweep_ids_total:
  assumes "\<And>i. i \<in> set ids \<Longrightarrow> i \<in> set (row_ids (g_approvals g))"
  shows "\<exists>g' m. sweep_ids clks ids n g = (g', Inr m)"
  using assms
proof (induction ids arbitrary: n g)
  case (Cons j ids)
  from Cons.prems have "row_get (g_approvals g) j \<noteq> None"
    by (simp only: row_get_None_iff) simp
  then have "sweep_one (clks j) j g \<noteq> None"
    by (auto simp: sweep_one_def)
  then obtain g1 b where one: "sweep_one (clks j) j g = Some (g1, b)"
    by fastforce
  with Cons.prems path_ids [OF sweep_one_path [OF one]] show ?case
    by (auto intro!: Cons.IH)
qed simp

end
