(* ===== verification/ApprovalProperties.thy ===== *)
theory ApprovalProperties
  imports Approvals
begin

section \<open>Properties of the approval lifecycle\<close>

text \<open>
  What the services promise, over any sequence of decisions, sweeps and cancellations. The
  witnesses run on \<open>example_gate\<close>: a pending refund approval (request 2) of execution 2,
  asked for by user 7, to be decided by an administrator before time 1000.
\<close>

definition example_execution :: tool_execution where
  "example_execution =
    \<lparr>te_workspace = 1, te_run = 1, te_version = 1, te_definition = 1, te_binding = 1,
     te_status = EX_WAITING_FOR_APPROVAL, te_key = ''k'', te_fingerprint = ''f'',
     te_arguments = JObj [], te_result = JObj [], te_attempts = 0, te_timeout = 10,
     te_started_at = None, te_completed_at = None, te_error_code = [], te_error_message = [],
     te_duration_ms = None\<rparr>"

definition example_request :: approval_request where
  "example_request =
    \<lparr>ar_workspace = 1, ar_execution = 2, ar_evaluation = 1, ar_risk = 1, ar_status = AP_PENDING,
     ar_requested_by = Some 7, ar_required_role = ''admin'', ar_summary = ''s'',
     ar_context = JObj [], ar_fingerprint = ''f'', ar_created_at = 0, ar_expires_at = 1000,
     ar_resolved_at = None\<rparr>"

definition example_gate :: gate where
  "example_gate = empty_gate\<lparr>g_execs := [(2, example_execution)], g_approvals := [(2, example_request)]\<rparr>"

lemma example_gate_simps [simp]:
  "row_ids (g_approvals example_gate) = [2]"
  "row_get (g_approvals example_gate) i = (if i = 2 then Some example_request else None)"
  "row_get (g_execs example_gate) i = (if i = 2 then Some example_execution else None)"
  "g_effects example_gate = []" "g_decisions example_gate = []"
  by (simp_all add: example_gate_def empty_gate_def row_ids_def)

lemma example_request_simps [simp]:
  "ar_status example_request = AP_PENDING" "ar_requested_by example_request = Some 7"
  "ar_expires_at example_request = 1000" "ar_execution example_request = 2"
  "ar_required_role example_request = ''admin''"
  by (simp_all add: example_request_def)

lemma example_role: "role_satisfies_requirement ''owner'' ''admin''"
  by (simp add: role_satisfies_requirement_def rank_or_def approval_role_rank_def)

lemma example_decision [simp]:
  "decide_approval (\<lambda>n. 5) 3 2 8 ''owner'' d c q example_gate =
    (fst (record_decision (\<lambda>n. 5) 3 2 example_request 8 d c q example_gate),
     Inr (resolve_row (decided_status d) 5 example_request))"
  by (simp add: decide_approval_def expire_if_stale_def example_role decision_of_def split_beta)

text \<open>C20. A resolved approval request is final: no sequence of decisions, expiry sweeps and
  cancellations changes its row again.\<close>

theorem resolved_approval_is_final:
  assumes "distinct (row_ids (g_approvals g))"
    and "row_get (g_approvals g) i = Some r" and "ar_status r \<noteq> AP_PENDING"
  shows "row_get (g_approvals (approval_run ops g)) i = Some r"
  using run_path [OF assms(1)] assms(2,3) by (rule path_terminal)

theorem resolved_approval_is_final_witness:
  "row_get (g_approvals (approval_run
      [Decide (\<lambda>n. 5) 3 2 9 ''owner'' REJECT [] None, Sweep 5000 (\<lambda>i n. 5000), Cancel 6 2 ''x'']
      (approval_step (Decide (\<lambda>n. 5) 3 2 8 ''owner'' APPROVE [] None) example_gate))) 2 =
    Some (resolve_row AP_APPROVED 5 example_request)"
  by (rule resolved_approval_is_final) (simp_all add: row_ids_put)

text \<open>C2. A pending request becomes approved (or rejected) only by a decision of that value
  made before the expiry, by a member who is not the requester and whose role satisfies the
  required one; no sweep, cancellation or unauthorised decision does it.\<close>

theorem decided_only_by_authorised_member:
  assumes "distinct (row_ids (g_approvals g))"
    and "row_get (g_approvals g) i = Some r" and "ar_status r = AP_PENDING"
    and "row_get (g_approvals (approval_run ops g)) i = Some r'"
    and "ar_status r' = decided_status d"
  shows "\<exists>clk ws u role c q. Decide clk ws i u role d c q \<in> set ops \<and>
    ar_requested_by r \<noteq> Some u \<and> role_satisfies_requirement role (ar_required_role r) \<and>
    clk 0 < ar_expires_at r"
proof -
  from run_decides [OF assms] obtain a where "a \<in> set ops" "authorised_decision a i r d" by blast
  then show ?thesis by (elim authorised_decisionE) blast
qed

theorem decided_only_by_authorised_member_witness:
  "\<exists>clk ws u role c q. Decide clk ws 2 u role APPROVE c q \<in>
      set [Decide (\<lambda>n. 5) 3 2 8 ''owner'' APPROVE [] None] \<and>
    ar_requested_by example_request \<noteq> Some u \<and>
    role_satisfies_requirement role (ar_required_role example_request) \<and>
    clk 0 < ar_expires_at example_request"
  by (rule decided_only_by_authorised_member [where g = example_gate and
        r' = "resolve_row AP_APPROVED 5 example_request"]) simp_all

text \<open>Deciding is idempotent and final: after a successful decision a repeated identical one
  returns the same row, a conflicting one is refused as already resolved, and neither changes
  anything.\<close>

theorem decision_replay:
  assumes "decide_approval clk ws i u role d c q g = (g', Inr r)"
  shows "decide_approval clk' ws' i u' role' d' c' q' g' =
    (g', if d' = d then Inr r else Inl ApprovalAlreadyResolvedError)"
  using assms
proof (cases rule: decide_approval_cases)
  case same
  then show ?thesis
    by (cases d; cases d') (auto simp: decide_approval_def expire_if_stale_def)
next
  case (decided q)
  then show ?thesis
    by (cases d; cases d') (auto simp: decide_approval_def expire_if_stale_def)
qed simp

theorem decision_replay_witness:
  "decide_approval (\<lambda>n. 0) 3 2 9 ''viewer'' REJECT [] None
      (fst (record_decision (\<lambda>n. 5) 3 2 example_request 8 APPROVE [] None example_gate)) =
    (fst (record_decision (\<lambda>n. 5) 3 2 example_request 8 APPROVE [] None example_gate),
     if REJECT = APPROVE then Inr (resolve_row AP_APPROVED 5 example_request)
     else Inl ApprovalAlreadyResolvedError)"
  by (rule decision_replay [where clk = "\<lambda>n. 5" and ws = 3 and u = 8 and role = "''owner''"
        and d = APPROVE and c = "[]" and q = None and g = example_gate]) simp

text \<open>What a decision does to the gated execution: an approval leaves every execution as it was,
  a rejection or a late decision terminates the one that is waiting, and any other error leaves
  the whole state unchanged.\<close>

theorem decision_effect_on_execution:
  assumes "decide_approval clk ws i u role d c q g = (g', res)"
    and "row_get (g_approvals g) i = Some r" and "ar_status r = AP_PENDING"
    and "row_get (g_execs g) (ar_execution r) = Some ex"
    and "te_status ex = EX_WAITING_FOR_APPROVAL"
  shows "case res of
      Inr r' \<Rightarrow>
        if d = APPROVE then g_execs g' = g_execs g
        else (\<exists>ex'. row_get (g_execs g') (ar_execution r) = Some ex' \<and> terminated ''approval_rejected'' ex')
    | Inl e \<Rightarrow>
        if clk 0 \<ge> ar_expires_at r
        then e = ApprovalExpiredError \<and>
          (\<exists>ex'. row_get (g_execs g') (ar_execution r) = Some ex' \<and> terminated ''approval_expired'' ex')
        else g' = g"
  using assms(1)
proof (cases rule: decide_approval_cases)
  case same
  with assms(2,3) show ?thesis by (auto split: sum.splits)
next
  case (expired q)
  with assms(2-5) show ?thesis
    by (auto simp: expire_row_execs intro: terminate_execution_get)
next
  case (decided q)
  with assms(2-5) show ?thesis
    by (cases d) (auto simp: record_decision_execs intro: terminate_execution_get)
qed

theorem decision_effect_on_execution_witness:
  "case Inr (resolve_row AP_REJECTED 5 example_request) of
      Inr (r' :: approval_request) \<Rightarrow>
        if REJECT = APPROVE
        then g_execs (fst (record_decision (\<lambda>n. 5) 3 2 example_request 8 REJECT [] None example_gate))
          = g_execs example_gate
        else (\<exists>ex'. row_get (g_execs (fst (record_decision (\<lambda>n. 5) 3 2 example_request 8 REJECT [] None
          example_gate))) (ar_execution example_request) = Some ex' \<and> terminated ''approval_rejected'' ex')
    | Inl e \<Rightarrow>
        if 5 \<ge> ar_expires_at example_request
        then e = ApprovalExpiredError \<and>
          (\<exists>ex'. row_get (g_execs (fst (record_decision (\<lambda>n. 5) 3 2 example_request 8 REJECT [] None
          example_gate))) (ar_execution example_request) = Some ex' \<and> terminated ''approval_expired'' ex')
        else fst (record_decision (\<lambda>n. 5) 3 2 example_request 8 REJECT [] None example_gate) = example_gate"
  by (rule decision_effect_on_execution [where clk = "\<lambda>n. 5" and ws = 3 and u = 8 and i = 2
        and role = "''owner''" and d = REJECT and c = "[]" and q = None and g = example_gate
        and ex = example_execution])
     (simp_all add: example_execution_def)

text \<open>Approval authority is the linear order support manager, admin, owner: a role decides
  exactly the requests that require a role of its rank or below; agents and viewers decide
  nothing, and a required role outside the order cannot be satisfied by anyone.\<close>

theorem approval_authority:
  "role_satisfies_requirement (role_value a) (role_value b) \<longleftrightarrow>
    (case b of
       SUPPORT_MANAGER \<Rightarrow> a = SUPPORT_MANAGER \<or> a = ADMIN \<or> a = OWNER
     | ADMIN \<Rightarrow> a = ADMIN \<or> a = OWNER
     | OWNER \<Rightarrow> a = OWNER
     | _ \<Rightarrow> False)"
  by (cases a; cases b)
     (simp_all add: role_satisfies_requirement_def rank_or_def approval_role_rank_def)

text \<open>The expiry sweep always completes, and afterwards no request that was due when it
  started is still pending.\<close>

theorem sweep_leaves_nothing_due:
  assumes "distinct (row_ids (g_approvals g))" and "\<And>i n. now \<le> clks i n"
  shows "\<exists>g' m. expire_stale_approvals now clks g = (g', Inr m) \<and>
    (\<forall>i r. row_get (g_approvals g) i = Some r \<and> ar_expires_at r \<le> now \<longrightarrow>
       (\<exists>r'. row_get (g_approvals g') i = Some r' \<and> ar_status r' \<noteq> AP_PENDING))"
proof -
  let ?ids = "stale_ids now g"
  note stale = stale_ids_iff [OF assms(1), of _ now]
  have ids: "\<exists>r. row_get (g_approvals g) i = Some r \<and> ar_status r = AP_PENDING \<and> ar_expires_at r \<le> now"
    if "i \<in> set ?ids" for i
    using that by (simp only: stale)
  have "\<And>i. i \<in> set ?ids \<Longrightarrow> i \<in> set (row_ids (g_approvals g))"
    using ids by (blast dest: row_get_Some_in_ids)
  from sweep_ids_total [OF this] obtain g' m
    where run: "sweep_ids clks ?ids 0 g = (g', Inr m)" by blast
  have "\<exists>r'. row_get (g_approvals g') i = Some r' \<and> ar_status r' \<noteq> AP_PENDING"
    if r: "row_get (g_approvals g) i = Some r" "ar_expires_at r \<le> now" for i r
  proof (cases "ar_status r = AP_PENDING")
    case True
    then have "i \<in> set ?ids"
      using r by (simp only: stale) blast
    moreover have due: "\<exists>r. row_get (g_approvals g) j = Some r \<and> ar_expires_at r \<le> clks j 0"
      if "j \<in> set ?ids" for j
      using ids [OF that] assms(2) [of j 0] order_trans by blast
    ultimately show ?thesis
      using sweep_ids_expires [OF run due] by blast
  next
    case False
    then have "row_get (g_approvals g') i = Some r"
      using r(1) by (intro path_terminal [OF sweep_ids_path [OF run]]) auto
    with False show ?thesis by blast
  qed
  with run show ?thesis by (auto simp: expire_stale_approvals_def)
qed

theorem sweep_leaves_nothing_due_witness:
  "\<exists>g' m. expire_stale_approvals 2000 (\<lambda>i n. 2000 + int n) example_gate = (g', Inr m) \<and>
    (\<forall>i r. row_get (g_approvals example_gate) i = Some r \<and> ar_expires_at r \<le> 2000 \<longrightarrow>
       (\<exists>r'. row_get (g_approvals g') i = Some r' \<and> ar_status r' \<noteq> AP_PENDING))"
  by (rule sweep_leaves_nothing_due) simp_all

end
