(* ===== verification/PolicyProperties.thy ===== *)
theory PolicyProperties
  imports PolicyServices Approvals
begin

section \<open>Properties of the policy engine\<close>

text \<open>What the policy engine guarantees: the decision of an active version is the strictest effect of the
  rules that match, whatever their priorities; an unreadable rule fails the evaluation, and validated rules are
  readable; the risk tiers and the defaults that apply without a version; and what activating and publishing do.\<close>

subsection \<open>Precedence\<close>

definition rule_matches ::
  "py_runtime \<Rightarrow> policy_db \<Rightarrow> nat \<Rightarrow> predicate_context \<Rightarrow> nat \<Rightarrow> policy_rule \<Rightarrow> bool" where
  "rule_matches rt db v c i r \<longleftrightarrow> (i, r) \<in> set (pdb_rules db) \<and> pr_version r = v \<and> pr_enabled r \<and>
    rule_applies rt r c = Inr True"

lemma matched_set:
  "set (filter (\<lambda>(i, r). rule_applies rt r c = Inr True) (enabled_rules db v)) =
    {(i, r). rule_matches rt db v c i r}"
  by (auto simp: set_enabled_rules rule_matches_def)

text \<open>C14. Deny overrides: the decision of an active version is the strictest effect of the rules that
  match (DENY over REQUIRE_APPROVAL over ALLOW); one of the matching rules has it, and no matching
  rule is stricter, whatever the priorities.\<close>

theorem decision_is_the_strictest_match:
  assumes "evaluate_policy rt ps db key risk args (Some v) = Inr d"
    and "rule_matches rt db v (action_context key risk args) i r"
  shows "strictness (pr_effect r) \<le> strictness (pd_decision d) \<and>
    (\<exists>j q. rule_matches rt db v (action_context key risk args) j q \<and> pr_effect q = pd_decision d)"
  using assms(1)
proof (cases rule: evaluate_policy_active)
  case fallback
  with assms(2) show ?thesis by (auto simp: rule_matches_def set_enabled_rules)
next
  case (matched matched)
  let ?effs = "map (pr_effect \<circ> snd) matched"
  have set: "set matched = {(j, q). rule_matches rt db v (action_context key risk args) j q}"
    unfolding matched(1) by (rule matched_set)
  with assms(2) have "pr_effect r \<in> set ?effs" by force
  then have "strictness (pr_effect r) \<le> strictness (pd_decision d)"
    using winning_effect_strictest matched(3) by simp
  moreover have "pd_decision d \<in> set ?effs" using winning_effect_in [of ?effs] matched(2,3) by simp
  ultimately show ?thesis using set by force
qed

definition example_rule :: "nat \<Rightarrow> string \<Rightarrow> policy_effect \<Rightarrow> policy_rule" where
  "example_rule prio name e =
    \<lparr>pr_version = 2, pr_name = name, pr_priority = prio, pr_enabled = True, pr_tool_key = [],
     pr_risk_levels = JArr [], pr_side_effect_types = JArr [], pr_condition_config = JObj [],
     pr_effect = e, pr_required_role = [], pr_ttl = None\<rparr>"

definition two_rules :: policy_db where
  "two_rules = \<lparr>pdb_policies = [], pdb_versions = [],
     pdb_rules = [(1, example_rule 0 ''open'' ALLOW), (2, example_rule 1 ''closed'' DENY)]\<rparr>"

definition low_risk :: risk_outcome where
  "low_risk = assess_risk default_policy_settings LOW SE_NONE []"

lemma two_rules_decision:
  "evaluate_policy rt ps two_rules key low_risk args (Some 2) =
    Inr \<lparr>pd_decision = DENY, pd_code = ''rule_matched:closed'',
      pd_reason = ''Action explicitly denied by workspace policy.'', pd_matched = [1, 2],
      pd_version = Some 2, pd_required_role = [], pd_ttl = ps_default_ttl ps\<rparr>"
  by (simp add: evaluate_policy_def two_rules_def enabled_rules_def rows_where_def example_rule_def
      rule_applies_def restricts_def rule_condition_def winning_effect_def policy_effect_precedence_def
      finalize_def)

theorem decision_is_the_strictest_match_witness:
  "strictness ALLOW \<le> strictness DENY \<and>
    (\<exists>j q. rule_matches example_runtime two_rules 2 (action_context ''t'' low_risk []) j q \<and> pr_effect q = DENY)"
  using decision_is_the_strictest_match [OF two_rules_decision, of example_runtime "''t''" "[]" 1 "example_rule 0 ''open'' ALLOW"]
  by (simp add: rule_matches_def two_rules_def example_rule_def rule_applies_def restricts_def
      rule_condition_def)

lemma matching_rules_Inl_iff:
  "(\<exists>e. matching_rules rt c rules = Inl e) \<longleftrightarrow> (\<exists>(i, r) \<in> set rules. \<exists>e. rule_applies rt r c = Inl e)"
proof (induction rules)
  case (Cons p rules)
  obtain i r where [simp]: "p = (i, r)" by (cases p)
  show ?case
  proof (cases "matching_rules rt c rules")
    case (Inl e)
    with Cons show ?thesis by (auto split: sum.splits)
  next
    case (Inr m)
    with Cons show ?thesis by (auto split: sum.splits)
  qed
qed simp

definition renumber :: "(nat \<Rightarrow> nat) \<Rightarrow> policy_db \<Rightarrow> policy_db" where
  "renumber f db = db\<lparr>pdb_rules := map (\<lambda>(i, r). (i, r\<lparr>pr_priority := f i\<rparr>)) (pdb_rules db)\<rparr>"

lemma rule_applies_renumber [simp]: "rule_applies rt (r\<lparr>pr_priority := n\<rparr>) c = rule_applies rt r c"
  by (auto simp: rule_applies_def rule_condition_def split: option.splits bool.splits)

lemma set_enabled_renumber:
  "set (enabled_rules (renumber f db) v) = (\<lambda>(i, r). (i, r\<lparr>pr_priority := f i\<rparr>)) ` set (enabled_rules db v)"
  unfolding set_enabled_rules by (force simp: renumber_def)

text \<open>Priorities order the evaluation and never the outcome: renumbering the rules of a version
  arbitrarily leaves both the decision and whether the evaluation fails unchanged.\<close>

theorem priorities_do_not_change_the_decision:
  "case (evaluate_policy rt ps db key risk args (Some v),
         evaluate_policy rt ps (renumber f db) key risk args (Some v)) of
     (Inr d, Inr d') \<Rightarrow> pd_decision d' = pd_decision d
   | (Inl e, Inl e') \<Rightarrow> True
   | _ \<Rightarrow> False"
proof -
  let ?c = "action_context key risk args"
  let ?R = "enabled_rules db v" and ?R' = "enabled_rules (renumber f db) v"
  have errs: "(\<exists>e. matching_rules rt ?c ?R' = Inl e) \<longleftrightarrow> (\<exists>e. matching_rules rt ?c ?R = Inl e)"
    unfolding matching_rules_Inl_iff set_enabled_renumber by force
  show ?thesis
  proof (cases "matching_rules rt ?c ?R")
    case (Inl e)
    with errs obtain e' where "matching_rules rt ?c ?R' = Inl e'" by blast
    with Inl show ?thesis by (simp add: evaluate_policy_def Let_def)
  next
    case (Inr m)
    with errs obtain m' where m': "matching_rules rt ?c ?R' = Inr m'"
      by (cases "matching_rules rt ?c ?R'") auto
    have sets: "set m = {(i, r) \<in> set ?R. rule_applies rt r ?c = Inr True}"
      "set m' = {(i, r) \<in> set ?R'. rule_applies rt r ?c = Inr True}"
      using matching_rules_filter [OF Inr] matching_rules_filter [OF m'] by auto
    have eff: "set (map (pr_effect \<circ> snd) m') = set (map (pr_effect \<circ> snd) m)"
      unfolding set_map sets set_enabled_renumber by (force simp: image_iff)
    then have "winning_effect (map (pr_effect \<circ> snd) m') = winning_effect (map (pr_effect \<circ> snd) m)"
      by (rule winning_effect_set_cong)
    moreover have "m' = [] \<longleftrightarrow> m = []" using eff by auto
    ultimately show ?thesis
      using Inr m' by (cases m; cases m') (simp_all add: evaluate_policy_def Let_def)
  qed
qed

text \<open>Evaluation fails exactly when some enabled rule of the version cannot be evaluated, so an
  unreadable rule is never skipped in favour of a decision by the others.\<close>

theorem unreadable_rule_fails_the_evaluation:
  "(\<exists>e. evaluate_policy rt ps db key risk args (Some v) = Inl e) \<longleftrightarrow>
    (\<exists>i r e. (i, r) \<in> set (pdb_rules db) \<and> pr_version r = v \<and> pr_enabled r \<and>
       rule_applies rt r (action_context key risk args) = Inl e)"
proof -
  have "(\<exists>e. evaluate_policy rt ps db key risk args (Some v) = Inl e) \<longleftrightarrow>
      (\<exists>e. matching_rules rt (action_context key risk args) (enabled_rules db v) = Inl e)"
    by (auto simp: evaluate_policy_def Let_def split: sum.splits list.splits)
  also have "\<dots> \<longleftrightarrow> (\<exists>i r e. (i, r) \<in> set (pdb_rules db) \<and> pr_version r = v \<and> pr_enabled r \<and>
       rule_applies rt r (action_context key risk args) = Inl e)"
    unfolding matching_rules_Inl_iff set_enabled_rules by blast
  finally show ?thesis .
qed

subsection \<open>Risk and the default policy\<close>

text \<open>The effective risk is the base risk or one tier above it, never lower; it is raised exactly
  for a financial action whose numeric amount reaches the threshold (and CRITICAL stays CRITICAL).\<close>

theorem risk_is_raised_at_most_one_tier:
  "risk_order (ro_effective_risk (assess_risk ps base se args)) =
    (if se = FINANCIAL \<and> (\<exists>a. amount_value (dict_get args ''amount_minor'') = Some a \<and>
          a \<ge> of_int (ps_bump_threshold ps))
     then min 4 (risk_order base + 1) else risk_order base)"
  by (auto simp: assess_risk_def Let_def bump_one_tier split: option.splits)

text \<open>The default policy never lets money move on its own: a financial action that is not
  read-only is allowed without a rule only if it is a USD refund within the automatic limit; above
  the second limit a USD refund is denied.\<close>

theorem default_policy_on_financial_actions:
  assumes "base \<noteq> READ_ONLY"
  shows "(dd_decision (evaluate_system_default ps key base eff FINANCIAL args) = ALLOW) =
      (key = ''payment.refund'' \<and> (\<exists>a c. amount_value (dict_get args ''amount_minor'') = Some a \<and>
        dict_get args ''currency'' = JStr c \<and> str_upper c = ''USD'' \<and>
        a \<le> of_int (ps_refund_auto_allow_max ps))) \<and>
    (dd_decision (evaluate_system_default ps key base eff FINANCIAL args) = DENY \<longrightarrow>
      key = ''payment.refund'')"
  using assms
  by (auto simp: evaluate_system_default_def refund_default_def mk_default_def Let_def
      split: option.splits json.splits if_splits)

theorem default_policy_on_financial_actions_witness:
  "dd_decision (evaluate_system_default default_policy_settings ''payment.refund'' HIGH HIGH FINANCIAL
      [(''amount_minor'', JInt 100), (''currency'', JStr ''USD'')]) = ALLOW"
  by (rule default_policy_on_financial_actions [THEN conjunct1, THEN iffD2])
     (simp_all add: dict_get_def str_upper_def upper_char_def default_policy_settings_def)

text \<open>Without a rule that names a role, an approval is required of a role that the owner of the
  workspace holds or outranks, so a defaulted approval can always be decided.\<close>

theorem defaulted_approvals_are_decidable:
  assumes "evaluate_policy rt ps db key risk args version = Inr d"
    and "pd_decision d = REQUIRE_APPROVAL"
    and "\<forall>(i, r) \<in> set (pdb_rules db). pr_required_role r = []"
  shows "role_satisfies_requirement (role_value OWNER) (pd_required_role d)"
proof -
  have dflt: "role_satisfies_requirement (role_value OWNER) (required_role_for_risk l)" for l
    by (cases l) (simp_all add: role_satisfies_requirement_def rank_or_def approval_role_rank_def)
  have fin: "pd_required_role (finalize ps REQUIRE_APPROVAL c r ids v rules risk) =
      required_role_for_risk (ro_effective_risk risk)"
    if "\<forall>q \<in> set rules. pr_required_role q = []" for c r ids v rules
  proof -
    have "find (\<lambda>r. pr_required_role r \<noteq> []) rules = None" using that by (auto simp: find_None_iff)
    then show ?thesis by (simp add: finalize_def split_beta)
  qed
  show ?thesis
  proof (cases version)
    case None
    with assms(1,2) dflt fin show ?thesis
      by (auto simp: evaluate_policy_def Let_def)
  next
    case (Some v)
    obtain m where m: "matching_rules rt (action_context key risk args) (enabled_rules db v) = Inr m"
      using assms(1) Some by (auto simp: evaluate_policy_def Let_def split: sum.splits)
    have sub: "\<forall>q \<in> snd ` set m. pr_required_role q = []"
      using matching_rules_filter [OF m] assms(3) by (auto simp: set_enabled_rules)
    show ?thesis
    proof (cases m)
      case Nil
      with assms(1,2) Some m dflt fin show ?thesis by (auto simp: evaluate_policy_def Let_def)
    next
      case (Cons x xs)
      let ?w = "winning_effect (map (pr_effect \<circ> snd) m)"
      have d: "d = finalize ps ?w (''rule_matched:'' @ pr_name (hd (filter (\<lambda>r. pr_effect r = ?w) (map snd m))))
          (safe_reason_for ?w) (map fst m) (Some v) (filter (\<lambda>r. pr_effect r = ?w) (map snd m)) risk"
        using assms(1) Some m Cons by (simp add: evaluate_policy_def Let_def)
      with assms(2) have w: "?w = REQUIRE_APPROVAL" by simp
      show ?thesis using sub dflt unfolding d w by (subst fin) auto
    qed
  qed
qed

theorem defaulted_approvals_are_decidable_witness:
  "role_satisfies_requirement (role_value OWNER) (pd_required_role (projr
    (evaluate_policy example_runtime default_policy_settings two_rules ''t'' (low_risk\<lparr>ro_side_effect := DESTRUCTIVE\<rparr>) [] None)))"
proof -
  let ?risk = "low_risk\<lparr>ro_side_effect := DESTRUCTIVE\<rparr>"
  obtain d where d: "evaluate_policy example_runtime default_policy_settings two_rules ''t'' ?risk [] None = Inr d"
    by (simp add: evaluate_policy_def Let_def)
  moreover from d have "pd_decision d = REQUIRE_APPROVAL"
    by (auto simp: evaluate_policy_def Let_def default_for_def evaluate_system_default_def low_risk_def
        mk_default_def)
  ultimately show ?thesis
    using defaulted_approvals_are_decidable [OF d] by (simp add: two_rules_def example_rule_def)
qed

subsection \<open>Configuration\<close>

lemma call_predicate_known:
  assumes "n \<in> set known_predicate_names"
  shows "call_predicate rt n c params \<noteq> None"
  using assms by (auto simp: known_predicate_names_def call_predicate_def)

definition malformed_or_crash :: "policy_exc \<Rightarrow> bool" where
  "malformed_or_crash e \<longleftrightarrow> e = malformed_condition \<or> e = TypeError \<or> e = AttributeError"

lemma evaluate_known:
  assumes "n \<in> set known_predicate_names" and "evaluate_predicate rt (JStr n) c params = Inl e"
  shows "\<not> malformed_or_crash e"
proof -
  have neq: "''Predicate '' @ s \<noteq> ''Malformed rule condition configuration.''"
    "''Unknown risk level in rule config: '' @ s \<noteq> ''Malformed rule condition configuration.''" for s
    by simp_all
  have "e = EvaluationFailed (''Predicate '' @ rt_repr rt (JStr n) @ '' received invalid parameters.'') \<or>
      (\<exists>t. e = EvaluationFailed (''Unknown risk level in rule config: '' @ t))"
    using assms call_predicate_known [OF assms(1), of rt c params]
    by (auto simp: evaluate_predicate_def unhashable_def call_predicate_def risk_level_at_least_def
        split: option.splits sum.splits if_splits)
  with neq show ?thesis by (auto simp: malformed_or_crash_def malformed_condition_def)
qed

lemma validated_entries:
  "validate_entries rt entries = None \<Longrightarrow> check_entries rt c entries = Inl e \<Longrightarrow> \<not> malformed_or_crash e"
proof (induction entries)
  case (Cons entry entries)
  then obtain kvs n where kv: "entry = JObj kvs" "map_of kvs ''predicate'' = Some (JStr n)"
    "n \<in> set known_predicate_names" "validate_entries rt entries = None"
    by (auto split: json.splits option.splits if_splits)
  then show ?case
    using Cons by (auto split: sum.splits if_splits dest: evaluate_known)
qed simp

lemma clean_values_restricts:
  assumes "clean_values xs known = None"
  shows "restricts xs v \<noteq> None"
  using assms by (cases xs) (auto simp: clean_values_def restricts_def unhashable_def split: if_splits)

text \<open>Rules that pass validation are readable: once \<open>validate_condition_config\<close> accepts the
  configuration and \<open>PolicyRule.clean\<close> the listed levels and kinds, no context makes the evaluator
  report a malformed condition, call an unknown predicate or crash on a type.\<close>

theorem validated_rules_are_readable:
  assumes "validate_condition_config rt (pr_condition_config rule) = None"
    and "clean_rule rule = None"
    and "rule_applies rt rule c = Inl e"
  shows "e \<noteq> TypeError \<and> e \<noteq> AttributeError \<and> e \<noteq> malformed_condition"
proof -
  obtain kvs where cfg: "pr_condition_config rule = JObj kvs"
    using assms(1) by (cases "pr_condition_config rule") (auto simp: validate_condition_config_def)
  have entries: "case (case map_of kvs ''all'' of None \<Rightarrow> JArr [] | Some v \<Rightarrow> v) of
      JArr es \<Rightarrow> validate_entries rt es = None | _ \<Rightarrow> False"
    using assms(1) cfg
    by (auto simp: validate_condition_config_def split: if_splits option.splits json.splits)
  have cond: "rule_condition rule = Inr (case map_of kvs ''all'' of None \<Rightarrow> JArr [] | Some v \<Rightarrow> v)"
    using cfg by (simp add: rule_condition_def)
  obtain es where es: "rule_condition rule = Inr (JArr es)" "validate_entries rt es = None"
    using entries cond by (auto split: json.splits)
  from assms(2) obtain ks ks' where "clean_values (pr_risk_levels rule) ks = None"
    "clean_values (pr_side_effect_types rule) ks' = None"
    unfolding clean_rule_def by (auto split: option.splits)
  from clean_values_restricts [OF this(1), of "risk_value (pc_risk_level c)"]
    clean_values_restricts [OF this(2), of "side_effect_value (pc_side_effect c)"]
  obtain a b where "restricts (pr_risk_levels rule) (risk_value (pc_risk_level c)) = Some a"
    "restricts (pr_side_effect_types rule) (side_effect_value (pc_side_effect c)) = Some b"
    by blast
  with assms(3) es have "check_entries rt c es = Inl e"
    by (auto simp: rule_applies_def split: if_splits option.splits bool.splits)
  from validated_entries [OF es(2) this] show ?thesis by (simp add: malformed_or_crash_def)
qed

definition amount_rule :: policy_rule where
  "amount_rule = (example_rule 0 ''limit'' DENY)\<lparr>pr_condition_config :=
     JObj [(''all'', JArr [JObj [(''predicate'', JStr ''amount_minor_gt'')]])]\<rparr>"

theorem validated_rules_are_readable_witness:
  "projl (rule_applies example_runtime amount_rule
      (action_context ''t'' low_risk [(''amount_minor'', JFloat 1)])) \<noteq> malformed_condition"
proof -
  have "rule_applies example_runtime amount_rule (action_context ''t'' low_risk [(''amount_minor'', JFloat 1)]) =
      Inl (EvaluationFailed ''Predicate r received invalid parameters.'')"
    by (simp add: rule_applies_def amount_rule_def example_rule_def restricts_def rule_condition_def
        evaluate_predicate_def unhashable_def call_predicate_def amount_compare_def numeric_argument_def
        action_context_def dict_get_def example_runtime_def)
  from validated_rules_are_readable [OF _ _ this] this show ?thesis
    by (simp add: amount_rule_def example_rule_def validate_condition_config_def unhashable_def
        known_predicate_names_def clean_rule_def clean_values_def)
qed

text \<open>A workspace has at most one active policy and a policy at most one active version: activating
  and publishing keep both facts, and leave the policies of other workspaces and the versions of
  other policies as they were.\<close>

theorem switching_keeps_one_active:
  assumes "policies.one_active (pdb_policies (pa_db s))" and "versions.one_active (pdb_versions (pa_db s))"
    and "s' = fst (activate_policy ws k actor req s) \<or> s' = fst (publish_policy_version clk ws k actor req s)"
    and "\<forall>p. row_get (pdb_policies (pa_db s)) k = Some p \<longrightarrow> pol_workspace p = ws"
    and "distinct (row_ids (pdb_versions (pa_db s)))"
  shows "policies.one_active (pdb_policies (pa_db s')) \<and> versions.one_active (pdb_versions (pa_db s'))"
  using assms(3)
proof
  assume s': "s' = fst (activate_policy ws k actor req s)"
  let ?t = "pdb_policies (pa_db s)"
  show ?thesis
  proof (cases "s' = s")
    case False
    obtain p where p: "row_get ?t k = Some p"
      using False s' by (cases "row_get ?t k") (auto simp: activate_policy_def atomic_def Let_def)
    with assms(4) have ws: "pol_workspace p = ws" by blast
    have "pdb_policies (pa_db s') = policies.switch k p ?t \<and> pdb_versions (pa_db s') = pdb_versions (pa_db s)"
      using False s' p ws
      by (auto simp: activate_policy_def atomic_def Let_def policies.switch_def set_policies_def admin_emit_def
          save_policy_def conj_commute conj_left_commute split: sum.splits if_splits)
    with assms(1,2) policies.switch_one_active show ?thesis by simp
  qed (use assms in simp)
next
  assume s': "s' = fst (publish_policy_version clk ws k actor req s)"
  let ?t = "pdb_versions (pa_db s)"
  show ?thesis
  proof (cases "s' = s")
    case False
    obtain v where v: "row_get ?t k = Some v" "pv_status v = VERSION_DRAFT"
      using False s' by (cases "row_get ?t k")
        (auto simp: publish_policy_version_def atomic_def Let_def split: if_splits)
    have same: "q = v" if "(k, q) \<in> set ?t" for q
      using that v(1) assms(5) by (simp add: row_ids_def)
    have upd: "update_where (\<lambda>i q. pv_policy q = pv_policy v \<and> pv_status q = VERSION_ACTIVE) supersede_row ?t =
        update_where (\<lambda>i q. i \<noteq> k \<and> pv_policy q = pv_policy v \<and> pv_status q = VERSION_ACTIVE) supersede_row ?t"
      unfolding update_where_def using same v(2) by (auto intro!: map_cong)
    have "pdb_versions (pa_db s') = versions.switch (Some (clk 0)) k v ?t \<and>
        pdb_policies (pa_db s') = pdb_policies (pa_db s)"
      using False s' v
      by (auto simp: publish_policy_version_def atomic_def Let_def versions.switch_def set_versions_def
          admin_emit_def upd)
    with assms(1,2) versions.switch_one_active show ?thesis by simp
  qed (use assms in simp)
qed

definition two_policies :: policy_admin where
  "two_policies = \<lparr>pa_db = \<lparr>pdb_policies =
      [(1, \<lparr>pol_workspace = 9, pol_name = ''a'', pol_description = [], pol_status = POLICY_ACTIVE,
          pol_created_by = None\<rparr>),
       (2, \<lparr>pol_workspace = 9, pol_name = ''b'', pol_description = [], pol_status = POLICY_DRAFT,
          pol_created_by = None\<rparr>)],
     pdb_versions = [], pdb_rules = []\<rparr>, pa_effects = []\<rparr>"

theorem switching_keeps_one_active_witness:
  "policies.one_active (pdb_policies (pa_db (fst (activate_policy 9 2 1 None two_policies)))) \<and>
    versions.one_active (pdb_versions (pa_db (fst (activate_policy 9 2 1 None two_policies))))"
  by (rule switching_keeps_one_active [where s = two_policies and k = 2 and ws = 9, OF _ _ disjI1 [OF refl]])
     (simp_all add: policies.one_active_def versions.one_active_def two_policies_def row_ids_def)

text \<open>A published version is not frozen against a stale copy: adding a rule compares the status on
  the instance the caller read earlier, without a lock, so a caller that read the version as a
  draft adds a rule to the version that is active by now.\<close>

theorem stale_copy_adds_rule_to_published_version:
  "\<exists>inst s k r. row_get (pdb_versions (pa_db s)) 5 = Some (inst\<lparr>pv_status := VERSION_ACTIVE\<rparr>) \<and>
    snd (add_policy_rule example_runtime 5 inst
      \<lparr>rd_name = ''late'', rd_priority = 0, rd_enabled = True, rd_tool_key = [], rd_risk_levels = JArr [],
       rd_side_effect_types = JArr [], rd_condition_config = JNull, rd_effect = ALLOW,
       rd_required_role = [], rd_ttl = None\<rparr> s) = Inr k \<and>
    row_get (pdb_rules (pa_db (fst (add_policy_rule example_runtime 5 inst
      \<lparr>rd_name = ''late'', rd_priority = 0, rd_enabled = True, rd_tool_key = [], rd_risk_levels = JArr [],
       rd_side_effect_types = JArr [], rd_condition_config = JNull, rd_effect = ALLOW,
       rd_required_role = [], rd_ttl = None\<rparr> s)))) k = Some r \<and> pr_version r = 5"
proof -
  let ?inst = "\<lparr>pv_policy = 1, pv_version = 1, pv_status = VERSION_DRAFT, pv_created_by = None,
      pv_published_at = None\<rparr>"
  let ?s = "\<lparr>pa_db = \<lparr>pdb_policies = [], pdb_versions = [(5, ?inst\<lparr>pv_status := VERSION_ACTIVE\<rparr>)],
      pdb_rules = []\<rparr>, pa_effects = []\<rparr>"
  have "py_strip ''late'' = ''late''"
    by (simp add: py_strip_def py_lstrip_def py_rstrip_def is_space_def Let_def)
  then show ?thesis
    by (intro exI [of _ ?inst] exI [of _ ?s] exI [of _ "1 :: nat"])
       (simp add: Let_def add_policy_rule_def atomic_def rows_where_def max_rules_per_version_def
        validate_condition_config_def save_rule_def rule_of_data_def fits_def clean_rule_def
        clean_values_def fresh_id_def set_rules_def)
qed

end
