(* ===== verification/ToolContracts.thy ===== *)
theory ToolContracts
  imports Approvals
begin

section \<open>Tool contracts and errors\<close>

text \<open>
  \<open>tools/contracts.py\<close>, \<open>tools/errors.py\<close>, \<open>tools/idempotency.py\<close>, \<open>tools/registry.py\<close>
  and the binding selector. A tool is code-owned metadata with a handler. The Pydantic models
  of a tool are the functions \<open>ts_validate_input\<close> and \<open>ts_validate_output\<close>: the JSON dump of
  the validated document, or \<open>None\<close> for a ValidationError. The handler is a function of the
  execution and the number of the attempt, so a retry may have another outcome.
\<close>

datatype crash =
    DbCrash db_exc
  | PolicyCrash policy_exc
  | HandlerCrash
  | ConversionCrash
  | OutputCrash

text \<open>\<open>ToolError\<close> with its code and safe message, the timeout subclass that is caught on its own,
  and every exception that is not a \<open>ToolError\<close> and leaves the service.\<close>

datatype tool_exc = ToolTimeoutError | ToolExc string string | Crash crash

fun exc_code :: "tool_exc \<Rightarrow> string" where
  "exc_code ToolTimeoutError = ''tool_timeout''"
| "exc_code (ToolExc c m) = c"
| "exc_code (Crash k) = []"

fun exc_message :: "tool_exc \<Rightarrow> string" where
  "exc_message ToolTimeoutError = ''The tool did not complete within its allotted time.''"
| "exc_message (ToolExc c m) = m"
| "exc_message (Crash k) = []"

definition ToolNotRegisteredError :: "string \<Rightarrow> tool_exc" where
  "ToolNotRegisteredError m = ToolExc ''tool_not_registered'' m"

definition ToolNotBoundError :: tool_exc where
  "ToolNotBoundError =
    ToolExc ''tool_not_bound'' ''This agent version is not bound to the requested tool.''"

definition ToolDisabledError :: tool_exc where
  "ToolDisabledError = ToolExc ''tool_disabled'' ''The requested tool is currently disabled.''"

definition ToolInvalidInputError :: "string \<Rightarrow> tool_exc" where
  "ToolInvalidInputError m =
    ToolExc ''tool_invalid_input'' (if m = [] then ''The tool arguments failed validation.'' else m)"

definition ToolInvalidOutputError :: "string \<Rightarrow> tool_exc" where
  "ToolInvalidOutputError m =
    ToolExc ''tool_invalid_output'' (if m = [] then ''The tool produced an invalid result.'' else m)"

definition ToolRetryExhaustedError :: tool_exc where
  "ToolRetryExhaustedError =
    ToolExc ''tool_retry_exhausted'' ''The tool failed after exhausting its retry budget.''"

definition ToolIdempotencyConflictError :: tool_exc where
  "ToolIdempotencyConflictError =
    ToolExc ''tool_idempotency_conflict'' ''This idempotency key was already used with different arguments.''"

definition ToolExecutionInProgressError :: tool_exc where
  "ToolExecutionInProgressError =
    ToolExc ''tool_execution_in_progress'' ''A matching tool execution is already in progress.''"

definition ToolBudgetExceededError :: "string \<Rightarrow> tool_exc" where
  "ToolBudgetExceededError m =
    ToolExc ''tool_budget_exceeded''
      (if m = [] then ''The run's tool-call budget has been exhausted.'' else m)"

definition ToolConfigurationError :: "string \<Rightarrow> tool_exc" where
  "ToolConfigurationError m = ToolExc ''tool_configuration_error'' m"

definition ToolRunNotExecutableError :: tool_exc where
  "ToolRunNotExecutableError =
    ToolExc ''tool_run_not_executable'' ''The agent run is not in a state that allows tool execution.''"

definition ToolAmbiguousOutcomeError :: tool_exc where
  "ToolAmbiguousOutcomeError =
    ToolExc ''tool_ambiguous_outcome_requires_reconciliation''
      (''The previous attempt's outcome could not be confirmed and this action cannot be ''
       @ ''safely retried automatically. Reconciliation is required before retrying.'')"

definition ToolPolicyDeniedError :: "string \<Rightarrow> tool_exc" where
  "ToolPolicyDeniedError m =
    ToolExc ''policy_action_denied''
      (if m = [] then ''This action is denied by workspace policy.'' else m)"

definition ToolPolicyEvaluationFailedError :: "string \<Rightarrow> tool_exc" where
  "ToolPolicyEvaluationFailedError m =
    ToolExc ''policy_evaluation_failed''
      (if m = [] then ''The action could not be safely evaluated against workspace policy.'' else m)"

definition ToolApprovalRequiredError :: "string \<Rightarrow> tool_exc" where
  "ToolApprovalRequiredError m =
    ToolExc ''approval_required''
      (if m = [] then ''This action requires human approval before it can execute.'' else m)"

definition ToolApprovalRejectedError :: "string \<Rightarrow> tool_exc" where
  "ToolApprovalRejectedError m =
    ToolExc ''approval_rejected''
      (if m = [] then ''This action was rejected by an approver.'' else m)"

definition ToolApprovalExpiredError :: "string \<Rightarrow> tool_exc" where
  "ToolApprovalExpiredError m =
    ToolExc ''approval_expired''
      (if m = [] then ''The approval request for this action expired before it was decided.'' else m)"

definition ToolApprovalCancelledError :: "string \<Rightarrow> tool_exc" where
  "ToolApprovalCancelledError m =
    ToolExc ''approval_cancelled''
      (if m = [] then ''The approval request for this action was cancelled.'' else m)"

definition ToolApprovalActionChangedError :: tool_exc where
  "ToolApprovalActionChangedError =
    ToolExc ''approval_action_changed'' ''The approved action no longer matches what was requested.''"

subsection \<open>Tools\<close>

text \<open>What one invocation of a handler ends with. A timeout of the worker thread and a
  \<open>TimeoutError\<close> the handler raises itself are the same exception to the caller.\<close>

datatype handler_outcome =
    HModel json
  | HDict json
  | HOther
  | HToolError tool_exc
  | HTimeout
  | HCrash

record tool_spec =
  ts_key :: string
  ts_display_name :: string
  ts_default_timeout :: rat
  ts_max_timeout :: rat
  ts_max_retries :: nat
  ts_retryable :: "string list"
  ts_ambiguous :: "string list"
  ts_input_sensitive :: "string list"
  ts_output_sensitive :: "string list"
  ts_validate_input :: "arguments \<Rightarrow> arguments option"
  ts_validate_output :: "json \<Rightarrow> json option"

record tool =
  tl_spec :: tool_spec
  tl_handler :: "nat \<Rightarrow> nat \<Rightarrow> arguments \<Rightarrow> handler_outcome"

text \<open>The checks of \<open>ToolSpec.__post_init__\<close> and \<open>RetryPolicy.__post_init__\<close>.\<close>

definition spec_ok :: "tool_spec \<Rightarrow> bool" where
  "spec_ok s \<longleftrightarrow> py_strip (ts_key s) \<noteq> [] \<and> py_strip (ts_key s) = ts_key s \<and>
    0 < ts_default_timeout s \<and> 0 < ts_max_timeout s \<and> ts_default_timeout s \<le> ts_max_timeout s"

type_synonym registry = "(string \<times> tool) list"

definition register_tool :: "tool \<Rightarrow> registry \<Rightarrow> registry option" where
  "register_tool t r =
    (if map_of r (ts_key (tl_spec t)) \<noteq> None then None
     else Some (r @ [(ts_key (tl_spec t), t)]))"

definition registry_get :: "py_runtime \<Rightarrow> registry \<Rightarrow> string \<Rightarrow> tool_exc + tool" where
  "registry_get rt r key =
    (case map_of r key of
       None \<Rightarrow> Inl (ToolNotRegisteredError (''Tool '' @ rt_repr rt (JStr key) @ '' is not registered.''))
     | Some t \<Rightarrow> Inr t)"

definition as_approval_tool :: "tool_spec \<Rightarrow> approval_tool" where
  "as_approval_tool s =
    \<lparr>at_key = ts_key s, at_display_name = ts_display_name s, at_input_sensitive = ts_input_sensitive s\<rparr>"

subsection \<open>Idempotency fingerprints\<close>

definition max_idempotency_key_length :: nat where
  "max_idempotency_key_length = 200"

definition fingerprint_arguments :: "py_runtime \<Rightarrow> arguments \<Rightarrow> string" where
  "fingerprint_arguments rt args = rt_sha256 rt (rt_dumps rt (JObj args))"

subsection \<open>Bindings\<close>

definition definition_by_key :: "string \<Rightarrow> gate \<Rightarrow> (nat \<times> tool_definition) option" where
  "definition_by_key key g = find (\<lambda>(i, d). td_key d = key) (g_definitions g)"

definition resolve_enabled_binding :: "nat \<Rightarrow> string \<Rightarrow> gate \<Rightarrow> (nat \<times> tool_binding) option" where
  "resolve_enabled_binding version key g =
    find (\<lambda>(i, b). tb_version b = version \<and> tb_enabled b \<and>
        (case row_get (g_definitions g) (tb_definition b) of
           None \<Rightarrow> False | Some d \<Rightarrow> td_key d = key \<and> td_active d))
      (rev (g_bindings g))"

definition any_binding :: "nat \<Rightarrow> nat \<Rightarrow> gate \<Rightarrow> (nat \<times> tool_binding) option" where
  "any_binding version def g =
    find (\<lambda>(i, b). tb_version b = version \<and> tb_definition b = def) (rev (g_bindings g))"

lemma registry_get_key:
  "register_tool t r = Some r' \<Longrightarrow> registry_get rt r' (ts_key (tl_spec t)) = Inr t"
  by (auto simp: register_tool_def registry_get_def map_add_def split: if_splits)

end
