(* ===== verification/ToolExec.thy ===== *)
theory ToolExec
  imports ToolContracts
begin

section \<open>The controlled tool execution service\<close>

text \<open>
  \<open>tools/execution.py\<close>: the only path from a tool request to a handler. \<open>execute_tool\<close>
  admits a request, claims a \<open>ToolExecution\<close> row for its idempotency key, runs the policy gate
  at most once per row, reserves a slot of the run's budget, invokes the handler with bounded
  retries and finalizes the row; \<open>resume_after_approval\<close> continues a row that waited for a
  decision. \<open>g_calls\<close> grows by one entry at each handler invocation.

  The readings of the clock are numbered by the place that takes them. Other transactions that
  commit between the lookup of an idempotency key and the insertion are the argument \<open>other\<close>
  of \<open>claim_execution\<close>.
\<close>

definition max_arguments_bytes :: nat where
  "max_arguments_bytes = 8000"

definition max_output_bytes :: nat where
  "max_output_bytes = 16000"

subsection \<open>Timeouts\<close>

text \<open>\<open>Inl\<close> is the exception of \<open>float(configured)\<close>, \<open>Inr None\<close> an exhausted wall time.\<close>

definition effective_timeout ::
  "py_runtime \<Rightarrow> int \<Rightarrow> agent_run \<Rightarrow> agent_version \<Rightarrow> tool_binding \<Rightarrow> tool_spec
    \<Rightarrow> tool_exc + pyfloat option" where
  "effective_timeout rt now inst version binding spec =
    (let configured = dict_get (tb_configuration binding) ''timeout_seconds'';
         candidate = (if py_truthy configured then py_float rt configured
                      else Some (Finite (ts_default_timeout spec)))
     in case candidate of
          None \<Rightarrow> Inl (Crash ConversionCrash)
        | Some c \<Rightarrow>
            (let eff = py_min c (Finite (ts_max_timeout spec)) in
             case run_started_at inst of
               None \<Rightarrow> Inr (Some eff)
             | Some t \<Rightarrow>
                 (let remaining = double_of_rat (of_int (av_wall_time version) - total_seconds (now - t)) in
                  if remaining \<le> 0 then Inr None else Inr (Some (py_min eff (Finite remaining))))))"

text \<open>\<open>max(MIN_TIMEOUT_SECONDS, round(t))\<close>; rounding an infinity or NaN raises.\<close>

definition rounded_timeout :: "pyfloat \<Rightarrow> int option" where
  "rounded_timeout t = (case t of Finite x \<Rightarrow> Some (max 1 (round_half_even x)) | _ \<Rightarrow> None)"

subsection \<open>Claiming the row of an idempotency key\<close>

definition find_execution :: "nat \<Rightarrow> nat \<Rightarrow> string \<Rightarrow> gate \<Rightarrow> (nat \<times> tool_execution) option" where
  "find_execution ws d key g =
    find (\<lambda>(i, ex). te_workspace ex = ws \<and> te_definition ex = d \<and> te_key ex = key) (g_execs g)"

definition policy_terminal :: "exec_status \<Rightarrow> bool" where
  "policy_terminal st \<longleftrightarrow> st = EX_BLOCKED_BY_POLICY \<or> st = EX_APPROVAL_TERMINATED"

text \<open>The row, whether to execute it, and whether its stored outcome is reused.\<close>

definition resolve_existing ::
  "nat \<Rightarrow> tool_execution \<Rightarrow> string \<Rightarrow> tool_spec \<Rightarrow> (gate, tool_exc, nat \<times> bool \<times> bool) svc" where
  "resolve_existing k ex fp spec = (\<lambda>g.
    if te_fingerprint ex \<noteq> fp then (g, Inl ToolIdempotencyConflictError)
    else if te_status ex = EX_PENDING \<or> te_status ex = EX_RUNNING
    then (g, Inl ToolExecutionInProgressError)
    else if te_status ex = EX_WAITING_FOR_APPROVAL then (g, Inr (k, False, False))
    else if te_status ex = EX_SUCCEEDED \<or> policy_terminal (te_status ex)
    then (g, Inr (k, False, True))
    else if te_error_code ex \<in> set (ts_ambiguous spec) then (g, Inl ToolAmbiguousOutcomeError)
    else if te_attempts ex \<ge> ts_max_retries spec + 1 then (g, Inl ToolRetryExhaustedError)
    else (put_exec k (ex\<lparr>te_status := EX_PENDING, te_error_code := [], te_error_message := [],
            te_completed_at := None\<rparr>) g, Inr (k, True, False)))"

definition new_execution ::
  "nat \<Rightarrow> nat \<Rightarrow> nat \<Rightarrow> nat \<Rightarrow> nat \<Rightarrow> string \<Rightarrow> string \<Rightarrow> arguments \<Rightarrow> int \<Rightarrow> tool_execution" where
  "new_execution ws run v d b key fp red tmo =
    \<lparr>te_workspace = ws, te_run = run, te_version = v, te_definition = d, te_binding = b,
     te_status = EX_PENDING, te_key = key, te_fingerprint = (if key = [] then [] else fp),
     te_arguments = JObj red, te_result = JObj [], te_attempts = 0, te_timeout = tmo,
     te_started_at = None, te_completed_at = None, te_error_code = [], te_error_message = [],
     te_duration_ms = None\<rparr>"

definition claim_execution ::
  "(gate \<Rightarrow> gate) \<Rightarrow> nat \<Rightarrow> nat \<Rightarrow> nat \<Rightarrow> nat \<Rightarrow> nat \<Rightarrow> string \<Rightarrow> string \<Rightarrow> arguments \<Rightarrow> int
    \<Rightarrow> tool_spec \<Rightarrow> (gate, tool_exc, nat \<times> bool \<times> bool) svc" where
  "claim_execution other ws run v d b key fp red tmo spec = (\<lambda>g.
    case (if key = [] then None else find_execution ws d key g) of
      Some (k, ex) \<Rightarrow> resolve_existing k ex fp spec g
    | None \<Rightarrow>
        (let g1 = other g in
         case (if key = [] then None else find_execution ws d key g1) of
           Some (k, ex) \<Rightarrow> resolve_existing k ex fp spec g1
         | None \<Rightarrow>
             (let k = fresh_id (g_execs g1)
              in (put_exec k (new_execution ws run v d b key fp red tmo) g1, Inr (k, True, False)))))"

subsection \<open>Transitions of a row\<close>

definition start_row :: "int \<Rightarrow> tool_execution \<Rightarrow> tool_execution" where
  "start_row t ex = ex\<lparr>te_status := EX_RUNNING, te_started_at := Some t\<rparr>"

definition transition_running :: "int \<Rightarrow> nat \<Rightarrow> gate \<Rightarrow> gate \<times> (tool_exc + unit)" where
  "transition_running now k g =
    (case row_get (g_execs g) k of
       None \<Rightarrow> (g, Inl (Crash (DbCrash DoesNotExist)))
     | Some locked \<Rightarrow>
         if te_status locked \<noteq> EX_PENDING \<and> te_status locked \<noteq> EX_WAITING_FOR_APPROVAL
         then (g, Inl ToolExecutionInProgressError)
         else (put_exec k (start_row now locked) g, Inr ()))"

definition approval_termination_errors :: "(string \<times> (string \<Rightarrow> tool_exc)) list" where
  "approval_termination_errors =
    [(''approval_rejected'', ToolApprovalRejectedError),
     (''approval_expired'', ToolApprovalExpiredError),
     (''approval_cancelled'', ToolApprovalCancelledError)]"

definition policy_terminal_outcome :: "tool_execution \<Rightarrow> tool_exc" where
  "policy_terminal_outcome ex =
    (if te_status ex = EX_BLOCKED_BY_POLICY then ToolPolicyDeniedError (te_error_message ex)
     else case map_of approval_termination_errors (te_error_code ex) of
            None \<Rightarrow> ToolApprovalRejectedError (te_error_message ex)
          | Some err \<Rightarrow> err (te_error_message ex))"

definition schedule_tool_execution_observation ::
  "tool_execution \<Rightarrow> string \<Rightarrow> gate \<Rightarrow> gate" where
  "schedule_tool_execution_observation ex outcome g =
    emit (Metric ''tool_execution'' [tool_key_of ex g, outcome]) g"

definition transition_blocked_by_policy ::
  "int \<Rightarrow> nat \<Rightarrow> string \<Rightarrow> gate \<Rightarrow> gate \<times> (tool_exc + unit)" where
  "transition_blocked_by_policy now k msg g =
    (case row_get (g_execs g) k of
       None \<Rightarrow> (g, Inl (Crash (DbCrash DoesNotExist)))
     | Some locked \<Rightarrow>
         if te_status locked \<noteq> EX_PENDING then (g, Inl ToolExecutionInProgressError)
         else (schedule_tool_execution_observation locked ''blocked_by_policy''
             (put_exec k (locked\<lparr>te_status := EX_BLOCKED_BY_POLICY,
                te_error_code := ''policy_action_denied'', te_error_message := take 500 msg,
                te_completed_at := Some now\<rparr>) g), Inr ()))"

definition transition_waiting_for_approval :: "nat \<Rightarrow> gate \<Rightarrow> gate \<times> (tool_exc + unit)" where
  "transition_waiting_for_approval k g =
    (case row_get (g_execs g) k of
       None \<Rightarrow> (g, Inl (Crash (DbCrash DoesNotExist)))
     | Some locked \<Rightarrow>
         if te_status locked \<noteq> EX_PENDING then (g, Inl ToolExecutionInProgressError)
         else (put_exec k (locked\<lparr>te_status := EX_WAITING_FOR_APPROVAL\<rparr>) g, Inr ()))"

subsection \<open>The policy gate\<close>

datatype gate_outcome = GAllow | GDeny string | GEvaluationFailed string | GRequireApproval string

definition already_policy_evaluated :: "nat \<Rightarrow> gate \<Rightarrow> bool" where
  "already_policy_evaluated k g \<longleftrightarrow> eval_of k g \<noteq> None"

text \<open>The evaluation that failed is recorded as a denial.\<close>

definition record_failed_evaluation ::
  "int \<Rightarrow> nat \<Rightarrow> tool_execution \<Rightarrow> risk_outcome \<Rightarrow> string \<Rightarrow> gate \<Rightarrow> gate \<times> (tool_exc + gate_outcome)" where
  "record_failed_evaluation now k ex risk msg g =
    (case persist_risk_assessment k ex risk g of
       Inl e \<Rightarrow> (g, Inl (Crash (DbCrash e)))
     | Inr (g1, rk) \<Rightarrow>
        (case persist_policy_evaluation k ex rk None DENY ''policy_evaluation_failed'' msg [] g1 of
           Inl e \<Rightarrow> (g1, Inl (Crash (DbCrash e)))
         | Inr (g2, ev) \<Rightarrow>
            (case transition_blocked_by_policy now k msg g2 of
               (g3, Inl e) \<Rightarrow> (g3, Inl e)
             | (g3, Inr _) \<Rightarrow> (g3, Inr (GEvaluationFailed msg)))))"

definition record_decision_of_policy ::
  "py_runtime \<Rightarrow> (nat \<Rightarrow> int) \<Rightarrow> nat \<Rightarrow> tool_execution \<Rightarrow> agent_run \<Rightarrow> tool_spec \<Rightarrow> arguments
    \<Rightarrow> risk_outcome \<Rightarrow> policy_decision \<Rightarrow> gate \<Rightarrow> gate \<times> (tool_exc + gate_outcome)" where
  "record_decision_of_policy rt clk k ex inst spec args risk d g =
    (case persist_risk_assessment k ex risk g of
       Inl e \<Rightarrow> (g, Inl (Crash (DbCrash e)))
     | Inr (g1, rk) \<Rightarrow>
        (case persist_policy_evaluation k ex rk (pd_version d) (pd_decision d) (pd_code d)
                (pd_reason d) (pd_matched d) g1 of
           Inl e \<Rightarrow> (g1, Inl (Crash (DbCrash e)))
         | Inr (g2, ev) \<Rightarrow>
            (case pd_decision d of
               ALLOW \<Rightarrow> (g2, Inr GAllow)
             | DENY \<Rightarrow>
                (case transition_blocked_by_policy (clk 1) k (pd_reason d) g2 of
                   (g3, Inl e) \<Rightarrow> (g3, Inl e)
                 | (g3, Inr _) \<Rightarrow> (g3, Inr (GDeny (pd_reason d))))
             | REQUIRE_APPROVAL \<Rightarrow>
                (case (row_get (g_evals g2) ev, row_get (g_risks g2) rk) of
                   (Some evaluation, Some risk_row) \<Rightarrow>
                     (case create_or_reuse_approval_request rt (\<lambda>n. clk (n + 2)) k ex inst ev evaluation rk
                             risk_row (pd_required_role d) (pd_ttl d) args (as_approval_tool spec) g2 of
                        (g3, Inl e) \<Rightarrow> (g3, Inl (Crash (DbCrash e)))
                      | (g3, Inr _) \<Rightarrow>
                          (case transition_waiting_for_approval k g3 of
                             (g4, Inl e) \<Rightarrow> (g4, Inl e)
                           | (g4, Inr _) \<Rightarrow> (g4, Inr (GRequireApproval (pd_reason d)))))
                 | _ \<Rightarrow> (g2, Inl (Crash (DbCrash DoesNotExist)))))))"

definition gate_transaction ::
  "py_runtime \<Rightarrow> policy_settings \<Rightarrow> (nat \<Rightarrow> int) \<Rightarrow> nat \<Rightarrow> tool_execution \<Rightarrow> agent_run \<Rightarrow> tool_spec
    \<Rightarrow> arguments \<Rightarrow> risk_outcome \<Rightarrow> (gate, tool_exc, gate_outcome) svc" where
  "gate_transaction rt ps clk k ex inst spec args risk = atomic (\<lambda>g.
    let active = resolve_active_version (g_policy g) (te_workspace ex)
    in case evaluate_policy rt ps (g_policy g) (ts_key spec) risk args active of
         Inl (EvaluationFailed msg) \<Rightarrow> record_failed_evaluation (clk 1) k ex risk msg g
       | Inl e \<Rightarrow> (g, Inl (Crash (PolicyCrash e)))
       | Inr d \<Rightarrow> record_decision_of_policy rt clk k ex inst spec args risk d g)"

definition meta_tool :: "string \<Rightarrow> json" where
  "meta_tool key = JObj [(''tool_key'', JStr key)]"

definition meta_decision :: "string \<Rightarrow> string \<Rightarrow> json" where
  "meta_decision key d = JObj [(''tool_key'', JStr key), (''decision'', JStr d)]"

definition meta_execution :: "string \<Rightarrow> nat \<Rightarrow> json" where
  "meta_execution key k = JObj [(''tool_key'', JStr key), (''tool_execution_id'', jid k)]"

text \<open>After the commit: the trace steps and the exception the outcome raises.\<close>

definition gate_report ::
  "nat option \<Rightarrow> string \<Rightarrow> gate_outcome \<Rightarrow> gate \<Rightarrow> gate \<times> (tool_exc + unit)" where
  "gate_report rec key outcome g =
    (case outcome of
       GAllow \<Rightarrow>
         (record_step rec ''policy_evaluated'' ''succeeded'' [] (meta_decision key ''allow'')
            (emit (Metric ''policy_decision'' [''allow'']) g), Inr ())
     | GEvaluationFailed reason \<Rightarrow>
         (record_step rec ''policy_evaluated'' ''failed'' ''policy_evaluation_failed'' (meta_tool key)
            (emit (Metric ''policy_decision'' [''deny'']) g),
          Inl (ToolPolicyEvaluationFailedError reason))
     | GDeny reason \<Rightarrow>
         (record_step rec ''policy_evaluated'' ''succeeded'' [] (meta_decision key ''deny'')
            (emit (Metric ''policy_decision'' [''deny'']) g),
          Inl (ToolPolicyDeniedError reason))
     | GRequireApproval reason \<Rightarrow>
         (record_step rec ''approval_requested'' ''succeeded'' [] (meta_tool key)
            (record_step rec ''policy_evaluated'' ''succeeded'' [] (meta_decision key ''require_approval'')
              (emit (Metric ''policy_decision'' [''require_approval'']) g)),
          Inl (ToolApprovalRequiredError reason)))"

definition run_policy_gate ::
  "py_runtime \<Rightarrow> policy_settings \<Rightarrow> (nat \<Rightarrow> int) \<Rightarrow> nat option \<Rightarrow> nat \<Rightarrow> tool_execution \<Rightarrow> tool_spec
    \<Rightarrow> tool_definition \<Rightarrow> agent_run \<Rightarrow> arguments \<Rightarrow> gate \<Rightarrow> gate \<times> (tool_exc + unit)" where
  "run_policy_gate rt ps clk rec k ex spec def inst args g =
    (let risk = assess_risk ps (td_risk def) (td_side_effect def) args;
         g1 = record_step rec ''risk_assessed'' ''succeeded'' []
                (JObj [(''tool_key'', JStr (ts_key spec)),
                       (''effective_risk'', JStr (risk_value (ro_effective_risk risk)))]) g
     in case gate_transaction rt ps clk k ex inst spec args risk g1 of
          (g2, Inl e) \<Rightarrow> (g2, Inl e)
        | (g2, Inr outcome) \<Rightarrow> gate_report rec (ts_key spec) outcome g2)"

subsection \<open>The tool-call budget\<close>

definition reserve_budget_slot :: "nat \<Rightarrow> int \<Rightarrow> gate \<Rightarrow> gate \<times> bool" where
  "reserve_budget_slot run max_calls g =
    (case row_get (g_runs g) run of
       None \<Rightarrow> (g, False)
     | Some r \<Rightarrow>
         if run_tool_calls r < max_calls
         then (put_run run (r\<lparr>run_tool_calls := run_tool_calls r + 1\<rparr>) g, True)
         else (g, False))"

subsection \<open>Finalizing\<close>

definition duration_ms :: "int option \<Rightarrow> int \<Rightarrow> int option" where
  "duration_ms started completed = map_option (\<lambda>t. elapsed_ms t completed) started"

definition finalize_success :: "int \<Rightarrow> nat \<Rightarrow> json \<Rightarrow> gate \<Rightarrow> gate \<times> (tool_exc + unit)" where
  "finalize_success now k out g =
    (case row_get (g_execs g) k of
       None \<Rightarrow> (g, Inl (Crash (DbCrash DoesNotExist)))
     | Some locked \<Rightarrow>
         if te_status locked \<noteq> EX_RUNNING then (g, Inr ())
         else (schedule_tool_execution_observation locked ''succeeded''
             (put_exec k (locked\<lparr>te_status := EX_SUCCEEDED, te_result := out,
                te_completed_at := Some now,
                te_duration_ms := duration_ms (te_started_at locked) now\<rparr>) g), Inr ()))"

definition finalize_failure ::
  "int \<Rightarrow> nat \<Rightarrow> exec_status \<Rightarrow> string \<Rightarrow> string \<Rightarrow> gate \<Rightarrow> gate \<times> (tool_exc + unit)" where
  "finalize_failure now k st code msg g =
    (case row_get (g_execs g) k of
       None \<Rightarrow> (g, Inl (Crash (DbCrash DoesNotExist)))
     | Some locked \<Rightarrow>
         if te_status locked \<noteq> EX_RUNNING then (g, Inr ())
         else if \<not> fits 64 code \<or> \<not> fits 500 msg then (g, Inl (Crash (DbCrash DataError)))
         else (schedule_tool_execution_observation locked
               (if st = EX_TIMED_OUT then ''timed_out'' else ''failed'')
             (put_exec k (locked\<lparr>te_status := st, te_error_code := code, te_error_message := msg,
                te_completed_at := Some now,
                te_duration_ms := duration_ms (te_started_at locked) now\<rparr>) g), Inr ()))"

subsection \<open>Bounded execution\<close>

definition lower_all :: "string list \<Rightarrow> string list" where
  "lower_all = map str_lower"

definition validate_output :: "py_runtime \<Rightarrow> tool_spec \<Rightarrow> handler_outcome \<Rightarrow> tool_exc + json" where
  "validate_output rt spec raw =
    (case (case raw of HModel v \<Rightarrow> Some v | HDict v \<Rightarrow> ts_validate_output spec v | _ \<Rightarrow> None) of
       None \<Rightarrow> Inl (ToolInvalidOutputError [])
     | Some v \<Rightarrow>
         (let dumped = redact (lower_all (ts_output_sensitive spec)) v in
          case rt_dumps_plain rt dumped of
            None \<Rightarrow> Inl (Crash OutputCrash)
          | Some s \<Rightarrow>
              if length s > max_output_bytes
              then Inl (ToolInvalidOutputError ''Tool output exceeds the maximum allowed size.'')
              else Inr dumped))"

definition invoke_with_timeout ::
  "py_runtime \<Rightarrow> tool \<Rightarrow> nat \<Rightarrow> nat \<Rightarrow> arguments \<Rightarrow> gate \<Rightarrow> gate \<times> (tool_exc + json)" where
  "invoke_with_timeout rt tool k attempt args g =
    (let g1 = g\<lparr>g_calls := g_calls g @ [k]\<rparr> in
     case tl_handler tool k attempt args of
       HTimeout \<Rightarrow> (g1, Inl ToolTimeoutError)
     | HToolError e \<Rightarrow> (g1, Inl e)
     | HCrash \<Rightarrow> (g1, Inl (Crash HandlerCrash))
     | raw \<Rightarrow> (g1, validate_output rt (tl_spec tool) raw))"

definition attempts_of :: "gate \<Rightarrow> nat \<Rightarrow> nat" where
  "attempts_of g k = (case row_get (g_execs g) k of None \<Rightarrow> 0 | Some ex \<Rightarrow> te_attempts ex)"

definition set_attempts :: "nat \<Rightarrow> nat \<Rightarrow> gate \<Rightarrow> gate" where
  "set_attempts k n g =
    g\<lparr>g_execs := update_where (\<lambda>i ex. i = k) (\<lambda>ex. ex\<lparr>te_attempts := n\<rparr>) (g_execs g)\<rparr>"

text \<open>The attempts are counted in the caller's copy of the row; the third argument is that copy.\<close>

function run_with_retries ::
  "py_runtime \<Rightarrow> tool \<Rightarrow> nat \<Rightarrow> nat \<Rightarrow> arguments \<Rightarrow> gate \<Rightarrow> gate \<times> (tool_exc + json)" where
  "run_with_retries rt tool k attempts args g =
    (if attempts \<ge> ts_max_retries (tl_spec tool) + 1 then (g, Inl ToolRetryExhaustedError)
     else
      (let n = attempts + 1; g1 = set_attempts k n g in
       case invoke_with_timeout rt tool k n args g1 of
         (g2, Inr out) \<Rightarrow> (g2, Inr out)
       | (g2, Inl ToolTimeoutError) \<Rightarrow> (g2, Inl ToolTimeoutError)
       | (g2, Inl (Crash c)) \<Rightarrow> (g2, Inl (Crash c))
       | (g2, Inl (ToolExc code msg)) \<Rightarrow>
           (let retryable = code \<in> set (ts_retryable (tl_spec tool));
                remain = n < ts_max_retries (tl_spec tool) + 1
            in if retryable \<and> remain then run_with_retries rt tool k n args g2
               else if retryable then (g2, Inl ToolRetryExhaustedError)
               else (g2, Inl (ToolExc code msg)))))"
  by pat_completeness auto
termination
  by (relation "measure (\<lambda>(rt, tool, k, n, args, g). ts_max_retries (tl_spec tool) + 1 - n)") auto

declare run_with_retries.simps [simp del]

subsection \<open>Admission of a request\<close>

text \<open>
  The checks of \<open>execute_tool\<close> before it claims a row: the run, the registry, the binding, the
  budget, the size and the schema of the arguments, the timeout. Only a failed validation and
  the request itself leave a trace step.
\<close>

record admitted =
  ad_tool :: tool
  ad_def_id :: nat
  ad_def :: tool_definition
  ad_binding_id :: nat
  ad_version :: agent_version
  ad_args :: arguments
  ad_timeout :: int

definition resolve_tool ::
  "py_runtime \<Rightarrow> registry \<Rightarrow> agent_run \<Rightarrow> string \<Rightarrow> gate
    \<Rightarrow> tool_exc + (tool \<times> nat \<times> tool_definition \<times> nat \<times> tool_binding)" where
  "resolve_tool rt reg inst key g =
    (if run_status_of inst \<noteq> RUN_RUNNING then Inl ToolRunNotExecutableError
     else case registry_get rt reg key of
       Inl e \<Rightarrow> Inl e
     | Inr tool \<Rightarrow>
        (case definition_by_key key g of
           None \<Rightarrow> Inl (ToolConfigurationError ''Tool is registered but not published to the catalog.'')
         | Some (d, def) \<Rightarrow>
            (case resolve_enabled_binding (run_version inst) key g of
               Some (b, binding) \<Rightarrow> Inr (tool, d, def, b, binding)
             | None \<Rightarrow> Inl (if any_binding (run_version inst) d g = None then ToolNotBoundError
                           else ToolDisabledError))))"

definition live_tool_calls :: "nat \<Rightarrow> agent_run \<Rightarrow> gate \<Rightarrow> int" where
  "live_tool_calls run inst g =
    (case row_get (g_runs g) run of None \<Rightarrow> run_tool_calls inst | Some r \<Rightarrow> run_tool_calls r)"

definition check_size :: "py_runtime \<Rightarrow> arguments \<Rightarrow> string \<Rightarrow> tool_exc option" where
  "check_size rt args key =
    (case rt_dumps_plain rt (JObj args) of
       None \<Rightarrow> Some (ToolInvalidInputError ''Tool arguments payload is too large.'')
     | Some s \<Rightarrow>
         if length s > max_arguments_bytes
         then Some (ToolInvalidInputError ''Tool arguments payload is too large.'')
         else if key \<noteq> [] \<and> length key > max_idempotency_key_length
         then Some (ToolInvalidInputError ''Idempotency key is too long.'')
         else None)"

definition admit_request ::
  "py_runtime \<Rightarrow> registry \<Rightarrow> int \<Rightarrow> nat option \<Rightarrow> nat \<Rightarrow> agent_run \<Rightarrow> string \<Rightarrow> arguments \<Rightarrow> string
    \<Rightarrow> gate \<Rightarrow> gate \<times> (tool_exc + admitted)" where
  "admit_request rt reg now rec run inst key args ikey g0 =
    (let g = record_step rec ''tool_requested'' ''started'' [] (meta_tool key) g0 in
     case resolve_tool rt reg inst key g of
       Inl e \<Rightarrow> (g, Inl e)
     | Inr (tool, d, def, b, binding) \<Rightarrow>
        (case row_get (g_versions g) (run_version inst) of
           None \<Rightarrow> (g, Inl (Crash (DbCrash DoesNotExist)))
         | Some version \<Rightarrow>
             if live_tool_calls run inst g \<ge> av_max_tool_calls version
             then (g, Inl (ToolBudgetExceededError []))
             else case check_size rt args ikey of
               Some e \<Rightarrow> (g, Inl e)
             | None \<Rightarrow>
                (case ts_validate_input (tl_spec tool) args of
                   None \<Rightarrow>
                     (record_step rec ''tool_validation_failed'' ''failed'' ''tool_invalid_input''
                        (meta_tool key) g, Inl (ToolInvalidInputError []))
                 | Some validated \<Rightarrow>
                    (case effective_timeout rt now inst version binding (tl_spec tool) of
                       Inl e \<Rightarrow> (g, Inl e)
                     | Inr None \<Rightarrow>
                         (g, Inl (ToolBudgetExceededError ''The run's remaining wall time is exhausted.''))
                     | Inr (Some t) \<Rightarrow>
                        (case rounded_timeout t of
                           None \<Rightarrow> (g, Inl (Crash ConversionCrash))
                         | Some tmo \<Rightarrow>
                             (g, Inr \<lparr>ad_tool = tool, ad_def_id = d, ad_def = def, ad_binding_id = b,
                                ad_version = version, ad_args = validated, ad_timeout = tmo\<rparr>))))))"

subsection \<open>Executing a claimed row\<close>

text \<open>The \<open>try\<close> statement around \<open>_run_with_retries\<close>, shared by both entry points.\<close>

definition finish_handler ::
  "int \<Rightarrow> nat \<Rightarrow> gate \<times> (tool_exc + json) \<Rightarrow> gate \<times> (tool_exc + json)" where
  "finish_handler now k r =
    (case r of
       (g, Inr out) \<Rightarrow>
         (case finalize_success now k out g of
            (g', Inl e) \<Rightarrow> (g', Inl e) | (g', Inr _) \<Rightarrow> (g', Inr out))
     | (g, Inl (Crash c)) \<Rightarrow> (g, Inl (Crash c))
     | (g, Inl e) \<Rightarrow>
         (case finalize_failure now k (if e = ToolTimeoutError then EX_TIMED_OUT else EX_FAILED)
                 (exc_code e) (exc_message e) g of
            (g', Inl e') \<Rightarrow> (g', Inl e') | (g', Inr _) \<Rightarrow> (g', Inl e)))"

definition budget_exhausted_message :: string where
  "budget_exhausted_message = ''The run's tool-call budget was exhausted by a concurrent call.''"

text \<open>From the transition to RUNNING to the result; \<open>run\<close> is the caller's run.\<close>

definition perform_execution ::
  "py_runtime \<Rightarrow> (nat \<Rightarrow> int) \<Rightarrow> nat option \<Rightarrow> nat \<Rightarrow> int \<Rightarrow> string \<Rightarrow> tool \<Rightarrow> nat \<Rightarrow> nat \<Rightarrow> arguments
    \<Rightarrow> gate \<Rightarrow> gate \<times> (tool_exc + nat \<times> json \<times> bool)" where
  "perform_execution rt clk rec run max_calls key tool k attempts args g =
    (case transition_running (clk 4) k g of
       (g1, Inl e) \<Rightarrow> (g1, Inl e)
     | (g1, Inr _) \<Rightarrow>
        (case reserve_budget_slot run max_calls g1 of
           (g2, False) \<Rightarrow>
             (case finalize_failure (clk 6) k EX_FAILED ''tool_budget_exceeded''
                     budget_exhausted_message g2 of
                (g3, Inl e) \<Rightarrow> (g3, Inl e)
              | (g3, Inr _) \<Rightarrow>
                  (record_step rec ''tool_execution_failed'' ''failed'' ''tool_budget_exceeded''
                     (meta_execution key k) g3, Inl (ToolBudgetExceededError [])))
         | (g2, True) \<Rightarrow>
             (let g3 = record_step rec ''tool_execution_started'' ''started'' [] (meta_execution key k) g2
              in case finish_handler (clk 6) k (run_with_retries rt tool k attempts args g3) of
                (g4, Inr out) \<Rightarrow>
                  (record_step rec ''tool_execution_succeeded'' ''succeeded'' []
                     (JObj [(''tool_key'', JStr key), (''tool_execution_id'', jid k),
                            (''attempt_count'', jid (attempts_of g4 k))]) g4,
                   Inr (k, out, False))
              | (g4, Inl ToolTimeoutError) \<Rightarrow>
                  (record_step rec ''tool_execution_timed_out'' ''failed'' ''tool_timeout''
                     (meta_execution key k) g4, Inl ToolTimeoutError)
              | (g4, Inl (Crash c)) \<Rightarrow> (g4, Inl (Crash c))
              | (g4, Inl e) \<Rightarrow>
                  (record_step rec ''tool_execution_failed'' ''failed'' (exc_code e)
                     (meta_execution key k) g4, Inl e))))"

text \<open>What follows the claim of a row that is to be executed: the gate, once per row, then the call.\<close>

definition gate_and_perform ::
  "py_runtime \<Rightarrow> policy_settings \<Rightarrow> (nat \<Rightarrow> int) \<Rightarrow> nat option \<Rightarrow> nat \<Rightarrow> agent_run \<Rightarrow> string \<Rightarrow> admitted
    \<Rightarrow> nat \<Rightarrow> gate \<Rightarrow> gate \<times> (tool_exc + nat \<times> json \<times> bool)" where
  "gate_and_perform rt ps clk rec run inst key a k g =
    (case row_get (g_execs g) k of
       None \<Rightarrow> (g, Inl (Crash (DbCrash DoesNotExist)))
     | Some ex \<Rightarrow>
        (case (if already_policy_evaluated k g then (g, Inr ())
               else run_policy_gate rt ps clk rec k ex (tl_spec (ad_tool a)) (ad_def a) inst (ad_args a) g) of
           (g1, Inl e) \<Rightarrow> (g1, Inl e)
         | (g1, Inr _) \<Rightarrow>
             perform_execution rt clk rec run (av_max_tool_calls (ad_version a)) key (ad_tool a) k
               (te_attempts ex) (ad_args a) g1))"

definition execute_tool ::
  "py_runtime \<Rightarrow> policy_settings \<Rightarrow> registry \<Rightarrow> (nat \<Rightarrow> int) \<Rightarrow> nat option \<Rightarrow> nat \<Rightarrow> agent_run \<Rightarrow> string
    \<Rightarrow> arguments \<Rightarrow> string \<Rightarrow> gate \<Rightarrow> gate \<times> (tool_exc + nat \<times> json \<times> bool)" where
  "execute_tool rt ps reg clk rec run inst key args ikey g =
    (case admit_request rt reg (clk 0) rec run inst key args ikey g of
       (g1, Inl e) \<Rightarrow> (g1, Inl e)
     | (g1, Inr a) \<Rightarrow>
        (let spec = tl_spec (ad_tool a);
             red = redact_arguments (lower_all (ts_input_sensitive spec)) (ad_args a);
             fp = fingerprint_arguments rt (ad_args a)
         in case atomic (claim_execution (\<lambda>s. s) (run_workspace inst) run (run_version inst) (ad_def_id a)
                   (ad_binding_id a) ikey fp red (ad_timeout a) spec) g1 of
              (g2, Inl e) \<Rightarrow> (g2, Inl e)
            | (g2, Inr (k, should_execute, reused)) \<Rightarrow>
               (case row_get (g_execs g2) k of
                  None \<Rightarrow> (g2, Inl (Crash (DbCrash DoesNotExist)))
                | Some ex \<Rightarrow>
                    if reused then
                      if te_status ex = EX_SUCCEEDED then
                        (record_step rec ''tool_idempotency_reused'' ''succeeded'' [] (meta_execution key k) g2,
                         Inr (k, te_result ex, True))
                      else (g2, Inl (policy_terminal_outcome ex))
                    else if te_status ex = EX_WAITING_FOR_APPROVAL
                    then (g2, Inl (ToolApprovalRequiredError []))
                    else if \<not> should_execute then (g2, Inr (k, te_result ex, False))
                    else gate_and_perform rt ps clk rec run inst key a k g2)))"

subsection \<open>Resuming after a decision\<close>

definition claim_resume :: "int \<Rightarrow> nat \<Rightarrow> gate \<Rightarrow> gate \<times> bool" where
  "claim_resume now k g =
    (case row_get (g_execs g) k of
       None \<Rightarrow> (g, False)
     | Some locked \<Rightarrow>
         if te_status locked \<noteq> EX_WAITING_FOR_APPROVAL then (g, False)
         else (put_exec k (start_row now locked) g, True))"

text \<open>The loser of the claim reports the state it finds.\<close>

definition report_unclaimed :: "nat \<Rightarrow> tool_execution \<Rightarrow> gate \<Rightarrow> gate \<times> (tool_exc + nat \<times> json \<times> bool)" where
  "report_unclaimed k ex g =
    (if te_status ex = EX_SUCCEEDED then (g, Inr (k, te_result ex, True))
     else if te_status ex = EX_RUNNING then (g, Inl ToolExecutionInProgressError)
     else (g, Inl (policy_terminal_outcome ex)))"

definition fail_resumed ::
  "int \<Rightarrow> nat \<Rightarrow> string \<Rightarrow> string \<Rightarrow> tool_exc \<Rightarrow> gate \<Rightarrow> gate \<times> (tool_exc + 'a)" where
  "fail_resumed now k code msg e g =
    (case finalize_failure now k EX_FAILED code msg g of
       (g', Inl e') \<Rightarrow> (g', Inl e') | (g', Inr _) \<Rightarrow> (g', Inl e))"

text \<open>\<open>approval_action_changed\<close>: the fingerprint the approver saw against the one of the row.\<close>

definition action_changed :: "nat \<Rightarrow> tool_execution \<Rightarrow> gate \<Rightarrow> bool" where
  "action_changed k ex g \<longleftrightarrow> (case approval_of k g of
     None \<Rightarrow> False
   | Some (i, ar) \<Rightarrow> ar_fingerprint ar \<noteq> [] \<and> ar_fingerprint ar \<noteq> te_fingerprint ex)"

definition json_args :: "json \<Rightarrow> arguments" where
  "json_args v = (case v of JObj kvs \<Rightarrow> kvs | _ \<Rightarrow> [])"

definition resume_handler ::
  "py_runtime \<Rightarrow> int \<Rightarrow> nat option \<Rightarrow> nat \<Rightarrow> tool_execution \<Rightarrow> tool \<Rightarrow> arguments \<Rightarrow> gate
    \<Rightarrow> gate \<times> (tool_exc + nat \<times> json \<times> bool)" where
  "resume_handler rt now rec k ex tool args g =
    (case row_get (g_versions g) (te_version ex) of
       None \<Rightarrow> (g, Inl (Crash (DbCrash DoesNotExist)))
     | Some version \<Rightarrow>
        (case reserve_budget_slot (te_run ex) (av_max_tool_calls version) g of
           (g2, False) \<Rightarrow>
             fail_resumed now k ''tool_budget_exceeded'' budget_exhausted_message
               (ToolBudgetExceededError []) g2
         | (g2, True) \<Rightarrow>
             (let meta = JObj [(''tool_execution_id'', jid k)];
                  g3 = record_step rec ''execution_resumed'' ''started'' [] meta g2
              in case finish_handler now k (run_with_retries rt tool k (te_attempts ex) args g3) of
                (g4, Inr out) \<Rightarrow>
                  (record_step rec ''tool_execution_succeeded'' ''succeeded'' [] meta g4,
                   Inr (k, out, False))
              | (g4, Inl e) \<Rightarrow> (g4, Inl e))))"

definition resume_after_approval ::
  "py_runtime \<Rightarrow> registry \<Rightarrow> (nat \<Rightarrow> int) \<Rightarrow> nat option \<Rightarrow> nat \<Rightarrow> gate
    \<Rightarrow> gate \<times> (tool_exc + nat \<times> json \<times> bool)" where
  "resume_after_approval rt reg clk rec k g =
    (case row_get (g_execs g) k of
       None \<Rightarrow> (g, Inl (Crash (DbCrash DoesNotExist)))
     | Some ex \<Rightarrow>
        (case claim_resume (clk 0) k g of
           (g1, False) \<Rightarrow> report_unclaimed k ex g1
         | (g1, True) \<Rightarrow>
             if action_changed k ex g1 then
               fail_resumed (clk 1) k ''approval_action_changed''
                 ''The approved action no longer matches what was requested.''
                 ToolApprovalActionChangedError g1
             else case registry_get rt reg (tool_key_of ex g1) of
               Inl e \<Rightarrow> (g1, Inl e)
             | Inr tool \<Rightarrow>
                 if \<not> ((case row_get (g_bindings g1) (te_binding ex) of None \<Rightarrow> False | Some b \<Rightarrow> tb_enabled b) \<and>
                      (case row_get (g_definitions g1) (te_definition ex) of None \<Rightarrow> False | Some d \<Rightarrow> td_active d))
                 then fail_resumed (clk 1) k ''tool_disabled''
                   ''The tool was disabled while this action was awaiting approval.'' ToolDisabledError g1
                 else case ts_validate_input (tl_spec tool) (json_args (te_arguments ex)) of
                   None \<Rightarrow> fail_resumed (clk 1) k ''tool_invalid_input''
                     ''The approved action's arguments could not be safely reconstructed.''
                     (ToolInvalidInputError []) g1
                 | Some args \<Rightarrow> resume_handler rt (clk 1) rec k ex tool args g1))"

subsection \<open>Steps that invoke no handler\<close>

text \<open>
  \<open>quiet g g'\<close>: nothing was invoked and no attempt counted. Everything but
  \<open>run_with_retries\<close> is quiet, so the accounting of handler invocations is that function's.
\<close>

definition quiet :: "gate \<Rightarrow> gate \<Rightarrow> bool" where
  "quiet g g' \<longleftrightarrow> g_calls g' = g_calls g \<and> (\<forall>k. attempts_of g' k = attempts_of g k) \<and>
    (distinct (row_ids (g_execs g)) \<longrightarrow> distinct (row_ids (g_execs g')))"

lemma quiet_refl [simp]: "quiet g g"
  by (simp add: quiet_def)

lemma quiet_trans [trans]: "quiet g g' \<Longrightarrow> quiet g' g'' \<Longrightarrow> quiet g g''"
  by (simp add: quiet_def)

lemma quiet_same: "g_calls g' = g_calls g \<Longrightarrow> g_execs g' = g_execs g \<Longrightarrow> quiet g g'"
  by (simp add: quiet_def attempts_of_def)

lemma quiet_put_exec:
  "g_calls g' = g_calls g \<Longrightarrow> g_execs g' = row_put k ex (g_execs g) \<Longrightarrow>
    te_attempts ex = attempts_of g k \<Longrightarrow> quiet g g'"
  by (auto simp: quiet_def attempts_of_def)

lemma attempts_of_eq: "row_get (g_execs g) k = Some ex \<Longrightarrow> attempts_of g k = te_attempts ex"
  by (simp add: attempts_of_def)

lemma observation_frame [simp]:
  "g_execs (schedule_tool_execution_observation ex o' g) = g_execs g"
  "g_calls (schedule_tool_execution_observation ex o' g) = g_calls g"
  "g_evals (schedule_tool_execution_observation ex o' g) = g_evals g"
  "g_approvals (schedule_tool_execution_observation ex o' g) = g_approvals g"
  "g_runs (schedule_tool_execution_observation ex o' g) = g_runs g"
  by (simp_all add: schedule_tool_execution_observation_def)

named_theorems transition_defs \<open>the functions that write the status of a row\<close>

lemmas transitions [transition_defs] =
  transition_running_def transition_blocked_by_policy_def transition_waiting_for_approval_def
  finalize_success_def finalize_failure_def claim_resume_def start_row_def

lemma transition_quiet:
  "quiet g (fst (transition_running t k g))"
  "quiet g (fst (transition_blocked_by_policy t k m g))"
  "quiet g (fst (transition_waiting_for_approval k g))"
  "quiet g (fst (finalize_success t k out g))"
  "quiet g (fst (finalize_failure t k st c m g))"
  "quiet g (fst (claim_resume t k g))"
  unfolding transition_defs
  by (auto split: option.splits simp: quiet_def attempts_of_def)

text \<open>The transitions touch the rows of executions only.\<close>

lemma transition_evals [simp]:
  "g_evals (fst (transition_running t k g)) = g_evals g"
  "g_evals (fst (transition_blocked_by_policy t k m g)) = g_evals g"
  "g_evals (fst (transition_waiting_for_approval k g)) = g_evals g"
  "g_evals (fst (finalize_success t k out g)) = g_evals g"
  "g_evals (fst (finalize_failure t k st c m g)) = g_evals g"
  "g_evals (fst (claim_resume t k g)) = g_evals g"
  unfolding transition_defs by (auto split: option.splits)

lemma transition_runs [simp]:
  "g_runs (fst (transition_running t k g)) = g_runs g"
  "g_runs (fst (transition_blocked_by_policy t k m g)) = g_runs g"
  "g_runs (fst (transition_waiting_for_approval k g)) = g_runs g"
  "g_runs (fst (finalize_success t k out g)) = g_runs g"
  "g_runs (fst (finalize_failure t k st c m g)) = g_runs g"
  "g_runs (fst (claim_resume t k g)) = g_runs g"
  unfolding transition_defs by (auto split: option.splits)

lemma transition_approvals [simp]:
  "g_approvals (fst (transition_running t k g)) = g_approvals g"
  "g_approvals (fst (transition_blocked_by_policy t k m g)) = g_approvals g"
  "g_approvals (fst (transition_waiting_for_approval k g)) = g_approvals g"
  "g_approvals (fst (finalize_success t k out g)) = g_approvals g"
  "g_approvals (fst (finalize_failure t k st c m g)) = g_approvals g"
  "g_approvals (fst (claim_resume t k g)) = g_approvals g"
  unfolding transition_defs by (auto split: option.splits)

subsection \<open>The loop\<close>

lemma set_attempts_frame [simp]:
  "g_calls (set_attempts k n g) = g_calls g" "g_evals (set_attempts k n g) = g_evals g"
  "g_runs (set_attempts k n g) = g_runs g" "g_approvals (set_attempts k n g) = g_approvals g"
  "row_get (g_execs (set_attempts k n g)) j =
    (if j = k then map_option (\<lambda>ex. ex\<lparr>te_attempts := n\<rparr>) (row_get (g_execs g) j)
     else row_get (g_execs g) j)"
  "row_ids (g_execs (set_attempts k n g)) = row_ids (g_execs g)"
  by (auto simp: set_attempts_def option.map_ident)

lemma invoke_frame [simp]:
  "g_calls (fst (invoke_with_timeout rt tool k n args g)) = g_calls g @ [k]"
  "g_execs (fst (invoke_with_timeout rt tool k n args g)) = g_execs g"
  "g_evals (fst (invoke_with_timeout rt tool k n args g)) = g_evals g"
  "g_runs (fst (invoke_with_timeout rt tool k n args g)) = g_runs g"
  "g_approvals (fst (invoke_with_timeout rt tool k n args g)) = g_approvals g"
  by (simp_all add: invoke_with_timeout_def Let_def split: handler_outcome.splits)

text \<open>
  What a run of the loop does: \<open>n\<close> invocations of the handler for this row, each counted,
  within the total budget of attempts, and nothing else in the tables.
\<close>

definition loop_spec :: "nat \<Rightarrow> nat \<Rightarrow> nat \<Rightarrow> gate \<Rightarrow> gate \<Rightarrow> nat \<Rightarrow> bool" where
  "loop_spec k attempts limit g g' n \<longleftrightarrow>
    g_calls g' = g_calls g @ replicate n k \<and>
    (\<forall>j. row_get (g_execs g') j =
       (if j = k \<and> n > 0 then map_option (\<lambda>ex. ex\<lparr>te_attempts := attempts + n\<rparr>) (row_get (g_execs g) j)
        else row_get (g_execs g) j)) \<and>
    (n > 0 \<longrightarrow> attempts + n \<le> limit) \<and>
    g_evals g' = g_evals g \<and> g_runs g' = g_runs g \<and> g_approvals g' = g_approvals g \<and>
    row_ids (g_execs g') = row_ids (g_execs g)"

lemma loop_spec_0 [simp]: "loop_spec k attempts limit g g 0"
  by (simp add: loop_spec_def)

lemma loop_spec_Suc:
  assumes "loop_spec k (attempts + 1) limit
      (fst (invoke_with_timeout rt tool k n args (set_attempts k (attempts + 1) g))) g' m"
    and "attempts + 1 \<le> limit"
  shows "loop_spec k attempts limit g g' (Suc m)"
  using assms by (auto simp: loop_spec_def option.map_comp comp_def)

lemma run_with_retries_spec:
  "\<exists>n. loop_spec k attempts (ts_max_retries (tl_spec tool) + 1) g
        (fst (run_with_retries rt tool k attempts args g)) n \<and>
      (attempts < ts_max_retries (tl_spec tool) + 1 \<longrightarrow> n > 0)"
proof (induction rt tool k attempts args g rule: run_with_retries.induct)
  case (1 rt tool k attempts args g)
  let ?lim = "ts_max_retries (tl_spec tool) + 1"
  show ?case
  proof (cases "attempts \<ge> ?lim")
    case True
    then show ?thesis by (intro exI [of _ 0]) (simp add: run_with_retries.simps)
  next
    case False
    let ?i = "invoke_with_timeout rt tool k (attempts + 1) args (set_attempts k (attempts + 1) g)"
    obtain g2 res where i: "?i = (g2, res)" by fastforce
    have one: "loop_spec k attempts ?lim g g2 (Suc 0)"
      using False i loop_spec_Suc [of k attempts ?lim rt tool "attempts + 1" args g g2 0] by simp
    show ?thesis
    proof (cases "fst (run_with_retries rt tool k attempts args g) = g2")
      case True
      with one show ?thesis by auto
    next
      case other: False
      have "run_with_retries rt tool k attempts args g =
          (case res of
             Inl (ToolExc c m) \<Rightarrow>
               if c \<in> set (ts_retryable (tl_spec tool)) \<and> attempts + 1 < ?lim
               then run_with_retries rt tool k (attempts + 1) args g2
               else if c \<in> set (ts_retryable (tl_spec tool)) then (g2, Inl ToolRetryExhaustedError)
               else (g2, Inl (ToolExc c m))
           | _ \<Rightarrow> (g2, res))"
        using False by (subst run_with_retries.simps)
          (auto simp: Let_def i [simplified] split: sum.splits tool_exc.splits)
      with other obtain c m where res: "res = Inl (ToolExc c m)"
        "c \<in> set (ts_retryable (tl_spec tool))" "attempts + 1 < ?lim"
        and rec: "run_with_retries rt tool k attempts args g = run_with_retries rt tool k (attempts + 1) args g2"
        by (auto split: sum.splits tool_exc.splits if_splits)
      have "\<exists>n. loop_spec k (attempts + 1) ?lim g2
          (fst (run_with_retries rt tool k (attempts + 1) args g2)) n"
        using 1 [OF _ refl refl i [symmetric] res(1) refl refl refl] False res(2,3) by auto
      then obtain n where
        "loop_spec k (attempts + 1) ?lim g2 (fst (run_with_retries rt tool k (attempts + 1) args g2)) n"
        by blast
      with loop_spec_Suc [of k attempts ?lim rt tool "attempts + 1" args g _ n] False i rec
      show ?thesis by auto
    qed
  qed
qed

subsection \<open>The gate\<close>

lemma row_put_fresh: "row_put (fresh_id t) r t = t @ [(fresh_id t, r)]"
proof -
  have "k \<notin> fst ` set t \<Longrightarrow> row_put k r t = t @ [(k, r)]" for k
    by (induction t) auto
  then show ?thesis using fresh_id_not_in [of t] by (simp add: row_ids_def)
qed

lemma create_frame [simp]:
  "g_execs (fst (create_or_reuse_approval_request rt clk k ex run ev e rk r role ttl args tool g)) = g_execs g"
  "g_evals (fst (create_or_reuse_approval_request rt clk k ex run ev e rk r role ttl args tool g)) = g_evals g"
  "g_calls (fst (create_or_reuse_approval_request rt clk k ex run ev e rk r role ttl args tool g)) = g_calls g"
  "g_runs (fst (create_or_reuse_approval_request rt clk k ex run ev e rk r role ttl args tool g)) = g_runs g"
  by (auto simp: create_or_reuse_approval_request_def Let_def split: option.splits)

lemma persist_risk_frame:
  "persist_risk_assessment k ex risk g = Inr (g', i) \<Longrightarrow>
    g_execs g' = g_execs g \<and> g_evals g' = g_evals g \<and> g_calls g' = g_calls g \<and> g_runs g' = g_runs g"
  by (auto simp: persist_risk_assessment_def Let_def split: if_splits)

lemma find_append_None: "find P xs = None \<Longrightarrow> find P (xs @ ys) = find P ys"
  by (induction xs) (auto split: if_splits)

lemma persist_eval_frame:
  assumes "persist_policy_evaluation k ex rk v d code reason ids g = Inr (g', i)"
  shows "g_execs g' = g_execs g \<and> g_calls g' = g_calls g \<and> g_runs g' = g_runs g \<and>
    g_risks g' = g_risks g \<and> (\<exists>e. eval_of k g' = Some (i, e) \<and> pe_decision e = d) \<and> fits 64 code"
proof -
  from assms have "eval_of k g = None" "fits 64 code"
    by (cases "eval_of k g"; simp add: persist_policy_evaluation_def Let_def split: if_splits)+
  then have "find (\<lambda>(i, e). pe_execution e = k) (g_evals g) = None" "fits 64 code"
    by (simp_all add: eval_of_def)
  with assms show ?thesis
    by (auto simp: persist_policy_evaluation_def Let_def eval_of_def row_put_fresh
        find_append_None split: if_splits)
qed

text \<open>A computation that stops at the first error, taken apart.\<close>

lemma bind_elim:
  assumes "(case p of (g1, Inl e) \<Rightarrow> (g1, Inl e) | (g1, Inr x) \<Rightarrow> h g1 x) = (g', res)"
  obtains (err) e where "p = (g', Inl e)" "res = Inl e"
  | (ok) g1 x where "p = (g1, Inr x)" "h g1 x = (g', res)"
  using assms by (cases p; cases "snd p") auto

definition gate_frame :: "gate \<Rightarrow> gate \<Rightarrow> bool" where
  "gate_frame g g' \<longleftrightarrow> quiet g g' \<and> g_runs g' = g_runs g"

lemma gate_frame_refl [simp]: "gate_frame g g"
  by (simp add: gate_frame_def)

lemma gate_frame_trans: "gate_frame g g' \<Longrightarrow> gate_frame g' g'' \<Longrightarrow> gate_frame g g''"
  by (auto simp: gate_frame_def intro: quiet_trans)

lemma gate_frame_same:
  "g_calls g' = g_calls g \<Longrightarrow> g_execs g' = g_execs g \<Longrightarrow> g_runs g' = g_runs g \<Longrightarrow> gate_frame g g'"
  by (simp add: gate_frame_def quiet_same)

lemma gate_frame_transition:
  "transition_blocked_by_policy t k m g = (g', r) \<Longrightarrow> gate_frame g g' \<and> g_evals g' = g_evals g"
  "transition_waiting_for_approval k g = (g', r') \<Longrightarrow> gate_frame g g' \<and> g_evals g' = g_evals g"
  using transition_quiet(2) [of g t k m] transition_runs(2) [of t k m g] transition_evals(2) [of t k m g]
    transition_quiet(3) [of g k] transition_runs(3) [of k g] transition_evals(3) [of k g]
  by (simp_all add: gate_frame_def)

lemma gate_frame_persist:
  "persist_risk_assessment k ex risk g = Inr (g', i) \<Longrightarrow> gate_frame g g'"
  "persist_policy_evaluation k ex rk v d code reason ids g = Inr (g', i) \<Longrightarrow> gate_frame g g'"
  by (auto dest: persist_risk_frame persist_eval_frame intro: gate_frame_same)

lemma record_failed_evaluation_spec:
  assumes "record_failed_evaluation now k ex risk msg g = (g', res)"
  shows "gate_frame g g' \<and> res \<noteq> Inr GAllow"
proof (cases "persist_risk_assessment k ex risk g")
  case (Inr p)
  then obtain g1 rk where p: "persist_risk_assessment k ex risk g = Inr (g1, rk)" by (cases p) auto
  show ?thesis
  proof (cases "persist_policy_evaluation k ex rk None DENY ''policy_evaluation_failed'' msg [] g1")
    case (Inr q)
    then obtain g2 ev where q: "persist_policy_evaluation k ex rk None DENY
      ''policy_evaluation_failed'' msg [] g1 = Inr (g2, ev)" by (cases q) auto
    have f: "gate_frame g g2" using gate_frame_persist p q gate_frame_trans by blast
    obtain g3 r where t: "transition_blocked_by_policy now k msg g2 = (g3, r)" by fastforce
    with f gate_frame_transition(1) [OF t] have "gate_frame g g3" by (auto intro: gate_frame_trans)
    with assms p q t show ?thesis by (auto simp: record_failed_evaluation_def split: sum.splits)
  qed (use assms p gate_frame_persist in \<open>auto simp: record_failed_evaluation_def\<close>)
qed (use assms in \<open>auto simp: record_failed_evaluation_def\<close>)

lemma record_decision_of_policy_spec:
  assumes "record_decision_of_policy rt clk k ex inst spec args risk d g = (g', res)"
  shows "gate_frame g g' \<and> (res = Inr GAllow \<longrightarrow>
    pd_decision d = ALLOW \<and> (\<exists>ev e. eval_of k g' = Some (ev, e) \<and> pe_decision e = ALLOW))"
proof (cases "persist_risk_assessment k ex risk g")
  case (Inr p)
  then obtain g1 rk where p: "persist_risk_assessment k ex risk g = Inr (g1, rk)" by (cases p) auto
  let ?persist = "persist_policy_evaluation k ex rk (pd_version d) (pd_decision d) (pd_code d)
    (pd_reason d) (pd_matched d) g1"
  show ?thesis
  proof (cases ?persist)
    case (Inr q)
    then obtain g2 ev where q: "?persist = Inr (g2, ev)" by (cases q) auto
    have f: "gate_frame g g2" using gate_frame_persist p q gate_frame_trans by blast
    note e = persist_eval_frame [OF q]
    show ?thesis
    proof (cases "pd_decision d")
      case ALLOW
      with assms p q e f show ?thesis by (auto simp: record_decision_of_policy_def)
    next
      case DENY
      obtain g3 r where t: "transition_blocked_by_policy (clk 1) k (pd_reason d) g2 = (g3, r)"
        by fastforce
      with f gate_frame_transition(1) [OF t] have "gate_frame g g3" by (auto intro: gate_frame_trans)
      with assms p q t DENY show ?thesis
        by (auto simp: record_decision_of_policy_def split: sum.splits)
    next
      case REQUIRE_APPROVAL
      show ?thesis
      proof (cases "row_get (g_evals g2) ev = None \<or> row_get (g_risks g2) rk = None")
        case True
        with assms p q f REQUIRE_APPROVAL show ?thesis
          by (auto simp: record_decision_of_policy_def split: option.splits)
      next
        case False
        then obtain evaluation risk_row where
          rows: "row_get (g_evals g2) ev = Some evaluation" "row_get (g_risks g2) rk = Some risk_row"
          by fastforce
        let ?create = "create_or_reuse_approval_request rt (\<lambda>n. clk (n + 2)) k ex inst ev evaluation rk
          risk_row (pd_required_role d) (pd_ttl d) args (as_approval_tool spec) g2"
        obtain g3 r where c: "?create = (g3, r)" by fastforce
        with create_frame have "gate_frame g2 g3" by (metis fst_conv gate_frame_same)
        with f have f3: "gate_frame g g3" by (rule gate_frame_trans)
        obtain g4 r4 where t: "transition_waiting_for_approval k g3 = (g4, r4)" by fastforce
        with f3 gate_frame_transition(2) [OF t] have "gate_frame g g4" by (auto intro: gate_frame_trans)
        with assms p q rows c t f3 REQUIRE_APPROVAL show ?thesis
          by (auto simp: record_decision_of_policy_def split: sum.splits)
      qed
    qed
  qed (use assms p gate_frame_persist in \<open>auto simp: record_decision_of_policy_def\<close>)
qed (use assms in \<open>auto simp: record_decision_of_policy_def\<close>)

lemma gate_transaction_spec:
  assumes "gate_transaction rt ps clk k ex inst spec args risk g = (g', res)"
  shows "gate_frame g g' \<and> (res = Inr GAllow \<longrightarrow>
    (\<exists>ev e. eval_of k g' = Some (ev, e) \<and> pe_decision e = ALLOW))"
proof (cases res)
  case (Inl e)
  with assms have "g' = g" unfolding gate_transaction_def by (blast dest: atomic_error_rolls_back)
  with Inl show ?thesis by simp
next
  case (Inr out)
  let ?v = "resolve_active_version (g_policy g) (te_workspace ex)"
  show ?thesis
  proof (cases "evaluate_policy rt ps (g_policy g) (ts_key spec) risk args ?v")
    case ev: (Inl pe)
    show ?thesis
    proof (cases pe)
      case (EvaluationFailed msg)
      with assms Inr ev have "record_failed_evaluation (clk 1) k ex risk msg g = (g', res)"
        by (simp add: gate_transaction_def atomic_ok_iff Let_def)
      from record_failed_evaluation_spec [OF this] show ?thesis by blast
    qed (use assms Inr ev in \<open>auto simp: gate_transaction_def atomic_ok_iff Let_def\<close>)
  next
    case (Inr d)
    then show ?thesis
      using assms \<open>res = Inr out\<close> record_decision_of_policy_spec
      by (simp add: gate_transaction_def atomic_ok_iff Let_def)
  qed
qed

lemma gate_report_spec:
  assumes "gate_report rec key outcome g = (g', res)"
  shows "gate_frame g g' \<and> g_evals g' = g_evals g \<and> (res = Inr () \<longrightarrow> outcome = GAllow)"
  using assms by (cases outcome) (auto simp: gate_report_def intro!: gate_frame_same)

lemma run_policy_gate_spec:
  assumes "run_policy_gate rt ps clk rec k ex spec def inst args g = (g', res)"
  shows "gate_frame g g' \<and> (res = Inr () \<longrightarrow>
    (\<exists>ev e. eval_of k g' = Some (ev, e) \<and> pe_decision e = ALLOW))"
proof -
  let ?risk = "assess_risk ps (td_risk def) (td_side_effect def) args"
  let ?g1 = "record_step rec ''risk_assessed'' ''succeeded'' []
                (JObj [(''tool_key'', JStr (ts_key spec)),
                       (''effective_risk'', JStr (risk_value (ro_effective_risk ?risk)))]) g"
  have f1: "gate_frame g ?g1" by (rule gate_frame_same) simp_all
  obtain g2 r where t: "gate_transaction rt ps clk k ex inst spec args ?risk ?g1 = (g2, r)" by fastforce
  note s = gate_transaction_spec [OF t]
  then have f2: "gate_frame g g2" using f1 gate_frame_trans by blast
  show ?thesis
  proof (cases r)
    case (Inl e)
    with assms t f2 show ?thesis by (auto simp: run_policy_gate_def Let_def)
  next
    case (Inr outcome)
    with assms t have "gate_report rec (ts_key spec) outcome g2 = (g', res)"
      by (simp add: run_policy_gate_def Let_def)
    from gate_report_spec [OF this] s f2 Inr show ?thesis
      by (auto simp: eval_of_def intro: gate_frame_trans)
  qed
qed

subsection \<open>Accounting of handler invocations\<close>

text \<open>
  \<open>invokes mx k n g g'\<close>: between the two states the handler was invoked exactly \<open>n\<close> times, for
  row \<open>k\<close> only, every invocation was counted in the row, and the count stays within \<open>mx\<close>.
\<close>

definition invokes :: "nat \<Rightarrow> nat \<Rightarrow> nat \<Rightarrow> gate \<Rightarrow> gate \<Rightarrow> bool" where
  "invokes mx k n g g' \<longleftrightarrow> g_calls g' = g_calls g @ replicate n k \<and>
    (\<forall>j. attempts_of g' j = attempts_of g j + (if j = k then n else 0)) \<and>
    (n > 0 \<longrightarrow> attempts_of g k + n \<le> mx) \<and>
    (distinct (row_ids (g_execs g)) \<longrightarrow> distinct (row_ids (g_execs g')))"

lemma invokes_quiet: "quiet g g' \<Longrightarrow> invokes mx k 0 g g'"
  by (simp add: invokes_def quiet_def)

lemma quiet_invokes: "quiet g g1 \<Longrightarrow> invokes mx k n g1 g2 \<Longrightarrow> invokes mx k n g g2"
  by (simp add: invokes_def quiet_def)

lemma invokes_then_quiet: "invokes mx k n g g1 \<Longrightarrow> quiet g1 g2 \<Longrightarrow> invokes mx k n g g2"
  by (simp add: invokes_def quiet_def)

lemma loop_invokes:
  assumes "loop_spec k (attempts_of g k) mx g g' n" and "row_get (g_execs g) k \<noteq> None"
  shows "invokes mx k n g g'"
  using assms by (auto simp: loop_spec_def invokes_def attempts_of_def)

lemma quiet_finish_handler:
  assumes "finish_handler now k r = (g', res)"
  shows "quiet (fst r) g' \<and> g_evals g' = g_evals (fst r) \<and> g_runs g' = g_runs (fst r)"
proof -
  obtain g r' where r: "r = (g, r')" by fastforce
  show ?thesis
  proof (cases r')
    case (Inr out)
    with assms r have "g' = fst (finalize_success now k out g)"
      by (auto simp: finish_handler_def split: prod.splits sum.splits)
    with r show ?thesis by (simp add: transition_quiet)
  next
    case (Inl e)
    with assms r have "g' = g \<or> g' = fst (finalize_failure now k
        (if e = ToolTimeoutError then EX_TIMED_OUT else EX_FAILED) (exc_code e) (exc_message e) g)"
      by (cases e) (auto simp: finish_handler_def split: prod.splits sum.splits)
    with r show ?thesis by (auto simp: transition_quiet)
  qed
qed

text \<open>One slot of the run's budget, taken only below the limit.\<close>

definition takes_slot :: "nat \<Rightarrow> int \<Rightarrow> gate \<Rightarrow> gate \<Rightarrow> bool \<Rightarrow> bool" where
  "takes_slot run mx g g' b \<longleftrightarrow>
    (if b then \<exists>r. row_get (g_runs g) run = Some r \<and> run_tool_calls r < mx \<and>
        g_runs g' = row_put run (r\<lparr>run_tool_calls := run_tool_calls r + 1\<rparr>) (g_runs g)
     else g_runs g' = g_runs g)"

lemma reserve_takes_slot:
  "reserve_budget_slot run mx g = (g', b) \<Longrightarrow> takes_slot run mx g g' b"
  by (auto simp: reserve_budget_slot_def takes_slot_def split: option.splits if_splits)

lemma takes_slot_cong:
  "g_runs g0 = g_runs g \<Longrightarrow> g_runs g1 = g_runs g' \<Longrightarrow> takes_slot run mx g g' b = takes_slot run mx g0 g1 b"
  by (simp add: takes_slot_def)

lemma reserve_frame:
  assumes "reserve_budget_slot run m g = (g', b)"
  shows "quiet g g'" "g_evals g' = g_evals g" "g_execs g' = g_execs g"
  using assms by (auto simp: reserve_budget_slot_def intro!: quiet_same split: option.splits if_splits)

lemma retries_invoke:
  assumes "row_get (g_execs g) k = Some ex" and "attempts = te_attempts ex"
  obtains n where "invokes (ts_max_retries (tl_spec tool) + 1) k n g
      (fst (run_with_retries rt tool k attempts args g))"
    "g_evals (fst (run_with_retries rt tool k attempts args g)) = g_evals g"
    "g_runs (fst (run_with_retries rt tool k attempts args g)) = g_runs g"
proof -
  from assms have a: "attempts = attempts_of g k" "row_get (g_execs g) k \<noteq> None"
    by (simp_all add: attempts_of_def)
  obtain n where l: "loop_spec k attempts (ts_max_retries (tl_spec tool) + 1) g
      (fst (run_with_retries rt tool k attempts args g)) n"
    using run_with_retries_spec by blast
  then have "invokes (ts_max_retries (tl_spec tool) + 1) k n g
      (fst (run_with_retries rt tool k attempts args g))"
    using a by (auto intro: loop_invokes)
  with l that show thesis by (auto simp: loop_spec_def)
qed

text \<open>The handler, then the finalization.\<close>

lemma handled:
  assumes "finish_handler now k (run_with_retries rt tool k attempts args g) = (g', res)"
    and "row_get (g_execs g) k = Some ex" and "attempts = te_attempts ex"
  obtains n where "invokes (ts_max_retries (tl_spec tool) + 1) k n g g'"
    "g_evals g' = g_evals g" "g_runs g' = g_runs g"
proof -
  obtain n where n: "invokes (ts_max_retries (tl_spec tool) + 1) k n g
      (fst (run_with_retries rt tool k attempts args g))"
    "g_evals (fst (run_with_retries rt tool k attempts args g)) = g_evals g"
    "g_runs (fst (run_with_retries rt tool k attempts args g)) = g_runs g"
    using assms(2,3) by (rule retries_invoke)
  from quiet_finish_handler [OF assms(1)] n show thesis
    using that [of n] by (auto intro: invokes_then_quiet)
qed

lemma record_step_quiet [simp]: "quiet g (record_step rec a b c m g)"
  by (rule quiet_same) simp_all

lemma transition_running_spec:
  assumes "transition_running t k g = (g', Inr u)"
  obtains ex where "row_get (g_execs g) k = Some ex" "te_status ex = EX_PENDING \<or> te_status ex = EX_WAITING_FOR_APPROVAL"
    "row_get (g_execs g') k = Some (start_row t ex)" "quiet g g'" "g_evals g' = g_evals g"
    "g_runs g' = g_runs g"
proof -
  from assms obtain ex where ex: "row_get (g_execs g) k = Some ex"
    "te_status ex = EX_PENDING \<or> te_status ex = EX_WAITING_FOR_APPROVAL" "g' = put_exec k (start_row t ex) g"
    by (auto simp: transition_running_def split: option.splits if_splits)
  have "quiet g g'" using transition_quiet(1) [of g t k] assms by simp
  with ex that show thesis by simp
qed

lemma perform_execution_spec:
  assumes "perform_execution rt clk rec run m key tool k attempts args g = (g', res)"
    and "row_get (g_execs g) k = Some ex" and "attempts = te_attempts ex"
  obtains n b where "invokes (ts_max_retries (tl_spec tool) + 1) k n g g'" "g_evals g' = g_evals g"
    "takes_slot run m g g' b" "n > 0 \<Longrightarrow> b"
proof -
  obtain g1 r1 where t: "transition_running (clk 4) k g = (g1, r1)" by fastforce
  have runs1: "g_runs g1 = g_runs g" using transition_runs(1) [of "clk 4" k g] t by simp
  show thesis
  proof (cases r1)
    case (Inl e)
    with assms t have "g' = fst (transition_running (clk 4) k g)" by (simp add: perform_execution_def)
    then show thesis using that [of 0 False]
      by (simp add: invokes_quiet transition_quiet takes_slot_def)
  next
    case (Inr u)
    with t assms(2) obtain q1: "quiet g g1" and e1: "g_evals g1 = g_evals g"
      and row: "row_get (g_execs g1) k = Some (start_row (clk 4) ex)"
      by (auto elim: transition_running_spec)
    obtain g2 b where rs: "reserve_budget_slot run m g1 = (g2, b)" by fastforce
    note f2 = reserve_frame [OF rs]
    have slot: "takes_slot run m g g2 b"
      using reserve_takes_slot [OF rs] takes_slot_cong [OF runs1 [symmetric] refl] by simp
    have q2: "quiet g g2" using q1 f2 quiet_trans by blast
    show thesis
    proof (cases b)
      case False
      obtain g3 r3 where f: "finalize_failure (clk 6) k EX_FAILED ''tool_budget_exceeded''
        budget_exhausted_message g2 = (g3, r3)" by fastforce
      have q3: "quiet g g3 \<and> g_evals g3 = g_evals g2 \<and> g_runs g3 = g_runs g2"
        using transition_quiet(5) [of g2 "clk 6" k EX_FAILED "''tool_budget_exceeded''" budget_exhausted_message]
          transition_evals(5) [of "clk 6" k EX_FAILED "''tool_budget_exceeded''" budget_exhausted_message g2]
          transition_runs(5) [of "clk 6" k EX_FAILED "''tool_budget_exceeded''" budget_exhausted_message g2]
          f q2 by (auto intro: quiet_trans)
      have "quiet g3 g' \<and> g_evals g' = g_evals g3 \<and> g_runs g' = g_runs g3"
        using assms(1) t Inr rs False f by (cases r3) (auto simp: perform_execution_def)
      with q3 f2 e1 slot False show thesis
        using that [of 0 False] by (auto intro: invokes_quiet quiet_trans simp: takes_slot_def)
    next
      case True
      let ?g3 = "record_step rec ''tool_execution_started'' ''started'' [] (meta_execution key k) g2"
      let ?h = "finish_handler (clk 6) k (run_with_retries rt tool k attempts args ?g3)"
      obtain g4 r4 where h: "?h = (g4, r4)" by fastforce
      have row3: "row_get (g_execs ?g3) k = Some (start_row (clk 4) ex)" using row f2 by simp
      have at: "attempts = te_attempts (start_row (clk 4) ex)" using assms(3) by (simp add: start_row_def)
      obtain n where n: "invokes (ts_max_retries (tl_spec tool) + 1) k n ?g3 g4" "g_evals g4 = g_evals ?g3"
        "g_runs g4 = g_runs ?g3"
        using handled [OF h row3 at] by blast
      have "quiet g ?g3" using q2 record_step_quiet by (rule quiet_trans)
      then have n4: "invokes (ts_max_retries (tl_spec tool) + 1) k n g g4" "g_evals g4 = g_evals g"
        using n f2 e1 by (auto intro: quiet_invokes)
      have fin: "quiet g4 g' \<and> g_evals g' = g_evals g4 \<and> g_runs g' = g_runs g4"
        using assms(1) t Inr rs True h
        by (cases r4; cases "projl r4") (auto simp: perform_execution_def Let_def)
      then have "takes_slot run m g g' b"
        using takes_slot_cong [OF refl, of g' g2 run m g b] n(3) slot by simp
      with n4 fin True show thesis using that [of n b] by (auto intro: invokes_then_quiet)
    qed
  qed
qed

subsection \<open>The two entry points\<close>

lemma admit_frame:
  assumes "admit_request rt reg now rec run inst key args ikey g = (g', res)"
  shows "quiet g g' \<and> g_evals g' = g_evals g \<and> g_execs g' = g_execs g \<and> g_runs g' = g_runs g \<and>
    g_definitions g' = g_definitions g"
proof -
  have "g' \<in> (let g1 = record_step rec ''tool_requested'' ''started'' [] (meta_tool key) g in
      {g1, record_step rec ''tool_validation_failed'' ''failed'' ''tool_invalid_input'' (meta_tool key) g1})"
    using assms unfolding admit_request_def Let_def
    by (auto split: sum.splits option.splits prod.splits if_splits)
  then show ?thesis by (auto simp: Let_def intro!: quiet_same)
qed

lemma admit_tool:
  assumes "admit_request rt reg now rec run inst key args ikey g = (g', Inr a)"
  shows "map_of reg key = Some (ad_tool a) \<and> run_status_of inst = RUN_RUNNING \<and>
    row_get (g_versions g) (run_version inst) = Some (ad_version a)"
  using assms unfolding admit_request_def Let_def resolve_tool_def registry_get_def
  by (auto split: sum.splits option.splits prod.splits if_splits)

lemma resolve_existing_quiet:
  assumes "resolve_existing k ex fp spec g = (g', res)" and "row_get (g_execs g) k = Some ex"
  shows "quiet g g' \<and> g_evals g' = g_evals g \<and> g_runs g' = g_runs g"
  using assms
  by (auto simp: resolve_existing_def quiet_def attempts_of_def split: if_splits)

lemma find_execution_get:
  assumes "distinct (row_ids (g_execs g))" and "find_execution ws d key g = Some (k, ex)"
  shows "row_get (g_execs g) k = Some ex \<and> te_workspace ex = ws \<and> te_definition ex = d \<and> te_key ex = key"
proof -
  have "(k, ex) \<in> set (g_execs g) \<and> te_workspace ex = ws \<and> te_definition ex = d \<and> te_key ex = key"
    using assms(2) unfolding find_execution_def
    by (intro find_key_Some [where P = "\<lambda>ex. te_workspace ex = ws \<and> te_definition ex = d \<and> te_key ex = key"])
  with assms(1) show ?thesis by (simp add: row_ids_def)
qed

lemma claim_spec:
  assumes "claim_execution (\<lambda>s. s) ws run v d b key fp red tmo spec g = (g', res)"
    and "distinct (row_ids (g_execs g))"
  shows "quiet g g' \<and> g_evals g' = g_evals g \<and> g_runs g' = g_runs g"
proof (cases "if key = [] then None else find_execution ws d key g")
  case None
  with assms have "g' = put_exec (fresh_id (g_execs g)) (new_execution ws run v d b key fp red tmo) g"
    by (auto simp: claim_execution_def Let_def)
  then show ?thesis
    by (auto simp: new_execution_def attempts_of_def intro!: quiet_put_exec)
next
  case (Some p)
  then obtain k ex where p: "find_execution ws d key g = Some (k, ex)" "p = (k, ex)"
    by (cases p) (auto split: if_splits)
  with Some assms(1) have "resolve_existing k ex fp spec g = (g', res)"
    by (simp add: claim_execution_def)
  then show ?thesis
    using find_execution_get [OF assms(2) p(1)] by (blast dest: resolve_existing_quiet)
qed

lemma atomic_claim_spec:
  assumes "atomic (claim_execution (\<lambda>s. s) ws run v d b key fp red tmo spec) g = (g', res)"
    and "distinct (row_ids (g_execs g))"
  shows "quiet g g' \<and> g_evals g' = g_evals g \<and> g_runs g' = g_runs g"
proof (cases res)
  case (Inl e)
  with assms(1) have "g' = g" by (blast dest: atomic_error_rolls_back)
  then show ?thesis by simp
next
  case (Inr x)
  with assms(1) have "claim_execution (\<lambda>s. s) ws run v d b key fp red tmo spec g = (g', res)"
    by (simp add: atomic_ok_iff)
  then show ?thesis using assms(2) by (rule claim_spec)
qed

text \<open>The evaluation on which a call of the handler rests: an ALLOW of this call, or an earlier one.\<close>

definition gated :: "gate \<Rightarrow> gate \<Rightarrow> nat \<Rightarrow> bool" where
  "gated g g' k \<longleftrightarrow> (\<exists>ev e. eval_of k g' = Some (ev, e) \<and> (pe_decision e = ALLOW \<or> eval_of k g \<noteq> None))"

lemma gate_and_perform_spec:
  assumes "gate_and_perform rt ps clk rec run inst key a k g = (g', res)"
  obtains n b where "invokes (ts_max_retries (tl_spec (ad_tool a)) + 1) k n g g'"
    "n > 0 \<Longrightarrow> gated g g' k" "takes_slot run (av_max_tool_calls (ad_version a)) g g' b" "n > 0 \<Longrightarrow> b"
proof (cases "row_get (g_execs g) k")
  case None
  with assms show thesis
    using that [of 0 False] by (simp add: gate_and_perform_def invokes_quiet takes_slot_def)
next
  case (Some ex)
  let ?gate = "if already_policy_evaluated k g then (g, Inr ())
    else run_policy_gate rt ps clk rec k ex (tl_spec (ad_tool a)) (ad_def a) inst (ad_args a) g"
  obtain g1 r1 where gt: "?gate = (g1, r1)" by fastforce
  have f: "quiet g g1 \<and> g_runs g1 = g_runs g \<and> (r1 = Inr () \<longrightarrow>
      (\<exists>ev e. eval_of k g1 = Some (ev, e) \<and> (pe_decision e = ALLOW \<or> eval_of k g \<noteq> None)))"
    using gt run_policy_gate_spec
    by (cases "already_policy_evaluated k g")
       (fastforce simp: already_policy_evaluated_def gate_frame_def)+
  show thesis
  proof (cases r1)
    case (Inl e)
    with assms Some gt have "g' = g1" by (simp add: gate_and_perform_def)
    with f show thesis using that [of 0 False] by (simp add: invokes_quiet takes_slot_def)
  next
    case (Inr u)
    with assms Some gt have p: "perform_execution rt clk rec run (av_max_tool_calls (ad_version a)) key
        (ad_tool a) k (te_attempts ex) (ad_args a) g1 = (g', res)"
      by (simp add: gate_and_perform_def)
    show thesis
    proof (cases "row_get (g_execs g1) k")
      case None
      with p have "g' = g1" by (simp add: perform_execution_def transition_running_def)
      with f show thesis using that [of 0 False] by (simp add: invokes_quiet takes_slot_def)
    next
      case row1: (Some ex1)
      have "te_attempts ex = te_attempts ex1"
        using f Some row1 by (auto simp: quiet_def attempts_of_def dest: spec [of _ k])
      then obtain n b where n: "invokes (ts_max_retries (tl_spec (ad_tool a)) + 1) k n g1 g'"
        "g_evals g' = g_evals g1" "takes_slot run (av_max_tool_calls (ad_version a)) g1 g' b" "n > 0 \<Longrightarrow> b"
        using perform_execution_spec [OF p row1] by blast
      then have "takes_slot run (av_max_tool_calls (ad_version a)) g g' b"
        using takes_slot_cong [of g g1 g' g'] f by simp
      then show thesis
        using that [of n b] n f Inr by (auto intro: quiet_invokes simp: gated_def eval_of_def)
    qed
  qed
qed

lemma execute_tool_spec:
  assumes "execute_tool rt ps reg clk rec run inst key args ikey g = (g', res)"
    and "distinct (row_ids (g_execs g))"
  obtains (silent) b where "quiet g g'" "\<And>mx. \<not> b \<Longrightarrow> takes_slot run mx g g' False"
      "b \<Longrightarrow> \<exists>version. row_get (g_versions g) (run_version inst) = Some version \<and>
        takes_slot run (av_max_tool_calls version) g g' True"
  | (called) tool k n version where "map_of reg key = Some tool"
      "invokes (ts_max_retries (tl_spec tool) + 1) k n g g'" "n > 0" "gated g g' k"
      "run_status_of inst = RUN_RUNNING" "row_get (g_versions g) (run_version inst) = Some version"
      "takes_slot run (av_max_tool_calls version) g g' True"
proof -
  obtain g1 ra where adm: "admit_request rt reg (clk 0) rec run inst key args ikey g = (g1, ra)"
    by fastforce
  note f1 = admit_frame [OF adm]
  show thesis
  proof (cases ra)
    case (Inl e)
    with assms(1) adm have "g' = g1" by (simp add: execute_tool_def)
    with f1 show thesis by (intro silent [of False]) (auto simp: takes_slot_def)
  next
    case (Inr a)
    note tool = admit_tool [OF adm [unfolded Inr]]
    let ?spec = "tl_spec (ad_tool a)"
    let ?claim = "atomic (claim_execution (\<lambda>s. s) (run_workspace inst) run (run_version inst) (ad_def_id a)
      (ad_binding_id a) ikey (fingerprint_arguments rt (ad_args a))
      (redact_arguments (lower_all (ts_input_sensitive ?spec)) (ad_args a)) (ad_timeout a) ?spec) g1"
    obtain g2 rc where cl: "?claim = (g2, rc)" by fastforce
    have f2: "quiet g1 g2 \<and> g_evals g2 = g_evals g1 \<and> g_runs g2 = g_runs g1"
      using atomic_claim_spec [OF cl] f1 assms(2) by simp
    have q2: "quiet g g2" using f1 f2 quiet_trans by blast
    show thesis
    proof (cases "\<exists>k sh. rc = Inr (k, sh, False) \<and> gate_and_perform rt ps clk rec run inst key a k g2 = (g', res)")
      case True
      then obtain k where p: "gate_and_perform rt ps clk rec run inst key a k g2 = (g', res)" by blast
      obtain n b where n: "invokes (ts_max_retries ?spec + 1) k n g2 g'" "n > 0 \<Longrightarrow> gated g2 g' k"
        "takes_slot run (av_max_tool_calls (ad_version a)) g2 g' b" "n > 0 \<Longrightarrow> b"
        using gate_and_perform_spec [OF p] by blast
      have n0: "invokes (ts_max_retries ?spec + 1) k n g g'" using q2 n(1) by (rule quiet_invokes)
      have slot: "takes_slot run (av_max_tool_calls (ad_version a)) g g' b"
        using n(3) takes_slot_cong [of g g2 g' g'] f1 f2 by simp
      show thesis
      proof (cases "n > 0")
        case True
        with n f1 f2 have "gated g g' k" by (simp add: gated_def eval_of_def)
        with True n0 tool n(4) slot show thesis by (intro called) auto
      next
        case False
        with n0 have "quiet g g'" by (simp add: invokes_def quiet_def)
        with slot tool show thesis by (intro silent [of b]) (auto simp: takes_slot_def)
      qed
    next
      case False
      then have "quiet g2 g' \<and> g_runs g' = g_runs g2"
        using assms(1) adm Inr cl
        by (auto simp: execute_tool_def Let_def split: sum.splits option.splits if_splits prod.splits)
      with q2 f1 f2 show thesis by (intro silent [of False]) (auto intro: quiet_trans simp: takes_slot_def)
    qed
  qed
qed

subsection \<open>Single winners\<close>

text \<open>
  The claims on a row are guarded transitions: of any number of racing callers at most one
  leaves the guarded state, and no terminal row is touched.
\<close>

interpretation resume_claim: guarded_row row_get row_put
    "\<lambda>ex. te_status ex = EX_WAITING_FOR_APPROVAL" "start_row t"
    "\<lambda>ex. te_status ex \<in> set exec_terminal" for t
  by unfold_locales (auto simp: start_row_def exec_terminal_def)

interpretation start_claim: guarded_row row_get row_put
    "\<lambda>ex. te_status ex = EX_PENDING \<or> te_status ex = EX_WAITING_FOR_APPROVAL" "start_row t"
    "\<lambda>ex. te_status ex \<in> set exec_terminal" for t
  by unfold_locales (auto simp: start_row_def exec_terminal_def)

lemma claim_resume_fire:
  "(g_execs (fst (claim_resume t k g)), snd (claim_resume t k g)) = resume_claim.fire t k (g_execs g)"
  by (simp add: claim_resume_def resume_claim.fire_def split: option.splits)

lemma transition_running_fire:
  "(g_execs (fst (transition_running t k g)), snd (transition_running t k g) = Inr ()) =
    start_claim.fire t k (g_execs g)"
  by (auto simp: transition_running_def start_claim.fire_def ToolExecutionInProgressError_def
      split: option.splits)

text \<open>\<open>n\<close> resume calls for one row, one after the other in the order their locks are granted.\<close>

primrec claim_resumes :: "(nat \<Rightarrow> int) \<Rightarrow> nat \<Rightarrow> nat \<Rightarrow> gate \<Rightarrow> gate \<times> nat" where
  "claim_resumes clk k 0 g = (g, 0)"
| "claim_resumes clk k (Suc n) g =
    (let (g', won) = claim_resume (clk n) k g; (g'', m) = claim_resumes clk k n g'
     in (g'', m + (if won then 1 else 0)))"

lemma claim_resumes_unclaimable:
  "(\<And>ex. row_get (g_execs g) k = Some ex \<Longrightarrow> te_status ex \<noteq> EX_WAITING_FOR_APPROVAL) \<Longrightarrow>
    claim_resumes clk k n g = (g, 0)"
  by (induction n) (auto simp: claim_resume_def split: option.splits)

lemma claim_resume_twice:
  "claim_resume t k g = (g', True) \<Longrightarrow> row_get (g_execs g') k = Some ex \<Longrightarrow>
    te_status ex \<noteq> EX_WAITING_FOR_APPROVAL"
  by (auto simp: claim_resume_def start_row_def split: option.splits if_splits)

subsection \<open>Resuming\<close>

lemma claim_resume_spec:
  assumes "claim_resume t k g = (g', True)" and "row_get (g_execs g) k = Some ex"
  shows "te_status ex = EX_WAITING_FOR_APPROVAL \<and> row_get (g_execs g') k = Some (start_row t ex) \<and>
    quiet g g' \<and> g_evals g' = g_evals g \<and> g_runs g' = g_runs g \<and> g_approvals g' = g_approvals g \<and>
    g_versions g' = g_versions g"
proof -
  have "quiet g g'" using transition_quiet(6) [of g t k] assms by simp
  with assms show ?thesis by (auto simp: claim_resume_def split: if_splits)
qed

lemma fail_resumed_quiet:
  assumes "fail_resumed now k code msg e g = (g', res)"
  shows "quiet g g' \<and> g_runs g' = g_runs g"
proof -
  have "g' = fst (finalize_failure now k EX_FAILED code msg g)"
    using assms by (auto simp: fail_resumed_def split: prod.splits sum.splits)
  then show ?thesis by (simp add: transition_quiet)
qed

lemma resume_handler_spec:
  assumes "resume_handler rt now rec k ex tool args g = (g', res)"
    and "row_get (g_execs g) k = Some ex1" and "te_attempts ex = te_attempts ex1"
  obtains n where "invokes (ts_max_retries (tl_spec tool) + 1) k n g g'"
    "n > 0 \<Longrightarrow> \<exists>version. row_get (g_versions g) (te_version ex) = Some version \<and>
      takes_slot (te_run ex) (av_max_tool_calls version) g g' True"
proof (cases "row_get (g_versions g) (te_version ex)")
  case None
  with assms show thesis using that [of 0] by (simp add: resume_handler_def invokes_quiet)
next
  case (Some version)
  obtain g2 b where rs: "reserve_budget_slot (te_run ex) (av_max_tool_calls version) g = (g2, b)" by fastforce
  note f2 = reserve_frame [OF rs]
  show thesis
  proof (cases b)
    case False
    with assms Some rs have "fail_resumed now k ''tool_budget_exceeded'' budget_exhausted_message
        (ToolBudgetExceededError []) g2 = (g', res)" by (simp add: resume_handler_def)
    from fail_resumed_quiet [OF this] f2 show thesis
      using that [of 0] by (auto intro: invokes_quiet quiet_trans)
  next
    case True
    let ?g3 = "record_step rec ''execution_resumed'' ''started'' [] (JObj [(''tool_execution_id'', jid k)]) g2"
    obtain g4 r4 where h: "finish_handler now k (run_with_retries rt tool k (te_attempts ex) args ?g3) = (g4, r4)"
      by fastforce
    have row3: "row_get (g_execs ?g3) k = Some ex1" using assms(2) f2 by simp
    obtain n where n: "invokes (ts_max_retries (tl_spec tool) + 1) k n ?g3 g4" "g_runs g4 = g_runs ?g3"
      using handled [OF h row3 assms(3)] by blast
    have "quiet g ?g3" using f2(1) record_step_quiet by (rule quiet_trans)
    then have n4: "invokes (ts_max_retries (tl_spec tool) + 1) k n g g4" using n(1) by (rule quiet_invokes)
    have fin: "quiet g4 g' \<and> g_runs g' = g_runs g4"
      using assms(1) Some rs True h by (cases r4) (auto simp: resume_handler_def Let_def)
    have slot: "takes_slot (te_run ex) (av_max_tool_calls version) g g' True"
      using reserve_takes_slot [OF rs] True takes_slot_cong [of g g g' g2] fin n(2) by simp
    show thesis using that [of n] n4 fin slot Some by (auto intro: invokes_then_quiet)
  qed
qed

lemma resume_after_approval_spec:
  assumes "resume_after_approval rt reg clk rec k g = (g', res)"
  obtains (silent) "quiet g g'"
  | (called) ex and tool :: tool and n version where "row_get (g_execs g) k = Some ex"
      "te_status ex = EX_WAITING_FOR_APPROVAL" "\<not> action_changed k ex g"
      "\<exists>key. map_of reg key = Some tool" "invokes (ts_max_retries (tl_spec tool) + 1) k n g g'" "n > 0"
      "row_get (g_versions g) (te_version ex) = Some version"
      "takes_slot (te_run ex) (av_max_tool_calls version) g g' True"
proof (cases "row_get (g_execs g) k")
  case None
  with assms show thesis by (intro silent) (simp add: resume_after_approval_def)
next
  case (Some ex)
  obtain g1 won where c: "claim_resume (clk 0) k g = (g1, won)" by fastforce
  show thesis
  proof (cases won)
    case False
    with c have "g1 = g" by (auto simp: claim_resume_def split: option.splits if_splits)
    with assms Some c False have "g' = g"
      by (auto simp: resume_after_approval_def report_unclaimed_def split: if_splits)
    then show thesis by (intro silent) simp
  next
    case True
    with c have "claim_resume (clk 0) k g = (g1, True)" by simp
    note cr = claim_resume_spec [OF this Some]
    show thesis
    proof (cases "\<exists>tool args key. map_of reg key = Some tool \<and> \<not> action_changed k ex g1 \<and>
        resume_handler rt (clk 1) rec k ex tool args g1 = (g', res)")
      case True
      then obtain tool args key where rh: "resume_handler rt (clk 1) rec k ex tool args g1 = (g', res)"
        and unchanged: "\<not> action_changed k ex g1" and reg: "map_of reg key = Some tool" by blast
      have at: "te_attempts ex = te_attempts (start_row (clk 0) ex)" by (simp add: start_row_def)
      obtain n where n: "invokes (ts_max_retries (tl_spec tool) + 1) k n g1 g'"
        "n > 0 \<Longrightarrow> \<exists>version. row_get (g_versions g1) (te_version ex) = Some version \<and>
           takes_slot (te_run ex) (av_max_tool_calls version) g1 g' True"
        using resume_handler_spec [OF rh _ at] cr by blast
      have n0: "invokes (ts_max_retries (tl_spec tool) + 1) k n g g'"
        using cr n(1) by (auto intro: quiet_invokes)
      show thesis
      proof (cases "n > 0")
        case True
        with n(2) cr obtain version where "row_get (g_versions g) (te_version ex) = Some version"
          "takes_slot (te_run ex) (av_max_tool_calls version) g g' True"
          by (auto simp: takes_slot_def)
        with True n0 cr Some unchanged reg show thesis
          by (intro called [of ex tool n version]) (auto simp: action_changed_def approval_of_def)
      next
        case False
        with n0 show thesis by (intro silent) (simp add: invokes_def quiet_def)
      qed
    next
      case False
      have "quiet g1 g'"
        using assms Some c \<open>won\<close> False
        by (auto simp: resume_after_approval_def registry_get_def split: sum.splits option.splits if_splits
            dest!: fail_resumed_quiet)
      with cr show thesis by (intro silent) (auto intro: quiet_trans)
    qed
  qed
qed

end
