(* ===== verification/ToolRuns.thy ===== *)
theory ToolRuns
  imports ToolExec
begin

section \<open>Sequences of gate operations\<close>

text \<open>
  Tool calls, resumptions and approval operations in any order, and the facts about single
  operations lifted to such sequences. \<open>registry\<close> is fixed, as it is at run time.
\<close>

datatype gate_op =
    Execute "nat \<Rightarrow> int" "nat option" nat agent_run string arguments string
  | Resume "nat \<Rightarrow> int" "nat option" nat
  | Approval approval_op

fun gate_step :: "py_runtime \<Rightarrow> policy_settings \<Rightarrow> registry \<Rightarrow> gate_op \<Rightarrow> gate \<Rightarrow> gate" where
  "gate_step rt ps reg (Execute clk rec run inst key args ikey) g =
    fst (execute_tool rt ps reg clk rec run inst key args ikey g)"
| "gate_step rt ps reg (Resume clk rec k) g = fst (resume_after_approval rt reg clk rec k g)"
| "gate_step rt ps reg (Approval a) g = approval_step a g"

definition gate_run :: "py_runtime \<Rightarrow> policy_settings \<Rightarrow> registry \<Rightarrow> gate_op list \<Rightarrow> gate \<Rightarrow> gate" where
  "gate_run rt ps reg ops g = fold (gate_step rt ps reg) ops g"

lemma gate_run_simps [simp]:
  "gate_run rt ps reg [] g = g"
  "gate_run rt ps reg (a # ops) g = gate_run rt ps reg ops (gate_step rt ps reg a g)"
  by (simp_all add: gate_run_def)

subsection \<open>Approval operations are quiet\<close>

lemma metric_execs [simp]: "g_calls (schedule_tool_execution_metric k g) = g_calls g"
  by (simp add: schedule_tool_execution_metric_def split: option.splits)

lemma terminate_quiet: "quiet g (terminate_execution t k c m g)"
  by (auto simp: terminate_execution_def quiet_def attempts_of_def split: option.splits)

lemma expire_quiet: "quiet g (expire_row t1 t2 i r g)"
proof -
  let ?g1 = "put_approval i (resolve_row AP_EXPIRED t1 r) g"
  let ?g2 = "terminate_execution t2 (ar_execution r) ''approval_expired'' ''The approval request expired.'' ?g1"
  have "quiet g ?g1" by (rule quiet_same) simp_all
  also have "quiet ?g1 ?g2" by (rule terminate_quiet)
  also have "quiet ?g2 (expire_row t1 t2 i r g)"
    by (rule quiet_same) (simp_all add: expire_row_def Let_def dispatch_resume_def emit_expired_event_def)
  finally show ?thesis .
qed

lemma record_decision_quiet: "quiet g (fst (record_decision clk ws i r u d c q g))"
proof -
  have "quiet g (terminate_execution t k c' m g)" for t k c' m by (rule terminate_quiet)
  then show ?thesis
    by (auto simp: quiet_def attempts_of_def record_decision_execs)
qed

lemma sweep_ids_quiet: "sweep_ids clks ids n g = (g', res) \<Longrightarrow> quiet g g'"
proof (induction ids arbitrary: n g)
  case (Cons i ids)
  show ?case
  proof (cases "sweep_one (clks i) i g")
    case (Some p)
    obtain g1 b where p: "p = (g1, b)" by fastforce
    from Some p have "sweep_one (clks i) i g = Some (g1, b)" by simp
    then have "quiet g g1"
      by (cases rule: sweep_one_cases) (auto simp: expire_quiet)
    moreover have "quiet g1 g'"
      using Cons.IH [of _ g1] Cons.prems Some p by (auto split: if_splits)
    ultimately show ?thesis by (rule quiet_trans)
  qed (use Cons.prems in auto)
qed auto

lemma approval_step_quiet: "quiet g (approval_step a g)"
proof (cases a)
  case (Decide clk ws i u role d c q)
  obtain g' res where dec: "decide_approval clk ws i u role d c q g = (g', res)" by fastforce
  then have "quiet g g'"
    by (cases rule: decide_approval_cases) (auto simp: expire_quiet record_decision_quiet)
  with Decide dec show ?thesis by simp
next
  case (Sweep now clks)
  obtain g' res where "sweep_ids clks (stale_ids now g) 0 g = (g', res)" by fastforce
  with Sweep show ?thesis by (simp add: expire_stale_approvals_def sweep_ids_quiet)
next
  case (Cancel now k reason)
  then show ?thesis
    by (auto simp: cancel_approval_for_execution_def Let_def intro!: quiet_same split: option.splits)
qed

subsection \<open>Accounting\<close>

definition calls_of :: "gate \<Rightarrow> nat \<Rightarrow> nat" where
  "calls_of g k = length (filter (\<lambda>j. j = k) (g_calls g))"

text \<open>Each invocation is counted in its row.\<close>

definition accounted :: "gate \<Rightarrow> bool" where
  "accounted g \<longleftrightarrow> distinct (row_ids (g_execs g)) \<and> (\<forall>k. calls_of g k = attempts_of g k)"

definition retry_budget :: "registry \<Rightarrow> nat \<Rightarrow> bool" where
  "retry_budget reg B \<longleftrightarrow> (\<forall>(key, tool) \<in> set reg. ts_max_retries (tl_spec tool) + 1 \<le> B)"

lemma retry_budgetD: "retry_budget reg B \<Longrightarrow> map_of reg key = Some tool \<Longrightarrow> ts_max_retries (tl_spec tool) + 1 \<le> B"
  by (auto simp: retry_budget_def dest!: map_of_SomeD)

lemma quiet_accounted: "quiet g g' \<Longrightarrow> accounted g \<Longrightarrow> accounted g'"
  by (auto simp: accounted_def quiet_def calls_of_def)

lemma invokes_accounted: "invokes mx k n g g' \<Longrightarrow> accounted g \<Longrightarrow> accounted g'"
  by (auto simp: accounted_def invokes_def calls_of_def)

lemma quiet_bound: "quiet g g' \<Longrightarrow> \<forall>k. attempts_of g k \<le> B \<Longrightarrow> \<forall>k. attempts_of g' k \<le> B"
  by (simp add: quiet_def)

lemma invokes_bound:
  assumes "invokes mx k n g g'" "mx \<le> B" "\<forall>k. attempts_of g k \<le> B"
  shows "\<forall>k. attempts_of g' k \<le> B"
  using assms by (cases "n = 0") (auto simp: invokes_def)

lemma gate_step_cases:
  assumes "distinct (row_ids (g_execs g))"
  shows "quiet g (gate_step rt ps reg a g) \<or>
    (\<exists>key tool k n. map_of reg key = Some tool \<and> n > 0 \<and>
       invokes (ts_max_retries (tl_spec tool) + 1) k n g (gate_step rt ps reg a g))"
proof (cases a)
  case (Execute clk rec run inst key args ikey)
  obtain g' res where e: "execute_tool rt ps reg clk rec run inst key args ikey g = (g', res)" by fastforce
  from e assms show ?thesis
    by (cases rule: execute_tool_spec) (use Execute e in auto)
next
  case (Resume clk rec k)
  obtain g' res where r: "resume_after_approval rt reg clk rec k g = (g', res)" by fastforce
  then show ?thesis
    by (cases rule: resume_after_approval_spec) (use Resume r in auto)
qed (simp add: approval_step_quiet)

lemma gate_step_accounted: "accounted g \<Longrightarrow> accounted (gate_step rt ps reg a g)"
  using gate_step_cases [of g rt ps reg a]
  by (auto simp: accounted_def [of g] intro: quiet_accounted invokes_accounted)

lemma gate_step_bound:
  assumes "accounted g" "retry_budget reg B" "\<forall>k. attempts_of g k \<le> B"
  shows "\<forall>k. attempts_of (gate_step rt ps reg a g) k \<le> B"
proof -
  from assms(1) have "distinct (row_ids (g_execs g))" by (simp add: accounted_def)
  from gate_step_cases [OF this, of rt ps reg a] show ?thesis
  proof (elim disjE exE conjE)
    assume "quiet g (gate_step rt ps reg a g)"
    then show ?thesis using assms(3) by (rule quiet_bound)
  next
    fix key tool k n
    assume "map_of reg key = Some tool"
      and i: "invokes (ts_max_retries (tl_spec tool) + 1) k n g (gate_step rt ps reg a g)"
    with assms(2) have "ts_max_retries (tl_spec tool) + 1 \<le> B" by (blast dest: retry_budgetD)
    from i this assms(3) show ?thesis by (rule invokes_bound)
  qed
qed

lemma gate_run_inv:
  assumes "accounted g" "retry_budget reg B" "\<forall>k. attempts_of g k \<le> B"
  shows "accounted (gate_run rt ps reg ops g) \<and> (\<forall>k. attempts_of (gate_run rt ps reg ops g) k \<le> B)"
  using assms
proof (induction ops arbitrary: g)
  case (Cons a ops)
  from gate_step_accounted [OF Cons.prems(1)] gate_step_bound [OF Cons.prems]
  show ?case using Cons.prems(2) by (simp add: Cons.IH)
qed simp

end
