(* ===== verification/ToolExample.thy ===== *)
theory ToolExample
  imports ToolRuns ApprovalProperties
begin

section \<open>A concrete gate\<close>

text \<open>
  The state on which the witnesses of the tool properties are evaluated: one run (3) of one
  published version (2), two tools. \<open>order.lookup\<close> only reads, so the default policy allows
  it; \<open>payment.refund\<close> is financial and needs an approval above 50 dollars.
\<close>

definition example_spec :: "string \<Rightarrow> nat \<Rightarrow> tool_spec" where
  "example_spec key retries =
    \<lparr>ts_key = key, ts_display_name = key, ts_default_timeout = 5, ts_max_timeout = 10,
     ts_max_retries = retries, ts_retryable = [''unavailable''], ts_ambiguous = [''unknown''],
     ts_input_sensitive = [], ts_output_sensitive = [], ts_validate_input = Some,
     ts_validate_output = Some\<rparr>"

text \<open>The lookup fails on its first attempt with a retryable error and then succeeds.\<close>

definition lookup_tool :: tool where
  "lookup_tool = \<lparr>tl_spec = example_spec ''order.lookup'' 1,
     tl_handler = (\<lambda>k n args. if n = 1 then HToolError (ToolExc ''unavailable'' ''x'')
                     else HModel (JObj [(''state'', JStr ''sent''), (''card_number'', JStr ''42'')]))\<rparr>"

definition refund_tool :: tool where
  "refund_tool = \<lparr>tl_spec = example_spec ''payment.refund'' 0,
     tl_handler = (\<lambda>k n args. HModel (JObj [(''refund'', JStr ''ok'')]))\<rparr>"

definition example_registry :: registry where
  "example_registry = [(''order.lookup'', lookup_tool), (''payment.refund'', refund_tool)]"

definition example_version :: agent_version where
  "example_version =
    \<lparr>av_definition = 1, av_version = 1, av_status = AV_PUBLISHED, av_provider = ''p'',
     av_max_model_calls = 4, av_max_steps = 8, av_wall_time = 60, av_provider_timeout = 10,
     av_max_total_tokens = None, av_max_cost = None, av_max_retry_attempts = 1,
     av_max_tool_calls = 2, av_published_at = None\<rparr>"

definition example_run :: agent_run where
  "example_run =
    \<lparr>run_workspace = 9, run_version = 2, run_conversation = None, run_ticket = None,
     run_trigger_message = None, run_output_message = None, run_trigger = ''t'',
     run_status_of = RUN_RUNNING, run_input_message = [], run_input_metadata = JObj [],
     run_final_response = [], run_started_at = None, run_completed_at = None,
     run_cancelled_at = None, run_failure_code = [], run_failure_message = [],
     run_model_calls = 0, run_steps = 0, run_tool_calls = 0, run_input_tokens = 0,
     run_output_tokens = 0, run_total_tokens = 0, run_cost = None, run_correlation = [],
     run_created_by = Some 7, run_created_at = 0, run_updated_at = 0\<rparr>"

definition tool_gate :: gate where
  "tool_gate = empty_gate\<lparr>
     g_definitions :=
       [(4, \<lparr>td_key = ''order.lookup'', td_active = True, td_risk = READ_ONLY, td_side_effect = SE_READ\<rparr>),
        (5, \<lparr>td_key = ''payment.refund'', td_active = True, td_risk = HIGH, td_side_effect = FINANCIAL\<rparr>)],
     g_bindings := [(6, \<lparr>tb_version = 2, tb_definition = 4, tb_enabled = True, tb_configuration = []\<rparr>),
        (7, \<lparr>tb_version = 2, tb_definition = 5, tb_enabled = True, tb_configuration = []\<rparr>)],
     g_versions := [(2, example_version)], g_runs := [(3, example_run)]\<rparr>"

definition refund_args :: arguments where
  "refund_args = [(''amount_minor'', JInt 9000), (''currency'', JStr ''USD'')]"

abbreviation example_call :: "string \<Rightarrow> arguments \<Rightarrow> string \<Rightarrow> gate \<Rightarrow> gate \<times> (tool_exc + nat \<times> json \<times> bool)" where
  "example_call key args ikey \<equiv>
    execute_tool example_runtime default_policy_settings example_registry int None 3 example_run key args ikey"

lemma example_rounding: "rounded_timeout (Finite 5) = Some 5"
  by (simp add: rounded_timeout_def round_half_even_def)

lemmas example_defs = example_runtime_def example_spec_def lookup_tool_def refund_tool_def
  example_registry_def example_version_def example_run_def tool_gate_def refund_args_def empty_gate_def

lemma lookup_admitted: "admit_request example_runtime example_registry 0 None 3 example_run ''order.lookup'' [] ''k'' tool_gate =
   (tool_gate, Inr \<lparr>ad_tool = lookup_tool, ad_def_id = 4, ad_def = \<lparr>td_key = ''order.lookup'', td_active = True, td_risk = READ_ONLY, td_side_effect = SE_READ\<rparr>, ad_binding_id = 6,
       ad_version = example_version, ad_args = [], ad_timeout = 5\<rparr>)"
  by (simp add: admit_request_def resolve_tool_def registry_get_def definition_by_key_def record_step_def
     resolve_enabled_binding_def live_tool_calls_def check_size_def effective_timeout_def example_defs
     dict_get_def py_min_def example_rounding max_arguments_bytes_def max_idempotency_key_length_def)



lemma example_hides: "\<not> hides [] ''state''" "hides [] ''card_number''"
  "\<not> hides [] ''amount_minor''" "\<not> hides [] ''currency''"
  by (simp_all add: hides_def is_sensitive_key_def sensitive_key_markers_def str_lower_def lower_char_def)

text \<open>The definitions a call unfolds to on concrete arguments.\<close>

lemmas admit_defs = admit_request_def resolve_tool_def registry_get_def definition_by_key_def
  record_step_def resolve_enabled_binding_def live_tool_calls_def check_size_def
  effective_timeout_def dict_get_def py_min_def example_rounding max_arguments_bytes_def
  max_idempotency_key_length_def claim_execution_def find_execution_def new_execution_def
  fingerprint_arguments_def redact_arguments_def lower_all_def

lemmas gate_unfold = run_policy_gate_def gate_transaction_def atomic_def
  record_decision_of_policy_def assess_risk_def Let_def resolve_active_version_def
  evaluate_policy_def default_for_def evaluate_system_default_def finalize_def
  persist_risk_assessment_def persist_policy_evaluation_def risk_of_def eval_of_def fits_def
  gate_report_def mk_default_def fresh_id_def already_policy_evaluated_def

lemmas perform_defs = gate_and_perform_def perform_execution_def transition_running_def
  start_row_def reserve_budget_slot_def finish_handler_def finalize_success_def
  schedule_tool_execution_observation_def run_with_retries.simps invoke_with_timeout_def
  validate_output_def set_attempts_def update_where_def max_output_bytes_def

lemma lookup_evaluated:
  "\<exists>g ex r e. example_call ''order.lookup'' [] ''k'' tool_gate =
      (g, Inr (1, JObj [(''state'', JStr ''sent''), (''card_number'', redacted_marker)], False)) \<and>
    g_calls g = [1, 1] \<and> row_get (g_execs g) 1 = Some ex \<and> te_status ex = EX_SUCCEEDED \<and>
    te_result ex = JObj [(''state'', JStr ''sent''), (''card_number'', redacted_marker)] \<and>
    te_key ex = ''k'' \<and> te_fingerprint ex = ''h'' \<and>
    row_get (g_runs g) 3 = Some r \<and> run_tool_calls r = 1 \<and>
    eval_of 1 g = Some (1, e) \<and> pe_decision e = ALLOW"
  by (simp add: execute_tool_def admit_defs gate_unfold perform_defs example_defs example_hides)

definition refund_risk :: risk_outcome where
  "refund_risk = assess_risk default_policy_settings HIGH FINANCIAL refund_args"

lemma refund_risk_effective: "ro_effective_risk refund_risk = HIGH"
  by (simp add: refund_risk_def assess_risk_def refund_args_def dict_get_def default_policy_settings_def)

lemma upper_usd: "str_upper ''USD'' = ''USD''"
  by (simp add: str_upper_def upper_char_def)

lemma refund_decision:
  "evaluate_policy rt default_policy_settings db ''payment.refund'' refund_risk refund_args None =
    Inr \<lparr>pd_decision = REQUIRE_APPROVAL, pd_code = ''system_default_refund_requires_approval'',
      pd_reason = ''Refund exceeds the automatic refund threshold and requires approval.'',
      pd_matched = [], pd_version = None, pd_required_role = ''admin'', pd_ttl = 86400\<rparr>"
  by (simp add: evaluate_policy_def default_for_def evaluate_system_default_def refund_default_def
      refund_args_def dict_get_def default_policy_settings_def mk_default_def finalize_def upper_usd
      refund_risk_effective) (simp add: refund_risk_def)

lemma no_policy:
  "resolve_active_version \<lparr>pdb_policies = [], pdb_versions = [], pdb_rules = []\<rparr> ws = None"
  by (simp add: resolve_active_version_def)

definition refund_row :: tool_execution where
  "refund_row = new_execution 9 3 2 5 7 ''k'' ''h'' refund_args 5"

definition refund_definition :: tool_definition where
  "refund_definition =
    \<lparr>td_key = ''payment.refund'', td_active = True, td_risk = HIGH, td_side_effect = FINANCIAL\<rparr>"

lemma refund_admitted:
  "admit_request example_runtime example_registry 0 None 3 example_run ''payment.refund'' refund_args ''k'' tool_gate =
    (tool_gate, Inr \<lparr>ad_tool = refund_tool, ad_def_id = 5, ad_def = refund_definition, ad_binding_id = 7,
       ad_version = example_version, ad_args = refund_args, ad_timeout = 5\<rparr>)"
  by (simp add: admit_defs example_defs refund_definition_def)

lemma refund_claimed:
  "atomic (claim_execution (\<lambda>s. s) 9 3 2 5 7 ''k'' ''h'' refund_args 5 (tl_spec refund_tool)) tool_gate =
    (put_exec 1 refund_row tool_gate, Inr (1, True, False))"
  by (simp add: atomic_def claim_execution_def find_execution_def fresh_id_def Let_def
      tool_gate_def empty_gate_def refund_row_def)

lemma refund_redacted: "redact_arguments (lower_all (ts_input_sensitive (tl_spec refund_tool))) refund_args = refund_args"
  by (simp add: redact_arguments_def lower_all_def refund_tool_def example_spec_def refund_args_def example_hides)

lemma refund_gate:
  "\<exists>g a e. gate_transaction example_runtime default_policy_settings int 1 refund_row example_run
      (tl_spec refund_tool) refund_args refund_risk (put_exec 1 refund_row tool_gate) =
      (g, Inr (GRequireApproval ''Refund exceeds the automatic refund threshold and requires approval.'')) \<and>
    g_calls g = [] \<and> g_execs g = [(1, refund_row\<lparr>te_status := EX_WAITING_FOR_APPROVAL\<rparr>)] \<and>
    g_approvals g = [(1, a)] \<and> ar_execution a = 1 \<and> ar_status a = AP_PENDING \<and>
    ar_required_role a = ''admin'' \<and> ar_fingerprint a = ''h'' \<and> ar_requested_by a = Some 7 \<and>
    ar_expires_at a = 86400000002 \<and> g_runs g = g_runs tool_gate \<and>
    g_evals g = [(1, e)] \<and> pe_execution e = 1 \<and> pe_decision e = REQUIRE_APPROVAL"
  by (simp add: gate_transaction_def atomic_def Let_def no_policy refund_decision
      record_decision_of_policy_def persist_risk_assessment_def persist_policy_evaluation_def
      risk_of_def eval_of_def fits_def fresh_id_def create_or_reuse_approval_request_def
      approval_of_def transition_waiting_for_approval_def refund_row_def new_execution_def
      tool_gate_def empty_gate_def refund_tool_def example_spec_def as_approval_tool_def example_run_def)


text \<open>The state in which the refund waits for its approval.\<close>

definition waiting_gate :: gate where
  "waiting_gate = fst (example_call ''payment.refund'' refund_args ''k'' tool_gate)"

lemma refund_evaluated:
  "\<exists>g a e. example_call ''payment.refund'' refund_args ''k'' tool_gate =
      (g, Inl (ToolApprovalRequiredError
        ''Refund exceeds the automatic refund threshold and requires approval.'')) \<and>
    g_calls g = [] \<and> g_execs g = [(1, refund_row\<lparr>te_status := EX_WAITING_FOR_APPROVAL\<rparr>)] \<and>
    g_approvals g = [(1, a)] \<and> ar_execution a = 1 \<and> ar_status a = AP_PENDING \<and>
    ar_required_role a = ''admin'' \<and> ar_fingerprint a = ''h'' \<and> ar_requested_by a = Some 7 \<and>
    ar_expires_at a = 86400000002 \<and> g_runs g = g_runs tool_gate \<and>
    g_evals g = [(1, e)] \<and> pe_execution e = 1 \<and> pe_decision e = REQUIRE_APPROVAL"
proof -
  obtain g a e where gt: "gate_transaction example_runtime default_policy_settings int 1 refund_row
      example_run (tl_spec refund_tool) refund_args refund_risk (put_exec 1 refund_row tool_gate) =
      (g, Inr (GRequireApproval ''Refund exceeds the automatic refund threshold and requires approval.''))"
    and facts: "g_calls g = []" "g_execs g = [(1, refund_row\<lparr>te_status := EX_WAITING_FOR_APPROVAL\<rparr>)]"
      "g_approvals g = [(1, a)]" "ar_execution a = 1" "ar_status a = AP_PENDING"
      "ar_required_role a = ''admin''" "ar_fingerprint a = ''h''" "ar_requested_by a = Some 7"
      "ar_expires_at a = 86400000002" "g_runs g = g_runs tool_gate"
      "g_evals g = [(1, e)]" "pe_execution e = 1" "pe_decision e = REQUIRE_APPROVAL"
    using refund_gate by blast
  have gated: "run_policy_gate example_runtime default_policy_settings int None 1 refund_row
      (tl_spec refund_tool) refund_definition example_run refund_args (put_exec 1 refund_row tool_gate) =
      (emit (Metric ''policy_decision'' [''require_approval'']) g,
       Inl (ToolApprovalRequiredError
        ''Refund exceeds the automatic refund threshold and requires approval.''))"
    using gt by (simp add: run_policy_gate_def refund_definition_def refund_risk_def [symmetric]
        record_step_def gate_report_def)
  have "\<not> already_policy_evaluated 1 (put_exec 1 refund_row tool_gate)"
    by (simp add: already_policy_evaluated_def eval_of_def tool_gate_def empty_gate_def)
  moreover have "te_status refund_row = EX_PENDING" by (simp add: refund_row_def new_execution_def)
  moreover have "fingerprint_arguments example_runtime refund_args = ''h''"
    by (simp add: fingerprint_arguments_def example_runtime_def)
  moreover have "run_workspace example_run = 9" "run_version example_run = 2"
    by (simp_all add: example_run_def)
  ultimately have "example_call ''payment.refund'' refund_args ''k'' tool_gate =
      (emit (Metric ''policy_decision'' [''require_approval'']) g, Inl (ToolApprovalRequiredError
        ''Refund exceeds the automatic refund threshold and requires approval.''))"
    using gated refund_claimed
    by (simp add: execute_tool_def refund_admitted refund_redacted gate_and_perform_def)
  with facts show ?thesis by auto
qed

end
