(* ===== verification/ToolRepeats.thy ===== *)
theory ToolRepeats
  imports ToolExample
begin

section \<open>Calls that meet the row of their key\<close>

text \<open>
  What \<open>execute_tool\<close> does once the claim has found the row an idempotency key owns, and what executing a
  claimed row leaves untouched. The outcome of a repeated key and the reopening of a cancelled execution
  rest on these lemmas.
\<close>

text \<open>The rows the claim takes up again, and the row it writes for them.\<close>

definition reopens_execution :: "tool_spec \<Rightarrow> string \<Rightarrow> tool_execution \<Rightarrow> bool" where
  "reopens_execution spec fp ex \<longleftrightarrow> te_fingerprint ex = fp \<and>
    te_status ex \<in> {EX_FAILED, EX_TIMED_OUT, EX_CANCELLED} \<and>
    te_error_code ex \<notin> set (ts_ambiguous spec) \<and> te_attempts ex \<le> ts_max_retries spec"

definition reopened_row :: "tool_execution \<Rightarrow> tool_execution" where
  "reopened_row ex = ex\<lparr>te_status := EX_PENDING, te_error_code := [], te_error_message := [],
     te_completed_at := None\<rparr>"

text \<open>What the claim answers for a row it does not take up again: an error, the stored result, or the
  outcome a decision gave the action.\<close>

definition settled_answer :: "tool_spec \<Rightarrow> string \<Rightarrow> nat \<Rightarrow> tool_execution \<Rightarrow> tool_exc + nat \<times> json \<times> bool" where
  "settled_answer spec fp k ex =
    (if te_fingerprint ex \<noteq> fp then Inl ToolIdempotencyConflictError
     else case te_status ex of
       EX_PENDING \<Rightarrow> Inl ToolExecutionInProgressError
     | EX_RUNNING \<Rightarrow> Inl ToolExecutionInProgressError
     | EX_WAITING_FOR_APPROVAL \<Rightarrow> Inl (ToolApprovalRequiredError [])
     | EX_SUCCEEDED \<Rightarrow> Inr (k, te_result ex, True)
     | EX_BLOCKED_BY_POLICY \<Rightarrow> Inl (policy_terminal_outcome ex)
     | EX_APPROVAL_TERMINATED \<Rightarrow> Inl (policy_terminal_outcome ex)
     | _ \<Rightarrow> if te_error_code ex \<in> set (ts_ambiguous spec) then Inl ToolAmbiguousOutcomeError
           else Inl ToolRetryExhaustedError)"

lemma repeated_call:
  assumes adm: "admit_request rt reg (clk 0) rec run inst key args ikey g = (g1, Inr a)"
    and "ikey \<noteq> []" and "distinct (row_ids (g_execs g))"
    and found: "find_execution (run_workspace inst) (ad_def_id a) ikey g = Some (k, ex)"
  defines "fp \<equiv> fingerprint_arguments rt (ad_args a)" and "spec \<equiv> tl_spec (ad_tool a)"
  shows "\<not> reopens_execution spec fp ex \<Longrightarrow>
      snd (execute_tool rt ps reg clk rec run inst key args ikey g) = settled_answer spec fp k ex \<and>
      g_execs (fst (execute_tool rt ps reg clk rec run inst key args ikey g)) = g_execs g \<and>
      g_calls (fst (execute_tool rt ps reg clk rec run inst key args ikey g)) = g_calls g"
    and "reopens_execution spec fp ex \<Longrightarrow>
      execute_tool rt ps reg clk rec run inst key args ikey g =
        gate_and_perform rt ps clk rec run inst key a k (put_exec k (reopened_row ex) g1)"
proof -
  note f = admit_frame [OF adm]
  have find1: "find_execution (run_workspace inst) (ad_def_id a) ikey g1 = Some (k, ex)"
    using found f by (simp add: find_execution_def)
  have row: "row_get (g_execs g) k = Some ex"
    using find_execution_get [OF _ found] assms(3) by simp
  have claim: "claim_execution (\<lambda>s. s) (run_workspace inst) run (run_version inst) (ad_def_id a)
      (ad_binding_id a) ikey fp red tmo spec g1 = resolve_existing k ex fp spec g1" for red tmo
    using find1 assms(2) by (simp add: claim_execution_def)
  have calls: "g_calls g1 = g_calls g" using f by (simp add: quiet_def)
  note call = execute_tool_def Let_def atomic_def resolve_existing_def policy_terminal_def adm
    claim [unfolded fp_def spec_def] row
  show "snd (execute_tool rt ps reg clk rec run inst key args ikey g) = settled_answer spec fp k ex \<and>
      g_execs (fst (execute_tool rt ps reg clk rec run inst key args ikey g)) = g_execs g \<and>
      g_calls (fst (execute_tool rt ps reg clk rec run inst key args ikey g)) = g_calls g"
    if "\<not> reopens_execution spec fp ex"
  proof (cases "te_fingerprint ex = fp")
    case False
    then show ?thesis using f calls
      by (simp add: call settled_answer_def fp_def spec_def)
  next
    case True
    then show ?thesis using that f calls unfolding fp_def spec_def
      by (cases "te_status ex") (auto simp: call settled_answer_def reopens_execution_def)
  qed
  show "execute_tool rt ps reg clk rec run inst key args ikey g =
      gate_and_perform rt ps clk rec run inst key a k (put_exec k (reopened_row ex) g1)"
    if "reopens_execution spec fp ex"
    using that f unfolding fp_def spec_def
    by (auto simp: call reopens_execution_def reopened_row_def)
qed

text \<open>A run that may still make a call does make it: the handler of a claimed row is invoked at least once.\<close>

lemma finish_handler_approvals:
  "finish_handler now k r = (g', res) \<Longrightarrow> g_approvals g' = g_approvals (fst r)"
  by (auto simp: finish_handler_def finalize_success_def finalize_failure_def
      schedule_tool_execution_observation_def split: prod.splits sum.splits tool_exc.splits option.splits if_splits)

lemma perform_execution_invokes:
  assumes ex: "row_get (g_execs g) k = Some ex" "te_status ex = EX_PENDING"
    and left: "attempts \<le> ts_max_retries (tl_spec tool)"
    and slot: "row_get (g_runs g) run = Some r" "run_tool_calls r < m"
  shows "\<exists>n. g_calls (fst (perform_execution rt clk rec run m key tool k attempts args g)) = g_calls g @ replicate (Suc n) k \<and>
    g_approvals (fst (perform_execution rt clk rec run m key tool k attempts args g)) = g_approvals g \<and>
    g_evals (fst (perform_execution rt clk rec run m key tool k attempts args g)) = g_evals g"
proof -
  let ?g1 = "put_exec k (start_row (clk 4) ex) g"
  let ?g2 = "put_run run (r\<lparr>run_tool_calls := run_tool_calls r + 1\<rparr>) ?g1"
  let ?g3 = "record_step rec ''tool_execution_started'' ''started'' [] (meta_execution key k) ?g2"
  obtain g4 r4 where f: "finish_handler (clk 6) k (run_with_retries rt tool k attempts args ?g3) = (g4, r4)" by fastforce
  obtain n where n: "loop_spec k attempts (ts_max_retries (tl_spec tool) + 1) ?g3
      (fst (run_with_retries rt tool k attempts args ?g3)) n" "n > 0"
    using run_with_retries_spec left by (metis Suc_eq_plus1 le_imp_less_Suc)
  have g4: "g_calls g4 = g_calls g @ replicate n k" "g_approvals g4 = g_approvals g" "g_evals g4 = g_evals g"
    using n(1) quiet_finish_handler [OF f] finish_handler_approvals [OF f] by (simp_all add: loop_spec_def quiet_def)
  have p: "perform_execution rt clk rec run m key tool k attempts args g =
      (case (g4, r4) of
        (g4, Inr out) \<Rightarrow>
          (record_step rec ''tool_execution_succeeded'' ''succeeded'' []
             (JObj [(''tool_key'', JStr key), (''tool_execution_id'', jid k),
                    (''attempt_count'', jid (attempts_of g4 k))]) g4, Inr (k, out, False))
      | (g4, Inl ToolTimeoutError) \<Rightarrow>
          (record_step rec ''tool_execution_timed_out'' ''failed'' ''tool_timeout''
             (meta_execution key k) g4, Inl ToolTimeoutError)
      | (g4, Inl (Crash c)) \<Rightarrow> (g4, Inl (Crash c))
      | (g4, Inl e) \<Rightarrow>
          (record_step rec ''tool_execution_failed'' ''failed'' (exc_code e)
             (meta_execution key k) g4, Inl e))"
    using ex slot f by (simp add: perform_execution_def transition_running_def reserve_budget_slot_def Let_def)
  have "g_calls (fst (perform_execution rt clk rec run m key tool k attempts args g)) = g_calls g @ replicate n k \<and>
    g_approvals (fst (perform_execution rt clk rec run m key tool k attempts args g)) = g_approvals g \<and>
    g_evals (fst (perform_execution rt clk rec run m key tool k attempts args g)) = g_evals g"
    unfolding p using g4 by (auto split: sum.split tool_exc.split)
  with n(2) show ?thesis by (metis Suc_pred)
qed

text \<open>So does a call with the key of a row that was gated before: the gate is not passed again.\<close>

lemma admit_approvals:
  assumes "admit_request rt reg now rec run inst key args ikey g = (g', res)"
  shows "g_approvals g' = g_approvals g"
proof -
  have "g' \<in> (let g1 = record_step rec ''tool_requested'' ''started'' [] (meta_tool key) g in
      {g1, record_step rec ''tool_validation_failed'' ''failed'' ''tool_invalid_input'' (meta_tool key) g1})"
    using assms unfolding admit_request_def Let_def
    by (auto split: sum.splits option.splits prod.splits if_splits)
  then show ?thesis by (auto simp: Let_def)
qed

lemma admit_budget:
  assumes "admit_request rt reg now rec run inst key args ikey g = (g', Inr a)" and "row_get (g_runs g) run = Some r"
  shows "run_tool_calls r < av_max_tool_calls (ad_version a)"
  using assms
  by (auto simp: admit_request_def Let_def live_tool_calls_def split: sum.splits option.splits prod.splits if_splits)

lemma reopened_call_invokes:
  assumes adm: "admit_request rt reg (clk 0) rec run inst key args ikey g = (g1, Inr a)"
    and "ikey \<noteq> []" and "distinct (row_ids (g_execs g))"
    and "find_execution (run_workspace inst) (ad_def_id a) ikey g = Some (k, ex)"
    and re: "reopens_execution (tl_spec (ad_tool a)) (fingerprint_arguments rt (ad_args a)) ex"
    and gated: "eval_of k g \<noteq> None" and run: "row_get (g_runs g) run = Some r"
  shows "\<exists>n. g_calls (fst (execute_tool rt ps reg clk rec run inst key args ikey g)) = g_calls g @ replicate (Suc n) k \<and>
    g_approvals (fst (execute_tool rt ps reg clk rec run inst key args ikey g)) = g_approvals g \<and>
    g_evals (fst (execute_tool rt ps reg clk rec run inst key args ikey g)) = g_evals g"
proof -
  note f = admit_frame [OF adm] admit_approvals [OF adm]
  let ?g = "put_exec k (reopened_row ex) g1"
  have e: "already_policy_evaluated k ?g" using gated f by (simp add: already_policy_evaluated_def eval_of_def)
  have "execute_tool rt ps reg clk rec run inst key args ikey g =
      perform_execution rt clk rec run (av_max_tool_calls (ad_version a)) key (ad_tool a) k (te_attempts ex) (ad_args a) ?g"
    using repeated_call(2) [where clk = clk, OF adm assms(2-4) re, of ps] e
    by (simp add: gate_and_perform_def reopened_row_def)
  moreover have "g_calls ?g = g_calls g" "g_approvals ?g = g_approvals g" "g_evals ?g = g_evals g"
    using f by (simp_all add: quiet_def)
  ultimately show ?thesis
    using perform_execution_invokes [of ?g k "reopened_row ex" "te_attempts ex" "ad_tool a" run r
        "av_max_tool_calls (ad_version a)" rt clk rec key "ad_args a"]
      re admit_budget [OF adm run] run f
    by (simp add: reopens_execution_def reopened_row_def)
qed

end
