(* ===== verification/ToolProperties.thy ===== *)
theory ToolProperties
  imports ToolRepeats
begin

section \<open>Properties of the tool execution gate\<close>

text \<open>What \<open>execute_tool\<close> and \<open>resume_after_approval\<close> of \<open>tools/execution.py\<close> guarantee: no handler
  without an evaluation, budgets, invocations within the retry limit over any sequence of operations, the status
  table, idempotency keys and what a repeated key does (over the lemmas of \<open>ToolRepeats\<close>), redaction and failing
  closed; and two defects.\<close>

subsection \<open>Status of a row across the service\<close>

definition not_waiting :: "nat \<Rightarrow> gate \<Rightarrow> bool" where
  "not_waiting k g \<longleftrightarrow> (\<forall>ex. row_get (g_execs g) k = Some ex \<longrightarrow> te_status ex \<noteq> EX_WAITING_FOR_APPROVAL)"

lemma not_waiting_cong: "g_execs g' = g_execs g \<Longrightarrow> not_waiting k g' = not_waiting k g"
  by (simp add: not_waiting_def)

lemma not_waiting_finalize:
  "not_waiting k g \<Longrightarrow> not_waiting k (fst (finalize_success t j out g))"
  "st \<noteq> EX_WAITING_FOR_APPROVAL \<Longrightarrow> not_waiting k g \<Longrightarrow> not_waiting k (fst (finalize_failure t j st c m g))"
  by (auto simp: not_waiting_def finalize_success_def finalize_failure_def split: option.splits)

lemma not_waiting_retries:
  assumes "not_waiting k g"
  shows "not_waiting k (fst (run_with_retries rt tool j attempts args g))"
proof -
  obtain n where "loop_spec j attempts (ts_max_retries (tl_spec tool) + 1) g
      (fst (run_with_retries rt tool j attempts args g)) n"
    using run_with_retries_spec by blast
  with assms show ?thesis by (auto simp: loop_spec_def not_waiting_def)
qed

lemma not_waiting_finish:
  assumes "finish_handler now j r = (g', res)" and "not_waiting k (fst r)"
  shows "not_waiting k g'"
proof -
  obtain g r' where r: "r = (g, r')" by fastforce
  show ?thesis
  proof (cases r')
    case (Inr out)
    with assms r have "g' = fst (finalize_success now j out g)"
      by (auto simp: finish_handler_def split: prod.splits sum.splits)
    with assms(2) r show ?thesis by (simp add: not_waiting_finalize)
  next
    case (Inl e)
    with assms r have "g' = g \<or> g' = fst (finalize_failure now j
        (if e = ToolTimeoutError then EX_TIMED_OUT else EX_FAILED) (exc_code e) (exc_message e) g)"
      by (cases e) (auto simp: finish_handler_def split: prod.splits sum.splits)
    with assms(2) r show ?thesis by (auto simp: not_waiting_finalize)
  qed
qed

lemma not_waiting_fail_resumed:
  assumes "fail_resumed now j code msg e g = (g', res)" and "not_waiting k g"
  shows "not_waiting k g'"
proof -
  have "g' = fst (finalize_failure now j EX_FAILED code msg g)"
    using assms(1) by (auto simp: fail_resumed_def split: prod.splits sum.splits)
  with assms(2) show ?thesis by (simp add: not_waiting_finalize)
qed

lemma not_waiting_resume_handler:
  assumes "resume_handler rt now rec k ex tool args g = (g', res)" and "not_waiting k g"
  shows "not_waiting k g'"
proof (cases "row_get (g_versions g) (te_version ex)")
  case None
  with assms show ?thesis by (simp add: resume_handler_def)
next
  case (Some version)
  obtain g2 b where rs: "reserve_budget_slot (te_run ex) (av_max_tool_calls version) g = (g2, b)" by fastforce
  have nw2: "not_waiting k g2" using assms(2) not_waiting_cong [OF reserve_frame(3) [OF rs]] by simp
  let ?g3 = "record_step rec ''execution_resumed'' ''started'' [] (JObj [(''tool_execution_id'', jid k)]) g2"
  obtain g4 r4 where h: "finish_handler now k (run_with_retries rt tool k (te_attempts ex) args ?g3) = (g4, r4)"
    by fastforce
  have "not_waiting k ?g3" using nw2 by (simp add: not_waiting_def)
  from not_waiting_finish [OF h not_waiting_retries [OF this]] have nw4: "not_waiting k g4" .
  show ?thesis
  proof (cases b)
    case False
    with assms Some rs nw2 show ?thesis
      by (auto simp: resume_handler_def intro: not_waiting_fail_resumed)
  next
    case True
    with assms(1) Some rs h have "g_execs g' = g_execs g4"
      by (cases r4) (auto simp: resume_handler_def Let_def)
    with nw4 show ?thesis by (simp add: not_waiting_def)
  qed
qed

lemma resume_not_waiting:
  assumes "resume_after_approval rt reg clk rec k g = (g', res)"
  shows "not_waiting k g'"
proof (cases "row_get (g_execs g) k")
  case None
  with assms show ?thesis by (simp add: resume_after_approval_def not_waiting_def)
next
  case (Some ex)
  obtain g1 won where c: "claim_resume (clk 0) k g = (g1, won)" by fastforce
  show ?thesis
  proof (cases won)
    case False
    with c Some have "g1 = g" "te_status ex \<noteq> EX_WAITING_FOR_APPROVAL"
      by (auto simp: claim_resume_def split: if_splits)
    moreover from assms Some c False \<open>g1 = g\<close> have "g' = g"
      by (auto simp: resume_after_approval_def report_unclaimed_def split: if_splits)
    ultimately show ?thesis using Some by (simp add: not_waiting_def)
  next
    case True
    with c have "not_waiting k g1"
      by (auto simp: not_waiting_def dest: claim_resume_twice)
    with assms Some c True show ?thesis
      by (auto simp: resume_after_approval_def split: if_splits sum.splits option.splits
          intro: not_waiting_fail_resumed not_waiting_resume_handler)
  qed
qed

lemma resume_silent:
  assumes "not_waiting k g"
  shows "fst (resume_after_approval rt reg clk rec k g) = g"
  using assms
  by (auto simp: resume_after_approval_def not_waiting_def claim_resume_def report_unclaimed_def
      split: option.splits)

text \<open>C1. A tool handler is invoked by \<open>execute_tool\<close> only for a RUNNING run and only for an
  execution that the policy gate evaluated: with the decision ALLOW if this call ran the gate,
  otherwise on the evaluation recorded by an earlier call.\<close>

theorem handler_runs_only_behind_the_gate:
  assumes "execute_tool rt ps reg clk rec run inst key args ikey g = (g', res)"
    and "distinct (row_ids (g_execs g))" and "g_calls g' \<noteq> g_calls g"
  shows "run_status_of inst = RUN_RUNNING \<and>
    (\<exists>k n ev e. g_calls g' = g_calls g @ replicate n k \<and> eval_of k g' = Some (ev, e) \<and>
       (pe_decision e = ALLOW \<or> eval_of k g \<noteq> None))"
  using assms(1,2)
proof (cases rule: execute_tool_spec)
  case (silent b)
  with assms(3) show ?thesis by (simp add: quiet_def)
next
  case (called tool k n version)
  then show ?thesis by (auto simp: invokes_def gated_def)
qed

definition lookup_done :: gate where
  "lookup_done = fst (example_call ''order.lookup'' [] ''k'' tool_gate)"

lemma lookup_done:
  "example_call ''order.lookup'' [] ''k'' tool_gate =
    (lookup_done, Inr (1, JObj [(''state'', JStr ''sent''), (''card_number'', redacted_marker)], False))"
  "g_calls lookup_done = [1, 1]"
  using lookup_evaluated by (auto simp: lookup_done_def)

lemma tool_gate_simps [simp]:
  "g_execs tool_gate = []" "g_calls tool_gate = []" "g_evals tool_gate = []"
  "row_get (g_runs tool_gate) 3 = Some example_run"
  "row_get (g_versions tool_gate) 2 = Some example_version"
  by (simp_all add: tool_gate_def empty_gate_def)

theorem handler_runs_only_behind_the_gate_witness:
  "run_status_of example_run = RUN_RUNNING \<and>
    (\<exists>k n ev e. g_calls lookup_done = g_calls tool_gate @ replicate n k \<and>
       eval_of k lookup_done = Some (ev, e) \<and> (pe_decision e = ALLOW \<or> eval_of k tool_gate \<noteq> None))"
  by (rule handler_runs_only_behind_the_gate [OF lookup_done(1)])
     (simp_all add: lookup_done(2) row_ids_def)

text \<open>C4. The tool-call budget is a hard ceiling: a call that reaches a handler has first taken
  exactly one slot of its run, and only while the run's count was below the version's maximum;
  no call changes any other run.\<close>

theorem tool_call_budget_is_a_ceiling:
  assumes "execute_tool rt ps reg clk rec run inst key args ikey g = (g', res)"
    and "distinct (row_ids (g_execs g))"
    and "row_get (g_versions g) (run_version inst) = Some version"
  shows "(g_runs g' = g_runs g \<and> g_calls g' = g_calls g) \<or>
    (\<exists>r. row_get (g_runs g) run = Some r \<and> run_tool_calls r < av_max_tool_calls version \<and>
       g_runs g' = row_put run (r\<lparr>run_tool_calls := run_tool_calls r + 1\<rparr>) (g_runs g))"
  using assms(1,2)
proof (cases rule: execute_tool_spec)
  case (silent b)
  with assms(3) show ?thesis by (cases b) (auto simp: takes_slot_def quiet_def)
next
  case (called tool k n version')
  with assms(3) show ?thesis by (auto simp: takes_slot_def)
qed

theorem tool_call_budget_is_a_ceiling_witness:
  "(g_runs lookup_done = g_runs tool_gate \<and> g_calls lookup_done = g_calls tool_gate) \<or>
    (\<exists>r. row_get (g_runs tool_gate) 3 = Some r \<and> run_tool_calls r < av_max_tool_calls example_version \<and>
       g_runs lookup_done = row_put 3 (r\<lparr>run_tool_calls := run_tool_calls r + 1\<rparr>) (g_runs tool_gate))"
  by (rule tool_call_budget_is_a_ceiling [OF lookup_done(1)])
     (simp_all add: row_ids_def example_run_def)

text \<open>C16. Over any sequence of tool calls, resumptions and approval operations the number of
  handler invocations for an execution equals its recorded attempt count and never exceeds the
  retry budget, however often an idempotency key is retried.\<close>

theorem handler_invocations_are_bounded:
  assumes "distinct (row_ids (g_execs g))" and "\<forall>k. calls_of g k = attempts_of g k"
    and "\<forall>k. attempts_of g k \<le> B"
    and "\<forall>(key, tool) \<in> set reg. ts_max_retries (tl_spec tool) + 1 \<le> B"
  shows "calls_of (gate_run rt ps reg ops g) k = attempts_of (gate_run rt ps reg ops g) k \<and>
    calls_of (gate_run rt ps reg ops g) k \<le> B"
  using gate_run_inv [of g reg B rt ps ops] assms
  by (auto simp: accounted_def retry_budget_def)

theorem handler_invocations_are_bounded_witness:
  "calls_of (gate_run example_runtime default_policy_settings example_registry
      (replicate 5 (Execute int None 3 example_run ''order.lookup'' [] ''k'')) tool_gate) 1 =
    attempts_of (gate_run example_runtime default_policy_settings example_registry
      (replicate 5 (Execute int None 3 example_run ''order.lookup'' [] ''k'')) tool_gate) 1 \<and>
    calls_of (gate_run example_runtime default_policy_settings example_registry
      (replicate 5 (Execute int None 3 example_run ''order.lookup'' [] ''k'')) tool_gate) 1 \<le> 2"
  by (rule handler_invocations_are_bounded)
     (simp_all add: row_ids_def calls_of_def attempts_of_def example_registry_def lookup_tool_def
        refund_tool_def example_spec_def)

text \<open>C19. An approved action is resumed at most once: after one call of \<open>resume_after_approval\<close> for an
  execution, whatever its outcome, a repeated or redelivered call changes nothing and invokes no
  handler.\<close>

theorem resumed_at_most_once:
  assumes "resume_after_approval rt reg clk rec k g = (g', res)"
  shows "fst (resume_after_approval rt' reg' clk' rec' k g') = g'"
  by (rule resume_silent [OF resume_not_waiting [OF assms]])

theorem resumed_at_most_once_witness:
  "fst (resume_after_approval example_runtime example_registry int None 1
      (fst (resume_after_approval example_runtime example_registry int None 1 waiting_gate))) =
    fst (resume_after_approval example_runtime example_registry int None 1 waiting_gate)"
  by (rule resumed_at_most_once [of example_runtime example_registry int None 1 waiting_gate _
        "snd (resume_after_approval example_runtime example_registry int None 1 waiting_gate)"]) simp

subsection \<open>Status transitions\<close>

text \<open>The atomic status writes of the services, as a step relation on the tables.\<close>

inductive exec_transition :: "gate \<Rightarrow> gate \<Rightarrow> bool" where
  tr_running: "exec_transition g (fst (transition_running t k g))"
| tr_blocked: "exec_transition g (fst (transition_blocked_by_policy t k m g))"
| tr_waiting: "exec_transition g (fst (transition_waiting_for_approval k g))"
| tr_success: "exec_transition g (fst (finalize_success t k out g))"
| tr_failure: "st = EX_FAILED \<or> st = EX_TIMED_OUT \<Longrightarrow>
    exec_transition g (fst (finalize_failure t k st c m g))"
| tr_resume: "exec_transition g (fst (claim_resume t k g))"
| tr_terminate: "exec_transition g (terminate_execution t k c m g)"

text \<open>Every status write of the gate, the resume path and the approval services follows the
  table \<open>TOOL_EXECUTION_ALLOWED_TRANSITIONS\<close>, and rows are never deleted.\<close>

theorem transitions_follow_the_table:
  assumes "exec_transition g g'" and "row_get (g_execs g) k = Some ex"
  shows "\<exists>ex'. row_get (g_execs g') k = Some ex' \<and>
    (te_status ex' = te_status ex \<or> te_status ex' \<in> set (exec_allowed (te_status ex)))"
  using assms
  by (cases rule: exec_transition.cases)
     (auto simp: transition_defs terminate_execution_def split: option.splits)

theorem transitions_follow_the_table_witness:
  "\<exists>ex'. row_get (g_execs (fst (claim_resume 9 2 example_gate))) 2 = Some ex' \<and>
    (te_status ex' = te_status example_execution \<or>
     te_status ex' \<in> set (exec_allowed (te_status example_execution)))"
  by (rule transitions_follow_the_table [OF tr_resume]) simp

subsection \<open>Idempotency keys\<close>

text \<open>At most one row per workspace, tool and non-blank key: the constraint \<open>tool_exec_idempotency_uniq\<close>.\<close>

definition same_key :: "tool_execution \<Rightarrow> tool_execution \<Rightarrow> bool" where
  "same_key a b \<longleftrightarrow> te_key a \<noteq> [] \<and> te_key a = te_key b \<and> te_workspace a = te_workspace b \<and>
    te_definition a = te_definition b"

definition keys_unique :: "gate \<Rightarrow> bool" where
  "keys_unique g \<longleftrightarrow> distinct (row_ids (g_execs g)) \<and> (\<forall>i j a b. row_get (g_execs g) i = Some a \<longrightarrow>
    row_get (g_execs g) j = Some b \<longrightarrow> same_key a b \<longrightarrow> i = j)"

lemma keys_unique_update:
  assumes "keys_unique g" and "row_get (g_execs g) k = Some ex" and "g_execs g' = row_put k ex' (g_execs g)"
    and "te_key ex' = te_key ex" "te_workspace ex' = te_workspace ex" "te_definition ex' = te_definition ex"
  shows "keys_unique g'"
  unfolding keys_unique_def
proof (intro conjI allI impI)
  show "distinct (row_ids (g_execs g'))" using assms(1,3) by (auto simp: keys_unique_def)
next
  fix i j a b
  assume ab: "row_get (g_execs g') i = Some a" "row_get (g_execs g') j = Some b" "same_key a b"
  define old where "old = (\<lambda>i a. if i = k then ex else (a :: tool_execution))"
  have "row_get (g_execs g) i = Some (old i a)" "row_get (g_execs g) j = Some (old j b)"
    using ab(1,2) assms(2,3) by (auto simp: old_def split: if_splits)
  moreover have "same_key (old i a) (old j b)"
    using ab assms(3-6) by (auto simp: old_def same_key_def split: if_splits)
  ultimately show "i = j" using assms(1) unfolding keys_unique_def by blast
qed

lemma find_execution_None:
  assumes "find_execution ws d key g = None" and "row_get (g_execs g) i = Some ex"
  shows "\<not> (te_workspace ex = ws \<and> te_definition ex = d \<and> te_key ex = key)"
  using assms(1) map_of_SomeD [OF assms(2)]
  unfolding find_execution_def by (auto simp: find_None_iff)

lemma keys_unique_new:
  assumes "keys_unique g" and "key = [] \<or> find_execution ws d key g = None"
    and "g_execs g' = row_put (fresh_id (g_execs g)) (new_execution ws run v d b key fp red tmo) (g_execs g)"
  shows "keys_unique g'"
  unfolding keys_unique_def
proof (intro conjI allI impI)
  show "distinct (row_ids (g_execs g'))" using assms(1,3) by (auto simp: keys_unique_def)
next
  fix i j a c
  let ?k = "fresh_id (g_execs g)" and ?new = "new_execution ws run v d b key fp red tmo"
  assume ab: "row_get (g_execs g') i = Some a" "row_get (g_execs g') j = Some c" "same_key a c"
  have no: "\<not> same_key ?new ex \<and> \<not> same_key ex ?new" if "row_get (g_execs g) l = Some ex" for l ex
    using assms(2) find_execution_None [OF _ that] by (auto simp: same_key_def new_execution_def)
  show "i = j"
  proof (cases "i = ?k \<or> j = ?k")
    case True
    with ab no assms(3) show ?thesis by (auto split: if_splits)
  next
    case False
    with ab assms(1,3) show ?thesis unfolding keys_unique_def by simp
  qed
qed

lemma resolve_existing_unique:
  assumes "keys_unique g" and "row_get (g_execs g) k = Some ex"
    and "resolve_existing k ex fp spec g = (g', res)"
  shows "keys_unique g'"
proof (cases "g' = g")
  case False
  with assms(3) have "g_execs g' = row_put k (ex\<lparr>te_status := EX_PENDING, te_error_code := [],
      te_error_message := [], te_completed_at := None\<rparr>) (g_execs g)"
    by (auto simp: resolve_existing_def split: if_splits)
  with assms(1,2) show ?thesis by (auto intro: keys_unique_update)
qed (use assms in simp)

text \<open>An idempotency key owns at most one execution per workspace and tool, also when other
  transactions that respect the constraint commit between the lookup and the insertion: the
  loser of the race resolves to the winner's row.\<close>

theorem claim_keeps_keys_unique:
  assumes "keys_unique g" and "keys_unique (other g)"
    and "claim_execution other ws run v d b key fp red tmo spec g = (g', res)"
  shows "keys_unique g'"
proof (cases "if key = [] then None else find_execution ws d key g")
  case (Some p)
  then obtain k ex where p: "find_execution ws d key g = Some (k, ex)" "p = (k, ex)"
    by (cases p) (auto split: if_splits)
  with Some assms(3) have "resolve_existing k ex fp spec g = (g', res)"
    by (simp add: claim_execution_def)
  moreover have "row_get (g_execs g) k = Some ex"
    using find_execution_get [OF _ p(1)] assms(1) by (simp add: keys_unique_def)
  ultimately show ?thesis using resolve_existing_unique assms(1) by blast
next
  case None
  show ?thesis
  proof (cases "if key = [] then None else find_execution ws d key (other g)")
    case (Some p)
    then obtain k ex where p: "find_execution ws d key (other g) = Some (k, ex)" "p = (k, ex)"
      by (cases p) (auto split: if_splits)
    with Some None assms(3) have "resolve_existing k ex fp spec (other g) = (g', res)"
      by (simp add: claim_execution_def Let_def)
    moreover have "row_get (g_execs (other g)) k = Some ex"
      using find_execution_get [OF _ p(1)] assms(2) by (simp add: keys_unique_def)
    ultimately show ?thesis using resolve_existing_unique assms(2) by blast
  next
    case n2: None
    with None assms(3) have "g' = put_exec (fresh_id (g_execs (other g)))
        (new_execution ws run v d b key fp red tmo) (other g)"
      by (auto simp: claim_execution_def Let_def)
    then have put: "g_execs g' = row_put (fresh_id (g_execs (other g)))
        (new_execution ws run v d b key fp red tmo) (g_execs (other g))" by simp
    have "key = [] \<or> find_execution ws d key (other g) = None" using n2 by (auto split: if_splits)
    from keys_unique_new [OF assms(2) this put] show ?thesis .
  qed
qed

theorem claim_keeps_keys_unique_witness:
  "keys_unique (fst (claim_execution (\<lambda>g. put_exec 8 (new_execution 1 1 1 1 1 ''k'' ''f'' [] 5) g)
      1 1 1 1 1 ''k'' ''f'' [] 5 (tl_spec lookup_tool) tool_gate))"
  by (rule claim_keeps_keys_unique [where g = tool_gate and spec = "tl_spec lookup_tool" and
        res = "snd (claim_execution (\<lambda>g. put_exec 8 (new_execution 1 1 1 1 1 ''k'' ''f'' [] 5) g)
          1 1 1 1 1 ''k'' ''f'' [] 5 (tl_spec lookup_tool) tool_gate)"])
     (simp_all add: keys_unique_def row_ids_def)

text \<open>C21. What a call with a repeated idempotency key does, for every row the key can own. Other arguments are
  a conflict; a pending or running row is reported as in progress, a waiting one as awaiting approval; a
  success is replayed from the stored result and a blocked or terminated action replays its denial; a
  failed, timed out or cancelled row is refused when its outcome is ambiguous, and as exhausted when its
  attempts are used up. None of these invokes a handler or writes an execution. In the remaining case, a
  failed, timed out or cancelled row with attempts left and a known outcome, the row becomes pending
  again with its attempts kept and is executed like a claimed one.\<close>

theorem repeated_key_outcome:
  assumes adm: "admit_request rt reg (clk 0) rec run inst key args ikey g = (g1, Inr a)"
    and "ikey \<noteq> []" and "distinct (row_ids (g_execs g))"
    and found: "find_execution (run_workspace inst) (ad_def_id a) ikey g = Some (k, ex)"
    and call: "execute_tool rt ps reg clk rec run inst key args ikey g = (g', res)"
  shows "if te_fingerprint ex = fingerprint_arguments rt (ad_args a) \<and>
        (te_status ex = EX_FAILED \<or> te_status ex = EX_TIMED_OUT \<or> te_status ex = EX_CANCELLED) \<and>
        te_error_code ex \<notin> set (ts_ambiguous (tl_spec (ad_tool a))) \<and>
        te_attempts ex \<le> ts_max_retries (tl_spec (ad_tool a))
    then (g', res) = gate_and_perform rt ps clk rec run inst key a k (put_exec k (ex\<lparr>te_status := EX_PENDING,
      te_error_code := [], te_error_message := [], te_completed_at := None\<rparr>) g1)
    else g_execs g' = g_execs g \<and> g_calls g' = g_calls g \<and>
      res = (if te_fingerprint ex \<noteq> fingerprint_arguments rt (ad_args a) then Inl ToolIdempotencyConflictError
        else if te_status ex = EX_PENDING \<or> te_status ex = EX_RUNNING then Inl ToolExecutionInProgressError
        else if te_status ex = EX_WAITING_FOR_APPROVAL then Inl (ToolApprovalRequiredError [])
        else if te_status ex = EX_SUCCEEDED then Inr (k, te_result ex, True)
        else if te_status ex = EX_BLOCKED_BY_POLICY \<or> te_status ex = EX_APPROVAL_TERMINATED
        then Inl (policy_terminal_outcome ex)
        else if te_error_code ex \<in> set (ts_ambiguous (tl_spec (ad_tool a))) then Inl ToolAmbiguousOutcomeError
        else Inl ToolRetryExhaustedError)"
proof (cases "reopens_execution (tl_spec (ad_tool a)) (fingerprint_arguments rt (ad_args a)) ex")
  case True
  from repeated_call(2) [where clk = clk, OF assms(1-4) True, of ps] call True show ?thesis
    by (auto simp: reopens_execution_def reopened_row_def)
next
  case False
  from repeated_call(1) [where clk = clk, OF assms(1-4) False, of ps] call False show ?thesis
    by (cases "te_status ex") (auto simp: reopens_execution_def settled_answer_def)
qed

definition stored_gate :: gate where
  "stored_gate = put_exec 1 ((new_execution 9 3 2 4 6 ''k'' ''h'' [] 5)
    \<lparr>te_status := EX_SUCCEEDED, te_result := JStr ''old''\<rparr>) tool_gate"

theorem repeated_key_outcome_witness:
  "snd (execute_tool example_runtime default_policy_settings example_registry (\<lambda>n. 0) None 3 example_run
      ''order.lookup'' [] ''k'' stored_gate) = Inr (1, JStr ''old'', True)"
proof -
  have "admit_request example_runtime example_registry 0 None 3 example_run ''order.lookup'' [] ''k'' stored_gate =
      (stored_gate, Inr \<lparr>ad_tool = lookup_tool, ad_def_id = 4,
         ad_def = \<lparr>td_key = ''order.lookup'', td_active = True, td_risk = READ_ONLY, td_side_effect = SE_READ\<rparr>,
         ad_binding_id = 6, ad_version = example_version, ad_args = [], ad_timeout = 5\<rparr>)"
    by (simp add: stored_gate_def put_exec_def admit_defs example_defs)
  from repeated_key_outcome [where clk = "\<lambda>n. 0", OF this, of 1 "(new_execution 9 3 2 4 6 ''k'' ''h'' [] 5)
    \<lparr>te_status := EX_SUCCEEDED, te_result := JStr ''old''\<rparr>", OF _ _ _ surjective_pairing]
  show ?thesis
    by (simp add: stored_gate_def find_execution_def new_execution_def row_ids_def example_run_def
        fingerprint_arguments_def example_runtime_def)
qed

subsection \<open>Redaction of results\<close>

lemma validate_output_clean:
  "validate_output rt spec raw = Inr out \<Longrightarrow> clean (lower_all (ts_output_sensitive spec)) out"
  by (auto simp: validate_output_def Let_def clean_redact split: option.splits if_splits)

lemma invoke_clean:
  "invoke_with_timeout rt tool k n args g = (g', Inr out) \<Longrightarrow>
    clean (lower_all (ts_output_sensitive (tl_spec tool))) out"
  by (auto simp: invoke_with_timeout_def Let_def split: handler_outcome.splits intro: validate_output_clean)

lemma retries_clean:
  "run_with_retries rt tool k attempts args g = (g', Inr out) \<Longrightarrow>
    clean (lower_all (ts_output_sensitive (tl_spec tool))) out"
proof (induction rt tool k attempts args g rule: run_with_retries.induct)
  case (1 rt tool k attempts args g)
  obtain g2 r where i: "invoke_with_timeout rt tool k (attempts + 1) args (set_attempts k (attempts + 1) g) = (g2, r)"
    by fastforce
  show ?case
  proof (cases r)
    case (Inr o')
    with 1(2) i have "r = Inr out"
      by (subst (asm) run_with_retries.simps) (auto simp: Let_def split: if_splits)
    with i show ?thesis by (auto dest: invoke_clean)
  next
    case (Inl e)
    then obtain c m where e: "e = ToolExc c m" "c \<in> set (ts_retryable (tl_spec tool))"
      "attempts + 1 < ts_max_retries (tl_spec tool) + 1"
      and rec: "run_with_retries rt tool k (attempts + 1) args g2 = (g', Inr out)"
      using 1(2) i by (subst (asm) run_with_retries.simps)
        (auto simp: Let_def split: if_splits tool_exc.splits)
    show ?thesis
      using 1(1) [OF _ refl refl i [symmetric] Inl [unfolded e(1)] refl refl refl] e(2,3) rec
      by auto
  qed
qed

lemma finish_handler_Inr: "finish_handler now k r = (g', Inr out) \<Longrightarrow> snd r = Inr out"
  by (cases r; cases "snd r"; cases "projl (snd r)")
     (auto simp: finish_handler_def split: prod.splits sum.splits)

lemma perform_clean:
  assumes "perform_execution rt clk rec run m key tool k attempts args g = (g', Inr (j, out, reused))"
  shows "clean (lower_all (ts_output_sensitive (tl_spec tool))) out"
proof -
  from assms obtain g3 g4 where "finish_handler (clk 6) k (run_with_retries rt tool k attempts args g3) = (g4, Inr out)"
    by (auto simp: perform_execution_def Let_def split: prod.splits sum.splits bool.splits tool_exc.splits)
  from finish_handler_Inr [OF this] show ?thesis
    by (cases "run_with_retries rt tool k attempts args g3") (auto dest: retries_clean)
qed

text \<open>No sensitive value leaves the service: the output of a tool call that ran a handler has
  nothing but the placeholder under a sensitive key or a declared sensitive output field, at any
  depth.\<close>

theorem tool_results_are_redacted:
  assumes exec: "execute_tool rt ps reg clk rec run inst key args ikey g = (g', Inr (k, out, False))"
    and dist: "distinct (row_ids (g_execs g))"
  shows "\<exists>tool. map_of reg key = Some tool \<and> clean (lower_all (ts_output_sensitive (tl_spec tool))) out"
proof -
  obtain g1 a where adm: "admit_request rt reg (clk 0) rec run inst key args ikey g = (g1, Inr a)"
    using exec by (auto simp: execute_tool_def split: prod.splits sum.splits)
  let ?spec = "tl_spec (ad_tool a)"
  obtain g2 j sh where cl: "atomic (claim_execution (\<lambda>s. s) (run_workspace inst) run (run_version inst)
      (ad_def_id a) (ad_binding_id a) ikey (fingerprint_arguments rt (ad_args a))
      (redact_arguments (lower_all (ts_input_sensitive ?spec)) (ad_args a)) (ad_timeout a) ?spec) g1 =
      (g2, Inr (j, sh, False))"
    using exec adm by (auto simp: execute_tool_def Let_def split: prod.splits sum.splits option.splits if_splits)
  have "gate_and_perform rt ps clk rec run inst key a j g2 = (g', Inr (k, out, False))"
  proof (cases sh)
    case True
    with exec adm cl show ?thesis
      by (auto simp: execute_tool_def Let_def split: option.splits if_splits)
  next
    case False
    from cl have "claim_execution (\<lambda>s. s) (run_workspace inst) run (run_version inst)
      (ad_def_id a) (ad_binding_id a) ikey (fingerprint_arguments rt (ad_args a))
      (redact_arguments (lower_all (ts_input_sensitive ?spec)) (ad_args a)) (ad_timeout a) ?spec g1 =
      (g2, Inr (j, sh, False))" by (simp add: atomic_ok_iff)
    with False obtain ex where ex: "find_execution (run_workspace inst) (ad_def_id a) ikey g1 = Some (j, ex)"
      "te_status ex = EX_WAITING_FOR_APPROVAL" "g2 = g1"
      by (auto simp: claim_execution_def Let_def resolve_existing_def split: option.splits if_splits)
    moreover have "row_get (g_execs g1) j = Some ex"
      using find_execution_get [OF _ ex(1)] admit_frame [OF adm] dist by simp
    ultimately show ?thesis
      using exec adm cl False by (simp add: execute_tool_def Let_def)
  qed
  then obtain g3 n where "perform_execution rt clk rec run (av_max_tool_calls (ad_version a)) key (ad_tool a) j
      n (ad_args a) g3 = (g', Inr (k, out, False))"
    by (auto simp: gate_and_perform_def split: option.splits prod.splits sum.splits if_splits)
  then have "clean (lower_all (ts_output_sensitive ?spec)) out" by (rule perform_clean)
  with admit_tool [OF adm] show ?thesis by auto
qed

theorem tool_results_are_redacted_witness:
  "\<exists>tool. map_of example_registry ''order.lookup'' = Some tool \<and>
    clean (lower_all (ts_output_sensitive (tl_spec tool)))
      (JObj [(''state'', JStr ''sent''), (''card_number'', redacted_marker)])"
  by (rule tool_results_are_redacted [OF lookup_done(1)]) (simp add: row_ids_def)

subsection \<open>Failing closed\<close>

lemma eval_of_frame [simp]:
  "eval_of k (put_risk i r g) = eval_of k g" "eval_of k (put_exec j ex g) = eval_of k g"
  "eval_of k (emit e g) = eval_of k g" "eval_of k (record_step rec a b c m g) = eval_of k g"
  by (simp_all add: eval_of_def)

text \<open>An action the policy engine cannot evaluate is denied: the gate records a DENY evaluation
  with no policy version, moves the row to BLOCKED_BY_POLICY, raises, and invokes nothing.\<close>

theorem failed_evaluation_denies:
  assumes "row_get (g_execs g) k = Some ex" and "te_status ex = EX_PENDING"
    and "eval_of k g = None" and "risk_of k g = None"
    and "evaluate_policy rt ps (g_policy g) (ts_key spec)
        (assess_risk ps (td_risk def) (td_side_effect def) args) args
        (resolve_active_version (g_policy g) (te_workspace ex)) = Inl (EvaluationFailed msg)"
    and "run_policy_gate rt ps clk rec k ex spec def inst args g = (g', res)"
  shows "res = Inl (ToolPolicyEvaluationFailedError msg) \<and> g_calls g' = g_calls g \<and>
    (\<exists>ex'. row_get (g_execs g') k = Some ex' \<and> te_status ex' = EX_BLOCKED_BY_POLICY) \<and>
    (\<exists>i e. eval_of k g' = Some (i, e) \<and> pe_decision e = DENY \<and> pe_version e = None)"
proof -
  have no: "find (\<lambda>(i, e). pe_execution e = k) (g_evals g) = None"
    using assms(3) by (simp add: eval_of_def)
  show ?thesis
    using assms no
    by (auto simp: run_policy_gate_def Let_def gate_transaction_def atomic_def record_failed_evaluation_def
        persist_risk_assessment_def persist_policy_evaluation_def risk_of_def fits_def
        transition_blocked_by_policy_def gate_report_def schedule_tool_execution_observation_def
        eval_of_def row_put_fresh find_append_None)
qed

text \<open>A version whose only rule names a predicate the registry does not know.\<close>

definition broken_policy :: policy_db where
  "broken_policy =
    \<lparr>pdb_policies = [(1, \<lparr>pol_workspace = 9, pol_name = ''p'', pol_description = [],
        pol_status = POLICY_ACTIVE, pol_created_by = None\<rparr>)],
     pdb_versions = [(2, \<lparr>pv_policy = 1, pv_version = 1, pv_status = VERSION_ACTIVE,
        pv_created_by = None, pv_published_at = None\<rparr>)],
     pdb_rules = [(3, \<lparr>pr_version = 2, pr_name = ''r'', pr_priority = 0, pr_enabled = True,
        pr_tool_key = [], pr_risk_levels = JArr [], pr_side_effect_types = JArr [],
        pr_condition_config = JObj [(''all'', JArr [JObj [(''predicate'', JStr ''x'')]])],
        pr_effect = ALLOW, pr_required_role = [], pr_ttl = None\<rparr>)]\<rparr>"

definition broken_gate :: gate where
  "broken_gate = put_exec 1 refund_row (tool_gate\<lparr>g_policy := broken_policy\<rparr>)"

lemma broken_evaluation:
  "resolve_active_version broken_policy 9 = Some 2"
  "evaluate_policy example_runtime ps broken_policy key risk args (Some 2) =
    Inl (EvaluationFailed ''Unknown predicate: r.'')"
  by (simp_all add: resolve_active_version_def broken_policy_def evaluate_policy_def enabled_rules_def
      rows_where_def rule_applies_def restricts_def rule_condition_def evaluate_predicate_def
      unhashable_def call_predicate_def example_runtime_def)

theorem failed_evaluation_denies_witness:
  "let g' = fst (run_policy_gate example_runtime default_policy_settings int None 1 refund_row
      (tl_spec refund_tool) refund_definition example_run refund_args broken_gate)
   in g_calls g' = [] \<and>
    (\<exists>ex'. row_get (g_execs g') 1 = Some ex' \<and> te_status ex' = EX_BLOCKED_BY_POLICY) \<and>
    (\<exists>i e. eval_of 1 g' = Some (i, e) \<and> pe_decision e = DENY \<and> pe_version e = None)"
proof -
  obtain g' res where run: "run_policy_gate example_runtime default_policy_settings int None 1 refund_row
      (tl_spec refund_tool) refund_definition example_run refund_args broken_gate = (g', res)" by fastforce
  have "row_get (g_execs broken_gate) 1 = Some refund_row" "te_status refund_row = EX_PENDING"
    "eval_of 1 broken_gate = None" "risk_of 1 broken_gate = None" "g_policy broken_gate = broken_policy"
    "te_workspace refund_row = 9" "g_calls broken_gate = []"
    by (simp_all add: broken_gate_def eval_of_def risk_of_def refund_row_def new_execution_def
        tool_gate_def empty_gate_def)
  with failed_evaluation_denies [OF _ _ _ _ _ run, of "''Unknown predicate: r.''"] run broken_evaluation
  show ?thesis by simp
qed

text \<open>The approval covers exactly the arguments the approver saw: when the fingerprint of the
  execution differs from the one on its request, a resumption invokes no handler and leaves the
  row FAILED with \<open>approval_action_changed\<close>.\<close>

theorem changed_action_is_not_executed:
  assumes "row_get (g_execs g) k = Some ex" and "te_status ex = EX_WAITING_FOR_APPROVAL"
    and "approval_of k g = Some (i, ar)" and "ar_fingerprint ar \<noteq> []"
    and "ar_fingerprint ar \<noteq> te_fingerprint ex"
    and "resume_after_approval rt reg clk rec k g = (g', res)"
  shows "res = Inl ToolApprovalActionChangedError \<and> g_calls g' = g_calls g \<and>
    (\<exists>ex'. row_get (g_execs g') k = Some ex' \<and> te_status ex' = EX_FAILED \<and>
       te_error_code ex' = ''approval_action_changed'')"
  using assms
  by (auto simp: resume_after_approval_def claim_resume_def start_row_def action_changed_def approval_of_def
      fail_resumed_def finalize_failure_def fits_def)

theorem changed_action_is_not_executed_witness:
  "snd (resume_after_approval example_runtime example_registry int None 2
      (put_exec 2 (example_execution\<lparr>te_fingerprint := ''other''\<rparr>) example_gate)) =
    Inl ToolApprovalActionChangedError"
proof -
  obtain g' res where run: "resume_after_approval example_runtime example_registry int None 2
      (put_exec 2 (example_execution\<lparr>te_fingerprint := ''other''\<rparr>) example_gate) = (g', res)" by fastforce
  have "approval_of 2 (put_exec 2 ex example_gate) = Some (2, example_request)" for ex
    by (simp add: approval_of_def example_gate_def)
  from changed_action_is_not_executed [OF _ _ this _ _ run] run show ?thesis
    by (simp add: example_request_def example_execution_def)
qed

subsection \<open>Two defects\<close>

text \<open>A handler that raises an exception outside the tool taxonomy is not normalized: the
  exception leaves the service and the row stays RUNNING, so that every later call with the same
  key is refused as in progress.\<close>

theorem handler_crash_strands_the_row:
  assumes "row_get (g_execs g) k = Some ex" and "te_status ex = EX_PENDING"
    and "te_attempts ex \<le> ts_max_retries (tl_spec tool)"
    and "row_get (g_runs g) run = Some r" and "run_tool_calls r < m"
    and "\<forall>n. tl_handler tool k n args = HCrash"
    and "perform_execution rt clk rec run m key tool k (te_attempts ex) args g = (g', res)"
  shows "res = Inl (Crash HandlerCrash) \<and>
    (\<exists>ex'. row_get (g_execs g') k = Some ex' \<and> te_status ex' = EX_RUNNING \<and>
      resolve_existing k ex' (te_fingerprint ex') spec g' = (g', Inl ToolExecutionInProgressError))"
proof -
  have "res = Inl (Crash HandlerCrash) \<and> row_get (g_execs g') k =
      Some (ex\<lparr>te_status := EX_RUNNING, te_started_at := Some (clk 4), te_attempts := te_attempts ex + 1\<rparr>)"
    using assms
    by (auto simp: perform_execution_def transition_running_def reserve_budget_slot_def finish_handler_def
        run_with_retries.simps [of rt tool k "te_attempts ex"] invoke_with_timeout_def Let_def start_row_def)
  then show ?thesis by (simp add: resolve_existing_def)
qed

definition crashing_tool :: tool where
  "crashing_tool = \<lparr>tl_spec = example_spec ''order.lookup'' 1, tl_handler = (\<lambda>k n args. HCrash)\<rparr>"

theorem handler_crash_strands_the_row_witness:
  "snd (perform_execution example_runtime int None 3 2 ''order.lookup'' crashing_tool 1 0 []
      (put_exec 1 refund_row tool_gate)) = Inl (Crash HandlerCrash)"
proof -
  have a: "te_attempts refund_row = 0" "te_status refund_row = EX_PENDING"
    by (simp_all add: refund_row_def new_execution_def)
  obtain g' res where run: "perform_execution example_runtime int None 3 2 ''order.lookup'' crashing_tool 1
      (te_attempts refund_row) [] (put_exec 1 refund_row tool_gate) = (g', res)" by fastforce
  from handler_crash_strands_the_row [OF _ _ _ _ _ _ run, of example_run] run a show ?thesis
    by (simp add: crashing_tool_def example_run_def)
qed

text \<open>A rule whose name has more than 51 characters cannot decide an action: the decision code
  \<open>rule_matched:<name>\<close> overflows its 64 character column, and the gate fails with a database
  error instead of a decision, rolling the transaction back.\<close>

theorem long_rule_name_breaks_the_gate:
  assumes "evaluate_policy rt ps (g_policy g) (ts_key spec) risk args
        (resolve_active_version (g_policy g) (te_workspace ex)) = Inr d"
    and "pd_code d = ''rule_matched:'' @ name" and "51 < length name"
    and "risk_of k g = None"
  shows "gate_transaction rt ps clk k ex inst spec args risk g = (g, Inl (Crash (DbCrash DataError)))"
  using assms
  by (simp add: gate_transaction_def atomic_def Let_def record_decision_of_policy_def
      persist_risk_assessment_def persist_policy_evaluation_def fits_def)

definition long_policy :: policy_db where
  "long_policy = broken_policy\<lparr>pdb_rules := [(3, \<lparr>pr_version = 2,
     pr_name = ''Refunds above the automatic limit require a second approver'',
     pr_priority = 0, pr_enabled = True, pr_tool_key = [], pr_risk_levels = JArr [],
     pr_side_effect_types = JArr [], pr_condition_config = JObj [], pr_effect = REQUIRE_APPROVAL,
     pr_required_role = [], pr_ttl = None\<rparr>)]\<rparr>"

lemma long_evaluation:
  "resolve_active_version long_policy 9 = Some 2"
  "\<exists>d. evaluate_policy rt ps long_policy key risk args (Some 2) = Inr d \<and>
    pd_code d = ''rule_matched:'' @ ''Refunds above the automatic limit require a second approver''"
  by (simp_all add: resolve_active_version_def long_policy_def broken_policy_def evaluate_policy_def
      enabled_rules_def rows_where_def rule_applies_def restricts_def rule_condition_def
      winning_effect_def policy_effect_precedence_def)

theorem long_rule_name_breaks_the_gate_witness:
  "gate_transaction example_runtime default_policy_settings int 1 refund_row example_run (tl_spec refund_tool)
      refund_args refund_risk (broken_gate\<lparr>g_policy := long_policy\<rparr>) =
    (broken_gate\<lparr>g_policy := long_policy\<rparr>, Inl (Crash (DbCrash DataError)))"
proof -
  obtain d where d: "evaluate_policy example_runtime default_policy_settings long_policy
      (ts_key (tl_spec refund_tool)) refund_risk refund_args (Some 2) = Inr d"
    "pd_code d = ''rule_matched:'' @ ''Refunds above the automatic limit require a second approver''"
    using long_evaluation(2) by blast
  have ws: "te_workspace refund_row = 9" by (simp add: refund_row_def new_execution_def)
  show ?thesis
  proof (rule long_rule_name_breaks_the_gate [OF _ d(2)])
    show "evaluate_policy example_runtime default_policy_settings (g_policy (broken_gate\<lparr>g_policy := long_policy\<rparr>))
      (ts_key (tl_spec refund_tool)) refund_risk refund_args
      (resolve_active_version (g_policy (broken_gate\<lparr>g_policy := long_policy\<rparr>)) (te_workspace refund_row)) = Inr d"
      using d(1) long_evaluation(1) ws by simp
    show "risk_of 1 (broken_gate\<lparr>g_policy := long_policy\<rparr>) = None"
      by (simp add: risk_of_def broken_gate_def put_exec_def tool_gate_def empty_gate_def)
  qed simp
qed

end
