(* ===== verification/Desk.thy ===== *)
theory Desk
  imports Platform
begin

section \<open>The support desk: conversations, tickets and human handoffs\<close>

text \<open>
  \<open>conversations/services.py\<close> and \<open>tickets/services.py\<close> over the rows of their models. A service
  works on the model instance its caller loaded: \<open>save(update_fields=\<dots>)\<close> writes the named columns
  from that instance, a plain \<open>save()\<close> all of them. The instance is therefore an argument beside the
  primary key, and agrees with the row only if nobody wrote in between. The handoff services
  re-read their row under a lock. Statuses are the choices of the models' \<open>TextChoices\<close>.
\<close>

subsection \<open>Rows\<close>

datatype conversation_status = CV_OPEN | CV_PENDING | CV_CLOSED
datatype sender_type = SND_CUSTOMER | SND_HUMAN_AGENT | SND_AI_AGENT | SND_SYSTEM
datatype message_direction = INBOUND | OUTBOUND | INTERNAL
datatype ticket_status = TK_OPEN | TK_IN_PROGRESS | TK_PENDING | TK_RESOLVED | TK_CLOSED
datatype handoff_status = HH_PENDING | HH_ASSIGNED | HH_RESOLVED | HH_CANCELLED

fun conversation_status_value :: "conversation_status \<Rightarrow> string" where
  "conversation_status_value CV_OPEN = ''open''"
| "conversation_status_value CV_PENDING = ''pending''"
| "conversation_status_value CV_CLOSED = ''closed''"

fun ticket_status_value :: "ticket_status \<Rightarrow> string" where
  "ticket_status_value TK_OPEN = ''open''"
| "ticket_status_value TK_IN_PROGRESS = ''in_progress''"
| "ticket_status_value TK_PENDING = ''pending''"
| "ticket_status_value TK_RESOLVED = ''resolved''"
| "ticket_status_value TK_CLOSED = ''closed''"

record membership =
  mb_workspace :: nat
  mb_role :: workspace_role

record conversation =
  cv_workspace :: nat
  cv_customer :: nat
  cv_channel :: string
  cv_status :: conversation_status
  cv_subject :: string
  cv_assigned_to :: "nat option"
  cv_external_id :: "string option"
  cv_last_message_at :: "int option"
  cv_closed_at :: "int option"
  cv_metadata :: json

record message =
  ms_workspace :: nat
  ms_conversation :: nat
  ms_sender_type :: sender_type
  ms_sender :: "nat option"
  ms_direction :: message_direction
  ms_body :: string
  ms_external_id :: "string option"
  ms_created_at :: int
  ms_metadata :: json
  ms_sequence :: nat

record ticket =
  tk_workspace :: nat
  tk_customer :: nat
  tk_conversation :: "nat option"
  tk_subject :: string
  tk_description :: string
  tk_status :: ticket_status
  tk_priority :: string
  tk_assigned_to :: "nat option"
  tk_due_at :: "int option"
  tk_resolved_at :: "int option"
  tk_metadata :: json

record handoff =
  hh_workspace :: nat
  hh_conversation :: nat
  hh_run :: "nat option"
  hh_ticket :: "nat option"
  hh_status :: handoff_status
  hh_reason :: string
  hh_summary :: string
  hh_assigned_to :: "nat option"
  hh_created_at :: int
  hh_resolved_at :: "int option"

record desk =
  dk_conversations :: "conversation rows"
  dk_messages :: "message rows"
  dk_tickets :: "ticket rows"
  dk_handoffs :: "handoff rows"
  dk_effects :: "effect list"

definition jot :: "effect \<Rightarrow> desk \<Rightarrow> desk" where
  "jot e d = d\<lparr>dk_effects := dk_effects d @ [e]\<rparr>"

text \<open>\<open>RowGone\<close> is the DatabaseError of a \<open>save(update_fields=\<dots>)\<close> that affected no row.\<close>

datatype desk_exc = PermissionDenied | Invalid string | RowGone | DeskDb db_exc

type_synonym 'a desk_svc = "(desk, desk_exc, 'a) svc"

definition or_empty :: "json \<Rightarrow> json" where
  "or_empty m = (if py_truthy m then m else JObj [])"

subsection \<open>The contract of a stamped status\<close>

text \<open>
  Conversations and tickets share a rule: entering one distinguished status sets a timestamp,
  leaving it clears the timestamp.
\<close>

locale stamped_status =
  fixes status :: "'r \<Rightarrow> 's"
    and stamp :: "'r \<Rightarrow> int option"
    and stop :: 's
    and move :: "'s \<Rightarrow> int \<Rightarrow> 'r \<Rightarrow> 'r"
  assumes status_move: "status (move s t r) = s"
    and stamp_move:
      "stamp (move s t r) = (if s = stop then Some t else if status r = stop then None else stamp r)"
begin

definition stamped :: "'r \<Rightarrow> bool" where
  "stamped r \<longleftrightarrow> (stamp r \<noteq> None \<longleftrightarrow> status r = stop)"

lemma move_stamped: "stamped r \<Longrightarrow> stamped (move s t r)"
  by (auto simp: stamped_def status_move stamp_move)

lemma move_stop: "stamp (move stop t r) = Some t"
  by (simp add: stamp_move)

end

definition move_conversation :: "conversation_status \<Rightarrow> int \<Rightarrow> conversation \<Rightarrow> conversation" where
  "move_conversation s now c = c\<lparr>cv_status := s,
     cv_closed_at := (if s = CV_CLOSED then Some now
                      else if cv_status c = CV_CLOSED then None else cv_closed_at c)\<rparr>"

definition move_ticket :: "ticket_status \<Rightarrow> int \<Rightarrow> ticket \<Rightarrow> ticket" where
  "move_ticket s now t = t\<lparr>tk_status := s,
     tk_resolved_at := (if s = TK_RESOLVED then Some now
                        else if tk_status t = TK_RESOLVED then None else tk_resolved_at t)\<rparr>"

interpretation conversations: stamped_status cv_status cv_closed_at CV_CLOSED move_conversation
  by unfold_locales (simp_all add: move_conversation_def)

interpretation tickets: stamped_status tk_status tk_resolved_at TK_RESOLVED move_ticket
  by unfold_locales (simp_all add: move_ticket_def)

subsection \<open>Conversations\<close>

definition reassign_roles :: "workspace_role list" where
  "reassign_roles = [OWNER, ADMIN, SUPPORT_MANAGER]"

fun conversation_transitions :: "conversation_status \<Rightarrow> conversation_status list" where
  "conversation_transitions CV_OPEN = [CV_PENDING, CV_CLOSED]"
| "conversation_transitions CV_PENDING = [CV_OPEN, CV_CLOSED]"
| "conversation_transitions CV_CLOSED = [CV_OPEN]"

text \<open>Manager and above may change any row, a support agent only the one assigned to them.\<close>

definition may_mutate :: "nat option \<Rightarrow> nat \<Rightarrow> membership \<Rightarrow> bool" where
  "may_mutate assigned actor mb \<longleftrightarrow>
    mb_role mb \<in> set reassign_roles \<or> (mb_role mb = SUPPORT_AGENT \<and> assigned = Some actor)"

text \<open>Managers assign to anybody, others only themselves and only what is unassigned or theirs.\<close>

definition may_assign :: "nat option \<Rightarrow> nat \<Rightarrow> membership \<Rightarrow> nat \<Rightarrow> bool" where
  "may_assign assigned actor mb target \<longleftrightarrow>
    mb_role mb \<in> set reassign_roles \<or> (target = actor \<and> (assigned = None \<or> assigned = Some actor))"

definition save_conversation ::
  "nat \<Rightarrow> (conversation \<Rightarrow> conversation) \<Rightarrow> desk \<Rightarrow> desk_exc + desk" where
  "save_conversation k f d = (case row_get (dk_conversations d) k of
     None \<Rightarrow> Inl RowGone
   | Some c \<Rightarrow> Inr (d\<lparr>dk_conversations := row_put k (f c) (dk_conversations d)\<rparr>))"

definition create_conversation ::
  "nat \<Rightarrow> nat \<Rightarrow> nat \<Rightarrow> string \<Rightarrow> string \<Rightarrow> string option \<Rightarrow> json \<Rightarrow> nat desk_svc" where
  "create_conversation ws customer customer_ws channel subject ext meta = atomic (\<lambda>d.
    if customer_ws \<noteq> ws then (d, Inl (Invalid ''customer''))
    else
      (let subj = py_strip subject;
           xid = (case ext of None \<Rightarrow> None | Some x \<Rightarrow> (if py_strip x = [] then None else Some (py_strip x)));
           k = fresh_id (dk_conversations d)
       in if \<not> fits 300 subj \<or> (case xid of None \<Rightarrow> False | Some x \<Rightarrow> \<not> fits 255 x) \<or> \<not> fits 16 channel
          then (d, Inl (DeskDb DataError))
          else if xid \<noteq> None \<and> (\<exists>(i, c) \<in> set (dk_conversations d). cv_workspace c = ws \<and> cv_external_id c = xid)
          then (d, Inl (DeskDb IntegrityError))
          else (d\<lparr>dk_conversations := row_put k
                  \<lparr>cv_workspace = ws, cv_customer = customer, cv_channel = channel, cv_status = CV_OPEN,
                   cv_subject = subj, cv_assigned_to = None, cv_external_id = xid,
                   cv_last_message_at = None, cv_closed_at = None, cv_metadata = or_empty meta\<rparr>
                  (dk_conversations d)\<rparr>, Inr k)))"

definition assign_conversation ::
  "nat \<Rightarrow> nat \<Rightarrow> nat \<Rightarrow> membership \<Rightarrow> nat \<Rightarrow> conversation \<Rightarrow> nat \<Rightarrow> membership \<Rightarrow> string option
    \<Rightarrow> conversation desk_svc" where
  "assign_conversation ws actor amid amb k inst tmid tmb req = atomic (\<lambda>d.
    if mb_workspace tmb \<noteq> ws then (d, Inl (Invalid ''membership''))
    else if \<not> may_assign (cv_assigned_to inst) amid amb tmid then (d, Inl PermissionDenied)
    else case save_conversation k (\<lambda>c. c\<lparr>cv_assigned_to := Some tmid\<rparr>) d of
      Inl e \<Rightarrow> (d, Inl e)
    | Inr d' \<Rightarrow>
        (jot (record_event
           (if cv_assigned_to inst \<noteq> None then ''conversation.reassigned'' else ''conversation.assigned'')
           ''conversation'' k (Some actor) (Some ws)
           (JObj [(''assigned_to_membership_id'', jid tmid)]) req) d',
         Inr (inst\<lparr>cv_assigned_to := Some tmid\<rparr>)))"

definition self_assign_conversation ::
  "nat \<Rightarrow> nat \<Rightarrow> nat \<Rightarrow> membership \<Rightarrow> nat \<Rightarrow> conversation \<Rightarrow> string option \<Rightarrow> conversation desk_svc" where
  "self_assign_conversation ws actor amid amb k inst req =
    assign_conversation ws actor amid amb k inst amid amb req"

definition change_conversation_status ::
  "int \<Rightarrow> nat \<Rightarrow> nat \<Rightarrow> nat \<Rightarrow> membership \<Rightarrow> nat \<Rightarrow> conversation \<Rightarrow> conversation_status \<Rightarrow> string option
    \<Rightarrow> conversation desk_svc" where
  "change_conversation_status now ws actor amid amb k inst new req = atomic (\<lambda>d.
    if \<not> may_mutate (cv_assigned_to inst) amid amb then (d, Inl PermissionDenied)
    else if new \<notin> set (conversation_transitions (cv_status inst)) then (d, Inl (Invalid ''status''))
    else
      (let inst' = move_conversation new now inst in
       case save_conversation k
              (\<lambda>c. c\<lparr>cv_status := cv_status inst', cv_closed_at := cv_closed_at inst'\<rparr>) d of
         Inl e \<Rightarrow> (d, Inl e)
       | Inr d' \<Rightarrow>
           (let meta = JObj [(''old_status'', JStr (conversation_status_value (cv_status inst))),
                             (''new_status'', JStr (conversation_status_value new))];
                log = (\<lambda>a. jot (record_event a ''conversation'' k (Some actor) (Some ws) meta req) d')
            in (if new = CV_CLOSED then log ''conversation.closed''
                else if cv_status inst = CV_CLOSED then log ''conversation.reopened'' else d',
                Inr inst'))))"

definition close_conversation ::
  "int \<Rightarrow> nat \<Rightarrow> nat \<Rightarrow> nat \<Rightarrow> membership \<Rightarrow> nat \<Rightarrow> conversation \<Rightarrow> string option \<Rightarrow> conversation desk_svc" where
  "close_conversation now ws actor amid amb k inst req =
    change_conversation_status now ws actor amid amb k inst CV_CLOSED req"

definition reopen_conversation ::
  "int \<Rightarrow> nat \<Rightarrow> nat \<Rightarrow> nat \<Rightarrow> membership \<Rightarrow> nat \<Rightarrow> conversation \<Rightarrow> string option \<Rightarrow> conversation desk_svc" where
  "reopen_conversation now ws actor amid amb k inst req =
    change_conversation_status now ws actor amid amb k inst CV_OPEN req"

subsection \<open>Messages\<close>

definition reopens :: "message_direction \<Rightarrow> conversation \<Rightarrow> bool" where
  "reopens dir inst \<longleftrightarrow> dir = INBOUND \<and> cv_status inst = CV_CLOSED"

text \<open>
  The default of \<open>Message.sequence\<close>, \<open>nextval\<close> of a database sequence: a number above every number it has
  given before. The model takes the next above those of the stored messages; the services only compare
  sequence numbers, and the properties that depend on them assume no more than that they are distinct.
\<close>

definition next_sequence :: "message rows \<Rightarrow> nat" where
  "next_sequence t = Suc (fold max (map (\<lambda>(i, m). ms_sequence m) t) 0)"

definition create_message ::
  "int \<Rightarrow> nat \<Rightarrow> nat \<Rightarrow> conversation \<Rightarrow> sender_type \<Rightarrow> message_direction \<Rightarrow> string
    \<Rightarrow> (nat \<times> membership) option \<Rightarrow> string option \<Rightarrow> json \<Rightarrow> nat desk_svc" where
  "create_message now ws k inst who dir body sender ext meta = atomic (\<lambda>d.
    if cv_workspace inst \<noteq> ws then (d, Inl (Invalid ''conversation''))
    else if (case sender of None \<Rightarrow> False | Some (_, mb) \<Rightarrow> mb_workspace mb \<noteq> ws)
    then (d, Inl (Invalid ''sender_membership''))
    else if (case ext of None \<Rightarrow> False | Some x \<Rightarrow> \<not> fits 255 x) then (d, Inl (DeskDb DataError))
    else
      (let m = fresh_id (dk_messages d);
           d1 = d\<lparr>dk_messages := row_put m
             \<lparr>ms_workspace = ws, ms_conversation = k, ms_sender_type = who,
              ms_sender = map_option fst sender, ms_direction = dir, ms_body = body,
              ms_external_id = ext, ms_created_at = now, ms_metadata = or_empty meta,
              ms_sequence = next_sequence (dk_messages d)\<rparr> (dk_messages d)\<rparr>
       in case save_conversation k
             (\<lambda>c. let c' = c\<lparr>cv_last_message_at := Some now\<rparr>
                  in if reopens dir inst then c'\<lparr>cv_status := CV_OPEN, cv_closed_at := None\<rparr> else c') d1 of
            Inl e \<Rightarrow> (d, Inl e)
          | Inr d2 \<Rightarrow> (d2, Inr m)))"

definition create_outbound_message ::
  "int \<Rightarrow> nat \<Rightarrow> nat \<Rightarrow> membership \<Rightarrow> nat \<Rightarrow> conversation \<Rightarrow> string \<Rightarrow> string option \<Rightarrow> json \<Rightarrow> nat desk_svc" where
  "create_outbound_message now ws amid amb k inst body ext meta =
    create_message now ws k inst SND_HUMAN_AGENT OUTBOUND body (Some (amid, amb)) ext meta"

definition create_internal_message ::
  "int \<Rightarrow> nat \<Rightarrow> nat \<Rightarrow> membership \<Rightarrow> nat \<Rightarrow> conversation \<Rightarrow> string \<Rightarrow> string option \<Rightarrow> json \<Rightarrow> nat desk_svc" where
  "create_internal_message now ws amid amb k inst body ext meta =
    create_message now ws k inst SND_HUMAN_AGENT INTERNAL body (Some (amid, amb)) ext meta"

definition create_ai_agent_message ::
  "int \<Rightarrow> nat \<Rightarrow> nat \<Rightarrow> conversation \<Rightarrow> string \<Rightarrow> string option \<Rightarrow> json \<Rightarrow> nat desk_svc" where
  "create_ai_agent_message now ws k inst body ext meta =
    create_message now ws k inst SND_AI_AGENT OUTBOUND body None ext meta"

definition create_inbound_message ::
  "int \<Rightarrow> nat \<Rightarrow> nat \<Rightarrow> conversation \<Rightarrow> string \<Rightarrow> string option \<Rightarrow> json \<Rightarrow> nat desk_svc" where
  "create_inbound_message now ws k inst body ext meta =
    create_message now ws k inst SND_CUSTOMER INBOUND body None ext meta"

end
