(* ===== verification/Tickets.thy ===== *)
theory Tickets
  imports Desk
begin

section \<open>Tickets and human handoffs\<close>

text \<open>
  \<open>tickets/services.py\<close>: the human services on tickets, the bounded update an agent's tool may make,
  and the handoff of a conversation to a human. \<open>Ticket.save\<close> strips the subject; \<open>HumanHandoff.save\<close>
  strips the summary and cuts it to its column.
\<close>

subsection \<open>Tickets\<close>

fun ticket_transitions :: "ticket_status \<Rightarrow> ticket_status list" where
  "ticket_transitions TK_OPEN = [TK_IN_PROGRESS, TK_PENDING, TK_RESOLVED, TK_CLOSED]"
| "ticket_transitions TK_IN_PROGRESS = [TK_OPEN, TK_PENDING, TK_RESOLVED, TK_CLOSED]"
| "ticket_transitions TK_PENDING = [TK_OPEN, TK_IN_PROGRESS, TK_RESOLVED, TK_CLOSED]"
| "ticket_transitions TK_RESOLVED = [TK_OPEN, TK_IN_PROGRESS, TK_CLOSED]"
| "ticket_transitions TK_CLOSED = [TK_OPEN]"

text \<open>A full save writes every column of the instance and inserts a row that is gone.\<close>

definition save_ticket_full :: "nat \<Rightarrow> ticket \<Rightarrow> desk \<Rightarrow> desk_exc + desk" where
  "save_ticket_full k t d =
    (let t' = t\<lparr>tk_subject := py_strip (tk_subject t)\<rparr>
     in if \<not> fits 300 (tk_subject t') \<or> \<not> fits 16 (tk_priority t') then Inl (DeskDb DataError)
        else Inr (d\<lparr>dk_tickets := row_put k t' (dk_tickets d)\<rparr>))"

definition save_ticket :: "nat \<Rightarrow> (ticket \<Rightarrow> ticket) \<Rightarrow> desk \<Rightarrow> desk_exc + desk" where
  "save_ticket k f d = (case row_get (dk_tickets d) k of
     None \<Rightarrow> Inl RowGone
   | Some t \<Rightarrow> Inr (d\<lparr>dk_tickets := row_put k (f t) (dk_tickets d)\<rparr>))"

definition create_ticket ::
  "nat \<Rightarrow> nat \<Rightarrow> nat \<Rightarrow> string \<Rightarrow> string \<Rightarrow> string option \<Rightarrow> (nat \<times> conversation) option \<Rightarrow> int option
    \<Rightarrow> json \<Rightarrow> nat desk_svc" where
  "create_ticket ws customer customer_ws subject description priority conv due meta = atomic (\<lambda>d.
    if customer_ws \<noteq> ws then (d, Inl (Invalid ''customer''))
    else if (case conv of None \<Rightarrow> False | Some (_, c) \<Rightarrow> cv_workspace c \<noteq> ws)
    then (d, Inl (Invalid ''conversation''))
    else
      (let k = fresh_id (dk_tickets d) in
       case save_ticket_full k
          \<lparr>tk_workspace = ws, tk_customer = customer, tk_conversation = map_option fst conv,
           tk_subject = subject, tk_description = description, tk_status = TK_OPEN,
           tk_priority = (case priority of None \<Rightarrow> ''normal'' | Some p \<Rightarrow> p), tk_assigned_to = None,
           tk_due_at = due, tk_resolved_at = None, tk_metadata = or_empty meta\<rparr> d of
         Inl e \<Rightarrow> (d, Inl e)
       | Inr d' \<Rightarrow> (d', Inr k)))"

text \<open>The writable fields present in the request.\<close>

record ticket_data =
  td_subject :: "string option"
  td_description :: "string option"
  td_priority :: "string option"
  td_due_at :: "int option option"
  td_metadata :: "json option"

definition apply_ticket_data :: "ticket_data \<Rightarrow> ticket \<Rightarrow> ticket" where
  "apply_ticket_data x t = t\<lparr>
     tk_subject := (case td_subject x of None \<Rightarrow> tk_subject t | Some v \<Rightarrow> v),
     tk_description := (case td_description x of None \<Rightarrow> tk_description t | Some v \<Rightarrow> v),
     tk_priority := (case td_priority x of None \<Rightarrow> tk_priority t | Some v \<Rightarrow> v),
     tk_due_at := (case td_due_at x of None \<Rightarrow> tk_due_at t | Some v \<Rightarrow> v),
     tk_metadata := (case td_metadata x of None \<Rightarrow> tk_metadata t | Some v \<Rightarrow> v)\<rparr>"

definition update_ticket :: "nat \<Rightarrow> membership \<Rightarrow> nat \<Rightarrow> ticket \<Rightarrow> ticket_data \<Rightarrow> ticket desk_svc" where
  "update_ticket amid amb k inst x = atomic (\<lambda>d.
    if \<not> may_mutate (tk_assigned_to inst) amid amb then (d, Inl PermissionDenied)
    else case save_ticket_full k (apply_ticket_data x inst) d of
      Inl e \<Rightarrow> (d, Inl e)
    | Inr d' \<Rightarrow> (d', Inr (apply_ticket_data x inst)))"

definition assign_ticket ::
  "nat \<Rightarrow> nat \<Rightarrow> nat \<Rightarrow> membership \<Rightarrow> nat \<Rightarrow> ticket \<Rightarrow> nat \<Rightarrow> membership \<Rightarrow> string option
    \<Rightarrow> ticket desk_svc" where
  "assign_ticket ws actor amid amb k inst tmid tmb req = atomic (\<lambda>d.
    if mb_workspace tmb \<noteq> ws then (d, Inl (Invalid ''membership''))
    else if \<not> may_assign (tk_assigned_to inst) amid amb tmid then (d, Inl PermissionDenied)
    else case save_ticket k (\<lambda>t. t\<lparr>tk_assigned_to := Some tmid\<rparr>) d of
      Inl e \<Rightarrow> (d, Inl e)
    | Inr d' \<Rightarrow>
        (jot (record_event
           (if tk_assigned_to inst \<noteq> None then ''ticket.reassigned'' else ''ticket.assigned'')
           ''ticket'' k (Some actor) (Some ws)
           (JObj [(''assigned_to_membership_id'', jid tmid)]) req) d',
         Inr (inst\<lparr>tk_assigned_to := Some tmid\<rparr>)))"

definition self_assign_ticket ::
  "nat \<Rightarrow> nat \<Rightarrow> nat \<Rightarrow> membership \<Rightarrow> nat \<Rightarrow> ticket \<Rightarrow> string option \<Rightarrow> ticket desk_svc" where
  "self_assign_ticket ws actor amid amb k inst req = assign_ticket ws actor amid amb k inst amid amb req"

definition unassign_ticket ::
  "nat \<Rightarrow> nat \<Rightarrow> membership \<Rightarrow> nat \<Rightarrow> ticket \<Rightarrow> string option \<Rightarrow> ticket desk_svc" where
  "unassign_ticket ws actor amb k inst req = atomic (\<lambda>d.
    if mb_role amb \<notin> set reassign_roles then (d, Inl PermissionDenied)
    else case save_ticket k (\<lambda>t. t\<lparr>tk_assigned_to := None\<rparr>) d of
      Inl e \<Rightarrow> (d, Inl e)
    | Inr d' \<Rightarrow>
        (jot (record_event ''ticket.reassigned'' ''ticket'' k (Some actor) (Some ws)
           (JObj [(''assigned_to_membership_id'', JNull)]) req) d',
         Inr (inst\<lparr>tk_assigned_to := None\<rparr>)))"

definition ticket_action :: "ticket_status \<Rightarrow> ticket_status \<Rightarrow> string" where
  "ticket_action old new =
    (if new = TK_RESOLVED then ''ticket.resolved''
     else if old = TK_RESOLVED \<and> new = TK_OPEN then ''ticket.reopened''
     else ''ticket.status_changed'')"

definition change_ticket_status ::
  "int \<Rightarrow> nat \<Rightarrow> nat \<Rightarrow> nat \<Rightarrow> membership \<Rightarrow> nat \<Rightarrow> ticket \<Rightarrow> ticket_status \<Rightarrow> string option
    \<Rightarrow> ticket desk_svc" where
  "change_ticket_status now ws actor amid amb k inst new req = atomic (\<lambda>d.
    if \<not> may_mutate (tk_assigned_to inst) amid amb then (d, Inl PermissionDenied)
    else if new \<notin> set (ticket_transitions (tk_status inst)) then (d, Inl (Invalid ''status''))
    else
      (let inst' = move_ticket new now inst in
       case save_ticket k
              (\<lambda>t. t\<lparr>tk_status := tk_status inst', tk_resolved_at := tk_resolved_at inst'\<rparr>) d of
         Inl e \<Rightarrow> (d, Inl e)
       | Inr d' \<Rightarrow>
           (jot (record_event (ticket_action (tk_status inst) new) ''ticket'' k (Some actor) (Some ws)
              (JObj [(''old_status'', JStr (ticket_status_value (tk_status inst))),
                     (''new_status'', JStr (ticket_status_value new))]) req) d',
            Inr inst')))"

definition resolve_ticket ::
  "int \<Rightarrow> nat \<Rightarrow> nat \<Rightarrow> nat \<Rightarrow> membership \<Rightarrow> nat \<Rightarrow> ticket \<Rightarrow> string option \<Rightarrow> ticket desk_svc" where
  "resolve_ticket now ws actor amid amb k inst req =
    change_ticket_status now ws actor amid amb k inst TK_RESOLVED req"

definition reopen_ticket ::
  "int \<Rightarrow> nat \<Rightarrow> nat \<Rightarrow> nat \<Rightarrow> membership \<Rightarrow> nat \<Rightarrow> ticket \<Rightarrow> string option \<Rightarrow> ticket desk_svc" where
  "reopen_ticket now ws actor amid amb k inst req =
    change_ticket_status now ws actor amid amb k inst TK_OPEN req"

text \<open>The update of the \<open>ticket.update\<close> tool: priority, an appended note, a status.\<close>

definition agent_edits :: "string option \<Rightarrow> string option \<Rightarrow> ticket \<Rightarrow> ticket" where
  "agent_edits priority note_text t =
    (let t1 = (case priority of None \<Rightarrow> t | Some p \<Rightarrow> t\<lparr>tk_priority := p\<rparr>)
     in case note_text of
          None \<Rightarrow> t1
        | Some n \<Rightarrow>
            if n = [] then t1
            else t1\<lparr>tk_description := take 20000 (tk_description t1 @
                   (if tk_description t1 = [] then [] else [CHR 0x0A, CHR 0x0A]) @ n)\<rparr>)"

definition apply_agent_ticket_update ::
  "int \<Rightarrow> nat \<Rightarrow> nat \<Rightarrow> ticket \<Rightarrow> nat option \<Rightarrow> string option \<Rightarrow> ticket_status option \<Rightarrow> string option
    \<Rightarrow> ticket desk_svc" where
  "apply_agent_ticket_update now ws k inst actor priority status note_text = atomic (\<lambda>d.
    let t = agent_edits priority note_text inst in
    case status of
      Some new \<Rightarrow>
        if new = tk_status t then
          (case save_ticket_full k t d of Inl e \<Rightarrow> (d, Inl e) | Inr d' \<Rightarrow> (d', Inr t))
        else if new \<notin> set (ticket_transitions (tk_status t)) then (d, Inl (Invalid ''status''))
        else
          (let t' = move_ticket new now t in
           case save_ticket_full k t' d of
             Inl e \<Rightarrow> (d, Inl e)
           | Inr d' \<Rightarrow>
               (jot (record_event (ticket_action (tk_status t) new) ''ticket'' k actor (Some ws)
                  (JObj [(''old_status'', JStr (ticket_status_value (tk_status t))),
                         (''new_status'', JStr (ticket_status_value new)),
                         (''via'', JStr ''agent_tool'')]) None) d',
                Inr t'))
    | None \<Rightarrow> (case save_ticket_full k t d of Inl e \<Rightarrow> (d, Inl e) | Inr d' \<Rightarrow> (d', Inr t)))"

subsection \<open>Human handoffs\<close>

definition handoff_active :: "handoff_status list" where
  "handoff_active = [HH_PENDING, HH_ASSIGNED]"

definition handoff_reasons :: "string list" where
  "handoff_reasons = [''customer_requested'', ''unsupported_action'', ''runtime_failure'',
     ''low_confidence'', ''policy_escalation'']"

definition active_handoff :: "nat \<Rightarrow> desk \<Rightarrow> (nat \<times> handoff) option" where
  "active_handoff conv d =
    find (\<lambda>(i, h). hh_conversation h = conv \<and> hh_status h \<in> set handoff_active) (dk_handoffs d)"

text \<open>
  \<open>other\<close> is what concurrent transactions commit between the lookup and the insertion; a conflict
  with the partial unique index makes the loser return the row it finds. The conversation, the run
  and the ticket come with their workspaces.
\<close>

definition create_or_reuse_handoff ::
  "(desk \<Rightarrow> desk) \<Rightarrow> int \<Rightarrow> nat \<Rightarrow> nat \<Rightarrow> nat \<Rightarrow> string \<Rightarrow> string \<Rightarrow> (nat \<times> nat) option \<Rightarrow> (nat \<times> nat) option
    \<Rightarrow> string option \<Rightarrow> (nat \<times> bool) desk_svc" where
  "create_or_reuse_handoff other now ws conv conv_ws reason summary run tick req = (\<lambda>d.
    if conv_ws \<noteq> ws then (d, Inl (Invalid ''conversation''))
    else if (case run of None \<Rightarrow> False | Some (_, w) \<Rightarrow> w \<noteq> ws) then (d, Inl (Invalid ''agent_run''))
    else if (case tick of None \<Rightarrow> False | Some (_, w) \<Rightarrow> w \<noteq> ws) then (d, Inl (Invalid ''ticket''))
    else case active_handoff conv d of
      Some (i, h) \<Rightarrow> (d, Inr (i, False))
    | None \<Rightarrow>
        (let d1 = other d in
         case active_handoff conv d1 of
           Some (i, h) \<Rightarrow> (d1, Inr (i, False))
         | None \<Rightarrow>
             if \<not> fits 32 reason then (d1, Inl (DeskDb DataError))
             else
               (let i = fresh_id (dk_handoffs d1);
                    h = \<lparr>hh_workspace = ws, hh_conversation = conv, hh_run = map_option fst run,
                         hh_ticket = map_option fst tick, hh_status = HH_PENDING, hh_reason = reason,
                         hh_summary = take 500 (py_strip summary), hh_assigned_to = None,
                         hh_created_at = now, hh_resolved_at = None\<rparr>;
                    d2 = d1\<lparr>dk_handoffs := row_put i h (dk_handoffs d1)\<rparr>
                in (jot (Metric ''handoff_created'' [reason])
                     (jot (Webhook_event ws ''handoff.created''
                        (JObj [(''handoff_id'', jid i), (''conversation_id'', jid conv),
                               (''reason_code'', JStr reason), (''summary'', JStr summary)]))
                     (jot (record_event ''human_handoff.created'' ''human_handoff'' i None (Some ws)
                        (JObj [(''conversation_id'', jid conv), (''reason_code'', JStr reason)]) req) d2)),
                    Inr (i, True)))))"

definition assign_handoff ::
  "nat \<Rightarrow> nat \<Rightarrow> nat \<Rightarrow> membership \<Rightarrow> nat \<Rightarrow> (nat \<times> membership) option \<Rightarrow> string option
    \<Rightarrow> handoff desk_svc" where
  "assign_handoff ws actor amid amb i target req = atomic (\<lambda>d.
    let (tid, tmb) = (case target of None \<Rightarrow> (amid, amb) | Some t \<Rightarrow> t) in
    if mb_role amb \<notin> set reassign_roles then (d, Inl PermissionDenied)
    else if mb_workspace tmb \<noteq> ws then (d, Inl (Invalid ''membership''))
    else case row_get (dk_handoffs d) i of
      None \<Rightarrow> (d, Inl (DeskDb DoesNotExist))
    | Some locked \<Rightarrow>
        if hh_status locked \<notin> set handoff_active then (d, Inl (Invalid ''status''))
        else
          (let h = locked\<lparr>hh_assigned_to := Some tid, hh_status := HH_ASSIGNED\<rparr>
           in (jot (record_event ''human_handoff.assigned'' ''human_handoff'' i (Some actor) (Some ws)
                 (JObj [(''assigned_to_membership_id'', jid tid)]) req)
                (d\<lparr>dk_handoffs := row_put i h (dk_handoffs d)\<rparr>), Inr h)))"

definition resolve_handoff ::
  "int \<Rightarrow> nat \<Rightarrow> nat \<Rightarrow> membership \<Rightarrow> nat \<Rightarrow> string option \<Rightarrow> handoff desk_svc" where
  "resolve_handoff now ws actor amb i req = atomic (\<lambda>d.
    if mb_role amb \<notin> set reassign_roles then (d, Inl PermissionDenied)
    else case row_get (dk_handoffs d) i of
      None \<Rightarrow> (d, Inl (DeskDb DoesNotExist))
    | Some locked \<Rightarrow>
        if hh_status locked \<notin> set handoff_active then (d, Inl (Invalid ''status''))
        else
          (let h = locked\<lparr>hh_status := HH_RESOLVED, hh_resolved_at := Some now\<rparr>
           in (jot (Metric ''handoff_terminal'' [])
                (jot (record_event ''human_handoff.resolved'' ''human_handoff'' i (Some actor) (Some ws)
                   (JObj []) req)
                (d\<lparr>dk_handoffs := row_put i h (dk_handoffs d)\<rparr>)), Inr h)))"

definition cancel_one_handoff :: "string \<Rightarrow> nat \<times> handoff \<Rightarrow> desk \<Rightarrow> desk" where
  "cancel_one_handoff reason = (\<lambda>(i, h) d.
    jot (record_event ''human_handoff.cancelled'' ''human_handoff'' i None (Some (hh_workspace h))
       (JObj [(''reason'', JStr reason)]) None)
     (d\<lparr>dk_handoffs := row_put i (h\<lparr>hh_status := HH_CANCELLED\<rparr>) (dk_handoffs d)\<rparr>))"

definition cancel_handoffs_for_run :: "nat \<Rightarrow> string \<Rightarrow> desk \<Rightarrow> desk" where
  "cancel_handoffs_for_run run reason d =
    fold (cancel_one_handoff reason)
      (rows_where (\<lambda>i h. hh_run h = Some run \<and> hh_status h \<in> set handoff_active) (dk_handoffs d)) d"

end
