(* ===== verification/DeskProperties.thy ===== *)
theory DeskProperties
  imports Tickets
begin

section \<open>What the support desk guarantees\<close>

subsection \<open>Handoffs\<close>

lemma jot_fields [simp]:
  "dk_handoffs (jot e d) = dk_handoffs d" "dk_tickets (jot e d) = dk_tickets d"
  "dk_conversations (jot e d) = dk_conversations d" "dk_messages (jot e d) = dk_messages d"
  by (simp_all add: jot_def)

definition is_active :: "handoff \<Rightarrow> bool" where
  "is_active h \<longleftrightarrow> hh_status h \<in> set handoff_active"

definition handoffs_unique :: "handoff rows \<Rightarrow> bool" where
  "handoffs_unique t \<longleftrightarrow> distinct (row_ids t) \<and>
    (\<forall>i j h h'. row_get t i = Some h \<longrightarrow> row_get t j = Some h' \<longrightarrow> is_active h \<longrightarrow> is_active h' \<longrightarrow>
       hh_conversation h = hh_conversation h' \<longrightarrow> i = j)"

text \<open>
  The handoff services in any order and any interleaving: what the others commit inside a creation
  is itself such a sequence.
\<close>

inductive handoff_path :: "desk \<Rightarrow> desk \<Rightarrow> bool" where
  hp_refl: "handoff_path d d"
| hp_create: "handoff_path d d' \<Longrightarrow> handoff_path d' (other d') \<Longrightarrow>
    handoff_path d (fst (create_or_reuse_handoff other now ws conv cws reason summary run tick req d'))"
| hp_assign: "handoff_path d d' \<Longrightarrow> handoff_path d (fst (assign_handoff ws actor amid amb i target req d'))"
| hp_resolve: "handoff_path d d' \<Longrightarrow> handoff_path d (fst (resolve_handoff now ws actor amb i req d'))"
| hp_cancel: "handoff_path d d' \<Longrightarrow> handoff_path d (cancel_handoffs_for_run run reason d')"

text \<open>How one service may change the table: nothing, one active row rewritten, or one row inserted.\<close>

definition one_rewritten :: "handoff rows \<Rightarrow> handoff rows \<Rightarrow> bool" where
  "one_rewritten t t' \<longleftrightarrow> t' = t \<or> (\<exists>i h h'. row_get t i = Some h \<and> is_active h \<and>
     hh_conversation h' = hh_conversation h \<and> t' = row_put i h' t)"

lemma one_rewritten_unique: "one_rewritten t t' \<Longrightarrow> handoffs_unique t \<Longrightarrow> handoffs_unique t'"
  unfolding one_rewritten_def handoffs_unique_def
  by (elim disjE exE conjE) (simp_all add: distinct_row_put, metis option.inject)

lemma one_rewritten_final:
  "one_rewritten t t' \<Longrightarrow> row_get t i = Some h \<Longrightarrow> \<not> is_active h \<Longrightarrow> row_get t' i = Some h"
  by (auto simp: one_rewritten_def)

lemma one_rewritten_refl [simp]: "one_rewritten t t"
  by (simp add: one_rewritten_def)

lemma one_rewrittenI [intro]:
  "row_get t i = Some h \<Longrightarrow> is_active h \<Longrightarrow> hh_conversation h' = hh_conversation h \<Longrightarrow>
    one_rewritten t (row_put i h' t)"
  by (auto simp: one_rewritten_def)

lemma assign_one_rewritten:
  "one_rewritten (dk_handoffs d) (dk_handoffs (fst (assign_handoff ws actor amid amb i target req d)))"
  by (auto simp: assign_handoff_def atomic_def Let_def is_active_def
      split: option.splits prod.splits if_splits intro!: one_rewrittenI)

lemma resolve_one_rewritten:
  "one_rewritten (dk_handoffs d) (dk_handoffs (fst (resolve_handoff now ws actor amb i req d)))"
  by (auto simp: resolve_handoff_def atomic_def Let_def is_active_def
      split: option.splits prod.splits if_splits intro!: one_rewrittenI)

lemma cancel_one_handoffs:
  "dk_handoffs (cancel_one_handoff reason (i, h) d) =
    row_put i (h\<lparr>hh_status := HH_CANCELLED\<rparr>) (dk_handoffs d)"
  by (simp add: cancel_one_handoff_def)

definition cancel_row :: "nat \<times> handoff \<Rightarrow> handoff rows \<Rightarrow> handoff rows" where
  "cancel_row = (\<lambda>(i, h) t. row_put i (h\<lparr>hh_status := HH_CANCELLED\<rparr>) t)"

lemma cancel_table:
  "dk_handoffs (fold (cancel_one_handoff reason) hs d) = fold cancel_row hs (dk_handoffs d)"
  by (induction hs arbitrary: d) (auto simp: cancel_row_def cancel_one_handoffs)

lemma cancel_rows_get:
  assumes "distinct (map fst hs)"
  shows "row_get (fold cancel_row hs t) i =
    (case map_of hs i of Some h \<Rightarrow> Some (h\<lparr>hh_status := HH_CANCELLED\<rparr>) | None \<Rightarrow> row_get t i)"
  using assms
proof (induction hs arbitrary: t)
  case (Cons x hs)
  obtain j h where x: "x = (j, h)" by (cases x)
  from Cons.prems x have "map_of hs j = None" by (simp add: map_of_eq_None_iff)
  with Cons x show ?case by (auto simp: cancel_row_def split: option.splits)
qed simp

lemma cancel_rows_ids:
  "set (map fst hs) \<subseteq> set (row_ids t) \<Longrightarrow> row_ids (fold cancel_row hs t) = row_ids t"
  by (induction hs arbitrary: t) (auto simp: cancel_row_def row_ids_put split: prod.splits)

lemma map_of_filter:
  "distinct (map fst t) \<Longrightarrow>
    map_of (filter (\<lambda>(k, r). P k r) t) i = (case map_of t i of Some r \<Rightarrow> if P i r then Some r else None | None \<Rightarrow> None)"
  by (induction t) (auto simp: map_of_eq_None_iff image_iff split: option.splits)

lemma cancel_handoffs_get:
  assumes "distinct (row_ids (dk_handoffs d))"
  shows "row_get (dk_handoffs (cancel_handoffs_for_run run reason d)) i =
      (case row_get (dk_handoffs d) i of
         None \<Rightarrow> None
       | Some h \<Rightarrow> Some (if hh_run h = Some run \<and> is_active h then h\<lparr>hh_status := HH_CANCELLED\<rparr> else h))"
    and "row_ids (dk_handoffs (cancel_handoffs_for_run run reason d)) = row_ids (dk_handoffs d)"
proof -
  let ?P = "\<lambda>i h. hh_run h = Some run \<and> hh_status h \<in> set handoff_active"
  let ?t = "dk_handoffs d"
  have d: "distinct (map fst ?t)" using assms by (simp add: row_ids_def)
  have "distinct (map fst (rows_where ?P ?t))"
    using d by (simp add: rows_where_def distinct_map_filter)
  then show "row_get (dk_handoffs (cancel_handoffs_for_run run reason d)) i =
      (case row_get ?t i of
         None \<Rightarrow> None
       | Some h \<Rightarrow> Some (if hh_run h = Some run \<and> is_active h then h\<lparr>hh_status := HH_CANCELLED\<rparr> else h))"
    using map_of_filter [OF d, of ?P i]
    by (simp add: cancel_handoffs_for_run_def cancel_table cancel_rows_get rows_where_def is_active_def
        split: option.splits)
  have "set (map fst (rows_where ?P ?t)) \<subseteq> set (row_ids ?t)"
    by (auto simp: rows_where_def row_ids_def)
  then show "row_ids (dk_handoffs (cancel_handoffs_for_run run reason d)) = row_ids ?t"
    by (simp add: cancel_handoffs_for_run_def cancel_table cancel_rows_ids)
qed

lemma active_handoff_None:
  "distinct (row_ids (dk_handoffs d)) \<Longrightarrow> active_handoff conv d = None \<Longrightarrow>
    row_get (dk_handoffs d) i = Some h \<Longrightarrow> is_active h \<Longrightarrow> hh_conversation h \<noteq> conv"
  unfolding active_handoff_def find_None_iff is_active_def
  using map_of_SomeD [of "dk_handoffs d" i h] by fastforce

lemma create_cases:
  obtains
    (reused) "dk_handoffs (fst (create_or_reuse_handoff other now ws conv cws reason summary run tick req d)) =
      dk_handoffs d"
  | (lost) "dk_handoffs (fst (create_or_reuse_handoff other now ws conv cws reason summary run tick req d)) =
      dk_handoffs (other d)"
  | (created) h where "active_handoff conv (other d) = None" "hh_conversation h = conv" "is_active h"
      "dk_handoffs (fst (create_or_reuse_handoff other now ws conv cws reason summary run tick req d)) =
        row_put (fresh_id (dk_handoffs (other d))) h (dk_handoffs (other d))"
proof (cases "cws \<noteq> ws \<or> (case run of None \<Rightarrow> False | Some (_, w) \<Rightarrow> w \<noteq> ws) \<or>
    (case tick of None \<Rightarrow> False | Some (_, w) \<Rightarrow> w \<noteq> ws) \<or> active_handoff conv d \<noteq> None")
  case True
  then show thesis by (intro reused) (auto simp: create_or_reuse_handoff_def split: option.splits)
next
  case fresh: False
  show thesis
  proof (cases "active_handoff conv (other d) = None \<and> fits 32 reason")
    case True
    then show thesis using fresh
      by (intro created [of "\<lparr>hh_workspace = ws, hh_conversation = conv, hh_run = map_option fst run,
            hh_ticket = map_option fst tick, hh_status = HH_PENDING, hh_reason = reason,
            hh_summary = take 500 (py_strip summary), hh_assigned_to = None,
            hh_created_at = now, hh_resolved_at = None\<rparr>"])
        (auto simp: create_or_reuse_handoff_def Let_def is_active_def handoff_active_def
          split: option.splits)
  next
    case False
    then show thesis using fresh
      by (intro lost) (auto simp: create_or_reuse_handoff_def Let_def split: option.splits)
  qed
qed

lemma insert_unique:
  assumes "handoffs_unique t" and "\<And>i h'. row_get t i = Some h' \<Longrightarrow> is_active h' \<Longrightarrow> hh_conversation h' \<noteq> hh_conversation h"
  shows "handoffs_unique (row_put k h t)"
  using assms unfolding handoffs_unique_def by (simp add: distinct_row_put) metis

lemma cancel_unique:
  assumes "handoffs_unique (dk_handoffs d)"
  shows "handoffs_unique (dk_handoffs (cancel_handoffs_for_run run reason d))"
proof -
  have dist: "distinct (row_ids (dk_handoffs d))" using assms by (simp add: handoffs_unique_def)
  have old: "\<exists>h0. row_get (dk_handoffs d) i = Some h0 \<and> is_active h0 \<and> hh_conversation h0 = hh_conversation h"
    if "row_get (dk_handoffs (cancel_handoffs_for_run run reason d)) i = Some h" and "is_active h" for i h
    using that by (auto simp: cancel_handoffs_get(1) [OF dist] is_active_def handoff_active_def
        split: option.splits if_splits)
  show ?thesis
    unfolding handoffs_unique_def
  proof (intro conjI allI impI)
    show "distinct (row_ids (dk_handoffs (cancel_handoffs_for_run run reason d)))"
      by (simp add: cancel_handoffs_get(2) [OF dist] dist)
  next
    fix i j and h h' :: handoff
    assume a: "row_get (dk_handoffs (cancel_handoffs_for_run run reason d)) i = Some h"
      "row_get (dk_handoffs (cancel_handoffs_for_run run reason d)) j = Some h'"
      "is_active h" "is_active h'" "hh_conversation h = hh_conversation h'"
    from old [OF a(1,3)] old [OF a(2,4)] a(5) assms show "i = j"
      unfolding handoffs_unique_def by metis
  qed
qed

lemma create_unique:
  assumes "handoffs_unique (dk_handoffs d)" and "handoffs_unique (dk_handoffs (other d))"
  shows "handoffs_unique (dk_handoffs
    (fst (create_or_reuse_handoff other now ws conv cws reason summary run tick req d)))"
proof (rule create_cases [of other now ws conv cws reason summary run tick req d])
  fix h :: handoff
  assume free: "active_handoff conv (other d) = None" and "hh_conversation h = conv"
    and new: "dk_handoffs (fst (create_or_reuse_handoff other now ws conv cws reason summary run tick req d)) =
      row_put (fresh_id (dk_handoffs (other d))) h (dk_handoffs (other d))"
  have "distinct (row_ids (dk_handoffs (other d)))" using assms(2) by (simp add: handoffs_unique_def)
  from active_handoff_None [OF this free] \<open>hh_conversation h = conv\<close>
  have "handoffs_unique (row_put (fresh_id (dk_handoffs (other d))) h (dk_handoffs (other d)))"
    by (intro insert_unique [OF assms(2)]) simp
  with new show ?thesis by (simp only:)
qed (use assms in \<open>simp_all only:\<close>)

lemma create_final:
  assumes "row_get (dk_handoffs d) i = Some h" and "row_get (dk_handoffs (other d)) i = Some h"
  shows "row_get (dk_handoffs
    (fst (create_or_reuse_handoff other now ws conv cws reason summary run tick req d))) i = Some h"
  by (rule create_cases [of other now ws conv cws reason summary run tick req d])
    (use assms row_get_neq_fresh [OF assms(2)] in simp_all)

lemma path_unique:
  "handoff_path d d' \<Longrightarrow> handoffs_unique (dk_handoffs d) \<Longrightarrow> handoffs_unique (dk_handoffs d')"
proof (induction rule: handoff_path.induct)
  case (hp_create d d' other now ws conv cws reason summary run tick req)
  then show ?case by (intro create_unique) auto
next
  case (hp_assign d d' ws actor amid amb i target req)
  then show ?case by (intro one_rewritten_unique [OF assign_one_rewritten]) auto
next
  case (hp_resolve d d' now ws actor amb i req)
  then show ?case by (intro one_rewritten_unique [OF resolve_one_rewritten]) auto
next
  case (hp_cancel d d' run reason)
  then show ?case by (intro cancel_unique) auto
qed

lemma active_handoff_is:
  assumes "handoffs_unique (dk_handoffs d)" and "row_get (dk_handoffs d) i = Some h" and "is_active h"
    and "hh_conversation h = conv"
  shows "active_handoff conv d = Some (i, h)"
proof (cases "active_handoff conv d")
  case None
  with assms show ?thesis using active_handoff_None by (metis handoffs_unique_def)
next
  case (Some p)
  obtain j h' where p: "p = (j, h')" by fastforce
  from Some p have "(j, h') \<in> set (dk_handoffs d)" "is_active h'" "hh_conversation h' = conv"
    by (auto simp: active_handoff_def is_active_def find_Some_iff) (metis nth_mem)
  with assms have "row_get (dk_handoffs d) j = Some h'" by (simp add: handoffs_unique_def row_ids_def)
  with assms \<open>is_active h'\<close> \<open>hh_conversation h' = conv\<close> have "j = i"
    unfolding handoffs_unique_def by metis
  with \<open>row_get (dk_handoffs d) j = Some h'\<close> assms(2) Some p show ?thesis by simp
qed

text \<open>The arguments of a creation belong to its workspace.\<close>

definition same_workspace :: "nat \<Rightarrow> nat \<Rightarrow> (nat \<times> nat) option \<Rightarrow> (nat \<times> nat) option \<Rightarrow> bool" where
  "same_workspace ws conv_ws run tick \<longleftrightarrow> conv_ws = ws \<and> (\<forall>r. run = Some r \<longrightarrow> snd r = ws) \<and>
    (\<forall>t. tick = Some t \<longrightarrow> snd t = ws)"

lemma active_reused:
  assumes "handoffs_unique (dk_handoffs d)" and "row_get (dk_handoffs d) i = Some h" and "is_active h"
    and "same_workspace ws cws run tick"
  shows "create_or_reuse_handoff other now ws (hh_conversation h) cws reason summary run tick req d = (d, Inr (i, False))"
  using assms active_handoff_is [OF assms(1-3) refl]
  by (auto simp: create_or_reuse_handoff_def same_workspace_def split: option.split)

lemma lost_race_reused:
  assumes "active_handoff (hh_conversation h) d = None" and "handoffs_unique (dk_handoffs (other d))"
    and "row_get (dk_handoffs (other d)) i = Some h" and "is_active h" and "same_workspace ws cws run tick"
  shows "create_or_reuse_handoff other now ws (hh_conversation h) cws reason summary run tick req d =
    (other d, Inr (i, False))"
  using assms active_handoff_is [OF assms(2-4) refl]
  by (auto simp: create_or_reuse_handoff_def same_workspace_def split: option.split)

text \<open>C18. A conversation has at most one active handoff, whatever sequence of creations, assignments,
  resolutions and cancellations runs, also when others commit such a sequence between the lookup
  and the insertion of a creation. While it is active, a creation for its conversation returns that
  handoff, as not created, and writes nothing; and a creation that finds none and loses the race to
  another transaction returns the handoff that one committed.\<close>

theorem one_active_handoff_per_conversation:
  assumes "handoff_path d d'" and "handoffs_unique (dk_handoffs d)"
  shows "handoffs_unique (dk_handoffs d') \<and>
    (\<forall>i h other now ws cws reason summary run tick req. row_get (dk_handoffs d') i = Some h \<and> is_active h \<and>
      same_workspace ws cws run tick \<longrightarrow>
      create_or_reuse_handoff other now ws (hh_conversation h) cws reason summary run tick req d' = (d', Inr (i, False))) \<and>
    (\<forall>i h other now ws cws reason summary run tick req. active_handoff (hh_conversation h) d' = None \<and>
      handoff_path d' (other d') \<and> row_get (dk_handoffs (other d')) i = Some h \<and> is_active h \<and>
      same_workspace ws cws run tick \<longrightarrow>
      create_or_reuse_handoff other now ws (hh_conversation h) cws reason summary run tick req d' =
        (other d', Inr (i, False)))"
  using path_unique [OF assms] by (auto intro: active_reused lost_race_reused path_unique)

definition empty_desk :: desk where
  "empty_desk = \<lparr>dk_conversations = [], dk_messages = [], dk_tickets = [], dk_handoffs = [], dk_effects = []\<rparr>"

definition first_handoff :: desk where
  "first_handoff = fst (create_or_reuse_handoff (\<lambda>d. d) 0 2 5 2 ''low_confidence'' ''unsure'' None None None empty_desk)"

lemma first_handoff_rows:
  "dk_handoffs first_handoff = [(Suc 0,
    \<lparr>hh_workspace = 2, hh_conversation = 5, hh_run = None, hh_ticket = None, hh_status = HH_PENDING,
     hh_reason = ''low_confidence'', hh_summary = take 500 (py_strip ''unsure''), hh_assigned_to = None,
     hh_created_at = 0, hh_resolved_at = None\<rparr>)]"
  by (simp add: first_handoff_def create_or_reuse_handoff_def active_handoff_def empty_desk_def Let_def
      fits_def fresh_id_def jot_def)

theorem one_active_handoff_per_conversation_witness:
  "handoffs_unique (dk_handoffs (fst (create_or_reuse_handoff (\<lambda>d. d) 7 2 5 2 ''low_confidence'' ''again''
      None None None first_handoff))) \<and>
   snd (create_or_reuse_handoff (\<lambda>d. d) 7 2 5 2 ''low_confidence'' ''again'' None None None first_handoff) =
     Inr (Suc 0, False)"
proof
  have path: "handoff_path first_handoff (fst (create_or_reuse_handoff (\<lambda>d. d) 7 2 5 2 ''low_confidence''
      ''again'' None None None first_handoff))"
    by (intro handoff_path.intros)
  have first: "handoffs_unique (dk_handoffs first_handoff)"
    by (simp add: first_handoff_rows handoffs_unique_def row_ids_def)
  show "handoffs_unique (dk_handoffs (fst (create_or_reuse_handoff (\<lambda>d. d) 7 2 5 2 ''low_confidence''
      ''again'' None None None first_handoff)))"
    using one_active_handoff_per_conversation [OF path first] by blast
  obtain h where h: "row_get (dk_handoffs first_handoff) (Suc 0) = Some h" "is_active h" "hh_conversation h = 5"
    by (simp add: first_handoff_rows is_active_def handoff_active_def)
  have "same_workspace 2 2 None None" by (simp add: same_workspace_def)
  with one_active_handoff_per_conversation [OF handoff_path.intros(1) first] h
  have "create_or_reuse_handoff (\<lambda>d. d) 7 2 (hh_conversation h) 2 ''low_confidence'' ''again'' None None None first_handoff =
    (first_handoff, Inr (Suc 0, False))" by blast
  with h(3) show "snd (create_or_reuse_handoff (\<lambda>d. d) 7 2 5 2 ''low_confidence'' ''again'' None None None first_handoff) =
     Inr (Suc 0, False)" by simp
qed

lemma one_rewritten_keeps:
  "one_rewritten (dk_handoffs d) (dk_handoffs d') \<Longrightarrow> row_get (dk_handoffs d) i = Some h \<Longrightarrow>
    \<not> is_active h \<Longrightarrow> row_get (dk_handoffs d') i = Some h"
  by (rule one_rewritten_final)

lemma handoff_path_distinct:
  "handoff_path d d' \<Longrightarrow> distinct (row_ids (dk_handoffs d)) \<Longrightarrow> distinct (row_ids (dk_handoffs d'))"
proof (induction rule: handoff_path.induct)
  case (hp_create d d' other now ws conv cws reason summary run tick req)
  show ?case
    by (rule create_cases [of other now ws conv cws reason summary run tick req d'])
      (use hp_create in \<open>simp_all add: distinct_row_put\<close>)
next
  case (hp_assign d d' ws actor amid amb i target req)
  then show ?case using assign_one_rewritten [of d' ws actor amid amb i target req]
    by (auto simp: one_rewritten_def)
next
  case (hp_resolve d d' now ws actor amb i req)
  then show ?case using resolve_one_rewritten [of d' now ws actor amb i req]
    by (auto simp: one_rewritten_def)
next
  case (hp_cancel d d' run reason)
  then show ?case by (simp add: cancel_handoffs_get(2))
qed

text \<open>A handoff that was resolved or cancelled is final: no sequence of handoff services changes
  its row, so a human decision is never reopened or reassigned.\<close>

theorem closed_handoff_is_final:
  assumes "handoff_path d d'" and "distinct (row_ids (dk_handoffs d))"
    and "row_get (dk_handoffs d) i = Some h" and "hh_status h = HH_RESOLVED \<or> hh_status h = HH_CANCELLED"
  shows "row_get (dk_handoffs d') i = Some h"
  using assms
proof (induction rule: handoff_path.induct)
  case (hp_create d d' other now ws conv cws reason summary run tick req)
  have "row_get (dk_handoffs d') i = Some h" using hp_create by simp
  moreover from hp_create.IH(2) this hp_create have "row_get (dk_handoffs (other d')) i = Some h"
    using handoff_path_distinct by blast
  ultimately show ?case by (rule create_final)
next
  case (hp_assign d d' ws actor amid amb i' target req)
  then show ?case
    by (intro one_rewritten_keeps [OF assign_one_rewritten]) (auto simp: is_active_def handoff_active_def)
next
  case (hp_resolve d d' now ws actor amb i' req)
  then show ?case
    by (intro one_rewritten_keeps [OF resolve_one_rewritten]) (auto simp: is_active_def handoff_active_def)
next
  case (hp_cancel d d' run reason)
  then show ?case
    using handoff_path_distinct [OF hp_cancel(1)]
    by (auto simp: cancel_handoffs_get(1) is_active_def handoff_active_def)
qed simp

theorem closed_handoff_is_final_witness:
  "let closed = first_handoff\<lparr>dk_handoffs := update_where (\<lambda>i h. True) (\<lambda>h. h\<lparr>hh_status := HH_RESOLVED\<rparr>)
      (dk_handoffs first_handoff)\<rparr>
   in row_get (dk_handoffs (fst (create_or_reuse_handoff (\<lambda>d. d) 7 2 5 2 ''low_confidence'' ''again''
      None None None closed))) (Suc 0) = row_get (dk_handoffs closed) (Suc 0)"
  unfolding Let_def
  by (subst closed_handoff_is_final [OF hp_create [OF hp_refl hp_refl], where i = "Suc 0"])
    (simp_all add: first_handoff_rows row_ids_def update_where_def)

subsection \<open>Tickets\<close>

lemma agent_edits_status [simp]:
  "tk_status (agent_edits p n t) = tk_status t" "tk_resolved_at (agent_edits p n t) = tk_resolved_at t"
  by (simp_all add: agent_edits_def Let_def split: option.splits)

lemma save_ticket_full_get:
  assumes "save_ticket_full k t d = Inr d'"
  shows "row_get (dk_tickets d') k = Some (t\<lparr>tk_subject := py_strip (tk_subject t)\<rparr>)"
  using assms by (auto simp: save_ticket_full_def Let_def split: if_splits)

lemma save_ticket_get:
  assumes "save_ticket k f d = Inr d'" and "row_get (dk_tickets d) k = Some t"
  shows "row_get (dk_tickets d') k = Some (f t)"
  using assms by (auto simp: save_ticket_def)

definition follows_table :: "ticket \<Rightarrow> ticket \<Rightarrow> bool" where
  "follows_table t r \<longleftrightarrow>
    (tk_status r = tk_status t \<or> tk_status r \<in> set (ticket_transitions (tk_status t))) \<and>
    (tickets.stamped t \<longrightarrow> tickets.stamped r)"

lemma move_follows:
  "new \<in> set (ticket_transitions (tk_status t)) \<Longrightarrow>
    tk_status r = tk_status (move_ticket new now t) \<Longrightarrow>
    tk_resolved_at r = tk_resolved_at (move_ticket new now t) \<Longrightarrow> follows_table t r"
  using tickets.move_stamped [of t new now]
  by (simp add: follows_table_def tickets.stamped_def tickets.status_move)

lemma keep_follows:
  "tk_status r = tk_status t \<Longrightarrow> tk_resolved_at r = tk_resolved_at t \<Longrightarrow> follows_table t r"
  by (simp add: follows_table_def tickets.stamped_def)

lemma change_status_follows:
  assumes "change_ticket_status now ws actor amid amb k t new req d = (d', Inr t')"
    and "row_get (dk_tickets d) k = Some t"
  shows "\<exists>r. row_get (dk_tickets d') k = Some r \<and> follows_table t r"
  using assms
  by (auto simp: change_ticket_status_def atomic_def Let_def save_ticket_def
      split: if_splits option.splits sum.splits prod.splits intro!: move_follows)

lemma edits_follow [simp]: "follows_table t (agent_edits p n t)"
  by (rule keep_follows) simp_all

lemma move_edits_follow:
  "new \<in> set (ticket_transitions (tk_status t)) \<Longrightarrow> follows_table t (move_ticket new now (agent_edits p n t))"
  by (rule move_follows [where now = now and new = new]) (simp_all add: move_ticket_def)

lemma agent_update_saves:
  assumes "apply_agent_ticket_update now ws k t actor priority status remark d = (d', Inr t')"
  shows "\<exists>d1. save_ticket_full k t' d = Inr d1 \<and> dk_tickets d' = dk_tickets d1 \<and> follows_table t t'"
  using assms
  by (auto simp: apply_agent_ticket_update_def atomic_def Let_def
      split: if_splits option.splits sum.splits prod.splits intro!: move_edits_follow)

lemma agent_update_follows:
  assumes "apply_agent_ticket_update now ws k t actor priority status remark d = (d', Inr t')"
  shows "\<exists>r. row_get (dk_tickets d') k = Some r \<and> follows_table t r"
proof -
  obtain d1 where "save_ticket_full k t' d = Inr d1" "dk_tickets d' = dk_tickets d1" "follows_table t t'"
    using agent_update_saves [OF assms] by blast
  then show ?thesis
    by (auto dest!: save_ticket_full_get simp: follows_table_def tickets.stamped_def)
qed

text \<open>A successful status change, by a member or by an agent's tool, on an instance that is
  current follows \<open>TICKET_STATUS_TRANSITIONS\<close>, and a ticket keeps a resolution time exactly while
  it is RESOLVED.\<close>

theorem ticket_status_discipline:
  assumes "row_get (dk_tickets d) k = Some t"
    and "tk_resolved_at t \<noteq> None \<longleftrightarrow> tk_status t = TK_RESOLVED"
    and "change_ticket_status now ws actor amid amb k t new req d = (d', Inr t') \<or>
      apply_agent_ticket_update now ws k t who priority status remark d = (d', Inr t')"
  shows "\<exists>r. row_get (dk_tickets d') k = Some r \<and>
    (tk_status r = tk_status t \<or> tk_status r \<in> set (ticket_transitions (tk_status t))) \<and>
    (tk_resolved_at r \<noteq> None \<longleftrightarrow> tk_status r = TK_RESOLVED)"
  using assms change_status_follows [of now ws actor amid amb k t new req d d' t']
    agent_update_follows [of now ws k t who priority status remark d d' t']
  by (simp add: follows_table_def tickets.stamped_def) blast

definition open_ticket :: ticket where
  "open_ticket = \<lparr>tk_workspace = 2, tk_customer = 3, tk_conversation = None, tk_subject = ''late order'',
     tk_description = [], tk_status = TK_OPEN, tk_priority = ''normal'', tk_assigned_to = None,
     tk_due_at = None, tk_resolved_at = None, tk_metadata = JObj []\<rparr>"

definition ticket_desk :: "ticket_status \<Rightarrow> desk" where
  "ticket_desk st = empty_desk\<lparr>dk_tickets := [(4, open_ticket\<lparr>tk_status := st\<rparr>)]\<rparr>"

definition manager :: membership where
  "manager = \<lparr>mb_workspace = 2, mb_role = SUPPORT_MANAGER\<rparr>"

lemma ticket_desk_get [simp]:
  "row_get (dk_tickets (ticket_desk st)) 4 = Some (open_ticket\<lparr>tk_status := st\<rparr>)"
  by (simp add: ticket_desk_def)

lemma open_ticket_fields [simp]:
  "open_ticket\<lparr>tk_status := TK_OPEN\<rparr> = open_ticket" "tk_status open_ticket = TK_OPEN"
  "tk_resolved_at open_ticket = None"
  by (simp_all add: open_ticket_def)

lemma resolve_open_ticket:
  "change_ticket_status 9 2 6 8 manager 4 open_ticket TK_RESOLVED None (ticket_desk st) =
    (jot (record_event ''ticket.resolved'' ''ticket'' 4 (Some 6) (Some 2)
       (JObj [(''old_status'', JStr ''open''), (''new_status'', JStr ''resolved'')]) None)
      (empty_desk\<lparr>dk_tickets := [(4, open_ticket\<lparr>tk_status := TK_RESOLVED, tk_resolved_at := Some 9\<rparr>)]\<rparr>),
     Inr (open_ticket\<lparr>tk_status := TK_RESOLVED, tk_resolved_at := Some 9\<rparr>))"
  by (simp add: change_ticket_status_def atomic_def may_mutate_def manager_def reassign_roles_def
      open_ticket_def move_ticket_def save_ticket_def ticket_desk_def empty_desk_def ticket_action_def Let_def)

theorem ticket_status_discipline_witness:
  "\<exists>r. row_get (dk_tickets (fst (change_ticket_status 9 2 6 8 manager 4 open_ticket TK_RESOLVED None
      (ticket_desk TK_OPEN)))) 4 = Some r \<and> tk_status r = TK_RESOLVED \<and> tk_resolved_at r \<noteq> None"
  using ticket_status_discipline [of "ticket_desk TK_OPEN" 4 open_ticket, OF _ _ disjI1 [OF resolve_open_ticket]]
  by (simp add: resolve_open_ticket)

text \<open>The ticket services trust the instance their caller loaded: a request that read the ticket as
  OPEN resolves it although it is CLOSED by now, a step that \<open>TICKET_STATUS_TRANSITIONS\<close> forbids, and
  the audit entry records the status of the stale copy.\<close>

theorem stale_ticket_bypasses_the_table:
  "\<exists>inst d r. row_get (dk_tickets d) 4 = Some (inst\<lparr>tk_status := TK_CLOSED\<rparr>) \<and>
    row_get (dk_tickets (fst (resolve_ticket 9 2 6 8 manager 4 inst None d))) 4 = Some r \<and>
    tk_status r = TK_RESOLVED \<and> TK_RESOLVED \<notin> set (ticket_transitions TK_CLOSED) \<and>
    dk_effects (fst (resolve_ticket 9 2 6 8 manager 4 inst None d)) =
      [record_event ''ticket.resolved'' ''ticket'' 4 (Some 6) (Some 2)
        (JObj [(''old_status'', JStr ''open''), (''new_status'', JStr ''resolved'')]) None]"
  by (rule exI [of _ open_ticket], rule exI [of _ "ticket_desk TK_CLOSED"])
    (simp add: resolve_ticket_def resolve_open_ticket, simp add: jot_def empty_desk_def)

subsection \<open>Conversations\<close>

text \<open>A message keeps a conversation consistent: on a current instance an inbound message reopens
  a closed conversation, no other message changes the status, the closing time exists exactly while
  it is CLOSED, and the message is stored once with its author.\<close>

theorem message_reopens_conversation:
  assumes "row_get (dk_conversations d) k = Some c"
    and "cv_closed_at c \<noteq> None \<longleftrightarrow> cv_status c = CV_CLOSED"
    and "create_message now ws k c who dir body sender ext meta d = (d', Inr m)"
  shows "(\<exists>c'. row_get (dk_conversations d') k = Some c' \<and> cv_last_message_at c' = Some now \<and>
      cv_status c' = (if dir = INBOUND \<and> cv_status c = CV_CLOSED then CV_OPEN else cv_status c) \<and>
      (cv_closed_at c' \<noteq> None \<longleftrightarrow> cv_status c' = CV_CLOSED)) \<and>
    (\<exists>x. row_get (dk_messages d) m = None \<and> dk_messages d' = row_put m x (dk_messages d) \<and>
      ms_conversation x = k \<and> ms_body x = body \<and> ms_sender x = map_option fst sender)"
  using assms
  by (auto simp: create_message_def atomic_def Let_def save_conversation_def reopens_def
      split: if_splits option.splits sum.splits prod.splits)

definition closed_conversation :: conversation where
  "closed_conversation = \<lparr>cv_workspace = 2, cv_customer = 3, cv_channel = ''web'', cv_status = CV_CLOSED,
     cv_subject = [], cv_assigned_to = None, cv_external_id = None, cv_last_message_at = None,
     cv_closed_at = Some 1, cv_metadata = JObj []\<rparr>"

definition closed_desk :: desk where
  "closed_desk = empty_desk\<lparr>dk_conversations := [(5, closed_conversation)]\<rparr>"

theorem message_reopens_conversation_witness:
  "\<exists>c'. row_get (dk_conversations (fst (create_inbound_message 9 2 5 closed_conversation ''hello'' None
      JNull closed_desk))) 5 = Some c' \<and> cv_status c' = CV_OPEN \<and> cv_closed_at c' = None"
proof -
  obtain d' m where r: "create_message 9 2 5 closed_conversation SND_CUSTOMER INBOUND ''hello'' None None
      JNull closed_desk = (d', Inr m)"
    by (simp add: create_message_def atomic_def closed_conversation_def closed_desk_def empty_desk_def
        save_conversation_def Let_def)
  show ?thesis
    using message_reopens_conversation [OF _ _ r]
    by (simp add: create_inbound_message_def r) (fastforce simp: closed_desk_def closed_conversation_def)
qed

end
