(* ===== verification/Providers.thy ===== *)
theory Providers
  imports Redaction PolicyEngine Platform
begin

section \<open>Model providers: the contracts the runtime depends on\<close>

text \<open>
  \<open>agents/providers/schemas.py\<close> and \<open>errors.py\<close>, and \<open>agents/tool_runtime.py\<close>, which turns the outcome of
  a tool into the message of the next model turn. A provider itself is a function of the model: what
  it answers is arbitrary. A cost is the decimal that \<open>str()\<close> shows for the reported float; sums are
  exact for amounts of up to 15 significant digits, which is all that \<open>Decimal(str(x))\<close> and back keeps.
\<close>

subsection \<open>Errors\<close>

record provider_error =
  px_code :: string
  px_message :: string
  px_retryable :: bool

definition ProviderRateLimitedError :: provider_error where
  "ProviderRateLimitedError = \<lparr>px_code = ''provider_rate_limited'',
     px_message = ''The AI provider is rate-limiting requests.'', px_retryable = True\<rparr>"

definition ProviderTimeoutError :: provider_error where
  "ProviderTimeoutError = \<lparr>px_code = ''provider_timeout'',
     px_message = ''The AI provider did not respond in time.'', px_retryable = True\<rparr>"

definition ProviderTemporarilyUnavailableError :: provider_error where
  "ProviderTemporarilyUnavailableError = \<lparr>px_code = ''provider_temporarily_unavailable'',
     px_message = ''The AI provider is temporarily unavailable.'', px_retryable = True\<rparr>"

definition ProviderAuthenticationError :: provider_error where
  "ProviderAuthenticationError = \<lparr>px_code = ''provider_authentication_failed'',
     px_message = ''The AI provider rejected the configured credentials.'', px_retryable = False\<rparr>"

definition ProviderMalformedResponseError :: provider_error where
  "ProviderMalformedResponseError = \<lparr>px_code = ''provider_malformed_response'',
     px_message = ''The AI provider returned a malformed response.'', px_retryable = False\<rparr>"

subsection \<open>Requests and responses\<close>

datatype message_role = RoleSystem | RoleUser | RoleAssistant

type_synonym llm_message = "message_role \<times> string"

record llm_request =
  rq_messages :: "llm_message list"
  rq_tools :: "string list"
  rq_timeout :: int

record tool_call =
  tc_call_id :: string
  tc_name :: string
  tc_arguments :: arguments
  tc_error :: "string option"

record handoff_call =
  hc_reason :: string
  hc_summary :: string

record llm_response =
  lr_text :: string
  lr_finish_reason :: string
  lr_input_tokens :: int
  lr_output_tokens :: int
  lr_total_tokens :: int
  lr_request_id :: "string option"
  lr_structured :: "json option"
  lr_cost :: "rat option"
  lr_tool_calls :: "tool_call list"
  lr_handoff :: "handoff_call option"

definition max_handoff_summary_chars :: nat where
  "max_handoff_summary_chars = 2000"

definition normalize_handoff_request :: "json \<Rightarrow> json \<Rightarrow> handoff_call option" where
  "normalize_handoff_request reason summary =
    (case (reason, summary) of
       (JStr r, JStr s) \<Rightarrow>
         (let r' = py_strip r; s' = take max_handoff_summary_chars (py_strip s)
          in if r' = [] \<or> s' = [] then None else Some \<lparr>hc_reason = r', hc_summary = s'\<rparr>)
     | _ \<Rightarrow> None)"

definition max_tool_argument_bytes :: nat where
  "max_tool_argument_bytes = 8000"

text \<open>
  \<open>loads\<close> is \<open>json.loads\<close>, \<open>dumps\<close> is \<open>json.dumps(\<dots>, default=str)\<close>; \<open>None\<close> is any of the exceptions the
  code catches. Text is a list of bytes here.
\<close>

definition normalize_tool_call ::
  "(string \<Rightarrow> json option) \<Rightarrow> (json \<Rightarrow> string option) \<Rightarrow> string \<Rightarrow> string \<Rightarrow> json \<Rightarrow> tool_call" where
  "normalize_tool_call loads dumps call_id key raw =
    (case (case raw of
             JStr s \<Rightarrow> if length s > max_tool_argument_bytes then None else loads s
           | JObj kvs \<Rightarrow>
               (case dumps raw of
                  None \<Rightarrow> None
                | Some s \<Rightarrow> if length s > max_tool_argument_bytes then None else Some raw)
           | _ \<Rightarrow> None) of
       Some (JObj kvs) \<Rightarrow> \<lparr>tc_call_id = call_id, tc_name = key, tc_arguments = kvs, tc_error = None\<rparr>
     | _ \<Rightarrow> \<lparr>tc_call_id = call_id, tc_name = key, tc_arguments = [],
             tc_error = Some ''tool_arguments_malformed''\<rparr>)"

subsection \<open>Tool results as model messages\<close>

datatype tool_result_status = TR_SUCCEEDED | TR_DENIED | TR_FAILED

fun tool_result_status_value :: "tool_result_status \<Rightarrow> string" where
  "tool_result_status_value TR_SUCCEEDED = ''succeeded''"
| "tool_result_status_value TR_DENIED = ''denied''"
| "tool_result_status_value TR_FAILED = ''failed''"

record tool_result_context =
  trc_tool_key :: string
  trc_status :: tool_result_status
  trc_result :: json
  trc_error_code :: string

text \<open>The dash of the preamble is one character, written here with the code \<open>0x97\<close>.\<close>

definition tool_result_preamble :: string where
  "tool_result_preamble = ''TOOL RESULT '' @ [CHR 0x97] @ '' UNTRUSTED EXTERNAL DATA''"

definition tool_result_end :: string where
  "tool_result_end = ''END TOOL RESULT''"

definition newline :: char where
  "newline = CHR 0x0A"

definition result_payload :: "tool_result_context \<Rightarrow> json" where
  "result_payload c = JObj
     [(''tool'', JStr (trc_tool_key c)), (''status'', JStr (tool_result_status_value (trc_status c))),
      (''error_code'', JStr (trc_error_code c)),
      (''data'', redact [] (if py_truthy (trc_result c) then trc_result c else JObj []))]"

definition as_model_message :: "py_runtime \<Rightarrow> nat \<Rightarrow> tool_result_context \<Rightarrow> string" where
  "as_model_message rt limit c =
    (let prefix = tool_result_preamble @ [newline];
         suffix = newline # tool_result_end;
         available = limit - length prefix - length suffix
     in prefix @ take available (rt_dumps rt (result_payload c)) @ suffix)"

text \<open>Reading a message back: the three lines of the frame.\<close>

definition unframe :: "string \<Rightarrow> string option" where
  "unframe s =
    (let prefix = tool_result_preamble @ [newline]; suffix = newline # tool_result_end
     in if take (length prefix) s = prefix \<and> drop (length s - length suffix) s = suffix \<and>
           length prefix + length suffix \<le> length s
        then Some (take (length s - length prefix - length suffix) (drop (length prefix) s)) else None)"

lemma unframe_frame:
  "unframe (tool_result_preamble @ [newline] @ p @ newline # tool_result_end) = Some p"
  by (simp add: unframe_def Let_def)

lemma frame_sizes: "length tool_result_preamble = 37" "length tool_result_end = 15"
  by (simp_all add: tool_result_preamble_def tool_result_end_def)


text \<open>C17. A tool result reaches the model framed as untrusted data and within the configured size: the message
  never exceeds the limit, its first and last line are the fixed markers whatever the tool returned, and
  reading the frame back gives the serialized result, cut only at the size that is left for it. (The
  settings refuse a limit below 64.)\<close>

theorem model_message_roundtrip:
  assumes "54 \<le> limit"
  shows "length (as_model_message rt limit c) \<le> limit \<and>
    unframe (as_model_message rt limit c) = Some (take (limit - 54) (rt_dumps rt (result_payload c)))"
proof -
  have "as_model_message rt limit c =
      tool_result_preamble @ [newline] @ take (limit - 54) (rt_dumps rt (result_payload c)) @ newline # tool_result_end"
    by (simp add: as_model_message_def Let_def frame_sizes)
  moreover have "37 + (1 + (min (length (rt_dumps rt (result_payload c))) (limit - 54) + (1 + 15))) \<le> limit"
    using assms by linarith
  ultimately show ?thesis using unframe_frame by (simp add: frame_sizes)
qed

lemma model_message_roundtrip_witness:
  "unframe (as_model_message example_runtime 60 \<lparr>trc_tool_key = ''t'', trc_status = TR_SUCCEEDED,
      trc_result = JNull, trc_error_code = []\<rparr>) = Some ''d''"
  using model_message_roundtrip [of 60 example_runtime "\<lparr>trc_tool_key = ''t'', trc_status = TR_SUCCEEDED,
      trc_result = JNull, trc_error_code = []\<rparr>"]
  by (simp add: example_runtime_def)

end
