(* ===== verification/AgentGraph.thy ===== *)
theory AgentGraph
  imports Providers
begin

section \<open>The bounded turn loop of an agent run\<close>

text \<open>
  \<open>agents/runtime/graph.py\<close>, \<open>budgets.py\<close> and \<open>state.py\<close>. Every node of the graph is a function of the
  typed state and of the world \<open>'w\<close> its callbacks act on (in the service: the database); a node returns
  the merged state. LangGraph itself is not part of the repository: it runs one node per superstep,
  follows the edge the node's router names, and raises \<open>GraphRecursionError\<close> when the recursion limit
  is used up with work left, which is the fuel of \<open>graph_loop\<close>.
\<close>

subsection \<open>Budgets\<close>

record budgets =
  bg_max_model_calls :: int
  bg_max_steps :: int
  bg_wall_time :: int
  bg_provider_timeout :: int
  bg_max_total_tokens :: "int option"
  bg_max_cost :: "rat option"
  bg_max_retry_attempts :: int

text \<open>The reason of a refusal, \<open>None\<close> when another model call is allowed.\<close>

definition check_budget ::
  "budgets \<Rightarrow> int \<Rightarrow> int \<Rightarrow> int \<Rightarrow> rat option \<Rightarrow> rat \<Rightarrow> string option" where
  "check_budget b calls steps tokens cost elapsed =
    (if calls \<ge> bg_max_model_calls b then Some ''max_model_calls_reached''
     else if steps \<ge> bg_max_steps b then Some ''max_steps_reached''
     else if elapsed \<ge> of_int (bg_wall_time b) then Some ''wall_time_limit_reached''
     else if (case bg_max_total_tokens b of None \<Rightarrow> False | Some m \<Rightarrow> tokens \<ge> m)
     then Some ''max_total_tokens_reached''
     else if (case (bg_max_cost b, cost) of (Some m, Some c) \<Rightarrow> c \<ge> m | _ \<Rightarrow> False)
     then Some ''max_estimated_cost_reached''
     else None)"

subsection \<open>State\<close>

record pending_call =
  pc_call_id :: string
  pc_name :: string
  pc_arguments :: arguments
  pc_error :: "string option"
  pc_key :: "string option"

record rt_state =
  rs_input_message :: string
  rs_model_calls :: int
  rs_steps :: int
  rs_in_tokens :: int
  rs_out_tokens :: int
  rs_tokens :: int
  rs_est_cost :: "rat option"
  rs_attempt :: int
  rs_final :: string
  rs_finish :: string
  rs_structured_output :: "json option"
  rs_provider_request :: "string option"
  rs_budget_exceeded :: bool
  rs_budget_reason :: "string option"
  rs_error_code :: "string option"
  rs_error_message :: "string option"
  rs_retryable :: bool
  rs_cancelled :: bool
  rs_pending_call :: "pending_call option"
  rs_tool_result :: "string option"
  rs_pending_handoff :: "handoff_call option"
  rs_handoff_request :: "handoff_call option"

definition initial_state :: "string \<Rightarrow> rt_state" where
  "initial_state msg =
    \<lparr>rs_input_message = msg, rs_model_calls = 0, rs_steps = 0, rs_in_tokens = 0, rs_out_tokens = 0,
     rs_tokens = 0, rs_est_cost = None, rs_attempt = 0, rs_final = [], rs_finish = [],
     rs_structured_output = None, rs_provider_request = None, rs_budget_exceeded = False,
     rs_budget_reason = None, rs_error_code = None, rs_error_message = None, rs_retryable = False,
     rs_cancelled = False, rs_pending_call = None, rs_tool_result = None, rs_pending_handoff = None,
     rs_handoff_request = None\<rparr>"

definition resume_state_after_tool ::
  "string \<Rightarrow> int \<Rightarrow> int \<Rightarrow> int \<Rightarrow> int \<Rightarrow> int \<Rightarrow> rat option \<Rightarrow> string \<Rightarrow> rt_state" where
  "resume_state_after_tool msg calls steps tin tout tokens cost summary =
    (initial_state msg)\<lparr>rs_model_calls := calls, rs_steps := steps, rs_in_tokens := tin,
       rs_out_tokens := tout, rs_tokens := tokens, rs_est_cost := cost, rs_tool_result := Some summary\<rparr>"

subsection \<open>Callbacks\<close>

datatype tool_outcome =
    NeedsApproval string string
  | OutOfBudget string
  | TerminalOutcome string string
  | ModelResult string tool_result_status string bool

datatype handoff_verdict = HandoffOk string string | HandoffBad string string

text \<open>How a graph fails: an exception left a node, or the recursion limit was reached.\<close>

datatype graph_exc = NodeCrash | GraphRecursionError

text \<open>\<open>None\<close> as the result of a callback or a node stands for an exception it lets through.\<close>

record 'w run_context =
  rc_budgets :: budgets
  rc_system_prompt :: string
  rc_initial_messages :: "llm_message list option"
  rc_tools :: "string list"
  rc_run_id :: "string option"
  rc_generate :: "llm_request \<Rightarrow> 'w \<Rightarrow> 'w \<times> (provider_error + llm_response) option"
  rc_step :: "string \<Rightarrow> string \<Rightarrow> string \<Rightarrow> json \<Rightarrow> 'w \<Rightarrow> 'w"
  rc_elapsed :: "'w \<Rightarrow> rat"
  rc_execute_tool :: "(string \<Rightarrow> arguments \<Rightarrow> string option \<Rightarrow> 'w \<Rightarrow> 'w \<times> tool_outcome option) option"
  rc_is_cancelled :: "('w \<Rightarrow> bool) option"
  rc_request_handoff :: "(string \<Rightarrow> string \<Rightarrow> handoff_verdict) option"

type_synonym 'w node = "'w \<Rightarrow> 'w \<times> rt_state option"

definition cancelled_now :: "'w run_context \<Rightarrow> 'w \<Rightarrow> bool" where
  "cancelled_now ctx w = (case rc_is_cancelled ctx of None \<Rightarrow> False | Some f \<Rightarrow> f w)"

subsection \<open>Nodes\<close>

definition prepare_run_node :: "'w run_context \<Rightarrow> rt_state \<Rightarrow> 'w node" where
  "prepare_run_node ctx s w =
    (rc_step ctx ''run_started'' ''succeeded'' [] (JObj []) w, Some (s\<lparr>rs_steps := rs_steps s + 1\<rparr>))"

text \<open>A cost of zero reads as no cost (\<open>if state.get("estimated_cost_usd")\<close>).\<close>

definition check_budget_node :: "'w run_context \<Rightarrow> rt_state \<Rightarrow> 'w node" where
  "check_budget_node ctx s w =
    (if cancelled_now ctx w then (w, Some (s\<lparr>rs_cancelled := True\<rparr>))
     else
      (let cost = (case rs_est_cost s of Some c \<Rightarrow> if c = 0 then None else Some c | None \<Rightarrow> None);
           refused = check_budget (rc_budgets ctx) (rs_model_calls s) (rs_steps s) (rs_tokens s) cost
             (rc_elapsed ctx w);
           w' = rc_step ctx ''budget_checked'' (if refused = None then ''succeeded'' else ''failed'') []
             (JObj [(''allowed'', JBool (refused = None)),
                    (''reason'', case refused of None \<Rightarrow> JNull | Some r \<Rightarrow> JStr r)]) w;
           s' = s\<lparr>rs_steps := rs_steps s + 1\<rparr>
       in (w', Some (if refused = None then s'
                    else s'\<lparr>rs_budget_exceeded := True, rs_budget_reason := refused\<rparr>))))"

definition build_request :: "'w run_context \<Rightarrow> rt_state \<Rightarrow> llm_request" where
  "build_request ctx s =
    \<lparr>rq_messages =
       (case rc_initial_messages ctx of
          Some ms \<Rightarrow> ms
        | None \<Rightarrow> (if rc_system_prompt ctx = [] then [] else [(RoleSystem, rc_system_prompt ctx)]) @
                  [(RoleUser, rs_input_message s)]) @
       (case rs_tool_result s of
          None \<Rightarrow> []
        | Some r \<Rightarrow> if r = [] then [] else [(RoleUser, ''[tool_result] '' @ r)]),
     rq_tools = rc_tools ctx, rq_timeout = bg_provider_timeout (rc_budgets ctx)\<rparr>"

text \<open>\<open>agent:<run id>:turn:<n>:<24 digits of the digest of name and arguments>\<close>\<close>

definition tool_call_key :: "py_runtime \<Rightarrow> string option \<Rightarrow> int \<Rightarrow> tool_call \<Rightarrow> string" where
  "tool_call_key rt run turn c =
    ''agent:'' @ (case run of None \<Rightarrow> ''unknown'' | Some r \<Rightarrow> if r = [] then ''unknown'' else r) @
    '':turn:'' @ py_str rt (JInt turn) @ '':'' @
    take 24 (rt_sha256 rt (tc_name c @ '':'' @ rt_dumps rt (JObj (tc_arguments c))))"

definition considered_handoff :: "'w run_context \<Rightarrow> llm_response \<Rightarrow> handoff_call option" where
  "considered_handoff ctx r = (if rc_request_handoff ctx = None then None else lr_handoff r)"

definition considered_call :: "'w run_context \<Rightarrow> llm_response \<Rightarrow> tool_call option" where
  "considered_call ctx r =
    (if considered_handoff ctx r \<noteq> None then None
     else case lr_tool_calls r of [] \<Rightarrow> None | c # _ \<Rightarrow> Some c)"

definition add_cost :: "rat option \<Rightarrow> rat option \<Rightarrow> rat option" where
  "add_cost a b =
    (if a \<noteq> None \<or> b \<noteq> None
     then Some ((case a of None \<Rightarrow> 0 | Some x \<Rightarrow> x) + (case b of None \<Rightarrow> 0 | Some x \<Rightarrow> x)) else None)"

definition response_steps :: "'w run_context \<Rightarrow> llm_response \<Rightarrow> 'w \<Rightarrow> 'w" where
  "response_steps ctx r w =
    (let n = length (lr_tool_calls r); ignored = jid (n - 1);
         w1 = rc_step ctx ''provider_call_succeeded'' ''succeeded'' []
           (JObj [(''input_tokens'', JInt (lr_input_tokens r)), (''output_tokens'', JInt (lr_output_tokens r)),
                  (''finish_reason'', JStr (lr_finish_reason r)), (''tool_calls_received'', jid n),
                  (''tool_calls_considered'', jid (min 1 n)), (''ignored_tool_call_count'', ignored)]) w;
         w2 = (if considered_handoff ctx r = None then w1
               else rc_step ctx ''handoff_requested'' ''succeeded'' []
                 (JObj [(''event'', JStr ''handoff_requested'')]) w1)
     in case considered_call ctx r of
          None \<Rightarrow> w2
        | Some c \<Rightarrow> rc_step ctx ''request_normalized'' ''succeeded'' []
            (JObj [(''event'', JStr ''tool_call_received''), (''tool_key'', JStr (tc_name c)),
                   (''tool_calls_received'', jid n), (''ignored_tool_call_count'', ignored)]) w2)"

definition merge_response :: "py_runtime \<Rightarrow> 'w run_context \<Rightarrow> rt_state \<Rightarrow> llm_response \<Rightarrow> rt_state" where
  "merge_response rt ctx s r = s\<lparr>
     rs_model_calls := rs_model_calls s + 1, rs_steps := rs_steps s + 1, rs_attempt := rs_attempt s + 1,
     rs_in_tokens := rs_in_tokens s + lr_input_tokens r,
     rs_out_tokens := rs_out_tokens s + lr_output_tokens r,
     rs_tokens := rs_tokens s + lr_total_tokens r, rs_est_cost := add_cost (rs_est_cost s) (lr_cost r),
     rs_final := lr_text r, rs_finish := lr_finish_reason r, rs_structured_output := lr_structured r,
     rs_provider_request := lr_request_id r, rs_error_code := None, rs_error_message := None,
     rs_retryable := False,
     rs_pending_call := map_option (\<lambda>c. \<lparr>pc_call_id = tc_call_id c, pc_name = tc_name c,
         pc_arguments = tc_arguments c, pc_error = tc_error c,
         pc_key = Some (tool_call_key rt (rc_run_id ctx) (rs_model_calls s + 1) c)\<rparr>) (considered_call ctx r),
     rs_tool_result := None, rs_pending_handoff := considered_handoff ctx r\<rparr>"

definition generate_response_node :: "py_runtime \<Rightarrow> 'w run_context \<Rightarrow> rt_state \<Rightarrow> 'w node" where
  "generate_response_node rt ctx s w =
    (if rs_budget_exceeded s then (w, Some s)
     else
      (case rc_generate ctx (build_request ctx s)
              (rc_step ctx ''provider_call_started'' ''started'' [] (JObj []) w) of
         (w1, None) \<Rightarrow> (w1, None)
       | (w1, Some (Inl e)) \<Rightarrow>
           (rc_step ctx ''provider_call_failed'' ''failed'' (px_code e) (JObj []) w1,
            Some (s\<lparr>rs_model_calls := rs_model_calls s + 1, rs_steps := rs_steps s + 1,
                   rs_attempt := rs_attempt s + 1, rs_error_code := Some (px_code e),
                   rs_error_message := Some (px_message e), rs_retryable := px_retryable e\<rparr>))
       | (w1, Some (Inr r)) \<Rightarrow> (response_steps ctx r w1, Some (merge_response rt ctx s r))))"

definition or_default :: "string \<Rightarrow> string \<Rightarrow> string" where
  "or_default s dflt = (if s = [] then dflt else s)"

text \<open>The limit of the message is the setting \<open>AGENTS_TOOL_RESULT_MAX_CHARACTERS\<close>.\<close>

definition execute_tool_node :: "py_runtime \<Rightarrow> nat \<Rightarrow> 'w run_context \<Rightarrow> rt_state \<Rightarrow> 'w node" where
  "execute_tool_node rt limit ctx s w =
    (case (rs_pending_call s, rc_execute_tool ctx) of
       (Some c, Some execute) \<Rightarrow>
         (let s0 = s\<lparr>rs_pending_call := None\<rparr>; s1 = s0\<lparr>rs_steps := rs_steps s + 1\<rparr> in
          if cancelled_now ctx w then (w, Some (s0\<lparr>rs_cancelled := True\<rparr>))
          else case (case pc_error c of Some e \<Rightarrow> if e = [] then None else Some e | None \<Rightarrow> None) of
            Some err \<Rightarrow>
              (rc_step ctx ''request_normalized'' ''succeeded'' []
                 (JObj [(''event'', JStr ''tool_result_prepared''), (''tool_key'', JStr (pc_name c)),
                        (''status'', JStr ''failed''), (''error_code'', JStr err)]) w,
               Some (s1\<lparr>rs_tool_result := Some (as_model_message rt limit
                 \<lparr>trc_tool_key = pc_name c, trc_status = TR_FAILED, trc_result = JNull,
                  trc_error_code = err\<rparr>)\<rparr>))
          | None \<Rightarrow>
              (case execute (pc_name c) (pc_arguments c) (pc_key c) w of
                 (w1, None) \<Rightarrow> (w1, None)
               | (w1, Some (NeedsApproval code msg)) \<Rightarrow>
                   (w1, Some (s1\<lparr>rs_error_code := Some (or_default code ''tool_execution_failed''),
                      rs_error_message := Some (or_default msg ''The requested tool failed.''),
                      rs_retryable := False\<rparr>))
               | (w1, Some (OutOfBudget reason)) \<Rightarrow>
                   (w1, Some (s1\<lparr>rs_budget_exceeded := True, rs_budget_reason := Some reason\<rparr>))
               | (w1, Some (TerminalOutcome code msg)) \<Rightarrow>
                   (w1, Some (s1\<lparr>rs_error_code := Some (or_default code ''tool_execution_failed''),
                      rs_error_message := Some (or_default msg ''The requested tool failed.''),
                      rs_retryable := False\<rparr>))
               | (w1, Some (ModelResult m st code reused)) \<Rightarrow>
                   (rc_step ctx ''request_normalized'' ''succeeded'' []
                      (JObj [(''event'', JStr ''tool_result_prepared''), (''tool_key'', JStr (pc_name c)),
                             (''status'', JStr (tool_result_status_value st)), (''error_code'', JStr code),
                             (''reused'', JBool reused)]) w1,
                    Some (s1\<lparr>rs_tool_result := Some m\<rparr>))))
     | _ \<Rightarrow> (w, Some (s\<lparr>rs_pending_call := None\<rparr>)))"

definition handoff_request_node :: "'w run_context \<Rightarrow> rt_state \<Rightarrow> 'w node" where
  "handoff_request_node ctx s w =
    (case (rs_pending_handoff s, rc_request_handoff ctx) of
       (Some h, Some validate) \<Rightarrow>
         (let s0 = s\<lparr>rs_pending_handoff := None\<rparr>; s1 = s0\<lparr>rs_steps := rs_steps s + 1\<rparr> in
          if cancelled_now ctx w then (w, Some (s0\<lparr>rs_cancelled := True\<rparr>))
          else (w, Some (case validate (hc_reason h) (hc_summary h) of
             HandoffBad code msg \<Rightarrow> s1\<lparr>rs_error_code := Some (or_default code ''invalid_handoff_request''),
               rs_error_message := Some (or_default msg ''The handoff request was invalid.''),
               rs_retryable := False\<rparr>
           | HandoffOk reason summary \<Rightarrow>
               s1\<lparr>rs_handoff_request := Some \<lparr>hc_reason = reason, hc_summary = summary\<rparr>\<rparr>)))
     | _ \<Rightarrow> (w, Some (s\<lparr>rs_pending_handoff := None\<rparr>)))"

definition validate_result_node :: "rt_state \<Rightarrow> 'w node" where
  "validate_result_node s w =
    (w, Some (if rs_final s = []
             then s\<lparr>rs_error_code := Some ''provider_malformed_response'',
                    rs_error_message := Some ''The AI provider returned an empty response.'',
                    rs_retryable := False\<rparr>
             else s))"

definition finalize_response_node :: "'w run_context \<Rightarrow> rt_state \<Rightarrow> 'w node" where
  "finalize_response_node ctx s w =
    (rc_step ctx ''response_finalized'' ''succeeded'' [] (JObj []) w,
     Some (s\<lparr>rs_steps := rs_steps s + 1\<rparr>))"

subsection \<open>Edges\<close>

datatype node_name =
  PrepareRun | CheckBudget | GenerateResponse | ExecuteToolCall | ExecuteHandoffRequest
  | ValidateResult | FinalizeResponse

text \<open>\<open>state.get("safe_error_code")\<close> is falsy for an empty code.\<close>

definition has_error :: "rt_state \<Rightarrow> bool" where
  "has_error s \<longleftrightarrow> (case rs_error_code s of None \<Rightarrow> False | Some c \<Rightarrow> c \<noteq> [])"

definition route_after_generate :: "'w run_context \<Rightarrow> rt_state \<Rightarrow> node_name option" where
  "route_after_generate ctx s =
    (if rs_budget_exceeded s then None
     else if has_error s then
       (if rs_retryable s \<and> rs_attempt s < bg_max_retry_attempts (rc_budgets ctx) \<and>
           rs_model_calls s < bg_max_model_calls (rc_budgets ctx)
        then Some CheckBudget else None)
     else if rs_pending_handoff s \<noteq> None \<and> rc_request_handoff ctx \<noteq> None then Some ExecuteHandoffRequest
     else if rs_pending_call s \<noteq> None \<and> rc_execute_tool ctx \<noteq> None then Some ExecuteToolCall
     else Some ValidateResult)"

fun route :: "'w run_context \<Rightarrow> node_name \<Rightarrow> rt_state \<Rightarrow> node_name option" where
  "route ctx PrepareRun s = Some CheckBudget"
| "route ctx CheckBudget s =
    (if rs_budget_exceeded s \<or> rs_cancelled s then None else Some GenerateResponse)"
| "route ctx GenerateResponse s = route_after_generate ctx s"
| "route ctx ExecuteToolCall s =
    (if has_error s \<or> rs_budget_exceeded s \<or> rs_cancelled s then None else Some CheckBudget)"
| "route ctx ExecuteHandoffRequest s = None"
| "route ctx ValidateResult s = (if has_error s then None else Some FinalizeResponse)"
| "route ctx FinalizeResponse s = None"

fun run_node :: "py_runtime \<Rightarrow> nat \<Rightarrow> 'w run_context \<Rightarrow> node_name \<Rightarrow> rt_state \<Rightarrow> 'w node" where
  "run_node rt limit ctx PrepareRun s = prepare_run_node ctx s"
| "run_node rt limit ctx CheckBudget s = check_budget_node ctx s"
| "run_node rt limit ctx GenerateResponse s = generate_response_node rt ctx s"
| "run_node rt limit ctx ExecuteToolCall s = execute_tool_node rt limit ctx s"
| "run_node rt limit ctx ExecuteHandoffRequest s = handoff_request_node ctx s"
| "run_node rt limit ctx ValidateResult s = validate_result_node s"
| "run_node rt limit ctx FinalizeResponse s = finalize_response_node ctx s"

fun graph_loop ::
  "py_runtime \<Rightarrow> nat \<Rightarrow> 'w run_context \<Rightarrow> nat \<Rightarrow> node_name \<Rightarrow> rt_state \<Rightarrow> 'w
    \<Rightarrow> 'w \<times> (graph_exc + rt_state)" where
  "graph_loop rt limit ctx 0 n s w = (w, Inl GraphRecursionError)"
| "graph_loop rt limit ctx (Suc fuel) n s w =
    (case run_node rt limit ctx n s w of
       (w', None) \<Rightarrow> (w', Inl NodeCrash)
     | (w', Some s') \<Rightarrow>
        (case route ctx n s' of
           None \<Rightarrow> (w', Inr s')
         | Some n' \<Rightarrow> graph_loop rt limit ctx fuel n' s' w'))"

definition recursion_limit :: "budgets \<Rightarrow> nat" where
  "recursion_limit b = nat (max 25 (bg_max_steps b * 4 + bg_max_model_calls b * 4))"

definition run_graph ::
  "py_runtime \<Rightarrow> nat \<Rightarrow> 'w run_context \<Rightarrow> string \<Rightarrow> 'w \<Rightarrow> 'w \<times> (graph_exc + rt_state)" where
  "run_graph rt limit ctx msg =
    graph_loop rt limit ctx (recursion_limit (rc_budgets ctx)) PrepareRun (initial_state msg)"

definition run_resume_graph ::
  "py_runtime \<Rightarrow> nat \<Rightarrow> 'w run_context \<Rightarrow> rt_state \<Rightarrow> 'w \<Rightarrow> 'w \<times> (graph_exc + rt_state)" where
  "run_resume_graph rt limit ctx s =
    graph_loop rt limit ctx (recursion_limit (rc_budgets ctx)) CheckBudget s"

end
