(* ===== verification/AgentGraphProperties.thy ===== *)
theory AgentGraphProperties
  imports AgentGraph
begin

section \<open>What the turn loop guarantees\<close>

text \<open>
  Termination below the recursion limit, the number of provider and tool calls, and what a state the
  graph returns can be.
\<close>

subsection \<open>The work that is left\<close>

text \<open>
  The model calls that are left bound the nodes still to run: a turn is at most a check, a generation
  and a tool call, and the last turn ends in a validation and a finalization.
\<close>

definition calls_left :: "'w run_context \<Rightarrow> rt_state \<Rightarrow> nat" where
  "calls_left ctx s = nat (bg_max_model_calls (rc_budgets ctx) - rs_model_calls s)"

fun work :: "'w run_context \<Rightarrow> node_name \<Rightarrow> rt_state \<Rightarrow> nat" where
  "work ctx PrepareRun s = 3 * calls_left ctx s + 2"
| "work ctx CheckBudget s = 3 * calls_left ctx s + 1"
| "work ctx GenerateResponse s = 3 * calls_left ctx s"
| "work ctx ExecuteToolCall s = 3 * calls_left ctx s + 2"
| "work ctx ExecuteHandoffRequest s = 1"
| "work ctx ValidateResult s = 2"
| "work ctx FinalizeResponse s = 1"

definition entered :: "'w run_context \<Rightarrow> node_name \<Rightarrow> rt_state \<Rightarrow> bool" where
  "entered ctx n s \<longleftrightarrow> (n = GenerateResponse \<longrightarrow> 0 < calls_left ctx s \<and> \<not> rs_budget_exceeded s)"

lemma work_positive: "entered ctx n s \<Longrightarrow> 0 < work ctx n s"
  by (cases n) (auto simp: entered_def)

lemma check_allows: "check_budget b calls steps tokens cost elapsed = None \<Longrightarrow> calls < bg_max_model_calls b"
  by (auto simp: check_budget_def split: if_splits)

lemma check_node_cases:
  assumes "check_budget_node ctx s w = (w', Some s')"
  shows "rs_model_calls s' = rs_model_calls s \<and>
    (rs_cancelled s' \<or> rs_budget_exceeded s' \<or> rs_model_calls s < bg_max_model_calls (rc_budgets ctx))"
  using assms by (auto simp: check_budget_node_def Let_def split: if_splits dest: check_allows)

lemma generate_node_cases:
  assumes "generate_response_node rt ctx s w = (w', Some s')" and "\<not> rs_budget_exceeded s"
  shows "rs_model_calls s' = rs_model_calls s + 1 \<and> rs_attempt s' = rs_attempt s + 1 \<and>
    rs_steps s' = rs_steps s + 1 \<and> \<not> rs_budget_exceeded s' \<and> rs_cancelled s' = rs_cancelled s"
  using assms
  by (auto simp: generate_response_node_def merge_response_def split: prod.splits option.splits sum.splits)

lemma tool_node_calls:
  assumes "execute_tool_node rt limit ctx s w = (w', Some s')"
  shows "rs_model_calls s' = rs_model_calls s"
  using assms
  by (auto simp: execute_tool_node_def Let_def split: option.splits prod.splits tool_outcome.splits if_splits)

lemma step_decreases:
  assumes "entered ctx n s" and "run_node rt limit ctx n s w = (w', Some s')" and "route ctx n s' = Some n'"
  shows "entered ctx n' s' \<and> work ctx n' s' < work ctx n s"
proof (cases n)
  case PrepareRun
  with assms show ?thesis by (auto simp: prepare_run_node_def entered_def calls_left_def)
next
  case CheckBudget
  with assms have "check_budget_node ctx s w = (w', Some s')" by simp
  from check_node_cases [OF this] assms(3) CheckBudget show ?thesis
    by (auto simp: entered_def calls_left_def split: if_splits)
next
  case GenerateResponse
  with assms have g: "generate_response_node rt ctx s w = (w', Some s')"
    and e: "0 < calls_left ctx s" "\<not> rs_budget_exceeded s" by (auto simp: entered_def)
  have "calls_left ctx s = Suc (calls_left ctx s')"
    using generate_node_cases [OF g e(2)] e(1) by (simp add: calls_left_def)
  with assms(3) GenerateResponse show ?thesis
    by (auto simp: entered_def route_after_generate_def split: if_splits)
next
  case ExecuteToolCall
  with assms have "execute_tool_node rt limit ctx s w = (w', Some s')" by simp
  from tool_node_calls [OF this] assms(3) ExecuteToolCall show ?thesis
    by (auto simp: entered_def calls_left_def split: if_splits)
next
  case ValidateResult
  with assms show ?thesis
    by (auto simp: validate_result_node_def entered_def split: if_splits)
qed (use assms in simp_all)

lemma loop_has_fuel:
  assumes "entered ctx n s" and "work ctx n s \<le> fuel"
  shows "snd (graph_loop rt limit ctx fuel n s w) \<noteq> Inl GraphRecursionError"
  using assms
proof (induction fuel arbitrary: n s w)
  case 0
  then show ?case using work_positive by fastforce
next
  case (Suc fuel)
  obtain w' r where r: "run_node rt limit ctx n s w = (w', r)" by fastforce
  show ?case
  proof (cases r)
    case None
    with r show ?thesis by simp
  next
    case (Some s')
    show ?thesis
    proof (cases "route ctx n s'")
      case None
      with r Some show ?thesis by simp
    next
      case next_node: (Some n')
      from step_decreases [OF Suc.prems(1) r [unfolded Some] next_node] Suc.prems(2)
      have "snd (graph_loop rt limit ctx fuel n' s' w') \<noteq> Inl GraphRecursionError"
        by (intro Suc.IH) auto
      with r Some next_node show ?thesis by simp
    qed
  qed
qed

text \<open>C10. The turn loop always ends on its own: neither a fresh nor a resumed run exhausts the recursion
  limit of \<open>max(25, 4 * max_steps + 4 * max_model_calls)\<close>, whatever the model, the tools and the clock do.\<close>

theorem graph_never_hits_the_recursion_limit:
  assumes "0 \<le> bg_max_steps (rc_budgets ctx)" and "0 \<le> rs_model_calls s"
  shows "snd (run_graph rt limit ctx msg w) \<noteq> Inl GraphRecursionError \<and>
    snd (run_resume_graph rt limit ctx s w) \<noteq> Inl GraphRecursionError"
proof
  show "snd (run_graph rt limit ctx msg w) \<noteq> Inl GraphRecursionError"
    unfolding run_graph_def using assms(1)
    by (intro loop_has_fuel) (auto simp: entered_def calls_left_def initial_state_def recursion_limit_def)
  show "snd (run_resume_graph rt limit ctx s w) \<noteq> Inl GraphRecursionError"
    unfolding run_resume_graph_def using assms
    by (intro loop_has_fuel) (auto simp: entered_def calls_left_def recursion_limit_def)
qed

text \<open>A model that never answers anything useful, and a tool that never helps, on the trivial world.\<close>

definition silent_context :: "unit run_context" where
  "silent_context =
    \<lparr>rc_budgets = \<lparr>bg_max_model_calls = 2, bg_max_steps = 30, bg_wall_time = 60, bg_provider_timeout = 10,
       bg_max_total_tokens = None, bg_max_cost = None, bg_max_retry_attempts = 1\<rparr>,
     rc_system_prompt = [], rc_initial_messages = None, rc_tools = [], rc_run_id = None,
     rc_generate = (\<lambda>q w. (w, Some (Inr \<lparr>lr_text = [], lr_finish_reason = [], lr_input_tokens = 1,
        lr_output_tokens = 1, lr_total_tokens = 2, lr_request_id = None, lr_structured = None, lr_cost = None,
        lr_tool_calls = [], lr_handoff = None\<rparr>))),
     rc_step = (\<lambda>a b c m w. w), rc_elapsed = (\<lambda>w. 0), rc_execute_tool = None, rc_is_cancelled = None,
     rc_request_handoff = None\<rparr>"

lemma graph_never_hits_the_recursion_limit_witness:
  "snd (run_graph example_runtime 100 silent_context ''hi'' ()) \<noteq> Inl GraphRecursionError \<and>
    snd (run_resume_graph example_runtime 100 silent_context (initial_state ''hi'') ()) \<noteq> Inl GraphRecursionError"
  by (rule graph_never_hits_the_recursion_limit) (simp_all add: silent_context_def initial_state_def)

subsection \<open>Counting the calls\<close>

text \<open>
  \<open>provider\<close> and \<open>tool\<close> count the calls of the two callbacks in the world: a generation is one provider
  call and no tool call, an execution one tool call, and recording a step neither.
\<close>

locale turn_counter =
  fixes ctx :: "'w run_context"
    and provider :: "'w \<Rightarrow> nat"
    and tool :: "'w \<Rightarrow> nat"
  assumes step_free: "provider (rc_step ctx a b c m w) = provider w" "tool (rc_step ctx a b c m w) = tool w"
    and generate_counts: "rc_generate ctx q w = (w', r) \<Longrightarrow> provider w' = provider w + 1 \<and> tool w' = tool w"
    and execute_counts: "rc_execute_tool ctx = Some f \<Longrightarrow> f k args key w = (w', r') \<Longrightarrow>
      provider w' = provider w \<and> tool w' = tool w + 1"
begin

lemma response_steps_free [simp]:
  "provider (response_steps ctx r w) = provider w" "tool (response_steps ctx r w) = tool w"
  by (auto simp: response_steps_def step_free Let_def split: option.splits)

lemma prepare_counts:
  "prepare_run_node ctx s w = (w', r) \<Longrightarrow> provider w' = provider w \<and> tool w' = tool w"
  by (auto simp: prepare_run_node_def step_free)

lemma check_counts:
  "check_budget_node ctx s w = (w', r) \<Longrightarrow> provider w' = provider w \<and> tool w' = tool w"
  by (auto simp: check_budget_node_def step_free Let_def split: if_splits)

lemma generate_node_counts:
  "generate_response_node rt ctx s w = (w', r) \<Longrightarrow> \<not> rs_budget_exceeded s \<Longrightarrow>
    provider w' = provider w + 1 \<and> tool w' = tool w"
  by (auto simp: generate_response_node_def step_free split: prod.splits option.splits sum.splits if_splits
      dest!: generate_counts)

lemma tool_node_counts:
  "execute_tool_node rt limit ctx s w = (w', r) \<Longrightarrow>
    provider w' = provider w \<and> tool w' \<le> tool w + 1"
  by (auto simp: execute_tool_node_def step_free Let_def
      split: prod.splits option.splits tool_outcome.splits if_splits dest!: execute_counts)

lemma other_node_counts:
  "handoff_request_node ctx s w = (w', r) \<Longrightarrow> provider w' = provider w \<and> tool w' = tool w"
  "validate_result_node s w = (w', r) \<Longrightarrow> provider w' = provider w \<and> tool w' = tool w"
  "finalize_response_node ctx s w = (w', r) \<Longrightarrow> provider w' = provider w \<and> tool w' = tool w"
  by (auto simp: handoff_request_node_def validate_result_node_def finalize_response_node_def step_free
      Let_def split: option.splits if_splits)

text \<open>The tool calls that may still follow before the next generation.\<close>

definition slack :: "node_name \<Rightarrow> nat" where
  "slack n = (if n = ExecuteToolCall then 1 else 0)"

lemma node_ends:
  assumes "entered ctx n s" and "run_node rt limit ctx n s w = (w', r)"
  shows "provider w \<le> provider w' \<and> provider w' \<le> provider w + calls_left ctx s \<and>
    tool w' + provider w \<le> tool w + slack n + provider w'"
proof (cases n)
  case GenerateResponse
  with assms have "0 < calls_left ctx s" "provider w' = provider w + 1 \<and> tool w' = tool w"
    by (auto simp: entered_def dest: generate_node_counts)
  then show ?thesis by simp
next
  case ExecuteToolCall
  with assms have "provider w' = provider w \<and> tool w' \<le> tool w + 1"
    by (auto dest: tool_node_counts)
  with ExecuteToolCall show ?thesis by (simp add: slack_def)
qed (use assms in \<open>auto dest!: prepare_counts check_counts other_node_counts\<close>)

lemma node_continues:
  assumes "entered ctx n s" and "run_node rt limit ctx n s w = (w', Some s')" and "route ctx n s' = Some n'"
  shows "provider w \<le> provider w' \<and> provider w' + calls_left ctx s' \<le> provider w + calls_left ctx s \<and>
    tool w' + slack n' + provider w \<le> tool w + slack n + provider w'"
proof (cases n)
  case PrepareRun
  with assms show ?thesis
    by (auto simp: slack_def calls_left_def prepare_run_node_def step_free)
next
  case CheckBudget
  with assms have c: "check_budget_node ctx s w = (w', Some s')" by simp
  from check_counts [OF c] check_node_cases [OF c] assms(3) CheckBudget show ?thesis
    by (auto simp: slack_def calls_left_def split: if_splits)
next
  case GenerateResponse
  with assms have g: "generate_response_node rt ctx s w = (w', Some s')"
    and e: "0 < calls_left ctx s" "\<not> rs_budget_exceeded s" by (auto simp: entered_def)
  have "calls_left ctx s = Suc (calls_left ctx s')"
    using generate_node_cases [OF g e(2)] e(1) by (simp add: calls_left_def)
  with generate_node_counts [OF g e(2)] GenerateResponse show ?thesis by (simp add: slack_def)
next
  case ExecuteToolCall
  with assms have t: "execute_tool_node rt limit ctx s w = (w', Some s')" by simp
  from tool_node_counts [OF t] tool_node_calls [OF t] assms(3) ExecuteToolCall show ?thesis
    by (auto simp: slack_def calls_left_def split: if_splits)
next
  case ValidateResult
  with assms show ?thesis
    by (auto simp: validate_result_node_def slack_def calls_left_def split: if_splits)
qed (use assms in simp_all)

lemma loop_counts:
  assumes "entered ctx n s" and "graph_loop rt limit ctx fuel n s w = (w', r)"
  shows "provider w \<le> provider w' \<and> provider w' \<le> provider w + calls_left ctx s \<and>
    tool w' + provider w \<le> tool w + slack n + provider w'"
  using assms
proof (induction fuel arbitrary: n s w)
  case (Suc fuel)
  obtain v q where v: "run_node rt limit ctx n s w = (v, q)" by fastforce
  show ?case
  proof (cases "case q of None \<Rightarrow> None | Some s' \<Rightarrow> map_option (\<lambda>n'. (s', n')) (route ctx n s')")
    case None
    with v Suc.prems have "w' = v" by (auto split: option.splits)
    with node_ends [OF Suc.prems(1) v] show ?thesis by simp
  next
    case (Some x)
    then obtain s' n' where q: "q = Some s'" and n': "route ctx n s' = Some n'"
      by (auto split: option.splits)
    from v q n' Suc.prems(2) have rest: "graph_loop rt limit ctx fuel n' s' v = (w', r)" by simp
    have "entered ctx n' s'" using step_decreases [OF Suc.prems(1) v [unfolded q] n'] by simp
    from Suc.IH [OF this rest] node_continues [OF Suc.prems(1) v [unfolded q] n'] show ?thesis by linarith
  qed
qed simp

lemma run_counts:
  assumes "run_graph rt limit ctx msg w = (w', r)"
  shows "provider w' \<le> provider w + nat (bg_max_model_calls (rc_budgets ctx)) \<and>
    tool w' + provider w \<le> tool w + provider w'"
  using loop_counts [OF _ assms [unfolded run_graph_def]]
  by (simp add: entered_def calls_left_def initial_state_def slack_def)

lemma resume_counts:
  assumes "run_resume_graph rt limit ctx s w = (w', r)"
  shows "provider w' \<le> provider w + calls_left ctx s \<and> tool w' + provider w \<le> tool w + provider w'"
  using loop_counts [OF _ assms [unfolded run_resume_graph_def]]
  by (simp add: entered_def slack_def)

end

subsection \<open>The outcome\<close>

definition conclusive :: "rt_state \<Rightarrow> bool" where
  "conclusive s \<longleftrightarrow> rs_cancelled s \<or> rs_budget_exceeded s \<or> has_error s \<or> rs_handoff_request s \<noteq> None \<or>
    rs_final s \<noteq> []"

text \<open>What holds when a node is entered: validated text at the finalization, a request at the handoff.\<close>

definition ready :: "'w run_context \<Rightarrow> node_name \<Rightarrow> rt_state \<Rightarrow> bool" where
  "ready ctx n s \<longleftrightarrow> (n = FinalizeResponse \<longrightarrow> rs_final s \<noteq> []) \<and>
    (n = ExecuteHandoffRequest \<longrightarrow> rs_pending_handoff s \<noteq> None \<and> rc_request_handoff ctx \<noteq> None)"

lemma or_default_nonempty: "d \<noteq> [] \<Longrightarrow> or_default c d \<noteq> []"
  by (simp add: or_default_def)

lemma handoff_node_concludes:
  assumes "ready ctx ExecuteHandoffRequest s" and "handoff_request_node ctx s w = (w', Some s')"
  shows "conclusive s'"
  using assms
  by (auto simp: ready_def handoff_request_node_def conclusive_def has_error_def or_default_def Let_def
      split: option.splits if_splits handoff_verdict.splits)

lemma node_ready:
  assumes "ready ctx n s" and "run_node rt limit ctx n s w = (w', Some s')" and "route ctx n s' = Some n'"
  shows "ready ctx n' s'"
  using assms
  by (cases n) (auto simp: ready_def validate_result_node_def route_after_generate_def has_error_def
      split: if_splits option.splits)

lemma node_concludes:
  assumes "ready ctx n s" and "run_node rt limit ctx n s w = (w', Some s')" and "route ctx n s' = None"
  shows "conclusive s'"
proof (cases n)
  case ExecuteHandoffRequest
  with assms show ?thesis by (auto dest: handoff_node_concludes)
qed (use assms in \<open>auto simp: conclusive_def ready_def route_after_generate_def finalize_response_node_def
    validate_result_node_def has_error_def split: if_splits option.splits\<close>)

lemma loop_concludes:
  assumes "ready ctx n s" and "graph_loop rt limit ctx fuel n s w = (w', Inr s')"
  shows "conclusive s'"
  using assms
proof (induction fuel arbitrary: n s w)
  case (Suc fuel)
  then show ?case
    by (auto split: prod.splits option.splits dest: node_concludes node_ready)
qed simp

text \<open>A run that returns from the turn loop has an outcome the service can act on: it was cancelled,
  ran out of budget, failed with a code, requested a handoff, or has a non-empty response; an empty
  answer of the model is never taken for a success.\<close>

theorem turn_loop_outcome:
  assumes "run_graph rt limit ctx msg w = (w', Inr s') \<or> run_resume_graph rt limit ctx s w = (w', Inr s')"
  shows "rs_cancelled s' \<or> rs_budget_exceeded s' \<or> has_error s' \<or> rs_handoff_request s' \<noteq> None \<or>
    rs_final s' \<noteq> []"
  using assms loop_concludes [of ctx PrepareRun] loop_concludes [of ctx CheckBudget]
  by (fastforce simp: run_graph_def run_resume_graph_def ready_def conclusive_def)


lemma graph_loop_numeral:
  "graph_loop rt limit ctx (numeral v) n s w =
    (case run_node rt limit ctx n s w of
       (w', None) \<Rightarrow> (w', Inl NodeCrash)
     | (w', Some s') \<Rightarrow>
        (case route ctx n s' of
           None \<Rightarrow> (w', Inr s')
         | Some n' \<Rightarrow> graph_loop rt limit ctx (pred_numeral v) n' s' w'))"
  by (simp add: numeral_eq_Suc)

lemma turn_loop_outcome_witness:
  "\<exists>s. snd (run_graph example_runtime 100 silent_context ''hi'' ()) = Inr s \<and> has_error s"
proof -
  obtain s where s: "run_graph example_runtime 100 silent_context ''hi'' () = ((), Inr s)"
    "\<not> rs_cancelled s" "\<not> rs_budget_exceeded s" "rs_handoff_request s = None" "rs_final s = []"
    by (simp add: run_graph_def recursion_limit_def graph_loop_numeral silent_context_def initial_state_def
        prepare_run_node_def check_budget_node_def generate_response_node_def merge_response_def
        validate_result_node_def Let_def check_budget_def cancelled_now_def response_steps_def
        considered_call_def considered_handoff_def add_cost_def has_error_def route_after_generate_def)
  with turn_loop_outcome [OF disjI1 [OF s(1)]] show ?thesis by auto
qed

end
