(* ===== verification/AgentRuns.thy ===== *)
theory AgentRuns
  imports ToolExec Tickets AgentGraphProperties
begin

section \<open>The lifecycle of an agent run\<close>

text \<open>
  \<open>agents/services.py\<close> and \<open>agents/failure_classification.py\<close>: a run is created, claimed, executed by the
  turn loop, paused for an approval, resumed, completed, handed off, failed or cancelled. The world is
  the gate's tables, the desk's tables, and a log of the provider requests and of the tool calls the
  loop made. Every transition re-reads its row under a lock; the instance the caller holds is used only
  where the code uses it. Effects on commit go to the log of the gate.
\<close>

record world =
  w_gate :: gate
  w_desk :: desk
  w_requests :: "llm_request list"
  w_tool_requests :: "string list"

datatype agent_exc =
    AgentVersionNotPublishedError
  | AgentVersionNotPublishableError
  | AgentRunNotCancellableError
  | ToolCatalogConfigurationError
  | AgentCrash

type_synonym 'a agent_svc = "(world, agent_exc, 'a) svc"

text \<open>
  What a run depends on besides its rows. \<open>ae_generate\<close> answers a request; during the call other
  transactions may commit, so it also returns the tables as they are afterwards. \<open>ae_clock\<close> is the
  clock of a service started in a world. \<open>ae_configured\<close> is the outcome of \<open>get_llm_provider\<close>.
\<close>

record agent_env =
  ae_rt :: py_runtime
  ae_settings :: policy_settings
  ae_registry :: registry
  ae_result_limit :: nat
  ae_generate :: "llm_request \<Rightarrow> world \<Rightarrow> gate \<times> desk \<times> (provider_error + llm_response) option"
  ae_elapsed :: "world \<Rightarrow> rat"
  ae_clock :: "world \<Rightarrow> nat \<Rightarrow> int"
  ae_prompt :: "nat \<Rightarrow> string"
  ae_setting_provider :: string
  ae_configured :: "provider_error option"

definition on_gate :: "(gate \<Rightarrow> gate) \<Rightarrow> world \<Rightarrow> world" where
  "on_gate f w = w\<lparr>w_gate := f (w_gate w)\<rparr>"

abbreviation run_of :: "nat \<Rightarrow> world \<Rightarrow> agent_run option" where
  "run_of k w \<equiv> row_get (g_runs (w_gate w)) k"

subsection \<open>Saving a run\<close>

text \<open>\<open>DecimalField(max_digits=10, decimal_places=4)\<close>: the column rounds, half away from zero.\<close>

definition numeric_10_4 :: "rat \<Rightarrow> rat option" where
  "numeric_10_4 x =
    (let n = (if x \<ge> 0 then \<lfloor>x * 10000 + 1/2\<rfloor> else \<lceil>x * 10000 - 1/2\<rceil>)
     in if \<bar>n\<bar> < 10 ^ 10 then Some (of_int n / 10000) else None)"

definition save_run :: "int \<Rightarrow> nat \<Rightarrow> agent_run \<Rightarrow> gate \<Rightarrow> gate option" where
  "save_run now k r g =
    (if \<not> fits 64 (run_failure_code r) \<or> \<not> fits 255 (run_failure_message r) then None
     else case run_cost r of
       None \<Rightarrow> Some (put_run k (r\<lparr>run_updated_at := now\<rparr>) g)
     | Some c \<Rightarrow> (case numeric_10_4 c of
         None \<Rightarrow> None
       | Some c' \<Rightarrow> Some (put_run k (r\<lparr>run_updated_at := now, run_cost := Some c'\<rparr>) g)))"

text \<open>
  The shape of a transition: lock the row, return it unchanged when the guard fails, otherwise save
  the new row and perform the rest of the block; a failing save or rest rolls the block back.
\<close>

definition run_transition ::
  "nat \<Rightarrow> (agent_run \<Rightarrow> bool) \<Rightarrow> int \<Rightarrow> (agent_run \<Rightarrow> agent_run) \<Rightarrow> (agent_run \<Rightarrow> gate \<Rightarrow> gate)
    \<Rightarrow> (agent_run \<times> bool) agent_svc" where
  "run_transition k enabled now f rest = (\<lambda>w.
    case run_of k w of
      None \<Rightarrow> (w, Inl AgentCrash)
    | Some locked \<Rightarrow>
        if \<not> enabled locked then (w, Inr (locked, False))
        else
          (let r = f locked in
           case save_run now k r (w_gate w) of
             None \<Rightarrow> (w, Inl AgentCrash)
           | Some g \<Rightarrow> (w\<lparr>w_gate := rest r g\<rparr>, Inr (r, True))))"

definition run_audit :: "string \<Rightarrow> nat \<Rightarrow> agent_run \<Rightarrow> (string \<times> json) list \<Rightarrow> gate \<Rightarrow> gate" where
  "run_audit action k r extra =
    emit (record_event action ''agent_run'' k (run_created_by r) (Some (run_workspace r))
      (JObj ((''agent_run_id'', jid k) # extra))
      (if run_correlation r = [] then None else Some (run_correlation r)))"

definition schedule_agent_run_terminal_observation :: "agent_run \<Rightarrow> string \<Rightarrow> gate \<Rightarrow> gate" where
  "schedule_agent_run_terminal_observation r outcome = emit (Metric ''agent_run'' [run_trigger r, outcome])"

definition schedule_channel_response_routing :: "nat \<Rightarrow> gate \<Rightarrow> gate" where
  "schedule_channel_response_routing k = emit (Task ''route_channel_response'' k)"

subsection \<open>Creating and claiming\<close>

definition max_input_message_chars :: nat where
  "max_input_message_chars = 8000"

definition dispatch_run :: "nat \<Rightarrow> gate \<Rightarrow> gate" where
  "dispatch_run k = emit (Task ''execute_agent_run_task'' k)"

definition run_for_message :: "nat \<Rightarrow> gate \<Rightarrow> (nat \<times> agent_run) option" where
  "run_for_message m g = find (\<lambda>(i, r). run_trigger_message r = Some m) (g_runs g)"

text \<open>\<open>other\<close>: what concurrent transactions commit between the lookup and the insertion.\<close>

definition create_agent_run ::
  "(gate \<Rightarrow> gate) \<Rightarrow> int \<Rightarrow> nat \<Rightarrow> nat \<Rightarrow> agent_version_status \<Rightarrow> nat option \<Rightarrow> string \<Rightarrow> string
    \<Rightarrow> nat option \<Rightarrow> nat option \<Rightarrow> nat option \<Rightarrow> json \<Rightarrow> string \<Rightarrow> nat agent_svc" where
  "create_agent_run other now ws v vstatus actor msg trigger conv tick trig meta req = atomic (\<lambda>w.
    if vstatus \<noteq> AV_PUBLISHED then (w, Inl AgentVersionNotPublishedError)
    else case (case trig of None \<Rightarrow> None | Some m \<Rightarrow> run_for_message m (w_gate w)) of
      Some (k, r) \<Rightarrow> (w, Inr k)
    | None \<Rightarrow>
        (let w1 = on_gate other w in
         case (case trig of None \<Rightarrow> None | Some m \<Rightarrow> run_for_message m (w_gate w1)) of
           Some (k, r) \<Rightarrow> (w1, Inr k)
         | None \<Rightarrow>
             (let k = fresh_id (g_runs (w_gate w1));
                  r = \<lparr>run_workspace = ws, run_version = v, run_conversation = conv, run_ticket = tick,
                       run_trigger_message = trig, run_output_message = None, run_trigger = trigger,
                       run_status_of = RUN_PENDING,
                       run_input_message = take max_input_message_chars msg,
                       run_input_metadata = or_empty meta, run_final_response = [],
                       run_started_at = None, run_completed_at = None, run_cancelled_at = None,
                       run_failure_code = [], run_failure_message = [], run_model_calls = 0,
                       run_steps = 0, run_tool_calls = 0, run_input_tokens = 0, run_output_tokens = 0,
                       run_total_tokens = 0, run_cost = None, run_correlation = req,
                       run_created_by = actor, run_created_at = now, run_updated_at = now\<rparr>
              in if \<not> fits 64 req then (w1, Inl AgentCrash)
                 else (on_gate (dispatch_run k \<circ> put_run k r) w1, Inr k))))"

definition claim_agent_run :: "(nat \<Rightarrow> int) \<Rightarrow> nat \<Rightarrow> (agent_run \<times> bool) agent_svc" where
  "claim_agent_run clk k =
    run_transition k (\<lambda>r. run_status_of r = RUN_PENDING) (clk 1)
      (\<lambda>r. r\<lparr>run_status_of := RUN_RUNNING, run_started_at := Some (clk 0)\<rparr>)
      (\<lambda>r. run_audit ''agent.run_started'' k r [])"

subsection \<open>Cancelling\<close>

definition cancel_execution_row :: "int \<Rightarrow> tool_execution \<Rightarrow> tool_execution" where
  "cancel_execution_row now ex = ex\<lparr>te_status := EX_CANCELLED, te_completed_at := Some now\<rparr>"

text \<open>One waiting execution: its approval is withdrawn, then the row if it is still waiting.\<close>

definition cancel_waiting_execution :: "(nat \<Rightarrow> int) \<Rightarrow> int \<Rightarrow> nat \<Rightarrow> gate \<Rightarrow> gate" where
  "cancel_waiting_execution aclk now k g =
    (let g1 = cancel_approval_for_execution (aclk k) k ''run_cancelled'' g in
     case row_get (g_execs g1) k of
       None \<Rightarrow> g1
     | Some ex \<Rightarrow>
         if te_status ex = EX_WAITING_FOR_APPROVAL
         then emit (Metric ''tool_execution'' [tool_key_of ex g1, ''cancelled''])
                (put_exec k (cancel_execution_row now ex) g1)
         else g1)"

definition waiting_executions :: "nat \<Rightarrow> gate \<Rightarrow> nat list" where
  "waiting_executions run g =
    row_ids (rows_where (\<lambda>i ex. te_run ex = run \<and> te_status ex = EX_WAITING_FOR_APPROVAL) (g_execs g))"

definition cancel_agent_run ::
  "(nat \<Rightarrow> int) \<Rightarrow> (nat \<Rightarrow> int) \<Rightarrow> nat \<Rightarrow> nat \<Rightarrow> nat \<Rightarrow> string option \<Rightarrow> agent_run agent_svc" where
  "cancel_agent_run clk aclk ws k actor req = atomic (\<lambda>w.
    case run_of k w of
      None \<Rightarrow> (w, Inl AgentCrash)
    | Some locked \<Rightarrow>
        if run_status_of locked \<in> set run_terminal then (w, Inl AgentRunNotCancellableError)
        else
          (let r = locked\<lparr>run_status_of := RUN_CANCELLED, run_cancelled_at := Some (clk 0)\<rparr> in
           case save_run (clk 1) k r (w_gate w) of
             None \<Rightarrow> (w, Inl AgentCrash)
           | Some g1 \<Rightarrow>
               (let g2 = create_step k ''run_cancelled'' ''succeeded'' [] (JObj []) g1;
                    g3 = emit (record_event ''agent.run_cancelled'' ''agent_run'' k (Some actor) (Some ws)
                           (JObj [(''agent_run_id'', jid k)]) req) g2;
                    g4 = (if run_status_of locked = RUN_WAITING_FOR_APPROVAL
                          then fold (cancel_waiting_execution aclk (clk 2)) (waiting_executions k g3) g3
                          else g3)
                in (w\<lparr>w_gate := schedule_agent_run_terminal_observation r ''cancelled'' g4,
                      w_desk := cancel_handoffs_for_run k ''run_cancelled'' (w_desk w)\<rparr>, Inr r))))"

subsection \<open>Callbacks of the turn loop\<close>

definition terminal_tool_codes :: "string list" where
  "terminal_tool_codes =
    [''tool_configuration_error'', ''tool_invalid_output'', ''tool_idempotency_conflict'',
     ''tool_execution_in_progress'', ''tool_run_not_executable'', ''policy_evaluation_failed'']"

definition tool_outcome_of ::
  "py_runtime \<Rightarrow> nat \<Rightarrow> string \<Rightarrow> tool_exc + nat \<times> json \<times> bool \<Rightarrow> tool_outcome option" where
  "tool_outcome_of rt limit name res =
    (case res of
       Inr (k, out, reused) \<Rightarrow>
         Some (ModelResult (as_model_message rt limit
           \<lparr>trc_tool_key = name, trc_status = TR_SUCCEEDED, trc_result = out, trc_error_code = []\<rparr>)
           TR_SUCCEEDED [] reused)
     | Inl (Crash c) \<Rightarrow> None
     | Inl e \<Rightarrow>
         if exc_code e = ''approval_required'' then Some (NeedsApproval (exc_code e) (exc_message e))
         else if exc_code e = ''tool_budget_exceeded'' then Some (OutOfBudget ''max_tool_calls_reached'')
         else if exc_code e \<in> set terminal_tool_codes
         then Some (TerminalOutcome (exc_code e) (exc_message e))
         else
           (let st = (if exc_code e = ''policy_action_denied'' then TR_DENIED else TR_FAILED)
            in Some (ModelResult (as_model_message rt limit
                 \<lparr>trc_tool_key = name, trc_status = st, trc_result = JNull, trc_error_code = exc_code e\<rparr>)
                 st (exc_code e) False)))"

definition execute_tool_callback ::
  "agent_env \<Rightarrow> nat \<Rightarrow> agent_run \<Rightarrow> string \<Rightarrow> arguments \<Rightarrow> string option \<Rightarrow> world \<Rightarrow> world \<times> tool_outcome option" where
  "execute_tool_callback env k inst name args key w =
    (let (g, res) = execute_tool (ae_rt env) (ae_settings env) (ae_registry env) (ae_clock env w) (Some k)
           k inst name args (case key of None \<Rightarrow> [] | Some s \<Rightarrow> s) (w_gate w)
     in (w\<lparr>w_gate := g, w_tool_requests := w_tool_requests w @ [name]\<rparr>,
         tool_outcome_of (ae_rt env) (ae_result_limit env) name res))"

definition request_handoff_callback :: "agent_run \<Rightarrow> string \<Rightarrow> string \<Rightarrow> handoff_verdict" where
  "request_handoff_callback inst reason summary =
    (if run_conversation inst = None
     then HandoffBad ''handoff_requires_conversation'' ''This run has no conversation to hand off.''
     else if py_strip reason \<notin> set handoff_reasons
     then HandoffBad ''invalid_handoff_reason'' ''The requested handoff reason is not recognized.''
     else if py_strip summary = []
     then HandoffBad ''invalid_handoff_summary'' ''A handoff summary is required.''
     else HandoffOk (py_strip reason) (py_strip summary))"

definition version_budgets :: "agent_version \<Rightarrow> budgets" where
  "version_budgets v =
    \<lparr>bg_max_model_calls = av_max_model_calls v, bg_max_steps = av_max_steps v,
     bg_wall_time = av_wall_time v, bg_provider_timeout = av_provider_timeout v,
     bg_max_total_tokens = av_max_total_tokens v, bg_max_cost = av_max_cost v,
     bg_max_retry_attempts = av_max_retry_attempts v\<rparr>"

definition generate_callback ::
  "agent_env \<Rightarrow> llm_request \<Rightarrow> world \<Rightarrow> world \<times> (provider_error + llm_response) option" where
  "generate_callback env q w =
    (let (g, d, r) = ae_generate env q w
     in (w\<lparr>w_gate := g, w_desk := d, w_requests := w_requests w @ [q]\<rparr>, r))"

definition service_context ::
  "agent_env \<Rightarrow> nat \<Rightarrow> agent_run \<Rightarrow> agent_version \<Rightarrow> llm_message list option \<Rightarrow> string list \<Rightarrow> string option
    \<Rightarrow> (world \<Rightarrow> bool) option \<Rightarrow> world run_context" where
  "service_context env k inst v messages tools run_id cancelled =
    \<lparr>rc_budgets = version_budgets v, rc_system_prompt = ae_prompt env (run_version inst),
     rc_initial_messages = messages, rc_tools = tools, rc_run_id = run_id,
     rc_generate = generate_callback env,
     rc_step = (\<lambda>ty st code meta. on_gate (create_step k ty st code meta)),
     rc_elapsed = ae_elapsed env, rc_execute_tool = Some (execute_tool_callback env k inst),
     rc_is_cancelled = cancelled, rc_request_handoff = Some (request_handoff_callback inst)\<rparr>"

definition run_is_cancelled :: "nat \<Rightarrow> world \<Rightarrow> bool" where
  "run_is_cancelled k w = (case run_of k w of None \<Rightarrow> False | Some r \<Rightarrow> run_status_of r = RUN_CANCELLED)"

text \<open>The contexts of a fresh and of a resumed run; the latter has no tools, no messages, no run id.\<close>

definition fresh_context ::
  "agent_env \<Rightarrow> nat \<Rightarrow> agent_run \<Rightarrow> agent_version \<Rightarrow> llm_message list option \<Rightarrow> string list \<Rightarrow> world run_context" where
  "fresh_context env k inst v messages tools =
    service_context env k inst v messages tools (Some (py_str (ae_rt env) (jid k))) (Some (run_is_cancelled k))"

definition resumed_context :: "agent_env \<Rightarrow> nat \<Rightarrow> agent_run \<Rightarrow> agent_version \<Rightarrow> world run_context" where
  "resumed_context env k inst v = service_context env k inst v None [] None None"

end
