(* ===== verification/AgentService.thy ===== *)
theory AgentService
  imports AgentRuns
begin

section \<open>Executing, pausing and resuming a run\<close>

text \<open>
  The second half of \<open>agents/services.py\<close>, with \<open>agents/failure_classification.py\<close> and the recovery
  sweeps of \<open>agents/recovery.py\<close>.
\<close>

subsection \<open>Terminal transitions\<close>

definition apply_usage :: "rt_state \<Rightarrow> agent_run \<Rightarrow> agent_run" where
  "apply_usage s r = r\<lparr>run_model_calls := rs_model_calls s, run_steps := rs_steps s,
     run_input_tokens := rs_in_tokens s, run_output_tokens := rs_out_tokens s,
     run_total_tokens := rs_tokens s, run_cost := rs_est_cost s\<rparr>"

definition is_running :: "agent_run \<Rightarrow> bool" where
  "is_running r \<longleftrightarrow> run_status_of r = RUN_RUNNING"

definition not_terminal :: "agent_run \<Rightarrow> bool" where
  "not_terminal r \<longleftrightarrow> run_status_of r \<notin> set run_terminal"

definition pause_run_for_approval :: "int \<Rightarrow> nat \<Rightarrow> rt_state \<Rightarrow> (agent_run \<times> bool) agent_svc" where
  "pause_run_for_approval now k s =
    run_transition k is_running now
      (\<lambda>r. (apply_usage s r)\<lparr>run_status_of := RUN_WAITING_FOR_APPROVAL\<rparr>)
      (\<lambda>r. create_step k ''run_waiting_for_approval'' ''succeeded'' [] (JObj []))"

definition fail_run ::
  "(nat \<Rightarrow> int) \<Rightarrow> nat \<Rightarrow> string \<Rightarrow> string \<Rightarrow> rt_state option \<Rightarrow> (agent_run \<times> bool) agent_svc" where
  "fail_run clk k code msg res =
    run_transition k not_terminal (clk 1)
      (\<lambda>r. (case res of None \<Rightarrow> r | Some s \<Rightarrow> apply_usage s r)
        \<lparr>run_status_of := RUN_FAILED, run_failure_code := code, run_failure_message := msg,
         run_completed_at := Some (clk 0)\<rparr>)
      (\<lambda>r. schedule_agent_run_terminal_observation r ''failed'' \<circ>
        run_audit ''agent.run_failed'' k r [(''failure_code'', JStr code)])"

definition budget_exceeded_run ::
  "(nat \<Rightarrow> int) \<Rightarrow> nat \<Rightarrow> string option \<Rightarrow> rt_state \<Rightarrow> (agent_run \<times> bool) agent_svc" where
  "budget_exceeded_run clk k reason s =
    (let code = ''budget_exceeded:'' @ (case reason of None \<Rightarrow> ''unknown'' | Some x \<Rightarrow> or_default x ''unknown'')
     in run_transition k not_terminal (clk 1)
      (\<lambda>r. (apply_usage s r)
        \<lparr>run_status_of := RUN_BUDGET_EXCEEDED, run_failure_code := code,
         run_failure_message := ''The run exceeded its configured execution budget.'',
         run_completed_at := Some (clk 0)\<rparr>)
      (\<lambda>r. schedule_agent_run_terminal_observation r ''budget_exceeded'' \<circ>
        run_audit ''agent.run_failed'' k r [(''failure_code'', JStr code)]))"

text \<open>
  The customer-visible message of a finished run, at most one per run: \<open>None\<close> is an exception of the
  message service.
\<close>

definition post_output ::
  "int \<Rightarrow> string \<Rightarrow> json \<Rightarrow> agent_run \<Rightarrow> desk \<Rightarrow> (agent_run \<times> desk) option" where
  "post_output now body meta r d =
    (case (run_conversation r, run_output_message r) of
       (Some c, None) \<Rightarrow>
         if body = [] then Some (r, d)
         else (case row_get (dk_conversations d) c of
            None \<Rightarrow> None
          | Some cv \<Rightarrow>
              (case create_ai_agent_message now (run_workspace r) c cv body None meta d of
                 (d', Inr m) \<Rightarrow> Some (r\<lparr>run_output_message := Some m\<rparr>, d')
               | (d', Inl e) \<Rightarrow> None))
     | _ \<Rightarrow> Some (r, d))"

definition complete_run ::
  "(nat \<Rightarrow> int) \<Rightarrow> nat \<Rightarrow> rt_state \<Rightarrow> (string \<times> json) list \<Rightarrow> (agent_run \<times> bool) agent_svc" where
  "complete_run clk k s meta = (\<lambda>w.
    case run_of k w of
      None \<Rightarrow> (w, Inl AgentCrash)
    | Some locked \<Rightarrow>
        if \<not> is_running locked then (w, Inr (locked, False))
        else
          (let r = (apply_usage s locked)\<lparr>run_final_response := rs_final s,
                 run_status_of := RUN_SUCCEEDED, run_completed_at := Some (clk 0)\<rparr> in
           case post_output (clk 1) (rs_final s) (JObj ((''agent_run_id'', jid k) # meta)) r (w_desk w) of
             None \<Rightarrow> (w, Inl AgentCrash)
           | Some (r', d) \<Rightarrow>
              (case save_run (clk 2) k r' (w_gate w) of
                 None \<Rightarrow> (w, Inl AgentCrash)
               | Some g \<Rightarrow>
                   (w\<lparr>w_desk := d, w_gate := schedule_channel_response_routing k
                        (schedule_agent_run_terminal_observation r' ''succeeded''
                          (run_audit ''agent.run_completed'' k r' [] g))\<rparr>, Inr (r', True)))))"

definition handoff_acknowledgement :: string where
  "handoff_acknowledgement =
    ''I'm connecting you with a support specialist who can help with this '' @ [CHR 0x97] @
    '' they'll follow up here.''"

definition complete_run_as_handoff ::
  "(desk \<Rightarrow> desk) \<Rightarrow> (nat \<Rightarrow> int) \<Rightarrow> nat \<Rightarrow> handoff_call \<Rightarrow> rt_state \<Rightarrow> (agent_run \<times> bool) agent_svc" where
  "complete_run_as_handoff other clk k h s = (\<lambda>w.
    case run_of k w of
      None \<Rightarrow> (w, Inl AgentCrash)
    | Some locked \<Rightarrow>
        if \<not> is_running locked then (w, Inr (locked, False))
        else case run_conversation locked of
          None \<Rightarrow> (w, Inl AgentCrash)
        | Some c \<Rightarrow>
           (case row_get (dk_conversations (w_desk w)) c of
              None \<Rightarrow> (w, Inl AgentCrash)
            | Some cv \<Rightarrow>
               (case create_or_reuse_handoff other (clk 0) (run_workspace locked) c (cv_workspace cv)
                       (hc_reason h) (hc_summary h) (Some (k, run_workspace locked))
                       (case run_ticket locked of None \<Rightarrow> None
                        | Some t \<Rightarrow> map_option (\<lambda>x. (t, tk_workspace x)) (row_get (dk_tickets (w_desk w)) t))
                       (if run_correlation locked = [] then None else Some (run_correlation locked))
                       (w_desk w) of
                  (d, Inl e) \<Rightarrow> (w, Inl AgentCrash)
                | (d, Inr (hid, created)) \<Rightarrow>
                   (let r = (apply_usage s locked)\<lparr>run_final_response := handoff_acknowledgement,
                          run_status_of := RUN_HANDED_OFF, run_completed_at := Some (clk 1)\<rparr> in
                    case post_output (clk 2) handoff_acknowledgement
                           (JObj [(''agent_run_id'', jid k), (''handoff_id'', jid hid)]) r d of
                      None \<Rightarrow> (w, Inl AgentCrash)
                    | Some (r', d') \<Rightarrow>
                       (case save_run (clk 3) k r' (w_gate w) of
                          None \<Rightarrow> (w, Inl AgentCrash)
                        | Some g \<Rightarrow>
                            (w\<lparr>w_desk := d', w_gate := schedule_channel_response_routing k
                                 (schedule_agent_run_terminal_observation r' ''handed_off''
                                 (run_audit ''agent.run_handed_off'' k r' [(''handoff_id'', jid hid)]
                                 (create_step k ''run_handed_off'' ''succeeded'' []
                                   (JObj [(''handoff_id'', jid hid), (''reused'', JBool (\<not> created))]) g)))\<rparr>,
                             Inr (r', True)))))))"

subsection \<open>Classification of a terminal failure\<close>

datatype recovery_action = RecoverFail | RecoverHandoff

definition retryable_provider_handoff_codes :: "string list" where
  "retryable_provider_handoff_codes =
    [''provider_rate_limited'', ''provider_timeout'', ''provider_temporarily_unavailable'']"

definition classify_terminal_failure :: "string \<Rightarrow> bool \<Rightarrow> recovery_action" where
  "classify_terminal_failure code has_conversation =
    (if has_conversation \<and> code \<in> set retryable_provider_handoff_codes then RecoverHandoff else RecoverFail)"

definition failure_message_of :: "rt_state \<Rightarrow> string" where
  "failure_message_of s =
    (case rs_error_message s of None \<Rightarrow> ''The agent run failed.'' | Some m \<Rightarrow> or_default m ''The agent run failed.'')"

definition handoff_for_runtime_failure ::
  "(nat \<Rightarrow> int) \<Rightarrow> nat \<Rightarrow> agent_run \<Rightarrow> string \<Rightarrow> rt_state \<Rightarrow> (agent_run \<times> bool) agent_svc" where
  "handoff_for_runtime_failure clk k inst code s =
    (case request_handoff_callback inst ''runtime_failure''
            (''Automated recovery after repeated '' @ code @ ''.'') of
       HandoffBad c m \<Rightarrow> fail_run clk k code (failure_message_of s) (Some s)
     | HandoffOk reason summary \<Rightarrow>
         complete_run_as_handoff (\<lambda>d. d) clk k \<lparr>hc_reason = reason, hc_summary = summary\<rparr> s)"

definition fail_or_handoff ::
  "(nat \<Rightarrow> int) \<Rightarrow> nat \<Rightarrow> agent_run \<Rightarrow> string \<Rightarrow> rt_state \<Rightarrow> (agent_run \<times> bool) agent_svc" where
  "fail_or_handoff clk k inst code s =
    (case classify_terminal_failure code (run_conversation inst \<noteq> None) of
       RecoverHandoff \<Rightarrow> handoff_for_runtime_failure clk k inst code s
     | RecoverFail \<Rightarrow> fail_run clk k code (failure_message_of s) (Some s))"

text \<open>A run whose conversation already waits for a human ends at once, reusing that handoff.\<close>

definition usage_of_run :: "agent_run \<Rightarrow> rt_state" where
  "usage_of_run r = (initial_state [])\<lparr>rs_model_calls := run_model_calls r, rs_steps := run_steps r,
     rs_in_tokens := run_input_tokens r, rs_out_tokens := run_output_tokens r,
     rs_tokens := run_total_tokens r, rs_est_cost := run_cost r\<rparr>"

definition complete_run_via_existing_active_handoff ::
  "(nat \<Rightarrow> int) \<Rightarrow> nat \<Rightarrow> agent_run \<Rightarrow> (agent_run \<times> bool) agent_svc" where
  "complete_run_via_existing_active_handoff clk k inst =
    complete_run_as_handoff (\<lambda>d. d) clk k
      \<lparr>hc_reason = ''customer_requested'',
       hc_summary = ''A new message arrived while this conversation was already '' @
         ''awaiting a support specialist.''\<rparr> (usage_of_run inst)"

subsection \<open>Executing a claimed run\<close>

text \<open>
  The provider of a version: the fake one, or the one the environment is configured for. An error is a
  code and a message; \<open>ProviderError.safe_message\<close> is the class's text, whatever message was given.
\<close>

definition provider_configuration_error :: provider_error where
  "provider_configuration_error = \<lparr>px_code = ''provider_configuration_error'',
     px_message = ''The AI provider is not configured correctly.'', px_retryable = False\<rparr>"

definition provider_for :: "agent_env \<Rightarrow> agent_version \<Rightarrow> provider_error option" where
  "provider_for env v =
    (if av_provider v = ''fake'' then ae_configured env
     else if ae_setting_provider env \<noteq> av_provider v then Some provider_configuration_error
     else ae_configured env)"

text \<open>What the service does with the state the loop returned, in the order of the code's tests.\<close>

definition conclude ::
  "agent_env \<Rightarrow> nat \<Rightarrow> agent_run \<Rightarrow> (string \<times> json) list \<Rightarrow> rt_state \<Rightarrow> (agent_run \<times> bool) agent_svc" where
  "conclude env k inst meta s = (\<lambda>w.
    let clk = ae_clock env w in
    (case rs_handoff_request s of
       Some h \<Rightarrow> complete_run_as_handoff (\<lambda>d. d) clk k h s
     | None \<Rightarrow>
         if rs_budget_exceeded s then budget_exceeded_run clk k (rs_budget_reason s) s
         else if rs_error_code s = Some ''approval_required'' then pause_run_for_approval (clk 0) k s
         else if has_error s
         then fail_or_handoff clk k inst (case rs_error_code s of None \<Rightarrow> [] | Some c \<Rightarrow> c) s
         else complete_run clk k s meta) w)"

definition internal_failure :: "agent_env \<Rightarrow> nat \<Rightarrow> (agent_run \<times> bool) agent_svc" where
  "internal_failure env k = (\<lambda>w.
    fail_run (ae_clock env w) k ''agent_internal_error'' ''The agent run failed unexpectedly.'' None w)"

definition after_graph ::
  "agent_env \<Rightarrow> nat \<Rightarrow> agent_run \<Rightarrow> (string \<times> json) list \<Rightarrow> bool \<Rightarrow> world \<times> (graph_exc + rt_state)
    \<Rightarrow> world \<times> (agent_exc + agent_run \<times> bool)" where
  "after_graph env k inst meta honours_cancel res =
    (case res of
       (w, Inl e) \<Rightarrow> internal_failure env k w
     | (w, Inr s) \<Rightarrow>
         if honours_cancel \<and> rs_cancelled s
         then (case run_of k w of None \<Rightarrow> (w, Inl AgentCrash) | Some r \<Rightarrow> (w, Inr (r, False)))
         else conclude env k inst meta s w)"

text \<open>\<open>tools\<close> is the catalog, \<open>None\<close> its configuration error.\<close>

definition execute_claimed_agent_run ::
  "agent_env \<Rightarrow> nat \<Rightarrow> agent_run \<Rightarrow> llm_message list option \<Rightarrow> (string \<times> json) list \<Rightarrow> string list option
    \<Rightarrow> (agent_run \<times> bool) agent_svc" where
  "execute_claimed_agent_run env k inst messages meta tools = (\<lambda>w.
    case tools of
      None \<Rightarrow> fail_run (ae_clock env w) k ''tool_catalog_configuration_error''
        ''The agent's tool catalog is misconfigured.'' None w
    | Some ts \<Rightarrow>
       (case row_get (g_versions (w_gate w)) (run_version inst) of
          None \<Rightarrow> (w, Inl AgentCrash)
        | Some v \<Rightarrow>
           (case provider_for env v of
              Some e \<Rightarrow> fail_run (ae_clock env w) k (px_code e) (px_message e) None w
            | None \<Rightarrow> after_graph env k inst meta True
                (run_graph (ae_rt env) (ae_result_limit env) (fresh_context env k inst v messages ts)
                  (run_input_message inst) w))))"

definition execute_agent_run ::
  "agent_env \<Rightarrow> nat \<Rightarrow> (world \<Rightarrow> string list option) \<Rightarrow> (agent_run \<times> bool) agent_svc" where
  "execute_agent_run env k catalog = (\<lambda>w.
    case claim_agent_run (ae_clock env w) k w of
      (w1, Inl e) \<Rightarrow> (w1, Inl e)
    | (w1, Inr (r, False)) \<Rightarrow> (w1, Inr (r, False))
    | (w1, Inr (r, True)) \<Rightarrow> execute_claimed_agent_run env k r None [] (catalog w1) w1)"

subsection \<open>Resuming after a decision\<close>

definition claim_run_for_resume :: "int \<Rightarrow> nat \<Rightarrow> (agent_run \<times> bool) agent_svc" where
  "claim_run_for_resume now k =
    run_transition k (\<lambda>r. run_status_of r = RUN_WAITING_FOR_APPROVAL) now
      (\<lambda>r. r\<lparr>run_status_of := RUN_RUNNING\<rparr>) (\<lambda>r g. g)"

definition continue_run_after_resumed_tool ::
  "agent_env \<Rightarrow> nat \<Rightarrow> agent_run \<Rightarrow> string \<Rightarrow> (agent_run \<times> bool) agent_svc" where
  "continue_run_after_resumed_tool env k inst summary = (\<lambda>w.
    case row_get (g_versions (w_gate w)) (run_version inst) of
      None \<Rightarrow> (w, Inl AgentCrash)
    | Some v \<Rightarrow>
       (case provider_for env v of
          Some e \<Rightarrow> fail_run (ae_clock env w) k (px_code e) (px_message e) None w
        | None \<Rightarrow> after_graph env k inst [] False
            (run_resume_graph (ae_rt env) (ae_result_limit env) (resumed_context env k inst v)
              (resume_state_after_tool (run_input_message inst) (run_model_calls inst) (run_steps inst)
                (run_input_tokens inst) (run_output_tokens inst) (run_total_tokens inst) (run_cost inst)
                summary) w)))"

datatype resume_report = Skipped | AlreadyResumed | Now run_status

definition report_status ::
  "world \<times> (agent_exc + agent_run \<times> bool) \<Rightarrow> world \<times> (agent_exc + resume_report)" where
  "report_status res = (case res of
     (w, Inl e) \<Rightarrow> (w, Inl e) | (w, Inr (r, b)) \<Rightarrow> (w, Inr (Now (run_status_of r))))"

text \<open>The approved action: its result, or how the resumption ends.\<close>

definition resume_approved ::
  "agent_env \<Rightarrow> nat \<Rightarrow> nat \<Rightarrow> string \<Rightarrow> agent_run \<Rightarrow> world \<Rightarrow> world \<times> (agent_exc + resume_report)" where
  "resume_approved env run k key inst w =
    (let w1 = on_gate (create_step run ''approval_approved'' ''succeeded'' [] (JObj [])) w;
         (g, res) = resume_after_approval (ae_rt env) (ae_registry env) (ae_clock env w1) (Some run) k (w_gate w1);
         w2 = w1\<lparr>w_gate := g\<rparr>
     in case res of
          Inr (j, out, reused) \<Rightarrow>
            report_status (continue_run_after_resumed_tool env run inst
              (as_model_message (ae_rt env) (ae_result_limit env)
                \<lparr>trc_tool_key = key, trc_status = TR_SUCCEEDED, trc_result = out, trc_error_code = []\<rparr>) w2)
        | Inl (Crash c) \<Rightarrow> (w2, Inl AgentCrash)
        | Inl e \<Rightarrow>
            if exc_code e = ''tool_execution_in_progress'' then (w2, Inr AlreadyResumed)
            else report_status (fail_run (ae_clock env w2) run (exc_code e) (exc_message e) None w2))"

definition resume_refused ::
  "agent_env \<Rightarrow> nat \<Rightarrow> string \<Rightarrow> string \<Rightarrow> agent_run \<Rightarrow> world \<Rightarrow> world \<times> (agent_exc + resume_report)" where
  "resume_refused env run key outcome inst w =
    report_status (continue_run_after_resumed_tool env run inst
      (as_model_message (ae_rt env) (ae_result_limit env)
        \<lparr>trc_tool_key = key, trc_status = TR_DENIED, trc_result = JNull, trc_error_code = ''approval_'' @ outcome\<rparr>)
      (on_gate (create_step run (''approval_'' @ outcome) ''succeeded'' [] (JObj [])) w))"

definition resume_agent_run_after_approval ::
  "agent_env \<Rightarrow> nat \<Rightarrow> world \<Rightarrow> world \<times> (agent_exc + resume_report)" where
  "resume_agent_run_after_approval env i w =
    (case row_get (g_approvals (w_gate w)) i of
       None \<Rightarrow> (w, Inl AgentCrash)
     | Some ap \<Rightarrow>
         if ar_status ap \<notin> {AP_APPROVED, AP_REJECTED, AP_EXPIRED} then (w, Inr Skipped)
         else case row_get (g_execs (w_gate w)) (ar_execution ap) of
           None \<Rightarrow> (w, Inl AgentCrash)
         | Some ex \<Rightarrow>
            (case claim_run_for_resume (ae_clock env w 0) (te_run ex) w of
               (w1, Inl e) \<Rightarrow> (w1, Inl e)
             | (w1, Inr (r, False)) \<Rightarrow> (w1, Inr AlreadyResumed)
             | (w1, Inr (r, True)) \<Rightarrow>
                 (let key = tool_key_of ex (w_gate w1) in
                  if ar_status ap = AP_APPROVED
                  then resume_approved env (te_run ex) (ar_execution ap) key r w1
                  else resume_refused env (te_run ex) key
                    (if ar_status ap = AP_REJECTED then ''rejected'' else ''expired'') r w1)))"

subsection \<open>Recovery sweeps\<close>

definition fail_in_flight :: "int \<Rightarrow> nat \<Rightarrow> gate \<Rightarrow> gate" where
  "fail_in_flight now run g = g\<lparr>g_execs := update_where
     (\<lambda>i ex. te_run ex = run \<and> (te_status ex = EX_PENDING \<or> te_status ex = EX_RUNNING))
     (\<lambda>ex. ex\<lparr>te_status := EX_FAILED, te_error_code := ''stuck_worker_recovered'',
             te_completed_at := Some now\<rparr>) (g_execs g)\<rparr>"

definition recover_one_stuck_run :: "int \<Rightarrow> int \<Rightarrow> int \<Rightarrow> nat \<Rightarrow> (agent_run \<times> bool) agent_svc" where
  "recover_one_stuck_run cutoff now saved k =
    run_transition k (\<lambda>r. is_running r \<and> run_updated_at r \<le> cutoff) saved
      (\<lambda>r. r\<lparr>run_status_of := RUN_FAILED, run_failure_code := ''stuck_worker_recovered'',
         run_failure_message :=
           ''Recovered: no worker progress was observed before the staleness threshold.'',
         run_completed_at := Some now\<rparr>)
      (\<lambda>r. fail_in_flight now k \<circ>
        run_audit ''agent.run_failed'' k r [(''failure_code'', JStr ''stuck_worker_recovered'')] \<circ>
        create_step k ''run_failed'' ''failed'' ''stuck_worker_recovered'' (JObj []))"

definition stuck_runs :: "int \<Rightarrow> nat \<Rightarrow> gate \<Rightarrow> nat list" where
  "stuck_runs cutoff batch g =
    take batch (row_ids (sort_key (run_updated_at \<circ> snd)
      (rows_where (\<lambda>k r. is_running r \<and> run_updated_at r \<le> cutoff) (g_runs g))))"

definition redispatch_stuck_pending_runs :: "int \<Rightarrow> nat \<Rightarrow> gate \<Rightarrow> gate \<times> nat" where
  "redispatch_stuck_pending_runs cutoff batch g =
    (let ks = take batch (row_ids (sort_key (run_created_at \<circ> snd)
        (rows_where (\<lambda>k r. run_status_of r = RUN_PENDING \<and> run_created_at r \<le> cutoff) (g_runs g))))
     in (fold dispatch_run ks g, length ks))"

text \<open>
  The approvals of the waiting runs that are resolved long enough: the join of the runs with their
  executions and the requests of those, one candidate per resolved request.
\<close>

definition resolved_before :: "int \<Rightarrow> approval_request \<Rightarrow> bool" where
  "resolved_before cutoff ap \<longleftrightarrow> ar_status ap \<in> {AP_APPROVED, AP_REJECTED, AP_EXPIRED} \<and>
    (case ar_resolved_at ap of None \<Rightarrow> False | Some t \<Rightarrow> t \<le> cutoff)"

definition waiting_run_approvals :: "int \<Rightarrow> gate \<Rightarrow> (int \<times> nat) list" where
  "waiting_run_approvals cutoff g =
    concat (map (\<lambda>(k, r).
      if run_status_of r \<noteq> RUN_WAITING_FOR_APPROVAL then []
      else concat (map (\<lambda>(e, ex).
        if te_run ex \<noteq> k then []
        else map (\<lambda>(i, ap). (run_updated_at r, i))
          (rows_where (\<lambda>i ap. ar_execution ap = e \<and> resolved_before cutoff ap) (g_approvals g)))
        (g_execs g))) (g_runs g))"

definition redispatch_stuck_waiting_runs :: "int \<Rightarrow> nat \<Rightarrow> gate \<Rightarrow> gate \<times> nat" where
  "redispatch_stuck_waiting_runs cutoff batch g =
    (let is = take batch (map snd (sort_key fst (waiting_run_approvals cutoff g)))
     in (fold dispatch_resume is g, length is))"

fun recover_runs :: "int \<Rightarrow> int \<Rightarrow> (nat \<Rightarrow> int) \<Rightarrow> nat list \<Rightarrow> nat \<Rightarrow> world \<Rightarrow> world \<times> (agent_exc + nat)" where
  "recover_runs cutoff now saves [] n w = (w, Inr n)"
| "recover_runs cutoff now saves (k # ks) n w =
    (case recover_one_stuck_run cutoff now (saves k) k w of
       (w', Inl e) \<Rightarrow> (w', Inl e)
     | (w', Inr (r, done)) \<Rightarrow> recover_runs cutoff now saves ks (if done then n + 1 else n) w')"

text \<open>The three stale thresholds are settings.\<close>

definition recover_stuck_agent_runs ::
  "int \<Rightarrow> int \<Rightarrow> int \<Rightarrow> nat \<Rightarrow> int \<Rightarrow> (nat \<Rightarrow> int) \<Rightarrow> world \<Rightarrow> world \<times> (agent_exc + nat)" where
  "recover_stuck_agent_runs run_stale pending_stale waiting_stale batch now saves w =
    (case recover_runs (now - run_stale) now saves (stuck_runs (now - run_stale) batch (w_gate w)) 0 w of
       (w1, Inl e) \<Rightarrow> (w1, Inl e)
     | (w1, Inr n) \<Rightarrow>
        (let (g2, m) = redispatch_stuck_pending_runs (now - pending_stale) batch (w_gate w1);
             (g3, p) = redispatch_stuck_waiting_runs (now - waiting_stale) batch g2
         in (w1\<lparr>w_gate := g3\<rparr>, Inr (n + m + p))))"

end
