(* ===== verification/AgentFrames.thy ===== *)
theory AgentFrames
  imports AgentService
begin

section \<open>What the services leave alone\<close>

text \<open>
  Relations between the worlds before and after: a tool call changes a run only in its call counter, the
  turn loop preserves every relation its callbacks preserve, and no service touches a terminal run.
\<close>

subsection \<open>Tool calls and runs\<close>

definition uncounted :: "agent_run \<Rightarrow> agent_run" where
  "uncounted r = r\<lparr>run_tool_calls := 0\<rparr>"

lemma uncounted_count [simp]: "uncounted (r\<lparr>run_tool_calls := n\<rparr>) = uncounted r"
  by (simp add: uncounted_def)

lemma uncounted_fields:
  assumes "uncounted r' = uncounted r"
  shows "run_status_of r' = run_status_of r" "run_conversation r' = run_conversation r"
    "run_output_message r' = run_output_message r" "run_workspace r' = run_workspace r"
    "run_version r' = run_version r" "run_trigger_message r' = run_trigger_message r"
    "run_model_calls r' = run_model_calls r"
proof -
  from assms have "run_status_of (uncounted r') = run_status_of (uncounted r)"
    "run_conversation (uncounted r') = run_conversation (uncounted r)"
    "run_output_message (uncounted r') = run_output_message (uncounted r)"
    "run_workspace (uncounted r') = run_workspace (uncounted r)"
    "run_version (uncounted r') = run_version (uncounted r)"
    "run_trigger_message (uncounted r') = run_trigger_message (uncounted r)"
    "run_model_calls (uncounted r') = run_model_calls (uncounted r)" by simp_all
  then show "run_status_of r' = run_status_of r" "run_conversation r' = run_conversation r"
    "run_output_message r' = run_output_message r" "run_workspace r' = run_workspace r"
    "run_version r' = run_version r" "run_trigger_message r' = run_trigger_message r"
    "run_model_calls r' = run_model_calls r"
    by (simp_all add: uncounted_def)
qed

definition keeps_runs :: "gate \<Rightarrow> gate \<Rightarrow> bool" where
  "keeps_runs g g' \<longleftrightarrow> (\<forall>k r. row_get (g_runs g) k = Some r \<longrightarrow>
     (\<exists>r'. row_get (g_runs g') k = Some r' \<and> uncounted r' = uncounted r))"

lemma keeps_runs_same: "g_runs g' = g_runs g \<Longrightarrow> keeps_runs g g'"
  by (simp add: keeps_runs_def)

lemma keeps_runs_trans: "keeps_runs g g' \<Longrightarrow> keeps_runs g' g'' \<Longrightarrow> keeps_runs g g''"
  unfolding keeps_runs_def by metis

lemma keeps_runs_slot: "takes_slot run mx g g' b \<Longrightarrow> keeps_runs g g'"
  by (cases b) (auto simp: takes_slot_def keeps_runs_def)

lemma keeps_runs_cong: "g_runs g1 = g_runs g \<Longrightarrow> keeps_runs g1 g' \<Longrightarrow> keeps_runs g g'"
  by (simp add: keeps_runs_def)

lemma claim_execution_runs [simp]:
  "g_runs (fst (atomic (claim_execution (\<lambda>s. s) ws run v d b key fp red tmo spec) g)) = g_runs g"
  by (auto simp: atomic_def claim_execution_def resolve_existing_def Let_def split: option.splits prod.splits sum.splits)

lemma execute_tool_keeps_runs:
  assumes "execute_tool rt ps reg clk rec run inst key args ikey g = (g', res)"
  shows "keeps_runs g g'"
proof -
  obtain g1 ra where adm: "admit_request rt reg (clk 0) rec run inst key args ikey g = (g1, ra)"
    by fastforce
  have r1: "g_runs g1 = g_runs g" using admit_frame [OF adm] by simp
  show ?thesis
  proof (cases ra)
    case (Inl e)
    with assms adm have "g' = g1" by (simp add: execute_tool_def)
    with r1 show ?thesis by (simp add: keeps_runs_same)
  next
    case (Inr a)
    let ?spec = "tl_spec (ad_tool a)"
    let ?claim = "atomic (claim_execution (\<lambda>s. s) (run_workspace inst) run (run_version inst) (ad_def_id a)
      (ad_binding_id a) ikey (fingerprint_arguments rt (ad_args a))
      (redact_arguments (lower_all (ts_input_sensitive ?spec)) (ad_args a)) (ad_timeout a) ?spec) g1"
    obtain g2 rc where cl: "?claim = (g2, rc)" by fastforce
    have r2: "g_runs g2 = g_runs g"
      using claim_execution_runs [of "run_workspace inst" run "run_version inst" "ad_def_id a"
        "ad_binding_id a" ikey "fingerprint_arguments rt (ad_args a)"
        "redact_arguments (lower_all (ts_input_sensitive ?spec)) (ad_args a)" "ad_timeout a" ?spec g1] cl r1
      by simp
    show ?thesis
    proof (cases "\<exists>k sh. rc = Inr (k, sh, False) \<and> gate_and_perform rt ps clk rec run inst key a k g2 = (g', res)")
      case True
      then obtain k where p: "gate_and_perform rt ps clk rec run inst key a k g2 = (g', res)" by blast
      obtain b where "takes_slot run (av_max_tool_calls (ad_version a)) g2 g' b"
        using gate_and_perform_spec [OF p] by blast
      with r2 show ?thesis by (auto intro: keeps_runs_cong keeps_runs_slot)
    next
      case False
      then have "g_runs g' = g_runs g2"
        using assms adm Inr cl
        by (auto simp: execute_tool_def Let_def split: sum.splits option.splits if_splits prod.splits)
      with r2 show ?thesis by (simp add: keeps_runs_same)
    qed
  qed
qed

lemma fail_resumed_runs: "fail_resumed now k code msg e g = (g', res) \<Longrightarrow> keeps_runs g g'"
  using fail_resumed_quiet by (blast intro: keeps_runs_same)

lemma run_with_retries_runs [simp]:
  "g_runs (fst (run_with_retries rt tool k attempts args g)) = g_runs g"
  using run_with_retries_spec [of k attempts tool g rt args] by (auto simp: loop_spec_def)

lemma finish_handler_runs:
  "finish_handler now k (g, r) = (g', res) \<Longrightarrow> g_runs g' = g_runs g"
  using quiet_finish_handler [of now k "(g, r)" g' res] by simp

lemma resume_handler_runs:
  assumes "resume_handler rt now rec k ex tool args g = (g', res)"
  shows "keeps_runs g g'"
proof (cases "row_get (g_versions g) (te_version ex)")
  case None
  with assms show ?thesis by (simp add: resume_handler_def keeps_runs_same)
next
  case (Some version)
  obtain g2 b where rs: "reserve_budget_slot (te_run ex) (av_max_tool_calls version) g = (g2, b)" by fastforce
  have k2: "keeps_runs g g2" using reserve_takes_slot [OF rs] by (rule keeps_runs_slot)
  show ?thesis
  proof (cases b)
    case False
    with assms Some rs have "fail_resumed now k ''tool_budget_exceeded'' budget_exhausted_message
        (ToolBudgetExceededError []) g2 = (g', res)" by (simp add: resume_handler_def)
    from keeps_runs_trans [OF k2 fail_resumed_runs [OF this]] show ?thesis .
  next
    case True
    let ?g3 = "record_step rec ''execution_resumed'' ''started'' [] (JObj [(''tool_execution_id'', jid k)]) g2"
    obtain gr rr where w: "run_with_retries rt tool k (te_attempts ex) args ?g3 = (gr, rr)" by fastforce
    obtain g4 r4 where h: "finish_handler now k (gr, rr) = (g4, r4)" by fastforce
    have "g_runs g4 = g_runs g2"
      using finish_handler_runs [OF h] run_with_retries_runs [of rt tool k "te_attempts ex" args ?g3] w by simp
    moreover have "g_runs g' = g_runs g4"
      using assms Some rs True w h by (cases r4) (auto simp: resume_handler_def Let_def)
    ultimately show ?thesis using k2 by (simp add: keeps_runs_def)
  qed
qed

lemma resume_keeps_runs:
  assumes "resume_after_approval rt reg clk rec k g = (g', res)"
  shows "keeps_runs g g'"
proof (cases "row_get (g_execs g) k")
  case None
  with assms show ?thesis by (simp add: resume_after_approval_def keeps_runs_same)
next
  case (Some ex)
  obtain g1 won where c: "claim_resume (clk 0) k g = (g1, won)" by fastforce
  have r1: "g_runs g1 = g_runs g" using transition_runs(6) [of "clk 0" k g] c by simp
  have "keeps_runs g1 g'"
  proof (cases won)
    case False
    with assms Some c show ?thesis
      by (auto simp: resume_after_approval_def report_unclaimed_def keeps_runs_same split: if_splits)
  next
    case True
    with assms Some c show ?thesis
      by (auto simp: resume_after_approval_def keeps_runs_same
          split: sum.splits option.splits if_splits dest!: fail_resumed_runs resume_handler_runs)
  qed
  with r1 show ?thesis by (rule keeps_runs_cong)
qed

subsection \<open>The turn loop preserves what its callbacks preserve\<close>

locale world_relation =
  fixes ctx :: "'w run_context" and R :: "'w \<Rightarrow> 'w \<Rightarrow> bool"
  assumes R_refl: "R w w"
    and R_trans: "R w w' \<Longrightarrow> R w' w'' \<Longrightarrow> R w w''"
    and step_R: "R w (rc_step ctx a b c m w)"
    and generate_R: "R w (fst (rc_generate ctx q w))"
    and execute_R: "rc_execute_tool ctx = Some f \<Longrightarrow> R w (fst (f k args key w))"
begin

lemma step_then: "R w w' \<Longrightarrow> R w (rc_step ctx a b c m w')"
  by (rule R_trans [OF _ step_R])

lemma response_steps_R: "R w w' \<Longrightarrow> R w (response_steps ctx r w')"
  by (auto simp: response_steps_def Let_def intro!: step_then split: option.splits)

lemma generate_node_R: "R w (fst (generate_response_node rt ctx s w))"
proof (cases "rs_budget_exceeded s")
  case False
  let ?w0 = "rc_step ctx ''provider_call_started'' ''started'' [] (JObj []) w"
  obtain w1 r where g: "rc_generate ctx (build_request ctx s) ?w0 = (w1, r)" by fastforce
  then have "R w w1" using generate_R [of ?w0 "build_request ctx s"] step_R R_trans by fastforce
  with False g show ?thesis
    by (auto simp: generate_response_node_def intro: step_then response_steps_R
        split: option.splits sum.splits)
qed (simp add: generate_response_node_def R_refl)

lemma tool_node_R: "R w (fst (execute_tool_node rt limit ctx s w))"
proof -
  have e: "R w w1" if "rc_execute_tool ctx = Some f" and "f k args key w = (w1, r)" for f k args key w1 r
    using execute_R [OF that(1), of w k args key] that(2) by simp
  show ?thesis
    by (auto simp: execute_tool_node_def Let_def intro: R_refl step_R step_then
        split: option.splits prod.splits tool_outcome.splits dest!: e)
qed

lemma node_R: "R w (fst (run_node rt limit ctx n s w))"
  by (cases n) (auto simp: prepare_run_node_def check_budget_node_def handoff_request_node_def
      validate_result_node_def finalize_response_node_def Let_def R_refl step_R generate_node_R tool_node_R
      split: option.splits)

lemma loop_R: "R w (fst (graph_loop rt limit ctx fuel n s w))"
proof (induction fuel arbitrary: n s w)
  case (Suc fuel)
  obtain w1 r where w1: "run_node rt limit ctx n s w = (w1, r)" by fastforce
  then have "R w w1" using node_R [of w rt limit n s] by simp
  with w1 show ?case by (auto intro: R_trans Suc split: option.splits)
qed (simp add: R_refl)

lemma run_graph_R: "R w (fst (run_graph rt limit ctx msg w))"
  by (simp add: run_graph_def loop_R)

lemma run_resume_graph_R: "R w (fst (run_resume_graph rt limit ctx s w))"
  by (simp add: run_resume_graph_def loop_R)

end

subsection \<open>Terminal runs\<close>

text \<open>A run that has ended keeps its row, up to the counter of tool calls still in flight.\<close>

definition finals_kept :: "gate \<Rightarrow> gate \<Rightarrow> bool" where
  "finals_kept g g' \<longleftrightarrow> (\<forall>k r. row_get (g_runs g) k = Some r \<longrightarrow> run_status_of r \<in> set run_terminal \<longrightarrow>
     (\<exists>r'. row_get (g_runs g') k = Some r' \<and> uncounted r' = uncounted r))"

lemma finals_kept_refl [simp]: "finals_kept g g"
  by (simp add: finals_kept_def)

lemma finals_kept_trans: "finals_kept g g' \<Longrightarrow> finals_kept g' g'' \<Longrightarrow> finals_kept g g''"
  unfolding finals_kept_def by (metis uncounted_fields(1))

lemma keeps_finals: "keeps_runs g g' \<Longrightarrow> finals_kept g g'"
  by (simp add: keeps_runs_def finals_kept_def)

lemma finals_kept_same: "g_runs g' = g_runs g \<Longrightarrow> finals_kept g g'"
  by (simp add: keeps_finals keeps_runs_same)

lemma finals_kept_cong: "g_runs g1 = g_runs g2 \<Longrightarrow> finals_kept g g1 = finals_kept g g2"
  by (simp add: finals_kept_def)

lemma create_step_frame [simp]:
  "g_runs (create_step k ty st c m g) = g_runs g" "g_execs (create_step k ty st c m g) = g_execs g"
  "g_approvals (create_step k ty st c m g) = g_approvals g"
  "g_versions (create_step k ty st c m g) = g_versions g"
  "g_definitions (create_step k ty st c m g) = g_definitions g"
  "g_evals (create_step k ty st c m g) = g_evals g" "g_calls (create_step k ty st c m g) = g_calls g"
  "g_effects (create_step k ty st c m g) = g_effects g"
  by (simp_all add: create_step_def Let_def)

lemma run_effects_frame [simp]:
  "g_runs (run_audit a k r x g) = g_runs g" "g_execs (run_audit a k r x g) = g_execs g"
  "g_approvals (run_audit a k r x g) = g_approvals g"
  "g_runs (schedule_agent_run_terminal_observation r o' g) = g_runs g"
  "g_execs (schedule_agent_run_terminal_observation r o' g) = g_execs g"
  "g_approvals (schedule_agent_run_terminal_observation r o' g) = g_approvals g"
  "g_runs (schedule_channel_response_routing k g) = g_runs g"
  "g_execs (schedule_channel_response_routing k g) = g_execs g"
  "g_runs (dispatch_run k g) = g_runs g" "g_runs (dispatch_resume i g) = g_runs g"
  by (simp_all add: run_audit_def schedule_agent_run_terminal_observation_def
      schedule_channel_response_routing_def dispatch_run_def dispatch_resume_def)

lemma save_run_runs:
  assumes "save_run now k r g = Some g'"
  shows "\<exists>r'. g_runs g' = row_put k r' (g_runs g) \<and> run_status_of r' = run_status_of r \<and>
    run_output_message r' = run_output_message r \<and> run_conversation r' = run_conversation r \<and>
    run_final_response r' = run_final_response r \<and> run_model_calls r' = run_model_calls r \<and>
    run_trigger_message r' = run_trigger_message r"
  using assms by (auto simp: save_run_def put_run_def split: if_splits option.splits intro!: exI)

lemma save_run_execs: "save_run now k r g = Some g' \<Longrightarrow> g_execs g' = g_execs g \<and> g_approvals g' = g_approvals g"
  by (auto simp: save_run_def put_run_def split: if_splits option.splits)

lemma save_run_finals:
  assumes "save_run now k r g = Some g'" and "row_get (g_runs g) k = Some r0"
    and "run_status_of r0 \<notin> set run_terminal"
  shows "finals_kept g g'"
  using save_run_runs [OF assms(1)] assms(2,3) by (auto simp: finals_kept_def)

end
