(* ===== verification/AgentRunProperties.thy ===== *)
theory AgentRunProperties
  imports AgentFrames DeskProperties
begin

section \<open>What the run lifecycle guarantees\<close>

text \<open>The services of \<open>agents/services.py\<close> and the sweep of \<open>agents/recovery.py\<close> as instances of the
  locales of \<open>AgentGraphProperties\<close> and \<open>AgentFrames\<close>: the service's context counts its requests (\<open>turns\<close>) and preserves the relation of
  worlds in which ended runs are final (\<open>finals\<close>). The lemmas follow one service after the other; \<open>AgentLifecycle\<close>
  and \<open>AgentOutcomes\<close> state the properties that rest on them.\<close>

subsection \<open>The service's context\<close>

lemma on_gate_sel [simp]:
  "w_gate (on_gate f w) = f (w_gate w)" "w_desk (on_gate f w) = w_desk w"
  "w_requests (on_gate f w) = w_requests w" "w_tool_requests (on_gate f w) = w_tool_requests w"
  by (simp_all add: on_gate_def)

lemma service_context_sel [simp]:
  "rc_budgets (service_context env k inst v ms ts rid c) = version_budgets v"
  "rc_is_cancelled (service_context env k inst v ms ts rid c) = c"
  "rc_run_id (service_context env k inst v ms ts rid c) = rid"
  "rc_step (service_context env k inst v ms ts rid c) ty st code meta = on_gate (create_step k ty st code meta)"
  "rc_generate (service_context env k inst v ms ts rid c) = generate_callback env"
  "rc_execute_tool (service_context env k inst v ms ts rid c) = Some (execute_tool_callback env k inst)"
  "rc_request_handoff (service_context env k inst v ms ts rid c) = Some (request_handoff_callback inst)"
  by (simp_all add: service_context_def)

interpretation turns: turn_counter "service_context env k inst v ms ts rid c"
    "\<lambda>w. length (w_requests w)" "\<lambda>w. length (w_tool_requests w)" for env k inst v ms ts rid c
  by unfold_locales
    (auto simp: generate_callback_def execute_tool_callback_def split: prod.splits)

text \<open>The commits of others during a provider call leave ended runs alone, as every service here does.\<close>

definition respectful :: "agent_env \<Rightarrow> bool" where
  "respectful env \<longleftrightarrow> (\<forall>q w. finals_kept (w_gate w) (fst (ae_generate env q w)))"

interpretation finals: world_relation "service_context env k inst v ms ts rid c"
    "\<lambda>w w'. respectful env \<longrightarrow> finals_kept (w_gate w) (w_gate w')" for env k inst v ms ts rid c
proof
  fix w :: world and q
  show "respectful env \<longrightarrow> finals_kept (w_gate w)
      (w_gate (fst (rc_generate (service_context env k inst v ms ts rid c) q w)))"
    by (auto simp: respectful_def generate_callback_def split: prod.splits)
       (metis fst_conv)
next
  fix w :: world and f n args key
  assume "rc_execute_tool (service_context env k inst v ms ts rid c) = Some f"
  then show "respectful env \<longrightarrow> finals_kept (w_gate w) (w_gate (fst (f n args key w)))"
    by (auto simp: execute_tool_callback_def split: prod.splits
        dest!: execute_tool_keeps_runs intro: keeps_finals)
qed (auto simp: finals_kept_same intro: finals_kept_trans)

subsection \<open>Ended runs\<close>

lemma run_transition_finals:
  assumes "\<And>r. enabled r \<Longrightarrow> run_status_of r \<notin> set run_terminal"
    and "\<And>r g. g_runs (rest r g) = g_runs g"
  shows "finals_kept (w_gate w) (w_gate (fst (run_transition k enabled now f rest w)))"
  using assms save_run_finals
  by (auto simp: run_transition_def Let_def finals_kept_cong [OF assms(2)] split: option.splits)

lemma status_guards:
  "is_running r \<Longrightarrow> run_status_of r \<notin> set run_terminal"
  "not_terminal r \<Longrightarrow> run_status_of r \<notin> set run_terminal"
  by (auto simp: is_running_def not_terminal_def run_terminal_def)

lemma simple_transitions_finals:
  "finals_kept (w_gate w) (w_gate (fst (claim_agent_run clk k w)))"
  "finals_kept (w_gate w) (w_gate (fst (pause_run_for_approval now k s w)))"
  "finals_kept (w_gate w) (w_gate (fst (fail_run clk k code msg res w)))"
  "finals_kept (w_gate w) (w_gate (fst (budget_exceeded_run clk k reason s w)))"
  "finals_kept (w_gate w) (w_gate (fst (claim_run_for_resume now k w)))"
  "finals_kept (w_gate w) (w_gate (fst (recover_one_stuck_run cutoff now saved k w)))"
  unfolding claim_agent_run_def pause_run_for_approval_def fail_run_def budget_exceeded_run_def
    claim_run_for_resume_def recover_one_stuck_run_def Let_def
  by (rule run_transition_finals; auto simp: run_terminal_def fail_in_flight_def dest: status_guards)+

text \<open>A completion either leaves the world alone or saves the row it found running.\<close>

definition saves_running :: "nat \<Rightarrow> world \<Rightarrow> world \<Rightarrow> bool" where
  "saves_running k w w' \<longleftrightarrow> (\<exists>r r' t g. run_of k w = Some r \<and> is_running r \<and>
     save_run t k r' (w_gate w) = Some g \<and> g_runs (w_gate w') = g_runs g \<and>
     run_status_of r' \<in> set run_terminal)"

lemma saves_runningI:
  "run_of k w = Some r \<Longrightarrow> is_running r \<Longrightarrow> save_run t k r' (w_gate w) = Some g \<Longrightarrow>
    run_status_of r' \<in> set run_terminal \<Longrightarrow> g_runs (w_gate w') = g_runs g \<Longrightarrow> saves_running k w w'"
  by (auto simp: saves_running_def)

lemma post_output_status: "post_output now body meta r d = Some (r', d') \<Longrightarrow> run_status_of r' = run_status_of r"
  by (auto simp: post_output_def split: option.splits if_splits prod.splits sum.splits)

lemma complete_run_idle:
  "complete_run clk k s meta w = (w', Inl e) \<Longrightarrow> w' = w"
  "complete_run clk k s meta w = (w', Inr (r, False)) \<Longrightarrow> w' = w \<and> run_of k w = Some r \<and> \<not> is_running r"
  by (auto simp: complete_run_def Let_def split: option.splits if_splits)

lemma complete_run_saves:
  assumes "complete_run clk k s meta w = (w', Inr (r', True))"
  shows "saves_running k w w'"
proof -
  from assms obtain r g where r: "run_of k w = Some r" "is_running r"
      "save_run (clk 2) k r' (w_gate w) = Some g" "run_status_of r' = RUN_SUCCEEDED"
      "g_runs (w_gate w') = g_runs g"
    by (auto simp: complete_run_def Let_def split: option.splits if_splits dest!: post_output_status)
  then show ?thesis by (intro saves_runningI) (auto simp: run_terminal_def)
qed

text \<open>The facts of an effective handoff, one name per step of the block.\<close>

lemma handoff_run_steps:
  assumes h: "complete_run_as_handoff other clk k h s w = (w', Inr (r', True))"
  obtains r c cv d hid created d' g where
    "run_of k w = Some r" "is_running r" "run_conversation r = Some c"
    "row_get (dk_conversations (w_desk w)) c = Some cv"
    "create_or_reuse_handoff other (clk 0) (run_workspace r) c (cv_workspace cv) (hc_reason h) (hc_summary h)
       (Some (k, run_workspace r))
       (case run_ticket r of None \<Rightarrow> None
        | Some t \<Rightarrow> map_option (\<lambda>x. (t, tk_workspace x)) (row_get (dk_tickets (w_desk w)) t))
       (if run_correlation r = [] then None else Some (run_correlation r)) (w_desk w) = (d, Inr (hid, created))"
    "post_output (clk 2) handoff_acknowledgement (JObj [(''agent_run_id'', jid k), (''handoff_id'', jid hid)])
       ((apply_usage s r)\<lparr>run_final_response := handoff_acknowledgement, run_status_of := RUN_HANDED_OFF,
          run_completed_at := Some (clk 1)\<rparr>) d = Some (r', d')"
    "save_run (clk 3) k r' (w_gate w) = Some g" "w_desk w' = d'" "g_runs (w_gate w') = g_runs g"
proof -
  from assms obtain r where r: "run_of k w = Some r" "is_running r"
    by (auto simp: complete_run_as_handoff_def split: option.splits if_split_asm)
  with assms obtain c where c: "run_conversation r = Some c"
    by (cases "run_conversation r") (auto simp: complete_run_as_handoff_def)
  with r assms obtain cv where cv: "row_get (dk_conversations (w_desk w)) c = Some cv"
    by (cases "row_get (dk_conversations (w_desk w)) c") (auto simp: complete_run_as_handoff_def)
  let ?h = "create_or_reuse_handoff other (clk 0) (run_workspace r) c (cv_workspace cv) (hc_reason h) (hc_summary h)
       (Some (k, run_workspace r))
       (case run_ticket r of None \<Rightarrow> None
        | Some t \<Rightarrow> map_option (\<lambda>x. (t, tk_workspace x)) (row_get (dk_tickets (w_desk w)) t))
       (if run_correlation r = [] then None else Some (run_correlation r)) (w_desk w)"
  obtain d q where hq: "?h = (d, q)" by fastforce
  note run = h [unfolded complete_run_as_handoff_def, simplified r c cv hq option.case prod.case if_False
      not_not simp_thms]
  from run r(2) obtain hid created where q: "q = Inr (hid, created)"
    by (cases q) (auto simp: r c cv)
  from run r(2) q obtain d' where
    p: "post_output (clk 2) handoff_acknowledgement (JObj [(''agent_run_id'', jid k), (''handoff_id'', jid hid)])
       ((apply_usage s r)\<lparr>run_final_response := handoff_acknowledgement, run_status_of := RUN_HANDED_OFF,
          run_completed_at := Some (clk 1)\<rparr>) d = Some (r', d')"
    by (auto simp: Let_def split: option.splits)
  with run r(2) q obtain g where g: "save_run (clk 3) k r' (w_gate w) = Some g"
    by (cases "save_run (clk 3) k r' (w_gate w)") (auto simp: Let_def)
  with run r(2) q p have "w_desk w' = d'" "g_runs (w_gate w') = g_runs g"
    by auto
  with r c cv hq q p g show ?thesis by (intro that) auto
qed

lemma handoff_run_idle:
  "complete_run_as_handoff other clk k h s w = (w', Inl e) \<Longrightarrow> w' = w"
  "complete_run_as_handoff other clk k h s w = (w', Inr (r, False)) \<Longrightarrow>
    w' = w \<and> run_of k w = Some r \<and> \<not> is_running r"
  by (auto simp: complete_run_as_handoff_def Let_def split: option.splits if_split_asm prod.splits sum.splits)

lemma handoff_run_saves:
  assumes "complete_run_as_handoff other clk k h s w = (w', Inr (r', True))"
  shows "saves_running k w w'"
proof (rule handoff_run_steps [OF assms])
  fix r :: agent_run and c cv d hid created d' g
  assume run: "run_of k w = Some r" "is_running r" and saved: "save_run (clk 3) k r' (w_gate w) = Some g"
    and same: "g_runs (w_gate w') = g_runs g"
    and p: "post_output (clk 2) handoff_acknowledgement (JObj [(''agent_run_id'', jid k), (''handoff_id'', jid hid)])
       ((apply_usage s r)\<lparr>run_final_response := handoff_acknowledgement, run_status_of := RUN_HANDED_OFF,
          run_completed_at := Some (clk 1)\<rparr>) d = Some (r', d')"
  from post_output_status [OF p] have "run_status_of r' \<in> set run_terminal" by (simp add: run_terminal_def)
  from saves_runningI [OF run saved this same] show ?thesis .
qed

lemma saves_running_finals:
  assumes "saves_running k w w'"
  shows "finals_kept (w_gate w) (w_gate w')"
proof -
  from assms obtain r r' t g where "run_of k w = Some r" "is_running r"
      "save_run t k r' (w_gate w) = Some g" "g_runs (w_gate w') = g_runs g"
    by (auto simp: saves_running_def)
  then show ?thesis using save_run_finals [OF _ _ status_guards(1)] finals_kept_cong by blast
qed

lemma completion_finals:
  assumes "\<And>e. res = Inl e \<Longrightarrow> w' = w" and "\<And>r. res = Inr (r, False) \<Longrightarrow> w' = w"
    and "\<And>r. res = Inr (r, True) \<Longrightarrow> saves_running k w w'"
  shows "finals_kept (w_gate w) (w_gate w')"
proof (cases res)
  case (Inr x)
  then show ?thesis using assms(2,3) saves_running_finals by (cases x, cases "snd x") auto
qed (use assms(1) in simp)

lemma complete_run_finals: "finals_kept (w_gate w) (w_gate (fst (complete_run clk k s meta w)))"
proof -
  obtain w' res where c: "complete_run clk k s meta w = (w', res)" by fastforce
  then have "finals_kept (w_gate w) (w_gate w')"
    by (intro completion_finals [of res _ _ k]) (auto dest: complete_run_idle complete_run_saves)
  with c show ?thesis by simp
qed

lemma handoff_run_finals: "finals_kept (w_gate w) (w_gate (fst (complete_run_as_handoff other clk k h s w)))"
proof -
  obtain w' res where c: "complete_run_as_handoff other clk k h s w = (w', res)" by fastforce
  then have "finals_kept (w_gate w) (w_gate w')"
    by (intro completion_finals [of res _ _ k]) (auto dest: handoff_run_idle handoff_run_saves)
  with c show ?thesis by simp
qed

lemma conclude_finals: "finals_kept (w_gate w) (w_gate (fst (conclude env k inst meta s w)))"
  using handoff_run_finals complete_run_finals simple_transitions_finals
  by (simp add: conclude_def fail_or_handoff_def handoff_for_runtime_failure_def Let_def
      split: option.split recovery_action.split handoff_verdict.split)

lemma after_graph_finals:
  assumes "finals_kept g (w_gate (fst res))"
  shows "finals_kept g (w_gate (fst (after_graph env k inst meta c res)))"
  using assms conclude_finals simple_transitions_finals(3)
  by (auto simp: after_graph_def internal_failure_def split: prod.split sum.split option.split
      intro: finals_kept_trans)

lemma execute_claimed_finals:
  assumes "respectful env"
  shows "finals_kept (w_gate w) (w_gate (fst (execute_claimed_agent_run env k inst ms meta ts w)))"
  using assms simple_transitions_finals(3) finals.run_graph_R
  by (auto simp: execute_claimed_agent_run_def fresh_context_def split: option.split intro!: after_graph_finals)

lemma execute_run_finals:
  assumes "respectful env"
  shows "finals_kept (w_gate w) (w_gate (fst (execute_agent_run env k cat w)))"
proof -
  obtain w1 r where c: "claim_agent_run (ae_clock env w) k w = (w1, r)" by fastforce
  then have "finals_kept (w_gate w) (w_gate w1)"
    using simple_transitions_finals(1) [of w "ae_clock env w" k] by simp
  with c show ?thesis using execute_claimed_finals [OF assms]
    by (auto simp: execute_agent_run_def split: sum.split bool.split intro: finals_kept_trans)
qed

lemma continue_run_finals:
  assumes "respectful env"
  shows "finals_kept (w_gate w) (w_gate (fst (continue_run_after_resumed_tool env k inst m w)))"
  using assms simple_transitions_finals(3) finals.run_resume_graph_R
  by (auto simp: continue_run_after_resumed_tool_def resumed_context_def split: option.split
      intro!: after_graph_finals)

lemma report_status_fst [simp]: "fst (report_status x) = fst x"
  by (auto simp: report_status_def split: prod.split sum.split)

lemma resume_branches_finals:
  assumes "respectful env"
  shows "finals_kept (w_gate w) (w_gate (fst (resume_approved env run k key inst w)))"
    and "finals_kept (w_gate w) (w_gate (fst (resume_refused env run key outcome inst w)))"
proof -
  let ?w1 = "on_gate (create_step run ''approval_approved'' ''succeeded'' [] (JObj [])) w"
  obtain g res where r: "resume_after_approval (ae_rt env) (ae_registry env) (ae_clock env ?w1) (Some run) k
      (w_gate ?w1) = (g, res)" by fastforce
  let ?w2 = "?w1\<lparr>w_gate := g\<rparr>"
  have kept: "finals_kept (w_gate w) (w_gate ?w2)"
    using keeps_finals [OF resume_keeps_runs [OF r]] by (simp add: finals_kept_def)
  have "finals_kept (w_gate w) (w_gate (fst (continue_run_after_resumed_tool env run inst m ?w2)))" for m
    using kept continue_run_finals [OF assms] by (rule finals_kept_trans)
  moreover have "finals_kept (w_gate w) (w_gate (fst (fail_run clk run c m None ?w2)))" for clk c m
    using kept simple_transitions_finals(3) by (rule finals_kept_trans)
  ultimately show "finals_kept (w_gate w) (w_gate (fst (resume_approved env run k key inst w)))"
    using r kept by (simp add: resume_approved_def Let_def split: sum.split tool_exc.split)
  show "finals_kept (w_gate w) (w_gate (fst (resume_refused env run key outcome inst w)))"
    using continue_run_finals [OF assms] by (simp add: resume_refused_def finals_kept_def)
qed


lemma resume_run_finals:
  assumes "respectful env"
  shows "finals_kept (w_gate w) (w_gate (fst (resume_agent_run_after_approval env i w)))"
proof -
  have claim: "finals_kept (w_gate w) (w_gate w1)" if "claim_run_for_resume now k w = (w1, r)" for now k w1 r
    using simple_transitions_finals(5) [of w now k] that by simp
  show ?thesis
    using resume_branches_finals [OF assms]
    by (auto simp: resume_agent_run_after_approval_def Let_def
        split: option.split prod.split sum.split bool.split dest!: claim intro: finals_kept_trans)
qed

lemma dispatch_frame [simp]:
  "g_runs (fold dispatch_run ks g) = g_runs g" "g_runs (fold dispatch_resume ks g) = g_runs g"
  by (induction ks arbitrary: g) simp_all

lemma recover_runs_finals: "finals_kept (w_gate w) (w_gate (fst (recover_runs cutoff now saves ks n w)))"
proof (induction ks arbitrary: n w)
  case (Cons k ks)
  obtain w1 r where s: "recover_one_stuck_run cutoff now (saves k) k w = (w1, r)" by fastforce
  then have "finals_kept (w_gate w) (w_gate w1)"
    using simple_transitions_finals(6) [of w cutoff now "saves k" k] by simp
  with s Cons show ?case by (auto split: sum.split intro: finals_kept_trans)
qed simp

lemma recovery_finals:
  "finals_kept (w_gate w) (w_gate (fst (recover_stuck_agent_runs a b c batch now saves w)))"
proof -
  obtain w1 r where s: "recover_runs (now - a) now saves (stuck_runs (now - a) batch (w_gate w)) 0 w = (w1, r)"
    by fastforce
  then have "finals_kept (w_gate w) (w_gate w1)"
    using recover_runs_finals [of w "now - a" now saves] by (metis fst_conv)
  with s show ?thesis
    by (auto simp: recover_stuck_agent_runs_def redispatch_stuck_pending_runs_def
        redispatch_stuck_waiting_runs_def Let_def finals_kept_def split: sum.split)
qed

lemma cancel_approval_frame [simp]:
  "g_runs (cancel_approval_for_execution now k reason g) = g_runs g"
  "g_execs (cancel_approval_for_execution now k reason g) = g_execs g"
  by (simp_all add: cancel_approval_for_execution_def schedule_approval_decision_observation_def Let_def
      split: option.split)

lemma cancel_waiting_runs [simp]: "g_runs (cancel_waiting_execution aclk now k g) = g_runs g"
  by (auto simp: cancel_waiting_execution_def Let_def split: option.split)

lemma cancel_waiting_fold_runs [simp]: "g_runs (fold (cancel_waiting_execution aclk now) ks g) = g_runs g"
  by (induction ks arbitrary: g) simp_all

lemma cancel_run_finals: "finals_kept (w_gate w) (w_gate (fst (cancel_agent_run clk aclk ws k actor req w)))"
proof (cases "run_of k w")
  case (Some r)
  have "finals_kept (w_gate w) g'" if "save_run t k (r\<lparr>run_status_of := RUN_CANCELLED, run_cancelled_at := c\<rparr>) (w_gate w) = Some g"
    and "run_status_of r \<notin> set run_terminal" and "g_runs g' = g_runs g" for t c g g'
    using save_run_finals [OF that(1) Some that(2)] finals_kept_cong [OF that(3)] by simp
  then show ?thesis using Some
    by (auto simp: cancel_agent_run_def atomic_def Let_def split: option.split)
qed (simp add: cancel_agent_run_def atomic_def)

lemma create_run_finals:
  assumes "\<And>g. finals_kept g (other g)"
  shows "finals_kept (w_gate w) (w_gate (fst (create_agent_run other now ws v vs actor msg tr conv tick trig meta req w)))"
proof -
  have new: "finals_kept g (dispatch_run (fresh_id (g_runs g)) (put_run (fresh_id (g_runs g)) r g))" for g r
    by (auto simp: finals_kept_def)
  show ?thesis
    using finals_kept_trans [OF assms new] assms
    by (simp add: create_agent_run_def atomic_def on_gate_def Let_def split: option.split prod.split)
qed

end
