(* ===== verification/AgentLifecycle.thy ===== *)
theory AgentLifecycle
  imports AgentRunProperties ToolExample
begin

section \<open>The lifecycle of a run over any sequence of services\<close>

text \<open>
  The services of the run lifecycle as a step relation on the world, in any order and any number: what
  workers, the API and the scheduled sweeps do to the rows of the runs.
\<close>

inductive lifecycle :: "agent_env \<Rightarrow> world \<Rightarrow> world \<Rightarrow> bool" for env where
  create: "(\<And>g. finals_kept g (other g)) \<Longrightarrow>
    lifecycle env w (fst (create_agent_run other now ws v vs actor msg tr conv tick trig meta req w))"
| execute: "lifecycle env w (fst (execute_agent_run env k catalog w))"
| resume: "lifecycle env w (fst (resume_agent_run_after_approval env i w))"
| cancel: "lifecycle env w (fst (cancel_agent_run clk aclk ws k actor req w))"
| recover: "lifecycle env w (fst (recover_stuck_agent_runs a b c batch now saves w))"

lemma lifecycle_finals:
  assumes "respectful env" and "lifecycle env w w'"
  shows "finals_kept (w_gate w) (w_gate w')"
  using assms(2)
proof cases
  case create
  then show ?thesis using create_run_finals by blast
qed (simp_all add: execute_run_finals resume_run_finals cancel_run_finals recovery_finals assms(1))

lemma lifecycles_finals:
  assumes "respectful env" and "(lifecycle env)\<^sup>*\<^sup>* w w'"
  shows "finals_kept (w_gate w) (w_gate w')"
  using assms(2)
proof (induction rule: rtranclp_induct)
  case (step y z)
  from finals_kept_trans [OF step.IH lifecycle_finals [OF assms(1) step.hyps(2)]] show ?case .
qed simp

text \<open>C3. A run that has succeeded, failed, been cancelled, exhausted its budget or been handed off is never
  changed again by any sequence of creations, executions, resumptions, cancellations and recovery
  sweeps: its status, answer, message, failure and usage stay as they are (only the counter of tool
  calls may still count a call that was in flight).\<close>

theorem terminal_run_is_final:
  assumes "respectful env" and "(lifecycle env)\<^sup>*\<^sup>* w w'"
    and "run_of k w = Some r" and "run_status_of r \<in> set run_terminal"
  shows "\<exists>r'. run_of k w' = Some r' \<and> r' = r\<lparr>run_tool_calls := run_tool_calls r'\<rparr>"
proof -
  obtain r' where "run_of k w' = Some r'" and u: "uncounted r' = uncounted r"
    using lifecycles_finals [OF assms(1,2)] assms(3,4) by (auto simp: finals_kept_def)
  moreover have "r' = (uncounted r')\<lparr>run_tool_calls := run_tool_calls r'\<rparr>" by (simp add: uncounted_def)
  then have "r' = r\<lparr>run_tool_calls := run_tool_calls r'\<rparr>" by (simp only: u) (simp add: uncounted_def)
  ultimately show ?thesis by blast
qed

subsection \<open>A concrete world\<close>

text \<open>One run (3) of the example version, and an environment whose model answers at once.\<close>

definition plain_answer :: llm_response where
  "plain_answer = \<lparr>lr_text = ''done'', lr_finish_reason = ''stop'', lr_input_tokens = 1, lr_output_tokens = 1,
     lr_total_tokens = 2, lr_request_id = None, lr_structured = None, lr_cost = None, lr_tool_calls = [],
     lr_handoff = None\<rparr>"

definition example_env :: agent_env where
  "example_env = \<lparr>ae_rt = example_runtime, ae_settings = default_policy_settings,
     ae_registry = example_registry, ae_result_limit = 500,
     ae_generate = (\<lambda>q w. (w_gate w, w_desk w, Some (Inr plain_answer))), ae_elapsed = (\<lambda>w. 0),
     ae_clock = (\<lambda>w. int), ae_prompt = (\<lambda>v. ''p''), ae_setting_provider = ''p'', ae_configured = None\<rparr>"

definition world_of :: "gate \<Rightarrow> world" where
  "world_of g = \<lparr>w_gate = g, w_desk = empty_desk, w_requests = [], w_tool_requests = []\<rparr>"

lemma example_respectful: "respectful example_env"
  by (simp add: respectful_def example_env_def)

definition run_in :: "run_status \<Rightarrow> agent_run" where
  "run_in st = example_run\<lparr>run_status_of := st\<rparr>"

definition gate_with_run :: "run_status \<Rightarrow> gate" where
  "gate_with_run st = tool_gate\<lparr>g_runs := [(3, run_in st)]\<rparr>"

lemma terminal_run_is_final_witness:
  "\<exists>r'. run_of 3 (fst (execute_agent_run example_env 3 (\<lambda>w. Some [])
      (fst (cancel_agent_run int (\<lambda>k. 0) 9 3 1 None (world_of (gate_with_run RUN_FAILED)))))) = Some r' \<and>
    r' = (run_in RUN_FAILED)\<lparr>run_tool_calls := run_tool_calls r'\<rparr>"
  by (rule terminal_run_is_final [OF example_respectful, where w = "world_of (gate_with_run RUN_FAILED)"])
     (auto simp: world_of_def gate_with_run_def run_in_def run_terminal_def
       intro: rtranclp.rtrancl_into_rtrancl [OF r_into_rtranclp] lifecycle.intros)


subsection \<open>An executed run is settled\<close>

lemma node_cancelled:
  assumes "\<not> rs_cancelled s" and "run_node rt limit ctx n s w = (w', Some s')" and "rs_cancelled s'"
  shows "cancelled_now ctx w' \<and> route ctx n s' = None"
  using assms
  by (cases n) (auto simp: prepare_run_node_def check_budget_node_def generate_response_node_def
      merge_response_def execute_tool_node_def handoff_request_node_def validate_result_node_def
      finalize_response_node_def Let_def
      split: if_splits option.splits prod.splits sum.splits tool_outcome.splits handoff_verdict.splits)

lemma loop_cancelled:
  assumes "\<not> rs_cancelled s" and "graph_loop rt limit ctx fuel n s w = (w', Inr s')" and "rs_cancelled s'"
  shows "cancelled_now ctx w'"
  using assms
proof (induction fuel arbitrary: n s w)
  case (Suc fuel)
  obtain v q where v: "run_node rt limit ctx n s w = (v, q)" by fastforce
  with Suc.prems(2) obtain u where q: "q = Some u" by (cases q) auto
  show ?case
  proof (cases "rs_cancelled u")
    case True
    with node_cancelled [OF Suc.prems(1) v [unfolded q]] Suc.prems(2) v q show ?thesis by simp
  next
    case False
    with Suc v q show ?thesis by (auto split: option.splits)
  qed
qed simp

definition settled :: "nat \<Rightarrow> world \<Rightarrow> bool" where
  "settled k w \<longleftrightarrow> (\<exists>r. run_of k w = Some r \<and> run_status_of r \<noteq> RUN_RUNNING)"

lemma transition_settles:
  assumes "run_transition k enabled now f rest w = (w', Inr x)"
    and "\<And>r. run_status_of (f r) \<noteq> RUN_RUNNING" and "\<And>r g. g_runs (rest r g) = g_runs g"
    and "\<And>r. \<not> enabled r \<Longrightarrow> run_status_of r \<noteq> RUN_RUNNING"
  shows "settled k w'"
proof -
  from assms(1) obtain r where r: "run_of k w = Some r" by (cases "run_of k w") (auto simp: run_transition_def)
  show ?thesis
  proof (cases "enabled r")
    case False
    with assms(1) r show ?thesis by (auto simp: run_transition_def settled_def dest: assms(4))
  next
    case True
    with assms(1) r obtain g where g: "save_run now k (f r) (w_gate w) = Some g" "g_runs (w_gate w') = g_runs g"
      by (auto simp: run_transition_def Let_def assms(3) split: option.splits)
    from save_run_runs [OF g(1)] g(2) assms(2) show ?thesis by (auto simp: settled_def)
  qed
qed

lemma simple_transitions_settle:
  "pause_run_for_approval now k s w = (w', Inr x) \<Longrightarrow> settled k w'"
  "fail_run clk k code msg res w = (w', Inr x) \<Longrightarrow> settled k w'"
  "budget_exceeded_run clk k reason s w = (w', Inr x) \<Longrightarrow> settled k w'"
  unfolding pause_run_for_approval_def fail_run_def budget_exceeded_run_def Let_def
  by (erule transition_settles; auto simp: is_running_def not_terminal_def run_terminal_def)+

lemma saves_running_settles: "saves_running k w w' \<Longrightarrow> settled k w'"
  by (auto simp: saves_running_def settled_def run_terminal_def dest!: save_run_runs)

lemma idle_settles: "w' = w \<and> run_of k w = Some r \<and> \<not> is_running r \<Longrightarrow> settled k w'"
  by (auto simp: settled_def is_running_def)

lemma complete_run_settles:
  assumes "complete_run clk k s meta w = (w', Inr x)"
  shows "settled k w'"
proof -
  obtain r b where "x = (r, b)" by fastforce
  with assms show ?thesis
    using idle_settles [OF complete_run_idle(2)] saves_running_settles [OF complete_run_saves]
    by (cases b) auto
qed

lemma handoff_run_settles:
  assumes "complete_run_as_handoff other clk k h s w = (w', Inr x)"
  shows "settled k w'"
proof -
  obtain r b where "x = (r, b)" by fastforce
  with assms show ?thesis
    using idle_settles [OF handoff_run_idle(2)] saves_running_settles [OF handoff_run_saves]
    by (cases b) auto
qed

lemmas settles = simple_transitions_settle complete_run_settles handoff_run_settles

lemma conclude_settles: "conclude env k inst meta s w = (w', Inr x) \<Longrightarrow> settled k w'"
  by (auto simp: conclude_def fail_or_handoff_def handoff_for_runtime_failure_def Let_def
      split: option.splits if_splits recovery_action.splits handoff_verdict.splits dest: settles)

lemma after_graph_settles:
  assumes "after_graph env k inst meta c res = (w', Inr x)"
    and "\<And>w s. res = (w, Inr s) \<Longrightarrow> c \<Longrightarrow> rs_cancelled s \<Longrightarrow> run_is_cancelled k w"
  shows "settled k w'"
proof -
  obtain w r where res: "res = (w, r)" by fastforce
  show ?thesis
  proof (cases r)
    case (Inl e)
    with assms(1) res show ?thesis by (auto simp: after_graph_def internal_failure_def dest: settles)
  next
    case (Inr s)
    show ?thesis
    proof (cases "c \<and> rs_cancelled s")
      case True
      with assms Inr res show ?thesis
        by (auto simp: after_graph_def settled_def run_is_cancelled_def split: option.splits)
    next
      case False
      with assms(1) Inr res show ?thesis by (auto simp: after_graph_def dest: conclude_settles)
    qed
  qed
qed


lemma claimed_run_settles:
  assumes "execute_claimed_agent_run env k inst ms meta ts w = (w', Inr x)"
  shows "settled k w'"
proof -
  from assms obtain e w1 where "fail_run (ae_clock env w) k e w1 None w = (w', Inr x) \<or>
    (\<exists>v cat. after_graph env k inst meta True (run_graph (ae_rt env) (ae_result_limit env)
      (fresh_context env k inst v ms cat) (run_input_message inst) w) = (w', Inr x))"
    by (auto simp: execute_claimed_agent_run_def split: option.splits)
  then show ?thesis
  proof
    assume "\<exists>v cat. after_graph env k inst meta True (run_graph (ae_rt env) (ae_result_limit env)
      (fresh_context env k inst v ms cat) (run_input_message inst) w) = (w', Inr x)"
    then show ?thesis
      by (auto elim!: after_graph_settles simp: run_graph_def initial_state_def fresh_context_def
          dest!: loop_cancelled [rotated] simp: cancelled_now_def)
  qed (auto dest: settles)
qed

lemma continued_run_settles:
  assumes "continue_run_after_resumed_tool env k inst m w = (w', Inr x)"
  shows "settled k w'"
  using assms
  by (auto simp: continue_run_after_resumed_tool_def split: option.splits dest: settles
      elim!: after_graph_settles)

lemma report_status_Now:
  "report_status res = (w', Inr (Now st)) \<Longrightarrow> \<exists>x. res = (w', Inr x)"
  by (auto simp: report_status_def split: prod.splits sum.splits)

lemma executed_settles:
  assumes "run_of k w = Some r" and "run_status_of r = RUN_PENDING"
    and "execute_agent_run env k catalog w = (w', Inr x)"
  shows "settled k w'"
proof -
  obtain w1 c where c: "claim_agent_run (ae_clock env w) k w = (w1, c)" by fastforce
  have "\<exists>r1. c = Inr (r1, True)" if "c \<noteq> Inl e" for e
    using c assms
    by (auto simp: claim_agent_run_def run_transition_def Let_def execute_agent_run_def split: option.splits)
  with c assms(3) have "\<exists>r1. execute_claimed_agent_run env k r1 None [] (catalog w1) w1 = (w', Inr x)"
    by (cases c) (auto simp: execute_agent_run_def)
  then show ?thesis by (auto dest: claimed_run_settles)
qed

lemma resumed_settles:
  assumes "row_get (g_approvals (w_gate w)) i = Some ap" and "row_get (g_execs (w_gate w)) (ar_execution ap) = Some ex"
    and "resume_agent_run_after_approval env i w = (w', Inr (Now st))"
  shows "settled (te_run ex) w'"
proof -
  from assms obtain r1 w1 key where "resume_approved env (te_run ex) (ar_execution ap) key r1 w1 = (w', Inr (Now st)) \<or>
      (\<exists>o'. resume_refused env (te_run ex) key o' r1 w1 = (w', Inr (Now st)))"
    by (auto simp: resume_agent_run_after_approval_def Let_def split: if_splits prod.splits sum.splits bool.splits)
  then show ?thesis
    by (auto simp: resume_approved_def resume_refused_def Let_def
        split: prod.splits sum.splits tool_exc.splits if_splits
        dest!: report_status_Now dest: continued_run_settles settles)
qed

text \<open>Where an error of the retry loop comes from: the service itself, or the handler.\<close>

lemma retries_error:
  assumes "run_with_retries rt tool k attempts args g = (g', Inl e)" and "exc_code e = ''tool_execution_in_progress''"
  shows "\<exists>n. tl_handler tool k n args = HToolError e"
  using assms
proof (induction rt tool k attempts args g rule: run_with_retries.induct)
  case (1 rt tool k attempts args g)
  let ?lim = "ts_max_retries (tl_spec tool) + 1"
  obtain g2 r where i: "invoke_with_timeout rt tool k (attempts + 1) args (set_attempts k (attempts + 1) g) = (g2, r)"
    by fastforce
  have here: "\<exists>n. tl_handler tool k n args = HToolError e" if "r = Inl e"
    using i that 1(3)
    by (auto simp: invoke_with_timeout_def validate_output_def Let_def ToolInvalidOutputError_def
        split: handler_outcome.splits option.splits if_splits)
  have more: "attempts < ?lim"
    using 1(2,3) by (subst (asm) run_with_retries.simps) (auto simp: ToolRetryExhaustedError_def split: if_splits)
  show ?case
  proof (cases r)
    case (Inr out)
    with 1(2) i more show ?thesis by (subst (asm) run_with_retries.simps) (simp add: Let_def)
  next
    case (Inl x)
    show ?thesis
    proof (cases "\<exists>c m. x = ToolExc c m \<and> c \<in> set (ts_retryable (tl_spec tool))")
      case False
      with 1(2) i more Inl have "x = e"
        by (subst (asm) run_with_retries.simps) (auto simp: Let_def split: tool_exc.splits if_splits)
      with Inl here show ?thesis by simp
    next
      case True
      then obtain c m where x: "x = ToolExc c m" "c \<in> set (ts_retryable (tl_spec tool))" by blast
      show ?thesis
      proof (cases "attempts + 1 < ?lim")
        case False
        with 1(2,3) i more Inl x show ?thesis
          by (subst (asm) run_with_retries.simps) (auto simp: Let_def ToolRetryExhaustedError_def)
      next
        case last: True
        with 1(2) i more Inl x have "run_with_retries rt tool k (attempts + 1) args g2 = (g', Inl e)"
          by (subst (asm) run_with_retries.simps) (simp add: Let_def)
        with 1(1) [OF _ refl refl i [symmetric] Inl [unfolded x(1)] refl refl refl] more x last 1(3)
        show ?thesis by auto
      qed
    qed
  qed
qed

lemma finish_handler_error:
  "finish_handler now k (g, r) = (g', Inl e) \<Longrightarrow> exc_code e = ''tool_execution_in_progress'' \<Longrightarrow> r = Inl e"
  by (auto simp: finish_handler_def finalize_success_def finalize_failure_def
      split: prod.splits sum.splits tool_exc.splits option.splits if_splits)

text \<open>A resumption that finds the execution in progress either lost the claim of the row to a worker that
  has it running, or got the error from the handler.\<close>

lemma resume_in_progress:
  assumes "resume_after_approval rt reg clk rec k g = (g', Inl e)" and "exc_code e = ''tool_execution_in_progress''"
    and "row_get (g_execs g) k = Some ex"
  shows "te_status ex = EX_RUNNING \<and> g' = g \<or>
    te_status ex = EX_WAITING_FOR_APPROVAL \<and>
    (\<exists>tool n args. map_of reg (tool_key_of ex g) = Some tool \<and> tl_handler tool k n args = HToolError e)"
proof -
  note codes = ToolApprovalActionChangedError_def ToolDisabledError_def ToolInvalidInputError_def
    ToolBudgetExceededError_def ToolNotRegisteredError_def ToolConfigurationError_def ToolPolicyDeniedError_def
    ToolApprovalRejectedError_def ToolApprovalExpiredError_def ToolApprovalCancelledError_def
  obtain g1 won where c: "claim_resume (clk 0) k g = (g1, won)" by fastforce
  show ?thesis
  proof (cases won)
    case False
    with c assms(3) have "g1 = g" by (auto simp: claim_resume_def split: if_splits)
    with assms c False show ?thesis
      by (auto simp: resume_after_approval_def report_unclaimed_def policy_terminal_outcome_def
          approval_termination_errors_def codes split: if_splits option.splits)
  next
    case True
    with c assms(3) have w: "te_status ex = EX_WAITING_FOR_APPROVAL" "g1 = put_exec k (start_row (clk 0) ex) g"
      by (auto simp: claim_resume_def split: if_splits)
    have "\<exists>tool args. map_of reg (tool_key_of ex g) = Some tool \<and> resume_handler rt (clk 1) rec k ex tool args g1 = (g', Inl e)"
      using assms c True w(2)
      by (auto simp: resume_after_approval_def fail_resumed_def finalize_failure_def registry_get_def tool_key_of_def codes
          split: if_splits sum.splits option.splits prod.splits)
    then obtain tool args where t: "map_of reg (tool_key_of ex g) = Some tool"
      "resume_handler rt (clk 1) rec k ex tool args g1 = (g', Inl e)" by blast
    from t(2) assms(2) obtain g3 g4 where "finish_handler (clk 1) k (run_with_retries rt tool k (te_attempts ex) args g3) = (g4, Inl e)"
      by (auto simp: resume_handler_def fail_resumed_def finalize_failure_def Let_def codes
          split: option.splits prod.splits bool.splits sum.splits if_splits)
    then have "snd (run_with_retries rt tool k (te_attempts ex) args g3) = Inl e"
      using assms(2) by (cases "run_with_retries rt tool k (te_attempts ex) args g3") (auto dest: finish_handler_error)
    then obtain n where "tl_handler tool k n args = HToolError e"
      using retries_error assms(2) by (metis prod.collapse)
    with t(1) w(1) show ?thesis by blast
  qed
qed

text \<open>How a resumption that does not continue the run returns.\<close>

lemma resumed_skipped:
  assumes "row_get (g_approvals (w_gate w)) i = Some ap" and "row_get (g_execs (w_gate w)) (ar_execution ap) = Some ex"
    and "resume_agent_run_after_approval env i w = (w', Inr Skipped)"
  shows "w' = w \<and> (ar_status ap = AP_PENDING \<or> ar_status ap = AP_CANCELLED)"
  using assms
  by (cases "ar_status ap")
     (auto simp: resume_agent_run_after_approval_def Let_def resume_approved_def resume_refused_def report_status_def
       split: prod.splits sum.splits bool.splits tool_exc.splits if_splits)

text \<open>Somebody else has the action: the run no longer waits and nothing is written, or the run was claimed
  while the execution is running elsewhere and nothing is invoked, or the handler itself said so.\<close>

definition taken_elsewhere :: "agent_env \<Rightarrow> approval_request \<Rightarrow> tool_execution \<Rightarrow> world \<Rightarrow> world \<Rightarrow> bool" where
  "taken_elsewhere env ap ex w w' \<longleftrightarrow>
    w' = w \<and> map_option run_status_of (run_of (te_run ex) w) \<noteq> Some RUN_WAITING_FOR_APPROVAL \<or>
    ar_status ap = AP_APPROVED \<and> te_status ex = EX_RUNNING \<and>
      g_execs (w_gate w') = g_execs (w_gate w) \<and> g_calls (w_gate w') = g_calls (w_gate w) \<or>
    ar_status ap = AP_APPROVED \<and> te_status ex = EX_WAITING_FOR_APPROVAL \<and>
      (\<exists>tool n args e. map_of (ae_registry env) (tool_key_of ex (w_gate w)) = Some tool \<and>
        tl_handler tool (ar_execution ap) n args = HToolError e \<and> exc_code e = ''tool_execution_in_progress'')"

lemma resumed_already:
  assumes ap: "row_get (g_approvals (w_gate w)) i = Some ap" and ex: "row_get (g_execs (w_gate w)) (ar_execution ap) = Some ex"
    and res: "resume_agent_run_after_approval env i w = (w', Inr AlreadyResumed)"
  shows "taken_elsewhere env ap ex w w'"
proof -
  obtain w1 c where c: "claim_run_for_resume (ae_clock env w 0) (te_run ex) w = (w1, c)" by fastforce
  from res ap ex c obtain r b where cr: "c = Inr (r, b)"
    by (cases c) (auto simp: resume_agent_run_after_approval_def split: if_splits)
  show ?thesis
  proof (cases b)
    case False
    with res ap ex c cr have "w' = w1" by (auto simp: resume_agent_run_after_approval_def split: if_splits)
    with c cr False show ?thesis
      by (auto simp: taken_elsewhere_def claim_run_for_resume_def run_transition_def Let_def
          split: option.splits if_splits)
  next
    case True
    from c cr True have same: "g_execs (w_gate w1) = g_execs (w_gate w)" "g_calls (w_gate w1) = g_calls (w_gate w)"
      "g_definitions (w_gate w1) = g_definitions (w_gate w)"
      by (auto simp: claim_run_for_resume_def run_transition_def Let_def save_run_def put_run_def
          split: option.splits if_splits)
    let ?w2 = "on_gate (create_step (te_run ex) ''approval_approved'' ''succeeded'' [] (JObj [])) w1"
    have step: "g_execs (w_gate ?w2) = g_execs (w_gate w)" "g_calls (w_gate ?w2) = g_calls (w_gate w)"
      "g_definitions (w_gate ?w2) = g_definitions (w_gate w)"
      using same by (simp_all add: on_gate_def create_step_def)
    from res ap ex c cr True have a: "ar_status ap = AP_APPROVED" and
      "resume_approved env (te_run ex) (ar_execution ap) (tool_key_of ex (w_gate w1)) r w1 = (w', Inr AlreadyResumed)"
      by (auto simp: resume_agent_run_after_approval_def Let_def resume_refused_def report_status_def
          split: if_splits prod.splits sum.splits)
    then obtain g e where g: "resume_after_approval (ae_rt env) (ae_registry env) (ae_clock env ?w2) (Some (te_run ex))
        (ar_execution ap) (w_gate ?w2) = (g, Inl e)" "exc_code e = ''tool_execution_in_progress''" "w_gate w' = g"
      by (auto simp: resume_approved_def Let_def report_status_def split: prod.splits sum.splits tool_exc.splits if_splits)
    have key: "tool_key_of ex (create_step (te_run ex) ''approval_approved'' ''succeeded'' [] (JObj []) (w_gate w1)) =
        tool_key_of ex (w_gate w)" by (simp add: tool_key_of_def on_gate_def create_step_def same(3))
    from resume_in_progress [OF g(1,2)] ex step g(2,3) a show ?thesis
      unfolding taken_elsewhere_def by (auto simp: key)
  qed
qed


text \<open>The model answers, and the run completes.\<close>

lemmas turn_defs = prepare_run_node_def check_budget_node_def generate_response_node_def merge_response_def
  validate_result_node_def finalize_response_node_def Let_def check_budget_def cancelled_now_def
  response_steps_def considered_call_def considered_handoff_def add_cost_def has_error_def
  route_after_generate_def build_request_def generate_callback_def on_gate_def plain_answer_def

lemma answered_run:
  "\<exists>w x. execute_agent_run example_env 3 (\<lambda>w. Some []) (world_of (gate_with_run RUN_PENDING)) = (w, Inr (x, True)) \<and>
    run_status_of x = RUN_SUCCEEDED \<and> run_final_response x = ''done'' \<and> length (w_requests w) = 1"
  by (simp add: execute_agent_run_def claim_agent_run_def run_transition_def save_run_def Let_def
      world_of_def gate_with_run_def run_in_def example_defs fits_def run_audit_def
      execute_claimed_agent_run_def provider_for_def example_env_def fresh_context_def run_graph_def
      recursion_limit_def version_budgets_def service_context_def graph_loop_numeral turn_defs initial_state_def
      run_is_cancelled_def after_graph_def conclude_def complete_run_def is_running_def post_output_def
      apply_usage_def)


text \<open>A redelivered task changes nothing: executing a run that is no longer pending, or resuming one that
  no longer waits, returns without touching a row, calling the model or calling a tool.\<close>

theorem redelivered_task_changes_nothing:
  assumes "run_of k w = Some r"
  shows "(run_status_of r \<noteq> RUN_PENDING \<longrightarrow> execute_agent_run env k catalog w = (w, Inr (r, False))) \<and>
    (\<forall>i ap ex. row_get (g_approvals (w_gate w)) i = Some ap \<longrightarrow>
      row_get (g_execs (w_gate w)) (ar_execution ap) = Some ex \<longrightarrow> te_run ex = k \<longrightarrow>
      run_status_of r \<noteq> RUN_WAITING_FOR_APPROVAL \<longrightarrow>
      fst (resume_agent_run_after_approval env i w) = w)"
  using assms
  by (auto simp: execute_agent_run_def claim_agent_run_def run_transition_def
      resume_agent_run_after_approval_def claim_run_for_resume_def)

lemma redelivered_task_changes_nothing_witness:
  "execute_agent_run example_env 3 (\<lambda>w. Some []) (world_of (gate_with_run RUN_SUCCEEDED)) =
    (world_of (gate_with_run RUN_SUCCEEDED), Inr (run_in RUN_SUCCEEDED, False))"
  using redelivered_task_changes_nothing [of "world_of (gate_with_run RUN_SUCCEEDED)" 3 "run_in RUN_SUCCEEDED"
      example_env "\<lambda>w. Some []"]
  by (simp add: world_of_def gate_with_run_def run_in_def)

end
