(* ===== verification/AgentOutcomes.thy ===== *)
theory AgentOutcomes
  imports AgentLifecycle ToolRepeats
begin

section \<open>Completion, cancellation and recovery of a run\<close>

text \<open>The properties of a run that need the whole lifecycle of \<open>agents/services.py\<close> and
  \<open>agents/recovery.py\<close>: a completed run has posted exactly one message, a cancellation withdraws everything
  that waited for the run (and an action withdrawn in this way can still run later), the resume tasks of approval
  requests are accounted for over histories that include the recovery sweep (\<open>resume_op\<close>), the sweep releases
  stuck runs, and an execution stays within its budgets of model and tool calls.\<close>

subsection \<open>One message per completed run\<close>

lemma create_message_posts:
  assumes "create_message now ws k inst who dir body sender ext meta d = (d', Inr m)"
  shows "m \<notin> set (row_ids (dk_messages d)) \<and> (\<exists>row. dk_messages d' = row_put m row (dk_messages d) \<and>
    ms_conversation row = k \<and> ms_body row = body \<and> ms_sender_type row = who)"
  using assms
  by (auto simp: create_message_def atomic_def save_conversation_def Let_def
      split: if_splits option.splits sum.splits prod.splits)

lemma ended_run_refuses:
  assumes "run_of k w = Some r" and "run_status_of r \<in> set run_terminal"
  shows "fst (complete_run clk k s meta w) = w" "fst (complete_run_as_handoff other clk k h s w) = w"
    "fst (fail_run clk k code msg res w) = w"
  using assms
  by (auto simp: complete_run_def complete_run_as_handoff_def fail_run_def run_transition_def is_running_def
      not_terminal_def run_terminal_def)

text \<open>C8. Completing a run that answers a conversation posts its answer exactly once: one new message of the
  agent with the answer as its text, linked to the run in the same transaction; every later completion,
  handoff or failure of the run, with whatever arguments, changes nothing.\<close>

theorem completion_posts_once:
  assumes "complete_run clk k s meta w = (w', Inr (r', True))"
    and "run_of k w = Some r" and "run_conversation r = Some c" and "run_output_message r = None"
    and "rs_final s \<noteq> []"
  shows "\<exists>m row. m \<notin> set (row_ids (dk_messages (w_desk w))) \<and>
      dk_messages (w_desk w') = row_put m row (dk_messages (w_desk w)) \<and>
      ms_conversation row = c \<and> ms_body row = rs_final s \<and> ms_sender_type row = SND_AI_AGENT \<and>
      map_option run_output_message (run_of k w') = Some (Some m) \<and>
      fst (complete_run clk2 k s2 meta2 w') = w' \<and>
      fst (complete_run_as_handoff other clk2 k h s2 w') = w' \<and> fst (fail_run clk2 k code msg res w') = w'"
proof -
  let ?r = "(apply_usage s r)\<lparr>run_final_response := rs_final s, run_status_of := RUN_SUCCEEDED,
    run_completed_at := Some (clk 0)\<rparr>"
  have u: "run_conversation ?r = Some c" "run_output_message ?r = None"
    using assms(3,4) by (simp_all add: apply_usage_def)
  obtain d g where p: "post_output (clk 1) (rs_final s) (JObj ((''agent_run_id'', jid k) # meta)) ?r (w_desk w) = Some (r', d)"
    and g: "save_run (clk 2) k r' (w_gate w) = Some g" "g_runs (w_gate w') = g_runs g" "w_desk w' = d"
    using assms(1,2) by (auto simp: complete_run_def Let_def split: option.splits if_splits)
  from p u assms(5) obtain cv m where m: "create_ai_agent_message (clk 1) (run_workspace ?r) c cv (rs_final s) None
      (JObj ((''agent_run_id'', jid k) # meta)) (w_desk w) = (d, Inr m)" and r': "r' = ?r\<lparr>run_output_message := Some m\<rparr>"
    by (auto simp: post_output_def split: option.splits prod.splits sum.splits)
  obtain r2 where r2: "run_of k w' = Some r2" "run_status_of r2 = RUN_SUCCEEDED" "run_output_message r2 = Some m"
    using save_run_runs [OF g(1)] g(2) r' by auto
  note posted = create_message_posts [OF m [unfolded create_ai_agent_message_def]]
  have "run_status_of r2 \<in> set run_terminal" using r2(2) by (simp add: run_terminal_def)
  from ended_run_refuses [OF r2(1) this] posted r2(1,3) g(3) show ?thesis by fastforce
qed

definition chat_world :: world where
  "chat_world = (world_of (tool_gate\<lparr>g_runs := [(3, example_run\<lparr>run_workspace := 2, run_conversation := Some 5\<rparr>)]\<rparr>))
     \<lparr>w_desk := closed_desk\<rparr>"

definition final_state :: rt_state where
  "final_state = (initial_state [])\<lparr>rs_final := ''hello''\<rparr>"

lemma chat_completes: "\<exists>w r. complete_run int 3 final_state [] chat_world = (w, Inr (r, True))"
  by (simp add: complete_run_def chat_world_def world_of_def final_state_def initial_state_def example_run_def
      is_running_def apply_usage_def post_output_def closed_desk_def closed_conversation_def
      create_ai_agent_message_def create_message_def atomic_def save_conversation_def save_run_def fits_def
      empty_desk_def Let_def)

lemma completion_posts_once_witness:
  "\<exists>m row. m \<notin> set (row_ids (dk_messages (w_desk chat_world))) \<and>
    dk_messages (w_desk (fst (complete_run int 3 final_state [] chat_world))) =
      row_put m row (dk_messages (w_desk chat_world)) \<and> ms_body row = ''hello''"
proof -
  obtain w r where c: "complete_run int 3 final_state [] chat_world = (w, Inr (r, True))"
    using chat_completes by blast
  let ?r = "example_run\<lparr>run_workspace := 2, run_conversation := Some 5\<rparr>"
  have r: "run_of 3 chat_world = Some ?r" by (simp add: chat_world_def world_of_def)
  have h: "run_conversation ?r = Some 5" "run_output_message ?r = None" "rs_final final_state \<noteq> []"
    by (simp_all add: example_run_def final_state_def)
  have "rs_final final_state = ''hello''" by (simp add: final_state_def)
  with completion_posts_once [OF c r h] show ?thesis unfolding c fst_conv by metis
qed

subsection \<open>Cancellation\<close>

lemma cancel_waiting_execs:
  "row_get (g_execs (cancel_waiting_execution aclk now k g)) e =
    (case row_get (g_execs g) e of
       None \<Rightarrow> None
     | Some ex \<Rightarrow> Some (if e = k \<and> te_status ex = EX_WAITING_FOR_APPROVAL then cancel_execution_row now ex else ex))"
  by (auto simp: cancel_waiting_execution_def Let_def split: option.split)

lemma cancel_fold_execs:
  "row_get (g_execs (fold (cancel_waiting_execution aclk now) ks g)) e =
    (case row_get (g_execs g) e of
       None \<Rightarrow> None
     | Some ex \<Rightarrow> Some (if e \<in> set ks \<and> te_status ex = EX_WAITING_FOR_APPROVAL then cancel_execution_row now ex else ex))"
  by (induction ks arbitrary: g)
     (auto simp: cancel_waiting_execs cancel_execution_row_def split: option.split)

text \<open>No request of an execution is pending; an execution has at most one request.\<close>

definition withdrawn :: "nat \<Rightarrow> gate \<Rightarrow> bool" where
  "withdrawn e g \<longleftrightarrow> (\<forall>i a. row_get (g_approvals g) i = Some a \<longrightarrow> ar_execution a = e \<longrightarrow> ar_status a \<noteq> AP_PENDING)"

definition one_request_each :: "gate \<Rightarrow> bool" where
  "one_request_each g \<longleftrightarrow> distinct (row_ids (g_approvals g)) \<and>
    (\<forall>i j a b. row_get (g_approvals g) i = Some a \<longrightarrow> row_get (g_approvals g) j = Some b \<longrightarrow>
       ar_execution a = ar_execution b \<longrightarrow> i = j)"

lemma approval_of_NoneD: "approval_of k g = None \<Longrightarrow> row_get (g_approvals g) i = Some a \<Longrightarrow> ar_execution a \<noteq> k"
  by (auto simp: approval_of_def find_key_None dest: map_of_SomeD)

lemma cancel_approval_writes:
  assumes "one_request_each g"
  shows "g_approvals (cancel_approval_for_execution now k reason g) = g_approvals g \<and> withdrawn k g \<or>
    (\<exists>i a. row_get (g_approvals g) i = Some a \<and> ar_execution a = k \<and>
      g_approvals (cancel_approval_for_execution now k reason g) = row_put i (resolve_row AP_CANCELLED now a) (g_approvals g))"
proof (cases "approval_of k g")
  case None
  then have "withdrawn k g" using approval_of_NoneD by (auto simp: withdrawn_def)
  with None show ?thesis by (simp add: cancel_approval_for_execution_def)
next
  case (Some p)
  obtain i a where p: "p = (i, a)" by fastforce
  with Some assms have r: "row_get (g_approvals g) i = Some a" "ar_execution a = k"
    by (auto simp: one_request_each_def dest: approval_of_SomeD)
  show ?thesis
  proof (cases "ar_status a = AP_PENDING")
    case True
    with Some p r show ?thesis
      by (auto simp: cancel_approval_for_execution_def schedule_approval_decision_observation_def Let_def)
  next
    case False
    with r assms have "withdrawn k g" by (fastforce simp: withdrawn_def one_request_each_def)
    with False Some p show ?thesis by (simp add: cancel_approval_for_execution_def)
  qed
qed

lemma cancel_waiting_approvals:
  "g_approvals (cancel_waiting_execution aclk now k g) =
    g_approvals (cancel_approval_for_execution (aclk k) k ''run_cancelled'' g)"
  by (simp add: cancel_waiting_execution_def Let_def split: option.split)

lemma resolved_not_pending: "resolve_row AP_CANCELLED t a = b \<Longrightarrow> ar_status b \<noteq> AP_PENDING"
  by auto

lemma cancel_waiting_withdraws:
  assumes "one_request_each g"
  shows "one_request_each (cancel_waiting_execution aclk now k g)" "withdrawn k (cancel_waiting_execution aclk now k g)"
    "withdrawn e g \<Longrightarrow> withdrawn e (cancel_waiting_execution aclk now k g)"
  using cancel_approval_writes [OF assms, of "aclk k" k "''run_cancelled''"] assms
  by (auto simp: one_request_each_def withdrawn_def cancel_waiting_approvals
      split: if_splits dest!: resolved_not_pending)

lemma cancel_fold_withdraws:
  assumes "one_request_each g" and "e \<in> set ks \<or> withdrawn e g"
  shows "withdrawn e (fold (cancel_waiting_execution aclk now) ks g)"
  using assms
proof (induction ks arbitrary: g)
  case (Cons k ks)
  then show ?case using cancel_waiting_withdraws [OF Cons.prems(1)] by fastforce
qed simp


lemma cancel_waiting_calls [simp]: "g_calls (cancel_waiting_execution aclk now k g) = g_calls g"
  by (simp add: cancel_waiting_execution_def cancel_approval_for_execution_def
      schedule_approval_decision_observation_def Let_def split: option.split)

lemma cancel_fold_calls [simp]: "g_calls (fold (cancel_waiting_execution aclk now) ks g) = g_calls g"
  by (induction ks arbitrary: g) simp_all

lemma waiting_executions_iff:
  assumes "distinct (row_ids (g_execs g))"
  shows "e \<in> set (waiting_executions run g) \<longleftrightarrow>
    (\<exists>ex. row_get (g_execs g) e = Some ex \<and> te_run ex = run \<and> te_status ex = EX_WAITING_FOR_APPROVAL)"
  using rows_where_get [OF assms, of e _ "\<lambda>i ex. te_run ex = run \<and> te_status ex = EX_WAITING_FOR_APPROVAL"]
  by (force simp: waiting_executions_def row_ids_def)

text \<open>C7. Cancelling a run that waits for an approval takes everything back in one transaction: the run is
  cancelled, none of its executions waits any more, no request of an execution that waited can still be
  approved, no handler has run, and no active handoff of the run is left.\<close>

theorem cancellation_withdraws_everything:
  assumes "cancel_agent_run clk aclk ws k actor req w = (w', Inr r')"
    and "run_of k w = Some r" and "run_status_of r = RUN_WAITING_FOR_APPROVAL"
    and "distinct (row_ids (g_execs (w_gate w)))" and "one_request_each (w_gate w)"
    and "distinct (row_ids (dk_handoffs (w_desk w)))"
  shows "map_option run_status_of (run_of k w') = Some RUN_CANCELLED \<and>
    (\<forall>e ex. row_get (g_execs (w_gate w')) e = Some ex \<longrightarrow> te_run ex = k \<longrightarrow> te_status ex \<noteq> EX_WAITING_FOR_APPROVAL) \<and>
    (\<forall>e ex i a. row_get (g_execs (w_gate w)) e = Some ex \<longrightarrow> te_run ex = k \<longrightarrow>
      te_status ex = EX_WAITING_FOR_APPROVAL \<longrightarrow> row_get (g_approvals (w_gate w')) i = Some a \<longrightarrow>
      ar_execution a = e \<longrightarrow> ar_status a \<noteq> AP_PENDING) \<and>
    g_calls (w_gate w') = g_calls (w_gate w) \<and>
    (\<forall>i h. row_get (dk_handoffs (w_desk w')) i = Some h \<longrightarrow> hh_run h = Some k \<longrightarrow> \<not> is_active h)"
proof -
  have live: "run_status_of r \<notin> set run_terminal" by (simp add: assms(3) run_terminal_def)
  let ?r = "r\<lparr>run_status_of := RUN_CANCELLED, run_cancelled_at := Some (clk 0)\<rparr>"
  obtain g where g: "save_run (clk 1) k ?r (w_gate w) = Some g"
    using assms(1,2) live by (cases "save_run (clk 1) k ?r (w_gate w)") (auto simp: cancel_agent_run_def atomic_def)
  let ?g3 = "emit (record_event ''agent.run_cancelled'' ''agent_run'' k (Some actor) (Some ws)
      (JObj [(''agent_run_id'', jid k)]) req) (create_step k ''run_cancelled'' ''succeeded'' [] (JObj []) g)"
  let ?g4 = "fold (cancel_waiting_execution aclk (clk 2)) (waiting_executions k ?g3) ?g3"
  have w': "w_gate w' = schedule_agent_run_terminal_observation ?r ''cancelled'' ?g4"
    "w_desk w' = cancel_handoffs_for_run k ''run_cancelled'' (w_desk w)"
    using assms(1-3) live g by (auto simp: cancel_agent_run_def atomic_def Let_def)
  have same: "g_execs ?g3 = g_execs (w_gate w)" "g_approvals ?g3 = g_approvals (w_gate w)" "g_calls ?g3 = g_calls (w_gate w)"
    using save_run_execs [OF g] g by (auto simp: save_run_def put_run_def split: if_splits option.splits)
  have waits: "e \<in> set (waiting_executions k ?g3) \<longleftrightarrow> (\<exists>ex. row_get (g_execs (w_gate w)) e = Some ex \<and>
      te_run ex = k \<and> te_status ex = EX_WAITING_FOR_APPROVAL)" for e
    using waiting_executions_iff [of ?g3] assms(4) same(1) by simp
  have one: "one_request_each ?g3" using assms(5) same(2) by (simp add: one_request_each_def)
  have execs: "row_get (g_execs (w_gate w')) e = row_get (g_execs ?g4) e" "g_approvals (w_gate w') = g_approvals ?g4"
    "g_calls (w_gate w') = g_calls (w_gate w)" "g_runs (w_gate w') = g_runs g" for e
    using w'(1) same(3) by (simp_all add: schedule_agent_run_terminal_observation_def)
  have "map_option run_status_of (run_of k w') = Some RUN_CANCELLED"
    using save_run_runs [OF g] execs(4) by auto
  moreover have "te_status ex \<noteq> EX_WAITING_FOR_APPROVAL"
    if after: "row_get (g_execs (w_gate w')) e = Some ex" and mine: "te_run ex = k" for e ex
  proof -
    obtain ex0 where ex0: "row_get (g_execs (w_gate w)) e = Some ex0"
      and ex: "ex = (if e \<in> set (waiting_executions k ?g3) \<and> te_status ex0 = EX_WAITING_FOR_APPROVAL
        then cancel_execution_row (clk 2) ex0 else ex0)"
      using after unfolding execs(1) cancel_fold_execs same(1)
      by (cases "row_get (g_execs (w_gate w)) e") simp_all
    show ?thesis
    proof (cases "e \<in> set (waiting_executions k ?g3) \<and> te_status ex0 = EX_WAITING_FOR_APPROVAL")
      case True
      with ex show ?thesis by (simp add: cancel_execution_row_def)
    next
      case False
      with ex mine ex0 waits [of e] show ?thesis by auto
    qed
  qed
  moreover have "ar_status a \<noteq> AP_PENDING"
    if "row_get (g_execs (w_gate w)) e = Some ex" "te_run ex = k" "te_status ex = EX_WAITING_FOR_APPROVAL"
      "row_get (g_approvals (w_gate w')) i = Some a" "ar_execution a = e" for e ex i a
    using cancel_fold_withdraws [OF one, of e "waiting_executions k ?g3" aclk "clk 2"] that waits [of e] execs(2)
    by (auto simp: withdrawn_def)
  moreover have "\<not> is_active h" if "row_get (dk_handoffs (w_desk w')) i = Some h" "hh_run h = Some k" for i h
    using that w'(2) cancel_handoffs_get(1) [OF assms(6), of k "''run_cancelled''" i]
    by (auto simp: is_active_def handoff_active_def split: option.splits if_splits)
  ultimately show ?thesis using execs(3) by blast
qed


text \<open>A run (3) that waits for the approval of a refund, and another run (4) of the same version.\<close>

definition refund_request :: approval_request where
  "refund_request =
    \<lparr>ar_workspace = 9, ar_execution = 1, ar_evaluation = 1, ar_risk = 1, ar_status = AP_PENDING,
     ar_requested_by = Some 7, ar_required_role = ''admin'', ar_summary = [], ar_context = JObj [],
     ar_fingerprint = ''h'', ar_created_at = 0, ar_expires_at = 100, ar_resolved_at = None\<rparr>"

definition refund_evaluation :: policy_evaluation where
  "refund_evaluation =
    \<lparr>pe_workspace = 9, pe_execution = 1, pe_risk = 1, pe_version = None, pe_decision = REQUIRE_APPROVAL,
     pe_code = ''c'', pe_reason = [], pe_matched = []\<rparr>"

definition paused_world :: world where
  "paused_world = world_of (tool_gate\<lparr>
     g_runs := [(3, run_in RUN_WAITING_FOR_APPROVAL), (4, example_run)],
     g_execs := [(1, refund_row\<lparr>te_status := EX_WAITING_FOR_APPROVAL\<rparr>)],
     g_approvals := [(1, refund_request)], g_evals := [(1, refund_evaluation)]\<rparr>)"

lemmas paused_defs = paused_world_def world_of_def refund_request_def run_in_def

lemma paused_cancels:
  "\<exists>w r. cancel_agent_run int (\<lambda>k. 0) 9 3 1 None paused_world = (w, Inr r) \<and> g_calls (w_gate w) = [] \<and>
    g_execs (w_gate w) = [(1, cancel_execution_row 2 refund_row)] \<and>
    g_approvals (w_gate w) = [(1, resolve_row AP_CANCELLED 0 refund_request)] \<and>
    g_evals (w_gate w) = [(1, refund_evaluation)] \<and> row_get (g_runs (w_gate w)) 4 = Some example_run \<and>
    g_definitions (w_gate w) = g_definitions tool_gate \<and> g_bindings (w_gate w) = g_bindings tool_gate \<and>
    g_versions (w_gate w) = g_versions tool_gate"
  by (simp add: cancel_agent_run_def atomic_def paused_defs run_terminal_def example_run_def save_run_def fits_def
      Let_def waiting_executions_def rows_where_def row_ids_def refund_row_def new_execution_def
      cancel_waiting_execution_def cancel_approval_for_execution_def approval_of_def put_approval_def put_exec_def
      create_step_def emit_def tool_gate_def empty_gate_def cancel_execution_row_def put_run_def
      schedule_agent_run_terminal_observation_def schedule_approval_decision_observation_def)


lemma cancellation_withdraws_everything_witness:
  "\<exists>w r. cancel_agent_run int (\<lambda>k. 0) 9 3 1 None paused_world = (w, Inr r) \<and>
    map_option run_status_of (run_of 3 w) = Some RUN_CANCELLED \<and>
    (\<forall>i a. row_get (g_approvals (w_gate w)) i = Some a \<longrightarrow> ar_execution a = 1 \<longrightarrow> ar_status a \<noteq> AP_PENDING)"
proof -
  obtain w r where c: "cancel_agent_run int (\<lambda>k. 0) 9 3 1 None paused_world = (w, Inr r)"
    using paused_cancels by blast
  have p: "run_of 3 paused_world = Some (run_in RUN_WAITING_FOR_APPROVAL)"
    "run_status_of (run_in RUN_WAITING_FOR_APPROVAL) = RUN_WAITING_FOR_APPROVAL"
    "distinct (row_ids (g_execs (w_gate paused_world)))" "one_request_each (w_gate paused_world)"
    "distinct (row_ids (dk_handoffs (w_desk paused_world)))"
    "row_get (g_execs (w_gate paused_world)) 1 = Some (refund_row\<lparr>te_status := EX_WAITING_FOR_APPROVAL\<rparr>)"
    "te_run (refund_row\<lparr>te_status := EX_WAITING_FOR_APPROVAL\<rparr>) = 3"
    by (simp_all add: paused_defs one_request_each_def row_ids_def empty_desk_def refund_row_def new_execution_def)
  from cancellation_withdraws_everything [OF c p(1-5)] c p(6,7) show ?thesis by fastforce
qed

subsection \<open>A cancelled action that runs\<close>

text \<open>What a cancellation writes: requests become cancelled, never approved, and the rows it cancels keep
  their key, fingerprint, error code and attempts.\<close>

lemma cancel_waiting_never_approves:
  assumes "\<forall>i a. row_get (g_approvals g) i = Some a \<longrightarrow> ar_execution a = e \<longrightarrow> ar_status a \<noteq> AP_APPROVED"
  shows "\<forall>i a. row_get (g_approvals (cancel_waiting_execution aclk now k g)) i = Some a \<longrightarrow> ar_execution a = e \<longrightarrow>
    ar_status a \<noteq> AP_APPROVED"
  using assms
  by (auto simp: cancel_waiting_approvals cancel_approval_for_execution_def schedule_approval_decision_observation_def
      resolve_row_def Let_def split: option.splits if_splits)

lemma cancel_fold_never_approves:
  assumes "\<forall>i a. row_get (g_approvals g) i = Some a \<longrightarrow> ar_execution a = e \<longrightarrow> ar_status a \<noteq> AP_APPROVED"
  shows "\<forall>i a. row_get (g_approvals (fold (cancel_waiting_execution aclk now) ks g)) i = Some a \<longrightarrow>
    ar_execution a = e \<longrightarrow> ar_status a \<noteq> AP_APPROVED"
  using assms
proof (induction ks arbitrary: g)
  case (Cons k ks)
  from Cons.IH [OF cancel_waiting_never_approves [OF Cons.prems]] show ?case by simp
qed simp

lemma cancel_waiting_evals [simp]: "g_evals (cancel_waiting_execution aclk now k g) = g_evals g"
  by (simp add: cancel_waiting_execution_def cancel_approval_for_execution_def
      schedule_approval_decision_observation_def Let_def split: option.split)

lemma cancel_waiting_ids: "row_ids (g_execs (cancel_waiting_execution aclk now k g)) = row_ids (g_execs g)"
  by (auto simp: cancel_waiting_execution_def cancel_approval_for_execution_def
      schedule_approval_decision_observation_def Let_def row_ids_put split: option.split)
     (force simp: row_ids_def dest: map_of_SomeD)+

lemma cancel_fold_same:
  "g_evals (fold (cancel_waiting_execution aclk now) ks g) = g_evals g"
  "row_ids (g_execs (fold (cancel_waiting_execution aclk now) ks g)) = row_ids (g_execs g)"
  by (induction ks arbitrary: g) (simp_all add: cancel_waiting_ids)

lemma cancelled_execution:
  assumes cancel: "cancel_agent_run clk aclk ws k actor req w = (w', Inr r')"
    and r: "run_of k w = Some r" "run_status_of r = RUN_WAITING_FOR_APPROVAL"
    and ids: "distinct (row_ids (g_execs (w_gate w)))"
    and ex: "row_get (g_execs (w_gate w)) e = Some ex" "te_run ex = k" "te_status ex = EX_WAITING_FOR_APPROVAL"
    and unapproved: "\<forall>i a. row_get (g_approvals (w_gate w)) i = Some a \<longrightarrow> ar_execution a = e \<longrightarrow> ar_status a \<noteq> AP_APPROVED"
  shows "row_get (g_execs (w_gate w')) e = Some (cancel_execution_row (clk 2) ex)"
    "distinct (row_ids (g_execs (w_gate w')))" "eval_of e (w_gate w') = eval_of e (w_gate w)"
    "\<forall>i a. row_get (g_approvals (w_gate w')) i = Some a \<longrightarrow> ar_execution a = e \<longrightarrow> ar_status a \<noteq> AP_APPROVED"
proof -
  have live: "run_status_of r \<notin> set run_terminal" by (simp add: r(2) run_terminal_def)
  let ?r = "r\<lparr>run_status_of := RUN_CANCELLED, run_cancelled_at := Some (clk 0)\<rparr>"
  obtain g where g: "save_run (clk 1) k ?r (w_gate w) = Some g"
    using cancel r live by (cases "save_run (clk 1) k ?r (w_gate w)") (auto simp: cancel_agent_run_def atomic_def)
  let ?g3 = "emit (record_event ''agent.run_cancelled'' ''agent_run'' k (Some actor) (Some ws)
      (JObj [(''agent_run_id'', jid k)]) req) (create_step k ''run_cancelled'' ''succeeded'' [] (JObj []) g)"
  let ?g4 = "fold (cancel_waiting_execution aclk (clk 2)) (waiting_executions k ?g3) ?g3"
  have w': "w_gate w' = schedule_agent_run_terminal_observation ?r ''cancelled'' ?g4"
    using cancel r live g by (auto simp: cancel_agent_run_def atomic_def Let_def)
  have same: "g_execs ?g3 = g_execs (w_gate w)" "g_approvals ?g3 = g_approvals (w_gate w)" "g_evals ?g3 = g_evals (w_gate w)"
    using save_run_execs [OF g] g by (auto simp: save_run_def put_run_def split: if_splits option.splits)
  have e: "e \<in> set (waiting_executions k ?g3)" using waiting_executions_iff [of ?g3 e k] ids ex same(1) by simp
  have after: "g_execs (w_gate w') = g_execs ?g4" "g_approvals (w_gate w') = g_approvals ?g4" "g_evals (w_gate w') = g_evals ?g4"
    using w' by (simp_all add: schedule_agent_run_terminal_observation_def)
  show "row_get (g_execs (w_gate w')) e = Some (cancel_execution_row (clk 2) ex)"
    unfolding after(1) cancel_fold_execs same(1) using e ex by simp
  show "distinct (row_ids (g_execs (w_gate w')))" unfolding after(1) cancel_fold_same(2) same(1) by (rule ids)
  show "eval_of e (w_gate w') = eval_of e (w_gate w)"
    unfolding eval_of_def after(3) cancel_fold_same(1) same(3) by (rule refl)
  have "\<forall>i a. row_get (g_approvals ?g3) i = Some a \<longrightarrow> ar_execution a = e \<longrightarrow> ar_status a \<noteq> AP_APPROVED"
    using unapproved same(2) by simp
  from cancel_fold_never_approves [OF this]
  show "\<forall>i a. row_get (g_approvals (w_gate w')) i = Some a \<longrightarrow> ar_execution a = e \<longrightarrow> ar_status a \<noteq> AP_APPROVED"
    unfolding after(2) .
qed

text \<open>C22. An action that was gated and never approved runs. Take any waiting run whose cancellation succeeds,
  and one of its executions that waits for an approval nobody gave. Then any later call of another run of
  the workspace that is admitted, carries the same key and the same arguments, and has the execution's
  attempts left reopens the execution, skips the policy gate because an evaluation is on record, and
  invokes the handler, while no request of the execution is approved and none is asked for.\<close>

theorem cancelled_action_runs_unapproved:
  assumes cancel: "cancel_agent_run clk aclk ws k actor req w = (w', Inr r')"
    and run: "run_of k w = Some r" "run_status_of r = RUN_WAITING_FOR_APPROVAL"
    and ids: "distinct (row_ids (g_execs (w_gate w)))"
    and ex: "row_get (g_execs (w_gate w)) e = Some ex" "te_run ex = k" "te_status ex = EX_WAITING_FOR_APPROVAL"
    and gated: "eval_of e (w_gate w) \<noteq> None"
    and unapproved: "\<forall>i a. row_get (g_approvals (w_gate w)) i = Some a \<longrightarrow> ar_execution a = e \<longrightarrow> ar_status a \<noteq> AP_APPROVED"
    and call: "admit_request rt reg (clk' 0) rec run2 inst key args ikey (w_gate w') = (g1, Inr a)" "ikey \<noteq> []"
      "find_execution (run_workspace inst) (ad_def_id a) ikey (w_gate w') = Some (e, ex')"
      "fingerprint_arguments rt (ad_args a) = te_fingerprint ex" "run_of run2 w' = Some r2"
    and left: "te_error_code ex \<notin> set (ts_ambiguous (tl_spec (ad_tool a)))" "te_attempts ex \<le> ts_max_retries (tl_spec (ad_tool a))"
    and result: "execute_tool rt ps reg clk' rec run2 inst key args ikey (w_gate w') = (g', res)"
  shows "(\<exists>n. g_calls g' = g_calls (w_gate w') @ replicate (Suc n) e) \<and>
    g_approvals g' = g_approvals (w_gate w') \<and> g_evals g' = g_evals (w_gate w') \<and>
    (\<forall>i a. row_get (g_approvals g') i = Some a \<longrightarrow> ar_execution a = e \<longrightarrow> ar_status a \<noteq> AP_APPROVED)"
proof -
  note c = cancelled_execution [OF cancel run ids ex unapproved]
  have "ex' = cancel_execution_row (clk 2) ex" using find_execution_get [OF c(2) call(3)] c(1) by simp
  with call(4) left have "reopens_execution (tl_spec (ad_tool a)) (fingerprint_arguments rt (ad_args a)) ex'"
    by (simp add: reopens_execution_def cancel_execution_row_def)
  from reopened_call_invokes [where clk = clk', OF call(1,2) c(2) call(3) this _ call(5), of ps] gated c(3,4) result
  show ?thesis by auto
qed

text \<open>A call of another run can carry the same key: the keys of resumed runs do not contain the run.\<close>

lemma resumed_runs_share_keys:
  "tool_call_key rt (rc_run_id (resumed_context env j inst v)) turn c =
    tool_call_key rt (rc_run_id (resumed_context env j' inst' v')) turn c"
  by (simp add: resumed_context_def)

lemma cancelled_action_runs_unapproved_witness:
  "\<exists>w r g. cancel_agent_run int (\<lambda>k. 0) 9 3 1 None paused_world = (w, Inr r) \<and>
      fst (execute_tool example_runtime default_policy_settings example_registry int None 4 example_run
        ''payment.refund'' refund_args ''k'' (w_gate w)) = g \<and> 1 \<in> set (g_calls g) \<and>
      (\<forall>i a. row_get (g_approvals g) i = Some a \<longrightarrow> ar_execution a = 1 \<longrightarrow> ar_status a \<noteq> AP_APPROVED)"
proof -
  obtain w r where w: "cancel_agent_run int (\<lambda>k. 0) 9 3 1 None paused_world = (w, Inr r)" "g_calls (w_gate w) = []"
      "g_execs (w_gate w) = [(1, cancel_execution_row 2 refund_row)]"
      "g_approvals (w_gate w) = [(1, resolve_row AP_CANCELLED 0 refund_request)]"
      "g_evals (w_gate w) = [(1, refund_evaluation)]" "row_get (g_runs (w_gate w)) 4 = Some example_run"
      "g_definitions (w_gate w) = g_definitions tool_gate" "g_bindings (w_gate w) = g_bindings tool_gate"
      "g_versions (w_gate w) = g_versions tool_gate"
    using paused_cancels by blast
  have adm: "\<exists>a g1. admit_request example_runtime example_registry (int 0) None 4 example_run ''payment.refund'' refund_args ''k''
      (w_gate w) = (g1, Inr a) \<and> ad_def_id a = 5 \<and> ad_args a = refund_args \<and> ad_tool a = refund_tool"
    using w by (simp add: admit_defs example_defs)
  obtain a g1 where a: "admit_request example_runtime example_registry (int 0) None 4 example_run ''payment.refund'' refund_args ''k''
      (w_gate w) = (g1, Inr a)" "ad_def_id a = 5" "ad_args a = refund_args" "ad_tool a = refund_tool" using adm by blast
  have f: "find_execution (run_workspace example_run) (ad_def_id a) ''k'' (w_gate w) = Some (1, cancel_execution_row 2 refund_row)"
    using w(3) a(2) by (simp add: find_execution_def cancel_execution_row_def refund_row_def new_execution_def example_run_def)
  obtain g' res where e: "execute_tool example_runtime default_policy_settings example_registry int None 4 example_run
        ''payment.refund'' refund_args ''k'' (w_gate w) = (g', res)" by fastforce
  have p: "run_of 3 paused_world = Some (run_in RUN_WAITING_FOR_APPROVAL)"
    "run_status_of (run_in RUN_WAITING_FOR_APPROVAL) = RUN_WAITING_FOR_APPROVAL"
    "distinct (row_ids (g_execs (w_gate paused_world)))"
    "row_get (g_execs (w_gate paused_world)) 1 = Some (refund_row\<lparr>te_status := EX_WAITING_FOR_APPROVAL\<rparr>)"
    "te_run (refund_row\<lparr>te_status := EX_WAITING_FOR_APPROVAL\<rparr>) = 3"
    "te_status (refund_row\<lparr>te_status := EX_WAITING_FOR_APPROVAL\<rparr>) = EX_WAITING_FOR_APPROVAL"
    "eval_of 1 (w_gate paused_world) \<noteq> None"
    "\<forall>i a. row_get (g_approvals (w_gate paused_world)) i = Some a \<longrightarrow> ar_execution a = 1 \<longrightarrow> ar_status a \<noteq> AP_APPROVED"
    by (simp_all add: paused_defs row_ids_def refund_row_def new_execution_def eval_of_def refund_evaluation_def)
  have h: "fingerprint_arguments example_runtime (ad_args a) = te_fingerprint (refund_row\<lparr>te_status := EX_WAITING_FOR_APPROVAL\<rparr>)"
    "te_error_code (refund_row\<lparr>te_status := EX_WAITING_FOR_APPROVAL\<rparr>) \<notin> set (ts_ambiguous (tl_spec (ad_tool a)))"
    "te_attempts (refund_row\<lparr>te_status := EX_WAITING_FOR_APPROVAL\<rparr>) \<le> ts_max_retries (tl_spec (ad_tool a))"
    using a(3,4) by (simp_all add: refund_row_def new_execution_def fingerprint_arguments_def example_defs)
  from cancelled_action_runs_unapproved [where clk' = int, OF w(1) p(1-8) a(1) _ f h(1) w(6) h(2,3) e] w(1) e
  show ?thesis by auto
qed

subsection \<open>Recovery\<close>

text \<open>
  Every service that writes approval requests or dispatches their resume tasks: a request is asked for by
  the gate, decided, swept or cancelled, and the recovery sweep dispatches the task of a resolved request
  again while its run waits.
\<close>

datatype resume_op =
    Ask py_runtime "nat \<Rightarrow> int" nat tool_execution agent_run nat policy_evaluation nat risk_assessment string int
      arguments approval_tool
  | Approve approval_op
  | Redispatch int nat

fun resume_step :: "resume_op \<Rightarrow> gate \<Rightarrow> gate" where
  "resume_step (Ask rt clk k ex run ev evaluation rk risk role ttl args tool) g =
    fst (create_or_reuse_approval_request rt clk k ex run ev evaluation rk risk role ttl args tool g)"
| "resume_step (Approve a) g = approval_step a g"
| "resume_step (Redispatch cutoff batch) g = fst (redispatch_stuck_waiting_runs cutoff batch g)"

fun redispatched_by :: "resume_op \<Rightarrow> gate \<Rightarrow> nat list" where
  "redispatched_by (Redispatch cutoff batch) g = take batch (map snd (sort_key fst (waiting_run_approvals cutoff g)))"
| "redispatched_by _ g = []"

text \<open>The state after a history, and how often the history dispatched the task of request \<open>i\<close> again.\<close>

primrec resume_history :: "resume_op list \<Rightarrow> gate \<Rightarrow> gate" where
  "resume_history [] g = g"
| "resume_history (a # ops) g = resume_history ops (resume_step a g)"

primrec redispatches :: "nat \<Rightarrow> resume_op list \<Rightarrow> gate \<Rightarrow> nat" where
  "redispatches i [] g = 0"
| "redispatches i (a # ops) g = count_list (redispatched_by a g) i + redispatches i ops (resume_step a g)"

lemma dispatch_resume_effects:
  "tasks_for resume_task i (g_effects (fold dispatch_resume is g)) = tasks_for resume_task i (g_effects g) + count_list is i"
  "g_approvals (fold dispatch_resume is g) = g_approvals g"
  by (induction "is" arbitrary: g) (simp_all add: dispatch_resume_def resume_task_def)

lemma ask_step:
  assumes "distinct (row_ids (g_approvals g))"
  shows "distinct (row_ids (g_approvals (fst (create_or_reuse_approval_request rt clk k ex run ev evaluation rk risk
      role ttl args tool g))))"
    and "row_get (g_approvals g) i = Some r \<Longrightarrow> row_get (g_approvals (fst (create_or_reuse_approval_request rt clk k ex run
      ev evaluation rk risk role ttl args tool g))) i = Some r"
    and "tasks_for resume_task i (g_effects (fst (create_or_reuse_approval_request rt clk k ex run ev evaluation rk risk
      role ttl args tool g))) = tasks_for resume_task i (g_effects g)"
    and "resume_due (row_get (g_approvals (fst (create_or_reuse_approval_request rt clk k ex run ev evaluation rk risk
      role ttl args tool g))) i) = resume_due (row_get (g_approvals g) i)"
  using assms row_get_neq_fresh [of "g_approvals g" i r]
  by (auto simp: create_or_reuse_approval_request_def Let_def resume_due_def distinct_row_put split: option.splits)

lemma redispatched_resolved:
  assumes "distinct (row_ids (g_approvals g))" and "i \<in> set (redispatched_by a g)"
  shows "resume_due (row_get (g_approvals g) i) = 1"
proof -
  from assms(2) obtain cutoff batch where "i \<in> set (take batch (map snd (sort_key fst (waiting_run_approvals cutoff g))))"
    by (cases a) auto
  then have "i \<in> snd ` set (waiting_run_approvals cutoff g)" by (metis in_set_takeD set_map set_sort)
  then obtain ap where "(i, ap) \<in> set (g_approvals g)" "resolved_before cutoff ap"
    by (auto simp: waiting_run_approvals_def rows_where_def split: if_splits)
  with assms(1) show ?thesis by (auto simp: row_ids_def resume_due_def resolved_before_def)
qed

lemma resume_step_accounted:
  assumes "tasks_accounted n g"
  shows "tasks_accounted (\<lambda>j. count_list (redispatched_by a g) j + n j) (resume_step a g)"
proof -
  have ids: "distinct (row_ids (g_approvals g))" using assms by (simp add: tasks_accounted_def)
  show ?thesis
  proof (cases a)
    case Ask
    with assms ask_step [OF ids] show ?thesis by (simp add: tasks_accounted_def)
  next
    case (Approve b)
    with path_accounted [OF step_path [OF ids] assms] show ?thesis by simp
  next
    case (Redispatch cutoff batch)
    have "resume_due (row_get (g_approvals g) j) = 1" if "0 < count_list (redispatched_by a g) j" for j
      using that redispatched_resolved [OF ids, of j a] by (metis count_list_0_iff less_irrefl)
    with assms Redispatch show ?thesis
      by (auto simp: tasks_accounted_def redispatch_stuck_waiting_runs_def Let_def dispatch_resume_effects)
  qed
qed

lemma resume_history_accounted:
  "tasks_accounted n g \<Longrightarrow> tasks_accounted (\<lambda>j. redispatches j ops g + n j) (resume_history ops g)"
proof (induction ops arbitrary: n g)
  case (Cons a ops)
  from Cons.IH [OF resume_step_accounted [OF Cons.prems, of a]] show ?case by (simp add: ac_simps)
qed simp

text \<open>C15. Resume tasks are accounted for. From a state without requests and resume tasks, after any history in
  which requests are asked for, decided, swept and cancelled and the recovery sweep runs, the tasks
  dispatched for a request are exactly one if it was decided or expired, none if it is pending or was
  cancelled, and one more for each time the recovery sweep dispatched it again; and the sweep does so
  only for a request that was decided or expired.\<close>

theorem resume_dispatched_exactly_once:
  assumes "g_approvals g = []" and "\<forall>j. tasks_for ''resume_approved_action_task'' j (g_effects g) = 0"
  shows "tasks_for ''resume_approved_action_task'' i (g_effects (resume_history ops g)) =
      (case row_get (g_approvals (resume_history ops g)) i of
         None \<Rightarrow> 0
       | Some r \<Rightarrow> if ar_status r \<in> {AP_APPROVED, AP_REJECTED, AP_EXPIRED} then 1 else 0) +
      redispatches i ops g \<and>
    (0 < redispatches i ops g \<longrightarrow> (\<exists>r. row_get (g_approvals (resume_history ops g)) i = Some r \<and>
      ar_status r \<in> {AP_APPROVED, AP_REJECTED, AP_EXPIRED}))"
proof -
  have "tasks_accounted (\<lambda>j. 0) g" using assms by (simp add: tasks_accounted_def resume_task_def resume_due_def row_ids_def)
  from resume_history_accounted [OF this, of ops]
  have "tasks_for resume_task i (g_effects (resume_history ops g)) =
      resume_due (row_get (g_approvals (resume_history ops g)) i) + redispatches i ops g"
    "0 < redispatches i ops g \<Longrightarrow> resume_due (row_get (g_approvals (resume_history ops g)) i) = 1"
    by (simp_all add: tasks_accounted_def)
  then show ?thesis
    by (auto simp: resume_task_def resume_due_def split: option.splits if_splits) (metis approval_status.exhaust)+
qed

text \<open>The refund is asked for, approved, and dispatched a second time by a late sweep.\<close>

definition asking_gate :: gate where
  "asking_gate = tool_gate\<lparr>g_runs := [(3, run_in RUN_WAITING_FOR_APPROVAL)],
     g_execs := [(1, refund_row\<lparr>te_status := EX_WAITING_FOR_APPROVAL\<rparr>)]\<rparr>"

definition asked_twice :: "resume_op list" where
  "asked_twice =
    [Ask example_runtime (\<lambda>n. 0) 1 refund_row example_run 1 refund_evaluation 1
       \<lparr>ra_workspace = 9, ra_execution = 1, ra_tool_key = ''payment.refund'', ra_base = HIGH, ra_effective = HIGH,
         ra_side_effect = FINANCIAL, ra_factors = JObj []\<rparr>
       ''admin'' 100 refund_args (as_approval_tool (tl_spec refund_tool)),
     Approve (Decide (\<lambda>n. 5) 9 1 8 ''owner'' APPROVE [] None), Redispatch 10 5]"

theorem resume_dispatched_exactly_once_witness:
  "tasks_for ''resume_approved_action_task'' 1 (g_effects (resume_history asked_twice asking_gate)) = 2"
proof -
  have "redispatches 1 asked_twice asking_gate = 1 \<and>
    map_option ar_status (row_get (g_approvals (resume_history asked_twice asking_gate)) 1) = Some AP_APPROVED" by code_simp
  moreover have "g_approvals asking_gate = []" "g_effects asking_gate = []"
    by (simp_all add: asking_gate_def tool_gate_def empty_gate_def)
  ultimately show ?thesis
    using resume_dispatched_exactly_once [of asking_gate 1 asked_twice] by (auto split: option.splits)
qed

text \<open>A run that was resumed once, for an approved lookup, and now waits for the approval of a refund.\<close>

definition twice_paused_world :: world where
  "twice_paused_world = world_of (tool_gate\<lparr>
     g_runs := [(3, run_in RUN_WAITING_FOR_APPROVAL)],
     g_execs := [(1, (new_execution 9 3 2 4 6 ''j'' ''h'' [] 5)\<lparr>te_status := EX_SUCCEEDED\<rparr>),
       (2, refund_row\<lparr>te_status := EX_WAITING_FOR_APPROVAL\<rparr>)],
     g_approvals := [(1, refund_request\<lparr>ar_status := AP_APPROVED, ar_resolved_at := Some 0\<rparr>),
       (2, refund_request\<lparr>ar_execution := 2\<rparr>)], g_evals := []\<rparr>)"

lemma stale_dispatch:
  "redispatch_stuck_waiting_runs 10 5 (w_gate twice_paused_world) = (dispatch_resume 1 (w_gate twice_paused_world), 1)"
  by (simp add: redispatch_stuck_waiting_runs_def waiting_run_approvals_def twice_paused_world_def world_of_def
      run_in_def rows_where_def resolved_before_def refund_request_def new_execution_def refund_row_def
      example_run_def Let_def)

lemma stale_resume:
  "\<exists>w. resume_agent_run_after_approval example_env 1 twice_paused_world = (w, Inr (Now RUN_SUCCEEDED)) \<and>
    g_approvals (w_gate w) = g_approvals (w_gate twice_paused_world) \<and>
    row_get (g_execs (w_gate w)) 2 = Some (refund_row\<lparr>te_status := EX_WAITING_FOR_APPROVAL\<rparr>) \<and>
    length (w_requests w) = 1"
  by (simp add: resume_agent_run_after_approval_def twice_paused_world_def world_of_def run_in_def refund_request_def
      new_execution_def refund_row_def example_defs Let_def claim_run_for_resume_def run_transition_def save_run_def
      fits_def resume_approved_def resume_after_approval_def claim_resume_def report_unclaimed_def report_status_def
      continue_run_after_resumed_tool_def provider_for_def example_env_def resumed_context_def run_resume_graph_def
      recursion_limit_def version_budgets_def service_context_def graph_loop_numeral turn_defs initial_state_def
      resume_state_after_tool_def after_graph_def conclude_def complete_run_def is_running_def post_output_def
      apply_usage_def run_audit_def schedule_channel_response_routing_def schedule_agent_run_terminal_observation_def)


text \<open>The recovery sweep can release a run past an approval it still waits for: it re-dispatches the old,
  approved request of a run that now waits for another one; the resumption claims the run, hands the old
  result to the model and completes the run, while the second request stays pending and its execution
  waiting.\<close>

theorem recovery_resumes_past_a_pending_approval:
  "redispatch_stuck_waiting_runs 10 5 (w_gate twice_paused_world) = (dispatch_resume 1 (w_gate twice_paused_world), 1) \<and>
    (\<exists>w. resume_agent_run_after_approval example_env 1 twice_paused_world = (w, Inr (Now RUN_SUCCEEDED)) \<and>
      row_get (g_approvals (w_gate w)) 2 = Some (refund_request\<lparr>ar_execution := 2\<rparr>) \<and>
      ar_status (refund_request\<lparr>ar_execution := 2\<rparr>) = AP_PENDING \<and>
      row_get (g_execs (w_gate w)) 2 = Some (refund_row\<lparr>te_status := EX_WAITING_FOR_APPROVAL\<rparr>) \<and>
      length (w_requests w) = 1)"
proof -
  have "row_get (g_approvals (w_gate twice_paused_world)) 2 = Some (refund_request\<lparr>ar_execution := 2\<rparr>)"
    "ar_status (refund_request\<lparr>ar_execution := 2\<rparr>) = AP_PENDING"
    by (simp_all add: twice_paused_world_def world_of_def refund_request_def)
  with stale_dispatch stale_resume show ?thesis by metis
qed

definition stuck :: "int \<Rightarrow> nat \<Rightarrow> world \<Rightarrow> bool" where
  "stuck cutoff k w \<longleftrightarrow> (\<exists>r. run_of k w = Some r \<and> is_running r \<and> run_updated_at r \<le> cutoff)"

definition in_flight :: "tool_execution \<Rightarrow> bool" where
  "in_flight ex \<longleftrightarrow> te_status ex = EX_PENDING \<or> te_status ex = EX_RUNNING"

definition released :: "nat \<Rightarrow> world \<Rightarrow> bool" where
  "released k w \<longleftrightarrow> (\<exists>r. run_of k w = Some r \<and> run_status_of r = RUN_FAILED \<and>
      run_failure_code r = ''stuck_worker_recovered'') \<and>
    (\<forall>e ex. row_get (g_execs (w_gate w)) e = Some ex \<longrightarrow> te_run ex = k \<longrightarrow> \<not> in_flight ex)"

lemma fail_in_flight_frame [simp]: "g_runs (fail_in_flight now k g) = g_runs g"
  "row_get (g_execs (fail_in_flight now k g)) e = map_option (\<lambda>ex. if te_run ex = k \<and> in_flight ex
      then ex\<lparr>te_status := EX_FAILED, te_error_code := ''stuck_worker_recovered'', te_completed_at := Some now\<rparr> else ex)
    (row_get (g_execs g) e)"
  by (simp_all add: fail_in_flight_def in_flight_def)

lemma recover_one_effect:
  assumes "recover_one_stuck_run cutoff now t k w = (w', Inr x)"
  shows "\<not> stuck cutoff k w \<and> w' = w \<or> released k w' \<and> (\<forall>k'. k' \<noteq> k \<longrightarrow> run_of k' w' = run_of k' w) \<and>
    (\<forall>e ex. row_get (g_execs (w_gate w')) e = Some ex \<longrightarrow> in_flight ex \<longrightarrow> row_get (g_execs (w_gate w)) e = Some ex)"
proof -
  obtain r where r: "run_of k w = Some r"
    using assms by (cases "run_of k w") (auto simp: recover_one_stuck_run_def run_transition_def)
  show ?thesis
  proof (cases "is_running r \<and> run_updated_at r \<le> cutoff")
    case False
    with r assms have "\<not> stuck cutoff k w \<and> w' = w"
      by (auto simp: recover_one_stuck_run_def run_transition_def stuck_def)
    then show ?thesis ..
  next
    case True
    let ?r = "r\<lparr>run_status_of := RUN_FAILED, run_failure_code := ''stuck_worker_recovered'',
         run_failure_message := ''Recovered: no worker progress was observed before the staleness threshold.'',
         run_completed_at := Some now\<rparr>"
    obtain g where g: "save_run t k ?r (w_gate w) = Some g"
      using True r assms by (cases "save_run t k ?r (w_gate w)") (auto simp: recover_one_stuck_run_def run_transition_def)
    then have runs: "\<exists>r'. g_runs g = row_put k r' (g_runs (w_gate w)) \<and> run_status_of r' = RUN_FAILED \<and>
        run_failure_code r' = ''stuck_worker_recovered''" and execs: "g_execs g = g_execs (w_gate w)"
      by (auto simp: save_run_def put_run_def split: if_splits option.splits)
    have w': "w_gate w' = fail_in_flight now k (run_audit ''agent.run_failed'' k ?r
        [(''failure_code'', JStr ''stuck_worker_recovered'')]
        (create_step k ''run_failed'' ''failed'' ''stuck_worker_recovered'' (JObj []) g))"
      using True r g assms by (auto simp: recover_one_stuck_run_def run_transition_def Let_def)
    obtain r' where r': "g_runs (w_gate w') = row_put k r' (g_runs (w_gate w))" "run_status_of r' = RUN_FAILED"
        "run_failure_code r' = ''stuck_worker_recovered''"
      using runs w' by auto
    let ?f = "\<lambda>ex. if te_run ex = k \<and> in_flight ex
      then ex\<lparr>te_status := EX_FAILED, te_error_code := ''stuck_worker_recovered'', te_completed_at := Some now\<rparr> else ex"
    have get: "row_get (g_execs (w_gate w')) e = map_option ?f (row_get (g_execs (w_gate w)) e)" for e
      using w' execs by simp
    have f: "in_flight (?f ex) \<Longrightarrow> \<not> (te_run ex = k \<and> in_flight ex)" "\<not> in_flight (?f ex) \<or> te_run (?f ex) \<noteq> k" for ex
      by (auto simp: in_flight_def)
    have "\<not> in_flight ex" if "row_get (g_execs (w_gate w')) e = Some ex" "te_run ex = k" for e ex
      using that f(2) unfolding get by (metis (no_types, lifting) map_option_eq_Some)
    with r' have "released k w'" by (simp add: released_def)
    moreover have "run_of k' w' = run_of k' w" if "k' \<noteq> k" for k'
      using r'(1) that by simp
    moreover have "row_get (g_execs (w_gate w)) e = Some ex"
      if "row_get (g_execs (w_gate w')) e = Some ex" "in_flight ex" for e ex
    proof -
      obtain ex0 where "row_get (g_execs (w_gate w)) e = Some ex0" "ex = ?f ex0"
        using \<open>row_get (g_execs (w_gate w')) e = Some ex\<close> unfolding get by blast
      with f(1) [of ex0] \<open>in_flight ex\<close> show ?thesis by auto
    qed
    ultimately show ?thesis by blast
  qed
qed

lemma recover_runs_releases:
  assumes "recover_runs cutoff now saves ks n w = (w', Inr m)" and "distinct ks"
    and "\<forall>k \<in> set ks. stuck cutoff k w"
  shows "(\<forall>k \<in> set ks. released k w') \<and> (\<forall>k. k \<notin> set ks \<longrightarrow> run_of k w' = run_of k w) \<and>
    (\<forall>k. released k w \<longrightarrow> k \<notin> set ks \<longrightarrow> released k w')"
  using assms
proof (induction ks arbitrary: n w)
  case (Cons k ks)
  obtain v q where v: "recover_one_stuck_run cutoff now (saves k) k w = (v, q)" by fastforce
  with Cons.prems(1) obtain x where q: "q = Inr x" by (cases q) auto
  from recover_one_effect [OF v [unfolded q]] Cons.prems(3)
  have step: "released k v" "\<And>k'. k' \<noteq> k \<Longrightarrow> run_of k' v = run_of k' w"
    "\<And>e ex. row_get (g_execs (w_gate v)) e = Some ex \<Longrightarrow> in_flight ex \<Longrightarrow> row_get (g_execs (w_gate w)) e = Some ex"
    by auto
  have others: "released k' v" if "released k' w" "k' \<noteq> k" for k'
    using that step(2) [OF that(2)] step(3) unfolding released_def by metis
  have "stuck cutoff k' v" if "k' \<in> set ks" for k'
  proof -
    have "k' \<noteq> k" using Cons.prems(2) that by auto
    moreover have "stuck cutoff k' w" using Cons.prems(3) that by simp
    ultimately show ?thesis using step(2) by (simp add: stuck_def)
  qed
  then have "\<forall>k' \<in> set ks. stuck cutoff k' v" by blast
  moreover obtain n' where "recover_runs cutoff now saves ks n' v = (w', Inr m)"
    using Cons.prems(1) v q by (cases x) auto
  ultimately have rest: "(\<forall>k \<in> set ks. released k w') \<and> (\<forall>k. k \<notin> set ks \<longrightarrow> run_of k w' = run_of k v) \<and>
    (\<forall>k. released k v \<longrightarrow> k \<notin> set ks \<longrightarrow> released k w')"
    using Cons.IH Cons.prems(2) by simp
  have "k \<notin> set ks" using Cons.prems(2) by simp
  with rest step(1,2) others show ?case by simp
qed simp


lemma stuck_runs_iff:
  assumes "distinct (row_ids (g_runs (w_gate w)))"
    and "length (rows_where (\<lambda>k r. is_running r \<and> run_updated_at r \<le> cutoff) (g_runs (w_gate w))) \<le> batch"
  shows "k \<in> set (stuck_runs cutoff batch (w_gate w)) \<longleftrightarrow> stuck cutoff k w"
    and "distinct (stuck_runs cutoff batch (w_gate w))"
proof -
  let ?s = "rows_where (\<lambda>k r. is_running r \<and> run_updated_at r \<le> cutoff) (g_runs (w_gate w))"
  have all: "stuck_runs cutoff batch (w_gate w) = row_ids (sort_key (run_updated_at \<circ> snd) ?s)"
    using assms(2) by (simp add: stuck_runs_def row_ids_def)
  show "k \<in> set (stuck_runs cutoff batch (w_gate w)) \<longleftrightarrow> stuck cutoff k w"
    using rows_where_get [OF assms(1), of k _ "\<lambda>k r. is_running r \<and> run_updated_at r \<le> cutoff"]
    unfolding all by (force simp: row_ids_def stuck_def)
  have "distinct (map fst ?s)"
    using assms(1) by (simp add: rows_where_def row_ids_def distinct_map_filter)
  then show "distinct (stuck_runs cutoff batch (w_gate w))"
    unfolding all row_ids_def by (simp add: distinct_map)
qed

lemma redispatch_frame [simp]:
  "g_runs (fst (redispatch_stuck_pending_runs a b g)) = g_runs g"
  "g_execs (fst (redispatch_stuck_pending_runs a b g)) = g_execs g"
  "g_runs (fst (redispatch_stuck_waiting_runs a b g)) = g_runs g"
  "g_execs (fst (redispatch_stuck_waiting_runs a b g)) = g_execs g"
proof -
  have "g_execs (fold dispatch_run ks g) = g_execs g" "g_execs (fold dispatch_resume ks g) = g_execs g" for ks
    by (induction ks arbitrary: g) (simp_all add: dispatch_run_def dispatch_resume_def)
  then show "g_runs (fst (redispatch_stuck_pending_runs a b g)) = g_runs g"
    "g_execs (fst (redispatch_stuck_pending_runs a b g)) = g_execs g"
    "g_runs (fst (redispatch_stuck_waiting_runs a b g)) = g_runs g"
    "g_execs (fst (redispatch_stuck_waiting_runs a b g)) = g_execs g"
    by (simp_all add: redispatch_stuck_pending_runs_def redispatch_stuck_waiting_runs_def Let_def)
qed

text \<open>A recovery sweep whose batch covers the stale runs and that completes leaves none of them behind:
  every run that was RUNNING without progress since the threshold is FAILED with the recovery code, and no
  tool execution of it is in flight.\<close>

theorem sweep_releases_stuck_runs:
  assumes "recover_stuck_agent_runs stale p_stale w_stale batch now saves w = (w', Inr n)"
    and "distinct (row_ids (g_runs (w_gate w)))"
    and "length (rows_where (\<lambda>k r. is_running r \<and> run_updated_at r \<le> now - stale) (g_runs (w_gate w))) \<le> batch"
    and "run_of k w = Some r" and "run_status_of r = RUN_RUNNING" and "run_updated_at r \<le> now - stale"
  shows "\<exists>r'. run_of k w' = Some r' \<and> run_status_of r' = RUN_FAILED \<and>
      run_failure_code r' = ''stuck_worker_recovered'' \<and>
      (\<forall>e ex. row_get (g_execs (w_gate w')) e = Some ex \<longrightarrow> te_run ex = k \<longrightarrow>
        te_status ex \<noteq> EX_PENDING \<and> te_status ex \<noteq> EX_RUNNING)"
proof -
  let ?ks = "stuck_runs (now - stale) batch (w_gate w)"
  obtain w1 q where w1: "recover_runs (now - stale) now saves ?ks 0 w = (w1, q)" by fastforce
  with assms(1) obtain m where q: "q = Inr m" by (cases q) (auto simp: recover_stuck_agent_runs_def)
  from assms(1) w1 q have same: "g_runs (w_gate w') = g_runs (w_gate w1)" "g_execs (w_gate w') = g_execs (w_gate w1)"
    by (auto simp: recover_stuck_agent_runs_def split_beta Let_def)
  have "k \<in> set ?ks" "distinct ?ks" "\<forall>k \<in> set ?ks. stuck (now - stale) k w"
    using stuck_runs_iff [OF assms(2,3)] assms(4-6) by (auto simp: stuck_def is_running_def)
  with recover_runs_releases [OF w1 [unfolded q]] have "released k w1" by blast
  with same show ?thesis by (auto simp: released_def in_flight_def)
qed

lemma sweep_releases_stuck_runs_witness:
  "\<exists>w r. recover_stuck_agent_runs 5 5 5 3 10 (\<lambda>k. 11) (world_of (gate_with_run RUN_RUNNING)) = (w, Inr 1) \<and>
    run_of 3 w = Some r \<and> run_status_of r = RUN_FAILED"
proof -
  let ?w = "world_of (gate_with_run RUN_RUNNING)"
  have rows: "g_runs (w_gate ?w) = [(3, run_in RUN_RUNNING)]" "is_running (run_in RUN_RUNNING)"
    "run_updated_at (run_in RUN_RUNNING) = 0" "run_status_of (run_in RUN_RUNNING) = RUN_RUNNING"
    by (simp_all add: world_of_def gate_with_run_def run_in_def is_running_def example_run_def)
  obtain w where w: "recover_stuck_agent_runs 5 5 5 3 10 (\<lambda>k. 11) ?w = (w, Inr 1)"
    by (simp add: recover_stuck_agent_runs_def stuck_runs_def rows_where_def row_ids_def
        world_of_def gate_with_run_def is_running_def recover_one_stuck_run_def run_transition_def save_run_def fits_def Let_def run_in_def example_run_def
        redispatch_stuck_pending_runs_def redispatch_stuck_waiting_runs_def waiting_run_approvals_def)
  have "\<exists>r'. run_of 3 w = Some r' \<and> run_status_of r' = RUN_FAILED"
    using sweep_releases_stuck_runs [OF w, of 3 "run_in RUN_RUNNING"] rows by (auto simp: row_ids_def rows_where_def)
  with w show ?thesis by blast
qed


subsection \<open>Calls of the model and of tools\<close>

definition same_requests :: "world \<Rightarrow> world \<Rightarrow> bool" where
  "same_requests w w' \<longleftrightarrow> w_requests w' = w_requests w \<and> w_tool_requests w' = w_tool_requests w"

lemma transition_requests: "same_requests w (fst (run_transition k enabled now f rest w))"
  by (auto simp: same_requests_def run_transition_def Let_def split: option.split)

lemma completion_requests:
  "same_requests w (fst (complete_run clk k s meta w))"
  "same_requests w (fst (complete_run_as_handoff other clk k h s w))"
  by (auto simp: same_requests_def complete_run_def complete_run_as_handoff_def Let_def
      split: option.split prod.split sum.split)

lemma conclude_requests: "same_requests w (fst (conclude env k inst meta s w))"
  using completion_requests transition_requests
  by (simp add: conclude_def fail_or_handoff_def handoff_for_runtime_failure_def fail_run_def
      budget_exceeded_run_def pause_run_for_approval_def Let_def
      split: option.split recovery_action.split handoff_verdict.split)

lemma after_graph_requests: "same_requests (fst res) (fst (after_graph env k inst meta c res))"
  using conclude_requests transition_requests
  by (cases res) (auto simp: after_graph_def internal_failure_def fail_run_def same_requests_def
      split: sum.split option.split)

text \<open>C13. Executing a run makes at most \<open>max_model_calls\<close> calls of the model, and no more tool calls than model
  calls, whatever the model answers, the tools return and the clock shows.\<close>

theorem execution_calls_are_bounded:
  assumes "run_of k w = Some r" and "row_get (g_versions (w_gate w)) (run_version r) = Some v"
    and "execute_agent_run env k catalog w = (w', res)"
  shows "length (w_requests w') \<le> length (w_requests w) + nat (av_max_model_calls v) \<and>
    length (w_tool_requests w') + length (w_requests w) \<le> length (w_tool_requests w) + length (w_requests w')"
proof -
  obtain w1 q where c: "claim_agent_run (ae_clock env w) k w = (w1, q)" by fastforce
  have claimed: "same_requests w w1" using transition_requests c by (metis claim_agent_run_def fst_conv)
  have frame: "g_versions (w_gate w1) = g_versions (w_gate w)" "\<And>x b. q = Inr (x, b) \<Longrightarrow> run_version x = run_version r"
    using c assms(1) by (auto simp: claim_agent_run_def run_transition_def save_run_def put_run_def run_audit_def
        Let_def split: option.splits if_splits)
  show ?thesis
  proof (cases "\<exists>x ts. q = Inr (x, True) \<and> catalog w1 = Some ts \<and> provider_for env v = None")
    case True
    then obtain x ts where x: "q = Inr (x, True)" "catalog w1 = Some ts" "provider_for env v = None" by blast
    let ?ctx = "fresh_context env k x v None ts"
    obtain w2 s where g: "run_graph (ae_rt env) (ae_result_limit env) ?ctx (run_input_message x) w1 = (w2, s)"
      by fastforce
    have "w' = fst (after_graph env k x [] True (w2, s))"
      using assms(2,3) c x frame(1) frame(2) [OF x(1)] g by (simp add: execute_agent_run_def execute_claimed_agent_run_def)
    with after_graph_requests [of "(w2, s)"] have "same_requests w2 w'" by (metis fst_conv)
    with turns.run_counts [OF g [unfolded fresh_context_def]] claimed show ?thesis
      by (simp add: same_requests_def version_budgets_def)
  next
    case False
    have "same_requests w1 w'"
    proof (cases q)
      case (Inr y)
      obtain x b where y: "y = (x, b)" by fastforce
      have fails: "same_requests w1 (fst (fail_run clk k code msg None w1))" for clk code msg
        unfolding fail_run_def by (rule transition_requests)
      from Inr y False assms(2,3) c frame show ?thesis
        using fails by (cases b) (auto simp: execute_agent_run_def execute_claimed_agent_run_def same_requests_def
            split: option.splits; metis fst_conv)+
    qed (use assms(3) c in \<open>simp add: execute_agent_run_def same_requests_def\<close>)
    with claimed show ?thesis by (simp add: same_requests_def)
  qed
qed


lemma execution_calls_are_bounded_witness:
  "length (w_requests (fst (execute_agent_run example_env 3 (\<lambda>w. Some []) (world_of (gate_with_run RUN_PENDING))))) \<le> 4"
proof -
  let ?w = "world_of (gate_with_run RUN_PENDING)"
  obtain w' res where e: "execute_agent_run example_env 3 (\<lambda>w. Some []) ?w = (w', res)" by fastforce
  have "run_of 3 ?w = Some (run_in RUN_PENDING)" "w_requests ?w = []"
    "row_get (g_versions (w_gate ?w)) (run_version (run_in RUN_PENDING)) = Some example_version"
    by (simp_all add: world_of_def gate_with_run_def run_in_def tool_gate_def example_run_def)
  with execution_calls_are_bounded [OF _ _ e] e show ?thesis by (fastforce simp: example_version_def)
qed

end
