(* ===== verification/Destinations.thy ===== *)
theory Destinations
  imports Platform "HOL-Library.Word"
begin

section \<open>Outbound destinations\<close>

text \<open>
  \<open>webhooks/security.py\<close> and \<open>integrations/security.py\<close>: parsing a webhook URL and deciding which resolved
  addresses may be connected to. An address is its 32 or 128 bit word. The predicates \<open>is_global\<close>,
  \<open>is_multicast\<close> and \<open>ipv4_mapped\<close> are those of the \<open>ipaddress\<close> module of the Python 3.11 the image runs,
  with its tables of special networks. \<open>urlsplit\<close>, \<open>getaddrinfo\<close> and the address parser are arguments;
  \<open>None\<close> is the exception each raises.
\<close>

unbundle bit_operations_syntax

subsection \<open>Addresses\<close>

datatype ip_address = IPv4 "32 word" | IPv6 "128 word"

definition in_network :: "'a::len word \<Rightarrow> 'a word \<times> nat \<Rightarrow> bool" where
  "in_network a n = (case n of (net, p) \<Rightarrow> drop_bit (LENGTH('a) - p) a = drop_bit (LENGTH('a) - p) net)"

definition in_networks :: "'a::len word \<Rightarrow> ('a word \<times> nat) list \<Rightarrow> bool" where
  "in_networks a ns \<longleftrightarrow> list_ex (in_network a) ns"

definition private4 :: "(32 word \<times> nat) list" where
  "private4 = [(0, 8), (0x0A000000, 8), (0x7F000000, 8), (0xA9FE0000, 16), (0xAC100000, 12), (0xC0000000, 24),
     (0xC0000200, 24), (0xC0A80000, 16), (0xC6120000, 15), (0xC6336400, 24), (0xCB007100, 24), (0xF0000000, 4),
     (0xFFFFFFFF, 32)]"

definition private4_exceptions :: "(32 word \<times> nat) list" where
  "private4_exceptions = [(0xC0000009, 32), (0xC000000A, 32)]"

definition shared4 :: "32 word \<times> nat" where
  "shared4 = (0x64400000, 10)"

definition private6 :: "(128 word \<times> nat) list" where
  "private6 = [(1, 128), (0, 128), (0xFFFF00000000, 96), (0x0064FF9B000100000000000000000000, 48),
     (0x01000000000000000000000000000000, 64), (0x20010000000000000000000000000000, 23),
     (0x20010DB8000000000000000000000000, 32), (0x20020000000000000000000000000000, 16),
     (0xFC000000000000000000000000000000, 7), (0xFE800000000000000000000000000000, 10)]"

definition private6_exceptions :: "(128 word \<times> nat) list" where
  "private6_exceptions = [(0x20010001000000000000000000000001, 128), (0x20010001000000000000000000000002, 128),
     (0x20010003000000000000000000000000, 32), (0x20010004011200000000000000000000, 48),
     (0x20010020000000000000000000000000, 28), (0x20010030000000000000000000000000, 28)]"

definition ipv4_mapped :: "128 word \<Rightarrow> 32 word option" where
  "ipv4_mapped a = (if drop_bit 32 a = 0xFFFF then Some (ucast a) else None)"

definition is_private4 :: "32 word \<Rightarrow> bool" where
  "is_private4 a \<longleftrightarrow> in_networks a private4 \<and> \<not> in_networks a private4_exceptions"

definition is_global :: "ip_address \<Rightarrow> bool" where
  "is_global x = (case x of
     IPv4 a \<Rightarrow> \<not> in_network a shared4 \<and> \<not> is_private4 a
   | IPv6 a \<Rightarrow> \<not> (case ipv4_mapped a of
        Some b \<Rightarrow> is_private4 b
      | None \<Rightarrow> in_networks a private6 \<and> \<not> in_networks a private6_exceptions))"

definition is_multicast :: "ip_address \<Rightarrow> bool" where
  "is_multicast x = (case x of
     IPv4 a \<Rightarrow> in_network a (0xE0000000, 4)
   | IPv6 a \<Rightarrow> in_network a (0xFF000000000000000000000000000000, 8))"

definition deprecated_site_local_ipv6 :: "128 word \<times> nat" where
  "deprecated_site_local_ipv6 = (0xFEC00000000000000000000000000000, 10)"

text \<open>A mapped address is unwrapped before anything else is asked of it.\<close>

definition is_blocked_plain :: "ip_address \<Rightarrow> bool" where
  "is_blocked_plain x = (if is_multicast x then True
     else if (case x of IPv6 a \<Rightarrow> in_network a deprecated_site_local_ipv6 | IPv4 a \<Rightarrow> False) then True
     else \<not> is_global x)"

definition is_blocked_address :: "ip_address \<Rightarrow> bool" where
  "is_blocked_address x = (case x of
     IPv6 a \<Rightarrow> (case ipv4_mapped a of Some b \<Rightarrow> is_blocked_plain (IPv4 b) | None \<Rightarrow> is_blocked_plain x)
   | IPv4 a \<Rightarrow> is_blocked_plain x)"

subsection \<open>Errors\<close>

datatype webhook_exc =
    WebhookNotFound | WebhookInvalidURL | WebhookDestinationBlocked | WebhookDnsResolution | WebhookEndpointDisabled
  | WebhookSigningNotConfigured | WebhookRedirectRejected | WebhookTimeout | WebhookConnection | WebhookTls
  | WebhookInvalidEventType | WebhookDeliveryNotRedrivable | WebhookUnexpectedTransport

fun webhook_code :: "webhook_exc \<Rightarrow> string" where
  "webhook_code WebhookNotFound = ''webhook_not_found''"
| "webhook_code WebhookInvalidURL = ''webhook_invalid_url''"
| "webhook_code WebhookDestinationBlocked = ''webhook_destination_blocked''"
| "webhook_code WebhookDnsResolution = ''webhook_dns_resolution_failed''"
| "webhook_code WebhookEndpointDisabled = ''webhook_endpoint_disabled''"
| "webhook_code WebhookSigningNotConfigured = ''webhook_signing_not_configured''"
| "webhook_code WebhookRedirectRejected = ''webhook_redirect_rejected''"
| "webhook_code WebhookTimeout = ''webhook_timeout''"
| "webhook_code WebhookConnection = ''webhook_connection_failed''"
| "webhook_code WebhookTls = ''webhook_tls_error''"
| "webhook_code WebhookInvalidEventType = ''webhook_invalid_event_type''"
| "webhook_code WebhookDeliveryNotRedrivable = ''webhook_delivery_not_redrivable''"
| "webhook_code WebhookUnexpectedTransport = ''webhook_unexpected_transport_error''"

definition webhook_retryable :: "webhook_exc \<Rightarrow> bool" where
  "webhook_retryable e \<longleftrightarrow> e \<in> {WebhookDnsResolution, WebhookTimeout, WebhookConnection}"

subsection \<open>URLs\<close>

text \<open>What \<open>urlsplit\<close> returns; reading the host or the port may raise.\<close>

record url_parts =
  up_scheme :: string
  up_fragment :: string
  up_username :: "string option"
  up_password :: "string option"
  up_hostname :: "string option option"
  up_port :: "int option option"
  up_path :: string
  up_query :: string

record parsed_url =
  pu_scheme :: string
  pu_hostname :: string
  pu_port :: int
  pu_path_and_query :: string

definition allowed_schemes :: "bool \<Rightarrow> string list" where
  "allowed_schemes insecure = (if insecure then [''http'', ''https''] else [''https''])"

definition given :: "string option \<Rightarrow> bool" where
  "given s \<longleftrightarrow> s \<noteq> None \<and> s \<noteq> Some []"

definition parse_webhook_url ::
  "(string \<Rightarrow> url_parts option) \<Rightarrow> bool \<Rightarrow> nat \<Rightarrow> string \<Rightarrow> webhook_exc + parsed_url" where
  "parse_webhook_url urlsplit insecure max_len url =
    (if url = [] \<or> length url > max_len then Inl WebhookInvalidURL
     else case urlsplit url of None \<Rightarrow> Inl WebhookInvalidURL | Some p \<Rightarrow>
      if up_scheme p \<notin> set (allowed_schemes insecure) then Inl WebhookInvalidURL
      else if up_fragment p \<noteq> [] then Inl WebhookInvalidURL
      else if given (up_username p) \<or> given (up_password p) then Inl WebhookInvalidURL
      else (case (up_hostname p, up_port p) of
         (Some host, Some port) \<Rightarrow>
           (case host of None \<Rightarrow> Inl WebhookInvalidURL | Some h \<Rightarrow>
             if h = [] then Inl WebhookInvalidURL
             else
               (let n = (case port of None \<Rightarrow> if up_scheme p = ''https'' then 443 else 80 | Some n \<Rightarrow> n);
                    path = (if up_path p = [] then ''/'' else up_path p)
                in if \<not> (0 < n \<and> n \<le> 65535) then Inl WebhookInvalidURL
                   else Inr \<lparr>pu_scheme = up_scheme p, pu_hostname = str_lower h, pu_port = n,
                          pu_path_and_query = (if up_query p = [] then path else path @ ''?'' @ up_query p)\<rparr>))
       | _ \<Rightarrow> Inl WebhookInvalidURL))"

subsection \<open>Resolution\<close>

text \<open>An entry of \<open>getaddrinfo\<close>: whether its family is \<open>AF_INET6\<close>, and the address it shows.\<close>

type_synonym resolver = "string \<Rightarrow> int \<Rightarrow> (bool \<times> string) list option"
type_synonym address_parser = "string \<Rightarrow> ip_address option"

definition is_localhost :: "string \<Rightarrow> bool" where
  "is_localhost s \<longleftrightarrow> s \<in> {''localhost'', ''localhost.''}"

definition raw_address :: "bool \<times> string \<Rightarrow> string" where
  "raw_address r = (if fst r then takeWhile (\<lambda>c. c \<noteq> CHR ''%'') (snd r) else snd r)"

fun all_some :: "'a option list \<Rightarrow> 'a list option" where
  "all_some [] = Some []"
| "all_some (None # xs) = None"
| "all_some (Some x # xs) = map_option (Cons x) (all_some xs)"

definition resolve_and_validate ::
  "resolver \<Rightarrow> address_parser \<Rightarrow> string \<Rightarrow> int \<Rightarrow> webhook_exc + ip_address" where
  "resolve_and_validate resolver parse_ip hostname port =
    (let normalized = str_lower (py_strip hostname) in
     if is_localhost normalized then Inl WebhookDestinationBlocked
     else case resolver normalized port of
       None \<Rightarrow> Inl WebhookDnsResolution
     | Some results \<Rightarrow>
         if results = [] then Inl WebhookDnsResolution
         else case all_some (map (\<lambda>r. parse_ip (raw_address r)) results) of
           None \<Rightarrow> Inl WebhookDnsResolution
         | Some addresses \<Rightarrow>
             if list_ex is_blocked_address addresses then Inl WebhookDestinationBlocked
             else Inr (hd addresses))"

text \<open>The check of the SMTP adapter; the error is always \<open>IntegrationInvalidRequestError\<close>, with this text.\<close>

definition validate_outbound_host ::
  "resolver \<Rightarrow> address_parser \<Rightarrow> string option \<Rightarrow> int \<Rightarrow> string + ip_address" where
  "validate_outbound_host resolver parse_ip hostname port =
    (case hostname of None \<Rightarrow> Inl ''No destination host is configured.'' | Some h \<Rightarrow>
     if py_strip h = [] then Inl ''No destination host is configured.''
     else
      (let normalized = str_lower (py_strip h); unresolved = ''This destination could not be resolved.'' in
       if is_localhost normalized then Inl ''This destination is not allowed.''
       else case resolver normalized port of
         None \<Rightarrow> Inl unresolved
       | Some results \<Rightarrow>
           if results = [] then Inl unresolved
           else case all_some (map (\<lambda>r. parse_ip (raw_address r)) results) of
             None \<Rightarrow> Inl unresolved
           | Some addresses \<Rightarrow>
               if list_ex is_blocked_address addresses then Inl ''This destination is not allowed.''
               else Inr (hd addresses)))"

subsection \<open>What is never connected to\<close>

lemma all_some_map: "all_some xs = Some ys \<longleftrightarrow> xs = map Some ys"
proof (induction xs arbitrary: ys)
  case (Cons x xs)
  then show ?case by (cases x; cases ys) auto
qed auto

lemma mapped_unwrapped: "ipv4_mapped a = Some b \<Longrightarrow> is_blocked_address (IPv6 a) = is_blocked_address (IPv4 b)"
  by (simp add: is_blocked_address_def)

definition special4 :: "(32 word \<times> nat) list" where
  "special4 = [(0x7F000000, 8), (0x0A000000, 8), (0xAC100000, 12), (0xC0A80000, 16), (0xA9FE0000, 16),
     (0x64400000, 10), (0, 8), (0xE0000000, 4), (0xF0000000, 4), (0xC6120000, 15), (0xC0000200, 24)]"

lemma not_exception4:
  "in_networks a special4 \<Longrightarrow> \<not> in_networks a private4_exceptions"
proof -
  have e: "a = 0xC0000009 \<or> a = 0xC000000A" if "in_networks a private4_exceptions"
    using that by (simp add: in_networks_def in_network_def private4_exceptions_def)
  have "\<not> in_networks (0xC0000009 :: 32 word) special4" "\<not> in_networks (0xC000000A :: 32 word) special4"
    by (simp_all add: in_networks_def in_network_def special4_def)
  with e show "in_networks a special4 \<Longrightarrow> \<not> in_networks a private4_exceptions" by blast
qed

lemma special4_blocked:
  assumes "in_networks a special4"
  shows "is_blocked_address (IPv4 a)"
proof (rule ccontr)
  assume n: "\<not> is_blocked_address (IPv4 a)"
  then have "\<not> in_network a (0xE0000000, 4)" "\<not> in_network a shared4" "\<not> in_networks a private4"
    using not_exception4 [OF assms]
    by (auto simp: is_blocked_address_def is_blocked_plain_def is_multicast_def is_global_def is_private4_def
        split: if_splits)
  with assms show False
    by (auto simp: in_networks_def special4_def private4_def shared4_def)
qed

end
