(* ===== verification/Integrations.thy ===== *)
theory Integrations
  imports Platform
begin

section \<open>Provider connections\<close>

text \<open>
  \<open>integrations/\<close>: the connection a workspace keeps per provider, its administration, and the
  boundary every provider call goes through, which resolves the connection, decrypts its credentials,
  calls the adapter and records the connection's health. A service is given the model instance its caller
  loaded and the row's key; what it saves are the fields the code names. Fernet and pydantic are
  parameters: \<open>enc\<close>, \<open>dec\<close> (\<open>None\<close> is CredentialEncryptionError) and \<open>check\<close>, \<open>check_conf\<close> for the
  schemas. An adapter's call is the argument \<open>operation\<close>, as in the source, and \<open>other\<close> is what other
  transactions commit while it runs.
\<close>

subsection \<open>The error taxonomy\<close>

datatype integration_class =
    IntegrationUnknown | IntegrationNotConfigured | IntegrationDisabled | IntegrationAuthenticationFailed
  | IntegrationPermissionDenied | IntegrationRateLimited | IntegrationTimeout
  | IntegrationTemporarilyUnavailable | IntegrationInvalidRequest | IntegrationNotFound
  | IntegrationConflict | IntegrationMalformedResponse | IntegrationConfiguration
  | IntegrationProviderNotSupported | CustomerNotFound | OrderNotFound | ShipmentNotFound
  | TicketNotFound | PaymentNotFound | RefundNotAllowedByProvider | RefundAlreadyExists
  | CalendarSlotUnavailable | BookingAlreadyExists

text \<open>An instance: its class and the message it was raised with, if any.\<close>

datatype integration_error = IntegrationError integration_class "string option"

fun integration_code :: "integration_class \<Rightarrow> string" where
  "integration_code IntegrationUnknown = ''integration_unknown_error''"
| "integration_code IntegrationNotConfigured = ''integration_not_configured''"
| "integration_code IntegrationDisabled = ''integration_disabled''"
| "integration_code IntegrationAuthenticationFailed = ''integration_authentication_failed''"
| "integration_code IntegrationPermissionDenied = ''integration_permission_denied''"
| "integration_code IntegrationRateLimited = ''integration_rate_limited''"
| "integration_code IntegrationTimeout = ''integration_timeout''"
| "integration_code IntegrationTemporarilyUnavailable = ''integration_temporarily_unavailable''"
| "integration_code IntegrationInvalidRequest = ''integration_invalid_request''"
| "integration_code IntegrationNotFound = ''integration_not_found''"
| "integration_code IntegrationConflict = ''integration_conflict''"
| "integration_code IntegrationMalformedResponse = ''integration_malformed_response''"
| "integration_code IntegrationConfiguration = ''integration_configuration_error''"
| "integration_code IntegrationProviderNotSupported = ''integration_provider_not_supported''"
| "integration_code CustomerNotFound = ''customer_not_found''"
| "integration_code OrderNotFound = ''order_not_found''"
| "integration_code ShipmentNotFound = ''shipment_not_found''"
| "integration_code TicketNotFound = ''ticket_not_found''"
| "integration_code PaymentNotFound = ''payment_not_found''"
| "integration_code RefundNotAllowedByProvider = ''refund_not_allowed_by_provider''"
| "integration_code RefundAlreadyExists = ''refund_already_exists''"
| "integration_code CalendarSlotUnavailable = ''calendar_slot_unavailable''"
| "integration_code BookingAlreadyExists = ''booking_already_exists''"

fun integration_text :: "integration_class \<Rightarrow> string" where
  "integration_text IntegrationUnknown = ''The integration request could not be completed.''"
| "integration_text IntegrationNotConfigured = ''This integration has not been configured for this workspace.''"
| "integration_text IntegrationDisabled = ''This integration is currently disabled.''"
| "integration_text IntegrationAuthenticationFailed = ''The provider rejected the configured credentials.''"
| "integration_text IntegrationPermissionDenied = ''The provider denied this operation.''"
| "integration_text IntegrationRateLimited = ''The provider is rate-limiting requests.''"
| "integration_text IntegrationTimeout = ''The provider did not respond in time.''"
| "integration_text IntegrationTemporarilyUnavailable = ''The provider is temporarily unavailable.''"
| "integration_text IntegrationInvalidRequest = ''The request to the provider was invalid.''"
| "integration_text IntegrationNotFound = ''The requested resource was not found.''"
| "integration_text IntegrationConflict = ''The request conflicts with the provider's current state.''"
| "integration_text IntegrationMalformedResponse = ''The provider returned an unexpected response.''"
| "integration_text IntegrationConfiguration = ''This integration is misconfigured.''"
| "integration_text IntegrationProviderNotSupported = ''This provider is not supported.''"
| "integration_text CustomerNotFound = ''Customer not found.''"
| "integration_text OrderNotFound = ''Order not found.''"
| "integration_text ShipmentNotFound = ''Shipment not found.''"
| "integration_text TicketNotFound = ''Ticket not found.''"
| "integration_text PaymentNotFound = ''Payment not found.''"
| "integration_text RefundNotAllowedByProvider = ''The provider will not allow this refund.''"
| "integration_text RefundAlreadyExists = ''A refund for this payment already exists.''"
| "integration_text CalendarSlotUnavailable = ''The requested time slot is no longer available.''"
| "integration_text BookingAlreadyExists = ''A booking for this request already exists.''"

definition integration_retryable :: "integration_class \<Rightarrow> bool" where
  "integration_retryable c \<longleftrightarrow>
    c \<in> {IntegrationRateLimited, IntegrationTimeout, IntegrationTemporarilyUnavailable}"

fun error_class :: "integration_error \<Rightarrow> integration_class" where
  "error_class (IntegrationError c t) = c"

fun error_message :: "integration_error \<Rightarrow> string" where
  "error_message (IntegrationError c t) = (case t of None \<Rightarrow> integration_text c
    | Some s \<Rightarrow> if s = [] then integration_text c else s)"

definition error_code :: "integration_error \<Rightarrow> string" where
  "error_code e = integration_code (error_class e)"

definition retryable_integration_codes :: "string list" where
  "retryable_integration_codes = map integration_code
     [IntegrationRateLimited, IntegrationTemporarilyUnavailable, IntegrationTimeout]"

text \<open>What leaves a service: a normalized failure, the exception of an adapter that is not one, a failed
  encryption, what \<open>full_clean\<close> raises, a row that is gone when its fields are saved, a database error.\<close>

datatype call_exc =
    Normalized integration_error | AdapterCrash | CredentialEncryptionError | CleanFailed
  | ConnectionGone | ConnectionDb db_exc

subsection \<open>Rows\<close>

datatype connection_status = CN_ACTIVE | CN_DISABLED | CN_INVALID_CREDENTIALS | CN_DEGRADED

record connection =
  cn_workspace :: nat
  cn_provider :: string
  cn_display_name :: string
  cn_status :: connection_status
  cn_environment :: string
  cn_credentials :: string
  cn_version :: nat
  cn_configuration :: json
  cn_checked_at :: "int option"
  cn_success_at :: "int option"
  cn_error :: string
  cn_created_by :: "nat option"

record integrations =
  ig_connections :: "connection rows"
  ig_effects :: "effect list"

definition ig_emit :: "effect \<Rightarrow> integrations \<Rightarrow> integrations" where
  "ig_emit e g = g\<lparr>ig_effects := ig_effects g @ [e]\<rparr>"

definition integration_providers :: "string list" where
  "integration_providers = [''stripe'', ''google_calendar'', ''email'', ''demo_commerce'']"

definition integration_environments :: "string list" where
  "integration_environments = [''test'', ''live'']"

fun provider_capabilities :: "string \<Rightarrow> string list" where
  "provider_capabilities p =
    (if p = ''stripe'' then [''payment_lookup'', ''refund'']
     else if p = ''google_calendar'' then [''calendar_availability'', ''calendar_booking'']
     else if p = ''email'' then [''notification_send'']
     else if p = ''demo_commerce'' then [''order_lookup'', ''shipment_lookup''] else [])"

definition credentials_configured :: "connection \<Rightarrow> bool" where
  "credentials_configured c \<longleftrightarrow> cn_credentials c \<noteq> []"

definition connection_enabled :: "connection \<Rightarrow> bool" where
  "connection_enabled c \<longleftrightarrow> cn_status c = CN_ACTIVE"

text \<open>\<open>save(update_fields=\<dots>)\<close>: \<open>f\<close> writes the named fields of the instance into the row.\<close>

definition save_connection :: "nat \<Rightarrow> (connection \<Rightarrow> connection) \<Rightarrow> integrations \<Rightarrow> call_exc + integrations" where
  "save_connection k f g =
    (case row_get (ig_connections g) k of
       None \<Rightarrow> Inl ConnectionGone
     | Some r \<Rightarrow> if fits 200 (cn_display_name (f r)) then Inr (g\<lparr>ig_connections := row_put k (f r) (ig_connections g)\<rparr>)
                 else Inl (ConnectionDb DataError))"

definition resolve_connection_for_tool :: "nat \<Rightarrow> string \<Rightarrow> connection rows \<Rightarrow> (nat \<times> connection) option" where
  "resolve_connection_for_tool ws provider t =
    (case rows_where (\<lambda>i c. cn_workspace c = ws \<and> cn_provider c = provider) t of [] \<Rightarrow> None | r # _ \<Rightarrow> Some r)"

definition connection_get_for_workspace :: "nat \<Rightarrow> nat \<Rightarrow> connection rows \<Rightarrow> connection option" where
  "connection_get_for_workspace ws k t =
    (case row_get t k of None \<Rightarrow> None | Some c \<Rightarrow> if cn_workspace c = ws then Some c else None)"

subsection \<open>Administration\<close>

type_synonym checker = "string \<Rightarrow> json \<Rightarrow> json option"
type_synonym 'a integration_svc = "(integrations, call_exc, 'a) svc"

definition checked :: "checker \<Rightarrow> string \<Rightarrow> string \<Rightarrow> json \<Rightarrow> call_exc + json" where
  "checked check failed provider data =
    (case check provider data of
       None \<Rightarrow> Inl (Normalized (IntegrationError IntegrationConfiguration (Some failed)))
     | Some v \<Rightarrow> Inr v)"

definition validate_credentials :: "(string \<Rightarrow> string) \<Rightarrow> checker \<Rightarrow> string \<Rightarrow> json \<Rightarrow> call_exc + json" where
  "validate_credentials quote check provider data =
    (if provider \<notin> set integration_providers
     then Inl (Normalized (IntegrationError IntegrationConfiguration
            (Some (''No credential schema for provider '' @ quote provider @ ''.''))))
     else checked check ''Credentials failed validation.'' provider data)"

definition validate_configuration :: "(string \<Rightarrow> string) \<Rightarrow> checker \<Rightarrow> string \<Rightarrow> json \<Rightarrow> call_exc + json" where
  "validate_configuration quote check provider data =
    (if provider \<notin> set integration_providers
     then Inl (Normalized (IntegrationError IntegrationConfiguration
            (Some (''No configuration schema for provider '' @ quote provider @ ''.''))))
     else checked check ''Configuration failed validation.'' provider
            (if py_truthy data then data else JObj []))"

definition full_clean_ok :: "connection \<Rightarrow> connection rows \<Rightarrow> bool" where
  "full_clean_ok c t \<longleftrightarrow> cn_provider c \<in> set integration_providers \<and>
    cn_environment c \<in> set integration_environments \<and> fits 200 (cn_display_name c) \<and>
    rows_where (\<lambda>i r. cn_workspace r = cn_workspace c \<and> cn_provider r = cn_provider c) t = []"

definition create_connection ::
  "(string \<Rightarrow> string) \<Rightarrow> checker \<Rightarrow> checker \<Rightarrow> (json \<Rightarrow> string option) \<Rightarrow> nat \<Rightarrow> nat \<Rightarrow> string \<Rightarrow> string option
    \<Rightarrow> string \<Rightarrow> json \<Rightarrow> json \<Rightarrow> string option \<Rightarrow> nat integration_svc" where
  "create_connection quote check check_conf enc ws actor provider display_name environment credentials
     configuration request_id = atomic (\<lambda>g.
    case validate_credentials quote check provider credentials of Inl e \<Rightarrow> (g, Inl e) | Inr creds \<Rightarrow>
    (case validate_configuration quote check_conf provider
            (if py_truthy configuration then configuration else JObj []) of
       Inl e \<Rightarrow> (g, Inl e) | Inr conf \<Rightarrow>
    (case enc creds of None \<Rightarrow> (g, Inl CredentialEncryptionError) | Some token \<Rightarrow>
      (let c = \<lparr>cn_workspace = ws, cn_provider = provider,
                cn_display_name = (case display_name of None \<Rightarrow> [] | Some s \<Rightarrow> s), cn_status = CN_ACTIVE,
                cn_environment = environment, cn_credentials = token, cn_version = 1, cn_configuration = conf,
                cn_checked_at = None, cn_success_at = None, cn_error = [], cn_created_by = Some actor\<rparr>;
           k = fresh_id (ig_connections g)
       in if \<not> full_clean_ok c (ig_connections g) then (g, Inl CleanFailed)
          else (ig_emit (record_event ''integration.connection_created'' ''integration_connection'' k (Some actor)
                  (Some ws) (JObj [(''provider'', JStr provider), (''environment'', JStr environment)]) request_id)
                (g\<lparr>ig_connections := row_put k c (ig_connections g)\<rparr>), Inr k)))))"

definition update_connection_configuration ::
  "(string \<Rightarrow> string) \<Rightarrow> checker \<Rightarrow> nat \<Rightarrow> nat \<Rightarrow> connection \<Rightarrow> nat \<Rightarrow> string option \<Rightarrow> json option
    \<Rightarrow> string option \<Rightarrow> connection integration_svc" where
  "update_connection_configuration quote check_conf ws k c actor display_name configuration request_id = atomic (\<lambda>g.
    let c1 = (case display_name of None \<Rightarrow> c | Some s \<Rightarrow> c\<lparr>cn_display_name := s\<rparr>) in
    case (case configuration of None \<Rightarrow> Inr c1
          | Some data \<Rightarrow> (case validate_configuration quote check_conf (cn_provider c1) data of
              Inl e \<Rightarrow> Inl e | Inr conf \<Rightarrow> Inr (c1\<lparr>cn_configuration := conf\<rparr>))) of
      Inl e \<Rightarrow> (g, Inl e)
    | Inr c2 \<Rightarrow>
        (case save_connection k (\<lambda>r. r\<lparr>
             cn_display_name := (if display_name = None then cn_display_name r else cn_display_name c2),
             cn_configuration := (if configuration = None then cn_configuration r else cn_configuration c2)\<rparr>) g of
           Inl e \<Rightarrow> (g, Inl e)
         | Inr g1 \<Rightarrow> (ig_emit (record_event ''integration.connection_updated'' ''integration_connection'' k (Some actor)
             (Some ws) (JObj [(''provider'', JStr (cn_provider c2))]) request_id) g1, Inr c2)))"

text \<open>The version and the status that are saved derive from the caller's instance.\<close>

definition rotated :: "string \<Rightarrow> connection \<Rightarrow> connection" where
  "rotated token c = c\<lparr>cn_credentials := token, cn_version := cn_version c + 1, cn_error := [],
     cn_status := (if cn_status c = CN_INVALID_CREDENTIALS then CN_ACTIVE else cn_status c)\<rparr>"

definition rotate_credentials ::
  "(string \<Rightarrow> string) \<Rightarrow> checker \<Rightarrow> (json \<Rightarrow> string option) \<Rightarrow> nat \<Rightarrow> nat \<Rightarrow> connection \<Rightarrow> nat \<Rightarrow> json
    \<Rightarrow> string option \<Rightarrow> connection integration_svc" where
  "rotate_credentials quote check enc ws k c actor credentials request_id = atomic (\<lambda>g.
    case validate_credentials quote check (cn_provider c) credentials of Inl e \<Rightarrow> (g, Inl e) | Inr creds \<Rightarrow>
    (case enc creds of None \<Rightarrow> (g, Inl CredentialEncryptionError) | Some token \<Rightarrow>
      (let c' = rotated token c in
       case save_connection k (\<lambda>r. r\<lparr>cn_credentials := cn_credentials c', cn_version := cn_version c',
              cn_error := cn_error c', cn_status := cn_status c'\<rparr>) g of
         Inl e \<Rightarrow> (g, Inl e)
       | Inr g1 \<Rightarrow> (ig_emit (record_event ''integration.credentials_rotated'' ''integration_connection'' k (Some actor)
           (Some ws) (JObj [(''provider'', JStr (cn_provider c')), (''credential_version'', JInt (int (cn_version c')))])
           request_id) g1, Inr c'))))"

definition set_connection_enabled ::
  "nat \<Rightarrow> nat \<Rightarrow> connection \<Rightarrow> nat \<Rightarrow> bool \<Rightarrow> string option \<Rightarrow> connection integration_svc" where
  "set_connection_enabled ws k c actor enabled request_id = atomic (\<lambda>g.
    let st = (if enabled then CN_ACTIVE else CN_DISABLED) in
    case save_connection k (\<lambda>r. r\<lparr>cn_status := st\<rparr>) g of
      Inl e \<Rightarrow> (g, Inl e)
    | Inr g1 \<Rightarrow> (ig_emit (record_event
        (if enabled then ''integration.connection_enabled'' else ''integration.connection_disabled'')
        ''integration_connection'' k (Some actor) (Some ws) (JObj [(''provider'', JStr (cn_provider c))]) request_id) g1,
       Inr (c\<lparr>cn_status := st\<rparr>)))"

subsection \<open>The provider-call boundary\<close>

definition min_provider_timeout_seconds :: rat where
  "min_provider_timeout_seconds = 1 / 2"

text \<open>Seconds are rationals; \<open>dflt\<close> and \<open>cap\<close> are the two settings.\<close>

definition effective_provider_timeout :: "rat \<Rightarrow> rat \<Rightarrow> rat \<Rightarrow> rat" where
  "effective_provider_timeout dflt cap remaining =
    max (min (min dflt cap) (max (remaining - 1 / 2) min_provider_timeout_seconds)) min_provider_timeout_seconds"

definition require_usable_connection ::
  "nat \<Rightarrow> string \<Rightarrow> connection rows \<Rightarrow> call_exc + (nat \<times> connection)" where
  "require_usable_connection ws provider t =
    (case resolve_connection_for_tool ws provider t of
       None \<Rightarrow> Inl (Normalized (IntegrationError IntegrationNotConfigured None))
     | Some (k, c) \<Rightarrow>
         if cn_status c = CN_DISABLED then Inl (Normalized (IntegrationError IntegrationDisabled None))
         else if \<not> credentials_configured c
         then Inl (Normalized (IntegrationError IntegrationNotConfigured None))
         else Inr (k, c))"

text \<open>The fields one health record writes, decided on the instance loaded before the call.\<close>

record health =
  hl_checked :: int
  hl_success :: "int option"
  hl_error :: string
  hl_status :: "connection_status option"

definition health_of :: "int \<Rightarrow> integration_error option \<Rightarrow> connection \<Rightarrow> health" where
  "health_of now err c =
    (case err of
       None \<Rightarrow> \<lparr>hl_checked = now, hl_success = Some now, hl_error = [],
         hl_status = (if cn_status c \<in> {CN_DEGRADED, CN_INVALID_CREDENTIALS} then Some CN_ACTIVE else None)\<rparr>
     | Some e \<Rightarrow> \<lparr>hl_checked = now, hl_success = None, hl_error = error_code e,
         hl_status = (if cn_status c = CN_DISABLED then None
           else if error_class e \<in> {IntegrationAuthenticationFailed, IntegrationPermissionDenied}
           then Some CN_INVALID_CREDENTIALS
           else if error_class e \<in> {IntegrationTimeout, IntegrationTemporarilyUnavailable, IntegrationRateLimited}
           then Some CN_DEGRADED else None)\<rparr>)"

definition apply_health :: "health \<Rightarrow> connection \<Rightarrow> connection" where
  "apply_health h c = c\<lparr>cn_checked_at := Some (hl_checked h),
     cn_success_at := (case hl_success h of None \<Rightarrow> cn_success_at c | Some t \<Rightarrow> Some t), cn_error := hl_error h,
     cn_status := (case hl_status h of None \<Rightarrow> cn_status c | Some s \<Rightarrow> s)\<rparr>"

definition record_health ::
  "int \<Rightarrow> integration_error option \<Rightarrow> nat \<Rightarrow> connection \<Rightarrow> connection rows \<Rightarrow> connection rows \<times> connection" where
  "record_health now err k c t =
    (let h = health_of now err c in (update_where (\<lambda>i r. i = k) (apply_health h) t, apply_health h c))"

text \<open>The adapter returns, raises a normalized error, or raises something else.\<close>

datatype 'a provider_outcome = Provided 'a | Refused integration_error | Crashed

definition execute_provider_call ::
  "(string \<Rightarrow> json option) \<Rightarrow> (connection rows \<Rightarrow> connection rows) \<Rightarrow> int \<Rightarrow> (json \<Rightarrow> 'a provider_outcome)
    \<Rightarrow> nat \<Rightarrow> connection \<Rightarrow> connection rows \<Rightarrow> connection rows \<times> connection \<times> (call_exc + 'a)" where
  "execute_provider_call dec other now operation k c t =
    (case (if credentials_configured c then dec (cn_credentials c) else Some (JObj [])) of
       None \<Rightarrow>
         (let e = IntegrationError IntegrationConfiguration None; (t', c') = record_health now (Some e) k c t
          in (t', c', Inl (Normalized e)))
     | Some credentials \<Rightarrow>
         (case operation credentials of
            Provided v \<Rightarrow> (let (t', c') = record_health now None k c (other t) in (t', c', Inr v))
          | Refused e \<Rightarrow>
              (let (t', c') = record_health now (Some e) k c (other t) in (t', c', Inl (Normalized e)))
          | Crashed \<Rightarrow> (other t, c, Inl AdapterCrash)))"

text \<open>
  The shape of every business operation: resolve a usable connection of the provider, pick the adapter
  (\<open>None\<close>: the factory does not support the connection's provider), call it with the decrypted
  credentials, the connection's configuration and the bounded timeout.
\<close>

record call_env =
  ce_decrypt :: "string \<Rightarrow> json option"
  ce_other :: "connection rows \<Rightarrow> connection rows"
  ce_now :: int
  ce_default_timeout :: rat
  ce_max_timeout :: rat

definition provider_operation ::
  "call_env \<Rightarrow> nat \<Rightarrow> rat \<Rightarrow> string \<Rightarrow> (json \<Rightarrow> json \<Rightarrow> rat \<Rightarrow> 'a provider_outcome)
    \<Rightarrow> connection rows \<Rightarrow> connection rows \<times> (call_exc + 'a)" where
  "provider_operation env ws remaining provider call t =
    (case require_usable_connection ws provider t of
       Inl e \<Rightarrow> (t, Inl e)
     | Inr (k, c) \<Rightarrow>
         (let timeout = effective_provider_timeout (ce_default_timeout env) (ce_max_timeout env) remaining;
              (t', c', r) = execute_provider_call (ce_decrypt env) (ce_other env) (ce_now env)
                 (\<lambda>credentials. call credentials (cn_configuration c) timeout) k c t
          in (t', r)))"

definition ensure_notification_provider_configured :: "nat \<Rightarrow> connection rows \<Rightarrow> call_exc + unit" where
  "ensure_notification_provider_configured ws t =
    (case require_usable_connection ws ''email'' t of Inl e \<Rightarrow> Inl e | Inr _ \<Rightarrow> Inr ())"

text \<open>The privileged probe; an adapter without one does nothing. \<open>None\<close>: the outcome is an exception
  that is not normalized.\<close>

definition test_connection ::
  "call_env \<Rightarrow> nat \<Rightarrow> nat \<Rightarrow> connection \<Rightarrow> nat \<Rightarrow> (json \<Rightarrow> rat \<Rightarrow> unit provider_outcome) option \<Rightarrow> string option
    \<Rightarrow> (bool \<times> connection_status \<times> string option) integration_svc" where
  "test_connection env ws k c actor probe request_id = (\<lambda>g.
    if cn_status c = CN_DISABLED then (g, Inl (Normalized (IntegrationError IntegrationDisabled None)))
    else
      (let (t', c', r) = execute_provider_call (ce_decrypt env) (ce_other env) (ce_now env)
             (\<lambda>credentials. case probe of None \<Rightarrow> Provided () | Some p \<Rightarrow> p credentials (ce_default_timeout env))
             k c (ig_connections g);
           g1 = g\<lparr>ig_connections := t'\<rparr>;
           report = (\<lambda>ok code. (ig_emit (record_event ''integration.connection_tested'' ''integration_connection'' k
               (Some actor) (Some ws) (JObj [(''provider'', JStr (cn_provider c')), (''ok'', JBool ok)]) request_id) g1,
             Inr (ok, cn_status c', code)))
       in case r of
            Inr _ \<Rightarrow> report True None
          | Inl (Normalized e) \<Rightarrow> report False (Some (error_code e))
          | Inl e \<Rightarrow> (g1, Inl e)))"

end
