(* ===== verification/Deliveries.thy ===== *)
theory Deliveries
  imports Integrations "HOL-Library.Product_Lexorder"
begin

section \<open>Durable deliveries\<close>

text \<open>
  \<open>notifications/\<close> and the tables of \<open>webhooks/models.py\<close>: a \<open>Delivery\<close> is claimed under a fresh token and
  a lease, attempted by the handler of its channel, and completed by whoever still holds the token; a
  failed attempt is scheduled again with bounded exponential backoff, an expired lease is reclaimed. The
  settings of the module are arguments. \<open>uuid.uuid4()\<close> is the argument \<open>token\<close>; \<open>busy\<close> says whether another
  transaction holds the row's lock, which \<open>skip_locked\<close> passes over.
\<close>

subsection \<open>Rows\<close>

datatype delivery_status = DL_PENDING | DL_CLAIMED | DL_RETRY_SCHEDULED | DL_DELIVERED | DL_FAILED | DL_DEAD
datatype attempt_status = AT_IN_PROGRESS | AT_SUCCEEDED | AT_FAILED | AT_ABANDONED
datatype endpoint_status = EP_ACTIVE | EP_DISABLED

record delivery =
  dl_workspace :: nat
  dl_channel :: string
  dl_status :: delivery_status
  dl_attempts :: nat
  dl_max :: nat
  dl_next_at :: int
  dl_claimed_at :: "int option"
  dl_lease :: "int option"
  dl_token :: "nat option"
  dl_first_at :: "int option"
  dl_delivered_at :: "int option"
  dl_failed_at :: "int option"
  dl_error :: string
  dl_created_at :: int

record attempt =
  dt_delivery :: nat
  dt_number :: nat
  dt_token :: nat
  dt_status :: attempt_status
  dt_started_at :: int
  dt_completed_at :: "int option"
  dt_latency :: "int option"
  dt_error :: string
  dt_retryable :: "bool option"
  dt_response :: "int option"

record notification =
  nt_delivery :: nat
  nt_execution :: nat
  nt_recipient :: string
  nt_subject :: string
  nt_body :: string
  nt_key :: string
  nt_message_id :: string

record endpoint =
  ep_workspace :: nat
  ep_name :: string
  ep_url :: string
  ep_status :: endpoint_status
  ep_event_types :: "string list"
  ep_secret :: string
  ep_secret_created_at :: "int option"
  ep_created_by :: "nat option"

text \<open>The snapshot of a reply routed to a channel, \<open>ChannelResponseDelivery\<close>.\<close>

record response =
  rp_delivery :: nat
  rp_message :: nat
  rp_endpoint :: nat
  rp_destination :: string
  rp_subject :: string
  rp_body :: string
  rp_thread :: string
  rp_key :: string
  rp_message_id :: string

record webhook_event =
  ev_workspace :: nat
  ev_type :: string
  ev_version :: int
  ev_payload :: json
  ev_created_at :: int

record webhook_link =
  wl_delivery :: nat
  wl_workspace :: nat
  wl_endpoint :: nat
  wl_event :: nat

record outbox =
  ob_deliveries :: "delivery rows"
  ob_attempts :: "attempt rows"
  ob_notifications :: "notification rows"
  ob_endpoints :: "endpoint rows"
  ob_events :: "webhook_event rows"
  ob_links :: "webhook_link rows"
  ob_responses :: "response rows"
  ob_connections :: "connection rows"
  ob_effects :: "effect list"

definition empty_outbox :: outbox where
  "empty_outbox = \<lparr>ob_deliveries = [], ob_attempts = [], ob_notifications = [], ob_endpoints = [],
     ob_events = [], ob_links = [], ob_responses = [], ob_connections = [], ob_effects = []\<rparr>"

datatype delivery_exc =
    DeliveryNotFoundError | DeliveryNotClaimableError | StaleClaimError
  | DeliveryCrash db_exc | MultipleAttempts | BadSlice

type_synonym 'a outbox_svc = "(outbox, delivery_exc, 'a) svc"

definition ob_emit :: "effect \<Rightarrow> outbox \<Rightarrow> outbox" where
  "ob_emit e x = x\<lparr>ob_effects := ob_effects x @ [e]\<rparr>"

definition put_delivery :: "nat \<Rightarrow> delivery \<Rightarrow> outbox \<Rightarrow> outbox" where
  "put_delivery k d x = x\<lparr>ob_deliveries := row_put k d (ob_deliveries x)\<rparr>"

definition seconds :: "int \<Rightarrow> int" where
  "seconds n = n * 1000000"

subsection \<open>Creation and dispatch\<close>

text \<open>The publication is best effort; a broker that fails changes no row, so only the request is recorded.\<close>

definition dispatch_delivery_for_processing :: "nat \<Rightarrow> outbox \<Rightarrow> outbox" where
  "dispatch_delivery_for_processing k = ob_emit (Task ''process_delivery_task'' k)"

definition create_delivery :: "int \<Rightarrow> int \<Rightarrow> nat \<Rightarrow> string \<Rightarrow> int option \<Rightarrow> int \<Rightarrow> nat outbox_svc" where
  "create_delivery dflt_max now ws channel max_attempts created = atomic (\<lambda>x.
    let mx = (case max_attempts of None \<Rightarrow> dflt_max | Some m \<Rightarrow> m); k = fresh_id (ob_deliveries x) in
    if \<not> fits 20 channel then (x, Inl (DeliveryCrash DataError))
    else if mx \<le> 0 then (x, Inl (DeliveryCrash IntegrityError))
    else (ob_emit (Metric ''delivery_created'' [channel]) (dispatch_delivery_for_processing k
      (put_delivery k
        \<lparr>dl_workspace = ws, dl_channel = channel, dl_status = DL_PENDING, dl_attempts = 0, dl_max = nat mx,
         dl_next_at = now, dl_claimed_at = None, dl_lease = None, dl_token = None, dl_first_at = None,
         dl_delivered_at = None, dl_failed_at = None, dl_error = [], dl_created_at = created\<rparr> x)), Inr k))"

subsection \<open>Claiming\<close>

definition due_eligible :: "delivery \<Rightarrow> int \<Rightarrow> bool" where
  "due_eligible d now \<longleftrightarrow> dl_status d \<in> {DL_PENDING, DL_RETRY_SCHEDULED} \<and> dl_next_at d \<le> now"

definition expired_claim_eligible :: "delivery \<Rightarrow> int \<Rightarrow> bool" where
  "expired_claim_eligible d now \<longleftrightarrow> dl_status d = DL_CLAIMED \<and>
    (case dl_lease d of None \<Rightarrow> False | Some t \<Rightarrow> t \<le> now)"

text \<open>The attempts of the abandoned claim, closed by the worker that takes the delivery over.\<close>

definition abandon_attempts :: "nat \<Rightarrow> nat \<Rightarrow> int \<Rightarrow> attempt rows \<Rightarrow> attempt rows" where
  "abandon_attempts k token now = update_where
     (\<lambda>i a. dt_delivery a = k \<and> dt_token a = token \<and> dt_status a = AT_IN_PROGRESS)
     (\<lambda>a. a\<lparr>dt_status := AT_ABANDONED, dt_completed_at := Some now\<rparr>)"

definition claimed_row :: "nat \<Rightarrow> int \<Rightarrow> int \<Rightarrow> delivery \<Rightarrow> delivery" where
  "claimed_row token lease now d = d\<lparr>dl_status := DL_CLAIMED, dl_token := Some token, dl_claimed_at := Some now,
     dl_lease := Some (now + seconds lease),
     dl_first_at := (case dl_first_at d of None \<Rightarrow> Some now | Some t \<Rightarrow> Some t),
     dl_attempts := dl_attempts d + 1\<rparr>"

definition new_attempt :: "nat \<Rightarrow> nat \<Rightarrow> nat \<Rightarrow> int \<Rightarrow> attempt" where
  "new_attempt k number token now =
    \<lparr>dt_delivery = k, dt_number = number, dt_token = token, dt_status = AT_IN_PROGRESS, dt_started_at = now,
     dt_completed_at = None, dt_latency = None, dt_error = [], dt_retryable = None, dt_response = None\<rparr>"

definition claim_row ::
  "(delivery \<Rightarrow> int \<Rightarrow> bool) \<Rightarrow> bool \<Rightarrow> nat \<Rightarrow> int \<Rightarrow> int \<Rightarrow> nat \<Rightarrow> (delivery \<times> nat) outbox_svc" where
  "claim_row eligible busy token lease now k = atomic (\<lambda>x.
    case (if busy then None else row_get (ob_deliveries x) k) of
      None \<Rightarrow> (x, Inl DeliveryNotClaimableError)
    | Some d \<Rightarrow>
        if \<not> eligible d now then (x, Inl DeliveryNotClaimableError)
        else if dl_attempts d + 1 > dl_max d then (x, Inl DeliveryNotClaimableError)
        else
          (let reclaimed = (if dl_status d = DL_CLAIMED then dl_token d else None);
               ats = (case reclaimed of None \<Rightarrow> ob_attempts x | Some t \<Rightarrow> abandon_attempts k t now (ob_attempts x));
               d' = claimed_row token lease now d
           in if (\<exists>(i, a) \<in> set ats. dt_delivery a = k \<and> dt_number a = dl_attempts d')
              then (x, Inl (DeliveryCrash IntegrityError))
              else (ob_emit (Metric ''delivery_claimed''
                       [dl_channel d, if reclaimed = None then ''claim'' else ''reclaim''])
                     (put_delivery k d' x)\<lparr>ob_attempts :=
                        row_put (fresh_id ats) (new_attempt k (dl_attempts d') token now) ats\<rparr>,
                    Inr (d', token))))"

definition claim_delivery :: "bool \<Rightarrow> nat \<Rightarrow> int \<Rightarrow> int \<Rightarrow> nat \<Rightarrow> (delivery \<times> nat) outbox_svc" where
  "claim_delivery = claim_row due_eligible"

definition reclaim_expired_delivery :: "bool \<Rightarrow> nat \<Rightarrow> int \<Rightarrow> int \<Rightarrow> nat \<Rightarrow> (delivery \<times> nat) outbox_svc" where
  "reclaim_expired_delivery = claim_row expired_claim_eligible"

subsection \<open>Completion\<close>

definition max_safe_error_code_length :: nat where
  "max_safe_error_code_length = 64"

definition active_claim :: "delivery \<Rightarrow> nat \<Rightarrow> bool" where
  "active_claim d token \<longleftrightarrow> dl_status d = DL_CLAIMED \<and> dl_token d = Some token"

definition open_attempts :: "nat \<Rightarrow> nat \<Rightarrow> attempt rows \<Rightarrow> attempt rows" where
  "open_attempts k token = rows_where (\<lambda>i a. dt_delivery a = k \<and> dt_token a = token \<and> dt_status a = AT_IN_PROGRESS)"

definition complete_active_attempt ::
  "nat \<Rightarrow> nat \<Rightarrow> attempt_status \<Rightarrow> string \<Rightarrow> bool option \<Rightarrow> int \<Rightarrow> int option \<Rightarrow> outbox \<Rightarrow> delivery_exc + outbox" where
  "complete_active_attempt k token st code retryable now response x =
    (case open_attempts k token (ob_attempts x) of
       [] \<Rightarrow> Inl (DeliveryCrash DoesNotExist)
     | [(i, a)] \<Rightarrow> Inr (x\<lparr>ob_attempts := row_put i
         (a\<lparr>dt_status := st, dt_completed_at := Some now, dt_latency := Some (max (elapsed_ms (dt_started_at a) now) 0),
            dt_error := take max_safe_error_code_length code, dt_retryable := retryable,
            dt_response := (case response of None \<Rightarrow> dt_response a | Some r \<Rightarrow> Some r)\<rparr>) (ob_attempts x)\<rparr>)
     | _ \<Rightarrow> Inl MultipleAttempts)"

definition unclaimed :: "delivery \<Rightarrow> delivery" where
  "unclaimed d = d\<lparr>dl_token := None, dl_claimed_at := None, dl_lease := None\<rparr>"

text \<open>What both completions do first: lock, check the claim, close the attempt.\<close>

definition completing ::
  "nat \<Rightarrow> nat \<Rightarrow> attempt_status \<Rightarrow> string \<Rightarrow> bool option \<Rightarrow> int \<Rightarrow> int option
    \<Rightarrow> (delivery \<Rightarrow> delivery) \<Rightarrow> (delivery \<Rightarrow> effect) \<Rightarrow> delivery outbox_svc" where
  "completing k token st code retryable now response f observed = atomic (\<lambda>x.
    case row_get (ob_deliveries x) k of
      None \<Rightarrow> (x, Inl DeliveryNotFoundError)
    | Some d \<Rightarrow>
        if \<not> active_claim d token then (x, Inl StaleClaimError)
        else case complete_active_attempt k token st code retryable now response x of
          Inl e \<Rightarrow> (x, Inl e)
        | Inr x1 \<Rightarrow> (ob_emit (observed (f d)) (put_delivery k (f d) x1), Inr (f d)))"

definition complete_delivery_success :: "int \<Rightarrow> int option \<Rightarrow> nat \<Rightarrow> nat \<Rightarrow> delivery outbox_svc" where
  "complete_delivery_success now response k token =
    completing k token AT_SUCCEEDED [] None now response
      (\<lambda>d. (unclaimed d)\<lparr>dl_status := DL_DELIVERED, dl_delivered_at := Some now\<rparr>)
      (\<lambda>d. Metric ''delivery_terminal'' [dl_channel d, ''delivered''])"

text \<open>
  \<open>int(min(base * 2 ** (n - 1), cap))\<close>. Attempt numbers start at 1; for 0 Python's exponent is
  negative and the product a float, which is exact for the settings' values.
\<close>

definition compute_retry_delay_seconds :: "int \<Rightarrow> int \<Rightarrow> nat \<Rightarrow> int" where
  "compute_retry_delay_seconds base cap n =
    (case n of
       0 \<Rightarrow> if base \<le> 2 * cap then (if 0 \<le> base then base div 2 else - ((- base) div 2)) else cap
     | Suc m \<Rightarrow> min (base * 2 ^ m) cap)"

definition failed_row :: "int \<Rightarrow> int \<Rightarrow> string \<Rightarrow> bool \<Rightarrow> int option \<Rightarrow> int \<Rightarrow> delivery \<Rightarrow> delivery" where
  "failed_row base cap code retryable delay now d =
    (let u = (unclaimed d)\<lparr>dl_error := take max_safe_error_code_length code\<rparr> in
     if retryable \<and> dl_attempts d < dl_max d
     then u\<lparr>dl_status := DL_RETRY_SCHEDULED, dl_next_at := now +
            seconds (case delay of None \<Rightarrow> compute_retry_delay_seconds base cap (dl_attempts d) | Some s \<Rightarrow> s)\<rparr>
     else u\<lparr>dl_status := (if retryable then DL_FAILED else DL_DEAD), dl_failed_at := Some now\<rparr>)"

definition complete_delivery_failure ::
  "int \<Rightarrow> int \<Rightarrow> string \<Rightarrow> bool \<Rightarrow> int option \<Rightarrow> int \<Rightarrow> int option \<Rightarrow> nat \<Rightarrow> nat \<Rightarrow> delivery outbox_svc" where
  "complete_delivery_failure base cap code retryable delay now response k token =
    completing k token AT_FAILED code (Some retryable) now response (failed_row base cap code retryable delay now)
      (\<lambda>d. Metric ''delivery_failed''
        [dl_channel d, if dl_status d = DL_RETRY_SCHEDULED then ''retry_scheduled''
                       else if dl_status d = DL_DEAD then ''dead'' else ''failed''])"

subsection \<open>The task boundary\<close>

text \<open>
  A handler is registered per channel and is given the claimed delivery and its token. The channel is read
  before anything is claimed. \<open>clk\<close> and \<open>busy\<close> are read once by the claim and once by the reclaim.
\<close>

type_synonym delivery_handler = "nat \<Rightarrow> delivery \<Rightarrow> nat \<Rightarrow> unit outbox_svc"
type_synonym handler_registry = "string \<Rightarrow> delivery_handler option"

definition process_claimed_delivery ::
  "handler_registry \<Rightarrow> (nat \<Rightarrow> bool) \<Rightarrow> nat \<Rightarrow> int \<Rightarrow> (nat \<Rightarrow> int) \<Rightarrow> nat \<Rightarrow> string outbox_svc" where
  "process_claimed_delivery handlers busy token lease clk k = (\<lambda>x.
    case map_option dl_channel (row_get (ob_deliveries x) k) of
      None \<Rightarrow> (x, Inr ''skipped'')
    | Some channel \<Rightarrow>
        (case handlers channel of
           None \<Rightarrow> (x, Inr ''skipped_unsupported_channel'')
         | Some handler \<Rightarrow>
             (let run = (\<lambda>(d, t). svc_bind (handler k d t) (\<lambda>_. svc_return ''processed'')) in
              case claim_delivery (busy 0) token lease (clk 0) k x of
                (x1, Inr claimed) \<Rightarrow> run claimed x1
              | (x1, Inl DeliveryNotClaimableError) \<Rightarrow>
                  (case reclaim_expired_delivery (busy 1) token lease (clk 1) k x1 of
                     (x2, Inr claimed) \<Rightarrow> run claimed x2
                   | (x2, Inl DeliveryNotClaimableError) \<Rightarrow> (x2, Inr ''skipped'')
                   | (x2, Inl e) \<Rightarrow> (x2, Inl e))
              | (x1, Inl e) \<Rightarrow> (x1, Inl e))))"

subsection \<open>Selectors and the recovery sweep\<close>

definition due_claimable_deliveries :: "int \<Rightarrow> delivery rows \<Rightarrow> delivery rows" where
  "due_claimable_deliveries now t = sort_key (\<lambda>(k, d). (dl_next_at d, dl_created_at d, k))
     (rows_where (\<lambda>k d. due_eligible d now) t)"

definition expired_claimed_deliveries :: "int \<Rightarrow> delivery rows \<Rightarrow> delivery rows" where
  "expired_claimed_deliveries now t = sort_key (\<lambda>(k, d). (case dl_lease d of None \<Rightarrow> 0 | Some l \<Rightarrow> l, dl_created_at d, k))
     (rows_where (\<lambda>k d. expired_claim_eligible d now) t)"

definition get_delivery_for_workspace :: "nat \<Rightarrow> nat \<Rightarrow> outbox \<Rightarrow> delivery option" where
  "get_delivery_for_workspace ws k x =
    (case row_get (ob_deliveries x) k of None \<Rightarrow> None | Some d \<Rightarrow> if dl_workspace d = ws then Some d else None)"

definition attempt_history :: "nat \<Rightarrow> nat \<Rightarrow> outbox \<Rightarrow> attempt list" where
  "attempt_history k limit x = take (min limit 100) (rev (sort_key dt_number
     (map snd (rows_where (\<lambda>i a. dt_delivery a = k) (ob_attempts x)))))"

text \<open>A slice with a negative bound raises.\<close>

definition republish :: "int \<Rightarrow> delivery rows \<Rightarrow> nat outbox_svc" where
  "republish batch found = (\<lambda>x.
    if batch < 0 then (x, Inl BadSlice)
    else let ids = map fst (take (nat batch) found)
         in (fold dispatch_delivery_for_processing ids x, Inr (length ids)))"

definition dispatch_due_deliveries :: "int \<Rightarrow> int \<Rightarrow> nat outbox_svc" where
  "dispatch_due_deliveries batch now =
    (\<lambda>x. republish batch (due_claimable_deliveries now (ob_deliveries x)) x)"

definition recover_expired_delivery_claims :: "int \<Rightarrow> int \<Rightarrow> nat outbox_svc" where
  "recover_expired_delivery_claims batch now =
    (\<lambda>x. republish batch (expired_claimed_deliveries now (ob_deliveries x)) x)"

end
