(* ===== verification/Notifications.thy ===== *)
theory Notifications
  imports Deliveries
begin

section \<open>Notification deliveries\<close>

text \<open>
  \<open>notifications/notification_delivery.py\<close>: the producer that \<open>notification.send\<close> calls and the handler
  of the notification channel. The producer runs outside any transaction, so its lookup, the creation of
  the delivery and the insertion of the snapshot are three commits: \<open>other\<close> is what other transactions
  commit before the insertion. In the handler \<open>he_other\<close> is what they commit while the provider is called.
\<close>

definition ch_notification :: string where
  "ch_notification = ''notification''"

definition notification_of_execution :: "nat \<Rightarrow> outbox \<Rightarrow> (nat \<times> notification) option" where
  "notification_of_execution ex x =
    (case rows_where (\<lambda>i n. nt_execution n = ex) (ob_notifications x) of [] \<Rightarrow> None | r # _ \<Rightarrow> Some r)"

definition notification_of_delivery :: "nat \<Rightarrow> outbox \<Rightarrow> (nat \<times> notification) option" where
  "notification_of_delivery k x =
    (case rows_where (\<lambda>i n. nt_delivery n = k) (ob_notifications x) of [] \<Rightarrow> None | r # _ \<Rightarrow> Some r)"

definition insert_notification :: "notification \<Rightarrow> (nat \<times> notification) outbox_svc" where
  "insert_notification n = (\<lambda>x.
    if \<not> fits 254 (nt_recipient n) \<or> \<not> fits 200 (nt_subject n) \<or> \<not> fits 200 (nt_key n)
    then (x, Inl (DeliveryCrash DataError))
    else if nt_recipient n = [] \<or> nt_key n = [] \<or> notification_of_execution (nt_execution n) x \<noteq> None
      \<or> notification_of_delivery (nt_delivery n) x \<noteq> None
    then (x, Inl (DeliveryCrash IntegrityError))
    else let i = fresh_id (ob_notifications x)
         in (x\<lparr>ob_notifications := row_put i n (ob_notifications x)\<rparr>, Inr (i, n)))"

text \<open>\<open>show\<close> prints the identifier of the execution.\<close>

definition create_or_reuse_notification_delivery ::
  "(nat \<Rightarrow> string) \<Rightarrow> (outbox \<Rightarrow> outbox) \<Rightarrow> int \<Rightarrow> int \<Rightarrow> nat \<Rightarrow> nat \<Rightarrow> string \<Rightarrow> string \<Rightarrow> string
    \<Rightarrow> (nat \<times> notification) outbox_svc" where
  "create_or_reuse_notification_delivery show_id other dflt_max now ex ws recipient subject body = (\<lambda>x.
    case notification_of_execution ex x of
      Some r \<Rightarrow> (x, Inr r)
    | None \<Rightarrow> svc_bind (create_delivery dflt_max now ws ch_notification None now)
        (\<lambda>k x1. insert_notification
           \<lparr>nt_delivery = k, nt_execution = ex, nt_recipient = recipient, nt_subject = subject, nt_body = body,
            nt_key = ''notification.send:'' @ show_id ex, nt_message_id = []\<rparr> (other x1)) x)"

subsection \<open>The handler\<close>

record handler_env =
  he_call :: call_env
  he_send :: "json \<Rightarrow> json \<Rightarrow> rat \<Rightarrow> string \<Rightarrow> string \<Rightarrow> string \<Rightarrow> string \<Rightarrow> string provider_outcome"
  he_other :: "outbox \<Rightarrow> outbox"
  he_now :: int
  he_base :: int
  he_cap :: int

text \<open>\<open>send_notification\<close> of \<open>integrations/services.py\<close>; the adapter returns the provider's message id.\<close>

definition send_notification ::
  "handler_env \<Rightarrow> nat \<Rightarrow> rat \<Rightarrow> string \<Rightarrow> string \<Rightarrow> string \<Rightarrow> string \<Rightarrow> connection rows
    \<Rightarrow> connection rows \<times> (call_exc + string)" where
  "send_notification env ws remaining recipient subject body key =
    provider_operation (he_call env) ws remaining ''email''
      (\<lambda>credentials configuration timeout. he_send env credentials configuration timeout recipient subject body key)"

definition give_up :: "handler_env \<Rightarrow> string \<Rightarrow> bool \<Rightarrow> nat \<Rightarrow> nat \<Rightarrow> unit outbox_svc" where
  "give_up env code retryable k token =
    svc_bind (complete_delivery_failure (he_base env) (he_cap env) code retryable None (he_now env) None k token)
      (\<lambda>_. svc_return ())"

definition succeed :: "handler_env \<Rightarrow> nat \<Rightarrow> nat \<Rightarrow> unit outbox_svc" where
  "succeed env k token = svc_bind (complete_delivery_success (he_now env) None k token) (\<lambda>_. svc_return ())"

text \<open>
  What the notification and the channel-response handler do after the snapshot is found: send it, and
  complete the delivery by the outcome; \<open>store\<close> keeps the provider's message id when there is one.
\<close>

definition send_and_complete ::
  "handler_env \<Rightarrow> string \<Rightarrow> (string \<Rightarrow> outbox \<Rightarrow> outbox) \<Rightarrow> nat \<Rightarrow> string \<Rightarrow> string \<Rightarrow> string \<Rightarrow> string
    \<Rightarrow> nat \<Rightarrow> nat \<Rightarrow> unit outbox_svc" where
  "send_and_complete env unexpected store ws recipient subject body key k token = (\<lambda>x.
    let (t', r) = send_notification env ws (ce_max_timeout (he_call env)) recipient subject body key
          (ob_connections x);
        x1 = he_other env (x\<lparr>ob_connections := t'\<rparr>)
    in case r of
         Inl (Normalized e) \<Rightarrow> give_up env (error_code e) (integration_retryable (error_class e)) k token x1
       | Inl _ \<Rightarrow> give_up env unexpected False k token x1
       | Inr message_id \<Rightarrow>
           if \<not> fits 200 message_id then (x1, Inl (DeliveryCrash DataError))
           else succeed env k token (if message_id = [] then x1 else store message_id x1))"

definition handle_notification_delivery_attempt :: "handler_env \<Rightarrow> delivery_handler" where
  "handle_notification_delivery_attempt env k d token = (\<lambda>x.
    case notification_of_delivery k x of
      None \<Rightarrow> give_up env ''notification_delivery_missing'' False k token x
    | Some (i, n) \<Rightarrow>
        send_and_complete env ''notification_delivery_unexpected_error''
          (\<lambda>message_id y. y\<lparr>ob_notifications :=
             update_where (\<lambda>j r. j = i) (\<lambda>r. r\<lparr>nt_message_id := message_id\<rparr>) (ob_notifications y)\<rparr>)
          (dl_workspace d) (nt_recipient n) (nt_subject n) (nt_body n) (nt_key n) k token x)"

end
