(* ===== verification/Webhooks.thy ===== *)
theory Webhooks
  imports Destinations Notifications
begin

section \<open>Outbound webhooks\<close>

text \<open>
  \<open>webhooks/\<close>: the endpoints a workspace registers, the fan-out of an event to the endpoints subscribed to
  it, the redrive of an exhausted delivery, and the handler of the webhook channel, which signs the event
  and sends it to an address it has just resolved and validated. HMAC-SHA256, Fernet, \<open>urlsplit\<close>,
  \<open>getaddrinfo\<close> and the urllib3 pool are the arguments of \<open>webhook_env\<close>.
\<close>

definition ch_webhook :: string where
  "ch_webhook = ''webhook''"

definition valid_event_types :: "string list" where
  "valid_event_types = [''approval.requested'', ''approval.approved'', ''approval.rejected'', ''approval.expired'',
     ''handoff.created'']"

text \<open>What the services raise: their own taxonomy, the credential layer, a ValueError, the database.\<close>

datatype hook_exc =
    Hook webhook_exc | HookEncryption | BadStatus | HookGone | HookDelivery delivery_exc

type_synonym 'a hook_svc = "(outbox, hook_exc, 'a) svc"

subsection \<open>Signing\<close>

datatype transport_outcome =
    Responded int | SSLError | NewConnectionError | ConnectTimeoutError | ReadTimeoutError | ProtocolError
  | OtherHTTPError | TransportCrash

record webhook_env =
  wh_urlsplit :: "string \<Rightarrow> url_parts option"
  wh_insecure :: bool
  wh_max_url :: nat
  wh_resolver :: resolver
  wh_parse_ip :: address_parser
  wh_hmac :: "string \<Rightarrow> string \<Rightarrow> string"
  wh_dumps :: "json \<Rightarrow> string"
  wh_show :: "int \<Rightarrow> string"
  wh_isoformat :: "int \<Rightarrow> string"
  wh_encrypt :: "json \<Rightarrow> string option"
  wh_decrypt :: "string \<Rightarrow> json option"
  wh_pool :: "string \<Rightarrow> ip_address \<Rightarrow> int \<Rightarrow> string \<Rightarrow> string \<Rightarrow> (string \<times> string) list \<Rightarrow> string \<Rightarrow> transport_outcome"

record signed_request =
  sr_body :: string
  sr_headers :: "(string \<times> string) list"
  sr_timestamp :: int
  sr_signature :: string

definition sign :: "webhook_env \<Rightarrow> string \<Rightarrow> int \<Rightarrow> string \<Rightarrow> string" where
  "sign env secret timestamp body = ''v1='' @ wh_hmac env secret (wh_show env timestamp @ ''.'' @ body)"

definition build_signed_request ::
  "webhook_env \<Rightarrow> string \<Rightarrow> json \<Rightarrow> string \<Rightarrow> string \<Rightarrow> int \<Rightarrow> signed_request" where
  "build_signed_request env secret envelope event_id delivery_id timestamp =
    (let body = wh_dumps env envelope; signature = sign env secret timestamp body
     in \<lparr>sr_body = body,
         sr_headers = [(''Content-Type'', ''application/json''), (''User-Agent'', ''SupportPilot-Webhook/1''),
           (''X-SupportPilot-Event-Id'', event_id), (''X-SupportPilot-Delivery-Id'', delivery_id),
           (''X-SupportPilot-Timestamp'', wh_show env timestamp), (''X-SupportPilot-Signature'', signature),
           (''Idempotency-Key'', delivery_id)],
         sr_timestamp = timestamp, sr_signature = signature\<rparr>)"

text \<open>The request is sent to the address, with the host name in the header; a redirect is an error.\<close>

definition send_pinned_request ::
  "webhook_env \<Rightarrow> parsed_url \<Rightarrow> ip_address \<Rightarrow> (string \<times> string) list \<Rightarrow> string \<Rightarrow> (webhook_exc + int) option" where
  "send_pinned_request env url ip headers body =
    (let hs = (if map_of headers ''Host'' = None then headers @ [(''Host'', pu_hostname url)] else headers) in
     case wh_pool env (pu_scheme url) ip (pu_port url) (pu_hostname url) (pu_path_and_query url) hs body of
       SSLError \<Rightarrow> Some (Inl WebhookTls)
     | NewConnectionError \<Rightarrow> Some (Inl WebhookConnection)
     | ConnectTimeoutError \<Rightarrow> Some (Inl WebhookTimeout)
     | ReadTimeoutError \<Rightarrow> Some (Inl WebhookTimeout)
     | ProtocolError \<Rightarrow> Some (Inl WebhookConnection)
     | OtherHTTPError \<Rightarrow> Some (Inl WebhookUnexpectedTransport)
     | TransportCrash \<Rightarrow> None
     | Responded status \<Rightarrow>
         if 300 \<le> status \<and> status \<le> 399 then Some (Inl WebhookRedirectRejected) else Some (Inr status))"

definition classify_http_status :: "webhook_env \<Rightarrow> int \<Rightarrow> bool \<times> string" where
  "classify_http_status env status =
    (status \<in> {408, 425, 429} \<or> 500 \<le> status \<and> status \<le> 599, ''webhook_http_'' @ wh_show env status)"

subsection \<open>Endpoint management\<close>

text \<open>\<open>validate_event_types\<close> gets a list of strings; the request serializer admits nothing else.\<close>

definition event_types_ok :: "string list \<Rightarrow> bool" where
  "event_types_ok types \<longleftrightarrow> types \<noteq> [] \<and> distinct types \<and> set types \<subseteq> set valid_event_types"

definition best_effort_ssrf_check :: "webhook_env \<Rightarrow> string \<Rightarrow> webhook_exc option" where
  "best_effort_ssrf_check env url =
    (case parse_webhook_url (wh_urlsplit env) (wh_insecure env) (wh_max_url env) url of
       Inl e \<Rightarrow> Some e
     | Inr p \<Rightarrow> (case resolve_and_validate (wh_resolver env) (wh_parse_ip env) (pu_hostname p) (pu_port p) of
         Inl e \<Rightarrow> Some e | Inr _ \<Rightarrow> None))"

definition save_endpoint :: "nat \<Rightarrow> (endpoint \<Rightarrow> endpoint) \<Rightarrow> outbox \<Rightarrow> hook_exc + outbox" where
  "save_endpoint k f x =
    (case row_get (ob_endpoints x) k of
       None \<Rightarrow> Inl HookGone
     | Some r \<Rightarrow> if \<not> fits 2048 (ep_url (f r)) then Inl (HookDelivery (DeliveryCrash DataError))
         else if ep_name (f r) = [] then Inl (HookDelivery (DeliveryCrash IntegrityError))
         else Inr (x\<lparr>ob_endpoints := row_put k (f r) (ob_endpoints x)\<rparr>))"

definition audit_endpoint :: "string \<Rightarrow> nat \<Rightarrow> nat \<Rightarrow> nat \<Rightarrow> json \<Rightarrow> string option \<Rightarrow> outbox \<Rightarrow> outbox" where
  "audit_endpoint action k actor ws metadata request_id =
    ob_emit (record_event action ''webhook_endpoint'' k (Some actor) (Some ws) metadata request_id)"

definition jstrs :: "string list \<Rightarrow> json" where
  "jstrs xs = JArr (map JStr xs)"

text \<open>\<open>secret\<close> is the fresh secret \<open>secrets.token_hex\<close> generates; it is returned once.\<close>

definition create_endpoint ::
  "webhook_env \<Rightarrow> string \<Rightarrow> int \<Rightarrow> nat \<Rightarrow> nat \<Rightarrow> string \<Rightarrow> string \<Rightarrow> string list \<Rightarrow> string option
    \<Rightarrow> (nat \<times> string) hook_svc" where
  "create_endpoint env secret now ws actor name url types request_id = (\<lambda>x.
    case best_effort_ssrf_check env url of Some e \<Rightarrow> (x, Inl (Hook e)) | None \<Rightarrow>
    if \<not> event_types_ok types then (x, Inl (Hook WebhookInvalidEventType))
    else case wh_encrypt env (JObj [(''secret'', JStr secret)]) of None \<Rightarrow> (x, Inl HookEncryption) | Some token \<Rightarrow>
     (let k = fresh_id (ob_endpoints x);
          e = \<lparr>ep_workspace = ws, ep_name = take 200 name, ep_url = url, ep_status = EP_ACTIVE, ep_event_types = types,
               ep_secret = token, ep_secret_created_at = Some now, ep_created_by = Some actor\<rparr>
      in if \<not> fits 2048 url then (x, Inl (HookDelivery (DeliveryCrash DataError)))
         else if ep_name e = [] then (x, Inl (HookDelivery (DeliveryCrash IntegrityError)))
         else (audit_endpoint ''webhook_endpoint.created'' k actor ws
                 (JObj [(''name'', JStr (ep_name e)), (''event_types'', jstrs types)]) request_id
                 (x\<lparr>ob_endpoints := row_put k e (ob_endpoints x)\<rparr>), Inr (k, secret))))"

text \<open>The fields to save are those given; the instance is changed as each one passes its check.\<close>

definition update_endpoint ::
  "webhook_env \<Rightarrow> nat \<Rightarrow> nat \<Rightarrow> nat \<Rightarrow> string option \<Rightarrow> string option \<Rightarrow> string list option \<Rightarrow> string option
    \<Rightarrow> unit hook_svc" where
  "update_endpoint env ws k actor name url types request_id = (\<lambda>x.
    case (case url of None \<Rightarrow> None | Some u \<Rightarrow> best_effort_ssrf_check env u) of Some e \<Rightarrow> (x, Inl (Hook e)) | None \<Rightarrow>
    if (case types of None \<Rightarrow> False | Some ts \<Rightarrow> \<not> event_types_ok ts) then (x, Inl (Hook WebhookInvalidEventType))
    else if name = None \<and> url = None \<and> types = None then (x, Inr ())
    else case save_endpoint k (\<lambda>r. r\<lparr>
           ep_name := (case name of None \<Rightarrow> ep_name r | Some n \<Rightarrow> take 200 n),
           ep_url := (case url of None \<Rightarrow> ep_url r | Some u \<Rightarrow> u),
           ep_event_types := (case types of None \<Rightarrow> ep_event_types r | Some ts \<Rightarrow> ts)\<rparr>) x of
      Inl e \<Rightarrow> (x, Inl e)
    | Inr x1 \<Rightarrow> (audit_endpoint ''webhook_endpoint.updated'' k actor ws
        (JObj [(''fields'', jstrs ((if name = None then [] else [''name'']) @ (if url = None then [] else [''url'']) @
            (if types = None then [] else [''subscribed_event_types''])))]) request_id x1, Inr ()))"

definition endpoint_status_of :: "string \<Rightarrow> endpoint_status option" where
  "endpoint_status_of s = (if s = ''active'' then Some EP_ACTIVE else if s = ''disabled'' then Some EP_DISABLED else None)"

definition set_endpoint_status ::
  "nat \<Rightarrow> nat \<Rightarrow> nat \<Rightarrow> string \<Rightarrow> string option \<Rightarrow> unit hook_svc" where
  "set_endpoint_status ws k actor status request_id = (\<lambda>x.
    case endpoint_status_of status of None \<Rightarrow> (x, Inl BadStatus) | Some st \<Rightarrow>
    (case save_endpoint k (\<lambda>r. r\<lparr>ep_status := st\<rparr>) x of Inl e \<Rightarrow> (x, Inl e) | Inr x1 \<Rightarrow>
       (audit_endpoint (if st = EP_DISABLED then ''webhook_endpoint.disabled'' else ''webhook_endpoint.updated'')
          k actor ws (JObj [(''status'', JStr status)]) request_id x1, Inr ())))"

definition rotate_secret ::
  "webhook_env \<Rightarrow> string \<Rightarrow> int \<Rightarrow> nat \<Rightarrow> nat \<Rightarrow> nat \<Rightarrow> string option \<Rightarrow> string hook_svc" where
  "rotate_secret env secret now ws k actor request_id = (\<lambda>x.
    case wh_encrypt env (JObj [(''secret'', JStr secret)]) of None \<Rightarrow> (x, Inl HookEncryption) | Some token \<Rightarrow>
    (case save_endpoint k (\<lambda>r. r\<lparr>ep_secret := token, ep_secret_created_at := Some now\<rparr>) x of
       Inl e \<Rightarrow> (x, Inl e)
     | Inr x1 \<Rightarrow> (audit_endpoint ''webhook_endpoint.secret_rotated'' k actor ws (JObj []) request_id x1, Inr secret)))"

definition current_secret :: "webhook_env \<Rightarrow> endpoint \<Rightarrow> webhook_exc + string" where
  "current_secret env e =
    (if ep_secret e = [] then Inl WebhookSigningNotConfigured
     else case wh_decrypt env (ep_secret e) of
       Some (JObj d) \<Rightarrow> (case dict_get d ''secret'' of
          JStr s \<Rightarrow> if s = [] then Inl WebhookSigningNotConfigured else Inr s
        | _ \<Rightarrow> Inl WebhookSigningNotConfigured)
     | _ \<Rightarrow> Inl WebhookSigningNotConfigured)"

subsection \<open>Events and their fan-out\<close>

definition build_event_envelope :: "webhook_env \<Rightarrow> nat \<Rightarrow> webhook_event \<Rightarrow> json" where
  "build_event_envelope env i ev = JObj [(''id'', jid i), (''type'', JStr (ev_type ev)), (''version'', JInt (ev_version ev)),
     (''created_at'', JStr (wh_isoformat env (ev_created_at ev))), (''workspace_id'', jid (ev_workspace ev)),
     (''data'', ev_payload ev)]"

definition active_endpoints_subscribed_to :: "nat \<Rightarrow> string \<Rightarrow> outbox \<Rightarrow> endpoint rows" where
  "active_endpoints_subscribed_to ws event_type x = rows_where
     (\<lambda>i e. ep_workspace e = ws \<and> ep_status e = EP_ACTIVE \<and> event_type \<in> set (ep_event_types e)) (ob_endpoints x)"

definition insert_link :: "webhook_link \<Rightarrow> outbox \<Rightarrow> outbox option" where
  "insert_link l x =
    (if (\<exists>(i, r) \<in> set (ob_links x). wl_delivery r = wl_delivery l \<or> wl_endpoint r = wl_endpoint l \<and> wl_event r = wl_event l)
     then None else Some (x\<lparr>ob_links := row_put (fresh_id (ob_links x)) l (ob_links x)\<rparr>))"

text \<open>
  One turn of the loop: a delivery and its link. A conflict on the link marks the transaction for rollback,
  so the next statement, or the end of the block, discards everything: \<open>None\<close>.
\<close>

definition fan_out_one :: "int \<Rightarrow> int \<Rightarrow> nat \<Rightarrow> nat \<Rightarrow> nat \<Rightarrow> outbox \<Rightarrow> hook_exc + outbox" where
  "fan_out_one dflt_max now ws event ep x =
    (case create_delivery dflt_max now ws ch_webhook None now x of
       (x1, Inl e) \<Rightarrow> Inl (HookDelivery e)
     | (x1, Inr k) \<Rightarrow>
         (case insert_link \<lparr>wl_delivery = k, wl_workspace = ws, wl_endpoint = ep, wl_event = event\<rparr> x1 of
            None \<Rightarrow> Inl (HookDelivery (DeliveryCrash IntegrityError))
          | Some x2 \<Rightarrow> Inr x2))"

fun fan_out :: "int \<Rightarrow> int \<Rightarrow> nat \<Rightarrow> nat \<Rightarrow> nat list \<Rightarrow> outbox \<Rightarrow> hook_exc + outbox" where
  "fan_out dflt_max now ws event [] x = Inr x"
| "fan_out dflt_max now ws event (e # es) x =
    (case fan_out_one dflt_max now ws event e x of Inl err \<Rightarrow> Inl err | Inr x1 \<Rightarrow> fan_out dflt_max now ws event es x1)"

definition emit_event :: "int \<Rightarrow> int \<Rightarrow> nat \<Rightarrow> string \<Rightarrow> json \<Rightarrow> int \<Rightarrow> nat hook_svc" where
  "emit_event dflt_max now ws event_type data version = (\<lambda>x.
    if event_type \<notin> set valid_event_types then (x, Inl (Hook WebhookInvalidEventType))
    else atomic (\<lambda>y.
      if version \<le> 0 then (y, Inl (HookDelivery (DeliveryCrash IntegrityError)))
      else
       (let i = fresh_id (ob_events y);
            ev = \<lparr>ev_workspace = ws, ev_type = event_type, ev_version = version, ev_payload = data, ev_created_at = now\<rparr>;
            y1 = y\<lparr>ob_events := row_put i ev (ob_events y)\<rparr>
        in case fan_out dflt_max now ws i (row_ids (active_endpoints_subscribed_to ws event_type y1)) y1 of
             Inl e \<Rightarrow> (y, Inl e)
           | Inr y2 \<Rightarrow> (y2, Inr i))) x)"

subsection \<open>Redrive\<close>

definition redrivable :: "delivery \<Rightarrow> bool" where
  "redrivable d \<longleftrightarrow> dl_status d \<in> {DL_FAILED, DL_DEAD}"

definition redriven :: "int \<Rightarrow> int \<Rightarrow> delivery \<Rightarrow> delivery" where
  "redriven allowance now d = d\<lparr>dl_max := nat (int (dl_max d) + allowance), dl_status := DL_PENDING,
     dl_next_at := now, dl_failed_at := None\<rparr>"

text \<open>The constraints of the row: \<open>max_attempts > 0\<close> and \<open>attempt_count <= max_attempts\<close>.\<close>

definition redrive_webhook_delivery ::
  "int \<Rightarrow> int \<Rightarrow> nat \<Rightarrow> webhook_link \<Rightarrow> nat \<Rightarrow> string option \<Rightarrow> unit hook_svc" where
  "redrive_webhook_delivery allowance now ws link actor request_id = (\<lambda>x.
    case row_get (ob_endpoints x) (wl_endpoint link) of
      None \<Rightarrow> (x, Inl (HookDelivery (DeliveryCrash DoesNotExist)))
    | Some e \<Rightarrow>
        if ep_status e \<noteq> EP_ACTIVE then (x, Inl (Hook WebhookEndpointDisabled))
        else case row_get (ob_deliveries x) (wl_delivery link) of
          None \<Rightarrow> (x, Inl (HookDelivery (DeliveryCrash DoesNotExist)))
        | Some d \<Rightarrow>
            if \<not> redrivable d then (x, Inl (Hook WebhookDeliveryNotRedrivable))
            else if int (dl_max d) + allowance \<le> 0 \<or> int (dl_attempts d) > int (dl_max d) + allowance
            then (x, Inl (HookDelivery (DeliveryCrash IntegrityError)))
            else (ob_emit (Metric ''delivery_redrive'' [dl_channel d])
                   (dispatch_delivery_for_processing (wl_delivery link)
                     (ob_emit (record_event ''webhook_delivery.redriven'' ''webhook_delivery'' (wl_delivery link)
                        (Some actor) (Some ws) (JObj [(''endpoint_id'', jid (wl_endpoint link))]) request_id)
                       (put_delivery (wl_delivery link) (redriven allowance now d) x))), Inr ()))"

subsection \<open>The handler\<close>

definition link_of_delivery :: "nat \<Rightarrow> outbox \<Rightarrow> webhook_link option" where
  "link_of_delivery k x =
    (case rows_where (\<lambda>i l. wl_delivery l = k) (ob_links x) of [] \<Rightarrow> None | (i, l) # _ \<Rightarrow> Some l)"

text \<open>What the body of the \<open>try\<close> ends with; \<open>None\<close> is an exception outside the taxonomy.\<close>

definition attempt_webhook ::
  "webhook_env \<Rightarrow> int \<Rightarrow> endpoint \<Rightarrow> nat \<Rightarrow> webhook_event \<Rightarrow> nat \<Rightarrow> (webhook_exc + int) option" where
  "attempt_webhook env now e i ev k =
    (case current_secret env e of Inl err \<Rightarrow> Some (Inl err) | Inr secret \<Rightarrow>
    (case parse_webhook_url (wh_urlsplit env) (wh_insecure env) (wh_max_url env) (ep_url e) of
       Inl err \<Rightarrow> Some (Inl err) | Inr url \<Rightarrow>
    (case resolve_and_validate (wh_resolver env) (wh_parse_ip env) (pu_hostname url) (pu_port url) of
       Inl err \<Rightarrow> Some (Inl err) | Inr ip \<Rightarrow>
      (let signed = build_signed_request env secret (build_event_envelope env i ev) (wh_show env (int i))
             (wh_show env (int k)) (now div 1000000)
       in send_pinned_request env url ip (sr_headers signed) (sr_body signed)))))"

definition handle_webhook_delivery_attempt :: "webhook_env \<Rightarrow> handler_env \<Rightarrow> delivery_handler" where
  "handle_webhook_delivery_attempt env he k d token = (\<lambda>x.
    case link_of_delivery k x of
      None \<Rightarrow> give_up he ''webhook_delivery_missing'' False k token x
    | Some l \<Rightarrow>
        (case row_get (ob_endpoints x) (wl_endpoint l) of
           None \<Rightarrow> (x, Inl (DeliveryCrash DoesNotExist))
         | Some e \<Rightarrow>
             if ep_status e \<noteq> EP_ACTIVE then give_up he (webhook_code WebhookEndpointDisabled) False k token x
             else case row_get (ob_events x) (wl_event l) of
               None \<Rightarrow> (x, Inl (DeliveryCrash DoesNotExist))
             | Some ev \<Rightarrow>
                 (let x1 = he_other he x;
                      failed = (\<lambda>code retryable response. svc_bind (complete_delivery_failure (he_base he) (he_cap he) code
                         retryable None (he_now he) response k token) (\<lambda>_. svc_return ()) x1)
                  in case attempt_webhook env (he_now he) e (wl_event l) ev k of
                       None \<Rightarrow> failed ''webhook_delivery_unexpected_error'' False None
                     | Some (Inl err) \<Rightarrow> failed (webhook_code err) (webhook_retryable err) None
                     | Some (Inr status) \<Rightarrow>
                         if 200 \<le> status \<and> status \<le> 299
                         then svc_bind (complete_delivery_success (he_now he) (Some status) k token)
                                (\<lambda>_. svc_return ()) x1
                         else (let (retryable, code) = classify_http_status env status
                               in failed code retryable (Some status)))))"

end
