(* ===== verification/DeliveryInvariants.thy ===== *)
theory DeliveryInvariants
  imports Webhooks
begin

section \<open>Invariants of the delivery tables\<close>

text \<open>
  A well-formed outbox: every row satisfies the constraints of its table, the attempts of a delivery are
  numbered from 1 to its counter in the order they were made, and an attempt is in progress exactly when it
  is the last one of a claimed delivery and carries the claim's token. Every service keeps it.
\<close>

subsection \<open>Tables once more\<close>

lemma row_put_map:
  "distinct (row_ids t) \<Longrightarrow> k \<in> set (row_ids t) \<Longrightarrow> row_put k r t = update_where (\<lambda>i _. i = k) (\<lambda>_. r) t"
proof (induction t)
  case (Cons p t)
  obtain i v where p: "p = (i, v)" by fastforce
  show ?case
  proof (cases "i = k")
    case True
    with Cons.prems p have "k \<notin> fst ` set t" by (simp add: row_ids_def)
    then have "map (\<lambda>(i, q). (i, if i = k then r else q)) t = t" by (intro map_idI) force
    with True p show ?thesis by (simp add: update_where_def)
  next
    case False
    with Cons p show ?thesis by (auto simp: row_ids_def update_where_def)
  qed
qed (simp add: row_ids_def)

lemma rows_where_update_where:
  "(\<And>i r. Q i r \<Longrightarrow> P i (f r) = P i r) \<Longrightarrow> rows_where P (update_where Q f t) = update_where Q f (rows_where P t)"
  by (induction t) (auto simp: rows_where_def update_where_def split: if_splits)

lemma rows_where_append [simp]: "rows_where P (s @ t) = rows_where P s @ rows_where P t"
  by (simp add: rows_where_def)

lemma rows_where_Cons: "rows_where P (r # t) = (if P (fst r) (snd r) then r # rows_where P t else rows_where P t)"
  by (cases r) (simp add: rows_where_def)

lemma rows_where_Nil [simp]: "rows_where P [] = []"
  by (simp add: rows_where_def)

lemma set_rows_where: "set (rows_where P t) = {(i, r) \<in> set t. P i r}"
  by (auto simp: rows_where_def)

lemma in_update_where: "(i, b) \<in> set (update_where Q f t) \<longleftrightarrow> (\<exists>a. (i, a) \<in> set t \<and> b = (if Q i a then f a else a))"
  by (induction t) (auto simp: update_where_def)

lemma row_put_fresh_append: "k \<notin> set (row_ids t) \<Longrightarrow> row_put k r t = t @ [(k, r)]"
  by (induction t) (auto simp: row_ids_def)

lemma row_get_in: "row_get t k = Some r \<Longrightarrow> (k, r) \<in> set t"
  by (rule map_of_SomeD)

lemma row_get_of_in: "distinct (row_ids t) \<Longrightarrow> (k, r) \<in> set t \<Longrightarrow> row_get t k = Some r"
  by (simp add: row_ids_def)

subsection \<open>Well-formedness\<close>

definition claim_fields_ok :: "delivery \<Rightarrow> bool" where
  "claim_fields_ok d = (if dl_status d = DL_CLAIMED
     then dl_claimed_at d \<noteq> None \<and> dl_lease d \<noteq> None \<and> dl_token d \<noteq> None
     else dl_claimed_at d = None \<and> dl_lease d = None \<and> dl_token d = None)"

definition delivery_ok :: "delivery \<Rightarrow> bool" where
  "delivery_ok d \<longleftrightarrow> claim_fields_ok d \<and> 0 < dl_max d \<and> dl_attempts d \<le> dl_max d \<and>
    (dl_status d = DL_CLAIMED \<longrightarrow> 0 < dl_attempts d) \<and> (dl_first_at d = None \<longleftrightarrow> dl_attempts d = 0) \<and>
    (dl_status d = DL_DELIVERED \<longrightarrow> dl_delivered_at d \<noteq> None) \<and>
    (dl_status d \<in> {DL_FAILED, DL_DEAD} \<longrightarrow> dl_failed_at d \<noteq> None) \<and>
    (dl_status d \<in> {DL_RETRY_SCHEDULED, DL_FAILED, DL_DEAD} \<longrightarrow> 0 < dl_attempts d) \<and>
    length (dl_error d) \<le> max_safe_error_code_length"

definition delivery_attempts :: "nat \<Rightarrow> attempt rows \<Rightarrow> attempt list" where
  "delivery_attempts k t = map snd (rows_where (\<lambda>i a. dt_delivery a = k) t)"

lemma in_delivery_attempts: "a \<in> set (delivery_attempts k t) \<longleftrightarrow> (\<exists>i. (i, a) \<in> set t \<and> dt_delivery a = k)"
  by (auto simp: delivery_attempts_def set_rows_where image_iff)

definition attempts_ok :: "delivery \<Rightarrow> attempt list \<Rightarrow> bool" where
  "attempts_ok d as \<longleftrightarrow> map dt_number as = [1..<Suc (dl_attempts d)] \<and>
    (\<forall>a \<in> set as. (dt_status a = AT_IN_PROGRESS \<longleftrightarrow> dl_status d = DL_CLAIMED \<and> dt_number a = dl_attempts d) \<and>
      (dt_status a = AT_IN_PROGRESS \<longrightarrow> dl_token d = Some (dt_token a)))"

definition outbox_wf :: "outbox \<Rightarrow> bool" where
  "outbox_wf x \<longleftrightarrow> distinct (row_ids (ob_deliveries x)) \<and> distinct (row_ids (ob_attempts x)) \<and>
    (\<forall>(i, a) \<in> set (ob_attempts x). dt_delivery a \<in> set (row_ids (ob_deliveries x))) \<and>
    (\<forall>(k, d) \<in> set (ob_deliveries x). delivery_ok d \<and> attempts_ok d (delivery_attempts k (ob_attempts x)))"

lemma wf_delivery:
  assumes "outbox_wf x" "row_get (ob_deliveries x) k = Some d"
  shows "delivery_ok d" "attempts_ok d (delivery_attempts k (ob_attempts x))"
  using assms by (auto simp: outbox_wf_def dest!: row_get_in)

lemma outbox_wf_cong:
  "ob_deliveries y = ob_deliveries x \<Longrightarrow> ob_attempts y = ob_attempts x \<Longrightarrow> outbox_wf y = outbox_wf x"
  by (simp add: outbox_wf_def)

lemma wf_emit [simp]: "outbox_wf (ob_emit e x) = outbox_wf x"
  by (rule outbox_wf_cong) (simp_all add: ob_emit_def)

lemma emit_deliveries [simp]: "ob_deliveries (ob_emit e x) = ob_deliveries x"
  and emit_attempts [simp]: "ob_attempts (ob_emit e x) = ob_attempts x"
  by (simp_all add: ob_emit_def)

lemma dispatch_deliveries [simp]: "ob_deliveries (dispatch_delivery_for_processing k x) = ob_deliveries x"
  and dispatch_attempts [simp]: "ob_attempts (dispatch_delivery_for_processing k x) = ob_attempts x"
  by (simp_all add: dispatch_delivery_for_processing_def)

lemma put_delivery_sel [simp]:
  "ob_deliveries (put_delivery k d x) = row_put k d (ob_deliveries x)"
  "ob_attempts (put_delivery k d x) = ob_attempts x"
  by (simp_all add: put_delivery_def)

lemma empty_outbox_wf: "outbox_wf empty_outbox"
  by (simp add: outbox_wf_def empty_outbox_def row_ids_def)

text \<open>One delivery is written and only its own attempts change.\<close>

lemma wf_one:
  assumes wf: "outbox_wf x"
    and ds: "ob_deliveries y = row_put k d (ob_deliveries x)"
    and dist: "distinct (row_ids (ob_attempts y))"
    and only: "\<And>j. j \<noteq> k \<Longrightarrow> delivery_attempts j (ob_attempts y) = delivery_attempts j (ob_attempts x)"
    and ok: "delivery_ok d" "attempts_ok d (delivery_attempts k (ob_attempts y))"
  shows "outbox_wf y"
  unfolding outbox_wf_def
proof (intro conjI ballI, goal_cases)
  case 1
  show ?case using wf by (simp add: ds outbox_wf_def distinct_row_put)
next
  case 2
  show ?case by (rule dist)
next
  case (3 p)
  obtain i a where p: "p = (i, a)" by fastforce
  show ?case
  proof (cases "dt_delivery a = k")
    case True
    then show ?thesis by (simp add: p ds row_ids_put)
  next
    case False
    have "a \<in> set (delivery_attempts (dt_delivery a) (ob_attempts y))"
      using 3 p by (auto simp: in_delivery_attempts)
    with only [OF False] have "a \<in> set (delivery_attempts (dt_delivery a) (ob_attempts x))" by simp
    then obtain i' where "(i', a) \<in> set (ob_attempts x)" by (auto simp: in_delivery_attempts)
    with wf have "dt_delivery a \<in> set (row_ids (ob_deliveries x))" by (auto simp: outbox_wf_def)
    then show ?thesis by (simp add: p ds row_ids_put)
  qed
next
  case (4 p)
  obtain j e where p: "p = (j, e)" by fastforce
  have "distinct (row_ids (row_put k d (ob_deliveries x)))" using wf by (simp add: outbox_wf_def distinct_row_put)
  moreover have "(j, e) \<in> set (row_put k d (ob_deliveries x))" using 4 p ds by simp
  ultimately have g: "row_get (row_put k d (ob_deliveries x)) j = Some e" by (rule row_get_of_in)
  show ?case
  proof (cases "j = k")
    case True
    with g ok show ?thesis by (simp add: p)
  next
    case False
    with g have "row_get (ob_deliveries x) j = Some e" by simp
    with wf_delivery [OF wf] only [OF False] show ?thesis by (simp add: p)
  qed
qed

subsection \<open>The services, inverted\<close>

lemma claim_row_done:
  assumes "claim_row eligible busy token lease now k x = (y, Inr r)"
  obtains d ats where "row_get (ob_deliveries x) k = Some d" "\<not> busy" "eligible d now" "dl_attempts d < dl_max d"
    "ats = (case (if dl_status d = DL_CLAIMED then dl_token d else None) of
        None \<Rightarrow> ob_attempts x | Some t \<Rightarrow> abandon_attempts k t now (ob_attempts x))"
    "r = (claimed_row token lease now d, token)"
    "ob_deliveries y = row_put k (claimed_row token lease now d) (ob_deliveries x)"
    "ob_attempts y = row_put (fresh_id ats) (new_attempt k (dl_attempts d + 1) token now) ats"
proof -
  obtain d where d: "(if busy then None else row_get (ob_deliveries x) k) = Some d"
    using assms by (auto simp: claim_row_def atomic_ok_iff split: option.splits)
  then have b: "\<not> busy" "row_get (ob_deliveries x) k = Some d" by (auto split: if_splits)
  have e: "eligible d now" "\<not> dl_attempts d + 1 > dl_max d"
    using assms d by (auto simp: claim_row_def atomic_ok_iff split: if_splits)
  define ats where "ats = (case (if dl_status d = DL_CLAIMED then dl_token d else None) of
        None \<Rightarrow> ob_attempts x | Some t \<Rightarrow> abandon_attempts k t now (ob_attempts x))"
  have n: "dl_attempts (claimed_row token lease now d) = dl_attempts d + 1" by (simp add: claimed_row_def)
  have "r = (claimed_row token lease now d, token) \<and>
      ob_deliveries y = row_put k (claimed_row token lease now d) (ob_deliveries x) \<and>
      ob_attempts y = row_put (fresh_id ats) (new_attempt k (dl_attempts d + 1) token now) ats"
    using assms d e
    by (simp add: claim_row_def atomic_ok_iff Let_def ats_def [symmetric] n split: if_splits) auto
  with b e ats_def that show ?thesis by auto
qed

lemma claim_row_failed: "claim_row eligible busy token lease now k x = (y, Inl e) \<Longrightarrow> y = x"
  by (auto simp: claim_row_def dest: atomic_error_rolls_back)

definition closing :: "attempt_status \<Rightarrow> string \<Rightarrow> bool option \<Rightarrow> int \<Rightarrow> int option \<Rightarrow> attempt \<Rightarrow> attempt" where
  "closing st code retryable now response a = a\<lparr>dt_status := st, dt_completed_at := Some now,
     dt_latency := Some (max (elapsed_ms (dt_started_at a) now) 0), dt_error := take max_safe_error_code_length code,
     dt_retryable := retryable, dt_response := (case response of None \<Rightarrow> dt_response a | Some r \<Rightarrow> Some r)\<rparr>"

lemma completing_done:
  assumes "completing k token st code retryable now response f observed x = (y, Inr r)"
  obtains d i a where "row_get (ob_deliveries x) k = Some d" "active_claim d token" "r = f d"
    "open_attempts k token (ob_attempts x) = [(i, a)]"
    "ob_deliveries y = row_put k (f d) (ob_deliveries x)"
    "ob_attempts y = row_put i (closing st code retryable now response a) (ob_attempts x)"
proof -
  obtain d where d: "row_get (ob_deliveries x) k = Some d"
    using assms by (auto simp: completing_def atomic_ok_iff split: option.splits)
  have a: "active_claim d token" using assms d by (auto simp: completing_def atomic_ok_iff split: if_splits)
  obtain x1 where c: "complete_active_attempt k token st code retryable now response x = Inr x1"
    using assms d a
    by (cases "complete_active_attempt k token st code retryable now response x") (auto simp: completing_def atomic_ok_iff)
  then have x1: "complete_active_attempt k token st code retryable now response x = Inr x1"
    "y = ob_emit (observed (f d)) (put_delivery k (f d) x1)" "r = f d"
    using assms d a by (auto simp: completing_def atomic_ok_iff)
  obtain i b where o: "open_attempts k token (ob_attempts x) = [(i, b)]"
    using x1(1) by (auto simp: complete_active_attempt_def split: list.splits)
  have "x1 = x\<lparr>ob_attempts := row_put i (closing st code retryable now response b) (ob_attempts x)\<rparr>"
    using x1(1) o by (simp add: complete_active_attempt_def closing_def)
  with x1 d a o that show ?thesis by simp
qed

lemma completing_failed: "completing k token st code retryable now response f observed x = (y, Inl e) \<Longrightarrow> y = x"
  by (auto simp: completing_def dest: atomic_error_rolls_back)

lemma completing_stale:
  "row_get (ob_deliveries x) k = Some d \<Longrightarrow> \<not> active_claim d token \<Longrightarrow>
    completing k token st code retryable now response f observed x = (x, Inl StaleClaimError)"
  by (simp add: completing_def atomic_def)

subsection \<open>Attempts\<close>

lemma delivery_attempts_update:
  "(\<And>r. dt_delivery (f r) = dt_delivery r) \<Longrightarrow>
    delivery_attempts k (update_where Q f t) = map (\<lambda>(i, a). if Q i a then f a else a) (rows_where (\<lambda>i a. dt_delivery a = k) t)"
  by (simp add: delivery_attempts_def rows_where_update_where) (simp add: update_where_def case_prod_unfold)

lemma abandon_number [simp]:
  "map dt_number (delivery_attempts j (abandon_attempts k t now ats)) = map dt_number (delivery_attempts j ats)"
  by (simp add: abandon_attempts_def delivery_attempts_update)
    (simp add: delivery_attempts_def case_prod_unfold comp_def if_distrib cong: if_cong)

lemma abandon_other: "j \<noteq> k \<Longrightarrow> delivery_attempts j (abandon_attempts k t now ats) = delivery_attempts j ats"
  by (simp add: abandon_attempts_def delivery_attempts_update)
    (auto simp: delivery_attempts_def case_prod_unfold set_rows_where intro!: map_cong)

lemma abandon_ids [simp]: "row_ids (abandon_attempts k t now ats) = row_ids ats"
  by (simp add: abandon_attempts_def)

lemma abandon_closes:
  assumes "\<forall>a \<in> set (delivery_attempts k ats). dt_status a = AT_IN_PROGRESS \<longrightarrow> dt_token a = t"
    and "b \<in> set (delivery_attempts k (abandon_attempts k t now ats))"
  shows "dt_status b \<noteq> AT_IN_PROGRESS"
proof -
  obtain i where i: "(i, b) \<in> set (abandon_attempts k t now ats)" and k: "dt_delivery b = k"
    using assms(2) unfolding in_delivery_attempts by blast
  obtain a where "(i, a) \<in> set ats" and b: "b = (if dt_delivery a = k \<and> dt_token a = t \<and> dt_status a = AT_IN_PROGRESS
       then a\<lparr>dt_status := AT_ABANDONED, dt_completed_at := Some now\<rparr> else a)"
    using i unfolding abandon_attempts_def in_update_where by blast
  moreover from b k have "dt_delivery a = k" by (auto split: if_splits)
  ultimately have a: "(i, a) \<in> set ats" "dt_delivery a = k" "b = (if dt_token a = t \<and> dt_status a = AT_IN_PROGRESS
       then a\<lparr>dt_status := AT_ABANDONED, dt_completed_at := Some now\<rparr> else a)" by auto
  have "a \<in> set (delivery_attempts k ats)" unfolding in_delivery_attempts using a(1,2) by blast
  with assms(1) have "dt_status a = AT_IN_PROGRESS \<longrightarrow> dt_token a = t" by blast
  then show ?thesis unfolding a(3) by (cases "dt_token a = t \<and> dt_status a = AT_IN_PROGRESS") auto
qed

lemma append_attempt:
  "delivery_attempts j (row_put (fresh_id ats) (new_attempt k n token now) ats) =
    delivery_attempts j ats @ (if j = k then [new_attempt k n token now] else [])"
  by (simp add: row_put_fresh_append delivery_attempts_def rows_where_Cons new_attempt_def)

lemma new_attempt_sel [simp]: "dt_number (new_attempt k n token now) = n"
  "dt_status (new_attempt k n token now) = AT_IN_PROGRESS" "dt_token (new_attempt k n token now) = token"
  by (simp_all add: new_attempt_def)


subsection \<open>Preservation\<close>

lemma claimed_row_ok:
  "delivery_ok d \<Longrightarrow> dl_attempts d < dl_max d \<Longrightarrow> dl_status d \<noteq> DL_DELIVERED \<Longrightarrow> delivery_ok (claimed_row token lease now d)"
  by (auto simp: delivery_ok_def claim_fields_ok_def claimed_row_def split: option.splits)

text \<open>After a claim every earlier attempt is closed, and the new one is the last.\<close>

lemma no_open_attempt:
  assumes "attempts_ok d (delivery_attempts k ats)" "claim_fields_ok d"
    and "ats' = (case (if dl_status d = DL_CLAIMED then dl_token d else None) of
        None \<Rightarrow> ats | Some t \<Rightarrow> abandon_attempts k t now ats)"
    and "b \<in> set (delivery_attempts k ats')"
  shows "dt_status b \<noteq> AT_IN_PROGRESS"
proof (cases "dl_status d = DL_CLAIMED")
  case True
  with assms(2) obtain t where t: "dl_token d = Some t" by (auto simp: claim_fields_ok_def)
  with assms(1) have "\<forall>a \<in> set (delivery_attempts k ats). dt_status a = AT_IN_PROGRESS \<longrightarrow> dt_token a = t"
    by (auto simp: attempts_ok_def)
  with abandon_closes [OF this, of b now] assms(3,4) True t show ?thesis by simp
next
  case False
  with assms show ?thesis by (auto simp: attempts_ok_def)
qed

lemma claimed_attempts_ok:
  assumes "attempts_ok d (delivery_attempts k ats)" "claim_fields_ok d"
    and ats': "ats' = (case (if dl_status d = DL_CLAIMED then dl_token d else None) of
        None \<Rightarrow> ats | Some t \<Rightarrow> abandon_attempts k t now ats)"
  shows "attempts_ok (claimed_row token lease now d)
    (delivery_attempts k ats' @ [new_attempt k (dl_attempts d + 1) token now])"
proof -
  have "map dt_number (delivery_attempts k ats') = map dt_number (delivery_attempts k ats)"
    unfolding ats' by (cases "if dl_status d = DL_CLAIMED then dl_token d else None") (simp_all only: option.case abandon_number)
  with assms(1) have n: "map dt_number (delivery_attempts k ats') = [1..<Suc (dl_attempts d)]"
    unfolding attempts_ok_def by argo
  have "dt_number b \<le> dl_attempts d" if "b \<in> set (delivery_attempts k ats')" for b
  proof -
    have "dt_number b \<in> set (map dt_number (delivery_attempts k ats'))" using that by simp
    then show ?thesis unfolding n by auto
  qed
  then have "dt_number b \<noteq> Suc (dl_attempts d)" if "b \<in> set (delivery_attempts k ats')" for b using that by fastforce
  with no_open_attempt [OF assms] n show ?thesis
    by (auto simp: attempts_ok_def claimed_row_def)
qed

lemma claim_row_wf:
  assumes wf: "outbox_wf x" and run: "claim_row eligible busy token lease now k x = (y, r)"
    and live: "\<And>d. eligible d now \<Longrightarrow> dl_status d \<noteq> DL_DELIVERED"
  shows "outbox_wf y"
proof (cases r)
  case (Inl e)
  with run wf show ?thesis by (auto dest: claim_row_failed)
next
  case (Inr v)
  with run obtain d ats where d: "row_get (ob_deliveries x) k = Some d" "eligible d now" "dl_attempts d < dl_max d"
    and ats: "ats = (case (if dl_status d = DL_CLAIMED then dl_token d else None) of
        None \<Rightarrow> ob_attempts x | Some t \<Rightarrow> abandon_attempts k t now (ob_attempts x))"
    and y: "ob_deliveries y = row_put k (claimed_row token lease now d) (ob_deliveries x)"
    "ob_attempts y = row_put (fresh_id ats) (new_attempt k (dl_attempts d + 1) token now) ats"
    by (auto elim: claim_row_done)
  note ok = wf_delivery [OF wf d(1)]
  have ids: "row_ids ats = row_ids (ob_attempts x)" by (simp add: ats split: option.splits)
  show ?thesis
  proof (rule wf_one [OF wf y(1)])
    show "distinct (row_ids (ob_attempts y))"
      using wf by (simp add: y(2) ids outbox_wf_def distinct_row_put)
    show "delivery_attempts j (ob_attempts y) = delivery_attempts j (ob_attempts x)" if "j \<noteq> k" for j
      using that by (simp add: y(2) append_attempt ats abandon_other split: option.splits)
    show "delivery_ok (claimed_row token lease now d)" using ok(1) d(3) live [OF d(2)] by (rule claimed_row_ok)
    show "attempts_ok (claimed_row token lease now d) (delivery_attempts k (ob_attempts y))"
      unfolding y(2) append_attempt
      using claimed_attempts_ok [OF ok(2) _ ats] ok(1) by (simp add: delivery_ok_def)
  qed
qed

lemma claim_delivery_wf: "outbox_wf x \<Longrightarrow> claim_delivery busy token lease now k x = (y, r) \<Longrightarrow> outbox_wf y"
  unfolding claim_delivery_def by (erule (1) claim_row_wf) (auto simp: due_eligible_def)

lemma reclaim_wf: "outbox_wf x \<Longrightarrow> reclaim_expired_delivery busy token lease now k x = (y, r) \<Longrightarrow> outbox_wf y"
  unfolding reclaim_expired_delivery_def by (erule (1) claim_row_wf) (auto simp: expired_claim_eligible_def)

text \<open>Closing the one open attempt of a claim.\<close>

lemma closing_sel [simp]: "dt_delivery (closing st code retryable now response a) = dt_delivery a"
  "dt_number (closing st code retryable now response a) = dt_number a"
  "dt_status (closing st code retryable now response a) = st"
  "dt_token (closing st code retryable now response a) = dt_token a"
  by (simp_all add: closing_def)

lemma open_attempt_in:
  assumes "open_attempts k token t = [(i, a)]"
  shows "(i, a) \<in> set t" "dt_delivery a = k" "dt_token a = token" "dt_status a = AT_IN_PROGRESS"
proof -
  have "(i, a) \<in> set (open_attempts k token t)" using assms by simp
  then show "(i, a) \<in> set t" "dt_delivery a = k" "dt_token a = token" "dt_status a = AT_IN_PROGRESS"
    by (auto simp: open_attempts_def set_rows_where)
qed

lemma closing_attempts:
  assumes "distinct (row_ids t)" "(i, a) \<in> set t" "dt_delivery b = dt_delivery a"
  shows "delivery_attempts j (row_put i b t) =
    map (\<lambda>(l, c). if l = i then b else c) (rows_where (\<lambda>i a. dt_delivery a = j) t)"
proof -
  have "i \<in> set (row_ids t)" using assms(2) by (force simp: row_ids_def)
  then have "row_put i b t = update_where (\<lambda>l _. l = i) (\<lambda>_. b) t" using assms(1) by (simp add: row_put_map)
  moreover have "dt_delivery r = dt_delivery a" if "(i, r) \<in> set t" for r
    using row_get_of_in [OF assms(1) assms(2)] row_get_of_in [OF assms(1) that] by simp
  ultimately show ?thesis
    using assms(3)
    by (simp add: delivery_attempts_def update_where_def rows_where_def filter_map comp_def case_prod_unfold)
       (rule map_cong; force intro!: filter_cong)
qed

lemma completing_wf:
  assumes wf: "outbox_wf x" and run: "completing k token st code retryable now response f observed x = (y, r)"
    and st: "st \<noteq> AT_IN_PROGRESS"
    and f: "\<And>d. delivery_ok d \<Longrightarrow> active_claim d token \<Longrightarrow>
      delivery_ok (f d) \<and> dl_status (f d) \<noteq> DL_CLAIMED \<and> dl_attempts (f d) = dl_attempts d"
  shows "outbox_wf y"
proof (cases r)
  case (Inl e)
  with run wf show ?thesis by (auto dest: completing_failed)
next
  case (Inr v)
  with run obtain d i a where d: "row_get (ob_deliveries x) k = Some d" "active_claim d token"
    and o: "open_attempts k token (ob_attempts x) = [(i, a)]"
    and y: "ob_deliveries y = row_put k (f d) (ob_deliveries x)"
    "ob_attempts y = row_put i (closing st code retryable now response a) (ob_attempts x)"
    by (auto elim: completing_done)
  note ok = wf_delivery [OF wf d(1)]
  note fd = f [OF ok(1) d(2)]
  note a = open_attempt_in [OF o]
  have dist: "distinct (row_ids (ob_attempts x))" using wf by (simp add: outbox_wf_def)
  have c: "delivery_attempts j (ob_attempts y) = map (\<lambda>(l, c). if l = i then closing st code retryable now response a else c)
      (rows_where (\<lambda>i a. dt_delivery a = j) (ob_attempts x))" for j
    unfolding y(2) by (rule closing_attempts [OF dist a(1)]) simp
  have same: "c = a" if "(i, c) \<in> set (ob_attempts x)" for c
    using row_get_of_in [OF dist a(1)] row_get_of_in [OF dist that] by simp
  show ?thesis
  proof (rule wf_one [OF wf y(1)])
    show "distinct (row_ids (ob_attempts y))" unfolding y(2) using dist by (rule distinct_row_put)
    show "delivery_attempts j (ob_attempts y) = delivery_attempts j (ob_attempts x)" if "j \<noteq> k" for j
    proof -
      have "l \<noteq> i" if "(l, c) \<in> set (ob_attempts x)" "dt_delivery c = j" for l c
        using same that a(2) \<open>j \<noteq> k\<close> by blast
      then show ?thesis unfolding c unfolding delivery_attempts_def
        by (intro map_cong) (auto simp: set_rows_where)
    qed
    show "delivery_ok (f d)" using fd by simp
    have inner: "dt_number (if l = i then closing st code retryable now response a else c) = dt_number c"
      if "(l, c) \<in> set (ob_attempts x)" for l c
      using same that by auto
    have "map dt_number (delivery_attempts k (ob_attempts y)) = map dt_number (delivery_attempts k (ob_attempts x))"
      unfolding c unfolding delivery_attempts_def list.map_comp comp_def
      by (rule map_cong) (auto simp: set_rows_where case_prod_unfold inner)
    moreover have "dt_status b \<noteq> AT_IN_PROGRESS" if b: "b \<in> set (delivery_attempts k (ob_attempts y))" for b
    proof -
      obtain p where p: "p \<in> set (rows_where (\<lambda>i a. dt_delivery a = k) (ob_attempts x))"
        "b = (case p of (l, c) \<Rightarrow> if l = i then closing st code retryable now response a else c)"
        using b unfolding c set_map by blast
      obtain l e where le: "p = (l, e)" by fastforce
      with p have e: "(l, e) \<in> set (ob_attempts x)" "dt_delivery e = k"
        "b = (if l = i then closing st code retryable now response a else e)"
        by (auto simp: set_rows_where)
      show ?thesis
      proof (cases "l = i")
        case True
        with e st show ?thesis by simp
      next
        case False
        have "(l, e) \<notin> set (open_attempts k token (ob_attempts x))" using False by (simp add: o)
        with e(1,2) have "dt_token e = token \<longrightarrow> dt_status e \<noteq> AT_IN_PROGRESS"
          by (auto simp: open_attempts_def set_rows_where)
        moreover have "e \<in> set (delivery_attempts k (ob_attempts x))" using e(1,2) by (auto simp: in_delivery_attempts)
        ultimately show ?thesis using ok(2) d(2) e(3) False by (auto simp: attempts_ok_def active_claim_def)
      qed
    qed
    ultimately show "attempts_ok (f d) (delivery_attempts k (ob_attempts y))"
      using ok(2) fd by (auto simp: attempts_ok_def)
  qed
qed

lemma complete_success_wf:
  "outbox_wf x \<Longrightarrow> complete_delivery_success now response k token x = (y, r) \<Longrightarrow> outbox_wf y"
  unfolding complete_delivery_success_def
  by (erule (1) completing_wf)
    (auto simp: delivery_ok_def claim_fields_ok_def unclaimed_def active_claim_def)

lemma complete_failure_wf:
  "outbox_wf x \<Longrightarrow> complete_delivery_failure base cap code retryable delay now response k token x = (y, r) \<Longrightarrow> outbox_wf y"
  unfolding complete_delivery_failure_def
  by (erule (1) completing_wf)
    (auto simp: delivery_ok_def claim_fields_ok_def unclaimed_def active_claim_def failed_row_def Let_def)

subsection \<open>Creation and redrive\<close>

lemma wf_add:
  assumes wf: "outbox_wf x" and k: "k \<notin> set (row_ids (ob_deliveries x))"
    and y: "ob_deliveries y = row_put k d (ob_deliveries x)" "ob_attempts y = ob_attempts x"
    and d: "delivery_ok d" "dl_attempts d = 0"
  shows "outbox_wf y"
proof (rule wf_one [OF wf y(1)])
  show "distinct (row_ids (ob_attempts y))" using wf by (simp add: y outbox_wf_def)
  have "delivery_attempts k (ob_attempts x) = []"
    using wf k by (force simp: outbox_wf_def delivery_attempts_def rows_where_def filter_empty_conv)
  then show "attempts_ok d (delivery_attempts k (ob_attempts y))" using d by (simp add: y attempts_ok_def)
qed (simp_all add: y d)

definition new_delivery :: "int \<Rightarrow> nat \<Rightarrow> string \<Rightarrow> nat \<Rightarrow> int \<Rightarrow> delivery" where
  "new_delivery now ws channel mx created =
    \<lparr>dl_workspace = ws, dl_channel = channel, dl_status = DL_PENDING, dl_attempts = 0, dl_max = mx, dl_next_at = now,
     dl_claimed_at = None, dl_lease = None, dl_token = None, dl_first_at = None, dl_delivered_at = None,
     dl_failed_at = None, dl_error = [], dl_created_at = created\<rparr>"

lemma create_delivery_done:
  assumes "create_delivery dflt now ws channel mx created x = (y, Inr k)"
  obtains n where "0 < n" "k = fresh_id (ob_deliveries x)" "n = nat (case mx of None \<Rightarrow> dflt | Some m \<Rightarrow> m)"
    "ob_deliveries y = row_put k (new_delivery now ws channel n created) (ob_deliveries x)"
    "ob_attempts y = ob_attempts x"
proof -
  define m where "m = (case mx of None \<Rightarrow> dflt | Some m \<Rightarrow> m)"
  have c: "fits 20 channel" "\<not> m \<le> 0"
    using assms by (auto simp: create_delivery_def Let_def atomic_ok_iff m_def [symmetric] split: if_splits)
  have a: "k = fresh_id (ob_deliveries x) \<and>
      ob_deliveries y = row_put k (new_delivery now ws channel (nat m) created) (ob_deliveries x) \<and>
      ob_attempts y = ob_attempts x"
    using assms c by (auto simp: create_delivery_def Let_def atomic_ok_iff m_def [symmetric] new_delivery_def)
  show ?thesis by (rule that [of "nat m"]) (use a c m_def in auto)
qed

lemma create_delivery_failed: "create_delivery dflt now ws channel mx created x = (y, Inl e) \<Longrightarrow> y = x"
  unfolding create_delivery_def by (rule atomic_error_rolls_back)

lemma new_delivery_ok: "0 < n \<Longrightarrow> delivery_ok (new_delivery now ws channel n created)"
  by (simp add: new_delivery_def delivery_ok_def claim_fields_ok_def)

lemma create_delivery_wf:
  assumes "outbox_wf x" "create_delivery dflt now ws channel mx created x = (y, r)"
  shows "outbox_wf y"
proof (cases r)
  case (Inl e)
  with assms show ?thesis by (auto dest: create_delivery_failed)
next
  case (Inr k)
  with assms(2) obtain n where "0 < n" "k = fresh_id (ob_deliveries x)"
    "ob_deliveries y = row_put k (new_delivery now ws channel n created) (ob_deliveries x)"
    "ob_attempts y = ob_attempts x"
    by (auto elim: create_delivery_done)
  then show ?thesis
    by (intro wf_add [OF assms(1), of k y "new_delivery now ws channel n created"] new_delivery_ok)
       (simp_all add: new_delivery_def)
qed

lemma redrive_done:
  assumes run: "redrive_webhook_delivery allowance now ws link actor request_id x = (y, Inr u)"
  obtains d where "row_get (ob_deliveries x) (wl_delivery link) = Some d" "redrivable d"
    "\<not> int (dl_attempts d) > int (dl_max d) + allowance" "\<not> int (dl_max d) + allowance \<le> 0"
    "ob_deliveries y = row_put (wl_delivery link) (redriven allowance now d) (ob_deliveries x)"
    "ob_attempts y = ob_attempts x"
proof -
  obtain e where e: "row_get (ob_endpoints x) (wl_endpoint link) = Some e" "ep_status e = EP_ACTIVE"
    using run by (auto simp: redrive_webhook_delivery_def split: option.splits if_splits)
  obtain d where d: "row_get (ob_deliveries x) (wl_delivery link) = Some d"
    using run e by (auto simp: redrive_webhook_delivery_def split: option.splits)
  have c: "redrivable d" "\<not> int (dl_attempts d) > int (dl_max d) + allowance" "\<not> int (dl_max d) + allowance \<le> 0"
    using run e d by (auto simp: redrive_webhook_delivery_def split: if_splits)
  have "ob_deliveries y = row_put (wl_delivery link) (redriven allowance now d) (ob_deliveries x) \<and>
    ob_attempts y = ob_attempts x"
    using run e d c by (auto simp: redrive_webhook_delivery_def)
  with d c that show ?thesis by blast
qed

lemma redrive_failed:
  assumes "redrive_webhook_delivery allowance now ws link actor request_id x = (y, Inl e)"
  shows "y = x"
  using assms
  by (cases "row_get (ob_endpoints x) (wl_endpoint link)"; cases "row_get (ob_deliveries x) (wl_delivery link)")
     (auto simp: redrive_webhook_delivery_def split: if_splits)

lemma redrive_wf:
  assumes wf: "outbox_wf x" and run: "redrive_webhook_delivery allowance now ws link actor request_id x = (y, r)"
  shows "outbox_wf y"
proof (cases r)
  case (Inl e)
  with run have "y = x" by (simp add: redrive_failed)
  with wf show ?thesis by simp
next
  case (Inr u)
  with run obtain d where d: "row_get (ob_deliveries x) (wl_delivery link) = Some d" "redrivable d"
    "\<not> int (dl_attempts d) > int (dl_max d) + allowance" "\<not> int (dl_max d) + allowance \<le> 0"
    and y: "ob_deliveries y = row_put (wl_delivery link) (redriven allowance now d) (ob_deliveries x)"
    "ob_attempts y = ob_attempts x"
    by (auto elim: redrive_done)
  note ok = wf_delivery [OF wf d(1)]
  show ?thesis
  proof (rule wf_one [OF wf y(1)])
    show "distinct (row_ids (ob_attempts y))" using wf by (simp add: y outbox_wf_def)
    show "delivery_ok (redriven allowance now d)"
      using ok(1) d by (auto simp: delivery_ok_def claim_fields_ok_def redriven_def redrivable_def)
    show "attempts_ok (redriven allowance now d) (delivery_attempts (wl_delivery link) (ob_attempts y))"
      using ok(2) d(2) by (auto simp: y attempts_ok_def redriven_def redrivable_def)
  qed (simp add: y)
qed

end
