(* ===== verification/DeliveryProperties.thy ===== *)
theory DeliveryProperties
  imports DeliveryInvariants
begin

section \<open>The delivery lifecycle against its contract\<close>

text \<open>
  The contract of the delivery tables is a table of jobs: a job waits, is held under a token, is delivered or
  is given up, and carries the number of attempts made and left. Every service that writes a delivery is one
  step of it on the state \<open>jobs\<close> abstracts, and what the contract gives (a delivered job is final, a token
  that is not held completes nothing) is carried over to any sequence of services.
\<close>

subsection \<open>The operations\<close>

record delivery_settings =
  ds_base :: int
  ds_cap :: int
  ds_default_max :: int
  ds_allowance :: int

datatype outbox_op =
    Op_create int nat string "int option" int
  | Op_claim bool nat int int nat
  | Op_reclaim bool nat int int nat
  | Op_succeed int "int option" nat nat
  | Op_fail string bool "int option" int "int option" nat nat
  | Op_redrive int nat webhook_link nat "string option"

fun run_op :: "delivery_settings \<Rightarrow> outbox_op \<Rightarrow> outbox \<Rightarrow> outbox" where
  "run_op s (Op_create now ws channel mx created) x = fst (create_delivery (ds_default_max s) now ws channel mx created x)"
| "run_op s (Op_claim busy token lease now k) x = fst (claim_delivery busy token lease now k x)"
| "run_op s (Op_reclaim busy token lease now k) x = fst (reclaim_expired_delivery busy token lease now k x)"
| "run_op s (Op_succeed now response k token) x = fst (complete_delivery_success now response k token x)"
| "run_op s (Op_fail code retryable delay now response k token) x =
    fst (complete_delivery_failure (ds_base s) (ds_cap s) code retryable delay now response k token x)"
| "run_op s (Op_redrive now ws link actor request_id) x =
    fst (redrive_webhook_delivery (ds_allowance s) now ws link actor request_id x)"

definition run_ops :: "delivery_settings \<Rightarrow> outbox_op list \<Rightarrow> outbox \<Rightarrow> outbox" where
  "run_ops s ops x = fold (run_op s) ops x"

lemma run_ops_simps [simp]: "run_ops s [] x = x" "run_ops s (op # ops) x = run_ops s ops (run_op s op x)"
  by (simp_all add: run_ops_def)

lemma run_op_wf: "outbox_wf x \<Longrightarrow> outbox_wf (run_op s op x)"
  by (cases op)
    (auto intro: create_delivery_wf claim_delivery_wf reclaim_wf complete_success_wf complete_failure_wf redrive_wf
      surjective_pairing)

lemma run_ops_wf: "outbox_wf x \<Longrightarrow> outbox_wf (run_ops s ops x)"
  by (induction ops arbitrary: x) (simp_all add: run_op_wf)

subsection \<open>A guard that holds is enough\<close>

lemma claim_row_succeeds:
  assumes wf: "outbox_wf x" and d: "row_get (ob_deliveries x) k = Some d" "eligible d now" "dl_attempts d < dl_max d"
  shows "\<exists>y. claim_row eligible False token lease now k x = (y, Inr (claimed_row token lease now d, token))"
proof -
  define ats where "ats = (case (if dl_status d = DL_CLAIMED then dl_token d else None) of
        None \<Rightarrow> ob_attempts x | Some t \<Rightarrow> abandon_attempts k t now (ob_attempts x))"
  have ok: "attempts_ok d (delivery_attempts k (ob_attempts x))" "claim_fields_ok d"
    using wf_delivery [OF wf d(1)] by (auto simp: delivery_ok_def)
  have new: "attempts_ok (claimed_row token lease now d)
    (delivery_attempts k ats @ [new_attempt k (dl_attempts d + 1) token now])"
    by (rule claimed_attempts_ok [OF ok ats_def])
  then have "distinct (map dt_number (delivery_attempts k ats @ [new_attempt k (dl_attempts d + 1) token now]))"
    unfolding attempts_ok_def by (metis distinct_upt)
  then have n: "\<forall>a \<in> set (delivery_attempts k ats). dl_attempts d + 1 \<noteq> dt_number a" by auto
  have "dt_number a \<noteq> dl_attempts d + 1" if "(i, a) \<in> set ats" "dt_delivery a = k" for i a
  proof -
    have "a \<in> set (delivery_attempts k ats)" using that in_delivery_attempts [of a k ats] by blast
    with n have "dl_attempts d + 1 \<noteq> dt_number a" by (rule bspec)
    then show ?thesis by (rule not_sym)
  qed
  then have "\<not> (\<exists>(i, a) \<in> set ats. dt_delivery a = k \<and> dt_number a = dl_attempts d + 1)" by blast
  then show ?thesis
    using d by (simp add: claim_row_def atomic_def Let_def ats_def [symmetric] claimed_row_def)
qed

lemma last_attempt_open:
  assumes "attempts_ok d (map snd rs)" "active_claim d token" "0 < dl_attempts d"
  shows "\<exists>i a. filter (\<lambda>(i, a). dt_token a = token \<and> dt_status a = AT_IN_PROGRESS) rs = [(i, a)]"
proof -
  have n: "map (\<lambda>r. dt_number (snd r)) rs = [1..<dl_attempts d] @ [dl_attempts d]"
    using assms(1,3) by (simp add: attempts_ok_def comp_def)
  then obtain rs0 r where rs: "rs = rs0 @ [r]" "map (\<lambda>r. dt_number (snd r)) rs0 = [1..<dl_attempts d]"
    "dt_number (snd r) = dl_attempts d"
    by (auto simp: map_eq_append_conv)
  have "dt_status (snd q) \<noteq> AT_IN_PROGRESS" if q: "q \<in> set rs0" for q
  proof -
    have "dt_number (snd q) \<in> set (map (\<lambda>r. dt_number (snd r)) rs0)" using q by simp
    then have "dt_number (snd q) < dl_attempts d" unfolding rs(2) by auto
    with assms(1) q rs(1) show ?thesis by (auto simp: attempts_ok_def)
  qed
  moreover have "dt_status (snd r) = AT_IN_PROGRESS" "dt_token (snd r) = token"
    using assms(1,2) rs by (auto simp: attempts_ok_def active_claim_def)
  ultimately have "filter (\<lambda>(i, a). dt_token a = token \<and> dt_status a = AT_IN_PROGRESS) rs = [r]"
    by (simp add: rs(1) case_prod_unfold)
  then show ?thesis by (cases r) auto
qed

lemma one_open_attempt:
  assumes wf: "outbox_wf x" and d: "row_get (ob_deliveries x) k = Some d" "active_claim d token"
  shows "\<exists>i a. open_attempts k token (ob_attempts x) = [(i, a)]"
proof -
  have "open_attempts k token (ob_attempts x) =
    filter (\<lambda>(i, a). dt_token a = token \<and> dt_status a = AT_IN_PROGRESS) (rows_where (\<lambda>i a. dt_delivery a = k) (ob_attempts x))"
    by (auto simp: open_attempts_def rows_where_def intro: filter_cong)
  moreover have "attempts_ok d (map snd (rows_where (\<lambda>i a. dt_delivery a = k) (ob_attempts x)))"
    using wf_delivery [OF wf d(1)] by (simp add: delivery_attempts_def)
  moreover have "0 < dl_attempts d"
    using wf_delivery [OF wf d(1)] d(2) by (simp add: delivery_ok_def active_claim_def)
  ultimately show ?thesis using last_attempt_open [OF _ d(2)] by simp
qed

lemma completing_succeeds:
  assumes wf: "outbox_wf x" and d: "row_get (ob_deliveries x) k = Some d" "active_claim d token"
  shows "\<exists>y. completing k token st code retryable now response f observed x = (y, Inr (f d))"
proof -
  obtain i a where "open_attempts k token (ob_attempts x) = [(i, a)]" using one_open_attempt [OF assms] by blast
  then show ?thesis using d by (simp add: completing_def atomic_def complete_active_attempt_def)
qed

subsection \<open>The contract\<close>

datatype job =
    Waiting nat nat int
  | Held nat nat nat int
  | Delivered
  | Given_up nat nat

datatype job_op =
    Skip
  | Add nat nat int
  | Take nat nat int int
  | Retake nat nat int int
  | Finish nat nat
  | Fail nat nat bool "nat \<Rightarrow> int"
  | Reopen nat int int

type_synonym jobs = "nat \<Rightarrow> job option"

fun job_step :: "job_op \<Rightarrow> jobs \<Rightarrow> jobs" where
  "job_step Skip J = J"
| "job_step (Add k n due) J = J(k \<mapsto> Waiting 0 n due)"
| "job_step (Take k t expiry now) J =
    (case J k of Some (Waiting tries (Suc n) due) \<Rightarrow> if due \<le> now then J(k \<mapsto> Held t (Suc tries) n expiry) else J | _ \<Rightarrow> J)"
| "job_step (Retake k t expiry now) J =
    (case J k of Some (Held t' tries (Suc n) e) \<Rightarrow> if e \<le> now then J(k \<mapsto> Held t (Suc tries) n expiry) else J | _ \<Rightarrow> J)"
| "job_step (Finish k t) J =
    (case J k of Some (Held t' tries n e) \<Rightarrow> if t' = t then J(k \<mapsto> Delivered) else J | _ \<Rightarrow> J)"
| "job_step (Fail k t retry due) J =
    (case J k of Some (Held t' tries n e) \<Rightarrow>
       if t' = t then J(k \<mapsto> (if retry \<and> 0 < n then Waiting tries n (due tries) else Given_up tries n)) else J | _ \<Rightarrow> J)"
| "job_step (Reopen k extra now) J =
    (case J k of Some (Given_up tries n) \<Rightarrow>
       if 0 \<le> int n + extra then J(k \<mapsto> Waiting tries (nat (int n + extra)) now) else J | _ \<Rightarrow> J)"

definition job_of :: "delivery \<Rightarrow> job" where
  "job_of d = (let left = dl_max d - dl_attempts d in
    case dl_status d of
      DL_CLAIMED \<Rightarrow> Held (the (dl_token d)) (dl_attempts d) left (the (dl_lease d))
    | DL_DELIVERED \<Rightarrow> Delivered
    | DL_FAILED \<Rightarrow> Given_up (dl_attempts d) left
    | DL_DEAD \<Rightarrow> Given_up (dl_attempts d) left
    | _ \<Rightarrow> Waiting (dl_attempts d) left (dl_next_at d))"

definition jobs_of :: "outbox \<Rightarrow> jobs" where
  "jobs_of x k = map_option job_of (row_get (ob_deliveries x) k)"

text \<open>The step each service is, with what it reads outside the job resolved.\<close>

fun job_op_of :: "delivery_settings \<Rightarrow> outbox \<Rightarrow> outbox_op \<Rightarrow> job_op" where
  "job_op_of s x (Op_create now ws channel mx created) =
    (let n = (case mx of None \<Rightarrow> ds_default_max s | Some m \<Rightarrow> m) in
     if fits 20 channel \<and> 0 < n then Add (fresh_id (ob_deliveries x)) (nat n) now else Skip)"
| "job_op_of s x (Op_claim busy t lease now k) = (if busy then Skip else Take k t (now + seconds lease) now)"
| "job_op_of s x (Op_reclaim busy t lease now k) = (if busy then Skip else Retake k t (now + seconds lease) now)"
| "job_op_of s x (Op_succeed now response k t) = Finish k t"
| "job_op_of s x (Op_fail code retryable delay now response k t) = Fail k t retryable
    (\<lambda>tries. now + seconds (case delay of None \<Rightarrow> compute_retry_delay_seconds (ds_base s) (ds_cap s) tries | Some d \<Rightarrow> d))"
| "job_op_of s x (Op_redrive now ws link actor request_id) =
    (case row_get (ob_endpoints x) (wl_endpoint link) of
       Some e \<Rightarrow> if ep_status e = EP_ACTIVE then Reopen (wl_delivery link) (ds_allowance s) now else Skip
     | None \<Rightarrow> Skip)"

lemma jobs_of_put: "ob_deliveries y = row_put k d (ob_deliveries x) \<Longrightarrow> jobs_of y = (jobs_of x)(k \<mapsto> job_of d)"
  by (auto simp: jobs_of_def)

lemma jobs_of_get: "row_get (ob_deliveries x) k = Some d \<Longrightarrow> jobs_of x k = Some (job_of d)"
  by (simp add: jobs_of_def)

lemma jobs_of_none: "row_get (ob_deliveries x) k = None \<Longrightarrow> jobs_of x k = None"
  by (simp add: jobs_of_def)

lemma claim_row_fst:
  assumes wf: "outbox_wf x"
  shows "fst (claim_row eligible busy token lease now k x) = x \<and>
      (\<forall>d. \<not> busy \<and> row_get (ob_deliveries x) k = Some d \<longrightarrow> \<not> (eligible d now \<and> dl_attempts d < dl_max d))
    \<or> (\<exists>d. \<not> busy \<and> row_get (ob_deliveries x) k = Some d \<and> eligible d now \<and> dl_attempts d < dl_max d \<and>
        ob_deliveries (fst (claim_row eligible busy token lease now k x)) =
          row_put k (claimed_row token lease now d) (ob_deliveries x))"
proof -
  obtain y r where run: "claim_row eligible busy token lease now k x = (y, r)" by fastforce
  show ?thesis
  proof (cases r)
    case (Inl e)
    have "\<not> (eligible d now \<and> dl_attempts d < dl_max d)" if "\<not> busy" "row_get (ob_deliveries x) k = Some d" for d
      using claim_row_succeeds [OF wf that(2), of eligible now token lease] run that(1) Inl by auto
    with run Inl show ?thesis by (auto dest: claim_row_failed)
  next
    case (Inr v)
    with run show ?thesis by (auto elim: claim_row_done)
  qed
qed

lemma job_of_claimed: "dl_attempts d < dl_max d \<Longrightarrow>
    job_of (claimed_row token lease now d) = Held token (Suc (dl_attempts d)) (dl_max d - Suc (dl_attempts d)) (now + seconds lease)"
  by (simp add: job_of_def claimed_row_def)

lemma claim_refines:
  assumes wf: "outbox_wf x"
  shows "jobs_of (fst (claim_delivery False t lease now k x)) = job_step (Take k t (now + seconds lease) now) (jobs_of x)"
proof (cases "row_get (ob_deliveries x) k")
  case None
  with claim_row_fst [OF wf, of due_eligible False t lease now k] show ?thesis
    by (simp add: claim_delivery_def jobs_of_none)
next
  case (Some d)
  show ?thesis
  proof (cases "due_eligible d now \<and> dl_attempts d < dl_max d")
    case True
    with Some claim_row_fst [OF wf, of due_eligible False t lease now k]
    have "jobs_of (fst (claim_delivery False t lease now k x)) = (jobs_of x)(k \<mapsto> job_of (claimed_row t lease now d))"
      by (auto simp: claim_delivery_def intro: jobs_of_put)
    moreover have "jobs_of x k = Some (Waiting (dl_attempts d) (Suc (dl_max d - Suc (dl_attempts d))) (dl_next_at d))"
      using True Some by (auto simp: jobs_of_get job_of_def due_eligible_def)
    ultimately show ?thesis using True by (simp add: job_of_claimed due_eligible_def)
  next
    case False
    with Some claim_row_fst [OF wf, of due_eligible False t lease now k]
    have "fst (claim_delivery False t lease now k x) = x" by (auto simp: claim_delivery_def)
    moreover have "job_step (Take k t (now + seconds lease) now) (jobs_of x) = jobs_of x"
      using False Some by (auto simp: jobs_of_get job_of_def due_eligible_def Let_def split: delivery_status.splits nat.splits)
    ultimately show ?thesis by simp
  qed
qed

lemma reclaim_refines:
  assumes wf: "outbox_wf x"
  shows "jobs_of (fst (reclaim_expired_delivery False t lease now k x)) =
    job_step (Retake k t (now + seconds lease) now) (jobs_of x)"
proof (cases "row_get (ob_deliveries x) k")
  case None
  with claim_row_fst [OF wf, of expired_claim_eligible False t lease now k] show ?thesis
    by (simp add: reclaim_expired_delivery_def jobs_of_none)
next
  case (Some d)
  have lease: "dl_status d = DL_CLAIMED \<Longrightarrow> \<exists>l. dl_lease d = Some l"
    using wf_delivery [OF wf Some] by (auto simp: delivery_ok_def claim_fields_ok_def)
  show ?thesis
  proof (cases "expired_claim_eligible d now \<and> dl_attempts d < dl_max d")
    case True
    with Some claim_row_fst [OF wf, of expired_claim_eligible False t lease now k]
    have "jobs_of (fst (reclaim_expired_delivery False t lease now k x)) = (jobs_of x)(k \<mapsto> job_of (claimed_row t lease now d))"
      by (auto simp: reclaim_expired_delivery_def intro: jobs_of_put)
    moreover have "jobs_of x k =
        Some (Held (the (dl_token d)) (dl_attempts d) (Suc (dl_max d - Suc (dl_attempts d))) (the (dl_lease d)))"
      using True Some by (auto simp: jobs_of_get job_of_def expired_claim_eligible_def)
    ultimately show ?thesis using True by (auto simp: job_of_claimed expired_claim_eligible_def split: option.splits)
  next
    case False
    with Some claim_row_fst [OF wf, of expired_claim_eligible False t lease now k]
    have "fst (reclaim_expired_delivery False t lease now k x) = x" by (auto simp: reclaim_expired_delivery_def)
    moreover have "job_step (Retake k t (now + seconds lease) now) (jobs_of x) = jobs_of x"
      using False Some lease
      by (auto simp: jobs_of_get job_of_def expired_claim_eligible_def Let_def split: delivery_status.splits nat.splits)
    ultimately show ?thesis by simp
  qed
qed

lemma completing_fst:
  assumes wf: "outbox_wf x"
  shows "fst (completing k token st code retryable now response f observed x) = x \<and>
      (\<forall>d. row_get (ob_deliveries x) k = Some d \<longrightarrow> \<not> active_claim d token)
    \<or> (\<exists>d. row_get (ob_deliveries x) k = Some d \<and> active_claim d token \<and>
        ob_deliveries (fst (completing k token st code retryable now response f observed x)) =
          row_put k (f d) (ob_deliveries x))"
proof -
  obtain y r where run: "completing k token st code retryable now response f observed x = (y, r)" by fastforce
  show ?thesis
  proof (cases r)
    case (Inl e)
    have "\<not> active_claim d token" if "row_get (ob_deliveries x) k = Some d" for d
      using completing_succeeds [OF wf that, of token st code retryable now response f observed] run Inl by auto
    with run Inl show ?thesis by (auto dest: completing_failed)
  next
    case (Inr v)
    with run show ?thesis by (auto elim: completing_done)
  qed
qed

lemma job_not_held: "claim_fields_ok d \<Longrightarrow> \<not> active_claim d token \<Longrightarrow> job_of d \<noteq> Held token m n e"
  by (auto simp: job_of_def active_claim_def claim_fields_ok_def Let_def split: delivery_status.splits)

lemma job_held: "active_claim d token \<Longrightarrow>
    job_of d = Held token (dl_attempts d) (dl_max d - dl_attempts d) (the (dl_lease d))"
  by (simp add: job_of_def active_claim_def)

lemma finish_refines:
  assumes wf: "outbox_wf x"
  shows "jobs_of (fst (complete_delivery_success now response k t x)) = job_step (Finish k t) (jobs_of x)"
proof (cases "\<exists>d. row_get (ob_deliveries x) k = Some d \<and> active_claim d t")
  case True
  then obtain d where d: "row_get (ob_deliveries x) k = Some d" "active_claim d t" by blast
  let ?f = "\<lambda>d. (unclaimed d)\<lparr>dl_status := DL_DELIVERED, dl_delivered_at := Some now\<rparr>"
  have "ob_deliveries (fst (complete_delivery_success now response k t x)) = row_put k (?f d) (ob_deliveries x)"
    using completing_fst [OF wf, of k t] d unfolding complete_delivery_success_def by fastforce
  from jobs_of_put [OF this] d show ?thesis
    by (simp add: jobs_of_get job_held) (simp add: job_of_def)
next
  case False
  then have "fst (complete_delivery_success now response k t x) = x"
    using completing_fst [OF wf, of k t] unfolding complete_delivery_success_def by fastforce
  moreover have "jobs_of x k \<noteq> Some (Held t m n e)" for m n e
    using False wf_delivery(1) [OF wf] job_not_held by (fastforce simp: jobs_of_def delivery_ok_def)
  ultimately show ?thesis by (auto split: option.splits job.splits)
qed

lemma fail_refines:
  assumes wf: "outbox_wf x"
  shows "jobs_of (fst (complete_delivery_failure base cap code retryable delay now response k t x)) =
    job_step (Fail k t retryable (\<lambda>tries. now + seconds
      (case delay of None \<Rightarrow> compute_retry_delay_seconds base cap tries | Some d \<Rightarrow> d))) (jobs_of x)"
proof (cases "\<exists>d. row_get (ob_deliveries x) k = Some d \<and> active_claim d t")
  case True
  then obtain d where d: "row_get (ob_deliveries x) k = Some d" "active_claim d t" by blast
  have "ob_deliveries (fst (complete_delivery_failure base cap code retryable delay now response k t x)) =
      row_put k (failed_row base cap code retryable delay now d) (ob_deliveries x)"
    using completing_fst [OF wf, of k t] d unfolding complete_delivery_failure_def by fastforce
  from jobs_of_put [OF this] d show ?thesis
    by (simp add: jobs_of_get job_held) (simp add: job_of_def failed_row_def unclaimed_def)
next
  case False
  then have "fst (complete_delivery_failure base cap code retryable delay now response k t x) = x"
    using completing_fst [OF wf, of k t] unfolding complete_delivery_failure_def by fastforce
  moreover have "jobs_of x k \<noteq> Some (Held t m n e)" for m n e
    using False wf_delivery(1) [OF wf] job_not_held by (fastforce simp: jobs_of_def delivery_ok_def)
  ultimately show ?thesis by (auto split: option.splits job.splits)
qed

lemma create_refines:
  "jobs_of (fst (create_delivery (ds_default_max s) now ws channel mx created x)) =
    job_step (job_op_of s x (Op_create now ws channel mx created)) (jobs_of x)"
proof (cases "fits 20 channel \<and> 0 < (case mx of None \<Rightarrow> ds_default_max s | Some m \<Rightarrow> m)")
  case True
  then have "ob_deliveries (fst (create_delivery (ds_default_max s) now ws channel mx created x)) =
    row_put (fresh_id (ob_deliveries x))
      (new_delivery now ws channel (nat (case mx of None \<Rightarrow> ds_default_max s | Some m \<Rightarrow> m)) created) (ob_deliveries x)"
    by (simp add: create_delivery_def atomic_def Let_def new_delivery_def)
  from jobs_of_put [OF this] True show ?thesis by (simp add: Let_def job_of_def new_delivery_def)
next
  case False
  then show ?thesis by (auto simp: create_delivery_def atomic_def Let_def)
qed

lemma redrive_refines:
  assumes wf: "outbox_wf x"
  shows "jobs_of (fst (redrive_webhook_delivery (ds_allowance s) now ws link actor request_id x)) =
    job_step (job_op_of s x (Op_redrive now ws link actor request_id)) (jobs_of x)"
proof (cases "\<exists>e. row_get (ob_endpoints x) (wl_endpoint link) = Some e \<and> ep_status e = EP_ACTIVE")
  case True
  then obtain e where e: "row_get (ob_endpoints x) (wl_endpoint link) = Some e" "ep_status e = EP_ACTIVE" by blast
  show ?thesis
  proof (cases "row_get (ob_deliveries x) (wl_delivery link)")
    case None
    with e show ?thesis by (simp add: redrive_webhook_delivery_def jobs_of_none)
  next
    case (Some d)
    have ok: "dl_attempts d \<le> dl_max d" "redrivable d \<Longrightarrow> 0 < dl_attempts d"
      using wf_delivery(1) [OF wf Some] by (auto simp: delivery_ok_def redrivable_def)
    show ?thesis
    proof (cases "redrivable d \<and> 0 \<le> int (dl_max d - dl_attempts d) + ds_allowance s")
      case True
      then have g: "\<not> (int (dl_max d) + ds_allowance s \<le> 0 \<or> int (dl_attempts d) > int (dl_max d) + ds_allowance s)"
        using ok by auto
      have "ob_deliveries (fst (redrive_webhook_delivery (ds_allowance s) now ws link actor request_id x)) =
          row_put (wl_delivery link) (redriven (ds_allowance s) now d) (ob_deliveries x)"
        using e Some True g by (simp add: redrive_webhook_delivery_def)
      from jobs_of_put [OF this] True e Some ok show ?thesis
        by (auto simp: jobs_of_get job_of_def redriven_def redrivable_def nat_diff_distrib' of_nat_diff algebra_simps)
    next
      case False
      then have "fst (redrive_webhook_delivery (ds_allowance s) now ws link actor request_id x) = x"
        using e Some ok by (auto simp: redrive_webhook_delivery_def)
      moreover have "job_step (Reopen (wl_delivery link) (ds_allowance s) now) (jobs_of x) = jobs_of x"
        using False Some by (auto simp: jobs_of_get job_of_def redrivable_def Let_def split: delivery_status.splits)
      ultimately show ?thesis using e by simp
    qed
  qed
next
  case False
  then have "fst (redrive_webhook_delivery (ds_allowance s) now ws link actor request_id x) = x"
    by (auto simp: redrive_webhook_delivery_def split: option.splits)
  with False show ?thesis by (auto split: option.splits)
qed

lemma run_op_refines: "outbox_wf x \<Longrightarrow> jobs_of (run_op s op x) = job_step (job_op_of s x op) (jobs_of x)"
proof (cases op)
  case (Op_claim busy token lease now k)
  then show "outbox_wf x \<Longrightarrow> jobs_of (run_op s op x) = job_step (job_op_of s x op) (jobs_of x)"
    by (cases busy) (simp_all add: claim_refines, simp add: claim_delivery_def claim_row_def atomic_def)
next
  case (Op_reclaim busy token lease now k)
  then show "outbox_wf x \<Longrightarrow> jobs_of (run_op s op x) = job_step (job_op_of s x op) (jobs_of x)"
    by (cases busy) (simp_all add: reclaim_refines, simp add: reclaim_expired_delivery_def claim_row_def atomic_def)
qed (simp_all add: create_refines finish_refines fail_refines redrive_refines del: job_step.simps job_op_of.simps,
     simp_all only: job_op_of.simps)

subsection \<open>What the contract gives\<close>

definition holds :: "jobs \<Rightarrow> nat \<Rightarrow> nat \<Rightarrow> bool" where
  "holds J k t \<longleftrightarrow> (\<exists>tries n e. J k = Some (Held t tries n e))"

fun grants :: "nat \<Rightarrow> job_op \<Rightarrow> bool" where
  "grants t (Take k t' e now) = (t' = t)"
| "grants t (Retake k t' e now) = (t' = t)"
| "grants t _ = False"

lemma job_step_not_held: "\<not> holds J k t \<Longrightarrow> \<not> grants t op \<Longrightarrow> \<not> holds (job_step op J) k t"
  by (cases op) (auto simp: holds_def split: option.splits job.splits nat.splits if_splits)

lemma job_step_keeps: "J k \<noteq> None \<Longrightarrow> job_step op J k \<noteq> None"
  by (cases op) (auto split: option.splits job.splits nat.splits)

fun issues :: "nat \<Rightarrow> outbox_op \<Rightarrow> bool" where
  "issues t (Op_claim busy t' lease now k) = (t' = t)"
| "issues t (Op_reclaim busy t' lease now k) = (t' = t)"
| "issues t _ = False"

lemma grants_issues: "grants t (job_op_of s x op) \<Longrightarrow> issues t op"
  by (cases op) (auto simp: Let_def split: if_splits option.splits)

lemma not_held_after:
  assumes "outbox_wf x" "jobs_of x k \<noteq> None" "\<not> holds (jobs_of x) k t" "\<forall>op \<in> set ops. \<not> issues t op"
  shows "jobs_of (run_ops s ops x) k \<noteq> None \<and> \<not> holds (jobs_of (run_ops s ops x)) k t"
  using assms
proof (induction ops arbitrary: x)
  case (Cons op ops)
  have "\<not> grants t (job_op_of s x op)" using Cons.prems(4) grants_issues by auto
  then have "\<not> holds (jobs_of (run_op s op x)) k t" "jobs_of (run_op s op x) k \<noteq> None"
    using Cons.prems job_step_not_held job_step_keeps by (simp_all add: run_op_refines)
  with Cons.IH [OF run_op_wf [OF Cons.prems(1)]] Cons.prems(4) show ?case by simp
qed simp

lemma completion_is_stale:
  assumes "jobs_of y k \<noteq> None" "\<not> holds (jobs_of y) k t"
  shows "complete_delivery_success now response k t y = (y, Inl StaleClaimError)"
    and "complete_delivery_failure base cap code retryable delay now response k t y = (y, Inl StaleClaimError)"
proof -
  obtain d where d: "row_get (ob_deliveries y) k = Some d" using assms(1) by (auto simp: jobs_of_def)
  with assms(2) have "\<not> active_claim d t" using jobs_of_get [OF d] by (auto simp: holds_def job_held)
  with d show "complete_delivery_success now response k t y = (y, Inl StaleClaimError)"
    "complete_delivery_failure base cap code retryable delay now response k t y = (y, Inl StaleClaimError)"
    by (simp_all add: complete_delivery_success_def complete_delivery_failure_def completing_stale)
qed

text \<open>C6. A worker that lost its claim stays locked out: whatever services run after, as long as its token is
  not issued again, a completion with that token, successful or failed, raises StaleClaimError and changes
  nothing.\<close>

theorem stale_worker_is_fenced:
  assumes "outbox_wf x" and "row_get (ob_deliveries x) k = Some d" and "\<not> active_claim d t"
    and "\<forall>op \<in> set ops. \<not> issues t op"
  shows "complete_delivery_success now response k t (run_ops s ops x) = (run_ops s ops x, Inl StaleClaimError) \<and>
    complete_delivery_failure base cap code retryable delay now response k t (run_ops s ops x) =
      (run_ops s ops x, Inl StaleClaimError)"
proof -
  have "claim_fields_ok d" using wf_delivery(1) [OF assms(1,2)] by (simp add: delivery_ok_def)
  then have "\<not> holds (jobs_of x) k t"
    using job_not_held [OF _ assms(3)] assms(2) by (auto simp: holds_def jobs_of_get)
  with not_held_after [OF assms(1) _ _ assms(4)] assms(2)
  have "jobs_of (run_ops s ops x) k \<noteq> None \<and> \<not> holds (jobs_of (run_ops s ops x)) k t" by (simp add: jobs_of_get)
  then show ?thesis by (simp add: completion_is_stale)
qed

text \<open>C11. The delivery tables stay well-formed under any sequence of services: claim fields are set exactly
  while claimed, the attempt counter never passes its maximum, the attempts are numbered 1, 2, \<dots> up to the
  counter, and at most the last one is in progress, under the claim's own token.\<close>

theorem delivery_rows_stay_well_formed:
  assumes "outbox_wf x"
  shows "outbox_wf (run_ops s ops x)"
  using assms by (rule run_ops_wf)

text \<open>C5. Each service that writes deliveries is one step of the abstract job table: it takes a job that is due
  and has attempts left, finishes, postpones or gives up a job only under the token that holds it, reopens
  only a job given up, and touches no other job.\<close>

theorem delivery_services_refine_jobs:
  assumes "outbox_wf x"
  shows "jobs_of (run_op s op x) = job_step (job_op_of s x op) (jobs_of x)"
  using assms by (rule run_op_refines)

subsection \<open>The contract of a channel handler\<close>

text \<open>What the task relies on: a handler that returns has completed the delivery, one way or the other.\<close>

locale delivery_handler =
  fixes handler :: delivery_handler
  assumes releases: "handler k d t x = (y, Inr u) \<Longrightarrow> \<exists>e. row_get (ob_deliveries y) k = Some e \<and> dl_status e \<noteq> DL_CLAIMED"
begin

lemma processed_is_released:
  assumes "process_claimed_delivery handlers busy token lease clk k x = (y, Inr ''processed'')"
    and h: "\<And>d. row_get (ob_deliveries x) k = Some d \<Longrightarrow> handlers (dl_channel d) = Some handler"
  shows "\<exists>e. row_get (ob_deliveries y) k = Some e \<and> dl_status e \<noteq> DL_CLAIMED"
proof -
  obtain d0 where d0: "row_get (ob_deliveries x) k = Some d0"
    using assms(1) by (cases "row_get (ob_deliveries x) k") (simp_all add: process_claimed_delivery_def)
  have run: "\<exists>e. row_get (ob_deliveries y) k = Some e \<and> dl_status e \<noteq> DL_CLAIMED"
    if "svc_bind (handler k d t) (\<lambda>_. svc_return ''processed'') x1 = (y, Inr ''processed'')" for d t x1
    using that releases [of k d t x1 y "()"]
    by (auto simp: svc_bind_def svc_return_def split: prod.splits sum.splits)
  obtain x1 r1 where c: "claim_delivery (busy 0) token lease (clk 0) k x = (x1, r1)" by fastforce
  show ?thesis
  proof (cases r1)
    case (Inr v)
    with assms(1) d0 h [OF d0] c run show ?thesis by (cases v) (simp add: process_claimed_delivery_def)
  next
    case (Inl e)
    obtain x2 r2 where r: "reclaim_expired_delivery (busy 1) token lease (clk 1) k x1 = (x2, r2)" by fastforce
    have e: "e = DeliveryNotClaimableError"
      using assms(1) d0 h [OF d0] c Inl by (cases e) (simp_all add: process_claimed_delivery_def)
    show ?thesis
    proof (cases r2)
      case (Inr v)
      with assms(1) d0 h [OF d0] c Inl e r run show ?thesis
        by (cases v) (simp add: process_claimed_delivery_def)
    next
      case (Inl f)
      with assms(1) d0 h [OF d0] c \<open>r1 = Inl e\<close> e r show ?thesis
        by (cases f) (simp_all add: process_claimed_delivery_def)
    qed
  qed
qed

end

lemma completing_releases:
  "completing k token st code retryable now response f observed x = (y, Inr r) \<Longrightarrow> (\<And>d. dl_status (f d) \<noteq> DL_CLAIMED) \<Longrightarrow>
    \<exists>e. row_get (ob_deliveries y) k = Some e \<and> dl_status e \<noteq> DL_CLAIMED"
  by (erule completing_done) auto

lemma then_unit: "svc_bind f (\<lambda>_. svc_return ()) x = (y, Inr u) \<longleftrightarrow> (\<exists>v. f x = (y, Inr v))"
  by (auto simp: svc_bind_def svc_return_def split: prod.splits sum.splits)

lemma failure_releases:
  "svc_bind (complete_delivery_failure base cap code retryable delay now response k t) (\<lambda>_. svc_return ()) x = (y, Inr u) \<Longrightarrow>
    \<exists>e. row_get (ob_deliveries y) k = Some e \<and> dl_status e \<noteq> DL_CLAIMED"
  unfolding then_unit complete_delivery_failure_def
  by (elim exE completing_releases) (auto simp: failed_row_def Let_def)

lemma success_releases:
  "svc_bind (complete_delivery_success now response k t) (\<lambda>_. svc_return ()) x = (y, Inr u) \<Longrightarrow>
    \<exists>e. row_get (ob_deliveries y) k = Some e \<and> dl_status e \<noteq> DL_CLAIMED"
  unfolding then_unit complete_delivery_success_def by (elim exE completing_releases) auto

lemma send_and_complete_releases:
  "send_and_complete env unexpected store ws recipient subject body key k t x = (y, Inr u) \<Longrightarrow>
    \<exists>e. row_get (ob_deliveries y) k = Some e \<and> dl_status e \<noteq> DL_CLAIMED"
  unfolding send_and_complete_def give_up_def succeed_def Let_def
  by (auto split: prod.splits sum.splits call_exc.splits if_splits dest!: failure_releases success_releases)

interpretation notification_handler: delivery_handler "handle_notification_delivery_attempt env"
  by unfold_locales
    (auto simp: handle_notification_delivery_attempt_def give_up_def split: option.splits
      dest!: failure_releases send_and_complete_releases)

interpretation webhook_handler: delivery_handler "handle_webhook_delivery_attempt wenv env"
  by unfold_locales
    (auto simp: handle_webhook_delivery_attempt_def give_up_def Let_def split: option.splits sum.splits if_splits prod.splits
      dest!: failure_releases success_releases)

text \<open>The handlers the applications register at start-up.\<close>

definition registered_handlers :: "webhook_env \<Rightarrow> handler_env \<Rightarrow> handler_registry" where
  "registered_handlers wenv env = [ch_notification \<mapsto> handle_notification_delivery_attempt env,
     ch_webhook \<mapsto> handle_webhook_delivery_attempt wenv env]"

text \<open>A delivery task that reports "processed" has settled its claim: the delivery it worked on, of
  whichever channel, is no longer claimed, whatever the provider, the endpoint and concurrent transactions
  did meanwhile.\<close>

theorem processed_delivery_is_settled:
  assumes "process_claimed_delivery (registered_handlers wenv env) busy token lease clk k x = (y, Inr ''processed'')"
  shows "\<exists>e. row_get (ob_deliveries y) k = Some e \<and> dl_status e \<noteq> DL_CLAIMED"
proof -
  obtain d where d: "row_get (ob_deliveries x) k = Some d"
    using assms by (cases "row_get (ob_deliveries x) k") (simp_all add: process_claimed_delivery_def)
  consider "dl_channel d = ch_notification" | "dl_channel d = ch_webhook" | "registered_handlers wenv env (dl_channel d) = None"
    by (cases "dl_channel d = ch_notification"; cases "dl_channel d = ch_webhook") (auto simp: registered_handlers_def)
  then show ?thesis
  proof cases
    case 1
    with d have "\<And>d'. row_get (ob_deliveries x) k = Some d' \<Longrightarrow>
        registered_handlers wenv env (dl_channel d') = Some (handle_notification_delivery_attempt env)"
      by (simp add: registered_handlers_def ch_notification_def ch_webhook_def)
    with assms show ?thesis by (rule notification_handler.processed_is_released)
  next
    case 2
    with d have "\<And>d'. row_get (ob_deliveries x) k = Some d' \<Longrightarrow>
        registered_handlers wenv env (dl_channel d') = Some (handle_webhook_delivery_attempt wenv env)"
      by (simp add: registered_handlers_def)
    with assms show ?thesis by (rule webhook_handler.processed_is_released)
  next
    case 3
    with assms d show ?thesis by (simp add: process_claimed_delivery_def)
  qed
qed

subsection \<open>A crash during the last attempt\<close>

definition stuck :: "nat \<Rightarrow> delivery \<Rightarrow> bool" where
  "stuck t d \<longleftrightarrow> dl_status d = DL_CLAIMED \<and> dl_token d = Some t \<and> dl_attempts d = dl_max d"

fun completes :: "nat \<Rightarrow> nat \<Rightarrow> outbox_op \<Rightarrow> bool" where
  "completes k t (Op_succeed now response k' t') = (k' = k \<and> t' = t)"
| "completes k t (Op_fail code retryable delay now response k' t') = (k' = k \<and> t' = t)"
| "completes k t _ = False"

lemma claim_row_frame:
  assumes "row_get (ob_deliveries x) k = Some d" "k' = k \<Longrightarrow> \<not> (eligible d now \<and> dl_attempts d < dl_max d)"
  shows "row_get (ob_deliveries (fst (claim_row eligible busy token lease now k' x))) k = Some d"
proof (cases "claim_row eligible busy token lease now k' x")
  case (Pair y r)
  show ?thesis
  proof (cases r)
    case (Inl e)
    with Pair assms show ?thesis by (auto dest: claim_row_failed)
  next
    case (Inr v)
    with Pair assms show ?thesis by (auto elim!: claim_row_done)
  qed
qed

lemma completing_frame:
  assumes "row_get (ob_deliveries x) k = Some d" "k' = k \<Longrightarrow> \<not> active_claim d token"
  shows "row_get (ob_deliveries (fst (completing k' token st code retryable now response f observed x))) k = Some d"
proof (cases "completing k' token st code retryable now response f observed x")
  case (Pair y r)
  show ?thesis
  proof (cases r)
    case (Inl e)
    with Pair assms show ?thesis by (auto dest: completing_failed)
  next
    case (Inr v)
    with Pair assms show ?thesis by (auto elim!: completing_done)
  qed
qed

lemma create_keeps_row:
  assumes "row_get (ob_deliveries x) k = Some d"
  shows "row_get (ob_deliveries (fst (create_delivery dflt now ws channel mx created x))) k = Some d"
proof (cases "create_delivery dflt now ws channel mx created x")
  case (Pair y r)
  show ?thesis
  proof (cases r)
    case (Inl e)
    with Pair assms show ?thesis by (auto dest: create_delivery_failed)
  next
    case (Inr v)
    with Pair assms row_get_neq_fresh [OF assms] show ?thesis by (auto elim!: create_delivery_done)
  qed
qed

lemma redrive_frame:
  assumes "row_get (ob_deliveries x) k = Some d" "\<not> redrivable d"
  shows "row_get (ob_deliveries (fst (redrive_webhook_delivery allowance now ws link actor request_id x))) k = Some d"
proof (cases "redrive_webhook_delivery allowance now ws link actor request_id x")
  case (Pair y r)
  show ?thesis
  proof (cases r)
    case (Inl e)
    with Pair assms show ?thesis by (auto dest: redrive_failed)
  next
    case (Inr v)
    with Pair assms show ?thesis by (cases "wl_delivery link = k") (auto elim!: redrive_done)
  qed
qed

lemma stuck_step:
  assumes d: "row_get (ob_deliveries x) k = Some d" "stuck t d" and op: "\<not> completes k t op"
  shows "row_get (ob_deliveries (run_op s op x)) k = Some d"
proof -
  have n: "dl_status d = DL_CLAIMED" "dl_token d = Some t" "dl_attempts d = dl_max d" using d(2) by (auto simp: stuck_def)
  show ?thesis
  proof (cases op)
    case (Op_succeed now response k' t')
    with op n show ?thesis
      by (auto simp: complete_delivery_success_def active_claim_def intro!: completing_frame [OF d(1)])
  next
    case (Op_fail code retryable delay now response k' t')
    with op n show ?thesis
      by (auto simp: complete_delivery_failure_def active_claim_def intro!: completing_frame [OF d(1)])
  next
    case (Op_redrive now ws link actor request_id)
    with n show ?thesis by (auto simp: redrivable_def intro!: redrive_frame [OF d(1)])
  qed (use n in \<open>auto simp: claim_delivery_def reclaim_expired_delivery_def intro!: create_keeps_row claim_row_frame d(1)\<close>)
qed

lemma stuck_run:
  "row_get (ob_deliveries x) k = Some d \<Longrightarrow> stuck t d \<Longrightarrow> \<forall>op \<in> set ops. \<not> completes k t op \<Longrightarrow>
    row_get (ob_deliveries (run_ops s ops x)) k = Some d"
  by (induction ops arbitrary: x) (auto simp: stuck_step stuck_def)

text \<open>A worker that dies during the last allowed attempt leaves the delivery CLAIMED for ever: whatever
  services run after, except a completion under the dead worker's token, the row never changes, every task
  for it is skipped, a redrive is refused, and once the lease has expired the recovery sweep selects it again
  and again.\<close>

theorem crash_in_last_attempt_strands_delivery:
  assumes "row_get (ob_deliveries x) k = Some d" and "dl_status d = DL_CLAIMED" and "dl_token d = Some t"
    and "dl_attempts d = dl_max d" and "\<forall>op \<in> set ops. \<not> completes k t op"
    and "y = run_ops s ops x" and "handlers (dl_channel d) \<noteq> None" and "dl_lease d = Some l" and "l \<le> now"
  shows "row_get (ob_deliveries y) k = Some d \<and>
    process_claimed_delivery handlers busy token lease clk k y = (y, Inr ''skipped'') \<and>
    (\<forall>e link. row_get (ob_endpoints y) (wl_endpoint link) = Some e \<and> ep_status e = EP_ACTIVE \<and> wl_delivery link = k \<longrightarrow>
      redrive_webhook_delivery (ds_allowance s) now ws link actor request_id y = (y, Inl (Hook WebhookDeliveryNotRedrivable))) \<and>
    (k, d) \<in> set (expired_claimed_deliveries now (ob_deliveries y))"
proof -
  have g: "row_get (ob_deliveries y) k = Some d"
    using stuck_run [of x k d t ops s] assms by (simp add: stuck_def)
  have c: "claim_delivery b token lease m k y = (y, Inl DeliveryNotClaimableError)" for b m
    using g assms(2) by (simp add: claim_delivery_def claim_row_def atomic_def due_eligible_def)
  have r: "reclaim_expired_delivery b token lease m k y = (y, Inl DeliveryNotClaimableError)" for b m
    using g assms(4) by (simp add: reclaim_expired_delivery_def claim_row_def atomic_def)
  have "process_claimed_delivery handlers busy token lease clk k y = (y, Inr ''skipped'')"
    using g assms(7) by (auto simp: process_claimed_delivery_def c r)
  moreover have "(k, d) \<in> set (expired_claimed_deliveries now (ob_deliveries y))"
    using row_get_in [OF g] assms(2,8,9)
    by (simp add: expired_claimed_deliveries_def set_rows_where expired_claim_eligible_def)
  ultimately show ?thesis
    using g assms(2) by (auto simp: redrive_webhook_delivery_def redrivable_def)
qed

subsection \<open>Backoff\<close>

lemma claim_puts: "claim_row eligible busy token lease now k x = (y, Inr r) \<Longrightarrow> row_get (ob_deliveries y) k = Some (fst r)"
  by (erule claim_row_done) simp

lemma completing_puts:
  "completing k token st code retryable now response f observed x = (y, Inr r) \<Longrightarrow> row_get (ob_deliveries y) k = Some r"
  by (erule completing_done) simp

lemma create_puts: "create_delivery dflt now ws channel mx created x = (y, Inr k) \<Longrightarrow>
    row_get (ob_deliveries y) k = Some (new_delivery now ws channel (nat (case mx of None \<Rightarrow> dflt | Some m \<Rightarrow> m)) created)"
  by (erule create_delivery_done) simp

lemma claim_notifications:
  "claim_row eligible busy token lease now k x = (y, Inr r) \<Longrightarrow> ob_notifications y = ob_notifications x"
  by (cases "if busy then None else row_get (ob_deliveries x) k")
     (auto simp: claim_row_def atomic_ok_iff Let_def ob_emit_def put_delivery_def split: if_splits)

lemma completing_notifications:
  assumes "completing k token st code retryable now response f observed x = (y, Inr r)"
  shows "ob_notifications y = ob_notifications x"
proof -
  obtain d i a where "row_get (ob_deliveries x) k = Some d" "active_claim d token"
    "open_attempts k token (ob_attempts x) = [(i, a)]"
    using assms by (rule completing_done)
  with assms show ?thesis
    by (auto simp: completing_def atomic_ok_iff complete_active_attempt_def ob_emit_def put_delivery_def)
qed

lemma retry_delay_Suc: "compute_retry_delay_seconds base cap (Suc m) = min (base * 2 ^ m) cap"
  by (simp add: compute_retry_delay_seconds_def)

lemma retry_delay_bounds:
  assumes "0 \<le> base" "0 < n"
  shows "min base cap \<le> compute_retry_delay_seconds base cap n" "compute_retry_delay_seconds base cap n \<le> cap"
proof -
  obtain m where n: "n = Suc m" using assms(2) by (cases n) auto
  have "base * 1 \<le> base * 2 ^ m" using assms(1) by (intro mult_left_mono) auto
  then show "min base cap \<le> compute_retry_delay_seconds base cap n" "compute_retry_delay_seconds base cap n \<le> cap"
    by (auto simp: n retry_delay_Suc)
qed

lemma retry_delay_mono:
  assumes "0 \<le> base" "0 < m" "m \<le> n"
  shows "compute_retry_delay_seconds base cap m \<le> compute_retry_delay_seconds base cap n"
proof -
  obtain i where i: "m = Suc i" using assms(2) by (cases m) auto
  then obtain j where j: "n = Suc j" "i \<le> j" using assms(3) by (cases n) auto
  have "base * 2 ^ i \<le> base * 2 ^ j" using assms(1) j(2) by (intro mult_left_mono power_increasing) auto
  then show ?thesis by (auto simp: i j retry_delay_Suc)
qed

text \<open>A retryable failure of a claimed delivery with attempts left schedules the next attempt after the
  capped exponential delay of its attempt number, at least the smaller and at most the larger of the two
  settings, with the attempts made and left unchanged.\<close>

theorem retryable_failure_backs_off:
  assumes "outbox_wf x" and "row_get (ob_deliveries x) k = Some d" and "active_claim d t"
    and "dl_attempts d < dl_max d" and "0 \<le> base"
  shows "\<exists>y e. complete_delivery_failure base cap code True None now response k t x = (y, Inr e) \<and>
    row_get (ob_deliveries y) k = Some e \<and> dl_status e = DL_RETRY_SCHEDULED \<and> dl_token e = None \<and>
    dl_attempts e = dl_attempts d \<and> dl_max e = dl_max d \<and>
    dl_next_at e = now + seconds (min (base * 2 ^ (dl_attempts d - 1)) cap) \<and>
    now + seconds (min base cap) \<le> dl_next_at e \<and> dl_next_at e \<le> now + seconds cap"
proof -
  have pos: "0 < dl_attempts d"
    using wf_delivery(1) [OF assms(1,2)] assms(3) by (simp add: delivery_ok_def active_claim_def)
  obtain y where y: "complete_delivery_failure base cap code True None now response k t x =
      (y, Inr (failed_row base cap code True None now d))"
    using completing_succeeds [OF assms(1-3)] unfolding complete_delivery_failure_def by blast
  then have "row_get (ob_deliveries y) k = Some (failed_row base cap code True None now d)"
    unfolding complete_delivery_failure_def by (rule completing_puts)
  moreover have "compute_retry_delay_seconds base cap (dl_attempts d) = min (base * 2 ^ (dl_attempts d - 1)) cap"
    using pos by (cases "dl_attempts d") (simp_all add: retry_delay_Suc)
  ultimately show ?thesis
    using y assms(4) retry_delay_bounds [OF assms(5) pos, of cap]
    by (simp add: failed_row_def unclaimed_def seconds_def)
qed

subsection \<open>The snapshot of a notification\<close>

text \<open>The worker may be faster than the producer: when the delivery task runs between the commit of the
  delivery and the insertion of its snapshot, the producer still returns the snapshot it stored, and the
  delivery is already DEAD, so the notification is never sent.\<close>

theorem worker_overtakes_the_snapshot:
  assumes "outbox_wf x" and "notification_of_execution ex x = None"
    and "\<forall>(i, n) \<in> set (ob_notifications x). nt_delivery n \<noteq> fresh_id (ob_deliveries x)"
    and "0 < dflt_max" and "now \<le> clk 0" and "handlers ch_notification = Some (handle_notification_delivery_attempt env)"
    and "recipient \<noteq> []" and "fits 254 recipient" and "fits 200 subject" and "fits 200 (''notification.send:'' @ show_id ex)"
    and "other = (\<lambda>y. fst (process_claimed_delivery handlers (\<lambda>_. False) token lease clk (fresh_id (ob_deliveries x)) y))"
  shows "\<exists>y i n d. create_or_reuse_notification_delivery show_id other dflt_max now ex ws recipient subject body x = (y, Inr (i, n)) \<and>
    row_get (ob_notifications y) i = Some n \<and> row_get (ob_deliveries y) (nt_delivery n) = Some d \<and>
    dl_status d = DL_DEAD \<and> dl_error d = ''notification_delivery_missing''"
proof -
  let ?k = "fresh_id (ob_deliveries x)"
  obtain x1 where c: "create_delivery dflt_max now ws ch_notification None now x = (x1, Inr ?k)"
    and n1: "ob_notifications x1 = ob_notifications x"
    using assms(4) by (simp add: create_delivery_def atomic_def Let_def fits_def ch_notification_def ob_emit_def
        dispatch_delivery_for_processing_def put_delivery_def)
  have wf1: "outbox_wf x1" by (rule create_delivery_wf [OF assms(1) c])
  define d1 where "d1 = new_delivery now ws ch_notification (nat dflt_max) now"
  have d1: "row_get (ob_deliveries x1) ?k = Some d1"
    using create_puts [OF c] by (simp add: d1_def)
  have e1: "due_eligible d1 (clk 0)" "dl_attempts d1 < dl_max d1" "dl_channel d1 = ch_notification"
    using assms(4,5) by (simp_all add: d1_def new_delivery_def due_eligible_def)
  obtain x2 where x2: "claim_delivery False token lease (clk 0) ?k x1 = (x2, Inr (claimed_row token lease (clk 0) d1, token))"
    using claim_row_succeeds [OF wf1 d1, of due_eligible, OF e1(1,2)] unfolding claim_delivery_def by blast
  have wf2: "outbox_wf x2" by (rule claim_delivery_wf [OF wf1 x2])
  define d2 where "d2 = claimed_row token lease (clk 0) d1"
  have d2: "row_get (ob_deliveries x2) ?k = Some d2"
    using x2 unfolding claim_delivery_def d2_def by (auto dest: claim_puts)
  have n2: "ob_notifications x2 = ob_notifications x1"
    using x2 unfolding claim_delivery_def by (rule claim_notifications)
  have a2: "active_claim d2 token" by (simp add: d2_def claimed_row_def active_claim_def)
  have none: "notification_of_delivery ?k x2 = None"
  proof -
    have "rows_where (\<lambda>i n. nt_delivery n = ?k) (ob_notifications x) = []"
      using assms(3) by (fastforce simp: rows_where_def filter_empty_conv)
    then show ?thesis by (simp add: notification_of_delivery_def n1 n2)
  qed
  define d3 where "d3 = failed_row (he_base env) (he_cap env) ''notification_delivery_missing'' False None (he_now env) d2"
  obtain x3 where x3: "complete_delivery_failure (he_base env) (he_cap env) ''notification_delivery_missing'' False None
      (he_now env) None ?k token x2 = (x3, Inr d3)"
    using completing_succeeds [OF wf2 d2 a2] unfolding complete_delivery_failure_def d3_def by blast
  have d3: "row_get (ob_deliveries x3) ?k = Some d3"
    using x3 unfolding complete_delivery_failure_def by (rule completing_puts)
  have n3: "ob_notifications x3 = ob_notifications x2"
    using x3 unfolding complete_delivery_failure_def by (rule completing_notifications)
  have run: "other x1 = x3"
    using d1 e1(3) x2 none x3
    by (simp add: assms(11) process_claimed_delivery_def assms(6) svc_bind_def svc_return_def
        handle_notification_delivery_attempt_def give_up_def d2_def)
  have none_d: "notification_of_delivery ?k x3 = None"
    using none by (simp add: notification_of_delivery_def n3)
  have none_e: "notification_of_execution ex x3 = None"
    using assms(2) by (simp add: notification_of_execution_def n1 n2 n3)
  show ?thesis
    using assms(2,7-10) d3
    by (simp add: create_or_reuse_notification_delivery_def svc_bind_def c run insert_notification_def Let_def
        none_d none_e) (simp add: d3_def failed_row_def unclaimed_def d2_def claimed_row_def max_safe_error_code_length_def)
qed

subsection \<open>Witnesses\<close>

definition example_settings :: delivery_settings where
  "example_settings = \<lparr>ds_base = 30, ds_cap = 3600, ds_default_max = 5, ds_allowance = 3\<rparr>"

definition queued :: "int \<Rightarrow> outbox" where
  "queued m = run_ops example_settings [Op_create 0 1 ch_notification (Some m) 0] empty_outbox"

definition held :: "int \<Rightarrow> outbox" where
  "held m = run_ops example_settings [Op_claim False 7 300 0 1] (queued m)"

definition queued_row :: "int \<Rightarrow> delivery" where
  "queued_row m = new_delivery 0 1 ch_notification (nat m) 0"

definition held_row :: "int \<Rightarrow> delivery" where
  "held_row m = claimed_row 7 300 0 (queued_row m)"

lemma queued_wf: "outbox_wf (queued m)"
  by (simp add: queued_def run_op_wf empty_outbox_wf del: run_op.simps)

lemma held_wf: "outbox_wf (held m)"
  by (simp add: held_def queued_wf run_op_wf del: run_op.simps)

lemma queued_get: "0 < m \<Longrightarrow> row_get (ob_deliveries (queued m)) 1 = Some (queued_row m)"
  by (simp add: queued_def create_delivery_def atomic_def Let_def ch_notification_def fits_def empty_outbox_def
      fresh_id_def queued_row_def new_delivery_def)

lemma held_get:
  assumes "0 < m"
  shows "row_get (ob_deliveries (held m)) 1 = Some (held_row m)"
proof -
  have "\<exists>y. claim_row due_eligible False 7 300 0 1 (queued m) = (y, Inr (held_row m, 7))"
    unfolding held_row_def using assms
    by (intro claim_row_succeeds [OF queued_wf queued_get]) (simp_all add: queued_row_def new_delivery_def due_eligible_def)
  then obtain y where y: "claim_row due_eligible False 7 300 0 1 (queued m) = (y, Inr (held_row m, 7))" by blast
  then have "held m = y" by (simp add: held_def claim_delivery_def)
  with claim_puts [OF y] show ?thesis by simp
qed

lemmas rows_defs = held_row_def queued_row_def new_delivery_def claimed_row_def active_claim_def seconds_def

theorem stale_worker_is_fenced_witness:
  "complete_delivery_success 9 None 1 8 (run_ops example_settings [Op_succeed 5 None 1 7] (held 1)) =
    (run_ops example_settings [Op_succeed 5 None 1 7] (held 1), Inl StaleClaimError)"
  using stale_worker_is_fenced [where x = "held 1" and k = 1 and d = "held_row 1" and t = 8 and ops = "[Op_succeed 5 None 1 7]"]
    held_wf held_get [of 1] by (simp add: rows_defs del: run_ops_simps)

theorem delivery_rows_stay_well_formed_witness:
  "outbox_wf (run_ops example_settings [Op_create 0 1 ch_notification None 0, Op_claim False 7 300 0 1, Op_succeed 5 None 1 7]
     empty_outbox)"
  by (rule delivery_rows_stay_well_formed [OF empty_outbox_wf])

theorem delivery_services_refine_jobs_witness:
  "jobs_of (run_op example_settings (Op_succeed 5 None 1 7) (held 1)) 1 = Some Delivered"
proof -
  have "jobs_of (held 1) 1 = Some (Held 7 1 0 300000000)"
    using held_get [of 1] by (simp add: jobs_of_get job_of_def rows_defs)
  then show ?thesis by (simp add: delivery_services_refine_jobs [OF held_wf] del: run_op.simps)
qed

definition example_call_env :: call_env where
  "example_call_env = \<lparr>ce_decrypt = (\<lambda>c. Some (JObj [])), ce_other = id, ce_now = 0, ce_default_timeout = 8, ce_max_timeout = 15\<rparr>"

definition example_handler_env :: handler_env where
  "example_handler_env = \<lparr>he_call = example_call_env, he_send = (\<lambda>c f t r s b k. Provided ''m1''), he_other = id,
     he_now = 0, he_base = 30, he_cap = 3600\<rparr>"

definition example_webhook_env :: webhook_env where
  "example_webhook_env = \<lparr>wh_urlsplit = (\<lambda>u. None), wh_insecure = False, wh_max_url = 2048, wh_resolver = (\<lambda>h p. None),
     wh_parse_ip = (\<lambda>s. None), wh_hmac = (\<lambda>s b. ''d''), wh_dumps = (\<lambda>v. ''b''), wh_show = (\<lambda>n. ''n''),
     wh_isoformat = (\<lambda>t. ''t''), wh_encrypt = (\<lambda>v. Some ''e''), wh_decrypt = (\<lambda>c. None),
     wh_pool = (\<lambda>s i p h q hs b. Responded 204)\<rparr>"

lemma queued_processed:
  "snd (process_claimed_delivery (registered_handlers example_webhook_env example_handler_env) (\<lambda>_. False) 7 300 (\<lambda>_. 0) 1 (queued 1)) =
    Inr ''processed''"
proof -
  have g: "row_get (ob_deliveries (queued 1)) 1 = Some (queued_row 1)" by (rule queued_get) simp
  have "\<exists>y. claim_row due_eligible False 7 300 0 1 (queued 1) = (y, Inr (claimed_row 7 300 0 (queued_row 1), 7))"
    by (intro claim_row_succeeds [OF queued_wf g]) (simp_all add: queued_row_def new_delivery_def due_eligible_def)
  then obtain y where y: "claim_row due_eligible False 7 300 0 1 (queued 1) = (y, Inr (held_row 1, 7))"
    by (auto simp: held_row_def)
  have "ob_notifications y = []"
    using claim_notifications [OF y]
    by (simp add: queued_def create_delivery_def atomic_def Let_def ch_notification_def fits_def empty_outbox_def
        ob_emit_def put_delivery_def dispatch_delivery_for_processing_def)
  then have n: "notification_of_delivery 1 y = None" by (simp add: notification_of_delivery_def)
  have wf: "outbox_wf y"
    using claim_delivery_wf [OF queued_wf [of 1], of False 7 300 0 1 y] y by (simp add: claim_delivery_def)
  have "\<exists>z. completing 1 7 AT_FAILED ''notification_delivery_missing'' (Some False) 0 None
      (failed_row 30 3600 ''notification_delivery_missing'' False None 0) o' y = (z, Inr
      (failed_row 30 3600 ''notification_delivery_missing'' False None 0 (held_row 1)))" for o'
    using claim_puts [OF y] by (intro completing_succeeds [OF wf]) (simp_all add: rows_defs)
  then obtain z v where "complete_delivery_failure 30 3600 ''notification_delivery_missing'' False None 0 None 1 7 y = (z, Inr v)"
    unfolding complete_delivery_failure_def by blast
  then show ?thesis
    using g y n
    by (simp add: process_claimed_delivery_def claim_delivery_def registered_handlers_def queued_row_def new_delivery_def
        ch_notification_def ch_webhook_def svc_bind_def svc_return_def handle_notification_delivery_attempt_def give_up_def
        example_handler_env_def del: One_nat_def)
qed

theorem processed_delivery_is_settled_witness:
  "\<exists>e. row_get (ob_deliveries (fst (process_claimed_delivery (registered_handlers example_webhook_env example_handler_env)
     (\<lambda>_. False) 7 300 (\<lambda>_. 0) 1 (queued 1)))) 1 = Some e \<and> dl_status e \<noteq> DL_CLAIMED"
  by (rule processed_delivery_is_settled) (rule prod_eqI, rule fst_conv [symmetric], simp only: queued_processed snd_conv)

theorem crash_in_last_attempt_strands_delivery_witness:
  "process_claimed_delivery (registered_handlers example_webhook_env example_handler_env) (\<lambda>_. False) 9 300 (\<lambda>_. 400000000) 1
     (held 1) = (held 1, Inr ''skipped'')"
  using crash_in_last_attempt_strands_delivery [where x = "held 1" and y = "held 1" and k = 1 and d = "held_row 1" and t = 7
      and ops = "[]" and l = 300000000 and now = 400000000
      and handlers = "registered_handlers example_webhook_env example_handler_env"] held_get [of 1]
  by (simp add: rows_defs registered_handlers_def ch_notification_def ch_webhook_def)

theorem retryable_failure_backs_off_witness:
  "\<exists>y e. complete_delivery_failure 30 3600 ''t'' True None 1000000 None 1 7 (held 2) = (y, Inr e) \<and>
    row_get (ob_deliveries y) 1 = Some e \<and> dl_next_at e = 31000000"
proof -
  have "\<exists>y e. complete_delivery_failure 30 3600 ''t'' True None 1000000 None 1 7 (held 2) = (y, Inr e) \<and>
    row_get (ob_deliveries y) 1 = Some e \<and> dl_status e = DL_RETRY_SCHEDULED \<and> dl_token e = None \<and>
    dl_attempts e = dl_attempts (held_row 2) \<and> dl_max e = dl_max (held_row 2) \<and>
    dl_next_at e = 1000000 + seconds (min (30 * 2 ^ (dl_attempts (held_row 2) - 1)) 3600) \<and>
    1000000 + seconds (min 30 3600) \<le> dl_next_at e \<and> dl_next_at e \<le> 1000000 + seconds 3600"
    by (rule retryable_failure_backs_off [OF held_wf held_get]) (simp_all add: rows_defs)
  then show ?thesis by (auto simp: rows_defs)
qed

theorem worker_overtakes_the_snapshot_witness:
  "\<exists>y i n d. create_or_reuse_notification_delivery (\<lambda>_. ''e1'') (\<lambda>y. fst (process_claimed_delivery
      (registered_handlers example_webhook_env example_handler_env) (\<lambda>_. False) 7 300 (\<lambda>_. 0) 1 y)) 5 0 4 1 ''a@b.c'' ''s'' ''t''
      empty_outbox = (y, Inr (i, n)) \<and>
    row_get (ob_notifications y) i = Some n \<and> row_get (ob_deliveries y) (nt_delivery n) = Some d \<and>
    dl_status d = DL_DEAD \<and> dl_error d = ''notification_delivery_missing''"
proof -
  have f: "fresh_id (ob_deliveries empty_outbox) = 1" by (simp add: empty_outbox_def fresh_id_def)
  show ?thesis
    by (rule worker_overtakes_the_snapshot [OF empty_outbox_wf, where handlers = "registered_handlers example_webhook_env example_handler_env"
          and env = example_handler_env and clk = "\<lambda>_. 0" and token = 7 and lease = 300, unfolded f])
       (simp_all add: empty_outbox_def notification_of_execution_def fits_def registered_handlers_def ch_notification_def
          ch_webhook_def)
qed

end
