(* ===== verification/IntegrationProperties.thy ===== *)
theory IntegrationProperties
  imports Notifications
begin

section \<open>What the provider-call boundary guarantees, and what it does not\<close>

text \<open>The boundary around provider calls of \<open>integrations/services.py\<close>: the time limit passed to an adapter
  and that an unusable connection is never called, and a health record that undoes a concurrent disable.\<close>

lemma update_where_eq [simp]: "row_get (update_where (\<lambda>i r. i = k) f t) k = map_option f (row_get t k)"
  by simp

text \<open>A workspace whose connection is missing, disabled or without credentials never reaches its provider:
  the operation fails with the normalized error and writes nothing, whatever the adapter would do.\<close>

theorem unusable_connection_is_never_called:
  assumes "\<And>k c. resolve_connection_for_tool ws provider t = Some (k, c) \<Longrightarrow>
      cn_status c = CN_DISABLED \<or> \<not> credentials_configured c"
  shows "\<exists>e \<in> {IntegrationNotConfigured, IntegrationDisabled}. \<forall>call.
    provider_operation env ws remaining provider call t = (t, Inl (Normalized (IntegrationError e None)))"
proof (cases "resolve_connection_for_tool ws provider t")
  case None
  then show ?thesis by (simp add: provider_operation_def require_usable_connection_def)
next
  case (Some p)
  obtain k c where p: "p = (k, c)" by fastforce
  with Some assms have "cn_status c = CN_DISABLED \<or> \<not> credentials_configured c" by blast
  with Some p show ?thesis
    by (cases "cn_status c = CN_DISABLED") (auto simp: provider_operation_def require_usable_connection_def)
qed

theorem unusable_connection_is_never_called_witness:
  "\<exists>e \<in> {IntegrationNotConfigured, IntegrationDisabled}. \<forall>call :: json \<Rightarrow> json \<Rightarrow> rat \<Rightarrow> unit provider_outcome.
    provider_operation \<lparr>ce_decrypt = (\<lambda>c. None), ce_other = id, ce_now = 0, ce_default_timeout = 8, ce_max_timeout = 15\<rparr>
      1 5 ''email'' call [] = ([], Inl (Normalized (IntegrationError e None)))"
  by (rule unusable_connection_is_never_called) (simp add: resolve_connection_for_tool_def rows_where_def)

text \<open>The timeout a provider gets: at least half a second, and otherwise within both settings and half a
  second below the remaining time.\<close>

lemma provider_timeout_bounds:
  "min_provider_timeout_seconds \<le> effective_provider_timeout dflt cap remaining"
  "min_provider_timeout_seconds \<le> dflt \<Longrightarrow> effective_provider_timeout dflt cap remaining \<le> dflt"
  "min_provider_timeout_seconds \<le> cap \<Longrightarrow> effective_provider_timeout dflt cap remaining \<le> cap"
  "1 \<le> remaining \<Longrightarrow> effective_provider_timeout dflt cap remaining \<le> remaining - 1 / 2"
  by (auto simp: effective_provider_timeout_def min_provider_timeout_seconds_def)

text \<open>The health record of a call is decided on the connection as it was loaded before the call: when an
  administrator disables the connection while the provider times out, the record turns DISABLED into
  DEGRADED, and the next operation of the workspace passes the check again.\<close>

theorem health_record_undoes_a_disable:
  assumes "resolve_connection_for_tool ws provider t = Some (k, c)" and "row_get t k = Some c"
    and "cn_status c \<noteq> CN_DISABLED" and "credentials_configured c" and "ce_decrypt env (cn_credentials c) = Some creds"
    and "\<And>s. call creds (cn_configuration c) s = Refused (IntegrationError IntegrationTimeout None)"
    and "ce_other env = update_where (\<lambda>i r. i = k) (\<lambda>r. r\<lparr>cn_status := CN_DISABLED\<rparr>)"
    and "provider_operation env ws remaining provider call t = (t', r)"
  shows "r = Inl (Normalized (IntegrationError IntegrationTimeout None)) \<and>
    (\<exists>c'. row_get t' k = Some c' \<and> cn_status c' = CN_DEGRADED \<and>
      require_usable_connection ws provider t' = Inr (k, c'))"
proof -
  define h where "h = health_of (ce_now env) (Some (IntegrationError IntegrationTimeout None)) c"
  have hs: "hl_status h = Some CN_DEGRADED" using assms(3) by (simp add: h_def health_of_def)
  have run: "t' = update_where (\<lambda>i r. i = k) (apply_health h) (update_where (\<lambda>i r. i = k) (\<lambda>r. r\<lparr>cn_status := CN_DISABLED\<rparr>) t)"
    "r = Inl (Normalized (IntegrationError IntegrationTimeout None))"
    using assms(1,3-8) by (auto simp: provider_operation_def require_usable_connection_def execute_provider_call_def
        record_health_def h_def Let_def)
  define f where "f = (\<lambda>r. apply_health h (r\<lparr>cn_status := CN_DISABLED\<rparr>))"
  have t': "t' = update_where (\<lambda>i r. i = k) f t"
    unfolding run(1) f_def by (simp add: update_where_def case_prod_unfold comp_def)
  have same: "cn_workspace (f r) = cn_workspace r" "cn_provider (f r) = cn_provider r"
    "cn_credentials (f r) = cn_credentials r" for r
    by (simp_all add: f_def apply_health_def)
  have fc: "cn_status (f c) = CN_DEGRADED" by (simp add: f_def apply_health_def hs)
  obtain rest where "rows_where (\<lambda>i c. cn_workspace c = ws \<and> cn_provider c = provider) t = (k, c) # rest"
    using assms(1) by (auto simp: resolve_connection_for_tool_def split: list.splits)
  then have "rows_where (\<lambda>i c. cn_workspace c = ws \<and> cn_provider c = provider) t' =
      (k, f c) # update_where (\<lambda>i r. i = k) f rest"
    unfolding t' by (simp add: rows_where_def update_where_def filter_map comp_def case_prod_unfold same if_distrib cong: if_cong)
  then have "resolve_connection_for_tool ws provider t' = Some (k, f c)" by (simp add: resolve_connection_for_tool_def)
  moreover have "row_get t' k = Some (f c)" using assms(2) by (simp add: t')
  ultimately show ?thesis
    using run(2) fc assms(4) same(3) [of c] by (simp add: require_usable_connection_def credentials_configured_def)
qed

definition example_connection :: connection where
  "example_connection = \<lparr>cn_workspace = 1, cn_provider = ''email'', cn_display_name = [], cn_status = CN_ACTIVE,
     cn_environment = ''test'', cn_credentials = ''token'', cn_version = 1, cn_configuration = JObj [],
     cn_checked_at = None, cn_success_at = None, cn_error = [], cn_created_by = None\<rparr>"

theorem health_record_undoes_a_disable_witness:
  "\<exists>c'. row_get (fst (provider_operation
      \<lparr>ce_decrypt = (\<lambda>c. Some (JObj [])), ce_other = update_where (\<lambda>i r. i = 1) (\<lambda>r. r\<lparr>cn_status := CN_DISABLED\<rparr>), ce_now = 0,
        ce_default_timeout = 8, ce_max_timeout = 15\<rparr>
      1 5 ''email'' (\<lambda>a b s. Refused (IntegrationError IntegrationTimeout None) :: unit provider_outcome) [(1, example_connection)])) 1 = Some c'
    \<and> cn_status c' = CN_DEGRADED"
proof -
  let ?env = "\<lparr>ce_decrypt = (\<lambda>c. Some (JObj [])), ce_other = update_where (\<lambda>i r. i = 1) (\<lambda>r. r\<lparr>cn_status := CN_DISABLED\<rparr>), ce_now = 0,
        ce_default_timeout = 8, ce_max_timeout = 15\<rparr>"
  let ?call = "\<lambda>a b s. Refused (IntegrationError IntegrationTimeout None) :: unit provider_outcome"
  obtain t' r where run: "provider_operation ?env 1 5 ''email'' ?call [(1, example_connection)] = (t', r)" by fastforce
  have res: "resolve_connection_for_tool 1 ''email'' [(1, example_connection)] = Some (1, example_connection)"
    by (simp add: resolve_connection_for_tool_def rows_where_def example_connection_def)
  have "\<exists>c'. row_get t' 1 = Some c' \<and> cn_status c' = CN_DEGRADED \<and> require_usable_connection 1 ''email'' t' = Inr (1, c')"
    using health_record_undoes_a_disable [OF res _ _ _ _ _ _ run, of "JObj []"]
    by (simp add: example_connection_def credentials_configured_def)
  then show ?thesis unfolding run by auto
qed

end
