(* ===== verification/WebhookProperties.thy ===== *)
theory WebhookProperties
  imports DeliveryProperties IntegrationProperties
begin

section \<open>Webhooks: destinations and fan-out\<close>

text \<open>What \<open>webhooks/\<close> guarantees: an accepted destination resolves to public addresses only, the delivery
  handler contacts no other, and an event is delivered once per active subscribed endpoint. One example shows an
  address that the check lets through.\<close>

subsection \<open>Destinations\<close>

lemma resolved_parts:
  assumes "resolve_and_validate resolver parse_ip host port = Inr ip"
  obtains results addresses where "resolver (str_lower (py_strip host)) port = Some results"
    "map (\<lambda>r. parse_ip (raw_address r)) results = map Some addresses" "addresses \<noteq> []" "ip = hd addresses"
    "\<forall>a \<in> set addresses. \<not> is_blocked_address a"
proof -
  have l: "\<not> is_localhost (str_lower (py_strip host))"
    using assms by (auto simp: resolve_and_validate_def Let_def)
  obtain results where r: "resolver (str_lower (py_strip host)) port = Some results" "results \<noteq> []"
    using assms l by (auto simp: resolve_and_validate_def Let_def split: option.splits if_splits)
  obtain addresses where a: "all_some (map (\<lambda>r. parse_ip (raw_address r)) results) = Some addresses"
    using assms l r by (auto simp: resolve_and_validate_def Let_def split: option.splits)
  have "\<not> list_ex is_blocked_address addresses" "ip = hd addresses"
    using assms l r a by (auto simp: resolve_and_validate_def Let_def split: if_splits)
  with r a that show ?thesis by (fastforce simp: all_some_map list_ex_iff)
qed

lemma resolved_unblocked:
  "resolve_and_validate resolver parse_ip host port = Inr ip \<Longrightarrow> \<not> is_blocked_address ip"
  by (erule resolved_parts) (metis hd_in_set)

text \<open>A destination is accepted only when every address its name resolves to is acceptable, and no
  acceptable address lies in the loopback, private, link-local, shared, unspecified, multicast, reserved,
  benchmarking or first documentation range of IPv4, neither written as IPv4 nor mapped into IPv6.\<close>

theorem accepted_destination_is_public:
  assumes "resolve_and_validate resolver parse_ip host port = Inr ip"
    and "resolver (str_lower (py_strip host)) port = Some results"
  shows "(\<exists>r \<in> set results. parse_ip (raw_address r) = Some ip) \<and>
    (\<forall>r \<in> set results. \<exists>a. parse_ip (raw_address r) = Some a \<and> \<not> is_blocked_address a \<and>
      (\<forall>v. a = IPv4 v \<longrightarrow> \<not> in_networks v special4) \<and>
      (\<forall>w v. a = IPv6 w \<longrightarrow> ipv4_mapped w = Some v \<longrightarrow> \<not> in_networks v special4))"
proof -
  obtain addresses where a: "map (\<lambda>r. parse_ip (raw_address r)) results = map Some addresses" "addresses \<noteq> []"
    "ip = hd addresses" "\<forall>a \<in> set addresses. \<not> is_blocked_address a"
    using assms by (auto elim!: resolved_parts)
  have mem: "\<exists>a \<in> set addresses. parse_ip (raw_address r) = Some a" if "r \<in> set results" for r
  proof -
    have "parse_ip (raw_address r) \<in> set (map (\<lambda>r. parse_ip (raw_address r)) results)" using that by simp
    then show ?thesis unfolding a(1) by auto
  qed
  have "Some ip \<in> set (map Some addresses)" using a(2,3) by simp
  then have "\<exists>r \<in> set results. parse_ip (raw_address r) = Some ip" unfolding a(1) [symmetric] by auto
  moreover have "\<not> in_networks v special4" if "\<not> is_blocked_address (IPv4 v)" for v
    using special4_blocked that by blast
  ultimately show ?thesis using mem a(4) mapped_unwrapped by metis
qed

text \<open>The two destination checks never disagree: for a host that is not blank, the SMTP check accepts
  exactly the addresses the webhook check accepts, and connects to the same one.\<close>

theorem destination_checks_agree:
  assumes "py_strip host \<noteq> []"
  shows "(case validate_outbound_host resolver parse_ip (Some host) port of Inr ip \<Rightarrow> Some ip | Inl m \<Rightarrow> None) =
    (case resolve_and_validate resolver parse_ip host port of Inr ip \<Rightarrow> Some ip | Inl e \<Rightarrow> None)"
  using assms by (auto simp: validate_outbound_host_def resolve_and_validate_def Let_def split: option.splits)

text \<open>C12. The handler connects only to addresses that pass the check: two transports that behave alike on
  every acceptable address give the same outcome of an attempt, whatever they do elsewhere.\<close>

theorem webhook_never_contacts_a_blocked_address:
  assumes "\<And>scheme ip port host path hs body. \<not> is_blocked_address ip \<Longrightarrow>
      pool scheme ip port host path hs body = wh_pool env scheme ip port host path hs body"
  shows "handle_webhook_delivery_attempt (env\<lparr>wh_pool := pool\<rparr>) he k d t x =
    handle_webhook_delivery_attempt env he k d t x"
proof -
  have cls: "classify_http_status (env\<lparr>wh_pool := pool\<rparr>) = classify_http_status env"
    by (simp add: classify_http_status_def fun_eq_iff)
  have cs: "current_secret (env\<lparr>wh_pool := pool\<rparr>) e = current_secret env e" for e by (simp add: current_secret_def)
  have "attempt_webhook (env\<lparr>wh_pool := pool\<rparr>) now e i ev k = attempt_webhook env now e i ev k" for now e i ev k
  proof (cases "current_secret env e")
    case (Inl err)
    then show ?thesis by (simp add: attempt_webhook_def cs)
  next
    case (Inr secret)
    have s: "current_secret (env\<lparr>wh_pool := pool\<rparr>) e = Inr secret" using Inr by (simp add: cs)
    show ?thesis
    proof (cases "parse_webhook_url (wh_urlsplit env) (wh_insecure env) (wh_max_url env) (ep_url e)")
      case (Inl err)
      then show ?thesis using \<open>current_secret env e = Inr secret\<close> s by (simp add: attempt_webhook_def)
    next
      case (Inr url)
      show ?thesis
      proof (cases "resolve_and_validate (wh_resolver env) (wh_parse_ip env) (pu_hostname url) (pu_port url)")
        case (Inl err)
        then show ?thesis using \<open>current_secret env e = Inr secret\<close> s Inr by (simp add: attempt_webhook_def)
      next
        case (Inr ip)
        then have "\<not> is_blocked_address ip" by (rule resolved_unblocked)
        then have "send_pinned_request (env\<lparr>wh_pool := pool\<rparr>) url ip hs b = send_pinned_request env url ip hs b" for hs b
          using assms by (simp add: send_pinned_request_def)
        then show ?thesis
          using \<open>current_secret env e = Inr secret\<close> s Inr
            \<open>parse_webhook_url (wh_urlsplit env) (wh_insecure env) (wh_max_url env) (ep_url e) = Inr url\<close>
          by (simp add: attempt_webhook_def build_signed_request_def sign_def build_event_envelope_def)
      qed
    qed
  qed
  then have att: "attempt_webhook (env\<lparr>wh_pool := pool\<rparr>) = attempt_webhook env" by (intro ext)
  show ?thesis unfolding handle_webhook_delivery_attempt_def att cls ..
qed

text \<open>Reserved IPv6 space counts as global, so an IPv4-compatible loopback address passes the check.\<close>

lemma compatible_loopback_is_accepted: "\<not> is_blocked_address (IPv6 0x7F000001)"
  by (simp add: is_blocked_address_def is_blocked_plain_def ipv4_mapped_def is_multicast_def is_global_def
      in_network_def in_networks_def private6_def private6_exceptions_def deprecated_site_local_ipv6_def)

subsection \<open>Fan-out\<close>

definition links_ok :: "outbox \<Rightarrow> bool" where
  "links_ok x \<longleftrightarrow> (\<forall>(i, l) \<in> set (ob_links x). wl_delivery l \<in> set (row_ids (ob_deliveries x)) \<and>
     wl_event l \<in> set (row_ids (ob_events x)))"

lemma create_delivery_rest:
  assumes "create_delivery dflt now ws channel mx created x = (y, Inr k)"
  shows "ob_links y = ob_links x" "ob_events y = ob_events x" "ob_endpoints y = ob_endpoints x"
  using assms by (auto simp: create_delivery_def Let_def atomic_ok_iff ob_emit_def put_delivery_def
      dispatch_delivery_for_processing_def split: if_splits)

lemma create_webhook_delivery:
  "0 < dflt \<Longrightarrow> \<exists>y. create_delivery dflt now ws ch_webhook None now x = (y, Inr (fresh_id (ob_deliveries x))) \<and>
    ob_deliveries y = row_put (fresh_id (ob_deliveries x)) (new_delivery now ws ch_webhook (nat dflt) now) (ob_deliveries x)"
  by (simp add: create_delivery_def atomic_def Let_def fits_def ch_webhook_def new_delivery_def)

lemma fan_out_links:
  assumes "0 < dflt" "distinct es" "\<forall>(i, l) \<in> set (ob_links x). wl_delivery l \<in> set (row_ids (ob_deliveries x))"
    and "\<forall>(i, l) \<in> set (ob_links x). wl_event l = ev \<longrightarrow> wl_endpoint l \<notin> set es"
  shows "\<exists>y new. fan_out dflt now ws ev es x = Inr y \<and> map snd (ob_links y) = map snd (ob_links x) @ new \<and>
    map wl_endpoint new = es \<and> (\<forall>l \<in> set new. wl_event l = ev \<and> wl_workspace l = ws \<and>
      row_get (ob_deliveries x) (wl_delivery l) = None \<and>
      row_get (ob_deliveries y) (wl_delivery l) = Some (new_delivery now ws ch_webhook (nat dflt) now)) \<and>
    distinct (map wl_delivery new) \<and> (\<forall>k d. row_get (ob_deliveries x) k = Some d \<longrightarrow> row_get (ob_deliveries y) k = Some d)"
  using assms
proof (induction es arbitrary: x)
  case Nil
  then show ?case by simp
next
  case (Cons e es)
  let ?k = "fresh_id (ob_deliveries x)"
  let ?d = "new_delivery now ws ch_webhook (nat dflt) now"
  let ?l = "\<lparr>wl_delivery = ?k, wl_workspace = ws, wl_endpoint = e, wl_event = ev\<rparr>"
  obtain x1 where x1: "create_delivery dflt now ws ch_webhook None now x = (x1, Inr ?k)"
    "ob_deliveries x1 = row_put ?k ?d (ob_deliveries x)"
    using create_webhook_delivery [OF Cons.prems(1)] by blast
  note rest = create_delivery_rest [OF x1(1)]
  define x2 where "x2 = x1\<lparr>ob_links := row_put (fresh_id (ob_links x1)) ?l (ob_links x1)\<rparr>"
  have no: "\<not> (\<exists>(i, r) \<in> set (ob_links x). wl_delivery r = ?k \<or> wl_endpoint r = e \<and> wl_event r = ev)"
    using Cons.prems(3,4) fresh_id_not_in [of "ob_deliveries x"] by fastforce
  then have ins: "insert_link ?l x1 = Some x2" by (simp add: insert_link_def rest x2_def)
  have links: "ob_links x2 = ob_links x @ [(fresh_id (ob_links x), ?l)]"
    by (simp add: x2_def rest row_put_fresh_append)
  have dels: "ob_deliveries x2 = row_put ?k ?d (ob_deliveries x)" by (simp add: x2_def x1)
  have "\<forall>(i, l) \<in> set (ob_links x2). wl_delivery l \<in> set (row_ids (ob_deliveries x2))"
    using Cons.prems(3) by (auto simp: links dels row_ids_put)
  moreover have "\<forall>(i, l) \<in> set (ob_links x2). wl_event l = ev \<longrightarrow> wl_endpoint l \<notin> set es"
    using Cons.prems(2,4) by (auto simp: links)
  ultimately obtain y new where ih: "fan_out dflt now ws ev es x2 = Inr y" "map snd (ob_links y) = map snd (ob_links x2) @ new"
    "map wl_endpoint new = es" "\<forall>l \<in> set new. wl_event l = ev \<and> wl_workspace l = ws \<and>
      row_get (ob_deliveries x2) (wl_delivery l) = None \<and> row_get (ob_deliveries y) (wl_delivery l) = Some ?d"
    "distinct (map wl_delivery new)" "\<forall>k d. row_get (ob_deliveries x2) k = Some d \<longrightarrow> row_get (ob_deliveries y) k = Some d"
    using Cons.IH [of x2] Cons.prems(1,2) by auto
  have old: "row_get (ob_deliveries x) (wl_delivery l) = None \<and> wl_delivery l \<noteq> ?k" if "l \<in> set new" for l
    using ih(4) that by (auto simp: dels split: if_splits)
  have "\<forall>l \<in> set new. wl_delivery l \<noteq> ?k" using old by simp
  then have kn: "?k \<notin> set (map wl_delivery new)" unfolding set_map by (metis imageE)
  have "row_get (ob_deliveries y) ?k = Some ?d" using ih(6) by (simp add: dels)
  moreover have "row_get (ob_deliveries y) k = Some d" if "row_get (ob_deliveries x) k = Some d" for k d
    using ih(6) that row_get_neq_fresh [OF that] by (simp add: dels)
  moreover have "fan_out dflt now ws ev (e # es) x = Inr y" using x1 ins ih(1) by (simp add: fan_out_one_def)
  ultimately show ?case
    using ih(2-5) kn old
    by (intro exI [of _ y] exI [of _ "?l # new"] conjI) (simp_all add: links)
qed

text \<open>Emitting an event stores it and creates exactly one pending delivery, linked to the event, for each
  active endpoint of the workspace that subscribes to its type, in the endpoints' order, and none for any other;
  existing deliveries are untouched. The conflict branch of the loop is never taken.\<close>

theorem event_fans_out_once_per_endpoint:
  assumes "links_ok x" and "distinct (row_ids (ob_endpoints x))" and "0 < dflt" and "0 < version"
    and "event_type \<in> set valid_event_types"
  shows "\<exists>y ev new. emit_event dflt now ws event_type data version x = (y, Inr ev) \<and>
    map snd (ob_links y) = map snd (ob_links x) @ new \<and>
    map wl_endpoint new = row_ids (active_endpoints_subscribed_to ws event_type x) \<and>
    (\<forall>l \<in> set new. wl_event l = ev \<and> row_get (ob_deliveries x) (wl_delivery l) = None \<and>
      row_get (ob_deliveries y) (wl_delivery l) = Some (new_delivery now ws ch_webhook (nat dflt) now)) \<and>
    distinct (map wl_delivery new) \<and> (\<forall>k d. row_get (ob_deliveries x) k = Some d \<longrightarrow> row_get (ob_deliveries y) k = Some d)"
proof -
  let ?i = "fresh_id (ob_events x)"
  define x1 where "x1 = x\<lparr>ob_events := row_put ?i \<lparr>ev_workspace = ws, ev_type = event_type, ev_version = version,
    ev_payload = data, ev_created_at = now\<rparr> (ob_events x)\<rparr>"
  let ?es = "row_ids (active_endpoints_subscribed_to ws event_type x1)"
  have es: "?es = row_ids (active_endpoints_subscribed_to ws event_type x)"
    by (simp add: active_endpoints_subscribed_to_def x1_def)
  have "distinct ?es"
    using assms(2) by (simp add: active_endpoints_subscribed_to_def x1_def row_ids_def rows_where_def distinct_map_filter)
  moreover have "\<forall>(i, l) \<in> set (ob_links x1). wl_delivery l \<in> set (row_ids (ob_deliveries x1))"
    using assms(1) by (auto simp: links_ok_def x1_def)
  moreover have "\<forall>(i, l) \<in> set (ob_links x1). wl_event l = ?i \<longrightarrow> wl_endpoint l \<notin> set ?es"
    using assms(1) fresh_id_not_in [of "ob_events x"] by (fastforce simp: links_ok_def x1_def)
  ultimately obtain y new where f: "fan_out dflt now ws ?i ?es x1 = Inr y" "map snd (ob_links y) = map snd (ob_links x1) @ new"
    "map wl_endpoint new = ?es" "\<forall>l \<in> set new. wl_event l = ?i \<and> wl_workspace l = ws \<and>
      row_get (ob_deliveries x1) (wl_delivery l) = None \<and>
      row_get (ob_deliveries y) (wl_delivery l) = Some (new_delivery now ws ch_webhook (nat dflt) now)"
    "distinct (map wl_delivery new)" "\<forall>k d. row_get (ob_deliveries x1) k = Some d \<longrightarrow> row_get (ob_deliveries y) k = Some d"
    using fan_out_links [OF assms(3), of ?es x1 ?i now ws] by blast
  have "emit_event dflt now ws event_type data version x = (y, Inr ?i)"
    using assms(4,5) f(1) by (simp add: emit_event_def atomic_def Let_def x1_def)
  with f es show ?thesis
    by (intro exI [of _ y] exI [of _ ?i] exI [of _ new]) (auto simp: x1_def)
qed

subsection \<open>Witnesses\<close>

definition example_resolver :: resolver where
  "example_resolver h p = (if h = ''example.org'' then Some [(False, ''a''), (True, ''b%eth0'')] else None)"

definition example_parser :: address_parser where
  "example_parser s = (if s = ''a'' then Some (IPv4 0x08080808)
    else if s = ''b'' then Some (IPv6 0x2A000000000000000000000000000001) else None)"

lemma example_resolution: "resolve_and_validate example_resolver example_parser ''Example.org '' 443 = Inr (IPv4 0x08080808)"
proof -
  have n: "str_lower (py_strip ''Example.org '') = ''example.org''" by code_simp
  have a: "\<not> is_blocked_address (IPv4 0x08080808)"
    by (simp add: is_blocked_address_def is_blocked_plain_def is_multicast_def is_global_def is_private4_def
        in_network_def in_networks_def private4_def private4_exceptions_def shared4_def)
  have b: "\<not> is_blocked_address (IPv6 0x2A000000000000000000000000000001)"
    by (simp add: is_blocked_address_def is_blocked_plain_def is_multicast_def is_global_def ipv4_mapped_def
        in_network_def in_networks_def private6_def private6_exceptions_def deprecated_site_local_ipv6_def)
  show ?thesis
    by (simp add: resolve_and_validate_def n is_localhost_def example_resolver_def raw_address_def example_parser_def a b)
qed

theorem accepted_destination_is_public_witness:
  "\<not> in_networks (0x08080808 :: 32 word) special4"
proof -
  have n: "str_lower (py_strip ''Example.org '') = ''example.org''" by code_simp
  have r: "example_resolver (str_lower (py_strip ''Example.org '')) 443 = Some [(False, ''a''), (True, ''b%eth0'')]"
    by (simp add: n example_resolver_def)
  have "\<forall>r \<in> set [(False, ''a''), (True, ''b%eth0'')]. \<exists>a. example_parser (raw_address r) = Some a \<and> \<not> is_blocked_address a \<and>
      (\<forall>v. a = IPv4 v \<longrightarrow> \<not> in_networks v special4) \<and>
      (\<forall>w v. a = IPv6 w \<longrightarrow> ipv4_mapped w = Some v \<longrightarrow> \<not> in_networks v special4)"
    by (rule conjunct2 [OF accepted_destination_is_public [OF example_resolution r]])
  then show ?thesis by (simp add: raw_address_def example_parser_def)
qed

theorem destination_checks_agree_witness:
  "(case validate_outbound_host example_resolver example_parser (Some ''Example.org '') 443 of Inr ip \<Rightarrow> Some ip | Inl m \<Rightarrow> None) =
    Some (IPv4 0x08080808)"
proof -
  have "py_strip ''Example.org '' \<noteq> []" by code_simp
  from destination_checks_agree [OF this, of example_resolver example_parser 443] show ?thesis
    by (simp add: example_resolution)
qed

theorem webhook_never_contacts_a_blocked_address_witness:
  "handle_webhook_delivery_attempt (example_webhook_env\<lparr>wh_pool :=
      (\<lambda>s ip p h q hs b. if is_blocked_address ip then TransportCrash else Responded 204)\<rparr>) example_handler_env 1 (held_row 1) 7 (held 1) =
    handle_webhook_delivery_attempt example_webhook_env example_handler_env 1 (held_row 1) 7 (held 1)"
  by (rule webhook_never_contacts_a_blocked_address) (simp add: example_webhook_env_def)

theorem event_fans_out_once_per_endpoint_witness:
  "\<exists>y ev new. emit_event 5 0 1 ''handoff.created'' (JObj []) 1 (empty_outbox\<lparr>ob_endpoints := [(1, \<lparr>ep_workspace = 1,
      ep_name = ''n'', ep_url = ''u'', ep_status = EP_ACTIVE, ep_event_types = [''handoff.created''], ep_secret = ''e'',
      ep_secret_created_at = None, ep_created_by = None\<rparr>)]\<rparr>) = (y, Inr ev) \<and>
    map snd (ob_links y) = new \<and> map wl_endpoint new = [1]"
proof -
  let ?x = "empty_outbox\<lparr>ob_endpoints := [(1, \<lparr>ep_workspace = 1,
      ep_name = ''n'', ep_url = ''u'', ep_status = EP_ACTIVE, ep_event_types = [''handoff.created''], ep_secret = ''e'',
      ep_secret_created_at = None, ep_created_by = None\<rparr>)]\<rparr>"
  have l: "links_ok ?x" by (simp add: links_ok_def empty_outbox_def)
  have d: "distinct (row_ids (ob_endpoints ?x))" by (simp add: row_ids_def)
  have e: "''handoff.created'' \<in> set valid_event_types" by (simp add: valid_event_types_def)
  have s: "row_ids (active_endpoints_subscribed_to 1 ''handoff.created'' ?x) = [1]"
    by (simp add: active_endpoints_subscribed_to_def rows_where_def row_ids_def)
  have k: "ob_links ?x = []" by (simp add: empty_outbox_def)
  from event_fans_out_once_per_endpoint [OF l d, of 5 1 "''handoff.created''" 0 1 "JObj []"] e
  show ?thesis unfolding s k by auto
qed

end
