(* ===== verification/Ingestion.thy ===== *)
theory Ingestion
  imports Platform
begin

section \<open>Knowledge ingestion: from an uploaded file to chunks\<close>

text \<open>
  The pure stages of document ingestion: the error taxonomy (\<open>knowledge/errors.py\<close>), text
  normalization with rebuilt offsets (\<open>ingestion/normalization.py\<close>), the character chunker
  (\<open>ingestion/chunking.py\<close>), the extractor table (\<open>ingestion/extractors.py\<close>), the checks on
  embedding vectors (\<open>ingestion/embeddings.py\<close>) and on uploads (\<open>ingestion/validators.py\<close>).
  \<open>unicodedata.normalize\<close> and the PDF reader are parameters.
\<close>

subsection \<open>Errors\<close>

datatype knowledge_error =
    RetryableIngestionError
  | InvalidFileError | EmptyFileError | FileTooLargeError | UnsupportedFileTypeError
  | MalformedPdfError | EncryptedPdfError | PdfPageLimitError
  | NoExtractableTextError | ExtractionError | ChunkingError | InvalidEmbeddingError
  | InvalidRetrievalQueryError

fun knowledge_code :: "knowledge_error \<Rightarrow> string" where
  "knowledge_code RetryableIngestionError = ''knowledge_temporary_failure''"
| "knowledge_code InvalidFileError = ''knowledge_invalid_file''"
| "knowledge_code EmptyFileError = ''knowledge_empty_file''"
| "knowledge_code FileTooLargeError = ''knowledge_file_too_large''"
| "knowledge_code UnsupportedFileTypeError = ''knowledge_unsupported_type''"
| "knowledge_code MalformedPdfError = ''knowledge_malformed_pdf''"
| "knowledge_code EncryptedPdfError = ''knowledge_encrypted_pdf''"
| "knowledge_code PdfPageLimitError = ''knowledge_pdf_page_limit''"
| "knowledge_code NoExtractableTextError = ''knowledge_no_extractable_text''"
| "knowledge_code ExtractionError = ''knowledge_extraction_failed''"
| "knowledge_code ChunkingError = ''knowledge_chunking_failed''"
| "knowledge_code InvalidEmbeddingError = ''knowledge_invalid_embedding''"
| "knowledge_code InvalidRetrievalQueryError = ''knowledge_invalid_retrieval_query''"

fun knowledge_message :: "knowledge_error \<Rightarrow> string" where
  "knowledge_message RetryableIngestionError = ''Knowledge ingestion temporarily failed.''"
| "knowledge_message InvalidFileError = ''The uploaded file is invalid.''"
| "knowledge_message EmptyFileError = ''The uploaded file is empty.''"
| "knowledge_message FileTooLargeError = ''The uploaded file exceeds the allowed size.''"
| "knowledge_message UnsupportedFileTypeError = ''The uploaded file type is not supported.''"
| "knowledge_message MalformedPdfError = ''The PDF is malformed or unreadable.''"
| "knowledge_message EncryptedPdfError = ''Encrypted or password-protected PDFs are not supported.''"
| "knowledge_message PdfPageLimitError = ''The PDF exceeds the allowed page count.''"
| "knowledge_message NoExtractableTextError = ''The document contains no usable extractable text.''"
| "knowledge_message ExtractionError = ''The document could not be safely extracted.''"
| "knowledge_message ChunkingError = ''The document could not be divided into usable chunks.''"
| "knowledge_message InvalidEmbeddingError = ''The embedding provider returned invalid data.''"
| "knowledge_message InvalidRetrievalQueryError = ''The retrieval query is invalid.''"

text \<open>The subclasses of \<open>PermanentIngestionError\<close>.\<close>

definition is_permanent :: "knowledge_error \<Rightarrow> bool" where
  "is_permanent e \<longleftrightarrow> e \<noteq> RetryableIngestionError \<and> e \<noteq> InvalidRetrievalQueryError"

subsection \<open>Text normalization\<close>

abbreviation NUL :: char where "NUL \<equiv> CHR 0x00"
abbreviation LF :: char where "LF \<equiv> CHR 0x0A"
abbreviation CR :: char where "CR \<equiv> CHR 0x0D"

fun replace_crlf :: "string \<Rightarrow> string" where
  "replace_crlf (a # b # s) =
    (if a = CR \<and> b = LF then LF # replace_crlf s else a # replace_crlf (b # s))"
| "replace_crlf s = s"

definition replace_cr :: "string \<Rightarrow> string" where
  "replace_cr s = map (\<lambda>c. if c = CR then LF else c) s"

text \<open>\<open>text.split(sep)\<close> for a one-character separator, and \<open>"\n".join(lines)\<close>\<close>

fun split_on :: "char \<Rightarrow> string \<Rightarrow> string list" where
  "split_on sep [] = [[]]"
| "split_on sep (c # s) =
    (if c = sep then [] # split_on sep s
     else case split_on sep s of [] \<Rightarrow> [[c]] | l # ls \<Rightarrow> (c # l) # ls)"

fun join_lines :: "string list \<Rightarrow> string" where
  "join_lines [] = []"
| "join_lines [l] = l"
| "join_lines (l # ls) = l @ LF # join_lines ls"

text \<open>\<open>re.sub(r"\n{3,}", "\n\n", s)\<close>: every maximal run of three or more newlines becomes two.\<close>

fun squeeze_newlines :: "string \<Rightarrow> string" where
  "squeeze_newlines (a # b # c # s) =
    (if a = LF \<and> b = LF \<and> c = LF then squeeze_newlines (b # c # s)
     else a # squeeze_newlines (b # c # s))"
| "squeeze_newlines s = s"

definition normalize_text :: "(string \<Rightarrow> string) \<Rightarrow> string \<Rightarrow> string" where
  "normalize_text nfc text0 =
    (let text1 = nfc (filter (\<lambda>c. c \<noteq> NUL) text0);
         text2 = replace_cr (replace_crlf text1);
         lines = map py_rstrip (split_on LF text2)
     in py_strip (squeeze_newlines (join_lines lines)))"

record text_section =
  sec_text :: string
  sec_start :: nat
  sec_end :: nat
  sec_page :: "nat option"
  sec_title :: "string option"

record extracted =
  ed_text :: string
  ed_sections :: "text_section list"
  ed_metadata :: json

text \<open>The loop of \<open>normalize_extracted_document\<close> over \<open>parts\<close>, \<open>sections\<close> and \<open>offset\<close>.\<close>

fun rebuild_sections ::
  "(string \<Rightarrow> string) \<Rightarrow> text_section list \<Rightarrow> string list \<Rightarrow> text_section list \<Rightarrow> nat \<Rightarrow>
   string list \<times> text_section list" where
  "rebuild_sections nfc [] parts secs offset = (parts, secs)"
| "rebuild_sections nfc (s # rest) parts secs offset =
    (let normalized = normalize_text nfc (sec_text s) in
     if normalized = [] then rebuild_sections nfc rest parts secs offset
     else
       let (parts1, start) =
             (if parts \<noteq> [] then (parts @ [[LF, LF]], offset + 2) else (parts, offset));
           offset1 = start + length normalized
       in rebuild_sections nfc rest (parts1 @ [normalized])
            (secs @ [\<lparr>sec_text = normalized, sec_start = start, sec_end = offset1,
                      sec_page = sec_page s, sec_title = sec_title s\<rparr>]) offset1)"

definition normalize_extracted_document :: "(string \<Rightarrow> string) \<Rightarrow> extracted \<Rightarrow> extracted" where
  "normalize_extracted_document nfc doc =
    (case rebuild_sections nfc (ed_sections doc) [] [] 0 of
      (parts, secs) \<Rightarrow> \<lparr>ed_text = concat parts, ed_sections = secs, ed_metadata = ed_metadata doc\<rparr>)"

subsection \<open>Chunking\<close>

record chunk_draft =
  dr_ordinal :: nat
  dr_text :: string
  dr_start :: nat
  dr_end :: nat
  dr_page_start :: "nat option"
  dr_page_end :: "nat option"

text \<open>\<open>text.find(sub, lo, hi)\<close> and \<open>text.rfind(sub, lo, hi)\<close> for a nonempty \<open>sub\<close>.\<close>

definition occurs_at :: "string \<Rightarrow> string \<Rightarrow> nat \<Rightarrow> nat \<Rightarrow> bool" where
  "occurs_at text0 sub hi i \<longleftrightarrow> i + length sub \<le> hi \<and> take (length sub) (drop i text0) = sub"

definition py_find :: "string \<Rightarrow> string \<Rightarrow> nat \<Rightarrow> nat \<Rightarrow> int" where
  "py_find text0 sub lo hi =
    (case filter (occurs_at text0 sub hi) [lo..<hi] of [] \<Rightarrow> - 1 | i # _ \<Rightarrow> int i)"

definition py_rfind :: "string \<Rightarrow> string \<Rightarrow> nat \<Rightarrow> nat \<Rightarrow> int" where
  "py_rfind text0 sub lo hi =
    (case filter (occurs_at text0 sub hi) (rev [lo..<hi]) of [] \<Rightarrow> - 1 | i # _ \<Rightarrow> int i)"

definition preferred_end :: "string \<Rightarrow> nat \<Rightarrow> nat \<Rightarrow> nat" where
  "preferred_end text0 start maximum =
    (if maximum \<ge> length text0 then length text0
     else
       let floor0 = start + max 1 ((maximum - start) div 2);
           boundary = max (py_rfind text0 [LF, LF] floor0 maximum)
                        (max (py_rfind text0 [LF] floor0 maximum)
                          (py_rfind text0 '' '' floor0 maximum))
       in if boundary > int start then nat boundary else maximum)"

definition pages_for_range ::
  "nat \<Rightarrow> nat \<Rightarrow> text_section list \<Rightarrow> nat option \<times> nat option" where
  "pages_for_range start end0 secs =
    (let pages = List.map_filter (\<lambda>s. if sec_end s > start \<and> sec_start s < end0
                                      then sec_page s else None) secs
     in case pages of [] \<Rightarrow> (None, None)
        | p # ps \<Rightarrow> (Some (foldl min p ps), Some (foldl max p ps)))"

text \<open>\<open>text[i:j]\<close>\<close>

definition slice :: "string \<Rightarrow> nat \<Rightarrow> nat \<Rightarrow> string" where
  "slice text0 i j = take (j - i) (drop i text0)"

text \<open>The two inner loops, which trim white space off a window from the left and from the right.\<close>

function skip_spaces :: "string \<Rightarrow> nat \<Rightarrow> nat \<Rightarrow> nat" where
  "skip_spaces text0 cursor end0 =
    (if cursor < end0 \<and> is_space (text0 ! cursor) then skip_spaces text0 (cursor + 1) end0
     else cursor)"
  by pat_completeness auto
termination by (relation "measure (\<lambda>(t, c, e). e - c)") auto

declare skip_spaces.simps [simp del]

fun trim_end :: "string \<Rightarrow> nat \<Rightarrow> nat \<Rightarrow> nat" where
  "trim_end text0 cursor 0 = 0"
| "trim_end text0 cursor (Suc e) =
    (if Suc e > cursor \<and> is_space (text0 ! e) then trim_end text0 cursor e else Suc e)"

definition next_cursor :: "string \<Rightarrow> nat \<Rightarrow> nat \<Rightarrow> nat \<Rightarrow> nat" where
  "next_cursor text0 cursor end0 overlap =
    (let n = max (cursor + 1) (end0 - overlap);
         boundary = py_find text0 '' '' n (min end0 (n + 80))
     in if overlap \<noteq> 0 \<and> boundary \<noteq> - 1 then nat (boundary + 1) else n)"

lemma py_find_range: "py_find t s lo hi = - 1 \<or> (int lo \<le> py_find t s lo hi \<and> py_find t s lo hi < int hi)"
proof (cases "filter (occurs_at t s hi) [lo..<hi]")
  case (Cons i rest)
  then have "i \<in> set [lo..<hi]" by (metis filter_is_subset list.set_intros(1) subsetD)
  then show ?thesis using Cons by (simp add: py_find_def)
qed (simp add: py_find_def)

lemma next_cursor_bounds:
  assumes "cursor < end0"
  shows "cursor < next_cursor t cursor end0 ov" "next_cursor t cursor end0 ov \<le> end0"
proof -
  define n where "n = max (cursor + 1) (end0 - ov)"
  define b where "b = py_find t '' '' n (min end0 (n + 80))"
  have n: "cursor < n" "n \<le> end0" using assms by (auto simp: n_def)
  have b: "b = - 1 \<or> int n \<le> b \<and> b < int end0"
    using py_find_range [of t "'' ''" n "min end0 (n + 80)"] by (auto simp: b_def)
  have eq: "next_cursor t cursor end0 ov = (if ov \<noteq> 0 \<and> b \<noteq> - 1 then nat (b + 1) else n)"
    by (simp add: next_cursor_def n_def b_def Let_def)
  show "cursor < next_cursor t cursor end0 ov" "next_cursor t cursor end0 ov \<le> end0"
    using n b unfolding eq by (auto simp: nat_le_iff)
qed

text \<open>
  The chunking loop, on the checked configuration: \<open>end - overlap\<close> may be negative in the
  source, where \<open>max\<close> takes the other argument, as truncated subtraction makes it do here.
  The guard \<open>0 < size\<close> is the check at the entry of \<open>chunk_text\<close>, repeated because the loop ends
  only under it.
\<close>

definition draft_at ::
  "string \<Rightarrow> text_section list \<Rightarrow> nat \<Rightarrow> nat \<Rightarrow> nat \<Rightarrow> chunk_draft" where
  "draft_at text0 secs n c e =
    (case pages_for_range c e secs of (page_start, page_end) \<Rightarrow>
      \<lparr>dr_ordinal = n, dr_text = slice text0 c e, dr_start = c, dr_end = e,
       dr_page_start = page_start, dr_page_end = page_end\<rparr>)"

definition window :: "string \<Rightarrow> nat \<Rightarrow> nat \<Rightarrow> nat \<times> nat" where
  "window text0 size0 cursor =
    (let raw_end = min (length text0) (cursor + size0);
         end0 = preferred_end text0 cursor raw_end;
         c = skip_spaces text0 cursor end0
     in (c, trim_end text0 c end0))"

definition keep_draft ::
  "string \<Rightarrow> int \<Rightarrow> text_section list \<Rightarrow> nat \<Rightarrow> nat \<Rightarrow> chunk_draft list \<Rightarrow> chunk_draft list" where
  "keep_draft text0 minimum_chars secs c e drafts =
    (if int (length (py_strip (slice text0 c e))) \<ge> minimum_chars \<or> drafts = []
     then drafts @ [draft_at text0 secs (length drafts) c e] else drafts)"

function chunk_loop ::
  "nat \<Rightarrow> nat \<Rightarrow> int \<Rightarrow> text_section list \<Rightarrow> string \<Rightarrow> nat \<Rightarrow> chunk_draft list \<Rightarrow> chunk_draft list" where
  "chunk_loop size0 overlap minimum_chars secs text0 cursor drafts =
    (if 0 < size0 \<and> cursor < length text0 then
       let (c, e) = window text0 size0 cursor in
       if e \<le> c then
         chunk_loop size0 overlap minimum_chars secs text0 (min (length text0) (cursor + size0)) drafts
       else
         let drafts' = keep_draft text0 minimum_chars secs c e drafts in
         if e \<ge> length text0 then drafts'
         else chunk_loop size0 overlap minimum_chars secs text0 (next_cursor text0 c e overlap) drafts'
     else drafts)"
  by pat_completeness auto

lemma skip_spaces_bounds: "c \<le> skip_spaces t c e" "c \<le> e \<Longrightarrow> skip_spaces t c e \<le> e"
proof (induction t c e rule: skip_spaces.induct)
  case (1 t c e)
  { case 1 show ?case using "1.IH" by (subst skip_spaces.simps) (auto dest: Suc_leD) }
  { case 2 then show ?case using "1.IH" by (subst skip_spaces.simps) auto }
qed

lemma window_step:
  assumes "(c, e) = window t size0 cursor" "\<not> e \<le> c" "\<not> length t \<le> e"
  shows "length t - next_cursor t c e overlap < length t - cursor"
proof -
  from assms have "cursor \<le> c" "c < e" "e < length t"
    by (simp_all add: window_def Let_def skip_spaces_bounds)
  with next_cursor_bounds [of c e t overlap] show ?thesis by linarith
qed

termination chunk_loop
  by (relation "measure (\<lambda>(size0, overlap, m, secs, t, cursor, drafts). length t - cursor)")
    (auto simp: window_step)

declare chunk_loop.simps [simp del]

definition chunk_text ::
  "string \<Rightarrow> int \<Rightarrow> int \<Rightarrow> int \<Rightarrow> text_section list \<Rightarrow> knowledge_error + chunk_draft list" where
  "chunk_text text0 chunk_size overlap minimum_chars secs =
    (if chunk_size \<le> 0 \<or> overlap < 0 \<or> overlap \<ge> chunk_size then Inl ChunkingError
     else if py_strip text0 = [] then Inr []
     else
       let drafts = chunk_loop (nat chunk_size) (nat overlap) minimum_chars secs text0 0 []
       in if drafts = [] then Inl ChunkingError else Inr drafts)"

subsection \<open>Extraction\<close>

text \<open>
  What a stage may raise: an error of the taxonomy, one of the transport errors the task
  retries (\<open>OSError\<close>, \<open>TimeoutError\<close>, \<open>ConnectionError\<close>), or anything else. The reader of PDF files
  and the strict UTF-8 decoder are parameters; \<open>PdfFault\<close> stands for the exceptions
  (\<open>PdfReadError\<close>, \<open>ValueError\<close>, \<open>TypeError\<close>, \<open>OSError\<close>, \<open>EOFError\<close>) the code names. A file is
  its bytes, or \<open>None\<close> when reading it raises \<open>OSError\<close>.
\<close>

datatype ingest_exc = Known knowledge_error | Transport | Unexpected

datatype pdf_exc = PdfFault | PdfOther

record pdf_document =
  pdf_encrypted :: bool
  pdf_pages :: "(pdf_exc + string option) list"
  pdf_boxes :: "pdf_exc option list"

record text_runtime =
  tr_nfc :: "string \<Rightarrow> string"
  tr_decode_utf8_sig :: "string \<Rightarrow> string option"
  tr_read_pdf :: "string option \<Rightarrow> pdf_exc + pdf_document"

record knowledge_settings =
  ks_max_upload_bytes :: int
  ks_max_pdf_pages :: int
  ks_chunk_size :: int
  ks_chunk_overlap :: int
  ks_min_chunk_chars :: int
  ks_embedding_dimension :: nat
  ks_default_top_k :: int
  ks_max_top_k :: int
  ks_max_query_length :: int
  ks_max_attempts :: nat
  ks_stale_seconds :: int
  ks_sweep_batch :: nat

datatype extractor = PlainTextExtractor | PdfTextExtractor

fun extractor_version :: "extractor \<Rightarrow> string" where
  "extractor_version PlainTextExtractor = ''plain-text-v1''"
| "extractor_version PdfTextExtractor = ''pypdf-6.15.0-v1''"

fun extractor_supports :: "extractor \<Rightarrow> string \<Rightarrow> bool" where
  "extractor_supports PlainTextExtractor ct = (ct = ''text/plain'' \<or> ct = ''text/markdown'')"
| "extractor_supports PdfTextExtractor ct = (ct = ''application/pdf'')"

definition get_extractor :: "string \<Rightarrow> knowledge_error + extractor" where
  "get_extractor content_type =
    (case List.find (\<lambda>x. extractor_supports x content_type) [PlainTextExtractor, PdfTextExtractor] of
      Some x \<Rightarrow> Inr x | None \<Rightarrow> Inl ExtractionError)"

definition extract_plain :: "text_runtime \<Rightarrow> string option \<Rightarrow> knowledge_error + extracted" where
  "extract_plain tr file =
    (case Option.bind file (tr_decode_utf8_sig tr) of
      None \<Rightarrow> Inl ExtractionError
    | Some t \<Rightarrow> Inr \<lparr>ed_text = t,
        ed_sections = [\<lparr>sec_text = t, sec_start = 0, sec_end = length t, sec_page = None,
                        sec_title = None\<rparr>],
        ed_metadata = JObj [(''format'', JStr ''text'')]\<rparr>)"

definition pdf_failure :: "pdf_exc \<Rightarrow> knowledge_error" where
  "pdf_failure x = (case x of PdfFault \<Rightarrow> MalformedPdfError | PdfOther \<Rightarrow> ExtractionError)"

fun pdf_sections ::
  "(pdf_exc + string option) list \<Rightarrow> nat \<Rightarrow> string list \<Rightarrow> text_section list \<Rightarrow> nat \<Rightarrow>
   pdf_exc + (string list \<times> text_section list)" where
  "pdf_sections [] page_number parts secs offset = Inr (parts, secs)"
| "pdf_sections (Inl x # pages) page_number parts secs offset = Inl x"
| "pdf_sections (Inr txt0 # pages) page_number parts secs offset =
    (let page_text = (case txt0 of None \<Rightarrow> [] | Some t \<Rightarrow> t);
         (parts1, start) =
           (if parts \<noteq> [] then (parts @ [[LF, LF]], offset + 2) else (parts, offset));
         offset1 = start + length page_text
     in pdf_sections pages (page_number + 1) (parts1 @ [page_text])
          (secs @ [\<lparr>sec_text = page_text, sec_start = start, sec_end = offset1,
                    sec_page = Some page_number, sec_title = None\<rparr>]) offset1)"

definition extract_pdf ::
  "text_runtime \<Rightarrow> knowledge_settings \<Rightarrow> string option \<Rightarrow> knowledge_error + extracted" where
  "extract_pdf tr ks file =
    (case tr_read_pdf tr file of
      Inl x \<Rightarrow> Inl (pdf_failure x)
    | Inr doc \<Rightarrow>
        if pdf_encrypted doc then Inl EncryptedPdfError
        else if int (length (pdf_pages doc)) > ks_max_pdf_pages ks then Inl PdfPageLimitError
        else case pdf_sections (pdf_pages doc) 1 [] [] 0 of
            Inl x \<Rightarrow> Inl (pdf_failure x)
          | Inr (parts, secs) \<Rightarrow> Inr \<lparr>ed_text = concat parts, ed_sections = secs,
              ed_metadata = JObj [(''page_count'', JInt (int (length (pdf_pages doc))))]\<rparr>)"

fun extract_text ::
  "text_runtime \<Rightarrow> knowledge_settings \<Rightarrow> extractor \<Rightarrow> string option \<Rightarrow>
   knowledge_error + extracted" where
  "extract_text tr ks PlainTextExtractor file = extract_plain tr file"
| "extract_text tr ks PdfTextExtractor file = extract_pdf tr ks file"

subsection \<open>Embedding vectors\<close>

text \<open>A component a provider returned: a Python bool, int, float or some other object.\<close>

datatype scalar = PyBool bool | PyInt int | PyFloat pyfloat | PyOther

definition validate_component :: "scalar \<Rightarrow> ingest_exc + rat" where
  "validate_component v =
    (case v of
      PyBool b \<Rightarrow> Inl (Known InvalidEmbeddingError)
    | PyInt n \<Rightarrow> (case float_of_int n of None \<Rightarrow> Inl Unexpected | Some x \<Rightarrow> Inr x)
    | PyFloat (Finite x) \<Rightarrow> Inr x
    | PyFloat _ \<Rightarrow> Inl (Known InvalidEmbeddingError)
    | PyOther \<Rightarrow> Inl (Known InvalidEmbeddingError))"

fun validate_all :: "('a \<Rightarrow> 'e + 'b) \<Rightarrow> 'a list \<Rightarrow> 'e + 'b list" where
  "validate_all f [] = Inr []"
| "validate_all f (x # xs) =
    (case f x of Inl e \<Rightarrow> Inl e
     | Inr y \<Rightarrow> (case validate_all f xs of Inl e \<Rightarrow> Inl e | Inr ys \<Rightarrow> Inr (y # ys)))"

definition validate_vector :: "nat \<Rightarrow> scalar list \<Rightarrow> ingest_exc + rat list" where
  "validate_vector dimension v =
    (if length v \<noteq> dimension then Inl (Known InvalidEmbeddingError)
     else validate_all validate_component v)"

definition validate_embeddings :: "scalar list list \<Rightarrow> nat \<Rightarrow> nat \<Rightarrow> ingest_exc + rat list list" where
  "validate_embeddings vectors expected_count dimension =
    (if length vectors \<noteq> expected_count then Inl (Known InvalidEmbeddingError)
     else validate_all (validate_vector dimension) vectors)"

text \<open>The interface of an embedding provider, \<open>EmbeddingProvider\<close>.\<close>

record embedding_provider =
  ep_name :: string
  ep_model :: string
  ep_dimension :: nat
  ep_embed_documents :: "string list \<Rightarrow> ingest_exc + scalar list list"
  ep_embed_query :: "string \<Rightarrow> ingest_exc + scalar list"

subsection \<open>The computation between the two transactions of an ingestion\<close>

text \<open>
  \<open>stored_file.open\<close> raises a transport error or gives the file. The block under the \<open>try\<close> of
  \<open>run_ingestion\<close> computes the normalized text, the drafts and their vectors, or raises.
\<close>

datatype stored_file = OpenFails | Opened "string option"

record ingested =
  ig_text :: string
  ig_drafts :: "chunk_draft list"
  ig_vectors :: "rat list list"
  ig_extractor :: extractor

definition lift_known :: "(knowledge_error + 'a) \<Rightarrow> ('a \<Rightarrow> ingest_exc + 'b) \<Rightarrow> ingest_exc + 'b" where
  "lift_known r f = (case r of Inl e \<Rightarrow> Inl (Known e) | Inr a \<Rightarrow> f a)"

definition ingest_compute ::
  "text_runtime \<Rightarrow> knowledge_settings \<Rightarrow> embedding_provider \<Rightarrow> string \<Rightarrow> stored_file \<Rightarrow>
   ingest_exc + ingested" where
  "ingest_compute tr ks ep content_type stored =
    (case stored of
      OpenFails \<Rightarrow> Inl Transport
    | Opened file \<Rightarrow>
        lift_known (get_extractor content_type) (\<lambda>x.
        lift_known (extract_text tr ks x file) (\<lambda>raw.
          let normalized_document = normalize_extracted_document (tr_nfc tr) raw;
              normalized = ed_text normalized_document
          in if int (length (py_strip normalized)) < ks_min_chunk_chars ks
             then Inl (Known NoExtractableTextError)
             else
               lift_known
                 (chunk_text normalized (ks_chunk_size ks) (ks_chunk_overlap ks)
                    (ks_min_chunk_chars ks) (ed_sections normalized_document))
                 (\<lambda>drafts. case ep_embed_documents ep (map dr_text drafts) of
                     Inl e \<Rightarrow> Inl e
                   | Inr vectors \<Rightarrow>
                       (case validate_embeddings vectors (length drafts) (ks_embedding_dimension ks) of
                         Inl e \<Rightarrow> Inl e
                       | Inr vs \<Rightarrow> Inr \<lparr>ig_text = normalized, ig_drafts = drafts,
                                        ig_vectors = vs, ig_extractor = x\<rparr>)))))"

subsection \<open>Validation of uploads\<close>

record upload =
  up_name :: string
  up_size :: "int option"
  up_content_type :: string
  up_data :: string

record validated_upload =
  vu_original_filename :: string
  vu_content_type :: string
  vu_size :: int

text \<open>\<open>PurePath(s).name\<close>: the last component other than the empty one and the dot.\<close>

definition pure_path_name :: "string \<Rightarrow> string" where
  "pure_path_name s =
    (case rev (filter (\<lambda>p. p \<noteq> [] \<and> p \<noteq> ''.'') (split_on (CHR ''/'') s)) of
      [] \<Rightarrow> [] | p # _ \<Rightarrow> p)"

text \<open>\<open>Path(name).suffix\<close>: from the last dot, unless it is the first or the last character.\<close>

definition path_suffix :: "string \<Rightarrow> string" where
  "path_suffix s =
    (let n = pure_path_name s; ext = takeWhile (\<lambda>c. c \<noteq> CHR ''.'') (rev n)
     in if ext = [] \<or> length ext + 1 \<ge> length n then [] else CHR ''.'' # rev ext)"

definition safe_filename :: "string \<Rightarrow> knowledge_error + string" where
  "safe_filename n =
    (if n = [] \<or> NUL \<in> set n then Inl InvalidFileError
     else
       let normalized = map (\<lambda>c. if c = CHR 0x5C then CHR ''/'' else c) n
       in if pure_path_name normalized \<noteq> normalized \<or> normalized \<in> {''.'', ''..''}
          then Inl InvalidFileError else Inr normalized)"

definition validate_pdf_stream ::
  "text_runtime \<Rightarrow> knowledge_settings \<Rightarrow> string \<Rightarrow> ingest_exc option" where
  "validate_pdf_stream tr ks file_data =
    (let fault = (\<lambda>x. case x of PdfFault \<Rightarrow> Some (Known MalformedPdfError)
                               | PdfOther \<Rightarrow> Some Unexpected)
     in if take 5 file_data \<noteq> ''%PDF-'' then Some (Known MalformedPdfError)
        else case tr_read_pdf tr (Some file_data) of
            Inl x \<Rightarrow> fault x
          | Inr doc \<Rightarrow>
              if pdf_encrypted doc then Some (Known EncryptedPdfError)
              else if int (length (pdf_pages doc)) > ks_max_pdf_pages ks
                then Some (Known PdfPageLimitError)
              else case List.map_filter (\<lambda>b. b) (pdf_boxes doc) of
                  [] \<Rightarrow> None | x # _ \<Rightarrow> fault x)"

definition allowed_extensions :: "string \<Rightarrow> string list option" where
  "allowed_extensions = map_of
    [(''application/pdf'', [''.pdf'']), (''text/plain'', [''.txt'']),
     (''text/markdown'', [''.md'', ''.markdown''])]"

text \<open>\<open>bytes.lstrip()\<close> strips ASCII white space.\<close>

definition is_byte_space :: "char \<Rightarrow> bool" where
  "is_byte_space c \<longleftrightarrow> c = CHR '' '' \<or> (let n = of_char c :: nat in 9 \<le> n \<and> n \<le> 13)"

definition validate_upload ::
  "text_runtime \<Rightarrow> knowledge_settings \<Rightarrow> upload \<Rightarrow> ingest_exc + validated_upload" where
  "validate_upload tr ks u =
    lift_known (safe_filename (up_name u)) (\<lambda>n.
      case up_size u of None \<Rightarrow> Inl (Known EmptyFileError)
      | Some size0 \<Rightarrow>
        if size0 \<le> 0 then Inl (Known EmptyFileError)
        else if size0 > ks_max_upload_bytes ks then Inl (Known FileTooLargeError)
        else
          let extension = str_lower (path_suffix n);
              content_type = py_strip (takeWhile (\<lambda>c. c \<noteq> CHR '';'') (str_lower (up_content_type u)))
          in case allowed_extensions content_type of
              None \<Rightarrow> Inl (Known UnsupportedFileTypeError)
            | Some exts \<Rightarrow>
                if extension \<notin> set exts then Inl (Known UnsupportedFileTypeError)
                else
                  let prefix0 = take (nat (min size0 4096)) (up_data u);
                      ok = Inr \<lparr>vu_original_filename = n, vu_content_type = content_type,
                                vu_size = size0\<rparr>
                  in if NUL \<in> set prefix0 \<and> content_type \<noteq> ''application/pdf''
                     then Inl (Known InvalidFileError)
                     else if content_type = ''application/pdf'' then
                       (case validate_pdf_stream tr ks (up_data u) of Some x \<Rightarrow> Inl x | None \<Rightarrow> ok)
                     else if list_ex (\<lambda>p. starts_with p prefix0)
                               [''%PDF-'', ''MZ'', CHR 0x7F # ''ELF'', ''PK'' @ [CHR 0x03, CHR 0x04]]
                          \<or> list_ex (\<lambda>p. starts_with p (str_lower (dropWhile is_byte_space prefix0)))
                               [''<html'', ''<!doctype html'', ''<script'']
                     then Inl (Known UnsupportedFileTypeError)
                     else ok)"

end
