(* ===== verification/Knowledge.thy ===== *)
theory Knowledge
  imports Ingestion "HOL-Library.Product_Lexorder"
begin

section \<open>Knowledge: documents, ingestion jobs and retrieval\<close>

text \<open>
  The rows of \<open>knowledge/models.py\<close>, the services of \<open>knowledge/services.py\<close> with the Celery
  boundary (\<open>tasks.py\<close>) and the recovery sweep (\<open>recovery.py\<close>), the tenant-first selectors, and
  retrieval (\<open>retrieval/services.py\<close>). An ingestion is two transactions with a computation between
  them, so it is split the same way: \<open>begin_ingestion\<close>, \<open>ingest_compute\<close>, and the block that stores
  its outcome. The storage backend, the embedding provider and the cosine distance of the database
  are parameters.
\<close>

subsection \<open>Rows\<close>

datatype document_status = KD_PENDING | KD_QUEUED | KD_PROCESSING | KD_READY | KD_FAILED
datatype ingestion_status = KI_QUEUED | KI_PROCESSING | KI_SUCCEEDED | KI_FAILED

fun ingestion_status_value :: "ingestion_status \<Rightarrow> string" where
  "ingestion_status_value KI_QUEUED = ''queued''"
| "ingestion_status_value KI_PROCESSING = ''processing''"
| "ingestion_status_value KI_SUCCEEDED = ''succeeded''"
| "ingestion_status_value KI_FAILED = ''failed''"

record source =
  so_workspace :: nat
  so_name :: string
  so_description :: string
  so_source_type :: string
  so_is_active :: bool
  so_metadata :: json
  so_created_at :: int

record document =
  dc_workspace :: nat
  dc_source :: nat
  dc_uploaded_by :: "nat option"
  dc_title :: string
  dc_original_filename :: string
  dc_stored_file :: string
  dc_content_type :: string
  dc_file_size :: int
  dc_content_sha256 :: string
  dc_status :: document_status
  dc_is_active :: bool
  dc_extracted_char_count :: nat
  dc_chunk_count :: nat
  dc_last_ingested_at :: "int option"
  dc_last_error_code :: string
  dc_last_error_message_safe :: string
  dc_metadata :: json
  dc_created_at :: int

text \<open>The idempotency key of a job is the pair its text joins with a colon.\<close>

record ingestion_job =
  ij_workspace :: nat
  ij_document :: nat
  ij_status :: ingestion_status
  ij_attempt_count :: nat
  ij_idempotency_key :: "nat \<times> string"
  ij_started_at :: "int option"
  ij_finished_at :: "int option"
  ij_error_code :: string
  ij_safe_error_message :: string
  ij_extractor_version :: string
  ij_chunker_version :: string
  ij_embedding_provider :: string
  ij_embedding_model :: string
  ij_embedding_dimension :: "nat option"
  ij_created_at :: int

record chunk =
  ck_workspace :: nat
  ck_document :: nat
  ck_ordinal :: nat
  ck_text :: string
  ck_start_offset :: nat
  ck_end_offset :: nat
  ck_page_start :: "nat option"
  ck_page_end :: "nat option"
  ck_embedding :: "rat list"

record retrieval_event =
  re_workspace :: nat
  re_actor :: "nat option"
  re_query :: string
  re_embedding_provider :: string
  re_embedding_model :: string
  re_top_k :: int
  re_minimum_score :: "rat option"
  re_result_count :: nat

record citation =
  ct_page_start :: "nat option"
  ct_page_end :: "nat option"
  ct_start_offset :: nat
  ct_end_offset :: nat
  ct_chunk_ordinal :: nat

record retrieval_hit =
  rh_event :: nat
  rh_workspace :: nat
  rh_chunk :: nat
  rh_rank :: nat
  rh_score :: pyfloat
  rh_citation :: citation

record knowledge =
  kn_sources :: "source rows"
  kn_documents :: "document rows"
  kn_jobs :: "ingestion_job rows"
  kn_chunks :: "chunk rows"
  kn_events :: "retrieval_event rows"
  kn_hits :: "retrieval_hit rows"
  kn_effects :: "effect list"

text \<open>
  What the services raise: \<open>ConflictError\<close>, the ValueError of a foreign row, Http404, an error of
  the taxonomy, a fault of the stages before it is classified, and what the database raises.
\<close>

datatype knowledge_exc =
    Conflict | ForeignRow | Http404 | KnowledgeFault knowledge_error | RawFault | KnowledgeDb db_exc
  | ProtectedError

type_synonym 'a knowledge_svc = "(knowledge, knowledge_exc, 'a) svc"

definition kn_effect :: "effect \<Rightarrow> knowledge \<Rightarrow> knowledge" where
  "kn_effect e s = s\<lparr>kn_effects := kn_effects s @ [e]\<rparr>"

definition ingest_task :: string where
  "ingest_task = ''knowledge.tasks.ingest_knowledge_document''"

definition knowledge_management_roles :: "workspace_role set" where
  "knowledge_management_roles = {OWNER, ADMIN, SUPPORT_MANAGER}"

definition can_manage_knowledge :: "workspace_role option \<Rightarrow> bool" where
  "can_manage_knowledge role = (case role of None \<Rightarrow> False | Some r \<Rightarrow> r \<in> knowledge_management_roles)"

subsection \<open>Sources\<close>

text \<open>\<open>" ".join(name.split())\<close>, which \<open>KnowledgeSource.save\<close> applies to the name.\<close>

fun squash_spaces :: "bool \<Rightarrow> string \<Rightarrow> string" where
  "squash_spaces pending [] = []"
| "squash_spaces pending (c # s) =
    (if is_space c then squash_spaces True s
     else (if pending then [CHR '' ''] else []) @ c # squash_spaces False s)"

definition source_name :: "string \<Rightarrow> string" where
  "source_name s = squash_spaces False (py_lstrip s)"

definition save_source :: "nat \<Rightarrow> source \<Rightarrow> knowledge \<Rightarrow> knowledge \<times> (knowledge_exc + source)" where
  "save_source k so s =
    (let row = so\<lparr>so_name := source_name (so_name so)\<rparr> in
     if \<not> fits 200 (so_name row) then (s, Inl (KnowledgeDb DataError))
     else if so_name row = [] then (s, Inl (KnowledgeDb IntegrityError))
     else (s\<lparr>kn_sources := row_put k row (kn_sources s)\<rparr>, Inr row))"

record source_data =
  sd_name :: "string option"
  sd_description :: "string option"
  sd_source_type :: "string option"
  sd_metadata :: "json option"
  sd_is_active :: "bool option"

definition create_source ::
  "nat \<Rightarrow> nat \<Rightarrow> string \<Rightarrow> source_data \<Rightarrow> int \<Rightarrow> string option \<Rightarrow> (nat \<times> source) knowledge_svc" where
  "create_source ws actor nm data now request_id = atomic (\<lambda>s.
    let k = fresh_id (kn_sources s);
        so = \<lparr>so_workspace = ws, so_name = nm,
              so_description = (case sd_description data of None \<Rightarrow> '''' | Some v \<Rightarrow> v),
              so_source_type = (case sd_source_type data of None \<Rightarrow> ''upload'' | Some v \<Rightarrow> v),
              so_is_active = True,
              so_metadata = (case sd_metadata data of None \<Rightarrow> JObj [] | Some v \<Rightarrow> v),
              so_created_at = now\<rparr>
    in case save_source k so s of
        (s', Inl e) \<Rightarrow> (s', Inl e)
      | (s', Inr row) \<Rightarrow>
          (kn_effect (record_event ''knowledge.source_created'' ''knowledge_source'' k (Some actor)
             (Some ws) (JObj [(''source_id'', jid k)]) request_id) s', Inr (k, row)))"

definition patched_source :: "source_data \<Rightarrow> source \<Rightarrow> source" where
  "patched_source data so =
    so\<lparr>so_name := (case sd_name data of None \<Rightarrow> so_name so | Some v \<Rightarrow> v),
       so_description := (case sd_description data of None \<Rightarrow> so_description so | Some v \<Rightarrow> v),
       so_source_type := (case sd_source_type data of None \<Rightarrow> so_source_type so | Some v \<Rightarrow> v),
       so_metadata := (case sd_metadata data of None \<Rightarrow> so_metadata so | Some v \<Rightarrow> v),
       so_is_active := (case sd_is_active data of None \<Rightarrow> so_is_active so | Some v \<Rightarrow> v)\<rparr>"

text \<open>The service saves every column of the instance its caller loaded.\<close>

definition update_source ::
  "nat \<Rightarrow> nat \<Rightarrow> source \<Rightarrow> nat \<Rightarrow> source_data \<Rightarrow> string option \<Rightarrow> source knowledge_svc" where
  "update_source ws k so actor data request_id =
    (if so_workspace so \<noteq> ws then svc_raise ForeignRow
     else atomic (\<lambda>s.
       let was_active = so_is_active so; so' = patched_source data so in
       case save_source k so' s of
         (s', Inl e) \<Rightarrow> (s', Inl e)
       | (s', Inr row) \<Rightarrow>
           (kn_effect (record_event
              (if was_active \<and> \<not> so_is_active row then ''knowledge.source_deactivated''
               else ''knowledge.source_updated'')
              ''knowledge_source'' k (Some actor) (Some ws) (JObj [(''source_id'', jid k)]) request_id) s',
            Inr row)))"

subsection \<open>Documents and their jobs\<close>

definition upload_document ::
  "py_runtime \<Rightarrow> text_runtime \<Rightarrow> knowledge_settings \<Rightarrow> nat \<Rightarrow> nat \<Rightarrow> source \<Rightarrow> nat \<Rightarrow> string \<Rightarrow> upload \<Rightarrow>
   json \<Rightarrow> int \<Rightarrow> string option \<Rightarrow> (nat \<times> nat) knowledge_svc" where
  "upload_document rt tr ks ws source_id so actor title up metadata now request_id =
    (if so_workspace so \<noteq> ws \<or> \<not> so_is_active so then svc_raise Conflict
     else case validate_upload tr ks up of
       Inl (Known e) \<Rightarrow> svc_raise (KnowledgeFault e)
     | Inl _ \<Rightarrow> svc_raise RawFault
     | Inr v \<Rightarrow>
        (let content_hash = rt_sha256 rt (up_data up) in atomic (\<lambda>s.
          let d = fresh_id (kn_documents s); j = fresh_id (kn_jobs s);
              dc = \<lparr>dc_workspace = ws, dc_source = source_id, dc_uploaded_by = Some actor,
                    dc_title = (if py_strip title \<noteq> [] then py_strip title else vu_original_filename v),
                    dc_original_filename = vu_original_filename v, dc_stored_file = up_data up,
                    dc_content_type = vu_content_type v, dc_file_size = vu_size v,
                    dc_content_sha256 = content_hash, dc_status = KD_QUEUED, dc_is_active = True,
                    dc_extracted_char_count = 0, dc_chunk_count = 0, dc_last_ingested_at = None,
                    dc_last_error_code = '''', dc_last_error_message_safe = '''',
                    dc_metadata = (if py_truthy metadata then metadata else JObj []),
                    dc_created_at = now\<rparr>;
              ij = \<lparr>ij_workspace = ws, ij_document = d, ij_status = KI_QUEUED, ij_attempt_count = 0,
                    ij_idempotency_key = (d, content_hash), ij_started_at = None,
                    ij_finished_at = None, ij_error_code = '''', ij_safe_error_message = '''',
                    ij_extractor_version = '''', ij_chunker_version = '''',
                    ij_embedding_provider = '''', ij_embedding_model = '''',
                    ij_embedding_dimension = None, ij_created_at = now\<rparr>
          in if \<not> fits 255 (dc_title dc) \<or> \<not> fits 255 (dc_original_filename dc)
                \<or> \<not> fits 64 content_hash then (s, Inl (KnowledgeDb DataError))
             else if list_ex (\<lambda>(i, jr). ij_idempotency_key jr = (d, content_hash)) (kn_jobs s)
               then (s, Inl (KnowledgeDb IntegrityError))
             else
               (kn_effect (Task ingest_task j)
                 (kn_effect (record_event ''knowledge.document_uploaded'' ''knowledge_document'' d
                    (Some actor) (Some ws)
                    (JObj [(''document_id'', jid d), (''source_id'', jid source_id)]) request_id)
                   (s\<lparr>kn_documents := row_put d dc (kn_documents s),
                      kn_jobs := row_put j ij (kn_jobs s)\<rparr>)),
                Inr (d, j)))))"

text \<open>\<open>locked.ingestion_jobs.order_by("-created_at").first()\<close>\<close>

definition latest_job :: "nat \<Rightarrow> ingestion_job rows \<Rightarrow> (nat \<times> ingestion_job) option" where
  "latest_job d t =
    (case rev (sort_key (\<lambda>(i, jr). ij_created_at jr) (rows_where (\<lambda>i jr. ij_document jr = d) t)) of
      [] \<Rightarrow> None | x # _ \<Rightarrow> Some x)"

definition requeued_job :: "ingestion_job \<Rightarrow> ingestion_job" where
  "requeued_job jr = jr\<lparr>ij_status := KI_QUEUED, ij_attempt_count := 0, ij_started_at := None,
    ij_finished_at := None, ij_error_code := '''', ij_safe_error_message := ''''\<rparr>"

definition requeued_document :: "document \<Rightarrow> document" where
  "requeued_document dr = dr\<lparr>dc_status := KD_QUEUED, dc_last_error_code := '''',
    dc_last_error_message_safe := ''''\<rparr>"

definition put_job_document ::
  "nat \<Rightarrow> ingestion_job \<Rightarrow> nat \<Rightarrow> document \<Rightarrow> knowledge \<Rightarrow> knowledge" where
  "put_job_document j jr d dr s =
    s\<lparr>kn_jobs := row_put j jr (kn_jobs s), kn_documents := row_put d dr (kn_documents s)\<rparr>"

definition retry_document ::
  "nat \<Rightarrow> nat \<Rightarrow> document \<Rightarrow> nat \<Rightarrow> string option \<Rightarrow> nat knowledge_svc" where
  "retry_document ws d instance actor request_id =
    (if dc_workspace instance \<noteq> ws then svc_raise ForeignRow
     else atomic (\<lambda>s.
       case row_get (kn_documents s) d of
         None \<Rightarrow> (s, Inl (KnowledgeDb DoesNotExist))
       | Some dr \<Rightarrow>
         if dc_status dr \<noteq> KD_FAILED then (s, Inl Conflict)
         else case latest_job d (kn_jobs s) of
           None \<Rightarrow> (s, Inl Conflict)
         | Some (j, jr) \<Rightarrow>
             (kn_effect (Task ingest_task j)
               (kn_effect (record_event ''knowledge.document_retry_requested'' ''knowledge_document''
                  d (Some actor) (Some ws)
                  (JObj [(''document_id'', jid d), (''job_id'', jid j)]) request_id)
                 (put_job_document j (requeued_job jr) d (requeued_document dr) s)),
              Inr j)))"

subsection \<open>Running a job\<close>

text \<open>\<open>select_for_update().select_related("document").get(pk=job_id)\<close> locks the job and its document.\<close>

definition locked_job ::
  "nat \<Rightarrow> (nat \<Rightarrow> ingestion_job \<Rightarrow> nat \<Rightarrow> document \<Rightarrow> 'a knowledge_svc) \<Rightarrow> 'a knowledge_svc" where
  "locked_job j f = atomic (\<lambda>s.
    case row_get (kn_jobs s) j of
      None \<Rightarrow> (s, Inl (KnowledgeDb DoesNotExist))
    | Some jr \<Rightarrow>
        (case row_get (kn_documents s) (ij_document jr) of
          None \<Rightarrow> (s, Inl (KnowledgeDb DoesNotExist))
        | Some dr \<Rightarrow> f j jr (ij_document jr) dr s))"

definition mark_failed :: "nat \<Rightarrow> knowledge_error \<Rightarrow> int \<Rightarrow> unit knowledge_svc" where
  "mark_failed job_id e now = locked_job job_id (\<lambda>j jr d dr s.
    if ij_status jr = KI_SUCCEEDED then (s, Inr ())
    else (put_job_document j
            (jr\<lparr>ij_status := KI_FAILED, ij_finished_at := Some now, ij_error_code := knowledge_code e,
                ij_safe_error_message := knowledge_message e\<rparr>) d
            (dr\<lparr>dc_status := KD_FAILED, dc_last_error_code := knowledge_code e,
                dc_last_error_message_safe := knowledge_message e\<rparr>) s, Inr ()))"

definition mark_retryable_failure :: "nat \<Rightarrow> knowledge_error \<Rightarrow> unit knowledge_svc" where
  "mark_retryable_failure job_id e = locked_job job_id (\<lambda>j jr d dr s.
    if ij_status jr = KI_SUCCEEDED then (s, Inr ())
    else (put_job_document j
            (jr\<lparr>ij_status := KI_QUEUED, ij_error_code := knowledge_code e,
                ij_safe_error_message := knowledge_message e\<rparr>) d
            (dr\<lparr>dc_status := KD_QUEUED\<rparr>) s, Inr ()))"

record ingestion_outcome =
  io_job :: nat
  io_status :: ingestion_status
  io_chunk_count :: nat
  io_already_complete :: bool

text \<open>The first transaction: an outcome if the job has succeeded, the claimed document otherwise.\<close>

definition begin_ingestion ::
  "nat \<Rightarrow> int \<Rightarrow> (ingestion_outcome + document) knowledge_svc" where
  "begin_ingestion job_id now = locked_job job_id (\<lambda>j jr d dr s.
    if ij_status jr = KI_SUCCEEDED then
      (s, Inr (Inl \<lparr>io_job = j, io_status = ij_status jr, io_chunk_count = dc_chunk_count dr,
                    io_already_complete = True\<rparr>))
    else
      (let dr' = dr\<lparr>dc_status := KD_PROCESSING\<rparr> in
       (put_job_document j
          (jr\<lparr>ij_status := KI_PROCESSING, ij_attempt_count := ij_attempt_count jr + 1,
              ij_started_at := Some now, ij_finished_at := None\<rparr>) d dr' s,
        Inr (Inr dr'))))"

text \<open>
  \<open>KnowledgeChunk.objects.filter(document=d).delete()\<close>: a retrieval hit protects its chunk.
  \<open>bulk_create\<close> of the drafts: the pair of document and ordinal is unique.
\<close>

definition delete_chunks :: "nat \<Rightarrow> knowledge \<Rightarrow> knowledge \<times> (knowledge_exc + unit)" where
  "delete_chunks d s =
    (if list_ex (\<lambda>(h, hr). case row_get (kn_chunks s) (rh_chunk hr) of
         None \<Rightarrow> False | Some c \<Rightarrow> ck_document c = d) (kn_hits s)
     then (s, Inl ProtectedError)
     else (s\<lparr>kn_chunks := rows_where (\<lambda>k c. ck_document c \<noteq> d) (kn_chunks s)\<rparr>, Inr ()))"

definition chunk_of :: "nat \<Rightarrow> nat \<Rightarrow> chunk_draft \<times> rat list \<Rightarrow> chunk" where
  "chunk_of ws d p = (case p of (dft, vec) \<Rightarrow>
    \<lparr>ck_workspace = ws, ck_document = d, ck_ordinal = dr_ordinal dft, ck_text = dr_text dft,
     ck_start_offset = dr_start dft, ck_end_offset = dr_end dft, ck_page_start = dr_page_start dft,
     ck_page_end = dr_page_end dft, ck_embedding = vec\<rparr>)"

primrec insert_chunks :: "chunk list \<Rightarrow> chunk rows \<Rightarrow> chunk rows option" where
  "insert_chunks [] t = Some t"
| "insert_chunks (c # cs) t =
    (if list_ex (\<lambda>(k, c'). ck_document c' = ck_document c \<and> ck_ordinal c' = ck_ordinal c) t then None
     else insert_chunks cs (row_put (fresh_id t) c t))"

definition chunker_version :: string where
  "chunker_version = ''paragraph-char-v1''"

definition ready_document :: "int \<Rightarrow> ingested \<Rightarrow> document \<Rightarrow> document" where
  "ready_document now ig dr = dr\<lparr>dc_status := KD_READY, dc_extracted_char_count := length (ig_text ig),
    dc_chunk_count := length (ig_drafts ig), dc_last_ingested_at := Some now,
    dc_last_error_code := '''', dc_last_error_message_safe := ''''\<rparr>"

definition succeeded_job :: "int \<Rightarrow> embedding_provider \<Rightarrow> ingested \<Rightarrow> ingestion_job \<Rightarrow> ingestion_job" where
  "succeeded_job now ep ig jr = jr\<lparr>ij_status := KI_SUCCEEDED, ij_finished_at := Some now,
    ij_error_code := '''', ij_safe_error_message := '''',
    ij_extractor_version := extractor_version (ig_extractor ig), ij_chunker_version := chunker_version,
    ij_embedding_provider := ep_name ep, ij_embedding_model := ep_model ep,
    ij_embedding_dimension := Some (ep_dimension ep)\<rparr>"

definition store_ingested ::
  "embedding_provider \<Rightarrow> nat \<Rightarrow> ingested \<Rightarrow> int \<Rightarrow> ingestion_outcome knowledge_svc" where
  "store_ingested ep job_id ig now = locked_job job_id (\<lambda>j jr d dr s.
    if ij_status jr \<noteq> KI_PROCESSING then
      (s, Inr \<lparr>io_job = j, io_status = ij_status jr, io_chunk_count = dc_chunk_count dr,
               io_already_complete = True\<rparr>)
    else case delete_chunks d s of
        (s1, Inl e) \<Rightarrow> (s1, Inl e)
      | (s1, Inr u) \<Rightarrow>
          (case insert_chunks (map (chunk_of (dc_workspace dr) d) (zip (ig_drafts ig) (ig_vectors ig)))
                  (kn_chunks s1) of
            None \<Rightarrow> (s1, Inl (KnowledgeDb IntegrityError))
          | Some t \<Rightarrow>
              (put_job_document j (succeeded_job now ep ig jr) d (ready_document now ig dr)
                 (s1\<lparr>kn_chunks := t\<rparr>),
               Inr \<lparr>io_job = j, io_status = KI_SUCCEEDED, io_chunk_count = length (ig_drafts ig),
                    io_already_complete = False\<rparr>)))"

text \<open>The rest of \<open>run_ingestion\<close> once the computation has ended, with its exception handlers.\<close>

definition settle_ingestion ::
  "embedding_provider \<Rightarrow> nat \<Rightarrow> ingest_exc + ingested \<Rightarrow> int \<Rightarrow> ingestion_outcome knowledge_svc" where
  "settle_ingestion ep job_id result now =
    (let retryable =
        svc_bind (mark_retryable_failure job_id RetryableIngestionError)
          (\<lambda>u. svc_raise (KnowledgeFault RetryableIngestionError))
     in case result of
       Inr ig \<Rightarrow> store_ingested ep job_id ig now
     | Inl (Known e) \<Rightarrow>
         if is_permanent e then
           svc_bind (mark_failed job_id e now)
             (\<lambda>u. svc_return \<lparr>io_job = job_id, io_status = KI_FAILED, io_chunk_count = 0,
                             io_already_complete = False\<rparr>)
         else retryable
     | Inl Transport \<Rightarrow> retryable
     | Inl Unexpected \<Rightarrow> retryable)"

definition run_ingestion ::
  "text_runtime \<Rightarrow> knowledge_settings \<Rightarrow> embedding_provider \<Rightarrow> (document \<Rightarrow> stored_file) \<Rightarrow> (nat \<Rightarrow> int) \<Rightarrow>
   nat \<Rightarrow> ingestion_outcome knowledge_svc" where
  "run_ingestion tr ks ep storage clk job_id =
    svc_bind (begin_ingestion job_id (clk 0)) (\<lambda>b.
      case b of
        Inl outcome \<Rightarrow> svc_return outcome
      | Inr dr \<Rightarrow>
          settle_ingestion ep job_id (ingest_compute tr ks ep (dc_content_type dr) (storage dr)) (clk 1))"

text \<open>
  The task. \<open>Finished\<close> carries the outcome the task returns, \<open>GaveUp\<close> the dictionary of a job given
  up after its last attempt, \<open>Retrying\<close> the exception \<open>self.retry\<close> raises with its countdown.
\<close>

datatype task_result = Finished ingestion_outcome | GaveUp | Retrying nat

definition ingest_knowledge_document ::
  "text_runtime \<Rightarrow> knowledge_settings \<Rightarrow> embedding_provider \<Rightarrow> (document \<Rightarrow> stored_file) \<Rightarrow> (nat \<Rightarrow> int) \<Rightarrow>
   nat \<Rightarrow> nat \<Rightarrow> task_result knowledge_svc" where
  "ingest_knowledge_document tr ks ep storage clk retries job_id = (\<lambda>s.
    case run_ingestion tr ks ep storage clk job_id s of
      (s1, Inr outcome) \<Rightarrow> (s1, Inr (Finished outcome))
    | (s1, Inl (KnowledgeFault RetryableIngestionError)) \<Rightarrow>
        (case row_get (kn_jobs s1) job_id of
          None \<Rightarrow> (s1, Inl (KnowledgeDb DoesNotExist))
        | Some jr \<Rightarrow>
            if ij_attempt_count jr \<ge> ks_max_attempts ks then
              svc_bind (mark_failed job_id RetryableIngestionError (clk 2)) (\<lambda>u. svc_return GaveUp) s1
            else (kn_effect (Task ingest_task job_id) s1, Inr (Retrying (min 60 (2 ^ retries)))))
    | (s1, Inl e) \<Rightarrow> (s1, Inl e))"

subsection \<open>Recovery of stuck jobs\<close>

definition job_stuck :: "int \<Rightarrow> ingestion_job \<Rightarrow> bool" where
  "job_stuck cutoff jr \<longleftrightarrow>
    (ij_status jr = KI_QUEUED \<and> ij_created_at jr \<le> cutoff) \<or>
    (ij_status jr = KI_PROCESSING \<and> (case ij_started_at jr of None \<Rightarrow> False | Some t \<Rightarrow> t \<le> cutoff))"

definition stuck_jobs :: "int \<Rightarrow> nat \<Rightarrow> ingestion_job rows \<Rightarrow> nat list" where
  "stuck_jobs cutoff batch t =
    take batch (row_ids (sort_key (\<lambda>(i, jr). ij_created_at jr) (rows_where (\<lambda>i jr. job_stuck cutoff jr) t)))"

definition recover_stuck_ingestion_jobs ::
  "knowledge_settings \<Rightarrow> nat option \<Rightarrow> int \<Rightarrow> nat knowledge_svc" where
  "recover_stuck_ingestion_jobs ks batch now = (\<lambda>s.
    let cutoff = now - ks_stale_seconds ks * 1000000;
        ids = stuck_jobs cutoff (case batch of None \<Rightarrow> ks_sweep_batch ks | Some n \<Rightarrow> n) (kn_jobs s)
    in (fold (\<lambda>i. kn_effect (Task ingest_task i)) ids s, Inr (length ids)))"

end
