(* ===== verification/Retrieval.thy ===== *)
theory Retrieval
  imports Knowledge
begin

section \<open>Knowledge retrieval\<close>

text \<open>
  The deterministic embedding provider (\<open>ingestion/embeddings.py\<close>), the tenant-first selectors
  (\<open>knowledge/selectors.py\<close>) and \<open>search_knowledge\<close> (\<open>retrieval/services.py\<close>). The cosine distance is
  computed by the database: it is a parameter. SHA-256, \<open>str.casefold\<close> and \<open>math.sqrt\<close> are too.
\<close>

subsection \<open>The deterministic provider\<close>

text \<open>\<open>\w\<close> of the pattern \<open>[\w']+\<close>, for characters below 256.\<close>

definition is_word_char :: "char \<Rightarrow> bool" where
  "is_word_char c = (let n = of_char c :: nat in
    (48 \<le> n \<and> n \<le> 57) \<or> (65 \<le> n \<and> n \<le> 90) \<or> n = 95 \<or> (97 \<le> n \<and> n \<le> 122) \<or>
    n \<in> {170, 178, 179, 181, 185, 186, 188, 189, 190} \<or> (192 \<le> n \<and> n \<noteq> 215 \<and> n \<noteq> 247))"

definition is_token_char :: "char \<Rightarrow> bool" where
  "is_token_char c \<longleftrightarrow> is_word_char c \<or> c = CHR 0x27"

text \<open>\<open>TOKEN_RE.findall\<close>: the maximal runs of token characters.\<close>

function find_tokens :: "string \<Rightarrow> string list" where
  "find_tokens s =
    (case dropWhile (\<lambda>c. \<not> is_token_char c) s of
      [] \<Rightarrow> []
    | c # r \<Rightarrow> (c # takeWhile is_token_char r) # find_tokens (dropWhile is_token_char r))"
  by pat_completeness auto
termination
proof (relation "measure length")
  fix s :: string and c r
  assume "dropWhile (\<lambda>c. \<not> is_token_char c) s = c # r"
  then have "length (c # r) \<le> length s" by (metis length_dropWhile_le)
  moreover have "length (dropWhile is_token_char r) \<le> length r" by (rule length_dropWhile_le)
  ultimately show "(dropWhile is_token_char r, s) \<in> measure length" by simp
qed simp

declare find_tokens.simps [simp del]

record embed_runtime =
  er_casefold :: "string \<Rightarrow> string"
  er_digest :: "string \<Rightarrow> nat list"
  er_sqrt :: "nat \<Rightarrow> rat"

definition big_endian :: "nat list \<Rightarrow> nat" where
  "big_endian bs = foldl (\<lambda>n b. n * 256 + b) 0 bs"

definition project_token :: "(string \<Rightarrow> nat list) \<Rightarrow> nat \<Rightarrow> string \<Rightarrow> int list \<Rightarrow> int list" where
  "project_token digest dimension token v =
    (let dg = digest token in
     fold (\<lambda>position w.
       let i = big_endian (take 4 (drop position dg)) mod dimension;
           sign = (if odd (dg ! (position + 8)) then 1 else - 1)
       in w[i := w ! i + sign]) [0, 4] v)"

definition token_counts :: "(string \<Rightarrow> nat list) \<Rightarrow> nat \<Rightarrow> string list \<Rightarrow> int list" where
  "token_counts digest dimension tokens =
    fold (project_token digest dimension) tokens (replicate dimension 0)"

definition embed_text :: "embed_runtime \<Rightarrow> nat \<Rightarrow> string \<Rightarrow> rat list" where
  "embed_text er dimension text0 =
    (let v = token_counts (er_digest er) dimension (find_tokens (er_casefold er text0));
         norm = er_sqrt er (nat (sum_list (map (\<lambda>x. x * x) v)))
     in if norm \<noteq> 0 then map (\<lambda>x. double_of_rat (of_int x / norm)) v else map of_int v)"

definition deterministic_provider :: "embed_runtime \<Rightarrow> nat \<Rightarrow> embedding_provider" where
  "deterministic_provider er dimension =
    \<lparr>ep_name = ''supportpilot-deterministic'', ep_model = ''hashed-token-projection-v1'',
     ep_dimension = dimension,
     ep_embed_documents = (\<lambda>texts. Inr (map (\<lambda>t. map (PyFloat \<circ> Finite) (embed_text er dimension t)) texts)),
     ep_embed_query = (\<lambda>t. Inr (map (PyFloat \<circ> Finite) (embed_text er dimension t)))\<rparr>"

subsection \<open>Selectors\<close>

text \<open>\<open>order_by("-created_at", "-id")\<close>\<close>

definition icontains :: "string \<Rightarrow> string \<Rightarrow> bool" where
  "icontains needle s \<longleftrightarrow> str_contains (str_lower needle) (str_lower s)"

definition source_list_for_workspace ::
  "nat \<Rightarrow> string \<Rightarrow> bool option \<Rightarrow> knowledge \<Rightarrow> source rows" where
  "source_list_for_workspace ws search is_active s =
    newest_first so_created_at (rows_where (\<lambda>k so. so_workspace so = ws \<and>
      (case is_active of None \<Rightarrow> True | Some b \<Rightarrow> so_is_active so = b) \<and>
      (search = '''' \<or> icontains search (so_name so) \<or> icontains search (so_description so)))
      (kn_sources s))"

definition source_get_for_workspace_or_404 :: "nat \<Rightarrow> nat \<Rightarrow> knowledge \<Rightarrow> knowledge_exc + source" where
  "source_get_for_workspace_or_404 ws k s =
    (case row_get (kn_sources s) k of
      None \<Rightarrow> Inl Http404
    | Some so \<Rightarrow> if so_workspace so = ws then Inr so else Inl Http404)"

definition document_list_for_workspace ::
  "nat \<Rightarrow> nat option \<Rightarrow> document_status option \<Rightarrow> knowledge \<Rightarrow> document rows" where
  "document_list_for_workspace ws source_id status s =
    newest_first dc_created_at (rows_where (\<lambda>k dr. dc_workspace dr = ws \<and>
      (case source_id of None \<Rightarrow> True | Some i \<Rightarrow> dc_source dr = i) \<and>
      (case status of None \<Rightarrow> True | Some st \<Rightarrow> dc_status dr = st)) (kn_documents s))"

definition document_get_for_workspace_or_404 :: "nat \<Rightarrow> nat \<Rightarrow> knowledge \<Rightarrow> knowledge_exc + document" where
  "document_get_for_workspace_or_404 ws k s =
    (case row_get (kn_documents s) k of
      None \<Rightarrow> Inl Http404
    | Some dr \<Rightarrow> if dc_workspace dr = ws then Inr dr else Inl Http404)"

definition ingestion_job_get_for_workspace_or_404 ::
  "nat \<Rightarrow> nat \<Rightarrow> knowledge \<Rightarrow> knowledge_exc + ingestion_job" where
  "ingestion_job_get_for_workspace_or_404 ws k s =
    (case row_get (kn_jobs s) k of
      None \<Rightarrow> Inl Http404
    | Some jr \<Rightarrow> if ij_workspace jr = ws then Inr jr else Inl Http404)"

definition retrieval_event_get_for_workspace_or_404 ::
  "nat \<Rightarrow> nat \<Rightarrow> knowledge \<Rightarrow> knowledge_exc + retrieval_event" where
  "retrieval_event_get_for_workspace_or_404 ws k s =
    (case row_get (kn_events s) k of
      None \<Rightarrow> Inl Http404
    | Some re \<Rightarrow> if re_workspace re = ws then Inr re else Inl Http404)"

subsection \<open>Search\<close>

text \<open>PostgreSQL's order on double precision, with \<open>NaN\<close> above every other value.\<close>

definition pg_float_key :: "pyfloat \<Rightarrow> nat \<times> rat" where
  "pg_float_key x = (case x of NegInf \<Rightarrow> (0, 0) | Finite r \<Rightarrow> (1, r) | PosInf \<Rightarrow> (2, 0) | NaN \<Rightarrow> (3, 0))"

text \<open>\<open>max(a, b)\<close> keeps its first argument unless the second is larger; \<open>1.0 - x\<close>.\<close>

definition py_max :: "pyfloat \<Rightarrow> pyfloat \<Rightarrow> pyfloat" where
  "py_max a b = (if float_gt b a then b else a)"

definition one_minus :: "pyfloat \<Rightarrow> pyfloat" where
  "one_minus x = (case x of Finite r \<Rightarrow> Finite (double_of_rat (1 - r))
    | PosInf \<Rightarrow> NegInf | NegInf \<Rightarrow> PosInf | NaN \<Rightarrow> NaN)"

definition score_of_distance :: "pyfloat \<Rightarrow> pyfloat" where
  "score_of_distance d = py_max (Finite (- 1)) (py_min (Finite 1) (one_minus d))"

definition searchable :: "nat \<Rightarrow> nat list \<Rightarrow> nat list \<Rightarrow> knowledge \<Rightarrow> chunk \<Rightarrow> bool" where
  "searchable ws source_ids document_ids s c \<longleftrightarrow>
    ck_workspace c = ws \<and>
    (case row_get (kn_documents s) (ck_document c) of
      None \<Rightarrow> False
    | Some dr \<Rightarrow>
        dc_workspace dr = ws \<and> dc_status dr = KD_READY \<and> dc_is_active dr \<and>
        (case row_get (kn_sources s) (dc_source dr) of None \<Rightarrow> False | Some so \<Rightarrow> so_is_active so) \<and>
        (source_ids = [] \<or> dc_source dr \<in> set source_ids) \<and>
        (document_ids = [] \<or> ck_document c \<in> set document_ids))"

definition ranked_chunks ::
  "(rat list \<Rightarrow> rat list \<Rightarrow> pyfloat) \<Rightarrow> rat list \<Rightarrow> nat \<Rightarrow> (chunk \<Rightarrow> bool) \<Rightarrow> chunk rows \<Rightarrow> chunk rows" where
  "ranked_chunks distance query top_k P t =
    take top_k (sort_key (\<lambda>(k, c). (pg_float_key (distance (ck_embedding c) query), ck_document c,
      ck_ordinal c, k)) (rows_where (\<lambda>k c. P c) t))"

record retrieved =
  rx_chunk :: nat
  rx_document :: nat
  rx_document_title :: string
  rx_source :: nat
  rx_source_name :: string
  rx_rank :: nat
  rx_score :: pyfloat
  rx_text :: string
  rx_citation :: citation

definition citation_of :: "chunk \<Rightarrow> citation" where
  "citation_of c = \<lparr>ct_page_start = ck_page_start c, ct_page_end = ck_page_end c,
    ct_start_offset = ck_start_offset c, ct_end_offset = ck_end_offset c,
    ct_chunk_ordinal = ck_ordinal c\<rparr>"

definition below_minimum :: "rat option \<Rightarrow> pyfloat \<Rightarrow> bool" where
  "below_minimum minimum_score score =
    (case minimum_score of None \<Rightarrow> False | Some m \<Rightarrow> float_gt (Finite m) score)"

text \<open>\<open>chunk.document\<close> and \<open>chunk.document.source\<close>, loaded with the chunk: title, source id, source name.\<close>

definition chunk_origin :: "knowledge \<Rightarrow> chunk \<Rightarrow> string \<times> nat \<times> string" where
  "chunk_origin s c =
    (case row_get (kn_documents s) (ck_document c) of
      None \<Rightarrow> ('''', 0, '''')
    | Some dr \<Rightarrow> (dc_title dr, dc_source dr,
        case row_get (kn_sources s) (dc_source dr) of None \<Rightarrow> '''' | Some so \<Rightarrow> so_name so))"

text \<open>The loop over the ranked chunks; a rank is one more than the number of contexts so far.\<close>

fun contexts_of ::
  "(chunk \<Rightarrow> string \<times> nat \<times> string) \<Rightarrow> (chunk \<Rightarrow> pyfloat) \<Rightarrow> rat option \<Rightarrow> nat \<Rightarrow> chunk rows \<Rightarrow> retrieved list" where
  "contexts_of origin score minimum_score n [] = []"
| "contexts_of origin score minimum_score n ((k, c) # rest) =
    (if below_minimum minimum_score (score c) then contexts_of origin score minimum_score n rest
     else (case origin c of (title, source_id, source_nm) \<Rightarrow>
             \<lparr>rx_chunk = k, rx_document = ck_document c, rx_document_title = title,
              rx_source = source_id, rx_source_name = source_nm, rx_rank = n + 1, rx_score = score c,
              rx_text = ck_text c, rx_citation = citation_of c\<rparr>)
          # contexts_of origin score minimum_score (n + 1) rest)"

primrec insert_hits :: "retrieval_hit list \<Rightarrow> retrieval_hit rows \<Rightarrow> retrieval_hit rows" where
  "insert_hits [] t = t"
| "insert_hits (h # hs) t = insert_hits hs (row_put (fresh_id t) h t)"

record search_result =
  sr_event :: nat
  sr_query :: string
  sr_results :: "retrieved list"
  sr_sufficient_context :: bool

fun each_exists :: "(nat \<Rightarrow> knowledge_exc + 'a) \<Rightarrow> nat list \<Rightarrow> knowledge_exc option" where
  "each_exists get [] = None"
| "each_exists get (i # is0) = (case get i of Inl e \<Rightarrow> Some e | Inr _ \<Rightarrow> each_exists get is0)"

definition query_vector ::
  "knowledge_settings \<Rightarrow> embedding_provider \<Rightarrow> string \<Rightarrow> knowledge_exc + rat list" where
  "query_vector ks ep query =
    (case ep_embed_query ep query of
      Inl e \<Rightarrow> Inl RawFault
    | Inr v \<Rightarrow>
        (case validate_embeddings [v] 1 (ks_embedding_dimension ks) of
          Inl (Known e) \<Rightarrow> Inl (KnowledgeFault e)
        | Inl _ \<Rightarrow> Inl RawFault
        | Inr vs \<Rightarrow> Inr (hd vs)))"

definition record_retrieval ::
  "nat \<Rightarrow> nat option \<Rightarrow> string \<Rightarrow> embedding_provider \<Rightarrow> int \<Rightarrow> rat option \<Rightarrow> retrieved list \<Rightarrow>
   knowledge \<Rightarrow> knowledge \<times> nat" where
  "record_retrieval ws actor query ep top_k minimum_score contexts s =
    (let e = fresh_id (kn_events s);
         ev = \<lparr>re_workspace = ws, re_actor = actor, re_query = query,
               re_embedding_provider = ep_name ep, re_embedding_model = ep_model ep,
               re_top_k = top_k, re_minimum_score = minimum_score, re_result_count = length contexts\<rparr>
     in (s\<lparr>kn_events := row_put e ev (kn_events s),
           kn_hits := insert_hits (map (\<lambda>x. \<lparr>rh_event = e, rh_workspace = ws, rh_chunk = rx_chunk x,
             rh_rank = rx_rank x, rh_score = rx_score x, rh_citation = rx_citation x\<rparr>) contexts) (kn_hits s)\<rparr>,
         e))"

definition search_knowledge ::
  "knowledge_settings \<Rightarrow> (rat list \<Rightarrow> rat list \<Rightarrow> pyfloat) \<Rightarrow> embedding_provider \<Rightarrow> nat \<Rightarrow> string \<Rightarrow>
   nat option \<Rightarrow> int option \<Rightarrow> nat list \<Rightarrow> nat list \<Rightarrow> rat option \<Rightarrow> search_result knowledge_svc" where
  "search_knowledge ks distance ep ws query actor top_k source_ids document_ids minimum_score = (\<lambda>s.
    let normalized_query = py_strip query;
        requested = (case top_k of None \<Rightarrow> ks_default_top_k ks | Some n \<Rightarrow> n)
    in if normalized_query = [] \<or> int (length normalized_query) > ks_max_query_length ks
       then (s, Inl (KnowledgeFault InvalidRetrievalQueryError))
       else if \<not> (1 \<le> requested \<and> requested \<le> ks_max_top_k ks)
       then (s, Inl (KnowledgeFault InvalidRetrievalQueryError))
       else if (case minimum_score of None \<Rightarrow> False | Some m \<Rightarrow> \<not> (0 \<le> m \<and> m \<le> 1))
       then (s, Inl (KnowledgeFault InvalidRetrievalQueryError))
       else case each_exists (\<lambda>i. source_get_for_workspace_or_404 ws i s) source_ids of
         Some e \<Rightarrow> (s, Inl e)
       | None \<Rightarrow>
       (case each_exists (\<lambda>i. document_get_for_workspace_or_404 ws i s) document_ids of
         Some e \<Rightarrow> (s, Inl e)
       | None \<Rightarrow>
       (case query_vector ks ep normalized_query of
         Inl e \<Rightarrow> (s, Inl e)
       | Inr qv \<Rightarrow>
         (let ranked = ranked_chunks distance qv (nat requested) (searchable ws source_ids document_ids s)
                         (kn_chunks s);
              contexts = contexts_of (chunk_origin s) (\<lambda>c. score_of_distance (distance (ck_embedding c) qv))
                           minimum_score 0 ranked
          in case record_retrieval ws actor normalized_query ep requested minimum_score contexts s of
              (s1, e) \<Rightarrow>
                (s1, Inr \<lparr>sr_event = e, sr_query = normalized_query, sr_results = contexts,
                         sr_sufficient_context = (contexts \<noteq> [])\<rparr>)))))"

end
