(* ===== verification/IngestionLemmas.thy ===== *)
theory IngestionLemmas
  imports Ingestion
begin

section \<open>What the stages of ingestion guarantee\<close>

text \<open>
  Lemmas on the chunking window and loop (bounds, trimmed ends, coverage), on the normal form
  of normalized text, and on the offsets of the rebuilt sections.
\<close>

named_theorems window_simps \<open>bounds of one chunking window\<close>

subsection \<open>Slices\<close>

lemma length_slice [simp]: "j \<le> length t \<Longrightarrow> length (slice t i j) = j - i"
  by (simp add: slice_def)

lemma nth_slice [simp]: "k < j - i \<Longrightarrow> j \<le> length t \<Longrightarrow> slice t i j ! k = t ! (i + k)"
  by (simp add: slice_def)

lemma strip_trimmed:
  assumes "s \<noteq> []" "\<not> is_space (hd s)" "\<not> is_space (last s)"
  shows "py_strip s = s"
proof -
  have "dropWhile is_space s = s" using assms by (cases s) auto
  moreover have "dropWhile is_space (rev s) = rev s"
    using assms by (cases "rev s") (auto simp: hd_rev [symmetric])
  ultimately show ?thesis by (simp add: py_strip_def py_lstrip_def py_rstrip_def)
qed

lemma strip_idem_hd:
  assumes "py_strip s = s" "s \<noteq> []"
  shows "\<not> is_space (hd s)" "\<not> is_space (last s)"
proof -
  have len: "length (py_strip s) \<le> length (py_lstrip s)"
    by (simp add: py_strip_def py_rstrip_def) (metis length_dropWhile_le length_rev)
  then have "length s \<le> length (dropWhile is_space s)"
    using assms(1) by (simp add: py_lstrip_def)
  then have d: "dropWhile is_space s = s"
    by (metis dropWhile_eq_drop drop_all drop_eq_Nil length_dropWhile_le le_antisym
        length_drop diff_is_0_eq drop0 nat_le_linear diff_diff_cancel)
  then show "\<not> is_space (hd s)" using assms(2) by (metis hd_dropWhile)
  have "rev (dropWhile is_space (rev s)) = s"
    using assms(1) d by (simp add: py_strip_def py_lstrip_def py_rstrip_def)
  then have "dropWhile is_space (rev s) = rev s" by (metis rev_rev_ident)
  then show "\<not> is_space (last s)" using assms(2) by (metis hd_dropWhile hd_rev rev_is_Nil_conv)
qed

subsection \<open>One window\<close>

lemma py_rfind_range:
  "py_rfind t s lo hi = - 1 \<or>
   (int lo \<le> py_rfind t s lo hi \<and> py_rfind t s lo hi < int hi \<and>
    occurs_at t s hi (nat (py_rfind t s lo hi)))"
proof (cases "filter (occurs_at t s hi) (rev [lo..<hi])")
  case (Cons i rest)
  then have i: "i \<in> set (filter (occurs_at t s hi) (rev [lo..<hi]))" by (metis list.set_intros(1))
  have "py_rfind t s lo hi = int i" by (simp add: py_rfind_def Cons)
  with i show ?thesis by simp
qed (simp add: py_rfind_def)

lemma occurs_at_hd: "occurs_at t (c # s) hi i \<Longrightarrow> i < length t \<and> t ! i = c"
proof -
  assume "occurs_at t (c # s) hi i"
  then have "take (Suc (length s)) (drop i t) = c # s" by (simp add: occurs_at_def)
  then have "drop i t \<noteq> []" "hd (drop i t) = c" by (cases "drop i t"; simp)+
  then show ?thesis by (simp add: hd_drop_conv_nth)
qed

lemma is_space_LF [simp]: "is_space LF" and is_space_blank [simp]: "is_space (CHR '' '')"
  and is_space_CR [simp]: "is_space CR"
  by (simp_all add: is_space_def)

lemma preferred_end_cases:
  assumes "start < maximum" "maximum \<le> length t"
  shows "preferred_end t start maximum = maximum \<or>
    (start + max 1 ((maximum - start) div 2) \<le> preferred_end t start maximum \<and>
     preferred_end t start maximum < maximum \<and> is_space (t ! preferred_end t start maximum))"
proof (cases "maximum \<ge> length t")
  case True
  then show ?thesis using assms by (simp add: preferred_end_def)
next
  case False
  define lo where "lo = start + max 1 ((maximum - start) div 2)"
  define b where "b = max (py_rfind t [LF, LF] lo maximum)
    (max (py_rfind t [LF] lo maximum) (py_rfind t '' '' lo maximum))"
  have eq: "preferred_end t start maximum = (if b > int start then nat b else maximum)"
    unfolding preferred_end_def Let_def lo_def b_def by (simp only: False if_False)
  have one: "b = - 1 \<or> (int lo \<le> b \<and> b < int maximum \<and> is_space (t ! nat b))"
  proof -
    have r: "x = - 1 \<or> (int lo \<le> x \<and> x < int maximum \<and> is_space (t ! nat x))"
      if "x = py_rfind t (w # ws) lo maximum" "is_space w" for x w ws
      using py_rfind_range [of t "w # ws" lo maximum] occurs_at_hd [of t w ws maximum "nat x"] that
      by metis
    have "b \<in> {py_rfind t [LF, LF] lo maximum, py_rfind t [LF] lo maximum, py_rfind t '' '' lo maximum}"
      by (simp add: b_def max_def)
    then show ?thesis using r [of b LF "[LF]"] r [of b LF "[]"] r [of b "CHR '' ''" "[]"] by auto
  qed
  then show ?thesis unfolding eq lo_def [symmetric] by auto
qed

lemma preferred_end_bounds [window_simps]:
  assumes "start < maximum" "maximum \<le> length t"
  shows "start < preferred_end t start maximum" "preferred_end t start maximum \<le> maximum"
  using preferred_end_cases [OF assms] assms by auto

lemma skip_spaces_spaces: "c \<le> i \<Longrightarrow> i < skip_spaces t c e \<Longrightarrow> is_space (t ! i)"
proof (induction t c e rule: skip_spaces.induct)
  case (1 t c e)
  then show ?case
    by (cases "c < e \<and> is_space (t ! c)"; cases "i = c")
      (auto simp: skip_spaces.simps [of t c e])
qed

lemma skip_spaces_stop: "skip_spaces t c e < e \<Longrightarrow> \<not> is_space (t ! skip_spaces t c e)"
proof (induction t c e rule: skip_spaces.induct)
  case (1 t c e)
  then show ?case
    by (cases "c < e \<and> is_space (t ! c)") (auto simp: skip_spaces.simps [of t c e])
qed

lemma trim_end_le: "trim_end t c e \<le> e"
  by (induction t c e rule: trim_end.induct) auto

lemma trim_end_spaces: "trim_end t c e \<le> i \<Longrightarrow> i < e \<Longrightarrow> is_space (t ! i)"
  by (induction t c e rule: trim_end.induct) (auto simp: less_Suc_eq split: if_splits)

lemma trim_end_stop: "c < trim_end t c e \<Longrightarrow> \<not> is_space (t ! (trim_end t c e - 1))"
  by (induction t c e rule: trim_end.induct) (auto split: if_splits)

lemma trim_end_pos: "c < e \<Longrightarrow> \<not> is_space (t ! c) \<Longrightarrow> c < trim_end t c e"
  by (induction t c e rule: trim_end.induct) (auto simp: less_Suc_eq)

text \<open>A window of the loop: where the search for a boundary stopped, and the trimmed slice before it.\<close>

definition window_stop :: "string \<Rightarrow> nat \<Rightarrow> nat \<Rightarrow> nat" where
  "window_stop t size0 cursor = preferred_end t cursor (min (length t) (cursor + size0))"

definition chunk_window :: "string \<Rightarrow> nat \<Rightarrow> nat \<Rightarrow> nat \<Rightarrow> nat \<Rightarrow> bool" where
  "chunk_window t size0 cursor c e \<longleftrightarrow> 0 < size0 \<and> cursor < length t \<and> window t size0 cursor = (c, e)"

lemma chunk_windowD:
  assumes "chunk_window t size0 cursor c e"
  shows "0 < size0" "cursor < length t" "c = skip_spaces t cursor (window_stop t size0 cursor)"
    "e = trim_end t c (window_stop t size0 cursor)"
  using assms by (auto simp: chunk_window_def window_def window_stop_def Let_def)

lemma window_stop_bounds:
  assumes "chunk_window t size0 cursor c e"
  shows "cursor < window_stop t size0 cursor" "window_stop t size0 cursor \<le> length t"
    "window_stop t size0 cursor \<le> cursor + size0"
  using preferred_end_bounds [of cursor "min (length t) (cursor + size0)" t] chunk_windowD [OF assms]
  by (auto simp: window_stop_def)

lemma chunk_window_bounds:
  assumes "chunk_window t size0 cursor c e"
  shows "cursor \<le> c" "c \<le> window_stop t size0 cursor" "e \<le> window_stop t size0 cursor" "e \<le> length t"
    "e \<le> cursor + size0"
  using window_stop_bounds [OF assms] skip_spaces_bounds(1) [of cursor t "window_stop t size0 cursor"]
    skip_spaces_bounds(2) [of cursor "window_stop t size0 cursor" t]
    trim_end_le [of t c "window_stop t size0 cursor"] chunk_windowD [OF assms]
  by auto

lemma chunk_window_before:
  "chunk_window t size0 cursor c e \<Longrightarrow> cursor \<le> i \<Longrightarrow> i < c \<Longrightarrow> is_space (t ! i)"
  using skip_spaces_spaces [of cursor i t "window_stop t size0 cursor"] by (auto dest: chunk_windowD)

lemma chunk_window_after:
  "chunk_window t size0 cursor c e \<Longrightarrow> e \<le> i \<Longrightarrow> i < window_stop t size0 cursor \<Longrightarrow> is_space (t ! i)"
  using trim_end_spaces [of t c "window_stop t size0 cursor" i] by (auto dest: chunk_windowD)

lemma chunk_window_ends:
  assumes w: "chunk_window t size0 cursor c e" and "c < e"
  shows "\<not> is_space (t ! c)" "\<not> is_space (t ! (e - 1))"
  using assms(2) skip_spaces_stop [of t cursor "window_stop t size0 cursor"]
    trim_end_stop [of c t "window_stop t size0 cursor"] chunk_window_bounds [OF w]
  by (auto simp: chunk_windowD(3) [OF w, symmetric] chunk_windowD(4) [OF w, symmetric])

lemma chunk_window_blank:
  "chunk_window t size0 cursor c e \<Longrightarrow> e \<le> c \<Longrightarrow> cursor \<le> i \<Longrightarrow> i < window_stop t size0 cursor \<Longrightarrow>
    is_space (t ! i)"
  using chunk_window_before chunk_window_after by (cases "i < c") auto

lemma chunk_window_first_kept:
  assumes w: "chunk_window t size0 cursor c e" and a: "\<not> is_space (t ! cursor)"
  shows "c = cursor \<and> c < e"
proof -
  let ?stop = "window_stop t size0 cursor"
  have "c = cursor" using a by (simp add: chunk_windowD(3) [OF w] skip_spaces.simps [of t cursor ?stop])
  with a show ?thesis
    using trim_end_pos [of c ?stop t] window_stop_bounds [OF w] chunk_windowD(4) [OF w] by simp
qed

subsection \<open>The chunking loop\<close>

text \<open>What a draft list built so far satisfies: the invariant of the loop.\<close>

definition draft_ok :: "string \<Rightarrow> nat \<Rightarrow> text_section list \<Rightarrow> nat \<Rightarrow> chunk_draft \<Rightarrow> bool" where
  "draft_ok t size0 secs n d \<longleftrightarrow>
    dr_ordinal d = n \<and> dr_start d < dr_end d \<and> dr_end d \<le> length t \<and>
    dr_end d \<le> dr_start d + size0 \<and> dr_text d = slice t (dr_start d) (dr_end d) \<and>
    \<not> is_space (t ! dr_start d) \<and> \<not> is_space (t ! (dr_end d - 1)) \<and>
    (dr_page_start d, dr_page_end d) = pages_for_range (dr_start d) (dr_end d) secs"

definition drafts_ok ::
  "string \<Rightarrow> nat \<Rightarrow> int \<Rightarrow> text_section list \<Rightarrow> chunk_draft list \<Rightarrow> bool" where
  "drafts_ok t size0 minimum_chars secs ds \<longleftrightarrow>
    (\<forall>n < length ds. draft_ok t size0 secs n (ds ! n)) \<and>
    (\<forall>n < length ds. 0 < n \<longrightarrow> minimum_chars \<le> int (length (dr_text (ds ! n)))) \<and>
    sorted_wrt (\<lambda>a b. dr_start a < dr_start b) ds"

definition covered :: "chunk_draft list \<Rightarrow> nat \<Rightarrow> bool" where
  "covered ds i \<longleftrightarrow> (\<exists>d \<in> set ds. dr_start d \<le> i \<and> i < dr_end d)"

lemma strip_slice:
  assumes "c < e" "e \<le> length t" "\<not> is_space (t ! c)" "\<not> is_space (t ! (e - 1))"
  shows "py_strip (slice t c e) = slice t c e"
proof (rule strip_trimmed)
  have l: "length (slice t c e) = e - c" using assms by simp
  show ne: "slice t c e \<noteq> []" using l assms(1) by force
  show "\<not> is_space (hd (slice t c e))" using assms ne by (simp add: hd_conv_nth)
  have "last (slice t c e) = slice t c e ! (e - c - 1)" using ne l by (simp add: last_conv_nth)
  then show "\<not> is_space (last (slice t c e))" using assms by simp
qed

lemma draft_at_ok:
  assumes "c < e" "e \<le> length t" "e \<le> c + size0" "\<not> is_space (t ! c)" "\<not> is_space (t ! (e - 1))"
  shows "draft_ok t size0 secs n (draft_at t secs n c e)"
  using assms by (cases "pages_for_range c e secs") (simp add: draft_ok_def draft_at_def)

lemma draft_at_sel [simp]:
  "dr_start (draft_at t secs n c e) = c" "dr_end (draft_at t secs n c e) = e"
  "dr_text (draft_at t secs n c e) = slice t c e" "dr_ordinal (draft_at t secs n c e) = n"
  by (cases "pages_for_range c e secs"; simp add: draft_at_def)+

lemma keep_draft_ok:
  assumes ds: "drafts_ok t size0 m secs ds" and below: "\<forall>d \<in> set ds. dr_start d < c"
    and new: "c < e" "e \<le> length t" "e \<le> c + size0" "\<not> is_space (t ! c)" "\<not> is_space (t ! (e - 1))"
  shows "drafts_ok t size0 m secs (keep_draft t m secs c e ds)"
    and "\<forall>d \<in> set (keep_draft t m secs c e ds). dr_start d \<le> c"
proof -
  have strip: "py_strip (slice t c e) = slice t c e" using new by (intro strip_slice)
  show "drafts_ok t size0 m secs (keep_draft t m secs c e ds)"
    using ds below draft_at_ok [OF new, of secs "length ds"]
    by (auto simp: keep_draft_def drafts_ok_def strip nth_append less_Suc_eq sorted_wrt_append)
  show "\<forall>d \<in> set (keep_draft t m secs c e ds). dr_start d \<le> c"
    using below by (auto simp: keep_draft_def less_imp_le)
qed

lemma chunk_loop_stop: "\<not> (0 < size0 \<and> cursor < length t) \<Longrightarrow>
    chunk_loop size0 ov m secs t cursor ds = ds"
  by (subst chunk_loop.simps) (simp only: if_False)

lemma chunk_loop_blank: "0 < size0 \<Longrightarrow> cursor < length t \<Longrightarrow> window t size0 cursor = (c, e) \<Longrightarrow> e \<le> c \<Longrightarrow>
    chunk_loop size0 ov m secs t cursor ds =
    chunk_loop size0 ov m secs t (min (length t) (cursor + size0)) ds"
  by (simp add: chunk_loop.simps [of size0 ov m secs t cursor ds])

lemma chunk_loop_last: "0 < size0 \<Longrightarrow> cursor < length t \<Longrightarrow> window t size0 cursor = (c, e) \<Longrightarrow>
    c < e \<Longrightarrow> length t \<le> e \<Longrightarrow>
    chunk_loop size0 ov m secs t cursor ds = keep_draft t m secs c e ds"
  by (simp add: chunk_loop.simps [of size0 ov m secs t cursor ds])

lemma chunk_loop_more: "0 < size0 \<Longrightarrow> cursor < length t \<Longrightarrow> window t size0 cursor = (c, e) \<Longrightarrow>
    c < e \<Longrightarrow> e < length t \<Longrightarrow>
    chunk_loop size0 ov m secs t cursor ds =
    chunk_loop size0 ov m secs t (next_cursor t c e ov) (keep_draft t m secs c e ds)"
  by (simp add: chunk_loop.simps [of size0 ov m secs t cursor ds])

text \<open>
  The rule behind every statement about the loop: an invariant over the cursor and the drafts
  that holds at the start and is kept by a blank window and by a kept window ends as a fact
  about the result.
\<close>

lemma chunk_loop_rule [consumes 1, case_names blank more last stop]:
  assumes start: "I cursor ds"
    and blank: "\<And>cursor ds c e. I cursor ds \<Longrightarrow> chunk_window t size0 cursor c e \<Longrightarrow> e \<le> c \<Longrightarrow>
                I (min (length t) (cursor + size0)) ds"
    and more: "\<And>cursor ds c e. I cursor ds \<Longrightarrow> chunk_window t size0 cursor c e \<Longrightarrow> c < e \<Longrightarrow>
                e < length t \<Longrightarrow> I (next_cursor t c e ov) (keep_draft t m secs c e ds)"
    and last: "\<And>cursor ds c e. I cursor ds \<Longrightarrow> chunk_window t size0 cursor c e \<Longrightarrow> c < e \<Longrightarrow>
                e = length t \<Longrightarrow> Q (keep_draft t m secs c e ds)"
    and stop: "\<And>cursor ds. I cursor ds \<Longrightarrow> \<not> (0 < size0 \<and> cursor < length t) \<Longrightarrow> Q ds"
  shows "Q (chunk_loop size0 ov m secs t cursor ds)"
  using start
proof (induction "length t - cursor" arbitrary: cursor ds rule: less_induct)
  case less
  show ?case
  proof (cases "0 < size0 \<and> cursor < length t")
    case False
    with less.prems stop show ?thesis by (simp add: chunk_loop_stop)
  next
    case True
    obtain c e where win: "window t size0 cursor = (c, e)" by fastforce
    have w: "chunk_window t size0 cursor c e" using True win by (simp add: chunk_window_def)
    note b = chunk_window_bounds [OF w]
    show ?thesis
    proof (cases "e \<le> c")
      case True': True
      have "Q (chunk_loop size0 ov m secs t (min (length t) (cursor + size0)) ds)"
        using True by (intro less.hyps blank [OF less.prems w True']) auto
      with True win True' show ?thesis by (simp add: chunk_loop_blank)
    next
      case ce: False
      show ?thesis
      proof (cases "e < length t")
        case lt: True
        have "Q (chunk_loop size0 ov m secs t (next_cursor t c e ov) (keep_draft t m secs c e ds))"
          using window_step [OF win [symmetric] ce, of ov] ce lt
          by (intro less.hyps more [OF less.prems w]) auto
        with True win ce lt show ?thesis by (simp add: chunk_loop_more)
      next
        case False
        with b(4) last [OF less.prems w] True win ce show ?thesis by (simp add: chunk_loop_last)
      qed
    qed
  qed
qed

lemma chunk_loop_ok: "drafts_ok t size0 m secs (chunk_loop size0 ov m secs t 0 [])"
proof (rule chunk_loop_rule [where I = "\<lambda>cursor ds. drafts_ok t size0 m secs ds \<and>
    (\<forall>d \<in> set ds. dr_start d < cursor)"])
  show "drafts_ok t size0 m secs [] \<and> (\<forall>d \<in> set []. dr_start d < 0)" by (simp add: drafts_ok_def)
next
  fix cursor ds c e
  assume I: "drafts_ok t size0 m secs ds \<and> (\<forall>d \<in> set ds. dr_start d < cursor)"
    and w: "chunk_window t size0 cursor c e"
  note b = chunk_window_bounds [OF w] and ends = chunk_window_ends [OF w]
  { assume "e \<le> c"
    have "cursor \<le> min (length t) (cursor + size0)"
      using chunk_windowD(2) [OF w] by simp
    with I show "drafts_ok t size0 m secs ds \<and>
        (\<forall>d \<in> set ds. dr_start d < min (length t) (cursor + size0))" by fastforce }
  { assume ce: "c < e"
    have below: "\<forall>d \<in> set ds. dr_start d < c" using I b(1) by fastforce
    have "e \<le> c + size0" using b by simp
    note k = keep_draft_ok [OF conjunct1 [OF I] below ce b(4) this ends [OF ce]]
    show "drafts_ok t size0 m secs (keep_draft t m secs c e ds)" by (rule k(1))
    show "drafts_ok t size0 m secs (keep_draft t m secs c e ds) \<and>
        (\<forall>d \<in> set (keep_draft t m secs c e ds). dr_start d < next_cursor t c e ov)"
      using k next_cursor_bounds(1) [OF ce, of t ov] by fastforce }
qed auto

lemma keep_draft_nonempty: "keep_draft t m secs c e ds \<noteq> []"
  by (simp add: keep_draft_def)

lemma chunk_loop_nonempty:
  assumes "0 < size0" "t \<noteq> []" "\<not> is_space (t ! 0)"
  shows "chunk_loop size0 ov m secs t 0 [] \<noteq> []"
proof (rule chunk_loop_rule [where I = "\<lambda>cursor ds. ds \<noteq> [] \<or> cursor = 0"])
  fix cursor :: nat and ds :: "chunk_draft list" and c e
  assume I: "ds \<noteq> [] \<or> cursor = 0" and w: "chunk_window t size0 cursor c e"
  show "ds \<noteq> [] \<or> min (length t) (cursor + size0) = 0" if "e \<le> c"
    using I that chunk_window_first_kept [OF w] assms(3) by auto
qed (use assms in \<open>auto simp: keep_draft_nonempty\<close>)

text \<open>
  Coverage. With a minimum of at most one character nothing is dropped for being short. What
  remains is a blank window that ends at a preferred boundary: the loop then jumps to the end
  of the whole window. That needs a run of white space of half a chunk.
\<close>

definition no_blank_run :: "nat \<Rightarrow> string \<Rightarrow> bool" where
  "no_blank_run k t \<longleftrightarrow>
    list_all (\<lambda>i. list_ex (\<lambda>c. \<not> is_space c) (slice t i (i + k))) [0..<Suc (length t - k)] \<or> length t < k"

lemma no_blank_runD:
  assumes "no_blank_run k t" "i + k \<le> length t" "0 < k"
  obtains j where "i \<le> j" "j < i + k" "\<not> is_space (t ! j)"
proof -
  have "list_ex (\<lambda>c. \<not> is_space c) (slice t i (i + k))"
  proof -
    have "i \<in> set [0..<Suc (length t - k)]" "\<not> length t < k" using assms by (auto simp del: upt_Suc)
    with assms(1) show ?thesis unfolding no_blank_run_def list_all_iff by blast
  qed
  then obtain x where x: "x < length (slice t i (i + k))" "\<not> is_space (slice t i (i + k) ! x)"
    by (auto simp: list_ex_iff in_set_conv_nth)
  then have "x < k" "\<not> is_space (t ! (i + x))" using assms by simp_all
  then show ?thesis by (intro that [of "i + x"]) auto
qed

lemma blank_window_is_whole:
  assumes w: "chunk_window t size0 cursor c e" and ec: "e \<le> c"
    and run: "no_blank_run (Suc (max 1 (size0 div 2))) t"
    and i: "cursor \<le> i" "i < min (length t) (cursor + size0)"
  shows "is_space (t ! i)"
proof -
  let ?top = "min (length t) (cursor + size0)" and ?stop = "window_stop t size0 cursor"
  have top: "cursor < ?top" "?top \<le> length t"
    using chunk_windowD(1) [OF w] chunk_windowD(2) [OF w] by auto
  have bl: "\<And>j. cursor \<le> j \<Longrightarrow> j < ?stop \<Longrightarrow> is_space (t ! j)"
    using chunk_window_blank [OF w ec] by blast
  have st: "?stop = preferred_end t cursor ?top" by (simp add: window_stop_def)
  from preferred_end_cases [OF top] consider "?stop = ?top"
    | "cursor + max 1 ((?top - cursor) div 2) \<le> ?stop" "?stop < ?top" "is_space (t ! ?stop)"
    unfolding st by blast
  then show ?thesis
  proof cases
    case 1
    then show ?thesis using bl i by simp
  next
    case 2
    have "?top \<noteq> length t"
    proof
      assume "?top = length t"
      then have "preferred_end t cursor ?top = length t" by (simp add: preferred_end_def)
      with 2(2) st \<open>?top = length t\<close> show False by simp
    qed
    then have len: "?top = cursor + size0" "cursor + size0 < length t" by auto
    let ?k = "Suc (max 1 (size0 div 2))"
    have k: "cursor + ?k \<le> Suc ?stop" using 2(1) len(1) by simp
    have "Suc ?stop \<le> length t" using 2(2) top(2) by linarith
    with k have "cursor + ?k \<le> length t" by linarith
    then obtain j where j: "cursor \<le> j" "j < cursor + ?k" "\<not> is_space (t ! j)"
      using no_blank_runD [OF run] by auto
    with k have "j < Suc ?stop" by linarith
    then have "is_space (t ! j)" using bl [of j] 2(3) j(1) by (cases "j = ?stop") auto
    with j show ?thesis by simp
  qed
qed

lemma chunk_loop_covers:
  assumes m: "m \<le> 1" and run: "no_blank_run (Suc (max 1 (size0 div 2))) t" and pos: "0 < size0"
  shows "\<forall>i < length t. \<not> is_space (t ! i) \<longrightarrow> covered (chunk_loop size0 ov m secs t 0 []) i"
proof (rule chunk_loop_rule [where I = "\<lambda>cursor ds. \<forall>i < cursor. i < length t \<longrightarrow>
    \<not> is_space (t ! i) \<longrightarrow> covered ds i"])
  fix cursor ds c e
  assume I: "\<forall>i < cursor. i < length t \<longrightarrow> \<not> is_space (t ! i) \<longrightarrow> covered ds i"
    and w: "chunk_window t size0 cursor c e"
  { assume ec: "e \<le> c"
    then show "\<forall>i < min (length t) (cursor + size0). i < length t \<longrightarrow> \<not> is_space (t ! i) \<longrightarrow> covered ds i"
      using I blank_window_is_whole [OF w ec run] by (metis not_less) }
  { assume ce: "c < e"
    note b = chunk_window_bounds [OF w] and ends = chunk_window_ends [OF w ce]
    have strip: "py_strip (slice t c e) = slice t c e" using ce b(4) ends by (intro strip_slice)
    have keep: "keep_draft t m secs c e ds = ds @ [draft_at t secs (length ds) c e]"
      using m ce b(4) by (simp add: keep_draft_def strip)
    have upto: "covered (keep_draft t m secs c e ds) i" if i: "i < e" "\<not> is_space (t ! i)" for i
    proof (cases "i < cursor")
      case True
      then have "covered ds i" using I i b(4) by auto
      then show ?thesis by (auto simp: covered_def keep)
    next
      case False
      then have "c \<le> i" using chunk_window_before [OF w, of i] i(2) by (meson not_less)
      then show ?thesis using i(1) by (auto simp: covered_def keep)
    qed
    show "\<forall>i < length t. \<not> is_space (t ! i) \<longrightarrow> covered (keep_draft t m secs c e ds) i"
      if "e = length t" using upto that by blast
    show "\<forall>i < next_cursor t c e ov. i < length t \<longrightarrow> \<not> is_space (t ! i) \<longrightarrow>
        covered (keep_draft t m secs c e ds) i"
      using upto next_cursor_bounds(2) [OF ce, of t ov] by (meson less_le_trans) }
qed (use pos in auto)

subsection \<open>The normal form of normalized text\<close>

fun no_trailing_blank :: "string \<Rightarrow> bool" where
  "no_trailing_blank (a # b # s) \<longleftrightarrow>
    (b = LF \<longrightarrow> is_space a \<longrightarrow> a = LF) \<and> no_trailing_blank (b # s)"
| "no_trailing_blank s \<longleftrightarrow> True"

fun no_triple_newline :: "string \<Rightarrow> bool" where
  "no_triple_newline (a # b # c # s) \<longleftrightarrow>
    \<not> (a = LF \<and> b = LF \<and> c = LF) \<and> no_triple_newline (b # c # s)"
| "no_triple_newline s \<longleftrightarrow> True"

text \<open>No carriage return, no blank at the end of a line, at most one empty line in a row, trimmed.\<close>

definition tidy :: "string \<Rightarrow> bool" where
  "tidy s \<longleftrightarrow> CR \<notin> set s \<and> no_trailing_blank s \<and> no_triple_newline s \<and> py_strip s = s"

lemma no_trailing_blank_append:
  "no_trailing_blank (xs @ ys) \<longleftrightarrow> no_trailing_blank xs \<and> no_trailing_blank ys \<and>
    (xs \<noteq> [] \<longrightarrow> ys \<noteq> [] \<longrightarrow> hd ys = LF \<longrightarrow> is_space (last xs) \<longrightarrow> last xs = LF)"
  by (induction xs rule: no_trailing_blank.induct; cases ys) auto

lemma no_triple_newline_suffix: "no_triple_newline (xs @ ys) \<Longrightarrow> no_triple_newline ys"
proof (induction xs)
  case (Cons x xs)
  then show ?case by (cases "xs @ ys" rule: no_triple_newline.cases) auto
qed simp

lemma no_triple_newline_prefix: "no_triple_newline (xs @ ys) \<Longrightarrow> no_triple_newline xs"
  by (induction xs rule: no_triple_newline.induct) auto

lemma strip_middle: obtains pre post where "s = pre @ py_strip s @ post"
proof -
  let ?l = "py_lstrip s"
  have "s = takeWhile is_space s @ ?l" by (simp add: py_lstrip_def)
  moreover have "?l = py_rstrip ?l @ rev (takeWhile is_space (rev ?l))"
    by (simp add: py_rstrip_def) (metis rev_append rev_rev_ident takeWhile_dropWhile_id)
  ultimately show ?thesis by (metis py_strip_def that)
qed

lemma strip_strip: "py_strip (py_strip s) = py_strip s"
proof (cases "py_strip s = []")
  case True
  have "py_strip [] = []" by (simp add: py_strip_def py_lstrip_def py_rstrip_def)
  with True show ?thesis by simp
next
  case False
  let ?l = "py_lstrip s"
  have l: "?l \<noteq> []" using False by (auto simp: py_strip_def py_rstrip_def)
  have hl: "\<not> is_space (hd ?l)" using l by (simp add: py_lstrip_def hd_dropWhile)
  obtain post where post: "?l = py_strip s @ post"
    by (metis py_rstrip_def py_strip_def rev_append rev_rev_ident takeWhile_dropWhile_id)
  have "hd (py_strip s) = hd ?l" using post False by (metis hd_append2)
  moreover have "\<not> is_space (last (py_strip s))"
    using False hd_dropWhile [of is_space "rev ?l"] by (auto simp: py_strip_def py_rstrip_def last_rev)
  ultimately show ?thesis using strip_trimmed False hl by simp
qed

lemma squeeze_hd: "\<exists>r. squeeze_newlines (a # s) = a # r"
proof (induction "a # s" arbitrary: a s rule: squeeze_newlines.induct)
  case (1 a b c s)
  then show ?case by auto
qed auto

lemma squeeze_step:
  "squeeze_newlines (b # s) = b # squeeze_newlines s \<or> (b = LF \<and> take 2 s = [LF, LF])"
  by (cases "b # s" rule: squeeze_newlines.cases) auto

lemma squeeze_no_trailing: "no_trailing_blank s \<Longrightarrow> no_trailing_blank (squeeze_newlines s)"
proof (induction s rule: squeeze_newlines.induct)
  case (1 a b c s)
  obtain r where "squeeze_newlines (b # c # s) = b # r" using squeeze_hd by blast
  with 1 show ?case by auto
qed auto

lemma squeeze_no_triple: "no_triple_newline (squeeze_newlines s)"
proof (induction s rule: squeeze_newlines.induct)
  case (1 a b c s)
  show ?case
  proof (cases "a = LF \<and> b = LF \<and> c = LF")
    case True
    then show ?thesis using 1 by simp
  next
    case False
    obtain r where r: "squeeze_newlines (b # c # s) = b # r" using squeeze_hd by blast
    obtain q where q: "squeeze_newlines (c # s) = c # q" using squeeze_hd by blast
    have "no_triple_newline (a # b # r)"
    proof (cases "b = LF \<and> a = LF")
      case True
      then have "r = c # q" using False squeeze_step [of b "c # s"] r q by auto
      then show ?thesis using False 1(2) r by auto
    next
      case f: False
      then show ?thesis using 1(2) False r by (cases r) auto
    qed
    with False r show ?thesis by auto
  qed
qed auto

lemma squeeze_id: "no_triple_newline s \<Longrightarrow> squeeze_newlines s = s"
  by (induction s rule: squeeze_newlines.induct) auto

lemma squeeze_set: "set (squeeze_newlines s) \<subseteq> set s"
  by (induction s rule: squeeze_newlines.induct) auto

lemma split_on_nonempty [simp]: "split_on sep s \<noteq> []"
  by (induction s) (auto split: list.splits)

lemma split_on_no_sep: "l \<in> set (split_on sep s) \<Longrightarrow> sep \<notin> set l"
  by (induction s arbitrary: l) (auto split: list.splits if_splits)

lemma split_on_set: "l \<in> set (split_on sep s) \<Longrightarrow> set l \<subseteq> set s"
proof (induction s arbitrary: l)
  case (Cons c s)
  then show ?case by (cases "split_on sep s") (fastforce split: if_splits)+
qed simp

lemma join_Cons: "ls \<noteq> [] \<Longrightarrow> join_lines (l # ls) = l @ LF # join_lines ls"
  by (cases ls) auto

lemma join_split: "join_lines (split_on LF s) = s"
proof (induction s)
  case (Cons c s)
  obtain l ls where sp: "split_on LF s = l # ls" by (meson list.exhaust split_on_nonempty)
  with Cons show ?case by (cases ls) auto
qed simp

lemma join_set: "set (join_lines ls) \<subseteq> insert LF (\<Union>l \<in> set ls. set l)"
  by (induction ls rule: join_lines.induct) auto

lemma rstrip_set: "set (py_rstrip s) \<subseteq> set s"
  by (auto simp: py_rstrip_def dest: set_dropWhileD)

lemma rstrip_last: "py_rstrip s = [] \<or> \<not> is_space (last (py_rstrip s))"
proof (cases "dropWhile is_space (rev s) = []")
  case False
  with hd_dropWhile [OF this] show ?thesis by (simp add: py_rstrip_def last_rev)
qed (simp add: py_rstrip_def)

lemma rstrip_id: "s = [] \<or> \<not> is_space (last s) \<Longrightarrow> py_rstrip s = s"
  by (cases "rev s") (auto simp: py_rstrip_def hd_rev [symmetric])

lemma no_trailing_line: "LF \<notin> set l \<Longrightarrow> no_trailing_blank l"
  by (induction l rule: no_trailing_blank.induct) auto

lemma join_no_trailing:
  "(\<And>l. l \<in> set ls \<Longrightarrow> LF \<notin> set l \<and> (l = [] \<or> \<not> is_space (last l))) \<Longrightarrow>
   no_trailing_blank (join_lines ls)"
proof (induction ls)
  case (Cons l ls)
  show ?case
  proof (cases "ls = []")
    case True
    then show ?thesis using Cons.prems by (simp add: no_trailing_line)
  next
    case False
    have l: "no_trailing_blank l" "l = [] \<or> \<not> is_space (last l)"
      using Cons.prems [of l] by (auto simp: no_trailing_line)
    have j: "no_trailing_blank (join_lines ls)" using Cons by simp
    then have "no_trailing_blank (LF # join_lines ls)" by (cases "join_lines ls") auto
    with l show ?thesis by (auto simp: join_Cons [OF False] no_trailing_blank_append)
  qed
qed simp

lemma lines_trimmed:
  "no_trailing_blank s \<Longrightarrow> s = [] \<or> \<not> is_space (last s) \<Longrightarrow> l \<in> set (split_on LF s) \<Longrightarrow>
   l = [] \<or> \<not> is_space (last l)"
proof (induction s arbitrary: l)
  case (Cons c s)
  obtain k ks where sp: "split_on LF s = k # ks" by (meson list.exhaust split_on_nonempty)
  have s: "no_trailing_blank s" "s = [] \<or> \<not> is_space (last s)"
    using Cons.prems by (cases s; auto)+
  note IH = Cons.IH [OF s]
  show ?case
  proof (cases "c = LF \<or> l \<noteq> c # k")
    case True
    then show ?thesis using Cons.prems(3) IH sp by (auto split: if_splits)
  next
    case False
    have "k = [] \<Longrightarrow> \<not> is_space c"
    proof (cases s)
      case Nil
      then show ?thesis using Cons.prems(2) by simp
    next
      case (Cons d r)
      assume "k = []"
      with sp Cons have "d = LF" by (auto split: if_splits list.splits)
      with Cons False Cons.prems(1) show ?thesis by auto
    qed
    then show ?thesis using False IH [of k] sp by auto
  qed
qed simp

lemma replace_crlf_no_CR: "CR \<notin> set s \<Longrightarrow> replace_crlf s = s"
  by (induction s rule: replace_crlf.induct) auto

lemma replace_cr_no_CR: "CR \<notin> set s \<Longrightarrow> replace_cr s = s"
  by (auto simp: replace_cr_def intro: map_idI)

lemma replace_cr_removes: "CR \<notin> set (replace_cr s)"
  by (auto simp: replace_cr_def)

lemma normalize_tidy: "tidy (normalize_text nfc s)"
proof -
  define t where "t = replace_cr (replace_crlf (nfc (filter (\<lambda>c. c \<noteq> NUL) s)))"
  define ls where "ls = map py_rstrip (split_on LF t)"
  define q where "q = squeeze_newlines (join_lines ls)"
  have n: "normalize_text nfc s = py_strip q" by (simp add: normalize_text_def t_def ls_def q_def Let_def)
  have ls: "LF \<notin> set l \<and> (l = [] \<or> \<not> is_space (last l)) \<and> CR \<notin> set l" if "l \<in> set ls" for l
  proof -
    from that obtain k where k: "k \<in> set (split_on LF t)" "l = py_rstrip k" by (auto simp: ls_def)
    have "CR \<notin> set k" using split_on_set [OF k(1)] replace_cr_removes by (auto simp: t_def)
    then show ?thesis using k rstrip_set [of k] rstrip_last [of k] split_on_no_sep [OF k(1)] by blast
  qed
  have "CR \<notin> set (join_lines ls)" using join_set [of ls] ls by auto
  then have cr: "CR \<notin> set q" using squeeze_set [of "join_lines ls"] by (auto simp: q_def)
  have tr: "no_trailing_blank q" unfolding q_def using ls by (intro squeeze_no_trailing join_no_trailing) auto
  have tri: "no_triple_newline q" unfolding q_def by (rule squeeze_no_triple)
  obtain pre post where q: "q = pre @ py_strip q @ post" by (rule strip_middle)
  have "CR \<notin> set (py_strip q)" using cr by (subst (asm) q) auto
  moreover have "no_trailing_blank (py_strip q)"
    using tr by (subst (asm) q) (auto simp: no_trailing_blank_append)
  moreover have "no_triple_newline (py_strip q)"
    using tri by (subst (asm) q) (blast dest: no_triple_newline_suffix no_triple_newline_prefix)
  ultimately show ?thesis by (simp add: n tidy_def strip_strip)
qed

lemma tidy_normalized:
  assumes "tidy t" "nfc t = t" "NUL \<notin> set t"
  shows "normalize_text nfc t = t"
proof -
  from assms(1) have t: "CR \<notin> set t" "no_trailing_blank t" "no_triple_newline t" "py_strip t = t"
    by (auto simp: tidy_def)
  have f: "filter (\<lambda>c. c \<noteq> NUL) t = t" using assms(3) by (auto simp: filter_id_conv)
  have "t = [] \<or> \<not> is_space (last t)" using strip_idem_hd(2) [OF t(4)] by auto
  then have "map py_rstrip (split_on LF t) = split_on LF t"
    using lines_trimmed [OF t(2)] by (intro map_idI rstrip_id) auto
  then show ?thesis
    by (simp add: normalize_text_def f assms(2) replace_crlf_no_CR t replace_cr_no_CR join_split squeeze_id)
qed

subsection \<open>Rebuilt offsets\<close>

text \<open>A section whose offsets cite exactly its own text in the document.\<close>

definition section_ok :: "string \<Rightarrow> text_section \<Rightarrow> bool" where
  "section_ok t s \<longleftrightarrow> sec_start s < sec_end s \<and> sec_end s \<le> length t \<and>
    slice t (sec_start s) (sec_end s) = sec_text s \<and> tidy (sec_text s)"

fun join_sections :: "string list \<Rightarrow> string" where
  "join_sections [] = []"
| "join_sections [x] = x"
| "join_sections (x # xs) = x @ [LF, LF] @ join_sections xs"

definition sections_ok :: "string \<Rightarrow> text_section list \<Rightarrow> bool" where
  "sections_ok t secs \<longleftrightarrow> list_all (section_ok t) secs \<and>
    sorted_wrt (\<lambda>a b. sec_end a + 2 \<le> sec_start b) secs \<and> t = join_sections (map sec_text secs)"

lemma slice_append: "j \<le> length t \<Longrightarrow> slice (t @ x) i j = slice t i j"
  by (simp add: slice_def)

lemma slice_tail: "slice (t @ x) (length t) (length t + length x) = x"
  by (simp add: slice_def)

lemma section_ok_append: "section_ok t s \<Longrightarrow> section_ok (t @ x) s"
  by (simp add: section_ok_def slice_append)

lemma join_sections_snoc:
  "join_sections (xs @ [x]) = (if xs = [] then x else join_sections xs @ [LF, LF] @ x)"
  by (induction xs rule: join_sections.induct) auto

lemma sections_ok_snoc:
  assumes "sections_ok t secs" "tidy x" "x \<noteq> []" "sec_text s = x"
    and "sec_start s = length t + (if secs = [] then 0 else 2)" "sec_end s = sec_start s + length x"
  shows "sections_ok (t @ (if secs = [] then [] else [LF, LF]) @ x) (secs @ [s])"
proof -
  let ?t = "t @ (if secs = [] then [] else [LF, LF])"
  have len: "sec_start s = length ?t" using assms(5) by simp
  have t: "secs = [] \<Longrightarrow> t = []" using assms(1) by (simp add: sections_ok_def)
  have "slice (?t @ x) (sec_start s) (sec_end s) = x"
    unfolding assms(6) len by (rule slice_tail)
  then have "section_ok (?t @ x) s"
    using assms(2-4,6) len by (simp add: section_ok_def)
  moreover have "list_all (section_ok (?t @ x)) secs"
    using assms(1) by (auto simp: sections_ok_def list_all_iff section_ok_append)
  moreover have "sorted_wrt (\<lambda>a b. sec_end a + 2 \<le> sec_start b) (secs @ [s])"
    using assms(1) assms(5)
    by (auto simp: sections_ok_def sorted_wrt_append list_all_iff section_ok_def)
  moreover have "?t @ x = join_sections (map sec_text (secs @ [s]))"
    using assms(1,4) t by (simp add: sections_ok_def join_sections_snoc)
  ultimately show ?thesis by (simp add: sections_ok_def)
qed

lemma rebuild_sections_ok:
  assumes "sections_ok (concat parts) secs" "offset = length (concat parts)" "parts = [] \<longleftrightarrow> secs = []"
    and "rebuild_sections nfc ss parts secs offset = (parts', secs')"
  shows "sections_ok (concat parts') secs' \<and>
    map sec_page secs' = map sec_page secs @
      map sec_page (filter (\<lambda>s. normalize_text nfc (sec_text s) \<noteq> []) ss)"
  using assms
proof (induction ss arbitrary: parts secs offset)
  case (Cons s ss)
  define x where "x = normalize_text nfc (sec_text s)"
  show ?case
  proof (cases "x = []")
    case True
    then show ?thesis using Cons by (simp add: x_def)
  next
    case False
    define start where "start = offset + (if secs = [] then 0 else 2)"
    define s' where "s' = \<lparr>sec_text = x, sec_start = start, sec_end = start + length x,
      sec_page = sec_page s, sec_title = sec_title s\<rparr>"
    define parts1 where "parts1 = parts @ (if secs = [] then [] else [[LF, LF]]) @ [x]"
    have "rebuild_sections nfc ss parts1 (secs @ [s']) (start + length x) = (parts', secs')"
      using Cons.prems(3,4) False
      by (cases "secs = []") (simp_all add: x_def [symmetric] Let_def parts1_def s'_def start_def)
    moreover have "concat parts1 = concat parts @ (if secs = [] then [] else [LF, LF]) @ x"
      by (simp add: parts1_def)
    moreover have "sections_ok (concat parts @ (if secs = [] then [] else [LF, LF]) @ x) (secs @ [s'])"
      using Cons.prems(1,2) False normalize_tidy [of nfc "sec_text s"]
      by (intro sections_ok_snoc) (simp_all add: s'_def start_def x_def)
    moreover have "start + length x = length (concat parts1)"
      using Cons.prems(2) by (simp add: parts1_def start_def)
    moreover have "parts1 \<noteq> []" by (simp add: parts1_def)
    ultimately have "sections_ok (concat parts') secs' \<and> map sec_page secs' = map sec_page (secs @ [s']) @
        map sec_page (filter (\<lambda>s. normalize_text nfc (sec_text s) \<noteq> []) ss)"
      using Cons.IH [of parts1 "secs @ [s']" "start + length x"] by (simp only: append_is_Nil_conv) blast
    then show ?thesis using False by (simp add: x_def s'_def)
  qed
qed simp

lemma normalize_extracted_ok:
  "sections_ok (ed_text (normalize_extracted_document nfc doc))
     (ed_sections (normalize_extracted_document nfc doc))"
  "map sec_page (ed_sections (normalize_extracted_document nfc doc)) =
     map sec_page (filter (\<lambda>s. normalize_text nfc (sec_text s) \<noteq> []) (ed_sections doc))"
proof -
  obtain parts secs where r: "rebuild_sections nfc (ed_sections doc) [] [] 0 = (parts, secs)" by fastforce
  have "sections_ok (concat []) []" by (simp add: sections_ok_def)
  from rebuild_sections_ok [OF this _ _ r]
  show "sections_ok (ed_text (normalize_extracted_document nfc doc))
      (ed_sections (normalize_extracted_document nfc doc))"
    "map sec_page (ed_sections (normalize_extracted_document nfc doc)) =
      map sec_page (filter (\<lambda>s. normalize_text nfc (sec_text s) \<noteq> []) (ed_sections doc))"
    by (simp_all add: normalize_extracted_document_def r)
qed

lemma join_sections_hd:
  assumes "\<forall>x \<in> set xs. tidy x \<and> x \<noteq> []" "xs \<noteq> []"
  shows "join_sections xs \<noteq> []" "\<not> is_space (join_sections xs ! 0)"
proof -
  obtain y ys where xs: "xs = y # ys" using assms(2) by (cases xs) auto
  obtain r where r: "join_sections xs = y @ r" unfolding xs by (cases ys) auto
  have y: "y \<noteq> []" "\<not> is_space (hd y)"
    using assms(1) strip_idem_hd [of y] by (auto simp: xs tidy_def)
  show "join_sections xs \<noteq> []" "\<not> is_space (join_sections xs ! 0)"
    using y by (simp_all add: r nth_append hd_conv_nth)
qed

lemma normalized_starts_nonblank:
  assumes "ed_text (normalize_extracted_document nfc doc) \<noteq> []"
  shows "\<not> is_space (ed_text (normalize_extracted_document nfc doc) ! 0)"
proof -
  let ?d = "normalize_extracted_document nfc doc"
  have ok: "sections_ok (ed_text ?d) (ed_sections ?d)" by (rule normalize_extracted_ok)
  then have t: "ed_text ?d = join_sections (map sec_text (ed_sections ?d))"
    and s: "\<forall>x \<in> set (map sec_text (ed_sections ?d)). tidy x \<and> x \<noteq> []"
    by (auto simp: sections_ok_def list_all_iff section_ok_def slice_def)
  have "map sec_text (ed_sections ?d) \<noteq> []" using assms t by auto
  from join_sections_hd(2) [OF s this] show ?thesis unfolding t .
qed

end
