(* ===== verification/KnowledgeProperties.thy ===== *)
theory KnowledgeProperties
  imports Retrieval IngestionLemmas
begin

section \<open>Properties of knowledge ingestion and retrieval\<close>

text \<open>
  The chunker and the normalizer, the agreement of documents, jobs and chunks under any
  interleaving of the services, what a run of the task leaves behind, and tenant isolation of
  the search.
\<close>

subsection \<open>The outcome of the computation\<close>

lemma chunk_text_cases:
  assumes "chunk_text t size0 overlap m secs = Inr ds"
  shows "ds = [] \<or> (0 < size0 \<and> ds = chunk_loop (nat size0) (nat overlap) m secs t 0 [])"
  using assms by (auto simp: chunk_text_def Let_def split: if_splits)

lemma chunk_text_ok:
  assumes "chunk_text t size0 overlap m secs = Inr ds"
  shows "drafts_ok t (nat size0) m secs ds"
  using chunk_text_cases [OF assms]
proof
  assume "ds = []"
  then show ?thesis by (simp add: drafts_ok_def)
qed (simp add: chunk_loop_ok)

lemma validate_all_length: "validate_all f xs = Inr ys \<Longrightarrow> length ys = length xs"
  by (induction xs arbitrary: ys) (auto split: sum.splits)

lemma validate_all_each: "validate_all f xs = Inr ys \<Longrightarrow> y \<in> set ys \<Longrightarrow> \<exists>x \<in> set xs. f x = Inr y"
  by (induction xs arbitrary: ys) (auto split: sum.splits)

lemma validate_embeddings_ok:
  assumes "validate_embeddings vs n dm = Inr ws"
  shows "length ws = n" "\<forall>w \<in> set ws. length w = dm"
proof -
  have v: "validate_all (validate_vector dm) vs = Inr ws" "length vs = n"
    using assms by (auto simp: validate_embeddings_def split: if_splits)
  then show "length ws = n" using validate_all_length by metis
  show "\<forall>w \<in> set ws. length w = dm"
    using validate_all_each [OF v(1)]
    by (fastforce simp: validate_vector_def dest: validate_all_length split: if_splits)
qed

lemma lift_known_Inr: "lift_known r f = Inr b \<longleftrightarrow> (\<exists>a. r = Inr a \<and> f a = Inr b)"
  by (auto simp: lift_known_def split: sum.splits)

definition ingested_ok :: "knowledge_settings \<Rightarrow> ingested \<Rightarrow> bool" where
  "ingested_ok ks ig \<longleftrightarrow>
    (\<exists>secs. drafts_ok (ig_text ig) (nat (ks_chunk_size ks)) (ks_min_chunk_chars ks) secs (ig_drafts ig)) \<and>
    length (ig_vectors ig) = length (ig_drafts ig) \<and>
    (\<forall>v \<in> set (ig_vectors ig). length v = ks_embedding_dimension ks)"

lemma ingest_compute_ok: "ingest_compute tr ks ep ct stored = Inr ig \<Longrightarrow> ingested_ok ks ig"
proof -
  assume c: "ingest_compute tr ks ep ct stored = Inr ig"
  then obtain f0 where st: "stored = Opened f0" by (cases stored) (auto simp: ingest_compute_def)
  from c obtain x raw where raw: "extract_text tr ks x f0 = Inr raw"
    and c1: "(if int (length (py_strip (ed_text (normalize_extracted_document (tr_nfc tr) raw))))
               < ks_min_chunk_chars ks then Inl (Known NoExtractableTextError)
             else lift_known (chunk_text (ed_text (normalize_extracted_document (tr_nfc tr) raw))
               (ks_chunk_size ks) (ks_chunk_overlap ks) (ks_min_chunk_chars ks)
               (ed_sections (normalize_extracted_document (tr_nfc tr) raw)))
               (\<lambda>drafts. case ep_embed_documents ep (map dr_text drafts) of
                     Inl e \<Rightarrow> Inl e
                   | Inr vectors \<Rightarrow>
                       (case validate_embeddings vectors (length drafts) (ks_embedding_dimension ks) of
                         Inl e \<Rightarrow> Inl e
                       | Inr vs \<Rightarrow> Inr \<lparr>ig_text = ed_text (normalize_extracted_document (tr_nfc tr) raw),
                                        ig_drafts = drafts, ig_vectors = vs, ig_extractor = x\<rparr>))) = Inr ig"
    unfolding st by (auto simp: ingest_compute_def lift_known_Inr Let_def)
  define nd where "nd = normalize_extracted_document (tr_nfc tr) raw"
  from c1 obtain drafts where
    ch: "chunk_text (ed_text nd) (ks_chunk_size ks) (ks_chunk_overlap ks) (ks_min_chunk_chars ks)
          (ed_sections nd) = Inr drafts"
    and c2: "(case ep_embed_documents ep (map dr_text drafts) of
                     Inl e \<Rightarrow> Inl e
                   | Inr vectors \<Rightarrow>
                       (case validate_embeddings vectors (length drafts) (ks_embedding_dimension ks) of
                         Inl e \<Rightarrow> Inl e
                       | Inr vs \<Rightarrow> Inr \<lparr>ig_text = ed_text nd,
                                        ig_drafts = drafts, ig_vectors = vs, ig_extractor = x\<rparr>)) = Inr ig"
    unfolding nd_def [symmetric] by (auto simp: lift_known_Inr split: if_splits)
  from c2 obtain vectors where "ep_embed_documents ep (map dr_text drafts) = Inr vectors"
    by (cases "ep_embed_documents ep (map dr_text drafts)") auto
  with c2 obtain vs where va0: "validate_embeddings vectors (length drafts) (ks_embedding_dimension ks) = Inr vs"
    and eq: "ig = \<lparr>ig_text = ed_text nd, ig_drafts = drafts, ig_vectors = vs, ig_extractor = x\<rparr>"
    by (cases "validate_embeddings vectors (length drafts) (ks_embedding_dimension ks)") auto
  have va: "validate_embeddings vectors (length drafts) (ks_embedding_dimension ks) = Inr (ig_vectors ig)"
    and ig: "ig_text ig = ed_text nd" "ig_drafts ig = drafts"
    using va0 eq by simp_all
  have "drafts_ok (ig_text ig) (nat (ks_chunk_size ks)) (ks_min_chunk_chars ks) (ed_sections nd) drafts"
    unfolding ig(1) by (rule chunk_text_ok [OF ch])
  with validate_embeddings_ok [OF va] show ?thesis unfolding ingested_ok_def ig(2) by blast
qed

subsection \<open>Documents, jobs and chunks\<close>

fun document_status_of :: "ingestion_status \<Rightarrow> document_status" where
  "document_status_of KI_QUEUED = KD_QUEUED"
| "document_status_of KI_PROCESSING = KD_PROCESSING"
| "document_status_of KI_SUCCEEDED = KD_READY"
| "document_status_of KI_FAILED = KD_FAILED"

lemma document_status_ready [simp]: "document_status_of st = KD_READY \<longleftrightarrow> st = KI_SUCCEEDED"
  by (cases st) simp_all

definition chunks_of :: "nat \<Rightarrow> chunk rows \<Rightarrow> chunk list" where
  "chunks_of d t = map snd (rows_where (\<lambda>k c. ck_document c = d) t)"

definition stored_chunk_ok :: "knowledge_settings \<Rightarrow> nat \<Rightarrow> chunk \<Rightarrow> bool" where
  "stored_chunk_ok ks ws c \<longleftrightarrow> ck_workspace c = ws \<and> ck_start_offset c < ck_end_offset c \<and>
    length (ck_text c) = ck_end_offset c - ck_start_offset c \<and>
    int (length (ck_text c)) \<le> ks_chunk_size ks \<and> length (ck_embedding c) = ks_embedding_dimension ks"

text \<open>Complete chunks when the document is ready, none otherwise.\<close>

definition document_chunks_ok :: "knowledge_settings \<Rightarrow> document \<Rightarrow> chunk list \<Rightarrow> bool" where
  "document_chunks_ok ks dr cs \<longleftrightarrow>
    (if dc_status dr = KD_READY
     then map ck_ordinal cs = [0..<dc_chunk_count dr] \<and> list_all (stored_chunk_ok ks (dc_workspace dr)) cs
     else cs = [])"

definition job_paired :: "document rows \<Rightarrow> ingestion_job \<Rightarrow> bool" where
  "job_paired docs jr \<longleftrightarrow> (case row_get docs (ij_document jr) of None \<Rightarrow> False
    | Some dr \<Rightarrow> dc_workspace dr = ij_workspace jr \<and> dc_status dr = document_status_of (ij_status jr))"

definition knowledge_wf :: "knowledge_settings \<Rightarrow> knowledge \<Rightarrow> bool" where
  "knowledge_wf ks s \<longleftrightarrow>
    distinct (row_ids (kn_jobs s)) \<and>
    (\<forall>j jr. row_get (kn_jobs s) j = Some jr \<longrightarrow> job_paired (kn_documents s) jr) \<and>
    (\<forall>j jr j' jr'. row_get (kn_jobs s) j = Some jr \<longrightarrow> row_get (kn_jobs s) j' = Some jr' \<longrightarrow>
      ij_document jr = ij_document jr' \<longrightarrow> j = j') \<and>
    (\<forall>d dr. row_get (kn_documents s) d = Some dr \<longrightarrow>
      document_chunks_ok ks dr (chunks_of d (kn_chunks s))) \<and>
    (\<forall>(k, c) \<in> set (kn_chunks s). row_get (kn_documents s) (ck_document c) \<noteq> None)"

lemma knowledge_wfD:
  assumes "knowledge_wf ks s"
  shows "distinct (row_ids (kn_jobs s))"
    "row_get (kn_jobs s) j = Some jr \<Longrightarrow> job_paired (kn_documents s) jr"
    "row_get (kn_jobs s) j = Some jr \<Longrightarrow> row_get (kn_jobs s) j' = Some jr' \<Longrightarrow>
      ij_document jr = ij_document jr' \<Longrightarrow> j = j'"
    "row_get (kn_documents s) d = Some dr \<Longrightarrow> document_chunks_ok ks dr (chunks_of d (kn_chunks s))"
    "(k, c) \<in> set (kn_chunks s) \<Longrightarrow> row_get (kn_documents s) (ck_document c) \<noteq> None"
  using assms unfolding knowledge_wf_def by blast+

lemma knowledge_wf_cong:
  "kn_jobs s' = kn_jobs s \<Longrightarrow> kn_documents s' = kn_documents s \<Longrightarrow> kn_chunks s' = kn_chunks s \<Longrightarrow>
   knowledge_wf ks s' \<longleftrightarrow> knowledge_wf ks s"
  by (simp add: knowledge_wf_def)

lemma put_job_document_sel [simp]:
  "kn_jobs (put_job_document j jr d dr s) = row_put j jr (kn_jobs s)"
  "kn_documents (put_job_document j jr d dr s) = row_put d dr (kn_documents s)"
  "kn_chunks (put_job_document j jr d dr s) = kn_chunks s"
  "kn_sources (put_job_document j jr d dr s) = kn_sources s"
  "kn_hits (put_job_document j jr d dr s) = kn_hits s"
  by (simp_all add: put_job_document_def)

lemma kn_effect_sel [simp]:
  "kn_jobs (kn_effect e s) = kn_jobs s" "kn_documents (kn_effect e s) = kn_documents s"
  "kn_chunks (kn_effect e s) = kn_chunks s" "kn_sources (kn_effect e s) = kn_sources s"
  "kn_hits (kn_effect e s) = kn_hits s"
  by (simp_all add: kn_effect_def)

lemma put_wf:
  assumes wf: "knowledge_wf ks s"
    and new: "row_get (kn_jobs s) j = Some jr0 \<and> ij_document jr0 = d \<or>
              row_get (kn_jobs s) j = None \<and> row_get (kn_documents s) d = None"
    and jr: "ij_document jr = d" "dc_workspace dr = ij_workspace jr" "dc_status dr = document_status_of (ij_status jr)"
    and mine: "document_chunks_ok ks dr (chunks_of d t)"
    and others: "\<And>d'. d' \<noteq> d \<Longrightarrow> chunks_of d' t = chunks_of d' (kn_chunks s)"
    and docs: "\<And>k c. (k, c) \<in> set t \<Longrightarrow> ck_document c = d \<or> row_get (kn_documents s) (ck_document c) \<noteq> None"
  shows "knowledge_wf ks (put_job_document j jr d dr (s\<lparr>kn_chunks := t\<rparr>))"
proof -
  note w = knowledge_wfD [OF wf]
  have other: "ij_document jr' \<noteq> d" if "row_get (kn_jobs s) j' = Some jr'" "j' \<noteq> j" for j' jr'
  proof
    assume eq: "ij_document jr' = d"
    from new show False
    proof
      assume "row_get (kn_jobs s) j = Some jr0 \<and> ij_document jr0 = d"
      with w(3) [OF that(1), of j jr0] eq that(2) show False by simp
    next
      assume "row_get (kn_jobs s) j = None \<and> row_get (kn_documents s) d = None"
      with w(2) [OF that(1)] eq show False by (simp add: job_paired_def)
    qed
  qed
  let ?s = "put_job_document j jr d dr (s\<lparr>kn_chunks := t\<rparr>)"
  have a: "distinct (row_ids (kn_jobs ?s))" using w(1) by auto
  have b: "job_paired (kn_documents ?s) jr'" if "row_get (kn_jobs ?s) j' = Some jr'" for j' jr'
  proof (cases "j' = j")
    case True
    then show ?thesis using that jr by (simp add: job_paired_def)
  next
    case False
    then have jr': "row_get (kn_jobs s) j' = Some jr'" using that by simp
    with w(2) [OF jr'] other [OF jr' False] show ?thesis by (simp add: job_paired_def)
  qed
  have c: "j1 = j2" if "row_get (kn_jobs ?s) j1 = Some jr1" "row_get (kn_jobs ?s) j2 = Some jr2"
    "ij_document jr1 = ij_document jr2" for j1 jr1 j2 jr2
    using that jr other [of j1 jr1] other [of j2 jr2] w(3) [of j1 jr1 j2 jr2] by (auto split: if_splits)
  have d: "document_chunks_ok ks dr' (chunks_of d' (kn_chunks ?s))"
    if "row_get (kn_documents ?s) d' = Some dr'" for d' dr'
    using that mine others w(4) by (auto split: if_splits)
  have e: "row_get (kn_documents ?s) (ck_document c) \<noteq> None" if "(k, c) \<in> set (kn_chunks ?s)" for k c
    using that docs [of k c] by auto
  show ?thesis unfolding knowledge_wf_def using a b c d e by blast
qed

lemma put_unready_wf:
  assumes wf: "knowledge_wf ks s" and j: "row_get (kn_jobs s) j = Some jr0" "ij_status jr0 \<noteq> KI_SUCCEEDED"
    and d: "row_get (kn_documents s) (ij_document jr0) = Some dr0"
    and jr: "ij_document jr = ij_document jr0" "ij_workspace jr = ij_workspace jr0" "ij_status jr \<noteq> KI_SUCCEEDED"
    and dr: "dc_workspace dr = dc_workspace dr0" "dc_status dr = document_status_of (ij_status jr)"
  shows "knowledge_wf ks (put_job_document j jr (ij_document jr0) dr s)"
proof -
  have p: "dc_workspace dr0 = ij_workspace jr0" "dc_status dr0 \<noteq> KD_READY"
    using knowledge_wfD(2) [OF wf j(1)] d j(2) by (auto simp: job_paired_def)
  then have "chunks_of (ij_document jr0) (kn_chunks s) = []"
    using knowledge_wfD(4) [OF wf d] by (simp add: document_chunks_ok_def)
  then have "knowledge_wf ks (put_job_document j jr (ij_document jr0) dr (s\<lparr>kn_chunks := kn_chunks s\<rparr>))"
    using j jr dr p knowledge_wfD(5) [OF wf]
    by - (rule put_wf [OF wf, of j jr0], auto simp: document_chunks_ok_def)
  then show ?thesis by simp
qed

lemma locked_job_cases:
  assumes "locked_job j f s = (s', r)"
  obtains e where "s' = s" "r = Inl e"
  | jr dr a where "row_get (kn_jobs s) j = Some jr" "row_get (kn_documents s) (ij_document jr) = Some dr"
      "f j jr (ij_document jr) dr s = (s', Inr a)" "r = Inr a"
proof (cases r)
  case (Inl e)
  have "s' = s" using assms unfolding Inl locked_job_def by (rule atomic_error_rolls_back)
  then show ?thesis using Inl by (rule that(1))
next
  case (Inr a)
  have body: "(case row_get (kn_jobs s) j of
      None \<Rightarrow> (s, Inl (KnowledgeDb DoesNotExist))
    | Some jr \<Rightarrow>
        (case row_get (kn_documents s) (ij_document jr) of
          None \<Rightarrow> (s, Inl (KnowledgeDb DoesNotExist))
        | Some dr \<Rightarrow> f j jr (ij_document jr) dr s)) = (s', Inr a)"
    using assms unfolding Inr locked_job_def atomic_ok_iff .
  then obtain jr where jr: "row_get (kn_jobs s) j = Some jr" by (cases "row_get (kn_jobs s) j") simp_all
  with body obtain dr where dr: "row_get (kn_documents s) (ij_document jr) = Some dr"
    by (cases "row_get (kn_documents s) (ij_document jr)") simp_all
  show ?thesis using body by (intro that(2) [OF jr dr _ Inr]) (simp add: jr dr)
qed

lemma mark_failed_wf: "knowledge_wf ks s \<Longrightarrow> knowledge_wf ks (fst (mark_failed j e now s))"
proof (cases "mark_failed j e now s")
  case (Pair s' r)
  assume wf: "knowledge_wf ks s"
  from Pair [unfolded mark_failed_def] show ?thesis
  proof (cases rule: locked_job_cases)
    case 1
    then show ?thesis using wf Pair by simp
  next
    case (2 jr dr a)
    then show ?thesis
      using wf Pair by (cases "ij_status jr = KI_SUCCEEDED") (auto intro!: put_unready_wf)
  qed
qed

lemma mark_retryable_wf: "knowledge_wf ks s \<Longrightarrow> knowledge_wf ks (fst (mark_retryable_failure j e s))"
proof (cases "mark_retryable_failure j e s")
  case (Pair s' r)
  assume wf: "knowledge_wf ks s"
  from Pair [unfolded mark_retryable_failure_def] show ?thesis
  proof (cases rule: locked_job_cases)
    case 1
    then show ?thesis using wf Pair by simp
  next
    case (2 jr dr a)
    then show ?thesis
      using wf Pair by (cases "ij_status jr = KI_SUCCEEDED") (auto intro!: put_unready_wf)
  qed
qed

lemma begin_ingestion_wf: "knowledge_wf ks s \<Longrightarrow> knowledge_wf ks (fst (begin_ingestion j now s))"
proof (cases "begin_ingestion j now s")
  case (Pair s' r)
  assume wf: "knowledge_wf ks s"
  from Pair [unfolded begin_ingestion_def] show ?thesis
  proof (cases rule: locked_job_cases)
    case 1
    then show ?thesis using wf Pair by simp
  next
    case (2 jr dr a)
    then show ?thesis
      using wf Pair by (cases "ij_status jr = KI_SUCCEEDED") (auto simp: Let_def intro!: put_unready_wf)
  qed
qed

lemma row_put_new: "k \<notin> set (row_ids t) \<Longrightarrow> row_put k r t = t @ [(k, r)]"
  by (induction t) (auto simp: row_ids_def)

lemma insert_chunks_appends:
  assumes "\<forall>c \<in> set cs. ck_document c = d" "distinct (map ck_ordinal cs)"
    and "\<forall>(k, c') \<in> set t. ck_document c' = d \<longrightarrow> ck_ordinal c' \<notin> ck_ordinal ` set cs"
  shows "\<exists>new. insert_chunks cs t = Some (t @ new) \<and> map snd new = cs"
  using assms
proof (induction cs arbitrary: t)
  case (Cons c cs)
  let ?t = "t @ [(fresh_id t, c)]"
  have put: "row_put (fresh_id t) c t = ?t" by (rule row_put_new) simp
  have free: "\<not> list_ex (\<lambda>(k, c'). ck_document c' = ck_document c \<and> ck_ordinal c' = ck_ordinal c) t"
    using Cons.prems by (auto simp: list_ex_iff)
  have "\<forall>(k, c') \<in> set ?t. ck_document c' = d \<longrightarrow> ck_ordinal c' \<notin> ck_ordinal ` set cs"
    using Cons.prems by auto
  then obtain new where "insert_chunks cs ?t = Some (?t @ new)" "map snd new = cs"
    using Cons.IH [of ?t] Cons.prems by auto
  then show ?case using free by (intro exI [of _ "(fresh_id t, c) # new"]) (simp add: put)
qed simp

lemma chunks_of_append [simp]: "chunks_of d (t @ u) = chunks_of d t @ chunks_of d u"
  by (simp add: chunks_of_def rows_where_def)

lemma chunks_of_all:
  assumes "\<forall>c \<in> set (map snd new). ck_document c = d"
  shows "chunks_of d' new = (if d' = d then map snd new else [])"
proof -
  have "ck_document (snd p) = d" if "p \<in> set new" for p using assms that by simp
  then have "filter (\<lambda>(k, c). ck_document c = d') new = (if d' = d then new else [])"
    by (cases "d' = d") (simp_all add: filter_id_conv filter_empty_conv case_prod_beta)
  then show ?thesis unfolding chunks_of_def rows_where_def by simp
qed

lemma chunk_of_sel [simp]:
  "ck_document (chunk_of ws d p) = d" "ck_workspace (chunk_of ws d p) = ws"
  "ck_ordinal (chunk_of ws d (x, v)) = dr_ordinal x" "ck_text (chunk_of ws d (x, v)) = dr_text x"
  "ck_start_offset (chunk_of ws d (x, v)) = dr_start x" "ck_end_offset (chunk_of ws d (x, v)) = dr_end x"
  "ck_embedding (chunk_of ws d (x, v)) = v"
  by (cases p; simp add: chunk_of_def)+

lemma ingested_chunks_ok:
  fixes ws d :: nat
  assumes "ingested_ok ks ig"
  defines "cs \<equiv> map (chunk_of ws d) (zip (ig_drafts ig) (ig_vectors ig))"
  shows "map ck_ordinal cs = [0..<length (ig_drafts ig)]" "list_all (stored_chunk_ok ks ws) cs"
    "\<forall>c \<in> set cs. ck_document c = d"
proof -
  from assms obtain secs where
    dr: "drafts_ok (ig_text ig) (nat (ks_chunk_size ks)) (ks_min_chunk_chars ks) secs (ig_drafts ig)"
    and len: "length (ig_vectors ig) = length (ig_drafts ig)"
    and vec: "\<forall>v \<in> set (ig_vectors ig). length v = ks_embedding_dimension ks"
    by (auto simp: ingested_ok_def)
  have d: "draft_ok (ig_text ig) (nat (ks_chunk_size ks)) secs n (ig_drafts ig ! n)"
    if "n < length (ig_drafts ig)" for n
    using dr that by (simp add: drafts_ok_def)
  show "map ck_ordinal cs = [0..<length (ig_drafts ig)]"
    by (rule nth_equalityI) (use len d in \<open>auto simp: cs_def draft_ok_def\<close>)
  have "stored_chunk_ok ks ws (cs ! n)" if n: "n < length cs" for n
  proof -
    have nl: "n < length (ig_drafts ig)" using n len by (simp add: cs_def)
    have cn: "cs ! n = chunk_of ws d (ig_drafts ig ! n, ig_vectors ig ! n)"
      using nl len by (simp add: cs_def)
    have "length (ig_vectors ig ! n) = ks_embedding_dimension ks" using vec nl len by simp
    moreover have "int (e - b) \<le> z" if "b < e" "e \<le> b + nat z" for b e z
      using that by linarith
    ultimately show ?thesis using d [OF nl] by (simp add: cn stored_chunk_ok_def draft_ok_def del: of_nat_diff)
  qed
  then show "list_all (stored_chunk_ok ks ws) cs" by (simp add: list_all_length)
  show "\<forall>c \<in> set cs. ck_document c = d" by (auto simp: cs_def)
qed

lemma unready_chunks:
  assumes "knowledge_wf ks s" "row_get (kn_jobs s) j = Some jr" "row_get (kn_documents s) (ij_document jr) = Some dr"
    and "ij_status jr \<noteq> KI_SUCCEEDED"
  shows "chunks_of (ij_document jr) (kn_chunks s) = []" "dc_workspace dr = ij_workspace jr"
proof -
  have "job_paired (kn_documents s) jr" by (rule knowledge_wfD(2) [OF assms(1,2)])
  with assms show "chunks_of (ij_document jr) (kn_chunks s) = []" "dc_workspace dr = ij_workspace jr"
    using knowledge_wfD(4) [OF assms(1,3)] by (auto simp: job_paired_def document_chunks_ok_def)
qed

lemma no_chunk_row: "chunks_of d t = [] \<Longrightarrow> (k, c) \<in> set t \<Longrightarrow> ck_document c \<noteq> d"
  by (force simp: chunks_of_def rows_where_def filter_empty_conv)

lemma delete_chunks_vacuous:
  assumes "chunks_of d (kn_chunks s) = []"
  shows "delete_chunks d s = (s, Inr ())"
proof -
  have none: "row_get (kn_chunks s) k = Some c \<Longrightarrow> ck_document c \<noteq> d" for k c
    using no_chunk_row [OF assms map_of_SomeD] .
  have "rows_where (\<lambda>k c. ck_document c \<noteq> d) (kn_chunks s) = kn_chunks s"
    using no_chunk_row [OF assms] by (auto simp: rows_where_def filter_id_conv)
  then show ?thesis
    using none by (auto simp: delete_chunks_def list_ex_iff split: option.splits)
qed

text \<open>Storing an outcome always succeeds on a job that is being processed.\<close>

lemma store_ingested_succeeds:
  assumes wf: "knowledge_wf ks s" and ig: "ingested_ok ks ig"
    and j: "row_get (kn_jobs s) j = Some jr" "ij_status jr = KI_PROCESSING"
    and d: "row_get (kn_documents s) (ij_document jr) = Some dr"
  shows "\<exists>new. store_ingested ep j ig now s =
      (put_job_document j (succeeded_job now ep ig jr) (ij_document jr) (ready_document now ig dr)
         (s\<lparr>kn_chunks := kn_chunks s @ new\<rparr>),
       Inr \<lparr>io_job = j, io_status = KI_SUCCEEDED, io_chunk_count = length (ig_drafts ig),
            io_already_complete = False\<rparr>) \<and>
    map snd new = map (chunk_of (dc_workspace dr) (ij_document jr)) (zip (ig_drafts ig) (ig_vectors ig))"
proof -
  let ?d = "ij_document jr"
  let ?cs = "map (chunk_of (dc_workspace dr) ?d) (zip (ig_drafts ig) (ig_vectors ig))"
  have none: "chunks_of ?d (kn_chunks s) = []" using unready_chunks(1) [OF wf j(1) d] j(2) by simp
  note c = ingested_chunks_ok [OF ig, of "dc_workspace dr" ?d]
  have "distinct (map ck_ordinal ?cs)" unfolding c(1) by simp
  moreover have "\<forall>(k, c') \<in> set (kn_chunks s). ck_document c' = ?d \<longrightarrow> ck_ordinal c' \<notin> ck_ordinal ` set ?cs"
    using no_chunk_row [OF none] by blast
  ultimately obtain new where new: "insert_chunks ?cs (kn_chunks s) = Some (kn_chunks s @ new)" "map snd new = ?cs"
    using insert_chunks_appends [OF c(3)] by blast
  have "store_ingested ep j ig now s =
      (put_job_document j (succeeded_job now ep ig jr) ?d (ready_document now ig dr)
         (s\<lparr>kn_chunks := kn_chunks s @ new\<rparr>),
       Inr \<lparr>io_job = j, io_status = KI_SUCCEEDED, io_chunk_count = length (ig_drafts ig),
            io_already_complete = False\<rparr>)"
    using j d new(1) by (simp add: store_ingested_def locked_job_def atomic_def delete_chunks_vacuous [OF none])
  with new(2) show ?thesis by blast
qed

lemma store_ingested_wf:
  assumes wf: "knowledge_wf ks s" and ig: "ingested_ok ks ig"
  shows "knowledge_wf ks (fst (store_ingested ep j ig now s))"
proof (cases "store_ingested ep j ig now s")
  case (Pair s' r)
  from Pair [unfolded store_ingested_def] show ?thesis
  proof (cases rule: locked_job_cases)
    case 1
    then show ?thesis using wf Pair by simp
  next
    case (2 jr dr a)
    show ?thesis
    proof (cases "ij_status jr = KI_PROCESSING")
      case False
      with 2(3) wf Pair show ?thesis by simp
    next
      case True
      let ?d = "ij_document jr"
      let ?cs = "map (chunk_of (dc_workspace dr) ?d) (zip (ig_drafts ig) (ig_vectors ig))"
      obtain new where st: "s' = put_job_document j (succeeded_job now ep ig jr) ?d (ready_document now ig dr)
          (s\<lparr>kn_chunks := kn_chunks s @ new\<rparr>)" and new: "map snd new = ?cs"
        using store_ingested_succeeds [OF wf ig 2(1) True 2(2), of ep now] Pair by auto
      note un = unready_chunks [OF wf 2(1,2)]
      note c = ingested_chunks_ok [OF ig, of "dc_workspace dr" ?d]
      have all: "chunks_of d' new = (if d' = ?d then ?cs else [])" for d'
        using chunks_of_all [of new ?d d'] c(3) unfolding new by auto
      have docs: "ck_document c' = ?d \<or> row_get (kn_documents s) (ck_document c') \<noteq> None"
        if "(k, c') \<in> set (kn_chunks s @ new)" for k c'
      proof (cases "(k, c') \<in> set (kn_chunks s)")
        case True
        then show ?thesis using knowledge_wfD(5) [OF wf] by blast
      next
        case False
        then have "(k, c') \<in> set new" using that by simp
        then have "c' \<in> set (map snd new)" by force
        then show ?thesis using c(3) unfolding new by blast
      qed
      have mine: "document_chunks_ok ks (ready_document now ig dr) (chunks_of ?d (kn_chunks s @ new))"
        using un True c(1,2) by (simp add: all document_chunks_ok_def ready_document_def)
      have "knowledge_wf ks s'"
        unfolding st
      proof (rule put_wf [OF wf _ _ _ _ mine])
        show "row_get (kn_jobs s) j = Some jr \<and> ij_document jr = ?d \<or>
            row_get (kn_jobs s) j = None \<and> row_get (kn_documents s) ?d = None"
          using 2(1) by simp
        show "ij_document (succeeded_job now ep ig jr) = ?d"
          "dc_workspace (ready_document now ig dr) = ij_workspace (succeeded_job now ep ig jr)"
          "dc_status (ready_document now ig dr) = document_status_of (ij_status (succeeded_job now ep ig jr))"
          using un(2) True by (simp_all add: succeeded_job_def ready_document_def)
        show "chunks_of d' (kn_chunks s @ new) = chunks_of d' (kn_chunks s)" if "d' \<noteq> ?d" for d'
          using that by (simp add: all)
      qed (rule docs)
      then show ?thesis by (simp add: Pair)
    qed
  qed
qed

lemma svc_bind_fst: "(\<And>a s'. f s = (s', Inr a) \<Longrightarrow> P (fst (g a s'))) \<Longrightarrow> P (fst (f s)) \<Longrightarrow> P (fst (svc_bind f g s))"
  by (cases "f s"; cases "snd (f s)") (auto simp: svc_bind_def)

lemma settle_ingestion_wf:
  assumes wf: "knowledge_wf ks s" and r: "\<And>ig. result = Inr ig \<Longrightarrow> ingested_ok ks ig"
  shows "knowledge_wf ks (fst (settle_ingestion ep j result now s))"
proof -
  have retry: "knowledge_wf ks (fst (svc_bind (mark_retryable_failure j RetryableIngestionError)
      (\<lambda>u. svc_raise (KnowledgeFault RetryableIngestionError) :: ingestion_outcome knowledge_svc) s))" for j
    using mark_retryable_wf [OF wf, of j RetryableIngestionError]
    by - (rule svc_bind_fst [where P = "knowledge_wf ks"], simp_all add: svc_raise_def)
  have failed: "knowledge_wf ks (fst (svc_bind (mark_failed j e now) (\<lambda>u. svc_return x :: ingestion_outcome knowledge_svc) s))" for j e x
    using mark_failed_wf [OF wf, of j e now] by - (rule svc_bind_fst [where P = "knowledge_wf ks"], simp_all add: svc_return_def)
  show ?thesis
  proof (cases result)
    case (Inl x)
    then show ?thesis using retry failed by (cases x) (simp_all add: settle_ingestion_def Let_def)
  next
    case (Inr ig)
    then show ?thesis using store_ingested_wf [OF wf r] by (simp add: settle_ingestion_def)
  qed
qed

lemma run_ingestion_wf:
  assumes "knowledge_wf ks s"
  shows "knowledge_wf ks (fst (run_ingestion tr ks ep storage clk j s))"
  unfolding run_ingestion_def
proof (rule svc_bind_fst [where P = "knowledge_wf ks"])
  show w: "knowledge_wf ks (fst (begin_ingestion j (clk 0) s))" by (rule begin_ingestion_wf [OF assms])
  fix b s' assume "begin_ingestion j (clk 0) s = (s', Inr b)"
  then have "knowledge_wf ks s'" using w by simp
  then show "knowledge_wf ks (fst ((case b of Inl outcome \<Rightarrow> svc_return outcome
      | Inr dr \<Rightarrow> settle_ingestion ep j (ingest_compute tr ks ep (dc_content_type dr) (storage dr)) (clk 1)) s'))"
    by (cases b) (auto simp: svc_return_def intro!: settle_ingestion_wf ingest_compute_ok)
qed

subsection \<open>Any sequence of services\<close>

text \<open>
  One operation of a worker or a request. A run of a job appears as its two transactions, so that
  the runs of several workers interleave freely; \<open>KO_settle\<close> carries what its worker read.
\<close>

datatype knowledge_op =
    KO_create_source nat nat string source_data int
  | KO_update_source nat nat source nat source_data
  | KO_upload nat nat source nat string upload json int
  | KO_retry nat nat document nat
  | KO_begin nat int
  | KO_settle embedding_provider nat string stored_file int
  | KO_give_up nat int
  | KO_recover "nat option" int
  | KO_search embedding_provider nat string "nat option" "int option" "nat list" "nat list" "rat option"

record knowledge_env =
  ke_runtime :: py_runtime
  ke_text :: text_runtime
  ke_settings :: knowledge_settings
  ke_distance :: "rat list \<Rightarrow> rat list \<Rightarrow> pyfloat"

fun run_knowledge_op :: "knowledge_env \<Rightarrow> knowledge_op \<Rightarrow> knowledge \<Rightarrow> knowledge" where
  "run_knowledge_op env (KO_create_source ws actor nm data now) s =
    fst (create_source ws actor nm data now None s)"
| "run_knowledge_op env (KO_update_source ws k so actor data) s =
    fst (update_source ws k so actor data None s)"
| "run_knowledge_op env (KO_upload ws source_id so actor title up metadata now) s =
    fst (upload_document (ke_runtime env) (ke_text env) (ke_settings env) ws source_id so actor title up
      metadata now None s)"
| "run_knowledge_op env (KO_retry ws d dr actor) s = fst (retry_document ws d dr actor None s)"
| "run_knowledge_op env (KO_begin j now) s = fst (begin_ingestion j now s)"
| "run_knowledge_op env (KO_settle ep j content_type stored now) s =
    fst (settle_ingestion ep j (ingest_compute (ke_text env) (ke_settings env) ep content_type stored) now s)"
| "run_knowledge_op env (KO_give_up j now) s = fst (mark_failed j RetryableIngestionError now s)"
| "run_knowledge_op env (KO_recover batch now) s =
    fst (recover_stuck_ingestion_jobs (ke_settings env) batch now s)"
| "run_knowledge_op env (KO_search ep ws query actor top_k source_ids document_ids minimum_score) s =
    fst (search_knowledge (ke_settings env) (ke_distance env) ep ws query actor top_k source_ids
      document_ids minimum_score s)"

lemma save_source_wf: "knowledge_wf ks s \<Longrightarrow> save_source k so s = (s', r) \<Longrightarrow> knowledge_wf ks s'"
  by (auto simp: save_source_def Let_def knowledge_wf_def split: if_splits)

lemma effect_wf: "knowledge_wf ks (kn_effect e s) \<longleftrightarrow> knowledge_wf ks s"
  by (simp add: knowledge_wf_def)

lemma create_source_wf:
  assumes wf: "knowledge_wf ks s"
  shows "knowledge_wf ks (fst (create_source ws actor nm data now r s))"
proof -
  define so where "so = \<lparr>so_workspace = ws, so_name = nm,
              so_description = (case sd_description data of None \<Rightarrow> '''' | Some v \<Rightarrow> v),
              so_source_type = (case sd_source_type data of None \<Rightarrow> ''upload'' | Some v \<Rightarrow> v),
              so_is_active = True,
              so_metadata = (case sd_metadata data of None \<Rightarrow> JObj [] | Some v \<Rightarrow> v),
              so_created_at = now\<rparr>"
  obtain s' r' where sv: "save_source (fresh_id (kn_sources s)) so s = (s', r')" by fastforce
  show ?thesis
    using save_source_wf [OF wf sv] wf sv
    by (cases r') (simp_all add: create_source_def atomic_def Let_def so_def [symmetric] effect_wf)
qed

lemma update_source_wf:
  assumes wf: "knowledge_wf ks s"
  shows "knowledge_wf ks (fst (update_source ws k so actor data r s))"
proof -
  obtain s' r' where sv: "save_source k (patched_source data so) s = (s', r')" by fastforce
  show ?thesis
    using save_source_wf [OF wf sv] wf sv
    by (cases r') (simp_all add: update_source_def svc_raise_def atomic_def Let_def effect_wf)
qed

lemma upload_document_wf:
  assumes wf: "knowledge_wf ks s"
  shows "knowledge_wf ks (fst (upload_document rt tr ks' ws source_id so actor title up md now r s))"
proof (cases "so_workspace so \<noteq> ws \<or> \<not> so_is_active so")
  case True
  then show ?thesis using wf by (simp add: upload_document_def svc_raise_def)
next
  case live: False
  show ?thesis
  proof (cases "validate_upload tr ks' up")
    case (Inl x)
    then show ?thesis using wf live by (cases x) (simp_all add: upload_document_def svc_raise_def)
  next
    case (Inr v)
    let ?d = "fresh_id (kn_documents s)" and ?j = "fresh_id (kn_jobs s)"
    have "ck_document c \<noteq> ?d" if "(k, c) \<in> set (kn_chunks s)" for k c
      using knowledge_wfD(5) [OF wf that] by auto
    then have gone: "chunks_of ?d (kn_chunks s) = []"
      by (auto simp: chunks_of_def rows_where_def filter_empty_conv)
    have put: "knowledge_wf ks (s\<lparr>kn_documents := row_put ?d dc (kn_documents s),
          kn_jobs := row_put ?j ij (kn_jobs s)\<rparr>)"
      if "ij_document ij = ?d" "dc_workspace dc = ij_workspace ij" "dc_status dc = KD_QUEUED"
        "ij_status ij = KI_QUEUED" for dc ij
    proof -
      have "knowledge_wf ks (put_job_document ?j ij ?d dc (s\<lparr>kn_chunks := kn_chunks s\<rparr>))"
      proof (rule put_wf [OF wf])
        show "row_get (kn_jobs s) ?j = Some ij \<and> ij_document ij = ?d \<or>
            row_get (kn_jobs s) ?j = None \<and> row_get (kn_documents s) ?d = None" by simp
        show "document_chunks_ok ks dc (chunks_of ?d (kn_chunks s))"
          by (simp add: gone document_chunks_ok_def that)
        show "ck_document c = ?d \<or> row_get (kn_documents s) (ck_document c) \<noteq> None"
          if "(k, c) \<in> set (kn_chunks s)" for k c
          using knowledge_wfD(5) [OF wf that] by blast
      qed (simp_all only: that document_status_of.simps)
      then show ?thesis by (rule knowledge_wf_cong [THEN iffD2, rotated 3]) (simp_all add: put_job_document_def)
    qed
    show ?thesis
      using wf live Inr by (simp add: upload_document_def atomic_def Let_def effect_wf put)
  qed
qed

lemma latest_job_get:
  assumes "distinct (row_ids t)" "latest_job d t = Some (j, jr)"
  shows "row_get t j = Some jr" "ij_document jr = d"
proof -
  let ?l = "sort_key (\<lambda>(i, jr). ij_created_at jr) (rows_where (\<lambda>i jr. ij_document jr = d) t)"
  have "(j, jr) \<in> set (rev ?l)" using assms(2) by (cases "rev ?l") (auto simp: latest_job_def)
  then have "(j, jr) \<in> set (rows_where (\<lambda>i jr. ij_document jr = d) t)" by simp
  then show "row_get t j = Some jr" "ij_document jr = d" using rows_where_get [OF assms(1)] by auto
qed

lemma retry_document_wf:
  assumes wf: "knowledge_wf ks s"
  shows "knowledge_wf ks (fst (retry_document ws d inst actor r s))"
proof (cases "dc_workspace inst = ws \<and> (\<exists>dr x. row_get (kn_documents s) d = Some dr \<and>
    dc_status dr = KD_FAILED \<and> latest_job d (kn_jobs s) = Some x)")
  case False
  then show ?thesis using wf
    by (cases "row_get (kn_documents s) d"; cases "latest_job d (kn_jobs s)")
      (auto simp: retry_document_def svc_raise_def atomic_def)
next
  case True
  then obtain dr j jr where t: "dc_workspace inst = ws" "row_get (kn_documents s) d = Some dr"
    "dc_status dr = KD_FAILED" "latest_job d (kn_jobs s) = Some (j, jr)"
    by (metis surj_pair)
  note g = latest_job_get [OF knowledge_wfD(1) [OF wf] t(4)]
  have "ij_status jr \<noteq> KI_SUCCEEDED"
    using knowledge_wfD(2) [OF wf g(1)] t(2,3) by (auto simp: job_paired_def g(2))
  then have "knowledge_wf ks (put_job_document j (requeued_job jr) d (requeued_document dr) s)"
    using put_unready_wf [OF wf g(1) _ _, of dr "requeued_job jr" "requeued_document dr"] t g(2)
    by (simp add: requeued_job_def requeued_document_def)
  then show ?thesis using t by (simp add: retry_document_def atomic_def effect_wf)
qed

lemma fold_effects_sel:
  "kn_jobs (fold (\<lambda>i. kn_effect (f i)) is0 s) = kn_jobs s"
  "kn_documents (fold (\<lambda>i. kn_effect (f i)) is0 s) = kn_documents s"
  "kn_chunks (fold (\<lambda>i. kn_effect (f i)) is0 s) = kn_chunks s"
  by (induction is0 arbitrary: s) simp_all

lemma recover_wf: "knowledge_wf ks s \<Longrightarrow> knowledge_wf ks (fst (recover_stuck_ingestion_jobs ks' b now s))"
  by (simp add: recover_stuck_ingestion_jobs_def Let_def knowledge_wf_def fold_effects_sel)

text \<open>A search either raises and changes nothing, or records exactly what it returns.\<close>

definition found :: "(rat list \<Rightarrow> rat list \<Rightarrow> pyfloat) \<Rightarrow> rat list \<Rightarrow> nat \<Rightarrow> nat \<Rightarrow> nat list \<Rightarrow> nat list \<Rightarrow>
    rat option \<Rightarrow> knowledge \<Rightarrow> retrieved list" where
  "found distance qv top_k ws source_ids document_ids m s =
    contexts_of (chunk_origin s) (\<lambda>c. score_of_distance (distance (ck_embedding c) qv)) m 0
      (ranked_chunks distance qv top_k (searchable ws source_ids document_ids s) (kn_chunks s))"

lemma search_outcome:
  assumes "search_knowledge ks distance ep ws query actor top_k source_ids document_ids m s = (s', r)"
  defines "n \<equiv> (case top_k of None \<Rightarrow> ks_default_top_k ks | Some n \<Rightarrow> n)"
  obtains e where "s' = s" "r = Inl e"
  | qv cs e where "query_vector ks ep (py_strip query) = Inr qv" "1 \<le> n"
      "cs = found distance qv (nat n) ws source_ids document_ids m s"
      "record_retrieval ws actor (py_strip query) ep n m cs s = (s', e)"
      "r = Inr \<lparr>sr_event = e, sr_query = py_strip query, sr_results = cs, sr_sufficient_context = (cs \<noteq> [])\<rparr>"
proof (cases "py_strip query = [] \<or> int (length (py_strip query)) > ks_max_query_length ks \<or>
    \<not> (1 \<le> n \<and> n \<le> ks_max_top_k ks) \<or> (case m of None \<Rightarrow> False | Some m \<Rightarrow> \<not> (0 \<le> m \<and> m \<le> 1)) \<or>
    each_exists (\<lambda>i. source_get_for_workspace_or_404 ws i s) source_ids \<noteq> None \<or>
    each_exists (\<lambda>i. document_get_for_workspace_or_404 ws i s) document_ids \<noteq> None \<or>
    (\<exists>e. query_vector ks ep (py_strip query) = Inl e)")
  case True
  then have "s' = s \<and> (\<exists>e. r = Inl e)"
    using assms(1) unfolding search_knowledge_def n_def [symmetric] Let_def
    apply (cases "py_strip query = [] \<or> int (length (py_strip query)) > ks_max_query_length ks")
     apply (simp, blast)
    apply (cases "\<not> (1 \<le> n \<and> n \<le> ks_max_top_k ks)")
     apply (simp, blast)
    apply (cases "case m of None \<Rightarrow> False | Some m \<Rightarrow> \<not> (0 \<le> m \<and> m \<le> 1)")
     apply (simp, blast)
    apply (cases "each_exists (\<lambda>i. source_get_for_workspace_or_404 ws i s) source_ids")
     apply (cases "each_exists (\<lambda>i. document_get_for_workspace_or_404 ws i s) document_ids")
      apply (cases "query_vector ks ep (py_strip query)")
       apply (simp, blast)
      apply simp
     apply (simp, blast)
    apply (simp, blast)
    done
  then show ?thesis using that(1) by blast
next
  case False
  then obtain qv where qv: "query_vector ks ep (py_strip query) = Inr qv"
    by (cases "query_vector ks ep (py_strip query)") auto
  obtain s1 e where rr: "record_retrieval ws actor (py_strip query) ep n m
      (found distance qv (nat n) ws source_ids document_ids m s) s = (s1, e)" by fastforce
  have "search_knowledge ks distance ep ws query actor top_k source_ids document_ids m s =
      (s1, Inr \<lparr>sr_event = e, sr_query = py_strip query,
        sr_results = found distance qv (nat n) ws source_ids document_ids m s,
        sr_sufficient_context = (found distance qv (nat n) ws source_ids document_ids m s \<noteq> [])\<rparr>)"
    using False qv rr unfolding search_knowledge_def n_def [symmetric] Let_def found_def by simp
  with assms(1) rr qv False show ?thesis by (intro that(2) [of qv _ e]) auto
qed

lemma record_retrieval_sel:
  assumes "record_retrieval ws actor q ep k m cs s = (s', e)"
  shows "kn_jobs s' = kn_jobs s" "kn_documents s' = kn_documents s" "kn_chunks s' = kn_chunks s"
    "kn_sources s' = kn_sources s"
  using assms by (auto simp: record_retrieval_def Let_def)

lemma search_wf:
  assumes wf: "knowledge_wf ks s"
  shows "knowledge_wf ks (fst (search_knowledge ks' distance ep ws q actor k sources documents m s))"
proof (cases "search_knowledge ks' distance ep ws q actor k sources documents m s")
  case (Pair s' r)
  from Pair show ?thesis
  proof (cases rule: search_outcome)
    case 1
    then show ?thesis using wf Pair by simp
  next
    case (2 qv cs e)
    then show ?thesis using wf Pair record_retrieval_sel [OF 2(4)] by (simp add: knowledge_wf_def)
  qed
qed

lemma run_knowledge_op_wf:
  "knowledge_wf (ke_settings env) s \<Longrightarrow> knowledge_wf (ke_settings env) (run_knowledge_op env op s)"
  by (cases op)
    (simp_all add: create_source_wf update_source_wf upload_document_wf retry_document_wf begin_ingestion_wf
      settle_ingestion_wf ingest_compute_ok mark_failed_wf recover_wf search_wf)

subsection \<open>One run of the task\<close>

lemma begin_ingestion_claims:
  assumes j: "row_get (kn_jobs s) j = Some jr" "ij_status jr \<noteq> KI_SUCCEEDED"
    and d: "row_get (kn_documents s) (ij_document jr) = Some dr"
  shows "begin_ingestion j now s =
    (put_job_document j (jr\<lparr>ij_status := KI_PROCESSING, ij_attempt_count := ij_attempt_count jr + 1,
        ij_started_at := Some now, ij_finished_at := None\<rparr>) (ij_document jr) (dr\<lparr>dc_status := KD_PROCESSING\<rparr>) s,
     Inr (Inr (dr\<lparr>dc_status := KD_PROCESSING\<rparr>)))"
  using assms by (simp add: begin_ingestion_def locked_job_def atomic_def Let_def)

lemma mark_failed_acts:
  assumes "row_get (kn_jobs s) j = Some jr" "ij_status jr \<noteq> KI_SUCCEEDED"
    and "row_get (kn_documents s) (ij_document jr) = Some dr"
  shows "\<exists>s'. mark_failed j e now s = (s', Inr ()) \<and>
    map_option ij_status (row_get (kn_jobs s') j) = Some KI_FAILED"
  using assms by (simp add: mark_failed_def locked_job_def atomic_def)

lemma mark_retryable_acts:
  assumes "row_get (kn_jobs s) j = Some jr" "ij_status jr \<noteq> KI_SUCCEEDED"
    and "row_get (kn_documents s) (ij_document jr) = Some dr"
  shows "\<exists>s' jr' dr'. mark_retryable_failure j e s = (s', Inr ()) \<and>
    row_get (kn_jobs s') j = Some jr' \<and> ij_status jr' = KI_QUEUED \<and>
    ij_attempt_count jr' = ij_attempt_count jr \<and> ij_document jr' = ij_document jr \<and>
    row_get (kn_documents s') (ij_document jr) = Some dr'"
  using assms by (simp add: mark_retryable_failure_def locked_job_def atomic_def)

text \<open>How one attempt at a job that has not succeeded ends.\<close>

lemma run_ingestion_ends:
  assumes wf: "knowledge_wf ks s" and j: "row_get (kn_jobs s) j = Some jr" "ij_status jr \<noteq> KI_SUCCEEDED"
  obtains (stored) s' out where "run_ingestion tr ks ep storage clk j s = (s', Inr out)"
      "map_option ij_status (row_get (kn_jobs s') j) = Some (io_status out)"
      "io_status out \<in> {KI_SUCCEEDED, KI_FAILED}"
  | (queued) s' jr' dr' where
      "run_ingestion tr ks ep storage clk j s = (s', Inl (KnowledgeFault RetryableIngestionError))"
      "row_get (kn_jobs s') j = Some jr'" "ij_status jr' = KI_QUEUED"
      "row_get (kn_documents s') (ij_document jr') = Some dr'"
proof -
  obtain dr where d: "row_get (kn_documents s) (ij_document jr) = Some dr"
    using knowledge_wfD(2) [OF wf j(1)] by (auto simp: job_paired_def split: option.splits)
  define jr1 where "jr1 = jr\<lparr>ij_status := KI_PROCESSING, ij_attempt_count := ij_attempt_count jr + 1,
    ij_started_at := Some (clk 0), ij_finished_at := None\<rparr>"
  define dr1 where "dr1 = dr\<lparr>dc_status := KD_PROCESSING\<rparr>"
  define s1 where "s1 = put_job_document j jr1 (ij_document jr) dr1 s"
  define result where "result = ingest_compute tr ks ep (dc_content_type dr1) (storage dr1)"
  have begin0: "begin_ingestion j (clk 0) s = (s1, Inr (Inr dr1))"
    unfolding s1_def jr1_def dr1_def by (rule begin_ingestion_claims [OF j d])
  then have run: "run_ingestion tr ks ep storage clk j s = settle_ingestion ep j result (clk 1) s1"
    by (simp add: run_ingestion_def svc_bind_def result_def)
  have wf1: "knowledge_wf ks s1" using begin_ingestion_wf [OF wf, of j "clk 0"] by (simp add: begin0)
  have doc: "ij_document jr1 = ij_document jr" and st: "ij_status jr1 = KI_PROCESSING"
    by (simp_all add: jr1_def)
  have j1: "row_get (kn_jobs s1) j = Some jr1" and d1: "row_get (kn_documents s1) (ij_document jr1) = Some dr1"
    by (simp_all add: s1_def doc)
  have un: "ij_status jr1 \<noteq> KI_SUCCEEDED" by (simp add: st)
  have retry: thesis if "settle_ingestion ep j result (clk 1) s1 =
      svc_bind (mark_retryable_failure j RetryableIngestionError)
        (\<lambda>u. svc_raise (KnowledgeFault RetryableIngestionError)) s1"
  proof -
    obtain s' jr' dr' where m: "mark_retryable_failure j RetryableIngestionError s1 = (s', Inr ())"
      "row_get (kn_jobs s') j = Some jr'" "ij_status jr' = KI_QUEUED" "ij_document jr' = ij_document jr1"
      "row_get (kn_documents s') (ij_document jr1) = Some dr'"
      using mark_retryable_acts [OF j1 un d1] by blast
    show ?thesis using queued [OF _ m(2,3)] m(1,4,5) that run by (simp add: svc_bind_def svc_raise_def)
  qed
  show ?thesis
  proof (cases result)
    case (Inr ig)
    have ok: "ingested_ok ks ig" using Inr ingest_compute_ok unfolding result_def by blast
    obtain new where "store_ingested ep j ig (clk 1) s1 =
      (put_job_document j (succeeded_job (clk 1) ep ig jr1) (ij_document jr1) (ready_document (clk 1) ig dr1)
         (s1\<lparr>kn_chunks := kn_chunks s1 @ new\<rparr>),
       Inr \<lparr>io_job = j, io_status = KI_SUCCEEDED, io_chunk_count = length (ig_drafts ig),
            io_already_complete = False\<rparr>)"
      using store_ingested_succeeds [OF wf1 ok j1 st d1] by blast
    then show ?thesis using run Inr by (intro stored) (auto simp: settle_ingestion_def succeeded_job_def)
  next
    case (Inl x)
    show ?thesis
    proof (cases "\<exists>e. x = Known e \<and> is_permanent e")
      case True
      then obtain e where e: "x = Known e" "is_permanent e" by blast
      obtain s' where m: "mark_failed j e (clk 1) s1 = (s', Inr ())"
        "map_option ij_status (row_get (kn_jobs s') j) = Some KI_FAILED"
        using mark_failed_acts [OF j1 un d1] by blast
      have "run_ingestion tr ks ep storage clk j s =
          (s', Inr \<lparr>io_job = j, io_status = KI_FAILED, io_chunk_count = 0, io_already_complete = False\<rparr>)"
        using run Inl e m(1) by (simp add: settle_ingestion_def svc_bind_def svc_return_def)
      then show ?thesis by (rule stored) (simp_all add: m(2))
    next
      case False
      then show ?thesis by (intro retry) (use Inl in \<open>cases x; simp add: settle_ingestion_def Let_def\<close>)
    qed
  qed
qed

subsection \<open>Properties\<close>

text \<open>Every chunk is a slice of the text: the ordinals count from zero, a chunk lies within the text, is not
  longer than the chunk size, starts and ends with a character that is not blank, carries the text
  between its offsets and the page range of the sections it overlaps; the starts strictly increase
  and only the first chunk may be shorter than the minimum.\<close>

theorem chunks_are_slices:
  assumes "chunk_text t size0 overlap m secs = Inr ds" and "n < length ds"
  shows "dr_ordinal (ds ! n) = n \<and> dr_start (ds ! n) < dr_end (ds ! n) \<and> dr_end (ds ! n) \<le> length t \<and>
    int (dr_end (ds ! n)) \<le> int (dr_start (ds ! n)) + size0 \<and>
    dr_text (ds ! n) = slice t (dr_start (ds ! n)) (dr_end (ds ! n)) \<and>
    \<not> is_space (t ! dr_start (ds ! n)) \<and> \<not> is_space (t ! (dr_end (ds ! n) - 1)) \<and>
    (dr_page_start (ds ! n), dr_page_end (ds ! n)) =
      pages_for_range (dr_start (ds ! n)) (dr_end (ds ! n)) secs \<and>
    (0 < n \<longrightarrow> dr_start (ds ! (n - 1)) < dr_start (ds ! n) \<and> m \<le> int (length (dr_text (ds ! n))))"
proof -
  have ok: "drafts_ok t (nat size0) m secs ds" by (rule chunk_text_ok [OF assms(1)])
  have "0 < size0" using chunk_text_cases [OF assms(1)] assms(2) by auto
  then have size0: "int (nat size0) = size0" by simp
  have "draft_ok t (nat size0) secs n (ds ! n)" using ok assms(2) by (simp add: drafts_ok_def)
  moreover have "0 < n \<longrightarrow> dr_start (ds ! (n - 1)) < dr_start (ds ! n) \<and> m \<le> int (length (dr_text (ds ! n)))"
    using ok assms(2) by (auto simp: drafts_ok_def sorted_wrt_iff_nth_less)
  ultimately show ?thesis using size0 by (auto simp: draft_ok_def)
qed

theorem chunks_are_slices_witness:
  "\<exists>ds. chunk_text ''one two three'' 8 2 1 [] = Inr ds \<and> dr_start (ds ! 0) < dr_start (ds ! 1) \<and>
    dr_text (ds ! 1) = slice ''one two three'' (dr_start (ds ! 1)) (dr_end (ds ! 1))"
proof -
  have c: "case chunk_text ''one two three'' 8 2 1 [] of Inl _ \<Rightarrow> False | Inr ds \<Rightarrow> 1 < length ds"
    by code_simp
  then obtain ds where ds: "chunk_text ''one two three'' 8 2 1 [] = Inr ds" "1 < length ds"
    by (auto split: sum.splits)
  from chunks_are_slices [OF ds(1) ds(2)] show ?thesis using ds(1) by auto
qed

text \<open>Chunking loses no text: with a minimum of at most one character, and a text without a run of white
  space longer than half a chunk, every character that is not blank is in some chunk, at its place.\<close>

theorem chunking_loses_no_text:
  assumes "chunk_text t size0 overlap m secs = Inr ds" and "m \<le> 1"
    and "no_blank_run (Suc (max 1 (nat size0 div 2))) t" and "i < length t" and "\<not> is_space (t ! i)"
  shows "\<exists>d \<in> set ds. dr_start d \<le> i \<and> i < dr_end d \<and> dr_text d ! (i - dr_start d) = t ! i"
proof -
  have valid: "0 < size0" and ds: "ds = chunk_loop (nat size0) (nat overlap) m secs t 0 [] \<or> py_strip t = []"
    using assms(1) by (auto simp: chunk_text_def Let_def split: if_splits)
  have "py_strip t \<noteq> []"
  proof
    assume "py_strip t = []"
    then have "dropWhile is_space t = []"
      using hd_dropWhile [of is_space t]
      by (auto simp: py_strip_def py_lstrip_def py_rstrip_def dropWhile_eq_Nil_conv)
    then show False using assms(4,5) by (auto simp: dropWhile_eq_Nil_conv)
  qed
  then have "covered ds i" using chunk_loop_covers [OF assms(2,3)] valid ds assms(4,5) by auto
  then obtain d where d: "d \<in> set ds" "dr_start d \<le> i" "i < dr_end d" by (auto simp: covered_def)
  obtain n where "n < length ds" "ds ! n = d" using d(1) by (auto simp: in_set_conv_nth)
  then have "draft_ok t (nat size0) secs n d"
    using chunk_text_ok [OF assms(1)] by (auto simp: drafts_ok_def)
  with d show ?thesis by (intro bexI [OF _ d(1)]) (auto simp: draft_ok_def)
qed

theorem chunking_loses_no_text_witness:
  "\<exists>ds. chunk_text ''one two three'' 8 2 1 [] = Inr ds \<and>
    (\<exists>d \<in> set ds. dr_start d \<le> 12 \<and> 12 < dr_end d \<and> dr_text d ! (12 - dr_start d) = CHR ''e'')"
proof -
  have "case chunk_text ''one two three'' 8 2 1 [] of Inl _ \<Rightarrow> False | Inr ds \<Rightarrow> True" by code_simp
  then obtain ds where ds: "chunk_text ''one two three'' 8 2 1 [] = Inr ds" by (auto split: sum.splits)
  have "no_blank_run (Suc (max 1 (nat 8 div 2))) ''one two three''"
    by code_simp
  moreover have "12 < length ''one two three''" "\<not> is_space (''one two three'' ! 12)" "''one two three'' ! 12 = CHR ''e''"
    by code_simp+
  ultimately show ?thesis using chunking_loses_no_text [OF ds, of 12] ds by simp
qed

text \<open>The hypothesis on white space is needed: after a long blank run the loop skips the whole window,
  although its preferred end was earlier, and the first character of the next word is in no chunk.\<close>

theorem blank_run_swallows_text:
  "case chunk_text (''ab'' @ replicate 9 (CHR '' '') @ ''lost'') 5 2 1 [] of
     Inl e \<Rightarrow> False
   | Inr ds \<Rightarrow> \<not> covered ds 11 \<and> (''ab'' @ replicate 9 (CHR '' '') @ ''lost'') ! 11 = CHR ''l''"
  unfolding covered_def by code_simp

text \<open>Citations stay exact after normalization: the offsets of every rebuilt section cut exactly the section's
  text out of the document, the sections are separated by two newlines and follow each other, every
  section is in normal form, and the sections that remain are the non-blank ones with their pages.\<close>

theorem rebuilt_sections_cite_their_text:
  "let nd = normalize_extracted_document nfc doc; t = ed_text nd; secs = ed_sections nd in
    (\<forall>n < length secs.
      slice t (sec_start (secs ! n)) (sec_end (secs ! n)) = sec_text (secs ! n) \<and>
      sec_end (secs ! n) \<le> length t \<and> tidy (sec_text (secs ! n))) \<and>
    sorted_wrt (\<lambda>a b. sec_end a + 2 \<le> sec_start b) secs \<and>
    t = join_sections (map sec_text secs) \<and>
    map sec_page secs = map sec_page (filter (\<lambda>s. normalize_text nfc (sec_text s) \<noteq> []) (ed_sections doc))"
proof -
  define nd where "nd = normalize_extracted_document nfc doc"
  have ok: "sections_ok (ed_text nd) (ed_sections nd)"
    unfolding nd_def by (rule normalize_extracted_ok)
  then have "\<forall>n < length (ed_sections nd). section_ok (ed_text nd) (ed_sections nd ! n)"
    by (auto simp: sections_ok_def list_all_length)
  with ok normalize_extracted_ok(2) [of nfc doc] show ?thesis
    by (simp add: sections_ok_def section_ok_def Let_def nd_def [symmetric])
qed

text \<open>Normalization gives a normal form and is idempotent: the result has no carriage return, no blank before a
  newline, no three newlines in a row and no blank at either end; when it is composed (NFC leaves it
  alone) and free of NUL, normalizing it again changes nothing.\<close>

theorem normalization_is_idempotent:
  assumes "nfc (normalize_text nfc t) = normalize_text nfc t" and "NUL \<notin> set (normalize_text nfc t)"
  shows "tidy (normalize_text nfc t) \<and> normalize_text nfc (normalize_text nfc t) = normalize_text nfc t"
proof -
  have tidy: "tidy (normalize_text nfc t)" by (rule normalize_tidy)
  have "normalize_text nfc (normalize_text nfc t) = normalize_text nfc t"
    by (rule tidy_normalized) (fact tidy assms)+
  with tidy show ?thesis by blast
qed

theorem normalization_is_idempotent_witness:
  "tidy (normalize_text (\<lambda>s. s) ('' a '' @ [CR, LF, LF, LF, LF] @ ''b'')) \<and>
   normalize_text (\<lambda>s. s) (normalize_text (\<lambda>s. s) ('' a '' @ [CR, LF, LF, LF, LF] @ ''b'')) =
   normalize_text (\<lambda>s. s) ('' a '' @ [CR, LF, LF, LF, LF] @ ''b'')"
proof -
  have "NUL \<notin> set (normalize_text (\<lambda>s. s) ('' a '' @ [CR, LF, LF, LF, LF] @ ''b''))" by code_simp
  from normalization_is_idempotent [OF refl this] show ?thesis .
qed

lemma knowledge_ops_wf:
  "knowledge_wf (ke_settings env) s \<Longrightarrow> knowledge_wf (ke_settings env) (fold (run_knowledge_op env) ops s)"
  by (induction ops arbitrary: s) (simp_all add: run_knowledge_op_wf)

text \<open>C23. Documents, jobs and chunks agree under any interleaving of uploads, retries, the two transactions of
  concurrent workers, sweeps and searches: a document has one job and the status that mirrors the
  job's, a ready document has all its chunks, numbered from zero, and any other has none.\<close>

theorem documents_jobs_and_chunks_agree:
  assumes "knowledge_wf (ke_settings env) s"
  shows "knowledge_wf (ke_settings env) (fold (run_knowledge_op env) ops s)"
  using assms by (rule knowledge_ops_wf)

definition example_settings :: knowledge_settings where
  "example_settings = \<lparr>ks_max_upload_bytes = 10485760, ks_max_pdf_pages = 100, ks_chunk_size = 1200,
    ks_chunk_overlap = 150, ks_min_chunk_chars = 20, ks_embedding_dimension = 4, ks_default_top_k = 5,
    ks_max_top_k = 20, ks_max_query_length = 2000, ks_max_attempts = 3, ks_stale_seconds = 600,
    ks_sweep_batch = 100\<rparr>"

definition example_text_runtime :: text_runtime where
  "example_text_runtime = \<lparr>tr_nfc = (\<lambda>s. s), tr_decode_utf8_sig = Some,
    tr_read_pdf = (\<lambda>f. Inl PdfFault)\<rparr>"

definition example_embed_runtime :: embed_runtime where
  "example_embed_runtime = \<lparr>er_casefold = str_lower, er_digest = (\<lambda>s. replicate 32 (length s)),
    er_sqrt = (\<lambda>n. of_nat n)\<rparr>"

definition example_env :: knowledge_env where
  "example_env = \<lparr>ke_runtime = example_runtime, ke_text = example_text_runtime,
    ke_settings = example_settings,
    ke_distance = (\<lambda>a b. if \<forall>x \<in> set (a @ b). x = 0 then NaN else Finite 0)\<rparr>"

definition empty_knowledge :: knowledge where
  "empty_knowledge = \<lparr>kn_sources = [], kn_documents = [], kn_jobs = [], kn_chunks = [], kn_events = [],
    kn_hits = [], kn_effects = []\<rparr>"

definition example_upload :: upload where
  "example_upload = \<lparr>up_name = ''guide.txt'', up_size = Some 24, up_content_type = ''text/plain'',
    up_data = ''Refunds take three days.''\<rparr>"

definition example_source_data :: source_data where
  "example_source_data = \<lparr>sd_name = None, sd_description = None, sd_source_type = None, sd_metadata = None,
    sd_is_active = None\<rparr>"

definition example_source :: source where
  "example_source = \<lparr>so_workspace = 1, so_name = ''Docs'', so_description = '''', so_source_type = ''upload'',
    so_is_active = True, so_metadata = JObj [], so_created_at = 0\<rparr>"

definition uploaded :: knowledge where
  "uploaded = fold (run_knowledge_op example_env)
    [KO_create_source 1 7 ''Docs'' example_source_data 0,
     KO_upload 1 1 example_source 7 ''Guide'' example_upload JNull 5] empty_knowledge"

lemma empty_knowledge_wf: "knowledge_wf ks empty_knowledge"
  by (simp add: knowledge_wf_def empty_knowledge_def row_ids_def)

theorem documents_jobs_and_chunks_agree_witness:
  "knowledge_wf example_settings uploaded \<and> map_option ij_status (row_get (kn_jobs uploaded) 1) = Some KI_QUEUED"
proof -
  have "knowledge_wf (ke_settings example_env) uploaded"
    unfolding uploaded_def by (rule documents_jobs_and_chunks_agree [OF empty_knowledge_wf])
  moreover have "map_option ij_status (row_get (kn_jobs uploaded) 1) = Some KI_QUEUED"
    by code_simp
  ultimately show ?thesis by (simp add: example_env_def)
qed

text \<open>C24. The task always settles its job: on a job of consistent tables it never raises, and it leaves the job
  succeeded or failed, as the outcome says, or queued again with attempts left and a countdown of at
  most a minute; it never returns with the job still being processed.\<close>

theorem ingestion_task_settles:
  assumes "knowledge_wf ks s" and "row_get (kn_jobs s) j = Some jr"
  shows "\<exists>s' r jr'. ingest_knowledge_document tr ks ep storage clk retries j s = (s', Inr r) \<and>
    row_get (kn_jobs s') j = Some jr' \<and>
    (case r of
      Finished out \<Rightarrow> io_status out = ij_status jr' \<and> ij_status jr' \<in> {KI_SUCCEEDED, KI_FAILED}
    | GaveUp \<Rightarrow> ij_status jr' = KI_FAILED
    | Retrying n \<Rightarrow> ij_status jr' = KI_QUEUED \<and> ij_attempt_count jr' < ks_max_attempts ks \<and> n \<le> 60)"
proof (cases "ij_status jr = KI_SUCCEEDED")
  case True
  obtain dr where "row_get (kn_documents s) (ij_document jr) = Some dr"
    using knowledge_wfD(2) [OF assms] by (auto simp: job_paired_def split: option.splits)
  then show ?thesis using assms(2) True
    by (simp add: ingest_knowledge_document_def run_ingestion_def begin_ingestion_def locked_job_def
        atomic_def svc_bind_def svc_return_def)
next
  case False
  from assms False show ?thesis
  proof (cases rule: run_ingestion_ends [where tr = tr and ep = ep and storage = storage and clk = clk])
    case (stored s' out)
    then show ?thesis by (auto simp: ingest_knowledge_document_def)
  next
    case (queued s' jr' dr')
    show ?thesis
    proof (cases "ks_max_attempts ks \<le> ij_attempt_count jr'")
      case True
      have un: "ij_status jr' \<noteq> KI_SUCCEEDED" using queued(3) by simp
      obtain s2 where "mark_failed j RetryableIngestionError (clk 2) s' = (s2, Inr ())"
        "map_option ij_status (row_get (kn_jobs s2) j) = Some KI_FAILED"
        using mark_failed_acts [OF queued(2) un queued(4)] by blast
      then show ?thesis using queued(1,2) True
        by (auto simp: ingest_knowledge_document_def svc_bind_def svc_return_def)
    next
      case False
      then show ?thesis using queued(1-3) by (simp add: ingest_knowledge_document_def)
    qed
  qed
qed

theorem ingestion_task_settles_witness:
  "\<exists>s' r jr'. ingest_knowledge_document example_text_runtime example_settings
      (deterministic_provider example_embed_runtime 4) (\<lambda>dr. Opened (Some (dc_stored_file dr))) (\<lambda>n. int n) 0 1
      uploaded = (s', Inr r) \<and> row_get (kn_jobs s') 1 = Some jr' \<and> ij_status jr' \<noteq> KI_PROCESSING"
proof -
  have "knowledge_wf (ke_settings example_env) uploaded"
    unfolding uploaded_def by (rule knowledge_ops_wf [OF empty_knowledge_wf])
  then have wf: "knowledge_wf example_settings uploaded" by (simp add: example_env_def)
  have "row_get (kn_jobs uploaded) 1 \<noteq> None" by code_simp
  then obtain jr where jr: "row_get (kn_jobs uploaded) 1 = Some jr" by blast
  obtain s' r jr' where "ingest_knowledge_document example_text_runtime example_settings
      (deterministic_provider example_embed_runtime 4) (\<lambda>dr. Opened (Some (dc_stored_file dr))) (\<lambda>n. int n) 0 1
      uploaded = (s', Inr r)" "row_get (kn_jobs s') 1 = Some jr'"
    "case r of
      Finished out \<Rightarrow> io_status out = ij_status jr' \<and> ij_status jr' \<in> {KI_SUCCEEDED, KI_FAILED}
    | GaveUp \<Rightarrow> ij_status jr' = KI_FAILED
    | Retrying n \<Rightarrow> ij_status jr' = KI_QUEUED \<and> ij_attempt_count jr' < ks_max_attempts example_settings \<and> n \<le> 60"
    using ingestion_task_settles [OF wf jr] by blast
  then show ?thesis by (cases r) auto
qed

subsection \<open>Retrieval\<close>

lemma contexts_from_ranked:
  "x \<in> set (contexts_of origin score m n ranked) \<Longrightarrow>
   \<exists>c. (rx_chunk x, c) \<in> set ranked \<and> rx_text x = ck_text c \<and> rx_document x = ck_document c \<and>
     rx_citation x = citation_of c \<and> rx_score x = score c \<and> \<not> below_minimum m (score c)"
proof (induction ranked arbitrary: n)
  case (Cons p ranked)
  obtain k c where "p = (k, c)" by fastforce
  then show ?case using Cons by (cases "origin c") (fastforce split: if_splits)
qed simp

lemma contexts_ranks:
  "map rx_rank (contexts_of origin score m n ranked) =
   [Suc n..<Suc (n + length (contexts_of origin score m n ranked))]"
proof (induction ranked arbitrary: n)
  case (Cons p ranked)
  obtain k c where "p = (k, c)" by fastforce
  then show ?case using Cons [of n] Cons [of "Suc n"]
    by (cases "origin c") (simp add: upt_conv_Cons del: upt_Suc)
qed simp

lemma contexts_length: "length (contexts_of origin score m n ranked) \<le> length ranked"
proof (induction ranked arbitrary: n)
  case (Cons p ranked)
  obtain k c where "p = (k, c)" by fastforce
  then show ?case using Cons [of n] Cons [of "Suc n"] by (cases "origin c") simp
qed simp

lemma insert_hits_appends: "\<exists>new. insert_hits hs t = t @ new \<and> map snd new = hs"
proof (induction hs arbitrary: t)
  case (Cons h hs)
  have "row_put (fresh_id t) h t = t @ [(fresh_id t, h)]" by (rule row_put_new) simp
  moreover obtain new where "insert_hits hs (t @ [(fresh_id t, h)]) = (t @ [(fresh_id t, h)]) @ new" "map snd new = hs"
    using Cons by blast
  ultimately show ?case by (intro exI [of _ "(fresh_id t, h) # new"]) simp
qed simp

text \<open>C25. A search stays in its tenant and answers what it records: every result is a chunk of the workspace, of
  a ready and active document of an active source, among the requested sources and documents, with a
  score not below the minimum; at most the requested number is returned, ranked 1, 2, \<dots>, and exactly
  one hit per result is stored, with the result's chunk, rank and score.\<close>

theorem search_stays_in_its_tenant:
  assumes "search_knowledge ks distance ep ws query actor top_k source_ids document_ids m s = (s', Inr res)"
  shows "(\<forall>x \<in> set (sr_results res). \<exists>c. (rx_chunk x, c) \<in> set (kn_chunks s) \<and>
      searchable ws source_ids document_ids s c \<and> rx_text x = ck_text c \<and> rx_citation x = citation_of c \<and>
      \<not> below_minimum m (rx_score x)) \<and>
    int (length (sr_results res)) \<le> (case top_k of None \<Rightarrow> ks_default_top_k ks | Some n \<Rightarrow> n) \<and>
    map rx_rank (sr_results res) = [1..<Suc (length (sr_results res))] \<and>
    (\<exists>new. kn_hits s' = kn_hits s @ new \<and>
      map (\<lambda>(h, hr). (rh_event hr, rh_workspace hr, rh_chunk hr, rh_rank hr, rh_score hr)) new =
      map (\<lambda>x. (sr_event res, ws, rx_chunk x, rx_rank x, rx_score x)) (sr_results res)) \<and>
    (sr_sufficient_context res \<longleftrightarrow> sr_results res \<noteq> [])"
  using assms
proof (cases rule: search_outcome)
  case (2 qv cs e)
  let ?n = "case top_k of None \<Rightarrow> ks_default_top_k ks | Some n \<Rightarrow> n"
  have res: "sr_results res = cs" "sr_event res = e" "sr_sufficient_context res \<longleftrightarrow> cs \<noteq> []"
    using 2(5) by simp_all
  define score where "score = (\<lambda>c :: chunk. score_of_distance (distance (ck_embedding c) qv))"
  define ranked where "ranked = ranked_chunks distance qv (nat ?n) (searchable ws source_ids document_ids s) (kn_chunks s)"
  have cs: "cs = contexts_of (chunk_origin s) score m 0 ranked"
    using 2(3) by (simp add: found_def score_def ranked_def)
  have sub: "(k, c) \<in> set (kn_chunks s) \<and> searchable ws source_ids document_ids s c" if "(k, c) \<in> set ranked" for k c
    using that by (auto simp: ranked_def ranked_chunks_def rows_where_def dest!: in_set_takeD)
  have each: "\<exists>c. (rx_chunk x, c) \<in> set (kn_chunks s) \<and> searchable ws source_ids document_ids s c \<and>
      rx_text x = ck_text c \<and> rx_citation x = citation_of c \<and> \<not> below_minimum m (rx_score x)" if "x \<in> set cs" for x
  proof -
    from contexts_from_ranked [OF that [unfolded cs]] obtain c where c: "(rx_chunk x, c) \<in> set ranked"
      "rx_text x = ck_text c" "rx_citation x = citation_of c" "rx_score x = score c" "\<not> below_minimum m (score c)"
      by blast
    with sub [OF c(1)] show ?thesis by auto
  qed
  have "length cs \<le> length ranked" unfolding cs by (rule contexts_length)
  also have "\<dots> \<le> nat ?n" by (simp add: ranked_def ranked_chunks_def)
  finally have len: "int (length cs) \<le> ?n" using 2(2) by linarith
  have ranks: "map rx_rank cs = [1..<Suc (length cs)]"
    using contexts_ranks [of "chunk_origin s" score m 0 ranked] by (simp add: cs)
  let ?hs = "map (\<lambda>x. \<lparr>rh_event = e, rh_workspace = ws, rh_chunk = rx_chunk x,
             rh_rank = rx_rank x, rh_score = rx_score x, rh_citation = rx_citation x\<rparr>) cs"
  have hits: "kn_hits s' = insert_hits ?hs (kn_hits s)"
    using 2(4) by (auto simp: record_retrieval_def Let_def)
  obtain new where new: "insert_hits ?hs (kn_hits s) = kn_hits s @ new" "map snd new = ?hs"
    using insert_hits_appends by blast
  have "map (\<lambda>(h, hr). (rh_event hr, rh_workspace hr, rh_chunk hr, rh_rank hr, rh_score hr)) new =
      map (\<lambda>hr. (rh_event hr, rh_workspace hr, rh_chunk hr, rh_rank hr, rh_score hr)) (map snd new)"
    by (simp add: case_prod_beta)
  also have "\<dots> = map (\<lambda>x. (e, ws, rx_chunk x, rx_rank x, rx_score x)) cs" unfolding new(2) by simp
  finally have "\<exists>new. kn_hits s' = kn_hits s @ new \<and>
      map (\<lambda>(h, hr). (rh_event hr, rh_workspace hr, rh_chunk hr, rh_rank hr, rh_score hr)) new =
      map (\<lambda>x. (e, ws, rx_chunk x, rx_rank x, rx_score x)) cs"
    using hits new(1) by (intro exI [of _ new]) simp
  then show ?thesis unfolding res using each len ranks by blast
qed simp

definition constant_provider :: embedding_provider where
  "constant_provider = \<lparr>ep_name = ''p'', ep_model = ''m'', ep_dimension = 4,
    ep_embed_documents = (\<lambda>texts. Inr (map (\<lambda>t. replicate 4 (PyFloat (Finite 1))) texts)),
    ep_embed_query = (\<lambda>t. Inr (replicate 4 (PyFloat (Finite 1))))\<rparr>"

definition indexed :: knowledge where
  "indexed = fold (run_knowledge_op example_env)
    [KO_begin 1 6, KO_settle constant_provider 1 ''text/plain'' (Opened (Some ''Refunds take three days.'')) 7]
    uploaded"

theorem search_stays_in_its_tenant_witness:
  "\<exists>s' res. search_knowledge example_settings (ke_distance example_env) constant_provider 1 ''refunds'' None None [1] []
      (Some (1/2)) indexed = (s', Inr res) \<and> sr_results res \<noteq> [] \<and>
    (\<forall>x \<in> set (sr_results res). \<exists>c. (rx_chunk x, c) \<in> set (kn_chunks indexed) \<and> ck_workspace c = 1) \<and>
    map rx_rank (sr_results res) = [1..<Suc (length (sr_results res))]"
proof -
  have "case search_knowledge example_settings (ke_distance example_env) constant_provider 1 ''refunds'' None None [1] []
      (Some (1/2)) indexed of (s', Inl e) \<Rightarrow> False | (s', Inr res) \<Rightarrow> sr_results res \<noteq> []"
    by code_simp
  then obtain s' res where r: "search_knowledge example_settings (ke_distance example_env) constant_provider 1
      ''refunds'' None None [1] [] (Some (1/2)) indexed = (s', Inr res)" "sr_results res \<noteq> []"
    by (auto split: prod.splits sum.splits)
  from search_stays_in_its_tenant [OF r(1)] have "\<forall>x \<in> set (sr_results res). \<exists>c. (rx_chunk x, c) \<in> set (kn_chunks indexed) \<and>
      searchable 1 [1] [] indexed c" "map rx_rank (sr_results res) = [1..<Suc (length (sr_results res))]"
    by blast+
  with r show ?thesis by (auto simp: searchable_def)
qed

lemma project_nothing: "token_counts digest n [] = replicate n 0"
  by (simp add: token_counts_def)

lemma tokenless_embedding:
  assumes "find_tokens (er_casefold er q) = []" "er_sqrt er 0 = 0"
  shows "embed_text er n q = replicate n 0"
proof -
  have "sum_list (map (\<lambda>x. x * x) (replicate n (0 :: int))) = 0" by (induction n) simp_all
  then show ?thesis using assms by (simp add: embed_text_def project_nothing Let_def map_replicate_const)
qed

lemma validate_floats: "validate_all validate_component (map (PyFloat \<circ> Finite) xs) = Inr xs"
  by (induction xs) (simp_all add: validate_component_def)

lemma contexts_full: "\<forall>c. \<not> below_minimum m (score c) \<Longrightarrow>
    length (contexts_of origin score m n ranked) = length ranked \<and>
    (\<forall>x \<in> set (contexts_of origin score m n ranked). \<exists>c. rx_score x = score c)"
proof (induction ranked arbitrary: n)
  case (Cons p ranked)
  obtain k c where "p = (k, c)" by fastforce
  then show ?case using Cons(1) [of "Suc n"] Cons(2) by (cases "origin c") auto
qed simp

lemma score_of_nan: "score_of_distance NaN = Finite 1"
  by (simp add: score_of_distance_def one_minus_def py_min_def py_max_def)

text \<open>A query without any word matches everything perfectly: its embedding is the zero vector, to which
  the cosine distance is NaN, \<open>min(1.0, nan)\<close> is 1.0, and so the search returns as many searchable
  chunks as it may, each with score 1, whatever minimum score was asked for, and reports sufficient
  context.\<close>

theorem wordless_query_matches_everything:
  assumes "find_tokens (er_casefold er (py_strip query)) = []" and "er_sqrt er 0 = 0"
    and "\<And>v. distance v (replicate (ks_embedding_dimension ks) 0) = NaN"
    and "search_knowledge ks distance (deterministic_provider er (ks_embedding_dimension ks)) ws query actor
      (Some n) source_ids document_ids m s = (s', Inr res)"
  shows "length (sr_results res) =
      min (nat n) (length (rows_where (\<lambda>k c. searchable ws source_ids document_ids s c) (kn_chunks s))) \<and>
    (\<forall>x \<in> set (sr_results res). rx_score x = Finite 1)"
proof -
  have m: "\<not> (case m of None \<Rightarrow> False | Some m \<Rightarrow> \<not> (0 \<le> m \<and> m \<le> 1))"
    using assms(4) by (auto simp: search_knowledge_def Let_def split: if_splits)
  have z: "embed_text er (ks_embedding_dimension ks) (py_strip query) = replicate (ks_embedding_dimension ks) 0"
    by (rule tokenless_embedding [OF assms(1,2)])
  from assms(4) show ?thesis
  proof (cases rule: search_outcome)
    case (2 qv cs e)
    have "qv = replicate (ks_embedding_dimension ks) 0"
      using 2(1) by (simp add: query_vector_def deterministic_provider_def z validate_embeddings_def
          validate_vector_def validate_floats del: map_replicate)
    then have nan: "score_of_distance (distance v qv) = Finite 1" for v by (simp add: assms(3) score_of_nan)
    define ranked where "ranked = ranked_chunks distance qv (nat n) (searchable ws source_ids document_ids s) (kn_chunks s)"
    have cs: "cs = contexts_of (chunk_origin s) (\<lambda>c. Finite 1) m 0 ranked"
      using 2(3) by (simp add: found_def ranked_def nan)
    have "\<forall>c :: chunk. \<not> below_minimum m (Finite 1)" using m by (cases m) (auto simp: below_minimum_def)
    from contexts_full [OF this] have "length cs = length ranked" "\<forall>x \<in> set cs. rx_score x = Finite 1"
      unfolding cs by auto
    moreover have "length ranked = min (nat n) (length (rows_where (\<lambda>k c. searchable ws source_ids document_ids s c) (kn_chunks s)))"
      by (simp add: ranked_def ranked_chunks_def min.commute)
    ultimately show ?thesis using 2(5) by simp
  qed simp
qed

theorem wordless_query_matches_everything_witness:
  "\<exists>s' res. search_knowledge example_settings (\<lambda>a b. if b = replicate 4 0 then NaN else Finite 1)
      (deterministic_provider example_embed_runtime 4) 1 ''?!'' None (Some 5) [] [] (Some 1) indexed = (s', Inr res) \<and>
    length (sr_results res) = 1 \<and> (\<forall>x \<in> set (sr_results res). rx_score x = Finite 1)"
proof -
  have ok: "case search_knowledge example_settings (\<lambda>a b. if b = replicate 4 0 then NaN else Finite 1)
      (deterministic_provider example_embed_runtime (ks_embedding_dimension example_settings)) 1 ''?!'' None (Some 5) [] []
      (Some 1) indexed of (s', Inl e) \<Rightarrow> False | (s', Inr res) \<Rightarrow> True"
    by code_simp
  then obtain s' res where r: "search_knowledge example_settings (\<lambda>a b. if b = replicate 4 0 then NaN else Finite 1)
      (deterministic_provider example_embed_runtime (ks_embedding_dimension example_settings)) 1 ''?!'' None (Some 5) [] []
      (Some 1) indexed = (s', Inr res)"
    by (auto split: prod.splits sum.splits)
  have d: "ks_embedding_dimension example_settings = 4" by (simp add: example_settings_def)
  have t: "find_tokens (er_casefold example_embed_runtime (py_strip ''?!'')) = []" by code_simp
  have q: "er_sqrt example_embed_runtime 0 = 0" by (simp add: example_embed_runtime_def)
  have n: "length (rows_where (\<lambda>k c. searchable 1 [] [] indexed c) (kn_chunks indexed)) = 1" by code_simp
  have nan: "(\<lambda>a b :: rat list. if b = replicate 4 0 then NaN else Finite 1) v
      (replicate (ks_embedding_dimension example_settings) 0) = NaN" for v :: "rat list" by (simp add: d)
  from wordless_query_matches_everything [OF t q nan r] n r d show ?thesis by auto
qed

lemma lift_known_safe:
  "r \<noteq> Inl e \<Longrightarrow> (\<And>a. f a \<noteq> Inl (Known e)) \<Longrightarrow> lift_known r f \<noteq> Inl (Known e)"
  by (auto simp: lift_known_def split: sum.splits)

lemma validate_all_safe: "(\<And>x. f x \<noteq> Inl e) \<Longrightarrow> validate_all f xs \<noteq> Inl e"
  by (induction xs) (auto split: sum.splits)

text \<open>Under a valid configuration the chunker never fails an ingestion: \<open>ChunkingError\<close> can only come from the
  embedding provider, because a normalized document starts with a character that is not blank and the
  first window that holds one is always kept.\<close>

theorem ingestion_never_fails_in_the_chunker:
  assumes "0 \<le> ks_chunk_overlap ks" and "ks_chunk_overlap ks < ks_chunk_size ks"
    and "\<And>ts. ep_embed_documents ep ts \<noteq> Inl (Known ChunkingError)"
  shows "ingest_compute tr ks ep content_type stored \<noteq> Inl (Known ChunkingError)"
proof -
  have chunk: "chunk_text (ed_text (normalize_extracted_document nfc doc)) (ks_chunk_size ks) (ks_chunk_overlap ks)
      m secs \<noteq> Inl e" for nfc doc m secs e
  proof -
    let ?t = "ed_text (normalize_extracted_document nfc doc)"
    show ?thesis
    proof (cases "?t = []")
      case True
      then show ?thesis using assms(1,2) by (simp add: chunk_text_def py_strip_def py_lstrip_def py_rstrip_def)
    next
      case False
      have "0 < nat (ks_chunk_size ks)" using assms(1,2) by simp
      from chunk_loop_nonempty [OF this False normalized_starts_nonblank [OF False]]
      show ?thesis using assms(1,2) by (simp add: chunk_text_def Let_def)
    qed
  qed
  have ext: "extract_text tr ks x f \<noteq> Inl ChunkingError" for x f
    by (cases x) (auto simp: extract_plain_def extract_pdf_def pdf_failure_def Let_def
        split: option.splits sum.splits prod.splits pdf_exc.splits if_splits)
  have val: "validate_embeddings vs k d \<noteq> Inl (Known ChunkingError)" for vs k d
  proof -
    have comp: "validate_component v \<noteq> Inl (Known ChunkingError)" for v
      by (simp add: validate_component_def split: scalar.splits option.splits pyfloat.splits)
    have "validate_vector d v \<noteq> Inl (Known ChunkingError)" for v
      using validate_all_safe [of validate_component, OF comp] by (simp add: validate_vector_def)
    from validate_all_safe [of "validate_vector d", OF this] show ?thesis by (simp add: validate_embeddings_def)
  qed
  have gx: "get_extractor content_type \<noteq> Inl ChunkingError"
    by (simp add: get_extractor_def split: option.splits)
  show ?thesis
  proof (cases stored)
    case (Opened f)
    show ?thesis unfolding ingest_compute_def Opened stored_file.case Let_def
    proof (rule lift_known_safe [OF gx], rule lift_known_safe [OF ext])
      fix x raw
      let ?d = "normalize_extracted_document (tr_nfc tr) raw"
      let ?rest = "\<lambda>drafts. case ep_embed_documents ep (map dr_text drafts) of
                     Inl e \<Rightarrow> Inl e
                   | Inr vectors \<Rightarrow>
                       (case validate_embeddings vectors (length drafts) (ks_embedding_dimension ks) of
                         Inl e \<Rightarrow> Inl e
                       | Inr vs \<Rightarrow> Inr \<lparr>ig_text = ed_text ?d, ig_drafts = drafts,
                                        ig_vectors = vs, ig_extractor = x\<rparr>)"
      have "?rest drafts \<noteq> Inl (Known ChunkingError)" for drafts
        using assms(3) [of "map dr_text drafts"] val [of _ "length drafts" "ks_embedding_dimension ks"]
        by (cases "ep_embed_documents ep (map dr_text drafts)") (auto split: sum.splits)
      then have "lift_known (chunk_text (ed_text ?d) (ks_chunk_size ks) (ks_chunk_overlap ks)
          (ks_min_chunk_chars ks) (ed_sections ?d)) ?rest \<noteq> Inl (Known ChunkingError)"
        by (rule lift_known_safe [OF chunk])
      then show "(if int (length (py_strip (ed_text ?d))) < ks_min_chunk_chars ks
             then Inl (Known NoExtractableTextError)
             else lift_known (chunk_text (ed_text ?d) (ks_chunk_size ks) (ks_chunk_overlap ks)
               (ks_min_chunk_chars ks) (ed_sections ?d)) ?rest) \<noteq> Inl (Known ChunkingError)"
        by simp
    qed
  qed (simp add: ingest_compute_def)
qed

theorem ingestion_never_fails_in_the_chunker_witness:
  "ingest_compute example_text_runtime example_settings constant_provider ''text/plain''
    (Opened (Some ''Refunds take three days.'')) \<noteq> Inl (Known ChunkingError)"
  by (rule ingestion_never_fails_in_the_chunker) (simp_all add: example_settings_def constant_provider_def)

end
