(* ===== verification/Scoring.thy ===== *)
theory Scoring
  imports AgentService
begin

section \<open>Evaluation: what a case expects and how its run is scored\<close>

text \<open>
  \<open>evaluations/schemas.py\<close>, \<open>evaluations/scoring.py\<close> and \<open>evaluations/providers.py\<close>. Scoring reads the
  rows an agent run left in the tables of the gate and the desk. The strict models of a case's
  expectations accept strings, lists of strings and objects, so their validation is written out; the
  validation of the seeded context, which coerces values, is a parameter of the services.
\<close>

subsection \<open>Expectations\<close>

datatype approval_behavior =
  NOT_REQUIRED | REQUIRED | APPROVED_PATH | REJECTED_PATH | HANDOFF_EXPECTED

fun approval_behavior_of :: "string \<Rightarrow> approval_behavior option" where
  "approval_behavior_of s =
    (if s = ''not_required'' then Some NOT_REQUIRED
     else if s = ''required'' then Some REQUIRED
     else if s = ''approved_path'' then Some APPROVED_PATH
     else if s = ''rejected_path'' then Some REJECTED_PATH
     else if s = ''handoff_expected'' then Some HANDOFF_EXPECTED
     else None)"

datatype assertion_type =
    RUN_TERMINAL_STATE_EQUALS | HANDOFF_CREATED | APPROVAL_CREATED | TOOL_SUCCEEDED
  | TOOL_NOT_EXECUTED | RESPONSE_CONTAINS_CITATION

fun assertion_type_value :: "assertion_type \<Rightarrow> string" where
  "assertion_type_value RUN_TERMINAL_STATE_EQUALS = ''run_terminal_state_equals''"
| "assertion_type_value HANDOFF_CREATED = ''handoff_created''"
| "assertion_type_value APPROVAL_CREATED = ''approval_created''"
| "assertion_type_value TOOL_SUCCEEDED = ''tool_succeeded''"
| "assertion_type_value TOOL_NOT_EXECUTED = ''tool_not_executed''"
| "assertion_type_value RESPONSE_CONTAINS_CITATION = ''response_contains_citation''"

definition assertion_type_of :: "string \<Rightarrow> assertion_type option" where
  "assertion_type_of s = find (\<lambda>a. assertion_type_value a = s)
    [RUN_TERMINAL_STATE_EQUALS, HANDOFF_CREATED, APPROVAL_CREATED, TOOL_SUCCEEDED, TOOL_NOT_EXECUTED,
     RESPONSE_CONTAINS_CITATION]"

record outcome_assertion =
  oa_type :: assertion_type
  oa_value :: "string option"
  oa_tool :: "string option"

record expectations =
  ex_expected_intent :: "string option"
  ex_allowed_tools :: "string list"
  ex_forbidden_tools :: "string list"
  ex_required_tool_sequence :: "string list option"
  ex_acceptable_tool_sequences :: "string list list option"
  ex_approval_behavior :: "approval_behavior option"
  ex_outcome_assertions :: "outcome_assertion list"
  ex_reference_answer :: "string option"
  ex_risk_constraints :: "(string \<times> json) list"

text \<open>One field of a strict model: its default when absent, its validated value otherwise.\<close>

definition field :: "(string \<times> json) list \<Rightarrow> string \<Rightarrow> 'a \<Rightarrow> (json \<Rightarrow> 'a option) \<Rightarrow> 'a option" where
  "field kvs k d p = (case map_of kvs k of None \<Rightarrow> Some d | Some v \<Rightarrow> p v)"

definition p_str :: "json \<Rightarrow> string option" where
  "p_str v = (case v of JStr s \<Rightarrow> Some s | _ \<Rightarrow> None)"

definition p_optional :: "(json \<Rightarrow> 'a option) \<Rightarrow> json \<Rightarrow> 'a option option" where
  "p_optional p v = (case v of JNull \<Rightarrow> Some None | _ \<Rightarrow> map_option Some (p v))"

definition p_list :: "(json \<Rightarrow> 'a option) \<Rightarrow> json \<Rightarrow> 'a list option" where
  "p_list p v = (case v of JArr xs \<Rightarrow> those (map p xs) | _ \<Rightarrow> None)"

definition p_dict :: "json \<Rightarrow> (string \<times> json) list option" where
  "p_dict v = (case v of JObj kvs \<Rightarrow> Some kvs | _ \<Rightarrow> None)"

definition only_keys :: "string list \<Rightarrow> (string \<times> json) list \<Rightarrow> bool" where
  "only_keys ks kvs \<longleftrightarrow> list_all (\<lambda>(k, v). k \<in> set ks) kvs"

definition p_assertion :: "json \<Rightarrow> outcome_assertion option" where
  "p_assertion v =
    (case v of
      JObj kvs \<Rightarrow>
        if \<not> only_keys [''type'', ''value'', ''tool''] kvs then None
        else (case (Option.bind (Option.bind (map_of kvs ''type'') p_str) assertion_type_of,
                    field kvs ''value'' None (p_optional p_str), field kvs ''tool'' None (p_optional p_str)) of
            (Some ty, Some value, Some tool) \<Rightarrow> Some \<lparr>oa_type = ty, oa_value = value, oa_tool = tool\<rparr>
          | _ \<Rightarrow> None)
    | _ \<Rightarrow> None)"

definition validate_expectations :: "json \<Rightarrow> expectations option" where
  "validate_expectations v =
    (case v of
      JObj kvs \<Rightarrow>
        if \<not> only_keys [''expected_intent'', ''allowed_tools'', ''forbidden_tools'',
          ''required_tool_sequence'', ''acceptable_tool_sequences'', ''approval_behavior'',
          ''outcome_assertions'', ''reference_answer'', ''risk_constraints''] kvs then None
        else
          (case (field kvs ''expected_intent'' None (p_optional p_str),
                 field kvs ''allowed_tools'' [] (p_list p_str),
                 field kvs ''forbidden_tools'' [] (p_list p_str),
                 field kvs ''required_tool_sequence'' None (p_optional (p_list p_str)),
                 field kvs ''acceptable_tool_sequences'' None (p_optional (p_list (p_list p_str))),
                 field kvs ''approval_behavior'' None
                   (p_optional (\<lambda>x. Option.bind (p_str x) approval_behavior_of)),
                 field kvs ''outcome_assertions'' [] (p_list p_assertion),
                 field kvs ''reference_answer'' None (p_optional p_str),
                 field kvs ''risk_constraints'' [] p_dict) of
            (Some intent, Some allowed, Some forbidden, Some seq, Some seqs, Some behavior, Some asserts,
             Some answer, Some risk) \<Rightarrow>
              Some \<lparr>ex_expected_intent = intent, ex_allowed_tools = allowed, ex_forbidden_tools = forbidden,
                ex_required_tool_sequence = seq, ex_acceptable_tool_sequences = seqs,
                ex_approval_behavior = behavior, ex_outcome_assertions = asserts,
                ex_reference_answer = answer, ex_risk_constraints = risk\<rparr>
          | _ \<Rightarrow> None)
    | _ \<Rightarrow> None)"

subsection \<open>Failure codes\<close>

datatype evaluation_failure_code =
    INVALID_CASE | AGENT_EXECUTION_FAILED | BUDGET_EXCEEDED | PROVIDER_FAILURE
  | FORBIDDEN_TOOL_VIOLATION | POLICY_VIOLATION | APPROVAL_VIOLATION | OUTCOME_MISMATCH
  | SCORING_FAILED | EV_CANCELLED | WORKER_CRASH_RECOVERED

subsection \<open>Scoring\<close>

fun run_status_value :: "run_status \<Rightarrow> string" where
  "run_status_value RUN_PENDING = ''pending''"
| "run_status_value RUN_RUNNING = ''running''"
| "run_status_value RUN_SUCCEEDED = ''succeeded''"
| "run_status_value RUN_FAILED = ''failed''"
| "run_status_value RUN_CANCELLED = ''cancelled''"
| "run_status_value RUN_BUDGET_EXCEEDED = ''budget_exceeded''"
| "run_status_value RUN_WAITING_FOR_APPROVAL = ''waiting_for_approval''"
| "run_status_value RUN_HANDED_OFF = ''handed_off''"

definition tool_executed_statuses :: "exec_status set" where
  "tool_executed_statuses = {EX_SUCCEEDED, EX_FAILED, EX_TIMED_OUT}"

record scorer_output =
  so_tool_selection_correct :: "bool option"
  so_forbidden_tool_violation :: bool
  so_forbidden_tools_attempted :: "string list"
  so_required_sequence_compliant :: "bool option"
  so_approval_compliant :: "bool option"
  so_approval_violation :: bool
  so_handoff_occurred :: bool
  so_outcome_assertions_passed :: nat
  so_outcome_assertions_failed :: nat
  so_outcome_assertion_failures :: "string list"
  so_citation_present :: "bool option"
  so_latency_ms :: "int option"
  so_input_tokens :: int
  so_output_tokens :: int
  so_total_tokens :: int
  so_estimated_cost :: "rat option"

record case_score =
  sc_output :: scorer_output
  sc_passed :: bool
  sc_failure_code :: "evaluation_failure_code option"

text \<open>The executions and the approval requests of a run; executions are kept in the order of creation.\<close>

definition run_executions :: "nat \<Rightarrow> gate \<Rightarrow> (string \<times> exec_status) list" where
  "run_executions k g =
    map (\<lambda>(i, ex). (tool_key_of ex g, te_status ex)) (rows_where (\<lambda>i ex. te_run ex = k) (g_execs g))"

definition run_approvals :: "nat \<Rightarrow> gate \<Rightarrow> approval_status list" where
  "run_approvals k g =
    map (\<lambda>(i, ar). ar_status ar) (rows_where (\<lambda>i ar.
      case row_get (g_execs g) (ar_execution ar) of None \<Rightarrow> False | Some ex \<Rightarrow> te_run ex = k) (g_approvals g))"

definition response_contains_citation :: "agent_run \<Rightarrow> desk \<Rightarrow> bool" where
  "response_contains_citation r d =
    (let fallback = (CHR ''['' \<in> set (run_final_response r) \<and> CHR '']'' \<in> set (run_final_response r)) in
     case run_output_message r of
       None \<Rightarrow> fallback
     | Some m \<Rightarrow>
         (case row_get (dk_messages d) m of
           None \<Rightarrow> fallback
         | Some ms \<Rightarrow>
             (case ms_metadata ms of
               JObj kvs \<Rightarrow> (case map_of kvs ''citations'' of
                   None \<Rightarrow> fallback | Some JNull \<Rightarrow> fallback | Some c \<Rightarrow> py_truthy c)
             | _ \<Rightarrow> fallback)))"

definition score_approval_behavior ::
  "approval_behavior \<Rightarrow> approval_status list \<Rightarrow> run_status \<Rightarrow> bool \<times> bool" where
  "score_approval_behavior behavior approvals st =
    (let compliant = (case behavior of
           NOT_REQUIRED \<Rightarrow> approvals = []
         | REQUIRED \<Rightarrow> approvals \<noteq> []
         | APPROVED_PATH \<Rightarrow> AP_APPROVED \<in> set approvals
         | REJECTED_PATH \<Rightarrow> AP_REJECTED \<in> set approvals
         | HANDOFF_EXPECTED \<Rightarrow> st = RUN_HANDED_OFF)
     in (compliant, \<not> compliant))"

definition evaluate_outcome_assertion ::
  "outcome_assertion \<Rightarrow> run_status \<Rightarrow> (string \<times> exec_status) list \<Rightarrow> bool \<Rightarrow> approval_status list \<Rightarrow> bool \<Rightarrow> bool" where
  "evaluate_outcome_assertion a st execs handoff approvals cited =
    (case oa_type a of
      RUN_TERMINAL_STATE_EQUALS \<Rightarrow> oa_value a = Some (run_status_value st)
    | HANDOFF_CREATED \<Rightarrow> handoff
    | APPROVAL_CREATED \<Rightarrow> approvals \<noteq> []
    | TOOL_SUCCEEDED \<Rightarrow> list_ex (\<lambda>(k, s). oa_tool a = Some k \<and> s = EX_SUCCEEDED) execs
    | TOOL_NOT_EXECUTED \<Rightarrow> \<not> list_ex (\<lambda>(k, s). oa_tool a = Some k) execs
    | RESPONSE_CONTAINS_CITATION \<Rightarrow> cited)"

definition assertion_failure :: "outcome_assertion \<Rightarrow> string" where
  "assertion_failure a =
    (let or_next = (\<lambda>x y. case x of None \<Rightarrow> y | Some s \<Rightarrow> if s = [] then y else s)
     in assertion_type_value (oa_type a) @ '':'' @ or_next (oa_value a) (or_next (oa_tool a) []))"

text \<open>\<open>violations\<close> as the code builds it: the checks append in order, a failed run is inserted in front.\<close>

definition score_rows ::
  "expectations \<Rightarrow> agent_run \<Rightarrow> (string \<times> exec_status) list \<Rightarrow> approval_status list \<Rightarrow> bool \<Rightarrow> case_score" where
  "score_rows e r execs approvals cited =
    (let st = run_status_of r;
         executed = map fst (filter (\<lambda>(k, s). s \<in> tool_executed_statuses) execs);
         attempted = map fst execs;
         forbidden = list_ex (\<lambda>k. k \<in> set (ex_forbidden_tools e)) executed;
         selection = (if ex_allowed_tools e = [] then None
                      else Some (list_all (\<lambda>k. k \<in> set (ex_allowed_tools e)) executed));
         sequence = (case ex_required_tool_sequence e of
             Some s \<Rightarrow> Some (executed = s)
           | None \<Rightarrow> (case ex_acceptable_tool_sequences e of
               Some ss \<Rightarrow> Some (executed \<in> set ss) | None \<Rightarrow> None));
         handoff = (st = RUN_HANDED_OFF);
         approval = (case ex_approval_behavior e of None \<Rightarrow> None
           | Some b \<Rightarrow> Some (score_approval_behavior b approvals st));
         failed = filter (\<lambda>a. \<not> evaluate_outcome_assertion a st execs handoff approvals cited)
                    (ex_outcome_assertions e);
         violations =
           (if st = RUN_BUDGET_EXCEEDED then [BUDGET_EXCEEDED]
            else if st = RUN_FAILED then [AGENT_EXECUTION_FAILED] else []) @
           (if forbidden then [FORBIDDEN_TOOL_VIOLATION] else []) @
           (if selection = Some False then [OUTCOME_MISMATCH] else []) @
           (if sequence = Some False then [OUTCOME_MISMATCH] else []) @
           (case approval of Some (c, True) \<Rightarrow> [APPROVAL_VIOLATION] | _ \<Rightarrow> []) @
           (if failed \<noteq> [] then [OUTCOME_MISMATCH] else [])
     in \<lparr>sc_output =
          \<lparr>so_tool_selection_correct = selection, so_forbidden_tool_violation = forbidden,
           so_forbidden_tools_attempted =
             sort (remdups (filter (\<lambda>k. k \<in> set (ex_forbidden_tools e)) attempted)),
           so_required_sequence_compliant = sequence, so_approval_compliant = map_option fst approval,
           so_approval_violation = (case approval of None \<Rightarrow> False | Some (c, v) \<Rightarrow> v),
           so_handoff_occurred = handoff,
           so_outcome_assertions_passed = length (ex_outcome_assertions e) - length failed,
           so_outcome_assertions_failed = length failed,
           so_outcome_assertion_failures = map assertion_failure failed,
           so_citation_present =
             (if list_ex (\<lambda>a. oa_type a = RESPONSE_CONTAINS_CITATION) (ex_outcome_assertions e)
              then Some cited else None),
           so_latency_ms = (case (run_started_at r, run_completed_at r) of
               (Some a, Some b) \<Rightarrow> Some (elapsed_ms a b) | _ \<Rightarrow> None),
           so_input_tokens = run_input_tokens r, so_output_tokens = run_output_tokens r,
           so_total_tokens = run_total_tokens r, so_estimated_cost = run_cost r\<rparr>,
         sc_passed = (violations = []),
         sc_failure_code = (case violations of [] \<Rightarrow> None | v # _ \<Rightarrow> Some v)\<rparr>)"

definition score_case :: "nat \<Rightarrow> agent_run \<Rightarrow> json \<Rightarrow> world \<Rightarrow> case_score option" where
  "score_case k r expected w =
    map_option (\<lambda>e. score_rows e r (run_executions k (w_gate w)) (run_approvals k (w_gate w))
      (response_contains_citation r (w_desk w))) (validate_expectations expected)"

subsection \<open>The scripted provider of a case\<close>

text \<open>
  \<open>build_fake_llm_provider\<close> turns \<open>llm_scenarios\<close> into the scenarios of \<open>DeterministicFakeLLMProvider\<close>. It
  raises \<open>InvalidLLMScenarioError\<close> for the shapes it checks; the conversions \<open>dict(\<dots>)\<close> and the
  membership tests it applies to values of another type raise a TypeError or ValueError, here
  \<open>ScenarioCrash\<close>. A list of pairs as \<open>arguments\<close> is read as a crash too. The other fields of a
  scenario are kept as given; one that is not of the type the runtime computes with makes the call
  that replays it raise.
\<close>

datatype scenario_exc = InvalidLLMScenarioError | ScenarioCrash

record scenario =
  fs_values :: "(string \<times> json) list"
  fs_tool_calls :: "tool_call list"
  fs_handoff :: "handoff_call option"

definition allowed_scenario_keys :: "string list" where
  "allowed_scenario_keys = [''response'', ''input_tokens'', ''output_tokens'', ''finish_reason'',
    ''latency_ms'', ''structured_output'', ''estimated_cost_usd'', ''tool_calls'', ''handoff_request'']"

fun build_tool_calls_from :: "py_runtime \<Rightarrow> nat \<Rightarrow> json list \<Rightarrow> scenario_exc + tool_call list" where
  "build_tool_calls_from rt n [] = Inr []"
| "build_tool_calls_from rt n (item # rest) =
    (case item of
      JObj kvs \<Rightarrow>
        (case map_of kvs ''tool_key'' of
          None \<Rightarrow> Inl InvalidLLMScenarioError
        | Some key \<Rightarrow>
            (case (case map_of kvs ''arguments'' of None \<Rightarrow> Some [] | Some (JObj a) \<Rightarrow> Some a
                   | Some (JArr []) \<Rightarrow> Some [] | Some (JStr []) \<Rightarrow> Some [] | Some _ \<Rightarrow> None) of
              None \<Rightarrow> Inl ScenarioCrash
            | Some a \<Rightarrow>
                (case build_tool_calls_from rt (n + 1) rest of
                  Inl x \<Rightarrow> Inl x
                | Inr calls \<Rightarrow> Inr (\<lparr>tc_call_id = (case map_of kvs ''call_id'' of
                      None \<Rightarrow> ''eval-call-'' @ py_str rt (JInt (int n)) | Some c \<Rightarrow> py_str rt c),
                    tc_name = py_str rt key, tc_arguments = a, tc_error = None\<rparr> # calls))))
    | _ \<Rightarrow> Inl InvalidLLMScenarioError)"

definition build_tool_calls :: "py_runtime \<Rightarrow> json \<Rightarrow> scenario_exc + tool_call list" where
  "build_tool_calls rt raw =
    (if \<not> py_truthy raw then Inr []
     else case json_iter raw of None \<Rightarrow> Inl ScenarioCrash | Some items \<Rightarrow> build_tool_calls_from rt 0 items)"

definition build_handoff_request :: "py_runtime \<Rightarrow> json \<Rightarrow> scenario_exc + handoff_call option" where
  "build_handoff_request rt raw =
    (if \<not> py_truthy raw then Inr None
     else case raw of
       JObj kvs \<Rightarrow>
         (case (map_of kvs ''reason_code'', map_of kvs ''summary'') of
           (Some reason, Some summary) \<Rightarrow> Inr (Some \<lparr>hc_reason = py_str rt reason, hc_summary = py_str rt summary\<rparr>)
         | _ \<Rightarrow> Inl InvalidLLMScenarioError)
     | JStr s \<Rightarrow>
         (if str_contains ''reason_code'' s \<and> str_contains ''summary'' s then Inl ScenarioCrash
          else Inl InvalidLLMScenarioError)
     | JArr xs \<Rightarrow>
         (if JStr ''reason_code'' \<in> set xs \<and> JStr ''summary'' \<in> set xs then Inl ScenarioCrash
          else Inl InvalidLLMScenarioError)
     | _ \<Rightarrow> Inl ScenarioCrash)"

definition build_scenario :: "py_runtime \<Rightarrow> json \<Rightarrow> scenario_exc + scenario" where
  "build_scenario rt raw =
    (case raw of
      JObj kvs \<Rightarrow>
        if \<not> only_keys allowed_scenario_keys kvs then Inl InvalidLLMScenarioError
        else (case build_tool_calls rt (dict_get kvs ''tool_calls'') of
            Inl x \<Rightarrow> Inl x
          | Inr calls \<Rightarrow>
              (case build_handoff_request rt (dict_get kvs ''handoff_request'') of
                Inl x \<Rightarrow> Inl x
              | Inr handoff \<Rightarrow> Inr \<lparr>fs_values = filter (\<lambda>(k, v). k \<notin> {''tool_calls'', ''handoff_request''}) kvs,
                                     fs_tool_calls = calls, fs_handoff = handoff\<rparr>))
    | _ \<Rightarrow> Inl InvalidLLMScenarioError)"

fun build_scenarios :: "py_runtime \<Rightarrow> json list \<Rightarrow> scenario_exc + scenario list" where
  "build_scenarios rt [] = Inr []"
| "build_scenarios rt (raw # rest) =
    (case build_scenario rt raw of
      Inl x \<Rightarrow> Inl x
    | Inr s \<Rightarrow> (case build_scenarios rt rest of Inl x \<Rightarrow> Inl x | Inr ss \<Rightarrow> Inr (s # ss)))"

definition default_scenario :: scenario where
  "default_scenario = \<lparr>fs_values = [], fs_tool_calls = [], fs_handoff = None\<rparr>"

definition build_fake_llm_provider :: "py_runtime \<Rightarrow> json list \<Rightarrow> scenario_exc + scenario list" where
  "build_fake_llm_provider rt scenarios =
    (if scenarios = [] then Inr [default_scenario] else build_scenarios rt scenarios)"

text \<open>\<open>DeterministicFakeLLMProvider.generate\<close>, with the defaults of \<open>FakeLLMScenario\<close>.\<close>

definition scenario_value :: "scenario \<Rightarrow> string \<Rightarrow> 'a \<Rightarrow> (json \<Rightarrow> 'a option) \<Rightarrow> 'a option" where
  "scenario_value s k d p = field (fs_values s) k d p"

definition p_int :: "json \<Rightarrow> int option" where
  "p_int v = (case v of JInt n \<Rightarrow> Some n | _ \<Rightarrow> None)"

definition p_number :: "json \<Rightarrow> rat option" where
  "p_number v = (case v of JInt n \<Rightarrow> Some (of_int n) | JFloat x \<Rightarrow> Some x | _ \<Rightarrow> None)"

definition scenario_response :: "scenario \<Rightarrow> llm_response option" where
  "scenario_response s =
    (case (scenario_value s ''response'' ''This is a deterministic fake response.'' p_str,
           scenario_value s ''input_tokens'' 10 p_int, scenario_value s ''output_tokens'' 5 p_int,
           scenario_value s ''finish_reason'' ''stop'' p_str,
           scenario_value s ''structured_output'' None (p_optional Some),
           scenario_value s ''estimated_cost_usd'' None (p_optional p_number)) of
      (Some txt0, Some i, Some out, Some finish, Some structured, Some cost) \<Rightarrow>
        Some \<lparr>lr_text = txt0, lr_finish_reason = finish, lr_input_tokens = i, lr_output_tokens = out,
          lr_total_tokens = i + out, lr_request_id = Some ''fake-request-id'',
          lr_structured = structured, lr_cost = cost, lr_tool_calls = fs_tool_calls s,
          lr_handoff = fs_handoff s\<rparr>
    | _ \<Rightarrow> None)"

definition fake_generate ::
  "scenario list \<Rightarrow> nat \<Rightarrow> llm_request \<Rightarrow> world \<Rightarrow> gate \<times> desk \<times> (provider_error + llm_response) option" where
  "fake_generate ss base q w =
    (w_gate w, w_desk w,
     map_option Inr (scenario_response (ss ! min (length (w_requests w) - base) (length ss - 1))))"

end
