(* ===== verification/Evaluations.thy ===== *)
theory Evaluations
  imports Scoring
begin

section \<open>Evaluation datasets, runs and results\<close>

text \<open>
  \<open>evaluations/models.py\<close>, \<open>services.py\<close>, \<open>recovery.py\<close>, \<open>selectors.py\<close> and \<open>tasks.py\<close>. A case is executed by
  the services of the agent runtime, so the state holds their world. What a worker does between two
  transactions is a service of its own here: claiming a result, executing its agent run, writing the
  outcome, counting it, finalizing the run.
\<close>

subsection \<open>Rows\<close>

datatype eval_dataset_status = ED_DRAFT | ED_ACTIVE | ED_ARCHIVED
datatype eval_case_status = EC_ACTIVE | EC_DISABLED
datatype eval_run_status = VR_PENDING | VR_RUNNING | VR_SUCCEEDED | VR_PARTIAL | VR_FAILED | VR_CANCELLED
datatype eval_result_status = VX_PENDING | VX_RUNNING | VX_SUCCEEDED | VX_FAILED | VX_CANCELLED

definition evaluation_run_terminal_statuses :: "eval_run_status set" where
  "evaluation_run_terminal_statuses = {VR_SUCCEEDED, VR_PARTIAL, VR_FAILED, VR_CANCELLED}"

fun evaluation_run_allowed_transitions :: "eval_run_status \<Rightarrow> eval_run_status set" where
  "evaluation_run_allowed_transitions VR_PENDING = {VR_RUNNING, VR_CANCELLED, VR_FAILED}"
| "evaluation_run_allowed_transitions VR_RUNNING = {VR_SUCCEEDED, VR_PARTIAL, VR_FAILED, VR_CANCELLED}"
| "evaluation_run_allowed_transitions _ = {}"

definition evaluation_result_terminal_statuses :: "eval_result_status set" where
  "evaluation_result_terminal_statuses = {VX_SUCCEEDED, VX_FAILED, VX_CANCELLED}"

fun evaluation_result_allowed_transitions :: "eval_result_status \<Rightarrow> eval_result_status set" where
  "evaluation_result_allowed_transitions VX_PENDING = {VX_RUNNING, VX_CANCELLED}"
| "evaluation_result_allowed_transitions VX_RUNNING = {VX_SUCCEEDED, VX_FAILED}"
| "evaluation_result_allowed_transitions _ = {}"

fun eval_run_status_value :: "eval_run_status \<Rightarrow> string" where
  "eval_run_status_value VR_PENDING = ''pending''"
| "eval_run_status_value VR_RUNNING = ''running''"
| "eval_run_status_value VR_SUCCEEDED = ''succeeded''"
| "eval_run_status_value VR_PARTIAL = ''partial''"
| "eval_run_status_value VR_FAILED = ''failed''"
| "eval_run_status_value VR_CANCELLED = ''cancelled''"

record eval_dataset =
  vd_workspace :: nat
  vd_name :: string
  vd_description :: string
  vd_status :: eval_dataset_status
  vd_created_by :: "nat option"
  vd_created_at :: int

record eval_case =
  vc_dataset :: nat
  vc_key :: string
  vc_name :: string
  vc_status :: eval_case_status
  vc_input_message :: string
  vc_seeded_context :: json
  vc_expectations :: json
  vc_created_by :: "nat option"

record eval_run =
  vr_workspace :: nat
  vr_dataset :: nat
  vr_version :: nat
  vr_status :: eval_run_status
  vr_threshold_config :: json
  vr_total_cases :: int
  vr_completed_cases :: int
  vr_passed_cases :: int
  vr_failed_cases :: int
  vr_correlation_id :: string
  vr_created_by :: "nat option"
  vr_started_at :: "int option"
  vr_completed_at :: "int option"
  vr_cancelled_at :: "int option"
  vr_created_at :: int
  vr_updated_at :: int

record eval_snapshot =
  vs_run :: nat
  vs_case :: "nat option"
  vs_sequence :: nat
  vs_case_key :: string
  vs_name :: string
  vs_input_message :: string
  vs_seeded_context :: json
  vs_expectations :: json

record eval_result =
  vx_run :: nat
  vx_snapshot :: nat
  vx_status :: eval_result_status
  vx_agent_run :: "nat option"
  vx_scorer_output :: "scorer_output option"
  vx_passed :: "bool option"
  vx_failure_code :: "evaluation_failure_code option"
  vx_failure_message :: string
  vx_replay_of :: "nat option"
  vx_started_at :: "int option"
  vx_completed_at :: "int option"
  vx_created_at :: int
  vx_updated_at :: int

record lab =
  lab_datasets :: "eval_dataset rows"
  lab_cases :: "eval_case rows"
  lab_runs :: "eval_run rows"
  lab_snapshots :: "eval_snapshot rows"
  lab_results :: "eval_result rows"
  lab_world :: world

datatype eval_exc =
    EvaluationAgentVersionNotPublishedError | EvaluationDatasetHasNoActiveCasesError
  | EvaluationRunNotCancellableError | EvaluationResultNotReplayableError
  | EvaluationRunsNotComparableError | CaseInvalid string | EvalDb db_exc | EvalCrash

type_synonym 'a eval_svc = "(lab, eval_exc, 'a) svc"

text \<open>\<open>ee_validate_seeded\<close> is \<open>validate_seeded_context\<close>; \<open>ee_live\<close> is \<open>INTEGRATIONS_LIVE_PROVIDERS_ENABLED\<close>.\<close>

record eval_env =
  ee_agent :: agent_env
  ee_catalog :: "world \<Rightarrow> string list option"
  ee_validate_seeded :: "json \<Rightarrow> json option"
  ee_live :: bool

definition lab_emit :: "effect \<Rightarrow> lab \<Rightarrow> lab" where
  "lab_emit e s = s\<lparr>lab_world := on_gate (emit e) (lab_world s)\<rparr>"

definition lab_audit :: "string \<Rightarrow> string \<Rightarrow> nat \<Rightarrow> nat option \<Rightarrow> nat \<Rightarrow> (string \<times> json) list \<Rightarrow> string option \<Rightarrow> lab \<Rightarrow> lab" where
  "lab_audit action ty k actor ws meta req = lab_emit (record_event action ty k actor (Some ws) (JObj meta) req)"

definition put_lab_run :: "nat \<Rightarrow> eval_run \<Rightarrow> lab \<Rightarrow> lab" where
  "put_lab_run k r s = s\<lparr>lab_runs := row_put k r (lab_runs s)\<rparr>"

definition put_result :: "nat \<Rightarrow> eval_result \<Rightarrow> lab \<Rightarrow> lab" where
  "put_result k x s = s\<lparr>lab_results := row_put k x (lab_results s)\<rparr>"

text \<open>\<open>EvaluationRun.save()\<close>: the counters are non-negative, completed at most total, passed at most completed.\<close>

definition counters_ok :: "eval_run \<Rightarrow> bool" where
  "counters_ok r \<longleftrightarrow> vr_completed_cases r \<le> vr_total_cases r \<and> vr_passed_cases r \<le> vr_completed_cases r \<and>
    0 \<le> vr_total_cases r \<and> 0 \<le> vr_completed_cases r \<and> 0 \<le> vr_passed_cases r \<and> 0 \<le> vr_failed_cases r"

definition save_lab_run :: "int \<Rightarrow> nat \<Rightarrow> eval_run \<Rightarrow> lab \<Rightarrow> lab option" where
  "save_lab_run now k r s =
    (if counters_ok r then Some (put_lab_run k (r\<lparr>vr_updated_at := now\<rparr>) s) else None)"

subsection \<open>Datasets and cases\<close>

definition dataset_valid :: "nat \<Rightarrow> eval_dataset \<Rightarrow> lab \<Rightarrow> db_exc option" where
  "dataset_valid k d s =
    (if \<not> fits 200 (vd_name d) then Some DataError
     else if vd_name d = [] then Some IntegrityError
     else if list_ex (\<lambda>(j, d'). j \<noteq> k \<and> vd_workspace d' = vd_workspace d \<and> vd_name d' = vd_name d)
               (lab_datasets s) then Some IntegrityError
     else None)"

definition save_dataset :: "nat \<Rightarrow> eval_dataset \<Rightarrow> (lab \<Rightarrow> lab) \<Rightarrow> unit eval_svc" where
  "save_dataset k d rest = (\<lambda>s.
    case dataset_valid k d s of
      Some e \<Rightarrow> (s, Inl (EvalDb e))
    | None \<Rightarrow> (rest (s\<lparr>lab_datasets := row_put k d (lab_datasets s)\<rparr>), Inr ()))"

definition create_evaluation_dataset ::
  "nat \<Rightarrow> nat \<Rightarrow> string \<Rightarrow> string option \<Rightarrow> eval_dataset_status option \<Rightarrow> int \<Rightarrow> string option \<Rightarrow> nat eval_svc" where
  "create_evaluation_dataset ws actor nm description status now req = atomic (\<lambda>s.
    let k = fresh_id (lab_datasets s);
        d = \<lparr>vd_workspace = ws, vd_name = nm,
             vd_description = (case description of None \<Rightarrow> '''' | Some v \<Rightarrow> v),
             vd_status = (case status of None \<Rightarrow> ED_DRAFT | Some v \<Rightarrow> v),
             vd_created_by = Some actor, vd_created_at = now\<rparr>
    in svc_bind (save_dataset k d (lab_audit ''evaluation_dataset.created'' ''evaluation_dataset'' k
         (Some actor) ws [(''dataset_id'', jid k)] req)) (\<lambda>u. svc_return k) s)"

definition update_evaluation_dataset ::
  "nat \<Rightarrow> nat \<Rightarrow> eval_dataset \<Rightarrow> nat \<Rightarrow> string option \<Rightarrow> string option \<Rightarrow> eval_dataset_status option \<Rightarrow>
   string option \<Rightarrow> eval_dataset eval_svc" where
  "update_evaluation_dataset ws k d actor nm description status req = atomic (\<lambda>s.
    let d' = d\<lparr>vd_name := (case nm of None \<Rightarrow> vd_name d | Some v \<Rightarrow> v),
               vd_description := (case description of None \<Rightarrow> vd_description d | Some v \<Rightarrow> v),
               vd_status := (case status of None \<Rightarrow> vd_status d | Some v \<Rightarrow> v)\<rparr>
    in svc_bind (save_dataset k d' (lab_audit ''evaluation_dataset.updated'' ''evaluation_dataset'' k
         (Some actor) ws [(''dataset_id'', jid k)] req)) (\<lambda>u. svc_return d') s)"

text \<open>
  \<open>EvaluationCase.clean\<close>. The second check stores the validated model as a plain object; the model
  keeps the object that was validated, which validates to the same expectations.
\<close>

definition clean_case :: "eval_env \<Rightarrow> eval_case \<Rightarrow> eval_exc + eval_case" where
  "clean_case env c =
    (case ee_validate_seeded env (or_empty (vc_seeded_context c)) of
      None \<Rightarrow> Inl (CaseInvalid ''seeded_context'')
    | Some ctx \<Rightarrow>
        (case validate_expectations (or_empty (vc_expectations c)) of
          None \<Rightarrow> Inl (CaseInvalid ''expectations'')
        | Some e \<Rightarrow> Inr (c\<lparr>vc_seeded_context := ctx, vc_expectations := or_empty (vc_expectations c)\<rparr>)))"

definition save_case :: "nat \<Rightarrow> eval_case \<Rightarrow> (lab \<Rightarrow> lab) \<Rightarrow> unit eval_svc" where
  "save_case k c rest = (\<lambda>s.
    if \<not> fits 128 (vc_key c) \<or> \<not> fits 200 (vc_name c) then (s, Inl (EvalDb DataError))
    else if list_ex (\<lambda>(j, c'). j \<noteq> k \<and> vc_dataset c' = vc_dataset c \<and> vc_key c' = vc_key c) (lab_cases s)
      then (s, Inl (EvalDb IntegrityError))
    else (rest (s\<lparr>lab_cases := row_put k c (lab_cases s)\<rparr>), Inr ()))"

definition create_evaluation_case ::
  "eval_env \<Rightarrow> nat \<Rightarrow> nat \<Rightarrow> nat \<Rightarrow> eval_case \<Rightarrow> string option \<Rightarrow> nat eval_svc" where
  "create_evaluation_case env ws dataset actor c req =
    (case clean_case env (c\<lparr>vc_dataset := dataset, vc_created_by := Some actor\<rparr>) of
      Inl e \<Rightarrow> svc_raise e
    | Inr c' \<Rightarrow> atomic (\<lambda>s.
        let k = fresh_id (lab_cases s)
        in svc_bind (save_case k c' (lab_audit ''evaluation_case.created'' ''evaluation_case'' k (Some actor)
             ws [(''dataset_id'', jid dataset), (''case_id'', jid k)] req)) (\<lambda>u. svc_return k) s))"

definition update_evaluation_case ::
  "eval_env \<Rightarrow> nat \<Rightarrow> nat \<Rightarrow> (eval_case \<Rightarrow> eval_case) \<Rightarrow> eval_case \<Rightarrow> nat \<Rightarrow> string option \<Rightarrow> eval_case eval_svc" where
  "update_evaluation_case env ws k patch c actor req =
    (case clean_case env (patch c) of
      Inl e \<Rightarrow> svc_raise e
    | Inr c' \<Rightarrow> atomic (\<lambda>s.
        svc_bind (save_case k c' (lab_audit ''evaluation_case.updated'' ''evaluation_case'' k (Some actor)
          ws [(''dataset_id'', jid (vc_dataset c)), (''case_id'', jid k)] req)) (\<lambda>u. svc_return c') s))"

subsection \<open>Starting a run\<close>

definition active_cases :: "nat \<Rightarrow> lab \<Rightarrow> eval_case rows" where
  "active_cases dataset s =
    sort_key (\<lambda>(k, c). vc_key c) (rows_where (\<lambda>k c. vc_dataset c = dataset \<and> vc_status c = EC_ACTIVE) (lab_cases s))"

text \<open>One snapshot and one pending result per case; the keys of a run's snapshots are unique.\<close>

fun add_snapshots :: "nat \<Rightarrow> int \<Rightarrow> nat \<Rightarrow> eval_case rows \<Rightarrow> lab \<Rightarrow> lab option" where
  "add_snapshots run now n [] s = Some s"
| "add_snapshots run now n ((k, c) # rest) s =
    (if list_ex (\<lambda>(j, sn). vs_run sn = run \<and> (vs_case_key sn = vc_key c \<or> vs_sequence sn = n)) (lab_snapshots s)
     then None
     else
       let sk = fresh_id (lab_snapshots s); xk = fresh_id (lab_results s);
           sn = \<lparr>vs_run = run, vs_case = Some k, vs_sequence = n, vs_case_key = vc_key c, vs_name = vc_name c,
                 vs_input_message = vc_input_message c, vs_seeded_context = vc_seeded_context c,
                 vs_expectations = vc_expectations c\<rparr>;
           x = \<lparr>vx_run = run, vx_snapshot = sk, vx_status = VX_PENDING, vx_agent_run = None,
                vx_scorer_output = None, vx_passed = None, vx_failure_code = None, vx_failure_message = [],
                vx_replay_of = None, vx_started_at = None, vx_completed_at = None, vx_created_at = now,
                vx_updated_at = now\<rparr>
       in add_snapshots run now (n + 1) rest
            (s\<lparr>lab_snapshots := row_put sk sn (lab_snapshots s), lab_results := row_put xk x (lab_results s)\<rparr>))"

definition start_run_task :: string where
  "start_run_task = ''evaluations.tasks.start_evaluation_run_task''"

definition execute_case_task :: string where
  "execute_case_task = ''evaluations.tasks.execute_evaluation_case_task''"

definition pending_eval_run ::
  "nat \<Rightarrow> nat \<Rightarrow> nat \<Rightarrow> nat \<Rightarrow> json \<Rightarrow> nat \<Rightarrow> int \<Rightarrow> string option \<Rightarrow> eval_run" where
  "pending_eval_run ws actor dataset version config n now req =
    \<lparr>vr_workspace = ws, vr_dataset = dataset, vr_version = version, vr_status = VR_PENDING,
     vr_threshold_config = or_empty config, vr_total_cases = int n,
     vr_completed_cases = 0, vr_passed_cases = 0, vr_failed_cases = 0,
     vr_correlation_id = (case req of None \<Rightarrow> [] | Some q \<Rightarrow> q), vr_created_by = Some actor,
     vr_started_at = None, vr_completed_at = None, vr_cancelled_at = None,
     vr_created_at = now, vr_updated_at = now\<rparr>"

definition start_evaluation_run ::
  "nat \<Rightarrow> nat \<Rightarrow> nat \<Rightarrow> nat \<Rightarrow> agent_version_status \<Rightarrow> json \<Rightarrow> int \<Rightarrow> string option \<Rightarrow> nat eval_svc" where
  "start_evaluation_run ws actor dataset version vstatus config now req = (\<lambda>s.
    if vstatus \<noteq> AV_PUBLISHED then (s, Inl EvaluationAgentVersionNotPublishedError)
    else let cases = active_cases dataset s in
      if cases = [] then (s, Inl EvaluationDatasetHasNoActiveCasesError)
      else atomic (\<lambda>s.
        let k = fresh_id (lab_runs s);
            r = pending_eval_run ws actor dataset version config (length cases) now req
        in if \<not> fits 64 (vr_correlation_id r) then (s, Inl (EvalDb DataError))
           else case add_snapshots k now 0 cases (put_lab_run k r s) of
             None \<Rightarrow> (s, Inl (EvalDb IntegrityError))
           | Some s1 \<Rightarrow>
               (lab_emit (Task start_run_task k)
                 (lab_audit ''evaluation_run.created'' ''evaluation_run'' k (Some actor) ws
                   [(''run_id'', jid k), (''dataset_id'', jid dataset),
                    (''case_count'', JInt (int (length cases)))] req s1), Inr k)) s)"

text \<open>\<open>None\<close>: another worker claimed the run, or it was cancelled.\<close>

definition claim_evaluation_run :: "(nat \<Rightarrow> int) \<Rightarrow> nat \<Rightarrow> eval_run option eval_svc" where
  "claim_evaluation_run clk k = atomic (\<lambda>s.
    case row_get (lab_runs s) k of
      None \<Rightarrow> (s, Inl (EvalDb DoesNotExist))
    | Some r \<Rightarrow>
        if vr_status r \<noteq> VR_PENDING then (s, Inr None)
        else
          (let r' = r\<lparr>vr_status := VR_RUNNING, vr_started_at := Some (clk 0)\<rparr> in
           case save_lab_run (clk 1) k r' s of
             None \<Rightarrow> (s, Inl (EvalDb IntegrityError)) | Some s' \<Rightarrow> (s', Inr (Some r'))))"

definition initial_results :: "nat \<Rightarrow> eval_result rows \<Rightarrow> eval_result rows" where
  "initial_results run t = rows_where (\<lambda>k x. vx_run x = run \<and> vx_replay_of x = None) t"

definition dispatch_pending_case_executions :: "nat \<Rightarrow> lab \<Rightarrow> lab" where
  "dispatch_pending_case_executions run s =
    fold (\<lambda>k. lab_emit (Task execute_case_task k))
      (row_ids (rows_where (\<lambda>k x. vx_status x = VX_PENDING) (initial_results run (lab_results s)))) s"

definition start_evaluation_run_task :: "(nat \<Rightarrow> int) \<Rightarrow> nat \<Rightarrow> eval_run_status option eval_svc" where
  "start_evaluation_run_task clk k =
    svc_bind (claim_evaluation_run clk k) (\<lambda>claimed s.
      case claimed of
        None \<Rightarrow> (s, Inr None)
      | Some r \<Rightarrow> (dispatch_pending_case_executions k s, Inr (Some (vr_status r))))"

subsection \<open>Counting and finalizing\<close>

definition aggregate_case_counts :: "nat \<Rightarrow> eval_result rows \<Rightarrow> int \<times> int" where
  "aggregate_case_counts run t =
    (let xs = map snd (initial_results run t)
     in (int (length (filter (\<lambda>x. vx_status x \<in> {VX_SUCCEEDED, VX_FAILED}) xs)),
         int (length (filter (\<lambda>x. vx_passed x = Some True) xs))))"

definition with_counts :: "int \<times> int \<Rightarrow> eval_run \<Rightarrow> eval_run" where
  "with_counts n r = r\<lparr>vr_completed_cases := fst n, vr_passed_cases := snd n, vr_failed_cases := fst n - snd n\<rparr>"

definition finalize_evaluation_run :: "(nat \<Rightarrow> int) \<Rightarrow> nat \<Rightarrow> eval_run option eval_svc" where
  "finalize_evaluation_run clk k = atomic (\<lambda>s.
    case row_get (lab_runs s) k of
      None \<Rightarrow> (s, Inl (EvalDb DoesNotExist))
    | Some r \<Rightarrow>
        if vr_status r \<noteq> VR_RUNNING then (s, Inr None)
        else if vr_completed_cases r < vr_total_cases r then (s, Inr None)
        else
          (let execution_failed = int (length (filter (\<lambda>(i, x). vx_status x = VX_FAILED)
                 (initial_results k (lab_results s))));
               status = (if vr_total_cases r > 0 \<and> execution_failed = vr_total_cases r then VR_FAILED
                         else if execution_failed > 0 then VR_PARTIAL else VR_SUCCEEDED);
               r' = r\<lparr>vr_status := status, vr_completed_at := Some (clk 0)\<rparr>
           in case save_lab_run (clk 1) k r' s of
                None \<Rightarrow> (s, Inl (EvalDb IntegrityError))
              | Some s' \<Rightarrow>
                  (lab_emit (Metric ''evaluation_run'' [eval_run_status_value status])
                    (lab_audit ''evaluation_run.completed'' ''evaluation_run'' k (vr_created_by r)
                      (vr_workspace r) [(''run_id'', jid k), (''status'', JStr (eval_run_status_value status))]
                      (if vr_correlation_id r = [] then None else Some (vr_correlation_id r)) s'),
                   Inr (Some r'))))"

definition update_counts :: "int \<Rightarrow> nat \<Rightarrow> eval_run eval_svc" where
  "update_counts now k = atomic (\<lambda>s.
    case row_get (lab_runs s) k of
      None \<Rightarrow> (s, Inl (EvalDb DoesNotExist))
    | Some r \<Rightarrow>
        (let r' = with_counts (aggregate_case_counts k (lab_results s)) r
         in case save_lab_run now k r' s of
              None \<Rightarrow> (s, Inl (EvalDb IntegrityError)) | Some s' \<Rightarrow> (s', Inr r')))"

definition record_case_completion :: "(nat \<Rightarrow> int) \<Rightarrow> nat \<Rightarrow> eval_result \<Rightarrow> unit eval_svc" where
  "record_case_completion clk k x =
    (if vx_replay_of x \<noteq> None then svc_return ()
     else svc_bind (update_counts (clk 0) k) (\<lambda>r.
       if vr_status r = VR_RUNNING \<and> vr_completed_cases r \<ge> vr_total_cases r
       then svc_bind (finalize_evaluation_run (\<lambda>n. clk (n + 1)) k) (\<lambda>u. svc_return ())
       else svc_return ()))"

subsection \<open>Executing a case\<close>

text \<open>The claim locks the run before the result; a cancelled run cancels the result instead.\<close>

definition claim_evaluation_result :: "(nat \<Rightarrow> int) \<Rightarrow> nat \<Rightarrow> eval_result option eval_svc" where
  "claim_evaluation_result clk k = atomic (\<lambda>s.
    case row_get (lab_results s) k of
      None \<Rightarrow> (s, Inl (EvalDb DoesNotExist))
    | Some x \<Rightarrow>
      (case row_get (lab_runs s) (vx_run x) of
        None \<Rightarrow> (s, Inl (EvalDb DoesNotExist))
      | Some r \<Rightarrow>
          if vx_status x \<noteq> VX_PENDING then (s, Inr None)
          else if vr_status r = VR_CANCELLED \<or> vr_cancelled_at r \<noteq> None then
            (put_result k (x\<lparr>vx_status := VX_CANCELLED, vx_completed_at := Some (clk 0),
               vx_updated_at := clk 1\<rparr>) s, Inr None)
          else
            (let x' = x\<lparr>vx_status := VX_RUNNING, vx_started_at := Some (clk 0), vx_updated_at := clk 1\<rparr>
             in (put_result k x' s, Inr (Some x')))))"

definition observe_case :: "string \<Rightarrow> lab \<Rightarrow> lab" where
  "observe_case outcome = lab_emit (Metric ''evaluation_case'' [outcome])"

definition terminate_result ::
  "(nat \<Rightarrow> int) \<Rightarrow> nat \<Rightarrow> eval_result \<Rightarrow> evaluation_failure_code \<Rightarrow> string \<Rightarrow> eval_result eval_svc" where
  "terminate_result clk k claimed code msg = (\<lambda>s.
    case row_get (lab_results s) k of
      None \<Rightarrow> (s, Inl (EvalDb DoesNotExist))
    | Some x \<Rightarrow>
        (let x' = x\<lparr>vx_status := VX_FAILED, vx_passed := Some False, vx_failure_code := Some code,
                    vx_failure_message := take 500 msg, vx_completed_at := Some (clk 0), vx_updated_at := clk 1\<rparr>;
             s1 = observe_case ''execution_failed'' (put_result k x' s)
         in if vx_replay_of claimed = None
            then svc_bind (record_case_completion (\<lambda>n. clk (n + 2)) (vx_run claimed) x') (\<lambda>u. svc_return x') s1
            else (s1, Inr x')))"

definition complete_result ::
  "(nat \<Rightarrow> int) \<Rightarrow> nat \<Rightarrow> nat \<Rightarrow> nat \<Rightarrow> case_score \<Rightarrow> eval_result eval_svc" where
  "complete_result clk k run agent_run score = (\<lambda>s.
    case row_get (lab_results s) k of
      None \<Rightarrow> (s, Inl (EvalDb DoesNotExist))
    | Some x \<Rightarrow>
        (let x' = x\<lparr>vx_status := VX_SUCCEEDED, vx_agent_run := Some agent_run,
                    vx_scorer_output := Some (sc_output score), vx_passed := Some (sc_passed score),
                    vx_failure_code := sc_failure_code score, vx_completed_at := Some (clk 0),
                    vx_updated_at := clk 1\<rparr>;
             s1 = observe_case (if sc_passed score then ''passed'' else ''failed'') (put_result k x' s)
         in svc_bind (record_case_completion (\<lambda>n. clk (n + 2)) run x') (\<lambda>u. svc_return x') s1))"

text \<open>
  \<open>_create_evaluation_agent_run\<close>, then the claim and the execution of the run by the services of the
  agents, with the scripted provider in place of the configured one: passing a provider skips
  \<open>get_llm_provider\<close>, which \<open>provider_for\<close> answers with when the setting names the version's provider.
\<close>

definition create_evaluation_agent_run :: "int \<Rightarrow> nat \<Rightarrow> eval_run \<Rightarrow> eval_snapshot \<Rightarrow> nat \<Rightarrow> world \<Rightarrow> world" where
  "create_evaluation_agent_run now run_id r sn k w =
    on_gate (put_run k \<lparr>run_workspace = vr_workspace r, run_version = vr_version r, run_conversation = None,
      run_ticket = None, run_trigger_message = None, run_output_message = None, run_trigger = ''evaluation'',
      run_status_of = RUN_PENDING,
      run_input_message = take max_input_message_chars (vs_input_message sn),
      run_input_metadata = JObj [(''evaluation_run_id'', jid run_id), (''evaluation_case_key'', JStr (vs_case_key sn))],
      run_final_response = [], run_started_at = None, run_completed_at = None, run_cancelled_at = None,
      run_failure_code = [], run_failure_message = [], run_model_calls = 0, run_steps = 0,
      run_tool_calls = 0, run_input_tokens = 0, run_output_tokens = 0, run_total_tokens = 0,
      run_cost = None, run_correlation = vr_correlation_id r, run_created_by = vr_created_by r,
      run_created_at = now, run_updated_at = now\<rparr>) w"

definition scripted_env :: "agent_env \<Rightarrow> scenario list \<Rightarrow> agent_version \<Rightarrow> world \<Rightarrow> agent_env" where
  "scripted_env env ss v w =
    env\<lparr>ae_generate := fake_generate ss (length (w_requests w)), ae_setting_provider := av_provider v,
        ae_configured := None\<rparr>"

text \<open>What the execution of a claimed case ends with: a score, a failure to record, or an escaping exception.\<close>

datatype case_outcome = Scored nat case_score | Terminated evaluation_failure_code string | Escapes

definition execute_scripted ::
  "eval_env \<Rightarrow> scenario list \<Rightarrow> nat \<Rightarrow> agent_version \<Rightarrow> json \<Rightarrow> world \<Rightarrow> world \<times> case_outcome" where
  "execute_scripted env ss k v expected w =
    (case claim_agent_run (ae_clock (ee_agent env) w) k w of
      (w1, Inl e) \<Rightarrow> (w1, Escapes)
    | (w1, Inr (r, False)) \<Rightarrow>
        (w1, Terminated AGENT_EXECUTION_FAILED ''The agent run could not be claimed for execution.'')
    | (w1, Inr (r, True)) \<Rightarrow>
        (case execute_claimed_agent_run (scripted_env (ee_agent env) ss v w1) k r None [] (ee_catalog env w1) w1 of
          (w2, Inl e) \<Rightarrow> (w2, Terminated AGENT_EXECUTION_FAILED ''The agent run could not be executed.'')
        | (w2, Inr (r2, b)) \<Rightarrow>
            (case score_case k r2 expected w2 of
              None \<Rightarrow> (w2, Terminated INVALID_CASE ''invalid expectations'')
            | Some score \<Rightarrow> (w2, Scored k score))))"

definition seeded_scenarios :: "json \<Rightarrow> json list option" where
  "seeded_scenarios ctx =
    (case ctx of
      JObj kvs \<Rightarrow> (case map_of kvs ''llm_scenarios'' of None \<Rightarrow> Some [] | Some (JArr xs) \<Rightarrow> Some xs | Some _ \<Rightarrow> None)
    | _ \<Rightarrow> None)"

definition run_case :: "eval_env \<Rightarrow> int \<Rightarrow> nat \<Rightarrow> eval_run \<Rightarrow> eval_snapshot \<Rightarrow> world \<Rightarrow> world \<times> case_outcome" where
  "run_case env now run_id r sn w =
    (if ee_live env then
       (w, Terminated PROVIDER_FAILURE ''Evaluation cannot run while live external providers are enabled.'')
     else case seeded_scenarios (vs_seeded_context sn) of
       None \<Rightarrow> (w, Escapes)
     | Some raw \<Rightarrow>
         (case build_fake_llm_provider (ae_rt (ee_agent env)) raw of
           Inl InvalidLLMScenarioError \<Rightarrow> (w, Terminated INVALID_CASE ''invalid scenario'')
         | Inl ScenarioCrash \<Rightarrow> (w, Escapes)
         | Inr ss \<Rightarrow>
             (case row_get (g_versions (w_gate w)) (vr_version r) of
               None \<Rightarrow> (w, Escapes)
             | Some v \<Rightarrow>
                 (let k = fresh_id (g_runs (w_gate w))
                  in execute_scripted env ss k v (vs_expectations sn)
                       (create_evaluation_agent_run now run_id r sn k w)))))"

definition execute_evaluation_case :: "eval_env \<Rightarrow> (nat \<Rightarrow> int) \<Rightarrow> nat \<Rightarrow> eval_result eval_svc" where
  "execute_evaluation_case env clk k =
    svc_bind (claim_evaluation_result clk k) (\<lambda>claimed s.
      case claimed of
        None \<Rightarrow> (case row_get (lab_results s) k of
            None \<Rightarrow> (s, Inl (EvalDb DoesNotExist)) | Some x \<Rightarrow> (s, Inr x))
      | Some x \<Rightarrow>
          (case (row_get (lab_runs s) (vx_run x), row_get (lab_snapshots s) (vx_snapshot x)) of
            (Some r, Some sn) \<Rightarrow>
              (case run_case env (clk 2) (vx_run x) r sn (lab_world s) of
                (w, Escapes) \<Rightarrow> (s\<lparr>lab_world := w\<rparr>, Inl EvalCrash)
              | (w, Terminated code msg) \<Rightarrow> terminate_result (\<lambda>n. clk (n + 3)) k x code msg (s\<lparr>lab_world := w\<rparr>)
              | (w, Scored agent_run score) \<Rightarrow>
                  complete_result (\<lambda>n. clk (n + 3)) k (vx_run x) agent_run score (s\<lparr>lab_world := w\<rparr>))
          | _ \<Rightarrow> (s, Inl EvalCrash)))"

subsection \<open>Cancelling and replaying\<close>

definition cancel_transaction ::
  "(nat \<Rightarrow> int) \<Rightarrow> nat \<Rightarrow> nat \<Rightarrow> nat \<Rightarrow> string option \<Rightarrow> eval_run eval_svc" where
  "cancel_transaction clk ws k actor req = atomic (\<lambda>s.
    case row_get (lab_runs s) k of
      None \<Rightarrow> (s, Inl (EvalDb DoesNotExist))
    | Some r \<Rightarrow>
        if vr_status r \<in> evaluation_run_terminal_statuses then (s, Inl EvaluationRunNotCancellableError)
        else
          (let pending = (\<lambda>i x. vx_run x = k \<and> vx_status x = VX_PENDING \<and> vx_replay_of x = None);
               cancelled_pending = length (rows_where pending (lab_results s));
               s1 = s\<lparr>lab_results := update_where pending
                      (\<lambda>x. x\<lparr>vx_status := VX_CANCELLED, vx_completed_at := Some (clk 0)\<rparr>) (lab_results s)\<rparr>;
               r' = with_counts (aggregate_case_counts k (lab_results s1))
                      (r\<lparr>vr_status := VR_CANCELLED, vr_cancelled_at := Some (clk 1)\<rparr>)
           in case save_lab_run (clk 2) k r' s1 of
                None \<Rightarrow> (s1, Inl (EvalDb IntegrityError))
              | Some s2 \<Rightarrow>
                  (lab_audit ''evaluation_run.cancelled'' ''evaluation_run'' k (Some actor) ws
                    [(''run_id'', jid k), (''cancelled_pending'', JInt (int cancelled_pending))] req s2, Inr r')))"

definition cancel_evaluation_run ::
  "(nat \<Rightarrow> int) \<Rightarrow> nat \<Rightarrow> nat \<Rightarrow> nat \<Rightarrow> string option \<Rightarrow> eval_run eval_svc" where
  "cancel_evaluation_run clk ws k actor req =
    svc_bind (cancel_transaction clk ws k actor req)
      (\<lambda>r' s. (lab_emit (Metric ''evaluation_run'' [''cancelled'']) s, Inr r'))"

text \<open>\<open>x\<close> is the instance of the result its caller loaded; \<open>vstatus\<close> the status of its run's version.\<close>

definition replay_evaluation_case ::
  "nat \<Rightarrow> nat \<Rightarrow> nat \<Rightarrow> eval_result \<Rightarrow> agent_version_status \<Rightarrow> int \<Rightarrow> string option \<Rightarrow> nat eval_svc" where
  "replay_evaluation_case ws actor k x vstatus now req =
    (if vx_status x \<notin> evaluation_result_terminal_statuses then svc_raise EvaluationResultNotReplayableError
     else if vstatus \<noteq> AV_PUBLISHED then svc_raise EvaluationAgentVersionNotPublishedError
     else atomic (\<lambda>s.
       let i = fresh_id (lab_results s);
           replay = \<lparr>vx_run = vx_run x, vx_snapshot = vx_snapshot x, vx_status = VX_PENDING, vx_agent_run = None,
                vx_scorer_output = None, vx_passed = None, vx_failure_code = None, vx_failure_message = [],
                vx_replay_of = Some k, vx_started_at = None, vx_completed_at = None, vx_created_at = now,
                vx_updated_at = now\<rparr>
       in (lab_emit (Task execute_case_task i)
            (lab_audit ''evaluation_result.replayed'' ''evaluation_result'' i (Some actor) ws
              [(''replay_of'', jid k), (''run_id'', jid (vx_run x))] req (put_result i replay s)), Inr i)))"

subsection \<open>Comparison and thresholds\<close>

record run_metrics =
  rm_pass_rate :: rat
  rm_forbidden_tool_violations :: rat
  rm_approval_violations :: rat
  rm_handoff_rate :: rat

definition float_ratio :: "nat \<Rightarrow> nat \<Rightarrow> rat" where
  "float_ratio a b = double_of_rat (of_nat a / of_nat b)"

definition run_metrics_of :: "nat \<Rightarrow> lab \<Rightarrow> run_metrics" where
  "run_metrics_of k s =
    (let results = map snd (initial_results k (lab_results s));
         total = (if results = [] then 1 else length results);
         flag = (\<lambda>f. length (filter (\<lambda>x. case vx_scorer_output x of None \<Rightarrow> False | Some out \<Rightarrow> f out) results))
     in \<lparr>rm_pass_rate = float_ratio (length (filter (\<lambda>x. vx_passed x = Some True) results)) total,
         rm_forbidden_tool_violations = of_nat (flag so_forbidden_tool_violation),
         rm_approval_violations = of_nat (flag so_approval_violation),
         rm_handoff_rate = float_ratio (flag so_handoff_occurred) total\<rparr>)"

text \<open>\<open>round(a - b, 6)\<close> on binary64 values.\<close>

definition rounded_delta :: "rat \<Rightarrow> rat \<Rightarrow> rat" where
  "rounded_delta a b =
    double_of_rat (of_int (round_half_even (double_of_rat (a - b) * 1000000)) / 1000000)"

record threshold_outcome =
  to_name :: string
  to_threshold :: json
  to_passed :: bool

text \<open>
  One configured threshold: absent or \<open>None\<close> it is skipped; \<open>float(\<dots>)\<close> of the configured value may raise.
  A result is the outcomes and the categories of the regressions found.
\<close>

type_synonym threshold_state = "threshold_outcome list \<times> string list"

definition float_threshold ::
  "py_runtime \<Rightarrow> (string \<times> json) list \<Rightarrow> string \<Rightarrow> (pyfloat \<Rightarrow> bool) \<Rightarrow> string \<Rightarrow> threshold_state \<Rightarrow>
   threshold_state option" where
  "float_threshold rt config name check category st =
    (case dict_get config name of
      JNull \<Rightarrow> Some st
    | v \<Rightarrow>
        (case py_float rt v of
          None \<Rightarrow> None
        | Some x \<Rightarrow> Some (fst st @ [\<lparr>to_name = name, to_threshold = v, to_passed = check x\<rparr>],
                          snd st @ (if check x then [] else [category]))))"

definition flag_threshold ::
  "(string \<times> json) list \<Rightarrow> string \<Rightarrow> bool \<Rightarrow> string \<Rightarrow> threshold_state \<Rightarrow> threshold_state" where
  "flag_threshold config name check category st =
    (if py_truthy (dict_get config name)
     then (fst st @ [\<lparr>to_name = name, to_threshold = JBool True, to_passed = check\<rparr>],
           snd st @ (if check then [] else [category]))
     else st)"

definition evaluate_thresholds ::
  "py_runtime \<Rightarrow> run_metrics \<Rightarrow> run_metrics \<Rightarrow> (string \<times> json) list \<Rightarrow> threshold_state option" where
  "evaluate_thresholds rt baseline candidate config =
    (let drop_rate = rounded_delta (rm_pass_rate candidate) (rm_pass_rate baseline);
         handoff_rise = rounded_delta (rm_handoff_rate candidate) (rm_handoff_rate baseline)
     in Option.bind (float_threshold rt config ''min_pass_rate''
          (\<lambda>x. float_ge (Finite (rm_pass_rate candidate)) x) ''pass_rate'' ([], [])) (\<lambda>s1.
        Option.bind (float_threshold rt config ''max_pass_rate_drop''
          (\<lambda>x. float_ge x (Finite (- drop_rate))) ''pass_rate'' s1) (\<lambda>s2.
        float_threshold rt config ''max_handoff_rate_increase''
          (\<lambda>x. float_ge x (Finite handoff_rise)) ''handoff_rate''
          (flag_threshold config ''zero_approval_violations'' (rm_approval_violations candidate = 0)
            ''approval_compliance''
            (flag_threshold config ''zero_forbidden_tool_violations''
              (rm_forbidden_tool_violations candidate = 0) ''forbidden_tool'' s2)))))"

record comparison =
  cm_baseline_run :: nat
  cm_candidate_run :: nat
  cm_case_count :: nat
  cm_baseline :: run_metrics
  cm_candidate :: run_metrics
  cm_deltas :: run_metrics
  cm_thresholds :: "threshold_outcome list"
  cm_regressions :: "string list"
  cm_passed :: bool

definition case_keys :: "nat \<Rightarrow> lab \<Rightarrow> string set" where
  "case_keys run s = set (map (vs_case_key \<circ> snd) (rows_where (\<lambda>k sn. vs_run sn = run) (lab_snapshots s)))"

definition compare_evaluation_runs ::
  "py_runtime \<Rightarrow> nat \<Rightarrow> nat \<Rightarrow> nat \<Rightarrow> eval_run \<Rightarrow> nat option \<Rightarrow> string option \<Rightarrow> comparison eval_svc" where
  "compare_evaluation_runs rt ws base cand candidate actor req = (\<lambda>s.
    if case_keys base s \<noteq> case_keys cand s then (s, Inl EvaluationRunsNotComparableError)
    else
      (let b = run_metrics_of base s; c = run_metrics_of cand s;
           config = (case vr_threshold_config candidate of JObj kvs \<Rightarrow> kvs | _ \<Rightarrow> [])
       in case evaluate_thresholds rt b c config of
            None \<Rightarrow> (s, Inl EvalCrash)
          | Some (outcomes, found) \<Rightarrow>
              (let regressions = sort (remdups found);
                   result = \<lparr>cm_baseline_run = base, cm_candidate_run = cand, cm_case_count = card (case_keys base s),
                     cm_baseline = b, cm_candidate = c,
                     cm_deltas = \<lparr>rm_pass_rate = rounded_delta (rm_pass_rate c) (rm_pass_rate b),
                       rm_forbidden_tool_violations =
                         rounded_delta (rm_forbidden_tool_violations c) (rm_forbidden_tool_violations b),
                       rm_approval_violations = rounded_delta (rm_approval_violations c) (rm_approval_violations b),
                       rm_handoff_rate = rounded_delta (rm_handoff_rate c) (rm_handoff_rate b)\<rparr>,
                     cm_thresholds = outcomes, cm_regressions = regressions, cm_passed = (regressions = [])\<rparr>
               in (lab_audit ''evaluation_runs.compared'' ''evaluation_run'' cand actor ws
                     [(''baseline_run_id'', jid base), (''candidate_run_id'', jid cand),
                      (''passed'', JBool (regressions = []))] req
                     (fold (\<lambda>c. lab_emit (Metric ''evaluation_regression'' [c])) regressions s), Inr result))))"

subsection \<open>Recovery\<close>

record eval_settings =
  es_stale_seconds :: int
  es_pending_run_seconds :: int
  es_pending_case_seconds :: int
  es_sweep_batch :: nat

definition worker_crash_message :: string where
  "worker_crash_message = ''Recovered: worker did not finalize this case before the staleness threshold.''"

definition stale_case :: "nat \<Rightarrow> int \<Rightarrow> eval_result \<Rightarrow> bool" where
  "stale_case run cutoff x \<longleftrightarrow> vx_run x = run \<and> vx_status x = VX_RUNNING \<and> vx_replay_of x = None \<and>
    vx_updated_at x \<le> cutoff"

definition live_case :: "nat \<Rightarrow> int \<Rightarrow> eval_result \<Rightarrow> bool" where
  "live_case run cutoff x \<longleftrightarrow> vx_run x = run \<and> vx_status x = VX_RUNNING \<and> vx_replay_of x = None \<and>
    vx_updated_at x > cutoff"

text \<open>\<open>None\<close>: the run is not stuck any more, or one of its cases is still alive.\<close>

definition recover_transaction :: "int \<Rightarrow> int \<Rightarrow> int \<Rightarrow> nat \<Rightarrow> eval_run option eval_svc" where
  "recover_transaction saved_at cutoff now k = atomic (\<lambda>s.
    case row_get (lab_runs s) k of
      None \<Rightarrow> (s, Inl (EvalDb DoesNotExist))
    | Some r \<Rightarrow>
        if vr_status r \<noteq> VR_RUNNING \<or> vr_updated_at r > cutoff then (s, Inr None)
        else
          (let stale = list_ex (\<lambda>(i, x). stale_case k cutoff x) (lab_results s);
               live = list_ex (\<lambda>(i, x). live_case k cutoff x) (lab_results s)
           in if \<not> stale \<and> live then (s, Inr None)
              else
                (let s1 = s\<lparr>lab_results := update_where (\<lambda>i x. stale_case k cutoff x)
                       (\<lambda>x. x\<lparr>vx_status := VX_FAILED, vx_passed := Some False,
                              vx_failure_code := Some WORKER_CRASH_RECOVERED,
                              vx_failure_message := worker_crash_message, vx_completed_at := Some now,
                              vx_updated_at := now\<rparr>) (lab_results s)\<rparr>;
                     r' = with_counts (aggregate_case_counts k (lab_results s1)) r
                 in case save_lab_run saved_at k r' s1 of
                      None \<Rightarrow> (s1, Inl (EvalDb IntegrityError)) | Some s2 \<Rightarrow> (s2, Inr (Some r')))))"

definition recover_one_stuck_eval_run :: "(nat \<Rightarrow> int) \<Rightarrow> int \<Rightarrow> int \<Rightarrow> nat \<Rightarrow> bool eval_svc" where
  "recover_one_stuck_eval_run clk cutoff now k =
    svc_bind (recover_transaction (clk 0) cutoff now k) (\<lambda>recovered.
       case recovered of
         None \<Rightarrow> svc_return False
       | Some r' \<Rightarrow>
           if vr_completed_cases r' \<ge> vr_total_cases r'
           then svc_bind (finalize_evaluation_run (\<lambda>n. clk (n + 1)) k) (\<lambda>u. svc_return True)
           else svc_return True)"

definition stuck_eval_runs :: "int \<Rightarrow> nat \<Rightarrow> eval_run rows \<Rightarrow> nat list" where
  "stuck_eval_runs cutoff batch t = take batch (row_ids (sort_key (\<lambda>(k, r). vr_updated_at r)
    (rows_where (\<lambda>k r. vr_status r = VR_RUNNING \<and> vr_updated_at r \<le> cutoff) t)))"

definition redispatch_stuck_pending_eval_runs :: "int \<Rightarrow> nat \<Rightarrow> lab \<Rightarrow> lab \<times> nat" where
  "redispatch_stuck_pending_eval_runs cutoff batch s =
    (let ids = take batch (row_ids (sort_key (\<lambda>(k, r). vr_created_at r)
           (rows_where (\<lambda>k r. vr_status r = VR_PENDING \<and> vr_created_at r \<le> cutoff) (lab_runs s))))
     in (fold (\<lambda>k. lab_emit (Task start_run_task k)) ids s, length ids))"

definition redispatch_stuck_pending_cases :: "int \<Rightarrow> nat \<Rightarrow> lab \<Rightarrow> lab \<times> nat" where
  "redispatch_stuck_pending_cases cutoff batch s =
    (let ids = take batch (row_ids (sort_key (\<lambda>(k, x). vx_created_at x)
           (rows_where (\<lambda>k x. vx_status x = VX_PENDING \<and> vx_replay_of x = None \<and> vx_created_at x \<le> cutoff)
             (lab_results s))))
     in (fold (\<lambda>k. lab_emit (Task execute_case_task k)) ids s, length ids))"

fun recover_eval_runs :: "(nat \<Rightarrow> int) \<Rightarrow> int \<Rightarrow> int \<Rightarrow> nat list \<Rightarrow> nat \<Rightarrow> nat eval_svc" where
  "recover_eval_runs clk cutoff now [] n = svc_return n"
| "recover_eval_runs clk cutoff now (k # ks) n =
    svc_bind (recover_one_stuck_eval_run clk cutoff now k)
      (\<lambda>b. recover_eval_runs (\<lambda>i. clk (i + 3)) cutoff now ks (if b then n + 1 else n))"

definition recover_stuck_evaluation_runs ::
  "eval_settings \<Rightarrow> (nat \<Rightarrow> int) \<Rightarrow> nat option \<Rightarrow> int \<Rightarrow> nat eval_svc" where
  "recover_stuck_evaluation_runs es clk batch now = (\<lambda>s.
    let cutoff = now - es_stale_seconds es * 1000000;
        size0 = (case batch of None \<Rightarrow> es_sweep_batch es | Some n \<Rightarrow> n)
    in case recover_eval_runs clk cutoff now (stuck_eval_runs cutoff size0 (lab_runs s)) 0 s of
        (s1, Inl e) \<Rightarrow> (s1, Inl e)
      | (s1, Inr n) \<Rightarrow>
          (case redispatch_stuck_pending_eval_runs (now - es_pending_run_seconds es * 1000000) size0 s1 of
            (s2, m) \<Rightarrow>
              (case redispatch_stuck_pending_cases (now - es_pending_case_seconds es * 1000000) size0 s2 of
                (s3, l) \<Rightarrow> (s3, Inr (n + m + l)))))"

subsection \<open>Selectors and capabilities\<close>

definition evaluation_manage_roles :: "workspace_role set" where
  "evaluation_manage_roles = {OWNER, ADMIN, SUPPORT_MANAGER}"

definition evaluation_view_roles :: "workspace_role set" where
  "evaluation_view_roles = {OWNER, ADMIN, SUPPORT_MANAGER, SUPPORT_AGENT, VIEWER}"

definition role_may :: "workspace_role set \<Rightarrow> workspace_role option \<Rightarrow> bool" where
  "role_may roles role = (case role of None \<Rightarrow> False | Some r \<Rightarrow> r \<in> roles)"

definition run_get_for_workspace :: "nat \<Rightarrow> nat \<Rightarrow> lab \<Rightarrow> eval_run option" where
  "run_get_for_workspace ws k s =
    Option.bind (row_get (lab_runs s) k) (\<lambda>r. if vr_workspace r = ws then Some r else None)"

definition dataset_get_for_workspace :: "nat \<Rightarrow> nat \<Rightarrow> lab \<Rightarrow> eval_dataset option" where
  "dataset_get_for_workspace ws k s =
    Option.bind (row_get (lab_datasets s) k) (\<lambda>d. if vd_workspace d = ws then Some d else None)"

definition case_get_for_workspace :: "nat \<Rightarrow> nat \<Rightarrow> nat \<Rightarrow> lab \<Rightarrow> eval_case option" where
  "case_get_for_workspace ws dataset k s =
    Option.bind (row_get (lab_cases s) k) (\<lambda>c. if vc_dataset c = dataset \<and>
      dataset_get_for_workspace ws dataset s \<noteq> None then Some c else None)"

definition result_get_for_workspace :: "nat \<Rightarrow> nat \<Rightarrow> nat \<Rightarrow> lab \<Rightarrow> eval_result option" where
  "result_get_for_workspace ws run k s =
    Option.bind (row_get (lab_results s) k) (\<lambda>x. if vx_run x = run \<and>
      run_get_for_workspace ws run s \<noteq> None then Some x else None)"

definition dataset_list_for_workspace :: "nat \<Rightarrow> eval_dataset_status option \<Rightarrow> lab \<Rightarrow> eval_dataset rows" where
  "dataset_list_for_workspace ws status s =
    newest_first vd_created_at (rows_where (\<lambda>k d. vd_workspace d = ws \<and>
      (status \<noteq> None \<longrightarrow> status = Some (vd_status d))) (lab_datasets s))"

definition case_list_for_dataset :: "nat \<Rightarrow> nat \<Rightarrow> eval_case_status option \<Rightarrow> lab \<Rightarrow> eval_case rows" where
  "case_list_for_dataset ws dataset status s =
    (if dataset_get_for_workspace ws dataset s = None then []
     else sort_key (\<lambda>(k, c). (vc_key c, k)) (rows_where (\<lambda>k c. vc_dataset c = dataset \<and>
       (status \<noteq> None \<longrightarrow> status = Some (vc_status c))) (lab_cases s)))"

text \<open>\<open>dataset\<close>: no filter, an identifier that does not parse, or one that does.\<close>

definition run_list_for_workspace ::
  "nat \<Rightarrow> eval_run_status option \<Rightarrow> nat option option \<Rightarrow> lab \<Rightarrow> eval_run rows option" where
  "run_list_for_workspace ws status dataset s =
    (if dataset = Some None then None
     else Some (newest_first vr_created_at (rows_where (\<lambda>k r. vr_workspace r = ws \<and>
       (status \<noteq> None \<longrightarrow> status = Some (vr_status r)) \<and>
       (dataset \<noteq> None \<longrightarrow> dataset = Some (Some (vr_dataset r)))) (lab_runs s))))"

definition sequence_of :: "eval_result \<Rightarrow> lab \<Rightarrow> nat" where
  "sequence_of x s = (case row_get (lab_snapshots s) (vx_snapshot x) of None \<Rightarrow> 0 | Some sn \<Rightarrow> vs_sequence sn)"

definition result_list_for_run ::
  "nat \<Rightarrow> nat \<Rightarrow> eval_result_status option \<Rightarrow> bool option \<Rightarrow> lab \<Rightarrow> eval_result rows" where
  "result_list_for_run ws run status passed s =
    (if run_get_for_workspace ws run s = None then []
     else sort_key (\<lambda>(k, x). (sequence_of x s, k)) (rows_where (\<lambda>k x. vx_run x = run \<and>
       (status \<noteq> None \<longrightarrow> status = Some (vx_status x)) \<and>
       (passed \<noteq> None \<longrightarrow> vx_passed x = passed)) (lab_results s)))"

definition snapshot_list_for_run :: "nat \<Rightarrow> nat \<Rightarrow> lab \<Rightarrow> eval_snapshot rows" where
  "snapshot_list_for_run ws run s =
    (if run_get_for_workspace ws run s = None then []
     else sort_key (\<lambda>(k, sn). vs_sequence sn) (rows_where (\<lambda>k sn. vs_run sn = run) (lab_snapshots s)))"

text \<open>\<open>result_list_for_run(\<dots>).exclude(passed=True)\<close>: a null \<open>passed\<close> is kept.\<close>

definition failed_results_for_run :: "nat \<Rightarrow> nat \<Rightarrow> lab \<Rightarrow> eval_result rows" where
  "failed_results_for_run ws run s =
    filter (\<lambda>(k, x). vx_passed x \<noteq> Some True) (result_list_for_run ws run None None s)"

end
