(* ===== verification/EvaluationProperties.thy ===== *)
theory EvaluationProperties
  imports Evaluations AgentLifecycle
begin

section \<open>Properties of the evaluation harness\<close>

text \<open>
  Scoring against its specification, the consistency of the counters and the finality of a run under
  any interleaving of workers, cancellations, replays and sweeps, and what the harness gets wrong.
\<close>

subsection \<open>Scoring\<close>

text \<open>
  The criterion, stated over the stored rows and without any function of the scorer: which handlers
  ran for a run, which requests gate its executions, what its answer cites, and what each expectation
  of a case asks of these rows.
\<close>

definition attempt_of :: "nat \<Rightarrow> gate \<Rightarrow> tool_execution \<Rightarrow> bool" where
  "attempt_of k g ex \<longleftrightarrow> (\<exists>i. (i, ex) \<in> set (g_execs g)) \<and> te_run ex = k"

definition handler_ran :: "tool_execution \<Rightarrow> bool" where
  "handler_ran ex \<longleftrightarrow> te_status ex = EX_SUCCEEDED \<or> te_status ex = EX_FAILED \<or> te_status ex = EX_TIMED_OUT"

primrec tools_run :: "nat \<Rightarrow> gate \<Rightarrow> tool_execution rows \<Rightarrow> string list" where
  "tools_run k g [] = []"
| "tools_run k g (row # rows) =
    (if te_run (snd row) = k \<and> handler_ran (snd row) then tool_key_of (snd row) g # tools_run k g rows
     else tools_run k g rows)"

definition request_of :: "nat \<Rightarrow> gate \<Rightarrow> approval_request \<Rightarrow> bool" where
  "request_of k g ar \<longleftrightarrow> (\<exists>j. (j, ar) \<in> set (g_approvals g)) \<and>
    (\<exists>ex. row_get (g_execs g) (ar_execution ar) = Some ex \<and> te_run ex = k)"

definition citations_of :: "agent_run \<Rightarrow> desk \<Rightarrow> json" where
  "citations_of r d =
    (case Option.bind (run_output_message r) (row_get (dk_messages d)) of
      None \<Rightarrow> JNull
    | Some m \<Rightarrow> (case ms_metadata m of JObj kvs \<Rightarrow> dict_get kvs ''citations'' | _ \<Rightarrow> JNull))"

definition cites :: "agent_run \<Rightarrow> desk \<Rightarrow> bool" where
  "cites r d \<longleftrightarrow>
    (if citations_of r d \<noteq> JNull then py_truthy (citations_of r d)
     else {CHR ''['', CHR '']''} \<subseteq> set (run_final_response r))"

primrec approvals_as_expected :: "approval_behavior \<Rightarrow> nat \<Rightarrow> agent_run \<Rightarrow> gate \<Rightarrow> bool" where
  "approvals_as_expected NOT_REQUIRED k r g = (\<nexists>ar. request_of k g ar)"
| "approvals_as_expected REQUIRED k r g = (\<exists>ar. request_of k g ar)"
| "approvals_as_expected APPROVED_PATH k r g = (\<exists>ar. request_of k g ar \<and> ar_status ar = AP_APPROVED)"
| "approvals_as_expected REJECTED_PATH k r g = (\<exists>ar. request_of k g ar \<and> ar_status ar = AP_REJECTED)"
| "approvals_as_expected HANDOFF_EXPECTED k r g = (run_status_of r = RUN_HANDED_OFF)"

definition named_status :: "(string \<times> run_status) set" where
  "named_status = {(''pending'', RUN_PENDING), (''running'', RUN_RUNNING), (''succeeded'', RUN_SUCCEEDED),
     (''failed'', RUN_FAILED), (''cancelled'', RUN_CANCELLED), (''budget_exceeded'', RUN_BUDGET_EXCEEDED),
     (''waiting_for_approval'', RUN_WAITING_FOR_APPROVAL), (''handed_off'', RUN_HANDED_OFF)}"

primrec outcome_as_asserted ::
  "assertion_type \<Rightarrow> string option \<Rightarrow> string option \<Rightarrow> nat \<Rightarrow> agent_run \<Rightarrow> world \<Rightarrow> bool" where
  "outcome_as_asserted RUN_TERMINAL_STATE_EQUALS v t k r w =
    (\<exists>name. v = Some name \<and> (name, run_status_of r) \<in> named_status)"
| "outcome_as_asserted HANDOFF_CREATED v t k r w = (run_status_of r = RUN_HANDED_OFF)"
| "outcome_as_asserted APPROVAL_CREATED v t k r w = (\<exists>ar. request_of k (w_gate w) ar)"
| "outcome_as_asserted TOOL_SUCCEEDED v t k r w =
    (\<exists>ex. attempt_of k (w_gate w) ex \<and> t = Some (tool_key_of ex (w_gate w)) \<and> te_status ex = EX_SUCCEEDED)"
| "outcome_as_asserted TOOL_NOT_EXECUTED v t k r w =
    (\<nexists>ex. attempt_of k (w_gate w) ex \<and> t = Some (tool_key_of ex (w_gate w)))"
| "outcome_as_asserted RESPONSE_CONTAINS_CITATION v t k r w = cites r (w_desk w)"

text \<open>The expectations of a case that its run breaks, in the order of precedence of their codes.\<close>

definition forbidden_tool_ran :: "expectations \<Rightarrow> nat \<Rightarrow> gate \<Rightarrow> bool" where
  "forbidden_tool_ran e k g \<longleftrightarrow>
    (\<exists>ex. attempt_of k g ex \<and> handler_ran ex \<and> tool_key_of ex g \<in> set (ex_forbidden_tools e))"

definition tools_as_expected :: "expectations \<Rightarrow> nat \<Rightarrow> gate \<Rightarrow> bool" where
  "tools_as_expected e k g \<longleftrightarrow>
    (ex_allowed_tools e = [] \<or>
      (\<forall>ex. attempt_of k g ex \<and> handler_ran ex \<longrightarrow> tool_key_of ex g \<in> set (ex_allowed_tools e))) \<and>
    (\<forall>q. ex_required_tool_sequence e = Some q \<longrightarrow> tools_run k g (g_execs g) = q) \<and>
    (\<forall>qs. ex_required_tool_sequence e = None \<and> ex_acceptable_tool_sequences e = Some qs \<longrightarrow>
      tools_run k g (g_execs g) \<in> set qs)"

definition outcomes_as_asserted :: "expectations \<Rightarrow> nat \<Rightarrow> agent_run \<Rightarrow> world \<Rightarrow> bool" where
  "outcomes_as_asserted e k r w \<longleftrightarrow>
    (\<forall>a \<in> set (ex_outcome_assertions e). outcome_as_asserted (oa_type a) (oa_value a) (oa_tool a) k r w)"

definition first_violation :: "expectations \<Rightarrow> nat \<Rightarrow> agent_run \<Rightarrow> world \<Rightarrow> evaluation_failure_code option" where
  "first_violation e k r w =
    (if run_status_of r = RUN_BUDGET_EXCEEDED then Some BUDGET_EXCEEDED
     else if run_status_of r = RUN_FAILED then Some AGENT_EXECUTION_FAILED
     else if forbidden_tool_ran e k (w_gate w) then Some FORBIDDEN_TOOL_VIOLATION
     else if \<not> tools_as_expected e k (w_gate w) then Some OUTCOME_MISMATCH
     else if \<exists>b. ex_approval_behavior e = Some b \<and> \<not> approvals_as_expected b k r (w_gate w)
       then Some APPROVAL_VIOLATION
     else if \<not> outcomes_as_asserted e k r w then Some OUTCOME_MISMATCH
     else None)"

text \<open>The rows the scorer selects, in the terms of the criterion.\<close>

lemma run_executions_attempt:
  "(key, st) \<in> set (run_executions k g) \<longleftrightarrow> (\<exists>ex. attempt_of k g ex \<and> tool_key_of ex g = key \<and> te_status ex = st)"
  by (force simp: run_executions_def rows_where_def attempt_of_def)

lemma run_executions_any:
  "(\<exists>x \<in> set (run_executions k g). P x) \<longleftrightarrow> (\<exists>ex. attempt_of k g ex \<and> P (tool_key_of ex g, te_status ex))"
  by (metis run_executions_attempt surj_pair)

lemma executed_status [simp]: "te_status ex \<in> tool_executed_statuses \<longleftrightarrow> handler_ran ex"
  by (auto simp: tool_executed_statuses_def handler_ran_def)

lemma executed_in_order:
  "map fst (filter (\<lambda>(key, st). st \<in> tool_executed_statuses) (run_executions k g)) = tools_run k g (g_execs g)"
proof -
  have "map fst (filter (\<lambda>(key, st). st \<in> tool_executed_statuses)
      (map (\<lambda>(i, ex). (tool_key_of ex g, te_status ex)) (filter (\<lambda>(i, ex). te_run ex = k) rows))) = tools_run k g rows" for rows
    by (induction rows) auto
  then show ?thesis by (simp add: run_executions_def rows_where_def)
qed

lemma set_tools_run:
  "key \<in> set (tools_run k g (g_execs g)) \<longleftrightarrow> (\<exists>ex. attempt_of k g ex \<and> handler_ran ex \<and> tool_key_of ex g = key)"
  unfolding executed_in_order [symmetric] by (force simp: run_executions_attempt)

lemma tools_run_any:
  "(\<exists>key \<in> set (tools_run k g (g_execs g)). P key) \<longleftrightarrow> (\<exists>ex. attempt_of k g ex \<and> handler_ran ex \<and> P (tool_key_of ex g))"
  by (metis set_tools_run)

lemma tools_run_all:
  "(\<forall>key \<in> set (tools_run k g (g_execs g)). P key) \<longleftrightarrow>
    (\<forall>ex. attempt_of k g ex \<and> handler_ran ex \<longrightarrow> P (tool_key_of ex g))"
  by (metis set_tools_run)

lemma run_approvals_request:
  "st \<in> set (run_approvals k g) \<longleftrightarrow> (\<exists>ar. request_of k g ar \<and> ar_status ar = st)"
  by (force simp: run_approvals_def rows_where_def request_of_def split: option.splits)

lemma run_approvals_empty: "run_approvals k g = [] \<longleftrightarrow> (\<nexists>ar. request_of k g ar)"
  by (metis run_approvals_request list.set_intros(1) empty_iff empty_set neq_Nil_conv)

lemma run_status_named: "v = Some (run_status_value st) \<longleftrightarrow> (\<exists>name. v = Some name \<and> (name, st) \<in> named_status)"
  by (cases st) (auto simp: named_status_def)

lemma cites_response: "response_contains_citation r d = cites r d"
  by (auto simp: response_contains_citation_def cites_def citations_of_def dict_get_def Let_def
      split: option.splits json.splits)

lemma approval_behavior_scored:
  "score_approval_behavior b (run_approvals k g) (run_status_of r) =
    (approvals_as_expected b k r g, \<not> approvals_as_expected b k r g)"
  by (cases b) (auto simp: score_approval_behavior_def Let_def run_approvals_empty run_approvals_request)

lemma outcome_assertion_scored:
  "evaluate_outcome_assertion a (run_status_of r) (run_executions k (w_gate w)) (run_status_of r = RUN_HANDED_OFF)
     (run_approvals k (w_gate w)) (response_contains_citation r (w_desk w)) =
   outcome_as_asserted (oa_type a) (oa_value a) (oa_tool a) k r w"
proof -
  have any: "list_ex (\<lambda>(key, st). oa_tool a = Some key \<and> Q st) (run_executions k (w_gate w)) \<longleftrightarrow>
      (\<exists>ex. attempt_of k (w_gate w) ex \<and> oa_tool a = Some (tool_key_of ex (w_gate w)) \<and> Q (te_status ex))" for Q
    unfolding list_ex_iff run_executions_any by simp
  note tool = any [of "\<lambda>st. True", simplified] any [of "\<lambda>st. st = EX_SUCCEEDED"]
  show ?thesis
    by (cases "oa_type a")
       (simp_all add: evaluate_outcome_assertion_def run_status_named run_approvals_empty cites_response tool)
qed

lemma scored_code:
  assumes "validate_expectations expected = Some e" "score_case k r expected w = Some s"
  shows "sc_failure_code s = first_violation e k r w" "sc_passed s \<longleftrightarrow> sc_failure_code s = None"
proof -
  let ?g = "w_gate w" and ?st = "run_status_of r"
  let ?executed = "tools_run k ?g (g_execs ?g)"
  have s: "s = score_rows e r (run_executions k ?g) (run_approvals k ?g) (response_contains_citation r (w_desk w))"
    using assms by (simp add: score_case_def)
  define F where "F = list_ex (\<lambda>key. key \<in> set (ex_forbidden_tools e)) ?executed"
  define T where "T = (if ex_allowed_tools e = [] then None
    else Some (list_all (\<lambda>key. key \<in> set (ex_allowed_tools e)) ?executed))"
  define Q where "Q = (case ex_required_tool_sequence e of Some q \<Rightarrow> Some (?executed = q)
    | None \<Rightarrow> (case ex_acceptable_tool_sequences e of Some qs \<Rightarrow> Some (?executed \<in> set qs) | None \<Rightarrow> None))"
  define A where "A = (case ex_approval_behavior e of None \<Rightarrow> None
    | Some b \<Rightarrow> Some (score_approval_behavior b (run_approvals k ?g) ?st))"
  define X where "X = filter (\<lambda>a. \<not> outcome_as_asserted (oa_type a) (oa_value a) (oa_tool a) k r w) (ex_outcome_assertions e)"
  define vs where "vs = (if ?st = RUN_BUDGET_EXCEEDED then [BUDGET_EXCEEDED]
      else if ?st = RUN_FAILED then [AGENT_EXECUTION_FAILED] else []) @
    (if F then [FORBIDDEN_TOOL_VIOLATION] else []) @ (if T = Some False then [OUTCOME_MISMATCH] else []) @
    (if Q = Some False then [OUTCOME_MISMATCH] else []) @
    (case A of Some (c, True) \<Rightarrow> [APPROVAL_VIOLATION] | _ \<Rightarrow> []) @ (if X \<noteq> [] then [OUTCOME_MISMATCH] else [])"
  have code: "sc_failure_code s = (case vs of [] \<Rightarrow> None | v # _ \<Rightarrow> Some v)" and passed: "sc_passed s \<longleftrightarrow> vs = []"
    by (simp_all add: s score_rows_def Let_def executed_in_order outcome_assertion_scored
        F_def T_def Q_def A_def X_def vs_def)
  have f: "F \<longleftrightarrow> forbidden_tool_ran e k ?g"
    by (simp add: F_def list_ex_iff tools_run_any forbidden_tool_ran_def)
  have t: "T = Some False \<or> Q = Some False \<longleftrightarrow> \<not> tools_as_expected e k ?g"
    by (auto simp: T_def Q_def tools_as_expected_def list_all_iff tools_run_all split: option.splits)
  have a: "(case A of Some (c, True) \<Rightarrow> [APPROVAL_VIOLATION] | _ \<Rightarrow> []) =
      (if \<exists>b. ex_approval_behavior e = Some b \<and> \<not> approvals_as_expected b k r ?g then [APPROVAL_VIOLATION] else [])"
    by (cases "ex_approval_behavior e") (auto simp: A_def approval_behavior_scored)
  have x: "X = [] \<longleftrightarrow> outcomes_as_asserted e k r w"
    by (auto simp: X_def filter_empty_conv outcomes_as_asserted_def)
  show "sc_failure_code s = first_violation e k r w"
    unfolding code vs_def a using f t x by (auto simp: first_violation_def)
  show "sc_passed s \<longleftrightarrow> sc_failure_code s = None" by (simp add: code passed split: list.split)
qed

text \<open>C26. The scorer passes a case exactly when no expectation is broken, and otherwise names the first
  broken one in a fixed order. The criterion \<open>first_violation\<close> is stated over the stored rows: a run
  over budget or failed, a handler that ran for a forbidden tool, a handler that ran for a tool that is
  not allowed or in another sequence than required, gating requests other than expected, and an
  assertion that the rows do not bear out (\<open>tool_not_executed\<close> counts every row of the tool, also one
  that the policy blocked before its handler).\<close>

theorem case_passes_iff_expectations_met:
  assumes "validate_expectations expected = Some e" and "score_case k r expected w = Some s"
  shows "(sc_passed s \<longleftrightarrow> first_violation e k r w = None) \<and> sc_failure_code s = first_violation e k r w"
  using scored_code [OF assms] by simp

text \<open>A run whose approved refund ran and whose lookup the policy blocked, scored by a case that forbids the
  lookup, expects the approved path and asserts that the refund succeeded.\<close>

definition scored_world :: world where
  "scored_world = world_of (tool_gate\<lparr>
     g_execs := [(1, refund_row\<lparr>te_status := EX_SUCCEEDED\<rparr>),
       (2, (new_execution 9 3 2 4 6 ''j'' ''h'' [] 5)\<lparr>te_status := EX_BLOCKED_BY_POLICY\<rparr>)],
     g_approvals := [(1, \<lparr>ar_workspace = 9, ar_execution = 1, ar_evaluation = 1, ar_risk = 1, ar_status = AP_APPROVED,
       ar_requested_by = Some 7, ar_required_role = ''admin'', ar_summary = [], ar_context = JObj [],
       ar_fingerprint = ''h'', ar_created_at = 0, ar_expires_at = 100, ar_resolved_at = Some 5\<rparr>)]\<rparr>)"

definition scored_expectations :: json where
  "scored_expectations = JObj [(''forbidden_tools'', JArr [JStr ''order.lookup'']),
     (''approval_behavior'', JStr ''approved_path''),
     (''outcome_assertions'', JArr [JObj [(''type'', JStr ''tool_succeeded''), (''tool'', JStr ''payment.refund'')]])]"

theorem case_passes_iff_expectations_met_witness:
  "\<exists>e s. score_case 3 (run_in RUN_SUCCEEDED) scored_expectations scored_world = Some s \<and> sc_passed s \<and>
    validate_expectations scored_expectations = Some e \<and> first_violation e 3 (run_in RUN_SUCCEEDED) scored_world = None"
proof -
  have "map_option sc_passed (score_case 3 (run_in RUN_SUCCEEDED) scored_expectations scored_world) = Some True" by code_simp
  then obtain s where s: "score_case 3 (run_in RUN_SUCCEEDED) scored_expectations scored_world = Some s" "sc_passed s" by auto
  then obtain e where "validate_expectations scored_expectations = Some e" by (auto simp: score_case_def)
  with case_passes_iff_expectations_met [OF this s(1)] s show ?thesis by blast
qed

subsection \<open>Counting rows\<close>

lemma rows_where_put_length:
  "row_get t k = Some x \<Longrightarrow> P k x' = P k x \<Longrightarrow> length (rows_where P (row_put k x' t)) = length (rows_where P t)"
  by (induction t) (auto simp: rows_where_def)

lemma rows_where_put_new:
  "k \<notin> set (row_ids t) \<Longrightarrow> rows_where P (row_put k x t) = rows_where P t @ (if P k x then [(k, x)] else [])"
  by (induction t) (auto simp: rows_where_def row_ids_def)

lemma set_row_put: "set (row_put k x t) \<subseteq> insert (k, x) (set t)"
  by (induction t) auto

lemma rows_where_update_where_length:
  "(\<And>k x. P k (f x) = P k x) \<Longrightarrow> length (rows_where P (update_where Q f t)) = length (rows_where P t)"
proof (induction t)
  case (Cons e t)
  obtain k x where e: "e = (k, x)" by (cases e)
  show ?case using Cons.IH [OF Cons.prems] Cons.prems [of k x]
    by (cases "Q k x") (simp_all add: rows_where_def update_where_def e)
qed (simp add: rows_where_def update_where_def)

lemma length_filter_mono: "(\<And>x. x \<in> set xs \<Longrightarrow> P x \<Longrightarrow> Q x) \<Longrightarrow> length (filter P xs) \<le> length (filter Q xs)"
  by (induction xs) auto

lemma set_update_where: "(k, x) \<in> set (update_where Q f t) \<Longrightarrow>
    (\<exists>y. (k, y) \<in> set t \<and> x = (if Q k y then f y else y))"
  by (auto simp: update_where_def)

subsection \<open>The invariant\<close>

definition result_ok :: "eval_run rows \<Rightarrow> eval_result \<Rightarrow> bool" where
  "result_ok runs x \<longleftrightarrow> vx_run x \<in> set (row_ids runs) \<and> (vx_passed x = Some True \<longrightarrow> vx_status x = VX_SUCCEEDED)"

definition eval_wf :: "lab \<Rightarrow> bool" where
  "eval_wf s \<longleftrightarrow>
    (\<forall>(k, x) \<in> set (lab_results s). result_ok (lab_runs s) x) \<and>
    (\<forall>k r. row_get (lab_runs s) k = Some r \<longrightarrow>
      vr_total_cases r = int (length (initial_results k (lab_results s))) \<and> counters_ok r)"

lemma eval_wfD:
  assumes "eval_wf s"
  shows "(k, x) \<in> set (lab_results s) \<Longrightarrow> result_ok (lab_runs s) x"
    and "row_get (lab_runs s) k = Some r \<Longrightarrow> vr_total_cases r = int (length (initial_results k (lab_results s)))"
    and "row_get (lab_runs s) k = Some r \<Longrightarrow> counters_ok r"
  using assms unfolding eval_wf_def by blast+

lemma eval_wf_cong:
  "lab_runs s' = lab_runs s \<Longrightarrow> lab_results s' = lab_results s \<Longrightarrow> eval_wf s' \<longleftrightarrow> eval_wf s"
  by (simp add: eval_wf_def)

lemma lab_emit_sel [simp]:
  "lab_runs (lab_emit e s) = lab_runs s" "lab_results (lab_emit e s) = lab_results s"
  "lab_snapshots (lab_emit e s) = lab_snapshots s" "lab_cases (lab_emit e s) = lab_cases s"
  "lab_datasets (lab_emit e s) = lab_datasets s"
  by (simp_all add: lab_emit_def)

lemma lab_audit_sel [simp]:
  "lab_runs (lab_audit a ty k ac ws m q s) = lab_runs s" "lab_results (lab_audit a ty k ac ws m q s) = lab_results s"
  by (simp_all add: lab_audit_def)

lemma put_sel [simp]:
  "lab_runs (put_lab_run k r s) = row_put k r (lab_runs s)" "lab_results (put_lab_run k r s) = lab_results s"
  "lab_runs (put_result k x s) = lab_runs s" "lab_results (put_result k x s) = row_put k x (lab_results s)"
  by (simp_all add: put_lab_run_def put_result_def)

lemma observe_sel [simp]:
  "lab_runs (observe_case out s) = lab_runs s" "lab_results (observe_case out s) = lab_results s"
  by (simp_all add: observe_case_def)

lemma put_run_wf:
  assumes wf: "eval_wf s" and r: "row_get (lab_runs s) k = Some r"
    and r': "vr_total_cases r' = vr_total_cases r" "counters_ok r'"
  shows "eval_wf (put_lab_run k r' s)"
proof -
  have ids: "set (row_ids (row_put k r' (lab_runs s))) \<supseteq> set (row_ids (lab_runs s))"
    by (auto simp: row_ids_put)
  have a: "result_ok (row_put k r' (lab_runs s)) x" if "(i, x) \<in> set (lab_results s)" for i x
    using eval_wfD(1) [OF wf that] ids by (auto simp: result_ok_def)
  have b: "vr_total_cases q = int (length (initial_results j (lab_results s))) \<and> counters_ok q"
    if "row_get (row_put k r' (lab_runs s)) j = Some q" for j q
    using that r' eval_wfD(2,3) [OF wf] r by (auto split: if_splits)
  show ?thesis unfolding eval_wf_def using a b by auto
qed

lemma put_result_wf:
  assumes wf: "eval_wf s" and x: "row_get (lab_results s) k = Some x"
    and x': "vx_run x' = vx_run x" "vx_replay_of x' = vx_replay_of x"
      "vx_passed x' = Some True \<longrightarrow> vx_status x' = VX_SUCCEEDED"
  shows "eval_wf (put_result k x' s)"
proof -
  have "(k, x) \<in> set (lab_results s)" using x by (rule map_of_SomeD)
  then have "result_ok (lab_runs s) x'" using eval_wfD(1) [OF wf] x' by (force simp: result_ok_def)
  then have a: "result_ok (lab_runs s) y" if "(i, y) \<in> set (row_put k x' (lab_results s))" for i y
    using that set_row_put [of k x' "lab_results s"] eval_wfD(1) [OF wf, of i y] by auto
  have len: "length (initial_results j (row_put k x' (lab_results s))) = length (initial_results j (lab_results s))" for j
    unfolding initial_results_def by (rule rows_where_put_length [OF x]) (simp add: x')
  show ?thesis unfolding eval_wf_def using a len eval_wfD(2,3) [OF wf] by auto
qed

lemma update_results_wf:
  assumes wf: "eval_wf s"
    and f: "\<And>x. vx_run (f x) = vx_run x" "\<And>x. vx_replay_of (f x) = vx_replay_of x"
      "\<And>k x. Q k x \<Longrightarrow> result_ok (lab_runs s) x \<Longrightarrow> vx_passed (f x) \<noteq> Some True"
  shows "eval_wf (s\<lparr>lab_results := update_where Q f (lab_results s)\<rparr>)"
proof -
  have a: "result_ok (lab_runs s) y" if "(i, y) \<in> set (update_where Q f (lab_results s))" for i y
  proof -
    from set_update_where [OF that] obtain z where z: "(i, z) \<in> set (lab_results s)" "y = (if Q i z then f z else z)" by blast
    have ok: "result_ok (lab_runs s) z" by (rule eval_wfD(1) [OF wf z(1)])
    show ?thesis using ok f(1) [of z] f(3) [of i z] by (auto simp: result_ok_def z(2))
  qed
  have len: "length (initial_results j (update_where Q f (lab_results s))) = length (initial_results j (lab_results s))" for j
    unfolding initial_results_def by (rule rows_where_update_where_length) (simp add: f)
  show ?thesis unfolding eval_wf_def using a len eval_wfD(2,3) [OF wf] by auto
qed

text \<open>The counters computed from the results always satisfy the constraints of the table.\<close>

lemma counts_ok:
  assumes wf: "eval_wf s" and r: "vr_total_cases r = int (length (initial_results k (lab_results s)))"
  shows "counters_ok (with_counts (aggregate_case_counts k (lab_results s)) r)"
proof -
  define xs where "xs = map snd (initial_results k (lab_results s))"
  have passed: "vx_status x = VX_SUCCEEDED" if "x \<in> set xs" "vx_passed x = Some True" for x
  proof -
    from that(1) obtain i where "(i, x) \<in> set (lab_results s)"
      by (auto simp: xs_def initial_results_def rows_where_def)
    from eval_wfD(1) [OF wf this] that(2) show ?thesis by (simp add: result_ok_def)
  qed
  have "length (filter (\<lambda>x. vx_passed x = Some True) xs) \<le> length (filter (\<lambda>x. vx_status x \<in> {VX_SUCCEEDED, VX_FAILED}) xs)"
    by (rule length_filter_mono) (simp add: passed)
  moreover have "length (filter (\<lambda>x. vx_status x \<in> {VX_SUCCEEDED, VX_FAILED}) xs) \<le> length (initial_results k (lab_results s))"
    using length_filter_le [of _ xs] by (simp add: xs_def)
  ultimately show ?thesis
    unfolding counters_ok_def with_counts_def aggregate_case_counts_def Let_def xs_def [symmetric]
    by (simp add: r)
qed

lemma atomic_wf: "eval_wf s \<Longrightarrow> (\<And>s' a. f s = (s', Inr a) \<Longrightarrow> eval_wf s') \<Longrightarrow> eval_wf (fst (atomic f s))"
  by (cases "f s"; cases "snd (f s)") (auto simp: atomic_def)

lemma update_counts_acts:
  assumes wf: "eval_wf s" and r: "row_get (lab_runs s) k = Some r"
  shows "update_counts now k s =
    (put_lab_run k ((with_counts (aggregate_case_counts k (lab_results s)) r)\<lparr>vr_updated_at := now\<rparr>) s,
     Inr (with_counts (aggregate_case_counts k (lab_results s)) r))"
  using counts_ok [OF wf eval_wfD(2) [OF wf r]]
  by (simp add: update_counts_def atomic_def r Let_def save_lab_run_def)

lemma update_counts_wf:
  assumes wf: "eval_wf s" and r: "row_get (lab_runs s) k = Some r"
  shows "eval_wf (put_lab_run k ((with_counts (aggregate_case_counts k (lab_results s)) r)\<lparr>vr_updated_at := now\<rparr>) s)"
  using counts_ok [OF wf eval_wfD(2) [OF wf r]]
  by (intro put_run_wf [OF wf r]) (simp_all add: with_counts_def counters_ok_def)

lemma finalize_wf:
  assumes wf: "eval_wf s"
  shows "eval_wf (fst (finalize_evaluation_run clk k s))"
proof (cases "row_get (lab_runs s) k")
  case None
  then show ?thesis using wf by (simp add: finalize_evaluation_run_def atomic_def)
next
  case (Some r)
  have keep: "eval_wf (put_lab_run k (r\<lparr>vr_status := st, vr_completed_at := a, vr_updated_at := b\<rparr>) s)" for st a b
    using eval_wfD(3) [OF wf Some] by (intro put_run_wf [OF wf Some]) (simp_all add: counters_ok_def)
  have emit0: "eval_wf (lab_emit e t) \<longleftrightarrow> eval_wf t" "eval_wf (lab_audit a ty i ac ws m q t) \<longleftrightarrow> eval_wf t"
    for e t a ty i ac ws m q
    by (rule eval_wf_cong; simp)+
  have ok: "counters_ok (r\<lparr>vr_status := st, vr_completed_at := a\<rparr>)" for st a
    using eval_wfD(3) [OF wf Some] by (simp add: counters_ok_def)
  show ?thesis
  proof (cases "vr_status r = VR_RUNNING \<and> \<not> vr_completed_cases r < vr_total_cases r")
    case False
    then show ?thesis using Some wf by (auto simp: finalize_evaluation_run_def atomic_def)
  next
    case True
    then show ?thesis
      by (simp only: finalize_evaluation_run_def atomic_def Some option.case not_True_eq_False if_False
        Let_def save_lab_run_def ok if_True prod.case sum.case fst_conv emit0)
        (simp add: emit0 keep)
  qed
qed

lemma bind_wf: "eval_wf (fst (f s)) \<Longrightarrow> (\<And>a s'. f s = (s', Inr a) \<Longrightarrow> eval_wf (fst (g a s'))) \<Longrightarrow>
    eval_wf (fst (svc_bind f g s))"
  by (cases "f s"; cases "snd (f s)") (auto simp: svc_bind_def)

lemma record_case_completion_wf:
  assumes wf: "eval_wf s"
  shows "eval_wf (fst (record_case_completion clk k x s))"
proof (cases "vx_replay_of x = None")
  case False
  then show ?thesis using wf by (simp add: record_case_completion_def svc_return_def)
next
  case True
  show ?thesis
  proof (cases "row_get (lab_runs s) k")
    case None
    then show ?thesis using True wf
      by (simp add: record_case_completion_def svc_bind_def update_counts_def atomic_def)
  next
    case (Some r)
    let ?s = "put_lab_run k ((with_counts (aggregate_case_counts k (lab_results s)) r)\<lparr>vr_updated_at := clk 0\<rparr>) s"
    have w: "eval_wf ?s" by (rule update_counts_wf [OF wf Some])
    have "eval_wf (fst (svc_bind (finalize_evaluation_run c k) (\<lambda>u. svc_return ()) ?s))" for c
    proof (rule bind_wf)
      show "eval_wf (fst (finalize_evaluation_run c k ?s))" by (rule finalize_wf [OF w])
      fix a s' assume "finalize_evaluation_run c k ?s = (s', Inr a)"
      then show "eval_wf (fst (svc_return () s'))" using finalize_wf [OF w, of c k] by (simp add: svc_return_def)
    qed
    then show ?thesis using True w
      by (simp add: record_case_completion_def svc_bind_def update_counts_acts [OF wf Some] svc_return_def)
  qed
qed

subsection \<open>The operations keep the invariant\<close>

lemma save_lab_run_wf:
  assumes wf: "eval_wf s" and r: "row_get (lab_runs s) k = Some r" and t: "vr_total_cases r' = vr_total_cases r"
    and s': "save_lab_run now k r' s = Some s'"
  shows "eval_wf s'"
  using s' t by (auto simp: save_lab_run_def counters_ok_def split: if_splits intro!: put_run_wf [OF wf r])

lemma claim_run_wf: "eval_wf s \<Longrightarrow> eval_wf (fst (claim_evaluation_run clk k s))"
  unfolding claim_evaluation_run_def
  by (rule atomic_wf) (auto elim!: save_lab_run_wf [rotated 3] split: option.splits if_splits simp: Let_def)

lemma fold_emit_sel [simp]:
  "lab_runs (fold (\<lambda>k. lab_emit (f k)) ks s) = lab_runs s"
  "lab_results (fold (\<lambda>k. lab_emit (f k)) ks s) = lab_results s"
  by (induction ks arbitrary: s) simp_all

lemma start_task_wf: "eval_wf s \<Longrightarrow> eval_wf (fst (start_evaluation_run_task clk k s))"
  using claim_run_wf [of s clk k] unfolding start_evaluation_run_task_def
  by (intro bind_wf) (auto split: option.splits simp: dispatch_pending_case_executions_def
      eval_wf_cong [of "fold _ _ _"])

lemma claim_result_wf:
  assumes wf: "eval_wf s"
  shows "eval_wf (fst (claim_evaluation_result clk k s))"
proof -
  have "vx_passed x \<noteq> Some True" if "row_get (lab_results s) k = Some x" "vx_status x = VX_PENDING" for x
  proof -
    have "(k, x) \<in> set (lab_results s)" using that(1) by (rule map_of_SomeD)
    from eval_wfD(1) [OF wf this] that(2) show ?thesis by (auto simp: result_ok_def)
  qed
  then show ?thesis unfolding claim_evaluation_result_def
    by (intro atomic_wf [OF wf]) (auto split: option.splits if_splits simp: Let_def wf intro!: put_result_wf [OF wf])
qed

lemma lab_world_sel [simp]:
  "lab_runs (s\<lparr>lab_world := w\<rparr>) = lab_runs s" "lab_results (s\<lparr>lab_world := w\<rparr>) = lab_results s"
  by simp_all

lemma world_wf [simp]: "eval_wf (s\<lparr>lab_world := w\<rparr>) \<longleftrightarrow> eval_wf s"
  by (rule eval_wf_cong) simp_all

lemma emit_wf [simp]: "eval_wf (lab_emit e s) \<longleftrightarrow> eval_wf s" "eval_wf (lab_audit a ty i ac ws m q s) \<longleftrightarrow> eval_wf s"
  "eval_wf (observe_case out s) \<longleftrightarrow> eval_wf s"
  by (rule eval_wf_cong; simp)+

lemma settle_wf:
  assumes "eval_wf s"
  shows "eval_wf (fst (svc_bind (record_case_completion clk k x) (\<lambda>u. svc_return y) s))"
proof (rule bind_wf)
  show "eval_wf (fst (record_case_completion clk k x s))" by (rule record_case_completion_wf [OF assms])
  fix a s' assume "record_case_completion clk k x s = (s', Inr a)"
  then show "eval_wf (fst (svc_return y s'))"
    using record_case_completion_wf [OF assms, of clk k x] by (simp add: svc_return_def)
qed

lemma terminate_wf:
  assumes wf: "eval_wf s"
  shows "eval_wf (fst (terminate_result clk k c code msg s))"
proof (cases "row_get (lab_results s) k")
  case (Some x)
  have "eval_wf (observe_case out (put_result k (x\<lparr>vx_status := VX_FAILED, vx_passed := Some False,
      vx_failure_code := Some code, vx_failure_message := m, vx_completed_at := a, vx_updated_at := b\<rparr>) s))" for out m a b
    unfolding emit_wf by (rule put_result_wf [OF wf Some]) simp_all
  then show ?thesis by (simp add: terminate_result_def Some Let_def settle_wf)
qed (simp add: terminate_result_def wf)

lemma complete_wf:
  assumes wf: "eval_wf s"
  shows "eval_wf (fst (complete_result clk k run agent_run score s))"
proof (cases "row_get (lab_results s) k")
  case (Some x)
  have "eval_wf (observe_case out (put_result k (x\<lparr>vx_status := VX_SUCCEEDED, vx_agent_run := a,
      vx_scorer_output := b, vx_passed := c, vx_failure_code := d, vx_completed_at := e, vx_updated_at := f\<rparr>) s))"
    for out a b c d e f
    unfolding emit_wf by (rule put_result_wf [OF wf Some]) simp_all
  then show ?thesis by (simp add: complete_result_def Some Let_def settle_wf)
qed (simp add: complete_result_def wf)

lemma execute_wf:
  assumes wf: "eval_wf s"
  shows "eval_wf (fst (execute_evaluation_case env clk k s))"
  unfolding execute_evaluation_case_def
proof (rule bind_wf)
  show "eval_wf (fst (claim_evaluation_result clk k s))" by (rule claim_result_wf [OF wf])
  fix a s' assume "claim_evaluation_result clk k s = (s', Inr a)"
  then have w: "eval_wf s'" using claim_result_wf [OF wf, of clk k] by simp
  show "eval_wf (fst (case a of
        None \<Rightarrow> (case row_get (lab_results s') k of
            None \<Rightarrow> (s', Inl (EvalDb DoesNotExist)) | Some x \<Rightarrow> (s', Inr x))
      | Some x \<Rightarrow>
          (case (row_get (lab_runs s') (vx_run x), row_get (lab_snapshots s') (vx_snapshot x)) of
            (Some r, Some sn) \<Rightarrow>
              (case run_case env (clk 2) (vx_run x) r sn (lab_world s') of
                (w, Escapes) \<Rightarrow> (s'\<lparr>lab_world := w\<rparr>, Inl EvalCrash)
              | (w, Terminated code msg) \<Rightarrow> terminate_result (\<lambda>n. clk (n + 3)) k x code msg (s'\<lparr>lab_world := w\<rparr>)
              | (w, Scored agent_run score) \<Rightarrow>
                  complete_result (\<lambda>n. clk (n + 3)) k (vx_run x) agent_run score (s'\<lparr>lab_world := w\<rparr>))
          | _ \<Rightarrow> (s', Inl EvalCrash))))"
    using w by (auto split: option.split prod.split case_outcome.split intro: terminate_wf complete_wf)
qed

lemma cancel_transaction_wf:
  assumes wf: "eval_wf s"
  shows "eval_wf (fst (cancel_transaction clk ws k actor req s))"
proof -
  let ?s1 = "s\<lparr>lab_results := update_where (\<lambda>i x. vx_run x = k \<and> vx_status x = VX_PENDING \<and> vx_replay_of x = None)
      (\<lambda>x. x\<lparr>vx_status := VX_CANCELLED, vx_completed_at := Some (clk 0)\<rparr>) (lab_results s)\<rparr>"
  have w1: "eval_wf ?s1" by (rule update_results_wf [OF wf]) (auto simp: result_ok_def)
  have w2: "eval_wf s2" if "row_get (lab_runs s) k = Some r" "save_lab_run now k (with_counts n
      (r\<lparr>vr_status := VR_CANCELLED, vr_cancelled_at := c\<rparr>)) ?s1 = Some s2" for r n c now s2
    by (rule save_lab_run_wf [OF w1 _ _ that(2), of r]) (simp_all add: that(1) with_counts_def)
  show ?thesis unfolding cancel_transaction_def
    by (rule atomic_wf [OF wf]) (auto split: option.splits if_splits simp: Let_def dest!: w2)
qed

lemma cancel_wf: "eval_wf s \<Longrightarrow> eval_wf (fst (cancel_evaluation_run clk ws k actor req s))"
  using cancel_transaction_wf [of s clk ws k actor req] unfolding cancel_evaluation_run_def
  by (intro bind_wf) simp_all

lemma recover_transaction_wf:
  assumes wf: "eval_wf s"
  shows "eval_wf (fst (recover_transaction u cutoff now k s))"
proof -
  let ?s1 = "s\<lparr>lab_results := update_where (\<lambda>i x. stale_case k cutoff x)
      (\<lambda>x. x\<lparr>vx_status := VX_FAILED, vx_passed := Some False, vx_failure_code := Some WORKER_CRASH_RECOVERED,
        vx_failure_message := worker_crash_message, vx_completed_at := Some now, vx_updated_at := now\<rparr>) (lab_results s)\<rparr>"
  have w1: "eval_wf ?s1" by (rule update_results_wf [OF wf]) simp_all
  have w2: "eval_wf s2" if "row_get (lab_runs s) k = Some r" "save_lab_run u k (with_counts n r) ?s1 = Some s2" for r n s2
    by (rule save_lab_run_wf [OF w1 _ _ that(2), of r]) (simp_all add: that(1) with_counts_def)
  show ?thesis unfolding recover_transaction_def
    by (rule atomic_wf [OF wf]) (auto split: option.splits if_splits simp: Let_def wf dest!: w2)
qed

lemma bind_return_wf: "eval_wf (fst (f s)) \<Longrightarrow> eval_wf (fst (svc_bind f (\<lambda>u. svc_return y) s))"
  by (rule bind_wf) (auto simp: svc_return_def)

lemma recover_one_wf:
  assumes wf: "eval_wf s"
  shows "eval_wf (fst (recover_one_stuck_eval_run clk cutoff now k s))"
  unfolding recover_one_stuck_eval_run_def
proof (rule bind_wf)
  show "eval_wf (fst (recover_transaction (clk 0) cutoff now k s))" by (rule recover_transaction_wf [OF wf])
  fix a s' assume "recover_transaction (clk 0) cutoff now k s = (s', Inr a)"
  then have "eval_wf s'" using recover_transaction_wf [OF wf, of "clk 0" cutoff now k] by simp
  then show "eval_wf (fst ((case a of None \<Rightarrow> svc_return False
       | Some r' \<Rightarrow> if vr_completed_cases r' \<ge> vr_total_cases r'
           then svc_bind (finalize_evaluation_run (\<lambda>n. clk (n + 1)) k) (\<lambda>u. svc_return True)
           else svc_return True) s'))"
    by (cases a) (simp_all add: bind_return_wf finalize_wf, simp_all add: svc_return_def)
qed

lemma recover_runs_keep:
  assumes "\<And>clk k s. P s \<Longrightarrow> P (fst (recover_one_stuck_eval_run clk cutoff now k s))" "P s"
  shows "P (fst (recover_eval_runs clk cutoff now ks n s))"
  using assms(2)
proof (induction ks arbitrary: clk n s)
  case (Cons k ks)
  obtain s' q where q: "recover_one_stuck_eval_run clk cutoff now k s = (s', q)" by fastforce
  then have "P s'" using assms(1) [OF Cons.prems, of clk k] by simp
  then show ?case by (cases q) (simp_all add: svc_bind_def q Cons.IH)
qed (simp add: svc_return_def)

lemma fold_emit_keeps: "(\<And>e s. P s \<Longrightarrow> P (lab_emit e s)) \<Longrightarrow> P s \<Longrightarrow> P (fold (\<lambda>k. lab_emit (f k)) ks s)"
  by (induction ks arbitrary: s) simp_all

lemma redispatch_sel [simp]:
  "lab_runs (fst (redispatch_stuck_pending_eval_runs c b s)) = lab_runs s"
  "lab_results (fst (redispatch_stuck_pending_eval_runs c b s)) = lab_results s"
  "lab_runs (fst (redispatch_stuck_pending_cases c b s)) = lab_runs s"
  "lab_results (fst (redispatch_stuck_pending_cases c b s)) = lab_results s"
  by (simp_all add: redispatch_stuck_pending_eval_runs_def redispatch_stuck_pending_cases_def Let_def)

text \<open>What the recovery of one run and dispatching a task keep, a sweep keeps.\<close>

lemma sweep_keeps:
  assumes one: "\<And>clk cutoff k s. P s \<Longrightarrow> P (fst (recover_one_stuck_eval_run clk cutoff now k s))"
    and emit: "\<And>e s. P s \<Longrightarrow> P (lab_emit e s)" and s: "P s"
  shows "P (fst (recover_stuck_evaluation_runs es clk batch now s))"
proof -
  obtain s1 q where q: "recover_eval_runs clk (now - es_stale_seconds es * 1000000) now
      (stuck_eval_runs (now - es_stale_seconds es * 1000000)
        (case batch of None \<Rightarrow> es_sweep_batch es | Some n \<Rightarrow> n) (lab_runs s)) 0 s = (s1, q)" by fastforce
  have s1: "P s1" using recover_runs_keep [of P, OF one s] q by (metis fst_conv)
  have a: "P (fst (redispatch_stuck_pending_eval_runs c b t))" if "P t" for c b t
    using fold_emit_keeps [of P, OF emit that] by (simp add: redispatch_stuck_pending_eval_runs_def Let_def)
  have b: "P (fst (redispatch_stuck_pending_cases c b t))" if "P t" for c b t
    using fold_emit_keeps [of P, OF emit that] by (simp add: redispatch_stuck_pending_cases_def Let_def)
  show ?thesis
    using s1 b [OF a [OF s1]]
    by (cases q) (simp_all add: recover_stuck_evaluation_runs_def Let_def q case_prod_unfold)
qed

lemma sweep_wf: "eval_wf s \<Longrightarrow> eval_wf (fst (recover_stuck_evaluation_runs es clk batch now s))"
  by (rule sweep_keeps [where P = eval_wf]) (simp_all add: recover_one_wf)

subsection \<open>Starting and replaying\<close>

lemma initial_results_put_new:
  "k \<notin> set (row_ids t) \<Longrightarrow> initial_results j (row_put k x t) =
    initial_results j t @ (if vx_run x = j \<and> vx_replay_of x = None then [(k, x)] else [])"
  by (simp add: initial_results_def rows_where_put_new)

lemma add_snapshots_adds:
  "add_snapshots run now n cases s = Some s' \<Longrightarrow>
    lab_runs s' = lab_runs s \<and>
    (\<forall>(k, x) \<in> set (lab_results s'). (k, x) \<in> set (lab_results s) \<or> (vx_run x = run \<and> vx_passed x = None)) \<and>
    (\<forall>j. length (initial_results j (lab_results s')) =
      length (initial_results j (lab_results s)) + (if j = run then length cases else 0))"
proof (induction run now n cases s rule: add_snapshots.induct)
  case (2 run now n k c rest s)
  let ?sk = "fresh_id (lab_snapshots s)" and ?xk = "fresh_id (lab_results s)"
  let ?sn = "\<lparr>vs_run = run, vs_case = Some k, vs_sequence = n, vs_case_key = vc_key c, vs_name = vc_name c,
     vs_input_message = vc_input_message c, vs_seeded_context = vc_seeded_context c, vs_expectations = vc_expectations c\<rparr>"
  let ?x = "\<lparr>vx_run = run, vx_snapshot = ?sk, vx_status = VX_PENDING, vx_agent_run = None,
     vx_scorer_output = None, vx_passed = None, vx_failure_code = None, vx_failure_message = [],
     vx_replay_of = None, vx_started_at = None, vx_completed_at = None, vx_created_at = now, vx_updated_at = now\<rparr>"
  let ?s = "s\<lparr>lab_snapshots := row_put ?sk ?sn (lab_snapshots s), lab_results := row_put ?xk ?x (lab_results s)\<rparr>"
  have free: "\<not> list_ex (\<lambda>(j, sn). vs_run sn = run \<and> (vs_case_key sn = vc_key c \<or> vs_sequence sn = n)) (lab_snapshots s)"
    and rest: "add_snapshots run now (n + 1) rest ?s = Some s'"
    using "2.prems" by (auto simp: Let_def split: if_splits)
  note IH = "2.IH" [OF free refl refl refl refl rest]
  have new: "set (lab_results ?s) \<subseteq> insert (?xk, ?x) (set (lab_results s))" using set_row_put by simp
  have len: "length (initial_results j (lab_results ?s)) = length (initial_results j (lab_results s)) + (if j = run then 1 else 0)" for j
    using initial_results_put_new [of ?xk "lab_results s" j ?x] by simp
  have b: "(i, x) \<in> set (lab_results s) \<or> (vx_run x = run \<and> vx_passed x = None)" if "(i, x) \<in> set (lab_results s')" for i x
  proof -
    from IH that have "(i, x) \<in> set (lab_results ?s) \<or> (vx_run x = run \<and> vx_passed x = None)" by blast
    with new show ?thesis by auto
  qed
  show ?case using IH len b by auto
qed auto

lemma start_run_wf:
  assumes wf: "eval_wf s"
  shows "eval_wf (fst (start_evaluation_run ws actor dataset version vstatus config now req s))"
proof (cases "vstatus = AV_PUBLISHED \<and> active_cases dataset s \<noteq> []")
  case False
  then show ?thesis using wf by (auto simp: start_evaluation_run_def Let_def)
next
  case True
  let ?k = "fresh_id (lab_runs s)" and ?cs = "active_cases dataset s"
  have none: "initial_results ?k (lab_results s) = []"
    using eval_wfD(1) [OF wf] by (force simp: initial_results_def rows_where_def filter_empty_conv result_ok_def)
  have started: "eval_wf s1" if s1: "add_snapshots ?k now 0 ?cs (put_lab_run ?k r s) = Some s1"
    and r: "vr_total_cases r = int (length ?cs)" "counters_ok r" for r s1
  proof -
    from add_snapshots_adds [OF s1] have runs: "lab_runs s1 = row_put ?k r (lab_runs s)"
      and rows: "\<forall>(k, x) \<in> set (lab_results s1). (k, x) \<in> set (lab_results s) \<or> (vx_run x = ?k \<and> vx_passed x = None)"
      and len: "\<And>j. length (initial_results j (lab_results s1)) =
        length (initial_results j (lab_results s)) + (if j = ?k then length ?cs else 0)"
      by simp_all
    have a: "result_ok (lab_runs s1) x" if "(i, x) \<in> set (lab_results s1)" for i x
      using rows that eval_wfD(1) [OF wf, of i x] by (auto simp: runs result_ok_def row_ids_put)
    have b: "vr_total_cases q = int (length (initial_results j (lab_results s1))) \<and> counters_ok q"
      if "row_get (lab_runs s1) j = Some q" for j q
      using that eval_wfD(2,3) [OF wf] r none len by (auto simp: runs split: if_splits)
    show ?thesis unfolding eval_wf_def using a b by blast
  qed
  have "vr_total_cases (pending_eval_run ws actor dataset version config (length ?cs) now req) = int (length ?cs)"
    "counters_ok (pending_eval_run ws actor dataset version config (length ?cs) now req)"
    by (simp_all add: pending_eval_run_def counters_ok_def)
  note new = started [OF _ this]
  show ?thesis using True
    by (auto simp: start_evaluation_run_def Let_def split: option.splits if_splits dest!: new
      intro!: atomic_wf [OF wf])
qed

lemma replay_wf:
  assumes wf: "eval_wf s" and x: "vx_run x \<in> set (row_ids (lab_runs s))"
  shows "eval_wf (fst (replay_evaluation_case ws actor k x vstatus now req s))"
proof -
  let ?i = "fresh_id (lab_results s)"
  have put: "eval_wf (put_result ?i y s)" if y: "vx_run y = vx_run x" "vx_replay_of y = Some k" "vx_passed y = None" for y
  proof -
    have a: "result_ok (lab_runs s) z" if "(j, z) \<in> set (row_put ?i y (lab_results s))" for j z
      using that set_row_put [of ?i y "lab_results s"] eval_wfD(1) [OF wf, of j z] x y by (auto simp: result_ok_def)
    have len: "initial_results j (row_put ?i y (lab_results s)) = initial_results j (lab_results s)" for j
      using initial_results_put_new [of ?i "lab_results s" j y] y by simp
    show ?thesis unfolding eval_wf_def using a len eval_wfD(2,3) [OF wf] by auto
  qed
  show ?thesis using wf by (auto simp: replay_evaluation_case_def svc_raise_def Let_def intro!: atomic_wf put)
qed

lemma save_dataset_sel [simp]:
  "lab_runs (fst (save_dataset k d (lab_audit a ty i ac w m q) s)) = lab_runs s"
  "lab_results (fst (save_dataset k d (lab_audit a ty i ac w m q) s)) = lab_results s"
  by (simp_all add: save_dataset_def split: option.split)

lemma save_case_sel [simp]:
  "lab_runs (fst (save_case k c (lab_audit a ty i ac w m q) s)) = lab_runs s"
  "lab_results (fst (save_case k c (lab_audit a ty i ac w m q) s)) = lab_results s"
  by (simp_all add: save_case_def)

lemma atomic_sel: "p (fst (f s)) = p s \<Longrightarrow> p (fst (atomic f s)) = p s"
  by (cases "f s"; cases "snd (f s)") (auto simp: atomic_def)

lemma bind_return_sel: "p (fst (f s)) = p s \<Longrightarrow> p (fst (svc_bind f (\<lambda>u. svc_return y) s)) = p s"
  by (cases "f s"; cases "snd (f s)") (auto simp: svc_bind_def svc_return_def)

lemma authoring_sel:
  "lab_runs (fst (create_evaluation_dataset ws actor nm ds st now req s)) = lab_runs s"
  "lab_results (fst (create_evaluation_dataset ws actor nm ds st now req s)) = lab_results s"
  "lab_runs (fst (update_evaluation_dataset ws k d actor nm' ds st' req s)) = lab_runs s"
  "lab_results (fst (update_evaluation_dataset ws k d actor nm' ds st' req s)) = lab_results s"
  "lab_runs (fst (create_evaluation_case env ws k actor c req s)) = lab_runs s"
  "lab_results (fst (create_evaluation_case env ws k actor c req s)) = lab_results s"
  "lab_runs (fst (update_evaluation_case env ws k patch c actor req s)) = lab_runs s"
  "lab_results (fst (update_evaluation_case env ws k patch c actor req s)) = lab_results s"
  unfolding create_evaluation_dataset_def update_evaluation_dataset_def create_evaluation_case_def
    update_evaluation_case_def Let_def
  by (simp_all add: atomic_sel bind_return_sel svc_raise_def split: sum.split)

subsection \<open>Steps of the harness\<close>

text \<open>
  What may happen to the tables, in any order: authoring, starting, claiming, the two halves of a
  worker's execution (with arguments of its own, so that a late worker is covered), cancellation,
  replays of results read before, the sweep, and anything in the world of the agents.
\<close>

inductive eval_step :: "lab \<Rightarrow> lab \<Rightarrow> bool" where
  create_dataset: "eval_step s (fst (create_evaluation_dataset ws actor nm ds st now req s))"
| update_dataset: "eval_step s (fst (update_evaluation_dataset ws k d actor nm' ds st req s))"
| create_case: "eval_step s (fst (create_evaluation_case env ws k actor c req s))"
| update_case: "eval_step s (fst (update_evaluation_case env ws k patch c actor req s))"
| start: "eval_step s (fst (start_evaluation_run ws actor dataset version vstatus config now req s))"
| claim_run: "eval_step s (fst (start_evaluation_run_task clk k s))"
| claim_result: "eval_step s (fst (claim_evaluation_result clk k s))"
| execute: "eval_step s (fst (execute_evaluation_case env clk k s))"
| late_failure: "eval_step s (fst (terminate_result clk k claimed code msg s))"
| late_success: "eval_step s (fst (complete_result clk k run agent_run score s))"
| finalize: "eval_step s (fst (finalize_evaluation_run clk k s))"
| cancel: "eval_step s (fst (cancel_evaluation_run clk ws k actor req s))"
| replay: "row_get (lab_results s) k = Some y \<Longrightarrow> vx_run x = vx_run y \<Longrightarrow>
    eval_step s (fst (replay_evaluation_case ws actor k x vstatus now req s))"
| sweep: "eval_step s (fst (recover_stuck_evaluation_runs es clk batch now s))"
| agents: "eval_step s (s\<lparr>lab_world := w\<rparr>)"

definition empty_lab :: "world \<Rightarrow> lab" where
  "empty_lab w = \<lparr>lab_datasets = [], lab_cases = [], lab_runs = [], lab_snapshots = [], lab_results = [], lab_world = w\<rparr>"

lemma empty_lab_wf [simp]: "eval_wf (empty_lab w)"
  by (simp add: eval_wf_def empty_lab_def)

lemma eval_step_wf: "eval_step s s' \<Longrightarrow> eval_wf s \<Longrightarrow> eval_wf s'"
proof (induction rule: eval_step.induct)
  case (replay s k y x)
  have "(k, y) \<in> set (lab_results s)" using replay(1) by (rule map_of_SomeD)
  then have "vx_run x \<in> set (row_ids (lab_runs s))"
    using eval_wfD(1) [OF replay(3)] replay(2) by (force simp: result_ok_def)
  then show ?case by (rule replay_wf [OF replay(3)])
qed (simp_all add: eval_wf_cong [OF authoring_sel(1,2)] eval_wf_cong [OF authoring_sel(3,4)]
    eval_wf_cong [OF authoring_sel(5,6)] eval_wf_cong [OF authoring_sel(7,8)] start_run_wf start_task_wf
    claim_result_wf execute_wf terminate_wf complete_wf finalize_wf cancel_wf sweep_wf)

lemma eval_steps_wf: "eval_step\<^sup>*\<^sup>* s s' \<Longrightarrow> eval_wf s \<Longrightarrow> eval_wf s'"
  by (induction rule: rtranclp_induct) (auto dest: eval_step_wf)

text \<open>C27. Whatever the workers, cancellations, replays and sweeps do and in whatever order, a run's total is the
  number of its own first results (replays never count), its counters stay within the constraints of the table, and
  counting its results again never violates them.\<close>

theorem evaluation_counters_agree:
  assumes "eval_step\<^sup>*\<^sup>* (empty_lab w) s" and r: "row_get (lab_runs s) k = Some r"
  shows "vr_total_cases r = int (length (initial_results k (lab_results s))) \<and> counters_ok r \<and>
    snd (update_counts now k s) = Inr (with_counts (aggregate_case_counts k (lab_results s)) r)"
proof -
  have wf: "eval_wf s" by (rule eval_steps_wf [OF assms(1)]) simp
  show ?thesis using eval_wfD(2,3) [OF wf r] update_counts_acts [OF wf r] by simp
qed

subsection \<open>Finished runs\<close>

text \<open>A finished run keeps its status and its timestamps.\<close>

definition keeps_finished :: "lab \<Rightarrow> lab \<Rightarrow> bool" where
  "keeps_finished s s' \<longleftrightarrow> (\<forall>k r. row_get (lab_runs s) k = Some r \<longrightarrow> vr_status r \<in> evaluation_run_terminal_statuses \<longrightarrow>
    (\<exists>r'. row_get (lab_runs s') k = Some r' \<and> vr_status r' = vr_status r \<and> vr_completed_at r' = vr_completed_at r \<and>
      vr_cancelled_at r' = vr_cancelled_at r))"

lemma keeps_finished_refl: "lab_runs s' = lab_runs s \<Longrightarrow> keeps_finished s s'"
  by (simp add: keeps_finished_def)

lemma keeps_finished_trans: "keeps_finished s s' \<Longrightarrow> keeps_finished s' s'' \<Longrightarrow> keeps_finished s s''"
  unfolding keeps_finished_def by metis

lemma keeps_finished_put:
  assumes "row_get (lab_runs s) k = Some r"
    and "vr_status r \<in> evaluation_run_terminal_statuses \<Longrightarrow>
      vr_status r' = vr_status r \<and> vr_completed_at r' = vr_completed_at r \<and> vr_cancelled_at r' = vr_cancelled_at r"
    and "lab_runs s' = row_put k r' (lab_runs s)"
  shows "keeps_finished s s'"
  using assms by (auto simp: keeps_finished_def)

lemma keeps_finished_saved:
  "save_lab_run now k r' t = Some s' \<Longrightarrow> lab_runs t = lab_runs s \<Longrightarrow> row_get (lab_runs s) k = Some r \<Longrightarrow>
    (vr_status r \<in> evaluation_run_terminal_statuses \<Longrightarrow> vr_status r' = vr_status r \<and>
      vr_completed_at r' = vr_completed_at r \<and> vr_cancelled_at r' = vr_cancelled_at r) \<Longrightarrow> keeps_finished s s'"
  by (rule keeps_finished_put [of s k r "r'\<lparr>vr_updated_at := now\<rparr>"]) (auto simp: save_lab_run_def split: if_splits)

lemma keeps_finished_sel: "lab_runs s' = lab_runs t \<Longrightarrow> keeps_finished s t \<Longrightarrow> keeps_finished s s'"
  by (simp add: keeps_finished_def)

lemma keeps_finished_atomic: "(\<And>s' a. f s = (s', Inr a) \<Longrightarrow> keeps_finished s s') \<Longrightarrow> keeps_finished s (fst (atomic f s))"
  by (cases "f s"; cases "snd (f s)") (auto simp: atomic_def keeps_finished_refl)

lemma keeps_finished_bind:
  assumes "keeps_finished s (fst (f s))" "\<And>a s'. keeps_finished s' (fst (g a s'))"
  shows "keeps_finished s (fst (svc_bind f g s))"
proof -
  obtain s' q where q: "f s = (s', q)" by fastforce
  then show ?thesis using assms keeps_finished_trans [of s s'] by (cases q) (auto simp: svc_bind_def)
qed

lemma return_keeps_finished: "keeps_finished s (fst (svc_return a s))"
  by (simp add: svc_return_def keeps_finished_refl)

lemma finalize_keeps: "keeps_finished s (fst (finalize_evaluation_run clk k s))"
  unfolding finalize_evaluation_run_def Let_def
  by (rule keeps_finished_atomic) (auto split: option.splits if_splits simp: keeps_finished_refl
      evaluation_run_terminal_statuses_def elim!: keeps_finished_saved intro: keeps_finished_sel)

lemma update_counts_keep: "keeps_finished s (fst (update_counts now k s))"
  unfolding update_counts_def Let_def
  by (rule keeps_finished_atomic) (auto split: option.splits simp: with_counts_def elim!: keeps_finished_saved)

lemma record_keeps: "keeps_finished s (fst (record_case_completion clk k x s))"
proof -
  have "keeps_finished s' (fst (svc_bind (finalize_evaluation_run c k) (\<lambda>u. svc_return ()) s'))" for c s'
    by (rule keeps_finished_bind [OF finalize_keeps return_keeps_finished])
  then show ?thesis unfolding record_case_completion_def
    by (auto intro!: keeps_finished_bind update_counts_keep return_keeps_finished)
qed

lemma claim_run_keeps: "keeps_finished s (fst (claim_evaluation_run clk k s))"
  unfolding claim_evaluation_run_def Let_def
  by (rule keeps_finished_atomic) (auto split: option.splits if_splits simp: keeps_finished_refl
      evaluation_run_terminal_statuses_def elim!: keeps_finished_saved)

lemma start_task_keeps: "keeps_finished s (fst (start_evaluation_run_task clk k s))"
  unfolding start_evaluation_run_task_def
  by (rule keeps_finished_bind [OF claim_run_keeps])
    (auto split: option.split simp: dispatch_pending_case_executions_def intro: keeps_finished_refl)

lemma claim_result_keeps: "keeps_finished s (fst (claim_evaluation_result clk k s))"
  unfolding claim_evaluation_result_def Let_def
  by (rule keeps_finished_atomic) (auto split: option.splits if_splits intro: keeps_finished_refl)

lemma settle_keeps: "lab_runs t = lab_runs s \<Longrightarrow>
    keeps_finished s (fst (svc_bind (record_case_completion clk k x) (\<lambda>u. svc_return y) t))"
  by (rule keeps_finished_trans [OF keeps_finished_refl], assumption)
    (rule keeps_finished_bind, rule record_keeps, rule return_keeps_finished)

lemma terminate_keeps: "keeps_finished s (fst (terminate_result clk k c code msg s))"
  by (auto simp: terminate_result_def Let_def keeps_finished_refl intro!: settle_keeps split: option.split)

lemma complete_keeps: "keeps_finished s (fst (complete_result clk k run agent_run score s))"
  by (auto simp: complete_result_def Let_def keeps_finished_refl intro!: settle_keeps split: option.split)

lemma world_keeps: "keeps_finished (s\<lparr>lab_world := w\<rparr>) s' \<Longrightarrow> keeps_finished s s'"
  by (simp add: keeps_finished_def)

lemma execute_keeps: "keeps_finished s (fst (execute_evaluation_case env clk k s))"
  unfolding execute_evaluation_case_def
proof (rule keeps_finished_bind [OF claim_result_keeps])
  fix a s'
  show "keeps_finished s' (fst (case a of
        None \<Rightarrow> (case row_get (lab_results s') k of
            None \<Rightarrow> (s', Inl (EvalDb DoesNotExist)) | Some x \<Rightarrow> (s', Inr x))
      | Some x \<Rightarrow>
          (case (row_get (lab_runs s') (vx_run x), row_get (lab_snapshots s') (vx_snapshot x)) of
            (Some r, Some sn) \<Rightarrow>
              (case run_case env (clk 2) (vx_run x) r sn (lab_world s') of
                (w, Escapes) \<Rightarrow> (s'\<lparr>lab_world := w\<rparr>, Inl EvalCrash)
              | (w, Terminated code msg) \<Rightarrow> terminate_result (\<lambda>n. clk (n + 3)) k x code msg (s'\<lparr>lab_world := w\<rparr>)
              | (w, Scored agent_run score) \<Rightarrow>
                  complete_result (\<lambda>n. clk (n + 3)) k (vx_run x) agent_run score (s'\<lparr>lab_world := w\<rparr>))
          | _ \<Rightarrow> (s', Inl EvalCrash))))"
    by (auto split: option.split prod.split case_outcome.split simp: keeps_finished_refl
        intro: world_keeps [OF terminate_keeps] world_keeps [OF complete_keeps])
qed

lemma cancel_transaction_keeps: "keeps_finished s (fst (cancel_transaction clk ws k actor req s))"
  unfolding cancel_transaction_def Let_def
  by (rule keeps_finished_atomic) (auto split: option.splits if_splits elim!: keeps_finished_saved intro: keeps_finished_sel)

lemma cancel_keeps: "keeps_finished s (fst (cancel_evaluation_run clk ws k actor req s))"
  unfolding cancel_evaluation_run_def
  by (rule keeps_finished_bind [OF cancel_transaction_keeps]) (auto intro: keeps_finished_refl)

lemma recover_transaction_keeps: "keeps_finished s (fst (recover_transaction u cutoff now k s))"
  unfolding recover_transaction_def Let_def
  by (rule keeps_finished_atomic) (auto split: option.splits if_splits simp: with_counts_def keeps_finished_refl
      elim!: keeps_finished_saved)

lemma recover_one_keeps: "keeps_finished s (fst (recover_one_stuck_eval_run clk cutoff now k s))"
  unfolding recover_one_stuck_eval_run_def
proof (rule keeps_finished_bind [OF recover_transaction_keeps])
  fix a s'
  have "keeps_finished s' (fst (svc_bind (finalize_evaluation_run c k) (\<lambda>u. svc_return True) s'))" for c
    by (rule keeps_finished_bind [OF finalize_keeps return_keeps_finished])
  then show "keeps_finished s' (fst ((case a of None \<Rightarrow> svc_return False
       | Some r' \<Rightarrow> if vr_completed_cases r' \<ge> vr_total_cases r'
           then svc_bind (finalize_evaluation_run (\<lambda>n. clk (n + 1)) k) (\<lambda>u. svc_return True)
           else svc_return True) s'))"
    by (auto split: option.split intro: return_keeps_finished)
qed

lemma sweep_keeps_finished: "keeps_finished s (fst (recover_stuck_evaluation_runs es clk batch now s))"
proof (rule sweep_keeps [where P = "keeps_finished s"])
  show "keeps_finished s (fst (recover_one_stuck_eval_run clk cutoff now k t))" if "keeps_finished s t" for clk cutoff k t
    by (rule keeps_finished_trans [OF that recover_one_keeps])
  show "keeps_finished s (lab_emit e t)" if "keeps_finished s t" for e t
    using that by (rule keeps_finished_sel [rotated]) simp
qed (simp add: keeps_finished_refl)

lemma start_keeps: "keeps_finished s (fst (start_evaluation_run ws actor dataset version vstatus config now req s))"
proof -
  have "keeps_finished s s1" if "add_snapshots (fresh_id (lab_runs s)) now 0 cs (put_lab_run (fresh_id (lab_runs s)) r s) = Some s1"
    for cs r s1
    using add_snapshots_adds [OF that] by (auto simp: keeps_finished_def dest: row_get_neq_fresh)
  note new = this
  have [simp]: "keeps_finished s (lab_emit e t) \<longleftrightarrow> keeps_finished s t"
    "keeps_finished s (lab_audit a ty i ac w m q t) \<longleftrightarrow> keeps_finished s t" for e t a ty i ac w m q
    by (simp_all add: keeps_finished_def)
  show ?thesis
    by (auto simp: start_evaluation_run_def Let_def keeps_finished_refl split: option.splits if_splits dest!: new
        intro!: keeps_finished_atomic)
qed

lemma replay_keeps: "keeps_finished s (fst (replay_evaluation_case ws actor k x vstatus now req s))"
  by (auto simp: replay_evaluation_case_def svc_raise_def Let_def atomic_def intro!: keeps_finished_refl)

lemma eval_step_keeps: "eval_step s s' \<Longrightarrow> keeps_finished s s'"
  by (induction rule: eval_step.induct)
    (simp_all add: keeps_finished_refl [OF authoring_sel(1)] keeps_finished_refl [OF authoring_sel(3)]
      keeps_finished_refl [OF authoring_sel(5)] keeps_finished_refl [OF authoring_sel(7)] start_keeps start_task_keeps
      claim_result_keeps execute_keeps terminate_keeps complete_keeps finalize_keeps cancel_keeps replay_keeps
      sweep_keeps_finished, simp add: keeps_finished_refl)

lemma eval_steps_keep: "eval_step\<^sup>*\<^sup>* s s' \<Longrightarrow> keeps_finished s s'"
proof (induction rule: rtranclp_induct)
  case (step t u)
  then show ?case using eval_step_keeps keeps_finished_trans by blast
qed (simp add: keeps_finished_refl)

text \<open>
  C0. Once an evaluation run has been cancelled nothing executes a case of it any more, whatever happens in
  between: a claim on any of its results (a redelivered task, a late worker, a replay) never wins, and a
  result still pending ends cancelled.
\<close>

theorem cancelled_run_executes_nothing:
  assumes c: "cancel_evaluation_run clk ws k actor req s = (s1, Inr r1)"
    and steps: "eval_step\<^sup>*\<^sup>* s1 s2"
    and x: "row_get (lab_results s2) i = Some x" "vx_run x = k"
  shows "\<exists>s3. claim_evaluation_result c i s2 = (s3, Inr None) \<and>
      (vx_status x = VX_PENDING \<longrightarrow> map_option vx_status (row_get (lab_results s3) i) = Some VX_CANCELLED)"
proof -
  obtain s0 where s0: "cancel_transaction clk ws k actor req s = (s0, Inr r1)" "lab_runs s1 = lab_runs s0"
    using c by (auto simp: cancel_evaluation_run_def svc_bind_def split: prod.splits sum.splits)
  have "\<exists>r. row_get (lab_runs s0) k = Some r \<and> vr_status r = VR_CANCELLED"
    using s0(1) unfolding cancel_transaction_def atomic_ok_iff
    by (auto simp: Let_def save_lab_run_def with_counts_def split: option.splits if_splits)
  then obtain r where r: "row_get (lab_runs s1) k = Some r" "vr_status r = VR_CANCELLED" using s0(2) by auto
  then obtain q where q: "row_get (lab_runs s2) k = Some q" "vr_status q = VR_CANCELLED"
    using eval_steps_keep [OF steps] by (auto simp: keeps_finished_def evaluation_run_terminal_statuses_def)
  show ?thesis using x q by (simp add: claim_evaluation_result_def atomic_def)
qed

subsection \<open>A small laboratory\<close>

text \<open>One dataset with one case, a run of it, claimed by a worker.\<close>

definition demo_eval_env :: eval_env where
  "demo_eval_env = \<lparr>ee_agent = example_env, ee_catalog = (\<lambda>w. None), ee_validate_seeded = Some, ee_live = False\<rparr>"

definition demo_case :: eval_case where
  "demo_case = \<lparr>vc_dataset = 1, vc_key = ''refund'', vc_name = ''Refund'', vc_status = EC_ACTIVE,
    vc_input_message = ''I want my money back'', vc_seeded_context = JObj [], vc_expectations = JObj [],
    vc_created_by = None\<rparr>"

definition demo_authored :: lab where
  "demo_authored = fst (create_evaluation_case demo_eval_env 2 1 7 demo_case None
    (fst (create_evaluation_dataset 2 7 ''smoke'' None (Some ED_ACTIVE) 0 None (empty_lab (world_of empty_gate)))))"

definition demo_started :: lab where
  "demo_started = fst (start_evaluation_run 2 7 1 4 AV_PUBLISHED JNull 0 None demo_authored)"

definition demo_running :: lab where
  "demo_running = fst (start_evaluation_run_task int 1 demo_started)"

definition demo_claimed :: lab where
  "demo_claimed = fst (claim_evaluation_result int 1 demo_running)"

lemma demo_steps: "eval_step\<^sup>*\<^sup>* (empty_lab (world_of empty_gate)) demo_started"
    "eval_step\<^sup>*\<^sup>* demo_started demo_running" "eval_step\<^sup>*\<^sup>* demo_running demo_claimed"
  unfolding demo_authored_def demo_started_def demo_running_def demo_claimed_def
  by (meson eval_step.intros rtranclp.rtrancl_into_rtrancl rtranclp.rtrancl_refl)+

lemma demo_authored_cases [simp]: "lab_cases demo_authored = [(1, demo_case\<lparr>vc_created_by := Some 7\<rparr>)]"
  "lab_runs demo_authored = []" "lab_results demo_authored = []" "lab_snapshots demo_authored = []"
  by (simp_all add: demo_authored_def create_evaluation_case_def create_evaluation_dataset_def clean_case_def
      demo_eval_env_def demo_case_def or_empty_def validate_expectations_def only_keys_def field_def save_case_def
      save_dataset_def dataset_valid_def atomic_def svc_bind_def svc_return_def empty_lab_def fits_def fresh_id_def
      lab_audit_def lab_emit_def p_list_def p_dict_def Let_def)

definition demo_run :: eval_run where
  "demo_run = pending_eval_run 2 7 1 4 JNull 1 0 None"

definition demo_result :: eval_result where
  "demo_result = \<lparr>vx_run = 1, vx_snapshot = 1, vx_status = VX_PENDING, vx_agent_run = None,
    vx_scorer_output = None, vx_passed = None, vx_failure_code = None, vx_failure_message = [],
    vx_replay_of = None, vx_started_at = None, vx_completed_at = None, vx_created_at = 0, vx_updated_at = 0\<rparr>"

lemma demo_started_rows [simp]: "lab_runs demo_started = [(1, demo_run)]" "lab_results demo_started = [(1, demo_result)]"
  by (simp_all add: demo_started_def start_evaluation_run_def atomic_def active_cases_def rows_where_def demo_case_def
      pending_eval_run_def demo_run_def demo_result_def fits_def fresh_id_def put_lab_run_def Let_def)

lemma demo_running_rows [simp]:
  "lab_runs demo_running = [(1, demo_run\<lparr>vr_status := VR_RUNNING, vr_started_at := Some 0, vr_updated_at := 1\<rparr>)]"
  "lab_results demo_running = [(1, demo_result)]"
  by (simp_all add: demo_running_def start_evaluation_run_task_def claim_evaluation_run_def svc_bind_def atomic_def
      save_lab_run_def counters_ok_def demo_run_def pending_eval_run_def dispatch_pending_case_executions_def)

lemma evaluation_counters_agree_witness:
  "vr_total_cases demo_run = int (length (initial_results 1 (lab_results demo_started))) \<and> counters_ok demo_run \<and>
    snd (update_counts 0 1 demo_started) = Inr (with_counts (aggregate_case_counts 1 (lab_results demo_started)) demo_run)"
  by (rule evaluation_counters_agree [OF demo_steps(1)]) simp

lemma cancelled_run_executes_nothing_witness:
  "\<exists>s3. claim_evaluation_result int 1 (fst (cancel_evaluation_run int 2 1 7 None demo_claimed)) = (s3, Inr None)"
proof -
  have rows: "lab_runs demo_claimed = lab_runs demo_running"
    "lab_results demo_claimed = [(1, demo_result\<lparr>vx_status := VX_RUNNING, vx_started_at := Some 0, vx_updated_at := 1\<rparr>)]"
    by (simp_all add: demo_claimed_def claim_evaluation_result_def atomic_def demo_result_def demo_run_def
        pending_eval_run_def Let_def)
  obtain s1 r1 where c: "cancel_evaluation_run int 2 1 7 None demo_claimed = (s1, Inr r1)"
    "lab_results s1 = [(1, demo_result\<lparr>vx_status := VX_RUNNING, vx_started_at := Some 0, vx_updated_at := 1\<rparr>)]"
    by (simp add: cancel_evaluation_run_def cancel_transaction_def svc_bind_def atomic_def rows demo_run_def
        pending_eval_run_def evaluation_run_terminal_statuses_def save_lab_run_def counters_ok_def with_counts_def
        aggregate_case_counts_def initial_results_def rows_where_def update_where_def demo_result_def Let_def)
  let ?x = "demo_result\<lparr>vx_status := VX_RUNNING, vx_started_at := Some 0, vx_updated_at := 1\<rparr>"
  have x: "row_get (lab_results s1) 1 = Some ?x" "vx_run ?x = 1" by (simp_all add: c(2) demo_result_def)
  from cancelled_run_executes_nothing [OF c(1) rtranclp.rtrancl_refl x, of int] show ?thesis
    unfolding c(1) fst_conv by blast
qed

subsection \<open>Settling a case\<close>

lemma finalize_result:
  assumes wf: "eval_wf s" and r: "row_get (lab_runs s) k = Some r"
  shows "\<exists>s' q. finalize_evaluation_run clk k s = (s', Inr q) \<and> lab_results s' = lab_results s \<and>
    (vr_status r \<noteq> VR_RUNNING \<longrightarrow> s' = s)"
  using eval_wfD(3) [OF wf r] r
  by (simp add: finalize_evaluation_run_def atomic_def save_lab_run_def counters_ok_def Let_def)

lemma record_case_completion_counts:
  assumes wf: "eval_wf s" and r: "row_get (lab_runs s) k = Some r" and x: "vx_replay_of x = None"
  shows "\<exists>s' r'. record_case_completion clk k x s = (s', Inr ()) \<and> lab_results s' = lab_results s \<and>
    row_get (lab_runs s') k = Some r' \<and> vr_passed_cases r' = snd (aggregate_case_counts k (lab_results s)) \<and>
    vr_completed_cases r' = fst (aggregate_case_counts k (lab_results s)) \<and>
    (vr_status r \<noteq> VR_RUNNING \<longrightarrow> vr_status r' = vr_status r)"
proof -
  let ?r = "with_counts (aggregate_case_counts k (lab_results s)) r"
  let ?s = "put_lab_run k (?r\<lparr>vr_updated_at := clk 0\<rparr>) s"
  have w: "eval_wf ?s" by (rule update_counts_wf [OF wf r])
  have row: "row_get (lab_runs ?s) k = Some (?r\<lparr>vr_updated_at := clk 0\<rparr>)" by simp
  obtain s' q where f: "finalize_evaluation_run (\<lambda>n. clk (n + 1)) k ?s = (s', Inr q)" "lab_results s' = lab_results s"
    using finalize_result [OF w row, of "\<lambda>n. clk (n + 1)"] by auto
  have f': "\<exists>r'. row_get (lab_runs s') k = Some r' \<and> vr_passed_cases r' = vr_passed_cases ?r \<and>
      vr_completed_cases r' = vr_completed_cases ?r"
    using f(1) eval_wfD(3) [OF w row] unfolding finalize_evaluation_run_def atomic_ok_iff
    by (auto simp: save_lab_run_def counters_ok_def Let_def split: if_splits)
  show ?thesis using x f f'
    by (cases "vr_status r = VR_RUNNING \<and> vr_total_cases r \<le> fst (aggregate_case_counts k (lab_results s))")
      (auto simp: record_case_completion_def svc_bind_def update_counts_acts [OF wf r] svc_return_def with_counts_def)
qed

text \<open>
  C0. What the harness gets wrong: the transaction that records a score re-reads the result but never looks at its
  status. A worker that outlives the staleness threshold overwrites the result a sweep has already failed, a move
  the transition table does not have: the result succeeds with the sweep's crash message still on it, and the run
  that failed because its cases did stays failed while it now counts a passed case.
\<close>

theorem late_worker_overwrites_recovered_result:
  assumes reach: "eval_step\<^sup>*\<^sup>* (empty_lab w) s"
    and x: "row_get (lab_results s) k = Some x" "vx_status x = VX_FAILED" "vx_replay_of x = None"
      "vx_failure_message x = worker_crash_message"
    and r: "row_get (lab_runs s) (vx_run x) = Some r" "vr_status r = VR_FAILED"
    and sc: "sc_passed score"
  shows "\<exists>s' x' r'. complete_result clk k (vx_run x) a score s = (s', Inr x') \<and>
      row_get (lab_results s') k = Some x' \<and> vx_status x' = VX_SUCCEEDED \<and>
      vx_status x' \<notin> evaluation_result_allowed_transitions (vx_status x) \<and>
      vx_failure_message x' = worker_crash_message \<and>
      row_get (lab_runs s') (vx_run x) = Some r' \<and> vr_status r' = VR_FAILED \<and> vr_passed_cases r' > 0"
proof -
  have wf: "eval_wf s" by (rule eval_steps_wf [OF reach]) simp
  define x' where "x' = x\<lparr>vx_status := VX_SUCCEEDED, vx_agent_run := Some a,
      vx_scorer_output := Some (sc_output score), vx_passed := Some (sc_passed score),
      vx_failure_code := sc_failure_code score, vx_completed_at := Some (clk 0), vx_updated_at := clk 1\<rparr>"
  let ?s = "observe_case (if sc_passed score then ''passed'' else ''failed'') (put_result k x' s)"
  have w: "eval_wf ?s" unfolding emit_wf by (rule put_result_wf [OF wf x(1)]) (simp_all add: x'_def)
  have row: "row_get (lab_runs ?s) (vx_run x) = Some r" by (simp add: r(1))
  have rep: "vx_replay_of x' = None" by (simp add: x'_def x(3))
  obtain s' r' where c: "record_case_completion (\<lambda>n. clk (n + 2)) (vx_run x) x' ?s = (s', Inr ())"
      "lab_results s' = lab_results ?s" "row_get (lab_runs s') (vx_run x) = Some r'"
      "vr_passed_cases r' = snd (aggregate_case_counts (vx_run x) (lab_results ?s))" "vr_status r' = VR_FAILED"
    using record_case_completion_counts [OF w row rep, of "\<lambda>n. clk (n + 2)"] r(2) by auto
  have "(k, x') \<in> set (row_put k x' (lab_results s))" by (rule map_of_SomeD) simp
  then have "(k, x') \<in> set (initial_results (vx_run x) (row_put k x' (lab_results s)))"
    by (simp add: initial_results_def rows_where_def rep) (simp add: x'_def)
  then have "x' \<in> set (filter (\<lambda>x. vx_passed x = Some True) (map snd (initial_results (vx_run x) (row_put k x' (lab_results s)))))"
    using sc by (force simp: x'_def)
  then have "0 < length (filter (\<lambda>x. vx_passed x = Some True) (map snd (initial_results (vx_run x) (row_put k x' (lab_results s)))))"
    by (rule length_pos_if_in_set)
  then have "vr_passed_cases r' > 0"
    unfolding c(4) aggregate_case_counts_def Let_def observe_sel put_sel snd_conv of_nat_0_less_iff .
  moreover have "complete_result clk k (vx_run x) a score s = (s', Inr x')"
    by (simp only: complete_result_def x(1) option.case Let_def x'_def [symmetric] svc_bind_def c(1) prod.case sum.case
        svc_return_def)
  moreover have "row_get (lab_results s') k = Some x'" by (simp add: c(2))
  ultimately show ?thesis using c(3,5) x(2,4) by (auto simp: x'_def)
qed

subsection \<open>Cases dispatched before their run\<close>

text \<open>Another of its slips: the sweep dispatches every old pending case, also those of a run that is still pending.
  Such a case is claimed and counted, and counting the last one does not finish the run, which only a running one may;
  claiming the run afterwards leaves it running with every case counted and nothing dispatched that would finish it.\<close>

theorem case_before_its_run_strands_it:
  assumes reach: "eval_step\<^sup>*\<^sup>* (empty_lab w) s"
    and r: "row_get (lab_runs s) k = Some r" "vr_status r = VR_PENDING" "vr_cancelled_at r = None"
    and others: "\<forall>(i, x) \<in> set (initial_results k (lab_results s)). vx_status x \<in> {VX_SUCCEEDED, VX_FAILED}"
    and x: "vx_replay_of x = None"
  shows "\<exists>s1 s2 r2. record_case_completion clk k x s = (s1, Inr ()) \<and>
      start_evaluation_run_task c k s1 = (s2, Inr (Some VR_RUNNING)) \<and>
      row_get (lab_runs s2) k = Some r2 \<and> vr_status r2 = VR_RUNNING \<and> vr_completed_cases r2 = vr_total_cases r2 \<and>
      lab_world s2 = lab_world s1"
proof -
  have wf: "eval_wf s" by (rule eval_steps_wf [OF reach]) simp
  let ?n = "aggregate_case_counts k (lab_results s)"
  have "filter (\<lambda>x. vx_status x \<in> {VX_SUCCEEDED, VX_FAILED}) (map snd (initial_results k (lab_results s))) =
      map snd (initial_results k (lab_results s))"
    using others by (intro filter_True) auto
  then have all: "fst ?n = vr_total_cases r" using eval_wfD(2) [OF wf r(1)] by (simp add: aggregate_case_counts_def Let_def)
  let ?r = "(with_counts ?n r)\<lparr>vr_updated_at := clk 0\<rparr>"
  let ?s1 = "put_lab_run k ?r s"
  have w1: "eval_wf ?s1" by (rule update_counts_wf [OF wf r(1)])
  have ok: "counters_ok ?r" by (rule eval_wfD(3) [OF w1, of k]) simp
  have one: "record_case_completion clk k x s = (?s1, Inr ())"
    using x r(2) by (simp add: record_case_completion_def svc_bind_def update_counts_acts [OF wf r(1)] svc_return_def with_counts_def)
  have none: "rows_where (\<lambda>k x. vx_status x = VX_PENDING) (initial_results k (lab_results s)) = []"
    using others by (force simp: rows_where_def filter_empty_conv)
  let ?r2 = "?r\<lparr>vr_status := VR_RUNNING, vr_started_at := Some (c 0), vr_updated_at := c 1\<rparr>"
  let ?s2 = "put_lab_run k ?r2 ?s1"
  have two: "start_evaluation_run_task c k ?s1 = (?s2, Inr (Some VR_RUNNING))"
    using r(2) ok
    by (simp add: start_evaluation_run_task_def claim_evaluation_run_def atomic_def svc_bind_def save_lab_run_def
        with_counts_def counters_ok_def dispatch_pending_case_executions_def none row_ids_def Let_def)
  have "row_get (lab_runs ?s2) k = Some ?r2" "vr_status ?r2 = VR_RUNNING" "vr_completed_cases ?r2 = vr_total_cases ?r2"
    "lab_world ?s2 = lab_world ?s1"
    using all by (simp_all add: with_counts_def put_lab_run_def)
  with one two show ?thesis by blast
qed

definition demo_swept :: lab where
  "demo_swept = fst (recover_stuck_evaluation_runs
    \<lparr>es_stale_seconds = 0, es_pending_run_seconds = 0, es_pending_case_seconds = 0, es_sweep_batch = 9\<rparr> int None 10 demo_claimed)"

definition demo_score :: case_score where
  "demo_score = \<lparr>sc_output = \<lparr>so_tool_selection_correct = None, so_forbidden_tool_violation = False,
     so_forbidden_tools_attempted = [], so_required_sequence_compliant = None, so_approval_compliant = None,
     so_approval_violation = False, so_handoff_occurred = False, so_outcome_assertions_passed = 0,
     so_outcome_assertions_failed = 0, so_outcome_assertion_failures = [], so_citation_present = None,
     so_latency_ms = None, so_input_tokens = 0, so_output_tokens = 0, so_total_tokens = 0,
     so_estimated_cost = None\<rparr>, sc_passed = True, sc_failure_code = None\<rparr>"

definition demo_early :: lab where
  "demo_early = fst (complete_result int 1 1 5 demo_score (fst (claim_evaluation_result int 1 demo_started)))"

lemma demo_claimed_rows [simp]: "lab_runs demo_claimed = lab_runs demo_running"
    "lab_results demo_claimed = [(1, demo_result\<lparr>vx_status := VX_RUNNING, vx_started_at := Some 0, vx_updated_at := 1\<rparr>)]"
  by (simp_all add: demo_claimed_def claim_evaluation_result_def atomic_def demo_result_def demo_run_def
      pending_eval_run_def Let_def)

lemma late_worker_overwrites_recovered_result_witness:
  "\<exists>s' x'. complete_result int 1 1 5 demo_score demo_swept = (s', Inr x') \<and> vx_status x' = VX_SUCCEEDED \<and>
    vx_failure_message x' = worker_crash_message"
proof -
  have reach: "eval_step\<^sup>*\<^sup>* (empty_lab (world_of empty_gate)) demo_swept"
    using demo_steps unfolding demo_swept_def by (meson eval_step.sweep rtranclp.rtrancl_into_rtrancl rtranclp_trans)
  let ?x = "demo_result\<lparr>vx_status := VX_FAILED, vx_passed := Some False, vx_failure_code := Some WORKER_CRASH_RECOVERED,
    vx_failure_message := worker_crash_message, vx_started_at := Some 0, vx_completed_at := Some 10, vx_updated_at := 10\<rparr>"
  obtain s1 b r where one: "recover_one_stuck_eval_run int 10 10 1 demo_claimed = (s1, Inr b)" "lab_results s1 = [(1, ?x)]"
      "lab_runs s1 = [(1, r)]" "vr_status r = VR_FAILED"
    by (auto simp: recover_one_stuck_eval_run_def recover_transaction_def svc_bind_def atomic_def demo_run_def
        pending_eval_run_def stale_case_def live_case_def save_lab_run_def counters_ok_def with_counts_def
        aggregate_case_counts_def initial_results_def rows_where_def update_where_def demo_result_def
        finalize_evaluation_run_def svc_return_def row_ids_def Let_def)
  have "recover_eval_runs int 10 10 (stuck_eval_runs 10 9 (lab_runs demo_claimed)) 0 demo_claimed =
      (s1, Inr (if b then 1 else 0))"
    using one(1) by (simp add: stuck_eval_runs_def rows_where_def row_ids_def svc_bind_def svc_return_def)
  then have "fst (recover_stuck_evaluation_runs \<lparr>es_stale_seconds = 0, es_pending_run_seconds = 0,
      es_pending_case_seconds = 0, es_sweep_batch = 9\<rparr> int None 10 demo_claimed) =
    fst (redispatch_stuck_pending_cases 10 9 (fst (redispatch_stuck_pending_eval_runs 10 9 s1)))"
    by (simp add: recover_stuck_evaluation_runs_def case_prod_unfold Let_def del: demo_claimed_rows)
  then have rows: "lab_results demo_swept = [(1, ?x)]" "lab_runs demo_swept = [(1, r)]"
    unfolding demo_swept_def by (simp_all only: redispatch_sel one(2,3))
  have "row_get (lab_results demo_swept) 1 = Some ?x" "vx_status ?x = VX_FAILED" "vx_replay_of ?x = None"
    "vx_failure_message ?x = worker_crash_message" "row_get (lab_runs demo_swept) (vx_run ?x) = Some r" "vx_run ?x = 1"
    by (simp_all add: rows demo_result_def)
  with late_worker_overwrites_recovered_result [OF reach this(1-5) one(4), of demo_score int 5] show ?thesis
    by (auto simp: demo_score_def)
qed

lemma case_before_its_run_strands_it_witness:
  "\<exists>s1 s2. record_case_completion int 1 demo_result demo_early = (s1, Inr ()) \<and>
    start_evaluation_run_task int 1 s1 = (s2, Inr (Some VR_RUNNING))"
proof -
  have "eval_step\<^sup>*\<^sup>* demo_started demo_early" unfolding demo_early_def
    by (meson eval_step.claim_result eval_step.late_success rtranclp.rtrancl_into_rtrancl rtranclp.rtrancl_refl)
  then have reach: "eval_step\<^sup>*\<^sup>* (empty_lab (world_of empty_gate)) demo_early"
    using demo_steps(1) by (rule rtranclp_trans [rotated])
  obtain r x where rows: "row_get (lab_runs demo_early) 1 = Some r" "vr_status r = VR_PENDING" "vr_cancelled_at r = None"
    "lab_results demo_early = [(1, x)]" "vx_status x = VX_SUCCEEDED"
    by (simp add: demo_early_def claim_evaluation_result_def complete_result_def atomic_def svc_bind_def demo_run_def
        pending_eval_run_def demo_result_def record_case_completion_def update_counts_def save_lab_run_def
        counters_ok_def with_counts_def aggregate_case_counts_def initial_results_def rows_where_def svc_return_def
        demo_score_def Let_def)
  have others: "\<forall>(i, x) \<in> set (initial_results 1 (lab_results demo_early)). vx_status x \<in> {VX_SUCCEEDED, VX_FAILED}"
    by (simp add: rows(4,5) initial_results_def rows_where_def)
  show ?thesis using case_before_its_run_strands_it [OF reach rows(1-3) others, of demo_result int int]
    by (auto simp: demo_result_def)
qed

end
