(* ===== verification/MessageOrder.thy ===== *)
theory MessageOrder
  imports Orchestration
begin

section \<open>The order of the messages of a conversation\<close>

text \<open>
  \<open>message_list_for_conversation\<close> lists the messages of a conversation strictly by time and, at the same
  time, by the sequence number; the context of a run and the pages of a web chat are cut from this list.
\<close>

definition sent_before :: "message \<Rightarrow> message \<Rightarrow> bool" where
  "sent_before a m \<longleftrightarrow> ms_created_at a < ms_created_at m \<or>
     ms_created_at a = ms_created_at m \<and> ms_sequence a < ms_sequence m"

lemma sorted_wrt_strict:
  fixes f :: "'a \<Rightarrow> 'b :: linorder"
  assumes "sorted (map f xs)" "distinct (map f xs)"
  shows "sorted_wrt (\<lambda>a b. f a < f b) xs"
  using assms by (induction xs) (auto simp: order.strict_iff_order)

text \<open>A page of an ordered list: what it leaves out comes later, and then it is full.\<close>

lemma left_out_of_page:
  assumes "sorted_wrt P xs" and "y \<in> set xs" and "y \<notin> set (take n xs)"
  shows "length (take n xs) = n" "x \<in> set (take n xs) \<Longrightarrow> P x y"
proof -
  from assms(2,3) have y: "y \<in> set (drop n xs)" by (metis UnE append_take_drop_id set_append)
  then have "n < length xs" by (metis drop_all empty_iff empty_set not_le)
  then show "length (take n xs) = n" by simp
  assume "x \<in> set (take n xs)"
  moreover have "sorted_wrt P (take n xs @ drop n xs)" using assms(1) by simp
  ultimately show "P x y" using y unfolding sorted_wrt_append by blast
qed

lemma conversation_listing:
  assumes "distinct (row_ids (dk_messages d))" and "distinct (map (ms_sequence \<circ> snd) (dk_messages d))"
  shows "sorted_wrt (\<lambda>a b. sent_before (snd a) (snd b)) (message_list_for_conversation k d)"
    and "distinct (map fst (message_list_for_conversation k d))"
    and "r \<in> set (message_list_for_conversation k d) \<longleftrightarrow> r \<in> set (dk_messages d) \<and> ms_conversation (snd r) = k"
proof -
  let ?t = "rows_where (\<lambda>i m. ms_conversation m = k) (dk_messages d)"
  let ?o = "\<lambda>r. (ms_created_at (snd r), ms_sequence (snd r))"
  have order: "sent_before (snd a) (snd b) \<longleftrightarrow> ?o a < ?o b" for a b
    by (auto simp: sent_before_def)
  have q: "message_list_for_conversation k d = sort_key ?o ?t"
    by (simp add: message_list_for_conversation_def case_prod_unfold)
  have "distinct (map (ms_sequence \<circ> snd) ?t)" "distinct (map fst ?t)"
    using assms by (simp_all add: rows_where_def row_ids_def distinct_map_filter)
  moreover have "distinct (map f (sort_key ?o ?t)) = distinct (map f ?t)" for f :: "nat \<times> message \<Rightarrow> nat"
    by (rule mset_eq_imp_distinct_iff) simp
  ultimately have "distinct (map (ms_sequence \<circ> snd) (sort_key ?o ?t))" and
    ids: "distinct (map fst (sort_key ?o ?t))" by blast+
  then have "distinct (map ?o (sort_key ?o ?t))" by (auto simp: distinct_map inj_on_def)
  then have "sorted_wrt (\<lambda>a b. ?o a < ?o b) (sort_key ?o ?t)" by (intro sorted_wrt_strict) simp_all
  then show "sorted_wrt (\<lambda>a b. sent_before (snd a) (snd b)) (message_list_for_conversation k d)"
    unfolding q order .
  show "distinct (map fst (message_list_for_conversation k d))" unfolding q by (rule ids)
  show "r \<in> set (message_list_for_conversation k d) \<longleftrightarrow> r \<in> set (dk_messages d) \<and> ms_conversation (snd r) = k"
    unfolding q by (auto simp: rows_where_def)
qed

end
