(* ===== verification/Customers.thy ===== *)
theory Customers
  imports Desk
begin

section \<open>Customers\<close>

text \<open>
  \<open>customers/models.py\<close>, \<open>services.py\<close> and \<open>selectors.py\<close>. \<open>Customer.save\<close> normalizes the instance before it
  is written; the external identifier is unique within a workspace when there is one. A caller names the
  fields it sets: \<open>None\<close> is an absent key of the dictionary, the nullable columns have a second option.
\<close>

record customer =
  cu_workspace :: nat
  cu_external_id :: "string option"
  cu_first_name :: string
  cu_last_name :: string
  cu_display_name :: string
  cu_email :: "string option"
  cu_phone :: "string option"
  cu_company :: string
  cu_notes :: string
  cu_metadata :: json
  cu_is_active :: bool
  cu_created_at :: int

record customer_data =
  cd_external_id :: "string option option"
  cd_first_name :: "string option"
  cd_last_name :: "string option"
  cd_display_name :: "string option"
  cd_email :: "string option option"
  cd_phone :: "string option option"
  cd_company :: "string option"
  cd_notes :: "string option"
  cd_metadata :: "json option"
  cd_is_active :: "bool option"

record crm =
  crm_customers :: "customer rows"
  crm_effects :: "effect list"

datatype crm_exc = CustomerConflict | CustomerNotFound | CrmDb db_exc

type_synonym 'a crm_svc = "(crm, crm_exc, 'a) svc"

definition no_customer_data :: customer_data where
  "no_customer_data = \<lparr>cd_external_id = None, cd_first_name = None, cd_last_name = None, cd_display_name = None,
     cd_email = None, cd_phone = None, cd_company = None, cd_notes = None, cd_metadata = None, cd_is_active = None\<rparr>"

definition set_fields :: "customer_data \<Rightarrow> customer \<Rightarrow> customer" where
  "set_fields d c = c\<lparr>
     cu_external_id := (case cd_external_id d of None \<Rightarrow> cu_external_id c | Some v \<Rightarrow> v),
     cu_first_name := (case cd_first_name d of None \<Rightarrow> cu_first_name c | Some v \<Rightarrow> v),
     cu_last_name := (case cd_last_name d of None \<Rightarrow> cu_last_name c | Some v \<Rightarrow> v),
     cu_display_name := (case cd_display_name d of None \<Rightarrow> cu_display_name c | Some v \<Rightarrow> v),
     cu_email := (case cd_email d of None \<Rightarrow> cu_email c | Some v \<Rightarrow> v),
     cu_phone := (case cd_phone d of None \<Rightarrow> cu_phone c | Some v \<Rightarrow> v),
     cu_company := (case cd_company d of None \<Rightarrow> cu_company c | Some v \<Rightarrow> v),
     cu_notes := (case cd_notes d of None \<Rightarrow> cu_notes c | Some v \<Rightarrow> v),
     cu_metadata := (case cd_metadata d of None \<Rightarrow> cu_metadata c | Some v \<Rightarrow> v),
     cu_is_active := (case cd_is_active d of None \<Rightarrow> cu_is_active c | Some v \<Rightarrow> v)\<rparr>"

subsection \<open>Saving\<close>

text \<open>\<open>value.strip() or None\<close>, where a falsy value is kept.\<close>

definition stripped_or_none :: "string option \<Rightarrow> string option" where
  "stripped_or_none v =
    (case v of None \<Rightarrow> None | Some x \<Rightarrow> if x = [] then Some [] else if py_strip x = [] then None else Some (py_strip x))"

definition full_name :: "string \<Rightarrow> string \<Rightarrow> string" where
  "full_name given family =
    (if given = [] then family else if family = [] then given else given @ '' '' @ family)"

definition normalize_customer :: "customer \<Rightarrow> customer" where
  "normalize_customer c =
    (let given = py_strip (cu_first_name c); family = py_strip (cu_last_name c); company = py_strip (cu_company c);
         email = map_option str_lower (stripped_or_none (cu_email c));
         ext = (case cu_external_id c of None \<Rightarrow> None | Some x \<Rightarrow> if py_strip x = [] then None else Some (py_strip x));
         display = py_strip (cu_display_name c)
     in c\<lparr>cu_first_name := given, cu_last_name := family, cu_company := company, cu_email := email,
          cu_phone := stripped_or_none (cu_phone c), cu_external_id := ext,
          cu_display_name :=
            (if display \<noteq> [] then display
             else if full_name given family \<noteq> [] then full_name given family
             else (case email of Some (x # xs) \<Rightarrow> x # xs | _ \<Rightarrow> company))\<rparr>)"

definition customer_lengths_ok :: "customer \<Rightarrow> bool" where
  "customer_lengths_ok c \<longleftrightarrow>
    (case cu_external_id c of None \<Rightarrow> True | Some x \<Rightarrow> fits 255 x) \<and> fits 150 (cu_first_name c) \<and>
    fits 150 (cu_last_name c) \<and> fits 300 (cu_display_name c) \<and>
    (case cu_email c of None \<Rightarrow> True | Some x \<Rightarrow> fits 254 x) \<and>
    (case cu_phone c of None \<Rightarrow> True | Some x \<Rightarrow> fits 32 x) \<and> fits 200 (cu_company c)"

definition external_id_taken :: "nat \<Rightarrow> customer \<Rightarrow> customer rows \<Rightarrow> bool" where
  "external_id_taken k c t \<longleftrightarrow> cu_external_id c \<noteq> None \<and>
    list_ex (\<lambda>(i, c'). i \<noteq> k \<and> cu_workspace c' = cu_workspace c \<and> cu_external_id c' = cu_external_id c) t"

definition save_customer :: "nat \<Rightarrow> customer \<Rightarrow> customer crm_svc" where
  "save_customer k c0 = (\<lambda>s.
    let c = normalize_customer c0 in
    if \<not> customer_lengths_ok c then (s, Inl (CrmDb DataError))
    else if external_id_taken k c (crm_customers s) then (s, Inl CustomerConflict)
    else (s\<lparr>crm_customers := row_put k c (crm_customers s)\<rparr>, Inr c))"

subsection \<open>Services\<close>

definition create_customer :: "int \<Rightarrow> nat \<Rightarrow> customer_data \<Rightarrow> (nat \<times> customer) crm_svc" where
  "create_customer now ws d = atomic (\<lambda>s.
    let k = fresh_id (crm_customers s);
        c = set_fields d \<lparr>cu_workspace = ws, cu_external_id = None, cu_first_name = '''', cu_last_name = '''',
              cu_display_name = '''', cu_email = None, cu_phone = None, cu_company = '''', cu_notes = '''',
              cu_metadata = JObj [], cu_is_active = True, cu_created_at = now\<rparr>
    in svc_bind (save_customer k c) (\<lambda>c'. svc_return (k, c')) s)"

text \<open>\<open>inst\<close> is the instance the caller loaded; \<open>save()\<close> writes every column of it.\<close>

definition update_customer ::
  "nat \<Rightarrow> nat \<Rightarrow> customer \<Rightarrow> nat \<Rightarrow> customer_data \<Rightarrow> string option \<Rightarrow> customer crm_svc" where
  "update_customer ws k inst actor d req = atomic (svc_bind (save_customer k (set_fields d inst)) (\<lambda>c s.
    (if cu_is_active inst \<and> \<not> cu_is_active c
     then s\<lparr>crm_effects := crm_effects s @ [record_event ''customer.deactivated'' ''customer'' k (Some actor) (Some ws)
              (JObj [(''customer_id'', jid k)]) req]\<rparr>
     else s, Inr c)))"

definition deactivate_customer ::
  "nat \<Rightarrow> nat \<Rightarrow> customer \<Rightarrow> nat \<Rightarrow> string option \<Rightarrow> customer crm_svc" where
  "deactivate_customer ws k inst actor req =
    update_customer ws k inst actor (no_customer_data\<lparr>cd_is_active := Some False\<rparr>) req"

subsection \<open>Selectors\<close>

definition first_row :: "'r rows \<Rightarrow> (nat \<times> 'r) option" where
  "first_row t = (case t of [] \<Rightarrow> None | r # _ \<Rightarrow> Some r)"

definition null_icontains :: "string \<Rightarrow> string option \<Rightarrow> bool" where
  "null_icontains needle v \<longleftrightarrow> (case v of None \<Rightarrow> False | Some x \<Rightarrow> str_contains (str_lower needle) (str_lower x))"

definition customer_matches :: "string \<Rightarrow> customer \<Rightarrow> bool" where
  "customer_matches needle c \<longleftrightarrow> list_ex (null_icontains needle)
    [Some (cu_display_name c), Some (cu_first_name c), Some (cu_last_name c), cu_email c, cu_phone c, cu_external_id c]"

definition customer_list_for_workspace :: "nat \<Rightarrow> string option \<Rightarrow> bool option \<Rightarrow> crm \<Rightarrow> customer rows" where
  "customer_list_for_workspace ws search active s =
    newest_first cu_created_at (rows_where (\<lambda>k c. cu_workspace c = ws \<and>
      (active \<noteq> None \<longrightarrow> active = Some (cu_is_active c)) \<and>
      (case search of None \<Rightarrow> True | Some q \<Rightarrow> q = [] \<or> customer_matches q c)) (crm_customers s))"

definition customer_get_for_workspace_or_404 :: "nat \<Rightarrow> nat \<Rightarrow> crm \<Rightarrow> crm_exc + customer" where
  "customer_get_for_workspace_or_404 ws k s =
    (case row_get (crm_customers s) k of
      None \<Rightarrow> Inl CustomerNotFound
    | Some c \<Rightarrow> if cu_workspace c = ws then Inr c else Inl CustomerNotFound)"

text \<open>\<open>None\<close>: an identifier that is empty or does not parse.\<close>

definition customer_get_by_id_for_workspace :: "nat \<Rightarrow> nat option \<Rightarrow> crm \<Rightarrow> customer option" where
  "customer_get_by_id_for_workspace ws key s =
    Option.bind key (\<lambda>k. Option.bind (row_get (crm_customers s) k) (\<lambda>c. if cu_workspace c = ws then Some c else None))"

definition customer_get_by_email_for_workspace :: "nat \<Rightarrow> string \<Rightarrow> crm \<Rightarrow> (nat \<times> customer) option" where
  "customer_get_by_email_for_workspace ws email s =
    first_row (newest_first cu_created_at (rows_where (\<lambda>k c. cu_workspace c = ws \<and>
      cu_email c = Some (str_lower (py_strip email))) (crm_customers s)))"

definition customer_get_by_external_id_for_workspace :: "nat \<Rightarrow> string \<Rightarrow> crm \<Rightarrow> (nat \<times> customer) option" where
  "customer_get_by_external_id_for_workspace ws ext s =
    first_row (newest_first cu_created_at (rows_where (\<lambda>k c. cu_workspace c = ws \<and>
      cu_external_id c = Some ext) (crm_customers s)))"

end
