(* ===== verification/ChannelIngress.thy ===== *)
theory ChannelIngress
  imports Customers Orchestration
begin

section \<open>Channel ingress\<close>

text \<open>
  \<open>channel_ingress/\<close>: the endpoints customers write to, the signature check and the two adapters that turn a
  provider's request into a canonical message, the durable inbound event with its deduplication, and the
  processing of an event into a customer, a conversation, a message and a support run. The tables of the desk
  and of the runs are those of \<open>world\<close>. HMAC-SHA256, SHA-256, \<open>json.loads\<close>, Fernet, \<open>str(uuid)\<close> and Django's
  \<open>parse_datetime\<close> are arguments of \<open>channel_env\<close>.
\<close>

subsection \<open>Errors\<close>

datatype channel_error =
    SignatureMissingError | SignatureMalformedError | SignatureInvalidError | SignatureExpiredError
  | PayloadInvalidError | PayloadTooLargeError | IdempotencyConflictError | IdentityNotFoundError
  | EndpointDisabledError | UnsupportedEventError | SessionInvalidError | OrchestrationFailedError

fun channel_code :: "channel_error \<Rightarrow> string" where
  "channel_code SignatureMissingError = ''signature_invalid''"
| "channel_code SignatureMalformedError = ''signature_invalid''"
| "channel_code SignatureInvalidError = ''signature_invalid''"
| "channel_code SignatureExpiredError = ''signature_expired''"
| "channel_code PayloadInvalidError = ''payload_invalid''"
| "channel_code PayloadTooLargeError = ''payload_too_large''"
| "channel_code IdempotencyConflictError = ''idempotency_conflict''"
| "channel_code IdentityNotFoundError = ''identity_not_found''"
| "channel_code EndpointDisabledError = ''endpoint_disabled''"
| "channel_code UnsupportedEventError = ''unsupported_event''"
| "channel_code SessionInvalidError = ''session_invalid''"
| "channel_code OrchestrationFailedError = ''orchestration_failed''"

text \<open>\<open>RawError\<close>: an exception outside every taxonomy (ValueError, TypeError).\<close>

datatype ingress_exc =
    Channel channel_error | OfOrchestration orchestration_exc | OfCrm crm_exc | OfDesk desk_exc
  | IngressDb db_exc | RawError | InvalidAgentVersion | ConfigurationError | ChannelNotFound

subsection \<open>Rows\<close>

datatype channel_type = WEB_CHAT | EMAIL | GENERIC_WEBHOOK
datatype unknown_customer_policy = CREATE_CUSTOMER | REJECT_EVENT
datatype event_status = IE_RECEIVED | IE_PROCESSING | IE_PROCESSED | IE_FAILED

fun channel_value :: "channel_type \<Rightarrow> string" where
  "channel_value WEB_CHAT = ''web_chat''"
| "channel_value EMAIL = ''email''"
| "channel_value GENERIC_WEBHOOK = ''generic_webhook''"

record channel_endpoint =
  gw_workspace :: nat
  gw_channel :: channel_type
  gw_name :: string
  gw_active :: bool
  gw_version :: nat
  gw_connection :: "nat option"
  gw_policy :: unknown_customer_policy
  gw_secret :: string
  gw_secret_created_at :: "int option"
  gw_configuration :: "(string \<times> json) list"
  gw_created_by :: "nat option"
  gw_created_at :: int

record inbound_event =
  ie_workspace :: nat
  ie_endpoint :: nat
  ie_provider_event :: string
  ie_thread :: string
  ie_provider_message :: string
  ie_digest :: string
  ie_identity :: string
  ie_subject :: string
  ie_body :: string
  ie_status :: event_status
  ie_failure :: string
  ie_conversation :: "nat option"
  ie_message :: "nat option"
  ie_received_at :: int
  ie_started_at :: "int option"
  ie_processed_at :: "int option"

record chat_session =
  ch_workspace :: nat
  ch_endpoint :: nat
  ch_customer :: "nat option"
  ch_conversation :: "nat option"
  ch_token_hash :: string
  ch_expires_at :: int
  ch_last_seen_at :: "int option"

record ingress =
  in_endpoints :: "channel_endpoint rows"
  in_events :: "inbound_event rows"
  in_sessions :: "chat_session rows"
  in_crm :: crm
  in_desk_world :: world

type_synonym 'a ingress_svc = "(ingress, ingress_exc, 'a) svc"

datatype parsed_datetime = NotWellFormed | InvalidDatetime | ParsedDatetime int

record channel_env =
  ne_show :: "nat \<Rightarrow> string"
  ne_sha256 :: "string \<Rightarrow> string"
  ne_hmac :: "string \<Rightarrow> string \<Rightarrow> string"
  ne_loads :: "string \<Rightarrow> json option"
  ne_encrypt :: "json \<Rightarrow> string option"
  ne_decrypt :: "string \<Rightarrow> json option"
  ne_show_int :: "int \<Rightarrow> string"
  ne_parse_datetime :: "string \<Rightarrow> parsed_datetime"
  ne_utf8 :: "string \<Rightarrow> string"
  ne_max_body_bytes :: nat
  ne_max_message :: nat
  ne_max_past :: int
  ne_max_future :: int
  ne_session_ttl :: int
  ne_history_limit :: nat

definition channel_emit :: "effect \<Rightarrow> ingress \<Rightarrow> ingress" where
  "channel_emit e s = s\<lparr>in_desk_world := on_gate (emit e) (in_desk_world s)\<rparr>"

subsection \<open>Verifying a signed request\<close>

definition is_digit :: "char \<Rightarrow> bool" where
  "is_digit c \<longleftrightarrow> of_char c \<ge> (48 :: nat) \<and> of_char c \<le> (57 :: nat)"

text \<open>The digits of \<open>int(s)\<close>: single underscores may stand between them, at most 4300 of them.\<close>

fun int_digits :: "bool \<Rightarrow> string \<Rightarrow> string option" where
  "int_digits after_digit [] = (if after_digit then Some [] else None)"
| "int_digits after_digit (c # cs) =
    (if is_digit c then map_option ((#) c) (int_digits True cs)
     else if c = CHR ''_'' \<and> after_digit then (case cs of [] \<Rightarrow> None | _ \<Rightarrow> int_digits False cs) else None)"

definition digits_value :: "string \<Rightarrow> int" where
  "digits_value ds = foldl (\<lambda>n c. 10 * n + (of_char c - 48)) 0 ds"

definition py_int :: "string \<Rightarrow> int option" where
  "py_int s =
    (let t = py_strip s;
         (neg, u) = (case t of [] \<Rightarrow> (False, []) | c # cs \<Rightarrow>
            if c = CHR ''-'' then (True, cs) else if c = CHR ''+'' then (False, cs) else (False, t))
     in case int_digits False u of
          None \<Rightarrow> None
        | Some ds \<Rightarrow> if length ds > 4300 then None else Some (if neg then - digits_value ds else digits_value ds))"

definition compute_signature :: "channel_env \<Rightarrow> string \<Rightarrow> int \<Rightarrow> string \<Rightarrow> string" where
  "compute_signature env secret timestamp body = ''v1='' @ ne_hmac env secret (ne_show_int env timestamp @ ''.'' @ body)"

text \<open>\<open>hmac.compare_digest\<close> raises a TypeError on a string that is not ASCII.\<close>

definition compare_digest :: "string \<Rightarrow> string \<Rightarrow> bool option" where
  "compare_digest a b =
    (if list_all (\<lambda>c. of_char c < (128 :: nat)) a \<and> list_all (\<lambda>c. of_char c < (128 :: nat)) b then Some (a = b) else None)"

definition enforce_body_size :: "channel_env \<Rightarrow> string \<Rightarrow> ingress_exc option" where
  "enforce_body_size env body = (if length body > ne_max_body_bytes env then Some (Channel PayloadTooLargeError) else None)"

text \<open>\<open>None\<close>: the signature is accepted. A header that is absent reads as the empty one.\<close>

definition verify_inbound_signature ::
  "channel_env \<Rightarrow> int \<Rightarrow> string \<Rightarrow> string \<Rightarrow> string \<Rightarrow> string \<Rightarrow> ingress_exc option" where
  "verify_inbound_signature env now secret body timestamp_header signature_header =
    (if signature_header = [] \<or> timestamp_header = [] then Some (Channel SignatureMissingError)
     else case py_int timestamp_header of
       None \<Rightarrow> Some (Channel SignatureMalformedError)
     | Some timestamp \<Rightarrow>
         if timestamp < now - ne_max_past env \<or> timestamp > now + ne_max_future env
         then Some (Channel SignatureExpiredError)
         else if \<not> starts_with ''v1='' signature_header then Some (Channel SignatureMalformedError)
         else (case compare_digest (compute_signature env secret timestamp body) signature_header of
             None \<Rightarrow> Some RawError
           | Some ok \<Rightarrow> if ok then None else Some (Channel SignatureInvalidError)))"

definition endpoint_signing_secret :: "channel_env \<Rightarrow> channel_endpoint \<Rightarrow> ingress_exc + string" where
  "endpoint_signing_secret env e =
    (if gw_secret e = [] then Inl (Channel UnsupportedEventError)
     else case ne_decrypt env (gw_secret e) of
       Some (JObj kvs) \<Rightarrow>
         (case dict_get kvs ''secret'' of JStr (c # cs) \<Rightarrow> Inr (c # cs) | _ \<Rightarrow> Inl (Channel UnsupportedEventError))
     | _ \<Rightarrow> Inl (Channel UnsupportedEventError))"

record http_request =
  hr_body :: string
  hr_timestamp :: string
  hr_signature :: string

definition verify_signature :: "channel_env \<Rightarrow> int \<Rightarrow> channel_endpoint \<Rightarrow> http_request \<Rightarrow> ingress_exc option" where
  "verify_signature env now e req =
    (case enforce_body_size env (hr_body req) of
      Some x \<Rightarrow> Some x
    | None \<Rightarrow>
        (case endpoint_signing_secret env e of
          Inl x \<Rightarrow> Some x
        | Inr secret \<Rightarrow> verify_inbound_signature env now secret (hr_body req) (hr_timestamp req) (hr_signature req)))"

subsection \<open>Adapters\<close>

record canonical_message =
  cm_provider_event :: string
  cm_thread :: "string option"
  cm_provider_message :: "string option"
  cm_identity :: string
  cm_subject :: string
  cm_body :: string
  cm_received_at :: int

definition required_fields :: "channel_type \<Rightarrow> string list" where
  "required_fields ch = (if ch = EMAIL then [''event_id'', ''from'', ''body''] else [''event_id'', ''external_id'', ''body''])"

definition parse_event :: "channel_env \<Rightarrow> channel_type \<Rightarrow> string \<Rightarrow> ingress_exc + (string \<times> json) list" where
  "parse_event env ch body =
    (case ne_loads env body of
      Some (JObj kvs) \<Rightarrow>
        if list_all (\<lambda>f. case dict_get kvs f of JStr (c # cs) \<Rightarrow> True | _ \<Rightarrow> False) (required_fields ch)
        then Inr kvs else Inl (Channel PayloadInvalidError)
    | _ \<Rightarrow> Inl (Channel PayloadInvalidError))"

definition bounded_str :: "nat \<Rightarrow> json \<Rightarrow> ingress_exc + string" where
  "bounded_str n v = (case v of JStr s \<Rightarrow> Inr (take n s) | _ \<Rightarrow> Inl (Channel PayloadInvalidError))"

definition optional_str :: "nat \<Rightarrow> json \<Rightarrow> ingress_exc + string option" where
  "optional_str n v = (if py_truthy v then (case bounded_str n v of Inl e \<Rightarrow> Inl e | Inr s \<Rightarrow> Inr (Some s)) else Inr None)"

definition normalize_email :: "json \<Rightarrow> ingress_exc + string" where
  "normalize_email v =
    (case v of JStr s \<Rightarrow>
       (let t = str_lower (py_strip s)
        in if length t < 3 \<or> CHR ''@'' \<notin> set t \<or> starts_with ''@'' t then Inl (Channel PayloadInvalidError)
           else Inr (take 320 t))
     | _ \<Rightarrow> Inl (Channel PayloadInvalidError))"

text \<open>Django's \<open>parse_datetime\<close> raises a ValueError for a well-formed value that is no date.\<close>

definition received_at :: "channel_env \<Rightarrow> int \<Rightarrow> json \<Rightarrow> ingress_exc + int" where
  "received_at env now v =
    (case v of JStr (c # cs) \<Rightarrow>
       (case ne_parse_datetime env (c # cs) of
          NotWellFormed \<Rightarrow> Inr now | InvalidDatetime \<Rightarrow> Inl RawError | ParsedDatetime t \<Rightarrow> Inr t)
     | _ \<Rightarrow> Inr now)"

definition sum_bind :: "('e + 'a) \<Rightarrow> ('a \<Rightarrow> 'e + 'b) \<Rightarrow> 'e + 'b" where
  "sum_bind r f = (case r of Inl e \<Rightarrow> Inl e | Inr a \<Rightarrow> f a)"

definition normalize_event ::
  "channel_env \<Rightarrow> int \<Rightarrow> channel_type \<Rightarrow> (string \<times> json) list \<Rightarrow> ingress_exc + canonical_message" where
  "normalize_event env now ch kvs =
    (let sender = (if ch = EMAIL then normalize_email (dict_get kvs ''from'') else Inr '''')
     in sum_bind sender (\<lambda>email.
        sum_bind (bounded_str (ne_max_message env) (dict_get kvs ''body'')) (\<lambda>body.
        sum_bind (bounded_str 255 (dict_get kvs ''event_id'')) (\<lambda>event_id.
        sum_bind (optional_str 255 (dict_get kvs ''thread_id'')) (\<lambda>thread.
        sum_bind (optional_str 255 (dict_get kvs ''message_id'')) (\<lambda>provider_message.
        sum_bind (if ch = EMAIL then Inr email else bounded_str 255 (dict_get kvs ''external_id'')) (\<lambda>identity.
        sum_bind (if py_truthy (dict_get kvs ''subject'') then bounded_str 300 (dict_get kvs ''subject'') else Inr '''') (\<lambda>subject.
        sum_bind (received_at env now (dict_get kvs ''received_at'')) (\<lambda>t.
          Inr \<lparr>cm_provider_event = event_id, cm_thread = thread, cm_provider_message = provider_message,
               cm_identity = identity, cm_subject = subject, cm_body = body, cm_received_at = t\<rparr>)))))))))"

subsection \<open>The durable event\<close>

definition process_event_task :: string where
  "process_event_task = ''channel_ingress.tasks.process_inbound_channel_event_task''"

definition event_with :: "nat \<Rightarrow> string \<Rightarrow> inbound_event rows \<Rightarrow> (nat \<times> inbound_event) option" where
  "event_with endpoint provider_event t =
    first_row (rows_where (\<lambda>k e. ie_endpoint e = endpoint \<and> ie_provider_event e = provider_event) t)"

definition event_columns_fit :: "inbound_event \<Rightarrow> bool" where
  "event_columns_fit e \<longleftrightarrow> fits 255 (ie_provider_event e) \<and> fits 255 (ie_thread e) \<and>
    fits 255 (ie_provider_message e) \<and> fits 64 (ie_digest e) \<and> fits 255 (ie_identity e) \<and> fits 300 (ie_subject e)"

definition accept_existing :: "channel_type \<Rightarrow> string \<Rightarrow> nat \<times> inbound_event \<Rightarrow> nat ingress_svc" where
  "accept_existing ch digest ke = (\<lambda>s.
    if ie_digest (snd ke) \<noteq> digest then (s, Inl (Channel IdempotencyConflictError))
    else (channel_emit (Metric ''channel_ingress_duplicate'' [channel_value ch]) s, Inr (fst ke)))"

text \<open>\<open>other\<close>: the events concurrent transactions commit between the lookup and the insertion.\<close>

definition ingest_channel_event ::
  "(inbound_event rows \<Rightarrow> inbound_event rows) \<Rightarrow> int \<Rightarrow> nat \<Rightarrow> channel_endpoint \<Rightarrow> string \<Rightarrow> canonical_message \<Rightarrow> nat ingress_svc" where
  "ingest_channel_event other now ep e digest m = (\<lambda>s.
    case event_with ep (cm_provider_event m) (in_events s) of
      Some ke \<Rightarrow> accept_existing (gw_channel e) digest ke s
    | None \<Rightarrow>
        (let s1 = s\<lparr>in_events := other (in_events s)\<rparr>;
             x = \<lparr>ie_workspace = gw_workspace e, ie_endpoint = ep, ie_provider_event = cm_provider_event m,
                  ie_thread = (case cm_thread m of None \<Rightarrow> '''' | Some t \<Rightarrow> t),
                  ie_provider_message = (case cm_provider_message m of None \<Rightarrow> '''' | Some t \<Rightarrow> t),
                  ie_digest = digest, ie_identity = cm_identity m, ie_subject = cm_subject m, ie_body = cm_body m,
                  ie_status = IE_RECEIVED, ie_failure = '''', ie_conversation = None, ie_message = None,
                  ie_received_at = now, ie_started_at = None, ie_processed_at = None\<rparr>
         in if \<not> event_columns_fit x then (s1, Inl (IngressDb DataError))
            else case event_with ep (cm_provider_event m) (in_events s1) of
              Some ke \<Rightarrow> accept_existing (gw_channel e) digest ke s1
            | None \<Rightarrow>
                (let k = fresh_id (in_events s1)
                 in (channel_emit (Metric ''channel_ingress_received'' [channel_value (gw_channel e)])
                       (channel_emit (Task process_event_task k) (s1\<lparr>in_events := row_put k x (in_events s1)\<rparr>)),
                     Inr k))))"

end
