(* ===== verification/ChannelProcessing.thy ===== *)
theory ChannelProcessing
  imports ChannelIngress
begin

section \<open>Processing inbound events\<close>

text \<open>
  \<open>channel_ingress/services.py\<close> from the claim on, \<open>identity.py\<close>, \<open>conversation_resolution.py\<close>,
  \<open>recovery.py\<close>, the web-chat services and the public webhook view. A worker resolves the customer and the
  conversation, stores the message and starts the run in one transaction; \<open>race\<close> is what other transactions
  commit between its lookups and its insertions, which a rollback does not undo.
\<close>

subsection \<open>Identity\<close>

definition channel_identity_key :: "channel_type \<Rightarrow> string \<Rightarrow> string" where
  "channel_identity_key ch identity = take 255 (channel_value ch @ '':'' @ identity)"

record race =
  rc_crm :: "crm \<Rightarrow> crm"
  rc_desk :: "desk \<Rightarrow> desk"
  rc_gate :: "gate \<Rightarrow> gate"

definition no_race :: race where
  "no_race = \<lparr>rc_crm = (\<lambda>x. x), rc_desk = (\<lambda>x. x), rc_gate = (\<lambda>x. x)\<rparr>"

definition resolve_customer_identity ::
  "race \<Rightarrow> int \<Rightarrow> channel_endpoint \<Rightarrow> inbound_event \<Rightarrow> (nat \<times> customer) ingress_svc" where
  "resolve_customer_identity rc now e x = (\<lambda>s.
    let key = channel_identity_key (gw_channel e) (ie_identity x)
    in case customer_get_by_external_id_for_workspace (gw_workspace e) key (in_crm s) of
      Some kc \<Rightarrow> (s, Inr kc)
    | None \<Rightarrow>
        if gw_policy e = REJECT_EVENT then (s, Inl (Channel IdentityNotFoundError))
        else case create_customer now (gw_workspace e)
               (no_customer_data\<lparr>cd_external_id := Some (Some key),
                  cd_email := Some (if gw_channel e = EMAIL then Some (ie_identity x) else None),
                  cd_display_name := Some (ie_identity x)\<rparr>) (rc_crm rc (in_crm s)) of
            (t, Inl err) \<Rightarrow> (s\<lparr>in_crm := t\<rparr>, Inl (OfCrm err))
          | (t, Inr kc) \<Rightarrow> (s\<lparr>in_crm := t\<rparr>, Inr kc))"

subsection \<open>Conversation\<close>

fun conversation_channel :: "channel_type \<Rightarrow> string" where
  "conversation_channel WEB_CHAT = ''chat''"
| "conversation_channel EMAIL = ''email''"
| "conversation_channel GENERIC_WEBHOOK = ''api''"

definition thread_external_id :: "channel_env \<Rightarrow> nat \<Rightarrow> string \<Rightarrow> string" where
  "thread_external_id env ep thread = take 255 (ne_show env ep @ '':'' @ thread)"

definition conversation_with :: "nat \<Rightarrow> string \<Rightarrow> desk \<Rightarrow> (nat \<times> conversation) option" where
  "conversation_with ws ext d =
    first_row (rows_where (\<lambda>k c. cv_workspace c = ws \<and> cv_external_id c = Some ext) (dk_conversations d))"

definition set_desk :: "desk \<Rightarrow> ingress \<Rightarrow> ingress" where
  "set_desk d s = s\<lparr>in_desk_world := (in_desk_world s)\<lparr>w_desk := d\<rparr>\<rparr>"

definition resolve_conversation ::
  "channel_env \<Rightarrow> race \<Rightarrow> nat \<Rightarrow> channel_endpoint \<Rightarrow> nat \<times> customer \<Rightarrow> inbound_event \<Rightarrow> nat ingress_svc" where
  "resolve_conversation env rc ep e kc x = (\<lambda>s.
    let d = w_desk (in_desk_world s);
        ext = (if ie_thread x = [] then None else Some (thread_external_id env ep (ie_thread x)))
    in case Option.bind ext (\<lambda>t. conversation_with (gw_workspace e) t d) of
      Some (k, c) \<Rightarrow> (s, Inr k)
    | None \<Rightarrow>
        (case create_conversation (gw_workspace e) (fst kc) (cu_workspace (snd kc)) (conversation_channel (gw_channel e))
               (ie_subject x) ext (JObj [(''channel_endpoint_id'', jid ep)]) (rc_desk rc d) of
          (d', Inl err) \<Rightarrow> (set_desk d' s, Inl (OfDesk err))
        | (d', Inr k) \<Rightarrow> (set_desk d' s, Inr k)))"

text \<open>On an integrity error the conversation another transaction created is read instead, if there is one.\<close>

definition resolve_conversation_with_retry ::
  "channel_env \<Rightarrow> race \<Rightarrow> nat \<Rightarrow> channel_endpoint \<Rightarrow> nat \<times> customer \<Rightarrow> inbound_event \<Rightarrow> nat ingress_svc" where
  "resolve_conversation_with_retry env rc ep e kc x = (\<lambda>s.
    case resolve_conversation env rc ep e kc x s of
      (s1, Inl (OfDesk (DeskDb IntegrityError))) \<Rightarrow>
        if ie_thread x = [] then (s1, Inl (OfDesk (DeskDb IntegrityError)))
        else (case conversation_with (gw_workspace e) (thread_external_id env ep (ie_thread x)) (w_desk (in_desk_world s1)) of
               None \<Rightarrow> (s1, Inl (IngressDb DoesNotExist)) | Some (k, c) \<Rightarrow> (s1, Inr k))
    | r \<Rightarrow> r)"

definition link_chat_session ::
  "channel_env \<Rightarrow> channel_endpoint \<Rightarrow> inbound_event \<Rightarrow> nat \<Rightarrow> nat \<Rightarrow> unit ingress_svc" where
  "link_chat_session env e x conv customer = (\<lambda>s.
    let own = (\<lambda>i c. ne_show env i = ie_thread x \<and> ch_conversation c = None)
    in if gw_channel e \<noteq> WEB_CHAT \<or> ie_thread x = [] then (s, Inr ())
       else if rows_where own (in_sessions s) \<noteq> [] \<and> list_ex (\<lambda>(i, c). ch_conversation c = Some conv) (in_sessions s)
       then (s, Inl (IngressDb IntegrityError))
       else (s\<lparr>in_sessions := update_where own (\<lambda>c. c\<lparr>ch_conversation := Some conv, ch_customer := Some customer\<rparr>)
               (in_sessions s)\<rparr>, Inr ()))"

subsection \<open>Claiming and settling an event\<close>

definition put_event :: "nat \<Rightarrow> inbound_event \<Rightarrow> ingress \<Rightarrow> ingress" where
  "put_event k x s = s\<lparr>in_events := row_put k x (in_events s)\<rparr>"

text \<open>\<open>None\<close>: the event is not RECEIVED any more.\<close>

definition claim_inbound_channel_event :: "int \<Rightarrow> nat \<Rightarrow> inbound_event option ingress_svc" where
  "claim_inbound_channel_event now k = atomic (\<lambda>s.
    case row_get (in_events s) k of
      None \<Rightarrow> (s, Inl (IngressDb DoesNotExist))
    | Some x \<Rightarrow>
        if ie_status x \<noteq> IE_RECEIVED then (s, Inr None)
        else (let x' = x\<lparr>ie_status := IE_PROCESSING, ie_started_at := Some now\<rparr> in (put_event k x' s, Inr (Some x'))))"

text \<open>Both are updates of the row by its key; a message belongs to at most one event.\<close>

definition mark_event_processed :: "int \<Rightarrow> nat \<Rightarrow> nat \<Rightarrow> nat \<Rightarrow> unit ingress_svc" where
  "mark_event_processed now k conv m = (\<lambda>s.
    if list_ex (\<lambda>(i, x). i \<noteq> k \<and> ie_message x = Some m) (in_events s) then (s, Inl (IngressDb IntegrityError))
    else (s\<lparr>in_events := update_where (\<lambda>i x. i = k) (\<lambda>x. x\<lparr>ie_status := IE_PROCESSED, ie_conversation := Some conv,
            ie_message := Some m, ie_processed_at := Some now\<rparr>) (in_events s)\<rparr>, Inr ()))"

definition mark_event_failed :: "int \<Rightarrow> nat \<Rightarrow> string \<Rightarrow> ingress \<Rightarrow> ingress" where
  "mark_event_failed now k code s =
    s\<lparr>in_events := update_where (\<lambda>i x. i = k)
        (\<lambda>x. x\<lparr>ie_status := IE_FAILED, ie_failure := take 64 code, ie_processed_at := Some now\<rparr>) (in_events s)\<rparr>"

definition store_message ::
  "int \<Rightarrow> nat \<Rightarrow> channel_endpoint \<Rightarrow> inbound_event \<Rightarrow> nat \<Rightarrow> nat ingress_svc" where
  "store_message now k e x conv = (\<lambda>s.
    case row_get (dk_conversations (w_desk (in_desk_world s))) conv of
      None \<Rightarrow> (s, Inl (IngressDb DoesNotExist))
    | Some c \<Rightarrow>
        (case create_inbound_message now (gw_workspace e) conv c (ie_body x)
               (if ie_provider_message x = [] then None else Some (ie_provider_message x))
               (JObj [(''inbound_channel_event_id'', jid k)]) (w_desk (in_desk_world s)) of
          (d, Inl err) \<Rightarrow> (set_desk d s, Inl (OfDesk err)) | (d, Inr m) \<Rightarrow> (set_desk d s, Inr m)))"

definition start_run ::
  "race \<Rightarrow> int \<Rightarrow> channel_endpoint \<Rightarrow> nat \<Rightarrow> nat \<Rightarrow> nat ingress_svc" where
  "start_run rc now e conv m = (\<lambda>s.
    let w = in_desk_world s
    in case (row_get (dk_conversations (w_desk w)) conv, row_get (dk_messages (w_desk w)) m,
             row_get (g_versions (w_gate w)) (gw_version e)) of
      (Some c, Some msg, Some v) \<Rightarrow>
        (case start_support_agent_run (rc_gate rc) now (gw_workspace e) None conv c m msg (gw_version e) (av_status v) '''' w of
          (w', Inl err) \<Rightarrow> (s\<lparr>in_desk_world := w'\<rparr>, Inl (OfOrchestration err))
        | (w', Inr r) \<Rightarrow> (s\<lparr>in_desk_world := w'\<rparr>, Inr r))
    | _ \<Rightarrow> (s, Inl (IngressDb DoesNotExist)))"

text \<open>The transaction of a claimed event.\<close>

definition handle_event ::
  "channel_env \<Rightarrow> race \<Rightarrow> (nat \<Rightarrow> int) \<Rightarrow> nat \<Rightarrow> nat \<Rightarrow> channel_endpoint \<Rightarrow> inbound_event \<Rightarrow> nat ingress_svc" where
  "handle_event env rc clk k ep e x =
    svc_bind (resolve_customer_identity rc (clk 0) e x) (\<lambda>kc.
    svc_bind (resolve_conversation_with_retry env rc ep e kc x) (\<lambda>conv.
    svc_bind (link_chat_session env e x conv (fst kc)) (\<lambda>u.
    svc_bind (store_message (clk 1) k e x conv) (\<lambda>m.
    svc_bind (mark_event_processed (clk 2) k conv m) (\<lambda>u.
      start_run rc (clk 3) e conv m)))))"

text \<open>AgentError and its subclasses; every other exception is the generic failure.\<close>

fun is_agent_error :: "ingress_exc \<Rightarrow> bool" where
  "is_agent_error (OfOrchestration (OfAgent e)) \<longleftrightarrow> e \<noteq> AgentCrash"
| "is_agent_error (OfOrchestration ContextLimits) \<longleftrightarrow> False"
| "is_agent_error (OfOrchestration _) \<longleftrightarrow> True"
| "is_agent_error _ \<longleftrightarrow> False"

definition concurrent_commits :: "race \<Rightarrow> ingress \<Rightarrow> ingress" where
  "concurrent_commits rc s =
    (let w = in_desk_world s
     in s\<lparr>in_crm := rc_crm rc (in_crm s), in_desk_world := w\<lparr>w_desk := rc_desk rc (w_desk w), w_gate := rc_gate rc (w_gate w)\<rparr>\<rparr>)"

definition observe_terminal :: "channel_endpoint \<Rightarrow> string \<Rightarrow> ingress \<Rightarrow> ingress" where
  "observe_terminal e outcome = channel_emit (Metric ''channel_ingress_terminal'' [channel_value (gw_channel e), outcome])"

text \<open>What the worker does with the event it has claimed: one transaction, then the outcome.\<close>

definition settle_event ::
  "channel_env \<Rightarrow> race \<Rightarrow> (nat \<Rightarrow> int) \<Rightarrow> nat \<Rightarrow> inbound_event \<Rightarrow> event_status ingress_svc" where
  "settle_event env rc clk k x = (\<lambda>s.
    case row_get (in_endpoints s) (ie_endpoint x) of
      None \<Rightarrow> (s, Inl (IngressDb DoesNotExist))
    | Some e \<Rightarrow>
        (case handle_event env rc (\<lambda>n. clk (n + 1)) k (ie_endpoint x) e x s of
          (s', Inr r) \<Rightarrow> (observe_terminal e ''processed'' s', Inr IE_PROCESSED)
        | (s', Inl err) \<Rightarrow>
            (observe_terminal e ''failed'' (mark_event_failed (clk 9) k
               (if is_agent_error err then channel_code OrchestrationFailedError else ''processing_failed'')
               (concurrent_commits rc s)), Inr IE_FAILED)))"

definition process_inbound_channel_event ::
  "channel_env \<Rightarrow> race \<Rightarrow> (nat \<Rightarrow> int) \<Rightarrow> nat \<Rightarrow> event_status ingress_svc" where
  "process_inbound_channel_event env rc clk k =
    svc_bind (claim_inbound_channel_event (clk 0) k) (\<lambda>claimed s.
      case claimed of
        None \<Rightarrow> (case row_get (in_events s) k of None \<Rightarrow> (s, Inl (IngressDb DoesNotExist)) | Some x \<Rightarrow> (s, Inr (ie_status x)))
      | Some x \<Rightarrow> settle_event env rc clk k x s)"

subsection \<open>The sweep\<close>

definition recover_stuck_inbound_events :: "int \<Rightarrow> nat \<Rightarrow> ingress \<Rightarrow> ingress \<times> nat" where
  "recover_stuck_inbound_events cutoff batch s =
    (let ids = take batch (row_ids (sort_key (\<lambda>(k, x). ie_received_at x)
           (rows_where (\<lambda>k x. ie_status x = IE_RECEIVED \<and> ie_received_at x \<le> cutoff) (in_events s))))
     in (fold (\<lambda>k. channel_emit (Task process_event_task k)) ids s, length ids))"

subsection \<open>The public webhook\<close>

datatype http_response = Accepted nat | NotFound | ApiError string | ServerError

fun api_error :: "ingress_exc \<Rightarrow> http_response" where
  "api_error (Channel e) = ApiError (channel_code e)"
| "api_error _ = ServerError"

text \<open>The adapter lookup stands outside the view's handlers: the web chat has no adapter.\<close>

definition inbound_webhook ::
  "channel_env \<Rightarrow> (inbound_event rows \<Rightarrow> inbound_event rows) \<Rightarrow> int \<Rightarrow> nat \<Rightarrow> http_request \<Rightarrow> ingress \<Rightarrow> ingress \<times> http_response" where
  "inbound_webhook env other now ep req s =
    (case row_get (in_endpoints s) ep of
      None \<Rightarrow> (s, NotFound)
    | Some e \<Rightarrow>
        if \<not> gw_active e then (s, NotFound)
        else if gw_channel e = WEB_CHAT then (s, ServerError)
        else case verify_signature env now e req of
          Some err \<Rightarrow> ((case err of Channel c \<Rightarrow> channel_emit (Metric ''channel_signature_failure'' [channel_value (gw_channel e)]) s
                        | _ \<Rightarrow> s), api_error err)
        | None \<Rightarrow>
            (case sum_bind (parse_event env (gw_channel e) (hr_body req)) (normalize_event env now (gw_channel e)) of
              Inl err \<Rightarrow> (s, api_error err)
            | Inr m \<Rightarrow>
                (case ingest_channel_event other now ep e (ne_sha256 env (hr_body req)) m s of
                  (s', Inl err) \<Rightarrow> (s', api_error err) | (s', Inr k) \<Rightarrow> (s', Accepted k))))"

subsection \<open>Web chat\<close>

text \<open>\<open>token\<close> is the fresh token of \<open>secrets.token_urlsafe\<close>; only its hash is stored.\<close>

definition bootstrap_chat_session :: "channel_env \<Rightarrow> string \<Rightarrow> int \<Rightarrow> nat \<Rightarrow> (nat \<times> string) ingress_svc" where
  "bootstrap_chat_session env token now ep = (\<lambda>s.
    case row_get (in_endpoints s) ep of
      None \<Rightarrow> (s, Inl ChannelNotFound)
    | Some e \<Rightarrow>
        if gw_channel e \<noteq> WEB_CHAT \<or> \<not> gw_active e then (s, Inl (Channel EndpointDisabledError))
        else if list_ex (\<lambda>(i, c). ch_token_hash c = ne_sha256 env token) (in_sessions s)
        then (s, Inl (IngressDb IntegrityError))
        else (let k = fresh_id (in_sessions s)
              in (s\<lparr>in_sessions := row_put k \<lparr>ch_workspace = gw_workspace e, ch_endpoint = ep, ch_customer = None,
                      ch_conversation = None, ch_token_hash = ne_sha256 env token,
                      ch_expires_at = now + ne_session_ttl env * 1000000, ch_last_seen_at = Some now\<rparr> (in_sessions s)\<rparr>,
                  Inr (k, token))))"

definition get_session_for_token :: "channel_env \<Rightarrow> int \<Rightarrow> string \<Rightarrow> ingress \<Rightarrow> (nat \<times> chat_session) option" where
  "get_session_for_token env now token s =
    (if token = [] then None
     else case first_row (rows_where (\<lambda>k c. ch_token_hash c = ne_sha256 env token) (in_sessions s)) of
       None \<Rightarrow> None
     | Some (k, c) \<Rightarrow> if ch_expires_at c \<le> now then None else Some (k, c))"

definition require_session :: "channel_env \<Rightarrow> int \<Rightarrow> string \<Rightarrow> ingress \<Rightarrow> ingress_exc + (nat \<times> chat_session)" where
  "require_session env now token s =
    (case get_session_for_token env now token s of None \<Rightarrow> Inl (Channel SessionInvalidError) | Some kc \<Rightarrow> Inr kc)"

definition session_event_id :: "channel_env \<Rightarrow> nat \<Rightarrow> string \<Rightarrow> string" where
  "session_event_id env session client_id = take 255 (ne_show env session @ '':'' @ client_id)"

definition submit_chat_message ::
  "channel_env \<Rightarrow> (inbound_event rows \<Rightarrow> inbound_event rows) \<Rightarrow> int \<Rightarrow> nat \<Rightarrow> chat_session \<Rightarrow> string \<Rightarrow> string \<Rightarrow> nat ingress_svc" where
  "submit_chat_message env other now k c client_id body = (\<lambda>s.
    case row_get (in_endpoints s) (ch_endpoint c) of
      None \<Rightarrow> (s, Inl (IngressDb DoesNotExist))
    | Some e \<Rightarrow>
        if \<not> gw_active e then (s, Inl (Channel EndpointDisabledError))
        else case enforce_body_size env (ne_utf8 env body) of
          Some err \<Rightarrow> (s, Inl err)
        | None \<Rightarrow>
            svc_bind (ingest_channel_event other now (ch_endpoint c) e (ne_sha256 env (ne_utf8 env body))
                \<lparr>cm_provider_event = session_event_id env k client_id, cm_thread = Some (ne_show env k),
                 cm_provider_message = None, cm_identity = ne_show env k, cm_subject = '''', cm_body = body,
                 cm_received_at = now\<rparr>)
              (\<lambda>ev s1. (s1\<lparr>in_sessions := update_where (\<lambda>i x. i = k) (\<lambda>x. x\<lparr>ch_last_seen_at := Some now\<rparr>) (in_sessions s1)\<rparr>,
                        Inr ev)) s)"

text \<open>\<open>after\<close> is the cursor; one that names no message of the conversation is ignored.\<close>

definition list_chat_messages :: "channel_env \<Rightarrow> chat_session \<Rightarrow> nat option \<Rightarrow> ingress \<Rightarrow> message rows" where
  "list_chat_messages env c after s =
    (case ch_conversation c of
      None \<Rightarrow> []
    | Some conv \<Rightarrow>
        (let q = message_list_for_conversation conv (w_desk (in_desk_world s));
             later = (case Option.bind after (\<lambda>i. first_row (rows_where (\<lambda>j m. j = i) q)) of
               None \<Rightarrow> q
             | Some (i, anchor) \<Rightarrow>
                 rows_where (\<lambda>j m. ms_created_at m > ms_created_at anchor \<or> (ms_created_at m = ms_created_at anchor \<and> ms_sequence m > ms_sequence anchor)) q)
         in take (ne_history_limit env) later))"

subsection \<open>Selectors and capabilities\<close>

definition channel_manage_roles :: "workspace_role set" where
  "channel_manage_roles = {SUPPORT_MANAGER, ADMIN, OWNER}"

definition endpoint_list_for_workspace :: "nat \<Rightarrow> ingress \<Rightarrow> channel_endpoint rows" where
  "endpoint_list_for_workspace ws s = newest_first gw_created_at (rows_where (\<lambda>k e. gw_workspace e = ws) (in_endpoints s))"

definition endpoint_get_for_workspace :: "nat \<Rightarrow> nat \<Rightarrow> ingress \<Rightarrow> channel_endpoint option" where
  "endpoint_get_for_workspace ws k s =
    Option.bind (row_get (in_endpoints s) k) (\<lambda>e. if gw_workspace e = ws then Some e else None)"

definition inbound_event_list_for_workspace :: "nat \<Rightarrow> ingress \<Rightarrow> inbound_event rows" where
  "inbound_event_list_for_workspace ws s =
    newest_first ie_received_at (rows_where (\<lambda>k x. ie_workspace x = ws) (in_events s))"

definition inbound_event_get_for_workspace :: "nat \<Rightarrow> nat \<Rightarrow> ingress \<Rightarrow> inbound_event option" where
  "inbound_event_get_for_workspace ws k s =
    Option.bind (row_get (in_events s) k) (\<lambda>x. if ie_workspace x = ws then Some x else None)"

subsection \<open>Endpoint administration\<close>

text \<open>\<open>version_ws\<close> and \<open>vstatus\<close> are the workspace and the status of the version the caller loaded.\<close>

definition version_ok :: "nat \<Rightarrow> nat \<Rightarrow> agent_version_status \<Rightarrow> bool" where
  "version_ok ws version_ws vstatus \<longleftrightarrow> version_ws = ws \<and> vstatus = AV_PUBLISHED"

definition needs_signing_secret :: "channel_type \<Rightarrow> bool" where
  "needs_signing_secret ch \<longleftrightarrow> ch \<noteq> WEB_CHAT"

definition audit_channel :: "string \<Rightarrow> nat \<Rightarrow> nat \<Rightarrow> nat \<Rightarrow> (string \<times> json) list \<Rightarrow> string option \<Rightarrow> ingress \<Rightarrow> ingress" where
  "audit_channel action k actor ws meta req =
    channel_emit (record_event action ''channel_endpoint'' k (Some actor) (Some ws) (JObj meta) req)"

definition encrypted_secret :: "channel_env \<Rightarrow> string \<Rightarrow> ingress_exc + string" where
  "encrypted_secret env secret =
    (case ne_encrypt env (JObj [(''secret'', JStr secret)]) of None \<Rightarrow> Inl ConfigurationError | Some t \<Rightarrow> Inr t)"

text \<open>\<open>secret\<close> is the fresh secret; it is returned once.\<close>

definition create_channel_endpoint ::
  "channel_env \<Rightarrow> string \<Rightarrow> int \<Rightarrow> nat \<Rightarrow> nat \<Rightarrow> channel_type \<Rightarrow> string \<Rightarrow> nat \<times> nat \<times> agent_version_status \<Rightarrow> nat option \<Rightarrow>
   unknown_customer_policy \<Rightarrow> (string \<times> json) list \<Rightarrow> string option \<Rightarrow> (nat \<times> string option) ingress_svc" where
  "create_channel_endpoint env secret now ws actor ch nm v connection policy config req = atomic (\<lambda>s.
    if \<not> version_ok ws (fst (snd v)) (snd (snd v)) then (s, Inl InvalidAgentVersion)
    else case (if needs_signing_secret ch then encrypted_secret env secret else Inr '''') of
      Inl e \<Rightarrow> (s, Inl e)
    | Inr token \<Rightarrow>
        (let k = fresh_id (in_endpoints s)
         in if nm = [] then (s, Inl (IngressDb IntegrityError))
            else (audit_channel ''channel_endpoint.created'' k actor ws [(''channel'', JStr (channel_value ch))] req
                   (s\<lparr>in_endpoints := row_put k
                      \<lparr>gw_workspace = ws, gw_channel = ch, gw_name = take 200 nm, gw_active = True, gw_version = fst v,
                       gw_connection = connection, gw_policy = policy, gw_secret = token,
                       gw_secret_created_at = (if needs_signing_secret ch then Some now else None),
                       gw_configuration = config, gw_created_by = Some actor, gw_created_at = now\<rparr> (in_endpoints s)\<rparr>),
                  Inr (k, if needs_signing_secret ch then Some secret else None))))"

text \<open>\<open>save(update_fields=\<dots>)\<close>: the named columns of the instance are written to the row.\<close>

definition write_endpoint :: "nat \<Rightarrow> (channel_endpoint \<Rightarrow> channel_endpoint) \<Rightarrow> unit ingress_svc" where
  "write_endpoint k f = (\<lambda>s.
    case row_get (in_endpoints s) k of
      None \<Rightarrow> (s, Inl (IngressDb DoesNotExist))
    | Some e \<Rightarrow> if gw_name (f e) = [] then (s, Inl (IngressDb IntegrityError))
        else (s\<lparr>in_endpoints := row_put k (f e) (in_endpoints s)\<rparr>, Inr ()))"

definition update_channel_endpoint ::
  "nat \<Rightarrow> nat \<Rightarrow> nat \<Rightarrow> string option \<Rightarrow> (nat \<times> nat \<times> agent_version_status) option \<Rightarrow> unknown_customer_policy option \<Rightarrow>
   (string \<times> json) list option \<Rightarrow> string option \<Rightarrow> unit ingress_svc" where
  "update_channel_endpoint ws k actor nm version policy config req = atomic (\<lambda>s.
    if (case version of None \<Rightarrow> False | Some v \<Rightarrow> \<not> version_ok ws (fst (snd v)) (snd (snd v))) then (s, Inl InvalidAgentVersion)
    else if nm = None \<and> version = None \<and> policy = None \<and> config = None then (s, Inr ())
    else svc_bind (write_endpoint k (\<lambda>e. e\<lparr>
             gw_name := (case nm of None \<Rightarrow> gw_name e | Some x \<Rightarrow> take 200 x),
             gw_version := (case version of None \<Rightarrow> gw_version e | Some v \<Rightarrow> fst v),
             gw_policy := (case policy of None \<Rightarrow> gw_policy e | Some p \<Rightarrow> p),
             gw_configuration := (case config of None \<Rightarrow> gw_configuration e | Some c \<Rightarrow> c)\<rparr>))
           (\<lambda>u s1. (audit_channel ''channel_endpoint.updated'' k actor ws [] req s1, Inr ())) s)"

text \<open>\<open>None\<close>: a status outside the choices, a ValueError.\<close>

definition set_channel_endpoint_status :: "nat \<Rightarrow> nat \<Rightarrow> nat \<Rightarrow> bool option \<Rightarrow> string option \<Rightarrow> unit ingress_svc" where
  "set_channel_endpoint_status ws k actor active req = atomic (\<lambda>s.
    case active of
      None \<Rightarrow> (s, Inl RawError)
    | Some b \<Rightarrow> svc_bind (write_endpoint k (\<lambda>e. e\<lparr>gw_active := b\<rparr>))
        (\<lambda>u s1. (audit_channel (if b then ''channel_endpoint.enabled'' else ''channel_endpoint.disabled'') k actor ws
                   [(''status'', JStr (if b then ''active'' else ''disabled''))] req s1, Inr ())) s)"

definition rotate_channel_secret ::
  "channel_env \<Rightarrow> string \<Rightarrow> int \<Rightarrow> nat \<Rightarrow> nat \<Rightarrow> channel_endpoint \<Rightarrow> nat \<Rightarrow> string option \<Rightarrow> string ingress_svc" where
  "rotate_channel_secret env secret now ws k inst actor req = atomic (\<lambda>s.
    if \<not> needs_signing_secret (gw_channel inst) then (s, Inl RawError)
    else case encrypted_secret env secret of
      Inl e \<Rightarrow> (s, Inl e)
    | Inr token \<Rightarrow>
        svc_bind (write_endpoint k (\<lambda>e. e\<lparr>gw_secret := token, gw_secret_created_at := Some now\<rparr>))
          (\<lambda>u s1. (audit_channel ''channel_endpoint.secret_rotated'' k actor ws [] req s1, Inr secret)) s)"

end
