(* ===== verification/ChannelResponses.thy ===== *)
theory ChannelResponses
  imports ChannelProcessing Notifications
begin

section \<open>Routing replies back to a channel\<close>

text \<open>
  \<open>channel_ingress/response_delivery.py\<close>: when a run has posted its answer, a reply to a conversation that came
  in by e-mail becomes a delivery of its own, with the destination and the text frozen, and a worker sends it
  through the connection of the workspace. The caller runs on commit, outside any transaction, so the delivery
  and its snapshot are two commits (\<open>other\<close> is what happens between them), and it swallows every exception.
\<close>

definition ch_response :: string where
  "ch_response = ''channel_response''"

definition external_delivery_channels :: "channel_type set" where
  "external_delivery_channels = {EMAIL}"

definition response_of_message :: "nat \<Rightarrow> outbox \<Rightarrow> (nat \<times> response) option" where
  "response_of_message m x = first_row (rows_where (\<lambda>i r. rp_message r = m) (ob_responses x))"

definition response_of_delivery :: "nat \<Rightarrow> outbox \<Rightarrow> (nat \<times> response) option" where
  "response_of_delivery k x = first_row (rows_where (\<lambda>i r. rp_delivery r = k) (ob_responses x))"

definition insert_response :: "response \<Rightarrow> (nat \<times> response) outbox_svc" where
  "insert_response r = (\<lambda>x.
    if \<not> fits 320 (rp_destination r) \<or> \<not> fits 200 (rp_subject r) \<or> \<not> fits 255 (rp_thread r) \<or> \<not> fits 200 (rp_key r)
    then (x, Inl (DeliveryCrash DataError))
    else if rp_destination r = [] \<or> rp_key r = [] \<or> response_of_message (rp_message r) x \<noteq> None
      \<or> response_of_delivery (rp_delivery r) x \<noteq> None
    then (x, Inl (DeliveryCrash IntegrityError))
    else let i = fresh_id (ob_responses x) in (x\<lparr>ob_responses := row_put i r (ob_responses x)\<rparr>, Inr (i, r)))"

text \<open>The customer's address, otherwise the configured fallback.\<close>

definition destination_address :: "py_runtime \<Rightarrow> channel_endpoint \<Rightarrow> customer \<Rightarrow> string" where
  "destination_address rt e c =
    (case cu_email c of
      Some (x # xs) \<Rightarrow> x # xs
    | _ \<Rightarrow> (case map_of (gw_configuration e) ''fallback_reply_address'' of None \<Rightarrow> '''' | Some v \<Rightarrow> py_str rt v))"

record routed_reply =
  rr_workspace :: nat
  rr_message :: nat
  rr_body :: string
  rr_conversation :: conversation
  rr_customer :: customer

definition create_or_reuse_response_delivery ::
  "py_runtime \<Rightarrow> (nat \<Rightarrow> string) \<Rightarrow> (outbox \<Rightarrow> outbox) \<Rightarrow> int \<Rightarrow> int \<Rightarrow> nat \<Rightarrow> channel_endpoint \<Rightarrow> routed_reply \<Rightarrow>
   (nat \<times> response) outbox_svc" where
  "create_or_reuse_response_delivery rt show_id other dflt_max now ep e q = (\<lambda>x.
    case response_of_message (rr_message q) x of
      Some r \<Rightarrow> (x, Inr r)
    | None \<Rightarrow> svc_bind (create_delivery dflt_max now (rr_workspace q) ch_response None now)
        (\<lambda>k x1. insert_response
           \<lparr>rp_delivery = k, rp_message = rr_message q, rp_endpoint = ep,
            rp_destination = destination_address rt e (rr_customer q),
            rp_subject = take 200 (if cv_subject (rr_conversation q) = [] then ''Re: your message'' else cv_subject (rr_conversation q)),
            rp_body = rr_body q,
            rp_thread = (case cv_external_id (rr_conversation q) of None \<Rightarrow> '''' | Some t \<Rightarrow> t),
            rp_key = ''channel_response:'' @ show_id (rr_message q), rp_message_id = ''''\<rparr> (other x1)) x)"

text \<open>The endpoint a conversation came in by: the identifier its metadata names, in the run's workspace.\<close>

definition origin_endpoint :: "nat \<Rightarrow> conversation \<Rightarrow> channel_endpoint rows \<Rightarrow> (nat \<times> channel_endpoint) option" where
  "origin_endpoint ws c t =
    (case cv_metadata c of
      JObj kvs \<Rightarrow>
        (let v = dict_get kvs ''channel_endpoint_id''
         in if py_truthy v then first_row (rows_where (\<lambda>k e. jid k = v \<and> gw_workspace e = ws) t) else None)
    | _ \<Rightarrow> None)"

definition route_channel_response ::
  "py_runtime \<Rightarrow> (nat \<Rightarrow> string) \<Rightarrow> (outbox \<Rightarrow> outbox) \<Rightarrow> int \<Rightarrow> int \<Rightarrow> channel_endpoint rows \<Rightarrow> routed_reply option \<Rightarrow>
   (nat \<times> response) option outbox_svc" where
  "route_channel_response rt show_id other dflt_max now endpoints reply = (\<lambda>x.
    case reply of
      None \<Rightarrow> (x, Inr None)
    | Some q \<Rightarrow>
        (case origin_endpoint (rr_workspace q) (rr_conversation q) endpoints of
          None \<Rightarrow> (x, Inr None)
        | Some (ep, e) \<Rightarrow>
            if gw_channel e \<notin> external_delivery_channels then (x, Inr None)
            else svc_bind (create_or_reuse_response_delivery rt show_id other dflt_max now ep e q)
                   (\<lambda>r. svc_return (Some r)) x))"

text \<open>The reply of a run: its conversation, customer and output message, when it has them.\<close>

definition reply_of_run :: "agent_run \<Rightarrow> desk \<Rightarrow> crm \<Rightarrow> routed_reply option" where
  "reply_of_run r d s =
    (case (run_conversation r, run_output_message r) of
      (Some conv, Some m) \<Rightarrow>
        (case (row_get (dk_conversations d) conv, row_get (dk_messages d) m) of
          (Some c, Some msg) \<Rightarrow>
            (case row_get (crm_customers s) (cv_customer c) of
              None \<Rightarrow> None
            | Some cu \<Rightarrow> Some \<lparr>rr_workspace = run_workspace r, rr_message = m, rr_body = ms_body msg,
                  rr_conversation = c, rr_customer = cu\<rparr>)
        | _ \<Rightarrow> None)
    | _ \<Rightarrow> None)"

text \<open>The hook of \<open>agents/services.py\<close>: whatever the routing raises is logged and dropped.\<close>

definition route_after_commit ::
  "py_runtime \<Rightarrow> (nat \<Rightarrow> string) \<Rightarrow> (outbox \<Rightarrow> outbox) \<Rightarrow> int \<Rightarrow> int \<Rightarrow> channel_endpoint rows \<Rightarrow> routed_reply option \<Rightarrow>
   outbox \<Rightarrow> outbox" where
  "route_after_commit rt show_id other dflt_max now endpoints reply x =
    fst (route_channel_response rt show_id other dflt_max now endpoints reply x)"

subsection \<open>The handler\<close>

definition handle_channel_response_delivery_attempt :: "handler_env \<Rightarrow> delivery_handler" where
  "handle_channel_response_delivery_attempt env k d token = (\<lambda>x.
    case response_of_delivery k x of
      None \<Rightarrow> give_up env ''channel_response_delivery_missing'' False k token x
    | Some (i, r) \<Rightarrow>
        send_and_complete env ''channel_response_delivery_unexpected_error''
          (\<lambda>message_id y. y\<lparr>ob_responses :=
             update_where (\<lambda>j r. j = i) (\<lambda>r. r\<lparr>rp_message_id := message_id\<rparr>) (ob_responses y)\<rparr>)
          (dl_workspace d) (rp_destination r) (rp_subject r) (rp_body r) (rp_key r) k token x)"

end
