(* ===== verification/ChannelProperties.thy ===== *)
theory ChannelProperties
  imports MessageOrder ChannelResponses AgentLifecycle IngestionLemmas
begin

section \<open>What channel ingress guarantees\<close>

text \<open>
  Authenticity of what the public webhook accepts; the invariant of events, messages and endpoints under every
  interleaving of deliveries, workers and sweeps; the outcome of a worker, which is all or nothing; the cursor
  of the web chat; and what happens to identities and threads that end in a blank.
\<close>

subsection \<open>Accepted requests\<close>

lemma first_row_Some: "first_row t = Some r \<Longrightarrow> r \<in> set t"
  by (auto simp: first_row_def split: list.splits)

lemma rows_where_set: "(k, r) \<in> set (rows_where P t) \<longleftrightarrow> (k, r) \<in> set t \<and> P k r"
  by (auto simp: rows_where_def)

lemma event_with_SomeD:
  "event_with ep pe t = Some (k, x) \<Longrightarrow> (k, x) \<in> set t \<and> ie_endpoint x = ep \<and> ie_provider_event x = pe"
  by (auto simp: event_with_def rows_where_set dest!: first_row_Some)

lemma event_with_NoneD:
  "event_with ep pe t = None \<Longrightarrow> (k, x) \<in> set t \<Longrightarrow> \<not> (ie_endpoint x = ep \<and> ie_provider_event x = pe)"
  by (auto simp: event_with_def first_row_def rows_where_def filter_empty_conv split: list.splits)

lemma channel_emit_fields [simp]:
  "in_events (channel_emit e s) = in_events s" "in_endpoints (channel_emit e s) = in_endpoints s"
  "in_sessions (channel_emit e s) = in_sessions s" "in_crm (channel_emit e s) = in_crm s"
  "w_desk (in_desk_world (channel_emit e s)) = w_desk (in_desk_world s)"
  by (simp_all add: channel_emit_def on_gate_def)

lemma signature_accepted:
  "verify_inbound_signature env now secret body th sh = None \<longleftrightarrow>
    sh \<noteq> [] \<and> th \<noteq> [] \<and> (\<exists>t. py_int th = Some t \<and> now - ne_max_past env \<le> t \<and> t \<le> now + ne_max_future env \<and>
      starts_with ''v1='' sh \<and> compare_digest (compute_signature env secret t body) sh = Some True)"
  by (auto simp: verify_inbound_signature_def split: option.splits if_splits)

text \<open>Every way an event is stored or found again: its row belongs to the endpoint and carries the digest.\<close>

lemma ingest_cases:
  assumes "ingest_channel_event other now ep e digest m s = (s', r)"
  obtains (existing) k x t where "(k, x) \<in> set t" "t = in_events s \<or> t = other (in_events s)"
      "in_events s' = t" "ie_endpoint x = ep" "ie_provider_event x = cm_provider_event m"
      "r = (if ie_digest x = digest then Inr k else Inl (Channel IdempotencyConflictError))"
  | (too_long) "r = Inl (IngressDb DataError)" "in_events s' = other (in_events s)"
  | (created) k x where "event_with ep (cm_provider_event m) (other (in_events s)) = None"
      "k = fresh_id (other (in_events s))" "in_events s' = row_put k x (other (in_events s))" "r = Inr k"
      "ie_endpoint x = ep" "ie_workspace x = gw_workspace e" "ie_provider_event x = cm_provider_event m"
      "ie_digest x = digest" "ie_status x = IE_RECEIVED" "ie_message x = None" "ie_body x = cm_body m"
proof -
  have found: thesis if "event_with ep (cm_provider_event m) (in_events s1) = Some ke"
    "in_events s1 = in_events s \<or> in_events s1 = other (in_events s)"
    "(s', r) = accept_existing (gw_channel e) digest ke s1" for s1 ke
    using that event_with_SomeD [of ep "cm_provider_event m" "in_events s1" "fst ke" "snd ke"]
    by (intro existing [of "fst ke" "snd ke" "in_events s1"])
       (auto simp: accept_existing_def split: if_splits)
  show thesis
  proof (cases "event_with ep (cm_provider_event m) (in_events s)")
    case (Some ke)
    with assms show thesis by (intro found [of s ke]) (simp_all add: ingest_channel_event_def)
  next
    case None
    show thesis
    proof (cases "event_with ep (cm_provider_event m) (other (in_events s))")
      case Some': (Some ke)
      show thesis
        using assms None Some' found [of "s\<lparr>in_events := other (in_events s)\<rparr>" ke]
        by (auto simp: ingest_channel_event_def Let_def intro: too_long split: if_splits)
    next
      case None': None
      show thesis
        using assms None None' by (auto simp: ingest_channel_event_def Let_def intro: too_long created split: if_splits)
    qed
  qed
qed

text \<open>What the public webhook accepts is authentic and fresh: the endpoint is active and of a signed channel, the
  body is within the limit, the timestamp within the permitted skew, the signature is the MAC of timestamp and
  body under the secret of that endpoint, and the event it answers with is one of that endpoint with the digest
  of this body. Every other answer stores no event of this request.\<close>

theorem accepted_webhook_is_authentic:
  assumes "inbound_webhook env other now ep req s = (s', resp)"
  shows "case resp of
      Accepted k \<Rightarrow> \<exists>e secret t x. row_get (in_endpoints s) ep = Some e \<and> gw_active e \<and> gw_channel e \<noteq> WEB_CHAT \<and>
        endpoint_signing_secret env e = Inr secret \<and> length (hr_body req) \<le> ne_max_body_bytes env \<and>
        py_int (hr_timestamp req) = Some t \<and> now - ne_max_past env \<le> t \<and> t \<le> now + ne_max_future env \<and>
        hr_signature req = ''v1='' @ ne_hmac env secret (ne_show_int env t @ ''.'' @ hr_body req) \<and>
        (k, x) \<in> set (in_events s') \<and> ie_endpoint x = ep \<and> ie_digest x = ne_sha256 env (hr_body req)
    | _ \<Rightarrow> in_events s' = in_events s \<or> in_events s' = other (in_events s)"
proof -
  have digest: "compare_digest a b = Some True \<Longrightarrow> a = b" for a b
    by (auto simp: compare_digest_def split: if_splits)
  consider (early) "in_events s' = in_events s" "\<And>k. resp \<noteq> Accepted k"
    | (ingested) e m r where "row_get (in_endpoints s) ep = Some e" "gw_active e" "gw_channel e \<noteq> WEB_CHAT"
        "verify_signature env now e req = None"
        "ingest_channel_event other now ep e (ne_sha256 env (hr_body req)) m s = (s', r)"
        "resp = (case r of Inl err \<Rightarrow> api_error err | Inr k \<Rightarrow> Accepted k)"
    using assms
    by (fastforce simp: inbound_webhook_def elim: api_error.elims split: option.splits if_splits sum.splits prod.splits ingress_exc.splits)
  then show ?thesis
  proof cases
    case early then show ?thesis by (auto split: http_response.splits)
  next
    case ingested
    have auth: "\<exists>secret t. endpoint_signing_secret env e = Inr secret \<and> length (hr_body req) \<le> ne_max_body_bytes env \<and>
        py_int (hr_timestamp req) = Some t \<and> now - ne_max_past env \<le> t \<and> t \<le> now + ne_max_future env \<and>
        hr_signature req = ''v1='' @ ne_hmac env secret (ne_show_int env t @ ''.'' @ hr_body req)"
      using ingested(4) digest
      by (fastforce simp: verify_signature_def enforce_body_size_def signature_accepted compute_signature_def
          split: option.splits if_splits sum.splits)
    show ?thesis using ingested(5)
    proof (cases rule: ingest_cases)
      case (existing k x t)
      with auth ingested(1-3,6) show ?thesis by auto
    next
      case too_long
      with ingested(6) show ?thesis by simp
    next
      case (created k x)
      have "row_get (in_events s') k = Some x" using created(3) by simp
      then have "(k, x) \<in> set (in_events s')" by (rule map_of_SomeD)
      with auth ingested(1-3,6) created show ?thesis by auto
    qed
  qed
qed

subsection \<open>One worker\<close>

text \<open>What no stage before the event is settled touches; messages are only ever added.\<close>

definition messages_kept :: "desk \<Rightarrow> desk \<Rightarrow> bool" where
  "messages_kept d d' \<longleftrightarrow> map_of (dk_messages d) \<subseteq>\<^sub>m map_of (dk_messages d')"

definition ingress_frame :: "ingress \<Rightarrow> ingress \<Rightarrow> bool" where
  "ingress_frame s s' \<longleftrightarrow> in_events s' = in_events s \<and> in_endpoints s' = in_endpoints s \<and>
    messages_kept (w_desk (in_desk_world s)) (w_desk (in_desk_world s'))"

definition race_ok :: "race \<Rightarrow> bool" where
  "race_ok rc \<longleftrightarrow> (\<forall>d. messages_kept d (rc_desk rc d))"

lemma messages_kept_refl [simp]: "messages_kept d d"
  by (simp add: messages_kept_def)

lemma messages_kept_trans: "messages_kept a b \<Longrightarrow> messages_kept b c \<Longrightarrow> messages_kept a c"
  unfolding messages_kept_def by (rule map_le_trans)

lemma ingress_frame_refl [simp]: "ingress_frame s s"
  by (simp add: ingress_frame_def)

lemma ingress_frame_trans: "ingress_frame a b \<Longrightarrow> ingress_frame b c \<Longrightarrow> ingress_frame a c"
  by (auto simp: ingress_frame_def intro: messages_kept_trans)

lemma set_desk_fields [simp]:
  "in_events (set_desk d s) = in_events s" "in_endpoints (set_desk d s) = in_endpoints s"
  "in_sessions (set_desk d s) = in_sessions s" "in_crm (set_desk d s) = in_crm s"
  "w_desk (in_desk_world (set_desk d s)) = d" "w_gate (in_desk_world (set_desk d s)) = w_gate (in_desk_world s)"
  by (simp_all add: set_desk_def)

lemma set_desk_frame: "messages_kept (w_desk (in_desk_world s)) d \<Longrightarrow> ingress_frame s (set_desk d s)"
  by (simp add: ingress_frame_def)

lemma create_conversation_messages:
  "create_conversation ws cu cws ch subj ext meta d = (d', r) \<Longrightarrow> dk_messages d' = dk_messages d"
  by (auto simp: create_conversation_def atomic_def Let_def split: if_splits option.splits prod.splits sum.splits)

lemma resolve_customer_frame:
  "resolve_customer_identity rc now e x s = (s', r) \<Longrightarrow> ingress_frame s s' \<and> in_sessions s' = in_sessions s \<and>
    in_desk_world s' = in_desk_world s"
  by (auto simp: resolve_customer_identity_def Let_def ingress_frame_def split: option.splits if_splits prod.splits sum.splits)

lemma resolve_conversation_frame:
  assumes "race_ok rc" and "resolve_conversation env rc ep e kc x s = (s', r)"
  shows "ingress_frame s s' \<and> in_sessions s' = in_sessions s \<and> in_crm s' = in_crm s"
proof -
  have kept: "messages_kept (w_desk (in_desk_world s)) d'"
    if "create_conversation ws cu cws ch subj ext meta (rc_desk rc (w_desk (in_desk_world s))) = (d', r')"
    for ws cu cws ch subj ext meta d' r'
    using assms(1) create_conversation_messages [OF that] by (simp add: race_ok_def messages_kept_def)
  show ?thesis
    using assms(2)
    by (auto simp: resolve_conversation_def Let_def dest!: kept intro: set_desk_frame
        split: option.splits prod.splits sum.splits)
qed

lemma resolve_with_retry_frame:
  assumes "race_ok rc" and "resolve_conversation_with_retry env rc ep e kc x s = (s', r)"
  shows "ingress_frame s s' \<and> in_sessions s' = in_sessions s \<and> in_crm s' = in_crm s"
proof -
  obtain s1 r1 where r1: "resolve_conversation env rc ep e kc x s = (s1, r1)" by fastforce
  have "s' = s1"
    using assms(2) r1
    by (auto simp: resolve_conversation_with_retry_def split: sum.splits ingress_exc.splits desk_exc.splits
        db_exc.splits if_splits option.splits)
  with resolve_conversation_frame [OF assms(1) r1] show ?thesis by simp
qed

lemma link_session_frame: "link_chat_session env e x conv cu s = (s', r) \<Longrightarrow> ingress_frame s s'"
  by (auto simp: link_chat_session_def Let_def ingress_frame_def split: if_splits)

definition message_of_event :: "inbound_event \<Rightarrow> nat \<Rightarrow> message \<Rightarrow> bool" where
  "message_of_event x conv msg \<longleftrightarrow> ms_conversation msg = conv \<and> ms_workspace msg = ie_workspace x \<and>
    ms_body msg = ie_body x \<and> ms_sender_type msg = SND_CUSTOMER \<and> ms_direction msg = INBOUND"

lemma create_inbound_message_stores:
  assumes "create_inbound_message now ws conv c body ext meta d = (d', Inr m)"
  shows "m = fresh_id (dk_messages d) \<and> messages_kept d d' \<and>
    (\<exists>msg. row_get (dk_messages d') m = Some msg \<and> ms_conversation msg = conv \<and> ms_workspace msg = ws \<and>
      ms_body msg = body \<and> ms_sender_type msg = SND_CUSTOMER \<and> ms_direction msg = INBOUND)"
  using assms
  by (auto simp: create_inbound_message_def create_message_def atomic_def save_conversation_def Let_def
      messages_kept_def map_le_def dest: row_get_neq_fresh split: if_splits option.splits prod.splits sum.splits)

lemma store_message_stores:
  assumes "store_message now k e x conv s = (s', Inr m)" and "gw_workspace e = ie_workspace x"
  shows "ingress_frame s s' \<and> m = fresh_id (dk_messages (w_desk (in_desk_world s))) \<and>
    (\<exists>msg. row_get (dk_messages (w_desk (in_desk_world s'))) m = Some msg \<and> message_of_event x conv msg)"
  using assms
  by (auto simp: store_message_def message_of_event_def ingress_frame_def dest!: create_inbound_message_stores
      split: option.splits prod.splits sum.splits)

lemma start_run_starts:
  assumes "start_run rc now e conv m s = (s', Inr r)"
  shows "in_events s' = in_events s \<and> in_endpoints s' = in_endpoints s \<and>
    w_desk (in_desk_world s') = w_desk (in_desk_world s) \<and>
    (\<exists>i ru. (i, ru) \<in> set (g_runs (w_gate (in_desk_world s'))) \<and> i = r \<and> run_trigger_message ru = Some m)"
proof -
  have found: "run_for_message m g = Some (i, ru) \<Longrightarrow> (i, ru) \<in> set (g_runs g) \<and> run_trigger_message ru = Some m"
    for g i ru using nth_mem by (fastforce simp: run_for_message_def find_Some_iff)
  have put: "(k, y) \<in> set (row_put k y t)" for k t and y :: agent_run
    by (rule map_of_SomeD) simp
  show ?thesis using assms
    by (auto simp: start_run_def start_support_agent_run_def create_agent_run_def atomic_def on_gate_def Let_def
        put_run_def dispatch_run_def emit_def
        dest!: found split: option.splits prod.splits sum.splits if_splits)
       (intro exI conjI, rule put, simp)
qed

definition processed_row :: "int \<Rightarrow> nat \<Rightarrow> nat \<Rightarrow> inbound_event \<Rightarrow> inbound_event" where
  "processed_row now conv m x = x\<lparr>ie_status := IE_PROCESSED, ie_conversation := Some conv, ie_message := Some m,
     ie_processed_at := Some now\<rparr>"

lemma mark_processed_marks:
  "mark_event_processed now k conv m s = (s', Inr u) \<longleftrightarrow>
    list_all (\<lambda>(i, x). i = k \<or> ie_message x \<noteq> Some m) (in_events s) \<and>
    s' = s\<lparr>in_events := update_where (\<lambda>i x. i = k) (processed_row now conv m) (in_events s)\<rparr>"
proof -
  have "processed_row now conv m = (\<lambda>x. x\<lparr>ie_status := IE_PROCESSED, ie_conversation := Some conv, ie_message := Some m,
     ie_processed_at := Some now\<rparr>)" by (simp add: processed_row_def fun_eq_iff)
  then show ?thesis
    by (auto simp: mark_event_processed_def list_ex_iff list_all_iff case_prod_unfold)
qed

lemma svc_bind_InrD:
  "svc_bind f g s = (s', Inr b) \<Longrightarrow> \<exists>s1 a. f s = (s1, Inr a) \<and> g a s1 = (s', Inr b)"
  by (auto simp: svc_bind_def split: prod.splits sum.splits)

text \<open>A transaction that commits: the message is new, it is the event's, and a run answers it.\<close>

lemma handled_event:
  assumes ok: "race_ok rc" and ws: "gw_workspace e = ie_workspace x"
    and handled: "handle_event env rc clk k ep e x s = (s', Inr r)"
  shows "\<exists>conv m msg now. in_endpoints s' = in_endpoints s \<and>
    in_events s' = update_where (\<lambda>i y. i = k) (processed_row now conv m) (in_events s) \<and>
    list_all (\<lambda>(i, y). i = k \<or> ie_message y \<noteq> Some m) (in_events s) \<and>
    messages_kept (w_desk (in_desk_world s)) (w_desk (in_desk_world s')) \<and>
    row_get (dk_messages (w_desk (in_desk_world s))) m = None \<and>
    row_get (dk_messages (w_desk (in_desk_world s'))) m = Some msg \<and> message_of_event x conv msg \<and>
    (\<exists>i ru. (i, ru) \<in> set (g_runs (w_gate (in_desk_world s'))) \<and> i = r \<and> run_trigger_message ru = Some m)"
proof -
  obtain s1 kc s2 conv s3 u s4 m s5 where
    1: "resolve_customer_identity rc (clk 0) e x s = (s1, Inr kc)" and
    2: "resolve_conversation_with_retry env rc ep e kc x s1 = (s2, Inr conv)" and
    3: "link_chat_session env e x conv (fst kc) s2 = (s3, Inr u)" and
    4: "store_message (clk 1) k e x conv s3 = (s4, Inr m)" and
    5: "mark_event_processed (clk 2) k conv m s4 = (s5, Inr u)" and
    6: "start_run rc (clk 3) e conv m s5 = (s', Inr r)"
    using handled unfolding handle_event_def by (fastforce dest!: svc_bind_InrD)
  note m5 = 5 [unfolded mark_processed_marks]
  from store_message_stores [OF 4 ws] obtain msg where
    f4: "ingress_frame s3 s4" and m: "m = fresh_id (dk_messages (w_desk (in_desk_world s3)))" and
    msg: "row_get (dk_messages (w_desk (in_desk_world s4))) m = Some msg" "message_of_event x conv msg"
    by blast
  have f3: "ingress_frame s s3"
    using resolve_customer_frame [OF 1] resolve_with_retry_frame [OF ok 2] link_session_frame [OF 3]
    by (blast intro: ingress_frame_trans)
  have new: "row_get (dk_messages (w_desk (in_desk_world s))) m = None"
    using f3 m by (force simp: ingress_frame_def messages_kept_def map_le_def)
  from f3 f4 have f: "ingress_frame s s4" by (rule ingress_frame_trans)
  note r = start_run_starts [OF 6]
  show ?thesis
    using f msg new m5 r
    by (intro exI [of _ conv] exI [of _ m] exI [of _ msg] exI [of _ "clk 2"]) (auto simp: ingress_frame_def)
qed

subsection \<open>Events, messages and endpoints agree\<close>

definition event_row_ok :: "channel_endpoint rows \<Rightarrow> message rows \<Rightarrow> inbound_event \<Rightarrow> bool" where
  "event_row_ok E M x \<longleftrightarrow>
    (\<exists>e. row_get E (ie_endpoint x) = Some e \<and> gw_workspace e = ie_workspace x) \<and>
    (ie_status x = IE_PROCESSED \<longleftrightarrow> ie_message x \<noteq> None) \<and>
    (\<forall>m. ie_message x = Some m \<longrightarrow> (\<exists>msg conv. row_get M m = Some msg \<and> ie_conversation x = Some conv \<and>
      message_of_event x conv msg))"

definition events_ok :: "channel_endpoint rows \<Rightarrow> message rows \<Rightarrow> inbound_event rows \<Rightarrow> bool" where
  "events_ok E M t \<longleftrightarrow> distinct (row_ids t) \<and>
    (\<forall>i x. row_get t i = Some x \<longrightarrow> event_row_ok E M x) \<and>
    (\<forall>i x j y. row_get t i = Some x \<longrightarrow> row_get t j = Some y \<longrightarrow> i \<noteq> j \<longrightarrow>
      (ie_endpoint x, ie_provider_event x) \<noteq> (ie_endpoint y, ie_provider_event y) \<and>
      (ie_message x = None \<or> ie_message x \<noteq> ie_message y))"

definition ingress_ok :: "ingress \<Rightarrow> bool" where
  "ingress_ok s \<longleftrightarrow> distinct (row_ids (in_endpoints s)) \<and>
    events_ok (in_endpoints s) (dk_messages (w_desk (in_desk_world s))) (in_events s)"

definition endpoints_kept :: "channel_endpoint rows \<Rightarrow> channel_endpoint rows \<Rightarrow> bool" where
  "endpoints_kept E E' \<longleftrightarrow> (\<forall>k e. row_get E k = Some e \<longrightarrow> (\<exists>e'. row_get E' k = Some e' \<and> gw_workspace e' = gw_workspace e))"

lemma event_row_ok_mono:
  assumes "event_row_ok E M x" "endpoints_kept E E'" "map_of M \<subseteq>\<^sub>m map_of M'"
  shows "event_row_ok E' M' x"
proof -
  have "row_get M m = Some msg \<Longrightarrow> row_get M' m = Some msg" for m msg
    using assms(3) by (force simp: map_le_def)
  then show ?thesis using assms(1,2) unfolding event_row_ok_def endpoints_kept_def by fastforce
qed

lemma events_ok_mono:
  "events_ok E M t \<Longrightarrow> endpoints_kept E E' \<Longrightarrow> map_of M \<subseteq>\<^sub>m map_of M' \<Longrightarrow> events_ok E' M' t"
  unfolding events_ok_def by (blast intro: event_row_ok_mono)

lemma events_ok_cong: "row_get t = row_get t' \<Longrightarrow> row_ids t = row_ids t' \<Longrightarrow> events_ok E M t = events_ok E M t'"
  by (simp only: events_ok_def)

lemma events_ok_insert:
  assumes ok: "events_ok E M t" and row: "event_row_ok E M x" and none: "ie_message x = None"
    and fresh: "event_with (ie_endpoint x) (ie_provider_event x) t = None"
  shows "events_ok E M (row_put (fresh_id t) x t)"
proof -
  have clash: "(ie_endpoint y, ie_provider_event y) \<noteq> (ie_endpoint x, ie_provider_event x)"
    if "row_get t j = Some y" for j y using event_with_NoneD [OF fresh map_of_SomeD [OF that]] by simp
  show ?thesis unfolding events_ok_def
  proof (intro conjI allI impI)
    show "distinct (row_ids (row_put (fresh_id t) x t))" using ok by (auto simp: events_ok_def)
    show "event_row_ok E M y" if "row_get (row_put (fresh_id t) x t) i = Some y" for i y
      using that ok row by (auto simp: events_ok_def split: if_splits)
    fix i y j z
    assume g: "row_get (row_put (fresh_id t) x t) i = Some y" "row_get (row_put (fresh_id t) x t) j = Some z" "i \<noteq> j"
    consider "i = fresh_id t" "y = x" "row_get t j = Some z" | "j = fresh_id t" "z = x" "row_get t i = Some y"
      | "row_get t i = Some y" "row_get t j = Some z"
      using g by (cases "i = fresh_id t"; cases "j = fresh_id t") simp_all
    note cases = this
    show "(ie_endpoint y, ie_provider_event y) \<noteq> (ie_endpoint z, ie_provider_event z)"
      using cases
    proof cases
      case 1 then show ?thesis using clash by fastforce
    next
      case 2 then show ?thesis using clash by blast
    next
      case 3 then show ?thesis using ok g(3) unfolding events_ok_def by blast
    qed
    show "ie_message y = None \<or> ie_message y \<noteq> ie_message z"
      using cases
    proof cases
      case 3 then show ?thesis using ok g(3) unfolding events_ok_def by blast
    qed (use none in auto)
  qed
qed

lemma events_ok_rewrite:
  assumes "events_ok E M t"
    and "\<And>x. row_get t k = Some x \<Longrightarrow> event_row_ok E M (f x) \<and> ie_endpoint (f x) = ie_endpoint x \<and>
      ie_provider_event (f x) = ie_provider_event x \<and>
      (ie_message (f x) = None \<or> list_all (\<lambda>(i, y). i = k \<or> ie_message y \<noteq> ie_message (f x)) t)"
  shows "events_ok E M (update_where (\<lambda>i y. i = k) f t)"
proof -
  have one: "ie_message y \<noteq> ie_message (f x)" if "row_get t k = Some x" "row_get t j = Some y" "j \<noteq> k" "ie_message (f x) \<noteq> None"
    for x y j using assms(2) [OF that(1)] map_of_SomeD [OF that(2)] that(3,4) by (auto simp: list_all_iff)
  have same: "ie_endpoint (f x) = ie_endpoint x" "ie_provider_event (f x) = ie_provider_event x" "event_row_ok E M (f x)"
    if "row_get t k = Some x" for x using assms(2) [OF that] by auto
  show ?thesis unfolding events_ok_def
  proof (intro conjI allI impI)
    show "distinct (row_ids (update_where (\<lambda>i y. i = k) f t))" using assms(1) by (simp add: events_ok_def)
    show "event_row_ok E M x" if "row_get (update_where (\<lambda>i y. i = k) f t) i = Some x" for i x
      using that assms(1) same(3) by (auto simp: events_ok_def split: if_splits)
    fix i x j y
    assume "row_get (update_where (\<lambda>i y. i = k) f t) i = Some x" "row_get (update_where (\<lambda>i y. i = k) f t) j = Some y"
      and ij: "i \<noteq> j"
    then obtain x0 y0 where g: "row_get t i = Some x0" "row_get t j = Some y0"
      and xy: "x = (if i = k then f x0 else x0)" "y = (if j = k then f y0 else y0)" by auto
    have distinct_events: "(ie_endpoint x0, ie_provider_event x0) \<noteq> (ie_endpoint y0, ie_provider_event y0) \<and>
        (ie_message x0 = None \<or> ie_message x0 \<noteq> ie_message y0)"
      using assms(1) g ij unfolding events_ok_def by blast
    from this show "(ie_endpoint x, ie_provider_event x) \<noteq> (ie_endpoint y, ie_provider_event y)"
      using g xy same by (auto split: if_splits)
    show "ie_message x = None \<or> ie_message x \<noteq> ie_message y"
    proof (cases "i = k \<or> j = k")
      case True
      then show ?thesis using g ij xy one [of x0 j y0] one [of y0 i x0] by (cases "i = k") (auto, metis+)
    next
      case False
      with distinct_events g ij xy show ?thesis by simp
    qed
  qed
qed

subsection \<open>Every interleaving\<close>

definition msgs_of :: "ingress \<Rightarrow> message rows" where
  "msgs_of s = dk_messages (w_desk (in_desk_world s))"

text \<open>
  The steps of the system: deliveries (with the commits of concurrent deliveries inside them), the claim of a
  worker and, separately, what it then does with the event it claimed, sweeps, chat sessions and messages,
  the administration of endpoints, and any other work on customers, conversations and runs. A worker that
  dies is a claim that is never settled.
\<close>

inductive ingress_step :: "channel_env \<Rightarrow> ingress \<Rightarrow> ingress \<Rightarrow> bool" for env where
  deliver: "(\<And>t. events_ok (in_endpoints s) (msgs_of s) t \<Longrightarrow> events_ok (in_endpoints s) (msgs_of s) (other t)) \<Longrightarrow>
    ingress_step env s (fst (inbound_webhook env other now ep req s))"
| claim: "ingress_step env s (fst (claim_inbound_channel_event now k s))"
| settle: "row_get (in_events s) k = Some x \<Longrightarrow> ie_status x = IE_PROCESSING \<Longrightarrow> race_ok rc \<Longrightarrow>
    ingress_step env s (fst (settle_event env rc clk k x s))"
| sweep: "ingress_step env s (fst (recover_stuck_inbound_events cutoff batch s))"
| bootstrap: "ingress_step env s (fst (bootstrap_chat_session env token now ep s))"
| chat: "(\<And>t. events_ok (in_endpoints s) (msgs_of s) t \<Longrightarrow> events_ok (in_endpoints s) (msgs_of s) (other t)) \<Longrightarrow>
    ingress_step env s (fst (submit_chat_message env other now k c client_id body s))"
| create: "ingress_step env s (fst (create_channel_endpoint env secret now ws actor ch nm v connection policy config req' s))"
| update: "ingress_step env s (fst (update_channel_endpoint ws k actor nm' version policy' config' req' s))"
| status: "ingress_step env s (fst (set_channel_endpoint_status ws k actor active req' s))"
| rotate: "ingress_step env s (fst (rotate_channel_secret env secret now ws k inst actor req' s))"
| work: "messages_kept (w_desk (in_desk_world s)) (w_desk w) \<Longrightarrow>
    ingress_step env s (s\<lparr>in_desk_world := w, in_crm := c\<rparr>)"

lemma ingress_ok_alt:
  "ingress_ok s \<longleftrightarrow> distinct (row_ids (in_endpoints s)) \<and> events_ok (in_endpoints s) (msgs_of s) (in_events s)"
  by (simp add: ingress_ok_def msgs_of_def)

lemma ingest_ok:
  assumes ok: "ingress_ok s" and e: "row_get (in_endpoints s) ep = Some e"
    and kept: "\<And>t. events_ok (in_endpoints s) (msgs_of s) t \<Longrightarrow> events_ok (in_endpoints s) (msgs_of s) (other t)"
    and run: "ingest_channel_event other now ep e digest m s = (s', r)"
  shows "ingress_ok s' \<and> in_endpoints s' = in_endpoints s"
proof -
  have same: "in_endpoints s' = in_endpoints s" "msgs_of s' = msgs_of s"
    using run by (auto simp: ingest_channel_event_def accept_existing_def msgs_of_def Let_def split: option.splits if_splits)
  from ok have t: "events_ok (in_endpoints s) (msgs_of s) (in_events s)" by (simp add: ingress_ok_alt)
  have "events_ok (in_endpoints s) (msgs_of s) (in_events s')"
    using run
  proof (cases rule: ingest_cases)
    case existing with t kept [OF t] show ?thesis by auto
  next
    case too_long with kept [OF t] show ?thesis by simp
  next
    case (created k x)
    have "event_row_ok (in_endpoints s) (msgs_of s) x" using created e by (simp add: event_row_ok_def)
    with created kept [OF t] show ?thesis by (simp add: events_ok_insert)
  qed
  with ok same show ?thesis by (simp add: ingress_ok_alt)
qed

lemma webhook_ok:
  assumes ok: "ingress_ok s"
    and kept: "\<And>t. events_ok (in_endpoints s) (msgs_of s) t \<Longrightarrow> events_ok (in_endpoints s) (msgs_of s) (other t)"
  shows "ingress_ok (fst (inbound_webhook env other now ep req s))"
proof -
  have emit: "ingress_ok (channel_emit ef s)" for ef using ok by (simp add: ingress_ok_def)
  show ?thesis
    using ok emit
    by (auto simp: inbound_webhook_def dest: ingest_ok [OF ok _ kept]
        split: option.splits prod.splits sum.splits ingress_exc.splits)
qed

lemma claim_ok: assumes ok: "ingress_ok s" shows "ingress_ok (fst (claim_inbound_channel_event now k s))"
proof -
  have put: "events_ok E M (row_put k (x\<lparr>ie_status := IE_PROCESSING, ie_started_at := Some now\<rparr>) t)"
    if t: "events_ok E M t" and x: "row_get t k = Some x" "ie_status x = IE_RECEIVED" for E M t x
  proof -
    let ?f = "\<lambda>y. y\<lparr>ie_status := IE_PROCESSING, ie_started_at := Some now\<rparr>"
    have "event_row_ok E M x" using t x(1) by (simp add: events_ok_def)
    then have row: "event_row_ok E M (?f x)" and none: "ie_message x = None"
      using x(2) by (auto simp: event_row_ok_def)
    have u: "events_ok E M (update_where (\<lambda>i y. i = k) ?f t)"
      using row none x by (intro events_ok_rewrite [OF t]) auto
    have "row_get (row_put k (?f x) t) = row_get (update_where (\<lambda>i y. i = k) ?f t)"
      using x by (auto simp: fun_eq_iff option.map_ident)
    moreover have "row_ids (row_put k (?f x) t) = row_ids t"
      using x row_get_Some_in_ids [OF x(1)] by (simp add: row_ids_put)
    ultimately have "events_ok E M (row_put k (?f x) t) = events_ok E M (update_where (\<lambda>i y. i = k) ?f t)"
      by (intro events_ok_cong) simp_all
    with u show ?thesis by blast
  qed
  show ?thesis
    using ok put
    by (auto simp: claim_inbound_channel_event_def atomic_def put_event_def ingress_ok_alt msgs_of_def Let_def
        split: option.splits)
qed

lemma settle_ok:
  assumes ok: "ingress_ok s" and x: "row_get (in_events s) k = Some x" and status: "ie_status x = IE_PROCESSING"
    and race: "race_ok rc"
  shows "ingress_ok (fst (settle_event env rc clk k x s))"
proof -
  from ok have t: "events_ok (in_endpoints s) (msgs_of s) (in_events s)" by (simp add: ingress_ok_alt)
  have row: "event_row_ok (in_endpoints s) (msgs_of s) x" using t x by (simp add: events_ok_def)
  then obtain e where e: "row_get (in_endpoints s) (ie_endpoint x) = Some e" and ws: "gw_workspace e = ie_workspace x"
    and none: "ie_message x = None" using status by (auto simp: event_row_ok_def)
  have raced: "map_of (msgs_of s) \<subseteq>\<^sub>m map_of (msgs_of (concurrent_commits rc s))"
    using race by (simp add: msgs_of_def concurrent_commits_def Let_def race_ok_def messages_kept_def)
  show ?thesis
  proof (cases "handle_event env rc (\<lambda>n. clk (n + 1)) k (ie_endpoint x) e x s")
    case (Pair s1 res)
    show ?thesis
    proof (cases res)
      case (Inl err)
      have "events_ok (in_endpoints s) (msgs_of (concurrent_commits rc s)) (in_events s)"
        using raced by (intro events_ok_mono [OF t]) (simp_all add: endpoints_kept_def)
      then have "events_ok (in_endpoints s) (msgs_of (concurrent_commits rc s)) (update_where (\<lambda>i y. i = k)
          (\<lambda>y. y\<lparr>ie_status := IE_FAILED, ie_failure := fl, ie_processed_at := Some now\<rparr>) (in_events s))" for fl now
        using x none e ws by (intro events_ok_rewrite) (auto simp: event_row_ok_def)
      with ok Pair Inl e show ?thesis
        by (simp add: settle_event_def ingress_ok_alt observe_terminal_def mark_event_failed_def msgs_of_def
            concurrent_commits_def Let_def)
    next
      case (Inr r)
      from handled_event [OF race ws Pair [unfolded Inr]] obtain conv m msg now where
        h: "in_endpoints s1 = in_endpoints s"
          "in_events s1 = update_where (\<lambda>i y. i = k) (processed_row now conv m) (in_events s)"
          "list_all (\<lambda>(i, y). i = k \<or> ie_message y \<noteq> Some m) (in_events s)"
          "messages_kept (w_desk (in_desk_world s)) (w_desk (in_desk_world s1))"
          "row_get (msgs_of s1) m = Some msg" "message_of_event x conv msg" by (auto simp: msgs_of_def)
      have t1: "events_ok (in_endpoints s) (msgs_of s1) (in_events s)"
        using t h(4) by (intro events_ok_mono [OF t]) (auto simp: endpoints_kept_def messages_kept_def msgs_of_def)
      have "events_ok (in_endpoints s) (msgs_of s1) (update_where (\<lambda>i y. i = k) (processed_row now conv m) (in_events s))"
        using h(3,5,6) x e ws
        by (intro events_ok_rewrite [OF t1]) (auto simp: event_row_ok_def processed_row_def message_of_event_def)
      with ok Pair Inr e h(1,2) show ?thesis
        by (simp add: settle_event_def ingress_ok_alt observe_terminal_def msgs_of_def)
    qed
  qed
qed

text \<open>The administration of endpoints keeps their workspaces.\<close>

definition endpoints_only :: "ingress \<Rightarrow> ingress \<Rightarrow> bool" where
  "endpoints_only s s' \<longleftrightarrow> in_events s' = in_events s \<and> msgs_of s' = msgs_of s \<and>
    endpoints_kept (in_endpoints s) (in_endpoints s') \<and>
    (distinct (row_ids (in_endpoints s)) \<longrightarrow> distinct (row_ids (in_endpoints s')))"

lemma endpoints_only_ok: "endpoints_only s s' \<Longrightarrow> ingress_ok s \<Longrightarrow> ingress_ok s'"
  by (auto simp: endpoints_only_def ingress_ok_alt intro: events_ok_mono)

lemma endpoints_only_refl [simp]: "endpoints_only s s"
  by (simp add: endpoints_only_def endpoints_kept_def)

lemma endpoints_only_emit [simp]: "endpoints_only s (channel_emit e s') = endpoints_only s s'"
  by (simp add: endpoints_only_def msgs_of_def)

lemma endpoints_only_audit [simp]: "endpoints_only s (audit_channel a k actor ws meta req s') = endpoints_only s s'"
  by (simp add: audit_channel_def)

lemma endpoints_only_put:
  "row_get (in_endpoints s) k = None \<or> (\<exists>e. row_get (in_endpoints s) k = Some e \<and> gw_workspace e' = gw_workspace e) \<Longrightarrow>
    endpoints_only s (s\<lparr>in_endpoints := row_put k e' (in_endpoints s)\<rparr>)"
  by (auto simp: endpoints_only_def endpoints_kept_def msgs_of_def)

lemma write_endpoint_only:
  "(\<And>e. gw_workspace (f e) = gw_workspace e) \<Longrightarrow> write_endpoint k f s = (s', r) \<Longrightarrow> endpoints_only s s'"
  by (auto simp: write_endpoint_def intro!: endpoints_only_put split: option.splits if_splits)

lemma administration_ok:
  assumes "ingress_ok s"
  shows "ingress_ok (fst (create_channel_endpoint env secret now ws actor ch nm v connection policy config req' s))"
    and "ingress_ok (fst (update_channel_endpoint ws k actor nm' version policy' config' req' s))"
    and "ingress_ok (fst (set_channel_endpoint_status ws k actor active req' s))"
    and "ingress_ok (fst (rotate_channel_secret env secret now ws k inst actor req' s))"
  by (rule endpoints_only_ok [OF _ assms],
      auto simp: create_channel_endpoint_def update_channel_endpoint_def set_channel_endpoint_status_def
        rotate_channel_secret_def atomic_def svc_bind_def Let_def intro!: endpoints_only_put
        dest!: write_endpoint_only [rotated] split: prod.splits sum.splits option.splits)+

lemma chat_ok:
  assumes ok: "ingress_ok s"
    and kept: "\<And>t. events_ok (in_endpoints s) (msgs_of s) t \<Longrightarrow> events_ok (in_endpoints s) (msgs_of s) (other t)"
  shows "ingress_ok (fst (submit_chat_message env other now k c client_id body s))"
  using ok
  by (auto simp: submit_chat_message_def svc_bind_def ingress_ok_def [of "in_sessions_update _ _"]
      dest: ingest_ok [OF ok _ kept] split: option.splits prod.splits sum.splits)
     (auto dest!: ingest_ok [OF ok _ kept] simp: ingress_ok_def)

lemma bootstrap_ok: "ingress_ok s \<Longrightarrow> ingress_ok (fst (bootstrap_chat_session env token now ep s))"
  by (auto simp: bootstrap_chat_session_def ingress_ok_def Let_def split: option.splits)

lemma sweep_ok: "ingress_ok s \<Longrightarrow> ingress_ok (fst (recover_stuck_inbound_events cutoff batch s))"
proof -
  have "ingress_ok s \<Longrightarrow> ingress_ok (fold (\<lambda>k. channel_emit (Task process_event_task k)) ids s)" for ids
    by (induction ids arbitrary: s) (simp_all add: ingress_ok_def)
  then show "ingress_ok s \<Longrightarrow> ?thesis" by (simp add: recover_stuck_inbound_events_def Let_def)
qed

lemma ingress_step_ok: "ingress_step env s s' \<Longrightarrow> ingress_ok s \<Longrightarrow> ingress_ok s'"
proof (induction rule: ingress_step.induct)
  case (work s w c)
  then have "map_of (msgs_of s) \<subseteq>\<^sub>m map_of (dk_messages (w_desk w))" by (simp add: messages_kept_def msgs_of_def)
  then show ?case using work.prems
    by (auto simp: ingress_ok_def msgs_of_def endpoints_kept_def intro: events_ok_mono)
qed (simp_all add: webhook_ok claim_ok settle_ok administration_ok chat_ok bootstrap_ok sweep_ok)

text \<open>Under every interleaving of deliveries, workers, sweeps, chat messages and administration the events stay
  consistent: an endpoint has at most one event per provider identifier, an event belongs to the workspace of
  its endpoint, it is PROCESSED exactly when it has a message, that message is the customer's, in the event's
  conversation and with its body, and no message belongs to two events.\<close>

theorem inbound_events_stay_consistent:
  assumes "(ingress_step env)\<^sup>*\<^sup>* s s'" and "ingress_ok s"
  shows "ingress_ok s'"
  using assms by (induction rule: rtranclp_induct) (auto dest: ingress_step_ok)

subsection \<open>All or nothing\<close>

lemma process_unclaimable:
  "row_get (in_events s) k = Some x \<Longrightarrow> ie_status x \<noteq> IE_RECEIVED \<Longrightarrow>
    process_inbound_channel_event env rc clk k s = (s, Inr (ie_status x))"
  by (simp add: process_inbound_channel_event_def claim_inbound_channel_event_def atomic_def svc_bind_def)

lemma process_claims:
  assumes "row_get (in_events s) k = Some x" "ie_status x = IE_RECEIVED"
  shows "process_inbound_channel_event env rc clk k s =
    settle_event env rc clk k (x\<lparr>ie_status := IE_PROCESSING, ie_started_at := Some (clk 0)\<rparr>)
      (put_event k (x\<lparr>ie_status := IE_PROCESSING, ie_started_at := Some (clk 0)\<rparr>) s)"
  using assms
  by (simp add: process_inbound_channel_event_def claim_inbound_channel_event_def atomic_def svc_bind_def Let_def)

text \<open>The two outcomes of settling an event, as relations between the states before and after.\<close>

definition settled_failed :: "race \<Rightarrow> nat \<Rightarrow> ingress \<Rightarrow> ingress \<Rightarrow> inbound_event \<Rightarrow> bool" where
  "settled_failed rc k s s' y \<longleftrightarrow> ie_status y = IE_FAILED \<and> ie_message y = None \<and>
    ie_failure y \<in> {''orchestration_failed'', ''processing_failed''} \<and>
    in_sessions s' = in_sessions s \<and> in_crm s' = rc_crm rc (in_crm s) \<and>
    w_desk (in_desk_world s') = rc_desk rc (w_desk (in_desk_world s)) \<and>
    g_runs (w_gate (in_desk_world s')) = g_runs (rc_gate rc (w_gate (in_desk_world s)))"

definition settled_processed :: "inbound_event \<Rightarrow> ingress \<Rightarrow> ingress \<Rightarrow> inbound_event \<Rightarrow> bool" where
  "settled_processed x s s' y \<longleftrightarrow> ie_status y = IE_PROCESSED \<and>
    (\<exists>conv m msg i ru. ie_conversation y = Some conv \<and> ie_message y = Some m \<and>
      row_get (msgs_of s) m = None \<and> row_get (msgs_of s') m = Some msg \<and> message_of_event x conv msg \<and>
      (i, ru) \<in> set (g_runs (w_gate (in_desk_world s'))) \<and> run_trigger_message ru = Some m)"

lemma settle_fails:
  assumes e: "row_get (in_endpoints s) (ie_endpoint x) = Some e" and x: "row_get (in_events s) k = Some x"
    and none: "ie_message x = None"
    and failed: "handle_event env rc (\<lambda>n. clk (n + 1)) k (ie_endpoint x) e x s = (s1, Inl err)"
  obtains s' y where "settle_event env rc clk k x s = (s', Inr (ie_status y))" "row_get (in_events s') k = Some y"
    "\<And>j. j \<noteq> k \<Longrightarrow> row_get (in_events s') j = row_get (in_events s) j" "settled_failed rc k s s' y"
proof -
  define code where "code = (if is_agent_error err then channel_code OrchestrationFailedError else ''processing_failed'')"
  define y where "y = x\<lparr>ie_status := IE_FAILED, ie_failure := take 64 code, ie_processed_at := Some (clk 9)\<rparr>"
  define s' where "s' = observe_terminal e ''failed'' (mark_event_failed (clk 9) k code (concurrent_commits rc s))"
  note defs = s'_def y_def code_def observe_terminal_def mark_event_failed_def concurrent_commits_def Let_def
  have "settle_event env rc clk k x s = (s', Inr (ie_status y))"
    using failed e by (simp add: settle_event_def s'_def y_def code_def)
  moreover have "row_get (in_events s') k = Some y" using x by (simp add: defs)
  moreover have "row_get (in_events s') j = row_get (in_events s) j" if "j \<noteq> k" for j
    using that by (simp add: defs option.map_ident)
  moreover have "settled_failed rc k s s' y"
    using none by (auto simp: settled_failed_def defs channel_emit_def on_gate_def emit_def)
  ultimately show ?thesis by (rule that)
qed

lemma settle_commits:
  assumes race: "race_ok rc" and ws: "gw_workspace e = ie_workspace x"
    and e: "row_get (in_endpoints s) (ie_endpoint x) = Some e" and x: "row_get (in_events s) k = Some x"
    and handled: "handle_event env rc (\<lambda>n. clk (n + 1)) k (ie_endpoint x) e x s = (s1, Inr r)"
  obtains s' y where "settle_event env rc clk k x s = (s', Inr (ie_status y))" "row_get (in_events s') k = Some y"
    "\<And>j. j \<noteq> k \<Longrightarrow> row_get (in_events s') j = row_get (in_events s) j" "settled_processed x s s' y"
proof -
  from handled_event [OF race ws handled] obtain conv m msg now ru where
    h: "in_events s1 = update_where (\<lambda>i y. i = k) (processed_row now conv m) (in_events s)"
      "row_get (msgs_of s) m = None" "row_get (msgs_of s1) m = Some msg" "message_of_event x conv msg"
      "(r, ru) \<in> set (g_runs (w_gate (in_desk_world s1)))" "run_trigger_message ru = Some m"
    unfolding msgs_of_def by blast
  define y where "y = processed_row now conv m x"
  define s' where "s' = observe_terminal e ''processed'' s1"
  have same: "in_events s' = in_events s1" "msgs_of s' = msgs_of s1"
    "g_runs (w_gate (in_desk_world s')) = g_runs (w_gate (in_desk_world s1))"
    by (simp_all add: s'_def observe_terminal_def msgs_of_def channel_emit_def on_gate_def emit_def)
  have st: "ie_status y = IE_PROCESSED" "ie_conversation y = Some conv" "ie_message y = Some m"
    by (simp_all add: y_def processed_row_def)
  have "settle_event env rc clk k x s = (s', Inr (ie_status y))"
    using handled e by (simp add: settle_event_def s'_def st)
  moreover have "row_get (in_events s') k = Some y" using x by (simp add: same h(1) y_def)
  moreover have "row_get (in_events s') j = row_get (in_events s) j" if "j \<noteq> k" for j
    using that by (simp add: same h(1) option.map_ident)
  moreover have "settled_processed x s s' y"
    unfolding settled_processed_def same st using h(2-6) by blast
  ultimately show ?thesis by (rule that)
qed

text \<open>A delivered event is handled entirely or not at all, and once. Its worker always returns: either the
  event is PROCESSED and linked to a new message of the customer with its body, for which a run exists, or it
  is FAILED with a code, no message is linked, and sessions, customers, conversations and runs are what the
  concurrent transactions alone made of them. Either way no other event changes and a redelivered task does
  nothing.\<close>

theorem event_handled_entirely_or_not_at_all:
  assumes ok: "ingress_ok s" and race: "race_ok rc"
    and x: "row_get (in_events s) k = Some x" "ie_status x = IE_RECEIVED"
  shows "\<exists>s' y. process_inbound_channel_event env rc clk k s = (s', Inr (ie_status y)) \<and>
    row_get (in_events s') k = Some y \<and>
    (\<forall>j. j \<noteq> k \<longrightarrow> row_get (in_events s') j = row_get (in_events s) j) \<and>
    (\<forall>env' rc' clk'. process_inbound_channel_event env' rc' clk' k s' = (s', Inr (ie_status y))) \<and>
    (settled_processed x s s' y \<or> settled_failed rc k s s' y)"
proof -
  define x0 where "x0 = x\<lparr>ie_status := IE_PROCESSING, ie_started_at := Some (clk 0)\<rparr>"
  define s0 where "s0 = put_event k x0 s"
  have s0: "in_endpoints s0 = in_endpoints s" "in_sessions s0 = in_sessions s" "in_crm s0 = in_crm s"
    "in_desk_world s0 = in_desk_world s" "in_events s0 = row_put k x0 (in_events s)" "msgs_of s0 = msgs_of s"
    by (simp_all add: s0_def put_event_def msgs_of_def)
  have run: "process_inbound_channel_event env rc clk k s = settle_event env rc clk k x0 s0"
    unfolding s0_def x0_def by (rule process_claims [OF x])
  from ok x have "event_row_ok (in_endpoints s) (msgs_of s) x" by (simp add: ingress_ok_alt events_ok_def)
  then obtain e where e: "row_get (in_endpoints s0) (ie_endpoint x0) = Some e" and ws: "gw_workspace e = ie_workspace x0"
    and none: "ie_message x0 = None" using x(2) by (auto simp: event_row_ok_def x0_def s0)
  have x0: "row_get (in_events s0) k = Some x0" by (simp add: s0)
  have failed: "settled_failed rc k s0 s' y = settled_failed rc k s s' y" for s' y
    by (simp add: settled_failed_def s0)
  have processed: "settled_processed x0 s0 s' y = settled_processed x s s' y" for s' y
    by (simp add: settled_processed_def s0 message_of_event_def x0_def)
  obtain s' y where "settle_event env rc clk k x0 s0 = (s', Inr (ie_status y))" "row_get (in_events s') k = Some y"
    "\<And>j. j \<noteq> k \<Longrightarrow> row_get (in_events s') j = row_get (in_events s0) j"
    "settled_processed x s s' y \<or> settled_failed rc k s s' y"
  proof (cases "handle_event env rc (\<lambda>n. clk (n + 1)) k (ie_endpoint x0) e x0 s0")
    case (Pair s1 res)
    then show thesis
      by (cases res) (metis that settle_fails [OF e x0 none] failed, metis that settle_commits [OF race ws e x0] processed)
  qed
  moreover from this(4) have "ie_status y \<noteq> IE_RECEIVED" by (auto simp: settled_processed_def settled_failed_def)
  ultimately show ?thesis
    using process_unclaimable [of s' k y] run by (intro exI [of _ s'] exI [of _ y]) (simp add: s0)
qed

subsection \<open>Identities and threads that end in a blank\<close>

text \<open>What \<open>Customer.save\<close> and \<open>create_conversation\<close> keep of their tables: external identifiers are stripped.\<close>

definition external_ids_stripped :: "customer rows \<Rightarrow> bool" where
  "external_ids_stripped t \<longleftrightarrow> (\<forall>(i, c) \<in> set t. case cu_external_id c of None \<Rightarrow> True | Some u \<Rightarrow> u \<noteq> [] \<and> py_strip u = u)"

lemma customer_by_external_idD:
  "customer_get_by_external_id_for_workspace ws ext s = Some (i, c) \<Longrightarrow>
    (i, c) \<in> set (crm_customers s) \<and> cu_workspace c = ws \<and> cu_external_id c = Some ext"
  by (auto simp: customer_get_by_external_id_for_workspace_def newest_first_def rows_where_def dest!: first_row_Some)

lemma put_stripped:
  "external_ids_stripped t \<Longrightarrow> (case cu_external_id c of None \<Rightarrow> True | Some u \<Rightarrow> u \<noteq> [] \<and> py_strip u = u) \<Longrightarrow>
    external_ids_stripped (row_put k c t)"
proof -
  assume a: "external_ids_stripped t" "case cu_external_id c of None \<Rightarrow> True | Some u \<Rightarrow> u \<noteq> [] \<and> py_strip u = u"
  have "set (row_put k c t) \<subseteq> insert (k, c) (set t)" by (induction t) auto
  with a show ?thesis unfolding external_ids_stripped_def by fast
qed

lemma save_customer_stripped:
  "save_customer k c s = (s', r) \<Longrightarrow> external_ids_stripped (crm_customers s) \<Longrightarrow> external_ids_stripped (crm_customers s')"
  by (auto simp: save_customer_def normalize_customer_def strip_strip Let_def intro!: put_stripped
      split: if_splits option.splits)

lemma normalize_customer_key [simp]:
  "cu_workspace (normalize_customer c) = cu_workspace c"
  "cu_external_id (normalize_customer c) =
    (case cu_external_id c of None \<Rightarrow> None | Some x \<Rightarrow> if py_strip x = [] then None else Some (py_strip x))"
  by (simp_all add: normalize_customer_def Let_def split: option.split)

lemma create_customer_conflict:
  assumes "(i, c) \<in> set (crm_customers s)" "cu_workspace c = ws" "cu_external_id c = Some (py_strip key)"
    and "py_strip key \<noteq> []" "cd_external_id d = Some (Some key)"
  shows "\<exists>err. create_customer now ws d s = (s, Inl err)"
proof -
  have "i \<noteq> fresh_id (crm_customers s)"
    using assms(1) fresh_id_not_in [of "crm_customers s"] by (force simp: row_ids_def)
  then have "external_id_taken (fresh_id (crm_customers s)) (normalize_customer (set_fields d c')) (crm_customers s)"
    if "cu_workspace c' = ws" for c'
    using assms that by (auto simp: external_id_taken_def list_ex_iff set_fields_def intro!: bexI [of _ "(i, c)"])
  then show ?thesis
    by (auto simp: create_customer_def atomic_def svc_bind_def save_customer_def Let_def)
qed

lemma processed_fails:
  assumes x: "row_get (in_events s) k = Some x" "ie_status x = IE_RECEIVED"
    and e: "row_get (in_endpoints s) (ie_endpoint x) = Some e" and none: "ie_message x = None"
    and fails: "\<And>x0 (s0 :: ingress). x0 = x\<lparr>ie_status := IE_PROCESSING, ie_started_at := Some (clk 0)\<rparr> \<Longrightarrow>
      in_crm s0 = in_crm s \<Longrightarrow> in_desk_world s0 = in_desk_world s \<Longrightarrow>
      \<exists>s1 err. handle_event env rc (\<lambda>n. clk (n + 1)) k (ie_endpoint x0) e x0 s0 = (s1, Inl err)"
  shows "\<exists>s'. process_inbound_channel_event env rc clk k s = (s', Inr IE_FAILED)"
proof -
  define x0 where "x0 = x\<lparr>ie_status := IE_PROCESSING, ie_started_at := Some (clk 0)\<rparr>"
  define s0 where "s0 = put_event k x0 s"
  have "in_crm s0 = in_crm s" "in_desk_world s0 = in_desk_world s" by (simp_all add: s0_def put_event_def)
  from fails [OF x0_def this] obtain s1 err where
    h: "handle_event env rc (\<lambda>n. clk (n + 1)) k (ie_endpoint x0) e x0 s0 = (s1, Inl err)" by blast
  have "row_get (in_endpoints s0) (ie_endpoint x0) = Some e" "row_get (in_events s0) k = Some x0" "ie_message x0 = None"
    using e none by (simp_all add: s0_def x0_def put_event_def)
  from settle_fails [OF this h] obtain s' y where
    "settle_event env rc clk k x0 s0 = (s', Inr (ie_status y))" "settled_failed rc k s0 s' y" .
  then show ?thesis unfolding process_claims [OF x] x0_def [symmetric] s0_def [symmetric]
    by (auto simp: settled_failed_def)
qed

text \<open>A customer whose channel identity begins or ends with a blank is served once: the identity is looked up as
  it was sent but stored stripped, so after the first event has created the customer every later event of the
  same sender fails on the unique external identifier, whatever the unknown-customer policy.\<close>

theorem padded_identity_fails_after_its_first_event:
  assumes stripped: "external_ids_stripped (crm_customers (in_crm s))"
    and x: "row_get (in_events s) k = Some x" "ie_status x = IE_RECEIVED" "ie_message x = None"
    and e: "row_get (in_endpoints s) (ie_endpoint x) = Some e"
    and padded: "py_strip (channel_identity_key (gw_channel e) (ie_identity x)) \<noteq> channel_identity_key (gw_channel e) (ie_identity x)"
    and known: "(i, c) \<in> set (crm_customers (in_crm s))" "cu_workspace c = gw_workspace e"
      "cu_external_id c = Some (py_strip (channel_identity_key (gw_channel e) (ie_identity x)))"
  shows "\<exists>s'. process_inbound_channel_event env no_race clk k s = (s', Inr IE_FAILED)"
proof (rule processed_fails [OF x(1,2) e x(3)])
  fix x0 :: inbound_event and s0 :: ingress
  assume x0: "x0 = x\<lparr>ie_status := IE_PROCESSING, ie_started_at := Some (clk 0)\<rparr>" and crm: "in_crm s0 = in_crm s"
  define key where "key = channel_identity_key (gw_channel e) (ie_identity x)"
  have absent: "customer_get_by_external_id_for_workspace (gw_workspace e) key (in_crm s) = None"
  proof (rule ccontr)
    assume "customer_get_by_external_id_for_workspace (gw_workspace e) key (in_crm s) \<noteq> None"
    then obtain j d where "(j, d) \<in> set (crm_customers (in_crm s))" "cu_external_id d = Some key"
      by (force dest: customer_by_external_idD)
    with stripped padded show False by (fastforce simp: external_ids_stripped_def key_def)
  qed
  have "py_strip key \<noteq> []" using stripped known by (fastforce simp: external_ids_stripped_def key_def)
  note taken = create_customer_conflict [OF known [folded key_def] this]
  have "\<exists>s1 err. resolve_customer_identity no_race (clk 1) e x0 s0 = (s1, Inl err)"
    using absent taken [where now = "clk 1" and d = "no_customer_data\<lparr>cd_external_id := Some (Some key),
        cd_email := Some (if gw_channel e = EMAIL then Some (ie_identity x) else None),
        cd_display_name := Some (ie_identity x)\<rparr>"]
    by (auto simp: resolve_customer_identity_def no_race_def x0 crm key_def [symmetric] Let_def)
  then show "\<exists>s1 err. handle_event env no_race (\<lambda>n. clk (n + 1)) k (ie_endpoint x0) e x0 s0 = (s1, Inl err)"
    by (auto simp: handle_event_def svc_bind_def)
qed

subsection \<open>Polling a web chat\<close>

text \<open>What a cursor leaves to be shown: everything when there is no cursor or it names no message of the
  conversation.\<close>

definition after_cursor :: "nat option \<Rightarrow> nat \<Rightarrow> message rows \<Rightarrow> message \<Rightarrow> bool" where
  "after_cursor cursor conv t m \<longleftrightarrow>
    (\<forall>i a. cursor = Some i \<and> row_get t i = Some a \<and> ms_conversation a = conv \<longrightarrow> sent_before a m)"

lemma first_row_key: "distinct (map fst q) \<Longrightarrow> first_row (rows_where (\<lambda>j m. j = i) q) = map_option (Pair i) (map_of q i)"
  by (induction q) (auto simp: first_row_def rows_where_def filter_empty_conv split: option.splits list.splits)

lemma chat_page:
  assumes c: "ch_conversation c = Some conv" and ids: "distinct (row_ids (msgs_of s))"
    and seqs: "distinct (map (ms_sequence \<circ> snd) (msgs_of s))"
  shows "list_chat_messages env c cursor s = take (ne_history_limit env)
    (filter (\<lambda>r. after_cursor cursor conv (msgs_of s) (snd r)) (message_list_for_conversation conv (w_desk (in_desk_world s))))"
proof -
  let ?q = "message_list_for_conversation conv (w_desk (in_desk_world s))"
  note q = conversation_listing [where k = conv, OF ids [unfolded msgs_of_def] seqs [unfolded msgs_of_def]]
  have get: "row_get (msgs_of s) i = Some a \<longleftrightarrow> (i, a) \<in> set (msgs_of s)" for i a using ids by (simp add: row_ids_def)
  have row: "map_of ?q i = Some a \<longleftrightarrow> row_get (msgs_of s) i = Some a \<and> ms_conversation a = conv" for i a
    using q(2) q(3) [of "(i, a)"] get [of i a] by (simp add: msgs_of_def)
  show ?thesis
  proof (cases "Option.bind cursor (map_of ?q)")
    case None
    have "sent_before a m" if "cursor = Some i \<and> row_get (msgs_of s) i = Some a \<and> ms_conversation a = conv" for i a m
      using that None row [of i a] by simp
    then have "after_cursor cursor conv (msgs_of s) m" for m unfolding after_cursor_def by blast
    moreover have "Option.bind cursor (\<lambda>i. first_row (rows_where (\<lambda>j m. j = i) ?q)) = None"
      using None by (cases cursor) (simp_all add: first_row_key [OF q(2)])
    ultimately show ?thesis using c by (simp add: list_chat_messages_def)
  next
    case (Some a)
    then obtain i where i: "cursor = Some i" "map_of ?q i = Some a" by (auto split: bind_splits)
    then have "after_cursor cursor conv (msgs_of s) m \<longleftrightarrow> sent_before a m" for m
      using row [of i a] by (auto simp: after_cursor_def)
    moreover have "rows_where (\<lambda>j m. ms_created_at m > ms_created_at a \<or>
        (ms_created_at m = ms_created_at a \<and> ms_sequence m > ms_sequence a)) ?q = filter (\<lambda>r. sent_before a (snd r)) ?q"
      by (auto simp: rows_where_def sent_before_def case_prod_unfold intro!: filter_cong)
    ultimately show ?thesis using c i by (simp add: list_chat_messages_def first_row_key [OF q(2)])
  qed
qed

text \<open>C31. A poll of a web chat shows the next messages. For a session of a conversation and any cursor, the page is
  in the order the messages were sent, without repetition and no longer than the limit; every message of the
  page belongs to the conversation and was sent after the message the cursor names; and when a message of the
  conversation sent after the cursor is not on the page, then the page is full and everything on it was sent
  before that message. So a client that always sends the last message it received misses and repeats nothing
  as long as no message appears that was sent, by time and then by sequence number, before its cursor; such a
  message is on no later page.\<close>

theorem chat_page_shows_the_next_messages:
  assumes "ch_conversation c = Some conv" and "distinct (row_ids (msgs_of s))"
    and "distinct (map (ms_sequence \<circ> snd) (msgs_of s))"
    and "page = list_chat_messages env c cursor s"
  shows "sorted_wrt (\<lambda>a b. sent_before (snd a) (snd b)) page \<and> distinct (map fst page) \<and>
    length page \<le> ne_history_limit env \<and>
    (\<forall>(i, m) \<in> set page. row_get (msgs_of s) i = Some m \<and> ms_conversation m = conv \<and>
      after_cursor cursor conv (msgs_of s) m) \<and>
    (\<forall>i m. row_get (msgs_of s) i = Some m \<and> ms_conversation m = conv \<and> after_cursor cursor conv (msgs_of s) m \<and>
      (i, m) \<notin> set page \<longrightarrow> length page = ne_history_limit env \<and> (\<forall>(j, n) \<in> set page. sent_before n m))"
proof -
  let ?q = "message_list_for_conversation conv (w_desk (in_desk_world s))"
  let ?later = "filter (\<lambda>r. after_cursor cursor conv (msgs_of s) (snd r)) ?q"
  note q = conversation_listing [where k = conv, OF assms(2,3) [unfolded msgs_of_def]]
  have get: "row_get (msgs_of s) i = Some a \<longleftrightarrow> (i, a) \<in> set (msgs_of s)" for i a using assms(2) by (simp add: row_ids_def)
  have page: "page = take (ne_history_limit env) ?later" unfolding assms(4) by (rule chat_page [OF assms(1-3)])
  have order: "sorted_wrt (\<lambda>a b. sent_before (snd a) (snd b)) ?later" using q(1) by (rule sorted_wrt_filter)
  have "distinct (map fst ?later)" using q(2) by (rule distinct_map_filter)
  then have "distinct (map fst page)" unfolding page take_map [symmetric] by (rule distinct_take)
  moreover have "sorted_wrt (\<lambda>a b. sent_before (snd a) (snd b)) page" unfolding page using order by (rule sorted_wrt_take)
  moreover have "length page \<le> ne_history_limit env" by (simp add: page)
  moreover have "row_get (msgs_of s) i = Some m \<and> ms_conversation m = conv \<and> after_cursor cursor conv (msgs_of s) m"
    if "(i, m) \<in> set page" for i m
    using in_set_takeD [OF that [unfolded page]] q(3) [of "(i, m)"] get by (simp add: msgs_of_def)
  moreover have "length page = ne_history_limit env \<and> (\<forall>(j, n) \<in> set page. sent_before n m)"
    if "row_get (msgs_of s) i = Some m" "ms_conversation m = conv" "after_cursor cursor conv (msgs_of s) m" "(i, m) \<notin> set page" for i m
  proof -
    have "(i, m) \<in> set ?later" using that q(3) [of "(i, m)"] get by (simp add: msgs_of_def)
    from left_out_of_page [OF order this that(4) [unfolded page]] show ?thesis unfolding page by fastforce
  qed
  ultimately show ?thesis by blast
qed

subsection \<open>Examples\<close>

text \<open>One webhook endpoint (1) of workspace 1 whose agent version is published, and an environment of concrete
  functions: the request body is its own JSON event, the MAC is the secret followed by the message.\<close>

definition example_event_body :: "(string \<times> json) list" where
  "example_event_body = [(''event_id'', JStr ''e1''), (''external_id'', JStr ''bob ''), (''body'', JStr ''help'')]"

definition example_channel_env :: channel_env where
  "example_channel_env = \<lparr>ne_show = (\<lambda>n. replicate n CHR ''i''), ne_sha256 = take 8, ne_hmac = (\<lambda>key msg. key @ msg),
     ne_loads = (\<lambda>t. if t = ''{e1}'' then Some (JObj example_event_body) else None), ne_encrypt = (\<lambda>j. None),
     ne_decrypt = (\<lambda>t. Some (JObj [(''secret'', JStr t)])), ne_show_int = (\<lambda>n. ''100''),
     ne_parse_datetime = (\<lambda>t. NotWellFormed), ne_utf8 = (\<lambda>t. t), ne_max_body_bytes = 1000, ne_max_message = 100,
     ne_max_past = 300, ne_max_future = 60, ne_session_ttl = 60, ne_history_limit = 2\<rparr>"

definition example_endpoint :: channel_endpoint where
  "example_endpoint = \<lparr>gw_workspace = 1, gw_channel = GENERIC_WEBHOOK, gw_name = ''hook'', gw_active = True, gw_version = 2,
     gw_connection = None, gw_policy = CREATE_CUSTOMER, gw_secret = ''key'', gw_secret_created_at = Some 0,
     gw_configuration = [], gw_created_by = Some 1, gw_created_at = 0\<rparr>"

definition example_ingress :: ingress where
  "example_ingress = \<lparr>in_endpoints = [(1, example_endpoint)], in_events = [], in_sessions = [],
     in_crm = \<lparr>crm_customers = [], crm_effects = []\<rparr>, in_desk_world = world_of (tool_gate)\<rparr>"

definition example_request :: http_request where
  "example_request = \<lparr>hr_body = ''{e1}'', hr_timestamp = ''100'', hr_signature = ''v1=key100.{e1}''\<rparr>"

definition delivered :: ingress where
  "delivered = fst (inbound_webhook example_channel_env (\<lambda>t. t) 120 1 example_request example_ingress)"


lemma example_ingress_ok: "ingress_ok example_ingress"
  by (simp add: ingress_ok_def events_ok_def example_ingress_def row_ids_def)

lemma no_race_ok: "race_ok no_race"
  by (simp add: race_ok_def no_race_def)

lemma delivered_ok: "ingress_ok delivered"
  unfolding delivered_def by (rule webhook_ok [OF example_ingress_ok])

lemma example_delivery:
  "inbound_webhook example_channel_env (\<lambda>t. t) 120 1 example_request example_ingress = (delivered, Accepted 1)"
proof -
  have "snd (inbound_webhook example_channel_env (\<lambda>t. t) 120 1 example_request example_ingress) = Accepted 1" by code_simp
  then show ?thesis unfolding delivered_def by (metis prod.collapse)
qed

theorem accepted_webhook_is_authentic_witness:
  "\<exists>e t x. row_get (in_endpoints example_ingress) 1 = Some e \<and> gw_active e \<and> py_int ''100'' = Some t \<and> 120 - 300 \<le> t \<and>
    (1, x) \<in> set (in_events delivered) \<and> ie_digest x = ''{e1}''"
  using accepted_webhook_is_authentic [OF example_delivery]
  by (auto simp: example_channel_env_def example_request_def)

theorem inbound_events_stay_consistent_witness:
  "ingress_ok (fst (claim_inbound_channel_event 121 1 delivered))"
proof (rule inbound_events_stay_consistent [OF _ example_ingress_ok])
  have "ingress_step example_channel_env example_ingress delivered"
    unfolding delivered_def by (rule ingress_step.deliver)
  then show "(ingress_step example_channel_env)\<^sup>*\<^sup>* example_ingress (fst (claim_inbound_channel_event 121 1 delivered))"
    by (meson ingress_step.claim r_into_rtranclp rtranclp.rtrancl_into_rtrancl)
qed

definition first_event :: inbound_event where
  "first_event = the (row_get (in_events delivered) 1)"

lemma first_event:
  "row_get (in_events delivered) 1 = Some first_event" "ie_status first_event = IE_RECEIVED"
  "ie_endpoint first_event = 1" "ie_identity first_event = ''bob ''" "ie_message first_event = None"
proof -
  have "map_option (\<lambda>x. (ie_status x, ie_endpoint x, ie_identity x, ie_message x)) (row_get (in_events delivered) 1) =
    Some (IE_RECEIVED, 1, ''bob '', None)" by code_simp
  then show "row_get (in_events delivered) 1 = Some first_event" "ie_status first_event = IE_RECEIVED"
    "ie_endpoint first_event = 1" "ie_identity first_event = ''bob ''" "ie_message first_event = None"
    by (auto simp: first_event_def)
qed

definition after_first :: ingress where
  "after_first = fst (process_inbound_channel_event example_channel_env no_race int 1 delivered)"

lemma after_first:
  "map_option ie_status (row_get (in_events after_first) 1) = Some IE_PROCESSED"
  "map (\<lambda>(i, c). (i, cu_workspace c, cu_external_id c)) (crm_customers (in_crm after_first)) =
    [(1, 1, Some ''generic_webhook:bob'')]" "in_endpoints after_first = [(1, example_endpoint)]"
proof -
  have "map_option ie_status (row_get (in_events after_first) 1) = Some IE_PROCESSED \<and>
    map (\<lambda>(i, c). (i, cu_workspace c, cu_external_id c)) (crm_customers (in_crm after_first)) =
      [(1, 1, Some ''generic_webhook:bob'')] \<and> in_endpoints after_first = [(1, example_endpoint)]" by code_simp
  then show "map_option ie_status (row_get (in_events after_first) 1) = Some IE_PROCESSED"
    "map (\<lambda>(i, c). (i, cu_workspace c, cu_external_id c)) (crm_customers (in_crm after_first)) =
      [(1, 1, Some ''generic_webhook:bob'')]" "in_endpoints after_first = [(1, example_endpoint)]" by blast+
qed

theorem event_handled_entirely_or_not_at_all_witness:
  "\<exists>y. row_get (in_events after_first) 1 = Some y \<and> settled_processed first_event delivered after_first y"
proof -
  obtain s' y where r: "process_inbound_channel_event example_channel_env no_race int 1 delivered = (s', Inr (ie_status y))"
    "row_get (in_events s') 1 = Some y"
    "settled_processed first_event delivered s' y \<or> settled_failed no_race 1 delivered s' y"
    using event_handled_entirely_or_not_at_all [OF delivered_ok no_race_ok first_event(1,2), where env = example_channel_env
        and clk = int] by blast
  then have s': "s' = after_first" by (simp add: after_first_def)
  then have "ie_status y = IE_PROCESSED" using r(2) after_first(1) by simp
  with r(2,3) s' show ?thesis by (auto simp: settled_failed_def)
qed

text \<open>A second event of the sender \<open>bob\<close>, whose identity carries a trailing blank.\<close>

definition second_event :: inbound_event where
  "second_event = first_event\<lparr>ie_provider_event := ''e2'', ie_digest := ''{e2}''\<rparr>"

definition second_delivered :: ingress where
  "second_delivered = put_event 2 second_event after_first"

lemma bob_key: "channel_identity_key GENERIC_WEBHOOK ''bob '' = ''generic_webhook:bob ''"
    "py_strip ''generic_webhook:bob '' = ''generic_webhook:bob''" "py_strip ''generic_webhook:bob'' = ''generic_webhook:bob''"
  by code_simp+

theorem padded_identity_fails_after_its_first_event_witness:
  "\<exists>s'. process_inbound_channel_event example_channel_env no_race int 2 second_delivered = (s', Inr IE_FAILED)"
proof -
  obtain c where c: "crm_customers (in_crm after_first) = [(1, c)]" "cu_workspace c = 1"
    "cu_external_id c = Some ''generic_webhook:bob''" using after_first(2) by auto
  have "\<exists>s'. process_inbound_channel_event env no_race clk 2 second_delivered = (s', Inr IE_FAILED)" for env clk
    by (rule padded_identity_fails_after_its_first_event [where x = second_event and e = example_endpoint and i = 1 and c = c])
       (simp_all add: second_delivered_def put_event_def second_event_def first_event c after_first bob_key
         example_endpoint_def external_ids_stripped_def)
  then show ?thesis .
qed

text \<open>Three messages, two of them of the same instant and with identifiers in the opposite order of their sequence
  numbers, read with a page size of two: the page after \<open>b\<close> (3) is \<open>c\<close> (2).\<close>

definition chat_message :: "int \<Rightarrow> string \<Rightarrow> nat \<Rightarrow> message" where
  "chat_message t body n = \<lparr>ms_workspace = 1, ms_conversation = 1, ms_sender_type = SND_CUSTOMER, ms_sender = None,
     ms_direction = INBOUND, ms_body = body, ms_external_id = None, ms_created_at = t, ms_metadata = JObj [], ms_sequence = n\<rparr>"

definition chatting :: ingress where
  "chatting = set_desk (empty_desk\<lparr>dk_messages := [(3, chat_message 7 ''b'' 5), (2, chat_message 7 ''c'' 6), (1, chat_message 5 ''a'' 4)]\<rparr>)
     example_ingress"

definition example_chat :: chat_session where
  "example_chat = \<lparr>ch_workspace = 1, ch_endpoint = 1, ch_customer = Some 1, ch_conversation = Some 1, ch_token_hash = ''h'',
     ch_expires_at = 1000, ch_last_seen_at = None\<rparr>"

theorem chat_page_shows_the_next_messages_witness:
  "(2, chat_message 7 ''c'' 6) \<in> set (list_chat_messages example_channel_env example_chat (Some 3) chatting)"
proof -
  have hyps: "ch_conversation example_chat = Some 1" "distinct (row_ids (msgs_of chatting))"
    "distinct (map (ms_sequence \<circ> snd) (msgs_of chatting))"
    by (simp_all add: example_chat_def chatting_def msgs_of_def row_ids_def chat_message_def)
  have "length (list_chat_messages example_channel_env example_chat (Some 3) chatting) \<noteq> ne_history_limit example_channel_env"
    by code_simp
  moreover have "row_get (msgs_of chatting) 2 = Some (chat_message 7 ''c'' 6)" "ms_conversation (chat_message 7 ''c'' 6) = 1"
    "after_cursor (Some 3) 1 (msgs_of chatting) (chat_message 7 ''c'' 6)"
    by (auto simp: chatting_def msgs_of_def chat_message_def after_cursor_def sent_before_def)
  ultimately show ?thesis
    using chat_page_shows_the_next_messages [OF hyps refl, of example_channel_env "Some 3"] by blast
qed

end
