(* ===== verification/OrchestrationProperties.thy ===== *)
theory OrchestrationProperties
  imports MessageOrder ToolExample
begin

section \<open>What the orchestration guarantees\<close>

text \<open>
  The conversation context of a run is bounded in messages and characters, holds only messages of the
  conversation the customer and its agents exchanged up to the trigger, ends with the trigger, and says when it
  is incomplete; the references are bounded and cited; a tool catalog offers only bound and registered tools.
\<close>

subsection \<open>The conversation context\<close>

text \<open>A message of the context is a prefix of a row of the table, in the role the row has.\<close>

definition cut_of :: "message rows \<Rightarrow> context_message \<Rightarrow> bool" where
  "cut_of q x \<longleftrightarrow> (\<exists>n. (cx_message x, n) \<in> set q \<and> normalized_role n = Some (cx_role x) \<and>
    (\<exists>l. cx_content x = take l (ms_body n)) \<and> (cx_truncated x \<longleftrightarrow> cx_content x \<noteq> ms_body n) \<and>
    cx_created_at x = ms_created_at n)"

definition chars_of :: "context_message list \<Rightarrow> nat" where
  "chars_of xs = total_content (map cx_content xs)"

lemma chars_of_simps [simp]:
  "chars_of [] = 0" "chars_of (x # xs) = length (cx_content x) + chars_of xs"
  "chars_of (xs @ ys) = chars_of xs + chars_of ys" "chars_of (rev xs) = chars_of xs"
  by (simp_all add: chars_of_def total_content_def rev_map [symmetric] sum_list_rev)

lemma bounded_message_fields [simp]:
  "cx_message (bounded_message i m role n) = i" "cx_role (bounded_message i m role n) = role"
  "cx_content (bounded_message i m role n) = take n (ms_body m)"
  "cx_created_at (bounded_message i m role n) = ms_created_at m"
  "cx_truncated (bounded_message i m role n) \<longleftrightarrow> take n (ms_body m) \<noteq> ms_body m"
  by (auto simp: bounded_message_def)

lemma retain_length: "length (retain trigger slots left q) \<le> slots"
proof (induction trigger slots left q rule: retain.induct)
  case (2 trigger slots left i m rest)
  then show ?case by (auto simp: Let_def split: option.splits) (metis Suc_pred le_SucI not_gr0 not_less_eq_eq)+
qed simp

lemma retain_chars: "chars_of (retain trigger slots left q) \<le> left"
proof (induction trigger slots left q rule: retain.induct)
  case (2 trigger slots left i m rest)
  then show ?case by (auto simp: Let_def split: option.splits) fastforce+
qed simp

lemma cut_of_Cons: "cut_of rest x \<Longrightarrow> cut_of (r # rest) x"
  by (auto simp: cut_of_def)

lemma bounded_cut: "normalized_role m = Some role \<Longrightarrow> cut_of ((i, m) # rest) (bounded_message i m role l)"
  by (auto simp: cut_of_def intro!: exI [of _ m])

lemma retain_cuts: "x \<in> set (retain trigger slots left q) \<Longrightarrow> cut_of q x \<and> cx_message x \<noteq> trigger"
proof (induction trigger slots left q rule: retain.induct)
  case (2 trigger slots left i m rest)
  then show ?case by (auto simp: Let_def bounded_cut intro: cut_of_Cons split: if_splits option.splits)
qed simp

lemma retain_ids: "set (map cx_message (retain trigger slots left q)) \<subseteq> set (map fst q)"
  using retain_cuts by (force simp: cut_of_def)

lemma retain_distinct: "distinct (map fst q) \<Longrightarrow> distinct (map cx_message (retain trigger slots left q))"
proof (induction trigger slots left q rule: retain.induct)
  case (2 trigger slots left i m rest)
  have "i \<notin> cx_message ` set (retain trigger (slots - 1) (left - length (take left (ms_body m))) rest)"
    using 2(5) retain_ids [of trigger "slots - 1" "left - length (take left (ms_body m))" rest] by auto
  with 2 show ?case by (auto simp: Let_def split: option.splits)
qed simp

lemma retain_times:
  "sorted_wrt (\<ge>) (map (ms_created_at \<circ> snd) q) \<Longrightarrow> sorted_wrt (\<ge>) (map cx_created_at (retain trigger slots left q))"
proof (induction trigger slots left q rule: retain.induct)
  case (2 trigger slots left i m rest)
  have "ms_created_at m \<ge> cx_created_at y" if "y \<in> set (retain trigger a b rest)" for y a b
    using retain_cuts [OF that] 2(5) by (force simp: cut_of_def)
  with 2 show ?case by (auto simp: Let_def split: option.splits)
qed simp

lemma context_listing:
  "set (message_list_for_conversation k d) = {(j, n). (j, n) \<in> set (dk_messages d) \<and> ms_conversation n = k}"
  by (auto simp: message_list_for_conversation_def rows_where_def)

text \<open>The loop keeps the newest: what it leaves out, unless blank, is older than all it keeps, and it leaves it
  out only when the room for messages or characters is used up.\<close>

definition answerable :: "nat \<Rightarrow> nat \<times> message \<Rightarrow> bool" where
  "answerable trigger r \<longleftrightarrow> fst r \<noteq> trigger \<and> normalized_role (snd r) \<noteq> None \<and> ms_body (snd r) \<noteq> []"

lemma retain_newest:
  assumes "sorted_wrt (\<lambda>a b. sent_before (snd b) (snd a)) q" and "r \<in> set q" and "answerable trigger r"
    and "fst r \<notin> cx_message ` set (retain trigger slots left q)"
  shows "(\<forall>x \<in> set (retain trigger slots left q). \<exists>m. (cx_message x, m) \<in> set q \<and> sent_before (snd r) m) \<and>
    (length (retain trigger slots left q) = slots \<or> chars_of (retain trigger slots left q) = left)"
  using assms
proof (induction q arbitrary: slots left)
  case (Cons e q)
  obtain i m where e: "e = (i, m)" by (cases e)
  let ?x = "\<lambda>role. bounded_message i m role left"
  note IH = Cons.IH [OF _ _ Cons.prems(3)]
  have tail: "sorted_wrt (\<lambda>a b. sent_before (snd b) (snd a)) q" using Cons.prems(1) by simp
  consider "i = trigger" | "i \<noteq> trigger" "slots = 0 \<or> left = 0"
    | "i \<noteq> trigger" "slots \<noteq> 0" "left \<noteq> 0" "normalized_role m = None \<or> ms_body m = []"
    | role where "i \<noteq> trigger" "slots \<noteq> 0" "left \<noteq> 0" "normalized_role m = Some role" "ms_body m \<noteq> []"
    by (cases "normalized_role m") auto
  then show ?case
  proof cases
    case 1
    then have "retain trigger slots left (e # q) = retain trigger slots left q" by (simp add: e)
    moreover have "r \<in> set q" using 1 Cons.prems(2,3) e by (auto simp: answerable_def)
    ultimately show ?thesis using IH [OF tail] Cons.prems(4) by fastforce
  next
    case 2
    then show ?thesis by (simp add: e)
  next
    case 3
    then have "retain trigger slots left (e # q) = retain trigger slots left q"
      by (auto simp: e Let_def split: option.split)
    moreover have "r \<in> set q" using 3 Cons.prems(2,3) e by (auto simp: answerable_def)
    ultimately show ?thesis using IH [OF tail] Cons.prems(4) by fastforce
  next
    case 4
    let ?q = "retain trigger (slots - 1) (left - length (take left (ms_body m))) q"
    have kept: "retain trigger slots left (e # q) = ?x role # ?q" using 4 by (simp add: e Let_def)
    with Cons.prems(2,4) e have r: "r \<in> set q" "fst r \<notin> cx_message ` set ?q" by auto
    note more = IH [OF tail r(1), of "slots - 1" "left - length (take left (ms_body m))", OF r(2)]
    have "sent_before (snd r) m" using Cons.prems(1) r(1) e by simp
    with more have "\<forall>x \<in> set (?x role # ?q). \<exists>m. (cx_message x, m) \<in> set (e # q) \<and> sent_before (snd r) m"
      by (auto simp: e)
    moreover have "length (?x role # ?q) = slots \<or> chars_of (?x role # ?q) = left" using more 4(2) by auto
    ultimately show ?thesis unfolding kept by blast
  qed
qed simp

lemma context_listing_times: "sorted (map (ms_created_at \<circ> snd) (message_list_for_conversation k d))"
proof -
  let ?q = "message_list_for_conversation k d"
  have "sorted (map (\<lambda>(i, m). (ms_created_at m, ms_sequence m)) ?q)"
    unfolding message_list_for_conversation_def by (rule sorted_sort_key)
  then show ?thesis
    unfolding sorted_map by (rule sorted_wrt_mono_rel [rotated]) (auto simp: less_eq_prod_def)
qed

lemma context_listing_ids:
  assumes "distinct (row_ids (dk_messages d))" shows "distinct (map fst (message_list_for_conversation k d))"
proof -
  have "mset (map fst (message_list_for_conversation k d)) = mset (map fst (rows_where (\<lambda>i m. ms_conversation m = k) (dk_messages d)))"
    by (simp add: message_list_for_conversation_def)
  then show ?thesis
    using assms mset_eq_imp_distinct_iff by (fastforce simp: rows_where_def row_ids_def distinct_map_filter)
qed

text \<open>The rows the context is drawn from.\<close>

definition context_rows :: "nat \<Rightarrow> nat \<Rightarrow> message \<Rightarrow> desk \<Rightarrow> message rows" where
  "context_rows ws k m d = rows_where (\<lambda>j n. ms_workspace n = ws \<and> ms_created_at n \<le> ms_created_at m \<and>
     normalized_role n \<noteq> None) (message_list_for_conversation k d)"

lemma context_rows_set:
  "(j, n) \<in> set (context_rows ws k m d) \<longleftrightarrow> (j, n) \<in> set (dk_messages d) \<and> ms_conversation n = k \<and> ms_workspace n = ws \<and>
    ms_created_at n \<le> ms_created_at m \<and> normalized_role n \<noteq> None"
  by (auto simp: context_rows_def rows_where_def context_listing)

lemma context_rows_sorted:
  assumes "distinct (row_ids (dk_messages d))"
  shows "sorted (map (ms_created_at \<circ> snd) (context_rows ws k m d))" "distinct (map fst (context_rows ws k m d))"
proof -
  show "sorted (map (ms_created_at \<circ> snd) (context_rows ws k m d))"
    unfolding context_rows_def rows_where_def using context_listing_times by (rule sorted_filter)
  show "distinct (map fst (context_rows ws k m d))"
    unfolding context_rows_def rows_where_def using context_listing_ids [OF assms] by (rule distinct_map_filter)
qed

lemma built_context:
  assumes "build_conversation_context max_messages max_characters ws k c i m d = Inr cc"
  defines "trigger \<equiv> bounded_message i m CtxUser (nat max_characters)"
    and "old \<equiv> rev (retain i (nat max_messages - 1) (nat max_characters - length (take (nat max_characters) (ms_body m)))
      (take (nat max_messages) (rev (context_rows ws k m d))))"
  shows "valid_trigger ws k c m" "1 \<le> max_messages" "1 \<le> max_characters" "cc_messages cc = old @ [trigger]"
    "cc_truncated cc \<longleftrightarrow> list_ex cx_truncated (old @ [trigger]) \<or> length (old @ [trigger]) < length (context_rows ws k m d)"
  using assms(1)
  by (auto simp: build_conversation_context_def context_rows_def [symmetric] trigger_def old_def Let_def
      simp del: not_None_eq split: if_splits)

lemma kept_order:
  assumes "sorted (map (ms_created_at \<circ> snd) rows)" "distinct (map fst rows)"
  shows "sorted_wrt (\<ge>) (map cx_created_at (retain i slots left (take n (rev rows)))) \<and>
    distinct (map cx_message (retain i slots left (take n (rev rows))))"
proof
  show "sorted_wrt (\<ge>) (map cx_created_at (retain i slots left (take n (rev rows))))"
    using assms(1) by (intro retain_times)
      (auto simp: take_map [symmetric] rev_map [symmetric] sorted_wrt_rev intro!: sorted_wrt_take)
  show "distinct (map cx_message (retain i slots left (take n (rev rows))))"
    using assms(2) by (intro retain_distinct) (simp add: take_map [symmetric] rev_map [symmetric])
qed

text \<open>As many distinct identifiers as there are rows, all of them of rows: every row is there.\<close>

lemma all_ids_kept:
  assumes "distinct ids" "set ids \<subseteq> set rows" "length rows \<le> length ids" "j \<in> set rows"
  shows "j \<in> set ids"
proof -
  have "card (set rows) \<le> card (set ids)"
    using assms(1,3) card_length [of rows] by (simp add: distinct_card)
  then have "set ids = set rows" using assms(2) by (intro card_seteq) auto
  with assms(4) show ?thesis by simp
qed

text \<open>A message the context leaves out, unless blank, is older than every message of the history it keeps, and it
  is left out for lack of room: the characters or the messages are used up, or the newest candidates do not
  reach back to it.\<close>

lemma left_out:
  assumes ids: "distinct (row_ids (dk_messages d))" "distinct (map (ms_sequence \<circ> snd) (dk_messages d))"
    and r: "r \<in> set (context_rows ws k m d)" "answerable i r"
    and kept: "kept = retain i slots left (take n (rev (context_rows ws k m d)))" "fst r \<notin> cx_message ` set kept"
  shows "(\<forall>x \<in> set kept. \<exists>p. (cx_message x, p) \<in> set (context_rows ws k m d) \<and> sent_before (snd r) p) \<and>
    (length kept = slots \<or> chars_of kept = left \<or> n \<le> card {j. \<exists>p. (j, p) \<in> set (context_rows ws k m d) \<and> sent_before (snd r) p})"
proof -
  let ?rows = "context_rows ws k m d" and ?q = "take n (rev (context_rows ws k m d))"
  have "sorted_wrt (\<lambda>a b. sent_before (snd a) (snd b)) ?rows"
    unfolding context_rows_def rows_where_def using conversation_listing(1) [OF ids] by (rule sorted_wrt_filter)
  then have newest: "sorted_wrt (\<lambda>a b. sent_before (snd b) (snd a)) (rev ?rows)" by (simp add: sorted_wrt_rev)
  have rows: "set ?q \<subseteq> set ?rows" by (metis set_rev set_take_subset)
  show ?thesis
  proof (cases "r \<in> set ?q")
    case True
    from retain_newest [OF sorted_wrt_take [OF newest] True r(2), of slots left] kept rows show ?thesis by blast
  next
    case False
    note out = left_out_of_page [OF newest _ False] 
    have r': "r \<in> set (rev ?rows)" using r(1) by simp
    have newer: "sent_before (snd r) (snd p)" if "p \<in> set ?q" for p using out(2) [OF r' that] .
    have all: "\<forall>x \<in> set kept. \<exists>p. (cx_message x, p) \<in> set ?rows \<and> sent_before (snd r) p"
    proof
      fix x assume "x \<in> set kept"
      then obtain p where "(cx_message x, p) \<in> set ?q" using kept(1) retain_cuts by (fastforce simp: cut_of_def)
      with newer rows show "\<exists>p. (cx_message x, p) \<in> set ?rows \<and> sent_before (snd r) p" by fastforce
    qed
    have "fst ` set ?q \<subseteq> {j. \<exists>p. (j, p) \<in> set ?rows \<and> sent_before (snd r) p}" using newer rows by fastforce
    moreover have "finite {j. \<exists>p. (j, p) \<in> set ?rows \<and> sent_before (snd r) p}"
      by (rule finite_subset [of _ "fst ` set ?rows"]) force+
    ultimately have "card (fst ` set ?q) \<le> card {j. \<exists>p. (j, p) \<in> set ?rows \<and> sent_before (snd r) p}"
      by (rule card_mono [rotated])
    moreover have "card (fst ` set ?q) = n"
    proof -
      have "distinct (map fst ?q)"
        using context_rows_sorted(2) [OF ids(1), of ws k m] by (simp add: take_map [symmetric] rev_map [symmetric])
      from distinct_card [OF this] show ?thesis using out(1) [OF r'] by simp
    qed
    ultimately show ?thesis using all by simp
  qed
qed

text \<open>C32. The context of a model call is bounded and honest: at most the configured messages and characters, in the
  order they were sent, each once; every entry is a prefix of a message of this conversation and workspace, sent
  no later than the trigger by the customer or as an answer to them (so no internal note, system message or other
  tenant's text), in the matching role; the trigger comes last; the newest stay: a message that is left out,
  unless blank, is older than every kept one but the trigger, and is left out only when the messages or
  characters are used up or as many newer messages as the context holds exist; and a context not marked
  truncated holds every eligible message in full.\<close>

theorem conversation_context_is_bounded_and_honest:
  assumes built: "build_conversation_context max_messages max_characters ws k c i m d = Inr cc"
    and ids: "distinct (row_ids (dk_messages d))" and m: "row_get (dk_messages d) i = Some m"
    and seqs: "distinct (map (ms_sequence \<circ> snd) (dk_messages d))"
  shows "int (length (cc_messages cc)) \<le> max_messages \<and>
    int (total_content (map cx_content (cc_messages cc))) \<le> max_characters \<and>
    sorted (map cx_created_at (cc_messages cc)) \<and> distinct (map cx_message (cc_messages cc)) \<and>
    last (cc_messages cc) = bounded_message i m CtxUser (nat max_characters) \<and>
    (\<forall>x \<in> set (cc_messages cc). \<exists>n. row_get (dk_messages d) (cx_message x) = Some n \<and> ms_conversation n = k \<and>
      ms_workspace n = ws \<and> ms_created_at n \<le> ms_created_at m \<and> normalized_role n = Some (cx_role x) \<and>
      (\<exists>l. cx_content x = take l (ms_body n))) \<and>
    (\<forall>j n. row_get (dk_messages d) j = Some n \<and> ms_conversation n = k \<and> ms_workspace n = ws \<and>
      ms_created_at n \<le> ms_created_at m \<and> normalized_role n \<noteq> None \<and>
      ms_body n \<noteq> [] \<and> j \<notin> cx_message ` set (cc_messages cc) \<longrightarrow>
      (\<forall>x \<in> set (cc_messages cc). cx_message x \<noteq> i \<longrightarrow>
        (\<exists>p. row_get (dk_messages d) (cx_message x) = Some p \<and> sent_before n p)) \<and>
      (int (length (cc_messages cc)) = max_messages \<or>
       int (total_content (map cx_content (cc_messages cc))) = max_characters \<or>
       max_messages \<le> int (card {j'. \<exists>p. row_get (dk_messages d) j' = Some p \<and> ms_conversation p = k \<and>
         ms_workspace p = ws \<and> ms_created_at p \<le> ms_created_at m \<and> normalized_role p \<noteq> None \<and> sent_before n p}))) \<and>
    (\<not> cc_truncated cc \<longrightarrow> (\<forall>j n. row_get (dk_messages d) j = Some n \<and> ms_conversation n = k \<and> ms_workspace n = ws \<and>
      ms_created_at n \<le> ms_created_at m \<and> normalized_role n \<noteq> None \<longrightarrow>
      (\<exists>x \<in> set (cc_messages cc). cx_message x = j \<and> cx_content x = ms_body n)))"
proof -
  note b = built_context [OF built]
  define trigger where "trigger = bounded_message i m CtxUser (nat max_characters)"
  define q where "q = take (nat max_messages) (rev (context_rows ws k m d))"
  define kept where "kept = retain i (nat max_messages - 1) (nat max_characters - length (take (nat max_characters) (ms_body m))) q"
  have msgs: "cc_messages cc = rev kept @ [trigger]" by (simp add: b(4) kept_def q_def trigger_def)
  note sorted = context_rows_sorted [OF ids, where ws = ws and k = k and m = m]
  have sub: "set q \<subseteq> set (context_rows ws k m d)" unfolding q_def by (metis set_rev set_take_subset)
  have role: "normalized_role m = Some CtxUser" using b(1) by (simp add: valid_trigger_def normalized_role_def)
  have cuts: "cut_of (context_rows ws k m d) x \<and> cx_message x \<noteq> i" if "x \<in> set kept" for x
    using retain_cuts [OF that [unfolded kept_def]] sub by (fastforce simp: cut_of_def)
  have trig: "cut_of (context_rows ws k m d) trigger"
    using b(1) role map_of_SomeD [OF m]
    by (auto simp: cut_of_def trigger_def context_rows_set valid_trigger_def intro!: exI [of _ m])
  have row: "row_get (dk_messages d) j = Some n \<longleftrightarrow> (j, n) \<in> set (dk_messages d)" for j n
    using ids by (simp add: row_ids_def)
  have "length kept \<le> nat max_messages - 1" unfolding kept_def by (rule retain_length)
  then have len: "int (length (cc_messages cc)) \<le> max_messages" using b(2) unfolding msgs by simp
  have "chars_of kept \<le> nat max_characters - length (cx_content trigger)"
    unfolding kept_def trigger_def bounded_message_fields by (rule retain_chars)
  moreover have "length (cx_content trigger) \<le> nat max_characters" by (simp add: trigger_def)
  ultimately have chars: "int (total_content (map cx_content (cc_messages cc))) \<le> max_characters"
    using b(3) unfolding chars_of_def [symmetric] msgs by simp
  have order: "sorted_wrt (\<ge>) (map cx_created_at kept)" "distinct (map cx_message kept)"
    unfolding kept_def q_def using kept_order [OF sorted] by blast+
  have times: "sorted (map cx_created_at (cc_messages cc))"
    unfolding msgs map_append rev_map [symmetric] using cuts order(1)
    by (fastforce simp: sorted_append sorted_wrt_rev cut_of_def context_rows_set trigger_def)
  have dist: "distinct (map cx_message (cc_messages cc))"
    using cuts order(2) unfolding msgs by (auto simp: rev_map [symmetric] trigger_def)
  have cut: "cut_of (context_rows ws k m d) x" if "x \<in> set (cc_messages cc)" for x
    using that cuts trig unfolding msgs by auto
  have all: "\<exists>x \<in> set (cc_messages cc). cx_message x = j \<and> cx_content x = ms_body n"
    if "\<not> cc_truncated cc" "(j, n) \<in> set (context_rows ws k m d)" for j n
  proof -
    from that(1) have full: "\<not> list_ex cx_truncated (cc_messages cc)"
      "length (map fst (context_rows ws k m d)) \<le> length (map cx_message (cc_messages cc))"
      unfolding b(4) by (simp_all only: b(5) length_map not_less de_Morgan_disj simp_thms)
    have "set (map cx_message (cc_messages cc)) \<subseteq> set (map fst (context_rows ws k m d))"
      using cut by (force simp: cut_of_def)
    from all_ids_kept [OF dist this full(2), of j] that(2) obtain x where
      x: "x \<in> set (cc_messages cc)" "cx_message x = j" by force
    with cut [OF x(1)] that(2) sorted(2) have "cx_truncated x \<longleftrightarrow> cx_content x \<noteq> ms_body n"
      unfolding cut_of_def by (metis eq_key_imp_eq_value)
    with x full(1) show ?thesis by (auto simp: list_ex_iff)
  qed
  have drawn: "\<exists>n. row_get (dk_messages d) (cx_message x) = Some n \<and> ms_conversation n = k \<and>
      ms_workspace n = ws \<and> ms_created_at n \<le> ms_created_at m \<and> normalized_role n = Some (cx_role x) \<and>
      (\<exists>l. cx_content x = take l (ms_body n))" if "x \<in> set (cc_messages cc)" for x
    using cut [OF that] unfolding cut_of_def context_rows_set row by blast
  have complete: "\<exists>x \<in> set (cc_messages cc). cx_message x = j \<and> cx_content x = ms_body n"
    if "\<not> cc_truncated cc" "row_get (dk_messages d) j = Some n" "ms_conversation n = k" "ms_workspace n = ws"
      "ms_created_at n \<le> ms_created_at m" "normalized_role n \<noteq> None" for j n
    using that by (intro all) (simp_all add: context_rows_set row)
  have newest: "(\<forall>x \<in> set (cc_messages cc). cx_message x \<noteq> i \<longrightarrow>
        (\<exists>p. row_get (dk_messages d) (cx_message x) = Some p \<and> sent_before n p)) \<and>
      (int (length (cc_messages cc)) = max_messages \<or>
       int (total_content (map cx_content (cc_messages cc))) = max_characters \<or>
       max_messages \<le> int (card {j'. \<exists>p. row_get (dk_messages d) j' = Some p \<and> ms_conversation p = k \<and>
         ms_workspace p = ws \<and> ms_created_at p \<le> ms_created_at m \<and> normalized_role p \<noteq> None \<and> sent_before n p}))"
    if o: "row_get (dk_messages d) j = Some n \<and> ms_conversation n = k \<and> ms_workspace n = ws \<and>
      ms_created_at n \<le> ms_created_at m \<and> normalized_role n \<noteq> None"
      "ms_body n \<noteq> []" "j \<notin> cx_message ` set (cc_messages cc)" for j n
  proof -
    have "(j, n) \<in> set (context_rows ws k m d)" using o(1) by (simp add: context_rows_set row)
    moreover have "answerable i (j, n)" using o by (simp add: answerable_def msgs trigger_def)
    moreover have "fst (j, n) \<notin> cx_message ` set kept" using o(3) by (simp add: msgs)
    ultimately have l: "(\<forall>x \<in> set kept. \<exists>p. (cx_message x, p) \<in> set (context_rows ws k m d) \<and> sent_before n p) \<and>
      (length kept = nat max_messages - 1 \<or> chars_of kept = nat max_characters - length (take (nat max_characters) (ms_body m)) \<or>
       nat max_messages \<le> card {j. \<exists>p. (j, p) \<in> set (context_rows ws k m d) \<and> sent_before n p})"
      using left_out [OF ids seqs _ _ kept_def [unfolded q_def], of "(j, n)"] by simp
    have "int (length (cc_messages cc)) = max_messages" if "length kept = nat max_messages - 1"
      using that b(2) by (simp add: msgs)
    moreover have "int (total_content (map cx_content (cc_messages cc))) = max_characters"
      if "chars_of kept = nat max_characters - length (take (nat max_characters) (ms_body m))"
      using that b(3) unfolding chars_of_def [symmetric] msgs by (simp add: trigger_def)
    moreover have "{j. \<exists>p. (j, p) \<in> set (context_rows ws k m d) \<and> sent_before n p} =
      {j'. \<exists>p. row_get (dk_messages d) j' = Some p \<and> ms_conversation p = k \<and>
         ms_workspace p = ws \<and> ms_created_at p \<le> ms_created_at m \<and> normalized_role p \<noteq> None \<and> sent_before n p}"
      unfolding context_rows_set row by blast
    moreover have "\<forall>x \<in> set (cc_messages cc). cx_message x \<noteq> i \<longrightarrow>
        (\<exists>p. row_get (dk_messages d) (cx_message x) = Some p \<and> sent_before n p)"
      using l unfolding msgs context_rows_set row by (auto simp: trigger_def)
    ultimately show ?thesis using l b(2) by (auto simp: nat_le_iff)
  qed
  have "last (cc_messages cc) = trigger" by (simp add: msgs)
  with len chars times dist drawn newest complete show ?thesis unfolding trigger_def by blast
qed

text \<open>A conversation of four messages, one of them internal, with room for two messages of four characters.\<close>

definition talk :: "sender_type \<Rightarrow> message_direction \<Rightarrow> int \<Rightarrow> string \<Rightarrow> message" where
  "talk who dir t body = \<lparr>ms_workspace = 1, ms_conversation = 4, ms_sender_type = who, ms_sender = None,
     ms_direction = dir, ms_body = body, ms_external_id = None, ms_created_at = t, ms_metadata = JObj [],
     ms_sequence = nat t\<rparr>"

definition talk_conversation :: conversation where
  "talk_conversation = \<lparr>cv_workspace = 1, cv_customer = 2, cv_channel = ''chat'', cv_status = CV_OPEN, cv_subject = [],
     cv_assigned_to = None, cv_external_id = None, cv_last_message_at = None, cv_closed_at = None, cv_metadata = JObj []\<rparr>"

definition talk_desk :: desk where
  "talk_desk = \<lparr>dk_conversations = [(4, talk_conversation)],
     dk_messages = [(1, talk SND_CUSTOMER INBOUND 1 ''hi''), (2, talk SND_HUMAN_AGENT OUTBOUND 2 ''yes?''),
       (3, talk SND_HUMAN_AGENT INTERNAL 3 ''note''), (5, talk SND_CUSTOMER INBOUND 4 ''ok'')],
     dk_tickets = [], dk_handoffs = [], dk_effects = []\<rparr>"

theorem conversation_context_is_bounded_and_honest_witness:
  "\<exists>cc. build_conversation_context 2 4 1 4 talk_conversation 5 (talk SND_CUSTOMER INBOUND 4 ''ok'') talk_desk = Inr cc \<and>
    map cx_content (cc_messages cc) = [''ye'', ''ok''] \<and> cc_truncated cc \<and> int (length (cc_messages cc)) \<le> 2"
proof -
  have "(case build_conversation_context 2 4 1 4 talk_conversation 5 (talk SND_CUSTOMER INBOUND 4 ''ok'') talk_desk of
      Inl e \<Rightarrow> False | Inr cc \<Rightarrow> map cx_content (cc_messages cc) = [''ye'', ''ok''] \<and> cc_truncated cc)" by code_simp
  then obtain cc where cc: "build_conversation_context 2 4 1 4 talk_conversation 5 (talk SND_CUSTOMER INBOUND 4 ''ok'') talk_desk = Inr cc"
    "map cx_content (cc_messages cc) = [''ye'', ''ok'']" "cc_truncated cc" by (auto split: sum.splits)
  have ids: "distinct (row_ids (dk_messages talk_desk))" by (simp add: talk_desk_def row_ids_def)
  have seqs: "distinct (map (ms_sequence \<circ> snd) (dk_messages talk_desk))" by (simp add: talk_desk_def talk_def)
  have m: "row_get (dk_messages talk_desk) 5 = Some (talk SND_CUSTOMER INBOUND 4 ''ok'')" by (simp add: talk_desk_def)
  note bound = conversation_context_is_bounded_and_honest [OF cc(1) ids m seqs, THEN conjunct1]
  from cc bound show ?thesis by (intro exI conjI)
qed

end
