(* ===== verification/Workspaces.thy ===== *)
theory Workspaces
  imports Platform
begin

section \<open>Workspaces and memberships\<close>

text \<open>
  \<open>workspaces/services.py\<close>, \<open>permissions.py\<close>, \<open>selectors.py\<close> and the views of \<open>views.py\<close>, with the constraints of
  \<open>models.py\<close> and the account lookup of \<open>accounts/services.py\<close>. A service takes the instances its caller loaded
  beside the tables; a view loads them and calls the service at once. Django's \<open>slugify\<close> and \<open>authenticate\<close> are
  arguments.
\<close>

record tenant_workspace =
  tw_name :: string
  tw_slug :: string
  tw_active :: bool
  tw_created_at :: int

record tenant_member =
  tm_workspace :: nat
  tm_user :: nat
  tm_role :: workspace_role
  tm_active :: bool
  tm_created_at :: int

record tenant_user =
  tu_email :: string
  tu_username :: string
  tu_active :: bool

record tenancy =
  ty_workspaces :: "tenant_workspace rows"
  ty_members :: "tenant_member rows"
  ty_users :: "tenant_user rows"
  ty_effects :: "effect list"

datatype tenancy_exc =
    TenantInvalid string | TenantDenied | TenantConflict | TenantNotFound | TenantRowGone | TenantKeyError
  | TenantDb db_exc | AuthenticationFailed

type_synonym 'a tenancy_svc = "(tenancy, tenancy_exc, 'a) svc"

definition log_tenant :: "effect \<Rightarrow> tenancy \<Rightarrow> tenancy" where
  "log_tenant e s = s\<lparr>ty_effects := ty_effects s @ [e]\<rparr>"

subsection \<open>Permissions\<close>

definition member_management_roles :: "workspace_role set" where
  "member_management_roles = {OWNER, ADMIN}"

definition workspace_settings_roles :: "workspace_role set" where
  "workspace_settings_roles = {OWNER, ADMIN}"

definition can_manage_target_role :: "workspace_role \<Rightarrow> workspace_role \<Rightarrow> bool" where
  "can_manage_target_role actor target =
    (if target = OWNER then False
     else if actor = OWNER then True
     else if actor = ADMIN then target \<noteq> ADMIN
     else False)"

subsection \<open>Selectors\<close>

definition by_pk :: "'r rows \<Rightarrow> (nat \<times> 'r) option" where
  "by_pk t = (case sort_key fst t of [] \<Rightarrow> None | r # _ \<Rightarrow> Some r)"

definition memberships_of :: "nat \<Rightarrow> tenancy \<Rightarrow> tenant_member rows" where
  "memberships_of user s = rows_where (\<lambda>k m. tm_user m = user \<and> tm_active m) (ty_members s)"

definition list_workspaces_for_user :: "nat \<Rightarrow> tenancy \<Rightarrow> tenant_workspace rows" where
  "list_workspaces_for_user user s =
    newest_first tw_created_at (rows_where (\<lambda>w x. list_ex (\<lambda>(k, m). tm_workspace m = w) (memberships_of user s)) (ty_workspaces s))"

definition get_workspace_for_user_or_404 :: "nat \<Rightarrow> nat \<Rightarrow> tenancy \<Rightarrow> tenancy_exc + tenant_workspace" where
  "get_workspace_for_user_or_404 user ws s =
    (case row_get (ty_workspaces s) ws of
      None \<Rightarrow> Inl TenantNotFound
    | Some x \<Rightarrow> if list_ex (\<lambda>(k, m). tm_workspace m = ws) (memberships_of user s) then Inr x else Inl TenantNotFound)"

definition get_active_membership :: "nat \<Rightarrow> nat \<Rightarrow> tenancy \<Rightarrow> (nat \<times> tenant_member) option" where
  "get_active_membership ws user s = by_pk (rows_where (\<lambda>k m. tm_workspace m = ws) (memberships_of user s))"

definition get_membership :: "nat \<Rightarrow> nat \<Rightarrow> tenant_member rows \<Rightarrow> (nat \<times> tenant_member) option" where
  "get_membership ws user t = by_pk (rows_where (\<lambda>k m. tm_workspace m = ws \<and> tm_user m = user) t)"

definition get_workspace_members :: "nat \<Rightarrow> tenancy \<Rightarrow> tenant_member rows" where
  "get_workspace_members ws s =
    newest_first tm_created_at (rows_where (\<lambda>k m. tm_workspace m = ws \<and> tm_active m) (ty_members s))"

definition get_workspace_member_or_404 :: "nat \<Rightarrow> nat \<Rightarrow> tenancy \<Rightarrow> tenancy_exc + tenant_member" where
  "get_workspace_member_or_404 ws k s =
    (case row_get (ty_members s) k of
      None \<Rightarrow> Inl TenantNotFound | Some m \<Rightarrow> if tm_workspace m = ws then Inr m else Inl TenantNotFound)"

definition list_active_memberships_for_user :: "nat \<Rightarrow> tenancy \<Rightarrow> tenant_member rows" where
  "list_active_memberships_for_user user s = newest_first tm_created_at (memberships_of user s)"

subsection \<open>Writing a membership\<close>

text \<open>One membership per workspace and user, and at most one active owner per workspace.\<close>

definition members_unique :: "nat \<Rightarrow> tenant_member \<Rightarrow> tenant_member rows \<Rightarrow> bool" where
  "members_unique k m t \<longleftrightarrow> list_all (\<lambda>(i, x). i = k \<or> tm_workspace x \<noteq> tm_workspace m \<or>
     (tm_user x \<noteq> tm_user m \<and> \<not> (tm_role m = OWNER \<and> tm_active m \<and> tm_role x = OWNER \<and> tm_active x))) t"

definition create_member :: "tenant_member \<Rightarrow> nat tenancy_svc" where
  "create_member m = (\<lambda>s.
    let k = fresh_id (ty_members s)
    in if members_unique k m (ty_members s) then (s\<lparr>ty_members := row_put k m (ty_members s)\<rparr>, Inr k)
       else (s, Inl (TenantDb IntegrityError)))"

text \<open>\<open>save(update_fields=\<dots>)\<close> of a membership: the named columns are written to its row.\<close>

definition write_member :: "nat \<Rightarrow> (tenant_member \<Rightarrow> tenant_member) \<Rightarrow> tenant_member tenancy_svc" where
  "write_member k f = (\<lambda>s.
    case row_get (ty_members s) k of
      None \<Rightarrow> (s, Inl TenantRowGone)
    | Some m \<Rightarrow> if members_unique k (f m) (ty_members s)
        then (s\<lparr>ty_members := row_put k (f m) (ty_members s)\<rparr>, Inr (f m))
        else (s, Inl (TenantDb IntegrityError)))"

subsection \<open>Workspaces\<close>

text \<open>\<open>" ".join(name.split())\<close>.\<close>

fun words_from :: "string \<Rightarrow> string \<Rightarrow> string list" where
  "words_from cur [] = (if cur = [] then [] else [cur])"
| "words_from cur (c # cs) =
    (if is_space c then (if cur = [] then words_from [] cs else cur # words_from [] cs) else words_from (cur @ [c]) cs)"

definition spaced :: "string list \<Rightarrow> string" where
  "spaced ws = concat (case ws of [] \<Rightarrow> [] | w # rest \<Rightarrow> w # map (\<lambda>v. CHR '' '' # v) rest)"

definition normalize_name :: "string \<Rightarrow> tenancy_exc + string" where
  "normalize_name name =
    (let n = spaced (words_from [] name) in if n = [] then Inl (TenantInvalid ''name'') else Inr n)"

text \<open>An empty slug is stored as NULL, which the column refuses.\<close>

definition save_workspace :: "(string \<Rightarrow> string) \<Rightarrow> int \<Rightarrow> string \<Rightarrow> nat tenancy_svc" where
  "save_workspace slugify now name = (\<lambda>s.
    let slug = take 220 (slugify name); w = fresh_id (ty_workspaces s)
    in if \<not> fits 200 name then (s, Inl (TenantDb DataError))
       else if slug = [] \<or> list_ex (\<lambda>(i, x). tw_slug x = slug) (ty_workspaces s) then (s, Inl (TenantDb IntegrityError))
       else (s\<lparr>ty_workspaces := row_put w \<lparr>tw_name = name, tw_slug = slug, tw_active = True, tw_created_at = now\<rparr>
               (ty_workspaces s)\<rparr>, Inr w))"

definition create_workspace :: "(string \<Rightarrow> string) \<Rightarrow> int \<Rightarrow> nat \<Rightarrow> string \<Rightarrow> string option \<Rightarrow> nat tenancy_svc" where
  "create_workspace slugify now actor name req = atomic (\<lambda>s.
    case normalize_name name of
      Inl e \<Rightarrow> (s, Inl e)
    | Inr n \<Rightarrow>
        svc_bind (save_workspace slugify now n) (\<lambda>w.
        svc_bind (create_member \<lparr>tm_workspace = w, tm_user = actor, tm_role = OWNER, tm_active = True, tm_created_at = now\<rparr>)
          (\<lambda>k t. (log_tenant (record_event ''workspace.created'' ''workspace'' w (Some actor) (Some w)
                    (JObj [(''name'', JStr n)]) req) t, Inr w))) s)"

definition update_workspace :: "nat \<Rightarrow> nat \<Rightarrow> string option \<Rightarrow> string option \<Rightarrow> unit tenancy_svc" where
  "update_workspace ws actor name req = atomic (\<lambda>s.
    case name of
      None \<Rightarrow> (s, Inr ())
    | Some nm \<Rightarrow>
        (case normalize_name nm of
          Inl e \<Rightarrow> (s, Inl e)
        | Inr n \<Rightarrow>
            (case row_get (ty_workspaces s) ws of
              None \<Rightarrow> (s, Inl TenantRowGone)
            | Some x \<Rightarrow> if \<not> fits 200 n then (s, Inl (TenantDb DataError))
                else (log_tenant (record_event ''workspace.updated'' ''workspace'' ws (Some actor) (Some ws)
                        (JObj [(''name'', JStr n)]) req)
                       (s\<lparr>ty_workspaces := row_put ws (x\<lparr>tw_name := n\<rparr>) (ty_workspaces s)\<rparr>), Inr ()))))"

subsection \<open>Members\<close>

text \<open>\<open>User.objects.normalize_email\<close> of the stripped address lowers what follows the last @.\<close>

definition normalized_login :: "string \<Rightarrow> string" where
  "normalized_login email =
    (let t = py_strip email; other = (\<lambda>c. c \<noteq> CHR ''@''); local_part = rev (dropWhile other (rev t))
     in if local_part = [] then t else local_part @ str_lower (rev (takeWhile other (rev t))))"

text \<open>\<open>email__iexact\<close>.\<close>

definition email_matches :: "string \<Rightarrow> tenant_user \<Rightarrow> bool" where
  "email_matches email u \<longleftrightarrow> str_lower (tu_email u) = str_lower (normalized_login email)"

definition find_active_user :: "string \<Rightarrow> tenancy \<Rightarrow> (nat \<times> tenant_user) option" where
  "find_active_user email s = by_pk (rows_where (\<lambda>i u. email_matches email u \<and> tu_active u) (ty_users s))"

text \<open>\<open>None\<close>: a role outside the assignable ones. \<open>other\<close>: the memberships committed between lookup and insertion.\<close>

definition add_workspace_member ::
  "(tenant_member rows \<Rightarrow> tenant_member rows) \<Rightarrow> int \<Rightarrow> nat \<Rightarrow> nat \<Rightarrow> tenant_member \<Rightarrow> string \<Rightarrow> workspace_role option \<Rightarrow>
   string option \<Rightarrow> nat tenancy_svc" where
  "add_workspace_member other now ws actor amb email role req = atomic (\<lambda>s.
    case role of
      None \<Rightarrow> (s, Inl (TenantInvalid ''role''))
    | Some r \<Rightarrow>
        if r = OWNER then (s, Inl (TenantInvalid ''role''))
        else if \<not> can_manage_target_role (tm_role amb) r then (s, Inl TenantDenied)
        else case find_active_user email s of
          None \<Rightarrow> (s, Inl (TenantInvalid ''email''))
        | Some (u, ur) \<Rightarrow>
            (let audit = (\<lambda>k. log_tenant (record_event ''workspace.member_added'' ''workspace_membership'' k (Some actor)
                   (Some ws) (JObj [(''user_id'', jid u), (''role'', JStr (role_value r))]) req))
             in case get_membership ws u (ty_members s) of
               Some (k, m) \<Rightarrow>
                 if tm_active m then (s, Inl TenantConflict)
                 else svc_bind (write_member k (\<lambda>x. x\<lparr>tm_role := r, tm_active := True\<rparr>)) (\<lambda>_ t. (audit k t, Inr k)) s
             | None \<Rightarrow>
                 (case create_member \<lparr>tm_workspace = ws, tm_user = u, tm_role = r, tm_active = True, tm_created_at = now\<rparr>
                         (s\<lparr>ty_members := other (ty_members s)\<rparr>) of
                   (t, Inl (TenantDb IntegrityError)) \<Rightarrow> (t, Inl TenantConflict)
                 | (t, Inl e) \<Rightarrow> (t, Inl e)
                 | (t, Inr k) \<Rightarrow> (audit k t, Inr k))))"

definition change_workspace_member_role ::
  "nat \<Rightarrow> nat \<Rightarrow> tenant_member \<Rightarrow> nat \<Rightarrow> tenant_member \<Rightarrow> workspace_role \<Rightarrow> string option \<Rightarrow> tenant_member tenancy_svc" where
  "change_workspace_member_role ws actor amb k target new_role req = atomic (\<lambda>s.
    if tm_workspace target \<noteq> ws then (s, Inl (TenantInvalid ''membership''))
    else if new_role = OWNER then (s, Inl (TenantInvalid ''role''))
    else if tm_role target = OWNER then (s, Inl (TenantInvalid ''role''))
    else if \<not> can_manage_target_role (tm_role amb) new_role then (s, Inl TenantDenied)
    else if \<not> can_manage_target_role (tm_role amb) (tm_role target) then (s, Inl TenantDenied)
    else svc_bind (write_member k (\<lambda>x. x\<lparr>tm_role := new_role\<rparr>)) (\<lambda>m t.
      (log_tenant (record_event ''workspace.member_role_changed'' ''workspace_membership'' k (Some actor) (Some ws)
         (JObj [(''old_role'', JStr (role_value (tm_role target))), (''new_role'', JStr (role_value new_role))]) req) t,
       Inr m)) s)"

definition remove_workspace_member ::
  "nat \<Rightarrow> nat \<Rightarrow> tenant_member \<Rightarrow> nat \<Rightarrow> tenant_member \<Rightarrow> string option \<Rightarrow> unit tenancy_svc" where
  "remove_workspace_member ws actor amb k target req = atomic (\<lambda>s.
    if tm_workspace target \<noteq> ws then (s, Inl (TenantInvalid ''membership''))
    else if tm_role target = OWNER then (s, Inl (TenantInvalid ''membership''))
    else if \<not> can_manage_target_role (tm_role amb) (tm_role target) then (s, Inl TenantDenied)
    else svc_bind (write_member k (\<lambda>x. x\<lparr>tm_active := False\<rparr>)) (\<lambda>m t.
      (log_tenant (record_event ''workspace.member_removed'' ''workspace_membership'' k (Some actor) (Some ws)
         (JObj [(''user_id'', jid (tm_user target)), (''role'', JStr (role_value (tm_role target)))]) req) t, Inr ())) s)"

definition transfer_workspace_ownership ::
  "nat \<Rightarrow> nat \<Rightarrow> nat \<times> tenant_member \<Rightarrow> nat \<times> tenant_member \<Rightarrow> string option \<Rightarrow> tenant_member tenancy_svc" where
  "transfer_workspace_ownership ws actor am nm req = atomic (\<lambda>s.
    if tm_role (snd am) \<noteq> OWNER then (s, Inl TenantDenied)
    else if tm_workspace (snd nm) \<noteq> ws then (s, Inl (TenantInvalid ''membership''))
    else if \<not> tm_active (snd nm) then (s, Inl (TenantInvalid ''membership''))
    else if tm_user (snd nm) = tm_user (snd am) then (s, Inl (TenantInvalid ''membership''))
    else case (row_get (ty_members s) (fst am), row_get (ty_members s) (fst nm)) of
      (Some current, Some fresh) \<Rightarrow>
        if tm_role current \<noteq> OWNER then (s, Inl TenantConflict)
        else if \<not> tm_active fresh then (s, Inl (TenantInvalid ''membership''))
        else svc_bind (write_member (fst am) (\<lambda>x. x\<lparr>tm_role := ADMIN\<rparr>)) (\<lambda>_.
             svc_bind (write_member (fst nm) (\<lambda>x. x\<lparr>tm_role := OWNER\<rparr>)) (\<lambda>m t.
               (log_tenant (record_event ''workspace.ownership_transferred'' ''workspace'' ws (Some actor) (Some ws)
                  (JObj [(''previous_owner_user_id'', jid (tm_user current)), (''new_owner_user_id'', jid (tm_user fresh))])
                  req) t, Inr m))) s
    | _ \<Rightarrow> (s, Inl TenantKeyError))"

subsection \<open>The views\<close>

text \<open>\<open>WorkspaceScopedMixin\<close>: who is no active member gets the answer of a workspace that does not exist.\<close>

definition scoped ::
  "nat \<Rightarrow> nat \<Rightarrow> (workspace_role \<Rightarrow> bool) \<Rightarrow> (nat \<times> tenant_member \<Rightarrow> 'a tenancy_svc) \<Rightarrow> 'a tenancy_svc" where
  "scoped ws user allowed view = (\<lambda>s.
    case get_workspace_for_user_or_404 user ws s of
      Inl e \<Rightarrow> (s, Inl e)
    | Inr x \<Rightarrow>
        (case get_active_membership ws user s of
          None \<Rightarrow> (s, Inl TenantDenied)
        | Some km \<Rightarrow> if allowed (tm_role (snd km)) then view km s else (s, Inl TenantDenied)))"

datatype tenant_request =
    PostWorkspace string
  | PatchWorkspace nat "string option"
  | PostMember nat string "workspace_role option"
  | PatchMember nat nat workspace_role
  | DeleteMember nat nat
  | PostTransfer nat nat

definition with_member :: "nat \<Rightarrow> nat \<Rightarrow> (tenant_member \<Rightarrow> unit tenancy_svc) \<Rightarrow> unit tenancy_svc" where
  "with_member ws k f = (\<lambda>s. case get_workspace_member_or_404 ws k s of Inl e \<Rightarrow> (s, Inl e) | Inr m \<Rightarrow> f m s)"

definition unit_result :: "'a tenancy_svc \<Rightarrow> unit tenancy_svc" where
  "unit_result f = svc_bind f (\<lambda>_. svc_return ())"

text \<open>\<open>user\<close> is the authenticated user of the request.\<close>

fun handle_request :: "(string \<Rightarrow> string) \<Rightarrow> int \<Rightarrow> nat \<Rightarrow> tenant_request \<Rightarrow> unit tenancy_svc" where
  "handle_request slugify now user (PostWorkspace name) = unit_result (create_workspace slugify now user name None)"
| "handle_request slugify now user (PatchWorkspace ws name) =
    scoped ws user (\<lambda>r. r \<in> workspace_settings_roles) (\<lambda>km. update_workspace ws user name None)"
| "handle_request slugify now user (PostMember ws email role) =
    scoped ws user (\<lambda>r. r \<in> member_management_roles)
      (\<lambda>km. unit_result (add_workspace_member (\<lambda>t. t) now ws user (snd km) email role None))"
| "handle_request slugify now user (PatchMember ws k role) =
    scoped ws user (\<lambda>r. r \<in> member_management_roles)
      (\<lambda>km. with_member ws k (\<lambda>m. unit_result (change_workspace_member_role ws user (snd km) k m role None)))"
| "handle_request slugify now user (DeleteMember ws k) =
    scoped ws user (\<lambda>r. r \<in> member_management_roles)
      (\<lambda>km. with_member ws k (\<lambda>m. remove_workspace_member ws user (snd km) k m None))"
| "handle_request slugify now user (PostTransfer ws k) =
    scoped ws user (\<lambda>r. r = OWNER)
      (\<lambda>km. with_member ws k (\<lambda>m. unit_result (transfer_workspace_ownership ws user km (k, m) None)))"

subsection \<open>Accounts\<close>

text \<open>\<open>check\<close> is Django's \<open>authenticate\<close>: a user name and a password to the user, if they match and it is active.\<close>

definition authenticate_by_email :: "(string \<Rightarrow> string \<Rightarrow> nat option) \<Rightarrow> string \<Rightarrow> string \<Rightarrow> tenancy \<Rightarrow> tenancy_exc + nat" where
  "authenticate_by_email check email password s =
    (let username = (case by_pk (rows_where (\<lambda>i u. email_matches email u) (ty_users s)) of
         Some (i, u) \<Rightarrow> tu_username u | None \<Rightarrow> normalized_login email)
     in case check username password of None \<Rightarrow> Inl AuthenticationFailed | Some i \<Rightarrow> Inr i)"

end
