(* ===== verification/WorkspaceProperties.thy ===== *)
theory WorkspaceProperties
  imports Workspaces
begin

section \<open>What the workspace services guarantee\<close>

text \<open>
  Served one after another, requests keep exactly one active owner in every workspace and change memberships only
  on the authority of the caller's own role. Between two requests that overlap the owner can be lost, because
  removal and role change check the instance their view loaded and lock nothing.
\<close>

subsection \<open>Rows\<close>

definition active_owner :: "nat \<Rightarrow> tenant_member \<Rightarrow> bool" where
  "active_owner w m \<longleftrightarrow> tm_workspace m = w \<and> tm_role m = OWNER \<and> tm_active m"

definition has_owner :: "nat \<Rightarrow> tenant_member rows \<Rightarrow> bool" where
  "has_owner w t \<longleftrightarrow> (\<exists>k m. row_get t k = Some m \<and> active_owner w m)"

definition members_ok :: "tenant_member rows \<Rightarrow> bool" where
  "members_ok t \<longleftrightarrow> distinct (row_ids t) \<and>
    (\<forall>i x j y. row_get t i = Some x \<longrightarrow> row_get t j = Some y \<longrightarrow> i \<noteq> j \<longrightarrow> tm_workspace x = tm_workspace y \<longrightarrow>
      tm_user x \<noteq> tm_user y \<and> \<not> (active_owner (tm_workspace x) x \<and> active_owner (tm_workspace y) y))"

definition tenancy_ok :: "tenancy \<Rightarrow> bool" where
  "tenancy_ok s \<longleftrightarrow> members_ok (ty_members s) \<and> (\<forall>w x. row_get (ty_workspaces s) w = Some x \<longrightarrow> has_owner w (ty_members s))"

lemma tenancy_ok_one_owner:
  "tenancy_ok s \<Longrightarrow> row_get (ty_workspaces s) w = Some x \<Longrightarrow>
    \<exists>!k. \<exists>m. row_get (ty_members s) k = Some m \<and> active_owner w m"
  unfolding tenancy_ok_def has_owner_def members_ok_def active_owner_def by metis

lemma members_ok_put:
  assumes ok: "members_ok t" and u: "members_unique k m t"
  shows "members_ok (row_put k m t)"
proof -
  have clash: "tm_user x \<noteq> tm_user m \<and> \<not> (active_owner (tm_workspace m) m \<and> active_owner (tm_workspace x) x)"
    if "row_get t i = Some x" "i \<noteq> k" "tm_workspace x = tm_workspace m" for i x
    using u that map_of_SomeD [OF that(1)] by (fastforce simp: members_unique_def list_all_iff active_owner_def)
  show ?thesis unfolding members_ok_def
  proof (intro conjI allI impI)
    show "distinct (row_ids (row_put k m t))" using ok by (auto simp: members_ok_def)
    fix i x j y
    assume g: "row_get (row_put k m t) i = Some x" "row_get (row_put k m t) j = Some y" "i \<noteq> j"
      "tm_workspace x = tm_workspace y"
    consider "i = k" "x = m" "row_get t j = Some y" "j \<noteq> k" | "j = k" "y = m" "row_get t i = Some x" "i \<noteq> k"
      | "row_get t i = Some x" "row_get t j = Some y"
      using g by (cases "i = k"; cases "j = k") simp_all
    then have "tm_user x \<noteq> tm_user y \<and> \<not> (active_owner (tm_workspace x) x \<and> active_owner (tm_workspace y) y)"
    proof cases
      case 1 then show ?thesis using clash [of j y] g(4) by (metis)
    next
      case 2 then show ?thesis using clash [of i x] g(4) by metis
    next
      case 3 then show ?thesis using ok g(3,4) unfolding members_ok_def by blast
    qed
    then show "tm_user x \<noteq> tm_user y" "\<not> (active_owner (tm_workspace x) x \<and> active_owner (tm_workspace y) y)" by blast+
  qed
qed

lemma has_owner_put:
  "has_owner w t \<Longrightarrow> (\<And>x. row_get t k = Some x \<Longrightarrow> active_owner w x \<Longrightarrow> active_owner w m) \<Longrightarrow> has_owner w (row_put k m t)"
  unfolding has_owner_def by (metis row_get_put)

lemma has_owner_here: "active_owner w m \<Longrightarrow> has_owner w (row_put k m t)"
  unfolding has_owner_def by (metis row_get_put)

lemma log_tenant_fields [simp]:
  "ty_members (log_tenant e s) = ty_members s" "ty_workspaces (log_tenant e s) = ty_workspaces s"
  "ty_users (log_tenant e s) = ty_users s"
  by (simp_all add: log_tenant_def)

lemma write_member_Inr:
  "write_member k f s = (s', Inr m) \<Longrightarrow> \<exists>x. row_get (ty_members s) k = Some x \<and> m = f x \<and>
    members_unique k m (ty_members s) \<and> s' = s\<lparr>ty_members := row_put k m (ty_members s)\<rparr>"
  by (auto simp: write_member_def split: option.splits if_splits)

lemma create_member_Inr:
  "create_member m s = (s', Inr k) \<Longrightarrow> k = fresh_id (ty_members s) \<and> members_unique k m (ty_members s) \<and>
    s' = s\<lparr>ty_members := row_put k m (ty_members s)\<rparr>"
  by (auto simp: create_member_def Let_def split: if_splits)

subsection \<open>What a request may change\<close>

lemma by_pk_Some: "by_pk t = Some r \<Longrightarrow> r \<in> set t"
  using set_sort [of fst t] by (cases "sort_key fst t") (auto simp: by_pk_def)

lemma active_membershipD:
  assumes "distinct (row_ids (ty_members s))" and "get_active_membership ws user s = Some (k, m)"
  shows "row_get (ty_members s) k = Some m" "tm_workspace m = ws" "tm_user m = user" "tm_active m"
  using assms by (auto simp: get_active_membership_def memberships_of_def rows_where_def row_ids_def dest!: by_pk_Some)

lemma membershipD:
  assumes "distinct (row_ids t)" and "get_membership ws u t = Some (k, m)"
  shows "row_get t k = Some m \<and> tm_workspace m = ws \<and> tm_user m = u"
  using assms by (auto simp: get_membership_def rows_where_def row_ids_def dest!: by_pk_Some)

text \<open>The four ways a request changes the tables.\<close>

definition renames :: "tenancy \<Rightarrow> tenancy \<Rightarrow> bool" where
  "renames s s' \<longleftrightarrow> ty_members s' = ty_members s \<and>
    (\<forall>w. row_get (ty_workspaces s') w = None \<longleftrightarrow> row_get (ty_workspaces s) w = None)"

definition founds :: "nat \<Rightarrow> tenancy \<Rightarrow> tenancy \<Rightarrow> bool" where
  "founds user s s' \<longleftrightarrow> (\<exists>w x k m. w = fresh_id (ty_workspaces s) \<and> ty_workspaces s' = row_put w x (ty_workspaces s) \<and>
    k = fresh_id (ty_members s) \<and> members_unique k m (ty_members s) \<and> ty_members s' = row_put k m (ty_members s) \<and>
    active_owner w m \<and> tm_user m = user)"

definition manages :: "nat \<Rightarrow> tenancy \<Rightarrow> tenancy \<Rightarrow> bool" where
  "manages user s s' \<longleftrightarrow> ty_workspaces s' = ty_workspaces s \<and>
    (\<exists>kc mc k m. row_get (ty_members s) kc = Some mc \<and> tm_user mc = user \<and> tm_active mc \<and> tm_workspace mc = tm_workspace m \<and>
      can_manage_target_role (tm_role mc) (tm_role m) \<and> members_unique k m (ty_members s) \<and>
      ty_members s' = row_put k m (ty_members s) \<and>
      (\<forall>x. row_get (ty_members s) k = Some x \<longrightarrow> tm_workspace x = tm_workspace m \<and> tm_user x = tm_user m \<and>
        (tm_active x \<longrightarrow> can_manage_target_role (tm_role mc) (tm_role x))))"

definition hands_over :: "nat \<Rightarrow> tenancy \<Rightarrow> tenancy \<Rightarrow> bool" where
  "hands_over user s s' \<longleftrightarrow> ty_workspaces s' = ty_workspaces s \<and>
    (\<exists>kc mc k x. row_get (ty_members s) kc = Some mc \<and> tm_user mc = user \<and> active_owner (tm_workspace x) mc \<and> k \<noteq> kc \<and>
      row_get (ty_members s) k = Some x \<and> tm_active x \<and>
      members_unique kc (mc\<lparr>tm_role := ADMIN\<rparr>) (ty_members s) \<and>
      members_unique k (x\<lparr>tm_role := OWNER\<rparr>) (row_put kc (mc\<lparr>tm_role := ADMIN\<rparr>) (ty_members s)) \<and>
      ty_members s' = row_put k (x\<lparr>tm_role := OWNER\<rparr>) (row_put kc (mc\<lparr>tm_role := ADMIN\<rparr>) (ty_members s)))"

lemmas tenant_svc_defs = atomic_def svc_bind_def svc_return_def unit_result_def

lemma create_workspace_founds:
  "create_workspace slugify now user name req s = (s', r) \<Longrightarrow> s' = s \<or> founds user s s'"
  by (auto simp: create_workspace_def founds_def tenant_svc_defs save_workspace_def active_owner_def Let_def
      dest!: create_member_Inr split: prod.splits sum.splits if_splits)

lemma update_workspace_renames: "update_workspace ws user name req s = (s', r) \<Longrightarrow> s' = s \<or> renames s s'"
  by (auto simp: update_workspace_def renames_def tenant_svc_defs split: option.splits sum.splits prod.splits if_splits)

text \<open>The caller's own row, as the mixin of the views reads it.\<close>

definition caller_of :: "nat \<Rightarrow> nat \<Rightarrow> nat \<times> tenant_member \<Rightarrow> tenancy \<Rightarrow> bool" where
  "caller_of ws user km s \<longleftrightarrow> distinct (row_ids (ty_members s)) \<and> row_get (ty_members s) (fst km) = Some (snd km) \<and>
    tm_workspace (snd km) = ws \<and> tm_user (snd km) = user \<and> tm_active (snd km)"

lemma managesI:
  assumes "caller_of ws user km s" and "members_unique k m (ty_members s)" and "tm_workspace m = ws"
    and "can_manage_target_role (tm_role (snd km)) (tm_role m)"
    and "\<And>x. row_get (ty_members s) k = Some x \<Longrightarrow> tm_workspace x = tm_workspace m \<and> tm_user x = tm_user m \<and>
          (tm_active x \<longrightarrow> can_manage_target_role (tm_role (snd km)) (tm_role x))"
  shows "manages user s (log_tenant ef (s\<lparr>ty_members := row_put k m (ty_members s)\<rparr>))"
proof -
  let ?s' = "log_tenant ef (s\<lparr>ty_members := row_put k m (ty_members s)\<rparr>)"
  have "row_get (ty_members s) (fst km) = Some (snd km)" "tm_user (snd km) = user" "tm_active (snd km)"
    "tm_workspace (snd km) = tm_workspace m" using assms(1,3) by (simp_all add: caller_of_def)
  moreover have "ty_members ?s' = row_put k m (ty_members s)" "ty_workspaces ?s' = ty_workspaces s" by simp_all
  ultimately show ?thesis unfolding manages_def using assms(2,4,5) by blast
qed

lemma unless_same: "(a \<noteq> b \<Longrightarrow> P) \<Longrightarrow> a = b \<or> P"
  by blast

lemmas tenant_splits = if_splits prod.splits sum.splits option.splits tenancy_exc.splits db_exc.splits

lemma change_role_manages:
  assumes c: "caller_of ws user km s" and m: "row_get (ty_members s) k = Some m"
    and run: "change_workspace_member_role ws user (snd km) k m role req s = (s', r)"
  shows "s' = s \<or> manages user s s'"
proof (rule unless_same)
  assume "s' \<noteq> s"
  with run m show "manages user s s'"
    by (auto simp: change_workspace_member_role_def tenant_svc_defs dest!: write_member_Inr
        intro!: managesI [OF c] split: tenant_splits)
qed

lemma remove_manages:
  assumes c: "caller_of ws user km s" and m: "row_get (ty_members s) k = Some m"
    and run: "remove_workspace_member ws user (snd km) k m req s = (s', r)"
  shows "s' = s \<or> manages user s s'"
proof (rule unless_same)
  assume "s' \<noteq> s"
  with run m show "manages user s s'"
    by (auto simp: remove_workspace_member_def tenant_svc_defs dest!: write_member_Inr
        intro!: managesI [OF c] split: tenant_splits)
qed

lemma add_member_manages:
  assumes c: "caller_of ws user km s"
    and run: "add_workspace_member (\<lambda>t. t) now ws user (snd km) email role req s = (s', r)"
  shows "s' = s \<or> manages user s s'"
proof (rule unless_same)
  have ids: "distinct (row_ids (ty_members s))" using c by (simp add: caller_of_def)
  assume "s' \<noteq> s"
  with run show "manages user s s'"
    by (auto simp: add_workspace_member_def tenant_svc_defs Let_def
        dest!: write_member_Inr create_member_Inr membershipD [OF ids] intro!: managesI [OF c] split: tenant_splits)
qed

lemma transfer_writes:
  assumes run: "transfer_workspace_ownership ws user (i, a) (k, m) req s = (s', Inr n)"
    and rows: "row_get (ty_members s) i = Some a" "row_get (ty_members s) k = Some m"
  shows "tm_role a = OWNER \<and> tm_workspace m = ws \<and> tm_active m \<and> k \<noteq> i \<and> ty_workspaces s' = ty_workspaces s \<and>
    members_unique i (a\<lparr>tm_role := ADMIN\<rparr>) (ty_members s) \<and>
    members_unique k (m\<lparr>tm_role := OWNER\<rparr>) (row_put i (a\<lparr>tm_role := ADMIN\<rparr>) (ty_members s)) \<and>
    ty_members s' = row_put k (m\<lparr>tm_role := OWNER\<rparr>) (row_put i (a\<lparr>tm_role := ADMIN\<rparr>) (ty_members s))"
proof -
  from run rows obtain t u v w where
    g: "tm_role a = OWNER" "tm_workspace m = ws" "tm_active m" "tm_user m \<noteq> tm_user a" and
    1: "write_member i (\<lambda>x. x\<lparr>tm_role := ADMIN\<rparr>) s = (t, Inr u)" and
    2: "write_member k (\<lambda>x. x\<lparr>tm_role := OWNER\<rparr>) t = (v, Inr w)" and
    s': "ty_members s' = ty_members v" "ty_workspaces s' = ty_workspaces v"
    by (auto simp: transfer_workspace_ownership_def tenant_svc_defs split: tenant_splits)
  have ne: "k \<noteq> i" using g(4) rows by auto
  from write_member_Inr [OF 1] rows have a: "members_unique i (a\<lparr>tm_role := ADMIN\<rparr>) (ty_members s)"
    "t = s\<lparr>ty_members := row_put i (a\<lparr>tm_role := ADMIN\<rparr>) (ty_members s)\<rparr>" by auto
  from write_member_Inr [OF 2] ne rows have "members_unique k (m\<lparr>tm_role := OWNER\<rparr>) (ty_members t)"
    "v = t\<lparr>ty_members := row_put k (m\<lparr>tm_role := OWNER\<rparr>) (ty_members t)\<rparr>" unfolding a(2) by auto
  with a s' ne g show ?thesis by simp
qed

lemma transfer_hands_over:
  assumes c: "caller_of ws user km s" and m: "row_get (ty_members s) k = Some m"
    and run: "transfer_workspace_ownership ws user km (k, m) req s = (s', r)"
  shows "s' = s \<or> hands_over user s s'"
proof (cases r)
  case (Inl e)
  with run show ?thesis by (simp add: transfer_workspace_ownership_def atomic_error_rolls_back)
next
  case (Inr n)
  have "transfer_workspace_ownership ws user (fst km, snd km) (k, m) req s = (s', Inr n)" using run Inr by simp
  from transfer_writes [OF this _ m] c have w: "tm_role (snd km) = OWNER \<and> tm_workspace m = ws \<and> tm_active m \<and> k \<noteq> fst km \<and>
    ty_workspaces s' = ty_workspaces s \<and> members_unique (fst km) ((snd km)\<lparr>tm_role := ADMIN\<rparr>) (ty_members s) \<and>
    members_unique k (m\<lparr>tm_role := OWNER\<rparr>) (row_put (fst km) ((snd km)\<lparr>tm_role := ADMIN\<rparr>) (ty_members s)) \<and>
    ty_members s' = row_put k (m\<lparr>tm_role := OWNER\<rparr>) (row_put (fst km) ((snd km)\<lparr>tm_role := ADMIN\<rparr>) (ty_members s))"
    by (simp add: caller_of_def)
  then have "hands_over user s s'"
    unfolding hands_over_def using c m
    by (intro conjI exI [of _ "fst km"] exI [of _ "snd km"] exI [of _ k] exI [of _ m])
       (auto simp: caller_of_def active_owner_def)
  then show ?thesis ..
qed

text \<open>A request leaves the tables alone or changes them in one of the four ways.\<close>

lemma request_cases:
  assumes ids: "distinct (row_ids (ty_members s))" and run: "handle_request slugify now user q s = (s', r)"
  shows "s' = s \<or> renames s s' \<or> founds user s s' \<or> manages user s s' \<or> hands_over user s s'"
proof -
  have scoped: "s' = s \<or> (\<exists>km. caller_of ws user km s \<and> view km s = (s', r))" if "scoped ws user allowed view s = (s', r)"
    for ws allowed view and r :: "tenancy_exc + unit"
    using that active_membershipD [OF ids] by (fastforce simp: scoped_def caller_of_def ids split: sum.splits option.splits if_splits)
  have member: "s' = s \<or> (\<exists>m. row_get (ty_members s) k = Some m \<and> f m s = (s', r))" if "with_member ws k f s = (s', r)"
    for ws k f and r :: "tenancy_exc + unit"
    using that by (auto simp: with_member_def get_workspace_member_or_404_def split: sum.splits option.splits if_splits)
  have result: "\<exists>r'. f s = (s', r')" if "unit_result f s = (s', r)" for r :: "tenancy_exc + unit" and f :: "'x tenancy_svc"
    using that by (auto simp: unit_result_def svc_bind_def svc_return_def split: prod.splits sum.splits)
  show ?thesis
  proof (cases q)
    case PostWorkspace
    with run show ?thesis by (auto dest!: result create_workspace_founds)
  next
    case PatchWorkspace
    with run show ?thesis by (auto dest!: scoped update_workspace_renames)
  next
    case PostMember
    with run show ?thesis by (auto dest!: scoped result dest: add_member_manages)
  next
    case PatchMember
    with run show ?thesis by (auto dest!: scoped member result dest: change_role_manages)
  next
    case DeleteMember
    with run show ?thesis by (auto dest!: scoped member dest: remove_manages)
  next
    case PostTransfer
    with run show ?thesis by (auto dest!: scoped member result dest: transfer_hands_over)
  qed
qed

subsection \<open>Served one after another\<close>

lemma can_manage_no_owner: "can_manage_target_role a r \<Longrightarrow> r \<noteq> OWNER"
  by (auto simp: can_manage_target_role_def split: if_splits)

lemma founds_ok: "tenancy_ok s \<Longrightarrow> founds user s s' \<Longrightarrow> tenancy_ok s'"
  unfolding founds_def tenancy_ok_def
  by (auto simp: members_ok_put has_owner_here intro!: has_owner_put split: if_splits)

lemma manages_ok: assumes "tenancy_ok s" "manages user s s'" shows "tenancy_ok s'"
proof -
  from assms(2) obtain kc k m and mc :: tenant_member where
    u: "members_unique k m (ty_members s)" "ty_members s' = row_put k m (ty_members s)" and
    old: "\<forall>x. row_get (ty_members s) k = Some x \<longrightarrow> tm_workspace x = tm_workspace m \<and> tm_user x = tm_user m \<and>
      (tm_active x \<longrightarrow> can_manage_target_role (tm_role mc) (tm_role x))"
    unfolding manages_def by (elim conjE exE) (rule that)
  have w: "ty_workspaces s' = ty_workspaces s" using assms(2) by (simp add: manages_def)
  have "\<not> active_owner w x" if "row_get (ty_members s) k = Some x" for w x
    using old that can_manage_no_owner unfolding active_owner_def by blast
  with assms(1) u w show ?thesis unfolding tenancy_ok_def by (auto simp: members_ok_put intro!: has_owner_put)
qed

lemma hands_over_ok: assumes "tenancy_ok s" "hands_over user s s'" shows "tenancy_ok s'"
proof -
  from assms(2) obtain kc mc k x where
    r: "row_get (ty_members s) kc = Some mc" "active_owner (tm_workspace x) mc" "k \<noteq> kc" "row_get (ty_members s) k = Some x"
      "tm_active x" and
    u: "members_unique kc (mc\<lparr>tm_role := ADMIN\<rparr>) (ty_members s)"
      "members_unique k (x\<lparr>tm_role := OWNER\<rparr>) (row_put kc (mc\<lparr>tm_role := ADMIN\<rparr>) (ty_members s))" and
    s': "ty_members s' = row_put k (x\<lparr>tm_role := OWNER\<rparr>) (row_put kc (mc\<lparr>tm_role := ADMIN\<rparr>) (ty_members s))"
      "ty_workspaces s' = ty_workspaces s"
    unfolding hands_over_def by blast
  have "has_owner w (ty_members s')" if "has_owner w (ty_members s)" for w
  proof (cases "w = tm_workspace x")
    case True
    then show ?thesis unfolding s' using r(5) by (intro has_owner_here) (simp add: active_owner_def)
  next
    case False
    with that r show ?thesis unfolding s'
      by (intro has_owner_put) (auto simp: active_owner_def split: if_splits)
  qed
  with assms(1) u show ?thesis unfolding tenancy_ok_def s' by (auto simp: members_ok_put)
qed

lemma request_ok:
  assumes ok: "tenancy_ok s"
  shows "tenancy_ok (fst (handle_request slugify now user q s))"
proof -
  obtain s' r where run: "handle_request slugify now user q s = (s', r)" by fastforce
  have "distinct (row_ids (ty_members s))" using ok by (simp add: tenancy_ok_def members_ok_def)
  from request_cases [OF this run] have "tenancy_ok s'"
  proof (elim disjE)
    assume "renames s s'"
    then show ?thesis using ok unfolding renames_def tenancy_ok_def by (metis option.exhaust)
  qed (use ok founds_ok manages_ok hands_over_ok in blast)+
  with run show ?thesis by simp
qed

text \<open>A history of requests: when each is served, of which user, and what it asks.\<close>

definition serve :: "(string \<Rightarrow> string) \<Rightarrow> (int \<times> nat \<times> tenant_request) list \<Rightarrow> tenancy \<Rightarrow> tenancy" where
  "serve slugify qs s = fold (\<lambda>(now, user, q) s. fst (handle_request slugify now user q s)) qs s"

lemma serve_Cons: "serve slugify ((now, user, q) # qs) s = serve slugify qs (fst (handle_request slugify now user q s))"
  by (simp add: serve_def)

lemma serve_ok: "tenancy_ok s \<Longrightarrow> tenancy_ok (serve slugify qs s)"
proof (induction qs arbitrary: s)
  case Nil then show ?case by (simp add: serve_def)
next
  case (Cons q qs)
  obtain now user r where "q = (now, user, r)" by (cases q) auto
  with Cons show ?case by (simp add: serve_Cons request_ok)
qed

text \<open>Served one after another, requests keep exactly one active owner in every workspace, whoever sends them and
  whatever they ask: creation makes one, role changes and removals never touch an owner, and a transfer
  replaces it in one step.\<close>

theorem every_workspace_has_one_active_owner:
  assumes "tenancy_ok s" and "row_get (ty_workspaces (serve slugify qs s)) w = Some x"
  shows "\<exists>!k. \<exists>m. row_get (ty_members (serve slugify qs s)) k = Some m \<and> active_owner w m"
  using serve_ok [OF assms(1)] assms(2) by (rule tenancy_ok_one_owner)

subsection \<open>Authority\<close>

text \<open>A request changes another member's row only on the caller's authority: if it adds a membership, brings one
  back or alters the role or state of one that is not the caller's own, the caller is an active owner or admin
  of that very workspace, an admin neither touches an owner or another admin nor creates one, and only the
  owner makes an owner, who was an active member before.\<close>

theorem membership_changes_need_authority:
  assumes ids: "distinct (row_ids (ty_members s))"
    and run: "handle_request slugify now user q s = (s', r)"
    and new: "row_get (ty_members s') k = Some m" "row_get (ty_members s) k \<noteq> Some m"
    and existing: "row_get (ty_workspaces s) (tm_workspace m) \<noteq> None" and other: "tm_user m \<noteq> user"
  shows "\<exists>kc mc. row_get (ty_members s) kc = Some mc \<and> tm_user mc = user \<and> tm_active mc \<and>
    tm_workspace mc = tm_workspace m \<and> tm_role mc \<in> {OWNER, ADMIN} \<and>
    (tm_role mc = ADMIN \<longrightarrow> tm_role m \<notin> {OWNER, ADMIN} \<and>
      (\<forall>x. row_get (ty_members s) k = Some x \<longrightarrow> tm_active x \<longrightarrow> tm_role x \<notin> {OWNER, ADMIN})) \<and>
    (tm_role m = OWNER \<longrightarrow> tm_role mc = OWNER \<and> (\<exists>x. row_get (ty_members s) k = Some x \<and> tm_active x))"
proof -
  have managed: ?thesis if "manages user s s'"
  proof -
    from that obtain kc mc where c: "row_get (ty_members s) kc = Some mc" "tm_user mc = user" "tm_active mc"
      "tm_workspace mc = tm_workspace m" "can_manage_target_role (tm_role mc) (tm_role m)"
      "\<And>x. row_get (ty_members s) k = Some x \<Longrightarrow> tm_active x \<Longrightarrow> can_manage_target_role (tm_role mc) (tm_role x)"
      unfolding manages_def using new by (auto split: if_splits)
    then show ?thesis
      by (intro exI [of _ kc] exI [of _ mc]) (auto simp: can_manage_target_role_def split: if_splits)
  qed
  have handed: ?thesis if "hands_over user s s'"
    using that new other unfolding hands_over_def active_owner_def by (fastforce split: if_splits)
  have "\<not> renames s s'" "s' \<noteq> s" using new by (auto simp: renames_def)
  moreover have "\<not> founds user s s'" using new existing other by (auto simp: founds_def active_owner_def split: if_splits)
  ultimately show ?thesis using request_cases [OF ids run] managed handed by blast
qed

subsection \<open>Overlapping requests\<close>

lemma request_keeps_ownerless:
  assumes "members_ok (ty_members s)" and w: "row_get (ty_workspaces s) w = Some x" and none: "\<not> has_owner w (ty_members s)"
    and run: "handle_request slugify now user q s = (s', r)"
  shows "members_ok (ty_members s') \<and> row_get (ty_workspaces s') w \<noteq> None \<and> \<not> has_owner w (ty_members s')"
proof -
  have ids: "distinct (row_ids (ty_members s))" using assms(1) by (simp add: members_ok_def)
  have "members_ok (ty_members s') \<and> row_get (ty_workspaces s') w \<noteq> None \<and> \<not> has_owner w (ty_members s')"
    if "founds user s s'" using that assms(1) none row_get_neq_fresh [OF w] w
    by (fastforce simp: founds_def members_ok_put has_owner_def active_owner_def split: if_splits)
  moreover have "members_ok (ty_members s') \<and> row_get (ty_workspaces s') w \<noteq> None \<and> \<not> has_owner w (ty_members s')"
    if "manages user s s'" using that assms(1) none w can_manage_no_owner
    by (fastforce simp: manages_def members_ok_put has_owner_def active_owner_def split: if_splits)
  moreover have "members_ok (ty_members s') \<and> row_get (ty_workspaces s') w \<noteq> None \<and> \<not> has_owner w (ty_members s')"
    if "hands_over user s s'" using that assms(1) none w
    by (fastforce simp: hands_over_def members_ok_put has_owner_def active_owner_def split: if_splits)
  moreover have "members_ok (ty_members s') \<and> row_get (ty_workspaces s') w \<noteq> None \<and> \<not> has_owner w (ty_members s')"
    if "s' = s \<or> renames s s'" using that assms(1) none w unfolding renames_def by (metis option.distinct(1))
  ultimately show ?thesis using request_cases [OF ids run] by blast
qed

lemma serve_keeps_ownerless:
  "members_ok (ty_members s) \<Longrightarrow> row_get (ty_workspaces s) w \<noteq> None \<Longrightarrow> \<not> has_owner w (ty_members s) \<Longrightarrow>
    \<not> has_owner w (ty_members (serve slugify qs s))"
proof (induction qs arbitrary: s)
  case Nil then show ?case by (simp add: serve_def)
next
  case (Cons q qs)
  obtain now user p where q: "q = (now, user, p)" by (cases q) auto
  obtain s' r where run: "handle_request slugify now user p s = (s', r)" by fastforce
  from Cons.prems request_keeps_ownerless [OF _ _ _ run] Cons.IH [of s'] show ?case
    by (auto simp: q serve_Cons run)
qed

text \<open>Two overlapping requests leave a workspace without an owner for good: the owner's removal of a member whose
  instance was loaded while the owner's transfer to that very member was not yet committed deactivates the new
  owner, because the removal neither locks nor re-reads the row it judges; no later sequence of requests gives
  the workspace an owner again.\<close>

theorem stale_removal_leaves_no_owner:
  assumes ok: "tenancy_ok s" and w: "row_get (ty_workspaces s) ws = Some x"
    and owner: "row_get (ty_members s) i = Some a" "active_owner ws a"
    and target: "row_get (ty_members s) k = Some m" "tm_workspace m = ws" "tm_active m" "k \<noteq> i"
    and transfer: "transfer_workspace_ownership ws actor (i, a) (k, m) req s = (s1, Inr n)"
  shows "\<exists>s2. remove_workspace_member ws actor a k m req s1 = (s2, Inr ()) \<and>
    (\<forall>slugify qs. \<not> has_owner ws (ty_members (serve slugify qs s2)))"
proof -
  note t = transfer_writes [OF transfer owner(1) target(1)]
  define t2 where "t2 = row_put k (m\<lparr>tm_role := OWNER\<rparr>) (row_put i (a\<lparr>tm_role := ADMIN\<rparr>) (ty_members s))"
  have s1: "ty_members s1 = t2" "ty_workspaces s1 = ty_workspaces s" using t by (simp_all add: t2_def)
  have ok0: "members_ok (ty_members s)" using ok by (simp add: tenancy_ok_def)
  have ok2: "members_ok t2" unfolding t2_def using t ok0 by (intro members_ok_put) simp_all
  define gone where "gone = m\<lparr>tm_role := OWNER, tm_active := False\<rparr>"
  have k2: "row_get t2 k = Some (m\<lparr>tm_role := OWNER\<rparr>)" by (simp add: t2_def)
  have u: "members_unique k gone t2"
    using ok2 k2 unfolding members_unique_def list_all_iff gone_def members_ok_def row_ids_def by fastforce
  have others: "\<not> active_owner ws y" if "row_get (ty_members s) j = Some y" "j \<noteq> i" for j y
    using ok0 that owner unfolding members_ok_def active_owner_def by metis
  then have none: "\<not> has_owner ws (row_put k gone t2)"
    using target(4) unfolding has_owner_def t2_def by (auto simp: active_owner_def gone_def split: if_splits)
  have role: "tm_role m \<noteq> OWNER" using others [OF target(1,4)] target(2,3) by (simp add: active_owner_def)
  then obtain s2 where s2: "remove_workspace_member ws actor a k m req s1 = (s2, Inr ())" "ty_members s2 = row_put k gone t2"
    "ty_workspaces s2 = ty_workspaces s"
    using owner(2) target(2) k2 u s1
    by (simp add: remove_workspace_member_def tenant_svc_defs write_member_def can_manage_target_role_def active_owner_def
        gone_def)
  have "\<not> has_owner ws (ty_members (serve slugify qs s2))" for slugify qs
    using ok2 u none w by (intro serve_keeps_ownerless) (simp_all add: s2 members_ok_put)
  with s2(1) show ?thesis by blast
qed

subsection \<open>Examples\<close>

text \<open>User 1 founds a workspace and adds user 2 as an administrator.\<close>

definition two_users :: tenancy where
  "two_users = \<lparr>ty_workspaces = [], ty_members = [],
     ty_users = [(1, \<lparr>tu_email = ''a@x'', tu_username = ''a'', tu_active = True\<rparr>),
                 (2, \<lparr>tu_email = ''b@x'', tu_username = ''b'', tu_active = True\<rparr>)], ty_effects = []\<rparr>"

definition founder :: tenant_member where
  "founder = \<lparr>tm_workspace = 1, tm_user = 1, tm_role = OWNER, tm_active = True, tm_created_at = 0\<rparr>"

definition colleague :: tenant_member where
  "colleague = \<lparr>tm_workspace = 1, tm_user = 2, tm_role = ADMIN, tm_active = True, tm_created_at = 5\<rparr>"

definition acme :: tenancy where
  "acme = serve (\<lambda>n. n) [(0, 1, PostWorkspace ''acme'')] two_users"

definition acme_team :: tenancy where
  "acme_team = serve (\<lambda>n. n) [(0, 1, PostWorkspace ''acme''), (5, 1, PostMember 1 '' B@X'' (Some ADMIN))] two_users"

lemma acme_rows:
  "ty_members acme = [(1, founder)]" "ty_members acme_team = [(1, founder), (2, colleague)]"
  "map fst (ty_workspaces acme) = [1]" "map fst (ty_workspaces acme_team) = [1]"
  by (simp_all add: founder_def colleague_def) code_simp+

lemma two_users_ok: "tenancy_ok two_users"
  by (simp add: tenancy_ok_def two_users_def members_ok_def row_ids_def)

lemma team_exists: "\<exists>x. row_get (ty_workspaces acme_team) 1 = Some x" "row_get (ty_workspaces acme) 1 \<noteq> None"
  using acme_rows(3,4) by auto

theorem every_workspace_has_one_active_owner_witness:
  "\<exists>!k. \<exists>m. row_get (ty_members acme_team) k = Some m \<and> active_owner 1 m"
proof -
  obtain x where "row_get (ty_workspaces acme_team) 1 = Some x" using team_exists(1) by blast
  then show ?thesis unfolding acme_team_def by (rule every_workspace_has_one_active_owner [OF two_users_ok])
qed

theorem membership_changes_need_authority_witness:
  "\<exists>kc mc. row_get (ty_members acme) kc = Some mc \<and> tm_user mc = 1 \<and> tm_role mc \<in> {OWNER, ADMIN}"
proof -
  have s: "acme_team = fst (handle_request (\<lambda>n. n) 5 1 (PostMember 1 '' B@X'' (Some ADMIN)) acme)"
    by (simp add: acme_team_def acme_def serve_def)
  obtain r where run: "handle_request (\<lambda>n. n) 5 1 (PostMember 1 '' B@X'' (Some ADMIN)) acme = (acme_team, r)"
    unfolding s by (metis prod.collapse)
  have new: "row_get (ty_members acme_team) 2 = Some colleague" "row_get (ty_members acme) 2 \<noteq> Some colleague"
    by (simp_all add: acme_rows)
  have ids: "distinct (row_ids (ty_members acme))" by (simp add: acme_rows row_ids_def)
  have "row_get (ty_workspaces acme) (tm_workspace colleague) \<noteq> None" "tm_user colleague \<noteq> 1"
    using team_exists(2) by (simp_all add: colleague_def)
  from membership_changes_need_authority [OF ids run new this] show ?thesis by blast
qed

theorem stale_removal_leaves_no_owner_witness:
  "\<exists>s1 n s2. transfer_workspace_ownership 1 1 (1, founder) (2, colleague) None acme_team = (s1, Inr n) \<and>
    remove_workspace_member 1 1 founder 2 colleague None s1 = (s2, Inr ()) \<and> \<not> has_owner 1 (ty_members (serve (\<lambda>n. n) [] s2))"
proof -
  obtain s1 res where t: "transfer_workspace_ownership 1 1 (1, founder) (2, colleague) None acme_team = (s1, res)" by fastforce
  have "case snd (transfer_workspace_ownership 1 1 (1, founder) (2, colleague) None acme_team) of Inl e \<Rightarrow> False | Inr n \<Rightarrow> True"
    by code_simp
  then obtain n where n: "res = Inr n" using t by (cases res) auto
  have ok: "tenancy_ok acme_team" unfolding acme_team_def by (rule serve_ok [OF two_users_ok])
  obtain x where x: "row_get (ty_workspaces acme_team) 1 = Some x" using team_exists(1) by blast
  have rows: "row_get (ty_members acme_team) 1 = Some founder" "active_owner 1 founder"
    "row_get (ty_members acme_team) 2 = Some colleague" "tm_workspace colleague = 1" "tm_active colleague" "(2 :: nat) \<noteq> 1"
    by (simp_all add: acme_rows active_owner_def founder_def colleague_def)
  from stale_removal_leaves_no_owner [OF ok x rows t [unfolded n]] t n show ?thesis by blast
qed

end
