(* ===== verification/ProviderAdapters.thy ===== *)
theory ProviderAdapters
  imports Integrations Destinations
begin

section \<open>Provider adapters\<close>

text \<open>
  \<open>integrations/providers/\<close>: the adapters of Stripe, Google Calendar, SMTP and the demo catalog, and
  \<open>integrations/schemas.py\<close>. The vendor is an argument: what its SDK answers to a request, or the exception it
  raises, sorted as the adapter sorts it. \<open>from_iso\<close> is \<open>fromisoformat\<close>.
  The factory picks an adapter by the connection's provider; the fakes are for tests.
\<close>

subsection \<open>Normalized results\<close>

text \<open>A datetime with or without a time zone, in microseconds.\<close>

datatype moment = Aware int | Naive int

record normalized_payment =
  np_id :: string
  np_external_id :: string
  np_status :: string
  np_amount :: int
  np_currency :: string
  np_created_at :: moment
  np_refunded :: int

record normalized_refund =
  nr_id :: string
  nr_payment :: string
  nr_status :: string
  nr_amount :: int
  nr_currency :: string
  nr_created_at :: moment

record slot =
  sl_start :: moment
  sl_end :: moment

record normalized_booking =
  nb_id :: string
  nb_external_id :: json
  nb_start :: moment
  nb_end :: moment
  nb_status :: string

text \<open>What the catalog holds is handed on as it is; the output model of the tool checks it.\<close>

record normalized_order =
  no_id :: string
  no_external_id :: string
  no_status :: json
  no_created_at :: moment
  no_amount :: int
  no_currency :: string
  no_shipment_status :: json
  no_tracking :: json

record normalized_shipment =
  nh_id :: string
  nh_order :: json
  nh_status :: json
  nh_tracking :: json
  nh_carrier :: json
  nh_estimated :: "moment option"

definition refuse :: "integration_class \<Rightarrow> 'a provider_outcome" where
  "refuse c = Refused (IntegrationError c None)"

definition refuse_with :: "integration_class \<Rightarrow> string \<Rightarrow> 'a provider_outcome" where
  "refuse_with c m = Refused (IntegrationError c (Some m))"

text \<open>\<open>d.get(k, default)\<close> of a JSON object; \<open>d[k]\<close>, where \<open>None\<close> is KeyError or TypeError.\<close>

fun json_get :: "json \<Rightarrow> string \<Rightarrow> json \<Rightarrow> json" where
  "json_get (JObj kvs) k d = (case map_of kvs k of None \<Rightarrow> d | Some v \<Rightarrow> v)"
| "json_get _ k d = d"

fun json_index :: "json \<Rightarrow> string \<Rightarrow> json option" where
  "json_index (JObj kvs) k = map_of kvs k"
| "json_index _ k = None"

subsection \<open>Stripe\<close>

text \<open>The exceptions of the SDK; an invalid request carries a code.\<close>

datatype stripe_exc =
    StripeAuthentication | StripePermission | StripeRateLimit | StripeConnection | StripeInvalidRequest "string option"
  | StripeApi | StripeOther

datatype 'a stripe_answer = StripeReturned 'a | StripeRaised stripe_exc | StripeCrashed

record stripe_intent =
  si_id :: string
  si_status :: string
  si_amount :: int
  si_currency :: string
  si_created :: int

record stripe_refund =
  sf_id :: string
  sf_intent :: string
  sf_status :: "string option"
  sf_amount :: int
  sf_currency :: string
  sf_created :: int

record refund_request =
  rq_intent :: string
  rq_amount :: int
  rq_reason :: "string option"
  rq_key :: string

definition stripe_map_error :: "stripe_exc \<Rightarrow> integration_class" where
  "stripe_map_error e = (case e of
     StripeAuthentication \<Rightarrow> IntegrationAuthenticationFailed
   | StripePermission \<Rightarrow> IntegrationPermissionDenied
   | StripeRateLimit \<Rightarrow> IntegrationRateLimited
   | StripeConnection \<Rightarrow> IntegrationTimeout
   | StripeInvalidRequest code \<Rightarrow>
       if code = Some ''resource_missing'' then PaymentNotFound else IntegrationInvalidRequest
   | StripeApi \<Rightarrow> IntegrationTemporarilyUnavailable
   | StripeOther \<Rightarrow> IntegrationTemporarilyUnavailable)"

text \<open>An epoch outside the years of \<open>datetime\<close> raises ValueError, outside \<open>time_t\<close> OverflowError.\<close>

definition epoch_to_datetime :: "int \<Rightarrow> moment provider_outcome" where
  "epoch_to_datetime n =
    (if - 62135596800 \<le> n \<and> n \<le> 253402300799 then Provided (Aware (n * 1000000))
     else if - (2 ^ 63) \<le> n \<and> n < 2 ^ 63
     then refuse_with IntegrationMalformedResponse ''Stripe returned an invalid timestamp.''
     else Crashed)"

definition normalize_payment :: "stripe_intent \<Rightarrow> normalized_payment provider_outcome" where
  "normalize_payment i =
    (case epoch_to_datetime (si_created i) of
       Provided t \<Rightarrow> Provided \<lparr>np_id = si_id i, np_external_id = si_id i, np_status = si_status i,
         np_amount = si_amount i, np_currency = str_upper (si_currency i), np_created_at = t, np_refunded = 0\<rparr>
     | Refused e \<Rightarrow> Refused e
     | Crashed \<Rightarrow> Crashed)"

text \<open>The calls of a client with this secret key and timeout. The key is \<open>str\<close> of the stored value, or of the empty
  string where that is missing or empty: \<open>secret_key_of\<close> is the value under \<open>str\<close>, which the client applies.\<close>

definition secret_key_of :: "json \<Rightarrow> json" where
  "secret_key_of credentials =
    (let v = json_get credentials ''secret_key'' JNull in if py_truthy v then v else JStr [])"

record stripe_api =
  sa_balance :: "json \<Rightarrow> rat \<Rightarrow> unit stripe_answer"
  sa_retrieve :: "json \<Rightarrow> rat \<Rightarrow> string \<Rightarrow> stripe_intent stripe_answer"
  sa_refund :: "json \<Rightarrow> rat \<Rightarrow> refund_request \<Rightarrow> stripe_refund stripe_answer"

definition stripe_probe :: "stripe_api \<Rightarrow> json \<Rightarrow> rat \<Rightarrow> unit provider_outcome" where
  "stripe_probe api credentials timeout =
    (case sa_balance api (secret_key_of credentials) timeout of
       StripeReturned u \<Rightarrow> Provided ()
     | StripeRaised e \<Rightarrow> refuse (stripe_map_error e)
     | StripeCrashed \<Rightarrow> refuse IntegrationMalformedResponse)"

definition stripe_get_payment :: "stripe_api \<Rightarrow> string \<Rightarrow> json \<Rightarrow> rat \<Rightarrow> normalized_payment provider_outcome" where
  "stripe_get_payment api reference credentials timeout =
    (case sa_retrieve api (secret_key_of credentials) timeout reference of
       StripeReturned i \<Rightarrow> normalize_payment i
     | StripeRaised e \<Rightarrow> refuse (stripe_map_error e)
     | StripeCrashed \<Rightarrow> refuse IntegrationMalformedResponse)"

definition stripe_refund_reasons :: "string set" where
  "stripe_refund_reasons = {''duplicate'', ''fraudulent'', ''requested_by_customer''}"

definition stripe_refund_params :: "string \<Rightarrow> int \<Rightarrow> string \<Rightarrow> string \<Rightarrow> refund_request" where
  "stripe_refund_params reference amount reason key =
    \<lparr>rq_intent = reference, rq_amount = amount,
     rq_reason = (if reason \<in> stripe_refund_reasons then Some reason else None), rq_key = key\<rparr>"

definition stripe_refund_payment ::
  "stripe_api \<Rightarrow> string \<Rightarrow> int \<Rightarrow> string \<Rightarrow> string \<Rightarrow> string \<Rightarrow> json \<Rightarrow> rat \<Rightarrow> normalized_refund provider_outcome" where
  "stripe_refund_payment api reference amount currency reason key credentials timeout =
    (case sa_refund api (secret_key_of credentials) timeout (stripe_refund_params reference amount reason key) of
       StripeRaised e \<Rightarrow>
         if e = StripeInvalidRequest (Some ''charge_already_refunded'')
         then refuse_with RefundNotAllowedByProvider ''This payment has already been fully refunded.''
         else refuse (stripe_map_error e)
     | StripeCrashed \<Rightarrow> refuse IntegrationMalformedResponse
     | StripeReturned r \<Rightarrow>
         (case epoch_to_datetime (sf_created r) of
            Provided t \<Rightarrow> Provided \<lparr>nr_id = sf_id r, nr_payment = sf_intent r,
              nr_status = (case sf_status r of None \<Rightarrow> ''pending'' | Some s \<Rightarrow> if s = [] then ''pending'' else s),
              nr_amount = sf_amount r,
              nr_currency = str_upper (if sf_currency r = [] then currency else sf_currency r), nr_created_at = t\<rparr>
          | Refused e \<Rightarrow> Refused e
          | Crashed \<Rightarrow> Crashed))"

subsection \<open>Google Calendar\<close>

text \<open>An HTTP error with its status, a TimeoutError or OSError, or any other exception of the client library.\<close>

datatype google_answer = GoogleReturned json | GoogleHttp int | GoogleNetwork | GoogleCrashed

datatype google_request = CalendarList | FreeBusy json | InsertEvent json json

text \<open>The service account, the timeout and the request.\<close>

type_synonym google_api = "json \<Rightarrow> rat \<Rightarrow> google_request \<Rightarrow> google_answer"

definition google_map_error :: "int \<Rightarrow> integration_class" where
  "google_map_error status =
    (if status = 401 then IntegrationAuthenticationFailed
     else if status = 403 then IntegrationPermissionDenied
     else if status = 429 then IntegrationRateLimited
     else if status \<ge> 500 then IntegrationTemporarilyUnavailable
     else IntegrationInvalidRequest)"

definition google_execute :: "google_api \<Rightarrow> json \<Rightarrow> rat \<Rightarrow> google_request \<Rightarrow> json provider_outcome" where
  "google_execute api credentials timeout request =
    (let info = json_get credentials ''service_account_info'' JNull in
     if \<not> py_truthy info
     then refuse_with IntegrationInvalidRequest ''No Google service-account credential is configured.''
     else case api info timeout request of
       GoogleReturned v \<Rightarrow> Provided v
     | GoogleHttp status \<Rightarrow> refuse (google_map_error status)
     | GoogleNetwork \<Rightarrow> refuse IntegrationTimeout
     | GoogleCrashed \<Rightarrow> refuse IntegrationMalformedResponse)"

definition google_probe :: "google_api \<Rightarrow> json \<Rightarrow> rat \<Rightarrow> unit provider_outcome" where
  "google_probe api credentials timeout =
    (case google_execute api credentials timeout CalendarList of
       Provided v \<Rightarrow> Provided () | Refused e \<Rightarrow> Refused e | Crashed \<Rightarrow> Crashed)"

text \<open>\<open>isoformat\<close> of an aware datetime and \<open>str\<close>.\<close>

record py_format =
  pf_iso :: "int \<Rightarrow> string"
  pf_str :: "json \<Rightarrow> string"

definition rfc3339 :: "py_format \<Rightarrow> moment \<Rightarrow> integration_error + string" where
  "rfc3339 fmt m = (case m of
     Naive t \<Rightarrow> Inl (IntegrationError IntegrationInvalidRequest (Some ''Calendar times must be timezone-aware.''))
   | Aware t \<Rightarrow> Inr (pf_iso fmt t))"

definition calendar_id_of :: "json \<Rightarrow> json" where
  "calendar_id_of configuration = json_get configuration ''calendar_id'' (JStr ''primary'')"

text \<open>The client library is built before the times are printed.\<close>

definition google_get_availability ::
  "py_format \<Rightarrow> google_api \<Rightarrow> moment \<Rightarrow> moment \<Rightarrow> json \<Rightarrow> json \<Rightarrow> rat \<Rightarrow> slot list provider_outcome" where
  "google_get_availability fmt api window_start window_end credentials configuration timeout =
    (let calendar = calendar_id_of configuration in
     if \<not> py_truthy (json_get credentials ''service_account_info'' JNull)
     then refuse_with IntegrationInvalidRequest ''No Google service-account credential is configured.''
     else case (rfc3339 fmt window_start, rfc3339 fmt window_end) of
       (Inl e, _) \<Rightarrow> Refused e
     | (_, Inl e) \<Rightarrow> Refused e
     | (Inr t0, Inr t1) \<Rightarrow>
         (case google_execute api credentials timeout
            (FreeBusy (JObj [(''timeMin'', JStr t0), (''timeMax'', JStr t1),
                             (''items'', JArr [JObj [(''id'', calendar)]])])) of
            Refused e \<Rightarrow> Refused e
          | Crashed \<Rightarrow> Crashed
          | Provided v \<Rightarrow>
              (case Option.bind (json_index v ''calendars'') (\<lambda>c.
                 case calendar of JStr name \<Rightarrow> Option.bind (json_index c name) (\<lambda>d. json_index d ''busy'') | _ \<Rightarrow> None) of
                 None \<Rightarrow> refuse IntegrationMalformedResponse
               | Some busy \<Rightarrow>
                   if py_truthy busy then Provided [] else Provided [\<lparr>sl_start = window_start, sl_end = window_end\<rparr>])))"

definition event_body :: "string \<Rightarrow> string \<Rightarrow> string \<Rightarrow> string option \<Rightarrow> string \<Rightarrow> json" where
  "event_body title t0 t1 attendee key = JObj
    ([(''summary'', JStr title), (''start'', JObj [(''dateTime'', JStr t0)]), (''end'', JObj [(''dateTime'', JStr t1)]),
      (''extendedProperties'', JObj [(''private'', JObj [(''supportpilot_idempotency_key'', JStr key)])])]
     @ (case attendee of None \<Rightarrow> [] | Some a \<Rightarrow> if a = [] then [] else [(''attendees'', JArr [JObj [(''email'', JStr a)]])]))"

definition google_create_booking ::
  "py_format \<Rightarrow> google_api \<Rightarrow> moment \<Rightarrow> moment \<Rightarrow> string \<Rightarrow> string option \<Rightarrow> string \<Rightarrow> json \<Rightarrow> json \<Rightarrow> rat
    \<Rightarrow> normalized_booking provider_outcome" where
  "google_create_booking fmt api start finish title attendee key credentials configuration timeout =
    (case (rfc3339 fmt start, rfc3339 fmt finish) of
       (Inl e, _) \<Rightarrow> Refused e
     | (_, Inl e) \<Rightarrow> Refused e
     | (Inr t0, Inr t1) \<Rightarrow>
        (let info = json_get credentials ''service_account_info'' JNull in
         if \<not> py_truthy info
         then refuse_with IntegrationInvalidRequest ''No Google service-account credential is configured.''
         else case api info timeout (InsertEvent (calendar_id_of configuration) (event_body title t0 t1 attendee key)) of
           GoogleHttp status \<Rightarrow>
             if status = 409 then refuse CalendarSlotUnavailable else refuse (google_map_error status)
         | GoogleNetwork \<Rightarrow> refuse IntegrationTimeout
         | GoogleCrashed \<Rightarrow> refuse IntegrationMalformedResponse
         | GoogleReturned event \<Rightarrow>
             (case json_index event ''id'' of
                Some v \<Rightarrow> Provided \<lparr>nb_id = ''bk_'' @ pf_str fmt v, nb_external_id = v, nb_start = start,
                  nb_end = finish, nb_status = ''confirmed''\<rparr>
              | None \<Rightarrow> refuse IntegrationMalformedResponse)))"

subsection \<open>SMTP\<close>

text \<open>
  The backend resolves and checks the host a second time when it opens the connection, and connects to the address
  of that second check. \<open>resolve\<close> is what the resolver answers at the n-th lookup. What the server makes of a
  message is \<open>deliver\<close>; an address of the answer is the one the socket was opened to. The adapter builds the backend
  with \<open>use_tls\<close> only, and no settings module under \<open>src\<close> defines \<open>EMAIL_USE_SSL\<close>, so \<open>use_ssl\<close> is False and the branch
  of \<open>open\<close> that delegates to the unpinned base class is not taken.
\<close>

datatype smtp_answer = SmtpAccepted | SmtpAuthentication | SmtpRecipientsRefused | SmtpBadHeader | SmtpTimeout | SmtpFailed

record smtp_message =
  sm_id :: string
  sm_from :: string
  sm_to :: string
  sm_subject :: string
  sm_body :: string
  sm_key :: string

record smtp_env =
  sv_resolve :: "nat \<Rightarrow> resolver"
  sv_parse_ip :: address_parser
  sv_message_id :: string
  sv_int :: "json \<Rightarrow> int option"
  sv_deliver :: "ip_address \<Rightarrow> int \<Rightarrow> json \<Rightarrow> rat \<Rightarrow> smtp_message option \<Rightarrow> smtp_answer"

definition smtp_validate :: "smtp_env \<Rightarrow> nat \<Rightarrow> json \<Rightarrow> int \<Rightarrow> integration_error + ip_address" where
  "smtp_validate env n credentials port =
    (case validate_outbound_host (sv_resolve env n) (sv_parse_ip env)
            (case json_get credentials ''host'' JNull of JStr h \<Rightarrow> Some h | _ \<Rightarrow> None) port of
       Inl m \<Rightarrow> Inl (IntegrationError IntegrationInvalidRequest (Some m))
     | Inr ip \<Rightarrow> Inr ip)"

fun smtp_outcome :: "'a \<Rightarrow> smtp_answer \<Rightarrow> 'a provider_outcome" where
  "smtp_outcome v SmtpAccepted = Provided v"
| "smtp_outcome v SmtpAuthentication = refuse IntegrationAuthenticationFailed"
| "smtp_outcome v SmtpRecipientsRefused =
    refuse_with IntegrationInvalidRequest ''The recipient address was refused.''"
| "smtp_outcome v SmtpBadHeader = refuse_with IntegrationInvalidRequest
    ''The message could not be sent: an address or header was invalid.''"
| "smtp_outcome v SmtpTimeout = refuse IntegrationTimeout"
| "smtp_outcome v SmtpFailed = refuse IntegrationTemporarilyUnavailable"

definition smtp_session ::
  "smtp_env \<Rightarrow> json \<Rightarrow> rat \<Rightarrow> smtp_message option \<Rightarrow> 'a \<Rightarrow> ip_address option \<times> 'a provider_outcome" where
  "smtp_session env credentials timeout message v =
    (case sv_int env (json_get credentials ''port'' (JInt 587)) of
       None \<Rightarrow> (None, Crashed)
     | Some port \<Rightarrow>
        (case smtp_validate env 0 credentials port of
           Inl e \<Rightarrow> (None, Refused e)
         | Inr first \<Rightarrow>
            (case smtp_validate env 1 credentials port of
               Inl e \<Rightarrow> (None, Refused e)
             | Inr pinned \<Rightarrow>
                 (Some pinned, smtp_outcome v (sv_deliver env pinned port credentials timeout message)))))"

definition smtp_probe :: "smtp_env \<Rightarrow> json \<Rightarrow> rat \<Rightarrow> ip_address option \<times> unit provider_outcome" where
  "smtp_probe env credentials timeout = smtp_session env credentials timeout None ()"

definition smtp_send ::
  "smtp_env \<Rightarrow> string \<Rightarrow> string \<Rightarrow> string \<Rightarrow> string \<Rightarrow> json \<Rightarrow> json \<Rightarrow> rat \<Rightarrow> ip_address option \<times> string provider_outcome" where
  "smtp_send env recipient subject body key credentials configuration timeout =
    (let configured = json_get configuration ''from_email'' JNull;
         sender = (if py_truthy configured then configured else json_get credentials ''username'' JNull)
     in case sender of
          JStr from_email \<Rightarrow>
            if from_email = [] then (None, refuse_with IntegrationInvalidRequest ''No sender address is configured.'')
            else smtp_session env credentials timeout
              (Some \<lparr>sm_id = sv_message_id env, sm_from = from_email, sm_to = recipient, sm_subject = subject,
                 sm_body = body, sm_key = key\<rparr>) (sv_message_id env)
        | _ \<Rightarrow> (None, refuse_with IntegrationInvalidRequest ''No sender address is configured.''))"

subsection \<open>The demo catalog\<close>

text \<open>\<open>None\<close> of \<open>from_iso\<close> is ValueError; \<open>to_int\<close> is \<open>int\<close> and \<open>to_str\<close> is \<open>str\<close>.\<close>

record catalog_env =
  ca_from_iso :: "string \<Rightarrow> moment option"
  ca_int :: "json \<Rightarrow> int option"
  ca_str :: "json \<Rightarrow> string"

definition catalog_entry :: "json \<Rightarrow> string \<Rightarrow> string \<Rightarrow> json" where
  "catalog_entry configuration table reference = json_get (json_get configuration table (JObj [])) reference JNull"

definition required_order_fields :: "string list" where
  "required_order_fields = [''status'', ''created_at'', ''amount_minor'', ''currency'']"

definition demo_get_order :: "catalog_env \<Rightarrow> string \<Rightarrow> json \<Rightarrow> normalized_order provider_outcome" where
  "demo_get_order env reference configuration =
    (case catalog_entry configuration ''orders'' reference of
       JNull \<Rightarrow> refuse OrderNotFound
     | JObj raw \<Rightarrow>
         if \<not> set required_order_fields \<subseteq> set (map fst raw)
         then refuse_with IntegrationMalformedResponse ''Demo order catalog entry is incomplete.''
         else (case dict_get raw ''created_at'' of
           JStr t \<Rightarrow>
             (case ca_from_iso env t of
                None \<Rightarrow> refuse_with IntegrationMalformedResponse ''Demo order has an invalid timestamp.''
              | Some created_at \<Rightarrow>
                  (case ca_int env (dict_get raw ''amount_minor'') of
                     None \<Rightarrow> Crashed
                   | Some amount \<Rightarrow> Provided \<lparr>no_id = ''ord_'' @ reference, no_external_id = reference,
                       no_status = dict_get raw ''status'', no_created_at = created_at, no_amount = amount,
                       no_currency = str_upper (ca_str env (dict_get raw ''currency'')),
                       no_shipment_status = dict_get raw ''shipment_status'',
                       no_tracking = dict_get raw ''tracking_reference''\<rparr>))
         | _ \<Rightarrow> Crashed)
     | _ \<Rightarrow> Crashed)"

definition demo_get_shipment :: "catalog_env \<Rightarrow> string \<Rightarrow> json \<Rightarrow> normalized_shipment provider_outcome" where
  "demo_get_shipment env reference configuration =
    (case catalog_entry configuration ''shipments'' reference of
       JNull \<Rightarrow> refuse ShipmentNotFound
     | JObj raw \<Rightarrow>
         (let result = (\<lambda>estimated. Provided \<lparr>nh_id = ''shp_'' @ reference,
                nh_order = json_get (JObj raw) ''order_id'' (JStr []),
                nh_status = json_get (JObj raw) ''status'' (JStr ''label_created''),
                nh_tracking = json_get (JObj raw) ''tracking_reference'' (JStr reference),
                nh_carrier = dict_get raw ''carrier'', nh_estimated = estimated\<rparr>);
              estimate = dict_get raw ''estimated_delivery''
          in if \<not> py_truthy estimate then result None
             else case estimate of
               JStr t \<Rightarrow> (case ca_from_iso env t of
                   None \<Rightarrow> refuse_with IntegrationMalformedResponse ''Demo shipment has an invalid delivery timestamp.''
                 | Some m \<Rightarrow> result (Some m))
             | _ \<Rightarrow> Crashed)
     | _ \<Rightarrow> Crashed)"

subsection \<open>What an SMTP session connects to\<close>

lemma validated_host_is_public:
  assumes "validate_outbound_host resolver parse_ip host port = Inr ip"
  shows "\<not> is_blocked_address ip"
  using assms
  by (auto simp: validate_outbound_host_def Let_def all_some_map list_ex_iff split: option.splits if_splits)
     (metis hd_map list.map_disc_iff list.set_sel(1) list.simps(9) list.exhaust_sel)

end
