(* ===== verification/BusinessTools.thy ===== *)
theory BusinessTools
  imports ProviderAdapters Customers Tickets Notifications ToolContracts
begin

section \<open>Business tools\<close>

text \<open>
  \<open>integrations/tools.py\<close> with the operations of \<open>integrations/services.py\<close> it calls: the input model of
  every tool, its handler on the tables it touches, its specification and the registration. A handler gets the
  trusted context of the execution apart from the arguments the model produced.
\<close>

subsection \<open>State and environment\<close>

text \<open>The audit entry of a refund; its target is the payment's identifier at the provider.\<close>

record refund_audit =
  ra_payment :: string
  ra_actor :: "nat option"
  ra_workspace :: nat
  ra_metadata :: json
  ra_request :: "string option"

record office =
  bz_workspaces :: "nat list"
  bz_users :: "nat list"
  bz_executions :: "nat list"
  bz_crm :: crm
  bz_desk :: desk
  bz_outbox :: outbox
  bz_audits :: "refund_audit list"

record tool_context =
  xc_workspace :: nat
  xc_execution :: nat
  xc_correlation :: "string option"
  xc_deadline :: int
  xc_run :: "nat option"
  xc_actor :: "nat option"

text \<open>
  The clock of the handler, the vendors, Python's conversions (\<open>bv_id\<close> parses an identifier, \<open>bv_datetime\<close> a
  JSON value as pydantic does, \<open>bv_moment\<close> is the JSON form of a datetime) and the settings.
\<close>

record business_env =
  bv_now :: int
  bv_call :: call_env
  bv_other :: "outbox \<Rightarrow> outbox"
  bv_stripe :: stripe_api
  bv_google :: google_api
  bv_catalog :: catalog_env
  bv_format :: py_format
  bv_id :: "string \<Rightarrow> nat option"
  bv_show :: "nat \<Rightarrow> string"
  bv_int :: "json \<Rightarrow> int option"
  bv_datetime :: "json \<Rightarrow> moment option"
  bv_moment :: "moment \<Rightarrow> json"
  bv_email_ok :: "string \<Rightarrow> bool"
  bv_max_horizon_days :: int
  bv_max_title :: nat
  bv_max_subject :: nat
  bv_max_body :: nat
  bv_max_attempts :: int

type_synonym 'i business_handler = "business_env \<Rightarrow> tool_context \<Rightarrow> 'i \<Rightarrow> office \<Rightarrow> office \<times> handler_outcome"

definition integration_tool_error :: "integration_error \<Rightarrow> handler_outcome" where
  "integration_tool_error e = HToolError (ToolExc (error_code e) (error_message e))"

definition tool_fault :: "integration_class \<Rightarrow> handler_outcome" where
  "tool_fault c = integration_tool_error (IntegrationError c None)"

definition tool_fault_with :: "integration_class \<Rightarrow> string \<Rightarrow> handler_outcome" where
  "tool_fault_with c m = integration_tool_error (IntegrationError c (Some m))"

definition write_retryable_codes :: "string list" where
  "write_retryable_codes =
    [integration_code IntegrationRateLimited, integration_code IntegrationTemporarilyUnavailable]"

definition read_retryable_codes :: "string list" where
  "read_retryable_codes = retryable_integration_codes"

definition calendar_ambiguous_outcome_codes :: "string list" where
  "calendar_ambiguous_outcome_codes =
    [integration_code IntegrationTimeout, integration_code IntegrationMalformedResponse, exc_code ToolTimeoutError]"

definition remaining_seconds :: "business_env \<Rightarrow> tool_context \<Rightarrow> rat" where
  "remaining_seconds env ctx = max (total_seconds (xc_deadline ctx - bv_now env)) (1 / 2)"

definition actor_of :: "tool_context \<Rightarrow> office \<Rightarrow> nat option" where
  "actor_of ctx s = (case xc_actor ctx of None \<Rightarrow> None | Some u \<Rightarrow> if u \<in> set (bz_users s) then Some u else None)"

text \<open>\<open>Workspace.objects.get\<close> raises for a workspace that is gone.\<close>

definition in_workspace :: "tool_context \<Rightarrow> (office \<Rightarrow> office \<times> handler_outcome) \<Rightarrow> office \<Rightarrow> office \<times> handler_outcome" where
  "in_workspace ctx f s = (if xc_workspace ctx \<in> set (bz_workspaces s) then f s else (s, HCrash))"

text \<open>The provider operations of \<open>integrations/services.py\<close>.\<close>

type_synonym 'a operation = "connection rows \<Rightarrow> connection rows \<times> (call_exc + 'a)"

definition get_order :: "business_env \<Rightarrow> nat \<Rightarrow> rat \<Rightarrow> string \<Rightarrow> normalized_order operation" where
  "get_order env ws remaining reference = provider_operation (bv_call env) ws remaining ''demo_commerce''
     (\<lambda>credentials configuration timeout. demo_get_order (bv_catalog env) reference configuration)"

definition get_shipment :: "business_env \<Rightarrow> nat \<Rightarrow> rat \<Rightarrow> string \<Rightarrow> normalized_shipment operation" where
  "get_shipment env ws remaining reference = provider_operation (bv_call env) ws remaining ''demo_commerce''
     (\<lambda>credentials configuration timeout. demo_get_shipment (bv_catalog env) reference configuration)"

definition get_payment :: "business_env \<Rightarrow> nat \<Rightarrow> rat \<Rightarrow> string \<Rightarrow> normalized_payment operation" where
  "get_payment env ws remaining reference = provider_operation (bv_call env) ws remaining ''stripe''
     (\<lambda>credentials configuration timeout. stripe_get_payment (bv_stripe env) reference credentials timeout)"

definition refund_payment ::
  "business_env \<Rightarrow> nat \<Rightarrow> rat \<Rightarrow> string \<Rightarrow> int \<Rightarrow> string \<Rightarrow> string \<Rightarrow> string \<Rightarrow> normalized_refund operation" where
  "refund_payment env ws remaining reference amount currency reason key =
     provider_operation (bv_call env) ws remaining ''stripe'' (\<lambda>credentials configuration timeout.
       stripe_refund_payment (bv_stripe env) reference amount currency reason key credentials timeout)"

definition get_availability :: "business_env \<Rightarrow> nat \<Rightarrow> rat \<Rightarrow> moment \<Rightarrow> moment \<Rightarrow> slot list operation" where
  "get_availability env ws remaining window_start window_end =
     provider_operation (bv_call env) ws remaining ''google_calendar'' (\<lambda>credentials configuration timeout.
       google_get_availability (bv_format env) (bv_google env) window_start window_end credentials configuration timeout)"

definition create_booking ::
  "business_env \<Rightarrow> nat \<Rightarrow> rat \<Rightarrow> moment \<Rightarrow> moment \<Rightarrow> string \<Rightarrow> string option \<Rightarrow> string \<Rightarrow> normalized_booking operation" where
  "create_booking env ws remaining start finish title attendee key =
     provider_operation (bv_call env) ws remaining ''google_calendar'' (\<lambda>credentials configuration timeout.
       google_create_booking (bv_format env) (bv_google env) start finish title attendee key credentials configuration timeout)"

text \<open>A handler calls one and bridges its error into the tool taxonomy.\<close>

definition bridged ::
  "'a operation \<Rightarrow> ('a \<Rightarrow> office \<Rightarrow> office \<times> handler_outcome) \<Rightarrow> office \<Rightarrow> office \<times> handler_outcome" where
  "bridged operation f s =
    (case operation (ob_connections (bz_outbox s)) of
       (t, r) \<Rightarrow>
         (let s1 = s\<lparr>bz_outbox := bz_outbox s\<lparr>ob_connections := t\<rparr>\<rparr>
          in case r of
               Inr v \<Rightarrow> f v s1
             | Inl (Normalized e) \<Rightarrow> (s1, integration_tool_error e)
             | Inl e \<Rightarrow> (s1, HCrash)))"

subsection \<open>Input models\<close>

text \<open>A strict model forbids other keys; \<open>None\<close> is a ValidationError.\<close>

definition strict_keys :: "string list \<Rightarrow> arguments \<Rightarrow> bool" where
  "strict_keys ks args \<longleftrightarrow> list_all (\<lambda>(k, v). k \<in> set ks) args"

definition str_field :: "nat \<Rightarrow> nat \<Rightarrow> string \<Rightarrow> arguments \<Rightarrow> string option" where
  "str_field lo hi k args =
    (case map_of args k of Some (JStr s) \<Rightarrow> if lo \<le> length s \<and> length s \<le> hi then Some s else None | _ \<Rightarrow> None)"

definition opt_str_field :: "(string \<Rightarrow> bool) \<Rightarrow> string \<Rightarrow> arguments \<Rightarrow> string option option" where
  "opt_str_field ok k args =
    (case map_of args k of
       None \<Rightarrow> Some None
     | Some JNull \<Rightarrow> Some None
     | Some (JStr s) \<Rightarrow> if ok s then Some (Some s) else None
     | _ \<Rightarrow> None)"

definition str_field_default :: "string \<Rightarrow> nat \<Rightarrow> string \<Rightarrow> arguments \<Rightarrow> string option" where
  "str_field_default d hi k args = (if map_of args k = None then Some d else str_field 0 hi k args)"

definition max_text_length :: nat where
  "max_text_length = 5000"

record customer_lookup_input =
  il_customer :: "string option"
  il_email :: "string option"
  il_reference :: "string option"

definition provided :: "string option \<Rightarrow> bool" where
  "provided v \<longleftrightarrow> v \<noteq> None \<and> v \<noteq> Some []"

definition parse_customer_lookup :: "business_env \<Rightarrow> arguments \<Rightarrow> customer_lookup_input option" where
  "parse_customer_lookup env args =
    (if \<not> strict_keys [''customer_id'', ''email'', ''external_reference''] args then None
     else case (opt_str_field (fits 64) ''customer_id'' args, opt_str_field (bv_email_ok env) ''email'' args,
                opt_str_field (fits 255) ''external_reference'' args) of
       (Some c, Some e, Some r) \<Rightarrow>
         if length (filter provided [c, e, r]) \<noteq> 1 then None
         else Some \<lparr>il_customer = c, il_email = e, il_reference = r\<rparr>
     | _ \<Rightarrow> None)"

definition parse_reference :: "string \<Rightarrow> arguments \<Rightarrow> string option" where
  "parse_reference k args = (if strict_keys [k] args then str_field 1 128 k args else None)"

record refund_input =
  if_payment :: string
  if_amount :: int
  if_currency :: string
  if_reason :: string

definition parse_refund :: "business_env \<Rightarrow> arguments \<Rightarrow> refund_input option" where
  "parse_refund env args =
    (if \<not> strict_keys [''payment_reference'', ''amount_minor'', ''currency'', ''reason''] args then None
     else case (str_field 1 128 ''payment_reference'' args, Option.bind (map_of args ''amount_minor'') (bv_int env),
                str_field 3 3 ''currency'' args, str_field_default ''requested_by_customer'' 200 ''reason'' args) of
       (Some p, Some n, Some c, Some r) \<Rightarrow>
         if 0 < n \<and> n \<le> 100000000
         then Some \<lparr>if_payment = p, if_amount = n, if_currency = str_upper c, if_reason = r\<rparr> else None
     | _ \<Rightarrow> None)"

definition refund_arguments :: "refund_input \<Rightarrow> arguments" where
  "refund_arguments i = [(''payment_reference'', JStr (if_payment i)), (''amount_minor'', JInt (if_amount i)),
     (''currency'', JStr (if_currency i)), (''reason'', JStr (if_reason i))]"

fun tz_aware_range :: "moment \<Rightarrow> moment \<Rightarrow> bool" where
  "tz_aware_range (Aware a) (Aware b) = (a < b)"
| "tz_aware_range _ _ = False"

definition parse_range :: "business_env \<Rightarrow> arguments \<Rightarrow> (moment \<times> moment) option" where
  "parse_range env args =
    (case (Option.bind (map_of args ''start'') (bv_datetime env), Option.bind (map_of args ''end'') (bv_datetime env)) of
       (Some a, Some b) \<Rightarrow> if tz_aware_range a b then Some (a, b) else None
     | _ \<Rightarrow> None)"

definition parse_availability :: "business_env \<Rightarrow> arguments \<Rightarrow> (moment \<times> moment) option" where
  "parse_availability env args = (if strict_keys [''start'', ''end''] args then parse_range env args else None)"

record booking_input =
  ib_start :: moment
  ib_end :: moment
  ib_title :: string
  ib_customer :: string

definition parse_booking :: "business_env \<Rightarrow> arguments \<Rightarrow> booking_input option" where
  "parse_booking env args =
    (if \<not> strict_keys [''start'', ''end'', ''title'', ''customer_id''] args then None
     else case (parse_range env args, str_field 1 200 ''title'' args, str_field 1 64 ''customer_id'' args) of
       (Some (a, b), Some t, Some c) \<Rightarrow> Some \<lparr>ib_start = a, ib_end = b, ib_title = t, ib_customer = c\<rparr>
     | _ \<Rightarrow> None)"

definition ticket_priorities :: "string list" where
  "ticket_priorities = [''low'', ''normal'', ''high'', ''urgent'']"

definition all_ticket_statuses :: "ticket_status list" where
  "all_ticket_statuses = [TK_OPEN, TK_IN_PROGRESS, TK_PENDING, TK_RESOLVED, TK_CLOSED]"

definition status_named :: "string \<Rightarrow> ticket_status option" where
  "status_named v = find (\<lambda>st. ticket_status_value st = v) all_ticket_statuses"

record ticket_create_input =
  it_customer :: string
  it_subject :: string
  it_description :: string
  it_priority :: "string option"

definition parse_ticket_create :: "business_env \<Rightarrow> arguments \<Rightarrow> ticket_create_input option" where
  "parse_ticket_create env args =
    (if \<not> strict_keys [''customer_id'', ''subject'', ''description'', ''priority''] args then None
     else case (str_field 1 64 ''customer_id'' args, str_field 1 300 ''subject'' args,
                str_field_default [] max_text_length ''description'' args,
                opt_str_field (\<lambda>p. p \<in> set ticket_priorities) ''priority'' args) of
       (Some c, Some s, Some d, Some p) \<Rightarrow>
         Some \<lparr>it_customer = c, it_subject = s, it_description = d, it_priority = p\<rparr>
     | _ \<Rightarrow> None)"

record ticket_update_input =
  iu_ticket :: string
  iu_status :: "ticket_status option"
  iu_priority :: "string option"
  iu_note :: "string option"

definition parse_ticket_update :: "business_env \<Rightarrow> arguments \<Rightarrow> ticket_update_input option" where
  "parse_ticket_update env args =
    (if \<not> strict_keys [''ticket_id'', ''status'', ''priority'', ''note''] args then None
     else case (str_field 1 64 ''ticket_id'' args, opt_str_field (\<lambda>v. status_named v \<noteq> None) ''status'' args,
                opt_str_field (\<lambda>p. p \<in> set ticket_priorities) ''priority'' args,
                opt_str_field (fits max_text_length) ''note'' args) of
       (Some t, Some st, Some p, Some n) \<Rightarrow>
         Some \<lparr>iu_ticket = t, iu_status = Option.bind st status_named, iu_priority = p, iu_note = n\<rparr>
     | _ \<Rightarrow> None)"

record notification_input =
  iw_customer :: string
  iw_subject :: string
  iw_body :: string

definition parse_notification :: "business_env \<Rightarrow> arguments \<Rightarrow> notification_input option" where
  "parse_notification env args =
    (if \<not> strict_keys [''customer_id'', ''subject'', ''body''] args then None
     else case (str_field 1 64 ''customer_id'' args, str_field 1 200 ''subject'' args,
                str_field 1 max_text_length ''body'' args) of
       (Some c, Some s, Some b) \<Rightarrow> Some \<lparr>iw_customer = c, iw_subject = s, iw_body = b\<rparr>
     | _ \<Rightarrow> None)"

subsection \<open>Lookups\<close>

definition jopt :: "string option \<Rightarrow> json" where
  "jopt v = (case v of None \<Rightarrow> JNull | Some s \<Rightarrow> JStr s)"

definition find_customer :: "business_env \<Rightarrow> tool_context \<Rightarrow> string \<Rightarrow> office \<Rightarrow> (nat \<times> customer) option" where
  "find_customer env ctx key s =
    (case bv_id env key of
       None \<Rightarrow> None
     | Some k \<Rightarrow> map_option (Pair k) (customer_get_by_id_for_workspace (xc_workspace ctx) (Some k) (bz_crm s)))"

definition looked_up_customer ::
  "business_env \<Rightarrow> tool_context \<Rightarrow> customer_lookup_input \<Rightarrow> office \<Rightarrow> (nat \<times> customer) option" where
  "looked_up_customer env ctx i s =
    (case (il_customer i, il_email i, il_reference i) of
       (Some (c # cs), _, _) \<Rightarrow> find_customer env ctx (c # cs) s
     | (_, Some (c # cs), _) \<Rightarrow> customer_get_by_email_for_workspace (xc_workspace ctx) (c # cs) (bz_crm s)
     | (_, _, Some r) \<Rightarrow> customer_get_by_external_id_for_workspace (xc_workspace ctx) r (bz_crm s)
     | _ \<Rightarrow> None)"

definition customer_lookup_handler :: "customer_lookup_input business_handler" where
  "customer_lookup_handler env ctx i = in_workspace ctx (\<lambda>s.
    case looked_up_customer env ctx i s of
      None \<Rightarrow> (s, tool_fault integration_class.CustomerNotFound)
    | Some (k, c) \<Rightarrow> (s, HModel (JObj
        [(''customer_id'', JStr (bv_show env k)), (''display_name'', JStr (cu_display_name c)), (''email'', jopt (cu_email c)),
         (''company'', JStr (cu_company c)), (''is_active'', JBool (cu_is_active c)),
         (''external_reference'', jopt (cu_external_id c))])))"

text \<open>Building the output model raises a ValidationError when the provider's value has another type.\<close>

fun str_or_null :: "json \<Rightarrow> bool" where
  "str_or_null (JStr s) = True"
| "str_or_null JNull = True"
| "str_or_null _ = False"

definition is_jstr :: "json \<Rightarrow> bool" where
  "is_jstr v \<longleftrightarrow> str_or_null v \<and> v \<noteq> JNull"

definition validated_model :: "bool \<Rightarrow> (string \<times> json) list \<Rightarrow> handler_outcome" where
  "validated_model ok kvs = (if ok then HModel (JObj kvs) else HCrash)"

definition order_lookup_handler :: "string business_handler" where
  "order_lookup_handler env ctx reference = in_workspace ctx
    (bridged (get_order env (xc_workspace ctx) (remaining_seconds env ctx) reference)
      (\<lambda>r s. (s, validated_model (is_jstr (no_status r) \<and> str_or_null (no_shipment_status r) \<and> str_or_null (no_tracking r))
         [(''order_id'', JStr (no_id r)), (''external_order_id'', JStr (no_external_id r)), (''status'', no_status r),
          (''created_at'', bv_moment env (no_created_at r)), (''amount_minor'', JInt (no_amount r)),
          (''currency'', JStr (no_currency r)), (''shipment_status'', no_shipment_status r),
          (''tracking_reference'', no_tracking r)])))"

definition shipment_lookup_handler :: "string business_handler" where
  "shipment_lookup_handler env ctx reference = in_workspace ctx
    (bridged (get_shipment env (xc_workspace ctx) (remaining_seconds env ctx) reference)
      (\<lambda>r s. (s, validated_model (is_jstr (nh_order r) \<and> is_jstr (nh_status r) \<and> str_or_null (nh_tracking r) \<and>
          str_or_null (nh_carrier r))
         [(''shipment_id'', JStr (nh_id r)), (''order_id'', nh_order r), (''status'', nh_status r),
          (''tracking_reference'', nh_tracking r), (''carrier'', nh_carrier r),
          (''estimated_delivery'', (case nh_estimated r of None \<Rightarrow> JNull | Some m \<Rightarrow> bv_moment env m))])))"

subsection \<open>Payments\<close>

definition payment_lookup_handler :: "string business_handler" where
  "payment_lookup_handler env ctx reference = in_workspace ctx
    (bridged (get_payment env (xc_workspace ctx) (remaining_seconds env ctx) reference)
      (\<lambda>r s. (s, HModel (JObj [(''payment_id'', JStr (np_id r)), (''external_payment_id'', JStr (np_external_id r)),
         (''status'', JStr (np_status r)), (''amount_minor'', JInt (np_amount r)), (''currency'', JStr (np_currency r)),
         (''created_at'', bv_moment env (np_created_at r)), (''refunded_amount_minor'', JInt (np_refunded r))]))))"

definition refund_key :: "business_env \<Rightarrow> tool_context \<Rightarrow> string" where
  "refund_key env ctx = ''payment.refund:'' @ bv_show env (xc_execution ctx)"

text \<open>The audit entry is inserted after the provider has refunded.\<close>

definition audit_refund :: "business_env \<Rightarrow> tool_context \<Rightarrow> normalized_refund \<Rightarrow> office \<Rightarrow> office option" where
  "audit_refund env ctx r s =
    (if \<not> fits 64 (nr_payment r) \<or> (case xc_correlation ctx of None \<Rightarrow> False | Some c \<Rightarrow> \<not> fits 64 c) then None
     else Some (s\<lparr>bz_audits := bz_audits s @ [\<lparr>ra_payment = nr_payment r, ra_actor = actor_of ctx s,
        ra_workspace = xc_workspace ctx,
        ra_metadata = JObj [(''tool_execution_id'', jid (xc_execution ctx)),
          (''agent_run_id'', (case xc_run ctx of None \<Rightarrow> JNull | Some k \<Rightarrow> jid k)), (''refund_id'', JStr (nr_id r)),
          (''amount_minor'', JInt (nr_amount r)), (''currency'', JStr (nr_currency r))],
        ra_request = xc_correlation ctx\<rparr>]\<rparr>))"

definition payment_refund_handler :: "refund_input business_handler" where
  "payment_refund_handler env ctx i = in_workspace ctx
    (bridged (refund_payment env (xc_workspace ctx) (remaining_seconds env ctx) (if_payment i) (if_amount i) (if_currency i)
        (if_reason i) (refund_key env ctx))
      (\<lambda>r s. case audit_refund env ctx r s of
          None \<Rightarrow> (s, HCrash)
        | Some s1 \<Rightarrow> (s1, HModel (JObj [(''refund_id'', JStr (nr_id r)), (''payment_id'', JStr (nr_payment r)),
            (''status'', JStr (nr_status r)), (''amount_minor'', JInt (nr_amount r)), (''currency'', JStr (nr_currency r)),
            (''created_at'', bv_moment env (nr_created_at r))]))))"

subsection \<open>Calendar\<close>

definition microseconds_per_day :: int where
  "microseconds_per_day = 86400000000"

fun within_scheduling_horizon :: "business_env \<Rightarrow> moment \<Rightarrow> bool" where
  "within_scheduling_horizon env (Aware t) = (t \<le> bv_now env + bv_max_horizon_days env * microseconds_per_day)"
| "within_scheduling_horizon env (Naive t) = False"

definition calendar_availability_handler :: "(moment \<times> moment) business_handler" where
  "calendar_availability_handler env ctx i = in_workspace ctx (\<lambda>s.
    if \<not> within_scheduling_horizon env (fst i)
    then (s, tool_fault_with IntegrationInvalidRequest ''Requested window exceeds the scheduling horizon.'')
    else bridged (get_availability env (xc_workspace ctx) (remaining_seconds env ctx) (fst i) (snd i))
      (\<lambda>slots t. (t, HModel (JObj [(''slots'', JArr (map (\<lambda>x.
         JObj [(''start'', bv_moment env (sl_start x)), (''end'', bv_moment env (sl_end x))]) slots))]))) s)"

definition booking_key :: "business_env \<Rightarrow> tool_context \<Rightarrow> string" where
  "booking_key env ctx = ''calendar.create_booking:'' @ bv_show env (xc_execution ctx)"

definition calendar_booking_handler :: "booking_input business_handler" where
  "calendar_booking_handler env ctx i = in_workspace ctx (\<lambda>s.
    if \<not> within_scheduling_horizon env (ib_start i)
    then (s, tool_fault_with IntegrationInvalidRequest ''Requested time exceeds the scheduling horizon.'')
    else if length (ib_title i) > bv_max_title env
    then (s, tool_fault_with IntegrationInvalidRequest ''Title is too long.'')
    else case find_customer env ctx (ib_customer i) s of
      None \<Rightarrow> (s, tool_fault integration_class.CustomerNotFound)
    | Some (k, c) \<Rightarrow>
        bridged (create_booking env (xc_workspace ctx) (remaining_seconds env ctx) (ib_start i) (ib_end i) (ib_title i)
            (cu_email c) (booking_key env ctx))
          (\<lambda>r t. (t, validated_model (is_jstr (nb_external_id r))
             [(''booking_id'', JStr (nb_id r)), (''external_event_id'', nb_external_id r),
              (''start'', bv_moment env (nb_start r)), (''end'', bv_moment env (nb_end r)),
              (''status'', JStr (nb_status r))])) s)"

subsection \<open>Tickets\<close>

definition ticket_summary :: "business_env \<Rightarrow> nat \<Rightarrow> office \<Rightarrow> handler_outcome" where
  "ticket_summary env k s =
    (case row_get (dk_tickets (bz_desk s)) k of
       None \<Rightarrow> HCrash
     | Some t \<Rightarrow> HModel (JObj [(''ticket_id'', JStr (bv_show env k)),
         (''status'', JStr (ticket_status_value (tk_status t))), (''priority'', JStr (tk_priority t)),
         (''subject'', JStr (tk_subject t))]))"

definition ticket_create_handler :: "ticket_create_input business_handler" where
  "ticket_create_handler env ctx i = in_workspace ctx (\<lambda>s.
    case find_customer env ctx (it_customer i) s of
      None \<Rightarrow> (s, tool_fault integration_class.CustomerNotFound)
    | Some (k, c) \<Rightarrow>
        (case create_ticket (xc_workspace ctx) k (cu_workspace c) (it_subject i) (it_description i) (it_priority i) None
                None (JObj []) (bz_desk s) of
           (d, Inl e) \<Rightarrow> (s\<lparr>bz_desk := d\<rparr>, HCrash)
         | (d, Inr n) \<Rightarrow> (let s1 = s\<lparr>bz_desk := d\<rparr> in (s1, ticket_summary env n s1))))"

definition ticket_get_by_id_for_workspace :: "nat \<Rightarrow> nat option \<Rightarrow> desk \<Rightarrow> (nat \<times> ticket) option" where
  "ticket_get_by_id_for_workspace ws key d =
    Option.bind key (\<lambda>k. Option.bind (row_get (dk_tickets d) k) (\<lambda>t. if tk_workspace t = ws then Some (k, t) else None))"

text \<open>The only validation error of the service is that of the status.\<close>

definition first_validation_message :: "ticket \<Rightarrow> ticket_status option \<Rightarrow> string" where
  "first_validation_message t status =
    (case status of
       Some new \<Rightarrow> ''Cannot transition from '' @ ticket_status_value (tk_status t) @ '' to '' @ ticket_status_value new @ ''.''
     | None \<Rightarrow> ''Invalid ticket update.'')"

definition ticket_update_handler :: "ticket_update_input business_handler" where
  "ticket_update_handler env ctx i = in_workspace ctx (\<lambda>s.
    case ticket_get_by_id_for_workspace (xc_workspace ctx) (bv_id env (iu_ticket i)) (bz_desk s) of
      None \<Rightarrow> (s, tool_fault TicketNotFound)
    | Some (k, t) \<Rightarrow>
        (case apply_agent_ticket_update (bv_now env) (xc_workspace ctx) k t (actor_of ctx s) (iu_priority i) (iu_status i)
                (iu_note i) (bz_desk s) of
           (d, Inl (Invalid f)) \<Rightarrow>
             (s\<lparr>bz_desk := d\<rparr>, tool_fault_with IntegrationInvalidRequest (first_validation_message t (iu_status i)))
         | (d, Inl e) \<Rightarrow> (s\<lparr>bz_desk := d\<rparr>, HCrash)
         | (d, Inr t') \<Rightarrow> (let s1 = s\<lparr>bz_desk := d\<rparr> in (s1, ticket_summary env k s1))))"

subsection \<open>Notifications\<close>

definition notification_send_handler :: "notification_input business_handler" where
  "notification_send_handler env ctx i = in_workspace ctx (\<lambda>s.
    if length (iw_subject i) > bv_max_subject env
    then (s, tool_fault_with IntegrationInvalidRequest ''Subject is too long.'')
    else if length (iw_body i) > bv_max_body env
    then (s, tool_fault_with IntegrationInvalidRequest ''Body is too long.'')
    else case find_customer env ctx (iw_customer i) s of
      None \<Rightarrow> (s, tool_fault integration_class.CustomerNotFound)
    | Some (k, c) \<Rightarrow>
        (case cu_email c of
           Some (a # as) \<Rightarrow>
             (case ensure_notification_provider_configured (xc_workspace ctx) (ob_connections (bz_outbox s)) of
                Inl e \<Rightarrow> (s, HCrash)
              | Inr _ \<Rightarrow>
                  if xc_execution ctx \<notin> set (bz_executions s) then (s, HCrash)
                  else (case create_or_reuse_notification_delivery (bv_show env) (bv_other env) (bv_max_attempts env)
                          (bv_now env) (xc_execution ctx) (xc_workspace ctx) (a # as) (iw_subject i) (iw_body i)
                          (bz_outbox s) of
                     (x, Inl e) \<Rightarrow> (s\<lparr>bz_outbox := x\<rparr>, HCrash)
                   | (x, Inr (n, row)) \<Rightarrow> (s\<lparr>bz_outbox := x\<rparr>, HModel (JObj [(''status'', JStr ''queued''),
                       (''delivery_id'', JStr (bv_show env (nt_delivery row)))]))))
         | _ \<Rightarrow> (s, tool_fault_with IntegrationInvalidRequest ''Customer has no email on file.'')))"

subsection \<open>Specifications and registration\<close>

datatype idempotency_mode = IM_NONE | IM_SAFE | IM_REQUIRED

text \<open>
  The classification beside the specification. The input model of a tool checks and dumps the arguments; its output
  is an instance of the output model already, so its dump is kept.
\<close>

record business_tool =
  bt_spec :: tool_spec
  bt_risk :: risk_level
  bt_side_effect :: side_effect_type
  bt_idempotency :: idempotency_mode

definition business_tool_of ::
  "string \<Rightarrow> string \<Rightarrow> risk_level \<Rightarrow> side_effect_type \<Rightarrow> rat \<Rightarrow> rat \<Rightarrow> nat \<Rightarrow> string list \<Rightarrow> string list \<Rightarrow> idempotency_mode
    \<Rightarrow> (arguments \<Rightarrow> arguments option) \<Rightarrow> business_tool" where
  "business_tool_of key name risk se dflt cap retries retryable ambiguous mode model =
    \<lparr>bt_spec = \<lparr>ts_key = key, ts_display_name = name, ts_default_timeout = dflt, ts_max_timeout = cap,
       ts_max_retries = retries, ts_retryable = retryable, ts_ambiguous = ambiguous, ts_input_sensitive = [],
       ts_output_sensitive = [], ts_validate_input = model, ts_validate_output = Some\<rparr>,
     bt_risk = risk, bt_side_effect = se, bt_idempotency = mode\<rparr>"

definition customer_arguments :: "customer_lookup_input \<Rightarrow> arguments" where
  "customer_arguments i = [(''customer_id'', jopt (il_customer i)), (''email'', jopt (il_email i)),
     (''external_reference'', jopt (il_reference i))]"

definition reference_arguments :: "string \<Rightarrow> string \<Rightarrow> arguments" where
  "reference_arguments k r = [(k, JStr r)]"

definition range_arguments :: "business_env \<Rightarrow> moment \<times> moment \<Rightarrow> arguments" where
  "range_arguments env i = [(''start'', bv_moment env (fst i)), (''end'', bv_moment env (snd i))]"

definition booking_arguments :: "business_env \<Rightarrow> booking_input \<Rightarrow> arguments" where
  "booking_arguments env i = range_arguments env (ib_start i, ib_end i) @
     [(''title'', JStr (ib_title i)), (''customer_id'', JStr (ib_customer i))]"

definition ticket_create_arguments :: "ticket_create_input \<Rightarrow> arguments" where
  "ticket_create_arguments i = [(''customer_id'', JStr (it_customer i)), (''subject'', JStr (it_subject i)),
     (''description'', JStr (it_description i)), (''priority'', jopt (it_priority i))]"

definition ticket_update_arguments :: "ticket_update_input \<Rightarrow> arguments" where
  "ticket_update_arguments i = [(''ticket_id'', JStr (iu_ticket i)),
     (''status'', jopt (map_option ticket_status_value (iu_status i))), (''priority'', jopt (iu_priority i)),
     (''note'', jopt (iu_note i))]"

definition notification_arguments :: "notification_input \<Rightarrow> arguments" where
  "notification_arguments i = [(''customer_id'', JStr (iw_customer i)), (''subject'', JStr (iw_subject i)),
     (''body'', JStr (iw_body i))]"

definition customer_lookup_tool :: "business_env \<Rightarrow> business_tool" where
  "customer_lookup_tool env = business_tool_of ''customer.lookup'' ''Customer lookup'' READ_ONLY SE_READ 5 10 0 [] [] IM_SAFE
     (\<lambda>args. map_option customer_arguments (parse_customer_lookup env args))"

definition order_lookup_tool :: "business_env \<Rightarrow> business_tool" where
  "order_lookup_tool env = business_tool_of ''order.lookup'' ''Order lookup'' READ_ONLY SE_READ 8 15 2 read_retryable_codes []
     IM_SAFE (\<lambda>args. map_option (reference_arguments ''order_reference'') (parse_reference ''order_reference'' args))"

definition shipment_lookup_tool :: "business_env \<Rightarrow> business_tool" where
  "shipment_lookup_tool env = business_tool_of ''shipment.lookup'' ''Shipment lookup'' READ_ONLY SE_READ 8 15 2
     read_retryable_codes [] IM_SAFE
     (\<lambda>args. map_option (reference_arguments ''shipment_reference'') (parse_reference ''shipment_reference'' args))"

definition payment_lookup_tool :: "business_env \<Rightarrow> business_tool" where
  "payment_lookup_tool env = business_tool_of ''payment.lookup'' ''Payment lookup'' READ_ONLY SE_READ 8 15 2
     read_retryable_codes [] IM_SAFE
     (\<lambda>args. map_option (reference_arguments ''payment_reference'') (parse_reference ''payment_reference'' args))"

definition payment_refund_tool :: "business_env \<Rightarrow> business_tool" where
  "payment_refund_tool env = business_tool_of ''payment.refund'' ''Payment refund'' CRITICAL FINANCIAL 10 15 2
     write_retryable_codes [] IM_REQUIRED (\<lambda>args. map_option refund_arguments (parse_refund env args))"

definition calendar_availability_tool :: "business_env \<Rightarrow> business_tool" where
  "calendar_availability_tool env = business_tool_of ''calendar.check_availability'' ''Calendar availability'' READ_ONLY
     SE_READ 8 15 2 read_retryable_codes [] IM_SAFE (\<lambda>args. map_option (range_arguments env) (parse_availability env args))"

definition calendar_booking_tool :: "business_env \<Rightarrow> business_tool" where
  "calendar_booking_tool env = business_tool_of ''calendar.create_booking'' ''Calendar booking'' HIGH EXTERNAL_WRITE 10 15 2
     write_retryable_codes calendar_ambiguous_outcome_codes IM_REQUIRED
     (\<lambda>args. map_option (booking_arguments env) (parse_booking env args))"

definition ticket_create_tool :: "business_env \<Rightarrow> business_tool" where
  "ticket_create_tool env = business_tool_of ''ticket.create'' ''Create ticket'' MEDIUM INTERNAL_WRITE 5 10 0 [] []
     IM_REQUIRED (\<lambda>args. map_option ticket_create_arguments (parse_ticket_create env args))"

definition ticket_update_tool :: "business_env \<Rightarrow> business_tool" where
  "ticket_update_tool env = business_tool_of ''ticket.update'' ''Update ticket'' MEDIUM INTERNAL_WRITE 5 10 0 [] []
     IM_REQUIRED (\<lambda>args. map_option ticket_update_arguments (parse_ticket_update env args))"

definition notification_send_tool :: "business_env \<Rightarrow> business_tool" where
  "notification_send_tool env = business_tool_of ''notification.send'' ''Send customer notification'' MEDIUM EXTERNAL_WRITE
     8 15 2 write_retryable_codes [] IM_REQUIRED (\<lambda>args. map_option notification_arguments (parse_notification env args))"

definition all_integration_tools :: "business_env \<Rightarrow> business_tool list" where
  "all_integration_tools env = [customer_lookup_tool env, order_lookup_tool env, shipment_lookup_tool env,
     payment_lookup_tool env, payment_refund_tool env, calendar_availability_tool env, calendar_booking_tool env,
     ticket_create_tool env, ticket_update_tool env, notification_send_tool env]"

text \<open>\<open>run\<close> is what the handlers do, seen by the tool service: the outcome of an attempt of an execution.\<close>

fun register_integration_tools ::
  "(string \<Rightarrow> nat \<Rightarrow> nat \<Rightarrow> arguments \<Rightarrow> handler_outcome) \<Rightarrow> business_tool list \<Rightarrow> registry \<Rightarrow> registry" where
  "register_integration_tools run [] r = r"
| "register_integration_tools run (t # ts) r =
    (let key = ts_key (bt_spec t)
     in register_integration_tools run ts
       (if map_of r key \<noteq> None then r
        else case register_tool \<lparr>tl_spec = bt_spec t, tl_handler = run key\<rparr> r of None \<Rightarrow> r | Some r' \<Rightarrow> r'))"

text \<open>The handler a key stands for, on arguments its model accepts.\<close>

definition parsed_by :: "('i option) \<Rightarrow> ('i \<Rightarrow> office \<Rightarrow> office \<times> handler_outcome) \<Rightarrow> office \<Rightarrow> office \<times> handler_outcome" where
  "parsed_by i f s = (case i of None \<Rightarrow> (s, HCrash) | Some v \<Rightarrow> f v s)"

definition run_business_tool ::
  "business_env \<Rightarrow> tool_context \<Rightarrow> string \<Rightarrow> arguments \<Rightarrow> office \<Rightarrow> office \<times> handler_outcome" where
  "run_business_tool env ctx key args =
    (if key = ''customer.lookup'' then parsed_by (parse_customer_lookup env args) (customer_lookup_handler env ctx)
     else if key = ''order.lookup'' then parsed_by (parse_reference ''order_reference'' args) (order_lookup_handler env ctx)
     else if key = ''shipment.lookup''
     then parsed_by (parse_reference ''shipment_reference'' args) (shipment_lookup_handler env ctx)
     else if key = ''payment.lookup''
     then parsed_by (parse_reference ''payment_reference'' args) (payment_lookup_handler env ctx)
     else if key = ''payment.refund'' then parsed_by (parse_refund env args) (payment_refund_handler env ctx)
     else if key = ''calendar.check_availability''
     then parsed_by (parse_availability env args) (calendar_availability_handler env ctx)
     else if key = ''calendar.create_booking'' then parsed_by (parse_booking env args) (calendar_booking_handler env ctx)
     else if key = ''ticket.create'' then parsed_by (parse_ticket_create env args) (ticket_create_handler env ctx)
     else if key = ''ticket.update'' then parsed_by (parse_ticket_update env args) (ticket_update_handler env ctx)
     else if key = ''notification.send'' then parsed_by (parse_notification env args) (notification_send_handler env ctx)
     else (\<lambda>s. (s, HCrash)))"

end
