(* ===== verification/BusinessProperties.thy ===== *)
theory BusinessProperties
  imports BusinessTools DeliveryInvariants ToolExample WebhookProperties
begin

section \<open>What the business tools do\<close>

text \<open>
  The handlers on the tables they touch, together with the tool service that runs them, the default policy that
  allows them and the vendors behind the adapters.
\<close>

subsection \<open>One tenant at a time\<close>

definition foreign_kept :: "('r \<Rightarrow> nat) \<Rightarrow> nat \<Rightarrow> 'r rows \<Rightarrow> 'r rows \<Rightarrow> bool" where
  "foreign_kept owner ws t t' \<longleftrightarrow>
    (\<forall>k r. owner r \<noteq> ws \<longrightarrow> (row_get t' k = Some r) = (row_get t k = Some r))"

text \<open>What an invocation in workspace \<open>ws\<close> may change, and what it may add.\<close>

definition only_touches :: "nat \<Rightarrow> office \<Rightarrow> office \<Rightarrow> bool" where
  "only_touches ws s s' \<longleftrightarrow>
    bz_crm s' = bz_crm s \<and> dk_conversations (bz_desk s') = dk_conversations (bz_desk s) \<and>
    dk_messages (bz_desk s') = dk_messages (bz_desk s) \<and> dk_handoffs (bz_desk s') = dk_handoffs (bz_desk s) \<and>
    foreign_kept tk_workspace ws (dk_tickets (bz_desk s)) (dk_tickets (bz_desk s')) \<and>
    foreign_kept dl_workspace ws (ob_deliveries (bz_outbox s)) (ob_deliveries (bz_outbox s')) \<and>
    foreign_kept cn_workspace ws (ob_connections (bz_outbox s)) (ob_connections (bz_outbox s')) \<and>
    ob_endpoints (bz_outbox s') = ob_endpoints (bz_outbox s) \<and> ob_events (bz_outbox s') = ob_events (bz_outbox s) \<and>
    (\<forall>i n. row_get (ob_notifications (bz_outbox s')) i = Some n \<longrightarrow>
       row_get (ob_notifications (bz_outbox s)) i = Some n \<or>
       (\<exists>k c. row_get (crm_customers (bz_crm s)) k = Some c \<and> cu_workspace c = ws \<and> cu_email c = Some (nt_recipient n))) \<and>
    (\<forall>i n. row_get (ob_notifications (bz_outbox s)) i = Some n \<longrightarrow> row_get (ob_notifications (bz_outbox s')) i = Some n) \<and>
    (\<exists>new. bz_audits s' = bz_audits s @ new \<and> (\<forall>a \<in> set new. ra_workspace a = ws))"

lemma foreign_kept_refl [simp]: "foreign_kept owner ws t t"
  by (simp add: foreign_kept_def)

lemma foreign_kept_put:
  assumes "owner r = ws" "\<And>x. row_get t k = Some x \<Longrightarrow> owner x = ws"
  shows "foreign_kept owner ws t (row_put k r t)"
  using assms by (auto simp: foreign_kept_def)

lemma foreign_kept_update:
  assumes "\<And>k r. row_get t k = Some r \<Longrightarrow> P k r \<Longrightarrow> owner r = ws" "\<And>r. owner (f r) = owner r"
  shows "foreign_kept owner ws t (update_where P f t)"
  using assms by (auto simp: foreign_kept_def split: if_splits)

lemma only_touches_refl [simp]: "only_touches ws s s"
  by (simp add: only_touches_def)

lemma resolved_connection:
  assumes "distinct (row_ids t)" "resolve_connection_for_tool ws provider t = Some (k, c)"
  shows "row_get t k = Some c" "cn_workspace c = ws" "cn_provider c = provider"
proof -
  have "(k, c) \<in> set (rows_where (\<lambda>i c. cn_workspace c = ws \<and> cn_provider c = provider) t)"
    using assms(2) by (auto simp: resolve_connection_for_tool_def split: list.splits)
  then show "row_get t k = Some c" "cn_workspace c = ws" "cn_provider c = provider"
    by (simp_all add: rows_where_get [OF assms(1)])
qed

lemma usable_connection:
  assumes "distinct (row_ids t)" "require_usable_connection ws provider t = Inr (k, c)"
  shows "row_get t k = Some c" "cn_workspace c = ws" "cn_provider c = provider"
  using assms(2) resolved_connection [OF assms(1)]
  by (auto simp: require_usable_connection_def split: option.splits if_splits)

lemma provider_operation_kept:
  assumes "distinct (row_ids t)" "ce_other env = (\<lambda>t. t)"
    and "provider_operation env ws remaining provider call t = (t', r)"
  shows "foreign_kept cn_workspace ws t t'"
proof (cases "require_usable_connection ws provider t")
  case (Inl e)
  with assms(3) show ?thesis by (simp add: provider_operation_def)
next
  case (Inr kc)
  obtain k c where kc: "kc = (k, c)" by (cases kc)
  have own: "foreign_kept cn_workspace ws t (update_where (\<lambda>i r. i = k) (apply_health h) t)" for h
    using usable_connection [OF assms(1)] Inr kc by (intro foreign_kept_update) (auto simp: apply_health_def)
  from assms(3) Inr kc own assms(2) show ?thesis
    by (auto simp: provider_operation_def execute_provider_call_def record_health_def Let_def
        split: option.splits provider_outcome.splits)
qed

lemmas service_operations = get_order_def get_shipment_def get_payment_def refund_payment_def get_availability_def
  create_booking_def

text \<open>A handler that calls a provider touches its own workspace when what it does with the answer does.\<close>

lemma bridged_touches:
  assumes kept: "\<And>t q. operation (ob_connections (bz_outbox s)) = (t, q) \<Longrightarrow>
      foreign_kept cn_workspace ws (ob_connections (bz_outbox s)) t"
    and "bridged operation f s = (s', r)"
    and f: "\<And>v t s'' r'. f v (s\<lparr>bz_outbox := bz_outbox s\<lparr>ob_connections := t\<rparr>\<rparr>) = (s'', r') \<Longrightarrow>
      foreign_kept cn_workspace ws (ob_connections (bz_outbox s)) t \<Longrightarrow> only_touches ws s s''"
  shows "only_touches ws s s'"
proof -
  obtain t q where op: "operation (ob_connections (bz_outbox s)) = (t, q)" by force
  note kept = kept [OF op]
  have same: "only_touches ws s (s\<lparr>bz_outbox := bz_outbox s\<lparr>ob_connections := t\<rparr>\<rparr>)"
    using kept by (simp add: only_touches_def)
  from assms(2) op same f [OF _ kept] show ?thesis
    by (auto simp: bridged_def Let_def split: sum.splits call_exc.splits)
qed

lemma save_ticket_full_desk:
  assumes "save_ticket_full k t d = Inr d'" "tk_workspace t = ws"
    and "\<And>x. row_get (dk_tickets d) k = Some x \<Longrightarrow> tk_workspace x = ws"
  shows "foreign_kept tk_workspace ws (dk_tickets d) (dk_tickets d') \<and> dk_conversations d' = dk_conversations d \<and>
    dk_messages d' = dk_messages d \<and> dk_handoffs d' = dk_handoffs d"
proof -
  have put: "foreign_kept tk_workspace ws (dk_tickets d) (row_put k u (dk_tickets d))" if "tk_workspace u = ws" for u
    by (rule foreign_kept_put) (use that assms(3) in auto)
  from assms(1,2) put show ?thesis by (auto simp: save_ticket_full_def Let_def split: if_splits)
qed

lemma create_ticket_desk:
  assumes "create_ticket ws customer cws subject description priority None due meta d = (d', r)"
  shows "foreign_kept tk_workspace ws (dk_tickets d) (dk_tickets d') \<and> dk_conversations d' = dk_conversations d \<and>
    dk_messages d' = dk_messages d \<and> dk_handoffs d' = dk_handoffs d"
proof (cases r)
  case (Inl e)
  with assms have "create_ticket ws customer cws subject description priority None due meta d = (d', Inl e)" by simp
  then have "d' = d" unfolding create_ticket_def by (rule atomic_error_rolls_back)
  then show ?thesis by simp
next
  case (Inr k)
  then show ?thesis using assms
    by (auto simp: create_ticket_def atomic_ok_iff Let_def split: if_splits sum.splits dest!: save_ticket_full_desk [of _ _ _ _ ws])
qed

lemma agent_update_desk:
  assumes "apply_agent_ticket_update now ws k t actor priority status note_text d = (d', r)"
    and "row_get (dk_tickets d) k = Some t" "tk_workspace t = ws"
  shows "foreign_kept tk_workspace ws (dk_tickets d) (dk_tickets d') \<and> dk_conversations d' = dk_conversations d \<and>
    dk_messages d' = dk_messages d \<and> dk_handoffs d' = dk_handoffs d"
proof (cases r)
  case (Inl e)
  with assms(1) have "apply_agent_ticket_update now ws k t actor priority status note_text d = (d', Inl e)" by simp
  then have "d' = d" unfolding apply_agent_ticket_update_def by (rule atomic_error_rolls_back)
  then show ?thesis by simp
next
  case (Inr v)
  define u where "u = agent_edits priority note_text t"
  have u: "tk_workspace u = ws"
    by (simp add: u_def agent_edits_def Let_def assms(3) split: option.splits)
  have moved: "tk_workspace (move_ticket new now u) = ws" for new by (simp add: move_ticket_def u)
  have own: "row_get (dk_tickets d) k = Some x \<Longrightarrow> tk_workspace x = ws" for x using assms(2,3) by simp
  have saved: "foreign_kept tk_workspace ws (dk_tickets d) (dk_tickets e) \<and> dk_conversations e = dk_conversations d \<and>
    dk_messages e = dk_messages d \<and> dk_handoffs e = dk_handoffs d"
    if "save_ticket_full k w d = Inr e" "tk_workspace w = ws" for w e
    by (rule save_ticket_full_desk [OF that own])
  note saved_moved = saved [OF _ moved]
  have saved_u: "foreign_kept tk_workspace ws (dk_tickets d) (dk_tickets e) \<and> dk_conversations e = dk_conversations d \<and>
    dk_messages e = dk_messages d \<and> dk_handoffs e = dk_handoffs d"
    if "save_ticket_full k w d = Inr e" "u = w" for w e
    using saved [OF that(1)] u that(2) by simp
  from assms(1) [unfolded Inr] show ?thesis
    unfolding apply_agent_ticket_update_def atomic_ok_iff u_def [symmetric] Let_def
    by (auto simp: jot_def split: if_splits sum.splits option.splits dest!: saved_u saved_moved)
qed

lemma queued_notification:
  assumes "create_or_reuse_notification_delivery show_id (\<lambda>x. x) dflt now ex ws recipient subject body x = (x', r)"
  shows "foreign_kept dl_workspace ws (ob_deliveries x) (ob_deliveries x')"
    and "ob_connections x' = ob_connections x" "ob_endpoints x' = ob_endpoints x" "ob_events x' = ob_events x"
    and "row_get (ob_notifications x') i = Some n \<Longrightarrow>
      row_get (ob_notifications x) i = Some n \<or> nt_recipient n = recipient"
    and "row_get (ob_notifications x) i = Some n \<Longrightarrow> row_get (ob_notifications x') i = Some n"
proof -
  obtain y q where c: "create_delivery dflt now ws ch_notification None now x = (y, q)" by force
  have same: "foreign_kept dl_workspace ws (ob_deliveries x) (ob_deliveries y) \<and> ob_connections y = ob_connections x \<and>
      ob_endpoints y = ob_endpoints x \<and> ob_events y = ob_events x \<and> ob_notifications y = ob_notifications x"
  proof (cases q)
    case (Inl e)
    with c show ?thesis by (auto dest: create_delivery_failed)
  next
    case (Inr k)
    have put: "foreign_kept dl_workspace ws (ob_deliveries x) (row_put (fresh_id (ob_deliveries x)) d (ob_deliveries x))"
      if "dl_workspace d = ws" for d by (rule foreign_kept_put) (use that in auto)
    from c Inr put show ?thesis
      by (auto simp: create_delivery_def atomic_ok_iff Let_def ob_emit_def dispatch_delivery_for_processing_def
          put_delivery_def split: if_splits)
  qed
  have ins: "ob_deliveries z = ob_deliveries y \<and> ob_connections z = ob_connections y \<and> ob_endpoints z = ob_endpoints y \<and>
      ob_events z = ob_events y \<and>
      (row_get (ob_notifications z) i = Some n \<longrightarrow> row_get (ob_notifications y) i = Some n \<or> n = m) \<and>
      (row_get (ob_notifications y) i = Some n \<longrightarrow> row_get (ob_notifications z) i = Some n)"
    if "insert_notification m y = (z, w)" for m z w
    using that row_get_neq_fresh [of "ob_notifications y" i n]
    by (auto simp: insert_notification_def Let_def split: if_splits)
  show "foreign_kept dl_workspace ws (ob_deliveries x) (ob_deliveries x')"
    "ob_connections x' = ob_connections x" "ob_endpoints x' = ob_endpoints x" "ob_events x' = ob_events x"
    "row_get (ob_notifications x') i = Some n \<Longrightarrow> row_get (ob_notifications x) i = Some n \<or> nt_recipient n = recipient"
    "row_get (ob_notifications x) i = Some n \<Longrightarrow> row_get (ob_notifications x') i = Some n"
    using assms c same
    by (auto simp: create_or_reuse_notification_delivery_def svc_bind_def split: option.splits sum.splits dest!: ins)
qed

text \<open>The handlers, one by one; the two catalogs, the payment lookup and the calendar only report.\<close>

lemma reporting_touches:
  assumes "distinct (row_ids (ob_connections (bz_outbox s)))" "ce_other (bv_call env) = (\<lambda>t. t)"
    and "bridged (provider_operation (bv_call env) ws remaining provider call) (\<lambda>v t. (t, g v)) s = (s', r)"
  shows "only_touches ws s s'"
proof (rule bridged_touches [OF _ assms(3)])
  show "foreign_kept cn_workspace ws (ob_connections (bz_outbox s)) t"
    if "provider_operation (bv_call env) ws remaining provider call (ob_connections (bz_outbox s)) = (t, q)" for t q
    by (rule provider_operation_kept [OF assms(1,2) that])
qed (auto simp: only_touches_def)

lemma found_customer:
  assumes "find_customer env ctx key s = Some (k, c)"
  shows "row_get (crm_customers (bz_crm s)) k = Some c" "cu_workspace c = xc_workspace ctx"
  using assms by (auto simp: find_customer_def customer_get_by_id_for_workspace_def split: option.splits bind_splits if_splits)

lemma refund_touches:
  assumes "distinct (row_ids (ob_connections (bz_outbox s)))" "ce_other (bv_call env) = (\<lambda>t. t)"
    and "payment_refund_handler env ctx i s = (s', r)"
  shows "only_touches (xc_workspace ctx) s s'"
proof (cases "xc_workspace ctx \<in> set (bz_workspaces s)")
  case True
  show ?thesis
  proof (rule bridged_touches)
    show "bridged (refund_payment env (xc_workspace ctx) (remaining_seconds env ctx) (if_payment i) (if_amount i)
        (if_currency i) (if_reason i) (refund_key env ctx))
      (\<lambda>r s. case audit_refund env ctx r s of
          None \<Rightarrow> (s, HCrash)
        | Some s1 \<Rightarrow> (s1, HModel (JObj [(''refund_id'', JStr (nr_id r)), (''payment_id'', JStr (nr_payment r)),
            (''status'', JStr (nr_status r)), (''amount_minor'', JInt (nr_amount r)), (''currency'', JStr (nr_currency r)),
            (''created_at'', bv_moment env (nr_created_at r))]))) s = (s', r)"
      using assms(3) True by (simp add: payment_refund_handler_def in_workspace_def)
  qed (auto simp: only_touches_def audit_refund_def service_operations provider_operation_kept [OF assms(1,2)]
      split: option.splits if_splits)
qed (use assms(3) in \<open>auto simp: payment_refund_handler_def in_workspace_def\<close>)

lemma ticket_create_touches:
  assumes "ticket_create_handler env ctx i s = (s', r)"
  shows "only_touches (xc_workspace ctx) s s'"
  using assms
  by (auto simp: ticket_create_handler_def in_workspace_def Let_def only_touches_def
      split: if_splits option.splits prod.splits sum.splits dest!: create_ticket_desk)

lemma ticket_update_touches:
  assumes "ticket_update_handler env ctx i s = (s', r)"
  shows "only_touches (xc_workspace ctx) s s'"
proof -
  have same: "only_touches (xc_workspace ctx) s (s\<lparr>bz_desk := d\<rparr>)"
    if "ticket_get_by_id_for_workspace (xc_workspace ctx) key (bz_desk s) = Some (k, t)"
      "apply_agent_ticket_update now (xc_workspace ctx) k t actor priority status note_text (bz_desk s) = (d, q)"
    for key k t d q now actor priority status note_text
    using agent_update_desk [OF that(2)] that(1)
    by (auto simp: ticket_get_by_id_for_workspace_def only_touches_def split: bind_splits if_splits)
  from assms same show ?thesis
    by (auto simp: ticket_update_handler_def in_workspace_def Let_def
        split: if_splits option.splits prod.splits sum.splits desk_exc.splits)
qed

lemma notification_send_touches:
  assumes other: "bv_other env = (\<lambda>x. x)" and "notification_send_handler env ctx i s = (s', r)"
  shows "only_touches (xc_workspace ctx) s s'"
proof -
  have same: "only_touches (xc_workspace ctx) s (s\<lparr>bz_outbox := x\<rparr>)"
    if "find_customer env ctx key s = Some (k, c)" "cu_email c = Some recipient"
      "create_or_reuse_notification_delivery show_id (\<lambda>x. x) dflt now ex (xc_workspace ctx) recipient subject body
         (bz_outbox s) = (x, q)"
    for key k c x q show_id dflt now ex subject body recipient
    using queued_notification [OF that(3)] found_customer [OF that(1)] that(2)
    unfolding only_touches_def by simp blast
  from assms(2) same show ?thesis
    by (auto simp: notification_send_handler_def in_workspace_def other split: if_splits option.splits prod.splits
        sum.splits list.splits)
qed

lemma reporting_handlers_touch:
  assumes "distinct (row_ids (ob_connections (bz_outbox s)))" "ce_other (bv_call env) = (\<lambda>t. t)"
  shows "customer_lookup_handler env ctx i1 s = (s', r) \<Longrightarrow> only_touches (xc_workspace ctx) s s'"
    and "order_lookup_handler env ctx i2 s = (s', r) \<Longrightarrow> only_touches (xc_workspace ctx) s s'"
    and "shipment_lookup_handler env ctx i2 s = (s', r) \<Longrightarrow> only_touches (xc_workspace ctx) s s'"
    and "payment_lookup_handler env ctx i2 s = (s', r) \<Longrightarrow> only_touches (xc_workspace ctx) s s'"
    and "calendar_availability_handler env ctx i3 s = (s', r) \<Longrightarrow> only_touches (xc_workspace ctx) s s'"
    and "calendar_booking_handler env ctx i4 s = (s', r) \<Longrightarrow> only_touches (xc_workspace ctx) s s'"
  by (auto simp: customer_lookup_handler_def order_lookup_handler_def shipment_lookup_handler_def
      payment_lookup_handler_def calendar_availability_handler_def calendar_booking_handler_def in_workspace_def
      service_operations split: if_splits option.splits
      dest!: reporting_touches [OF assms])

lemmas handlers_touch = reporting_handlers_touch refund_touches ticket_create_touches ticket_update_touches
  notification_send_touches

text \<open>C36. A business tool works inside the workspace of its execution, whatever the model passes it: no ticket,
  delivery or connection of another workspace is created, changed or removed, customers, conversations, messages
  and handoffs are left alone, a notification it queues is addressed to a customer of this workspace at the
  address on file, the notifications already queued are kept as they are, and a refund is audited in this
  workspace. No other transaction commits during the invocation.\<close>

theorem business_tools_stay_in_their_workspace:
  assumes "distinct (row_ids (ob_connections (bz_outbox s)))"
    and "ce_other (bv_call env) = (\<lambda>t. t)" and "bv_other env = (\<lambda>x. x)"
    and "run_business_tool env ctx key args s = (s', r)"
  shows "only_touches (xc_workspace ctx) s s'"
proof -
  have parsed: "only_touches (xc_workspace ctx) s t"
    if "parsed_by i f s = (t, q)" "\<And>v t q. f v s = (t, q) \<Longrightarrow> only_touches (xc_workspace ctx) s t" for i f t q
    using that by (auto simp: parsed_by_def split: option.splits)
  note handled = handlers_touch(1-6) [OF assms(1,2)] handlers_touch(7) [OF assms(1,2)] handlers_touch(8,9)
    handlers_touch(10) [OF assms(3)]
  from assms(4) show ?thesis
    unfolding run_business_tool_def by (auto split: if_splits elim!: parsed dest: handled)
qed

subsection \<open>Refunds\<close>

definition refund_request_of :: "business_env \<Rightarrow> tool_context \<Rightarrow> refund_input \<Rightarrow> refund_request" where
  "refund_request_of env ctx i = stripe_refund_params (if_payment i) (if_amount i) (if_reason i) (refund_key env ctx)"

lemma refund_operation_cong:
  assumes "\<And>credentials timeout. stripe_refund_payment (bv_stripe env) p n c w key credentials timeout =
      stripe_refund_payment (bv_stripe env') p n c' w key credentials timeout"
    and "bv_call env = bv_call env'"
  shows "refund_payment env ws remaining p n c w key = refund_payment env' ws remaining p n c' w key"
  using assms by (simp add: refund_payment_def)

lemma refund_depends_on_one_answer:
  assumes "\<And>key timeout. sa_refund (bv_stripe env) key timeout (refund_request_of env ctx i) =
      sa_refund api key timeout (refund_request_of env ctx i)"
  shows "payment_refund_handler (env\<lparr>bv_stripe := api\<rparr>) ctx i s = payment_refund_handler env ctx i s"
proof -
  have "stripe_refund_payment api (if_payment i) (if_amount i) (if_currency i) (if_reason i) (refund_key env ctx) c t =
      stripe_refund_payment (bv_stripe env) (if_payment i) (if_amount i) (if_currency i) (if_reason i) (refund_key env ctx) c t"
    for c t using assms by (simp add: stripe_refund_payment_def refund_request_of_def)
  then have "refund_payment (env\<lparr>bv_stripe := api\<rparr>) (xc_workspace ctx) (remaining_seconds env ctx) (if_payment i) (if_amount i)
      (if_currency i) (if_reason i) (refund_key env ctx) = refund_payment env (xc_workspace ctx) (remaining_seconds env ctx)
      (if_payment i) (if_amount i) (if_currency i) (if_reason i) (refund_key env ctx)"
    by (intro refund_operation_cong) simp_all
  moreover have "refund_key (env\<lparr>bv_stripe := api\<rparr>) ctx = refund_key env ctx"
    "remaining_seconds (env\<lparr>bv_stripe := api\<rparr>) ctx = remaining_seconds env ctx"
    "audit_refund (env\<lparr>bv_stripe := api\<rparr>) ctx = audit_refund env ctx"
    by (simp_all add: refund_key_def remaining_seconds_def audit_refund_def fun_eq_iff)
  ultimately show ?thesis by (simp add: payment_refund_handler_def cong: option.case_cong)
qed

text \<open>Every attempt of a refund asks Stripe for one and the same thing: what the handler does depends on Stripe
  only through its answer to the request that the execution and its arguments determine, so neither the time, the
  tables nor the attempt change the idempotency key, and two executions never share one.\<close>

theorem refund_attempts_repeat_one_request:
  assumes "\<And>key timeout. sa_refund (bv_stripe env) key timeout (refund_request_of env ctx i) =
      sa_refund api key timeout (refund_request_of env ctx i)"
    and "inj (bv_show env)"
  shows "payment_refund_handler (env\<lparr>bv_stripe := api\<rparr>) ctx i s = payment_refund_handler env ctx i s \<and>
    (rq_key (refund_request_of env ctx i) = rq_key (refund_request_of env ctx' i')) =
      (xc_execution ctx = xc_execution ctx')"
  using assms(2) refund_depends_on_one_answer [OF assms(1)]
  by (auto simp: refund_request_of_def stripe_refund_params_def refund_key_def inj_eq)

text \<open>C37. The currency the model declares decides the policy but not the refund. The adapter never sends it and
  nothing compares it with the payment's, so the same call moves the same money whatever currency it names, while
  the default policy allows it without approval if that is USD and asks for approval if it is another: a payment
  in any currency is refunded unattended by calling it dollars.\<close>

theorem declared_currency_only_convinces_the_policy:
  assumes "\<And>key timeout q r. sa_refund (bv_stripe env) key timeout q = StripeReturned r \<Longrightarrow> sf_currency r \<noteq> []"
    and "if_amount i \<le> ps_refund_auto_allow_max ps" and "str_upper c \<noteq> ''USD''"
  shows "payment_refund_handler env ctx (i\<lparr>if_currency := ''USD''\<rparr>) s =
      payment_refund_handler env ctx (i\<lparr>if_currency := c\<rparr>) s \<and>
    dd_decision (evaluate_system_default ps ''payment.refund'' CRITICAL eff FINANCIAL
      (refund_arguments (i\<lparr>if_currency := ''USD''\<rparr>))) = ALLOW \<and>
    dd_decision (evaluate_system_default ps ''payment.refund'' CRITICAL eff FINANCIAL
      (refund_arguments (i\<lparr>if_currency := c\<rparr>))) = REQUIRE_APPROVAL"
proof -
  have answer: "stripe_refund_payment (bv_stripe env) p n c1 w key credentials timeout =
      stripe_refund_payment (bv_stripe env) p n c2 w key credentials timeout" for p n c1 c2 w key credentials timeout
    by (auto simp: stripe_refund_payment_def dest: assms(1) split: stripe_answer.splits)
  have "payment_refund_handler env ctx (i\<lparr>if_currency := c1\<rparr>) s = payment_refund_handler env ctx (i\<lparr>if_currency := c2\<rparr>) s"
    for c1 c2
    using refund_operation_cong [of env _ _ c1 _ _ env c2, OF answer refl] by (simp add: payment_refund_handler_def)
  moreover have "str_upper ''USD'' = ''USD''" by (simp add: str_upper_def upper_char_def)
  ultimately show ?thesis using assms(2,3)
    by (simp add: evaluate_system_default_def refund_default_def refund_arguments_def dict_get_def mk_default_def)
qed

subsection \<open>Bookings\<close>

text \<open>The call ended without an answer about the event: the connection broke, the client library failed, or the
  body carries no event identifier. An HTTP error status is an answer; what becomes of one is the subject of
  \<open>booking_is_repeated_after_a_server_error\<close>.\<close>

fun left_open :: "google_answer \<Rightarrow> bool" where
  "left_open (GoogleReturned v) \<longleftrightarrow> json_index v ''id'' = None"
| "left_open (GoogleHttp status) \<longleftrightarrow> False"
| "left_open GoogleNetwork \<longleftrightarrow> True"
| "left_open GoogleCrashed \<longleftrightarrow> True"

text \<open>A call that leaves the provider's state as the adapter decides: it refuses for a reason of its own, whatever
  the vendor, or it asks.\<close>

lemma booking_asks_or_not:
  assumes "\<And>info t q. left_open (api info t q)"
  shows "(\<forall>api'. google_create_booking fmt api' a b title att key cred conf timeout =
      google_create_booking fmt api a b title att key cred conf timeout) \<or>
    google_create_booking fmt api a b title att key cred conf timeout
      \<in> {refuse IntegrationTimeout, refuse IntegrationMalformedResponse}"
proof -
  have "google_create_booking fmt api a b title att key cred conf timeout
      \<in> {refuse IntegrationTimeout, refuse IntegrationMalformedResponse}"
    if "rfc3339 fmt a = Inr t0" "rfc3339 fmt b = Inr t1" "py_truthy (json_get cred ''service_account_info'' JNull)" for t0 t1
    using that assms [of "json_get cred ''service_account_info'' JNull" timeout
        "InsertEvent (calendar_id_of conf) (event_body title t0 t1 att key)"]
    by (auto simp: google_create_booking_def Let_def split: google_answer.splits)
  then show ?thesis
    by (auto simp: google_create_booking_def Let_def split: sum.splits)
qed

text \<open>A service calls the adapter at most once, with the credentials it decrypted.\<close>

lemma provider_operation_one_call:
  obtains cred conf timeout where
    "\<And>call'. call' cred conf timeout = call cred conf timeout \<Longrightarrow>
      provider_operation env ws remaining provider call' t = provider_operation env ws remaining provider call t"
    "\<And>e. call cred conf timeout = Refused e \<Longrightarrow>
      (\<forall>call'. provider_operation env ws remaining provider call' t = provider_operation env ws remaining provider call t) \<or>
      snd (provider_operation env ws remaining provider call t) = Inl (Normalized e)"
proof (cases "require_usable_connection ws provider t")
  case (Inl e)
  then show ?thesis by (intro that) (auto simp: provider_operation_def)
next
  case (Inr kc)
  obtain k c where kc: "kc = (k, c)" by (cases kc)
  define opened where "opened = (if credentials_configured c then ce_decrypt env (cn_credentials c) else Some (JObj []))"
  show ?thesis
  proof (cases opened)
    case None
    with Inr kc show ?thesis
      by (intro that) (auto simp: provider_operation_def execute_provider_call_def opened_def Let_def record_health_def)
  next
    case (Some cred)
    show ?thesis
    proof (rule that [of cred "cn_configuration c"
        "effective_provider_timeout (ce_default_timeout env) (ce_max_timeout env) remaining"])
    qed (use Inr kc Some in \<open>auto simp: provider_operation_def execute_provider_call_def opened_def Let_def record_health_def\<close>)
  qed
qed

lemma ambiguous_code_refused:
  assumes "te_status ex = EX_FAILED \<or> te_status ex = EX_TIMED_OUT" "te_error_code ex \<in> set (ts_ambiguous spec)"
  shows "\<exists>e. resolve_existing k ex fp spec g = (g, Inl e)"
  using assms by (auto simp: resolve_existing_def policy_terminal_def)

lemma cut_off_is_final:
  assumes "h n (attempts + 1) args = HTimeout" "attempts \<le> ts_max_retries spec"
  shows "\<exists>g'. run_with_retries rt \<lparr>tl_spec = spec, tl_handler = h\<rparr> n attempts args g = (g', Inl ToolTimeoutError) \<and>
    g_calls g' = g_calls g @ [n]"
  using assms
  by (subst run_with_retries.simps) (simp add: invoke_with_timeout_def Let_def set_attempts_def)

text \<open>The handler around the operation of the service.\<close>

definition booking_call ::
  "business_env \<Rightarrow> tool_context \<Rightarrow> booking_input \<Rightarrow> string option \<Rightarrow> json \<Rightarrow> json \<Rightarrow> rat \<Rightarrow> normalized_booking provider_outcome" where
  "booking_call env ctx i attendee = google_create_booking (bv_format env) (bv_google env) (ib_start i) (ib_end i)
     (ib_title i) attendee (booking_key env ctx)"

definition booking_operation ::
  "business_env \<Rightarrow> tool_context \<Rightarrow> booking_input \<Rightarrow> string option \<Rightarrow> office \<Rightarrow>
    connection rows \<times> (call_exc + normalized_booking)" where
  "booking_operation env ctx i attendee s = provider_operation (bv_call env) (xc_workspace ctx) (remaining_seconds env ctx)
     ''google_calendar'' (booking_call env ctx i attendee) (ob_connections (bz_outbox s))"

definition booking_answer ::
  "business_env \<Rightarrow> office \<Rightarrow> connection rows \<times> (call_exc + normalized_booking) \<Rightarrow> office \<times> handler_outcome" where
  "booking_answer env s tr =
    (let s1 = s\<lparr>bz_outbox := bz_outbox s\<lparr>ob_connections := fst tr\<rparr>\<rparr>
     in case snd tr of
          Inr v \<Rightarrow> (s1, validated_model (is_jstr (nb_external_id v))
            [(''booking_id'', JStr (nb_id v)), (''external_event_id'', nb_external_id v),
             (''start'', bv_moment env (nb_start v)), (''end'', bv_moment env (nb_end v)),
             (''status'', JStr (nb_status v))])
        | Inl (Normalized e) \<Rightarrow> (s1, integration_tool_error e)
        | Inl e \<Rightarrow> (s1, HCrash))"

definition booking_ready :: "business_env \<Rightarrow> tool_context \<Rightarrow> booking_input \<Rightarrow> office \<Rightarrow> string option \<Rightarrow> bool" where
  "booking_ready env ctx i s attendee \<longleftrightarrow> xc_workspace ctx \<in> set (bz_workspaces s) \<and>
     within_scheduling_horizon env (ib_start i) \<and> length (ib_title i) \<le> bv_max_title env \<and>
     map_option (\<lambda>(k, c). cu_email c) (find_customer env ctx (ib_customer i) s) = Some attendee"

lemma booking_handler_ready:
  "booking_ready env ctx i s attendee \<Longrightarrow>
    calendar_booking_handler env ctx i s = booking_answer env s (booking_operation env ctx i attendee s)"
  by (auto simp: booking_ready_def calendar_booking_handler_def in_workspace_def bridged_def booking_answer_def
      booking_operation_def booking_call_def [abs_def] create_booking_def case_prod_beta Let_def)

lemma horizon_env [simp]: "within_scheduling_horizon (env\<lparr>bv_google := api\<rparr>) m = within_scheduling_horizon env m"
  by (cases m) simp_all

lemma find_customer_env [simp]: "find_customer (env\<lparr>bv_google := api\<rparr>) ctx key s = find_customer env ctx key s"
  by (simp add: find_customer_def)

lemma find_customer_outbox [simp]: "find_customer env ctx key (s\<lparr>bz_outbox := x\<rparr>) = find_customer env ctx key s"
  by (simp add: find_customer_def cong: option.case_cong)

lemma booking_ready_env [simp]:
  "booking_ready (env\<lparr>bv_google := api\<rparr>) ctx i s attendee = booking_ready env ctx i s attendee"
  by (simp add: booking_ready_def)

lemma booking_answer_env [simp]: "booking_answer (env\<lparr>bv_google := api\<rparr>) s tr = booking_answer env s tr"
  by (cases "snd tr") (auto simp: booking_answer_def Let_def split: call_exc.splits)

lemma booking_handler_not_ready:
  assumes "\<nexists>attendee. booking_ready env ctx i s attendee"
  shows "calendar_booking_handler (env\<lparr>bv_google := api\<rparr>) ctx i s = calendar_booking_handler env ctx i s"
  using assms
  by (auto simp: booking_ready_def calendar_booking_handler_def in_workspace_def split: option.splits)

lemma booking_operation_asks_or_not:
  assumes "\<And>info timeout q. left_open (bv_google env info timeout q)"
  shows "(\<forall>api. booking_operation (env\<lparr>bv_google := api\<rparr>) ctx i attendee s = booking_operation env ctx i attendee s) \<or>
    (\<exists>c. c \<in> {IntegrationTimeout, IntegrationMalformedResponse} \<and>
      snd (booking_operation env ctx i attendee s) = Inl (Normalized (IntegrationError c None)))"
proof -
  let ?ops = "\<lambda>call :: json \<Rightarrow> json \<Rightarrow> rat \<Rightarrow> normalized_booking provider_outcome.
    provider_operation (bv_call env) (xc_workspace ctx) (remaining_seconds env ctx) ''google_calendar'' call
      (ob_connections (bz_outbox s))"
  obtain cred conf timeout where one:
    "\<And>call'. call' cred conf timeout = booking_call env ctx i attendee cred conf timeout \<Longrightarrow>
      ?ops call' = ?ops (booking_call env ctx i attendee)"
    "\<And>e. booking_call env ctx i attendee cred conf timeout = Refused e \<Longrightarrow>
      (\<forall>call'. ?ops call' = ?ops (booking_call env ctx i attendee)) \<or>
      snd (?ops (booking_call env ctx i attendee)) = Inl (Normalized e)"
    by (rule provider_operation_one_call [of "booking_call env ctx i attendee"]) blast
  consider (never) "\<And>api. booking_call (env\<lparr>bv_google := api\<rparr>) ctx i attendee cred conf timeout =
        booking_call env ctx i attendee cred conf timeout"
    | (asked) c where "c \<in> {IntegrationTimeout, IntegrationMalformedResponse}"
        "booking_call env ctx i attendee cred conf timeout = Refused (IntegrationError c None)"
    using booking_asks_or_not [of "bv_google env" "bv_format env" "ib_start i" "ib_end i" "ib_title i" attendee
        "booking_key env ctx" cred conf timeout, OF assms]
    by (auto simp: booking_call_def booking_key_def refuse_def)
  then show ?thesis
  proof cases
    case never
    then show ?thesis using one(1) [of "booking_call (env\<lparr>bv_google := _\<rparr>) ctx i attendee", OF never] by (simp add: booking_operation_def remaining_seconds_def)
  next
    case asked
    then show ?thesis using one(2) [OF asked(2)] by (auto simp: booking_operation_def remaining_seconds_def)
  qed
qed

lemma booking_left_open:
  assumes unknown: "\<And>info timeout q. left_open (bv_google env info timeout q)"
    and run: "calendar_booking_handler env ctx i s = (s', r)"
  shows "(\<forall>api. calendar_booking_handler (env\<lparr>bv_google := api\<rparr>) ctx i s = (s', r)) \<or>
    (\<exists>code msg. r = HToolError (ToolExc code msg) \<and> code \<notin> set (ts_retryable (bt_spec (calendar_booking_tool env))) \<and>
      (\<forall>k ex fp g. (te_status ex = EX_FAILED \<or> te_status ex = EX_TIMED_OUT) \<and> te_error_code ex = code \<longrightarrow>
        (\<exists>e. resolve_existing k ex fp (bt_spec (calendar_booking_tool env)) g = (g, Inl e))))"
proof (cases "\<exists>attendee. booking_ready env ctx i s attendee")
  case False
  then show ?thesis using run booking_handler_not_ready by metis
next
  case True
  then obtain attendee where ready: "booking_ready env ctx i s attendee" ..
  have "\<forall>code \<in> {integration_code IntegrationTimeout, integration_code IntegrationMalformedResponse}.
      code \<notin> set (ts_retryable (bt_spec (calendar_booking_tool env))) \<and>
      code \<in> set (ts_ambiguous (bt_spec (calendar_booking_tool env)))"
    by (simp add: calendar_booking_tool_def business_tool_of_def write_retryable_codes_def
        calendar_ambiguous_outcome_codes_def)
  then have blocked: "code \<notin> set (ts_retryable (bt_spec (calendar_booking_tool env)))"
    "code \<in> set (ts_ambiguous (bt_spec (calendar_booking_tool env)))"
    if "code \<in> {integration_code IntegrationTimeout, integration_code IntegrationMalformedResponse}" for code
    using that by blast+
  from booking_operation_asks_or_not [OF unknown, of ctx i attendee s] show ?thesis
  proof (elim disjE exE conjE)
    assume "\<forall>api. booking_operation (env\<lparr>bv_google := api\<rparr>) ctx i attendee s = booking_operation env ctx i attendee s"
    then show ?thesis using run ready by (simp add: booking_handler_ready)
  next
    fix c assume c: "c \<in> {IntegrationTimeout, IntegrationMalformedResponse}"
      and e: "snd (booking_operation env ctx i attendee s) = Inl (Normalized (IntegrationError c None))"
    then have "r = HToolError (ToolExc (integration_code c) (error_message (IntegrationError c None)))"
      using run ready
      by (auto simp: booking_handler_ready booking_answer_def Let_def integration_tool_error_def error_code_def)
    with blocked [of "integration_code c"] c ambiguous_code_refused show ?thesis by fastforce
  qed
qed

lemma cut_off_refused:
  "te_status ex = EX_TIMED_OUT \<Longrightarrow> te_error_code ex = ''tool_timeout'' \<Longrightarrow>
    \<exists>e. resolve_existing k ex fp (bt_spec (calendar_booking_tool env)) g = (g, Inl e)"
  by (rule ambiguous_code_refused)
     (simp_all add: calendar_booking_tool_def business_tool_of_def calendar_ambiguous_outcome_codes_def)

text \<open>C38. A booking the calendar gave no answer about is never repeated. When every call of the calendar ends
  without an HTTP status and without an event identifier (the connection broke, the client library failed, the
  body is not an event), then either nothing was sent, so that every calendar gives this result, or the error
  is one that the tool service neither retries on its own nor lets a later call under the same key reset, and
  that call leaves the tables as they are. The same holds when the service cuts the handler off at its time
  limit: the handler is not invoked again, and the row it leaves timed out refuses a later call.\<close>

theorem booking_without_an_answer_is_never_repeated:
  assumes unknown: "\<And>info timeout q. left_open (bv_google env info timeout q)"
    and run: "calendar_booking_handler env ctx i s = (s', r)"
  shows "((\<forall>api. calendar_booking_handler (env\<lparr>bv_google := api\<rparr>) ctx i s = (s', r)) \<or>
    (\<exists>code msg. r = HToolError (ToolExc code msg) \<and> code \<notin> set (ts_retryable (bt_spec (calendar_booking_tool env))) \<and>
      (\<forall>k ex fp g. (te_status ex = EX_FAILED \<or> te_status ex = EX_TIMED_OUT) \<and> te_error_code ex = code \<longrightarrow>
        (\<exists>e. resolve_existing k ex fp (bt_spec (calendar_booking_tool env)) g = (g, Inl e))))) \<and>
    (\<forall>h rt n attempts args g. h n (attempts + 1) args = HTimeout \<and>
      attempts \<le> ts_max_retries (bt_spec (calendar_booking_tool env)) \<longrightarrow>
      (\<exists>g'. run_with_retries rt \<lparr>tl_spec = bt_spec (calendar_booking_tool env), tl_handler = h\<rparr> n attempts args g =
        (g', Inl ToolTimeoutError) \<and> g_calls g' = g_calls g @ [n])) \<and>
    (\<forall>k ex fp g. te_status ex = EX_TIMED_OUT \<and> te_error_code ex = ''tool_timeout'' \<longrightarrow>
      (\<exists>e. resolve_existing k ex fp (bt_spec (calendar_booking_tool env)) g = (g, Inl e)))"
  using booking_left_open [OF assms] cut_off_refused by (intro conjI allI impI) (auto intro: cut_off_is_final)

lemma provider_operation_reached:
  assumes "require_usable_connection ws provider t = Inr (k, c)"
    and "ce_decrypt env (cn_credentials c) = Some cred" "cn_credentials c \<noteq> []"
  shows "provider_operation env ws remaining provider call t =
    (let timeout = effective_provider_timeout (ce_default_timeout env) (ce_max_timeout env) remaining in
     case call cred (cn_configuration c) timeout of
       Provided v \<Rightarrow> (fst (record_health (ce_now env) None k c (ce_other env t)), Inr v)
     | Refused e \<Rightarrow> (fst (record_health (ce_now env) (Some e) k c (ce_other env t)), Inl (Normalized e))
     | Crashed \<Rightarrow> (ce_other env t, Inl AdapterCrash))"
  using assms
  by (auto simp: provider_operation_def execute_provider_call_def credentials_configured_def Let_def
      split: provider_outcome.splits prod.splits)

text \<open>A connection stays usable when its health is recorded.\<close>

lemma usable_after_health:
  assumes "require_usable_connection ws provider t = Inr (k, c)" "cn_status c \<noteq> CN_DISABLED"
  shows "\<exists>c'. require_usable_connection ws provider (fst (record_health now e k c t)) = Inr (k, c') \<and>
    cn_credentials c' = cn_credentials c \<and> cn_configuration c' = cn_configuration c"
proof -
  have w: "rows_where P (update_where (\<lambda>i r. i = k) (apply_health h) t) =
      update_where (\<lambda>i r. i = k) (apply_health h) (rows_where P t)"
    if "\<And>i r. P i (apply_health h r) = P i r" for P h
    using that by (induction t) (auto simp: rows_where_def update_where_def split: if_splits)
  obtain rest where rest: "rows_where (\<lambda>i c. cn_workspace c = ws \<and> cn_provider c = provider) t = (k, c) # rest"
    using assms(1) by (auto simp: require_usable_connection_def resolve_connection_for_tool_def split: list.splits if_splits)
  have "cn_status (apply_health (health_of now e c) c) \<noteq> CN_DISABLED"
    using assms(2) by (auto simp: apply_health_def health_of_def split: option.splits)
  moreover have "rows_where (\<lambda>i c. cn_workspace c = ws \<and> cn_provider c = provider)
      (update_where (\<lambda>i r. i = k) (apply_health (health_of now e c)) t) =
    (k, apply_health (health_of now e c) c) # update_where (\<lambda>i r. i = k) (apply_health (health_of now e c)) rest"
    by (subst w) (simp_all add: apply_health_def rest update_where_def)
  ultimately show ?thesis
    using assms(1) rest
    by (auto simp: require_usable_connection_def resolve_connection_for_tool_def record_health_def Let_def
        credentials_configured_def apply_health_def split: if_splits)
qed

lemma asked_booking:
  assumes "require_usable_connection (xc_workspace ctx) ''google_calendar'' (ob_connections (bz_outbox s)) = Inr (k, c)"
    and "ce_decrypt (bv_call env) (cn_credentials c) = Some cred" "cn_credentials c \<noteq> []"
    and "py_truthy (json_get cred ''service_account_info'' JNull)"
    and "ib_start i = Aware t0" "ib_end i = Aware t1" and "ce_other (bv_call env) = (\<lambda>t. t)"
  shows "status \<ge> 500 \<Longrightarrow>
      booking_operation (env\<lparr>bv_google := (\<lambda>info tm r. GoogleHttp status)\<rparr>) ctx i attendee s =
        (fst (record_health (ce_now (bv_call env)) (Some (IntegrationError IntegrationTemporarilyUnavailable None)) k c
           (ob_connections (bz_outbox s))), Inl (Normalized (IntegrationError IntegrationTemporarilyUnavailable None)))"
    and "json_index event ''id'' = Some (JStr e) \<Longrightarrow>
      \<exists>t v. booking_operation (env\<lparr>bv_google := (\<lambda>info tm r. GoogleReturned event)\<rparr>) ctx i attendee s = (t, Inr v) \<and>
        is_jstr (nb_external_id v)"
  using assms(4-7)
  by (auto simp: provider_operation_reached [OF assms(1-3)] booking_operation_def booking_call_def google_create_booking_def rfc3339_def Let_def
      google_map_error_def refuse_def is_jstr_def)

lemma booking_spec_retries_outage:
  "error_code (IntegrationError IntegrationTemporarilyUnavailable None)
    \<in> set (ts_retryable (bt_spec (calendar_booking_tool env)))"
  "error_code (IntegrationError IntegrationTemporarilyUnavailable None)
    \<notin> set (ts_ambiguous (bt_spec (calendar_booking_tool env)))"
  "ts_max_retries (bt_spec (calendar_booking_tool env)) = 2"
  by (simp_all add: calendar_booking_tool_def business_tool_of_def write_retryable_codes_def error_code_def
      calendar_ambiguous_outcome_codes_def)

lemma outage_is_retried:
  assumes "h n 1 args = HToolError (ToolExc code msg)" "code \<in> set (ts_retryable spec)" "0 < ts_max_retries spec"
  shows "\<exists>g'. run_with_retries rt \<lparr>tl_spec = spec, tl_handler = h\<rparr> n 0 args g =
    run_with_retries rt \<lparr>tl_spec = spec, tl_handler = h\<rparr> n 1 args g'"
  using assms
  by (subst run_with_retries.simps) (auto simp: invoke_with_timeout_def Let_def)

text \<open>C39. A server error of the calendar is taken for a booking that was not made. Whatever the calendar did before it
  answered with a status of 500 or more, the tool ends with an error that its own specification retries and does
  not call ambiguous, and the retry on the tables this leaves inserts the event a second time: under a calendar
  that had stored the first one the customer is booked twice by one call of the tool.\<close>

theorem booking_is_repeated_after_a_server_error:
  assumes ready: "booking_ready env ctx i s attendee"
    and conn: "require_usable_connection (xc_workspace ctx) ''google_calendar'' (ob_connections (bz_outbox s)) = Inr (k, c)"
    and cred: "ce_decrypt (bv_call env) (cn_credentials c) = Some cred" "cn_credentials c \<noteq> []"
      "py_truthy (json_get cred ''service_account_info'' JNull)"
    and aware: "ib_start i = Aware t0" "ib_end i = Aware t1"
    and quiet: "ce_other (bv_call env) = (\<lambda>t. t)"
    and status: "status \<ge> 500" and stored: "json_index event ''id'' = Some (JStr e)"
  shows "\<exists>s1 code msg s2 out.
    calendar_booking_handler (env\<lparr>bv_google := (\<lambda>info tm r. GoogleHttp status)\<rparr>) ctx i s = (s1, HToolError (ToolExc code msg)) \<and>
    code \<in> set (ts_retryable (bt_spec (calendar_booking_tool env))) \<and>
    code \<notin> set (ts_ambiguous (bt_spec (calendar_booking_tool env))) \<and>
    calendar_booking_handler (env\<lparr>bv_google := (\<lambda>info tm r. GoogleReturned event)\<rparr>) ctx i s1 = (s2, HModel out) \<and>
    (\<forall>h rt n args g. h n 1 args = HToolError (ToolExc code msg) \<longrightarrow>
      (\<exists>g'. run_with_retries rt \<lparr>tl_spec = bt_spec (calendar_booking_tool env), tl_handler = h\<rparr> n 0 args g =
        run_with_retries rt \<lparr>tl_spec = bt_spec (calendar_booking_tool env), tl_handler = h\<rparr> n 1 args g'))"
proof -
  let ?e = "IntegrationError IntegrationTemporarilyUnavailable None" and ?t = "ob_connections (bz_outbox s)"
  let ?down = "env\<lparr>bv_google := (\<lambda>info tm r. GoogleHttp status)\<rparr>"
    and ?up = "env\<lparr>bv_google := (\<lambda>info tm r. GoogleReturned event)\<rparr>"
  define s1 where "s1 = s\<lparr>bz_outbox := bz_outbox s\<lparr>ob_connections :=
    fst (record_health (ce_now (bv_call env)) (Some ?e) k c ?t)\<rparr>\<rparr>"
  have "cn_status c \<noteq> CN_DISABLED"
    using conn by (auto simp: require_usable_connection_def split: option.splits if_splits)
  then obtain c' where c': "require_usable_connection (xc_workspace ctx) ''google_calendar''
      (ob_connections (bz_outbox s1)) = Inr (k, c')" "cn_credentials c' = cn_credentials c"
    using usable_after_health [OF conn] by (auto simp: s1_def)
  note cred1 = cred(1,2) [folded c'(2)]
  have ready1: "booking_ready env ctx i s1 attendee"
    using ready by (simp add: booking_ready_def s1_def)
  have first: "calendar_booking_handler ?down ctx i s = (s1, HToolError (ToolExc (error_code ?e) (error_message ?e)))"
    using asked_booking(1) [OF conn cred aware quiet status, of attendee] ready
    by (simp add: booking_handler_ready [of _ _ _ _ attendee] booking_answer_def s1_def integration_tool_error_def)
  obtain t v where v: "booking_operation ?up ctx i attendee s1 = (t, Inr v)" "is_jstr (nb_external_id v)"
    using asked_booking(2) [OF c'(1) cred1 cred(3) aware quiet stored] by blast
  then obtain s2 out where second: "calendar_booking_handler ?up ctx i s1 = (s2, HModel out)"
    using ready1 by (simp add: booking_handler_ready [of _ _ _ _ attendee] booking_answer_def validated_model_def)
  have retried: "\<exists>g'. run_with_retries rt \<lparr>tl_spec = bt_spec (calendar_booking_tool env), tl_handler = h\<rparr> n 0 args g =
      run_with_retries rt \<lparr>tl_spec = bt_spec (calendar_booking_tool env), tl_handler = h\<rparr> n 1 args g'"
    if "h n 1 args = HToolError (ToolExc (error_code ?e) (error_message ?e))" for h rt n args g
    by (rule outage_is_retried [of h n args, OF that]) (simp_all add: booking_spec_retries_outage)
  with first second booking_spec_retries_outage(1,2) [of env] show ?thesis by blast
qed

subsection \<open>Mail\<close>

text \<open>C40. Mail leaves only for a public address of the configured host. The SMTP adapter opens its one connection to
  the address that the check in the connecting layer approved, an address the resolver gave for that host at that
  moment and that is not blocked, even when the name resolved to something else for the earlier check; when either
  check fails nothing is contacted.\<close>

theorem smtp_connects_only_to_public_addresses:
  assumes "smtp_send env recipient subject body key credentials configuration timeout = (contacted, outcome)"
  shows "case contacted of
      None \<Rightarrow> (\<forall>message_id. outcome \<noteq> Provided message_id)
    | Some ip \<Rightarrow> \<not> is_blocked_address ip \<and>
        (\<exists>host port results r. json_get credentials ''host'' JNull = JStr host \<and>
          sv_resolve env 1 (str_lower (py_strip host)) port = Some results \<and> r \<in> set results \<and>
          sv_parse_ip env (raw_address r) = Some ip)"
proof -
  have public: "\<not> is_blocked_address ip \<and> (\<exists>host results r. json_get credentials ''host'' JNull = JStr host \<and>
      sv_resolve env 1 (str_lower (py_strip host)) port = Some results \<and> r \<in> set results \<and>
      sv_parse_ip env (raw_address r) = Some ip)"
    if v: "smtp_validate env 1 credentials port = Inr ip" for port ip
  proof -
    obtain host where h: "json_get credentials ''host'' JNull = JStr host"
      and ok: "validate_outbound_host (sv_resolve env 1) (sv_parse_ip env) (Some host) port = Inr ip"
      using v by (auto simp: smtp_validate_def validate_outbound_host_def split: json.splits sum.splits)
    obtain results addresses where r: "sv_resolve env 1 (str_lower (py_strip host)) port = Some results" "results \<noteq> []"
      "map (\<lambda>r. sv_parse_ip env (raw_address r)) results = map Some addresses" "ip = hd addresses"
      using ok by (auto simp: validate_outbound_host_def Let_def all_some_map split: option.splits if_splits)
    then have "sv_parse_ip env (raw_address (hd results)) = Some ip"
      by (cases results; cases addresses) auto
    with h r(1,2) validated_host_is_public [OF ok] show ?thesis using hd_in_set by blast
  qed
  show ?thesis
  proof (cases contacted)
    case None
    with assms show ?thesis
      by (auto simp: smtp_send_def smtp_session_def refuse_with_def Let_def
          split: json.splits if_splits option.splits sum.splits)
  next
    case (Some ip)
    with assms obtain port where "smtp_validate env 1 credentials port = Inr ip"
      by (auto simp: smtp_send_def smtp_session_def Let_def split: json.splits if_splits option.splits sum.splits)
    from public [OF this] show ?thesis unfolding Some option.case by blast
  qed
qed

subsection \<open>A concrete office\<close>

text \<open>Workspace 1 with one customer, a Stripe and a calendar connection; a payment made in pounds.\<close>

definition desk_connection :: "string \<Rightarrow> connection" where
  "desk_connection provider = \<lparr>cn_workspace = 1, cn_provider = provider, cn_display_name = [], cn_status = CN_ACTIVE,
     cn_environment = ''test'', cn_credentials = ''t'', cn_version = 1, cn_configuration = JObj [], cn_checked_at = None,
     cn_success_at = None, cn_error = [], cn_created_by = None\<rparr>"

definition desk_customer :: customer where
  "desk_customer = \<lparr>cu_workspace = 1, cu_external_id = None, cu_first_name = [], cu_last_name = [], cu_display_name = ''A'',
     cu_email = Some ''a'', cu_phone = None, cu_company = [], cu_notes = [], cu_metadata = JObj [], cu_is_active = True,
     cu_created_at = 0\<rparr>"

definition example_office :: office where
  "example_office = \<lparr>bz_workspaces = [1], bz_users = [], bz_executions = [8],
     bz_crm = \<lparr>crm_customers = [(5, desk_customer)], crm_effects = []\<rparr>,
     bz_desk = \<lparr>dk_conversations = [], dk_messages = [], dk_tickets = [], dk_handoffs = [], dk_effects = []\<rparr>,
     bz_outbox = empty_outbox\<lparr>ob_connections := [(3, desk_connection ''google_calendar''), (4, desk_connection ''stripe'')]\<rparr>,
     bz_audits = []\<rparr>"

definition example_context :: tool_context where
  "example_context = \<lparr>xc_workspace = 1, xc_execution = 8, xc_correlation = None, xc_deadline = 0, xc_run = None,
     xc_actor = None\<rparr>"

definition pounds_api :: stripe_api where
  "pounds_api = \<lparr>sa_balance = (\<lambda>k t. StripeReturned ()), sa_retrieve = (\<lambda>k t r. StripeCrashed),
     sa_refund = (\<lambda>k t q. StripeReturned \<lparr>sf_id = ''re'', sf_intent = rq_intent q, sf_status = None,
       sf_amount = rq_amount q, sf_currency = ''gbp'', sf_created = 0\<rparr>)\<rparr>"

definition example_business :: business_env where
  "example_business = \<lparr>bv_now = 0,
     bv_call = \<lparr>ce_decrypt = (\<lambda>t. Some (JObj [(''service_account_info'', JObj [(''a'', JNull)])])), ce_other = (\<lambda>t. t),
       ce_now = 0, ce_default_timeout = 5, ce_max_timeout = 10\<rparr>,
     bv_other = (\<lambda>x. x), bv_stripe = pounds_api, bv_google = (\<lambda>info t q. GoogleNetwork),
     bv_catalog = \<lparr>ca_from_iso = (\<lambda>s. None), ca_int = (\<lambda>v. None), ca_str = (\<lambda>v. [])\<rparr>,
     bv_format = \<lparr>pf_iso = (\<lambda>t. ''t''), pf_str = (\<lambda>v. ''e'')\<rparr>, bv_id = (\<lambda>s. Some 5), bv_show = (\<lambda>n. replicate n (CHR ''i'')),
     bv_int = (\<lambda>v. case v of JInt n \<Rightarrow> Some n | _ \<Rightarrow> None), bv_datetime = (\<lambda>v. None), bv_moment = (\<lambda>m. JNull),
     bv_email_ok = (\<lambda>s. True), bv_max_horizon_days = 90, bv_max_title = 200, bv_max_subject = 200, bv_max_body = 5000,
     bv_max_attempts = 5\<rparr>"

definition example_refund :: refund_input where
  "example_refund = \<lparr>if_payment = ''pi'', if_amount = 4000, if_currency = ''USD'', if_reason = ''duplicate''\<rparr>"

definition example_booking :: booking_input where
  "example_booking = \<lparr>ib_start = Aware 10, ib_end = Aware 20, ib_title = ''Call'', ib_customer = ''c''\<rparr>"

lemmas example_office_defs = example_office_def example_context_def example_business_def desk_connection_def
  desk_customer_def empty_outbox_def

lemma example_booking_ready: "booking_ready example_business example_context example_booking example_office (Some ''a'')"
  by (simp add: booking_ready_def example_office_defs example_booking_def find_customer_def
      customer_get_by_id_for_workspace_def microseconds_per_day_def)

lemma example_calendar:
  "require_usable_connection (xc_workspace example_context) ''google_calendar''
     (ob_connections (bz_outbox example_office)) = Inr (3, desk_connection ''google_calendar'')"
  by (simp add: require_usable_connection_def resolve_connection_for_tool_def rows_where_def example_office_defs
      credentials_configured_def)

theorem business_tools_stay_in_their_workspace_witness:
  "only_touches 1 example_office (fst (run_business_tool example_business example_context ''payment.refund''
     (refund_arguments example_refund) example_office))"
  using business_tools_stay_in_their_workspace [of example_office example_business example_context "''payment.refund''"
      "refund_arguments example_refund"]
  by (simp add: example_office_defs row_ids_def prod_eq_iff)

theorem refund_attempts_repeat_one_request_witness:
  "payment_refund_handler (example_business\<lparr>bv_stripe := pounds_api\<lparr>sa_retrieve := (\<lambda>k t r. StripeRaised StripeApi)\<rparr>\<rparr>)
      example_context example_refund example_office =
    payment_refund_handler example_business example_context example_refund example_office"
  by (rule refund_attempts_repeat_one_request [THEN conjunct1])
     (simp_all add: example_business_def pounds_api_def inj_def)

theorem declared_currency_only_convinces_the_policy_witness:
  "payment_refund_handler example_business example_context (example_refund\<lparr>if_currency := ''USD''\<rparr>) example_office =
     payment_refund_handler example_business example_context (example_refund\<lparr>if_currency := ''GBP''\<rparr>) example_office"
  using declared_currency_only_convinces_the_policy [of example_business example_refund default_policy_settings "''GBP''"]
  by (simp add: example_business_def pounds_api_def example_refund_def default_policy_settings_def str_upper_def
      upper_char_def)

lemma example_credentials:
  "ce_decrypt (bv_call example_business) (cn_credentials (desk_connection p)) =
     Some (JObj [(''service_account_info'', JObj [(''a'', JNull)])])"
  "cn_credentials (desk_connection p) \<noteq> []"
  "py_truthy (json_get (JObj [(''service_account_info'', JObj [(''a'', JNull)])]) ''service_account_info'' JNull)"
  by (simp_all add: example_business_def desk_connection_def)

lemma example_booking_times: "ib_start example_booking = Aware 10" "ib_end example_booking = Aware 20"
  "ce_other (bv_call example_business) = (\<lambda>t. t)"
  by (simp_all add: example_booking_def example_business_def)

lemmas example_asked = asked_booking [OF example_calendar example_credentials example_booking_times]

theorem booking_without_an_answer_is_never_repeated_witness:
  "\<exists>code msg. snd (calendar_booking_handler example_business example_context example_booking example_office) =
     HToolError (ToolExc code msg) \<and> code \<notin> set (ts_retryable (bt_spec (calendar_booking_tool example_business)))"
proof -
  let ?run = "\<lambda>env. calendar_booking_handler env example_context example_booking example_office"
  let ?up = "example_business\<lparr>bv_google := (\<lambda>info t q. GoogleReturned (JObj [(''id'', JStr ''e'')]))\<rparr>"
  let ?down = "example_business\<lparr>bv_google := (\<lambda>info t q. GoogleHttp 503)\<rparr>"
  obtain t v where v: "booking_operation ?up example_context example_booking (Some ''a'') example_office = (t, Inr v)"
      "is_jstr (nb_external_id v)"
    using example_asked(2) [of "JObj [(''id'', JStr ''e'')]" "''e''" "Some ''a''"] by auto
  have "?run ?up \<noteq> ?run ?down"
    using v example_asked(1) [of 503 "Some ''a''"]
    by (simp add: booking_handler_ready [of _ _ _ _ "Some ''a''"] example_booking_ready booking_answer_def
        validated_model_def integration_tool_error_def)
  then have "\<not> (\<forall>api. ?run (example_business\<lparr>bv_google := api\<rparr>) = ?run example_business)" by metis
  then show ?thesis
    using booking_without_an_answer_is_never_repeated [of example_business example_context example_booking example_office
        "fst (?run example_business)" "snd (?run example_business)"]
    by (auto simp: example_business_def)
qed

theorem booking_is_repeated_after_a_server_error_witness:
  "\<exists>s1 code msg. calendar_booking_handler (example_business\<lparr>bv_google := (\<lambda>info tm r. GoogleHttp 503)\<rparr>) example_context
     example_booking example_office = (s1, HToolError (ToolExc code msg)) \<and>
     code \<in> set (ts_retryable (bt_spec (calendar_booking_tool example_business)))"
  using booking_is_repeated_after_a_server_error [OF example_booking_ready example_calendar example_credentials
      example_booking_times, of 503 "JObj [(''id'', JStr ''e'')]" "''e''"]
  by simp blast

definition example_smtp :: smtp_env where
  "example_smtp = \<lparr>sv_resolve = (\<lambda>n. example_resolver), sv_parse_ip = example_parser, sv_message_id = ''m'',
     sv_int = (\<lambda>v. Some 443), sv_deliver = (\<lambda>ip port c t m. SmtpAccepted)\<rparr>"

lemma example_host: "validate_outbound_host example_resolver example_parser (Some ''Example.org '') 443 = Inr (IPv4 0x08080808)"
proof -
  have "py_strip ''Example.org '' \<noteq> []" by code_simp
  then show ?thesis
    using example_resolution
    by (auto simp: validate_outbound_host_def resolve_and_validate_def Let_def split: option.splits if_splits)
qed

theorem smtp_connects_only_to_public_addresses_witness:
  "\<exists>ip. fst (smtp_send example_smtp ''a'' ''s'' ''b'' ''k''
      (JObj [(''host'', JStr ''Example.org ''), (''username'', JStr ''u'')]) (JObj []) 5) = Some ip \<and> \<not> is_blocked_address ip"
proof -
  let ?run = "smtp_send example_smtp ''a'' ''s'' ''b'' ''k''
      (JObj [(''host'', JStr ''Example.org ''), (''username'', JStr ''u'')]) (JObj []) 5"
  have "fst ?run = Some (IPv4 0x08080808)"
    by (simp add: smtp_send_def smtp_session_def smtp_validate_def example_smtp_def example_host Let_def)
  moreover have "case fst ?run of None \<Rightarrow> (\<forall>message_id. snd ?run \<noteq> Provided message_id)
    | Some ip \<Rightarrow> \<not> is_blocked_address ip \<and>
        (\<exists>host port results r. json_get (JObj [(''host'', JStr ''Example.org ''), (''username'', JStr ''u'')]) ''host'' JNull =
            JStr host \<and> sv_resolve example_smtp 1 (str_lower (py_strip host)) port = Some results \<and> r \<in> set results \<and>
          sv_parse_ip example_smtp (raw_address r) = Some ip)"
    by (rule smtp_connects_only_to_public_addresses [OF prod.collapse [symmetric]])
  ultimately show ?thesis by simp
qed

end
