(* ===== verification/Spec2Isabelle.thy ===== *)
theory Spec2Isabelle
  imports ApprovalProperties PolicyProperties ToolProperties DeskProperties AgentOutcomes WebhookProperties
    KnowledgeProperties EvaluationProperties ChannelProperties OrchestrationProperties WorkspaceProperties
    BusinessProperties
begin

text \<open>
  SupportPilot AI: a verification development for the Django backend under \<open>src/backend\<close>, a multi-tenant
  customer-support system in which an LLM agent answers customers and acts through tools, behind a policy gate and
  human approvals.

  \<^bold>\<open>The program.\<close> A customer writes by web chat, email or a signed webhook. \<open>channel_ingress\<close> authenticates and
  deduplicates the event, finds the customer and the conversation, stores the message and starts an agent run
  (\<open>agents/\<close>). The run builds a bounded context, retrieves documents (\<open>knowledge/\<close>) and enters a turn loop of model
  calls and tool calls. Every tool call goes through \<open>execute_tool\<close> of \<open>tools/execution.py\<close>: it validates the
  arguments, claims a \<open>ToolExecution\<close> row under an idempotency key and runs the policy gate (\<open>policies/\<close>), which
  lets the handler run, blocks the row, or opens an \<open>ApprovalRequest\<close> (\<open>approvals/\<close>) and pauses the run. A
  decision, the expiry sweep or a cancellation resolves the request and dispatches the task that resumes the run.
  Handlers (\<open>integrations/tools.py\<close>) call vendors through \<open>integrations/services.py\<close>, write tickets, or queue
  notifications. A finished run posts its answer, hands the conversation to a human (\<open>tickets/\<close>), or fails; answers,
  notifications and webhooks leave through one outbox (\<open>notifications/\<close>, \<open>webhooks/\<close>). \<open>evaluations/\<close> replays
  scripted cases against the same run service, and \<open>workspaces/\<close> administers the tenants.

  \<^bold>\<open>Theories, by component.\<close>
  \<^item> Shared: \<open>Prelude\<close> (tables as association lists of rows, transactions with rollback, the locales \<open>row_store\<close> and
    \<open>guarded_row\<close> for "lock, compare the status, write"), \<open>PyValue\<close> (Python values: truth, equality, numbers,
    string methods), \<open>Redaction\<close> (\<open>common/redaction.py\<close>), \<open>Platform\<close> (roles, database errors, the effects that
    leave the process: audit rows, tasks, metrics).
  \<^item> Policies: \<open>PolicyEngine\<close> (\<open>risk.py\<close>, \<open>defaults.py\<close>, \<open>predicates.py\<close>), \<open>PolicyEvaluator\<close>, \<open>PolicyServices\<close>
    (administration, with the locale \<open>exclusive_switch\<close>), \<open>PolicyProperties\<close>.
  \<^item> The gate: \<open>GateStore\<close> (the rows of \<open>tools\<close>, \<open>approvals\<close>, \<open>agents\<close> and \<open>policies\<close> as one record \<open>gate\<close>; \<open>g_calls\<close>
    logs handler invocations, \<open>g_effects\<close> the effects, so that "at most once" is a statement about the state),
    \<open>Approvals\<close>, \<open>ApprovalProperties\<close> (\<open>approvals/services.py\<close>), \<open>ToolContracts\<close>, \<open>ToolExec\<close> (\<open>tools/execution.py\<close>),
    \<open>ToolRuns\<close> (arbitrary sequences of its operations), \<open>ToolRepeats\<close> (repeated keys), \<open>ToolExample\<close>,
    \<open>ToolProperties\<close>.
  \<^item> Desk: \<open>Desk\<close> (\<open>conversations/services.py\<close>), \<open>Tickets\<close> (\<open>tickets/services.py\<close>), \<open>DeskProperties\<close>.
  \<^item> Agent runs: \<open>Providers\<close> (\<open>agents/providers/schemas.py\<close>, \<open>tool_runtime.py\<close>), \<open>AgentGraph\<close> (every node of
    \<open>agents/runtime/graph.py\<close> over the callbacks of its context), \<open>AgentGraphProperties\<close>, \<open>AgentRuns\<close> and
    \<open>AgentService\<close> (\<open>agents/services.py\<close>, \<open>failure_classification.py\<close>, \<open>recovery.py\<close>), \<open>AgentFrames\<close>,
    \<open>AgentRunProperties\<close>, \<open>AgentLifecycle\<close> (the services as a step relation on the world), \<open>AgentOutcomes\<close>.
  \<^item> What a run reads: \<open>Orchestration\<close> (\<open>agents/orchestration.py\<close>, \<open>context.py\<close>, \<open>rag.py\<close>, \<open>llm_context.py\<close>,
    \<open>tool_catalog.py\<close>), \<open>MessageOrder\<close> (messages by time and sequence number), \<open>OrchestrationProperties\<close>.
  \<^item> Outbox: \<open>Integrations\<close>, \<open>IntegrationProperties\<close> (connections and the boundary around provider calls),
    \<open>Deliveries\<close>, \<open>Notifications\<close>, \<open>DeliveryInvariants\<close>, \<open>DeliveryProperties\<close> (\<open>notifications/\<close>), \<open>Destinations\<close>,
    \<open>Webhooks\<close>, \<open>WebhookProperties\<close> (\<open>webhooks/\<close>; addresses are machine words).
  \<^item> Knowledge: \<open>Ingestion\<close>, \<open>IngestionLemmas\<close> (normalization, chunking, validation), \<open>Knowledge\<close> (the services),
    \<open>Retrieval\<close>, \<open>KnowledgeProperties\<close>.
  \<^item> Evaluations: \<open>Scoring\<close>, \<open>Evaluations\<close>, \<open>EvaluationProperties\<close>.
  \<^item> Channels: \<open>Customers\<close>, \<open>ChannelIngress\<close> (signatures, adapters, the public webhook), \<open>ChannelProcessing\<close> (events,
    identities, web chat), \<open>ChannelResponses\<close> (replies), \<open>ChannelProperties\<close>.
  \<^item> Tenants: \<open>Workspaces\<close>, \<open>WorkspaceProperties\<close>.
  \<^item> Business tools: \<open>ProviderAdapters\<close> (Stripe, Google Calendar, SMTP, demo catalog), \<open>BusinessTools\<close> (the ten
    handlers of \<open>integrations/tools.py\<close>), \<open>BusinessProperties\<close>.

  \<^bold>\<open>Conventions.\<close> A service is a function from the state to the state and a result \<open>error + value\<close>; a raise after a
  committed transaction returns the changed state, a raise inside \<open>transaction.atomic\<close> the state from before it.
  Transactions that lock their row are atomic steps; where code reads outside the lock or races on a constraint the
  interleaving is explicit: the instance the caller holds is an argument beside the table, what other transactions
  commit in between is a function argument (\<open>other\<close>), and histories are lists of operations or step relations.
  Clocks are functions from the number of the call to the time; times count microseconds. Primary keys are natural
  numbers; where the code orders by something else (the \<open>sequence\<close> of a message), that is a column of its own.
  Python's \<open>int\<close> is unbounded, floats are rationals rounded to double, strings are lists of characters.

  \<^bold>\<open>Parameters.\<close> Records of functions stand for what is not part of the repository: \<open>py_runtime\<close> (\<open>str()\<close> of a value,
  \<open>json.dumps\<close>, SHA-256, date parsing), the pydantic schemas and handlers of a tool, HMAC and Fernet, name resolution
  and sockets, the PDF parser, the cosine distance of pgvector, the model behind a provider, the answers of the vendor
  SDKs, and the Django settings. A property assumes nothing about them unless its statement says so.

  \<^bold>\<open>Loops and bounds.\<close> The turn loop \<open>graph_loop\<close> takes the recursion limit as fuel, as LangGraph does; a measure of
  the work left shows that the limit the code passes is enough. The retry loop \<open>run_with_retries\<close> is total by the
  attempts left, the chunking loop by the text left. Sweeps recurse on the list of the rows they selected.

  \<^bold>\<open>What the properties show.\<close> The gate: no handler without an evaluation, budgets and retries as ceilings over any
  interleaving, at most one resumption, the outcome of a repeated key for every row. Approvals: authority, finality,
  and one resume task per resolution besides those of the recovery sweep. Policies: deny overrides. Runs: ended runs are
  final, an executed run is settled, a completion posts once, a cancellation withdraws everything, the turn loop stays
  within its limits. Desk: one active handoff, reused while active. Deliveries: a refinement of a table of jobs, fencing
  of stale workers, well-formed rows. Webhooks and mail: no contact with blocked addresses. Knowledge: documents, jobs
  and chunks agree, a task settles, a search stays in its tenant. Evaluations: a case passes exactly when no expectation
  is broken, by a criterion independent of the scorer. Channels: authentic, consistent, all-or-nothing events, and polls
  that show the next messages. Tenants: one owner, changes only with authority. Business tools stay in their workspace.
  Some theorems state defects of the code as it is: an action cancelled while it waited runs unapproved, a stale removal
  leaves a workspace without owner, the declared currency of a refund only convinces the policy, a booking is repeated
  after a server error. Lemmas named in the manifest's findings show the others.

  \<^bold>\<open>Not modelled.\<close> The serializers and the authenticated read views (the framework does their work), metrics and
  traces (they never change the state described here), settings, Celery and process entry points, the OpenAI adapter and
  \<open>integrations/crypto.py\<close> (calls into vendor libraries), seed and demo commands, the demo tools and the catalog
  synchronisation of \<open>tools/services.py\<close>, the list filters of the ticket selectors, and the token and cookie functions of
  \<open>accounts/\<close>, which belong to Django and simplejwt.
\<close>

end
